(* ===== verification/Prelude.thy ===== *)
theory Prelude
  imports Main "HOL-Library.Sublist"
begin

section \<open>Prelude: error values, validation chains and loops with a seen-set\<close>

text \<open>
  Shared vocabulary of the development. A Go function that returns \<open>error\<close> is a function into
  \<open>'e option\<close> (\<open>None\<close> is \<open>nil\<close>); a Go function that returns a value and an error is a
  function into \<open>'e + 'a\<close> (\<open>Inl\<close> is the error). The combinators below write a sequence of early
  returns and the loops that keep a set of the keys already seen, and their simp rules say when
  such a sequence returns no error.
\<close>

named_theorems valid_simps \<open>what it means that a validator returns no error\<close>
named_theorems step_defs \<open>definitions of the operations of a state machine\<close>

subsection \<open>Sequences of checks\<close>

text \<open>\<open>if c { return e }\<close>\<close>

definition fail_if :: "bool \<Rightarrow> 'e \<Rightarrow> 'e option" where
  "fail_if c e = (if c then Some e else None)"

text \<open>A sequence of \<open>if err := ...; err != nil { return err }\<close>: the first error is returned.\<close>

fun first_error :: "'e option list \<Rightarrow> 'e option" where
  "first_error [] = None"
| "first_error (None # cs) = first_error cs"
| "first_error (Some e # cs) = Some e"

lemma fail_if_None [simp, valid_simps]: "fail_if c e = None \<longleftrightarrow> \<not> c"
  by (simp add: fail_if_def)

lemma fail_if_Some [simp]: "fail_if c e = Some e' \<longleftrightarrow> c \<and> e' = e"
  by (auto simp: fail_if_def)

lemma first_error_Nil [valid_simps]: "first_error [] = None"
  by simp

lemma first_error_Cons [valid_simps]:
  "first_error (c # cs) = None \<longleftrightarrow> c = None \<and> first_error cs = None"
  by (cases c) auto

lemma first_error_Some:
  "first_error (c # cs) = Some e \<longleftrightarrow> c = Some e \<or> (c = None \<and> first_error cs = Some e)"
  by (cases c) auto

lemma first_error_None_iff: "first_error cs = None \<longleftrightarrow> (\<forall>c\<in>set cs. c = None)"
  by (induction cs) (auto simp: first_error_Cons)

subsection \<open>Results\<close>

text \<open>\<open>check e k\<close> returns the error \<open>e\<close> if there is one and goes on with \<open>k\<close> otherwise.\<close>

definition check :: "'e option \<Rightarrow> 'e + 'a \<Rightarrow> 'e + 'a" where
  "check e k = (case e of Some x \<Rightarrow> Inl x | None \<Rightarrow> k)"

definition and_then :: "'e + 'a \<Rightarrow> ('a \<Rightarrow> 'e + 'b) \<Rightarrow> 'e + 'b" where
  "and_then r f = (case r of Inl e \<Rightarrow> Inl e | Inr a \<Rightarrow> f a)"

text \<open>The error part of a result, as a caller reads it that drops the value.\<close>

definition error_of :: "'e + 'a \<Rightarrow> 'e option" where
  "error_of r = (case r of Inl e \<Rightarrow> Some e | Inr a \<Rightarrow> None)"

lemma check_None [simp]: "check None k = k"
  by (simp add: check_def)

lemma check_Some [simp]: "check (Some e) k = Inl e"
  by (simp add: check_def)

lemma check_Inr [valid_simps]: "check e k = Inr v \<longleftrightarrow> e = None \<and> k = Inr v"
  by (cases e) auto

lemma check_Inl: "check c k = Inl e \<longleftrightarrow> c = Some e \<or> (c = None \<and> k = Inl e)"
  by (cases c) auto

lemma and_then_Inl_iff: "and_then r f = Inl e \<longleftrightarrow> r = Inl e \<or> (\<exists>a. r = Inr a \<and> f a = Inl e)"
  by (cases r) (auto simp: and_then_def)

lemma and_then_Inr [simp]: "and_then (Inr a) f = f a"
  by (simp add: and_then_def)

lemma and_then_Inl [simp]: "and_then (Inl e) f = Inl e"
  by (simp add: and_then_def)

lemma and_then_Inr_iff [valid_simps]:
  "and_then r f = Inr v \<longleftrightarrow> (\<exists>a. r = Inr a \<and> f a = Inr v)"
  by (cases r) auto

lemma error_of_simps [simp]: "error_of (Inl e) = Some e" "error_of (Inr a) = None"
  by (simp_all add: error_of_def)

lemma error_of_None [valid_simps]: "error_of r = None \<longleftrightarrow> (\<exists>a. r = Inr a)"
  by (cases r) auto

subsection \<open>Loops\<close>

text \<open>A loop over a slice that returns the first error of its body; the body sees the index.\<close>

fun each_error :: "(nat \<Rightarrow> 'a \<Rightarrow> 'e option) \<Rightarrow> nat \<Rightarrow> 'a list \<Rightarrow> 'e option" where
  "each_error f i [] = None"
| "each_error f i (x # xs) =
     (case f i x of Some e \<Rightarrow> Some e | None \<Rightarrow> each_error f (Suc i) xs)"

lemma each_error_None [valid_simps]:
  assumes "\<And>i x. f i x = None \<longleftrightarrow> P x"
  shows "each_error f i xs = None \<longleftrightarrow> (\<forall>x\<in>set xs. P x)"
proof (induction xs arbitrary: i)
  case (Cons x xs)
  then show ?case using assms [of i x] by (cases "f i x") auto
qed simp

lemma each_error_None_nth:
  "each_error f i xs = None \<longleftrightarrow> (\<forall>j<length xs. f (i + j) (xs ! j) = None)"
proof (induction xs arbitrary: i)
  case (Cons x xs)
  then show ?case by (cases "f i x") (auto simp: less_Suc_eq_0_disj all_conj_distrib)
qed simp

text \<open>
  A loop that checks each element and then refuses a key it has seen before:
  \<open>chk\<close> is the body's check, \<open>dup\<close> the error for a repeated key, \<open>seen\<close> the keys so far. It
  returns the keys seen at its end, for loops whose seen-set outlives them.
\<close>

fun scan_unique ::
  "('a \<Rightarrow> 'k) \<Rightarrow> (nat \<Rightarrow> 'a \<Rightarrow> 'e option) \<Rightarrow> (nat \<Rightarrow> 'a \<Rightarrow> 'e) \<Rightarrow> nat \<Rightarrow> 'k list \<Rightarrow> 'a list \<Rightarrow> 'e + 'k list"
where
  "scan_unique key chk dup i seen [] = Inr seen"
| "scan_unique key chk dup i seen (x # xs) =
     check (chk i x)
       (if key x \<in> set seen then Inl (dup i x)
        else scan_unique key chk dup (Suc i) (key x # seen) xs)"

lemma scan_unique_Inr:
  assumes "\<And>i x. chk i x = None \<longleftrightarrow> P x"
  shows "scan_unique key chk dup i seen xs = Inr seen' \<longleftrightarrow>
    (\<forall>x\<in>set xs. P x) \<and> distinct (map key xs) \<and> key ` set xs \<inter> set seen = {} \<and>
    seen' = rev (map key xs) @ seen"
proof (induction xs arbitrary: i seen)
  case (Cons x xs)
  then show ?case using assms [of i x] by (cases "chk i x") auto
qed auto

lemma scan_unique_ok:
  assumes "\<And>i x. chk i x = None \<longleftrightarrow> P x"
  shows "error_of (scan_unique key chk dup i [] xs) = None \<longleftrightarrow>
    (\<forall>x\<in>set xs. P x) \<and> distinct (map key xs)"
  by (simp add: error_of_None scan_unique_Inr [where P = P, OF assms])

end
