(* ===== verification/GoStrings.thy ===== *)
theory GoStrings
  imports Prelude
begin

section \<open>Go strings: bytes, trimming, paths and decimal numerals\<close>

text \<open>
  A Go string is a sequence of bytes, here a \<open>string\<close> (a \<open>char list\<close>). The functions of Go's
  \<open>strings\<close> and \<open>path\<close> packages that the program calls are modelled here on bytes.
\<close>

definition byte :: "char \<Rightarrow> nat" where
  "byte c = of_char c"

subsection \<open>\<open>strings.TrimSpace\<close>\<close>

text \<open>
  The UTF-8 encodings of the runes \<open>unicode.IsSpace\<close> accepts: ASCII tab to carriage return and
  space, U+0085, U+00A0, U+1680, U+2000 to U+200A, U+2028, U+2029, U+202F, U+205F and U+3000.
\<close>

definition space1 :: "nat \<Rightarrow> bool" where
  "space1 a \<longleftrightarrow> a = 32 \<or> (9 \<le> a \<and> a \<le> 13)"

definition space2 :: "nat \<Rightarrow> nat \<Rightarrow> bool" where
  "space2 a b \<longleftrightarrow> a = 194 \<and> (b = 133 \<or> b = 160)"

definition space3 :: "nat \<Rightarrow> nat \<Rightarrow> nat \<Rightarrow> bool" where
  "space3 a b c \<longleftrightarrow>
     (a = 225 \<and> b = 154 \<and> c = 128) \<or>
     (a = 226 \<and> b = 128 \<and> ((128 \<le> c \<and> c \<le> 138) \<or> c = 168 \<or> c = 169 \<or> c = 175)) \<or>
     (a = 226 \<and> b = 129 \<and> c = 159) \<or>
     (a = 227 \<and> b = 128 \<and> c = 128)"

text \<open>How many bytes the space at the front (or at the back, reversed) of the text takes.\<close>

fun space_at :: "char list \<Rightarrow> nat" where
  "space_at [] = 0"
| "space_at (a # s) =
     (if space1 (byte a) then 1
      else (case s of [] \<Rightarrow> 0 | b # s' \<Rightarrow>
        (if space2 (byte a) (byte b) then 2
         else (case s' of [] \<Rightarrow> 0 | c # _ \<Rightarrow> if space3 (byte a) (byte b) (byte c) then 3 else 0))))"

fun space_end :: "char list \<Rightarrow> nat" where
  "space_end [] = 0"
| "space_end (a # s) =
     (if space1 (byte a) then 1
      else (case s of [] \<Rightarrow> 0 | b # s' \<Rightarrow>
        (if space2 (byte b) (byte a) then 2
         else (case s' of [] \<Rightarrow> 0 | c # _ \<Rightarrow> if space3 (byte c) (byte b) (byte a) then 3 else 0))))"

lemma space_at_less: "0 < space_at s \<Longrightarrow> length (drop (space_at s) s) < length s"
  by (cases s) simp_all

lemma space_end_less: "0 < space_end s \<Longrightarrow> length (drop (space_end s) s) < length s"
  by (cases s) simp_all

function trim_left :: "string \<Rightarrow> string" where
  "trim_left s = (if space_at s = 0 then s else trim_left (drop (space_at s) s))"
  by pat_completeness auto
termination
  by (relation "measure length") (use space_at_less in auto)

text \<open>The same from the back, on the reversed text.\<close>

function trim_rev :: "string \<Rightarrow> string" where
  "trim_rev s = (if space_end s = 0 then s else trim_rev (drop (space_end s) s))"
  by pat_completeness auto
termination
  by (relation "measure length") (use space_end_less in auto)

declare trim_left.simps [simp del] trim_rev.simps [simp del]

definition trim :: "string \<Rightarrow> string" where
  "trim s = rev (trim_rev (rev (trim_left s)))"

text \<open>\<open>strings.TrimSpace(s) == ""\<close>\<close>

definition blank :: "string \<Rightarrow> bool" where
  "blank s \<longleftrightarrow> trim s = []"

lemma trim_left_space_at: "space_at (trim_left s) = 0"
proof (induction s rule: trim_left.induct)
  case (1 s)
  then show ?case by (cases "space_at s = 0") (simp_all add: trim_left.simps [of s])
qed

lemma trim_rev_space_end: "space_end (trim_rev s) = 0"
proof (induction s rule: trim_rev.induct)
  case (1 s)
  then show ?case by (cases "space_end s = 0") (simp_all add: trim_rev.simps [of s])
qed

lemma trim_left_suffix: "\<exists>n. trim_left s = drop n s"
proof (induction s rule: trim_left.induct)
  case (1 s)
  show ?case
  proof (cases "space_at s = 0")
    case True
    then show ?thesis by (intro exI [of _ 0]) (simp add: trim_left.simps [of s])
  next
    case False
    with "1" obtain n where "trim_left (drop (space_at s) s) = drop n (drop (space_at s) s)" by auto
    with False show ?thesis by (simp add: trim_left.simps [of s] drop_drop) blast
  qed
qed

lemma trim_rev_suffix: "\<exists>n. trim_rev s = drop n s"
proof (induction s rule: trim_rev.induct)
  case (1 s)
  show ?case
  proof (cases "space_end s = 0")
    case True
    then show ?thesis by (intro exI [of _ 0]) (simp add: trim_rev.simps [of s])
  next
    case False
    with "1" obtain n where "trim_rev (drop (space_end s) s) = drop n (drop (space_end s) s)" by auto
    with False show ?thesis by (simp add: trim_rev.simps [of s] drop_drop) blast
  qed
qed

lemma space_at_take: "space_at s = 0 \<Longrightarrow> space_at (take n s) = 0"
  by (cases n; cases s) (auto simp: take_Cons' split: if_splits list.splits)

lemma space_at_append: "0 < space_at s \<Longrightarrow> space_at (s @ t) = space_at s"
  by (cases s) (auto split: if_splits list.splits)

lemma space_end_whole: "0 < space_end s \<Longrightarrow> drop (space_end s) s = [] \<Longrightarrow> 0 < space_at (rev s)"
  by (cases s) (auto split: if_splits list.splits)

lemma trim_rev_Nil: "trim_rev t = [] \<Longrightarrow> t \<noteq> [] \<Longrightarrow> 0 < space_at (rev t)"
proof (induction t rule: trim_rev.induct)
  case (1 t)
  let ?k = "space_end t"
  from "1.prems" have k: "?k \<noteq> 0" by (auto simp: trim_rev.simps [of t] split: if_splits)
  show ?case
  proof (cases "drop ?k t = []")
    case True
    with k show ?thesis by (simp add: space_end_whole)
  next
    case False
    with "1" k have "0 < space_at (rev (drop ?k t))" by (simp add: trim_rev.simps [of t])
    then have "0 < space_at (rev (drop ?k t) @ rev (take ?k t))" by (simp add: space_at_append)
    then show ?thesis by (simp flip: rev_append)
  qed
qed

lemma trim_take: "\<exists>n. trim s = take n (trim_left s)"
proof -
  obtain n where "trim_rev (rev (trim_left s)) = drop n (rev (trim_left s))"
    using trim_rev_suffix by blast
  then show ?thesis by (auto simp: trim_def drop_rev)
qed

lemma trim_starts: "space_at (trim s) = 0"
  using trim_take [of s] trim_left_space_at [of s] by (auto simp: space_at_take)

lemma trim_left_id [simp]: "space_at s = 0 \<Longrightarrow> trim_left s = s"
  by (simp add: trim_left.simps)

lemma trim_rev_id [simp]: "space_end s = 0 \<Longrightarrow> trim_rev s = s"
  by (simp add: trim_rev.simps)

lemma trim_nonempty: "space_at s = 0 \<Longrightarrow> s \<noteq> [] \<Longrightarrow> trim s \<noteq> []"
  using trim_rev_Nil [of "rev s"] by (auto simp: trim_def)

lemma trim_idem [simp]: "trim (trim s) = trim s"
  using trim_starts [of s] trim_rev_space_end [of "rev (trim_left s)"]
  by (simp add: trim_def [of "trim s"]) (simp add: trim_def)

lemma trim_Nil [simp]: "trim [] = []"
  by (simp add: trim_def)

lemma length_trim: "length (trim s) \<le> length s"
proof -
  obtain n m where "trim s = take n (trim_left s)" and "trim_left s = drop m s"
    using trim_take trim_left_suffix by blast
  then show ?thesis by simp
qed

text \<open>Cutting a trimmed text never leaves only spaces: its first rune is not a space.\<close>

lemma trim_cut: "trim s \<noteq> [] \<Longrightarrow> 0 < n \<Longrightarrow> trim (take n (trim s)) \<noteq> []"
  by (intro trim_nonempty space_at_take trim_starts) simp

text \<open>A text that begins and ends with ASCII bytes other than spaces is left alone.\<close>

definition solid :: "char \<Rightarrow> bool" where
  "solid c \<longleftrightarrow> 32 < byte c \<and> byte c < 128"

lemma space_at_solid: "solid c \<Longrightarrow> space_at (c # s) = 0"
  by (auto simp: solid_def space1_def space2_def space3_def split: list.splits)

lemma space_end_solid: "solid c \<Longrightarrow> space_end (c # s) = 0"
  by (auto simp: solid_def space1_def space2_def space3_def split: list.splits)

lemma trim_solid:
  assumes "s \<noteq> []" "solid (hd s)" "solid (last s)"
  shows "trim s = s"
proof -
  obtain c t where s: "s = c # t" using assms(1) by (cases s) auto
  obtain d u where r: "rev s = d # u" using assms(1) by (cases "rev s") auto
  have "d = last s" using r by (metis hd_rev list.sel(1))
  then have "space_end (rev s) = 0"
    unfolding r using assms(3) by (intro space_end_solid) simp
  moreover have "space_at s = 0"
    unfolding s using assms(2) s by (intro space_at_solid) simp
  ultimately show ?thesis by (simp add: trim_def)
qed

text \<open>Trimming drops only spaces: every solid byte stays.\<close>

lemma space_at_take_not_solid: "c \<in> set (take (space_at s) s) \<Longrightarrow> \<not> solid c"
  by (cases s rule: space_at.cases)
    (auto simp: solid_def space1_def space2_def space3_def numeral_2_eq_2 numeral_3_eq_3 split: if_splits list.splits)

lemma space_end_take_not_solid: "c \<in> set (take (space_end s) s) \<Longrightarrow> \<not> solid c"
  by (cases s rule: space_end.cases)
    (auto simp: solid_def space1_def space2_def space3_def numeral_2_eq_2 numeral_3_eq_3 split: if_splits list.splits)

lemma solid_in_trim_left: "c \<in> set s \<Longrightarrow> solid c \<Longrightarrow> c \<in> set (trim_left s)"
proof (induction s rule: trim_left.induct)
  case (1 s)
  show ?case
  proof (cases "space_at s = 0")
    case False
    have "c \<in> set (take (space_at s) s) \<or> c \<in> set (drop (space_at s) s)"
      using "1.prems"(1) by (metis Un_iff append_take_drop_id set_append)
    with False 1 show ?thesis
      using space_at_take_not_solid by (subst trim_left.simps) auto
  qed (use "1.prems" in simp)
qed

lemma solid_in_trim_rev: "c \<in> set s \<Longrightarrow> solid c \<Longrightarrow> c \<in> set (trim_rev s)"
proof (induction s rule: trim_rev.induct)
  case (1 s)
  show ?case
  proof (cases "space_end s = 0")
    case False
    have "c \<in> set (take (space_end s) s) \<or> c \<in> set (drop (space_end s) s)"
      using "1.prems"(1) by (metis Un_iff append_take_drop_id set_append)
    with False 1 show ?thesis
      using space_end_take_not_solid by (subst trim_rev.simps) auto
  qed (use "1.prems" in simp)
qed

lemma solid_in_trim: "c \<in> set s \<Longrightarrow> solid c \<Longrightarrow> c \<in> set (trim s)"
  by (simp add: trim_def solid_in_trim_rev solid_in_trim_left)

subsection \<open>Decimal numerals (\<open>fmt.Sprintf("%d", n)\<close>)\<close>

definition digit :: "nat \<Rightarrow> char" where
  "digit n = char_of (48 + n)"

fun show_nat :: "nat \<Rightarrow> string" where
  "show_nat n = (if n < 10 then [digit n] else show_nat (n div 10) @ [digit (n mod 10)])"

declare show_nat.simps [simp del]

definition show_int :: "int \<Rightarrow> string" where
  "show_int i = (if i < 0 then CHR ''-'' # show_nat (nat (- i)) else show_nat (nat i))"

definition is_digit :: "char \<Rightarrow> bool" where
  "is_digit c \<longleftrightarrow> 48 \<le> byte c \<and> byte c \<le> 57"

definition read_nat :: "string \<Rightarrow> nat" where
  "read_nat s = foldl (\<lambda>n c. 10 * n + (byte c - 48)) 0 s"

lemma byte_char_of [simp]: "n < 256 \<Longrightarrow> byte (char_of n) = n"
  by (simp add: byte_def)

lemma byte_digit [simp]: "n < 10 \<Longrightarrow> byte (digit n) = 48 + n"
  by (simp add: digit_def)

lemma show_nat_digits: "\<forall>c\<in>set (show_nat n). is_digit c"
proof (induction n rule: show_nat.induct)
  case (1 n)
  then show ?case by (subst show_nat.simps) (auto simp: is_digit_def)
qed

lemma show_nat_nonempty [simp]: "show_nat n \<noteq> []"
  by (subst show_nat.simps) simp

lemma read_show_nat [simp]: "read_nat (show_nat n) = n"
proof (induction n rule: show_nat.induct)
  case (1 n)
  then show ?case by (subst show_nat.simps) (auto simp: read_nat_def)
qed

lemma show_nat_inject: "show_nat m = show_nat n \<longleftrightarrow> m = n"
  by (metis read_show_nat)

lemma show_int_inject: "show_int i = show_int j \<longleftrightarrow> i = j"
proof -
  have "CHR ''-'' \<notin> set (show_nat n)" for n
    using show_nat_digits [of n] by (auto simp: is_digit_def byte_def)
  then have "CHR ''-'' # show_nat m \<noteq> show_nat n" for m n
    by (metis list.set_intros(1))
  moreover from this have "show_nat n \<noteq> CHR ''-'' # show_nat m" for m n by metis
  ultimately show ?thesis by (auto simp: show_int_def show_nat_inject)
qed

lemma show_int_chars: "c \<in> set (show_int i) \<Longrightarrow> is_digit c \<or> c = CHR ''-''"
  using show_nat_digits by (auto simp: show_int_def split: if_splits)

subsection \<open>Splitting at a separator and \<open>path.Clean\<close>\<close>

text \<open>\<open>strings.Split(s, sep)\<close> for a one-byte separator, and \<open>strings.Join\<close>.\<close>

fun split_on :: "char \<Rightarrow> string \<Rightarrow> string list" where
  "split_on c [] = [[]]"
| "split_on c (x # xs) =
     (if x = c then [] # split_on c xs
      else (case split_on c xs of [] \<Rightarrow> [[x]] | w # ws \<Rightarrow> (x # w) # ws))"

fun join_with :: "char \<Rightarrow> string list \<Rightarrow> string" where
  "join_with c [] = []"
| "join_with c [w] = w"
| "join_with c (w # v # ws) = w @ c # join_with c (v # ws)"

definition path_segments :: "string \<Rightarrow> string list" where
  "path_segments s = split_on (CHR ''/'') s"

text \<open>
  \<open>path.Clean\<close>: empty and \<open>.\<close> elements are dropped; an inner \<open>..\<close> takes the
  preceding element with it; a leading \<open>..\<close> stays in a relative path and is dropped in a
  rooted one; an empty result is \<open>.\<close>. The stack holds the elements kept so far, last first.
\<close>

definition clean_step :: "bool \<Rightarrow> string list \<Rightarrow> string \<Rightarrow> string list" where
  "clean_step rooted stack w =
     (if w = [] \<or> w = ''.'' then stack
      else if w = ''..'' then
        (case stack of
           [] \<Rightarrow> if rooted then [] else [''..'']
         | v # vs \<Rightarrow> if v = ''..'' then ''..'' # stack else vs)
      else w # stack)"

definition is_abs :: "string \<Rightarrow> bool" where
  "is_abs s \<longleftrightarrow> prefix ''/'' s"

definition clean_path :: "string \<Rightarrow> string" where
  "clean_path s =
     (let body = join_with (CHR ''/'') (rev (foldl (clean_step (is_abs s)) [] (path_segments s)))
      in if is_abs s then CHR ''/'' # body else if body = [] then ''.'' else body)"

lemma split_on_nonempty [simp]: "split_on c s \<noteq> []"
  by (induction s) (auto split: list.splits)

lemma split_on_no_sep: "w \<in> set (split_on c s) \<Longrightarrow> c \<notin> set w"
  by (induction s arbitrary: w) (auto split: if_splits list.splits)

lemma split_on_append_sep: "c \<notin> set w \<Longrightarrow> split_on c (w @ c # s) = w # split_on c s"
  by (induction w) auto

lemma split_on_append: "split_on c (s @ c # t) = split_on c s @ split_on c t"
proof (induction s)
  case (Cons x s)
  then show ?case by (cases "split_on c s") auto
qed simp

lemma split_on_single: "c \<notin> set w \<Longrightarrow> split_on c w = [w]"
  by (induction w) auto

lemma split_on_join:
  "ws \<noteq> [] \<Longrightarrow> \<forall>w\<in>set ws. c \<notin> set w \<Longrightarrow> split_on c (join_with c ws) = ws"
  by (induction c ws rule: join_with.induct) (auto simp: split_on_append_sep split_on_single)

lemma join_split_on: "join_with c (split_on c s) = s"
proof (induction s)
  case (Cons x xs)
  then show ?case
    by (cases "split_on c xs"; cases "tl (split_on c xs)") auto
qed simp

text \<open>In a cleaned relative path every \<open>..\<close> stands at the front.\<close>

definition dots_below :: "string list \<Rightarrow> bool" where
  "dots_below stack \<longleftrightarrow> (\<exists>us n. stack = us @ replicate n ''..'' \<and> ''..'' \<notin> set us)"

lemma dots_below_step: "dots_below stack \<Longrightarrow> dots_below (clean_step False stack w)"
proof -
  assume "dots_below stack"
  then obtain us n where st: "stack = us @ replicate n ''..''" and us: "''..'' \<notin> set us"
    by (auto simp: dots_below_def)
  consider "w = [] \<or> w = ''.''" | "w = ''..''" "us = []" | u us' where "w = ''..''" "us = u # us'"
    | "w \<noteq> []" "w \<noteq> ''.''" "w \<noteq> ''..''"
    by (cases us) auto
  then show ?thesis
  proof cases
    case 1
    then show ?thesis using st us by (auto simp: clean_step_def dots_below_def)
  next
    case 2
    then have "clean_step False stack w = [] @ replicate (Suc n) ''..''"
      using st by (cases n) (simp_all add: clean_step_def)
    then show ?thesis unfolding dots_below_def by (metis empty_iff list.set(1))
  next
    case 3
    then show ?thesis using st us by (auto simp: clean_step_def dots_below_def)
  next
    case 4
    then have "clean_step False stack w = (w # us) @ replicate n ''..''" and "''..'' \<notin> set (w # us)"
      using st us by (simp_all add: clean_step_def)
    then show ?thesis unfolding dots_below_def by blast
  qed
qed

lemma dots_below_clean: "dots_below stack \<Longrightarrow> dots_below (foldl (clean_step False) stack ws)"
  by (induction ws arbitrary: stack) (simp_all add: dots_below_step)

definition no_sep :: "string list \<Rightarrow> bool" where
  "no_sep ws \<longleftrightarrow> (\<forall>w\<in>set ws. CHR ''/'' \<notin> set w)"

lemma clean_step_no_sep: "no_sep stack \<Longrightarrow> no_sep [w] \<Longrightarrow> no_sep (clean_step r stack w)"
  by (cases stack) (auto simp: clean_step_def no_sep_def)

lemma clean_no_sep: "no_sep stack \<Longrightarrow> no_sep ws \<Longrightarrow> no_sep (foldl (clean_step r) stack ws)"
proof (induction ws arbitrary: stack)
  case (Cons w ws)
  have "no_sep [w]" "no_sep ws" using Cons.prems(2) by (simp_all add: no_sep_def)
  then show ?case using Cons.prems(1) by (simp add: Cons.IH clean_step_no_sep)
qed simp

lemma join_with_front: "join_with c (w # ws) = w @ (if ws = [] then [] else c # join_with c ws)"
  by (cases ws) simp_all

lemma cleaned_no_dots:
  assumes "clean_path s = s" "\<not> is_abs s" "s \<noteq> ''.''" "s \<noteq> ''..''" "\<not> prefix ''../'' s"
  shows "''..'' \<notin> set (path_segments s)"
proof -
  define st where "st = foldl (clean_step False) [] (path_segments s)"
  have body: "join_with (CHR ''/'') (rev st) = s"
    using assms(1-3) by (auto simp: clean_path_def st_def Let_def split: if_splits)
  have ne: "s \<noteq> []" using assms(1) by (auto simp: clean_path_def is_abs_def Let_def split: if_splits)
  have "dots_below []"
    unfolding dots_below_def by (intro exI [of _ "[]"] exI [of _ 0]) simp
  then have "dots_below st" unfolding st_def by (rule dots_below_clean)
  then obtain us n where st: "rev st = replicate n ''..'' @ rev us" and us: "''..'' \<notin> set us"
    by (auto simp: dots_below_def)
  have "no_sep st" unfolding st_def
    by (intro clean_no_sep) (auto simp: no_sep_def path_segments_def dest: split_on_no_sep)
  moreover have "rev st \<noteq> []" using body ne by auto
  ultimately have segs: "path_segments s = rev st"
    unfolding path_segments_def body [symmetric] by (intro split_on_join) (auto simp: no_sep_def)
  have "n = 0"
  proof (cases n)
    case (Suc m)
    then have "s = ''..'' @ (if replicate m ''..'' @ rev us = [] then [] else
        CHR ''/'' # join_with (CHR ''/'') (replicate m ''..'' @ rev us))"
      using body by (simp only: st replicate_Suc append_Cons join_with_front)
    then show ?thesis using assms(4,5) by (simp split: if_splits)
  qed
  then show ?thesis using us by (simp add: segs st)
qed

end
