(* ===== verification/GoErrors.thy ===== *)
theory GoErrors
  imports GoStrings
begin

section \<open>Errors and time\<close>

subsection \<open>Error values\<close>

text \<open>
  The package-level error variables, which \<open>errors.Is\<close> compares by identity.
\<close>

datatype sentinel =
    ErrActionLeaseLost | ErrSourceNotFound | ErrOutputNotFound | ErrMaterializationNotReady
  | ErrRunnableActionFailed
  | ErrReapNotFound | ErrReapLeaseLost | ErrResourceAbsent
  | ErrRunnableRevisionNotFound | ErrVerificationReportNotFound
  | ErrBlankRuntimeNotInstalled
  | ContextCanceled | ContextDeadlineExceeded
  | ErrGenerationWorkflowNotFound | ErrGenerationLeaseLost
  | ErrCandidateNotFound | ErrCandidateInvalidState | ErrScenarioSourceRefConflict
  | ErrWorkspaceNotFound | ErrWorkspaceBusy | ErrWorkspaceTurnLost | ErrWorkspaceSnapshotCurrent
  | ErrWorkspaceNotIdle
  | ErrAuthoringNotFound | ErrAuthoringVersionConflict | ErrAuthoringInvalidState
  | ErrAgentNotFound | ErrAgentRunActive
  | ErrScenarioNotFound | ErrScenarioRevisionConflict | ErrScenarioNotMutable
  | ErrPublicationInvariant
  | ErrCatalogReleaseNotFound | ErrCatalogEntryNotFound | ErrCatalogCommitNotFound | ErrCatalogTransitionLost
  | ErrBaselineEstablished | ErrBootstrapConflict | ErrReleaseNotReady | ErrMaterializedIntegrity
  | ErrProviderUnavailable | ErrProviderNotFound | ErrProviderConflict

text \<open>The category of a publication failure (\<open>internal/domain/publication/diagnostic.go\<close>).\<close>

datatype Category = CategoryUnknown | CategoryDeterministic | CategoryTransient | CategoryOther string

text \<open>
  An error is a text (\<open>errors.New\<close>), one of the variables above, one of the typed failures of
  the \<open>runnable\<close> package, an \<open>ArtifactError\<close> of the \<open>generation\<close> package (its code and summary), a
  \<open>Failure\<close> of the \<open>publication\<close> package around another error, an \<open>os.PathError\<close>, or a
  \<open>fmt.Errorf("...: %w", err)\<close> around another error.
\<close>

datatype go_error =
    Msg string
  | Sentinel sentinel string
  | ArtifactFailure string string
  | ActionFailure string string string
  | GenerationArtifactError string string
  | PublicationFailure Category go_error
  | PathError string
  | Wrap string go_error

text \<open>\<open>errors.Is\<close> with one of the variables.\<close>

fun err_is :: "go_error \<Rightarrow> sentinel \<Rightarrow> bool" where
  "err_is (Sentinel s _) t = (s = t)"
| "err_is (ActionFailure _ _ _) t = (t = ErrRunnableActionFailed)"
| "err_is (PublicationFailure _ e) t = err_is e t"
| "err_is (Wrap _ e) t = err_is e t"
| "err_is _ _ = False"

text \<open>\<open>errors.As\<close> with a \<open>*ArtifactFailure\<close> target: its code and its summary.\<close>

fun as_artifact :: "go_error \<Rightarrow> (string \<times> string) option" where
  "as_artifact (ArtifactFailure code summary) = Some (code, summary)"
| "as_artifact (PublicationFailure _ e) = as_artifact e"
| "as_artifact (Wrap _ e) = as_artifact e"
| "as_artifact _ = None"

text \<open>\<open>(*ArtifactFailure).Error\<close>\<close>

definition artifact_text :: "string \<Rightarrow> string" where
  "artifact_text summary = (if blank summary then ''runnable artifact failure'' else summary)"

text \<open>\<open>err.Error()\<close>\<close>

fun err_text :: "go_error \<Rightarrow> string" where
  "err_text (Msg m) = m"
| "err_text (Sentinel _ m) = m"
| "err_text (ArtifactFailure _ summary) = artifact_text summary"
| "err_text (ActionFailure class code summary) =
     ''runnable action failed: '' @ summary @ '' ['' @ class @ ''/'' @ code @ '']''"
| "err_text (GenerationArtifactError _ summary) = summary"
| "err_text (PublicationFailure _ e) = err_text e"
| "err_text (PathError m) = m"
| "err_text (Wrap m e) = m @ '': '' @ err_text e"

text \<open>\<open>NewArtifactFailure\<close>\<close>

definition NewArtifactFailure :: "string \<Rightarrow> string \<Rightarrow> go_error" where
  "NewArtifactFailure code summary = ArtifactFailure (trim code) (trim summary)"

abbreviation action_lease_lost :: go_error where
  "action_lease_lost \<equiv> Sentinel ErrActionLeaseLost ''runnable action lease lost''"

abbreviation materialization_not_ready :: go_error where
  "materialization_not_ready \<equiv>
     Sentinel ErrMaterializationNotReady ''runnable materialization is not complete''"

abbreviation source_not_found :: go_error where
  "source_not_found \<equiv> Sentinel ErrSourceNotFound ''runnable source archive not found''"

abbreviation reap_not_found :: go_error where
  "reap_not_found \<equiv> Sentinel ErrReapNotFound ''runnable reap request not found''"

abbreviation reap_lease_lost :: go_error where
  "reap_lease_lost \<equiv> Sentinel ErrReapLeaseLost ''runnable reap lease lost''"

subsection \<open>Integers and time\<close>

text \<open>
  \<open>wrap64\<close> is the value an \<open>int64\<close> holds after an operation with the given exact result. A
  \<open>time.Time\<close> is its distance in nanoseconds from the zero time (1 January of year 1, UTC), so
  that \<open>IsZero\<close> is a comparison with 0 and \<open>UTC()\<close> is the identity; a \<open>time.Duration\<close> is its
  number of nanoseconds.
\<close>

definition wrap64 :: "int \<Rightarrow> int" where
  "wrap64 x = (x + 2 ^ 63) mod 2 ^ 64 - 2 ^ 63"

type_synonym time = int
type_synonym duration = int

definition seconds :: "int \<Rightarrow> duration" where
  "seconds n = n * 1000000000"

lemma wrap64_id: "- (2 ^ 63) \<le> x \<Longrightarrow> x < 2 ^ 63 \<Longrightarrow> wrap64 x = x"
  by (simp add: wrap64_def)

lemma wrap64_range: "- (2 ^ 63) \<le> wrap64 x \<and> wrap64 x < 2 ^ 63"
  by (simp add: wrap64_def)

text \<open>\<open>if len(value) > n { return value[:n] }; return value\<close>\<close>

definition cut :: "nat \<Rightarrow> string \<Rightarrow> string" where
  "cut n s = (if n < length s then take n s else s)"

lemma cut_take: "cut n s = take n s"
  by (simp add: cut_def)

lemma length_cut: "length (cut n s) \<le> n"
  by (simp add: cut_take)

end
