(* ===== verification/RunnableModel.thy ===== *)
theory RunnableModel
  imports GoDigest GoErrors
begin

section \<open>The runnable contract: limits, enumerations and structs\<close>

text \<open>
  The data of \<open>internal/domain/runnable\<close> (\<open>model.go\<close>, \<open>blank.go\<close>, \<open>output.go\<close>,
  \<open>persistence.go\<close>). Records carry a short form of the struct's name as a prefix of their
  fields. A string-typed enum is a datatype with one more constructor for every other text. A Go
  map is the list of its entries in the order an iteration yields them; a slice is a list, and a
  nil slice the empty list.
\<close>

subsection \<open>Limits (\<open>model.go\<close>)\<close>

definition FormatVersion :: string where "FormatVersion = ''v1''"
definition MaxIDLength :: nat where "MaxIDLength = 64"
definition MaxReferenceLength :: nat where "MaxReferenceLength = 4096"
definition MaxEntrypointLength :: nat where "MaxEntrypointLength = 512"
definition MaxSummaryLength :: nat where "MaxSummaryLength = 1024"
definition MaxDetailsLength :: nat where "MaxDetailsLength = 16 * 1024"
definition MaxSourceArchiveBytes :: nat where "MaxSourceArchiveBytes = 64 * 1024 * 1024"
definition MaxOutputReferenceCount :: nat where "MaxOutputReferenceCount = 32"
definition MaxValidationPhases :: nat where "MaxValidationPhases = 32"
definition MaxActionsPerPhase :: nat where "MaxActionsPerPhase = 64"
definition MaxAssertionsPerPhase :: nat where "MaxAssertionsPerPhase = 64"
definition MaxActionTimeoutSeconds :: int where "MaxActionTimeoutSeconds = 60 * 60"
definition MaxPhaseTimeoutSeconds :: int where "MaxPhaseTimeoutSeconds = 4 * 60 * 60"
definition MaxLifecycleTimeout :: int where "MaxLifecycleTimeout = 4 * 60 * 60"
definition MaxLifetimeSeconds :: int where "MaxLifetimeSeconds = 7 * 24 * 60 * 60"

lemmas limit_defs =
  FormatVersion_def MaxIDLength_def MaxReferenceLength_def MaxEntrypointLength_def
  MaxSummaryLength_def MaxDetailsLength_def MaxSourceArchiveBytes_def MaxOutputReferenceCount_def
  MaxValidationPhases_def MaxActionsPerPhase_def MaxAssertionsPerPhase_def
  MaxActionTimeoutSeconds_def MaxPhaseTimeoutSeconds_def MaxLifecycleTimeout_def
  MaxLifetimeSeconds_def

subsection \<open>Enumerations (\<open>model.go\<close>)\<close>

datatype Runtime = RuntimeNode | RuntimeK8s | RuntimeOther string

definition Runtime_Valid :: "Runtime \<Rightarrow> bool" where
  "Runtime_Valid r \<longleftrightarrow> r = RuntimeNode \<or> r = RuntimeK8s"

fun Runtime_text :: "Runtime \<Rightarrow> string" where
  "Runtime_text RuntimeNode = ''node''"
| "Runtime_text RuntimeK8s = ''k8s''"
| "Runtime_text (RuntimeOther s) = s"

datatype Permission = PermissionReadOnly | PermissionReadWrite | PermissionOther string

definition Permission_Valid :: "Permission \<Rightarrow> bool" where
  "Permission_Valid p \<longleftrightarrow> p = PermissionReadOnly \<or> p = PermissionReadWrite"

fun Permission_text :: "Permission \<Rightarrow> string" where
  "Permission_text PermissionReadOnly = ''read-only''"
| "Permission_text PermissionReadWrite = ''read-write''"
| "Permission_text (PermissionOther s) = s"

datatype NetworkScope = NetworkNone | NetworkIsolated | NetworkPrivate | NetworkOther string

definition NetworkScope_Valid :: "NetworkScope \<Rightarrow> bool" where
  "NetworkScope_Valid n \<longleftrightarrow> n = NetworkNone \<or> n = NetworkIsolated \<or> n = NetworkPrivate"

fun NetworkScope_text :: "NetworkScope \<Rightarrow> string" where
  "NetworkScope_text NetworkNone = ''none''"
| "NetworkScope_text NetworkIsolated = ''isolated''"
| "NetworkScope_text NetworkPrivate = ''private''"
| "NetworkScope_text (NetworkOther s) = s"

datatype PhaseExecution = PhaseSequential | PhaseParallel | PhaseExecutionOther string

definition PhaseExecution_Valid :: "PhaseExecution \<Rightarrow> bool" where
  "PhaseExecution_Valid p \<longleftrightarrow> p = PhaseSequential \<or> p = PhaseParallel"

fun PhaseExecution_text :: "PhaseExecution \<Rightarrow> string" where
  "PhaseExecution_text PhaseSequential = ''sequential''"
| "PhaseExecution_text PhaseParallel = ''parallel''"
| "PhaseExecution_text (PhaseExecutionOther s) = s"

datatype FailureClass = FailureArtifact | FailureInfrastructure | FailureClassOther string

definition FailureClass_Valid :: "FailureClass \<Rightarrow> bool" where
  "FailureClass_Valid f \<longleftrightarrow> f = FailureArtifact \<or> f = FailureInfrastructure"

fun FailureClass_text :: "FailureClass \<Rightarrow> string" where
  "FailureClass_text FailureArtifact = ''artifact''"
| "FailureClass_text FailureInfrastructure = ''infrastructure''"
| "FailureClass_text (FailureClassOther s) = s"

lemmas enum_valid_defs =
  Runtime_Valid_def Permission_Valid_def NetworkScope_Valid_def PhaseExecution_Valid_def
  FailureClass_Valid_def

subsection \<open>Structs (\<open>model.go\<close>)\<close>

record ContentIdentity =
  ci_Kind :: string
  ci_ID :: string
  ci_Revision :: string

record ResourceLimits =
  rl_CPU :: string
  rl_MemoryBytes :: int
  rl_EphemeralBytes :: int
  rl_MaxProcesses :: int
  rl_MaxConcurrentTasks :: int

record TargetLocation =
  tl_Kind :: string
  tl_ID :: string

record ExecutionBoundary =
  eb_ID :: string
  eb_Target :: TargetLocation
  eb_Permission :: Permission
  eb_Network :: NetworkScope
  eb_MaxTimeout :: int

record RuntimeProfile =
  rp_Runtime :: Runtime
  rp_ProfileRevision :: string
  rp_BaseImage :: string
  rp_SoftwareVersions :: "(string \<times> string) list"
  rp_Resources :: ResourceLimits
  rp_Network :: NetworkScope
  rp_Topology :: string
  rp_ExecutionBoundaries :: "ExecutionBoundary list"

record SourceArchive =
  sa_FormatVersion :: string
  sa_Reference :: string
  sa_Digest :: string

record ActionSpec =
  ac_ID :: string
  ac_Entrypoint :: string
  ac_Target :: TargetLocation
  ac_BoundaryID :: string
  ac_TimeoutSeconds :: int
  ac_ExpectedExitCodes :: "int list"

record AssertionSpec =
  as_ID :: string
  as_Entrypoint :: string
  as_Target :: TargetLocation
  as_BoundaryID :: string
  as_TimeoutSeconds :: int

record ValidationPhase =
  vp_ID :: string
  vp_TimeoutSeconds :: int
  vp_Execution :: PhaseExecution
  vp_Actions :: "ActionSpec list"
  vp_Assertions :: "AssertionSpec list"

record ValidationPlan =
  pl_FormatVersion :: string
  pl_Phases :: "ValidationPhase list"

record LifecyclePolicy =
  lp_CreateTimeoutSeconds :: int
  lp_ResetTimeoutSeconds :: int
  lp_StopTimeoutSeconds :: int
  lp_ReapTimeoutSeconds :: int
  lp_IdleTTLSeconds :: int
  lp_MaxLifetimeSeconds :: int

record RunnableSpec =
  rs_FormatVersion :: string
  rs_Identity :: ContentIdentity
  rs_RuntimeProfile :: RuntimeProfile
  rs_Source :: SourceArchive
  rs_Initialization :: "ActionSpec list"
  rs_ValidationPlan :: ValidationPlan
  rs_LifecyclePolicy :: LifecyclePolicy

record ArtifactReference =
  ar_FormatVersion :: string
  ar_Runtime :: Runtime
  ar_ProviderReference :: string
  ar_ArtifactDigest :: string
  ar_BuiltFromSpecDigest :: string
  ar_BuilderVersion :: string

record RunnableRevision =
  rr_FormatVersion :: string
  rr_Spec :: RunnableSpec
  rr_Artifact :: ArtifactReference

record ImmutableReference =
  ir_Reference :: string
  ir_Digest :: string
  ir_SizeBytes :: int

record ActionResult =
  ares_ID :: string
  ares_ExitCode :: int
  ares_Summary :: string
  ares_Outputs :: "ImmutableReference list"

record AssertionResult =
  bres_ID :: string
  bres_Satisfied :: bool
  bres_Summary :: string
  bres_Details :: string
  bres_Outputs :: "ImmutableReference list"

record PhaseResult =
  pr_ID :: string
  pr_Actions :: "ActionResult list"
  pr_Assertions :: "AssertionResult list"

record EnvironmentIdentity =
  ei_ID :: string
  ei_Provider :: string
  ei_ProfileDigest :: string

record VerificationFailure =
  vf_Class :: FailureClass
  vf_Component :: string
  vf_Reason :: string
  vf_Message :: string

record VerificationReport =
  vr_FormatVersion :: string
  vr_RunnableRevisionDigest :: string
  vr_Environment :: EnvironmentIdentity
  vr_Attempt :: int
  vr_Phases :: "PhaseResult list"
  vr_Passed :: bool
  vr_Failure :: "VerificationFailure option"
  vr_CreatedAt :: time

subsection \<open>\<open>persistence.go\<close>, \<open>output.go\<close>, \<open>blank.go\<close>\<close>

record RevisionReference =
  ref_ID :: string
  ref_Digest :: string

record StoredRevision =
  sr_Reference :: RevisionReference
  sr_Revision :: RunnableRevision
  sr_CreatedAt :: time

record VerificationReportReference =
  vref_ID :: string
  vref_Digest :: string

record StoredVerificationReport =
  svr_Reference :: VerificationReportReference
  svr_Report :: VerificationReport
  svr_RunnableRevision :: RunnableRevision
  svr_CreatedAt :: time

record OutputCapture =
  oc_Stdout :: string
  oc_Stderr :: string

record BlankRuntimePlan =
  bp_Profile :: RuntimeProfile
  bp_Lifecycle :: LifecyclePolicy
  bp_Image :: string

subsection \<open>Canonical bytes\<close>

text \<open>
  \<open>CanonicalJSON\<close> is \<open>json.Marshal\<close>. Its bytes are a parameter: one encoder per type that the
  program digests. Only a report holds a \<open>time.Time\<close>, whose encoding fails for a year outside
  0 to 9999; the other types hold strings, integers, booleans and slices and maps of them, on
  which \<open>json.Marshal\<close> does not fail.
\<close>

record codec =
  cd_spec :: "RunnableSpec \<Rightarrow> string"
  cd_profile :: "RuntimeProfile \<Rightarrow> string"
  cd_revision :: "RunnableRevision \<Rightarrow> string"
  cd_report :: "VerificationReport \<Rightarrow> go_error + string"
  cd_blank :: "BlankRuntimePlan \<Rightarrow> string"
  cd_capture :: "OutputCapture \<Rightarrow> string"

end
