(* ===== verification/RunnableValidate.thy ===== *)
theory RunnableValidate
  imports RunnableModel
begin

section \<open>Validation and digests of specs, artifacts and revisions\<close>

text \<open>
  \<open>internal/domain/runnable/validate.go\<close> up to \<open>RunnableRevision.Validate\<close>, with \<open>digest.go\<close>
  and \<open>blank.go\<close>. Every check is one element of a \<open>first_error\<close> chain in the order of the code.
  The lemmas after the definitions say what a value that passes looks like: safe entrypoints,
  actions and assertions inside a declared execution boundary, unique identifiers, and a revision
  bound to the digest of its spec.
\<close>

subsection \<open>Field checks\<close>

definition invalid :: "string \<Rightarrow> string \<Rightarrow> go_error" where
  "invalid field message = Msg (''runnable '' @ field @ '' '' @ message)"

definition unsupported :: "string \<Rightarrow> string \<Rightarrow> go_error" where
  "unsupported val field = Msg (''runnable '' @ field @ '' is unsupported: '' @ val)"

definition requiredString :: "string \<Rightarrow> string \<Rightarrow> nat \<Rightarrow> go_error option" where
  "requiredString val field maximum = (let v = trim val in first_error
     [fail_if (v = []) (invalid field ''is required''),
      fail_if (maximum < length v) (invalid field ''is too long'')])"

definition ValidDigest :: "string \<Rightarrow> bool" where
  "ValidDigest val \<longleftrightarrow> (let v = trim val in
     prefix ''sha256:'' v \<and> length v = 7 + 64 \<and> list_all is_hex (drop 7 v))"

text \<open>\<open>stableID = regexp.MustCompile("^[a-z][a-z0-9-]*$")\<close>\<close>

definition is_lower :: "char \<Rightarrow> bool" where
  "is_lower c \<longleftrightarrow> 97 \<le> byte c \<and> byte c \<le> 122"

fun stableID :: "string \<Rightarrow> bool" where
  "stableID [] = False"
| "stableID (c # cs) \<longleftrightarrow>
     is_lower c \<and> list_all (\<lambda>d. is_lower d \<or> is_digit d \<or> d = CHR ''-'') cs"

definition validateID :: "string \<Rightarrow> string \<Rightarrow> go_error option" where
  "validateID val field = (let v = trim val in
     fail_if (length v = 0 \<or> MaxIDLength < length v \<or> \<not> stableID v)
       (invalid field ''must be a stable lowercase identifier''))"

definition validateEntrypoint :: "string \<Rightarrow> string \<Rightarrow> go_error option" where
  "validateEntrypoint val field = (let v = trim val in
     fail_if (v = [] \<or> MaxEntrypointLength < length v \<or> prefix ''/'' v \<or> clean_path v \<noteq> v \<or>
              v = ''.'' \<or> prefix ''../'' v)
       (invalid field ''must be a safe relative archive path''))"

subsection \<open>Identity, resources, targets and boundaries\<close>

definition ContentIdentity_Validate :: "ContentIdentity \<Rightarrow> go_error option" where
  "ContentIdentity_Validate v = first_error
     [validateID (ci_Kind v) ''identity.content_kind'',
      validateID (ci_ID v) ''identity.content_id'',
      requiredString (ci_Revision v) ''identity.content_revision'' MaxReferenceLength]"

definition ResourceLimits_Validate :: "ResourceLimits \<Rightarrow> go_error option" where
  "ResourceLimits_Validate r = first_error
     [requiredString (rl_CPU r) ''runtime_profile.resources.cpu'' 128,
      fail_if (rl_MemoryBytes r \<le> 0 \<or> rl_EphemeralBytes r \<le> 0 \<or> rl_MaxProcesses r \<le> 0 \<or>
               rl_MaxConcurrentTasks r \<le> 0)
        (invalid ''runtime_profile.resources'' ''must contain positive limits'')]"

definition TargetLocation_Validate :: "TargetLocation \<Rightarrow> string \<Rightarrow> go_error option" where
  "TargetLocation_Validate t field = first_error
     [validateID (tl_Kind t) (field @ ''.kind''), validateID (tl_ID t) (field @ ''.id'')]"

definition ExecutionBoundary_Validate :: "ExecutionBoundary \<Rightarrow> go_error option" where
  "ExecutionBoundary_Validate b = first_error
     [validateID (eb_ID b) ''runtime_profile.execution_boundaries.id'',
      TargetLocation_Validate (eb_Target b) ''runtime_profile.execution_boundaries.target'',
      fail_if (\<not> Permission_Valid (eb_Permission b))
        (unsupported (Permission_text (eb_Permission b)) ''runtime_profile.execution_boundaries.permission''),
      fail_if (\<not> NetworkScope_Valid (eb_Network b))
        (unsupported (NetworkScope_text (eb_Network b)) ''runtime_profile.execution_boundaries.network''),
      fail_if (eb_MaxTimeout b \<le> 0 \<or> MaxActionTimeoutSeconds < eb_MaxTimeout b)
        (invalid ''runtime_profile.execution_boundaries.max_timeout_seconds'' ''is outside the platform limit'')]"

definition RuntimeProfile_Validate :: "RuntimeProfile \<Rightarrow> go_error option" where
  "RuntimeProfile_Validate p = first_error
     [fail_if (\<not> Runtime_Valid (rp_Runtime p))
        (unsupported (Runtime_text (rp_Runtime p)) ''runtime_profile.runtime''),
      requiredString (rp_ProfileRevision p) ''runtime_profile.profile_revision'' MaxReferenceLength,
      requiredString (rp_BaseImage p) ''runtime_profile.base_image'' MaxReferenceLength,
      fail_if (\<not> NetworkScope_Valid (rp_Network p))
        (unsupported (NetworkScope_text (rp_Network p)) ''runtime_profile.network''),
      requiredString (rp_Topology p) ''runtime_profile.topology'' MaxSummaryLength,
      ResourceLimits_Validate (rp_Resources p),
      fail_if (length (rp_SoftwareVersions p) = 0 \<or> 64 < length (rp_SoftwareVersions p))
        (invalid ''runtime_profile.software_versions'' ''must contain between one and 64 entries''),
      each_error (\<lambda>_ (name, version). first_error
          [validateID name ''runtime_profile.software_versions key'',
           requiredString version ''runtime_profile.software_versions value'' MaxIDLength])
        0 (rp_SoftwareVersions p),
      fail_if (length (rp_ExecutionBoundaries p) = 0 \<or>
               MaxActionsPerPhase < length (rp_ExecutionBoundaries p))
        (invalid ''runtime_profile.execution_boundaries'' ''must contain approved targets''),
      error_of (scan_unique eb_ID (\<lambda>_. ExecutionBoundary_Validate)
        (\<lambda>_ _. invalid ''runtime_profile.execution_boundaries'' ''contains duplicate identifiers'')
        0 [] (rp_ExecutionBoundaries p))]"

text \<open>\<open>RuntimeProfile.boundary\<close>: the first boundary with the identifier.\<close>

definition profile_boundary :: "RuntimeProfile \<Rightarrow> string \<Rightarrow> ExecutionBoundary option" where
  "profile_boundary p bid = find (\<lambda>b. eb_ID b = bid) (rp_ExecutionBoundaries p)"

definition SourceArchive_Validate :: "SourceArchive \<Rightarrow> go_error option" where
  "SourceArchive_Validate s = first_error
     [fail_if (sa_FormatVersion s \<noteq> FormatVersion)
        (unsupported (sa_FormatVersion s) ''source.format_version''),
      requiredString (sa_Reference s) ''source.reference'' MaxReferenceLength,
      fail_if (\<not> ValidDigest (sa_Digest s)) (invalid ''source.digest'' ''must be a sha256 digest'')]"

subsection \<open>Actions, assertions and the plan\<close>

definition ActionSpec_Validate :: "ActionSpec \<Rightarrow> RuntimeProfile \<Rightarrow> string \<Rightarrow> go_error option" where
  "ActionSpec_Validate a profile field = first_error
     [validateID (ac_ID a) (field @ ''.id''),
      validateEntrypoint (ac_Entrypoint a) (field @ ''.entrypoint''),
      TargetLocation_Validate (ac_Target a) (field @ ''.target''),
      (case profile_boundary profile (ac_BoundaryID a) of
         None \<Rightarrow> Some (invalid (field @ ''.boundary_id'') ''must select a read-write declared target'')
       | Some boundary \<Rightarrow> first_error
           [fail_if (eb_Target boundary \<noteq> ac_Target a \<or> eb_Permission boundary \<noteq> PermissionReadWrite)
              (invalid (field @ ''.boundary_id'') ''must select a read-write declared target''),
            fail_if (ac_TimeoutSeconds a \<le> 0 \<or> eb_MaxTimeout boundary < ac_TimeoutSeconds a \<or>
                     MaxActionTimeoutSeconds < ac_TimeoutSeconds a)
              (invalid (field @ ''.timeout_seconds'') ''is outside its execution boundary'')]),
      fail_if (length (ac_ExpectedExitCodes a) = 0 \<or> 16 < length (ac_ExpectedExitCodes a) \<or>
               \<not> sorted (ac_ExpectedExitCodes a))
        (invalid (field @ ''.expected_exit_codes'') ''must be a non-empty sorted set''),
      each_error (\<lambda>i v. fail_if (v < 0 \<or> 255 < v \<or> (0 < i \<and> v = ac_ExpectedExitCodes a ! (i - 1)))
          (invalid (field @ ''.expected_exit_codes'') ''must contain unique process exit codes''))
        0 (ac_ExpectedExitCodes a)]"

definition AssertionSpec_Validate :: "AssertionSpec \<Rightarrow> RuntimeProfile \<Rightarrow> string \<Rightarrow> go_error option" where
  "AssertionSpec_Validate a profile field = first_error
     [validateID (as_ID a) (field @ ''.id''),
      validateEntrypoint (as_Entrypoint a) (field @ ''.entrypoint''),
      TargetLocation_Validate (as_Target a) (field @ ''.target''),
      (case profile_boundary profile (as_BoundaryID a) of
         None \<Rightarrow> Some (invalid (field @ ''.boundary_id'') ''must select a read-only declared target'')
       | Some boundary \<Rightarrow> first_error
           [fail_if (eb_Target boundary \<noteq> as_Target a \<or> eb_Permission boundary \<noteq> PermissionReadOnly)
              (invalid (field @ ''.boundary_id'') ''must select a read-only declared target''),
            fail_if (as_TimeoutSeconds a \<le> 0 \<or> eb_MaxTimeout boundary < as_TimeoutSeconds a \<or>
                     MaxActionTimeoutSeconds < as_TimeoutSeconds a)
              (invalid (field @ ''.timeout_seconds'') ''is outside its execution boundary'')])]"

definition index_field :: "string \<Rightarrow> nat \<Rightarrow> string" where
  "index_field name i = name @ ''['' @ show_nat i @ '']''"

text \<open>
  The loop over the phases of \<open>ValidationPlan.Validate\<close>. The sets of phase, action and assertion
  identifiers live across the phases, so an action identifier is unique in the whole plan.
\<close>

fun plan_phases ::
  "RuntimeProfile \<Rightarrow> nat \<Rightarrow> string list \<Rightarrow> string list \<Rightarrow> string list \<Rightarrow> ValidationPhase list
     \<Rightarrow> go_error + unit"
where
  "plan_phases profile i phaseIDs actionIDs assertionIDs [] = Inr ()"
| "plan_phases profile i phaseIDs actionIDs assertionIDs (phase # phases) =
     (let field = index_field ''validation_plan.phases'' i in
      check (first_error
        [validateID (vp_ID phase) (field @ ''.id''),
         fail_if (vp_ID phase \<in> set phaseIDs) (invalid (field @ ''.id'') ''is duplicated''),
         fail_if (\<not> PhaseExecution_Valid (vp_Execution phase))
           (unsupported (PhaseExecution_text (vp_Execution phase)) (field @ ''.execution'')),
         fail_if (vp_TimeoutSeconds phase \<le> 0 \<or> MaxPhaseTimeoutSeconds < vp_TimeoutSeconds phase)
           (invalid (field @ ''.timeout_seconds'') ''is outside the platform limit''),
         fail_if (MaxActionsPerPhase < length (vp_Actions phase) \<or>
                  MaxAssertionsPerPhase < length (vp_Assertions phase) \<or>
                  (length (vp_Actions phase) = 0 \<and> length (vp_Assertions phase) = 0))
           (invalid field ''must have bounded actions or assertions'')])
      (and_then
        (scan_unique ac_ID
          (\<lambda>j action. ActionSpec_Validate action profile (index_field (field @ ''.actions'') j))
          (\<lambda>_ _. invalid (field @ ''.actions'') ''contains a duplicate action id'')
          0 actionIDs (vp_Actions phase))
        (\<lambda>actionIDs'. and_then
          (scan_unique as_ID
            (\<lambda>j assertion. AssertionSpec_Validate assertion profile
               (index_field (field @ ''.assertions'') j))
            (\<lambda>_ _. invalid (field @ ''.assertions'') ''contains a duplicate assertion id'')
            0 assertionIDs (vp_Assertions phase))
          (\<lambda>assertionIDs'.
            plan_phases profile (Suc i) (vp_ID phase # phaseIDs) actionIDs' assertionIDs' phases))))"

definition ValidationPlan_Validate :: "ValidationPlan \<Rightarrow> RuntimeProfile \<Rightarrow> go_error option" where
  "ValidationPlan_Validate p profile = first_error
     [fail_if (pl_FormatVersion p \<noteq> FormatVersion)
        (unsupported (pl_FormatVersion p) ''validation_plan.format_version''),
      fail_if (length (pl_Phases p) = 0 \<or> MaxValidationPhases < length (pl_Phases p))
        (invalid ''validation_plan.phases'' ''must contain between one and 32 phases''),
      error_of (plan_phases profile 0 [] [] [] (pl_Phases p))]"

text \<open>
  \<open>LifecyclePolicy.Validate\<close> ranges over a Go map, whose order is unspecified: which of several
  bad timeouts the error names is not determined, that one is named is. The list below has the
  order of the map's literal.
\<close>

definition LifecyclePolicy_Validate :: "LifecyclePolicy \<Rightarrow> go_error option" where
  "LifecyclePolicy_Validate p = first_error
     [each_error (\<lambda>_ (field, val). fail_if (val \<le> 0 \<or> MaxLifecycleTimeout < val)
          (invalid (''lifecycle_policy.'' @ field) ''is outside the platform limit''))
        0 [(''create_timeout_seconds'', lp_CreateTimeoutSeconds p),
           (''reset_timeout_seconds'', lp_ResetTimeoutSeconds p),
           (''stop_timeout_seconds'', lp_StopTimeoutSeconds p),
           (''reap_timeout_seconds'', lp_ReapTimeoutSeconds p)],
      fail_if (lp_IdleTTLSeconds p \<le> 0 \<or> MaxLifetimeSeconds < lp_IdleTTLSeconds p \<or>
               lp_MaxLifetimeSeconds p \<le> 0 \<or> MaxLifetimeSeconds < lp_MaxLifetimeSeconds p \<or>
               lp_MaxLifetimeSeconds p < lp_IdleTTLSeconds p)
        (invalid ''lifecycle_policy'' ''has invalid idle or maximum lifetime'')]"

subsection \<open>Specs, artifacts, revisions and their digests\<close>

definition RunnableSpec_Validate :: "RunnableSpec \<Rightarrow> go_error option" where
  "RunnableSpec_Validate s = first_error
     [fail_if (rs_FormatVersion s \<noteq> FormatVersion)
        (unsupported (rs_FormatVersion s) ''spec.format_version''),
      ContentIdentity_Validate (rs_Identity s),
      RuntimeProfile_Validate (rs_RuntimeProfile s),
      SourceArchive_Validate (rs_Source s),
      fail_if (length (rs_Initialization s) = 0 \<or> MaxActionsPerPhase < length (rs_Initialization s))
        (invalid ''initialization'' ''must contain bounded initialization actions''),
      error_of (scan_unique ac_ID
        (\<lambda>i action. ActionSpec_Validate action (rs_RuntimeProfile s) (index_field ''initialization'' i))
        (\<lambda>_ _. invalid ''initialization'' ''contains a duplicate action id'')
        0 [] (rs_Initialization s)),
      ValidationPlan_Validate (rs_ValidationPlan s) (rs_RuntimeProfile s),
      each_error (\<lambda>_ phase. first_error
          [fail_if (vp_ID phase = ''initialization'')
             (invalid ''validation_plan.phases'' ''must not use the reserved initialization phase id''),
           each_error (\<lambda>_ action. fail_if (ac_ID action \<in> ac_ID ` set (rs_Initialization s))
               (invalid ''validation_plan'' ''reuses an initialization action id''))
             0 (vp_Actions phase)])
        0 (pl_Phases (rs_ValidationPlan s)),
      LifecyclePolicy_Validate (rs_LifecyclePolicy s)]"

definition ArtifactReference_Validate :: "ArtifactReference \<Rightarrow> go_error option" where
  "ArtifactReference_Validate a = first_error
     [fail_if (ar_FormatVersion a \<noteq> FormatVersion)
        (unsupported (ar_FormatVersion a) ''artifact.format_version''),
      fail_if (\<not> Runtime_Valid (ar_Runtime a))
        (unsupported (Runtime_text (ar_Runtime a)) ''artifact.runtime''),
      requiredString (ar_ProviderReference a) ''artifact.provider_reference'' MaxReferenceLength,
      fail_if (\<not> ValidDigest (ar_ArtifactDigest a) \<or> \<not> ValidDigest (ar_BuiltFromSpecDigest a))
        (invalid ''artifact'' ''must bind valid artifact and spec digests''),
      fail_if (\<not> sublist (''@'' @ ar_ArtifactDigest a) (ar_ProviderReference a))
        (invalid ''artifact.provider_reference'' ''must be pinned to artifact_digest''),
      requiredString (ar_BuilderVersion a) ''artifact.builder_version'' MaxIDLength]"

definition RunnableSpec_Digest :: "codec \<Rightarrow> RunnableSpec \<Rightarrow> go_error + string" where
  "RunnableSpec_Digest cd s = check (RunnableSpec_Validate s) (Inr (digest_bytes (cd_spec cd s)))"

definition RuntimeProfile_Digest :: "codec \<Rightarrow> RuntimeProfile \<Rightarrow> go_error + string" where
  "RuntimeProfile_Digest cd p = check (RuntimeProfile_Validate p) (Inr (digest_bytes (cd_profile cd p)))"

definition RunnableRevision_Validate :: "codec \<Rightarrow> RunnableRevision \<Rightarrow> go_error option" where
  "RunnableRevision_Validate cd r = first_error
     [fail_if (rr_FormatVersion r \<noteq> FormatVersion)
        (unsupported (rr_FormatVersion r) ''revision.format_version''),
      map_option (Wrap ''runnable revision spec'') (RunnableSpec_Validate (rr_Spec r)),
      map_option (Wrap ''runnable revision artifact'') (ArtifactReference_Validate (rr_Artifact r)),
      fail_if (ar_Runtime (rr_Artifact r) \<noteq> rp_Runtime (rs_RuntimeProfile (rr_Spec r)))
        (Msg ''runnable revision artifact runtime does not match spec''),
      (case RunnableSpec_Digest cd (rr_Spec r) of
         Inl e \<Rightarrow> Some (Wrap ''runnable revision spec digest'' e)
       | Inr d \<Rightarrow> fail_if (ar_BuiltFromSpecDigest (rr_Artifact r) \<noteq> d)
           (Msg ''runnable revision artifact was built from another spec''))]"

definition RunnableRevision_Digest :: "codec \<Rightarrow> RunnableRevision \<Rightarrow> go_error + string" where
  "RunnableRevision_Digest cd r =
     check (RunnableRevision_Validate cd r) (Inr (digest_bytes (cd_revision cd r)))"

definition BlankRuntimePlan_Validate :: "BlankRuntimePlan \<Rightarrow> go_error option" where
  "BlankRuntimePlan_Validate p = first_error
     [RuntimeProfile_Validate (bp_Profile p),
      LifecyclePolicy_Validate (bp_Lifecycle p),
      fail_if (blank (bp_Image p)) (Msg ''blank runtime plan requires a management terminal image''),
      fail_if (rp_BaseImage (bp_Profile p) \<noteq> bp_Image p)
        (Msg ''blank runtime profile must pin the management terminal image as its base image'')]"

definition BlankRuntimePlan_Digest :: "codec \<Rightarrow> BlankRuntimePlan \<Rightarrow> go_error + string" where
  "BlankRuntimePlan_Digest cd p =
     check (BlankRuntimePlan_Validate p) (Inr (digest_bytes (cd_blank cd p)))"

subsection \<open>What the field checks accept\<close>

definition required_ok :: "nat \<Rightarrow> string \<Rightarrow> bool" where
  "required_ok m v \<longleftrightarrow> trim v \<noteq> [] \<and> length (trim v) \<le> m"

definition id_ok :: "string \<Rightarrow> bool" where
  "id_ok v \<longleftrightarrow> length (trim v) \<le> MaxIDLength \<and> stableID (trim v)"

definition entrypoint_ok :: "string \<Rightarrow> bool" where
  "entrypoint_ok v \<longleftrightarrow> trim v \<noteq> [] \<and> length (trim v) \<le> MaxEntrypointLength \<and> \<not> is_abs (trim v) \<and>
     clean_path (trim v) = trim v \<and> trim v \<noteq> ''.'' \<and> \<not> prefix ''../'' (trim v)"

lemma requiredString_None [valid_simps]: "requiredString v f m = None \<longleftrightarrow> required_ok m v"
  by (auto simp: requiredString_def required_ok_def Let_def first_error_Cons)

lemma validateID_None [valid_simps]: "validateID v f = None \<longleftrightarrow> id_ok v"
  by (auto simp: validateID_def id_ok_def Let_def)

lemma validateEntrypoint_None [valid_simps]: "validateEntrypoint v f = None \<longleftrightarrow> entrypoint_ok v"
  by (auto simp: validateEntrypoint_def entrypoint_ok_def Let_def is_abs_def)

lemma ValidDigest_digest_bytes [simp]: "ValidDigest (digest_bytes s)"
proof -
  have "trim (digest_bytes s) = digest_bytes s"
  proof (rule trim_solid)
    show "digest_bytes s \<noteq> []" by (simp add: digest_bytes_def)
    show "solid (hd (digest_bytes s))" by (simp add: digest_bytes_def solid_def byte_def)
    have "sha256_hex s \<noteq> []" by (metis length_sha256_hex list.size(3) zero_neq_numeral)
    then show "solid (last (digest_bytes s))"
      using sha256_hex_is_hex [of s] by (auto simp: digest_bytes_def intro: is_hex_solid)
  qed
  then show ?thesis
    using sha256_hex_is_hex [of s]
    by (simp add: ValidDigest_def Let_def digest_bytes_def list_all_iff)
qed

subsection \<open>What the validators accept\<close>

definition target_ok :: "TargetLocation \<Rightarrow> bool" where
  "target_ok t \<longleftrightarrow> id_ok (tl_Kind t) \<and> id_ok (tl_ID t)"

definition boundary_ok :: "ExecutionBoundary \<Rightarrow> bool" where
  "boundary_ok b \<longleftrightarrow> id_ok (eb_ID b) \<and> target_ok (eb_Target b) \<and> Permission_Valid (eb_Permission b) \<and>
     NetworkScope_Valid (eb_Network b) \<and> 0 < eb_MaxTimeout b \<and> eb_MaxTimeout b \<le> MaxActionTimeoutSeconds"

text \<open>The execution stays inside a boundary the profile declares.\<close>

definition inside_boundary ::
  "RuntimeProfile \<Rightarrow> Permission \<Rightarrow> string \<Rightarrow> TargetLocation \<Rightarrow> int \<Rightarrow> bool"
where
  "inside_boundary p perm bid target timeout \<longleftrightarrow>
     (\<exists>b. profile_boundary p bid = Some b \<and> eb_Target b = target \<and> eb_Permission b = perm \<and>
          0 < timeout \<and> timeout \<le> eb_MaxTimeout b \<and> timeout \<le> MaxActionTimeoutSeconds)"

definition action_ok :: "RuntimeProfile \<Rightarrow> ActionSpec \<Rightarrow> bool" where
  "action_ok p a \<longleftrightarrow> id_ok (ac_ID a) \<and> entrypoint_ok (ac_Entrypoint a) \<and> target_ok (ac_Target a) \<and>
     inside_boundary p PermissionReadWrite (ac_BoundaryID a) (ac_Target a) (ac_TimeoutSeconds a) \<and>
     ac_ExpectedExitCodes a \<noteq> [] \<and> length (ac_ExpectedExitCodes a) \<le> 16 \<and>
     sorted (ac_ExpectedExitCodes a) \<and> distinct (ac_ExpectedExitCodes a) \<and>
     set (ac_ExpectedExitCodes a) \<subseteq> {0..255}"

definition assertion_ok :: "RuntimeProfile \<Rightarrow> AssertionSpec \<Rightarrow> bool" where
  "assertion_ok p a \<longleftrightarrow> id_ok (as_ID a) \<and> entrypoint_ok (as_Entrypoint a) \<and> target_ok (as_Target a) \<and>
     inside_boundary p PermissionReadOnly (as_BoundaryID a) (as_Target a) (as_TimeoutSeconds a)"

definition profile_ok :: "RuntimeProfile \<Rightarrow> bool" where
  "profile_ok p \<longleftrightarrow> Runtime_Valid (rp_Runtime p) \<and> required_ok MaxReferenceLength (rp_ProfileRevision p) \<and>
     required_ok MaxReferenceLength (rp_BaseImage p) \<and> NetworkScope_Valid (rp_Network p) \<and>
     required_ok MaxSummaryLength (rp_Topology p) \<and> ResourceLimits_Validate (rp_Resources p) = None \<and>
     length (rp_SoftwareVersions p) \<in> {1..64} \<and>
     (\<forall>(n, v)\<in>set (rp_SoftwareVersions p). id_ok n \<and> required_ok MaxIDLength v) \<and>
     length (rp_ExecutionBoundaries p) \<in> {1..MaxActionsPerPhase} \<and>
     (\<forall>b\<in>set (rp_ExecutionBoundaries p). boundary_ok b) \<and>
     distinct (map eb_ID (rp_ExecutionBoundaries p))"

definition phase_ok :: "RuntimeProfile \<Rightarrow> ValidationPhase \<Rightarrow> bool" where
  "phase_ok p ph \<longleftrightarrow> id_ok (vp_ID ph) \<and> PhaseExecution_Valid (vp_Execution ph) \<and>
     0 < vp_TimeoutSeconds ph \<and> vp_TimeoutSeconds ph \<le> MaxPhaseTimeoutSeconds \<and>
     length (vp_Actions ph) \<le> MaxActionsPerPhase \<and> length (vp_Assertions ph) \<le> MaxAssertionsPerPhase \<and>
     (vp_Actions ph \<noteq> [] \<or> vp_Assertions ph \<noteq> []) \<and>
     (\<forall>a\<in>set (vp_Actions ph). action_ok p a) \<and> (\<forall>a\<in>set (vp_Assertions ph). assertion_ok p a)"

definition action_ids :: "ValidationPhase list \<Rightarrow> string list" where
  "action_ids phs = concat (map (\<lambda>ph. map ac_ID (vp_Actions ph)) phs)"

definition assertion_ids :: "ValidationPhase list \<Rightarrow> string list" where
  "assertion_ids phs = concat (map (\<lambda>ph. map as_ID (vp_Assertions ph)) phs)"

definition lifecycle_ok :: "LifecyclePolicy \<Rightarrow> bool" where
  "lifecycle_ok p \<longleftrightarrow>
     lp_CreateTimeoutSeconds p \<in> {1..MaxLifecycleTimeout} \<and>
     lp_ResetTimeoutSeconds p \<in> {1..MaxLifecycleTimeout} \<and>
     lp_StopTimeoutSeconds p \<in> {1..MaxLifecycleTimeout} \<and>
     lp_ReapTimeoutSeconds p \<in> {1..MaxLifecycleTimeout} \<and>
     0 < lp_IdleTTLSeconds p \<and> lp_IdleTTLSeconds p \<le> lp_MaxLifetimeSeconds p \<and>
     lp_MaxLifetimeSeconds p \<le> MaxLifetimeSeconds"

lemma TargetLocation_Validate_None [valid_simps]:
  "TargetLocation_Validate t f = None \<longleftrightarrow> target_ok t"
  by (simp add: TargetLocation_Validate_def target_ok_def valid_simps)

lemma ExecutionBoundary_Validate_None [valid_simps]:
  "ExecutionBoundary_Validate b = None \<longleftrightarrow> boundary_ok b"
  by (auto simp: ExecutionBoundary_Validate_def boundary_ok_def valid_simps)

lemma RuntimeProfile_Validate_None [valid_simps]:
  "RuntimeProfile_Validate p = None \<longleftrightarrow> profile_ok p"
proof -
  have sv: "each_error (\<lambda>_ (name, version). first_error
        [validateID name f, requiredString version g MaxIDLength]) 0 xs = None \<longleftrightarrow>
      (\<forall>(n, v)\<in>set xs. id_ok n \<and> required_ok MaxIDLength v)" for f g xs
    by (subst each_error_None [where P = "\<lambda>(n, v). id_ok n \<and> required_ok MaxIDLength v"])
       (auto simp: valid_simps)
  have eb: "error_of (scan_unique eb_ID (\<lambda>_. ExecutionBoundary_Validate) d 0 [] xs) = None \<longleftrightarrow>
      (\<forall>b\<in>set xs. boundary_ok b) \<and> distinct (map eb_ID xs)" for d xs
    by (rule scan_unique_ok) (rule ExecutionBoundary_Validate_None)
  show ?thesis
    by (auto simp: RuntimeProfile_Validate_def profile_ok_def first_error_Cons first_error_Nil
        requiredString_None sv eb Suc_le_eq)
qed

lemma strict_sorted_codes:
  "sorted xs \<and> (\<forall>j<length xs. \<not> (xs ! j < 0 \<or> 255 < xs ! j \<or> (0 < j \<and> xs ! j = xs ! (j - 1)))) \<longleftrightarrow>
   sorted xs \<and> distinct xs \<and> set xs \<subseteq> {0..255::int}"
proof (intro iffI conjI; elim conjE)
  assume s: "sorted xs"
    and a: "\<forall>j<length xs. \<not> (xs ! j < 0 \<or> 255 < xs ! j \<or> (0 < j \<and> xs ! j = xs ! (j - 1)))"
  have "sorted_wrt (<) xs"
  proof (subst sorted_wrt_iff_nth_Suc_transp)
    show "transp ((<) :: int \<Rightarrow> _)" by simp
    show "\<forall>i. Suc i < length xs \<longrightarrow> xs ! i < xs ! Suc i"
      using s a by (metis Suc_lessD diff_Suc_1 lessI less_le nat_less_le not_less_eq
          sorted_iff_nth_mono zero_less_Suc)
  qed
  then show "distinct xs" by (simp add: strict_sorted_iff)
  show "set xs \<subseteq> {0..255}" using a by (auto simp: in_set_conv_nth not_less)
next
  assume "distinct xs" and r: "set xs \<subseteq> {0..255}"
  then have "0 < j \<Longrightarrow> j < length xs \<Longrightarrow> xs ! j \<noteq> xs ! (j - 1)" for j
    by (simp add: nth_eq_iff_index_eq)
  moreover have "j < length xs \<Longrightarrow> 0 \<le> xs ! j \<and> xs ! j \<le> 255" for j
    using r nth_mem by fastforce
  ultimately show "\<forall>j<length xs. \<not> (xs ! j < 0 \<or> 255 < xs ! j \<or> (0 < j \<and> xs ! j = xs ! (j - 1)))"
    by (auto simp: not_less)
qed auto

lemma ActionSpec_Validate_None [valid_simps]: "ActionSpec_Validate a p f = None \<longleftrightarrow> action_ok p a"
proof -
  have codes: "\<not> (length xs = 0 \<or> 16 < length xs \<or> \<not> sorted xs) \<and>
      each_error (\<lambda>i v. fail_if (v < 0 \<or> 255 < v \<or> (0 < i \<and> v = xs ! (i - 1))) e) 0 xs = None \<longleftrightarrow>
      xs \<noteq> [] \<and> length xs \<le> 16 \<and> sorted xs \<and> distinct xs \<and> set xs \<subseteq> {0..255}" for xs :: "int list" and e
    using strict_sorted_codes [of xs] by (auto simp: each_error_None_nth)
  show ?thesis
    using codes [of "ac_ExpectedExitCodes a" "invalid (f @ ''.expected_exit_codes'') ''must contain unique process exit codes''"]
    by (auto simp: ActionSpec_Validate_def action_ok_def inside_boundary_def first_error_Cons
        first_error_Nil validateID_None validateEntrypoint_None TargetLocation_Validate_None
        split: option.splits)
qed

lemma AssertionSpec_Validate_None [valid_simps]:
  "AssertionSpec_Validate a p f = None \<longleftrightarrow> assertion_ok p a"
  by (auto simp: AssertionSpec_Validate_def assertion_ok_def inside_boundary_def valid_simps
      split: option.splits)

lemma plan_phases_Inr:
  "plan_phases p i phIDs aIDs bIDs phs = Inr () \<longleftrightarrow>
     (\<forall>ph\<in>set phs. phase_ok p ph) \<and>
     distinct (map vp_ID phs) \<and> vp_ID ` set phs \<inter> set phIDs = {} \<and>
     distinct (action_ids phs) \<and> set (action_ids phs) \<inter> set aIDs = {} \<and>
     distinct (assertion_ids phs) \<and> set (assertion_ids phs) \<inter> set bIDs = {}"
proof (induction phs arbitrary: i phIDs aIDs bIDs)
  case Nil
  then show ?case by (simp add: action_ids_def assertion_ids_def)
next
  case (Cons ph phs)
  have ids: "action_ids (ph # phs) = map ac_ID (vp_Actions ph) @ action_ids phs"
    "assertion_ids (ph # phs) = map as_ID (vp_Assertions ph) @ assertion_ids phs"
    by (simp_all add: action_ids_def assertion_ids_def)
  show ?case
    by (simp only: plan_phases.simps Let_def check_Inr and_then_Inr_iff Cons.IH
        scan_unique_Inr [where P = "action_ok p", OF ActionSpec_Validate_None]
        scan_unique_Inr [where P = "assertion_ok p", OF AssertionSpec_Validate_None])
      (auto simp: first_error_Cons first_error_Nil validateID_None phase_ok_def ids)
qed

definition plan_ok :: "RuntimeProfile \<Rightarrow> ValidationPlan \<Rightarrow> bool" where
  "plan_ok p pl \<longleftrightarrow> pl_FormatVersion pl = FormatVersion \<and>
     length (pl_Phases pl) \<in> {1..MaxValidationPhases} \<and> (\<forall>ph\<in>set (pl_Phases pl). phase_ok p ph) \<and>
     distinct (map vp_ID (pl_Phases pl)) \<and> distinct (action_ids (pl_Phases pl)) \<and>
     distinct (assertion_ids (pl_Phases pl))"

lemma ValidationPlan_Validate_None [valid_simps]:
  "ValidationPlan_Validate pl p = None \<longleftrightarrow> plan_ok p pl"
  by (auto simp: ValidationPlan_Validate_def plan_ok_def valid_simps plan_phases_Inr Suc_le_eq)

lemma LifecyclePolicy_Validate_None [valid_simps]:
  "LifecyclePolicy_Validate p = None \<longleftrightarrow> lifecycle_ok p"
  by (auto simp: LifecyclePolicy_Validate_def lifecycle_ok_def first_error_Cons fail_if_def
      split: if_splits)

text \<open>The declarative contract of a spec.\<close>

definition spec_ok :: "RunnableSpec \<Rightarrow> bool" where
  "spec_ok s \<longleftrightarrow> rs_FormatVersion s = FormatVersion \<and> ContentIdentity_Validate (rs_Identity s) = None \<and>
     profile_ok (rs_RuntimeProfile s) \<and> SourceArchive_Validate (rs_Source s) = None \<and>
     length (rs_Initialization s) \<in> {1..MaxActionsPerPhase} \<and>
     (\<forall>a\<in>set (rs_Initialization s). action_ok (rs_RuntimeProfile s) a) \<and>
     plan_ok (rs_RuntimeProfile s) (rs_ValidationPlan s) \<and>
     ''initialization'' \<notin> set (map vp_ID (pl_Phases (rs_ValidationPlan s))) \<and>
     distinct (map ac_ID (rs_Initialization s) @ action_ids (pl_Phases (rs_ValidationPlan s))) \<and>
     lifecycle_ok (rs_LifecyclePolicy s)"

lemma RunnableSpec_Validate_None [valid_simps]: "RunnableSpec_Validate s = None \<longleftrightarrow> spec_ok s"
proof -
  let ?init = "rs_Initialization s"
  have res: "each_error (\<lambda>_ ph. first_error
        [fail_if (vp_ID ph = ''initialization'') e,
         each_error (\<lambda>_ a. fail_if (ac_ID a \<in> ac_ID ` set ?init) e') 0 (vp_Actions ph)]) 0 phs = None \<longleftrightarrow>
      ''initialization'' \<notin> set (map vp_ID phs) \<and>
      set (map ac_ID ?init) \<inter> set (action_ids phs) = {}" for e e' phs
    by (subst each_error_None [where P = "\<lambda>ph. vp_ID ph \<noteq> ''initialization'' \<and>
          (\<forall>a\<in>set (vp_Actions ph). ac_ID a \<notin> ac_ID ` set ?init)"])
       (simp_all add: first_error_Cons each_error_None [where P = "\<lambda>a. ac_ID a \<notin> ac_ID ` set ?init"],
        fastforce simp: action_ids_def disjoint_iff image_iff)
  show ?thesis
    unfolding RunnableSpec_Validate_def spec_ok_def
    by (simp only: first_error_Cons first_error_Nil res
        scan_unique_ok [where P = "action_ok (rs_RuntimeProfile s)", OF ActionSpec_Validate_None])
      (auto simp: valid_simps plan_ok_def Suc_le_eq)
qed

end
