(* ===== verification/RunnableExamples.thy ===== *)
theory RunnableExamples
  imports RunnableValidate
begin

section \<open>A concrete spec and revision\<close>

text \<open>
  One spec with an initialization action, one validation phase and two execution boundaries, and
  the revision built from it, for the witnesses. The encoders are concrete but trivial: they
  render a few fields of a value.
\<close>

definition example_target :: TargetLocation where
  "example_target = \<lparr>tl_Kind = ''container'', tl_ID = ''main''\<rparr>"

definition example_profile :: RuntimeProfile where
  "example_profile = \<lparr>rp_Runtime = RuntimeK8s, rp_ProfileRevision = ''p1'', rp_BaseImage = ''img'',
     rp_SoftwareVersions = [(''nginx'', ''1.25'')],
     rp_Resources = \<lparr>rl_CPU = ''1'', rl_MemoryBytes = 1, rl_EphemeralBytes = 1, rl_MaxProcesses = 1,
       rl_MaxConcurrentTasks = 1\<rparr>,
     rp_Network = NetworkIsolated, rp_Topology = ''single'',
     rp_ExecutionBoundaries =
       [\<lparr>eb_ID = ''rw'', eb_Target = example_target, eb_Permission = PermissionReadWrite,
         eb_Network = NetworkNone, eb_MaxTimeout = 60\<rparr>,
        \<lparr>eb_ID = ''ro'', eb_Target = example_target, eb_Permission = PermissionReadOnly,
         eb_Network = NetworkNone, eb_MaxTimeout = 60\<rparr>]\<rparr>"

definition example_init :: ActionSpec where
  "example_init = \<lparr>ac_ID = ''setup'', ac_Entrypoint = ''setup.sh'', ac_Target = example_target,
     ac_BoundaryID = ''rw'', ac_TimeoutSeconds = 10, ac_ExpectedExitCodes = [0]\<rparr>"

definition example_action :: ActionSpec where
  "example_action = \<lparr>ac_ID = ''break'', ac_Entrypoint = ''break.sh'', ac_Target = example_target,
     ac_BoundaryID = ''rw'', ac_TimeoutSeconds = 10, ac_ExpectedExitCodes = [0, 1]\<rparr>"

definition example_assertion :: AssertionSpec where
  "example_assertion = \<lparr>as_ID = ''broken'', as_Entrypoint = ''check.sh'', as_Target = example_target,
     as_BoundaryID = ''ro'', as_TimeoutSeconds = 10\<rparr>"

definition example_phase :: ValidationPhase where
  "example_phase = \<lparr>vp_ID = ''main'', vp_TimeoutSeconds = 60, vp_Execution = PhaseSequential,
     vp_Actions = [example_action], vp_Assertions = [example_assertion]\<rparr>"

definition zero_digest :: string where
  "zero_digest = ''sha256:'' @ replicate 64 (CHR ''0'')"

definition example_lifecycle :: LifecyclePolicy where
  "example_lifecycle = \<lparr>lp_CreateTimeoutSeconds = 600, lp_ResetTimeoutSeconds = 600,
     lp_StopTimeoutSeconds = 600, lp_ReapTimeoutSeconds = 600, lp_IdleTTLSeconds = 1800,
     lp_MaxLifetimeSeconds = 7200\<rparr>"

definition example_spec :: RunnableSpec where
  "example_spec = \<lparr>rs_FormatVersion = ''v1'',
     rs_Identity = \<lparr>ci_Kind = ''lab'', ci_ID = ''nginx'', ci_Revision = ''1''\<rparr>,
     rs_RuntimeProfile = example_profile,
     rs_Source = \<lparr>sa_FormatVersion = ''v1'', sa_Reference = ''src'', sa_Digest = zero_digest\<rparr>,
     rs_Initialization = [example_init],
     rs_ValidationPlan = \<lparr>pl_FormatVersion = ''v1'', pl_Phases = [example_phase]\<rparr>,
     rs_LifecyclePolicy = example_lifecycle\<rparr>"

definition example_codec :: codec where
  "example_codec = \<lparr>cd_spec = (\<lambda>s. ci_ID (rs_Identity s)), cd_profile = rp_ProfileRevision,
     cd_revision = (\<lambda>r. ar_ProviderReference (rr_Artifact r)),
     cd_report = (\<lambda>r. Inr (vr_RunnableRevisionDigest r)),
     cd_blank = bp_Image, cd_capture = (\<lambda>c. oc_Stdout c @ oc_Stderr c)\<rparr>"

definition example_revision :: RunnableRevision where
  "example_revision = \<lparr>rr_FormatVersion = ''v1'', rr_Spec = example_spec,
     rr_Artifact = \<lparr>ar_FormatVersion = ''v1'', ar_Runtime = RuntimeK8s,
       ar_ProviderReference = ''registry/img@'' @ zero_digest, ar_ArtifactDigest = zero_digest,
       ar_BuiltFromSpecDigest = digest_bytes ''nginx'', ar_BuilderVersion = ''b1''\<rparr>\<rparr>"

lemma example_parts_valid:
  "ContentIdentity_Validate (rs_Identity example_spec) = None"
  "RuntimeProfile_Validate example_profile = None"
  "SourceArchive_Validate (rs_Source example_spec) = None"
  "ActionSpec_Validate example_init example_profile ''a'' = None"
  "ActionSpec_Validate example_action example_profile ''a'' = None"
  "AssertionSpec_Validate example_assertion example_profile ''a'' = None"
  "LifecyclePolicy_Validate example_lifecycle = None"
  "validateID ''main'' ''id'' = None"
  by code_simp+

lemma example_phase_ok: "phase_ok example_profile example_phase"
  using example_parts_valid(5,6,8)
  by (simp add: phase_ok_def valid_simps example_phase_def PhaseExecution_Valid_def limit_defs)

lemma example_plan_ok: "plan_ok example_profile (rs_ValidationPlan example_spec)"
  using example_phase_ok
  by (simp add: plan_ok_def example_spec_def action_ids_def assertion_ids_def limit_defs)
    (simp add: example_phase_def)

lemma example_spec_ok: "spec_ok example_spec"
proof -
  have p: "rs_RuntimeProfile example_spec = example_profile" "rs_Initialization example_spec = [example_init]"
    "rs_LifecyclePolicy example_spec = example_lifecycle" "rs_FormatVersion example_spec = FormatVersion"
    "pl_Phases (rs_ValidationPlan example_spec) = [example_phase]"
    by (simp_all add: example_spec_def FormatVersion_def)
  have ids: "vp_ID example_phase = ''main''" "ac_ID example_init = ''setup''"
    "action_ids [example_phase] = [''break'']"
    by (simp_all add: example_phase_def example_init_def action_ids_def example_action_def)
  have "profile_ok example_profile" "action_ok example_profile example_init" "lifecycle_ok example_lifecycle"
    using example_parts_valid(2,4,7)
    by (simp_all only: RuntimeProfile_Validate_None ActionSpec_Validate_None LifecyclePolicy_Validate_None)
  then have all: "profile_ok example_profile" "\<forall>a\<in>set [example_init]. action_ok example_profile a"
    "lifecycle_ok example_lifecycle"
    by simp_all
  have len: "length [example_init] \<in> {1..MaxActionsPerPhase}"
    by (simp add: MaxActionsPerPhase_def)
  have ids_ok: "''initialization'' \<notin> set (map vp_ID [example_phase])"
    "distinct (map ac_ID [example_init] @ action_ids [example_phase])"
    by (simp_all add: ids)
  show ?thesis
    unfolding spec_ok_def p
    by (intro conjI refl example_parts_valid(1,3) all len example_plan_ok ids_ok)
qed

lemma example_spec_valid: "RunnableSpec_Validate example_spec = None"
  using example_spec_ok by (simp add: RunnableSpec_Validate_None)

lemma zero_digest_valid: "ValidDigest zero_digest"
  by code_simp

lemma example_codec_simps [simp]:
  "cd_spec example_codec s = ci_ID (rs_Identity s)" "cd_profile example_codec p = rp_ProfileRevision p"
  "cd_revision example_codec r = ar_ProviderReference (rr_Artifact r)"
  "cd_report example_codec v = Inr (vr_RunnableRevisionDigest v)"
  by (simp_all add: example_codec_def)

lemma example_artifact_valid: "ArtifactReference_Validate (rr_Artifact example_revision) = None"
proof -
  have "requiredString (''registry/img@'' @ zero_digest) ''r'' MaxReferenceLength = None"
    "requiredString ''b1'' ''r'' MaxIDLength = None"
    by code_simp+
  moreover have "sublist (''@'' @ zero_digest) (''registry/img@'' @ zero_digest)"
    by code_simp
  ultimately show ?thesis
    unfolding ArtifactReference_Validate_def
    by (simp add: example_revision_def first_error_Cons zero_digest_valid requiredString_None
        Runtime_Valid_def FormatVersion_def del: append_Cons)
qed

lemma example_revision_valid: "RunnableRevision_Validate example_codec example_revision = None"
proof -
  have "rr_Spec example_revision = example_spec" "rr_FormatVersion example_revision = FormatVersion"
    "ar_Runtime (rr_Artifact example_revision) = rp_Runtime (rs_RuntimeProfile example_spec)"
    "ar_BuiltFromSpecDigest (rr_Artifact example_revision) = digest_bytes (cd_spec example_codec example_spec)"
    by (simp_all add: example_revision_def example_spec_def example_profile_def FormatVersion_def)
  then show ?thesis
    by (simp add: RunnableRevision_Validate_def example_artifact_valid example_spec_valid
        RunnableSpec_Digest_def first_error_Cons)
qed

subsection \<open>Properties of the validators\<close>

text \<open>
  C40 \<open>RunnableSpec.Validate\<close> returns no error for exactly the specs that meet the declarative
  contract \<open>spec_ok\<close>: every action and assertion selects a boundary that the profile declares for
  its target with the right permission and stays within its time limit, entrypoints are cleaned
  relative paths, identifiers are stable and unique across initialization and all phases, and
  every limit of the platform holds.
\<close>

theorem spec_validation_contract: "RunnableSpec_Validate s = None \<longleftrightarrow> spec_ok s"
  by (rule RunnableSpec_Validate_None)

text \<open>
  In a spec that validates, no mutating action runs outside a read-write boundary and no
  assertion outside a read-only boundary of the frozen runtime profile: initialization and phase
  actions name a declared boundary of the same target whose time limit covers them, and no
  boundary serves both an action and an assertion.
\<close>

theorem spec_confines_execution:
  assumes "RunnableSpec_Validate s = None"
    and "a \<in> set (rs_Initialization s) \<or> (\<exists>ph\<in>set (pl_Phases (rs_ValidationPlan s)). a \<in> set (vp_Actions ph))"
    and "ph \<in> set (pl_Phases (rs_ValidationPlan s))" "b \<in> set (vp_Assertions ph)"
  shows "\<exists>w\<in>set (rp_ExecutionBoundaries (rs_RuntimeProfile s)).
      \<exists>r\<in>set (rp_ExecutionBoundaries (rs_RuntimeProfile s)).
        eb_ID w = ac_BoundaryID a \<and> eb_Target w = ac_Target a \<and> eb_Permission w = PermissionReadWrite \<and>
        0 < ac_TimeoutSeconds a \<and> ac_TimeoutSeconds a \<le> eb_MaxTimeout w \<and> eb_MaxTimeout w \<le> 3600 \<and>
        eb_ID r = as_BoundaryID b \<and> eb_Target r = as_Target b \<and> eb_Permission r = PermissionReadOnly \<and>
        0 < as_TimeoutSeconds b \<and> as_TimeoutSeconds b \<le> eb_MaxTimeout r \<and> eb_MaxTimeout r \<le> 3600 \<and>
        ac_BoundaryID a \<noteq> as_BoundaryID b"
proof -
  let ?p = "rs_RuntimeProfile s"
  have ok: "spec_ok s" using assms(1) by (simp add: RunnableSpec_Validate_None)
  have bound: "eb_MaxTimeout x \<le> 3600" if "x \<in> set (rp_ExecutionBoundaries ?p)" for x
    using ok that by (auto simp: spec_ok_def profile_ok_def boundary_ok_def MaxActionTimeoutSeconds_def)
  have "action_ok ?p a" using ok assms(2) by (auto simp: spec_ok_def plan_ok_def phase_ok_def)
  then obtain w where w: "profile_boundary ?p (ac_BoundaryID a) = Some w" "eb_Target w = ac_Target a"
    "eb_Permission w = PermissionReadWrite" "0 < ac_TimeoutSeconds a" "ac_TimeoutSeconds a \<le> eb_MaxTimeout w"
    by (auto simp: action_ok_def inside_boundary_def)
  have "assertion_ok ?p b" using ok assms(3,4) by (auto simp: spec_ok_def plan_ok_def phase_ok_def)
  then obtain r where r: "profile_boundary ?p (as_BoundaryID b) = Some r" "eb_Target r = as_Target b"
    "eb_Permission r = PermissionReadOnly" "0 < as_TimeoutSeconds b" "as_TimeoutSeconds b \<le> eb_MaxTimeout r"
    by (auto simp: assertion_ok_def inside_boundary_def)
  have "ac_BoundaryID a \<noteq> as_BoundaryID b" using w r by auto
  moreover have "w \<in> set (rp_ExecutionBoundaries ?p)" "eb_ID w = ac_BoundaryID a"
    "r \<in> set (rp_ExecutionBoundaries ?p)" "eb_ID r = as_BoundaryID b"
    using w(1) r(1) by (auto simp: profile_boundary_def find_Some_iff)
  ultimately show ?thesis using w r bound by blast
qed

lemma spec_confines_execution_witness:
  "\<exists>w\<in>set (rp_ExecutionBoundaries example_profile). \<exists>r\<in>set (rp_ExecutionBoundaries example_profile).
     eb_ID w = ''rw'' \<and> eb_ID r = ''ro'' \<and> eb_MaxTimeout w \<le> 3600"
proof -
  have "rs_RuntimeProfile example_spec = example_profile"
    "example_init \<in> set (rs_Initialization example_spec)"
    "example_phase \<in> set (pl_Phases (rs_ValidationPlan example_spec))"
    "example_assertion \<in> set (vp_Assertions example_phase)"
    "ac_BoundaryID example_init = ''rw''" "as_BoundaryID example_assertion = ''ro''"
    by (simp_all add: example_spec_def example_phase_def example_init_def example_assertion_def)
  then show ?thesis
    using spec_confines_execution [of example_spec example_init example_phase example_assertion,
        OF example_spec_valid] by fastforce
qed

text \<open>
  An entrypoint that validates, other than \<open>..\<close> itself, is a relative path no segment of
  which is a parent reference, so it names a file inside the extracted archive.
\<close>

theorem entrypoint_stays_inside:
  assumes "validateEntrypoint v field = None" "trim v \<noteq> ''..''"
  shows "\<not> is_abs (trim v) \<and> ''..'' \<notin> set (path_segments (trim v))"
  using assms cleaned_no_dots [of "trim v"] by (auto simp: validateEntrypoint_None entrypoint_ok_def)

lemma entrypoint_stays_inside_witness:
  "\<not> is_abs (trim '' scripts/setup.sh'') \<and> ''..'' \<notin> set (path_segments (trim '' scripts/setup.sh''))"
  by (rule entrypoint_stays_inside) (code_simp+)

text \<open>
  The check refuses the prefix \<open>../\<close> but not the parent directory itself: \<open>..\<close> is accepted as
  an entrypoint, although it leaves the archive.
\<close>

theorem entrypoint_accepts_parent: "validateEntrypoint ''..'' field = None"
proof -
  have "entrypoint_ok ''..''" by code_simp
  then show ?thesis by (simp add: validateEntrypoint_None)
qed

text \<open>
  A revision that validates is bound to its spec by content: its artifact was built from the
  digest of exactly this spec, runs on the runtime of its profile, and its provider reference
  contains the artifact's digest behind an \<open>@\<close>; two revisions with one artifact therefore have
  specs with the same digest.
\<close>

theorem revision_binds_spec:
  assumes "RunnableRevision_Validate cd r = None"
  shows "RunnableSpec_Digest cd (rr_Spec r) = Inr (ar_BuiltFromSpecDigest (rr_Artifact r)) \<and>
    ar_Runtime (rr_Artifact r) = rp_Runtime (rs_RuntimeProfile (rr_Spec r)) \<and>
    sublist (''@'' @ ar_ArtifactDigest (rr_Artifact r)) (ar_ProviderReference (rr_Artifact r)) \<and>
    ValidDigest (ar_ArtifactDigest (rr_Artifact r)) \<and>
    (RunnableRevision_Validate cd r' = None \<and> rr_Artifact r' = rr_Artifact r \<longrightarrow>
       RunnableSpec_Digest cd (rr_Spec r') = RunnableSpec_Digest cd (rr_Spec r))"
proof -
  have bound: "RunnableSpec_Digest cd (rr_Spec q) = Inr (ar_BuiltFromSpecDigest (rr_Artifact q)) \<and>
      ar_Runtime (rr_Artifact q) = rp_Runtime (rs_RuntimeProfile (rr_Spec q)) \<and>
      ArtifactReference_Validate (rr_Artifact q) = None" if "RunnableRevision_Validate cd q = None" for q
    using that
    by (cases "RunnableSpec_Digest cd (rr_Spec q)")
      (simp_all add: RunnableRevision_Validate_def first_error_Cons)
  show ?thesis
    using bound [OF assms] bound [of r']
    by (simp add: ArtifactReference_Validate_def first_error_Cons)
qed

lemma revision_binds_spec_witness:
  "RunnableSpec_Digest example_codec example_spec =
     Inr (ar_BuiltFromSpecDigest (rr_Artifact example_revision))"
  using revision_binds_spec [OF example_revision_valid, of example_revision]
  by (simp add: example_revision_def)

end
