(* ===== verification/RunnableReport.thy ===== *)
theory RunnableReport
  imports RunnableExamples
begin

section \<open>Verification reports, stored revisions and execution output\<close>

text \<open>
  The second half of \<open>internal/domain/runnable/validate.go\<close> (results, machine verdict, report),
  with \<open>persistence.go\<close>, \<open>output.go\<close> and \<open>assertion_output.go\<close>. The lemmas characterise the
  machine verdict of a complete set of phase results and the reports that validation accepts.
\<close>

subsection \<open>Parts of a report\<close>

definition ImmutableReference_Validate :: "ImmutableReference \<Rightarrow> string \<Rightarrow> go_error option" where
  "ImmutableReference_Validate r field = first_error
     [requiredString (ir_Reference r) (field @ ''.reference'') MaxReferenceLength,
      fail_if (\<not> ValidDigest (ir_Digest r) \<or> ir_SizeBytes r < 0)
        (invalid field ''must identify immutable bounded output'')]"

definition EnvironmentIdentity_Validate :: "EnvironmentIdentity \<Rightarrow> go_error option" where
  "EnvironmentIdentity_Validate e = first_error
     [requiredString (ei_ID e) ''environment.id'' MaxIDLength,
      validateID (ei_Provider e) ''environment.provider'',
      fail_if (\<not> ValidDigest (ei_ProfileDigest e))
        (invalid ''environment.profile_digest'' ''must be a sha256 digest'')]"

definition VerificationFailure_Validate :: "VerificationFailure \<Rightarrow> go_error option" where
  "VerificationFailure_Validate f = first_error
     [fail_if (\<not> FailureClass_Valid (vf_Class f))
        (unsupported (FailureClass_text (vf_Class f)) ''verification.failure.class''),
      validateID (vf_Component f) ''verification.failure.component'',
      validateID (vf_Reason f) ''verification.failure.reason'',
      requiredString (vf_Message f) ''verification.failure.message'' MaxSummaryLength]"

definition ActionResult_Validate :: "ActionResult \<Rightarrow> go_error option" where
  "ActionResult_Validate r = first_error
     [validateID (ares_ID r) ''verification.action.id'',
      requiredString (ares_Summary r) ''verification.action.summary'' MaxSummaryLength,
      fail_if (MaxOutputReferenceCount < length (ares_Outputs r))
        (invalid ''verification.action.outputs'' ''exceeds the output reference limit''),
      each_error (\<lambda>_ out. ImmutableReference_Validate out ''verification.action.outputs'')
        0 (ares_Outputs r)]"

definition AssertionResult_Validate :: "AssertionResult \<Rightarrow> go_error option" where
  "AssertionResult_Validate r = first_error
     [validateID (bres_ID r) ''verification.assertion.id'',
      requiredString (bres_Summary r) ''verification.assertion.summary'' MaxSummaryLength,
      fail_if (MaxDetailsLength < length (bres_Details r) \<or>
               MaxOutputReferenceCount < length (bres_Outputs r))
        (invalid ''verification.assertion'' ''exceeds output limits''),
      each_error (\<lambda>_ out. ImmutableReference_Validate out ''verification.assertion.outputs'')
        0 (bres_Outputs r)]"

subsection \<open>The machine verdict\<close>

text \<open>
  The loop of \<open>computePassed\<close> over the actions of one phase, and its loop over the assertions;
  the lengths were compared before, so pairing the lists is the indexing of the code.
\<close>

definition action_result_error :: "ActionSpec \<Rightarrow> ActionResult \<Rightarrow> go_error option" where
  "action_result_error action item = first_error
     [fail_if (ares_ID item \<noteq> ac_ID action)
        (NewArtifactFailure ''action-order''
           ''verification report action order does not match validation plan''),
      map_option (\<lambda>e. NewArtifactFailure ''action-result'' (err_text e)) (ActionResult_Validate item),
      fail_if (ares_ExitCode item \<notin> set (ac_ExpectedExitCodes action))
        (NewArtifactFailure ''action-exit'' ''action exit result does not satisfy its contract'')]"

definition assertion_result_error :: "AssertionSpec \<Rightarrow> AssertionResult \<Rightarrow> go_error option" where
  "assertion_result_error assertion item = first_error
     [fail_if (bres_ID item \<noteq> as_ID assertion)
        (NewArtifactFailure ''assertion-order''
           ''verification report assertion order does not match validation plan''),
      map_option (\<lambda>e. NewArtifactFailure ''assertion-result'' (err_text e))
        (AssertionResult_Validate item)]"

fun assertion_loop :: "bool \<Rightarrow> (AssertionSpec \<times> AssertionResult) list \<Rightarrow> go_error + bool" where
  "assertion_loop passed [] = Inr passed"
| "assertion_loop passed ((assertion, item) # rest) =
     check (assertion_result_error assertion item)
       (assertion_loop (passed \<and> bres_Satisfied item) rest)"

fun phase_loop :: "bool \<Rightarrow> (ValidationPhase \<times> PhaseResult) list \<Rightarrow> go_error + bool" where
  "phase_loop passed [] = Inr passed"
| "phase_loop passed ((specPhase, result) # rest) =
     check (first_error
       [fail_if (pr_ID result \<noteq> vp_ID specPhase)
          (NewArtifactFailure ''phase-order''
             ''verification report phase order does not match validation plan''),
        fail_if (length (pr_Actions result) \<noteq> length (vp_Actions specPhase) \<or>
                 length (pr_Assertions result) \<noteq> length (vp_Assertions specPhase))
          (NewArtifactFailure ''result-coverage''
             ''verification report does not cover every declared result''),
        each_error (\<lambda>_ (action, item). action_result_error action item) 0
          (zip (vp_Actions specPhase) (pr_Actions result))])
     (and_then (assertion_loop passed (zip (vp_Assertions specPhase) (pr_Assertions result)))
       (\<lambda>passed'. phase_loop passed' rest))"

definition computePassed :: "ValidationPhase list \<Rightarrow> PhaseResult list \<Rightarrow> go_error + bool" where
  "computePassed expected phases =
     (if length phases \<noteq> length expected
      then Inl (NewArtifactFailure ''phase-coverage''
                  ''verification report does not cover every validation phase'')
      else phase_loop True (zip expected phases))"

definition ComputePassed :: "ValidationPlan \<Rightarrow> PhaseResult list \<Rightarrow> go_error + bool" where
  "ComputePassed plan phases = computePassed (pl_Phases plan) phases"

definition initialization_phase :: "RunnableSpec \<Rightarrow> ValidationPhase" where
  "initialization_phase s = \<lparr>vp_ID = ''initialization'', vp_TimeoutSeconds = 0,
     vp_Execution = PhaseExecutionOther [], vp_Actions = rs_Initialization s, vp_Assertions = []\<rparr>"

definition ComputeSpecPassed :: "RunnableSpec \<Rightarrow> PhaseResult list \<Rightarrow> go_error + bool" where
  "ComputeSpecPassed s phases =
     computePassed (initialization_phase s # pl_Phases (rs_ValidationPlan s)) phases"

subsection \<open>Reports\<close>

definition VerificationReport_Validate ::
  "codec \<Rightarrow> VerificationReport \<Rightarrow> RunnableRevision \<Rightarrow> go_error option"
where
  "VerificationReport_Validate cd r revision = first_error
     [fail_if (vr_FormatVersion r \<noteq> FormatVersion)
        (unsupported (vr_FormatVersion r) ''verification.format_version''),
      map_option (Wrap ''verification report has invalid runnable revision'')
        (RunnableRevision_Validate cd revision),
      (case RunnableRevision_Digest cd revision of
         Inl e \<Rightarrow> Some (Wrap ''verification report revision digest'' e)
       | Inr d \<Rightarrow> fail_if (vr_RunnableRevisionDigest r \<noteq> d)
           (Msg ''verification report is bound to another runnable revision'')),
      EnvironmentIdentity_Validate (vr_Environment r),
      (case RuntimeProfile_Digest cd (rs_RuntimeProfile (rr_Spec revision)) of
         Inl e \<Rightarrow> Some (Wrap ''verification report profile digest'' e)
       | Inr d \<Rightarrow> fail_if (ei_ProfileDigest (vr_Environment r) \<noteq> d)
           (Msg ''verification report environment is bound to another runtime profile'')),
      fail_if (vr_Attempt r \<le> 0 \<or> vr_CreatedAt r = 0)
        (invalid ''verification'' ''requires a positive attempt and creation time''),
      (let computed = ComputeSpecPassed (rr_Spec revision) (vr_Phases r) in
       case vr_Failure r of
         None \<Rightarrow>
           (case computed of
              Inl e \<Rightarrow> Some e
            | Inr b \<Rightarrow> fail_if (vr_Passed r \<noteq> b)
                (Msg ''verification report passed does not match machine result''))
       | Some f \<Rightarrow> first_error
           [VerificationFailure_Validate f,
            fail_if (vr_Passed r) (Msg ''failed verification report cannot pass''),
            fail_if (vf_Class f = FailureArtifact \<and> computed = Inr True)
              (Msg ''artifact failure conflicts with successful phase results''),
            fail_if (vf_Class f = FailureInfrastructure \<and>
                     length (pl_Phases (rs_ValidationPlan (rr_Spec revision))) + 1 < length (vr_Phases r))
              (Msg ''infrastructure failure reports too many phases'')])]"

definition VerificationReport_CanonicalJSON ::
  "codec \<Rightarrow> VerificationReport \<Rightarrow> RunnableRevision \<Rightarrow> go_error + string"
where
  "VerificationReport_CanonicalJSON cd r revision =
     check (VerificationReport_Validate cd r revision) (cd_report cd r)"

definition VerificationReport_Digest ::
  "codec \<Rightarrow> VerificationReport \<Rightarrow> RunnableRevision \<Rightarrow> go_error + string"
where
  "VerificationReport_Digest cd r revision =
     check (map_option (Wrap ''verification report digest'') (VerificationReport_Validate cd r revision))
       (and_then (cd_report cd r) (\<lambda>bytes. Inr (digest_bytes bytes)))"

subsection \<open>Stored revisions and reports (\<open>persistence.go\<close>)\<close>

definition RevisionReference_Validate :: "RevisionReference \<Rightarrow> go_error option" where
  "RevisionReference_Validate r = first_error
     [validateID (ref_ID r) ''runnable_revision_reference.id'',
      fail_if (\<not> ValidDigest (ref_Digest r))
        (invalid ''runnable_revision_reference.digest'' ''must be a sha256 digest'')]"

definition StoredRevision_Validate :: "codec \<Rightarrow> StoredRevision \<Rightarrow> go_error option" where
  "StoredRevision_Validate cd r = first_error
     [RevisionReference_Validate (sr_Reference r),
      RunnableRevision_Validate cd (sr_Revision r),
      (case RunnableRevision_Digest cd (sr_Revision r) of
         Inl e \<Rightarrow> Some e
       | Inr d \<Rightarrow> fail_if (ref_Digest (sr_Reference r) \<noteq> d \<or> sr_CreatedAt r = 0)
           (Msg ''stored runnable revision has an invalid digest or creation time''))]"

definition VerificationReportReference_Validate :: "VerificationReportReference \<Rightarrow> go_error option" where
  "VerificationReportReference_Validate r = first_error
     [validateID (vref_ID r) ''verification_report_reference.id'',
      fail_if (\<not> ValidDigest (vref_Digest r))
        (invalid ''verification_report_reference.digest'' ''must be a sha256 digest'')]"

definition StoredVerificationReport_Validate :: "codec \<Rightarrow> StoredVerificationReport \<Rightarrow> go_error option" where
  "StoredVerificationReport_Validate cd r = first_error
     [VerificationReportReference_Validate (svr_Reference r),
      VerificationReport_Validate cd (svr_Report r) (svr_RunnableRevision r),
      (case VerificationReport_Digest cd (svr_Report r) (svr_RunnableRevision r) of
         Inl e \<Rightarrow> Some e
       | Inr d \<Rightarrow> fail_if (vref_Digest (svr_Reference r) \<noteq> d \<or> svr_CreatedAt r = 0)
           (Msg ''stored verification report has an invalid digest or creation time''))]"

subsection \<open>Execution output (\<open>output.go\<close>, \<open>assertion_output.go\<close>)\<close>

definition MaxExecutionOutputBytes :: nat where "MaxExecutionOutputBytes = 512 * 1024"
definition MaxAssertionOutputBytes :: nat where "MaxAssertionOutputBytes = 256 * 1024"

text \<open>The subtraction is on Go integers, so the comparison is on \<open>int\<close>.\<close>

definition OutputCapture_Validate :: "OutputCapture \<Rightarrow> go_error option" where
  "OutputCapture_Validate c =
     fail_if (MaxExecutionOutputBytes < length (oc_Stdout c) \<or>
              int MaxExecutionOutputBytes - int (length (oc_Stdout c)) < int (length (oc_Stderr c)))
       (Msg ''runnable execution output exceeds the platform limit'')"

text \<open>Nil and empty streams are one list here, so the code's replacement of nil needs no step.\<close>

definition OutputCapture_CanonicalJSON :: "codec \<Rightarrow> OutputCapture \<Rightarrow> go_error + string" where
  "OutputCapture_CanonicalJSON cd c = check (OutputCapture_Validate c) (Inr (cd_capture cd c))"

definition OutputCapture_Reference ::
  "codec \<Rightarrow> OutputCapture \<Rightarrow> go_error + ImmutableReference \<times> string"
where
  "OutputCapture_Reference cd c =
     and_then (OutputCapture_CanonicalJSON cd c) (\<lambda>encoded. Inr
       (\<lparr>ir_Reference = ''runnable-output://sha256/'' @ sha256_hex encoded,
         ir_Digest = ''sha256:'' @ sha256_hex encoded,
         ir_SizeBytes = int (length encoded)\<rparr>, encoded))"

text \<open>
  The document of the assertion protocol, as the strict decoder yields it: a missing
  \<open>satisfied\<close> is a nil pointer. The decoder is a parameter: it yields the document and whether
  the stream ends after it, or the decoding error.
\<close>

record AssertionEntry =
  ae_ID :: string
  ae_Satisfied :: "bool option"
  ae_Summary :: string
  ae_Details :: string

definition ParseAssertionOutput ::
  "(string \<Rightarrow> go_error + (AssertionEntry list \<times> bool)) \<Rightarrow> string \<Rightarrow> string \<Rightarrow> ImmutableReference list
     \<Rightarrow> go_error + AssertionResult"
where
  "ParseAssertionOutput decode raw expectedID outputs =
     (if length raw = 0 \<or> MaxAssertionOutputBytes < length raw
      then Inl (Msg ''assertion output is empty or exceeds the protocol limit'')
      else case decode raw of
        Inl e \<Rightarrow> Inl (Wrap ''assertion output is not strict JSON'' e)
      | Inr (document, at_end) \<Rightarrow>
          if \<not> at_end then Inl (Msg ''assertion output contains trailing JSON'')
          else case document of
            [entry] \<Rightarrow>
              (case ae_Satisfied entry of
                 Some satisfied \<Rightarrow>
                   if ae_ID entry \<noteq> expectedID
                   then Inl (Msg ''assertion output must report its declared id exactly once'')
                   else let result = \<lparr>bres_ID = ae_ID entry, bres_Satisfied = satisfied,
                          bres_Summary = ae_Summary entry, bres_Details = ae_Details entry,
                          bres_Outputs = outputs\<rparr> in
                        check (AssertionResult_Validate result) (Inr result)
               | None \<Rightarrow> Inl (Msg ''assertion output must report its declared id exactly once''))
          | _ \<Rightarrow> Inl (Msg ''assertion output must report its declared id exactly once''))"

subsection \<open>Ingress of contracts (\<open>json.go\<close>, \<open>digest.go\<close>)\<close>

text \<open>
  What the second call of a JSON decoder finds behind the first value: the end of the input,
  another value, or a syntax error. The first call is a parameter that yields the value, with
  unknown fields refused, and that rest.
\<close>

datatype json_rest = AtEOF | AnotherValue | RestError go_error

definition DecodeStrictJSON :: "(string \<Rightarrow> go_error + ('a \<times> json_rest)) \<Rightarrow> string \<Rightarrow> go_error + 'a" where
  "DecodeStrictJSON decode raw = (case decode raw of
     Inl e \<Rightarrow> Inl (Wrap ''decode runnable JSON'' e)
   | Inr (val, AtEOF) \<Rightarrow> Inr val
   | Inr (val, AnotherValue) \<Rightarrow> Inl (Msg ''decode runnable JSON: multiple JSON values'')
   | Inr (val, RestError e) \<Rightarrow> Inl (Wrap ''decode runnable JSON'' e))"

definition ParseRunnableSpec ::
  "(string \<Rightarrow> go_error + (RunnableSpec \<times> json_rest)) \<Rightarrow> string \<Rightarrow> go_error + RunnableSpec"
where
  "ParseRunnableSpec decode raw =
     and_then (DecodeStrictJSON decode raw) (\<lambda>v. check (RunnableSpec_Validate v) (Inr v))"

definition ParseArtifactReference ::
  "(string \<Rightarrow> go_error + (ArtifactReference \<times> json_rest)) \<Rightarrow> string \<Rightarrow> go_error + ArtifactReference"
where
  "ParseArtifactReference decode raw =
     and_then (DecodeStrictJSON decode raw) (\<lambda>v. check (ArtifactReference_Validate v) (Inr v))"

definition ParseRunnableRevision ::
  "codec \<Rightarrow> (string \<Rightarrow> go_error + (RunnableRevision \<times> json_rest)) \<Rightarrow> string \<Rightarrow> go_error + RunnableRevision"
where
  "ParseRunnableRevision cd decode raw =
     and_then (DecodeStrictJSON decode raw) (\<lambda>v. check (RunnableRevision_Validate cd v) (Inr v))"

definition ParseOutputCapture ::
  "(string \<Rightarrow> go_error + (OutputCapture \<times> json_rest)) \<Rightarrow> string \<Rightarrow> go_error + OutputCapture"
where
  "ParseOutputCapture decode raw =
     and_then (DecodeStrictJSON decode raw) (\<lambda>v. check (OutputCapture_Validate v) (Inr v))"

definition RunnableSpec_CanonicalJSON :: "codec \<Rightarrow> RunnableSpec \<Rightarrow> go_error + string" where
  "RunnableSpec_CanonicalJSON cd s = check (RunnableSpec_Validate s) (Inr (cd_spec cd s))"

definition RunnableRevision_CanonicalJSON :: "codec \<Rightarrow> RunnableRevision \<Rightarrow> go_error + string" where
  "RunnableRevision_CanonicalJSON cd r = check (RunnableRevision_Validate cd r) (Inr (cd_revision cd r))"

subsection \<open>The machine verdict of complete results\<close>

definition action_matches :: "ActionSpec \<Rightarrow> ActionResult \<Rightarrow> bool" where
  "action_matches a r \<longleftrightarrow> ares_ID r = ac_ID a \<and> ActionResult_Validate r = None \<and>
     ares_ExitCode r \<in> set (ac_ExpectedExitCodes a)"

definition assertion_matches :: "AssertionSpec \<Rightarrow> AssertionResult \<Rightarrow> bool" where
  "assertion_matches a r \<longleftrightarrow> bres_ID r = as_ID a \<and> AssertionResult_Validate r = None"

definition phase_matches :: "ValidationPhase \<Rightarrow> PhaseResult \<Rightarrow> bool" where
  "phase_matches ph r \<longleftrightarrow> pr_ID r = vp_ID ph \<and>
     list_all2 action_matches (vp_Actions ph) (pr_Actions r) \<and>
     list_all2 assertion_matches (vp_Assertions ph) (pr_Assertions r)"

definition all_satisfied :: "PhaseResult list \<Rightarrow> bool" where
  "all_satisfied rs \<longleftrightarrow> (\<forall>r\<in>set rs. \<forall>b\<in>set (pr_Assertions r). bres_Satisfied b)"

lemma action_result_error_None: "action_result_error a r = None \<longleftrightarrow> action_matches a r"
  by (auto simp: action_result_error_def action_matches_def valid_simps)

lemma assertion_result_error_None: "assertion_result_error a r = None \<longleftrightarrow> assertion_matches a r"
  by (auto simp: assertion_result_error_def assertion_matches_def valid_simps)

lemma action_loop_None:
  assumes "length as = length rs"
  shows "each_error (\<lambda>_ (a, r). action_result_error a r) i (zip as rs) = None \<longleftrightarrow>
    list_all2 action_matches as rs"
  using assms
  by (subst each_error_None [where P = "\<lambda>(a, r). action_matches a r"])
    (auto simp: action_result_error_None list_all2_iff)

lemma assertion_loop_Inr:
  assumes "length as = length rs"
  shows "assertion_loop p (zip as rs) = Inr b \<longleftrightarrow>
    list_all2 assertion_matches as rs \<and> b = (p \<and> (\<forall>r\<in>set rs. bres_Satisfied r))"
  using assms
  by (induction as rs arbitrary: p rule: list_induct2)
    (auto simp: check_Inr assertion_result_error_None)

lemma phase_loop_Inr:
  assumes "length phs = length rs"
  shows "phase_loop p (zip phs rs) = Inr b \<longleftrightarrow>
    list_all2 phase_matches phs rs \<and> b = (p \<and> all_satisfied rs)"
  using assms
proof (induction phs rs arbitrary: p rule: list_induct2)
  case Nil
  then show ?case by (auto simp: all_satisfied_def)
next
  case (Cons ph phs r rs)
  show ?case
  proof (cases "length (vp_Actions ph) = length (pr_Actions r) \<and>
      length (vp_Assertions ph) = length (pr_Assertions r)")
    case True
    then show ?thesis
      by (auto simp: check_Inr and_then_Inr_iff first_error_Cons action_loop_None assertion_loop_Inr
          Cons.IH phase_matches_def all_satisfied_def)
  next
    case False
    then show ?thesis
      by (auto simp: check_Inr first_error_Cons phase_matches_def dest: list_all2_lengthD)
  qed
qed

lemma computePassed_Inr:
  "computePassed phs rs = Inr b \<longleftrightarrow> list_all2 phase_matches phs rs \<and> b = all_satisfied rs"
proof (cases "length phs = length rs")
  case True
  then show ?thesis by (simp add: computePassed_def phase_loop_Inr)
next
  case False
  then show ?thesis by (auto simp: computePassed_def dest: list_all2_lengthD)
qed

text \<open>Every error of the verdict is an artifact failure, so the runner reports it as one.\<close>

lemma NewArtifactFailure_artifact [simp]: "as_artifact (NewArtifactFailure c s) = Some (trim c, trim s)"
  by (simp add: NewArtifactFailure_def)

lemma each_error_artifact:
  assumes "each_error f i xs = Some e" "\<And>i x y. f i x = Some y \<Longrightarrow> as_artifact y \<noteq> None"
  shows "as_artifact e \<noteq> None"
  using assms by (induction f i xs rule: each_error.induct) (auto split: option.splits)

lemma action_result_error_artifact: "action_result_error a r = Some e \<Longrightarrow> as_artifact e \<noteq> None"
  by (auto simp: action_result_error_def first_error_Some)

lemma assertion_result_error_artifact: "assertion_result_error a r = Some e \<Longrightarrow> as_artifact e \<noteq> None"
  by (auto simp: assertion_result_error_def first_error_Some)

lemma assertion_loop_artifact: "assertion_loop p zs = Inl e \<Longrightarrow> as_artifact e \<noteq> None"
  by (induction p zs rule: assertion_loop.induct)
    (auto simp: check_Inl dest: assertion_result_error_artifact)

lemma phase_loop_artifact: "phase_loop p zs = Inl e \<Longrightarrow> as_artifact e \<noteq> None"
proof (induction p zs rule: phase_loop.induct)
  case (2 p ph r rest)
  have "as_artifact e \<noteq> None"
    if "each_error (\<lambda>_ (a, r). action_result_error a r) 0 zs = Some e" for zs and e
    using that by (rule each_error_artifact) (auto dest: action_result_error_artifact)
  then show ?case
    using 2 by (auto simp: check_Inl and_then_Inl_iff first_error_Some dest: assertion_loop_artifact)
qed simp

lemma computePassed_artifact: "computePassed phs rs = Inl e \<Longrightarrow> as_artifact e \<noteq> None"
  by (auto simp: computePassed_def dest: phase_loop_artifact split: if_splits)

subsection \<open>Which revisions and reports validation accepts\<close>

definition revision_ok :: "codec \<Rightarrow> RunnableRevision \<Rightarrow> bool" where
  "revision_ok cd r \<longleftrightarrow> rr_FormatVersion r = FormatVersion \<and> spec_ok (rr_Spec r) \<and>
     ArtifactReference_Validate (rr_Artifact r) = None \<and>
     ar_Runtime (rr_Artifact r) = rp_Runtime (rs_RuntimeProfile (rr_Spec r)) \<and>
     ar_BuiltFromSpecDigest (rr_Artifact r) = digest_bytes (cd_spec cd (rr_Spec r))"

lemma RunnableSpec_Digest_Inr:
  "RunnableSpec_Digest cd s = Inr d \<longleftrightarrow> spec_ok s \<and> d = digest_bytes (cd_spec cd s)"
  by (auto simp: RunnableSpec_Digest_def check_Inr RunnableSpec_Validate_None)

text \<open>A digest that the code recomputes and compares with the recorded one.\<close>

lemma bound_digest_None:
  "(case c of Inl e \<Rightarrow> Some (f e) | Inr d \<Rightarrow> fail_if (x \<noteq> d) m) = None \<longleftrightarrow> c = Inr x"
  by (cases c) auto

lemma RunnableRevision_Validate_None [valid_simps]:
  "RunnableRevision_Validate cd r = None \<longleftrightarrow> revision_ok cd r"
  unfolding RunnableRevision_Validate_def revision_ok_def
  by (simp only: first_error_Cons first_error_Nil fail_if_None map_option_is_None bound_digest_None
      RunnableSpec_Digest_Inr RunnableSpec_Validate_None) blast

lemma RunnableRevision_Digest_Inr:
  "RunnableRevision_Digest cd r = Inr d \<longleftrightarrow> revision_ok cd r \<and> d = digest_bytes (cd_revision cd r)"
  by (auto simp: RunnableRevision_Digest_def check_Inr RunnableRevision_Validate_None)

lemma RuntimeProfile_Digest_Inr:
  "RuntimeProfile_Digest cd p = Inr d \<longleftrightarrow> profile_ok p \<and> d = digest_bytes (cd_profile cd p)"
  by (auto simp: RuntimeProfile_Digest_def check_Inr RuntimeProfile_Validate_None)

text \<open>
  The verdict a report may carry: the machine verdict of complete results, or a failure with
  results that do not contradict it.
\<close>

definition verdict_ok :: "VerificationReport \<Rightarrow> ValidationPhase list \<Rightarrow> bool" where
  "verdict_ok r expected \<longleftrightarrow>
     (let complete = list_all2 phase_matches expected (vr_Phases r) in
      case vr_Failure r of
        None \<Rightarrow> complete \<and> vr_Passed r = all_satisfied (vr_Phases r)
      | Some f \<Rightarrow> VerificationFailure_Validate f = None \<and> \<not> vr_Passed r \<and>
          (vf_Class f = FailureArtifact \<longrightarrow> \<not> (complete \<and> all_satisfied (vr_Phases r))) \<and>
          (vf_Class f = FailureInfrastructure \<longrightarrow> length (vr_Phases r) \<le> length expected))"

definition report_ok :: "codec \<Rightarrow> VerificationReport \<Rightarrow> RunnableRevision \<Rightarrow> bool" where
  "report_ok cd r revision \<longleftrightarrow> vr_FormatVersion r = FormatVersion \<and> revision_ok cd revision \<and>
     vr_RunnableRevisionDigest r = digest_bytes (cd_revision cd revision) \<and>
     EnvironmentIdentity_Validate (vr_Environment r) = None \<and>
     ei_ProfileDigest (vr_Environment r) =
       digest_bytes (cd_profile cd (rs_RuntimeProfile (rr_Spec revision))) \<and>
     0 < vr_Attempt r \<and> vr_CreatedAt r \<noteq> 0 \<and>
     verdict_ok r (initialization_phase (rr_Spec revision) # pl_Phases (rs_ValidationPlan (rr_Spec revision)))"

lemma verdict_None:
  assumes "n = length expected"
  shows "(case vr_Failure r of
      None \<Rightarrow> (case computePassed expected (vr_Phases r) of
          Inl e \<Rightarrow> Some e | Inr b \<Rightarrow> fail_if (vr_Passed r \<noteq> b) m1)
    | Some f \<Rightarrow> first_error
       [VerificationFailure_Validate f, fail_if (vr_Passed r) m2,
        fail_if (vf_Class f = FailureArtifact \<and> computePassed expected (vr_Phases r) = Inr True) m3,
        fail_if (vf_Class f = FailureInfrastructure \<and> n < length (vr_Phases r)) m4]) = None
   \<longleftrightarrow> verdict_ok r expected"
proof (cases "vr_Failure r")
  case None
  have "(case c of Inl e \<Rightarrow> Some e | Inr b \<Rightarrow> fail_if (q \<noteq> b) m) = None \<longleftrightarrow> c = Inr q"
    for c :: "go_error + bool" and q m
    by (cases c) auto
  then show ?thesis using None by (simp add: verdict_ok_def computePassed_Inr)
next
  case (Some f)
  then show ?thesis
    using assms by (auto simp: verdict_ok_def first_error_Cons computePassed_Inr not_less)
qed

lemma VerificationReport_Validate_None [valid_simps]:
  "VerificationReport_Validate cd r revision = None \<longleftrightarrow> report_ok cd r revision"
proof -
  have len: "length phs + 1 = length (ph # phs)" for ph :: ValidationPhase and phs
    by simp
  have "revision_ok cd revision \<Longrightarrow> profile_ok (rs_RuntimeProfile (rr_Spec revision))"
    by (simp add: revision_ok_def spec_ok_def)
  then show ?thesis
    unfolding VerificationReport_Validate_def report_ok_def Let_def ComputeSpecPassed_def
    by (simp only: first_error_Cons first_error_Nil bound_digest_None verdict_None [OF len]
        RunnableRevision_Digest_Inr RuntimeProfile_Digest_Inr
        RunnableRevision_Validate_None map_option_is_None fail_if_None not_le de_Morgan_disj) blast
qed

text \<open>A stored report of a run that passed: every declared result is there and accepted.\<close>

lemma report_ok_passed:
  assumes "report_ok cd r revision" "vr_Passed r"
  shows "list_all2 phase_matches
      (initialization_phase (rr_Spec revision) # pl_Phases (rs_ValidationPlan (rr_Spec revision))) (vr_Phases r)"
    and "all_satisfied (vr_Phases r)" and "vr_Failure r = None"
  using assms by (auto simp: report_ok_def verdict_ok_def Let_def split: option.splits)

lemma OutputCapture_Validate_None [valid_simps]:
  "OutputCapture_Validate c = None \<longleftrightarrow>
     length (oc_Stdout c) + length (oc_Stderr c) \<le> MaxExecutionOutputBytes"
  by (auto simp: OutputCapture_Validate_def)

subsection \<open>A concrete report\<close>

definition example_results :: "bool \<Rightarrow> PhaseResult list" where
  "example_results satisfied =
     [\<lparr>pr_ID = ''initialization'',
       pr_Actions = [\<lparr>ares_ID = ''setup'', ares_ExitCode = 0, ares_Summary = ''done'', ares_Outputs = []\<rparr>],
       pr_Assertions = []\<rparr>,
      \<lparr>pr_ID = ''main'',
       pr_Actions = [\<lparr>ares_ID = ''break'', ares_ExitCode = 1, ares_Summary = ''done'', ares_Outputs = []\<rparr>],
       pr_Assertions = [\<lparr>bres_ID = ''broken'', bres_Satisfied = satisfied, bres_Summary = ''seen'',
         bres_Details = [], bres_Outputs = []\<rparr>]\<rparr>]"

definition example_report :: VerificationReport where
  "example_report = \<lparr>vr_FormatVersion = ''v1'',
     vr_RunnableRevisionDigest = digest_bytes (cd_revision example_codec example_revision),
     vr_Environment = \<lparr>ei_ID = ''run-1'', ei_Provider = ''k8s'', ei_ProfileDigest = digest_bytes ''p1''\<rparr>,
     vr_Attempt = 1, vr_Phases = example_results True, vr_Passed = True, vr_Failure = None, vr_CreatedAt = 1\<rparr>"

lemma example_results_computed:
  "ComputeSpecPassed example_spec (example_results b) = Inr b"
proof -
  have "list_all2 phase_matches (initialization_phase example_spec # pl_Phases (rs_ValidationPlan example_spec))
      (example_results b)" if "b \<in> {True, False}" for b
    using that by (elim insertE emptyE; hypsubst) code_simp+
  moreover have "all_satisfied (example_results b) = b" for b
    by (simp add: all_satisfied_def example_results_def)
  ultimately show ?thesis by (simp add: ComputeSpecPassed_def computePassed_Inr)
qed

lemma example_report_valid: "VerificationReport_Validate example_codec example_report example_revision = None"
proof -
  have r: "rr_Spec example_revision = example_spec" "revision_ok example_codec example_revision"
    using example_revision_valid by (simp_all add: example_revision_def RunnableRevision_Validate_None)
  have e: "requiredString ''run-1'' ''id'' MaxIDLength = None" "validateID ''k8s'' ''id'' = None"
    by code_simp+
  have v: "verdict_ok example_report
      (initialization_phase example_spec # pl_Phases (rs_ValidationPlan example_spec))"
    using example_results_computed [of True]
    by (simp add: verdict_ok_def example_report_def ComputeSpecPassed_def computePassed_Inr)
  have "EnvironmentIdentity_Validate (vr_Environment example_report) = None"
    using e by (simp add: EnvironmentIdentity_Validate_def example_report_def first_error_Cons valid_simps)
  moreover have "rp_ProfileRevision (rs_RuntimeProfile example_spec) = ''p1''"
    by (simp add: example_spec_def example_profile_def)
  ultimately have "report_ok example_codec example_report example_revision"
    using r v by (simp add: report_ok_def) (simp add: example_report_def FormatVersion_def)
  then show ?thesis by (simp add: VerificationReport_Validate_None)
qed

subsection \<open>Properties\<close>

text \<open>
  C29 The machine verdict is defined for exactly the results that cover the plan: same phases, same
  actions and assertions in the same order, well-formed, with every exit code one that its action
  expects. It is then true iff every assertion is satisfied; on any other results the verdict is an
  error, and the error is an artifact failure.
\<close>

theorem verdict_of_results:
  "(ComputeSpecPassed s rs = Inr passed \<longleftrightarrow>
      list_all2 phase_matches (initialization_phase s # pl_Phases (rs_ValidationPlan s)) rs \<and>
      passed = all_satisfied rs) \<and>
   (ComputeSpecPassed s rs = Inl e \<longrightarrow> as_artifact e \<noteq> None)"
  using computePassed_artifact by (auto simp: ComputeSpecPassed_def computePassed_Inr)

lemma verdict_of_results_witness:
  "ComputeSpecPassed example_spec [] = Inl (ArtifactFailure ''phase-coverage''
      ''verification report does not cover every validation phase'') \<and>
   as_artifact (ArtifactFailure ''phase-coverage''
      ''verification report does not cover every validation phase'') \<noteq> None"
proof -
  have e: "ComputeSpecPassed example_spec [] = Inl (ArtifactFailure ''phase-coverage''
      ''verification report does not cover every validation phase'')"
    by code_simp
  then show ?thesis
    using verdict_of_results [of example_spec "[]" True "ArtifactFailure ''phase-coverage''
      ''verification report does not cover every validation phase''"] by blast
qed

text \<open>
  C30 A report that validates and says passed is a complete positive proof: it carries no failure,
  is bound to the digest of the revision and of its runtime profile, has one result per declared
  phase, action and assertion, every action ended with an expected exit code and every assertion
  is satisfied.
\<close>

theorem passed_report_is_complete:
  assumes "VerificationReport_Validate cd r revision = None" "vr_Passed r"
  shows "vr_Failure r = None \<and>
    RunnableRevision_Digest cd revision = Inr (vr_RunnableRevisionDigest r) \<and>
    RuntimeProfile_Digest cd (rs_RuntimeProfile (rr_Spec revision)) = Inr (ei_ProfileDigest (vr_Environment r)) \<and>
    list_all2 phase_matches
      (initialization_phase (rr_Spec revision) # pl_Phases (rs_ValidationPlan (rr_Spec revision))) (vr_Phases r) \<and>
    (\<forall>ph\<in>set (vr_Phases r). \<forall>b\<in>set (pr_Assertions ph). bres_Satisfied b)"
proof -
  have ok: "report_ok cd r revision" using assms(1) by (simp add: VerificationReport_Validate_None)
  then have "revision_ok cd revision" "profile_ok (rs_RuntimeProfile (rr_Spec revision))"
    by (simp_all add: report_ok_def revision_ok_def spec_ok_def)
  then show ?thesis
    using ok report_ok_passed [OF ok assms(2)]
    by (simp add: report_ok_def RunnableRevision_Digest_Inr RuntimeProfile_Digest_Inr all_satisfied_def)
qed

lemma passed_report_is_complete_witness:
  "vr_Failure example_report = None \<and>
   list_all2 phase_matches
      (initialization_phase (rr_Spec example_revision) # pl_Phases (rs_ValidationPlan (rr_Spec example_revision)))
      (vr_Phases example_report)"
  using passed_report_is_complete [OF example_report_valid] by (simp add: example_report_def)

text \<open>
  A report with an artifact failure never hides a successful run, and no failed report claims to
  have passed: with a failure recorded, \<open>Passed\<close> is false, and for an artifact failure the machine
  verdict of the recorded phases is not true.
\<close>

theorem failed_report_is_consistent:
  assumes "VerificationReport_Validate cd r revision = None" "vr_Failure r = Some f"
  shows "\<not> vr_Passed r \<and> FailureClass_Valid (vf_Class f) \<and>
    (vf_Class f = FailureArtifact \<longrightarrow> ComputeSpecPassed (rr_Spec revision) (vr_Phases r) \<noteq> Inr True) \<and>
    (vf_Class f = FailureInfrastructure \<longrightarrow>
       length (vr_Phases r) \<le> Suc (length (pl_Phases (rs_ValidationPlan (rr_Spec revision)))))"
proof -
  have "report_ok cd r revision" using assms(1) by (simp add: VerificationReport_Validate_None)
  then show ?thesis
    using assms(2)
    by (auto simp: report_ok_def verdict_ok_def Let_def ComputeSpecPassed_def computePassed_Inr
        VerificationFailure_Validate_def first_error_Cons)
qed

definition example_failure :: VerificationFailure where
  "example_failure = \<lparr>vf_Class = FailureInfrastructure, vf_Component = ''environment'',
     vf_Reason = ''not-ready'', vf_Message = ''timed out''\<rparr>"

lemma failed_report_is_consistent_witness:
  "\<not> vr_Passed (example_report \<lparr>vr_Passed := False, vr_Phases := [], vr_Failure := Some example_failure\<rparr>)"
proof -
  let ?r = "example_report \<lparr>vr_Passed := False, vr_Phases := [], vr_Failure := Some example_failure\<rparr>"
  have "VerificationFailure_Validate example_failure = None" by code_simp
  then have "verdict_ok ?r expected" for expected
    by (simp add: verdict_ok_def example_failure_def)
  moreover have "report_ok example_codec example_report example_revision"
    using example_report_valid by (simp add: VerificationReport_Validate_None)
  ultimately have "VerificationReport_Validate example_codec ?r example_revision = None"
    by (simp add: VerificationReport_Validate_None report_ok_def)
  from failed_report_is_consistent [OF this, of example_failure] show ?thesis by simp
qed

text \<open>
  The assertion protocol yields a result only for a document that reports the declared
  identifier exactly once with an explicit verdict and ends there, and the result then carries
  that verdict, passes \<open>AssertionResult.Validate\<close> and keeps the given output references.
\<close>

theorem assertion_protocol_strict:
  "ParseAssertionOutput decode raw expectedID outputs = Inr result \<longleftrightarrow>
     0 < length raw \<and> length raw \<le> MaxAssertionOutputBytes \<and>
     (\<exists>entry. decode raw = Inr ([entry], True) \<and> ae_ID entry = expectedID \<and>
        ae_Satisfied entry = Some (bres_Satisfied result) \<and>
        result = \<lparr>bres_ID = expectedID, bres_Satisfied = bres_Satisfied result,
          bres_Summary = ae_Summary entry, bres_Details = ae_Details entry, bres_Outputs = outputs\<rparr> \<and>
        AssertionResult_Validate result = None)"
  by (auto simp: ParseAssertionOutput_def Let_def check_Inr
      split: sum.splits prod.splits list.splits option.splits if_splits)

end
