(* ===== verification/RunnableAction.thy ===== *)
theory RunnableAction
  imports RunnableReport
begin

section \<open>Action identities, requests and the retry curve\<close>

text \<open>
  \<open>internal/domain/runnable/action.go\<close>, \<open>action_context.go\<close> and \<open>backoff.go\<close>: the identity of
  one action of the queue, its key and derived record names, the requests a worker receives, and
  the delay before a retry. The lemmas show that keys identify valid identities, that derived
  names are stable identifiers, which contexts are accepted, and the bounds of the delay.
\<close>

subsection \<open>Phases and identities\<close>

datatype ActionPhase = ActionMaterializeArtifact | ActionVerify | ActionPhaseOther string

definition ActionPhase_Valid :: "ActionPhase \<Rightarrow> bool" where
  "ActionPhase_Valid p \<longleftrightarrow> p = ActionMaterializeArtifact \<or> p = ActionVerify"

fun ActionPhase_text :: "ActionPhase \<Rightarrow> string" where
  "ActionPhase_text ActionMaterializeArtifact = ''materialize-artifact''"
| "ActionPhase_text ActionVerify = ''verify''"
| "ActionPhase_text (ActionPhaseOther s) = s"

record ActionIdentity =
  ai_Content :: ContentIdentity
  ai_SpecDigest :: string
  ai_Phase :: ActionPhase
  ai_StateVersion :: int

definition ActionIdentity_Validate :: "ActionIdentity \<Rightarrow> go_error option" where
  "ActionIdentity_Validate i = first_error
     [map_option (Wrap ''runnable action content'') (ContentIdentity_Validate (ai_Content i)),
      fail_if (\<not> ValidDigest (ai_SpecDigest i)) (invalid ''action.spec_digest'' ''must be a sha256 digest''),
      fail_if (\<not> ActionPhase_Valid (ai_Phase i) \<or> ai_StateVersion i < 1)
        (invalid ''action'' ''has an invalid phase or state version'')]"

definition ActionIdentity_Key :: "ActionIdentity \<Rightarrow> string" where
  "ActionIdentity_Key i = join_with (CHR ''/'')
     [ci_Kind (ai_Content i), ci_ID (ai_Content i), ci_Revision (ai_Content i), ai_SpecDigest i,
      ActionPhase_text (ai_Phase i), show_int (ai_StateVersion i)]"

text \<open>
  The slice expression panics when the prefix leaves no room for the separator: the result is
  \<open>None\<close> then.
\<close>

definition RecordID :: "string \<Rightarrow> ActionIdentity \<Rightarrow> string option" where
  "RecordID pre identity =
     (if length pre + 1 \<le> MaxIDLength
      then Some (pre @ ''-'' @ take (MaxIDLength - length pre - 1) (sha256_hex (ActionIdentity_Key identity)))
      else None)"

definition VerificationEnvironmentName :: "RevisionReference \<Rightarrow> int \<Rightarrow> string" where
  "VerificationEnvironmentName reference attempt =
     ''run-'' @ take 24 (sha256_hex (ref_ID reference @ CHR 0x00 # show_int attempt))"

subsection \<open>Requests\<close>

record LeaseCredential =
  lc_Identity :: ActionIdentity
  lc_LeaseOwner :: string

definition LeaseCredential_Validate :: "LeaseCredential \<Rightarrow> go_error option" where
  "LeaseCredential_Validate c = first_error
     [ActionIdentity_Validate (lc_Identity c),
      requiredString (lc_LeaseOwner c) ''action.lease_owner'' MaxIDLength]"

record MaterializeRequest =
  mr_Credential :: LeaseCredential
  mr_Spec :: RunnableSpec

definition MaterializeRequest_Validate :: "codec \<Rightarrow> MaterializeRequest \<Rightarrow> go_error option" where
  "MaterializeRequest_Validate cd r = first_error
     [LeaseCredential_Validate (mr_Credential r),
      fail_if (ai_Phase (lc_Identity (mr_Credential r)) \<noteq> ActionMaterializeArtifact)
        (Msg ''runnable materialize request has the wrong action phase''),
      RunnableSpec_Validate (mr_Spec r),
      (case RunnableSpec_Digest cd (mr_Spec r) of
         Inl e \<Rightarrow> Some e
       | Inr d \<Rightarrow> fail_if (ai_SpecDigest (lc_Identity (mr_Credential r)) \<noteq> d \<or>
                          ai_Content (lc_Identity (mr_Credential r)) \<noteq> rs_Identity (mr_Spec r))
           (Msg ''runnable materialize request identity does not match spec''))]"

record VerifyRequest =
  vq_Credential :: LeaseCredential
  vq_RunnableRevision :: RunnableRevision
  vq_RunnableRevisionRef :: RevisionReference
  vq_RunnableRevisionDigest :: string
  vq_Attempt :: int

definition VerifyRequest_Validate :: "codec \<Rightarrow> VerifyRequest \<Rightarrow> go_error option" where
  "VerifyRequest_Validate cd r = first_error
     [LeaseCredential_Validate (vq_Credential r),
      fail_if (ai_Phase (lc_Identity (vq_Credential r)) \<noteq> ActionVerify)
        (Msg ''runnable verify request has the wrong action phase''),
      RunnableRevision_Validate cd (vq_RunnableRevision r),
      (case RunnableSpec_Digest cd (rr_Spec (vq_RunnableRevision r)) of
         Inl e \<Rightarrow> Some e
       | Inr specDigest \<Rightarrow>
         (case RunnableRevision_Digest cd (vq_RunnableRevision r) of
            Inl e \<Rightarrow> Some e
          | Inr revisionDigest \<Rightarrow> fail_if
              (RevisionReference_Validate (vq_RunnableRevisionRef r) \<noteq> None \<or>
               ai_SpecDigest (lc_Identity (vq_Credential r)) \<noteq> specDigest \<or>
               ai_Content (lc_Identity (vq_Credential r)) \<noteq> rs_Identity (rr_Spec (vq_RunnableRevision r)) \<or>
               vq_RunnableRevisionDigest r \<noteq> revisionDigest \<or>
               ref_Digest (vq_RunnableRevisionRef r) \<noteq> revisionDigest \<or>
               vq_Attempt r < 1)
              (Msg ''runnable verify request identity does not match revision'')))]"

subsection \<open>Action contexts (\<open>action_context.go\<close>)\<close>

record ActionContext =
  ax_Credential :: LeaseCredential
  ax_Attempt :: int
  ax_Spec :: "RunnableSpec option"
  ax_RunnableRevision :: "RunnableRevision option"
  ax_RunnableRevisionRef :: RevisionReference
  ax_RunnableRevisionDigest :: string

definition empty_reference :: RevisionReference where
  "empty_reference = \<lparr>ref_ID = [], ref_Digest = []\<rparr>"

definition ActionContext_Validate :: "codec \<Rightarrow> ActionContext \<Rightarrow> go_error option" where
  "ActionContext_Validate cd c = first_error
     [LeaseCredential_Validate (ax_Credential c),
      fail_if (ax_Attempt c < 1) (Msg ''runnable action has an invalid attempt''),
      (case ai_Phase (lc_Identity (ax_Credential c)) of
         ActionMaterializeArtifact \<Rightarrow>
           (case ax_Spec c of
              None \<Rightarrow> Some (Msg ''runnable materialization action has an invalid input'')
            | Some spec \<Rightarrow>
                if ax_RunnableRevision c \<noteq> None \<or> ax_RunnableRevisionDigest c \<noteq> [] \<or>
                   ax_RunnableRevisionRef c \<noteq> empty_reference
                then Some (Msg ''runnable materialization action has an invalid input'')
                else MaterializeRequest_Validate cd
                       \<lparr>mr_Credential = ax_Credential c, mr_Spec = spec\<rparr>)
       | ActionVerify \<Rightarrow>
           (case ax_RunnableRevision c of
              None \<Rightarrow> Some (Msg ''runnable verification action has an invalid input'')
            | Some revision \<Rightarrow>
                if ax_Spec c \<noteq> None \<or> RevisionReference_Validate (ax_RunnableRevisionRef c) \<noteq> None \<or>
                   \<not> ValidDigest (ax_RunnableRevisionDigest c) \<or>
                   ref_Digest (ax_RunnableRevisionRef c) \<noteq> ax_RunnableRevisionDigest c
                then Some (Msg ''runnable verification action has an invalid input'')
                else VerifyRequest_Validate cd
                       \<lparr>vq_Credential = ax_Credential c, vq_RunnableRevision = revision,
                        vq_RunnableRevisionRef = ax_RunnableRevisionRef c,
                        vq_RunnableRevisionDigest = ax_RunnableRevisionDigest c,
                        vq_Attempt = ax_Attempt c\<rparr>)
       | ActionPhaseOther p \<Rightarrow> Some (Msg (''runnable action has unsupported phase '' @ p)))]"

subsection \<open>The retry curve (\<open>backoff.go\<close>)\<close>

definition RetryBackoffCap :: duration where
  "RetryBackoffCap = seconds (5 * 60)"

fun backoff_loop :: "nat \<Rightarrow> duration \<Rightarrow> duration" where
  "backoff_loop 0 delay = delay"
| "backoff_loop (Suc n) delay =
     (let delay' = wrap64 (delay * 2) in
      if RetryBackoffCap \<le> delay' then RetryBackoffCap else backoff_loop n delay')"

definition RetryBackoff :: "duration \<Rightarrow> int \<Rightarrow> duration" where
  "RetryBackoff base attempt =
     (let base = (if base \<le> 0 then seconds 5 else base);
          attempt = (if attempt < 1 then 1 else attempt)
      in backoff_loop (nat (attempt - 1)) base)"

subsection \<open>The delay doubles up to the cap\<close>

lemma RetryBackoffCap_val: "RetryBackoffCap = 300000000000"
  by (simp add: RetryBackoffCap_def seconds_def)

lemma backoff_loop_closed:
  "0 < d \<Longrightarrow> d < RetryBackoffCap \<Longrightarrow> backoff_loop n d = min RetryBackoffCap (d * 2 ^ n)"
proof (induction n arbitrary: d)
  case (Suc n)
  have w: "wrap64 (d * 2) = d * 2"
    using Suc.prems by (intro wrap64_id) (simp_all add: RetryBackoffCap_val)
  show ?case
  proof (cases "RetryBackoffCap \<le> d * 2")
    case True
    have "d * 2 * 1 \<le> d * 2 * 2 ^ n" using Suc.prems(1) by (intro mult_left_mono) simp_all
    with True show ?thesis by (simp add: w min_def mult.assoc)
  next
    case False
    then show ?thesis using Suc.IH [of "d * 2"] Suc.prems by (simp add: w mult.assoc)
  qed
qed simp

lemma RetryBackoff_first: "attempt \<le> 1 \<Longrightarrow> 0 < base \<Longrightarrow> RetryBackoff base attempt = base"
  by (simp add: RetryBackoff_def Let_def)

lemma RetryBackoff_bounds:
  assumes "0 < base" "base \<le> RetryBackoffCap"
  shows "0 < RetryBackoff base attempt \<and> RetryBackoff base attempt \<le> RetryBackoffCap"
proof (cases "base = RetryBackoffCap")
  case True
  have "backoff_loop n RetryBackoffCap = RetryBackoffCap" for n
    by (cases n) (simp_all add: RetryBackoffCap_val wrap64_id)
  then show ?thesis using True assms(1) by (simp add: RetryBackoff_def Let_def)
next
  case False
  then show ?thesis
    using assms backoff_loop_closed [of base] by (simp add: RetryBackoff_def Let_def RetryBackoffCap_val)
qed

subsection \<open>Which requests are accepted\<close>

lemma ActionPhase_text_sep: "ActionPhase_Valid p \<Longrightarrow> CHR ''/'' \<notin> set (ActionPhase_text p)"
  by (auto simp: ActionPhase_Valid_def)

lemma ActionPhase_text_inject:
  "ActionPhase_Valid p \<Longrightarrow> ActionPhase_Valid q \<Longrightarrow> ActionPhase_text p = ActionPhase_text q \<Longrightarrow> p = q"
  by (auto simp: ActionPhase_Valid_def)

definition identity_ok :: "ActionIdentity \<Rightarrow> bool" where
  "identity_ok i \<longleftrightarrow> id_ok (ci_Kind (ai_Content i)) \<and> id_ok (ci_ID (ai_Content i)) \<and>
     required_ok MaxReferenceLength (ci_Revision (ai_Content i)) \<and> ValidDigest (ai_SpecDigest i) \<and>
     ActionPhase_Valid (ai_Phase i) \<and> 1 \<le> ai_StateVersion i"

lemma ActionIdentity_Validate_None [valid_simps]:
  "ActionIdentity_Validate i = None \<longleftrightarrow> identity_ok i"
  by (auto simp: ActionIdentity_Validate_def identity_ok_def ContentIdentity_Validate_def valid_simps)

definition credential_ok :: "LeaseCredential \<Rightarrow> bool" where
  "credential_ok c \<longleftrightarrow> identity_ok (lc_Identity c) \<and> required_ok MaxIDLength (lc_LeaseOwner c)"

lemma LeaseCredential_Validate_None [valid_simps]:
  "LeaseCredential_Validate c = None \<longleftrightarrow> credential_ok c"
  by (auto simp: LeaseCredential_Validate_def credential_ok_def valid_simps)

text \<open>The identity names the spec by its digest and by its content.\<close>

definition identity_of_spec :: "codec \<Rightarrow> ActionIdentity \<Rightarrow> RunnableSpec \<Rightarrow> bool" where
  "identity_of_spec cd i s \<longleftrightarrow> spec_ok s \<and> ai_SpecDigest i = digest_bytes (cd_spec cd s) \<and>
     ai_Content i = rs_Identity s"

lemma bound_digest_None':
  "(case c of Inl e \<Rightarrow> Some (f e) | Inr d \<Rightarrow> fail_if (P d) m) = None \<longleftrightarrow> (\<exists>d. c = Inr d \<and> \<not> P d)"
  by (cases c) auto

lemma MaterializeRequest_Validate_None [valid_simps]:
  "MaterializeRequest_Validate cd r = None \<longleftrightarrow>
     credential_ok (mr_Credential r) \<and> ai_Phase (lc_Identity (mr_Credential r)) = ActionMaterializeArtifact \<and>
     identity_of_spec cd (lc_Identity (mr_Credential r)) (mr_Spec r)"
  unfolding MaterializeRequest_Validate_def identity_of_spec_def
  by (simp only: first_error_Cons first_error_Nil fail_if_None LeaseCredential_Validate_None
      RunnableSpec_Validate_None bound_digest_None' RunnableSpec_Digest_Inr) blast

lemma VerifyRequest_Validate_None [valid_simps]:
  "VerifyRequest_Validate cd r = None \<longleftrightarrow>
     credential_ok (vq_Credential r) \<and> ai_Phase (lc_Identity (vq_Credential r)) = ActionVerify \<and>
     revision_ok cd (vq_RunnableRevision r) \<and>
     identity_of_spec cd (lc_Identity (vq_Credential r)) (rr_Spec (vq_RunnableRevision r)) \<and>
     RevisionReference_Validate (vq_RunnableRevisionRef r) = None \<and>
     vq_RunnableRevisionDigest r = digest_bytes (cd_revision cd (vq_RunnableRevision r)) \<and>
     ref_Digest (vq_RunnableRevisionRef r) = vq_RunnableRevisionDigest r \<and> 1 \<le> vq_Attempt r"
proof -
  have nested: "(case c of Inl e \<Rightarrow> Some e
      | Inr x \<Rightarrow> (case d of Inl e \<Rightarrow> Some e | Inr y \<Rightarrow> fail_if (P x y) m)) = None \<longleftrightarrow>
      (\<exists>x y. c = Inr x \<and> d = Inr y \<and> \<not> P x y)" for c d :: "go_error + string" and P m
    by (cases c; cases d) auto
  have "revision_ok cd v \<Longrightarrow> spec_ok (rr_Spec v)" for v by (simp add: revision_ok_def)
  then show ?thesis
    unfolding VerifyRequest_Validate_def identity_of_spec_def
    by (simp only: first_error_Cons first_error_Nil fail_if_None LeaseCredential_Validate_None
        RunnableRevision_Validate_None nested RunnableSpec_Digest_Inr RunnableRevision_Digest_Inr
        not_less de_Morgan_disj not_not) metis
qed

text \<open>A context carries the input of its phase and nothing of the other phase.\<close>

lemma ActionContext_Validate_None [valid_simps]:
  "ActionContext_Validate cd c = None \<longleftrightarrow>
     credential_ok (ax_Credential c) \<and> 1 \<le> ax_Attempt c \<and>
     ((ai_Phase (lc_Identity (ax_Credential c)) = ActionMaterializeArtifact \<and>
       (\<exists>spec. ax_Spec c = Some spec \<and> identity_of_spec cd (lc_Identity (ax_Credential c)) spec) \<and>
       ax_RunnableRevision c = None \<and> ax_RunnableRevisionDigest c = [] \<and>
       ax_RunnableRevisionRef c = empty_reference) \<or>
      (ai_Phase (lc_Identity (ax_Credential c)) = ActionVerify \<and> ax_Spec c = None \<and>
       (\<exists>revision. ax_RunnableRevision c = Some revision \<and> revision_ok cd revision \<and>
          identity_of_spec cd (lc_Identity (ax_Credential c)) (rr_Spec revision) \<and>
          RevisionReference_Validate (ax_RunnableRevisionRef c) = None \<and>
          ax_RunnableRevisionDigest c = digest_bytes (cd_revision cd revision) \<and>
          ref_Digest (ax_RunnableRevisionRef c) = ax_RunnableRevisionDigest c)))"
  by (cases "ai_Phase (lc_Identity (ax_Credential c))")
    (auto simp: ActionContext_Validate_def first_error_Cons LeaseCredential_Validate_None
      MaterializeRequest_Validate_None VerifyRequest_Validate_None not_less split: option.splits)

subsection \<open>Keys and record names\<close>

lemma slash_solid: "solid (CHR ''/'')"
  by (simp add: solid_def byte_def)

lemma id_ok_no_slash: "id_ok v \<Longrightarrow> CHR ''/'' \<notin> set v"
proof
  assume v: "id_ok v" and m: "CHR ''/'' \<in> set v"
  have s: "stableID (trim v)" using v by (simp add: id_ok_def)
  have "CHR ''/'' \<in> set (trim v)" by (rule solid_in_trim [OF m slash_solid])
  with s show False
    by (cases "trim v") (auto simp: list_all_iff is_lower_def is_digit_def byte_def)
qed

lemma ValidDigest_no_slash: "ValidDigest v \<Longrightarrow> CHR ''/'' \<notin> set v"
proof
  assume v: "ValidDigest v" and m: "CHR ''/'' \<in> set v"
  have "CHR ''/'' \<in> set (trim v)" by (rule solid_in_trim [OF m slash_solid])
  moreover obtain h where h: "trim v = ''sha256:'' @ h" using v by (auto simp: ValidDigest_def Let_def prefix_def)
  moreover have "list_all is_hex h" using v h by (simp add: ValidDigest_def Let_def)
  ultimately show False by (auto simp: list_all_iff is_hex_def byte_def)
qed

lemma key_segments:
  assumes "identity_ok i"
  shows "path_segments (ActionIdentity_Key i) =
    [ci_Kind (ai_Content i), ci_ID (ai_Content i)] @ path_segments (ci_Revision (ai_Content i)) @
    [ai_SpecDigest i, ActionPhase_text (ai_Phase i), show_int (ai_StateVersion i)]"
proof -
  have "CHR ''/'' \<notin> set (show_int (ai_StateVersion i))"
    using show_int_chars by (fastforce simp: is_digit_def byte_def)
  then show ?thesis
    using assms
    by (simp add: ActionIdentity_Key_def path_segments_def identity_ok_def split_on_append_sep
        split_on_append split_on_single id_ok_no_slash ValidDigest_no_slash ActionPhase_text_sep)
qed

lemma key_inject:
  assumes ok: "identity_ok i" "identity_ok j"
    and "ActionIdentity_Key i = ActionIdentity_Key j"
  shows "i = j"
proof -
  note eq = key_segments [OF ok(1)] key_segments [OF ok(2)]
  have "path_segments (ci_Revision (ai_Content i)) = path_segments (ci_Revision (ai_Content j))"
    "ci_Kind (ai_Content i) = ci_Kind (ai_Content j)" "ci_ID (ai_Content i) = ci_ID (ai_Content j)"
    "ai_SpecDigest i = ai_SpecDigest j" "ActionPhase_text (ai_Phase i) = ActionPhase_text (ai_Phase j)"
    "show_int (ai_StateVersion i) = show_int (ai_StateVersion j)"
    using eq assms(3) by simp_all
  moreover from this have "ci_Revision (ai_Content i) = ci_Revision (ai_Content j)"
    by (metis path_segments_def join_split_on)
  ultimately show ?thesis
    using ok ActionPhase_text_inject [of "ai_Phase i" "ai_Phase j"]
    by (auto simp: identity_ok_def show_int_inject intro!: ActionIdentity.equality ContentIdentity.equality)
qed

lemma stableID_solid: "stableID s \<Longrightarrow> c \<in> set s \<Longrightarrow> solid c"
  by (cases s) (auto simp: list_all_iff is_lower_def is_digit_def solid_def byte_def)

lemma stableID_trim: "stableID s \<Longrightarrow> trim s = s"
  by (metis hd_in_set last_in_set stableID.simps(1) stableID_solid trim_solid)

lemma is_hex_stable: "is_hex c \<Longrightarrow> is_lower c \<or> is_digit c"
  by (auto simp: is_hex_def is_lower_def is_digit_def)

lemma RecordID_id_ok:
  assumes "stableID pre" "length pre < 64"
  shows "\<exists>r. RecordID pre i = Some r \<and> id_ok r \<and> length r = 64 \<and> prefix (pre @ ''-'') r"
proof -
  obtain c cs where p: "pre = c # cs" using assms(1) by (cases pre) auto
  have "list_all (\<lambda>d. is_lower d \<or> is_digit d \<or> d = CHR ''-'') (take n (sha256_hex k))" for n k
    using sha256_hex_is_hex [of k] is_hex_stable by (auto simp: list_all_iff dest!: in_set_takeD)
  then have "stableID (pre @ ''-'' @ take n (sha256_hex k))" for n k
    using assms(1) by (simp add: p)
  then show ?thesis
    using assms(2) by (simp add: RecordID_def id_ok_def MaxIDLength_def stableID_trim del: append_Cons)
qed

subsection \<open>Properties\<close>

text \<open>
  Two action identities that pass \<open>ActionIdentity.Validate\<close> and have the same \<open>Key\<close> are
  equal: although the key joins its parts with slashes and the content revision may itself
  contain slashes, no two valid identities share the idempotency key of a provider resource.
\<close>

theorem action_key_identifies:
  assumes "ActionIdentity_Validate i = None" "ActionIdentity_Validate j = None"
    and "ActionIdentity_Key i = ActionIdentity_Key j"
  shows "i = j"
  using assms by (simp add: ActionIdentity_Validate_None key_inject)

definition example_identity :: ActionIdentity where
  "example_identity = \<lparr>ai_Content = \<lparr>ci_Kind = ''lab'', ci_ID = ''nginx-1'', ci_Revision = ''a/b''\<rparr>,
     ai_SpecDigest = ''sha256:'' @ replicate 64 (CHR ''0''), ai_Phase = ActionVerify, ai_StateVersion = 3\<rparr>"

lemma example_identity_valid: "ActionIdentity_Validate example_identity = None"
  by code_simp

lemma action_key_identifies_witness:
  "ActionIdentity_Key (example_identity \<lparr>ai_StateVersion := 1 + 2\<rparr>) = ActionIdentity_Key example_identity \<and>
   example_identity \<lparr>ai_StateVersion := 1 + 2\<rparr> = example_identity"
proof -
  have e: "example_identity \<lparr>ai_StateVersion := 1 + 2\<rparr> = example_identity" (is "?x = _")
    by (rule action_key_identifies) (code_simp+)
  then show ?thesis by simp
qed

text \<open>
  \<open>RecordID\<close> with a stable identifier of fewer than 64 bytes as its prefix does not panic and
  yields a stable identifier of exactly 64 bytes that starts with the prefix and a dash, so it
  passes \<open>validateID\<close> as the identifier of a stored record.
\<close>

theorem record_id_stable:
  assumes "stableID pre" "length pre < 64"
  shows "\<exists>r. RecordID pre i = Some r \<and> validateID r field = None \<and> length r = 64 \<and>
    prefix (pre @ ''-'') r"
  using RecordID_id_ok [OF assms] by (simp add: validateID_None)

lemma record_id_stable_witness:
  "\<exists>r. RecordID ''revision'' example_identity = Some r \<and> validateID r ''id'' = None \<and>
     length r = 64 \<and> prefix (''revision'' @ ''-'') r"
  by (rule record_id_stable) (code_simp, simp)

text \<open>
  \<open>RetryBackoff\<close> of a base below the cap returns the base (five seconds in place of one that
  is not positive) doubled once per earlier attempt, limited to \<open>RetryBackoffCap\<close>, for every attempt number: the doubling never overflows.
\<close>

theorem retry_backoff_doubles:
  assumes "base < RetryBackoffCap"
  shows "RetryBackoff base attempt =
    min RetryBackoffCap ((if base \<le> 0 then seconds 5 else base) * 2 ^ nat (attempt - 1))"
  using backoff_loop_closed [of base] backoff_loop_closed [of "seconds 5"] assms
  by (auto simp: RetryBackoff_def Let_def RetryBackoffCap_val seconds_def)

lemma retry_backoff_doubles_witness: "RetryBackoff (seconds 5) 4 = seconds 40"
  using retry_backoff_doubles [of "seconds 5" 4] by (simp add: RetryBackoffCap_val seconds_def)

text \<open>
  \<open>RetryBackoff\<close> does not bound the first delay: with a base of at least the cap, the first
  attempt waits for the whole base, whatever its size.
\<close>

theorem retry_backoff_first_uncapped:
  assumes "RetryBackoffCap \<le> base" "attempt \<le> 1"
  shows "RetryBackoff base attempt = base"
  using assms by (simp add: RetryBackoff_first RetryBackoffCap_val)

lemma retry_backoff_first_uncapped_witness:
  "RetryBackoff (seconds 3600) 1 = seconds 3600 \<and> RetryBackoffCap < seconds 3600"
  using retry_backoff_first_uncapped [of "seconds 3600" 1] by (simp add: RetryBackoffCap_val seconds_def)

end
