(* ===== verification/ReapQueue.thy ===== *)
theory ReapQueue
  imports RunnableAction
begin

section \<open>The reap queue: cleanup requests, their interface and the in-memory queue\<close>

text \<open>
  \<open>internal/domain/runnable/reap.go\<close>: environment bindings, cleanup requests and records, the
  \<open>ReapQueue\<close> interface as a locale, and \<open>InMemoryReapQueue\<close> as its first interpretation. The
  locale proves once, for every implementation, that records never go back, that a stale claim is
  refused and that one claim completes at most once. Two sources of chance are inputs of a claim:
  the iteration order of the Go map in memory, and the set of rows locked by other transactions in
  the database.
\<close>

subsection \<open>Bindings and requests\<close>

datatype EnvironmentPurpose = PurposeLearning | PurposeVerification | PurposeOther string

definition EnvironmentPurpose_Valid :: "EnvironmentPurpose \<Rightarrow> bool" where
  "EnvironmentPurpose_Valid p \<longleftrightarrow> p = PurposeLearning \<or> p = PurposeVerification"

record EnvironmentBinding =
  bd_Namespace :: string
  bd_Name :: string
  bd_UID :: string
  bd_Purpose :: EnvironmentPurpose
  bd_ResetNonce :: int
  bd_RunnableRevision :: RunnableRevision
  bd_BlankRuntime :: "BlankRuntimePlan option"

definition EnvironmentBinding_Digest :: "codec \<Rightarrow> EnvironmentBinding \<Rightarrow> go_error + string" where
  "EnvironmentBinding_Digest cd b = (case bd_BlankRuntime b of
     Some plan \<Rightarrow> BlankRuntimePlan_Digest cd plan
   | None \<Rightarrow> RunnableRevision_Digest cd (bd_RunnableRevision b))"

definition EnvironmentBinding_Lifecycle :: "EnvironmentBinding \<Rightarrow> LifecyclePolicy" where
  "EnvironmentBinding_Lifecycle b = (case bd_BlankRuntime b of
     Some plan \<Rightarrow> bp_Lifecycle plan
   | None \<Rightarrow> rs_LifecyclePolicy (rr_Spec (bd_RunnableRevision b)))"

record ReapRequest =
  rq_Namespace :: string
  rq_Name :: string
  rq_UID :: string
  rq_Revision :: string
  rq_Binding :: EnvironmentBinding

definition ReapRequest_Key :: "ReapRequest \<Rightarrow> string" where
  "ReapRequest_Key r = rq_Namespace r @ ''/'' @ rq_Name r @ ''/'' @ rq_UID r"

definition ReapRequest_Valid :: "codec \<Rightarrow> ReapRequest \<Rightarrow> go_error option" where
  "ReapRequest_Valid cd r = first_error
     [fail_if (blank (rq_Namespace r) \<or> blank (rq_Name r) \<or> blank (rq_UID r) \<or> \<not> ValidDigest (rq_Revision r))
        (Msg ''runnable reap request identity is incomplete''),
      fail_if (rq_Namespace r \<noteq> bd_Namespace (rq_Binding r) \<or> rq_Name r \<noteq> bd_Name (rq_Binding r) \<or>
               rq_UID r \<noteq> bd_UID (rq_Binding r) \<or> \<not> EnvironmentPurpose_Valid (bd_Purpose (rq_Binding r)))
        (Msg ''runnable reap request binding does not match identity''),
      (case EnvironmentBinding_Digest cd (rq_Binding r) of
         Inl e \<Rightarrow> Some (Wrap ''runnable reap revision'' e)
       | Inr d \<Rightarrow> fail_if (rq_Revision r \<noteq> d)
           (Msg ''runnable reap request revision does not match binding''))]"

subsection \<open>Records and claims\<close>

datatype ReapState = ReapQueued | ReapClaimed | ReapSucceeded

record ReapRecord =
  rec_Request :: ReapRequest
  rec_State :: ReapState
  rec_Attempt :: int
  rec_LeaseOwner :: string
  rec_LeaseExpires :: time
  rec_NextAttemptAt :: time
  rec_LastError :: string
  rec_CompletedAt :: "time option"

record ReapClaim =
  rc_Record :: ReapRecord

definition boundedReapDiagnostic :: "string \<Rightarrow> string" where
  "boundedReapDiagnostic s = cut MaxSummaryLength (trim s)"

definition reap_claim_invalid :: "string \<Rightarrow> duration \<Rightarrow> time \<Rightarrow> bool" where
  "reap_claim_invalid owner ttl now \<longleftrightarrow> blank owner \<or> ttl \<le> 0 \<or> now = 0"

subsection \<open>The in-memory queue\<close>

type_synonym mem_queue = "string \<rightharpoonup> ReapRecord"

definition NewInMemoryReapQueue :: mem_queue where
  "NewInMemoryReapQueue = Map.empty"

definition queued_record :: "ReapRequest \<Rightarrow> time \<Rightarrow> ReapRecord" where
  "queued_record r next = \<lparr>rec_Request = r, rec_State = ReapQueued, rec_Attempt = 0, rec_LeaseOwner = [],
     rec_LeaseExpires = 0, rec_NextAttemptAt = next, rec_LastError = [], rec_CompletedAt = None\<rparr>"

definition mem_Enqueue :: "codec \<Rightarrow> mem_queue \<Rightarrow> ReapRequest \<Rightarrow> go_error option \<times> mem_queue" where
  "mem_Enqueue cd q request = (case ReapRequest_Valid cd request of
     Some e \<Rightarrow> (Some e, q)
   | None \<Rightarrow>
       (let key = ReapRequest_Key request in
        case q key of
          Some existing \<Rightarrow>
            (if rq_Revision (rec_Request existing) \<noteq> rq_Revision request
             then (Some (Msg ''runnable reap request fence differs from existing request''), q)
             else (None, q))
        | None \<Rightarrow> (None, q(key \<mapsto> queued_record request 0))))"

definition mem_Get :: "mem_queue \<Rightarrow> string \<Rightarrow> go_error + ReapRecord" where
  "mem_Get q key = (case q key of None \<Rightarrow> Inl reap_not_found | Some record \<Rightarrow> Inr record)"

definition reap_eligible :: "ReapRecord \<Rightarrow> time \<Rightarrow> bool" where
  "reap_eligible record now \<longleftrightarrow>
     (rec_State record = ReapQueued \<and> \<not> now < rec_NextAttemptAt record) \<or>
     (rec_State record = ReapClaimed \<and> \<not> now < rec_LeaseExpires record)"

text \<open>The loop over the map, in the order \<open>order\<close> in which the iteration visits the keys.\<close>

fun mem_claim_loop ::
  "string list \<Rightarrow> mem_queue \<Rightarrow> string \<Rightarrow> duration \<Rightarrow> time \<Rightarrow> ReapClaim option \<times> mem_queue"
where
  "mem_claim_loop [] q owner ttl now = (None, q)"
| "mem_claim_loop (key # order) q owner ttl now = (case q key of
     None \<Rightarrow> mem_claim_loop order q owner ttl now
   | Some record \<Rightarrow>
       (if \<not> reap_eligible record now then mem_claim_loop order q owner ttl now
        else let record' = record \<lparr>rec_State := ReapClaimed, rec_Attempt := rec_Attempt record + 1,
                   rec_LeaseOwner := owner, rec_LeaseExpires := now + ttl\<rparr>
             in (Some \<lparr>rc_Record = record'\<rparr>, q(key \<mapsto> record'))))"

definition mem_Claim ::
  "string list \<Rightarrow> mem_queue \<Rightarrow> string \<Rightarrow> duration \<Rightarrow> time \<Rightarrow> (go_error + ReapClaim option) \<times> mem_queue"
where
  "mem_Claim order q owner ttl now =
     (if reap_claim_invalid owner ttl now then (Inl (Msg ''runnable reap claim is invalid''), q)
      else map_prod Inr id (mem_claim_loop order q owner ttl now))"

definition mem_Complete ::
  "mem_queue \<Rightarrow> ReapClaim \<Rightarrow> bool \<Rightarrow> string \<Rightarrow> time \<Rightarrow> time \<Rightarrow> go_error option \<times> mem_queue"
where
  "mem_Complete q claim succeeded diagnostic now retryAt =
     (if now = 0 then (Some (Msg ''runnable reap completion time is required''), q)
      else let key = ReapRequest_Key (rec_Request (rc_Record claim)) in
      case q key of
        None \<Rightarrow> (Some reap_not_found, q)
      | Some record \<Rightarrow>
          (if rec_State record \<noteq> ReapClaimed \<or> \<not> now < rec_LeaseExpires record \<or>
              rec_Attempt record \<noteq> rec_Attempt (rc_Record claim) \<or>
              rec_LeaseOwner record \<noteq> rec_LeaseOwner (rc_Record claim) \<or>
              rq_Revision (rec_Request record) \<noteq> rq_Revision (rec_Request (rc_Record claim)) \<or>
              rec_LeaseExpires record \<noteq> rec_LeaseExpires (rc_Record claim)
           then (Some reap_lease_lost, q)
           else if succeeded
           then (None, q(key \<mapsto> record \<lparr>rec_State := ReapSucceeded, rec_LastError := [],
                                    rec_CompletedAt := Some now\<rparr>))
           else (None, q(key \<mapsto> record \<lparr>rec_State := ReapQueued, rec_LeaseOwner := [], rec_LeaseExpires := 0,
                                    rec_LastError := boundedReapDiagnostic diagnostic,
                                    rec_NextAttemptAt := retryAt\<rparr>))))"

subsection \<open>Sequences of operations\<close>

text \<open>
  The calls that clients make, in any order: a controller enqueues, workers claim and complete.
  The clock value of an enqueue and the chance of a claim are part of the call.
\<close>

datatype 'n reap_op =
    OpEnqueue time ReapRequest
  | OpClaim 'n string duration time
  | OpComplete ReapClaim bool string time time

fun apply_op ::
  "(time \<Rightarrow> 'q \<Rightarrow> ReapRequest \<Rightarrow> go_error option \<times> 'q) \<Rightarrow>
   ('n \<Rightarrow> 'q \<Rightarrow> string \<Rightarrow> duration \<Rightarrow> time \<Rightarrow> (go_error + ReapClaim option) \<times> 'q) \<Rightarrow>
   ('q \<Rightarrow> ReapClaim \<Rightarrow> bool \<Rightarrow> string \<Rightarrow> time \<Rightarrow> time \<Rightarrow> go_error option \<times> 'q) \<Rightarrow>
   'q \<Rightarrow> 'n reap_op \<Rightarrow> 'q"
where
  "apply_op enq clm cmp q (OpEnqueue clock r) = snd (enq clock q r)"
| "apply_op enq clm cmp q (OpClaim n owner ttl now) = snd (clm n q owner ttl now)"
| "apply_op enq clm cmp q (OpComplete c succeeded diagnostic now retryAt) =
     snd (cmp q c succeeded diagnostic now retryAt)"

text \<open>How one record may change over time: the same request, never fewer attempts, no way out of success.\<close>

definition reap_later :: "ReapRecord \<Rightarrow> ReapRecord \<Rightarrow> bool" where
  "reap_later r r' \<longleftrightarrow> rec_Request r' = rec_Request r \<and> rec_Attempt r \<le> rec_Attempt r' \<and>
     (rec_State r = ReapSucceeded \<longrightarrow> r' = r) \<and>
     (rec_State r \<noteq> ReapClaimed \<and> rec_State r' = ReapClaimed \<longrightarrow> rec_Attempt r < rec_Attempt r')"

definition claim_key :: "ReapClaim \<Rightarrow> string" where
  "claim_key c = ReapRequest_Key (rec_Request (rc_Record c))"

text \<open>The record the queue holds is the one the claim was given, by its fence.\<close>

definition claim_current :: "ReapRecord \<Rightarrow> ReapClaim \<Rightarrow> bool" where
  "claim_current r c \<longleftrightarrow> rec_State r = ReapClaimed \<and> rec_Attempt r = rec_Attempt (rc_Record c) \<and>
     rec_LeaseOwner r = rec_LeaseOwner (rc_Record c) \<and>
     rq_Revision (rec_Request r) = rq_Revision (rec_Request (rc_Record c))"

subsection \<open>The interface\<close>

text \<open>
  What clients rely on. \<open>ts\<close> is the precision at which a queue stores timestamps, \<open>lookup\<close> reads
  the record of a key, \<open>fair\<close> says that the chance of a claim hides no record.
\<close>

definition eligible_at :: "(time \<Rightarrow> time) \<Rightarrow> ReapRecord \<Rightarrow> time \<Rightarrow> bool" where
  "eligible_at ts r now \<longleftrightarrow>
     (rec_State r = ReapQueued \<and> rec_NextAttemptAt r \<le> ts now) \<or>
     (rec_State r = ReapClaimed \<and> rec_LeaseExpires r \<le> ts now)"

definition claimed_record :: "ReapRecord \<Rightarrow> string \<Rightarrow> time \<Rightarrow> ReapRecord" where
  "claimed_record r owner expires = r \<lparr>rec_State := ReapClaimed, rec_Attempt := rec_Attempt r + 1,
     rec_LeaseOwner := owner, rec_LeaseExpires := expires\<rparr>"

definition completed_from :: "(time \<Rightarrow> time) \<Rightarrow> ReapRecord \<Rightarrow> bool \<Rightarrow> string \<Rightarrow> time \<Rightarrow> time \<Rightarrow> ReapRecord \<Rightarrow> bool" where
  "completed_from ts r succeeded diagnostic now retryAt r' \<longleftrightarrow>
     rec_Request r' = rec_Request r \<and> rec_Attempt r' = rec_Attempt r \<and>
     (if succeeded
      then rec_State r' = ReapSucceeded \<and> rec_LastError r' = [] \<and> rec_CompletedAt r' = Some (ts now)
      else rec_State r' = ReapQueued \<and> rec_LastError r' = boundedReapDiagnostic diagnostic \<and>
           rec_NextAttemptAt r' = ts retryAt \<and> rec_CompletedAt r' = rec_CompletedAt r)"

locale reap_queue =
  fixes valid :: "ReapRequest \<Rightarrow> go_error option"
    and ts :: "time \<Rightarrow> time"
    and inv :: "'q \<Rightarrow> bool"
    and lookup :: "'q \<Rightarrow> string \<Rightarrow> ReapRecord option"
    and enq :: "time \<Rightarrow> 'q \<Rightarrow> ReapRequest \<Rightarrow> go_error option \<times> 'q"
    and clm :: "'n \<Rightarrow> 'q \<Rightarrow> string \<Rightarrow> duration \<Rightarrow> time \<Rightarrow> (go_error + ReapClaim option) \<times> 'q"
    and cmp :: "'q \<Rightarrow> ReapClaim \<Rightarrow> bool \<Rightarrow> string \<Rightarrow> time \<Rightarrow> time \<Rightarrow> go_error option \<times> 'q"
    and fair :: "'n \<Rightarrow> 'q \<Rightarrow> bool"
  assumes enq_refused: "valid rq = Some e \<Longrightarrow> enq t q rq = (Some e, q)"
    and enq_new: "inv q \<Longrightarrow> valid rq = None \<Longrightarrow> lookup q (ReapRequest_Key rq) = None \<Longrightarrow>
      fst (enq t q rq) = None \<and> inv (snd (enq t q rq)) \<and>
      (\<exists>next. lookup (snd (enq t q rq)) = (lookup q)(ReapRequest_Key rq \<mapsto> queued_record rq next))"
    and enq_old: "inv q \<Longrightarrow> valid rq = None \<Longrightarrow> lookup q (ReapRequest_Key rq) = Some x \<Longrightarrow>
      snd (enq t q rq) = q \<and> (fst (enq t q rq) = None \<longleftrightarrow> rq_Revision (rec_Request x) = rq_Revision rq)"
    and clm_some: "inv q \<Longrightarrow> clm n q owner ttl now = (Inr (Some c), q') \<Longrightarrow>
      inv q' \<and> \<not> reap_claim_invalid owner ttl now \<and>
      (\<exists>r owner'. lookup q (claim_key c) = Some r \<and> eligible_at ts r now \<and> trim owner' = trim owner \<and>
         rc_Record c = claimed_record r owner' (now + ttl) \<and>
         lookup q' = (lookup q)(claim_key c \<mapsto> claimed_record r owner' (ts (now + ttl))))"
    and clm_none: "inv q \<Longrightarrow> clm n q owner ttl now = (res, q') \<Longrightarrow> \<forall>c. res \<noteq> Inr (Some c) \<Longrightarrow> q' = q"
    and clm_progress: "inv q \<Longrightarrow> fair n q \<Longrightarrow> \<not> reap_claim_invalid owner ttl now \<Longrightarrow>
      lookup q k = Some r \<Longrightarrow> eligible_at ts r now \<Longrightarrow> \<exists>c. fst (clm n q owner ttl now) = Inr (Some c)"
    and cmp_ok: "inv q \<Longrightarrow> cmp q c s d now retryAt = (None, q') \<Longrightarrow>
      inv q' \<and> now < rec_LeaseExpires (rc_Record c) \<and>
      (\<exists>r r'. lookup q (claim_key c) = Some r \<and> claim_current r c \<and>
         completed_from ts r s d now retryAt r' \<and> lookup q' = (lookup q)(claim_key c \<mapsto> r'))"
    and cmp_refused: "cmp q c s d now retryAt = (Some e, q') \<Longrightarrow> q' = q"
    and cmp_accepts: "inv q \<Longrightarrow> lookup q (claim_key c) = Some r \<Longrightarrow> rec_State r = ReapClaimed \<Longrightarrow>
      rc_Record c = r \<lparr>rec_LeaseExpires := expires\<rparr> \<Longrightarrow> rec_LeaseExpires r = ts expires \<Longrightarrow>
      now < expires \<Longrightarrow> ts now < ts expires \<Longrightarrow> now \<noteq> 0 \<Longrightarrow> retryAt \<noteq> 0 \<Longrightarrow>
      fst (cmp q c s d now retryAt) = None"
begin

abbreviation step :: "'q \<Rightarrow> 'n reap_op \<Rightarrow> 'q" where
  "step \<equiv> apply_op enq clm cmp"

lemma enq_cases:
  assumes "inv q"
  shows "snd (enq t q r) = q \<or> (inv (snd (enq t q r)) \<and> lookup q (ReapRequest_Key r) = None \<and>
    (\<exists>next. lookup (snd (enq t q r)) = (lookup q)(ReapRequest_Key r \<mapsto> queued_record r next)))"
  using assms enq_refused enq_new enq_old
  by (cases "valid r"; cases "lookup q (ReapRequest_Key r)") (metis snd_conv)+

lemma clm_cases:
  assumes "inv q"
  shows "snd (clm n q owner ttl now) = q \<or> (\<exists>k r owner' e. inv (snd (clm n q owner ttl now)) \<and>
    lookup q k = Some r \<and> rec_State r \<noteq> ReapSucceeded \<and>
    lookup (snd (clm n q owner ttl now)) = (lookup q)(k \<mapsto> claimed_record r owner' e))"
proof (cases "\<exists>c. fst (clm n q owner ttl now) = Inr (Some c)")
  case True
  then obtain c where "clm n q owner ttl now = (Inr (Some c), snd (clm n q owner ttl now))"
    by (metis prod.collapse)
  from clm_some [OF assms this] obtain r owner' where r: "inv (snd (clm n q owner ttl now))"
    "lookup q (claim_key c) = Some r" "eligible_at ts r now"
    "lookup (snd (clm n q owner ttl now)) =
      (lookup q)(claim_key c \<mapsto> claimed_record r owner' (ts (now + ttl)))"
    by blast
  moreover have "rec_State r \<noteq> ReapSucceeded" using r(3) by (auto simp: eligible_at_def)
  ultimately show ?thesis by blast
next
  case False
  then show ?thesis using clm_none [OF assms] by (metis prod.collapse)
qed

lemma cmp_cases:
  assumes "inv q"
  shows "snd (cmp q c s d now retryAt) = q \<or> (\<exists>k r r'. inv (snd (cmp q c s d now retryAt)) \<and>
    lookup q k = Some r \<and> rec_State r = ReapClaimed \<and> completed_from ts r s d now retryAt r' \<and>
    lookup (snd (cmp q c s d now retryAt)) = (lookup q)(k \<mapsto> r'))"
proof (cases "fst (cmp q c s d now retryAt)")
  case None
  then have "cmp q c s d now retryAt = (None, snd (cmp q c s d now retryAt))" by (metis prod.collapse)
  from cmp_ok [OF assms this] show ?thesis by (auto simp: claim_current_def)
next
  case (Some e)
  then show ?thesis using cmp_refused by (metis prod.collapse)
qed

lemma reap_later_refl: "reap_later r r"
  by (simp add: reap_later_def)

lemma reap_later_trans: "reap_later r s \<Longrightarrow> reap_later s t \<Longrightarrow> reap_later r t"
  by (auto simp: reap_later_def)

lemma step_later:
  assumes "inv q"
  shows "inv (step q op)" and "lookup q k = Some r \<Longrightarrow> \<exists>r'. lookup (step q op) k = Some r' \<and> reap_later r r'"
proof -
  have "inv (step q op) \<and> (lookup q k = Some r \<longrightarrow> (\<exists>r'. lookup (step q op) k = Some r' \<and> reap_later r r'))"
  proof (cases op)
    case (OpEnqueue t x)
    then show ?thesis
      using enq_cases [OF assms, of t x] assms reap_later_refl by (auto split: if_splits)
  next
    case (OpClaim n owner ttl now)
    then show ?thesis
      using clm_cases [OF assms, of n owner ttl now] assms reap_later_refl
      by (auto simp: reap_later_def claimed_record_def)
  next
    case (OpComplete c s d now retryAt)
    then show ?thesis
      using cmp_cases [OF assms, of c s d now retryAt] assms reap_later_refl
      by (auto simp: reap_later_def completed_from_def split: if_splits)
  qed
  then show "inv (step q op)" "lookup q k = Some r \<Longrightarrow> \<exists>r'. lookup (step q op) k = Some r' \<and> reap_later r r'"
    by blast+
qed

lemma run_inv: "inv q \<Longrightarrow> inv (foldl step q ops)"
  by (induction ops arbitrary: q) (simp_all add: step_later(1))

lemma run_later:
  assumes "inv q" "lookup q k = Some r"
  shows "\<exists>r'. lookup (foldl step q ops) k = Some r' \<and> reap_later r r'"
  using assms
proof (induction ops arbitrary: q r)
  case (Cons op ops)
  obtain s where s: "lookup (step q op) k = Some s" "reap_later r s"
    using step_later(2) [OF Cons.prems] by blast
  from Cons.IH [OF step_later(1) [OF Cons.prems(1)] s(1)] s(2) show ?case
    using reap_later_trans by auto
qed (simp add: reap_later_refl)

lemma succeeded_absorbing:
  "inv q \<Longrightarrow> lookup q k = Some r \<Longrightarrow> rec_State r = ReapSucceeded \<Longrightarrow> lookup (foldl step q ops) k = Some r"
  using run_later [of q k r ops] by (auto simp: reap_later_def)

lemma not_current_refused:
  assumes "inv q" "\<And>r. lookup q (claim_key c) = Some r \<Longrightarrow> \<not> claim_current r c"
  shows "\<exists>e. cmp q c s d now retryAt = (Some e, q)"
proof (cases "fst (cmp q c s d now retryAt)")
  case None
  then have "cmp q c s d now retryAt = (None, snd (cmp q c s d now retryAt))" by (metis prod.collapse)
  from cmp_ok [OF assms(1) this] assms(2) show ?thesis by blast
next
  case (Some e)
  then show ?thesis using cmp_refused by (metis prod.collapse)
qed

text \<open>Once the record has left the claim behind, no later state accepts it.\<close>

lemma left_behind:
  assumes "inv q" "lookup q (claim_key c) = Some r"
    and "rec_Attempt (rc_Record c) < rec_Attempt r \<or>
      (rec_Attempt (rc_Record c) = rec_Attempt r \<and> rec_State r \<noteq> ReapClaimed)"
  shows "\<exists>e. cmp (foldl step q ops) c s d now retryAt = (Some e, foldl step q ops)"
proof (rule not_current_refused [OF run_inv [OF assms(1)]])
  obtain r' where r': "lookup (foldl step q ops) (claim_key c) = Some r'" "reap_later r r'"
    using run_later [OF assms(1,2)] by blast
  fix x assume "lookup (foldl step q ops) (claim_key c) = Some x"
  with r' assms(3) show "\<not> claim_current x c"
    by (auto simp: reap_later_def claim_current_def)
qed

lemma stale_claim_refused:
  assumes "inv q" "clm n q owner ttl now = (Inr (Some c), q1)"
    and "clm n' (foldl step q1 ops) owner' ttl' now' = (Inr (Some c'), q2)" "claim_key c' = claim_key c"
  shows "\<exists>e. cmp (foldl step q2 ops') c s d at retryAt = (Some e, foldl step q2 ops')"
proof -
  obtain r x where "inv q1" "lookup q1 (claim_key c) = Some r" "rec_Attempt r = rec_Attempt (rc_Record c)"
    using clm_some [OF assms(1,2)] by (auto simp: claimed_record_def)
  moreover from this obtain r1 where r1: "lookup (foldl step q1 ops) (claim_key c) = Some r1" "reap_later r r1"
    using run_later by blast
  moreover have "inv (foldl step q1 ops)" using run_inv calculation(1) by blast
  ultimately obtain r2 where "inv q2" "lookup q2 (claim_key c) = Some r2" "rec_Attempt r2 = rec_Attempt r1 + 1"
    using clm_some [OF _ assms(3)] assms(4) by (auto simp: claimed_record_def)
  then show ?thesis
    using r1(2) \<open>rec_Attempt r = _\<close> by (intro left_behind) (auto simp: reap_later_def)
qed

lemma completes_once:
  assumes "inv q" "cmp q c s d now retryAt = (None, q1)"
  shows "\<exists>e. cmp (foldl step q1 ops) c s' d' now' retryAt' = (Some e, foldl step q1 ops)"
proof -
  obtain r r' where r: "inv q1" "claim_current r c" "completed_from ts r s d now retryAt r'"
    "lookup q1 (claim_key c) = Some r'"
    using cmp_ok [OF assms] by auto
  then have "rec_Attempt (rc_Record c) = rec_Attempt r' \<and> rec_State r' \<noteq> ReapClaimed"
    by (auto simp: completed_from_def claim_current_def split: if_splits)
  with r(1,4) show ?thesis by (intro left_behind) auto
qed

lemma enqueue_idempotent:
  assumes "inv q" "enq t q r = (None, q1)"
  shows "enq t' (foldl step q1 ops) r = (None, foldl step q1 ops)"
    and "valid r' = None \<Longrightarrow> ReapRequest_Key r' = ReapRequest_Key r \<Longrightarrow> rq_Revision r' \<noteq> rq_Revision r \<Longrightarrow>
      \<exists>e. enq t' (foldl step q1 ops) r' = (Some e, foldl step q1 ops)"
proof -
  have v: "valid r = None" using assms(2) enq_refused by (cases "valid r") force+
  have "\<exists>x. lookup q1 (ReapRequest_Key r) = Some x \<and> rq_Revision (rec_Request x) = rq_Revision r"
    using enq_new [OF assms(1) v, of t] enq_old [OF assms(1) v, of _ t] assms(2)
    by (cases "lookup q (ReapRequest_Key r)") (auto simp: queued_record_def)
  then obtain x where x: "lookup q1 (ReapRequest_Key r) = Some x" "rq_Revision (rec_Request x) = rq_Revision r"
    by blast
  have i: "inv q1" using enq_cases [OF assms(1), of t r] assms by auto
  obtain y where y: "lookup (foldl step q1 ops) (ReapRequest_Key r) = Some y" "rec_Request y = rec_Request x"
    using run_later [OF i x(1)] by (auto simp: reap_later_def)
  have i2: "inv (foldl step q1 ops)" using run_inv [OF i] .
  show "enq t' (foldl step q1 ops) r = (None, foldl step q1 ops)"
    using enq_old [OF i2 v y(1), of t'] x(2) y(2) by (metis prod.collapse)
  show "\<exists>e. enq t' (foldl step q1 ops) r' = (Some e, foldl step q1 ops)"
    if "valid r' = None" "ReapRequest_Key r' = ReapRequest_Key r" "rq_Revision r' \<noteq> rq_Revision r"
    using enq_old [OF i2 that(1), of y t'] that x(2) y by (metis option.exhaust prod.collapse)
qed

end

subsection \<open>The in-memory queue meets the interface\<close>

definition mem_inv :: "codec \<Rightarrow> mem_queue \<Rightarrow> bool" where
  "mem_inv cd q \<longleftrightarrow> (\<forall>k r. q k = Some r \<longrightarrow>
     ReapRequest_Key (rec_Request r) = k \<and> ReapRequest_Valid cd (rec_Request r) = None)"

lemma mem_inv_update:
  "mem_inv cd q \<Longrightarrow> q k = Some r \<Longrightarrow> rec_Request r' = rec_Request r \<Longrightarrow> mem_inv cd (q(k \<mapsto> r'))"
  by (simp add: mem_inv_def)

lemma mem_claim_loop_Some:
  assumes "mem_claim_loop order q owner ttl now = (Some c, q')" "mem_inv cd q"
  shows "\<exists>r. q (claim_key c) = Some r \<and> reap_eligible r now \<and>
    rc_Record c = claimed_record r owner (now + ttl) \<and> q' = q(claim_key c \<mapsto> rc_Record c)"
  using assms
  by (induction order q owner ttl now rule: mem_claim_loop.induct)
    (auto simp: claimed_record_def claim_key_def mem_inv_def Let_def split: option.splits if_splits)

lemma mem_claim_loop_None:
  "mem_claim_loop order q owner ttl now = (None, q') \<Longrightarrow>
     q' = q \<and> (\<forall>k\<in>set order. \<forall>r. q k = Some r \<longrightarrow> \<not> reap_eligible r now)"
  by (induction order q owner ttl now rule: mem_claim_loop.induct)
    (auto simp: Let_def split: option.splits if_splits)

lemma mem_Complete_ok:
  assumes "mem_Complete q c s d now retryAt = (None, q')"
  shows "\<exists>r. q (claim_key c) = Some r \<and> claim_current r c \<and> now < rec_LeaseExpires (rc_Record c) \<and>
    completed_from id r s d now retryAt (the (q' (claim_key c))) \<and>
    q' = q(claim_key c \<mapsto> the (q' (claim_key c)))"
  using assms
  by (auto simp: mem_Complete_def claim_key_def claim_current_def completed_from_def Let_def
      split: if_splits option.splits)

lemma reap_eligible_at: "reap_eligible r now \<longleftrightarrow> eligible_at id r now"
  by (auto simp: reap_eligible_def eligible_at_def)

interpretation mem: reap_queue "ReapRequest_Valid cd" id "mem_inv cd" id "\<lambda>_. mem_Enqueue cd"
  mem_Claim mem_Complete "\<lambda>order q. dom q \<subseteq> set order" for cd
proof (unfold_locales, goal_cases)
  case (4 q n owner ttl now c q')
  then have "mem_claim_loop n q owner ttl now = (Some c, q')" "\<not> reap_claim_invalid owner ttl now"
    by (cases "mem_claim_loop n q owner ttl now"; simp add: mem_Claim_def split: if_splits)+
  moreover from this(1) 4(1) have "mem_inv cd q'"
    using mem_claim_loop_Some [of n q owner ttl now c q' cd]
    by (auto simp: claimed_record_def intro: mem_inv_update)
  ultimately show ?case
    using mem_claim_loop_Some [of n q owner ttl now c q' cd] 4(1) by (auto simp: reap_eligible_at)
next
  case (5 q n owner ttl now res q')
  then show ?case
    using mem_claim_loop_None by (auto simp: mem_Claim_def map_prod_def split: if_splits prod.splits)
next
  case (6 q n owner ttl now k r)
  then show ?case
    using mem_claim_loop_None [of n q owner ttl now]
    by (cases "mem_claim_loop n q owner ttl now"; cases "fst (mem_claim_loop n q owner ttl now)")
      (auto simp: mem_Claim_def reap_eligible_at)
next
  case (7 q c s d now retryAt q')
  from mem_Complete_ok [OF 7(2)] obtain r where r: "q (claim_key c) = Some r" "claim_current r c"
    "now < rec_LeaseExpires (rc_Record c)" "completed_from id r s d now retryAt (the (q' (claim_key c)))"
    "q' = q(claim_key c \<mapsto> the (q' (claim_key c)))"
    by blast
  moreover have "mem_inv cd q'"
    using mem_inv_update [OF 7(1) r(1), of "the (q' (claim_key c))"] r(4,5)
    by (simp add: completed_from_def)
  ultimately show ?case unfolding id_apply by blast
next
  case (9 q c r expires now retryAt s d)
  then show ?case
    by (auto simp: mem_Complete_def claim_key_def Let_def split: if_splits)
qed (auto simp: mem_Enqueue_def mem_Complete_def mem_inv_def queued_record_def Let_def
    split: option.splits if_splits)

end
