(* ===== verification/GoNumbers.thy ===== *)
theory GoNumbers
  imports GoErrors
begin

section \<open>Reading integers\<close>

text \<open>
  \<open>strconv.ParseInt\<close> in base 10 and in base 0, and \<open>fmt.Sscan\<close> into an \<open>int64\<close>, as the
  controller uses them on annotation values: both read back what \<open>%d\<close> has printed.
\<close>

definition digit_value :: "char \<Rightarrow> nat" where
  "digit_value c = (if is_digit c then byte c - 48
     else if 97 \<le> byte c \<and> byte c \<le> 122 then byte c - 87
     else if 65 \<le> byte c \<and> byte c \<le> 90 then byte c - 55 else 36)"

definition number_of :: "nat \<Rightarrow> string \<Rightarrow> nat option" where
  "number_of base s = (if s \<noteq> [] \<and> list_all (\<lambda>c. digit_value c < base) s
     then Some (foldl (\<lambda>n c. n * base + digit_value c) 0 s) else None)"

text \<open>A sign in front, and the range of an \<open>int64\<close>.\<close>

definition sign_split :: "string \<Rightarrow> string \<times> string" where
  "sign_split s = (case s of [] \<Rightarrow> ([], [])
     | c # t \<Rightarrow> if c \<in> {CHR ''+'', CHR ''-''} then ([c], t) else ([], s))"

definition signed64 :: "string \<Rightarrow> nat option \<Rightarrow> int option" where
  "signed64 sg n = (case n of None \<Rightarrow> None
     | Some m \<Rightarrow> if sg = ''-'' then (if int m \<le> 2 ^ 63 then Some (- int m) else None)
                 else (if int m < 2 ^ 63 then Some (int m) else None))"

text \<open>\<open>strconv.ParseInt(s, 10, 64)\<close>\<close>

definition ParseInt10 :: "string \<Rightarrow> int option" where
  "ParseInt10 s = (case sign_split s of (sg, t) \<Rightarrow> signed64 sg (number_of 10 t))"

text \<open>
  \<open>strconv.ParseInt(s, 0, 64)\<close>: a prefix selects the base, and underscores may separate digits.
  \<open>underscore_loop\<close> is \<open>underscoreOK\<close> behind the sign and the prefix: \<open>saw\<close> is the kind of the
  character before.
\<close>

datatype seen_char = SawStart | SawDigit | SawUnderscore | SawOther

fun underscore_loop :: "bool \<Rightarrow> seen_char \<Rightarrow> string \<Rightarrow> bool" where
  "underscore_loop hex saw [] \<longleftrightarrow> saw \<noteq> SawUnderscore"
| "underscore_loop hex saw (c # s) \<longleftrightarrow>
     (if is_digit c \<or> (hex \<and> 10 \<le> digit_value c \<and> digit_value c < 16) then underscore_loop hex SawDigit s
      else if c = CHR ''_'' then saw = SawDigit \<and> underscore_loop hex SawUnderscore s
      else saw \<noteq> SawUnderscore \<and> underscore_loop hex SawOther s)"

definition base_split :: "string \<Rightarrow> (nat \<times> bool) \<times> string" where
  "base_split t = (case t of
       a # b # r \<Rightarrow>
         if a \<noteq> CHR ''0'' then ((10, False), t)
         else if b \<in> {CHR ''b'', CHR ''B''} \<and> r \<noteq> [] then ((2, True), r)
         else if b \<in> {CHR ''o'', CHR ''O''} \<and> r \<noteq> [] then ((8, True), r)
         else if b \<in> {CHR ''x'', CHR ''X''} \<and> r \<noteq> [] then ((16, True), r)
         else ((8, False), t)
     | _ \<Rightarrow> ((10, False), t))"

definition ParseInt0 :: "string \<Rightarrow> int option" where
  "ParseInt0 s = (case sign_split s of (sg, t) \<Rightarrow> (case base_split t of ((base, pre), body) \<Rightarrow>
     if CHR ''_'' \<in> set body \<and> \<not> underscore_loop (base = 16) (if pre then SawDigit else SawStart) body then None
     else signed64 sg (number_of base (filter (\<lambda>c. c \<noteq> CHR ''_'') body))))"

text \<open>
  \<open>fmt.Sscan(s, &value)\<close> on a text without leading space: the longest token that looks like an
  integer is parsed in base 0; on an error the variable keeps its zero.
\<close>

definition scan_digits :: "string \<Rightarrow> string" where
  "scan_digits t = (case t of
       [] \<Rightarrow> []
     | a # r \<Rightarrow>
         if a \<noteq> CHR ''0'' then takeWhile (\<lambda>c. is_digit c \<or> c = CHR ''_'') t
         else (case r of
             [] \<Rightarrow> t
           | b # r' \<Rightarrow>
               if b \<in> {CHR ''b'', CHR ''B''} then a # b # takeWhile (\<lambda>c. digit_value c < 2 \<or> c = CHR ''_'') r'
               else if b \<in> {CHR ''o'', CHR ''O''} then a # b # takeWhile (\<lambda>c. digit_value c < 8 \<or> c = CHR ''_'') r'
               else if b \<in> {CHR ''x'', CHR ''X''} then a # b # takeWhile (\<lambda>c. digit_value c < 16 \<or> c = CHR ''_'') r'
               else a # takeWhile (\<lambda>c. digit_value c < 8 \<or> c = CHR ''_'') r))"

definition Sscan_int64 :: "string \<Rightarrow> int" where
  "Sscan_int64 s = (case sign_split s of (sg, t) \<Rightarrow>
     (case ParseInt0 (sg @ scan_digits t) of Some v \<Rightarrow> v | None \<Rightarrow> 0))"

subsection \<open>Reading what was printed\<close>

lemma number_of_show: "number_of 10 (show_nat n) = Some n"
proof -
  have v: "digit_value c = byte c - 48 \<and> byte c - 48 < 10" if "is_digit c" for c
    using that by (auto simp: digit_value_def is_digit_def)
  have "foldl (\<lambda>n c. n * 10 + digit_value c) m s = foldl (\<lambda>n c. n * 10 + (byte c - 48)) m s"
    if "\<forall>c\<in>set s. is_digit c" for m s
    using that v by (induction s arbitrary: m) auto
  then have "foldl (\<lambda>n c. n * 10 + digit_value c) 0 (show_nat n) = read_nat (show_nat n)"
    using show_nat_digits [of n] by (simp add: read_nat_def mult.commute add.commute)
  then show ?thesis
    using show_nat_digits [of n] v by (auto simp: number_of_def list_all_iff)
qed

lemma show_nat_first: "hd (show_nat n) = CHR ''0'' \<Longrightarrow> n = 0"
proof (induction n rule: show_nat.induct)
  case (1 n)
  show ?case
  proof (cases "n < 10")
    case True
    then have "byte (hd (show_nat n)) = 48 + n" by (simp add: show_nat.simps [of n])
    moreover have "byte (CHR ''0'') = 48" by (simp add: byte_def)
    ultimately show ?thesis using "1.prems" by simp
  next
    case False
    then have "hd (show_nat n) = hd (show_nat (n div 10))" by (simp add: show_nat.simps [of n])
    with False "1" show ?thesis by simp
  qed
qed

lemma digit_no_sign: "is_digit c \<Longrightarrow> c \<noteq> CHR ''+'' \<and> c \<noteq> CHR ''-'' \<and> c \<noteq> CHR ''_''"
  by (auto simp: is_digit_def byte_def)

lemma show_int_nonneg: "0 \<le> n \<Longrightarrow> show_int n = show_nat (nat n)"
  by (simp add: show_int_def)

lemma sign_split_show [simp]: "sign_split (show_nat n) = ([], show_nat n)"
proof (cases "show_nat n")
  case (Cons c s)
  then have "is_digit c" using show_nat_digits [of n] by simp
  with Cons digit_no_sign [of c] show ?thesis by (simp add: sign_split_def)
qed simp

lemma ParseInt10_show: "0 \<le> n \<Longrightarrow> n < 2 ^ 63 \<Longrightarrow> ParseInt10 (show_int n) = Some n"
  by (simp add: ParseInt10_def show_int_nonneg number_of_show signed64_def)

lemma Sscan_int64_show:
  assumes "0 \<le> n" "n < 2 ^ 63"
  shows "Sscan_int64 (show_int n) = n"
proof (cases "n = 0")
  case True
  then show ?thesis by (simp add: show_int_def) code_simp
next
  case False
  let ?s = "show_nat (nat n)"
  have dig: "\<forall>c\<in>set ?s. is_digit c" by (rule show_nat_digits)
  obtain c r where cons: "?s = c # r" using show_nat_nonempty [of "nat n"] by (cases ?s) simp_all
  have first: "c \<noteq> CHR ''0''" using show_nat_first [of "nat n"] cons False assms(1) by auto
  have us: "CHR ''_'' \<notin> set ?s" using dig digit_no_sign by blast
  have scan: "scan_digits ?s = ?s"
    using dig first by (simp add: scan_digits_def cons takeWhile_eq_all_conv)
  have base: "base_split ?s = ((10, False), ?s)"
    using first by (simp add: base_split_def cons split: list.splits)
  have filt: "filter (\<lambda>c. c \<noteq> CHR ''_'') ?s = ?s" using us by (simp add: filter_id_conv) blast
  have "ParseInt0 ?s = Some n"
    using assms us by (simp add: ParseInt0_def base filt number_of_show signed64_def)
  then show ?thesis using assms(1) by (simp add: Sscan_int64_def show_int_nonneg scan)
qed

lemma trim_show: "0 \<le> n \<Longrightarrow> trim (show_int n) = show_int n"
proof (rule trim_solid)
  assume n: "0 \<le> n"
  have "solid c" if "c \<in> set (show_int n)" for c
    using that show_nat_digits [of "nat n"] n by (auto simp: show_int_nonneg is_digit_def solid_def)
  then show "solid (hd (show_int n))" "solid (last (show_int n))"
    using n show_nat_nonempty [of "nat n"] by (simp_all add: show_int_nonneg)
qed (simp add: show_int_def)

end
