(* ===== verification/RuntimeEnvironment.thy ===== *)
theory RuntimeEnvironment
  imports ReapQueue GoNumbers
begin

section \<open>Runtime environments: the custom resource and its lifecycle rules\<close>

text \<open>
  The types of \<open>api/v2/runtime_environment_types.go\<close> and the rules of
  \<open>internal/controller/runtimeenvironment/state.go\<close>. A \<open>metav1.Time\<close> is kept as the time it
  holds; the Kubernetes \<open>Conditions\<close>, which nothing writes, are left out.
\<close>

subsection \<open>The resource\<close>

datatype EnvironmentPhase =
    PhaseUnset | PhasePending | PhaseProvisioning | PhaseReady | PhaseDraining | PhaseReleased
  | PhaseFailed | PhaseOther string

datatype EnvironmentOperation = OperationUnset | OperationNone | OperationResetting | OperationOther string

fun EnvironmentPhase_text :: "EnvironmentPhase \<Rightarrow> string" where
  "EnvironmentPhase_text PhaseUnset = []"
| "EnvironmentPhase_text PhasePending = ''Pending''"
| "EnvironmentPhase_text PhaseProvisioning = ''Provisioning''"
| "EnvironmentPhase_text PhaseReady = ''Ready''"
| "EnvironmentPhase_text PhaseDraining = ''Draining''"
| "EnvironmentPhase_text PhaseReleased = ''Released''"
| "EnvironmentPhase_text PhaseFailed = ''Failed''"
| "EnvironmentPhase_text (PhaseOther s) = s"

fun EnvironmentOperation_text :: "EnvironmentOperation \<Rightarrow> string" where
  "EnvironmentOperation_text OperationUnset = []"
| "EnvironmentOperation_text OperationNone = ''None''"
| "EnvironmentOperation_text OperationResetting = ''Resetting''"
| "EnvironmentOperation_text (OperationOther s) = s"

record RunnableRevisionReference =
  rrf_ID :: string
  rrf_Digest :: string

record LeaseSpec =
  ls_RenewedAt :: time
  ls_ReleaseAt :: "time option"

record BlankRuntimeSpec =
  brs_Provider :: string

record RuntimeEnvironmentSpec =
  es_RunnableRevisionRef :: "RunnableRevisionReference option"
  es_BlankRuntime :: "BlankRuntimeSpec option"
  es_Purpose :: EnvironmentPurpose
  es_Lease :: LeaseSpec
  es_ResetNonce :: int

record ResourceReference =
  rsr_Provider :: string
  rsr_Kind :: string
  rsr_ID :: string

record EndpointReference =
  epr_Name :: string
  epr_Ref :: string

record RuntimeStatus =
  rts_Provider :: string
  rts_ProfileDigest :: string
  rts_ResourceRefs :: "ResourceReference list"
  rts_EndpointRefs :: "EndpointReference list"

record ReportReference =
  rpf_ID :: string
  rpf_Digest :: string

record EnvironmentProgress =
  prg_PhaseID :: string
  prg_Attempt :: int
  prg_ReportRef :: ReportReference

record EnvironmentLifecycleStatus =
  els_ExpiresAt :: "time option"
  els_ReleasedAt :: "time option"

record EnvironmentFailure =
  ef_Class :: FailureClass
  ef_Component :: string
  ef_Reason :: string
  ef_Message :: string
  ef_At :: time

record RuntimeEnvironmentStatus =
  sts_Phase :: EnvironmentPhase
  sts_Operation :: EnvironmentOperation
  sts_ObservedResetNonce :: int
  sts_ObservedGeneration :: int
  sts_Runtime :: RuntimeStatus
  sts_Progress :: EnvironmentProgress
  sts_Lifecycle :: EnvironmentLifecycleStatus
  sts_Failure :: "EnvironmentFailure option"

text \<open>The object: the metadata the controller reads or writes, and the two halves.\<close>

record RuntimeEnvironment =
  env_Namespace :: string
  env_Name :: string
  env_UID :: string
  env_Generation :: int
  env_CreationTimestamp :: time
  env_DeletionTimestamp :: time
  env_Finalizers :: "string list"
  env_Annotations :: "string \<rightharpoonup> string"
  env_Spec :: RuntimeEnvironmentSpec
  env_Status :: RuntimeEnvironmentStatus

abbreviation env_Phase :: "RuntimeEnvironment \<Rightarrow> EnvironmentPhase" where
  "env_Phase e \<equiv> sts_Phase (env_Status e)"

abbreviation env_Operation :: "RuntimeEnvironment \<Rightarrow> EnvironmentOperation" where
  "env_Operation e \<equiv> sts_Operation (env_Status e)"

abbreviation env_ResetNonce :: "RuntimeEnvironment \<Rightarrow> int" where
  "env_ResetNonce e \<equiv> es_ResetNonce (env_Spec e)"

subsection \<open>Plans\<close>

record Plan =
  pn_Revision :: RunnableRevision
  pn_Blank :: "BlankRuntimePlan option"

definition Plan_Profile :: "Plan \<Rightarrow> RuntimeProfile" where
  "Plan_Profile p = (case pn_Blank p of Some b \<Rightarrow> bp_Profile b | None \<Rightarrow> rs_RuntimeProfile (rr_Spec (pn_Revision p)))"

definition Plan_Lifecycle :: "Plan \<Rightarrow> LifecyclePolicy" where
  "Plan_Lifecycle p = (case pn_Blank p of Some b \<Rightarrow> bp_Lifecycle b | None \<Rightarrow> rs_LifecyclePolicy (rr_Spec (pn_Revision p)))"

definition Plan_Runtime :: "Plan \<Rightarrow> Runtime" where
  "Plan_Runtime p = rp_Runtime (Plan_Profile p)"

definition Plan_Digest :: "codec \<Rightarrow> Plan \<Rightarrow> go_error + string" where
  "Plan_Digest cd p = (case pn_Blank p of Some b \<Rightarrow> BlankRuntimePlan_Digest cd b
     | None \<Rightarrow> RunnableRevision_Digest cd (pn_Revision p))"

subsection \<open>Validation, expiry and decision\<close>

definition ValidateSpec :: "codec \<Rightarrow> RuntimeEnvironment \<Rightarrow> Plan \<Rightarrow> go_error option" where
  "ValidateSpec cd env plan = first_error
     [(case pn_Blank plan of
         None \<Rightarrow> (case es_RunnableRevisionRef (env_Spec env) of
             None \<Rightarrow> Some (Msg ''runtime environment has an invalid runnable revision reference'')
           | Some ref \<Rightarrow> first_error
               [fail_if (blank (rrf_ID ref) \<or> \<not> ValidDigest (rrf_Digest ref))
                  (Msg ''runtime environment has an invalid runnable revision reference''),
                map_option (Wrap ''runtime environment runnable revision'')
                  (RunnableRevision_Validate cd (pn_Revision plan)),
                (case RunnableRevision_Digest cd (pn_Revision plan) of
                   Inl e \<Rightarrow> Some e
                 | Inr d \<Rightarrow> fail_if (rrf_Digest ref \<noteq> d)
                     (Msg ''runtime environment reference does not match runnable revision''))])
       | Some b \<Rightarrow> first_error
           [fail_if (case es_BlankRuntime (env_Spec env) of None \<Rightarrow> True
                | Some s \<Rightarrow> brs_Provider s \<noteq> Runtime_text (Plan_Runtime plan))
              (Msg ''runtime environment blank runtime does not match the installed plan''),
            map_option (Wrap ''runtime environment blank runtime plan'') (BlankRuntimePlan_Validate b)]),
      fail_if (es_Purpose (env_Spec env) \<noteq> PurposeLearning \<and> es_Purpose (env_Spec env) \<noteq> PurposeVerification)
        (Msg ''runtime environment has an invalid purpose''),
      fail_if (ls_RenewedAt (es_Lease (env_Spec env)) = 0 \<or> env_ResetNonce env < 0)
        (Msg ''runtime environment has invalid lease or reset controls''),
      fail_if (ls_ReleaseAt (es_Lease (env_Spec env)) = Some 0)
        (Msg ''runtime environment has an invalid release time''),
      (case RuntimeProfile_Digest cd (Plan_Profile plan) of
         Inl e \<Rightarrow> Some e
       | Inr d \<Rightarrow> fail_if (rts_ProfileDigest (sts_Runtime (env_Status env)) \<noteq> [] \<and>
                          rts_ProfileDigest (sts_Runtime (env_Status env)) \<noteq> d)
           (Msg ''runtime environment status is bound to another profile''))]"

text \<open>\<open>%q\<close> of a text without quotes, backslashes or unprintable characters, as every phase name is.\<close>

definition quoted :: "string \<Rightarrow> string" where
  "quoted s = CHR 0x22 # s @ [CHR 0x22]"

definition ExpiresAt :: "time \<Rightarrow> LeaseSpec \<Rightarrow> LifecyclePolicy \<Rightarrow> go_error + time" where
  "ExpiresAt createdAt lease policy =
     (if createdAt = 0 \<or> ls_RenewedAt lease = 0
      then Inl (Msg ''runtime environment expiry requires creation and renewal timestamps'')
      else check (LifecyclePolicy_Validate policy)
        (let deadline = createdAt + seconds (lp_MaxLifetimeSeconds policy);
             idleDeadline = ls_RenewedAt lease + seconds (lp_IdleTTLSeconds policy);
             expires = (if idleDeadline < deadline then idleDeadline else deadline)
         in Inr (case ls_ReleaseAt lease of
              Some r \<Rightarrow> if r < expires then r else expires
            | None \<Rightarrow> expires)))"

datatype Decision = DecisionNone | DecisionProvision | DecisionReset | DecisionDrain | DecisionReap

definition Decide :: "codec \<Rightarrow> RuntimeEnvironment \<Rightarrow> Plan \<Rightarrow> time \<Rightarrow> int \<Rightarrow> go_error + Decision" where
  "Decide cd env plan now observedResetNonce =
     (case ValidateSpec cd env plan of
        Some e \<Rightarrow> Inl e
      | None \<Rightarrow> (case ExpiresAt (env_CreationTimestamp env) (es_Lease (env_Spec env)) (Plan_Lifecycle plan) of
          Inl e \<Rightarrow> Inl e
        | Inr expiresAt \<Rightarrow>
            if env_Phase env = PhaseReleased then Inr DecisionNone
            else if env_Operation env \<noteq> OperationUnset \<and> env_Operation env \<noteq> OperationNone \<and>
                    env_Operation env \<noteq> OperationResetting
            then Inl (Msg (''runtime environment has unsupported operation '' @ quoted (EnvironmentOperation_text (env_Operation env))))
            else if \<not> now < expiresAt \<or> env_Phase env = PhaseDraining
            then (if env_Phase env = PhaseDraining then Inr DecisionReap else Inr DecisionDrain)
            else if env_Phase env = PhaseReady \<and> observedResetNonce < env_ResetNonce env then Inr DecisionReset
            else if env_Operation env = OperationResetting
            then (if env_Phase env \<noteq> PhaseReady \<and> env_Phase env \<noteq> PhaseProvisioning
                  then Inl (Msg (''runtime environment reset is invalid in phase '' @ quoted (EnvironmentPhase_text (env_Phase env))))
                  else Inr DecisionReset)
            else (case env_Phase env of
                PhaseUnset \<Rightarrow> Inr DecisionProvision
              | PhasePending \<Rightarrow> Inr DecisionProvision
              | PhaseProvisioning \<Rightarrow> Inr DecisionProvision
              | PhaseReady \<Rightarrow> Inr DecisionNone
              | PhaseFailed \<Rightarrow> Inr DecisionNone
              | p \<Rightarrow> Inl (Msg (''runtime environment has unsupported phase '' @ quoted (EnvironmentPhase_text p))))))"

fun CanTransition :: "EnvironmentPhase \<Rightarrow> EnvironmentPhase \<Rightarrow> bool" where
  "CanTransition x y \<longleftrightarrow> x = y \<or> (case x of
       PhaseUnset \<Rightarrow> y = PhaseProvisioning \<or> y = PhaseDraining \<or> y = PhaseFailed
     | PhasePending \<Rightarrow> y = PhaseProvisioning \<or> y = PhaseDraining \<or> y = PhaseFailed
     | PhaseProvisioning \<Rightarrow> y = PhaseReady \<or> y = PhaseDraining \<or> y = PhaseFailed
     | PhaseReady \<Rightarrow> y = PhaseDraining \<or> y = PhaseFailed
     | PhaseFailed \<Rightarrow> y = PhaseDraining
     | PhaseDraining \<Rightarrow> y = PhaseReleased
     | _ \<Rightarrow> False)"

declare CanTransition.simps [simp del]

subsection \<open>Facts the controller rests on\<close>

lemma CanTransition_refl [simp]: "CanTransition p p"
  by (simp add: CanTransition.simps)

lemma CanTransition_from_released [simp]: "CanTransition PhaseReleased p \<longleftrightarrow> p = PhaseReleased"
  by (auto simp: CanTransition.simps)

lemma CanTransition_to_released: "CanTransition p PhaseReleased \<longleftrightarrow> p = PhaseReleased \<or> p = PhaseDraining"
  by (cases p) (auto simp: CanTransition.simps)

lemma CanTransition_from_draining: "CanTransition PhaseDraining p \<longleftrightarrow> p = PhaseDraining \<or> p = PhaseReleased"
  by (auto simp: CanTransition.simps)

lemma ExpiresAt_Inr:
  "ExpiresAt c lease policy = Inr t \<longleftrightarrow> c \<noteq> 0 \<and> ls_RenewedAt lease \<noteq> 0 \<and> lifecycle_ok policy \<and>
     t = Min (insert (c + seconds (lp_MaxLifetimeSeconds policy))
           (insert (ls_RenewedAt lease + seconds (lp_IdleTTLSeconds policy)) (set_option (ls_ReleaseAt lease))))"
  by (auto simp: ExpiresAt_def check_Inr LifecyclePolicy_Validate_None Let_def min_def split: option.splits)

text \<open>A decision that acts on the provider is only taken on a bound, unexpired environment.\<close>

lemma Decide_Inr:
  "Decide cd env plan now n = Inr d \<Longrightarrow> d \<noteq> DecisionNone \<Longrightarrow>
     ValidateSpec cd env plan = None \<and> env_Phase env \<noteq> PhaseReleased \<and>
     (\<exists>t. ExpiresAt (env_CreationTimestamp env) (es_Lease (env_Spec env)) (Plan_Lifecycle plan) = Inr t \<and>
       (d = DecisionReap \<longleftrightarrow> env_Phase env = PhaseDraining) \<and>
       (d = DecisionDrain \<longleftrightarrow> env_Phase env \<noteq> PhaseDraining \<and> t \<le> now) \<and>
       (d = DecisionReset \<longrightarrow> env_Phase env \<in> {PhaseReady, PhaseProvisioning} \<and>
          (env_Operation env = OperationResetting \<or> env_Phase env = PhaseReady \<and> n < env_ResetNonce env)) \<and>
       (d = DecisionProvision \<longrightarrow> env_Phase env \<in> {PhaseUnset, PhasePending, PhaseProvisioning} \<and>
          env_Operation env \<noteq> OperationResetting))"
  by (auto simp: Decide_def split: option.splits sum.splits if_splits EnvironmentPhase.splits)

end
