(* ===== verification/Sql.thy ===== *)
theory Sql
  imports GoErrors
begin

section \<open>Tables and statements\<close>

text \<open>
  A table is the list of its rows. The operators below are the SQL statements the repositories
  use: a row by its primary key, \<open>UPDATE ... WHERE\<close> with the number of rows changed,
  \<open>INSERT ... ON CONFLICT DO NOTHING\<close>, and \<open>SELECT ... WHERE ... ORDER BY ... LIMIT 1\<close>. A
  transaction is one function: the statements between \<open>BEGIN\<close> and \<open>COMMIT\<close> act on a state that
  is returned unchanged when the transaction is rolled back. Failures of the connection itself are
  not modelled.
\<close>

text \<open>
  What the database adds: the precision at which it stores a timestamp, and the collation by which
  it orders texts.
\<close>

record database =
  db_ts :: "time \<Rightarrow> time"
  db_coll :: "string \<Rightarrow> string \<Rightarrow> bool"

definition sql_row :: "('r \<Rightarrow> 'k) \<Rightarrow> 'k \<Rightarrow> 'r list \<Rightarrow> 'r option" where
  "sql_row key k t = find (\<lambda>r. key r = k) t"

definition sql_update :: "('r \<Rightarrow> bool) \<Rightarrow> ('r \<Rightarrow> 'r) \<Rightarrow> 'r list \<Rightarrow> 'r list \<times> nat" where
  "sql_update P f t = (map (\<lambda>r. if P r then f r else r) t, length (filter P t))"

definition sql_insert :: "('r \<Rightarrow> 'k) \<Rightarrow> 'r \<Rightarrow> 'r list \<Rightarrow> 'r list \<times> nat" where
  "sql_insert key r t = (if key r \<in> key ` set t then (t, 0) else (t @ [r], 1))"

fun sql_least :: "('r \<Rightarrow> 'r \<Rightarrow> bool) \<Rightarrow> 'r list \<Rightarrow> 'r option" where
  "sql_least le [] = None"
| "sql_least le (r # t) = (case sql_least le t of
     None \<Rightarrow> Some r
   | Some s \<Rightarrow> Some (if le r s then r else s))"

definition sql_first :: "('r \<Rightarrow> 'r \<Rightarrow> bool) \<Rightarrow> ('r \<Rightarrow> bool) \<Rightarrow> 'r list \<Rightarrow> 'r option" where
  "sql_first le P t = sql_least le (filter P t)"

lemma sql_row_Some: "sql_row key k t = Some r \<Longrightarrow> r \<in> set t \<and> key r = k"
  by (auto simp: sql_row_def find_Some_iff)

lemma sql_row_None: "sql_row key k t = None \<longleftrightarrow> k \<notin> key ` set t"
  by (auto simp: sql_row_def find_None_iff)

lemma sql_row_distinct: "distinct (map key t) \<Longrightarrow> r \<in> set t \<Longrightarrow> sql_row key (key r) t = Some r"
  by (induction t) (auto simp: sql_row_def)

lemma sql_row_append:
  "sql_row key k (t @ [r]) = (case sql_row key k t of Some x \<Rightarrow> Some x | None \<Rightarrow> if key r = k then Some r else None)"
  by (induction t) (auto simp: sql_row_def)

lemma sql_row_update:
  assumes "\<And>r. key (f r) = key r"
  shows "sql_row key k (fst (sql_update P f t)) = map_option (\<lambda>r. if P r then f r else r) (sql_row key k t)"
  using assms by (induction t) (auto simp: sql_row_def sql_update_def)

lemma sql_update_keys:
  assumes "\<And>r. key (f r) = key r"
  shows "map key (fst (sql_update P f t)) = map key t"
  using assms by (induction t) (auto simp: sql_update_def)

lemma sql_update_count:
  assumes "distinct (map key t)" "\<And>r. P r \<Longrightarrow> key r = k"
  shows "snd (sql_update P f t) = (case sql_row key k t of Some r \<Rightarrow> if P r then 1 else 0 | None \<Rightarrow> 0)"
proof -
  have none: "k \<notin> key ` set t \<Longrightarrow> filter P t = []" for t
    using assms(2) by (force simp: filter_empty_conv)
  have "length (filter P t) = (case sql_row key k t of Some r \<Rightarrow> if P r then 1 else 0 | None \<Rightarrow> 0)"
    using assms(1)
  proof (induction t)
    case (Cons r t)
    show ?case
    proof (cases "key r = k")
      case True
      then have "filter P t = []" using Cons.prems by (intro none) auto
      with True show ?thesis by (simp add: sql_row_def)
    next
      case False
      then show ?thesis using Cons assms(2) by (auto simp: sql_row_def)
    qed
  qed (simp add: sql_row_def)
  then show ?thesis by (simp add: sql_update_def)
qed

lemma sql_update_none: "(\<And>r. r \<in> set t \<Longrightarrow> \<not> P r) \<Longrightarrow> sql_update P f t = (t, 0)"
  by (auto simp: sql_update_def filter_empty_conv map_idI)

lemma sql_update_set:
  "r \<in> set (fst (sql_update P f t)) \<longleftrightarrow> (\<exists>s\<in>set t. r = (if P s then f s else s))"
  by (auto simp: sql_update_def)

lemma sql_least_None: "sql_least le t = None \<longleftrightarrow> t = []"
  by (cases t) (auto split: option.splits)

lemma sql_least_in: "sql_least le t = Some r \<Longrightarrow> r \<in> set t"
  by (induction t arbitrary: r) (auto split: option.splits if_splits)

lemma sql_least_le:
  assumes "\<And>x y. le x y \<or> le y x" "\<And>x y z. le x y \<Longrightarrow> le y z \<Longrightarrow> le x z"
    and "sql_least le t = Some r" "s \<in> set t"
  shows "le r s"
  using assms(3,4)
proof (induction t arbitrary: r)
  case (Cons x t)
  have refl: "le y y" for y using assms(1) by blast
  show ?case
  proof (cases "sql_least le t")
    case None
    then show ?thesis using Cons.prems refl by (simp add: sql_least_None)
  next
    case (Some a)
    then have r: "r = (if le x a then x else a)" using Cons.prems by simp
    show ?thesis
    proof (cases "s = x")
      case True
      then show ?thesis using r refl assms(1) by auto
    next
      case False
      then have "le a s" using Cons.IH [OF Some] Cons.prems by simp
      then show ?thesis using r assms(2) by auto
    qed
  qed
qed simp

lemma sql_first_Some: "sql_first le P t = Some r \<Longrightarrow> r \<in> set t \<and> P r"
  using sql_least_in by (fastforce simp: sql_first_def)

lemma sql_first_None: "sql_first le P t = None \<longleftrightarrow> (\<forall>r\<in>set t. \<not> P r)"
  by (simp add: sql_first_def sql_least_None filter_empty_conv)

lemma sql_first_le:
  assumes "\<And>x y. le x y \<or> le y x" "\<And>x y z. le x y \<Longrightarrow> le y z \<Longrightarrow> le x z"
    and "sql_first le P t = Some r" "s \<in> set t" "P s"
  shows "le r s"
proof -
  have "sql_least le (filter P t) = Some r" "s \<in> set (filter P t)"
    using assms(3-5) by (simp_all add: sql_first_def)
  then show ?thesis using assms(1,2) by (intro sql_least_le [of le "filter P t" r s]) blast+
qed

text \<open>An order by several columns, the last one a text.\<close>

definition order3 :: "database \<Rightarrow> ('r \<Rightarrow> time) \<Rightarrow> ('r \<Rightarrow> time) \<Rightarrow> ('r \<Rightarrow> string) \<Rightarrow> 'r \<Rightarrow> 'r \<Rightarrow> bool" where
  "order3 db a b k r s \<longleftrightarrow> a r < a s \<or> (a r = a s \<and> (b r < b s \<or> (b r = b s \<and> db_coll db (k r) (k s))))"

end
