(* ===== verification/ReapRepository.thy ===== *)
theory ReapRepository
  imports ReapQueue Sql
begin

section \<open>The reap queue in the database\<close>

text \<open>
  \<open>Enqueue\<close>, \<open>Get\<close>, \<open>Claim\<close> and \<open>Complete\<close> of \<open>internal/adapter/postgres/runnable_repository.go\<close>
  over the table \<open>runnable_reaps\<close> of \<open>schema_runnable.go\<close>, and the second interpretation of the
  queue interface. The JSONB column holds the request itself. A claim is told which rows other
  transactions have locked, for \<open>SKIP LOCKED\<close>.
\<close>

record reap_row =
  rw_key :: string
  rw_digest :: string
  rw_request :: ReapRequest
  rw_state :: ReapState
  rw_attempt :: int
  rw_owner :: string
  rw_expires :: "time option"
  rw_next :: time
  rw_error :: string
  rw_created :: time
  rw_updated :: time
  rw_completed :: "time option"

type_synonym reap_table = "reap_row list"

definition row_record :: "reap_row \<Rightarrow> ReapRecord" where
  "row_record w = \<lparr>rec_Request = rw_request w, rec_State = rw_state w, rec_Attempt = rw_attempt w,
     rec_LeaseOwner = rw_owner w, rec_LeaseExpires = (case rw_expires w of Some e \<Rightarrow> e | None \<Rightarrow> 0),
     rec_NextAttemptAt = rw_next w, rec_LastError = rw_error w, rec_CompletedAt = rw_completed w\<rparr>"

definition scanRunnableReap :: "codec \<Rightarrow> reap_row \<Rightarrow> go_error + ReapRecord" where
  "scanRunnableReap cd w =
     (if ReapRequest_Key (rw_request w) \<noteq> rw_key w \<or> rq_Revision (rw_request w) \<noteq> rw_digest w
      then Inl (Msg ''stored runnable reap is inconsistent'')
      else check (map_option (Wrap ''validate stored runnable reap'') (ReapRequest_Valid cd (rw_request w)))
        (Inr (row_record w)))"

definition pg_reap_Get :: "codec \<Rightarrow> reap_table \<Rightarrow> string \<Rightarrow> go_error + ReapRecord" where
  "pg_reap_Get cd t key =
     (if blank key then Inl reap_not_found
      else case sql_row rw_key key t of
        None \<Rightarrow> Inl reap_not_found
      | Some w \<Rightarrow> (case scanRunnableReap cd w of
          Inl e \<Rightarrow> Inl (Wrap ''get runnable reap'' e)
        | Inr record \<Rightarrow> Inr record))"

definition new_reap_row :: "database \<Rightarrow> time \<Rightarrow> ReapRequest \<Rightarrow> reap_row" where
  "new_reap_row db now request = \<lparr>rw_key = ReapRequest_Key request, rw_digest = rq_Revision request,
     rw_request = request, rw_state = ReapQueued, rw_attempt = 0, rw_owner = [], rw_expires = None,
     rw_next = db_ts db now, rw_error = [], rw_created = db_ts db now, rw_updated = db_ts db now,
     rw_completed = None\<rparr>"

definition pg_reap_Enqueue ::
  "codec \<Rightarrow> database \<Rightarrow> time \<Rightarrow> reap_table \<Rightarrow> ReapRequest \<Rightarrow> go_error option \<times> reap_table"
where
  "pg_reap_Enqueue cd db now t request = (case ReapRequest_Valid cd request of
     Some e \<Rightarrow> (Some e, t)
   | None \<Rightarrow>
       (let (t', changed) = sql_insert rw_key (new_reap_row db now request) t in
        if changed \<noteq> 0 then (None, t')
        else case pg_reap_Get cd t' (ReapRequest_Key request) of
          Inl e \<Rightarrow> (Some e, t')
        | Inr record \<Rightarrow>
            if rq_Revision (rec_Request record) \<noteq> rq_Revision request
            then (Some (Msg ''runnable reap request fence differs from existing request''), t')
            else (None, t')))"

definition reap_row_eligible :: "database \<Rightarrow> time \<Rightarrow> reap_row \<Rightarrow> bool" where
  "reap_row_eligible db now w \<longleftrightarrow>
     (rw_state w = ReapQueued \<and> rw_next w \<le> db_ts db now) \<or>
     (rw_state w = ReapClaimed \<and> (case rw_expires w of Some e \<Rightarrow> e \<le> db_ts db now | None \<Rightarrow> False))"

definition pg_reap_Claim ::
  "codec \<Rightarrow> database \<Rightarrow> string list \<Rightarrow> reap_table \<Rightarrow> string \<Rightarrow> duration \<Rightarrow> time
     \<Rightarrow> (go_error + ReapClaim option) \<times> reap_table"
where
  "pg_reap_Claim cd db locked t owner ttl now =
     (if reap_claim_invalid owner ttl now then (Inl (Msg ''runnable reap claim is invalid''), t)
      else case sql_first (order3 db rw_next rw_created rw_key)
                  (\<lambda>w. reap_row_eligible db now w \<and> rw_key w \<notin> set locked) t of
        None \<Rightarrow> (Inr None, t)
      | Some w \<Rightarrow> (case scanRunnableReap cd w of
          Inl e \<Rightarrow> (Inl (Wrap ''select runnable reap claim'' e), t)
        | Inr record \<Rightarrow>
          (let record' = record \<lparr>rec_State := ReapClaimed, rec_Attempt := rec_Attempt record + 1,
                 rec_LeaseOwner := trim owner, rec_LeaseExpires := now + ttl\<rparr>;
               (t', changed) = sql_update (\<lambda>v. rw_key v = ReapRequest_Key (rec_Request record'))
                 (\<lambda>v. v \<lparr>rw_state := rec_State record', rw_attempt := rec_Attempt record',
                        rw_owner := rec_LeaseOwner record',
                        rw_expires := Some (db_ts db (rec_LeaseExpires record')),
                        rw_updated := db_ts db now\<rparr>) t
           in if changed \<noteq> 1 then (Inl reap_lease_lost, t)
              else (Inr (Some \<lparr>rc_Record = record'\<rparr>), t'))))"

text \<open>The \<open>WHERE\<close> clause of both updates of \<open>Complete\<close>.\<close>

definition reap_fence :: "database \<Rightarrow> ReapClaim \<Rightarrow> time \<Rightarrow> reap_row \<Rightarrow> bool" where
  "reap_fence db claim now w \<longleftrightarrow> (let r = rc_Record claim in
     rw_key w = ReapRequest_Key (rec_Request r) \<and> rw_state w = ReapClaimed \<and>
     rw_attempt w = rec_Attempt r \<and> rw_owner w = rec_LeaseOwner r \<and>
     rw_expires w = Some (db_ts db (rec_LeaseExpires r)) \<and> rw_digest w = rq_Revision (rec_Request r) \<and>
     db_ts db now < db_ts db (rec_LeaseExpires r))"

definition truncateRunnableDiagnostic :: "string \<Rightarrow> string" where
  "truncateRunnableDiagnostic s = cut MaxSummaryLength (trim s)"

definition pg_reap_Complete ::
  "codec \<Rightarrow> database \<Rightarrow> reap_table \<Rightarrow> ReapClaim \<Rightarrow> bool \<Rightarrow> string \<Rightarrow> time \<Rightarrow> time
     \<Rightarrow> go_error option \<times> reap_table"
where
  "pg_reap_Complete cd db t claim succeeded diagnostic now retryAt =
     (if ReapRequest_Valid cd (rec_Request (rc_Record claim)) \<noteq> None \<or> now = 0 \<or>
         \<not> now < rec_LeaseExpires (rc_Record claim)
      then (Some reap_lease_lost, t)
      else if succeeded then
        (let (t', changed) = sql_update (reap_fence db claim now)
               (\<lambda>w. w \<lparr>rw_state := ReapSucceeded, rw_owner := [], rw_expires := None, rw_error := [],
                      rw_completed := Some (db_ts db now), rw_updated := db_ts db now\<rparr>) t
         in if changed \<noteq> 1 then (Some reap_lease_lost, t) else (None, t'))
      else if retryAt = 0 then (Some (Msg ''runnable reap retry requires a next attempt time''), t)
      else
        (let (t', changed) = sql_update (reap_fence db claim now)
               (\<lambda>w. w \<lparr>rw_state := ReapQueued, rw_owner := [], rw_expires := None,
                      rw_next := db_ts db retryAt, rw_error := truncateRunnableDiagnostic diagnostic,
                      rw_updated := db_ts db now\<rparr>) t
         in if changed \<noteq> 1 then (Some reap_lease_lost, t) else (None, t')))"

subsection \<open>The table invariant\<close>

text \<open>
  Primary key, the \<open>CHECK\<close> constraints of the schema, and what the code keeps beyond them: key
  and digest columns agree with a valid request, and exactly the claimed rows hold a lease.
\<close>

definition reap_row_ok :: "codec \<Rightarrow> reap_row \<Rightarrow> bool" where
  "reap_row_ok cd w \<longleftrightarrow> rw_key w = ReapRequest_Key (rw_request w) \<and> rw_digest w = rq_Revision (rw_request w) \<and>
     ReapRequest_Valid cd (rw_request w) = None \<and> 0 \<le> rw_attempt w \<and>
     (rw_owner w = [] \<longleftrightarrow> rw_expires w = None) \<and> (rw_state w = ReapClaimed \<longleftrightarrow> rw_expires w \<noteq> None)"

definition reap_table_ok :: "codec \<Rightarrow> reap_table \<Rightarrow> bool" where
  "reap_table_ok cd t \<longleftrightarrow> distinct (map rw_key t) \<and> (\<forall>w\<in>set t. reap_row_ok cd w)"

definition pg_lookup :: "reap_table \<Rightarrow> string \<Rightarrow> ReapRecord option" where
  "pg_lookup t k = map_option row_record (sql_row rw_key k t)"

lemma scan_ok: "reap_row_ok cd w \<Longrightarrow> scanRunnableReap cd w = Inr (row_record w)"
  by (simp add: scanRunnableReap_def reap_row_ok_def)

lemma key_not_blank: "\<not> blank (ReapRequest_Key r)"
proof -
  have "CHR ''/'' \<in> set (ReapRequest_Key r)" by (simp add: ReapRequest_Key_def)
  then have "CHR ''/'' \<in> set (trim (ReapRequest_Key r))" by (rule solid_in_trim [OF _ slash_solid])
  then show ?thesis by (auto simp: blank_def)
qed

lemma pg_lookup_Some:
  "reap_table_ok cd t \<Longrightarrow> pg_lookup t k = Some r \<Longrightarrow>
     \<exists>w\<in>set t. rw_key w = k \<and> r = row_record w \<and> reap_row_ok cd w \<and> sql_row rw_key k t = Some w"
  by (auto simp: pg_lookup_def reap_table_ok_def dest: sql_row_Some)

text \<open>Updating the row of one key.\<close>

lemma table_update:
  assumes t: "reap_table_ok cd t" and P: "\<And>v. P v \<Longrightarrow> rw_key v = k"
    and f: "\<And>v. rw_key (f v) = rw_key v" and ok: "\<And>v. P v \<Longrightarrow> reap_row_ok cd v \<Longrightarrow> reap_row_ok cd (f v)"
    and w: "sql_row rw_key k t = Some w" "P w"
  shows "reap_table_ok cd (fst (sql_update P f t))" "snd (sql_update P f t) = 1"
    "pg_lookup (fst (sql_update P f t)) = (pg_lookup t)(k \<mapsto> row_record (f w))"
proof -
  show "reap_table_ok cd (fst (sql_update P f t))"
    using t ok sql_update_keys [of rw_key f, OF f]
    by (auto simp: reap_table_ok_def sql_update_set)
  show "snd (sql_update P f t) = 1"
    using t w by (simp add: sql_update_count [where key = rw_key, OF _ P] reap_table_ok_def)
  have "pg_lookup (fst (sql_update P f t)) j = ((pg_lookup t)(k \<mapsto> row_record (f w))) j" for j
  proof (cases "j = k")
    case True
    then show ?thesis using w f by (simp add: pg_lookup_def sql_row_update)
  next
    case False
    then have "sql_row rw_key j t = Some v \<Longrightarrow> \<not> P v" for v using P sql_row_Some by metis
    then show ?thesis
      using False f by (cases "sql_row rw_key j t") (auto simp: pg_lookup_def sql_row_update)
  qed
  then show "pg_lookup (fst (sql_update P f t)) = (pg_lookup t)(k \<mapsto> row_record (f w))" by blast
qed

subsection \<open>The table meets the interface\<close>

lemma pg_enqueue_new:
  assumes t: "reap_table_ok cd t" and v: "ReapRequest_Valid cd r = None"
    and n: "pg_lookup t (ReapRequest_Key r) = None"
  shows "pg_reap_Enqueue cd db now t r = (None, t @ [new_reap_row db now r])"
    and "reap_table_ok cd (t @ [new_reap_row db now r])"
    and "pg_lookup (t @ [new_reap_row db now r]) =
      (pg_lookup t)(ReapRequest_Key r \<mapsto> queued_record r (db_ts db now))"
proof -
  have k: "rw_key (new_reap_row db now r) = ReapRequest_Key r" by (simp add: new_reap_row_def)
  have fresh: "ReapRequest_Key r \<notin> rw_key ` set t" using n by (simp add: pg_lookup_def sql_row_None)
  then show "pg_reap_Enqueue cd db now t r = (None, t @ [new_reap_row db now r])"
    by (simp add: pg_reap_Enqueue_def v sql_insert_def k)
  show "reap_table_ok cd (t @ [new_reap_row db now r])"
    using t fresh v by (auto simp: reap_table_ok_def reap_row_ok_def new_reap_row_def)
  have "row_record (new_reap_row db now r) = queued_record r (db_ts db now)"
    by (simp add: row_record_def new_reap_row_def queued_record_def)
  moreover have "sql_row rw_key (ReapRequest_Key r) t = None" using fresh by (simp add: sql_row_None)
  ultimately show "pg_lookup (t @ [new_reap_row db now r]) =
      (pg_lookup t)(ReapRequest_Key r \<mapsto> queued_record r (db_ts db now))"
    by (auto simp: fun_eq_iff pg_lookup_def sql_row_append k split: option.splits)
qed

lemma pg_enqueue_old:
  assumes t: "reap_table_ok cd t" and v: "ReapRequest_Valid cd r = None"
    and x: "pg_lookup t (ReapRequest_Key r) = Some x"
  shows "snd (pg_reap_Enqueue cd db now t r) = t \<and>
    (fst (pg_reap_Enqueue cd db now t r) = None \<longleftrightarrow> rq_Revision (rec_Request x) = rq_Revision r)"
proof -
  obtain w where w: "w \<in> set t" "rw_key w = ReapRequest_Key r" "x = row_record w" "reap_row_ok cd w"
    "sql_row rw_key (ReapRequest_Key r) t = Some w"
    using pg_lookup_Some [OF t x] by blast
  have "rw_key (new_reap_row db now r) \<in> rw_key ` set t"
    using w(1,2) by (force simp: new_reap_row_def)
  then show ?thesis
    using w by (simp add: pg_reap_Enqueue_def v sql_insert_def pg_reap_Get_def key_not_blank scan_ok)
qed

lemma eligible_row:
  "reap_row_ok cd w \<Longrightarrow> reap_row_eligible db now w \<longleftrightarrow> eligible_at (db_ts db) (row_record w) now"
  by (auto simp: reap_row_ok_def reap_row_eligible_def eligible_at_def row_record_def split: option.splits)

definition claim_row :: "database \<Rightarrow> string \<Rightarrow> duration \<Rightarrow> time \<Rightarrow> reap_row \<Rightarrow> reap_row \<Rightarrow> reap_row" where
  "claim_row db owner ttl now w v = v \<lparr>rw_state := ReapClaimed, rw_attempt := rw_attempt w + 1,
     rw_owner := trim owner, rw_expires := Some (db_ts db (now + ttl)), rw_updated := db_ts db now\<rparr>"

lemma pg_claim_Some:
  assumes t: "reap_table_ok cd t" and ok: "\<not> reap_claim_invalid owner ttl now"
    and w: "sql_first (order3 db rw_next rw_created rw_key)
              (\<lambda>w. reap_row_eligible db now w \<and> rw_key w \<notin> set locked) t = Some w"
  shows "pg_reap_Claim cd db locked t owner ttl now =
      (Inr (Some \<lparr>rc_Record = claimed_record (row_record w) (trim owner) (now + ttl)\<rparr>),
       fst (sql_update (\<lambda>v. rw_key v = rw_key w) (claim_row db owner ttl now w) t))"
    and "reap_table_ok cd (fst (sql_update (\<lambda>v. rw_key v = rw_key w) (claim_row db owner ttl now w) t))"
    and "pg_lookup (fst (sql_update (\<lambda>v. rw_key v = rw_key w) (claim_row db owner ttl now w) t)) =
      (pg_lookup t)(rw_key w \<mapsto> claimed_record (row_record w) (trim owner) (db_ts db (now + ttl)))"
    and "pg_lookup t (rw_key w) = Some (row_record w)" "ReapRequest_Key (rw_request w) = rw_key w"
    and "eligible_at (db_ts db) (row_record w) now"
proof -
  have in_t: "w \<in> set t" "reap_row_eligible db now w" using sql_first_Some [OF w] by simp_all
  then have wok: "reap_row_ok cd w" using t by (simp add: reap_table_ok_def)
  then show "eligible_at (db_ts db) (row_record w) now" using in_t(2) by (simp add: eligible_row)
  have row: "sql_row rw_key (rw_key w) t = Some w"
    using t in_t(1) by (simp add: reap_table_ok_def sql_row_distinct)
  then show "pg_lookup t (rw_key w) = Some (row_record w)" by (simp add: pg_lookup_def)
  show key: "ReapRequest_Key (rw_request w) = rw_key w" using wok by (simp add: reap_row_ok_def)
  have "trim owner \<noteq> []" using ok by (simp add: reap_claim_invalid_def blank_def)
  then have keeps: "reap_row_ok cd v \<Longrightarrow> reap_row_ok cd (claim_row db owner ttl now w v)" for v
    using wok by (simp add: reap_row_ok_def claim_row_def)
  note upd = table_update [where P = "\<lambda>v. rw_key v = rw_key w" and f = "claim_row db owner ttl now w",
      OF t _ _ keeps row]
  show "reap_table_ok cd (fst (sql_update (\<lambda>v. rw_key v = rw_key w) (claim_row db owner ttl now w) t))"
    by (rule upd(1)) (simp_all add: claim_row_def)
  have "pg_lookup (fst (sql_update (\<lambda>v. rw_key v = rw_key w) (claim_row db owner ttl now w) t)) =
      (pg_lookup t)(rw_key w \<mapsto> row_record (claim_row db owner ttl now w w))"
    by (rule upd(3)) (simp_all add: claim_row_def)
  then show "pg_lookup (fst (sql_update (\<lambda>v. rw_key v = rw_key w) (claim_row db owner ttl now w) t)) =
      (pg_lookup t)(rw_key w \<mapsto> claimed_record (row_record w) (trim owner) (db_ts db (now + ttl)))"
    by (simp add: claim_row_def row_record_def claimed_record_def)
  have one: "snd (sql_update (\<lambda>v. rw_key v = rw_key w) (claim_row db owner ttl now w) t) = 1"
    by (rule upd(2)) (simp_all add: claim_row_def)
  have "claim_row db owner ttl now w = (\<lambda>v. v \<lparr>rw_state := ReapClaimed, rw_attempt := rw_attempt w + 1,
     rw_owner := trim owner, rw_expires := Some (db_ts db (now + ttl)), rw_updated := db_ts db now\<rparr>)"
    by (simp add: fun_eq_iff claim_row_def)
  with one show "pg_reap_Claim cd db locked t owner ttl now =
      (Inr (Some \<lparr>rc_Record = claimed_record (row_record w) (trim owner) (now + ttl)\<rparr>),
       fst (sql_update (\<lambda>v. rw_key v = rw_key w) (claim_row db owner ttl now w) t))"
    using ok w
    by (simp add: pg_reap_Claim_def scan_ok [OF wok] key row_record_def claimed_record_def Let_def
        case_prod_unfold)
qed

lemma pg_claim_cases:
  assumes "reap_table_ok cd t" "pg_reap_Claim cd db locked t owner ttl now = (res, t')"
  shows "t' = t \<and> (\<forall>c. res \<noteq> Inr (Some c)) \<or>
    (\<not> reap_claim_invalid owner ttl now \<and>
     (\<exists>w. sql_first (order3 db rw_next rw_created rw_key)
              (\<lambda>w. reap_row_eligible db now w \<and> rw_key w \<notin> set locked) t = Some w))"
  using assms(2) by (auto simp: pg_reap_Claim_def split: if_splits option.splits)

text \<open>The two updates of \<open>Complete\<close>, under one fence.\<close>

definition finish_row :: "database \<Rightarrow> bool \<Rightarrow> string \<Rightarrow> time \<Rightarrow> time \<Rightarrow> reap_row \<Rightarrow> reap_row" where
  "finish_row db succeeded diagnostic now retryAt w =
     (if succeeded
      then w \<lparr>rw_state := ReapSucceeded, rw_owner := [], rw_expires := None, rw_error := [],
              rw_completed := Some (db_ts db now), rw_updated := db_ts db now\<rparr>
      else w \<lparr>rw_state := ReapQueued, rw_owner := [], rw_expires := None, rw_next := db_ts db retryAt,
              rw_error := truncateRunnableDiagnostic diagnostic, rw_updated := db_ts db now\<rparr>)"

lemma pg_complete_unfold:
  "pg_reap_Complete cd db t c s d now retryAt =
     (if ReapRequest_Valid cd (rec_Request (rc_Record c)) \<noteq> None \<or> now = 0 \<or>
         \<not> now < rec_LeaseExpires (rc_Record c)
      then (Some reap_lease_lost, t)
      else if \<not> s \<and> retryAt = 0 then (Some (Msg ''runnable reap retry requires a next attempt time''), t)
      else let u = sql_update (reap_fence db c now) (finish_row db s d now retryAt) t
           in if snd u \<noteq> 1 then (Some reap_lease_lost, t) else (None, fst u))"
proof -
  have "finish_row db True d now retryAt = (\<lambda>w. w \<lparr>rw_state := ReapSucceeded, rw_owner := [],
      rw_expires := None, rw_error := [], rw_completed := Some (db_ts db now), rw_updated := db_ts db now\<rparr>)"
    "finish_row db False d now retryAt = (\<lambda>w. w \<lparr>rw_state := ReapQueued, rw_owner := [],
      rw_expires := None, rw_next := db_ts db retryAt, rw_error := truncateRunnableDiagnostic d,
      rw_updated := db_ts db now\<rparr>)"
    by (simp_all add: fun_eq_iff finish_row_def)
  then show ?thesis by (cases s) (simp_all add: pg_reap_Complete_def Let_def split: prod.splits)
qed

lemma finish_row_ok: "reap_row_ok cd w \<Longrightarrow> reap_row_ok cd (finish_row db s d now retryAt w)"
  by (simp add: reap_row_ok_def finish_row_def)

lemma fence_key: "reap_fence db c now w \<Longrightarrow> rw_key w = claim_key c"
  by (simp add: reap_fence_def claim_key_def Let_def)

lemma pg_complete_ok:
  assumes t: "reap_table_ok cd t" and r: "pg_reap_Complete cd db t c s d now retryAt = (None, t')"
  shows "reap_table_ok cd t' \<and> now < rec_LeaseExpires (rc_Record c) \<and>
    (\<exists>r r'. pg_lookup t (claim_key c) = Some r \<and> claim_current r c \<and>
       completed_from (db_ts db) r s d now retryAt r' \<and> pg_lookup t' = (pg_lookup t)(claim_key c \<mapsto> r'))"
proof -
  have u: "now < rec_LeaseExpires (rc_Record c)"
    "snd (sql_update (reap_fence db c now) (finish_row db s d now retryAt) t) = 1"
    "t' = fst (sql_update (reap_fence db c now) (finish_row db s d now retryAt) t)"
    using r by (auto simp: pg_complete_unfold Let_def split: if_splits)
  obtain w where w: "sql_row rw_key (claim_key c) t = Some w" "reap_fence db c now w"
    using u(2) t sql_update_count [where key = rw_key and P = "reap_fence db c now", OF _ fence_key]
    by (auto simp: reap_table_ok_def split: option.splits if_splits)
  have wok: "reap_row_ok cd w" using t sql_row_Some [OF w(1)] by (simp add: reap_table_ok_def)
  note upd = table_update [where P = "reap_fence db c now" and f = "finish_row db s d now retryAt",
      OF t fence_key _ finish_row_ok w]
  let ?r' = "row_record (finish_row db s d now retryAt w)"
  have ok: "reap_table_ok cd t'" unfolding u(3) by (rule upd(1)) (auto simp: finish_row_def)
  have after: "pg_lookup t' = (pg_lookup t)(claim_key c \<mapsto> ?r')"
    unfolding u(3) by (rule upd(3)) (auto simp: finish_row_def)
  have before: "pg_lookup t (claim_key c) = Some (row_record w)" using w(1) by (simp add: pg_lookup_def)
  have cur: "claim_current (row_record w) c"
    using w(2) wok by (simp add: claim_current_def row_record_def reap_fence_def reap_row_ok_def Let_def)
  have fin: "completed_from (db_ts db) (row_record w) s d now retryAt ?r'"
    by (simp add: completed_from_def row_record_def finish_row_def boundedReapDiagnostic_def
        truncateRunnableDiagnostic_def)
  show ?thesis
    by (intro conjI exI [of _ "row_record w"] exI [of _ ?r'] ok u(1) after before cur fin)
qed

interpretation pg: reap_queue "ReapRequest_Valid cd" "db_ts db" "reap_table_ok cd" pg_lookup
  "pg_reap_Enqueue cd db" "pg_reap_Claim cd db" "pg_reap_Complete cd db"
  "\<lambda>locked _. locked = []" for cd db
proof (unfold_locales, goal_cases)
  case (1 rq e t q)
  then show ?case by (simp add: pg_reap_Enqueue_def)
next
  case (2 q rq t)
  then show ?case using pg_enqueue_new [of cd q rq db t] by auto
next
  case (3 q rq x t)
  then show ?case using pg_enqueue_old [of cd q rq x db t] by simp
next
  case (4 q n owner ttl now c q')
  obtain w where ok: "\<not> reap_claim_invalid owner ttl now"
    and w: "sql_first (order3 db rw_next rw_created rw_key)
              (\<lambda>w. reap_row_eligible db now w \<and> rw_key w \<notin> set n) q = Some w"
    using pg_claim_cases [OF 4] by blast
  note claim = pg_claim_Some [OF 4(1) ok w]
  have c: "rc_Record c = claimed_record (row_record w) (trim owner) (now + ttl)"
    "q' = fst (sql_update (\<lambda>v. rw_key v = rw_key w) (claim_row db owner ttl now w) q)"
    using claim(1) 4(2) by auto
  have k: "claim_key c = rw_key w"
    using claim(5) by (simp add: claim_key_def c(1) claimed_record_def row_record_def)
  then show ?case
    unfolding k c(2)
    by (intro conjI claim(2) ok exI [of _ "row_record w"] exI [of _ "trim owner"] claim(4,6) c(1) claim(3) trim_idem)
next
  case (5 q n owner ttl now res q')
  from pg_claim_cases [OF 5(1,2)] show ?case
  proof
    assume "\<not> reap_claim_invalid owner ttl now \<and>
      (\<exists>w. sql_first (order3 db rw_next rw_created rw_key)
        (\<lambda>w. reap_row_eligible db now w \<and> rw_key w \<notin> set n) q = Some w)"
    then have "\<exists>c. res = Inr (Some c)" using pg_claim_Some(1) [OF 5(1)] 5(2) by auto
    with 5(3) show ?thesis by blast
  qed simp
next
  case (6 q n owner ttl now k r)
  obtain v where v: "v \<in> set q" "r = row_record v" "reap_row_ok cd v"
    using pg_lookup_Some [OF 6(1,4)] by blast
  then have "reap_row_eligible db now v" using 6(5) by (simp add: eligible_row)
  then obtain w where "sql_first (order3 db rw_next rw_created rw_key)
              (\<lambda>w. reap_row_eligible db now w \<and> rw_key w \<notin> set n) q = Some w"
    using v(1) 6(2) sql_first_None
    by (metis (no_types, lifting) empty_iff empty_set option.exhaust)
  from pg_claim_Some(1) [OF 6(1,3) this] show ?case by simp
next
  case (7 q c s d now retryAt q')
  then show ?case by (rule pg_complete_ok)
next
  case (8 q c s d now retryAt e q')
  then show ?case by (auto simp: pg_complete_unfold Let_def split: if_splits)
next
  case (9 q c r expires now retryAt s d)
  obtain w where w: "rw_key w = claim_key c" "r = row_record w" "reap_row_ok cd w"
    "sql_row rw_key (claim_key c) q = Some w"
    using pg_lookup_Some [OF 9(1,2)] by blast
  then have "reap_fence db c now w" "ReapRequest_Valid cd (rec_Request (rc_Record c)) = None"
    using 9(3-7)
    by (auto simp: reap_fence_def reap_row_ok_def row_record_def claim_key_def Let_def split: option.splits)
  moreover have "snd (sql_update (reap_fence db c now) (finish_row db s d now retryAt) q) = 1"
    using 9(1) w(4) calculation(1)
    by (simp add: sql_update_count [where key = rw_key, OF _ fence_key] reap_table_ok_def)
  ultimately show ?case using 9(4,6,8,9) by (simp add: pg_complete_unfold Let_def)
qed

end
