(* ===== verification/Reaper.thy ===== *)
theory Reaper
  imports ReapRepository
begin

section \<open>The reaper\<close>

text \<open>
  \<open>internal/controller/runtimeenvironment/reaper.go\<close>: one round of the cleanup worker over any
  reap queue and any provider. The provider is a parameter that acts on a world of its own; a call
  gets the timeout of its context in seconds. The three clock readings of a round are inputs.
  The properties at the end are about the two queues of the code.
\<close>

definition defaultReaperLeaseTTL :: duration where "defaultReaperLeaseTTL = seconds 30"
definition defaultReaperRetry :: duration where "defaultReaperRetry = seconds 5"

text \<open>\<open>bounded\<close> of \<open>reconciler.go\<close>.\<close>

definition bounded :: "string \<Rightarrow> string" where
  "bounded s = cut 1024 (trim s)"

type_synonym 'w reap_call = "int \<Rightarrow> EnvironmentBinding \<Rightarrow> 'w \<Rightarrow> (bool \<times> go_error option) \<times> 'w"

record Reaper =
  rpr_Owner :: string
  rpr_LeaseTTL :: duration
  rpr_Retry :: duration

text \<open>
  \<open>errors.Is(err, ErrResourceAbsent)\<close>.
\<close>

definition absent :: "go_error option \<Rightarrow> bool" where
  "absent e \<longleftrightarrow> (case e of Some x \<Rightarrow> err_is x ErrResourceAbsent | None \<Rightarrow> False)"

text \<open>What the two provider calls of a round come to: whether it succeeded, and the diagnostic.\<close>

definition reap_attempt ::
  "'w reap_call \<Rightarrow> 'w reap_call \<Rightarrow> EnvironmentBinding \<Rightarrow> 'w \<Rightarrow> (bool \<times> string) \<times> 'w"
where
  "reap_attempt stop release binding w =
     (let ((stopped, stopErr), w1) = stop (lp_StopTimeoutSeconds (EnvironmentBinding_Lifecycle binding)) binding w;
          success = absent stopErr;
          diagnostic = (case stopErr of
              Some e \<Rightarrow> if success then [] else bounded (err_text e)
            | None \<Rightarrow> if stopped then [] else ''runtime environment stop is still in progress'')
      in if stopErr = None \<and> stopped
         then (let ((done, releaseErr), w2) =
                     release (lp_ReapTimeoutSeconds (EnvironmentBinding_Lifecycle binding)) binding w1;
                   success' = (done \<or> absent releaseErr)
               in ((success', case releaseErr of
                        Some e \<Rightarrow> if success' then diagnostic else bounded (err_text e)
                      | None \<Rightarrow> diagnostic), w2))
         else ((success, diagnostic), w1))"

definition Reaper_RunOnce ::
  "('n \<Rightarrow> 'q \<Rightarrow> string \<Rightarrow> duration \<Rightarrow> time \<Rightarrow> (go_error + ReapClaim option) \<times> 'q) \<Rightarrow>
   ('q \<Rightarrow> ReapClaim \<Rightarrow> bool \<Rightarrow> string \<Rightarrow> time \<Rightarrow> time \<Rightarrow> go_error option \<times> 'q) \<Rightarrow>
   'w reap_call \<Rightarrow> 'w reap_call \<Rightarrow> Reaper \<Rightarrow> 'n \<Rightarrow> time \<Rightarrow> time \<Rightarrow> time \<Rightarrow> 'q \<Rightarrow> 'w
     \<Rightarrow> (bool \<times> go_error option) \<times> 'q \<times> 'w"
where
  "Reaper_RunOnce clm cmp stop release r n t1 t2 t3 q w =
     (if blank (rpr_Owner r)
      then ((False, Some (Msg ''runtime environment reaper requires queue, provider, and owner'')), q, w)
      else let ttl = (if rpr_LeaseTTL r \<le> 0 then defaultReaperLeaseTTL else rpr_LeaseTTL r) in
      case clm n q (rpr_Owner r) ttl t1 of
        (Inl e, q1) \<Rightarrow> ((False, Some e), q1, w)
      | (Inr None, q1) \<Rightarrow> ((False, None), q1, w)
      | (Inr (Some claim), q1) \<Rightarrow>
          (let ((success, diagnostic), w1) =
                 reap_attempt stop release (rq_Binding (rec_Request (rc_Record claim))) w;
               retry = (if rpr_Retry r \<le> 0 then defaultReaperRetry else rpr_Retry r);
               retry' = (if success then retry else RetryBackoff retry (rec_Attempt (rc_Record claim)));
               (err, q2) = cmp q1 claim success diagnostic t2 (t3 + retry')
           in ((True, err), q2, w1)))"

subsection \<open>A round over any queue\<close>

lemma reap_attempt_success:
  "fst (fst (reap_attempt stop release b w)) \<longleftrightarrow>
     (let ((stopped, stopErr), w1) = stop (lp_StopTimeoutSeconds (EnvironmentBinding_Lifecycle b)) b w in
      absent stopErr \<or>
      (stopErr = None \<and> stopped \<and>
       (let (done, releaseErr) = fst (release (lp_ReapTimeoutSeconds (EnvironmentBinding_Lifecycle b)) b w1)
        in done \<or> absent releaseErr)))"
  by (auto simp: reap_attempt_def absent_def Let_def split: prod.splits option.splits)

context reap_queue
begin

text \<open>
  What a round that claimed a record and completed it in time leaves behind; \<open>ok\<close> is the outcome of
  the provider calls.
\<close>

lemma run_once:
  assumes "inv q" "Reaper_RunOnce clm cmp stop release r n t1 t2 t3 q w = ((True, None), q2, w')"
  shows "\<exists>c rec rec' ok d. lookup q (claim_key c) = Some rec \<and> eligible_at ts rec t1 \<and>
    ((ok, d), w') = reap_attempt stop release (rq_Binding (rec_Request rec)) w \<and>
    lookup q2 = (lookup q)(claim_key c \<mapsto> rec') \<and> inv q2 \<and>
    rec_Request rec' = rec_Request rec \<and> rec_Attempt rec' = rec_Attempt rec + 1 \<and>
    (if ok then rec_State rec' = ReapSucceeded \<and> rec_CompletedAt rec' = Some (ts t2)
     else rec_State rec' = ReapQueued \<and> rec_LastError rec' = boundedReapDiagnostic d \<and>
       rec_NextAttemptAt rec' = ts (t3 +
         RetryBackoff (if rpr_Retry r \<le> 0 then defaultReaperRetry else rpr_Retry r) (rec_Attempt rec + 1)))"
proof -
  define ttl where "ttl = (if rpr_LeaseTTL r \<le> 0 then defaultReaperLeaseTTL else rpr_LeaseTTL r)"
  define retry where "retry = (if rpr_Retry r \<le> 0 then defaultReaperRetry else rpr_Retry r)"
  obtain c q1 where claim: "clm n q (rpr_Owner r) ttl t1 = (Inr (Some c), q1)"
    using assms(2) by (auto simp: Reaper_RunOnce_def Let_def ttl_def split: if_splits prod.splits sum.splits option.splits)
  obtain rec owner where rec: "inv q1" "lookup q (claim_key c) = Some rec" "eligible_at ts rec t1"
    "rc_Record c = claimed_record rec owner (t1 + ttl)"
    "lookup q1 = (lookup q)(claim_key c \<mapsto> claimed_record rec owner (ts (t1 + ttl)))"
    using clm_some [OF assms(1) claim] by blast
  obtain ok d w1 where att: "reap_attempt stop release (rq_Binding (rec_Request rec)) w = ((ok, d), w1)"
    by (metis prod.collapse)
  let ?retry' = "if ok then retry else RetryBackoff retry (rec_Attempt rec + 1)"
  have req: "rec_Request (rc_Record c) = rec_Request rec" "rec_Attempt (rc_Record c) = rec_Attempt rec + 1"
    by (simp_all add: rec(4) claimed_record_def)
  have res: "cmp q1 c ok d t2 (t3 + ?retry') = (None, q2)" "w' = w1"
    using assms(2) claim att
    by (auto simp: Reaper_RunOnce_def Let_def req ttl_def [symmetric] retry_def [symmetric] split: if_splits prod.splits)
  obtain x rec' where fin: "inv q2" "lookup q1 (claim_key c) = Some x"
    "completed_from ts x ok d t2 (t3 + ?retry') rec'" "lookup q2 = (lookup q1)(claim_key c \<mapsto> rec')"
    using cmp_ok [OF rec(1) res(1)] by blast
  have x: "x = claimed_record rec owner (ts (t1 + ttl))" using fin(2) rec(5) by simp
  have "lookup q2 = (lookup q)(claim_key c \<mapsto> rec')" using fin(4) rec(5) by simp
  then show ?thesis
    using rec(2,3) att res(2) fin(1,3)
    by (intro exI [of _ c] exI [of _ rec] exI [of _ rec'] exI [of _ ok] exI [of _ d])
      (simp add: completed_from_def x claimed_record_def retry_def [symmetric])
qed

end

subsection \<open>A concrete queue\<close>

definition example_binding :: EnvironmentBinding where
  "example_binding = \<lparr>bd_Namespace = ''ns'', bd_Name = ''run'', bd_UID = ''u1'', bd_Purpose = PurposeLearning,
     bd_ResetNonce = 0, bd_RunnableRevision = example_revision, bd_BlankRuntime = None\<rparr>"

definition example_request :: ReapRequest where
  "example_request = \<lparr>rq_Namespace = ''ns'', rq_Name = ''run'', rq_UID = ''u1'',
     rq_Revision = digest_bytes (cd_revision example_codec example_revision), rq_Binding = example_binding\<rparr>"

fun text_le :: "string \<Rightarrow> string \<Rightarrow> bool" where
  "text_le [] t = True"
| "text_le (c # s) [] = False"
| "text_le (c # s) (d # t) \<longleftrightarrow> byte c < byte d \<or> (c = d \<and> text_le s t)"

definition example_db :: database where
  "example_db = \<lparr>db_ts = (\<lambda>x. x), db_coll = text_le\<rparr>"

lemma example_db_simps [simp]: "db_ts example_db x = x" "db_coll example_db = text_le"
  by (simp_all add: example_db_def)

lemma example_request_valid: "ReapRequest_Valid example_codec example_request = None"
proof -
  have b: "\<not> blank ''ns''" "\<not> blank ''run''" "\<not> blank ''u1''" by code_simp+
  have "RunnableRevision_Digest example_codec example_revision =
      Inr (digest_bytes (cd_revision example_codec example_revision))"
    by (simp add: RunnableRevision_Digest_def example_revision_valid)
  then show ?thesis
    using b by (simp add: ReapRequest_Valid_def first_error_Cons EnvironmentBinding_Digest_def
        example_request_def example_binding_def EnvironmentPurpose_Valid_def)
qed

definition example_key :: string where "example_key = ''ns/run/u1''"

lemma example_request_key: "ReapRequest_Key example_request = example_key"
  by (simp add: ReapRequest_Key_def example_request_def example_key_def)

definition example_row :: "ReapState \<Rightarrow> int \<Rightarrow> string \<Rightarrow> time option \<Rightarrow> reap_row" where
  "example_row state attempt owner expires = (new_reap_row example_db 1 example_request)
     \<lparr>rw_state := state, rw_attempt := attempt, rw_owner := owner, rw_expires := expires\<rparr>"

definition example_table :: reap_table where
  "example_table = [new_reap_row example_db 1 example_request]"

definition example_claim :: "int \<Rightarrow> string \<Rightarrow> time \<Rightarrow> ReapClaim" where
  "example_claim attempt owner expires =
     \<lparr>rc_Record = claimed_record ((row_record (new_reap_row example_db 1 example_request))
        \<lparr>rec_Attempt := attempt - 1\<rparr>) owner expires\<rparr>"

lemma example_table_ok: "reap_table_ok example_codec example_table"
  by (simp add: example_table_def reap_table_ok_def reap_row_ok_def new_reap_row_def example_request_valid)

lemma example_claims:
  "pg_reap_Claim example_codec example_db [] example_table ''w1'' 10 5 =
     (Inr (Some (example_claim 1 ''w1'' 15)),
      [(example_row ReapClaimed 1 ''w1'' (Some 15)) \<lparr>rw_updated := 5\<rparr>])"
  "pg_reap_Claim example_codec example_db [] [(example_row ReapClaimed 1 ''w1'' (Some 15)) \<lparr>rw_updated := 5\<rparr>]
     ''w2'' 10 20 =
     (Inr (Some (example_claim 2 ''w2'' 30 \<lparr>rc_Record := (rc_Record (example_claim 2 ''w2'' 30))\<rparr>)),
      [(example_row ReapClaimed 2 ''w2'' (Some 30)) \<lparr>rw_updated := 20\<rparr>])"
proof -
  have b: "\<not> blank ''w1''" "\<not> blank ''w2''" "trim ''w1'' = ''w1''" "trim ''w2'' = ''w2''"
    by code_simp+
  note defs = pg_reap_Claim_def reap_claim_invalid_def sql_first_def reap_row_eligible_def
    scanRunnableReap_def example_request_valid sql_update_def row_record_def example_claim_def claimed_record_def
    new_reap_row_def example_row_def Let_def
  show "pg_reap_Claim example_codec example_db [] example_table ''w1'' 10 5 =
     (Inr (Some (example_claim 1 ''w1'' 15)),
      [(example_row ReapClaimed 1 ''w1'' (Some 15)) \<lparr>rw_updated := 5\<rparr>])"
    by (simp add: defs b example_table_def)
  show "pg_reap_Claim example_codec example_db [] [(example_row ReapClaimed 1 ''w1'' (Some 15)) \<lparr>rw_updated := 5\<rparr>]
     ''w2'' 10 20 =
     (Inr (Some (example_claim 2 ''w2'' 30 \<lparr>rc_Record := (rc_Record (example_claim 2 ''w2'' 30))\<rparr>)),
      [(example_row ReapClaimed 2 ''w2'' (Some 30)) \<lparr>rw_updated := 20\<rparr>])"
    by (simp add: defs b)
qed

subsection \<open>Properties\<close>

text \<open>The steps of the two queues.\<close>

abbreviation pg_step :: "codec \<Rightarrow> database \<Rightarrow> reap_table \<Rightarrow> string list reap_op \<Rightarrow> reap_table" where
  "pg_step cd db \<equiv> apply_op (pg_reap_Enqueue cd db) (pg_reap_Claim cd db) (pg_reap_Complete cd db)"

abbreviation mem_step :: "codec \<Rightarrow> mem_queue \<Rightarrow> string list reap_op \<Rightarrow> mem_queue" where
  "mem_step cd \<equiv> apply_op (\<lambda>_. mem_Enqueue cd) mem_Claim mem_Complete"

text \<open>
  The database reap queue is fenced: once a second claim for a cleanup request has been handed out,
  whatever operations ran before and after it, completing the first claim is refused and changes
  nothing.
\<close>

theorem pg_stale_claim_refused:
  assumes "reap_table_ok cd t" "pg_reap_Claim cd db locked t owner ttl now = (Inr (Some c), t1)"
    and "pg_reap_Claim cd db locked' (foldl (pg_step cd db) t1 ops) owner' ttl' now' = (Inr (Some c'), t2)"
    and "claim_key c' = claim_key c"
  shows "\<exists>e. pg_reap_Complete cd db (foldl (pg_step cd db) t2 ops') c ok d at retryAt =
    (Some e, foldl (pg_step cd db) t2 ops')"
  using assms by (rule pg.stale_claim_refused)

lemma pg_stale_claim_refused_witness:
  "\<exists>e t. pg_reap_Complete example_codec example_db t (example_claim 1 ''w1'' 15) True [] 14 40 = (Some e, t) \<and>
     t = [(example_row ReapClaimed 2 ''w2'' (Some 30)) \<lparr>rw_updated := 20\<rparr>]"
  using pg_stale_claim_refused [OF example_table_ok example_claims(1), where ops = "[]" and ops' = "[]",
      unfolded foldl_Nil, OF example_claims(2)]
  by (simp add: claim_key_def example_claim_def claimed_record_def row_record_def)

text \<open>
  The same holds for the in-memory queue, for every order in which its claims visit the map.
\<close>

theorem mem_stale_claim_refused:
  assumes "mem_inv cd q" "mem_Claim order q owner ttl now = (Inr (Some c), q1)"
    and "mem_Claim order' (foldl (mem_step cd) q1 ops) owner' ttl' now' = (Inr (Some c'), q2)"
    and "claim_key c' = claim_key c"
  shows "\<exists>e. mem_Complete (foldl (mem_step cd) q2 ops') c ok d at retryAt = (Some e, foldl (mem_step cd) q2 ops')"
  using assms by (rule mem.stale_claim_refused)

lemma mem_stale_claim_refused_witness:
  "\<exists>q1 q2 c e. mem_Claim [example_key] [example_key \<mapsto> queued_record example_request 0] ''w1'' 10 5 =
       (Inr (Some c), q1) \<and> mem_Complete q2 c True [] 14 40 = (Some e, q2) \<and> q2 \<noteq> q1"
proof -
  have b: "\<not> blank ''w1''" "\<not> blank ''w2''" by code_simp+
  let ?q = "[example_key \<mapsto> queued_record example_request 0]"
  let ?r1 = "claimed_record (queued_record example_request 0) ''w1'' 15"
  let ?r2 = "claimed_record ?r1 ''w2'' 30"
  have ok: "mem_inv example_codec ?q"
    by (simp add: mem_inv_def queued_record_def example_request_key example_request_valid)
  have c1: "mem_Claim [example_key] ?q ''w1'' 10 5 = (Inr (Some \<lparr>rc_Record = ?r1\<rparr>), ?q(example_key \<mapsto> ?r1))"
    by (simp add: mem_Claim_def reap_claim_invalid_def b reap_eligible_def queued_record_def claimed_record_def Let_def)
  have c2: "mem_Claim [example_key] (foldl (mem_step example_codec) (?q(example_key \<mapsto> ?r1)) []) ''w2'' 10 20 =
      (Inr (Some \<lparr>rc_Record = ?r2\<rparr>), ?q(example_key \<mapsto> ?r2))"
    by (simp add: mem_Claim_def reap_claim_invalid_def b reap_eligible_def queued_record_def claimed_record_def Let_def)
  have k: "claim_key \<lparr>rc_Record = ?r2\<rparr> = claim_key \<lparr>rc_Record = ?r1\<rparr>"
    by (simp add: claim_key_def claimed_record_def)
  have "?q(example_key \<mapsto> ?r2) \<noteq> ?q(example_key \<mapsto> ?r1)"
    by (simp add: fun_eq_iff claimed_record_def queued_record_def)
  then show ?thesis
    using c1 mem_stale_claim_refused [OF ok c1 c2 k, where ops' = "[]" and ok = True and d = "[]" and at = 14 and retryAt = 40]
    by (metis foldl_Nil)
qed

text \<open>
  A claim of the database queue completes at most once, and success is final: after \<open>Complete\<close>
  returned no error, completing the same claim again is refused after any further operations; a
  record in state succeeded keeps its value through every operation.
\<close>

theorem pg_completes_once:
  assumes "reap_table_ok cd t" "pg_reap_Complete cd db t c ok d now retryAt = (None, t1)"
  shows "(\<exists>e. pg_reap_Complete cd db (foldl (pg_step cd db) t1 ops) c ok' d' now' retryAt' =
      (Some e, foldl (pg_step cd db) t1 ops)) \<and>
    (ok \<longrightarrow> (\<exists>r. pg_lookup t1 (claim_key c) = Some r \<and> rec_State r = ReapSucceeded \<and>
       pg_lookup (foldl (pg_step cd db) t1 ops) (claim_key c) = Some r))"
proof -
  obtain r' where r: "reap_table_ok cd t1" "pg_lookup t1 (claim_key c) = Some r'"
    "ok \<longrightarrow> rec_State r' = ReapSucceeded"
    using pg.cmp_ok [OF assms] by (auto simp: completed_from_def)
  show ?thesis
    using pg.completes_once [OF assms] pg.succeeded_absorbing [OF r(1,2)] r(2,3) by blast
qed

lemma example_complete:
  "pg_reap_Complete example_codec example_db [(example_row ReapClaimed 1 ''w1'' (Some 15)) \<lparr>rw_updated := 5\<rparr>]
     (example_claim 1 ''w1'' 15) True [] 14 40 =
   (None, [(example_row ReapSucceeded 1 [] None) \<lparr>rw_updated := 14, rw_completed := Some 14\<rparr>])"
  by (simp add: pg_reap_Complete_def example_claim_def claimed_record_def row_record_def new_reap_row_def
      example_request_valid sql_update_def reap_fence_def example_row_def Let_def)

lemma example_claimed_table_ok:
  "reap_table_ok example_codec [(example_row ReapClaimed 1 ''w1'' (Some 15)) \<lparr>rw_updated := 5\<rparr>]"
  by (simp add: reap_table_ok_def reap_row_ok_def new_reap_row_def example_row_def example_request_valid)

lemma pg_completes_once_witness:
  "\<exists>r. pg_lookup [(example_row ReapSucceeded 1 [] None) \<lparr>rw_updated := 14, rw_completed := Some 14\<rparr>]
      (claim_key (example_claim 1 ''w1'' 15)) = Some r \<and> rec_State r = ReapSucceeded"
  using pg_completes_once [OF example_claimed_table_ok example_complete, where ops = "[]" and ok' = True and d' = "[]" and now' = 20 and retryAt' = 50]
  by auto

text \<open>
  Enqueueing is idempotent and fenced: after a cleanup request was accepted by the database queue,
  enqueueing it again is accepted and changes nothing, whatever happened in between; a request with
  the same key but another revision digest is refused and changes nothing.
\<close>

theorem pg_enqueue_idempotent:
  assumes "reap_table_ok cd t" "pg_reap_Enqueue cd db now t r = (None, t1)"
  shows "pg_reap_Enqueue cd db now' (foldl (pg_step cd db) t1 ops) r = (None, foldl (pg_step cd db) t1 ops) \<and>
    (ReapRequest_Valid cd r' = None \<and> ReapRequest_Key r' = ReapRequest_Key r \<and> rq_Revision r' \<noteq> rq_Revision r \<longrightarrow>
      (\<exists>e. pg_reap_Enqueue cd db now' (foldl (pg_step cd db) t1 ops) r' = (Some e, foldl (pg_step cd db) t1 ops)))"
  using pg.enqueue_idempotent [OF assms] by blast

lemma pg_enqueue_idempotent_witness:
  "pg_reap_Enqueue example_codec example_db 7 example_table example_request = (None, example_table)"
proof -
  have "pg_reap_Enqueue example_codec example_db 1 [] example_request = (None, example_table)"
    by (simp add: pg_reap_Enqueue_def example_request_valid sql_insert_def example_table_def)
  from pg_enqueue_idempotent [OF _ this, of 7 "[]" example_request]
  show ?thesis by (simp add: reap_table_ok_def)
qed

text \<open>
  A claim that no other transaction disturbs takes the first due request: if it returns a claim,
  the claimed row was due (queued and past its next attempt, or claimed with an expired lease) and
  no due row sorts before it by next attempt, creation and key; and if any row is due it does
  return a claim.
\<close>

theorem pg_claims_first_due:
  assumes "reap_table_ok cd t" "\<not> reap_claim_invalid owner ttl now"
    and "\<And>a b. db_coll db a b \<or> db_coll db b a" "\<And>a b c. db_coll db a b \<Longrightarrow> db_coll db b c \<Longrightarrow> db_coll db a c"
  shows "case fst (pg_reap_Claim cd db [] t owner ttl now) of
      Inr (Some c) \<Rightarrow> (\<exists>w\<in>set t. rw_key w = claim_key c \<and> reap_row_eligible db now w \<and>
        (\<forall>v\<in>set t. reap_row_eligible db now v \<longrightarrow> order3 db rw_next rw_created rw_key w v))
    | Inr None \<Rightarrow> \<forall>v\<in>set t. \<not> reap_row_eligible db now v
    | Inl e \<Rightarrow> False"
proof (cases "sql_first (order3 db rw_next rw_created rw_key)
              (\<lambda>w. reap_row_eligible db now w \<and> rw_key w \<notin> set []) t")
  case None
  then have "pg_reap_Claim cd db [] t owner ttl now = (Inr None, t)"
    using assms(2) by (simp add: pg_reap_Claim_def)
  then show ?thesis using None by (simp add: sql_first_None)
next
  case (Some w)
  let ?le = "order3 db rw_next rw_created rw_key"
  have tot: "?le x y \<or> ?le y x" for x y using assms(3) by (auto simp: order3_def)
  have trans: "?le x y \<Longrightarrow> ?le y z \<Longrightarrow> ?le x z" for x y z using assms(4) by (auto simp: order3_def)
  have "?le w v" if "v \<in> set t" "reap_row_eligible db now v" for v
    using sql_first_le [OF tot trans Some that(1)] that(2) by simp
  then show ?thesis
    using pg_claim_Some(1,5) [OF assms(1,2) Some] sql_first_Some [OF Some]
    by (auto simp: claim_key_def claimed_record_def row_record_def)
qed

lemma text_le_total: "text_le a b \<or> text_le b a"
proof (induction a b rule: text_le.induct)
  case (3 c s d t)
  have "c = d" if "byte c = byte d" using that by (simp add: byte_def)
  then show ?case using 3 by (cases "byte c" "byte d" rule: linorder_cases) auto
qed auto

lemma text_le_trans: "text_le a b \<Longrightarrow> text_le b c \<Longrightarrow> text_le a c"
proof (induction a b arbitrary: c rule: text_le.induct)
  case (3 x s y t)
  then show ?case by (cases c) auto
qed auto

lemma pg_claims_first_due_witness:
  "\<exists>w\<in>set example_table. rw_key w = claim_key (example_claim 1 ''w1'' 15) \<and>
     reap_row_eligible example_db 5 w"
proof -
  have "\<not> reap_claim_invalid ''w1'' 10 5" by code_simp
  from pg_claims_first_due [OF example_table_ok this, of example_db]
  show ?thesis using text_le_total text_le_trans by (auto simp: example_claims(1))
qed

text \<open>
  One round of the reaper on the database queue ends a cleanup exactly when the provider says so:
  the claimed request, due at the start of the round, becomes succeeded if the stop call found the
  resource absent, or if stop finished and release was done or found it absent; otherwise it returns
  to the queue with the bounded diagnostic and a next attempt after the backoff of its attempt
  number, which is at most five minutes. Every other request is untouched.
\<close>

theorem reaper_round:
  assumes "reap_table_ok cd t" "rpr_Retry r \<le> RetryBackoffCap"
    and "Reaper_RunOnce (pg_reap_Claim cd db) (pg_reap_Complete cd db) stop release r locked t1 t2 t3 t w =
      ((True, None), t', w')"
  shows "\<exists>k rec rec' ok d. pg_lookup t k = Some rec \<and> eligible_at (db_ts db) rec t1 \<and>
    ((ok, d), w') = reap_attempt stop release (rq_Binding (rec_Request rec)) w \<and>
    pg_lookup t' = (pg_lookup t)(k \<mapsto> rec') \<and> rec_Attempt rec' = rec_Attempt rec + 1 \<and>
    (ok \<longrightarrow> rec_State rec' = ReapSucceeded) \<and>
    (\<not> ok \<longrightarrow> rec_State rec' = ReapQueued \<and> rec_LastError rec' = boundedReapDiagnostic d \<and>
       (\<exists>delay. 0 < delay \<and> delay \<le> RetryBackoffCap \<and> rec_NextAttemptAt rec' = db_ts db (t3 + delay)))"
proof -
  let ?base = "if rpr_Retry r \<le> 0 then defaultReaperRetry else rpr_Retry r"
  have pos: "0 < ?base" "?base \<le> RetryBackoffCap"
    using assms(2) by (simp_all add: defaultReaperRetry_def seconds_def RetryBackoffCap_val)
  have delay: "0 < RetryBackoff ?base n \<and> RetryBackoff ?base n \<le> RetryBackoffCap" for n
    by (rule RetryBackoff_bounds) (use pos in simp_all)
  from pg.run_once [OF assms(1,3)] obtain c rec rec' ok d where
    r: "pg_lookup t (claim_key c) = Some rec" "eligible_at (db_ts db) rec t1"
      "((ok, d), w') = reap_attempt stop release (rq_Binding (rec_Request rec)) w"
      "pg_lookup t' = (pg_lookup t)(claim_key c \<mapsto> rec')" "rec_Attempt rec' = rec_Attempt rec + 1"
    and s: "if ok then rec_State rec' = ReapSucceeded \<and> rec_CompletedAt rec' = Some (db_ts db t2)
      else rec_State rec' = ReapQueued \<and> rec_LastError rec' = boundedReapDiagnostic d \<and>
        rec_NextAttemptAt rec' = db_ts db (t3 + RetryBackoff ?base (rec_Attempt rec + 1))"
    by blast
  have "(ok \<longrightarrow> rec_State rec' = ReapSucceeded) \<and>
    (\<not> ok \<longrightarrow> rec_State rec' = ReapQueued \<and> rec_LastError rec' = boundedReapDiagnostic d \<and>
       (\<exists>delay. 0 < delay \<and> delay \<le> RetryBackoffCap \<and> rec_NextAttemptAt rec' = db_ts db (t3 + delay)))"
    using s delay [of "rec_Attempt rec + 1"] by (cases ok) auto
  then show ?thesis using r by blast
qed

definition example_reaper :: Reaper where
  "example_reaper = \<lparr>rpr_Owner = ''w1'', rpr_LeaseTTL = 10, rpr_Retry = 0\<rparr>"

lemma reaper_round_witness:
  "\<exists>k rec'. pg_lookup (fst (snd (Reaper_RunOnce (pg_reap_Claim example_codec example_db)
        (pg_reap_Complete example_codec example_db)
        (\<lambda>_ _ w. ((True, None), w)) (\<lambda>_ _ w. ((True, None), w)) example_reaper [] 5 14 40 example_table ()))) k
       = Some rec' \<and> rec_State rec' = ReapSucceeded"
proof -
  let ?run = "Reaper_RunOnce (pg_reap_Claim example_codec example_db) (pg_reap_Complete example_codec example_db)
        (\<lambda>_ _ w. ((True, None), w)) (\<lambda>_ _ w. ((True, None), w)) example_reaper [] 5 14 40 example_table ()"
  have b: "\<not> blank ''w1''" by code_simp
  have complete: "pg_reap_Complete example_codec example_db [(example_row ReapClaimed 1 ''w1'' (Some 15)) \<lparr>rw_updated := 5\<rparr>]
     (example_claim 1 ''w1'' 15) True [] 14 rt =
   (None, [(example_row ReapSucceeded 1 [] None) \<lparr>rw_updated := 14, rw_completed := Some 14\<rparr>])" for rt
    by (simp add: pg_reap_Complete_def example_claim_def claimed_record_def row_record_def new_reap_row_def
        example_request_valid sql_update_def reap_fence_def example_row_def Let_def)
  have run: "?run = ((True, None),
      [(example_row ReapSucceeded 1 [] None) \<lparr>rw_updated := 14, rw_completed := Some 14\<rparr>], ())"
    by (simp add: Reaper_RunOnce_def example_reaper_def b example_claims(1) reap_attempt_def absent_def complete Let_def)
  have "rpr_Retry example_reaper \<le> RetryBackoffCap" by (simp add: example_reaper_def RetryBackoffCap_val)
  from reaper_round [OF example_table_ok this run] obtain k ok d and rec rec' :: ReapRecord where
    "((ok, d), ()) = reap_attempt (\<lambda>_ _ w. ((True, None), w)) (\<lambda>_ _ w. ((True, None), w)) (rq_Binding (rec_Request rec)) ()"
    "pg_lookup [(example_row ReapSucceeded 1 [] None) \<lparr>rw_updated := 14, rw_completed := Some 14\<rparr>] =
       (pg_lookup example_table)(k \<mapsto> rec')"
    "ok \<longrightarrow> rec_State rec' = ReapSucceeded"
    by blast
  then show ?thesis
    by (intro exI [of _ k] exI [of _ rec']) (simp add: run reap_attempt_def absent_def)
qed

end
