(* ===== verification/Reconciler.thy ===== *)
theory Reconciler
  imports RuntimeEnvironment Reaper
begin

section \<open>The runtime environment controller\<close>

text \<open>
  \<open>internal/controller/runtimeenvironment/reconciler.go\<close>: one round of \<open>Reconcile\<close> on one object.
  The Kubernetes API is the stored object and, per call of the round, an error it may return
  without an effect; the provider acts on a world of its own, the reap queue is any queue, and the
  resolver and the installed blank plans are functions. Patches made with \<open>client.MergeFrom\<close> of
  the object just read write the object; removing the last finalizer of an object in deletion
  removes it, deleting an object with finalizers only marks it. The clock may move between the
  places that read it.
\<close>

definition finalizer :: string where "finalizer = ''breakfix.dev/runtime-environment-cleanup''"
definition resetNonceAnnotation :: string where "resetNonceAnnotation = ''breakfix.dev/observed-reset-nonce''"
definition resetAdoptedAnnotation :: string where "resetAdoptedAnnotation = ''breakfix.dev/reset-adopted-at''"
definition provisionRequeue :: duration where "provisionRequeue = seconds 2"
definition providerRetryRequeue :: duration where "providerRetryRequeue = seconds 5"
definition reapStatusRequeue :: duration where "reapStatusRequeue = seconds 2"
definition statusStepRequeue :: duration where "statusStepRequeue = seconds 2"

record Observation =
  ob_Ready :: bool
  ob_ResourceRefs :: "ResourceReference list"
  ob_EndpointRefs :: "EndpointReference list"

type_synonym 'w provider_call = "int \<Rightarrow> EnvironmentBinding \<Rightarrow> 'w \<Rightarrow> (go_error + Observation) \<times> 'w"

text \<open>
  The collaborators. \<open>rx_Blank\<close> is \<open>None\<close> when no blank source is configured, \<open>rx_NotFound\<close> is
  \<open>apierrors.IsNotFound\<close>, \<open>rx_Api n\<close> the error of the \<open>n\<close>-th API call of the round if it fails. The
  clock is read to decide, for the annotation, for the reset deadline, for a status and at the end.
\<close>

datatype clock_point = ClockDecide | ClockAdopt | ClockDeadline | ClockStatus | ClockEnd

record ('q, 'w) Reconciler =
  rx_Codec :: codec
  rx_Resolver :: "string \<Rightarrow> string \<Rightarrow> go_error + RunnableRevision"
  rx_Blank :: "(string \<Rightarrow> go_error + BlankRuntimePlan) option"
  rx_Provision :: "'w provider_call"
  rx_Reset :: "'w provider_call"
  rx_Enqueue :: "'q \<Rightarrow> ReapRequest \<Rightarrow> go_error option \<times> 'q"
  rx_Get :: "'q \<Rightarrow> string \<Rightarrow> go_error + ReapRecord"
  rx_NotFound :: "go_error \<Rightarrow> bool"
  rx_Api :: "nat \<Rightarrow> go_error option"
  rx_Now :: "clock_point \<Rightarrow> time"

record ('q, 'w) world =
  wd_object :: "RuntimeEnvironment option"
  wd_calls :: nat
  wd_reaps :: 'q
  wd_provider :: 'w

text \<open>\<open>ctrl.Result\<close> is its \<open>RequeueAfter\<close>; a round returns it with an error.\<close>

type_synonym ('q, 'w) round = "(duration \<times> go_error option) \<times> ('q, 'w) world"

subsection \<open>API calls\<close>

definition api_call ::
  "('q, 'w) Reconciler \<Rightarrow> RuntimeEnvironment option \<Rightarrow> ('q, 'w) world \<Rightarrow> go_error option \<times> ('q, 'w) world"
where
  "api_call r obj w = (case rx_Api r (wd_calls w) of
       Some e \<Rightarrow> (Some e, w \<lparr>wd_calls := Suc (wd_calls w)\<rparr>)
     | None \<Rightarrow> (None, w \<lparr>wd_calls := Suc (wd_calls w), wd_object := obj\<rparr>))"

text \<open>\<open>r.Patch\<close>, \<open>r.Delete\<close> and \<open>client.IgnoreNotFound\<close>.\<close>

definition patched :: "RuntimeEnvironment \<Rightarrow> RuntimeEnvironment option" where
  "patched env = (if env_DeletionTimestamp env \<noteq> 0 \<and> env_Finalizers env = [] then None else Some env)"

definition deleted :: "time \<Rightarrow> RuntimeEnvironment \<Rightarrow> RuntimeEnvironment option" where
  "deleted now env = (if env_Finalizers env = [] then None
     else if env_DeletionTimestamp env \<noteq> 0 then Some env
     else Some (env \<lparr>env_DeletionTimestamp := now\<rparr>))"

definition ignore_not_found :: "('q, 'w) Reconciler \<Rightarrow> go_error option \<Rightarrow> go_error option" where
  "ignore_not_found r err = (case err of Some e \<Rightarrow> if rx_NotFound r e then None else Some e | None \<Rightarrow> None)"

subsection \<open>Annotations\<close>

definition annotation :: "RuntimeEnvironment \<Rightarrow> string \<Rightarrow> string" where
  "annotation env key = (case env_Annotations env key of Some v \<Rightarrow> v | None \<Rightarrow> [])"

definition parseObservedResetNonce :: "RuntimeEnvironment \<Rightarrow> int" where
  "parseObservedResetNonce env = Sscan_int64 (trim (annotation env resetNonceAnnotation))"

text \<open>\<open>time.Unix(value, 0)\<close>; the Unix epoch is \<open>unix_epoch\<close> after the zero time.\<close>

definition unix_epoch :: time where "unix_epoch = seconds 62135596800"

definition parseResetAdoptedAt :: "RuntimeEnvironment \<Rightarrow> time option" where
  "parseResetAdoptedAt env = (case ParseInt10 (trim (annotation env resetAdoptedAnnotation)) of
       None \<Rightarrow> None
     | Some v \<Rightarrow> if v \<le> 0 then None else Some (unix_epoch + seconds v))"

definition unix_seconds :: "time \<Rightarrow> int" where
  "unix_seconds t = (t - unix_epoch) div 1000000000"

subsection \<open>Status\<close>

definition updateStatus ::
  "('q, 'w) Reconciler \<Rightarrow> RuntimeEnvironment \<Rightarrow> (RuntimeEnvironmentStatus \<Rightarrow> RuntimeEnvironmentStatus)
     \<Rightarrow> ('q, 'w) world \<Rightarrow> (go_error option \<times> RuntimeEnvironment) \<times> ('q, 'w) world"
where
  "updateStatus r env mutate w =
     (let status = mutate (env_Status env)
      in if \<not> CanTransition (env_Phase env) (sts_Phase status)
         then ((Some (Msg (''runtime environment cannot transition from '' @ quoted (EnvironmentPhase_text (env_Phase env)) @
                 '' to '' @ quoted (EnvironmentPhase_text (sts_Phase status)))), env), w)
         else let env' = env \<lparr>env_Status := status \<lparr>sts_ObservedGeneration := env_Generation env\<rparr>\<rparr>;
                  (err, w') = api_call r (patched env') w
              in ((err, env'), w'))"

definition set_failure ::
  "FailureClass \<Rightarrow> string \<Rightarrow> string \<Rightarrow> go_error \<Rightarrow> time \<Rightarrow> RuntimeEnvironmentStatus \<Rightarrow> RuntimeEnvironmentStatus"
where
  "set_failure cls component reason cause now s = s \<lparr>sts_Failure := Some \<lparr>ef_Class = cls,
     ef_Component = component, ef_Reason = reason, ef_Message = bounded (err_text cause), ef_At = now\<rparr>\<rparr>"

definition rec_fail ::
  "('q, 'w) Reconciler \<Rightarrow> RuntimeEnvironment \<Rightarrow> FailureClass \<Rightarrow> string \<Rightarrow> string \<Rightarrow> go_error \<Rightarrow> ('q, 'w) world
     \<Rightarrow> ('q, 'w) round"
where
  "rec_fail r env cls component reason cause w =
     (let ((err, _), w') = updateStatus r env (\<lambda>s. set_failure cls component reason cause (rx_Now r ClockStatus)
            (s \<lparr>sts_Phase := PhaseFailed, sts_Operation := OperationNone\<rparr>)) w
      in ((0, err), w'))"

definition infrastructureFailure ::
  "('q, 'w) Reconciler \<Rightarrow> RuntimeEnvironment \<Rightarrow> string \<Rightarrow> string \<Rightarrow> go_error \<Rightarrow> ('q, 'w) world \<Rightarrow> ('q, 'w) round"
where
  "infrastructureFailure r env component reason cause w =
     (let ((err, _), w') = updateStatus r env
            (\<lambda>s. set_failure FailureInfrastructure component reason cause (rx_Now r ClockStatus)
               (if sts_Phase s = PhaseUnset \<or> sts_Phase s = PhasePending
                then s \<lparr>sts_Phase := PhaseProvisioning\<rparr> else s)) w
      in ((0, err), w'))"

definition providerFailure ::
  "('q, 'w) Reconciler \<Rightarrow> RuntimeEnvironment \<Rightarrow> go_error \<Rightarrow> ('q, 'w) world \<Rightarrow> ('q, 'w) round"
where
  "providerFailure r env err w =
     (if as_artifact err \<noteq> None
      then rec_fail r env FailureArtifact ''runtime-provider'' ''provider-artifact-failure'' err w
      else case infrastructureFailure r env ''runtime-provider'' ''provider-unavailable'' err w of
        ((res, Some e), w') \<Rightarrow> ((res, Some e), w')
      | ((_, None), w') \<Rightarrow> ((providerRetryRequeue, None), w'))"

subsection \<open>Plans and bindings\<close>

text \<open>
  The zero \<open>RunnableRevision\<close> of a blank plan. The error of a blank provider without an installed
  plan wraps \<open>errBlankRuntimeNotInstalled\<close>; of the second error it wraps only the text is used.
\<close>

definition zero_profile :: RuntimeProfile where
  "zero_profile = \<lparr>rp_Runtime = RuntimeOther [], rp_ProfileRevision = [], rp_BaseImage = [], rp_SoftwareVersions = [],
     rp_Resources = \<lparr>rl_CPU = [], rl_MemoryBytes = 0, rl_EphemeralBytes = 0, rl_MaxProcesses = 0, rl_MaxConcurrentTasks = 0\<rparr>,
     rp_Network = NetworkOther [], rp_Topology = [], rp_ExecutionBoundaries = []\<rparr>"

definition zero_revision :: RunnableRevision where
  "zero_revision = \<lparr>rr_FormatVersion = [],
     rr_Spec = \<lparr>rs_FormatVersion = [], rs_Identity = \<lparr>ci_Kind = [], ci_ID = [], ci_Revision = []\<rparr>,
       rs_RuntimeProfile = zero_profile,
       rs_Source = \<lparr>sa_FormatVersion = [], sa_Reference = [], sa_Digest = []\<rparr>, rs_Initialization = [],
       rs_ValidationPlan = \<lparr>pl_FormatVersion = [], pl_Phases = []\<rparr>,
       rs_LifecyclePolicy = \<lparr>lp_CreateTimeoutSeconds = 0, lp_ResetTimeoutSeconds = 0, lp_StopTimeoutSeconds = 0,
         lp_ReapTimeoutSeconds = 0, lp_IdleTTLSeconds = 0, lp_MaxLifetimeSeconds = 0\<rparr>\<rparr>,
     rr_Artifact = \<lparr>ar_FormatVersion = [], ar_Runtime = RuntimeOther [], ar_ProviderReference = [],
       ar_ArtifactDigest = [], ar_BuiltFromSpecDigest = [], ar_BuilderVersion = []\<rparr>\<rparr>"

definition blank_not_installed :: "string \<Rightarrow> go_error" where
  "blank_not_installed detail = Sentinel ErrBlankRuntimeNotInstalled (''blank runtime has no installed plan'' @ detail)"

definition blankPlan :: "('q, 'w) Reconciler \<Rightarrow> string \<Rightarrow> go_error + BlankRuntimePlan" where
  "blankPlan r provider = (case rx_Blank r of
       None \<Rightarrow> Inl (blank_not_installed ('': '' @ provider))
     | Some f \<Rightarrow> (case f provider of
         Inl e \<Rightarrow> Inl (blank_not_installed ('': '' @ provider @ '': '' @ err_text e))
       | Inr plan \<Rightarrow> Inr plan))"

definition resolvePlan :: "('q, 'w) Reconciler \<Rightarrow> RuntimeEnvironment \<Rightarrow> go_error + Plan" where
  "resolvePlan r env = (case es_BlankRuntime (env_Spec env) of
       None \<Rightarrow> (case es_RunnableRevisionRef (env_Spec env) of
           None \<Rightarrow> Inl (blank_not_installed [])
         | Some ref \<Rightarrow> (case rx_Resolver r (rrf_ID ref) (rrf_Digest ref) of
             Inl e \<Rightarrow> Inl e
           | Inr revision \<Rightarrow> Inr \<lparr>pn_Revision = revision, pn_Blank = None\<rparr>))
     | Some s \<Rightarrow> (case blankPlan r (brs_Provider s) of
         Inl e \<Rightarrow> Inl e
       | Inr plan \<Rightarrow> Inr \<lparr>pn_Revision = zero_revision, pn_Blank = Some plan\<rparr>))"

definition environmentBinding :: "RuntimeEnvironment \<Rightarrow> Plan \<Rightarrow> EnvironmentBinding" where
  "environmentBinding env plan = \<lparr>bd_Namespace = env_Namespace env, bd_Name = env_Name env, bd_UID = env_UID env,
     bd_Purpose = es_Purpose (env_Spec env), bd_ResetNonce = env_ResetNonce env,
     bd_RunnableRevision = pn_Revision plan, bd_BlankRuntime = pn_Blank plan\<rparr>"

subsection \<open>The steps of a round\<close>

definition applyObservation ::
  "('q, 'w) Reconciler \<Rightarrow> RuntimeEnvironment \<Rightarrow> Plan \<Rightarrow> Observation \<Rightarrow> EnvironmentOperation \<Rightarrow> ('q, 'w) world
     \<Rightarrow> ('q, 'w) round"
where
  "applyObservation r env plan observation operation w =
     (case RuntimeProfile_Digest (rx_Codec r) (Plan_Profile plan) of
        Inl e \<Rightarrow> ((0, Some e), w)
      | Inr profileDigest \<Rightarrow>
          (let phase = (if ob_Ready observation then PhaseReady
                 else if env_Phase env = PhaseUnset \<or> env_Phase env = PhasePending then PhaseProvisioning
                 else env_Phase env);
               operation' = (if ob_Ready observation then OperationNone else operation)
           in case ExpiresAt (env_CreationTimestamp env) (es_Lease (env_Spec env)) (Plan_Lifecycle plan) of
                Inl e \<Rightarrow> ((0, Some e), w)
              | Inr expiresAt \<Rightarrow>
                  (case updateStatus r env (\<lambda>s. s \<lparr>sts_Phase := phase, sts_Operation := operation',
                       sts_Runtime := \<lparr>rts_Provider = Runtime_text (Plan_Runtime plan),
                         rts_ProfileDigest = profileDigest, rts_ResourceRefs = ob_ResourceRefs observation,
                         rts_EndpointRefs = ob_EndpointRefs observation\<rparr>,
                       sts_Lifecycle := (sts_Lifecycle s) \<lparr>els_ExpiresAt := Some expiresAt\<rparr>,
                       sts_Failure := None\<rparr>) w of
                     ((Some e, _), w') \<Rightarrow> ((0, Some e), w')
                   | ((None, _), w') \<Rightarrow>
                       ((if ob_Ready observation then expiresAt - rx_Now r ClockEnd else provisionRequeue, None), w'))))"

definition reap_request :: "EnvironmentBinding \<Rightarrow> string \<Rightarrow> ReapRequest" where
  "reap_request binding digest = \<lparr>rq_Namespace = bd_Namespace binding, rq_Name = bd_Name binding,
     rq_UID = bd_UID binding, rq_Revision = digest, rq_Binding = binding\<rparr>"

definition reconcileReap ::
  "('q, 'w) Reconciler \<Rightarrow> RuntimeEnvironment \<Rightarrow> EnvironmentBinding \<Rightarrow> ('q, 'w) world \<Rightarrow> ('q, 'w) round"
where
  "reconcileReap r env binding w =
     (case EnvironmentBinding_Digest (rx_Codec r) binding of
        Inl e \<Rightarrow> ((0, Some e), w)
      | Inr digest \<Rightarrow>
          (let request = reap_request binding digest;
               (enqErr, q) = rx_Enqueue r (wd_reaps w) request;
               w1 = w \<lparr>wd_reaps := q\<rparr>
           in if enqErr \<noteq> None then ((providerRetryRequeue, None), w1)
              else case rx_Get r q (ReapRequest_Key request) of
                Inl e \<Rightarrow> ((providerRetryRequeue, None), w1)
              | Inr record \<Rightarrow>
                  if rec_State record \<noteq> ReapSucceeded then ((reapStatusRequeue, None), w1)
                  else if env_DeletionTimestamp env = 0
                  then (case updateStatus r env (\<lambda>s. s \<lparr>sts_Phase := PhaseReleased, sts_Operation := OperationNone,
                            sts_Lifecycle := (sts_Lifecycle s) \<lparr>els_ReleasedAt := Some (rx_Now r ClockStatus)\<rparr>\<rparr>) w1 of
                         ((Some e, _), w2) \<Rightarrow> ((0, Some e), w2)
                       | ((None, env1), w2) \<Rightarrow>
                           (let (err, w3) = api_call r (deleted (rx_Now r ClockEnd) env1) w2
                            in ((0, ignore_not_found r err), w3)))
                  else (let env1 = env \<lparr>env_Finalizers := removeAll finalizer (env_Finalizers env)\<rparr>;
                            (err, w2) = api_call r (patched env1) w1
                        in ((0, err), w2))))"

definition reconcileDeletion ::
  "('q, 'w) Reconciler \<Rightarrow> RuntimeEnvironment \<Rightarrow> ('q, 'w) world \<Rightarrow> ('q, 'w) round"
where
  "reconcileDeletion r env w =
     (if finalizer \<notin> set (env_Finalizers env) then ((0, None), w)
      else case resolvePlan r env of
        Inl e \<Rightarrow> ((0, Some e), w)
      | Inr plan \<Rightarrow> reconcileReap r env (environmentBinding env plan) w)"

definition observeResetRequest ::
  "('q, 'w) Reconciler \<Rightarrow> RuntimeEnvironment \<Rightarrow> ('q, 'w) world
     \<Rightarrow> (go_error option \<times> RuntimeEnvironment) \<times> ('q, 'w) world"
where
  "observeResetRequest r env w =
     (if parseObservedResetNonce env = env_ResetNonce env \<and> parseResetAdoptedAt env \<noteq> None
      then ((None, env), w)
      else let env1 = env \<lparr>env_Annotations := (env_Annotations env)
                 (resetNonceAnnotation \<mapsto> show_int (env_ResetNonce env),
                  resetAdoptedAnnotation \<mapsto> show_int (unix_seconds (rx_Now r ClockAdopt)))\<rparr>;
               (err, w1) = api_call r (patched env1) w
           in ((err, env1), w1))"

definition reconcileProvision ::
  "('q, 'w) Reconciler \<Rightarrow> RuntimeEnvironment \<Rightarrow> Plan \<Rightarrow> ('q, 'w) world \<Rightarrow> ('q, 'w) round"
where
  "reconcileProvision r env plan w =
     (if env_Phase env = PhaseUnset \<or> env_Phase env = PhasePending
      then (case updateStatus r env (\<lambda>s. s \<lparr>sts_Phase := PhaseProvisioning, sts_Operation := OperationNone\<rparr>) w of
              ((Some e, _), w1) \<Rightarrow> ((0, Some e), w1)
            | ((None, _), w1) \<Rightarrow> ((statusStepRequeue, None), w1))
      else case rx_Provision r (lp_CreateTimeoutSeconds (Plan_Lifecycle plan)) (environmentBinding env plan) (wd_provider w) of
        (Inl e, p) \<Rightarrow> providerFailure r env e (w \<lparr>wd_provider := p\<rparr>)
      | (Inr observation, p) \<Rightarrow>
          applyObservation r env plan observation (env_Operation env) (w \<lparr>wd_provider := p\<rparr>))"

text \<open>The reset path behind the adoption of the request.\<close>

definition reset_adopted ::
  "('q, 'w) Reconciler \<Rightarrow> RuntimeEnvironment \<Rightarrow> Plan \<Rightarrow> EnvironmentBinding \<Rightarrow> ('q, 'w) world \<Rightarrow> ('q, 'w) round"
where
  "reset_adopted r env plan binding w =
     (case observeResetRequest r env w of
        ((Some e, _), w1) \<Rightarrow> ((0, Some e), w1)
      | ((None, env1), w1) \<Rightarrow>
          (if (case parseResetAdoptedAt env1 of None \<Rightarrow> False
               | Some adopted \<Rightarrow> adopted + seconds (lp_ResetTimeoutSeconds (Plan_Lifecycle plan)) < rx_Now r ClockDeadline)
           then rec_fail r env1 FailureInfrastructure ''runtime-environment'' ''reset-timeout''
             (Msg (''reset did not complete within '' @ show_int (lp_ResetTimeoutSeconds (Plan_Lifecycle plan)) @ '' seconds'')) w1
           else case rx_Reset r (lp_ResetTimeoutSeconds (Plan_Lifecycle plan)) binding (wd_provider w1) of
             (Inl e, p) \<Rightarrow> providerFailure r env1 e (w1 \<lparr>wd_provider := p\<rparr>)
           | (Inr observation, p) \<Rightarrow>
               applyObservation r env1 plan observation OperationResetting (w1 \<lparr>wd_provider := p\<rparr>)))"

definition reconcileReset ::
  "('q, 'w) Reconciler \<Rightarrow> RuntimeEnvironment \<Rightarrow> Plan \<Rightarrow> ('q, 'w) world \<Rightarrow> ('q, 'w) round"
where
  "reconcileReset r env plan w =
     (if env_Operation env = OperationResetting then reset_adopted r env plan (environmentBinding env plan) w
      else case updateStatus r env (\<lambda>s. s \<lparr>sts_Operation := OperationResetting,
                sts_ObservedResetNonce := env_ResetNonce env\<rparr>) w of
        ((Some e, _), w1) \<Rightarrow> ((0, Some e), w1)
      | ((None, env1), w1) \<Rightarrow> reset_adopted r env1 plan (environmentBinding env plan) w1)"

definition reconcileObject ::
  "('q, 'w) Reconciler \<Rightarrow> RuntimeEnvironment \<Rightarrow> ('q, 'w) world \<Rightarrow> ('q, 'w) round"
where
  "reconcileObject r env w =
     (if env_DeletionTimestamp env \<noteq> 0 then reconcileDeletion r env w
      else if finalizer \<notin> set (env_Finalizers env)
      then (let (err, w1) = api_call r (patched (env \<lparr>env_Finalizers := env_Finalizers env @ [finalizer]\<rparr>)) w
            in (case err of Some e \<Rightarrow> ((0, Some e), w1) | None \<Rightarrow> ((statusStepRequeue, None), w1)))
      else case resolvePlan r env of
        Inl e \<Rightarrow>
          (if err_is e ErrBlankRuntimeNotInstalled
           then rec_fail r env FailureArtifact ''runtime-environment'' ''blank-runtime-not-installed'' e w
           else case infrastructureFailure r env ''revision-resolver'' ''revision-unavailable'' e w of
             ((res, Some e'), w1) \<Rightarrow> ((res, Some e'), w1)
           | ((_, None), w1) \<Rightarrow> ((providerRetryRequeue, None), w1))
      | Inr plan \<Rightarrow> (case ValidateSpec (rx_Codec r) env plan of
          Some e \<Rightarrow> rec_fail r env FailureArtifact ''runtime-environment'' ''invalid-revision-binding'' e w
        | None \<Rightarrow> (case Decide (rx_Codec r) env plan (rx_Now r ClockDecide) (parseObservedResetNonce env) of
            Inl e \<Rightarrow> rec_fail r env FailureArtifact ''runtime-environment'' ''invalid-lifecycle'' e w
          | Inr DecisionNone \<Rightarrow> ((0, None), w)
          | Inr DecisionDrain \<Rightarrow>
              (case updateStatus r env (\<lambda>s. s \<lparr>sts_Phase := PhaseDraining, sts_Operation := OperationNone\<rparr>) w of
                 ((Some e, _), w1) \<Rightarrow> ((0, Some e), w1)
               | ((None, _), w1) \<Rightarrow> ((statusStepRequeue, None), w1))
          | Inr DecisionProvision \<Rightarrow> reconcileProvision r env plan w
          | Inr DecisionReset \<Rightarrow> reconcileReset r env plan w
          | Inr DecisionReap \<Rightarrow> reconcileReap r env (environmentBinding env plan) w)))"

definition Reconcile :: "('q, 'w) Reconciler \<Rightarrow> ('q, 'w) world \<Rightarrow> ('q, 'w) round" where
  "Reconcile r w = (case rx_Api r (wd_calls w) of
       Some e \<Rightarrow> ((0, ignore_not_found r (Some e)), w \<lparr>wd_calls := Suc (wd_calls w)\<rparr>)
     | None \<Rightarrow> (case wd_object w of
         None \<Rightarrow> ((0, None), w \<lparr>wd_calls := Suc (wd_calls w)\<rparr>)
       | Some env \<Rightarrow> reconcileObject r env (w \<lparr>wd_calls := Suc (wd_calls w)\<rparr>)))"

end
