(* ===== verification/ReconcilerFacts.thy ===== *)
theory ReconcilerFacts
  imports Reconciler
begin

section \<open>What one round of the controller can do\<close>

text \<open>
  One lemma per step of a round: what it leaves in the store, in the reap queue and in the
  provider's world. \<open>follows e e'\<close>: the controller may have turned the object \<open>e\<close> into \<open>e'\<close>.
\<close>

definition same_env :: "RuntimeEnvironment \<Rightarrow> RuntimeEnvironment \<Rightarrow> bool" where
  "same_env e e' \<longleftrightarrow> env_Namespace e' = env_Namespace e \<and> env_Name e' = env_Name e \<and> env_UID e' = env_UID e \<and>
     env_Generation e' = env_Generation e \<and> env_CreationTimestamp e' = env_CreationTimestamp e \<and>
     env_Spec e' = env_Spec e"

definition follows :: "RuntimeEnvironment \<Rightarrow> RuntimeEnvironment \<Rightarrow> bool" where
  "follows e e' \<longleftrightarrow> same_env e e' \<and> CanTransition (env_Phase e) (env_Phase e')"

text \<open>The object a round starts from, in the store and not in deletion.\<close>

definition holds_live :: "RuntimeEnvironment \<Rightarrow> ('q, 'w) world \<Rightarrow> bool" where
  "holds_live env w \<longleftrightarrow> wd_object w = Some env \<and> env_DeletionTimestamp env = 0"

text \<open>A step that only writes the object, and leaves finalizers and deletion alone.\<close>

definition wrote :: "RuntimeEnvironment \<Rightarrow> ('q, 'w) world \<Rightarrow> ('q, 'w) world \<Rightarrow> bool" where
  "wrote env w w' \<longleftrightarrow> wd_reaps w' = wd_reaps w \<and>
     (\<exists>e'. wd_object w' = Some e' \<and> follows env e' \<and> env_Finalizers e' = env_Finalizers env \<and>
        env_DeletionTimestamp e' = 0 \<and> (env_Phase e' = PhaseReleased \<longrightarrow> env_Phase env = PhaseReleased))"

lemma follows_refl [simp]: "follows e e"
  by (simp add: follows_def same_env_def)

lemma api_call_result:
  "api_call r obj w = (err, w') \<Longrightarrow>
     wd_reaps w' = wd_reaps w \<and> wd_provider w' = wd_provider w \<and>
     wd_object w' = (if err = None then obj else wd_object w)"
  by (auto simp: api_call_def split: option.splits)

lemma updateStatus_result:
  "updateStatus r env f w = ((err, env'), w') \<Longrightarrow>
     wd_reaps w' = wd_reaps w \<and> wd_provider w' = wd_provider w \<and>
     (case err of Some e \<Rightarrow> wd_object w' = wd_object w
      | None \<Rightarrow> env' = env \<lparr>env_Status := (f (env_Status env)) \<lparr>sts_ObservedGeneration := env_Generation env\<rparr>\<rparr> \<and>
          CanTransition (env_Phase env) (sts_Phase (f (env_Status env))) \<and> wd_object w' = patched env')"
  by (auto simp: updateStatus_def Let_def dest: api_call_result split: if_splits prod.splits option.splits)

lemma updateStatus_wrote:
  assumes "updateStatus r env f w = ((err, env'), w')" "holds_live env w"
    and "sts_Phase (f (env_Status env)) = PhaseReleased \<longrightarrow> env_Phase env = PhaseReleased"
  shows "wrote env w w' \<and> wd_provider w' = wd_provider w"
proof (cases err)
  case None
  then show ?thesis
    using updateStatus_result [OF assms(1)] assms(2,3)
    by (auto simp: wrote_def holds_live_def follows_def same_env_def patched_def)
next
  case (Some e)
  then show ?thesis
    using updateStatus_result [OF assms(1)] assms(2)
    by (auto simp: wrote_def holds_live_def)
qed

lemma rec_fail_wrote:
  "rec_fail r env cls c reason cause w = (res, w') \<Longrightarrow> holds_live env w \<Longrightarrow>
     wrote env w w' \<and> wd_provider w' = wd_provider w"
  by (auto simp: rec_fail_def set_failure_def Let_def split: prod.splits dest!: updateStatus_wrote)

lemma infrastructureFailure_wrote:
  "infrastructureFailure r env c reason cause w = (res, w') \<Longrightarrow> holds_live env w \<Longrightarrow>
     wrote env w w' \<and> wd_provider w' = wd_provider w"
  by (auto simp: infrastructureFailure_def set_failure_def Let_def split: prod.splits if_splits dest!: updateStatus_wrote)

lemma providerFailure_wrote:
  assumes "providerFailure r env cause w = (res, w')" "holds_live env w"
  shows "wrote env w w' \<and> wd_provider w' = wd_provider w"
proof (cases "as_artifact cause = None")
  case True
  obtain d err w1 where run:
    "infrastructureFailure r env ''runtime-provider'' ''provider-unavailable'' cause w = ((d, err), w1)"
    by (metis prod.collapse)
  then have "w' = w1" using assms(1) True by (simp add: providerFailure_def split: option.splits)
  then show ?thesis using infrastructureFailure_wrote [OF run assms(2)] by simp
next
  case False
  then have "rec_fail r env FailureArtifact ''runtime-provider'' ''provider-artifact-failure'' cause w = (res, w')"
    using assms(1) by (simp add: providerFailure_def)
  then show ?thesis using rec_fail_wrote assms(2) by blast
qed

lemma applyObservation_wrote:
  "applyObservation r env plan ob op w = (res, w') \<Longrightarrow> holds_live env w \<Longrightarrow>
     wrote env w w' \<and> wd_provider w' = wd_provider w"
  by (auto simp: applyObservation_def Let_def wrote_def holds_live_def
      split: sum.splits prod.splits option.splits if_splits
      dest!: updateStatus_wrote [unfolded wrote_def holds_live_def])

text \<open>The provider's world is not part of what \<open>wrote\<close> and \<open>holds_live\<close> speak about.\<close>

lemma provider_irrelevant [simp]:
  "wrote env (w \<lparr>wd_provider := p\<rparr>) w' = wrote env w w'" "holds_live env (w \<lparr>wd_provider := p\<rparr>) = holds_live env w"
  by (simp_all add: wrote_def holds_live_def)

lemma wrote_id: "holds_live env w \<Longrightarrow> wrote env w w"
  by (simp add: wrote_def holds_live_def)

lemma wrote_trans:
  assumes "holds_live env1 w1" "wd_reaps w1 = wd_reaps w" "same_env env env1" "env_Phase env1 = env_Phase env"
    and "env_Finalizers env1 = env_Finalizers env" "wrote env1 w1 w'"
  shows "wrote env w w'"
  using assms by (auto simp: wrote_def holds_live_def follows_def same_env_def)

text \<open>An object that a step before it has adapted without touching phase, spec or finalizers.\<close>

definition adapted :: "RuntimeEnvironment \<Rightarrow> ('q, 'w) world \<Rightarrow> RuntimeEnvironment \<Rightarrow> ('q, 'w) world \<Rightarrow> bool" where
  "adapted env w env1 w1 \<longleftrightarrow> holds_live env1 w1 \<and> wd_reaps w1 = wd_reaps w \<and> wd_provider w1 = wd_provider w \<and>
     same_env env env1 \<and> env_Phase env1 = env_Phase env \<and> env_Finalizers env1 = env_Finalizers env"

lemma adapted_wrote: "adapted env w env1 w1 \<Longrightarrow> wrote env1 w1 w' \<Longrightarrow> wrote env w w'"
  by (auto simp: adapted_def intro: wrote_trans)

lemma observe_result:
  "observeResetRequest r env w = ((err, env1), w1) \<Longrightarrow> holds_live env w \<Longrightarrow>
     (case err of Some e \<Rightarrow> wrote env w w1 \<and> wd_provider w1 = wd_provider w
      | None \<Rightarrow> adapted env w env1 w1 \<and> env_Status env1 = env_Status env)"
  by (auto simp: observeResetRequest_def Let_def holds_live_def adapted_def same_env_def wrote_def patched_def
      split: if_splits prod.splits option.splits dest!: api_call_result)

lemma reset_adopted_wrote:
  assumes "reset_adopted r env plan binding w = (res, w')" "holds_live env w"
  shows "wrote env w w'"
proof -
  obtain err env1 w1 where obs: "observeResetRequest r env w = ((err, env1), w1)"
    by (metis prod.collapse)
  note o' = observe_result [OF obs assms(2)]
  show ?thesis
  proof (cases err)
    case (Some e)
    then show ?thesis using assms(1) obs o' by (auto simp: reset_adopted_def)
  next
    case None
    obtain out p where call: "rx_Reset r (lp_ResetTimeoutSeconds (Plan_Lifecycle plan)) binding (wd_provider w1) = (out, p)"
      by (metis prod.collapse)
    have a: "adapted env w env1 w1" "holds_live env1 w1" using o' None by (simp_all add: adapted_def)
    have "wrote env1 w1 w'"
      using assms(1) obs None call a(2)
      by (auto simp: reset_adopted_def split: if_splits sum.splits
          dest!: rec_fail_wrote providerFailure_wrote applyObservation_wrote)
    then show ?thesis using a(1) adapted_wrote by blast
  qed
qed

lemma reconcileReset_wrote:
  assumes "reconcileReset r env plan w = (res, w')" "holds_live env w"
  shows "wrote env w w'"
proof (cases "env_Operation env = OperationResetting")
  case True
  then show ?thesis using assms reset_adopted_wrote by (simp add: reconcileReset_def)
next
  case False
  let ?f = "\<lambda>s. s \<lparr>sts_Operation := OperationResetting, sts_ObservedResetNonce := env_ResetNonce env\<rparr>"
  obtain err env1 w1 where upd: "updateStatus r env ?f w = ((err, env1), w1)"
    by (metis prod.collapse)
  note u = updateStatus_result [OF upd]
  show ?thesis
  proof (cases err)
    case (Some e)
    then have "w' = w1" using assms(1) False upd by (simp add: reconcileReset_def)
    then show ?thesis using u Some assms(2) by (auto simp: wrote_def holds_live_def)
  next
    case None
    then have a: "adapted env w env1 w1"
      using u assms(2) by (auto simp: adapted_def holds_live_def same_env_def patched_def)
    have "reset_adopted r env1 plan (environmentBinding env plan) w1 = (res, w')"
      using assms(1) False upd None by (simp add: reconcileReset_def)
    then show ?thesis using a reset_adopted_wrote adapted_wrote by (blast intro: adapted_def [THEN iffD1, THEN conjunct1])
  qed
qed

lemma reconcileProvision_wrote:
  "reconcileProvision r env plan w = (res, w') \<Longrightarrow> holds_live env w \<Longrightarrow> wrote env w w'"
  by (auto simp: reconcileProvision_def split: if_splits prod.splits sum.splits option.splits
      dest!: updateStatus_wrote providerFailure_wrote applyObservation_wrote)

text \<open>The reap record of a binding, enqueued into this queue without an error, has succeeded.\<close>

definition reaped :: "('q, 'w) Reconciler \<Rightarrow> EnvironmentBinding \<Rightarrow> 'q \<Rightarrow> bool" where
  "reaped r binding q \<longleftrightarrow> (\<exists>digest rec. EnvironmentBinding_Digest (rx_Codec r) binding = Inr digest \<and>
     (\<exists>q0. rx_Enqueue r q0 (reap_request binding digest) = (None, q)) \<and>
     rx_Get r q (ReapRequest_Key (reap_request binding digest)) = Inr rec \<and> rec_State rec = ReapSucceeded)"

definition released_from :: "RuntimeEnvironment \<Rightarrow> RuntimeEnvironment option \<Rightarrow> bool" where
  "released_from env obj \<longleftrightarrow> CanTransition (env_Phase env) PhaseReleased \<and>
     (\<exists>e1 now. same_env env e1 \<and> env_Phase e1 = PhaseReleased \<and> env_Finalizers e1 = env_Finalizers env \<and>
        env_DeletionTimestamp e1 = 0 \<and> obj \<in> {Some e1, deleted now e1})"

lemma reconcileReap_result:
  assumes "reconcileReap r env binding w = (res, w')" "wd_object w = Some env"
  shows "wd_provider w' = wd_provider w \<and> (wd_object w' = Some env \<or> reaped r binding (wd_reaps w') \<and>
    (if env_DeletionTimestamp env = 0 then released_from env (wd_object w')
     else wd_object w' = patched (env \<lparr>env_Finalizers := removeAll finalizer (env_Finalizers env)\<rparr>)))"
proof (cases "EnvironmentBinding_Digest (rx_Codec r) binding")
  case (Inl e)
  then show ?thesis using assms by (auto simp: reconcileReap_def)
next
  case (Inr digest)
  obtain err q where enq: "rx_Enqueue r (wd_reaps w) (reap_request binding digest) = (err, q)"
    by (metis prod.collapse)
  define w1 where "w1 = w \<lparr>wd_reaps := q\<rparr>"
  show ?thesis
  proof (cases "err = None \<and> (\<exists>rec. rx_Get r q (ReapRequest_Key (reap_request binding digest)) = Inr rec \<and>
      rec_State rec = ReapSucceeded)")
    case False
    then have "w' = w1"
      using assms(1) by (auto simp: reconcileReap_def Inr enq w1_def Let_def split: sum.splits if_splits)
    then show ?thesis using assms(2) by (simp add: w1_def)
  next
    case True
    then obtain rec where rec: "rx_Get r q (ReapRequest_Key (reap_request binding digest)) = Inr rec"
      "rec_State rec = ReapSucceeded" by blast
    have reaped: "wd_reaps w' = q \<Longrightarrow> reaped r binding (wd_reaps w')" using rec enq True by (auto simp: reaped_def Inr)
    show ?thesis
    proof (cases "env_DeletionTimestamp env = 0")
      case True
      let ?f = "\<lambda>s. s \<lparr>sts_Phase := PhaseReleased, sts_Operation := OperationNone,
          sts_Lifecycle := (sts_Lifecycle s) \<lparr>els_ReleasedAt := Some (rx_Now r ClockStatus)\<rparr>\<rparr>"
      obtain err1 e1 w2 where upd: "updateStatus r env ?f w1 = ((err1, e1), w2)"
        by (metis prod.collapse)
      obtain err2 w3 where del: "api_call r (deleted (rx_Now r ClockEnd) e1) w2 = (err2, w3)"
        by (metis prod.collapse)
      have w': "w' = (if err1 = None then w3 else w2)"
        using assms(1) \<open>err = None \<and> _\<close> True rec upd del
        by (auto simp: reconcileReap_def Inr enq w1_def [symmetric] Let_def split: option.splits)
      note u = updateStatus_result [OF upd] and d = api_call_result [OF del]
      show ?thesis
      proof (cases err1)
        case (Some e)
        then show ?thesis using w' u assms(2) by (simp add: w1_def)
      next
        case None
        have q: "wd_reaps w' = q" "wd_provider w' = wd_provider w" using w' u d None by (simp_all add: w1_def)
        have e1: "same_env env e1" "env_Phase e1 = PhaseReleased" "env_Finalizers e1 = env_Finalizers env"
          "env_DeletionTimestamp e1 = 0" "CanTransition (env_Phase env) PhaseReleased" "wd_object w2 = Some e1"
          using u None True by (auto simp: same_env_def patched_def)
        have "wd_object w' \<in> {Some e1, deleted (rx_Now r ClockEnd) e1}" using w' d None e1(6) by auto
        then have "released_from env (wd_object w')" using e1 unfolding released_from_def by blast
        then show ?thesis using q reaped True by simp
      qed
    next
      case False
      then show ?thesis
        using assms \<open>err = None \<and> _\<close> rec reaped
        by (auto simp: reconcileReap_def Inr enq Let_def split: prod.splits if_splits dest!: api_call_result)
    qed
  qed
qed

text \<open>A round on an object that is not in deletion.\<close>

lemma reconcileObject_live:
  assumes "reconcileObject r env w = (res, w')" "holds_live env w"
  shows "wrote env w w' \<or> (env_Phase env = PhaseDraining \<and> finalizer \<in> set (env_Finalizers env) \<and>
      (\<exists>plan. resolvePlan r env = Inr plan \<and> reconcileReap r env (environmentBinding env plan) w = (res, w'))) \<or>
    (finalizer \<notin> set (env_Finalizers env) \<and> wd_reaps w' = wd_reaps w \<and> wd_provider w' = wd_provider w \<and>
      wd_object w' \<in> {Some env, Some (env \<lparr>env_Finalizers := env_Finalizers env @ [finalizer]\<rparr>)})"
proof (cases "finalizer \<in> set (env_Finalizers env)")
  case False
  then show ?thesis
    using assms by (auto simp: reconcileObject_def holds_live_def Let_def patched_def
        split: prod.splits option.splits dest!: api_call_result)
next
  case True
  note run = assms(1) and live = assms(2)
  have dt: "env_DeletionTimestamp env = 0" using live by (simp add: holds_live_def)
  show ?thesis
  proof (cases "resolvePlan r env")
    case (Inl e)
    then have "wrote env w w'"
      using run live True dt
      by (auto simp: reconcileObject_def split: if_splits prod.splits option.splits
          dest!: rec_fail_wrote infrastructureFailure_wrote)
    then show ?thesis ..
  next
    case (Inr plan)
    show ?thesis
    proof (cases "ValidateSpec (rx_Codec r) env plan")
      case (Some e)
      then have "wrote env w w'"
        using run live True dt Inr by (auto simp: reconcileObject_def dest!: rec_fail_wrote)
      then show ?thesis ..
    next
      case None
      note pre = True dt Inr None
      show ?thesis
      proof (cases "Decide (rx_Codec r) env plan (rx_Now r ClockDecide) (parseObservedResetNonce env)")
        case (Inl e)
        then have "wrote env w w'"
          using run live pre by (auto simp: reconcileObject_def dest!: rec_fail_wrote)
        then show ?thesis ..
      next
        case (Inr d)
        note decided = Decide_Inr [OF Inr]
        show ?thesis
        proof (cases d)
          case DecisionNone
          then show ?thesis using run live pre Inr by (auto simp: reconcileObject_def intro: wrote_id)
        next
          case DecisionProvision
          then have "reconcileProvision r env plan w = (res, w')" using run pre Inr by (simp add: reconcileObject_def)
          then show ?thesis using live reconcileProvision_wrote by blast
        next
          case DecisionReset
          then have "reconcileReset r env plan w = (res, w')" using run pre Inr by (simp add: reconcileObject_def)
          then show ?thesis using live reconcileReset_wrote by blast
        next
          case DecisionDrain
          then show ?thesis
            using run live pre Inr by (auto simp: reconcileObject_def split: prod.splits option.splits dest!: updateStatus_wrote)
        next
          case DecisionReap
          then show ?thesis using run live pre Inr decided by (auto simp: reconcileObject_def)
        qed
      qed
    qed
  qed
qed

end
