(* ===== verification/ReconcilerProperties.thy ===== *)
theory ReconcilerProperties
  imports ReconcilerFacts
begin

section \<open>Properties of the controller\<close>

text \<open>
  What the rounds of the controller guarantee, whatever the provider, the API and the reap queue
  answer; then how an environment gets ready and how it is cleaned up when they answer well.
\<close>

subsection \<open>A concrete environment\<close>

definition example_env :: "EnvironmentPhase \<Rightarrow> EnvironmentOperation \<Rightarrow> int \<Rightarrow> RuntimeEnvironment" where
  "example_env phase operation nonce = \<lparr>env_Namespace = ''ns'', env_Name = ''run'', env_UID = ''u1'', env_Generation = 1,
     env_CreationTimestamp = 1, env_DeletionTimestamp = 0, env_Finalizers = [finalizer], env_Annotations = Map.empty,
     env_Spec = \<lparr>es_RunnableRevisionRef = Some \<lparr>rrf_ID = ''rev-1'',
         rrf_Digest = digest_bytes (cd_revision example_codec example_revision)\<rparr>,
       es_BlankRuntime = None, es_Purpose = PurposeLearning,
       es_Lease = \<lparr>ls_RenewedAt = 1, ls_ReleaseAt = None\<rparr>, es_ResetNonce = nonce\<rparr>,
     env_Status = \<lparr>sts_Phase = phase, sts_Operation = operation, sts_ObservedResetNonce = 0,
       sts_ObservedGeneration = 0,
       sts_Runtime = \<lparr>rts_Provider = [], rts_ProfileDigest = [], rts_ResourceRefs = [], rts_EndpointRefs = []\<rparr>,
       sts_Progress = \<lparr>prg_PhaseID = [], prg_Attempt = 0, prg_ReportRef = \<lparr>rpf_ID = [], rpf_Digest = []\<rparr>\<rparr>,
       sts_Lifecycle = \<lparr>els_ExpiresAt = None, els_ReleasedAt = None\<rparr>, sts_Failure = None\<rparr>\<rparr>"

lemma example_env_simps [simp]:
  "env_CreationTimestamp (example_env phase operation nonce) = 1"
  "es_Lease (env_Spec (example_env phase operation nonce)) = \<lparr>ls_RenewedAt = 1, ls_ReleaseAt = None\<rparr>"
  "sts_Phase (env_Status (example_env phase operation nonce)) = phase"
  "sts_Operation (env_Status (example_env phase operation nonce)) = operation"
  "sts_ObservedResetNonce (env_Status (example_env phase operation nonce)) = 0"
  "es_ResetNonce (env_Spec (example_env phase operation nonce)) = nonce"
  "env_DeletionTimestamp (example_env phase operation nonce) = 0"
  "env_Finalizers (example_env phase operation nonce) = [finalizer]"
  "env_Annotations (example_env phase operation nonce) = Map.empty"
  by (simp_all add: example_env_def)

definition example_plan :: Plan where
  "example_plan = \<lparr>pn_Revision = example_revision, pn_Blank = None\<rparr>"

text \<open>Every call succeeds; the provider counts its calls and is ready at once.\<close>

definition example_reconciler :: "time \<Rightarrow> (reap_table, nat) Reconciler" where
  "example_reconciler now = \<lparr>rx_Codec = example_codec, rx_Resolver = (\<lambda>_ _. Inr example_revision), rx_Blank = None,
     rx_Provision = (\<lambda>_ _ p. (Inr \<lparr>ob_Ready = True, ob_ResourceRefs = [], ob_EndpointRefs = []\<rparr>, Suc p)),
     rx_Reset = (\<lambda>_ _ p. (Inr \<lparr>ob_Ready = True, ob_ResourceRefs = [], ob_EndpointRefs = []\<rparr>, Suc p)),
     rx_Enqueue = pg_reap_Enqueue example_codec example_db now, rx_Get = pg_reap_Get example_codec,
     rx_NotFound = (\<lambda>_. False), rx_Api = (\<lambda>_. None), rx_Now = (\<lambda>_. now)\<rparr>"

definition example_world :: "RuntimeEnvironment \<Rightarrow> reap_table \<Rightarrow> (reap_table, nat) world" where
  "example_world env t = \<lparr>wd_object = Some env, wd_calls = 0, wd_reaps = t, wd_provider = 0\<rparr>"

lemma example_resolves [simp]:
  "es_RunnableRevisionRef (env_Spec env) = Some ref \<Longrightarrow> es_BlankRuntime (env_Spec env) = None \<Longrightarrow>
     resolvePlan (example_reconciler now) env = Inr example_plan"
  by (simp add: resolvePlan_def example_reconciler_def example_plan_def)

lemma example_reconciler_simps [simp]:
  "rx_Codec (example_reconciler now) = example_codec" "rx_Api (example_reconciler now) n = None"
  "rx_Now (example_reconciler now) c = now" "rx_Get (example_reconciler now) = pg_reap_Get example_codec"
  by (simp_all add: example_reconciler_def)

lemma example_plan_simps [simp]:
  "Plan_Lifecycle example_plan = example_lifecycle" "Plan_Profile example_plan = example_profile"
  "pn_Revision example_plan = example_revision" "pn_Blank example_plan = None"
  by (simp_all add: Plan_Lifecycle_def Plan_Profile_def example_plan_def example_revision_def example_spec_def)

lemma example_lifecycle_ok: "lifecycle_ok example_lifecycle"
  using example_spec_ok by (simp add: spec_ok_def) (simp add: example_spec_def)

lemma example_env_valid:
  assumes "0 \<le> nonce"
  shows "ValidateSpec example_codec (example_env phase operation nonce) example_plan = None"
proof -
  have id: "\<not> blank ''rev-1''" by code_simp
  have "RunnableRevision_Digest example_codec example_revision =
      Inr (digest_bytes (cd_revision example_codec example_revision))"
    by (simp add: RunnableRevision_Digest_def example_revision_valid)
  moreover have "RuntimeProfile_Validate example_profile = None"
    using example_spec_ok by (simp add: spec_ok_def RuntimeProfile_Validate_None) (simp add: example_spec_def)
  ultimately show ?thesis
    using assms id by (simp add: ValidateSpec_def example_env_def first_error_Cons example_revision_valid
        RuntimeProfile_Digest_def)
qed

lemma example_expires: "ExpiresAt 1 \<lparr>ls_RenewedAt = 1, ls_ReleaseAt = None\<rparr> example_lifecycle =
    Inr (1 + seconds (lp_IdleTTLSeconds example_lifecycle))"
  using example_lifecycle_ok
  by (simp add: ExpiresAt_Inr) (simp add: lifecycle_ok_def seconds_def)

subsection \<open>Rounds without API errors\<close>

definition no_faults :: "('q, 'w) Reconciler \<Rightarrow> bool" where
  "no_faults r \<longleftrightarrow> (\<forall>n. rx_Api r n = None)"

text \<open>The round gets as far as the decision \<open>d\<close>.\<close>

definition decided :: "('q, 'w) Reconciler \<Rightarrow> RuntimeEnvironment \<Rightarrow> Plan \<Rightarrow> Decision \<Rightarrow> bool" where
  "decided r env plan d \<longleftrightarrow> env_DeletionTimestamp env = 0 \<and> finalizer \<in> set (env_Finalizers env) \<and>
     resolvePlan r env = Inr plan \<and> ValidateSpec (rx_Codec r) env plan = None \<and>
     Decide (rx_Codec r) env plan (rx_Now r ClockDecide) (parseObservedResetNonce env) = Inr d"

lemma decided_bound:
  "decided r env plan d \<Longrightarrow> d \<noteq> DecisionNone \<Longrightarrow>
     ValidateSpec (rx_Codec r) env plan = None \<and> env_Phase env \<noteq> PhaseReleased \<and>
     (\<exists>t. ExpiresAt (env_CreationTimestamp env) (es_Lease (env_Spec env)) (Plan_Lifecycle plan) = Inr t \<and>
       (d \<in> {DecisionProvision, DecisionReset} \<longrightarrow> rx_Now r ClockDecide < t))"
  by (auto simp: decided_def Decide_def split: option.splits sum.splits if_splits EnvironmentPhase.splits)

lemma Reconcile_decided:
  assumes "no_faults r" "wd_object w = Some env" "decided r env plan d"
  defines "w1 \<equiv> w \<lparr>wd_calls := Suc (wd_calls w)\<rparr>"
  shows "d = DecisionNone \<Longrightarrow> Reconcile r w = ((0, None), w1)"
    and "d = DecisionProvision \<Longrightarrow> Reconcile r w = reconcileProvision r env plan w1"
    and "d = DecisionReset \<Longrightarrow> Reconcile r w = reconcileReset r env plan w1"
    and "d = DecisionReap \<Longrightarrow> Reconcile r w = reconcileReap r env (environmentBinding env plan) w1"
    and "d = DecisionDrain \<Longrightarrow> Reconcile r w =
      (case updateStatus r env (\<lambda>s. s \<lparr>sts_Phase := PhaseDraining, sts_Operation := OperationNone\<rparr>) w1 of
         ((Some e, _), w1) \<Rightarrow> ((0, Some e), w1) | ((None, _), w1) \<Rightarrow> ((statusStepRequeue, None), w1))"
  using assms(1-3) by (simp_all add: w1_def Reconcile_def no_faults_def reconcileObject_def decided_def)

definition with_status ::
  "RuntimeEnvironment \<Rightarrow> (RuntimeEnvironmentStatus \<Rightarrow> RuntimeEnvironmentStatus) \<Rightarrow> RuntimeEnvironment"
where
  "with_status env f = env \<lparr>env_Status := (f (env_Status env)) \<lparr>sts_ObservedGeneration := env_Generation env\<rparr>\<rparr>"

lemma with_status_simps [simp]:
  "env_DeletionTimestamp (with_status env f) = env_DeletionTimestamp env" "env_Finalizers (with_status env f) = env_Finalizers env"
  "env_Spec (with_status env f) = env_Spec env" "env_Annotations (with_status env f) = env_Annotations env"
  "env_CreationTimestamp (with_status env f) = env_CreationTimestamp env"
  "sts_Phase (env_Status (with_status env f)) = sts_Phase (f (env_Status env))"
  "sts_Operation (env_Status (with_status env f)) = sts_Operation (f (env_Status env))"
  "sts_ObservedResetNonce (env_Status (with_status env f)) = sts_ObservedResetNonce (f (env_Status env))"
  "sts_Runtime (env_Status (with_status env f)) = sts_Runtime (f (env_Status env))"
  "environmentBinding (with_status env f) plan = environmentBinding env plan"
  "resolvePlan r (with_status env f) = resolvePlan r env" "annotation (with_status env f) k = annotation env k"
  by (simp_all add: with_status_def environmentBinding_def annotation_def)
    (simp add: resolvePlan_def split: option.splits)

lemma updateStatus_ok:
  "no_faults r \<Longrightarrow> CanTransition (env_Phase env) (sts_Phase (f (env_Status env))) \<Longrightarrow> env_DeletionTimestamp env = 0 \<Longrightarrow>
     updateStatus r env f w = ((None, with_status env f),
       w \<lparr>wd_calls := Suc (wd_calls w), wd_object := Some (with_status env f)\<rparr>)"
  by (simp add: updateStatus_def Let_def api_call_def no_faults_def with_status_def patched_def)

text \<open>The status of a released environment, and the object that is left of it.\<close>

definition released_status :: "('q, 'w) Reconciler \<Rightarrow> RuntimeEnvironmentStatus \<Rightarrow> RuntimeEnvironmentStatus" where
  "released_status r s = s \<lparr>sts_Phase := PhaseReleased, sts_Operation := OperationNone,
     sts_Lifecycle := (sts_Lifecycle s) \<lparr>els_ReleasedAt := Some (rx_Now r ClockStatus)\<rparr>\<rparr>"

lemma released_status_simps [simp]:
  "sts_Phase (released_status r s) = PhaseReleased" "sts_Operation (released_status r s) = OperationNone"
  by (simp_all add: released_status_def)

lemma reap_round:
  assumes "no_faults r" "EnvironmentBinding_Digest (rx_Codec r) binding = Inr d"
    and "rx_Enqueue r (wd_reaps w) (reap_request binding d) = (None, q)"
    and "rx_Get r q (ReapRequest_Key (reap_request binding d)) = Inr x"
  shows "rec_State x \<noteq> ReapSucceeded \<Longrightarrow>
      reconcileReap r env binding w = ((reapStatusRequeue, None), w \<lparr>wd_reaps := q\<rparr>)"
    and "rec_State x = ReapSucceeded \<Longrightarrow> env_DeletionTimestamp env = 0 \<Longrightarrow> env_Phase env = PhaseDraining \<Longrightarrow>
      reconcileReap r env binding w = ((0, None), w \<lparr>wd_reaps := q, wd_calls := Suc (Suc (wd_calls w)),
        wd_object := deleted (rx_Now r ClockEnd) (with_status env (released_status r))\<rparr>)"
    and "rec_State x = ReapSucceeded \<Longrightarrow> env_DeletionTimestamp env \<noteq> 0 \<Longrightarrow>
      reconcileReap r env binding w = ((0, None), w \<lparr>wd_reaps := q, wd_calls := Suc (wd_calls w),
        wd_object := patched (env \<lparr>env_Finalizers := removeAll finalizer (env_Finalizers env)\<rparr>)\<rparr>)"
  using assms
  by (simp_all add: reconcileReap_def Let_def api_call_def no_faults_def released_status_def [symmetric]
      updateStatus_ok ignore_not_found_def CanTransition.simps)

text \<open>What an observation makes of a status.\<close>

definition observed_status ::
  "Plan \<Rightarrow> string \<Rightarrow> Observation \<Rightarrow> EnvironmentPhase \<Rightarrow> EnvironmentOperation \<Rightarrow> time \<Rightarrow> RuntimeEnvironmentStatus \<Rightarrow> RuntimeEnvironmentStatus"
where
  "observed_status plan digest ob phase operation t s = s \<lparr>sts_Phase := phase, sts_Operation := operation,
     sts_Runtime := \<lparr>rts_Provider = Runtime_text (Plan_Runtime plan), rts_ProfileDigest = digest,
       rts_ResourceRefs = ob_ResourceRefs ob, rts_EndpointRefs = ob_EndpointRefs ob\<rparr>,
     sts_Lifecycle := (sts_Lifecycle s) \<lparr>els_ExpiresAt := Some t\<rparr>, sts_Failure := None\<rparr>"

lemma observed_status_simps [simp]:
  "sts_Phase (observed_status plan d ob phase op t s) = phase"
  "sts_Operation (observed_status plan d ob phase op t s) = op"
  "sts_ObservedResetNonce (observed_status plan d ob phase op t s) = sts_ObservedResetNonce s"
  "rts_ProfileDigest (sts_Runtime (observed_status plan d ob phase op t s)) = d"
  by (simp_all add: observed_status_def)

lemma valid_profile:
  "ValidateSpec cd env plan = None \<Longrightarrow> \<exists>pd. RuntimeProfile_Digest cd (Plan_Profile plan) = Inr pd"
  by (auto simp: ValidateSpec_def first_error_Cons split: sum.splits)

lemma observation_ready:
  assumes "no_faults r" "ob_Ready ob" "env_Phase env \<in> {PhaseProvisioning, PhaseReady}" "env_DeletionTimestamp env = 0"
    and "RuntimeProfile_Digest (rx_Codec r) (Plan_Profile plan) = Inr pd"
    and "ExpiresAt (env_CreationTimestamp env) (es_Lease (env_Spec env)) (Plan_Lifecycle plan) = Inr t"
  shows "applyObservation r env plan ob op w = ((t - rx_Now r ClockEnd, None), w \<lparr>wd_calls := Suc (wd_calls w),
    wd_object := Some (with_status env (observed_status plan pd ob PhaseReady OperationNone t))\<rparr>)"
proof -
  have "CanTransition (env_Phase env) PhaseReady" using assms(3) by (auto simp: CanTransition.simps)
  then show ?thesis
    using assms by (simp add: applyObservation_def observed_status_def [symmetric] updateStatus_ok)
qed

lemma provision_round:
  assumes "no_faults r" "wd_object w = Some env" "decided r env plan DecisionProvision"
    and "env_Phase env = PhaseProvisioning"
    and "rx_Provision r (lp_CreateTimeoutSeconds (Plan_Lifecycle plan)) (environmentBinding env plan) (wd_provider w) = (Inr ob, p)"
    and "ob_Ready ob"
  shows "\<exists>pd t. RuntimeProfile_Digest (rx_Codec r) (Plan_Profile plan) = Inr pd \<and>
    ExpiresAt (env_CreationTimestamp env) (es_Lease (env_Spec env)) (Plan_Lifecycle plan) = Inr t \<and>
    Reconcile r w = ((t - rx_Now r ClockEnd, None), w \<lparr>wd_calls := Suc (Suc (wd_calls w)), wd_provider := p,
      wd_object := Some (with_status env (observed_status plan pd ob PhaseReady OperationNone t))\<rparr>)"
proof -
  obtain pd t where b: "RuntimeProfile_Digest (rx_Codec r) (Plan_Profile plan) = Inr pd"
    "ExpiresAt (env_CreationTimestamp env) (es_Lease (env_Spec env)) (Plan_Lifecycle plan) = Inr t"
    using decided_bound [OF assms(3)] valid_profile [of "rx_Codec r" env plan] by auto
  have dt: "env_DeletionTimestamp env = 0" using assms(3) by (simp add: decided_def)
  have "Reconcile r w = reconcileProvision r env plan (w \<lparr>wd_calls := Suc (wd_calls w)\<rparr>)"
    by (rule Reconcile_decided(2) [OF assms(1-3) refl])
  then show ?thesis
    using assms(4-6) b dt assms(1)
    by (intro exI [of _ pd] exI [of _ t]) (simp add: reconcileProvision_def observation_ready)
qed

subsection \<open>Safety\<close>

text \<open>
  C26 The controller never writes what the Server owns: a round changes neither the spec nor the
  identity of the object, and the phase only along \<open>CanTransition\<close>.
\<close>

theorem round_keeps_spec:
  assumes "wd_object w = Some e" "Reconcile r w = (res, w')" "wd_object w' = Some e'"
  shows "env_Spec e' = env_Spec e \<and> env_UID e' = env_UID e \<and> env_Name e' = env_Name e \<and>
    env_Namespace e' = env_Namespace e \<and> CanTransition (env_Phase e) (env_Phase e')"
proof -
  let ?w = "w \<lparr>wd_calls := Suc (wd_calls w)\<rparr>"
  have "follows e e'"
  proof (cases "rx_Api r (wd_calls w)")
    case (Some x)
    then show ?thesis using assms by (auto simp: Reconcile_def)
  next
    case None
    then have run: "reconcileObject r e ?w = (res, w')" using assms(1,2) by (simp add: Reconcile_def)
    show ?thesis
    proof (cases "env_DeletionTimestamp e = 0")
      case True
      then have "holds_live e ?w" using assms(1) by (simp add: holds_live_def)
      from reconcileObject_live [OF run this] show ?thesis
      proof (elim disjE conjE exE)
        assume "wrote e ?w w'"
        then show ?thesis using assms(3) by (auto simp: wrote_def)
      next
        fix plan
        assume "reconcileReap r e (environmentBinding e plan) ?w = (res, w')"
        from reconcileReap_result [OF this] show ?thesis
          using assms(1,3) True
          by (auto simp: released_from_def follows_def same_env_def deleted_def split: if_splits)
      next
        assume "wd_object w' \<in> {Some e, Some (e \<lparr>env_Finalizers := env_Finalizers e @ [finalizer]\<rparr>)}"
        then show ?thesis using assms(3) by (auto simp: follows_def same_env_def)
      qed
    next
      case False
      then have "wd_object w' = Some e \<or>
          (\<exists>plan. reconcileReap r e (environmentBinding e plan) ?w = (res, w'))"
        using run assms(1) by (auto simp: reconcileObject_def reconcileDeletion_def split: if_splits sum.splits)
      then show ?thesis
      proof (elim disjE exE)
        fix plan
        assume "reconcileReap r e (environmentBinding e plan) ?w = (res, w')"
        from reconcileReap_result [OF this] show ?thesis
          using assms(1,3) False by (auto simp: follows_def same_env_def patched_def split: if_splits)
      qed (use assms(3) in simp)
    qed
  qed
  then show ?thesis by (simp add: follows_def same_env_def)
qed

lemma round_keeps_spec_witness:
  "\<exists>res w'. Reconcile (example_reconciler 9) (example_world (example_env PhaseUnset OperationUnset 0) []) = (res, w') \<and>
     (\<forall>e'. wd_object w' = Some e' \<longrightarrow> env_UID e' = ''u1'' \<and> CanTransition PhaseUnset (env_Phase e'))"
proof -
  obtain res w' where run:
    "Reconcile (example_reconciler 9) (example_world (example_env PhaseUnset OperationUnset 0) []) = (res, w')"
    by (metis prod.collapse)
  have "wd_object (example_world (example_env PhaseUnset OperationUnset 0) []) = Some (example_env PhaseUnset OperationUnset 0)"
    by (simp add: example_world_def)
  from round_keeps_spec [OF this run] show ?thesis
    using run by (auto simp: example_env_def)
qed

text \<open>What the queue of the database holds after a request was enqueued without an error.\<close>

lemma enqueued_record:
  assumes "pg_reap_Enqueue cd db now t request = (None, t')" "pg_reap_Get cd t' (ReapRequest_Key request) = Inr rec"
  shows "ReapRequest_Key (rec_Request rec) = ReapRequest_Key request" "rq_Revision (rec_Request rec) = rq_Revision request"
proof -
  obtain v where v: "sql_row rw_key (ReapRequest_Key request) t' = Some v" "scanRunnableReap cd v = Inr rec"
    using assms(2) by (auto simp: pg_reap_Get_def split: if_splits option.splits sum.splits)
  then show "ReapRequest_Key (rec_Request rec) = ReapRequest_Key request"
    using sql_row_Some [OF v(1)] by (auto simp: scanRunnableReap_def check_Inr row_record_def split: if_splits)
  show "rq_Revision (rec_Request rec) = rq_Revision request"
  proof (cases "ReapRequest_Key request \<in> rw_key ` set t")
    case True
    then show ?thesis
      using assms by (auto simp: pg_reap_Enqueue_def sql_insert_def new_reap_row_def split: option.splits sum.splits if_splits)
  next
    case False
    then have t': "t' = t @ [new_reap_row db now request]"
      using assms(1) by (auto simp: pg_reap_Enqueue_def sql_insert_def new_reap_row_def Let_def split: option.splits)
    have "sql_row rw_key (ReapRequest_Key request) t = None" using False by (auto simp: sql_row_None)
    then have "v = new_reap_row db now request" using v(1) by (auto simp: t' sql_row_append new_reap_row_def)
    then show ?thesis using v(2) by (auto simp: scanRunnableReap_def check_Inr row_record_def new_reap_row_def split: if_splits)
  qed
qed

text \<open>
  C25 Nothing is given up before it is cleaned: if a round over the database's queue turns an environment
  with the cleanup finalizer \<open>Released\<close>, takes the finalizer off it or makes the object disappear, then the queue holds a
  record that has succeeded, under the key of exactly this namespace, name and UID and with the digest of
  the plan that the environment resolves to, and the environment was draining or already in deletion. A
  record that an earlier plan of the same environment left behind never counts.
\<close>

theorem released_only_after_reap:
  assumes "wd_object w = Some e" "finalizer \<in> set (env_Finalizers e)" "Reconcile r w = (res, w')"
    and "case wd_object w' of None \<Rightarrow> True
      | Some e' \<Rightarrow> finalizer \<notin> set (env_Finalizers e') \<or> (env_Phase e' = PhaseReleased \<and> env_Phase e \<noteq> PhaseReleased)"
    and "rx_Enqueue r = pg_reap_Enqueue (rx_Codec r) db now" "rx_Get r = pg_reap_Get (rx_Codec r)"
    and "key = env_Namespace e @ ''/'' @ env_Name e @ ''/'' @ env_UID e"
  shows "\<exists>plan digest rec. resolvePlan r e = Inr plan \<and>
    EnvironmentBinding_Digest (rx_Codec r) (environmentBinding e plan) = Inr digest \<and>
    pg_reap_Get (rx_Codec r) (wd_reaps w') key = Inr rec \<and> rec_State rec = ReapSucceeded \<and>
    ReapRequest_Key (rec_Request rec) = key \<and> rq_Revision (rec_Request rec) = digest \<and>
    (env_DeletionTimestamp e \<noteq> 0 \<or> env_Phase e = PhaseDraining)"
proof -
  let ?w = "w \<lparr>wd_calls := Suc (wd_calls w)\<rparr>"
  have changed: "wd_object w' \<noteq> Some e" using assms(2,4) by auto
  then have run: "reconcileObject r e ?w = (res, w')"
    using assms(1,3) by (auto simp: Reconcile_def split: option.splits)
  have reap: ?thesis if "resolvePlan r e = Inr plan" "reconcileReap r e (environmentBinding e plan) ?w = (res, w')"
      "env_DeletionTimestamp e \<noteq> 0 \<or> env_Phase e = PhaseDraining" for plan
  proof -
    let ?b = "environmentBinding e plan"
    have "reaped r ?b (wd_reaps w')" using reconcileReap_result [OF that(2)] assms(1) changed by auto
    then obtain digest rec q0 where d: "EnvironmentBinding_Digest (rx_Codec r) ?b = Inr digest"
      "pg_reap_Enqueue (rx_Codec r) db now q0 (reap_request ?b digest) = (None, wd_reaps w')"
      "pg_reap_Get (rx_Codec r) (wd_reaps w') (ReapRequest_Key (reap_request ?b digest)) = Inr rec" "rec_State rec = ReapSucceeded"
      by (auto simp: reaped_def assms(5,6))
    have key: "ReapRequest_Key (reap_request ?b digest) = key"
      by (simp add: ReapRequest_Key_def reap_request_def environmentBinding_def assms(7))
    have "rq_Revision (reap_request ?b digest) = digest" by (simp add: reap_request_def)
    then show ?thesis using that(1,3) d enqueued_record [OF d(2,3)] key by auto
  qed
  show ?thesis
  proof (cases "env_DeletionTimestamp e = 0")
    case True
    then have "holds_live e ?w" using assms(1) by (simp add: holds_live_def)
    from reconcileObject_live [OF run this] show ?thesis
      using assms(2,4) reap by (auto simp: wrote_def)
  next
    case False
    then obtain plan where "resolvePlan r e = Inr plan" "reconcileReap r e (environmentBinding e plan) ?w = (res, w')"
      using run assms(1) changed
      by (auto simp: reconcileObject_def reconcileDeletion_def split: if_splits sum.splits)
    then show ?thesis using reap False by blast
  qed
qed

text \<open>The reap record of the concrete environment.\<close>

lemma example_env_binding:
  "environmentBinding (example_env phase operation 0) example_plan = example_binding"
  by (simp add: environmentBinding_def example_env_def example_binding_def)

lemma example_binding_digest:
  "EnvironmentBinding_Digest example_codec example_binding =
     Inr (digest_bytes (cd_revision example_codec example_revision))"
  by (simp add: EnvironmentBinding_Digest_def example_binding_def RunnableRevision_Digest_def example_revision_valid)

lemma example_reap_request:
  "reap_request example_binding (digest_bytes (cd_revision example_codec example_revision)) = example_request"
  by (simp add: reap_request_def example_binding_def example_request_def)

lemma example_reap:
  assumes "sql_row rw_key example_key t = Some v" "scanRunnableReap example_codec v = Inr record"
    and "rq_Revision (rec_Request record) = rq_Revision example_request"
  shows "pg_reap_Enqueue example_codec example_db now t example_request = (None, t)"
    and "pg_reap_Get example_codec t (ReapRequest_Key example_request) = Inr record"
proof -
  have b: "\<not> blank example_key" by code_simp
  show get: "pg_reap_Get example_codec t (ReapRequest_Key example_request) = Inr record"
    using assms b by (simp add: pg_reap_Get_def example_request_key)
  have "sql_insert rw_key (new_reap_row example_db now example_request) t = (t, 0)"
    using sql_row_Some [OF assms(1)] by (force simp: sql_insert_def new_reap_row_def example_request_key)
  then show "pg_reap_Enqueue example_codec example_db now t example_request = (None, t)"
    using assms(3) get by (simp add: pg_reap_Enqueue_def example_request_valid)
qed

definition succeeded_table :: reap_table where
  "succeeded_table = [(example_row ReapSucceeded 1 [] None) \<lparr>rw_completed := Some 4\<rparr>]"

lemma succeeded_table_row:
  "sql_row rw_key example_key succeeded_table = Some ((example_row ReapSucceeded 1 [] None) \<lparr>rw_completed := Some 4\<rparr>)"
  "\<exists>record. scanRunnableReap example_codec ((example_row ReapSucceeded 1 [] None) \<lparr>rw_completed := Some 4\<rparr>) = Inr record \<and>
     rec_State record = ReapSucceeded \<and> rq_Revision (rec_Request record) = rq_Revision example_request"
  by (simp_all add: succeeded_table_def sql_row_def example_row_def new_reap_row_def example_request_key
      scanRunnableReap_def example_request_valid row_record_def)

lemma released_only_after_reap_witness:
  "\<exists>res w'. Reconcile (example_reconciler 9) (example_world (example_env PhaseDraining OperationNone 0) succeeded_table)
       = (res, w') \<and> (\<exists>rec. pg_reap_Get example_codec (wd_reaps w') example_key = Inr rec \<and> rec_State rec = ReapSucceeded)"
proof -
  let ?e = "example_env PhaseDraining OperationNone 0"
  obtain x where rec: "scanRunnableReap example_codec ((example_row ReapSucceeded 1 [] None) \<lparr>rw_completed := Some 4\<rparr>) = Inr x"
    "rec_State x = ReapSucceeded" "rq_Revision (rec_Request x) = rq_Revision example_request"
    using succeeded_table_row(2) by blast
  note reap = example_reap [OF succeeded_table_row(1) rec(1,3)]
  have plan: "resolvePlan (example_reconciler 9) ?e = Inr example_plan"
    by (rule example_resolves) (simp_all add: example_env_def)
  have fields: "env_CreationTimestamp ?e = 1" "es_Lease (env_Spec ?e) = \<lparr>ls_RenewedAt = 1, ls_ReleaseAt = None\<rparr>"
    "env_Phase ?e = PhaseDraining" "env_Operation ?e = OperationNone" "env_DeletionTimestamp ?e = 0"
    "env_Finalizers ?e = [finalizer]"
    by (simp_all add: example_env_def)
  have dec: "decided (example_reconciler 9) ?e example_plan DecisionReap"
    by (simp add: decided_def plan Decide_def example_env_valid fields example_expires)
  let ?w = "example_world ?e succeeded_table"
  obtain res w' where run: "Reconcile (example_reconciler 9) ?w = (res, w')"
    by (metis prod.collapse)
  have nf: "no_faults (example_reconciler 9)" by (simp add: no_faults_def)
  have enq: "rx_Enqueue (example_reconciler 9) = pg_reap_Enqueue example_codec example_db 9"
    by (simp add: example_reconciler_def)
  have "Reconcile (example_reconciler 9) ?w = ((0, None), ?w \<lparr>wd_calls := 3,
        wd_object := deleted 9 (with_status ?e (released_status (example_reconciler 9)))\<rparr>)"
    using Reconcile_decided(4) [OF nf _ dec, of ?w]
      reap_round(2) [OF nf, of example_binding _ "?w \<lparr>wd_calls := 1\<rparr>" succeeded_table x ?e] reap rec(2)
    by (simp del: example_codec_simps add: example_env_binding example_binding_digest example_reap_request enq fields example_world_def numeral_3_eq_3)
  then have "wd_object w' \<noteq> None \<longrightarrow> env_Phase (the (wd_object w')) = PhaseReleased"
    using run by (auto simp: deleted_def released_status_def with_status_def)
  then have "case wd_object w' of None \<Rightarrow> True
      | Some e' \<Rightarrow> finalizer \<notin> set (env_Finalizers e') \<or> (env_Phase e' = PhaseReleased \<and> env_Phase ?e \<noteq> PhaseReleased)"
    using fields(3) by (auto split: option.splits)
  moreover have "example_key = env_Namespace ?e @ ''/'' @ env_Name ?e @ ''/'' @ env_UID ?e"
    using example_request_key by (simp add: ReapRequest_Key_def example_request_def example_env_def)
  ultimately show ?thesis
    using released_only_after_reap [OF _ _ run, of ?e example_db 9 example_key] run enq by (auto simp: example_world_def fields)
qed

text \<open>None of the steps but \<open>reconcileProvision\<close> calls \<open>Provision\<close>.\<close>

lemma provision_irrelevant:
  "resolvePlan (r \<lparr>rx_Provision := f\<rparr>) env = resolvePlan r env"
  "updateStatus (r \<lparr>rx_Provision := f\<rparr>) = updateStatus r" "api_call (r \<lparr>rx_Provision := f\<rparr>) = api_call r"
  "rec_fail (r \<lparr>rx_Provision := f\<rparr>) = rec_fail r"
  "infrastructureFailure (r \<lparr>rx_Provision := f\<rparr>) = infrastructureFailure r"
  "providerFailure (r \<lparr>rx_Provision := f\<rparr>) = providerFailure r"
  "applyObservation (r \<lparr>rx_Provision := f\<rparr>) = applyObservation r"
  "reconcileReap (r \<lparr>rx_Provision := f\<rparr>) = reconcileReap r"
  "ignore_not_found (r \<lparr>rx_Provision := f\<rparr>) = ignore_not_found r"
  "reconcileReset (r \<lparr>rx_Provision := f\<rparr>) = reconcileReset r"
proof -
  let ?r = "r \<lparr>rx_Provision := f\<rparr>"
  have s: "rx_Codec ?r = rx_Codec r" "rx_Reset ?r = rx_Reset r" "rx_Enqueue ?r = rx_Enqueue r" "rx_Get ?r = rx_Get r"
    "rx_NotFound ?r = rx_NotFound r" "rx_Api ?r = rx_Api r" "rx_Now ?r = rx_Now r"
    by simp_all
  show a: "api_call ?r = api_call r" by (intro ext) (simp only: api_call_def s)
  show i: "ignore_not_found ?r = ignore_not_found r" by (intro ext) (simp only: ignore_not_found_def s)
  show u: "updateStatus ?r = updateStatus r" by (intro ext) (simp only: updateStatus_def a)
  show fl: "rec_fail ?r = rec_fail r" by (intro ext) (simp only: rec_fail_def u s)
  show inf: "infrastructureFailure ?r = infrastructureFailure r" by (intro ext) (simp only: infrastructureFailure_def u s)
  show pf: "providerFailure ?r = providerFailure r" by (intro ext) (simp only: providerFailure_def fl inf)
  show ob: "applyObservation ?r = applyObservation r" by (intro ext) (simp only: applyObservation_def u s)
  have os: "observeResetRequest ?r = observeResetRequest r" by (intro ext) (simp only: observeResetRequest_def a s)
  have ra: "reset_adopted ?r = reset_adopted r" by (intro ext) (simp only: reset_adopted_def os fl pf ob s)
  show "reconcileReset ?r = reconcileReset r" by (intro ext) (simp only: reconcileReset_def u ra)
  show "reconcileReap ?r = reconcileReap r" by (intro ext) (simp only: reconcileReap_def u a i s)
  show "resolvePlan (r \<lparr>rx_Provision := f\<rparr>) env = resolvePlan r env"
    by (simp add: resolvePlan_def blankPlan_def split: option.splits)
qed

text \<open>
  The adoptive \<open>Provision\<close> never takes part in a reset: while the operation is \<open>Resetting\<close> the
  outcome of a round does not depend on \<open>Provision\<close> at all, in whatever phase.
\<close>

theorem reset_never_provisions:
  assumes "wd_object w = Some e" "env_Operation e = OperationResetting"
  shows "Reconcile (r \<lparr>rx_Provision := f\<rparr>) w = Reconcile r w"
proof -
  have "Decide cd e plan now n \<noteq> Inr DecisionProvision" for cd plan now n
    using Decide_Inr [of cd e plan now n DecisionProvision] assms(2) by auto
  then have "reconcileObject (r \<lparr>rx_Provision := f\<rparr>) e v = reconcileObject r e v" for v
    by (auto simp: reconcileObject_def reconcileDeletion_def provision_irrelevant split: sum.splits option.splits
        Decision.splits)
  then show ?thesis
    using assms(1) by (simp add: Reconcile_def provision_irrelevant split: option.splits)
qed

lemma reset_never_provisions_witness:
  "Reconcile ((example_reconciler 9) \<lparr>rx_Provision := (\<lambda>_ _ p. (Inl (Msg ''down''), p))\<rparr>)
     (example_world (example_env PhaseProvisioning OperationResetting 1) []) =
   Reconcile (example_reconciler 9) (example_world (example_env PhaseProvisioning OperationResetting 1) [])"
  by (rule reset_never_provisions [where e = "example_env PhaseProvisioning OperationResetting 1"])
    (simp_all add: example_world_def example_env_def)

text \<open>
  C27 The provider is called only for an environment that carries the cleanup finalizer, is not in
  deletion, is bound to its resolved plan by \<open>ValidateSpec\<close>, has not expired and is \<open>Provisioning\<close> or
  \<open>Ready\<close>: in particular never while it is draining, released or failed.
\<close>

theorem provider_called_only_bound:
  assumes "wd_object w = Some e" "wd_provider (snd (Reconcile r w)) \<noteq> wd_provider w"
  shows "env_DeletionTimestamp e = 0 \<and> finalizer \<in> set (env_Finalizers e) \<and> env_Phase e \<in> {PhaseProvisioning, PhaseReady} \<and>
    (\<exists>plan t. resolvePlan r e = Inr plan \<and> ValidateSpec (rx_Codec r) e plan = None \<and>
       ExpiresAt (env_CreationTimestamp e) (es_Lease (env_Spec e)) (Plan_Lifecycle plan) = Inr t \<and>
       rx_Now r ClockDecide < t)"
proof -
  let ?w = "w \<lparr>wd_calls := Suc (wd_calls w)\<rparr>"
  obtain res w' where run: "reconcileObject r e ?w = (res, w')" by (metis prod.collapse)
  have p: "wd_provider w' \<noteq> wd_provider ?w"
    using assms run by (auto simp: Reconcile_def split: option.splits)
  have reap: "\<not> reconcileReap r e b ?w = (res, w')" for b
    using reconcileReap_result [of r e b ?w res w'] assms(1) p by auto
  have live: "holds_live e ?w"
    using run p reap assms(1)
    by (auto simp: holds_live_def reconcileObject_def reconcileDeletion_def split: if_splits sum.splits)
  have dt: "env_DeletionTimestamp e = 0" using live by (simp add: holds_live_def)
  have fin: "finalizer \<in> set (env_Finalizers e)"
    using run p dt by (auto simp: reconcileObject_def Let_def split: if_splits prod.splits option.splits dest!: api_call_result)
  obtain plan where plan: "resolvePlan r e = Inr plan"
    using run p dt fin live
    by (cases "resolvePlan r e") (auto simp: reconcileObject_def split: if_splits prod.splits option.splits
        dest!: rec_fail_wrote infrastructureFailure_wrote)
  have valid: "ValidateSpec (rx_Codec r) e plan = None"
    using run p dt fin live plan
    by (cases "ValidateSpec (rx_Codec r) e plan") (auto simp: reconcileObject_def dest!: rec_fail_wrote)
  obtain d where d: "Decide (rx_Codec r) e plan (rx_Now r ClockDecide) (parseObservedResetNonce e) = Inr d"
    using run p dt fin live plan valid
    by (cases "Decide (rx_Codec r) e plan (rx_Now r ClockDecide) (parseObservedResetNonce e)")
      (auto simp: reconcileObject_def dest!: rec_fail_wrote)
  have dd: "decided r e plan d" using dt fin plan valid d by (simp add: decided_def)
  have acts: "d = DecisionProvision \<and> env_Phase e = PhaseProvisioning \<or> d = DecisionReset"
  proof (cases d)
    case DecisionProvision
    moreover have "env_Phase e \<noteq> PhaseUnset \<and> env_Phase e \<noteq> PhasePending"
      using run p dt fin plan valid d DecisionProvision live
      by (auto simp: reconcileObject_def reconcileProvision_def split: prod.splits option.splits dest!: updateStatus_wrote)
    ultimately show ?thesis using Decide_Inr [OF d] by auto
  next
    case DecisionDrain
    then show ?thesis
      using run p dt fin plan valid d live
      by (auto simp: reconcileObject_def split: prod.splits option.splits dest!: updateStatus_wrote)
  qed (use run p dt fin plan valid d reap in \<open>auto simp: reconcileObject_def\<close>)
  then show ?thesis
    using decided_bound [OF dd] Decide_Inr [OF d] dt fin plan valid by auto
qed

lemma example_decided:
  assumes "0 \<le> nonce" "now < 1 + seconds 1800"
    and "(phase, operation, d) \<in> {(PhaseUnset, OperationUnset, DecisionProvision),
      (PhaseProvisioning, OperationNone, DecisionProvision), (PhaseReady, OperationResetting, DecisionReset)}"
  shows "decided (example_reconciler now) (example_env phase operation nonce) example_plan d"
proof -
  let ?e = "example_env phase operation nonce"
  have plan: "resolvePlan (example_reconciler now) ?e = Inr example_plan"
    by (rule example_resolves) (simp_all add: example_env_def)
  have fields: "env_CreationTimestamp ?e = 1" "es_Lease (env_Spec ?e) = \<lparr>ls_RenewedAt = 1, ls_ReleaseAt = None\<rparr>"
    "env_Phase ?e = phase" "env_Operation ?e = operation" "env_DeletionTimestamp ?e = 0"
    "env_Finalizers ?e = [finalizer]"
    by (simp_all add: example_env_def)
  have idle: "lp_IdleTTLSeconds example_lifecycle = 1800" by (simp add: example_lifecycle_def)
  consider "phase = PhaseUnset" "operation = OperationUnset" "d = DecisionProvision"
    | "phase = PhaseProvisioning" "operation = OperationNone" "d = DecisionProvision"
    | "phase = PhaseReady" "operation = OperationResetting" "d = DecisionReset"
    using assms(3) by blast
  then have "Decide example_codec ?e example_plan now n = Inr d" for n
    using assms(1,2) by cases (simp_all add: Decide_def example_env_valid fields example_expires idle)
  then show ?thesis using assms(1) by (simp add: decided_def plan fields example_env_valid)
qed

lemma example_no_faults: "no_faults (example_reconciler now)"
  by (simp add: no_faults_def)

lemma provider_called_only_bound_witness:
  "wd_provider (snd (Reconcile (example_reconciler 9) (example_world (example_env PhaseProvisioning OperationNone 0) []))) = 1 \<and>
   (\<exists>t. ExpiresAt 1 \<lparr>ls_RenewedAt = 1, ls_ReleaseAt = None\<rparr> example_lifecycle = Inr t \<and> 9 < t)"
proof -
  let ?e = "example_env PhaseProvisioning OperationNone 0"
  let ?w = "example_world ?e []" and ?r = "example_reconciler 9"
  have obj: "wd_object ?w = Some ?e" by (simp add: example_world_def)
  have dec: "decided ?r ?e example_plan DecisionProvision" by (rule example_decided) (simp_all add: seconds_def)
  have call: "rx_Provision ?r x b 0 = (Inr \<lparr>ob_Ready = True, ob_ResourceRefs = [], ob_EndpointRefs = []\<rparr>, 1)" for x b
    by (simp add: example_reconciler_def)
  have "wd_provider (snd (Reconcile ?r ?w)) = 1"
    using provision_round [OF example_no_faults obj dec, of "\<lparr>ob_Ready = True, ob_ResourceRefs = [], ob_EndpointRefs = []\<rparr>" 1] call
    by (auto simp: example_env_def example_world_def)
  moreover from this have "wd_provider (snd (Reconcile ?r ?w)) \<noteq> wd_provider ?w" by (simp add: example_world_def)
  from provider_called_only_bound [OF obj this] obtain plan t where "resolvePlan ?r ?e = Inr plan"
    "ExpiresAt (env_CreationTimestamp ?e) (es_Lease (env_Spec ?e)) (Plan_Lifecycle plan) = Inr t" "9 < t"
    by auto
  moreover have "env_CreationTimestamp ?e = 1" "es_Lease (env_Spec ?e) = \<lparr>ls_RenewedAt = 1, ls_ReleaseAt = None\<rparr>"
    by (simp_all add: example_env_def)
  moreover have "resolvePlan ?r ?e = Inr example_plan" using dec by (simp add: decided_def)
  ultimately show ?thesis by auto
qed

end
