(* ===== verification/EnvironmentLifecycle.thy ===== *)
theory EnvironmentLifecycle
  imports ReconcilerProperties
begin

section \<open>The life of an environment\<close>

text \<open>
  How the rounds of the controller compose: a fresh environment gets ready, a reset comes back to
  ready, an expired one is drained, reaped by the cleanup worker and disappears; and where a round
  does not take the environment on.
\<close>

text \<open>\<open>n\<close> rounds one after the other.\<close>

fun rounds :: "('q, 'w) Reconciler \<Rightarrow> nat \<Rightarrow> ('q, 'w) world \<Rightarrow> ('q, 'w) world" where
  "rounds r 0 w = w"
| "rounds r (Suc n) w = rounds r n (snd (Reconcile r w))"

subsection \<open>What a decision depends on\<close>

text \<open>The plan and the validation read the spec and the profile digest of the status only.\<close>

lemma ValidateSpec_cong:
  "env_Spec e' = env_Spec e \<Longrightarrow> rts_ProfileDigest (sts_Runtime (env_Status e')) = rts_ProfileDigest (sts_Runtime (env_Status e)) \<Longrightarrow>
     ValidateSpec cd e' plan = ValidateSpec cd e plan"
  by (simp only: ValidateSpec_def)

lemma resolvePlan_cong: "env_Spec e' = env_Spec e \<Longrightarrow> resolvePlan r e' = resolvePlan r e"
  by (simp only: resolvePlan_def)

text \<open>An environment the controller can act on: bound to its plan, which expires at \<open>t\<close>.\<close>

definition bound :: "('q, 'w) Reconciler \<Rightarrow> RuntimeEnvironment \<Rightarrow> Plan \<Rightarrow> time \<Rightarrow> bool" where
  "bound r e plan t \<longleftrightarrow> env_DeletionTimestamp e = 0 \<and> resolvePlan r e = Inr plan \<and>
     ValidateSpec (rx_Codec r) e plan = None \<and>
     ExpiresAt (env_CreationTimestamp e) (es_Lease (env_Spec e)) (Plan_Lifecycle plan) = Inr t"

lemma bound_with_status:
  "bound r e plan t \<Longrightarrow> rts_ProfileDigest (sts_Runtime (f (env_Status e))) = rts_ProfileDigest (sts_Runtime (env_Status e)) \<Longrightarrow>
     bound r (with_status e f) plan t"
  using ValidateSpec_cong [of "with_status e f" e] by (simp add: bound_def)

lemma bound_profile:
  assumes "bound r e plan t" "RuntimeProfile_Digest (rx_Codec r) (Plan_Profile plan) = Inr pd"
    and "rts_ProfileDigest (sts_Runtime (f (env_Status e))) = pd"
  shows "bound r (with_status e f) plan t"
proof -
  have s: "env_Spec (with_status e f) = env_Spec e" by simp
  have "ValidateSpec (rx_Codec r) (with_status e f) plan = None"
    using assms unfolding bound_def ValidateSpec_def s by (simp add: first_error_Cons)
  then show ?thesis using assms(1) by (simp add: bound_def)
qed

lemma bound_decided:
  assumes "bound r e plan t" "finalizer \<in> set (env_Finalizers e)"
  shows "env_Phase e = PhaseDraining \<Longrightarrow> env_Operation e \<in> {OperationUnset, OperationNone, OperationResetting} \<Longrightarrow>
      decided r e plan DecisionReap"
    and "env_Phase e \<notin> {PhaseDraining, PhaseReleased} \<Longrightarrow>
      env_Operation e \<in> {OperationUnset, OperationNone, OperationResetting} \<Longrightarrow> t \<le> rx_Now r ClockDecide \<Longrightarrow>
      decided r e plan DecisionDrain"
    and "env_Phase e \<in> {PhaseUnset, PhasePending, PhaseProvisioning} \<Longrightarrow> env_Operation e \<in> {OperationUnset, OperationNone} \<Longrightarrow>
      rx_Now r ClockDecide < t \<Longrightarrow> decided r e plan DecisionProvision"
    and "env_Phase e = PhaseReady \<Longrightarrow> env_Operation e = OperationResetting \<Longrightarrow> rx_Now r ClockDecide < t \<Longrightarrow>
      decided r e plan DecisionReset"
    and "env_Phase e = PhaseReady \<Longrightarrow> env_Operation e \<in> {OperationUnset, OperationNone} \<Longrightarrow>
      env_ResetNonce e \<le> parseObservedResetNonce e \<Longrightarrow> rx_Now r ClockDecide < t \<Longrightarrow> decided r e plan DecisionNone"
    and "env_Phase e = PhaseReleased \<Longrightarrow> decided r e plan DecisionNone"
  using assms by (auto simp: bound_def decided_def Decide_def)

text \<open>The first two rounds of a fresh environment.\<close>

lemma finalizer_round:
  assumes "no_faults r" "wd_object w = Some e" "env_DeletionTimestamp e = 0" "finalizer \<notin> set (env_Finalizers e)"
  shows "Reconcile r w = ((statusStepRequeue, None), w \<lparr>wd_calls := Suc (Suc (wd_calls w)),
    wd_object := Some (e \<lparr>env_Finalizers := env_Finalizers e @ [finalizer]\<rparr>)\<rparr>)"
  using assms by (simp add: Reconcile_def reconcileObject_def no_faults_def api_call_def patched_def)

definition provisioning_status :: "RuntimeEnvironmentStatus \<Rightarrow> RuntimeEnvironmentStatus" where
  "provisioning_status s = s \<lparr>sts_Phase := PhaseProvisioning, sts_Operation := OperationNone\<rparr>"

lemma start_round:
  assumes "no_faults r" "wd_object w = Some e" "decided r e plan DecisionProvision" "env_Phase e \<in> {PhaseUnset, PhasePending}"
  shows "Reconcile r w = ((statusStepRequeue, None), w \<lparr>wd_calls := Suc (Suc (wd_calls w)),
    wd_object := Some (with_status e provisioning_status)\<rparr>)"
proof -
  have "CanTransition (env_Phase e) (sts_Phase (provisioning_status (env_Status e)))" "env_DeletionTimestamp e = 0"
    using assms(3,4) by (auto simp: provisioning_status_def CanTransition.simps decided_def)
  then show ?thesis
    using assms(4) Reconcile_decided(2) [OF assms(1-3) refl] updateStatus_ok [OF assms(1), of e provisioning_status]
    by (simp add: reconcileProvision_def provisioning_status_def [abs_def])
qed

definition draining_status :: "RuntimeEnvironmentStatus \<Rightarrow> RuntimeEnvironmentStatus" where
  "draining_status s = s \<lparr>sts_Phase := PhaseDraining, sts_Operation := OperationNone\<rparr>"

lemma drain_round:
  assumes "no_faults r" "wd_object w = Some e" "decided r e plan DecisionDrain"
    and "env_Phase e \<in> {PhaseUnset, PhasePending, PhaseProvisioning, PhaseReady, PhaseFailed}"
  shows "Reconcile r w = ((statusStepRequeue, None), w \<lparr>wd_calls := Suc (Suc (wd_calls w)),
    wd_object := Some (with_status e draining_status)\<rparr>)"
proof -
  have "CanTransition (env_Phase e) (sts_Phase (draining_status (env_Status e)))" "env_DeletionTimestamp e = 0"
    using assms(3,4) by (auto simp: draining_status_def CanTransition.simps decided_def)
  then show ?thesis
    using Reconcile_decided(5) [OF assms(1-3) refl] updateStatus_ok [OF assms(1), of e draining_status]
    by (simp add: draining_status_def [abs_def])
qed

subsection \<open>Getting ready\<close>

text \<open>
  A fresh environment gets ready: if its plan is valid and has not expired, the API answers and
  the provider is ready when asked, then three rounds take an object without phase and finalizer to
  \<open>Ready\<close> with no operation, no failure, the finalizer in place and the expiry of \<open>ExpiresAt\<close>.
\<close>

theorem fresh_environment_ready:
  assumes "no_faults r" "wd_object w = Some e" "bound r e plan t" "\<forall>c. rx_Now r c < t"
    and "finalizer \<notin> set (env_Finalizers e)" "env_Phase e = PhaseUnset" "env_Operation e = OperationUnset"
    and "\<forall>p. \<exists>ob p'. rx_Provision r (lp_CreateTimeoutSeconds (Plan_Lifecycle plan)) (environmentBinding e plan) p = (Inr ob, p') \<and> ob_Ready ob"
  shows "\<exists>e'. wd_object (rounds r 3 w) = Some e' \<and> env_Phase e' = PhaseReady \<and> env_Operation e' = OperationNone \<and>
    env_Spec e' = env_Spec e \<and> finalizer \<in> set (env_Finalizers e') \<and> sts_Failure (env_Status e') = None \<and>
    els_ExpiresAt (sts_Lifecycle (env_Status e')) = Some t"
proof -
  define e1 where "e1 = e \<lparr>env_Finalizers := env_Finalizers e @ [finalizer]\<rparr>"
  define e2 where "e2 = with_status e1 provisioning_status"
  have b1: "bound r e1 plan t"
    using assms(3) ValidateSpec_cong [of e1 e] resolvePlan_cong [of e1 e r] by (simp add: bound_def e1_def)
  have b2: "bound r e2 plan t" unfolding e2_def by (rule bound_with_status [OF b1]) (simp add: provisioning_status_def)
  have f: "finalizer \<in> set (env_Finalizers e1)" "finalizer \<in> set (env_Finalizers e2)" by (simp_all add: e1_def e2_def)
  have ph: "env_Phase e1 = PhaseUnset" "env_Operation e1 = OperationUnset" "env_Phase e2 = PhaseProvisioning"
    "env_Operation e2 = OperationNone"
    using assms(6,7) by (simp_all add: e1_def e2_def provisioning_status_def)
  have d: "decided r e1 plan DecisionProvision" "decided r e2 plan DecisionProvision"
    using bound_decided(3) [OF b1 f(1)] bound_decided(3) [OF b2 f(2)] ph assms(4) by simp_all
  define w1 where "w1 = snd (Reconcile r w)"
  have w1: "wd_object w1 = Some e1"
    using finalizer_round [OF assms(1,2)] assms(3,5) by (simp add: w1_def e1_def bound_def)
  define w2 where "w2 = snd (Reconcile r w1)"
  have w2: "wd_object w2 = Some e2"
    using start_round [OF assms(1) w1 d(1)] ph(1) by (simp add: w2_def e2_def)
  have same: "environmentBinding e2 plan = environmentBinding e plan" "env_CreationTimestamp e2 = env_CreationTimestamp e"
    "env_Spec e2 = env_Spec e"
    by (simp_all add: e2_def e1_def) (simp add: environmentBinding_def)
  obtain ob p' where ob: "rx_Provision r (lp_CreateTimeoutSeconds (Plan_Lifecycle plan)) (environmentBinding e2 plan) (wd_provider w2) = (Inr ob, p')"
    "ob_Ready ob"
    using assms(8) same(1) by metis
  have e: "ExpiresAt (env_CreationTimestamp e2) (es_Lease (env_Spec e2)) (Plan_Lifecycle plan) = Inr t"
    using b2 by (simp add: bound_def)
  obtain pd where "wd_object (snd (Reconcile r w2)) = Some (with_status e2 (observed_status plan pd ob PhaseReady OperationNone t))"
    using provision_round [OF assms(1) w2 d(2) ph(3) ob] e by auto
  then have "wd_object (rounds r 3 w) = Some (with_status e2 (observed_status plan pd ob PhaseReady OperationNone t))"
    by (simp add: numeral_3_eq_3 w1_def w2_def)
  then show ?thesis using f(2) same(3) by (simp add: with_status_def observed_status_def)
qed

lemma example_bound:
  assumes "0 \<le> nonce"
  shows "bound (example_reconciler now) (example_env phase operation nonce) example_plan (1 + seconds 1800)"
proof -
  have "resolvePlan (example_reconciler now) (example_env phase operation nonce) = Inr example_plan"
    by (rule example_resolves) (simp_all add: example_env_def)
  moreover have "lp_IdleTTLSeconds example_lifecycle = 1800" by (simp add: example_lifecycle_def)
  ultimately show ?thesis using assms by (simp add: bound_def example_env_valid example_expires)
qed

lemma fresh_environment_ready_witness:
  "\<exists>e'. wd_object (rounds (example_reconciler 9) 3
      (example_world ((example_env PhaseUnset OperationUnset 0) \<lparr>env_Finalizers := []\<rparr>) [])) = Some e' \<and> env_Phase e' = PhaseReady"
proof -
  let ?e = "(example_env PhaseUnset OperationUnset 0) \<lparr>env_Finalizers := []\<rparr>"
  have b: "bound (example_reconciler 9) ?e example_plan (1 + seconds 1800)"
    using example_bound [of 0 9 PhaseUnset OperationUnset] ValidateSpec_cong [of ?e "example_env PhaseUnset OperationUnset 0"]
      resolvePlan_cong [of ?e "example_env PhaseUnset OperationUnset 0" "example_reconciler 9"]
    by (simp add: bound_def)
  show ?thesis
    using fresh_environment_ready [OF example_no_faults _ b, of "example_world ?e []"]
    by (auto simp: example_world_def seconds_def) (auto simp: example_reconciler_def)
qed

subsection \<open>Resets\<close>

text \<open>The object with the annotations of an adopted request, and what they are read back as.\<close>

definition annotated :: "('q, 'w) Reconciler \<Rightarrow> RuntimeEnvironment \<Rightarrow> RuntimeEnvironment" where
  "annotated r e = e \<lparr>env_Annotations := (env_Annotations e)
     (resetNonceAnnotation \<mapsto> show_int (env_ResetNonce e),
      resetAdoptedAnnotation \<mapsto> show_int (unix_seconds (rx_Now r ClockAdopt)))\<rparr>"

lemma annotated_simps [simp]:
  "env_Spec (annotated r e) = env_Spec e" "env_Status (annotated r e) = env_Status e"
  "env_DeletionTimestamp (annotated r e) = env_DeletionTimestamp e" "env_Finalizers (annotated r e) = env_Finalizers e"
  "env_CreationTimestamp (annotated r e) = env_CreationTimestamp e"
  by (simp_all add: annotated_def)

lemma annotations_differ: "resetNonceAnnotation \<noteq> resetAdoptedAnnotation"
  by (simp add: resetNonceAnnotation_def resetAdoptedAnnotation_def)

lemma annotated_nonce:
  "0 \<le> env_ResetNonce e \<Longrightarrow> env_ResetNonce e < 2 ^ 63 \<Longrightarrow> parseObservedResetNonce (annotated r e) = env_ResetNonce e"
  using annotations_differ
  by (simp add: parseObservedResetNonce_def annotation_def annotated_def trim_show Sscan_int64_show)

lemma annotated_adopted:
  assumes "0 < unix_seconds (rx_Now r ClockAdopt)" "unix_seconds (rx_Now r ClockAdopt) < 2 ^ 63"
  shows "parseResetAdoptedAt (annotated r e) = Some (unix_epoch + seconds (unix_seconds (rx_Now r ClockAdopt)))"
  using assms by (simp add: parseResetAdoptedAt_def annotation_def annotated_def trim_show ParseInt10_show)

lemma adopted_second: "now - seconds 1 < unix_epoch + seconds (unix_seconds now)"
  unfolding unix_seconds_def seconds_def
  using div_mult_mod_eq [of "now - unix_epoch" 1000000000] pos_mod_bound [of 1000000000 "now - unix_epoch"] by linarith

text \<open>The clock and the provider of a reset that comes through.\<close>

definition reset_answers :: "('q, 'w) Reconciler \<Rightarrow> Plan \<Rightarrow> EnvironmentBinding \<Rightarrow> bool" where
  "reset_answers r plan binding \<longleftrightarrow>
     0 < unix_seconds (rx_Now r ClockAdopt) \<and> unix_seconds (rx_Now r ClockAdopt) < 2 ^ 63 \<and>
     rx_Now r ClockDeadline \<le> rx_Now r ClockAdopt + seconds (lp_ResetTimeoutSeconds (Plan_Lifecycle plan)) - seconds 1 \<and>
     (\<forall>p. \<exists>ob p'. rx_Reset r (lp_ResetTimeoutSeconds (Plan_Lifecycle plan)) binding p = (Inr ob, p') \<and> ob_Ready ob)"

lemma reset_adopted_ready:
  assumes "no_faults r" "bound r e plan t" "env_Phase e \<in> {PhaseProvisioning, PhaseReady}" "reset_answers r plan binding"
    and "parseObservedResetNonce e \<noteq> env_ResetNonce e"
  shows "\<exists>pd ob. RuntimeProfile_Digest (rx_Codec r) (Plan_Profile plan) = Inr pd \<and>
    wd_object (snd (reset_adopted r e plan binding w)) =
      Some (with_status (annotated r e) (observed_status plan pd ob PhaseReady OperationNone t))"
proof -
  let ?now = "rx_Now r ClockAdopt" and ?to = "seconds (lp_ResetTimeoutSeconds (Plan_Lifecycle plan))"
  have dt: "env_DeletionTimestamp e = 0" and ex: "ExpiresAt (env_CreationTimestamp e) (es_Lease (env_Spec e)) (Plan_Lifecycle plan) = Inr t"
    using assms(2) by (simp_all add: bound_def)
  obtain pd where pd: "RuntimeProfile_Digest (rx_Codec r) (Plan_Profile plan) = Inr pd"
    using assms(2) valid_profile unfolding bound_def by blast
  define w1 where "w1 = w \<lparr>wd_calls := Suc (wd_calls w), wd_object := Some (annotated r e)\<rparr>"
  have obs: "observeResetRequest r e w = ((None, annotated r e), w1)"
    using assms(1,5) dt by (simp add: observeResetRequest_def annotated_def [symmetric] api_call_def no_faults_def patched_def w1_def Let_def)
  have ad: "parseResetAdoptedAt (annotated r e) = Some (unix_epoch + seconds (unix_seconds ?now))"
    using assms(4) by (intro annotated_adopted) (simp_all add: reset_answers_def)
  have time: "\<not> unix_epoch + seconds (unix_seconds ?now) + ?to < rx_Now r ClockDeadline"
    using assms(4) adopted_second [of ?now] by (simp add: reset_answers_def)
  obtain ob p' where ob: "rx_Reset r (lp_ResetTimeoutSeconds (Plan_Lifecycle plan)) binding (wd_provider w1) = (Inr ob, p')" "ob_Ready ob"
    using assms(4) unfolding reset_answers_def by blast
  have "wd_object (snd (applyObservation r (annotated r e) plan ob OperationResetting (w1 \<lparr>wd_provider := p'\<rparr>))) =
      Some (with_status (annotated r e) (observed_status plan pd ob PhaseReady OperationNone t))"
    using observation_ready [OF assms(1) ob(2), of "annotated r e" plan pd t] assms(3) dt pd ex by simp
  then have "wd_object (snd (reset_adopted r e plan binding w)) =
      Some (with_status (annotated r e) (observed_status plan pd ob PhaseReady OperationNone t))"
    by (simp add: reset_adopted_def obs ad time ob(1))
  with pd show ?thesis by blast
qed

text \<open>The rebuilt environment carries the nonce in its annotation, and the next round leaves it alone.\<close>

lemma reset_settled:
  assumes "no_faults r" "bound r e plan t" "rx_Now r ClockDecide < t" "finalizer \<in> set (env_Finalizers e)"
    and "env_ResetNonce e < 2 ^ 63" "RuntimeProfile_Digest (rx_Codec r) (Plan_Profile plan) = Inr pd"
    and "wd_object w = Some e'" "e' = with_status (annotated r e) (observed_status plan pd ob PhaseReady OperationNone t)"
  shows "parseObservedResetNonce e' = env_ResetNonce e" "wd_object (snd (Reconcile r w)) = Some e'"
proof -
  have "0 \<le> env_ResetNonce e"
    using assms(2) by (simp add: bound_def ValidateSpec_def first_error_Cons not_less)
  then show nonce: "parseObservedResetNonce e' = env_ResetNonce e"
    using annotated_nonce [of e r] assms(5) by (simp add: assms(8) parseObservedResetNonce_def)
  have "bound r (annotated r e) plan t"
    using assms(2) ValidateSpec_cong [of "annotated r e" e] resolvePlan_cong [of "annotated r e" e r] by (simp add: bound_def)
  then have "bound r e' plan t" unfolding assms(8) by (rule bound_profile [OF _ assms(6)]) simp
  then have "decided r e' plan DecisionNone"
    using bound_decided(5) [of r e' plan t] assms(3,4) nonce by (simp add: assms(8))
  from Reconcile_decided(1) [OF assms(1,7) this refl] show "wd_object (snd (Reconcile r w)) = Some e'"
    using assms(7) by simp
qed

lemma example_reset_answers: "reset_answers (example_reconciler (unix_epoch + seconds 5)) example_plan b"
  by (simp add: reset_answers_def unix_seconds_def seconds_def unix_epoch_def example_lifecycle_def)
    (simp add: example_reconciler_def)

text \<open>The concrete environment, created and renewed shortly before.\<close>

definition recent_env :: "EnvironmentOperation \<Rightarrow> RuntimeEnvironment" where
  "recent_env operation = (example_env PhaseReady operation 1)
     \<lparr>env_CreationTimestamp := unix_epoch, env_Spec := (env_Spec (example_env PhaseReady operation 1))
        \<lparr>es_Lease := \<lparr>ls_RenewedAt = unix_epoch, ls_ReleaseAt = None\<rparr>\<rparr>\<rparr>"

lemma recent_env_simps [simp]:
  "env_Status (recent_env op) = env_Status (example_env PhaseReady op 1)" "env_Finalizers (recent_env op) = [finalizer]"
  "es_ResetNonce (env_Spec (recent_env op)) = 1" "env_Annotations (recent_env op) = Map.empty"
  by (simp_all add: recent_env_def)

lemma recent_nonce [simp]: "parseObservedResetNonce (recent_env op) = 0"
proof -
  have "Sscan_int64 [] = 0" by code_simp
  then show ?thesis by (simp add: parseObservedResetNonce_def annotation_def)
qed

lemma recent_bound: "bound (example_reconciler now) (recent_env op) example_plan (unix_epoch + seconds 1800)"
proof -
  let ?e = "example_env PhaseReady op 1"
  have v: "ValidateSpec example_codec ?e example_plan = None" by (rule example_env_valid) simp
  have u: "unix_epoch \<noteq> 0" by (simp add: unix_epoch_def seconds_def)
  have "ValidateSpec example_codec (recent_env op) example_plan = None"
    using v u by (simp add: ValidateSpec_def recent_env_def example_env_def first_error_Cons split: sum.splits)
  moreover have "ExpiresAt unix_epoch \<lparr>ls_RenewedAt = unix_epoch, ls_ReleaseAt = None\<rparr> example_lifecycle =
      Inr (unix_epoch + seconds 1800)"
    using example_lifecycle_ok u by (simp add: ExpiresAt_Inr) (simp add: example_lifecycle_def seconds_def)
  moreover have "resolvePlan (example_reconciler now) (recent_env op) = Inr example_plan"
    by (rule example_resolves) (simp_all add: recent_env_def example_env_def)
  ultimately show ?thesis by (simp add: bound_def) (simp add: recent_env_def)
qed

text \<open>
  C28 A requested reset comes through: when the spec asks for a newer reset than the annotations of
  a ready environment say, and the provider rebuilds it in time, one round takes it through
  \<open>Resetting\<close> back to \<open>Ready\<close>, with the request recorded in the status and in the annotation, and the
  next round has nothing to do.
\<close>

theorem reset_comes_through:
  assumes "no_faults r" "wd_object w = Some e" "bound r e plan t" "\<forall>c. rx_Now r c < t"
    and "finalizer \<in> set (env_Finalizers e)" "env_Phase e = PhaseReady" "env_Operation e \<in> {OperationUnset, OperationNone}"
    and "parseObservedResetNonce e < env_ResetNonce e" "env_ResetNonce e < 2 ^ 63"
    and "reset_answers r plan (environmentBinding e plan)"
  shows "\<exists>e'. wd_object (rounds r 1 w) = Some e' \<and> env_Phase e' = PhaseReady \<and> env_Operation e' = OperationNone \<and>
    sts_ObservedResetNonce (env_Status e') = env_ResetNonce e \<and> parseObservedResetNonce e' = env_ResetNonce e \<and>
    wd_object (rounds r 2 w) = Some e'"
proof -
  let ?f = "\<lambda>s. s \<lparr>sts_Operation := OperationResetting, sts_ObservedResetNonce := env_ResetNonce e\<rparr>"
  define e1 where "e1 = with_status e ?f"
  let ?w0 = "w \<lparr>wd_calls := Suc (wd_calls w)\<rparr>"
  have b1: "bound r e1 plan t" unfolding e1_def by (rule bound_with_status [OF assms(3)]) simp
  have dec: "decided r e plan DecisionReset"
    using assms(3-8) by (auto simp: decided_def bound_def Decide_def)
  have upd: "updateStatus r e ?f ?w0 = ((None, e1), ?w0 \<lparr>wd_calls := Suc (Suc (wd_calls w)), wd_object := Some e1\<rparr>)"
    using updateStatus_ok [OF assms(1), of e ?f] assms(3) by (simp add: e1_def bound_def)
  have p1: "parseObservedResetNonce e1 = parseObservedResetNonce e" "env_Phase e1 = PhaseReady" "env_ResetNonce e1 = env_ResetNonce e"
    using assms(6) by (simp_all add: e1_def parseObservedResetNonce_def)
  let ?w1 = "?w0 \<lparr>wd_calls := Suc (Suc (wd_calls w)), wd_object := Some e1\<rparr>"
  obtain pd ob where run: "RuntimeProfile_Digest (rx_Codec r) (Plan_Profile plan) = Inr pd"
    "wd_object (snd (reset_adopted r e1 plan (environmentBinding e plan) ?w1)) =
       Some (with_status (annotated r e1) (observed_status plan pd ob PhaseReady OperationNone t))"
    using reset_adopted_ready [OF assms(1) b1 _ assms(10), of ?w1] p1 assms(8) by auto
  let ?e' = "with_status (annotated r e1) (observed_status plan pd ob PhaseReady OperationNone t)"
  have "Reconcile r w = reset_adopted r e1 plan (environmentBinding e plan) ?w1"
    using Reconcile_decided(3) [OF assms(1,2) dec refl] upd assms(7) by (auto simp: reconcileReset_def)
  then have obj: "wd_object (snd (Reconcile r w)) = Some ?e'" using run(2) by simp
  have e1: "finalizer \<in> set (env_Finalizers e1)" "env_ResetNonce e1 < 2 ^ 63" using assms(5,9) by (simp_all add: e1_def)
  note settled = reset_settled [OF assms(1) b1 spec [OF assms(4)] e1 run(1) obj refl]
  have status: "env_Phase ?e' = PhaseReady" "env_Operation ?e' = OperationNone"
    "sts_ObservedResetNonce (env_Status ?e') = env_ResetNonce e"
    by (simp_all add: e1_def)
  show ?thesis
    by (rule exI [of _ ?e']) (simp only: numeral_2_eq_2 One_nat_def rounds.simps obj settled status simp_thms p1)
qed

lemma reset_comes_through_witness:
  "\<exists>e'. wd_object (rounds (example_reconciler (unix_epoch + seconds 5)) 1 (example_world (recent_env OperationNone) [])) = Some e' \<and>
     sts_ObservedResetNonce (env_Status e') = 1"
  using reset_comes_through [OF example_no_faults _ recent_bound [of "unix_epoch + seconds 5" OperationNone],
      where w = "example_world (recent_env OperationNone) []"] example_reset_answers
  by (auto simp: example_world_def seconds_def)

text \<open>
  A reset that is requested while another one runs is carried out but never shown: the round
  that finds the operation \<open>Resetting\<close> and a newer nonce in the spec takes the environment back to
  \<open>Ready\<close> and records the nonce in the annotation, so that no later round resets again, but leaves
  \<open>ObservedResetNonce\<close> of the status at the older reset for good.
\<close>

theorem second_reset_unobserved:
  assumes "no_faults r" "wd_object w = Some e" "bound r e plan t" "\<forall>c. rx_Now r c < t"
    and "finalizer \<in> set (env_Finalizers e)" "env_Phase e = PhaseReady" "env_Operation e = OperationResetting"
    and "parseObservedResetNonce e < env_ResetNonce e" "env_ResetNonce e < 2 ^ 63"
    and "reset_answers r plan (environmentBinding e plan)"
  shows "\<exists>e'. wd_object (rounds r 1 w) = Some e' \<and> env_Phase e' = PhaseReady \<and> env_Operation e' = OperationNone \<and>
    sts_ObservedResetNonce (env_Status e') = sts_ObservedResetNonce (env_Status e) \<and>
    parseObservedResetNonce e' = env_ResetNonce e \<and> wd_object (rounds r 2 w) = Some e'"
proof -
  let ?w0 = "w \<lparr>wd_calls := Suc (wd_calls w)\<rparr>"
  have dec: "decided r e plan DecisionReset" using bound_decided(4) [OF assms(3,5-7)] assms(4) by simp
  obtain pd ob where run: "RuntimeProfile_Digest (rx_Codec r) (Plan_Profile plan) = Inr pd"
    "wd_object (snd (reset_adopted r e plan (environmentBinding e plan) ?w0)) =
       Some (with_status (annotated r e) (observed_status plan pd ob PhaseReady OperationNone t))"
    using reset_adopted_ready [OF assms(1,3) _ assms(10), of ?w0] assms(6,8) by auto
  let ?e' = "with_status (annotated r e) (observed_status plan pd ob PhaseReady OperationNone t)"
  have obj: "wd_object (snd (Reconcile r w)) = Some ?e'"
    using Reconcile_decided(3) [OF assms(1,2) dec refl] run(2) assms(7) by (simp add: reconcileReset_def)
  note settled = reset_settled [OF assms(1,3) spec [OF assms(4)] assms(5,9) run(1) obj refl]
  have status: "env_Phase ?e' = PhaseReady" "env_Operation ?e' = OperationNone"
    "sts_ObservedResetNonce (env_Status ?e') = sts_ObservedResetNonce (env_Status e)"
    by simp_all
  show ?thesis
    by (rule exI [of _ ?e']) (simp only: numeral_2_eq_2 One_nat_def rounds.simps obj settled status simp_thms)
qed

lemma second_reset_unobserved_witness:
  "\<exists>e'. wd_object (rounds (example_reconciler (unix_epoch + seconds 5)) 2 (example_world (recent_env OperationResetting) [])) = Some e' \<and>
     env_Phase e' = PhaseReady \<and> sts_ObservedResetNonce (env_Status e') = 0 \<and> parseObservedResetNonce e' = 1"
proof -
  obtain e' where "wd_object (rounds (example_reconciler (unix_epoch + seconds 5)) 2 (example_world (recent_env OperationResetting) [])) = Some e'"
    "env_Phase e' = PhaseReady" "sts_ObservedResetNonce (env_Status e') = 0" "parseObservedResetNonce e' = 1"
    using second_reset_unobserved [OF example_no_faults _ recent_bound [of "unix_epoch + seconds 5" OperationResetting],
        where w = "example_world (recent_env OperationResetting) []"] example_reset_answers
    by (auto simp: example_world_def seconds_def)
  then show ?thesis by blast
qed

subsection \<open>Release\<close>

text \<open>
  A released environment whose deletion failed is left behind: once the status says \<open>Released\<close>
  and the object is not in deletion, every later round ends at once, without writing, without a
  requeue and without another attempt to delete the object; no clock and no provider changes that.
\<close>

theorem released_is_left:
  assumes "no_faults r" "wd_object w = Some e" "bound r e plan t" "finalizer \<in> set (env_Finalizers e)" "env_Phase e = PhaseReleased"
  shows "Reconcile r w = ((0, None), w \<lparr>wd_calls := Suc (wd_calls w)\<rparr>) \<and> wd_object (rounds r n w) = Some e"
proof -
  have dec: "decided r e plan DecisionNone" using bound_decided(6) [OF assms(3,4)] assms(5) by simp
  have round: "Reconcile r v = ((0, None), v \<lparr>wd_calls := Suc (wd_calls v)\<rparr>)" if "wd_object v = Some e" for v
    by (rule Reconcile_decided(1) [OF assms(1) that dec refl])
  have "wd_object (rounds r n v) = Some e" if "wd_object v = Some e" for v
    using that round by (induction n arbitrary: v) simp_all
  then show ?thesis using round assms(2) by simp
qed

text \<open>The round before it: the status was written, the delete call failed.\<close>

lemma released_is_left_witness:
  "\<exists>r w. w = snd (Reconcile r (example_world (example_env PhaseDraining OperationNone 0) succeeded_table)) \<and>
     wd_object (rounds (example_reconciler 9) 5 w) = wd_object w \<and>
     (\<exists>e. wd_object w = Some e \<and> env_Phase e = PhaseReleased \<and> env_DeletionTimestamp e = 0)"
proof -
  let ?e = "example_env PhaseDraining OperationNone 0"
  let ?r = "(example_reconciler 9) \<lparr>rx_Api := (\<lambda>n. if n = 2 then Some (Msg ''timeout'') else None)\<rparr>"
  let ?w0 = "example_world ?e succeeded_table"
  obtain x where rec: "scanRunnableReap example_codec ((example_row ReapSucceeded 1 [] None) \<lparr>rw_completed := Some 4\<rparr>) = Inr x"
    "rec_State x = ReapSucceeded" "rq_Revision (rec_Request x) = rq_Revision example_request"
    using succeeded_table_row(2) by blast
  note reap = example_reap [OF succeeded_table_row(1) rec(1,3)]
  have plan: "resolvePlan ?r ?e = Inr example_plan"
    by (simp add: resolvePlan_def) (simp add: example_env_def example_reconciler_def example_plan_def)
  have dec: "decided ?r ?e example_plan DecisionReap"
    by (simp add: decided_def plan Decide_def example_env_valid example_expires)
  have enq: "rx_Enqueue ?r = pg_reap_Enqueue example_codec example_db 9" by (simp add: example_reconciler_def)
  define e1 where "e1 = with_status ?e (released_status ?r)"
  define w where "w = snd (Reconcile ?r ?w0)"
  have obj: "wd_object w = Some e1"
    using dec reap rec(2) unfolding w_def Reconcile_def decided_def
    by (simp del: example_codec_simps add: example_world_def reconcileObject_def reconcileReap_def
        example_env_binding example_binding_digest example_reap_request enq updateStatus_def CanTransition.simps
        Let_def api_call_def patched_def)
      (simp add: e1_def with_status_def released_status_def)
  have b: "bound (example_reconciler 9) e1 example_plan (1 + seconds 1800)"
    unfolding e1_def by (rule bound_with_status [OF example_bound]) (simp_all add: released_status_def)
  have "env_Phase e1 = PhaseReleased" "env_DeletionTimestamp e1 = 0" "finalizer \<in> set (env_Finalizers e1)"
    by (simp_all add: e1_def)
  then have "wd_object (rounds (example_reconciler 9) 5 w) = wd_object w"
    using released_is_left [OF example_no_faults obj b, of 5] obj by simp
  then show ?thesis using obj \<open>env_Phase e1 = _\<close> \<open>env_DeletionTimestamp e1 = 0\<close> by (intro exI [of _ ?r] exI [of _ w]) (simp add: w_def)
qed

end
