(* ===== verification/EnvironmentCleanup.thy ===== *)
theory EnvironmentCleanup
  imports EnvironmentLifecycle
begin

section \<open>Cleaning up: controller, reap queue and reaper together\<close>

text \<open>
  The hand-over of an expired environment: the controller drains it and enqueues a cleanup request,
  a reaper claims the request, stops and releases the resources and completes it, the controller
  sees the record succeed, releases the object and takes the finalizer off.
\<close>

subsection \<open>A round of the reaper that comes through\<close>

definition reaper_ttl :: "Reaper \<Rightarrow> duration" where
  "reaper_ttl rp = (if rpr_LeaseTTL rp \<le> 0 then defaultReaperLeaseTTL else rpr_LeaseTTL rp)"

definition reaper_retry :: "Reaper \<Rightarrow> duration" where
  "reaper_retry rp = (if rpr_Retry rp \<le> 0 then defaultReaperRetry else rpr_Retry rp)"

text \<open>Stop and release of a binding succeed, from any state of the provider.\<close>

definition releases :: "'w reap_call \<Rightarrow> 'w reap_call \<Rightarrow> EnvironmentBinding \<Rightarrow> bool" where
  "releases stop release b \<longleftrightarrow>
     (\<forall>w. fst (stop (lp_StopTimeoutSeconds (EnvironmentBinding_Lifecycle b)) b w) = (True, None) \<and>
          fst (fst (release (lp_ReapTimeoutSeconds (EnvironmentBinding_Lifecycle b)) b w)))"

lemma releases_attempt: "releases stop release b \<Longrightarrow> fst (fst (reap_attempt stop release b w))"
proof -
  assume b: "releases stop release b"
  then obtain w1 where "stop (lp_StopTimeoutSeconds (EnvironmentBinding_Lifecycle b)) b w = ((True, None), w1)"
    unfolding releases_def by (metis prod.collapse)
  moreover from b obtain err w2 where
    "release (lp_ReapTimeoutSeconds (EnvironmentBinding_Lifecycle b)) b w1 = ((True, err), w2)"
    unfolding releases_def by (metis prod.collapse)
  ultimately show ?thesis by (simp add: reap_attempt_success)
qed

text \<open>The clock of a round that completes within its lease.\<close>

definition in_time :: "(time \<Rightarrow> time) \<Rightarrow> Reaper \<Rightarrow> time \<Rightarrow> time \<Rightarrow> time \<Rightarrow> bool" where
  "in_time ts rp t1 t2 t3 \<longleftrightarrow> t1 \<noteq> 0 \<and> t2 \<noteq> 0 \<and> t3 + reaper_retry rp \<noteq> 0 \<and>
     t2 < t1 + reaper_ttl rp \<and> ts t2 < ts (t1 + reaper_ttl rp)"

context reap_queue
begin

lemma run_once_succeeds:
  assumes "inv q" "fair n q" "lookup q k = Some x" "eligible_at ts x t1"
    and only: "\<And>k' x'. lookup q k' = Some x' \<Longrightarrow> eligible_at ts x' t1 \<Longrightarrow> k' = k"
    and "\<not> blank (rpr_Owner rp)" "in_time ts rp t1 t2 t3" "releases stop release (rq_Binding (rec_Request x))"
  shows "\<exists>q2 w' x'. Reaper_RunOnce clm cmp stop release rp n t1 t2 t3 q w = ((True, None), q2, w') \<and> inv q2 \<and>
    lookup q2 = (lookup q)(k \<mapsto> x') \<and> rec_State x' = ReapSucceeded \<and> rec_Request x' = rec_Request x"
proof -
  have ttl: "0 < reaper_ttl rp" by (simp add: reaper_ttl_def defaultReaperLeaseTTL_def seconds_def)
  have valid: "\<not> reap_claim_invalid (rpr_Owner rp) (reaper_ttl rp) t1"
    using assms(6,7) ttl by (simp add: reap_claim_invalid_def in_time_def)
  obtain c q1 where claim: "clm n q (rpr_Owner rp) (reaper_ttl rp) t1 = (Inr (Some c), q1)"
    using clm_progress [OF assms(1,2) valid assms(3,4)] by (metis prod.collapse)
  obtain y owner where y: "inv q1" "lookup q (claim_key c) = Some y" "eligible_at ts y t1"
    "rc_Record c = claimed_record y owner (t1 + reaper_ttl rp)"
    "lookup q1 = (lookup q)(claim_key c \<mapsto> claimed_record y owner (ts (t1 + reaper_ttl rp)))"
    using clm_some [OF assms(1) claim] by blast
  have k: "claim_key c = k" "y = x" using only [OF y(2,3)] y(2) assms(3) by auto
  obtain d w1 where att: "reap_attempt stop release (rq_Binding (rec_Request x)) w = ((True, d), w1)"
    using releases_attempt [OF assms(8), of w] by (metis prod.collapse)
  have "fst (cmp q1 c True d t2 (t3 + reaper_retry rp)) = None"
    using assms(7) y(1,5)
    by (intro cmp_accepts [where r = "claimed_record y owner (ts (t1 + reaper_ttl rp))" and expires = "t1 + reaper_ttl rp"])
      (simp_all add: y(4) claimed_record_def in_time_def)
  then obtain q2 where fin0: "cmp q1 c True d t2 (t3 + reaper_retry rp) = (None, q2)" by (metis prod.collapse)
  have req: "rec_Request (rc_Record c) = rec_Request x" by (simp add: y(4) claimed_record_def k(2))
  have run: "Reaper_RunOnce clm cmp stop release rp n t1 t2 t3 q w = ((True, None), q2, w1)"
    using assms(6) claim att fin0
    by (simp add: Reaper_RunOnce_def req reaper_ttl_def [symmetric] reaper_retry_def [symmetric])
  obtain z x' where fin: "inv q2" "lookup q1 (claim_key c) = Some z" "completed_from ts z True d t2 (t3 + reaper_retry rp) x'"
    "lookup q2 = (lookup q1)(claim_key c \<mapsto> x')"
    using cmp_ok [OF y(1) fin0] by blast
  have "z = claimed_record x owner (ts (t1 + reaper_ttl rp))" using fin(2) y(5) k by simp
  then have "rec_State x' = ReapSucceeded \<and> rec_Request x' = rec_Request x"
    using fin(3) by (simp add: completed_from_def claimed_record_def)
  moreover have "lookup q2 = (lookup q)(k \<mapsto> x')" using fin(4) y(5) k by simp
  ultimately show ?thesis using run fin(1) by blast
qed

end

subsection \<open>From expiry to nothing\<close>

lemma pg_get:
  assumes "reap_table_ok cd t" "pg_lookup t k = Some x" "\<not> blank k"
  shows "pg_reap_Get cd t k = Inr x"
  using pg_lookup_Some [OF assms(1,2)] assms(3) by (auto simp: pg_reap_Get_def scan_ok)

text \<open>The binding and the request of an environment, when its names are not blank.\<close>

lemma request_valid:
  assumes "bound r e plan t" "rx_Codec r = cd" "EnvironmentBinding_Digest cd (environmentBinding e plan) = Inr d"
    and "\<not> blank (env_Namespace e)" "\<not> blank (env_Name e)" "\<not> blank (env_UID e)"
  shows "ReapRequest_Valid cd (reap_request (environmentBinding e plan) d) = None"
proof -
  have "ValidDigest d"
    using assms(3) by (auto simp: EnvironmentBinding_Digest_def RunnableRevision_Digest_def BlankRuntimePlan_Digest_def check_Inr
        split: option.splits)
  moreover have "EnvironmentPurpose_Valid (es_Purpose (env_Spec e))"
    using assms(1) by (auto simp: bound_def ValidateSpec_def first_error_Cons EnvironmentPurpose_Valid_def)
  ultimately show ?thesis
    using assms(3-6) by (simp add: ReapRequest_Valid_def first_error_Cons reap_request_def)
      (simp add: environmentBinding_def)
qed

lemma bound_digest:
  assumes "bound r e plan t" "rx_Codec r = cd"
  shows "\<exists>d. EnvironmentBinding_Digest cd (environmentBinding e plan) = Inr d"
proof (cases "pn_Blank plan")
  case None
  then show ?thesis
    using assms by (auto simp: bound_def ValidateSpec_def first_error_Cons EnvironmentBinding_Digest_def environmentBinding_def
        split: option.splits sum.splits)
next
  case (Some b)
  then show ?thesis
    using assms by (auto simp: bound_def ValidateSpec_def first_error_Cons EnvironmentBinding_Digest_def environmentBinding_def
        BlankRuntimePlan_Digest_def)
qed

text \<open>What the queue answers the controller, before and after the reaper has been there.\<close>

lemma first_handover:
  fixes db :: database and now :: time
  assumes "reap_table_ok cd q" "ReapRequest_Valid cd rq = None" "pg_lookup q (ReapRequest_Key rq) = None"
  defines "q1 \<equiv> q @ [new_reap_row db now rq]" and "x \<equiv> row_record (new_reap_row db now rq)"
  shows "pg_reap_Enqueue cd db now q rq = (None, q1)" "reap_table_ok cd q1"
    "pg_lookup q1 = (pg_lookup q)(ReapRequest_Key rq \<mapsto> x)" "pg_reap_Get cd q1 (ReapRequest_Key rq) = Inr x"
proof -
  show "pg_reap_Enqueue cd db now q rq = (None, q1)" and ok: "reap_table_ok cd q1"
    unfolding q1_def by (rule pg_enqueue_new [OF assms(1-3)])+
  show look: "pg_lookup q1 = (pg_lookup q)(ReapRequest_Key rq \<mapsto> x)"
    using assms(3) by (auto simp: pg_lookup_def q1_def x_def sql_row_append new_reap_row_def fun_eq_iff split: option.splits)
  show "pg_reap_Get cd q1 (ReapRequest_Key rq) = Inr x"
    by (rule pg_get [OF ok _ key_not_blank]) (simp add: look)
qed

lemma next_handover:
  assumes "reap_table_ok cd q" "ReapRequest_Valid cd rq = None" "pg_lookup q (ReapRequest_Key rq) = Some x" "rec_Request x = rq"
  shows "pg_reap_Enqueue cd db now q rq = (None, q)" "pg_reap_Get cd q (ReapRequest_Key rq) = Inr x"
  using pg_enqueue_old [OF assms(1-3), of db now] assms(4) pg_get [OF assms(1,3) key_not_blank]
  by (simp_all add: prod_eq_iff)

text \<open>The controller's half before the reaper: drain, then enqueue and find the record queued.\<close>

lemma drain_and_enqueue:
  assumes nf: "no_faults r" and obj: "wd_object w = Some e" and drain: "decided r e plan DecisionDrain"
    and ph: "env_Phase e \<in> {PhaseUnset, PhasePending, PhaseProvisioning, PhaseReady, PhaseFailed}"
    and reap: "decided r (with_status e draining_status) plan DecisionReap"
    and d: "EnvironmentBinding_Digest (rx_Codec r) (environmentBinding e plan) = Inr d"
    and enq: "rx_Enqueue r (wd_reaps w) (reap_request (environmentBinding e plan) d) = (None, q1)"
    and get: "rx_Get r q1 (ReapRequest_Key (reap_request (environmentBinding e plan) d)) = Inr x" "rec_State x \<noteq> ReapSucceeded"
  shows "wd_object (rounds r 2 w) = Some (with_status e draining_status) \<and> wd_reaps (rounds r 2 w) = q1"
proof -
  let ?e1 = "with_status e draining_status"
  define w1 where "w1 = snd (Reconcile r w)"
  have w1: "wd_object w1 = Some ?e1" "wd_reaps w1 = wd_reaps w"
    using drain_round [OF nf obj drain ph] by (simp_all add: w1_def)
  let ?v = "w1 \<lparr>wd_calls := Suc (wd_calls w1)\<rparr>"
  have enq': "rx_Enqueue r (wd_reaps ?v) (reap_request (environmentBinding e plan) d) = (None, q1)" using enq w1(2) by simp
  have "Reconcile r w1 = ((reapStatusRequeue, None), ?v \<lparr>wd_reaps := q1\<rparr>)"
    using Reconcile_decided(4) [OF nf w1(1) reap refl] reap_round(1) [OF nf d enq' get(1) get(2)] by simp
  then show ?thesis using w1(1) by (simp add: numeral_2_eq_2 w1_def [symmetric])
qed

text \<open>The other half: the record has succeeded, release, then take the finalizer off.\<close>

lemma release_and_vanish:
  assumes nf: "no_faults r" and obj: "wd_object w = Some e" and reap: "decided r e plan DecisionReap"
    and ph: "env_Phase e = PhaseDraining" and fin: "env_Finalizers e = [finalizer]" and clock: "rx_Now r ClockEnd \<noteq> 0"
    and d: "EnvironmentBinding_Digest (rx_Codec r) (environmentBinding e plan) = Inr d"
    and enq: "rx_Enqueue r (wd_reaps w) (reap_request (environmentBinding e plan) d) = (None, wd_reaps w)"
    and get: "rx_Get r (wd_reaps w) (ReapRequest_Key (reap_request (environmentBinding e plan) d)) = Inr x" "rec_State x = ReapSucceeded"
  shows "wd_object (rounds r 2 w) = None"
proof -
  define e2 where "e2 = (with_status e (released_status r)) \<lparr>env_DeletionTimestamp := rx_Now r ClockEnd\<rparr>"
  have dt: "env_DeletionTimestamp e = 0" "resolvePlan r e = Inr plan" using reap by (simp_all add: decided_def)
  have del: "deleted (rx_Now r ClockEnd) (with_status e (released_status r)) = Some e2"
    using fin dt by (simp add: deleted_def e2_def)
  let ?v = "w \<lparr>wd_calls := Suc (wd_calls w)\<rparr>"
  have enq1: "rx_Enqueue r (wd_reaps ?v) (reap_request (environmentBinding e plan) d) = (None, wd_reaps w)" using enq by simp
  define w1 where "w1 = snd (Reconcile r w)"
  have w1: "wd_object w1 = Some e2" "wd_reaps w1 = wd_reaps w"
    using Reconcile_decided(4) [OF nf obj reap refl] reap_round(2) [OF nf d enq1 get dt(1) ph] del by (simp_all add: w1_def)
  have e2: "env_DeletionTimestamp e2 \<noteq> 0" "env_Finalizers e2 = [finalizer]" using clock fin by (simp_all add: e2_def)
  have b2: "resolvePlan r e2 = Inr plan" "environmentBinding e2 plan = environmentBinding e plan"
    using dt(2) resolvePlan_cong [of e2 e r] by (simp_all add: e2_def) (simp add: environmentBinding_def with_status_def)
  let ?u = "w1 \<lparr>wd_calls := Suc (wd_calls w1)\<rparr>"
  have enq2: "rx_Enqueue r (wd_reaps ?u) (reap_request (environmentBinding e plan) d) = (None, wd_reaps w)" using enq w1(2) by simp
  have "reconcileReap r e2 (environmentBinding e plan) ?u = ((0, None), ?u \<lparr>wd_reaps := wd_reaps w,
      wd_calls := Suc (wd_calls ?u), wd_object := patched (e2 \<lparr>env_Finalizers := removeAll finalizer (env_Finalizers e2)\<rparr>)\<rparr>)"
    by (rule reap_round(3) [OF nf d enq2 get e2(1)])
  moreover have "Reconcile r w1 = reconcileReap r e2 (environmentBinding e plan) ?u"
    using nf w1(1) e2 b2 by (simp add: Reconcile_def no_faults_def reconcileObject_def reconcileDeletion_def)
  ultimately have "wd_object (snd (Reconcile r w1)) = None" using e2 by (simp add: patched_def)
  then show ?thesis by (simp add: numeral_2_eq_2 w1_def)
qed

text \<open>
  C3 An expired environment is cleaned up and disappears: if its plan is resolved and the API, the
  provider and the clocks behave, then two rounds of the controller drain it and hand it to the
  durable reap queue, one round of a reaper over this queue claims, stops, releases and completes
  it, and two more rounds of the controller release it, take the finalizer off and remove the
  object. The table may hold any other records that are not due.
\<close>

theorem expired_environment_cleaned:
  assumes nf: "no_faults r" and obj: "wd_object w = Some e" and b: "bound r e plan t"
    and fin: "env_Finalizers e = [finalizer]" and op: "env_Operation e \<in> {OperationUnset, OperationNone, OperationResetting}"
    and ph: "env_Phase e \<in> {PhaseUnset, PhasePending, PhaseProvisioning, PhaseReady, PhaseFailed}"
    and clock: "t \<le> rx_Now r ClockDecide" "rx_Now r ClockEnd \<noteq> 0"
    and names: "\<not> blank (env_Namespace e)" "\<not> blank (env_Name e)" "\<not> blank (env_UID e)"
    and queue: "rx_Codec r = cd" "rx_Enqueue r = pg_reap_Enqueue cd db tq" "rx_Get r = pg_reap_Get cd"
      "reap_table_ok cd (wd_reaps w)" "pg_lookup (wd_reaps w) (env_Namespace e @ ''/'' @ env_Name e @ ''/'' @ env_UID e) = None"
    and due: "\<And>k x. pg_lookup (wd_reaps w) k = Some x \<Longrightarrow> \<not> eligible_at (db_ts db) x t1" "db_ts db tq \<le> db_ts db t1"
    and reaper: "\<not> blank (rpr_Owner rp)" "in_time (db_ts db) rp t1 t2 t3" "\<And>b. releases stop release b"
  shows "\<exists>q2 p. Reaper_RunOnce (pg_reap_Claim cd db) (pg_reap_Complete cd db) stop release rp [] t1 t2 t3
        (wd_reaps (rounds r 2 w)) (wd_provider (rounds r 2 w)) = ((True, None), q2, p) \<and>
    wd_object (rounds r 2 ((rounds r 2 w) \<lparr>wd_reaps := q2, wd_provider := p\<rparr>)) = None"
proof -
  let ?b = "environmentBinding e plan"
  obtain d where d: "EnvironmentBinding_Digest cd ?b = Inr d" using bound_digest [OF b queue(1)] by blast
  let ?rq = "reap_request ?b d"
  have valid: "ReapRequest_Valid cd ?rq = None" by (rule request_valid [OF b queue(1) d names])
  have key: "pg_lookup (wd_reaps w) (ReapRequest_Key ?rq) = None"
    using queue(5) by (simp add: ReapRequest_Key_def reap_request_def environmentBinding_def)
  define q1 where "q1 = wd_reaps w @ [new_reap_row db tq ?rq]"
  define x where "x = row_record (new_reap_row db tq ?rq)"
  note hand = first_handover [OF queue(4) valid key, of db tq, folded q1_def x_def]
  have x: "rec_State x = ReapQueued" "rec_Request x = ?rq" "rec_NextAttemptAt x = db_ts db tq"
    by (simp_all add: x_def row_record_def new_reap_row_def)
  let ?e1 = "with_status e draining_status"
  have f1: "finalizer \<in> set (env_Finalizers e)" "finalizer \<in> set (env_Finalizers ?e1)" using fin by simp_all
  have b1: "bound r ?e1 plan t" by (rule bound_with_status [OF b]) (simp add: draining_status_def)
  have ph1: "env_Phase ?e1 = PhaseDraining" "env_Operation ?e1 = OperationNone" by (simp_all add: draining_status_def)
  have drain: "decided r e plan DecisionDrain" using bound_decided(2) [OF b f1(1) _ op clock(1)] ph by auto
  have reap: "decided r ?e1 plan DecisionReap" using bound_decided(1) [OF b1 f1(2)] ph1 by simp
  have enq: "rx_Enqueue r (wd_reaps w) ?rq = (None, q1)" "rx_Get r q1 (ReapRequest_Key ?rq) = Inr x"
    using hand(1,4) queue(2,3) by simp_all
  define w2 where "w2 = rounds r 2 w"
  have "rec_State x \<noteq> ReapSucceeded" using x(1) by simp
  then have w2: "wd_object w2 = Some ?e1" "wd_reaps w2 = q1"
    using drain_and_enqueue [OF nf obj drain ph reap d [folded queue(1)] enq] by (simp_all add: w2_def)
  have el: "eligible_at (db_ts db) x t1" using x due(2) by (simp add: eligible_at_def)
  have only: "k' = ReapRequest_Key ?rq" if "pg_lookup q1 k' = Some x'" "eligible_at (db_ts db) x' t1" for k' x'
    using that due(1) by (auto simp: hand(3) split: if_splits)
  have look1: "pg_lookup q1 (ReapRequest_Key ?rq) = Some x" by (simp add: hand(3))
  obtain q2 p x2 where run: "Reaper_RunOnce (pg_reap_Claim cd db) (pg_reap_Complete cd db) stop release rp [] t1 t2 t3 q1 (wd_provider w2)
      = ((True, None), q2, p)" "reap_table_ok cd q2" "pg_lookup q2 = (pg_lookup q1)(ReapRequest_Key ?rq \<mapsto> x2)"
      "rec_State x2 = ReapSucceeded" "rec_Request x2 = rec_Request x"
    using pg.run_once_succeeds [OF hand(2) refl look1 el _ reaper(1,2) reaper(3), where w = "wd_provider w2"] only by blast
  have look2: "pg_lookup q2 (ReapRequest_Key ?rq) = Some x2" "rec_Request x2 = ?rq" using run(3,5) x(2) by simp_all
  define w3 where "w3 = w2 \<lparr>wd_reaps := q2, wd_provider := p\<rparr>"
  have w3: "wd_object w3 = Some ?e1" "wd_reaps w3 = q2" using w2(1) by (simp_all add: w3_def)
  have same: "environmentBinding ?e1 plan = ?b" "env_Finalizers ?e1 = [finalizer]" using fin by simp_all
  have "wd_object (rounds r 2 w3) = None"
    using next_handover(1) [OF run(2) valid look2, of db tq] next_handover(2) [OF run(2) valid look2] queue(1-3) w3(2) d run(4)
    by (intro release_and_vanish [OF nf w3(1) reap ph1(1) same(2) clock(2), of d x2]) (simp_all only: same(1))
  then show ?thesis using run(1) w2(2) unfolding w2_def [symmetric] w3_def by auto
qed

lemma expired_environment_cleaned_witness:
  "\<exists>q2 p. Reaper_RunOnce (pg_reap_Claim example_codec example_db) (pg_reap_Complete example_codec example_db)
       (\<lambda>_ _ w. ((True, None), w)) (\<lambda>_ _ w. ((True, None), w)) example_reaper [] (seconds 4000) (seconds 4000 + 1) (seconds 4000 + 2)
       (wd_reaps (rounds (example_reconciler (seconds 3600)) 2 (example_world (example_env PhaseReady OperationNone 0) [])))
       (wd_provider (rounds (example_reconciler (seconds 3600)) 2 (example_world (example_env PhaseReady OperationNone 0) [])))
     = ((True, None), q2, p)"
proof -
  let ?e = "example_env PhaseReady OperationNone 0" and ?r = "example_reconciler (seconds 3600)"
  have blank: "\<not> blank ''ns''" "\<not> blank ''run''" "\<not> blank ''u1''" "\<not> blank ''w1''" by code_simp+
  have names: "env_Namespace ?e = ''ns''" "env_Name ?e = ''run''" "env_UID ?e = ''u1''" by (simp_all add: example_env_def)
  have b: "bound ?r ?e example_plan (1 + seconds 1800)" by (rule example_bound) simp
  have q: "rx_Enqueue ?r = pg_reap_Enqueue example_codec example_db (seconds 3600)" by (simp add: example_reconciler_def)
  have t: "in_time (db_ts example_db) example_reaper (seconds 4000) (seconds 4000 + 1) (seconds 4000 + 2)"
    by (simp add: in_time_def reaper_ttl_def reaper_retry_def example_reaper_def defaultReaperRetry_def seconds_def)
  show ?thesis
    using expired_environment_cleaned [OF example_no_faults _ b, where w = "example_world ?e []" and cd = example_codec
        and db = example_db and tq = "seconds 3600" and rp = example_reaper and ?t1.0 = "seconds 4000" and ?t2.0 = "seconds 4000 + 1"
        and ?t3.0 = "seconds 4000 + 2" and stop = "\<lambda>_ _ w. ((True, None), w)" and release = "\<lambda>_ _ w. ((True, None), w)"]
      blank names q t
    by (simp add: example_world_def reap_table_ok_def pg_lookup_def sql_row_def releases_def example_reaper_def seconds_def) blast
qed

end
