(* ===== verification/Verifier.thy ===== *)
theory Verifier
  imports RunnableAction
begin

section \<open>Materializing and verifying one action\<close>

text \<open>
  \<open>internal/worker/runnable/materializer.go\<close>, \<open>verifier.go\<close> and \<open>worker.go\<close>: what a runtime worker
  does with one request. The source reader, the artifact builder, the environment provider and
  the output store are parameters that act on a world of their own; \<open>ex_now\<close> reads its clock. The
  deadline that a context carries is the timeout in the request the provider gets, and a call that
  runs into it returns an error of the provider's choice.
\<close>

subsection \<open>Materialization (\<open>materializer.go\<close>, \<open>worker.go\<close>)\<close>

type_synonym 'w source_reader = "LeaseCredential \<Rightarrow> SourceArchive \<Rightarrow> 'w \<Rightarrow> (go_error + string) \<times> 'w"
type_synonym 'w artifact_builder = "RunnableSpec \<Rightarrow> string \<Rightarrow> 'w \<Rightarrow> (go_error + ArtifactReference) \<times> 'w"
type_synonym 'w materializer = "MaterializeRequest \<Rightarrow> 'w \<Rightarrow> (go_error + ArtifactReference) \<times> 'w"
type_synonym 'w verifier = "VerifyRequest \<Rightarrow> 'w \<Rightarrow> (go_error + VerificationReport) \<times> 'w"

definition archiveDigest :: "string \<Rightarrow> string" where
  "archiveDigest archive = ''sha256:'' @ sha256_hex archive"

definition ArchiveMaterializer_Materialize ::
  "codec \<Rightarrow> 'w source_reader \<Rightarrow> 'w artifact_builder \<Rightarrow> 'w materializer"
where
  "ArchiveMaterializer_Materialize cd source builder request w =
     (case MaterializeRequest_Validate cd request of
        Some e \<Rightarrow> (Inl e, w)
      | None \<Rightarrow>
     (case source (mr_Credential request) (rs_Source (mr_Spec request)) w of
        (Inl e, w1) \<Rightarrow> (Inl (Wrap ''read runnable source archive'' e), w1)
      | (Inr archive, w1) \<Rightarrow>
          if archiveDigest archive \<noteq> sa_Digest (rs_Source (mr_Spec request))
          then (Inl (NewArtifactFailure ''source-archive-digest''
                  ''source archive does not match the frozen runnable spec''), w1)
          else
     (case builder (mr_Spec request) archive w1 of
        (Inl e, w2) \<Rightarrow> (Inl e, w2)
      | (Inr artifact, w2) \<Rightarrow>
     (case ArtifactReference_Validate artifact of
        Some e \<Rightarrow> (Inl (Wrap ''artifact builder returned an invalid reference'' e), w2)
      | None \<Rightarrow>
     (case RunnableSpec_Digest cd (mr_Spec request) of
        Inl e \<Rightarrow> (Inl e, w2)
      | Inr specDigest \<Rightarrow>
          if ar_Runtime artifact \<noteq> rp_Runtime (rs_RuntimeProfile (mr_Spec request)) \<or>
             ar_BuiltFromSpecDigest artifact \<noteq> specDigest
          then (Inl (NewArtifactFailure ''artifact-spec-binding''
                  ''artifact builder returned a reference for another runnable spec''), w2)
          else (Inr artifact, w2))))))"

definition Worker_Materialize ::
  "codec \<Rightarrow> 'w materializer \<Rightarrow> MaterializeRequest \<Rightarrow> 'w \<Rightarrow> (go_error + RunnableRevision) \<times> 'w"
where
  "Worker_Materialize cd materialize request w =
     (case MaterializeRequest_Validate cd request of
        Some e \<Rightarrow> (Inl e, w)
      | None \<Rightarrow>
     (case materialize request w of
        (Inl e, w1) \<Rightarrow> (Inl e, w1)
      | (Inr artifact, w1) \<Rightarrow>
          (let revision = \<lparr>rr_FormatVersion = FormatVersion, rr_Spec = mr_Spec request, rr_Artifact = artifact\<rparr>
           in case RunnableRevision_Validate cd revision of
                Some e \<Rightarrow> (Inl (Wrap ''materializer returned an unbound artifact'' e), w1)
              | None \<Rightarrow> (Inr revision, w1))))"

definition Worker_Verify :: "codec \<Rightarrow> 'w verifier \<Rightarrow> 'w verifier" where
  "Worker_Verify cd verify request w =
     (case VerifyRequest_Validate cd request of
        Some e \<Rightarrow> (Inl e, w)
      | None \<Rightarrow>
     (case verify request w of
        (Inl e, w1) \<Rightarrow> (Inl e, w1)
      | (Inr report, w1) \<Rightarrow>
          (case VerificationReport_Validate cd report (vq_RunnableRevision request) of
             Some e \<Rightarrow> (Inl (Wrap ''verifier returned an invalid report'' e), w1)
           | None \<Rightarrow> (Inr report, w1))))"

subsection \<open>Execution requests (\<open>verifier.go\<close>)\<close>

record ExecutionRequest =
  xr_Entrypoint :: string
  xr_Target :: TargetLocation
  xr_Boundary :: ExecutionBoundary
  xr_Timeout :: duration
  xr_ReadOnly :: bool

record ExecutionOutput =
  xo_ExitCode :: int
  xo_Summary :: string
  xo_Raw :: string
  xo_Stderr :: string
  xo_Outputs :: "ImmutableReference list"

text \<open>
  The executor with its provider, its optional output store and its clock. A provider that returns
  an error has its output ignored, so a call returns one or the other. The decoder is the one of
  \<open>ParseAssertionOutput\<close>.
\<close>

record 'w Executor =
  ex_Create :: "VerifyRequest \<Rightarrow> 'w \<Rightarrow> (go_error + EnvironmentIdentity) \<times> 'w"
  ex_Execute :: "EnvironmentIdentity \<Rightarrow> ExecutionRequest \<Rightarrow> 'w \<Rightarrow> (go_error + ExecutionOutput) \<times> 'w"
  ex_OutputStore :: "(LeaseCredential \<Rightarrow> OutputCapture \<Rightarrow> 'w \<Rightarrow> (go_error + ImmutableReference) \<times> 'w) option"
  ex_now :: "'w \<Rightarrow> time"
  ex_decode :: "string \<Rightarrow> go_error + (AssertionEntry list \<times> bool)"

fun lookupBoundary :: "ExecutionBoundary list \<Rightarrow> string \<Rightarrow> ExecutionBoundary option" where
  "lookupBoundary [] boundaryID = None"
| "lookupBoundary (b # bs) boundaryID = (if eb_ID b = boundaryID then Some b else lookupBoundary bs boundaryID)"

fun containsExitCode :: "int list \<Rightarrow> int \<Rightarrow> bool" where
  "containsExitCode [] code = False"
| "containsExitCode (c # cs) code = (c = code \<or> containsExitCode cs code)"

definition summary :: "string \<Rightarrow> string \<Rightarrow> string" where
  "summary s fallback = (let s = trim s in if s = [] then fallback else cut MaxSummaryLength s)"

definition artifactFailure :: "string \<Rightarrow> string \<Rightarrow> VerificationFailure" where
  "artifactFailure reason message = \<lparr>vf_Class = FailureArtifact, vf_Component = ''verifier'',
     vf_Reason = reason, vf_Message = message\<rparr>"

definition infrastructureFailure :: "string \<Rightarrow> go_error \<Rightarrow> VerificationFailure" where
  "infrastructureFailure reason e = \<lparr>vf_Class = FailureInfrastructure, vf_Component = ''provider'',
     vf_Reason = reason, vf_Message = summary (err_text e) ''provider execution failed''\<rparr>"

definition executionFailure :: "string \<Rightarrow> go_error \<Rightarrow> VerificationFailure" where
  "executionFailure reason e = (case as_artifact e of
     Some (code, text) \<Rightarrow>
       artifactFailure code (summary (artifact_text text) ''execution output violates its contract'')
   | None \<Rightarrow> infrastructureFailure reason e)"

definition validateOutputReferences :: "ImmutableReference list \<Rightarrow> go_error option" where
  "validateOutputReferences outputs = first_error
     [fail_if (outputs = []) (Msg ''execution did not retain immutable output references''),
      fail_if (MaxOutputReferenceCount < length outputs)
        (Msg ''execution returned too many output references''),
      each_error (\<lambda>_ output. ImmutableReference_Validate output ''execution.outputs'') 0 outputs]"

subsection \<open>One command\<close>

definition execution_exceeds :: "ExecutionRequest \<Rightarrow> bool" where
  "execution_exceeds q \<longleftrightarrow> xr_Timeout q \<le> 0 \<or>
     wrap64 (eb_MaxTimeout (xr_Boundary q) * 1000000000) < xr_Timeout q \<or>
     xr_ReadOnly q \<noteq> (eb_Permission (xr_Boundary q) = PermissionReadOnly)"

definition execute ::
  "'w Executor \<Rightarrow> LeaseCredential \<Rightarrow> EnvironmentIdentity \<Rightarrow> ExecutionRequest \<Rightarrow> 'w
     \<Rightarrow> (go_error + ExecutionOutput) \<times> 'w"
where
  "execute ex credential environment request w =
     (if execution_exceeds request
      then (Inl (Msg ''execution request exceeds its approved boundary''), w)
      else case ex_Execute ex environment request w of
        (Inl e, w1) \<Rightarrow> (Inl e, w1)
      | (Inr output, w1) \<Rightarrow> (case ex_OutputStore ex of
          None \<Rightarrow> (Inr output, w1)
        | Some store \<Rightarrow>
            (let capture = \<lparr>oc_Stdout = xo_Raw output, oc_Stderr = xo_Stderr output\<rparr>
             in case OutputCapture_Validate capture of
                  Some e \<Rightarrow> (Inl (NewArtifactFailure ''execution-output-size'' (err_text e)), w1)
                | None \<Rightarrow> (case store credential capture w1 of
                    (Inl e, w2) \<Rightarrow> (Inl (Wrap ''persist execution output'' e), w2)
                  | (Inr ref, w2) \<Rightarrow> (Inr (output \<lparr>xo_Outputs := [ref]\<rparr>), w2)))))"

definition action_request :: "ActionSpec \<Rightarrow> ExecutionBoundary \<Rightarrow> ExecutionRequest" where
  "action_request a b = \<lparr>xr_Entrypoint = ac_Entrypoint a, xr_Target = ac_Target a, xr_Boundary = b,
     xr_Timeout = wrap64 (ac_TimeoutSeconds a * 1000000000), xr_ReadOnly = False\<rparr>"

definition assertion_request :: "AssertionSpec \<Rightarrow> ExecutionBoundary \<Rightarrow> ExecutionRequest" where
  "assertion_request a b = \<lparr>xr_Entrypoint = as_Entrypoint a, xr_Target = as_Target a, xr_Boundary = b,
     xr_Timeout = wrap64 (as_TimeoutSeconds a * 1000000000), xr_ReadOnly = True\<rparr>"

definition executeAction ::
  "'w Executor \<Rightarrow> LeaseCredential \<Rightarrow> EnvironmentIdentity \<Rightarrow> RuntimeProfile \<Rightarrow> ActionSpec \<Rightarrow> 'w
     \<Rightarrow> (VerificationFailure + ActionResult) \<times> 'w"
where
  "executeAction ex credential environment profile action w =
     (case lookupBoundary (rp_ExecutionBoundaries profile) (ac_BoundaryID action) of
        None \<Rightarrow> (Inl (artifactFailure ''action-boundary'' ''action does not have an approved write boundary''), w)
      | Some boundary \<Rightarrow>
          if eb_Target boundary \<noteq> ac_Target action \<or> eb_Permission boundary \<noteq> PermissionReadWrite
          then (Inl (artifactFailure ''action-boundary'' ''action does not have an approved write boundary''), w)
          else case execute ex credential environment (action_request action boundary) w of
            (Inl e, w1) \<Rightarrow> (Inl (executionFailure ''action-execution'' e), w1)
          | (Inr output, w1) \<Rightarrow>
              (case validateOutputReferences (xo_Outputs output) of
                 Some e \<Rightarrow> (Inl (artifactFailure ''action-output'' (err_text e)), w1)
               | None \<Rightarrow> (Inr \<lparr>ares_ID = ac_ID action, ares_ExitCode = xo_ExitCode output,
                    ares_Summary = summary (xo_Summary output) ''action completed'',
                    ares_Outputs = xo_Outputs output\<rparr>, w1)))"

definition executeAssertion ::
  "'w Executor \<Rightarrow> LeaseCredential \<Rightarrow> EnvironmentIdentity \<Rightarrow> RuntimeProfile \<Rightarrow> AssertionSpec \<Rightarrow> 'w
     \<Rightarrow> (VerificationFailure + AssertionResult) \<times> 'w"
where
  "executeAssertion ex credential environment profile assertion w =
     (case lookupBoundary (rp_ExecutionBoundaries profile) (as_BoundaryID assertion) of
        None \<Rightarrow> (Inl (artifactFailure ''assertion-boundary''
                   ''assertion does not have an approved read-only boundary''), w)
      | Some boundary \<Rightarrow>
          if eb_Target boundary \<noteq> as_Target assertion \<or> eb_Permission boundary \<noteq> PermissionReadOnly
          then (Inl (artifactFailure ''assertion-boundary''
                  ''assertion does not have an approved read-only boundary''), w)
          else case execute ex credential environment (assertion_request assertion boundary) w of
            (Inl e, w1) \<Rightarrow> (Inl (executionFailure ''assertion-execution'' e), w1)
          | (Inr output, w1) \<Rightarrow>
              if xo_ExitCode output \<noteq> 0
              then (Inl (artifactFailure ''assertion-exit'' ''assertion command exited unsuccessfully''), w1)
              else (case validateOutputReferences (xo_Outputs output) of
                 Some e \<Rightarrow> (Inl (artifactFailure ''assertion-output'' (err_text e)), w1)
               | None \<Rightarrow>
                   (case ParseAssertionOutput (ex_decode ex) (xo_Raw output) (as_ID assertion) (xo_Outputs output) of
                      Inl e \<Rightarrow> (Inl (artifactFailure ''assertion-protocol'' (err_text e)), w1)
                    | Inr result \<Rightarrow> (Inr result, w1))))"

subsection \<open>One phase\<close>

text \<open>The two loops of \<open>executePhase\<close>, with the results they have appended so far.\<close>

fun execute_actions ::
  "'w Executor \<Rightarrow> LeaseCredential \<Rightarrow> EnvironmentIdentity \<Rightarrow> RuntimeProfile \<Rightarrow> ActionResult list \<Rightarrow> ActionSpec list
     \<Rightarrow> 'w \<Rightarrow> (ActionResult list \<times> VerificationFailure option) \<times> 'w"
where
  "execute_actions ex c env profile done' [] w = ((done', None), w)"
| "execute_actions ex c env profile done' (action # rest) w =
     (case executeAction ex c env profile action w of
        (Inl failure, w1) \<Rightarrow> ((done', Some failure), w1)
      | (Inr output, w1) \<Rightarrow>
          if \<not> containsExitCode (ac_ExpectedExitCodes action) (ares_ExitCode output)
          then ((done' @ [output], Some (artifactFailure ''action-exit''
                  ''action exit result does not satisfy its contract'')), w1)
          else execute_actions ex c env profile (done' @ [output]) rest w1)"

fun execute_assertions ::
  "'w Executor \<Rightarrow> LeaseCredential \<Rightarrow> EnvironmentIdentity \<Rightarrow> RuntimeProfile \<Rightarrow> AssertionResult list
     \<Rightarrow> AssertionSpec list \<Rightarrow> 'w \<Rightarrow> (AssertionResult list \<times> VerificationFailure option) \<times> 'w"
where
  "execute_assertions ex c env profile done' [] w = ((done', None), w)"
| "execute_assertions ex c env profile done' (assertion # rest) w =
     (case executeAssertion ex c env profile assertion w of
        (Inl failure, w1) \<Rightarrow> ((done', Some failure), w1)
      | (Inr output, w1) \<Rightarrow> execute_assertions ex c env profile (done' @ [output]) rest w1)"

definition executePhase ::
  "'w Executor \<Rightarrow> LeaseCredential \<Rightarrow> EnvironmentIdentity \<Rightarrow> RuntimeProfile \<Rightarrow> ValidationPhase \<Rightarrow> 'w
     \<Rightarrow> (PhaseResult \<times> VerificationFailure option) \<times> 'w"
where
  "executePhase ex c env profile phase w =
     (case execute_actions ex c env profile [] (vp_Actions phase) w of
        ((actions, Some failure), w1) \<Rightarrow>
          ((\<lparr>pr_ID = vp_ID phase, pr_Actions = actions, pr_Assertions = []\<rparr>, Some failure), w1)
      | ((actions, None), w1) \<Rightarrow>
          (case execute_assertions ex c env profile [] (vp_Assertions phase) w1 of
             ((assertions, failure), w2) \<Rightarrow>
               ((\<lparr>pr_ID = vp_ID phase, pr_Actions = actions, pr_Assertions = assertions\<rparr>, failure), w2)))"

subsection \<open>The whole plan\<close>

definition finalizeFailure :: "VerificationReport \<Rightarrow> VerificationFailure \<Rightarrow> VerificationReport" where
  "finalizeFailure report failure = report \<lparr>vr_Passed := False, vr_Failure := Some failure\<rparr>"

text \<open>The phases one after the other; a failure ends the loop and the report is final.\<close>

fun execute_phases ::
  "'w Executor \<Rightarrow> LeaseCredential \<Rightarrow> EnvironmentIdentity \<Rightarrow> RuntimeProfile \<Rightarrow> VerificationReport
     \<Rightarrow> ValidationPhase list \<Rightarrow> 'w \<Rightarrow> VerificationReport \<times> 'w"
where
  "execute_phases ex c env profile report [] w = (report, w)"
| "execute_phases ex c env profile report (phase # rest) w =
     (case executePhase ex c env profile phase w of
        ((result, failure), w1) \<Rightarrow>
          (let report' = report \<lparr>vr_Phases := vr_Phases report @ [result]\<rparr>
           in case failure of
                Some f \<Rightarrow> (finalizeFailure report' f, w1)
              | None \<Rightarrow> execute_phases ex c env profile report' rest w1))"

definition new_report :: "VerifyRequest \<Rightarrow> EnvironmentIdentity \<Rightarrow> time \<Rightarrow> VerificationReport" where
  "new_report request environment now = \<lparr>vr_FormatVersion = FormatVersion,
     vr_RunnableRevisionDigest = vq_RunnableRevisionDigest request, vr_Environment = environment,
     vr_Attempt = vq_Attempt request, vr_Phases = [], vr_Passed = False, vr_Failure = None, vr_CreatedAt = now\<rparr>"

definition Executor_Verify :: "codec \<Rightarrow> 'w Executor \<Rightarrow> 'w verifier" where
  "Executor_Verify cd ex request w =
     (case VerifyRequest_Validate cd request of
        Some e \<Rightarrow> (Inl e, w)
      | None \<Rightarrow>
     (case ex_Create ex request w of
        (Inl e, w1) \<Rightarrow> (Inl (Wrap ''create verification environment'' e), w1)
      | (Inr environment, w1) \<Rightarrow>
     (let spec = rr_Spec (vq_RunnableRevision request)
      in case RuntimeProfile_Digest cd (rs_RuntimeProfile spec) of
        Inl e \<Rightarrow> (Inl e, w1)
      | Inr profileDigest \<Rightarrow>
     (case EnvironmentIdentity_Validate environment of
        Some e \<Rightarrow> (Inl (Wrap ''provider returned invalid environment'' e), w1)
      | None \<Rightarrow>
          if ei_ProfileDigest environment \<noteq> profileDigest
          then (Inl (Msg ''provider returned an environment for another runtime profile''), w1)
          else
     (case execute_phases ex (vq_Credential request) environment (rs_RuntimeProfile spec)
             (new_report request environment (ex_now ex w1))
             (initialization_phase spec # pl_Phases (rs_ValidationPlan spec)) w1 of
        (report, w2) \<Rightarrow> (case vr_Failure report of
            Some f \<Rightarrow> (Inr report, w2)
          | None \<Rightarrow> (case ComputeSpecPassed spec (vr_Phases report) of
              Inl e \<Rightarrow> (Inl (Wrap ''compute verification result'' e), w2)
            | Inr passed \<Rightarrow> (Inr (report \<lparr>vr_Passed := passed\<rparr>), w2))))))))"

end
