(* ===== verification/Runner.thy ===== *)
theory Runner
  imports Verifier
begin

section \<open>The polling runner\<close>

text \<open>
  \<open>internal/worker/runnable/runner.go\<close>: claim one action, execute it under a deadline while another
  goroutine renews the lease, hand the result to the Server or report the failure, and wait before
  the next claim. The Server's store and the executor are parameters that act on one world. A nil
  pointer that is dereferenced and a slice out of range are panics, which end the process.
\<close>

datatype 'a go_run = Returns 'a | Panics

record 'w ActionStore =
  as_Claim :: "string \<Rightarrow> duration \<Rightarrow> 'w \<Rightarrow> (go_error + ActionContext option) \<times> 'w"
  as_Renew :: "LeaseCredential \<Rightarrow> duration \<Rightarrow> 'w \<Rightarrow> go_error option \<times> 'w"
  as_CompleteMaterialization :: "LeaseCredential \<Rightarrow> StoredRevision \<Rightarrow> 'w \<Rightarrow> go_error option \<times> 'w"
  as_CompleteVerification :: "LeaseCredential \<Rightarrow> StoredVerificationReport \<Rightarrow> 'w \<Rightarrow> go_error option \<times> 'w"
  as_RequestVerificationEnvironmentRelease ::
    "LeaseCredential \<Rightarrow> EnvironmentIdentity \<Rightarrow> 'w \<Rightarrow> go_error option \<times> 'w"
  as_ReportFailure :: "LeaseCredential \<Rightarrow> FailureClass \<Rightarrow> string \<Rightarrow> string \<Rightarrow> 'w \<Rightarrow> go_error option \<times> 'w"

record 'w ActionExecutor =
  ae_Materialize :: "MaterializeRequest \<Rightarrow> 'w \<Rightarrow> (go_error + RunnableRevision) \<times> 'w"
  ae_Verify :: "VerifyRequest \<Rightarrow> 'w \<Rightarrow> (go_error + VerificationReport) \<times> 'w"

record RunnerConfig =
  cfg_WorkerID :: string
  cfg_LeaseTTL :: duration
  cfg_PollEvery :: duration

record 'w Runner =
  rn_store :: "'w ActionStore"
  rn_executor :: "'w ActionExecutor"
  rn_config :: RunnerConfig
  rn_now :: "'w \<Rightarrow> time"

definition NewRunner ::
  "'w ActionStore option \<Rightarrow> 'w ActionExecutor option \<Rightarrow> RunnerConfig \<Rightarrow> ('w \<Rightarrow> time) \<Rightarrow> go_error + 'w Runner"
where
  "NewRunner store executor config now = (case (store, executor) of
     (Some st, Some ex) \<Rightarrow>
       if blank (cfg_WorkerID config)
       then Inl (Msg ''runnable action runner requires a Server store, executor, and worker id'')
       else Inr \<lparr>rn_store = st, rn_executor = ex,
         rn_config = config \<lparr>cfg_LeaseTTL := (if cfg_LeaseTTL config \<le> 0 then seconds 45 else cfg_LeaseTTL config),
           cfg_PollEvery := (if cfg_PollEvery config \<le> 0 then seconds 1 else cfg_PollEvery config)\<rparr>,
         rn_now = now\<rparr>
   | _ \<Rightarrow> Inl (Msg ''runnable action runner requires a Server store, executor, and worker id''))"

subsection \<open>Deadlines and delays\<close>

definition runnerActionTimeout :: "ActionContext \<Rightarrow> (go_error + duration) go_run" where
  "runnerActionTimeout action =
     (let deadline = (\<lambda>n. if n \<le> 0
            then Inl (NewArtifactFailure ''action-timeout'' ''runnable action has no approved deadline'')
            else Inr (wrap64 (n * 1000000000)))
      in case ai_Phase (lc_Identity (ax_Credential action)) of
        ActionMaterializeArtifact \<Rightarrow> (case ax_Spec action of
            None \<Rightarrow> Panics
          | Some spec \<Rightarrow> Returns (deadline (lp_CreateTimeoutSeconds (rs_LifecyclePolicy spec))))
      | ActionVerify \<Rightarrow> (case ax_RunnableRevision action of
            None \<Rightarrow> Panics
          | Some revision \<Rightarrow> Returns (deadline (lp_MaxLifetimeSeconds (rs_LifecyclePolicy (rr_Spec revision)))))
      | ActionPhaseOther _ \<Rightarrow>
          Returns (Inl (NewArtifactFailure ''action-phase'' ''runnable action has an unsupported phase'')))"

definition runnerMin :: "int \<Rightarrow> int \<Rightarrow> int" where
  "runnerMin left right = (if left < right then left else right)"

definition runnerMinDuration :: "duration \<Rightarrow> duration \<Rightarrow> duration" where
  "runnerMinDuration left right = (if left < right then left else right)"

definition runnerRetryDelay :: "int \<Rightarrow> duration" where
  "runnerRetryDelay attempt =
     (let attempt = (if attempt < 1 then 1 else attempt);
          delay = wrap64 (1000000000 * 2 ^ nat (runnerMin (attempt - 1) 6))
      in if 60000000000 < delay then 60000000000 else delay)"

subsection \<open>Execution\<close>

definition requestVerificationEnvironmentRelease ::
  "'w Runner \<Rightarrow> LeaseCredential \<Rightarrow> EnvironmentIdentity \<Rightarrow> 'w \<Rightarrow> 'w"
where
  "requestVerificationEnvironmentRelease r credential environment w =
     snd (as_RequestVerificationEnvironmentRelease (rn_store r) credential environment w)"

definition execute_materialization ::
  "codec \<Rightarrow> 'w Runner \<Rightarrow> LeaseCredential \<Rightarrow> RunnableSpec \<Rightarrow> 'w \<Rightarrow> go_error option go_run \<times> 'w"
where
  "execute_materialization cd r credential spec w =
     (case ae_Materialize (rn_executor r) \<lparr>mr_Credential = credential, mr_Spec = spec\<rparr> w of
        (Inl e, w1) \<Rightarrow> (Returns (Some e), w1)
      | (Inr revision, w1) \<Rightarrow> (case RunnableRevision_Digest cd revision of
          Inl e \<Rightarrow> (Returns (Some e), w1)
        | Inr digest \<Rightarrow> (case RecordID ''rr'' (lc_Identity credential) of
            None \<Rightarrow> (Panics, w1)
          | Some rid \<Rightarrow> apfst Returns (as_CompleteMaterialization (rn_store r) credential
              \<lparr>sr_Reference = \<lparr>ref_ID = rid, ref_Digest = digest\<rparr>, sr_Revision = revision, sr_CreatedAt = rn_now r w1\<rparr> w1))))"

definition execute_verification ::
  "codec \<Rightarrow> 'w Runner \<Rightarrow> ActionContext \<Rightarrow> RunnableRevision \<Rightarrow> 'w \<Rightarrow> go_error option go_run \<times> 'w"
where
  "execute_verification cd r action revision w =
     (let credential = ax_Credential action
      in case ae_Verify (rn_executor r) \<lparr>vq_Credential = credential, vq_RunnableRevision = revision,
            vq_RunnableRevisionRef = ax_RunnableRevisionRef action,
            vq_RunnableRevisionDigest = ax_RunnableRevisionDigest action, vq_Attempt = ax_Attempt action\<rparr> w of
        (Inl e, w1) \<Rightarrow> (Returns (Some e), w1)
      | (Inr report, w1) \<Rightarrow>
          (let accept = (case VerificationReport_Digest cd report revision of
                 Inl e \<Rightarrow> (Returns (Some e), w1)
               | Inr digest \<Rightarrow> (case RecordID ''vr'' (lc_Identity credential) of
                   None \<Rightarrow> (Panics, w1)
                 | Some rid \<Rightarrow> apfst Returns (as_CompleteVerification (rn_store r) credential
                     \<lparr>svr_Reference = \<lparr>vref_ID = rid, vref_Digest = digest\<rparr>, svr_Report = report,
                      svr_RunnableRevision = revision, svr_CreatedAt = rn_now r w1\<rparr> w1)))
           in case vr_Failure report of
                None \<Rightarrow> accept
              | Some f \<Rightarrow>
                  if vf_Class f = FailureInfrastructure
                  then (let w2 = requestVerificationEnvironmentRelease r credential (vr_Environment report) w1
                        in apfst Returns (as_ReportFailure (rn_store r) credential (vf_Class f) (vf_Reason f) (vf_Message f) w2))
                  else accept))"

definition runner_execute :: "codec \<Rightarrow> 'w Runner \<Rightarrow> ActionContext \<Rightarrow> 'w \<Rightarrow> go_error option go_run \<times> 'w" where
  "runner_execute cd r action w = (case ai_Phase (lc_Identity (ax_Credential action)) of
     ActionMaterializeArtifact \<Rightarrow> (case ax_Spec action of
         None \<Rightarrow> (Panics, w)
       | Some spec \<Rightarrow> execute_materialization cd r (ax_Credential action) spec w)
   | ActionVerify \<Rightarrow> (case ax_RunnableRevision action of
         None \<Rightarrow> (Panics, w)
       | Some revision \<Rightarrow> execute_verification cd r action revision w)
   | ActionPhaseOther _ \<Rightarrow>
       (Returns (Some (NewArtifactFailure ''action-phase'' ''runnable action has an unsupported phase'')), w))"

subsection \<open>Failure reports\<close>

definition failure_class_code :: "go_error \<Rightarrow> FailureClass \<times> string" where
  "failure_class_code e = (case as_artifact e of
     Some (code, _) \<Rightarrow> (FailureArtifact, code)
   | None \<Rightarrow>
       if err_is e ContextDeadlineExceeded then (FailureArtifact, ''execution-deadline-exceeded'')
       else (FailureInfrastructure, ''runnable-action-failed''))"

definition failure_summary :: "go_error \<Rightarrow> string" where
  "failure_summary e =
     (let s = trim (err_text e); s = (if s = [] then ''runnable action failed'' else s) in cut MaxSummaryLength s)"

definition reportFailure :: "'w Runner \<Rightarrow> LeaseCredential \<Rightarrow> go_error \<Rightarrow> 'w \<Rightarrow> go_error option \<times> 'w" where
  "reportFailure r credential e w =
     (let (class, code) = failure_class_code e;
          code = (if code = [] then ''runnable-action-failed'' else code)
      in as_ReportFailure (rn_store r) credential class code (failure_summary e) w)"

subsection \<open>Lease renewal\<close>

definition renew_interval :: "RunnerConfig \<Rightarrow> duration" where
  "renew_interval config =
     (let interval = cfg_LeaseTTL config div 3 in if interval < seconds 1 then seconds 1 else interval)"

definition renew_timeout :: "RunnerConfig \<Rightarrow> duration" where
  "renew_timeout config = runnerMinDuration (cfg_LeaseTTL config div 2) (seconds 10)"

text \<open>
  The renewing goroutine over a number of ticks, ended before by the execution or its context: it
  stops at the first failed renewal, which makes the lease lost.
\<close>

fun renew_ticks :: "'w Runner \<Rightarrow> LeaseCredential \<Rightarrow> nat \<Rightarrow> 'w \<Rightarrow> bool \<times> 'w" where
  "renew_ticks r credential 0 w = (False, w)"
| "renew_ticks r credential (Suc n) w =
     (case as_Renew (rn_store r) credential (cfg_LeaseTTL (rn_config r)) w of
        (None, w1) \<Rightarrow> renew_ticks r credential n w1
      | (Some _, w1) \<Rightarrow> (True, w1))"

subsection \<open>One action\<close>

text \<open>
  \<open>lost\<close> says whether the renewing goroutine lost the lease before the execution returned, and
  \<open>parentDone\<close> whether the worker is shutting down. An execution that panics takes the process
  down before anything is reported.
\<close>

definition settle ::
  "'w Runner \<Rightarrow> bool \<Rightarrow> LeaseCredential \<Rightarrow> go_error option \<Rightarrow> 'w \<Rightarrow> 'w"
where
  "settle r parentDone credential err w = (case err of
     None \<Rightarrow> w
   | Some e \<Rightarrow> if parentDone \<or> err_is e ErrActionLeaseLost then w else snd (reportFailure r credential e w))"

definition process ::
  "codec \<Rightarrow> 'w Runner \<Rightarrow> bool \<Rightarrow> bool \<Rightarrow> ActionContext \<Rightarrow> 'w \<Rightarrow> unit go_run \<times> 'w"
where
  "process cd r lost parentDone action w = (case runnerActionTimeout action of
     Panics \<Rightarrow> (Panics, w)
   | Returns (Inl e) \<Rightarrow> (Returns (), settle r parentDone (ax_Credential action) (Some e) w)
   | Returns (Inr _) \<Rightarrow> (case runner_execute cd r action w of
       (Panics, w1) \<Rightarrow> (Panics, w1)
     | (Returns err, w1) \<Rightarrow>
         (Returns (), if lost then w1 else settle r parentDone (ax_Credential action) err w1)))"

definition ProcessOne ::
  "codec \<Rightarrow> 'w Runner \<Rightarrow> bool \<Rightarrow> bool \<Rightarrow> 'w \<Rightarrow> (bool \<times> go_error option) go_run \<times> 'w"
where
  "ProcessOne cd r lost parentDone w =
     (case as_Claim (rn_store r) (cfg_WorkerID (rn_config r)) (cfg_LeaseTTL (rn_config r)) w of
        (Inl e, w1) \<Rightarrow> (Returns (False, Some e), w1)
      | (Inr None, w1) \<Rightarrow> (Returns (False, None), w1)
      | (Inr (Some action), w1) \<Rightarrow> (case ActionContext_Validate cd action of
          Some e \<Rightarrow> (Returns (True, Some (Wrap ''server returned invalid runnable action'' e)), w1)
        | None \<Rightarrow> (case process cd r lost parentDone action w1 of
            (Panics, w2) \<Rightarrow> (Panics, w2)
          | (Returns _, w2) \<Rightarrow> (Returns (True, None), w2))))"

subsection \<open>The loop\<close>

text \<open>
  What the surroundings contribute to one round of \<open>Run\<close>: whether the context is done before it
  and after its sleep, whether the lease is lost during the action, and the error of the sleep.
\<close>

record run_round =
  rd_Done :: bool
  rd_Lost :: bool
  rd_ParentDone :: bool
  rd_Sleep :: "go_error option"
  rd_DoneAfterSleep :: bool

text \<open>
  \<open>Run\<close> over a finite number of rounds: the result is \<open>None\<close> while the loop goes on, and the
  delays are the ones it slept, in order. The count of failures is a machine integer.
\<close>

fun Run ::
  "codec \<Rightarrow> 'w Runner \<Rightarrow> int \<Rightarrow> run_round list \<Rightarrow> 'w \<Rightarrow> (go_error option go_run option \<times> duration list) \<times> 'w"
where
  "Run cd r failures [] w = ((None, []), w)"
| "Run cd r failures (rd # rest) w =
     (if rd_Done rd then ((Some (Returns None), []), w)
      else case ProcessOne cd r (rd_Lost rd) (rd_ParentDone rd) w of
        (Panics, w1) \<Rightarrow> ((Some Panics, []), w1)
      | (Returns (processed, err), w1) \<Rightarrow>
          (let failures' = (if err = None then 0 else wrap64 (failures + 1));
               delay = (if err = None then cfg_PollEvery (rn_config r) else runnerRetryDelay failures')
           in if err = None \<and> processed then Run cd r 0 rest w1
              else if rd_Sleep rd \<noteq> None \<and> \<not> rd_DoneAfterSleep rd then ((Some (Returns (rd_Sleep rd)), [delay]), w1)
              else (case Run cd r failures' rest w1 of ((res, delays), w2) \<Rightarrow> ((res, delay # delays), w2))))"

end
