(* ===== verification/VerifierRuns.thy ===== *)
theory VerifierRuns
  imports VerifierFacts
begin

section \<open>Runs of the executor\<close>

text \<open>
  What holds of every report of the executor, and of every command it sends. The worker's own
  check of a report (\<open>worker.go\<close>) accepts all of them but those whose failure value is malformed.
\<close>

subsection \<open>A report of the executor\<close>

lemma initialization_ids:
  assumes "spec_ok s" "ph \<in> set (initialization_phase s # pl_Phases (rs_ValidationPlan s))"
  shows "plan_phase (rs_RuntimeProfile s) ph"
  using assms
  by (auto simp: spec_ok_def plan_ok_def phase_ok_def plan_phase_def plan_action_def plan_assertion_def
      action_ok_def assertion_ok_def initialization_phase_def)

lemma Executor_Verify_Inr:
  assumes "Executor_Verify cd ex q w = (Inr report, w')"
  shows "\<exists>env w1 report'. ex_Create ex q w = (Inr env, w1) \<and>
    VerifyRequest_Validate cd q = None \<and> EnvironmentIdentity_Validate env = None \<and>
    RuntimeProfile_Digest cd (rs_RuntimeProfile (rr_Spec (vq_RunnableRevision q))) = Inr (ei_ProfileDigest env) \<and>
    execute_phases ex (vq_Credential q) env (rs_RuntimeProfile (rr_Spec (vq_RunnableRevision q)))
      (new_report q env (ex_now ex w1)) (initialization_phase (rr_Spec (vq_RunnableRevision q)) #
         pl_Phases (rs_ValidationPlan (rr_Spec (vq_RunnableRevision q)))) w1 = (report', w') \<and>
    (case vr_Failure report' of
       Some f \<Rightarrow> report = report'
     | None \<Rightarrow> \<exists>passed. ComputeSpecPassed (rr_Spec (vq_RunnableRevision q)) (vr_Phases report') = Inr passed \<and>
         report = report' \<lparr>vr_Passed := passed\<rparr>)"
  using assms
  unfolding Executor_Verify_def Let_def
  by (simp del: execute_phases.simps split: option.split_asm sum.split_asm prod.split_asm if_split_asm)

lemma Executor_report:
  assumes "Executor_Verify cd ex q w = (Inr report, w')"
  shows "vr_Attempt report = vq_Attempt q" "vr_FormatVersion report = FormatVersion"
    and "VerifyRequest_Validate cd q = None"
    and "vr_RunnableRevisionDigest report = vq_RunnableRevisionDigest q"
    and "EnvironmentIdentity_Validate (vr_Environment report) = None"
    and "RuntimeProfile_Digest cd (rs_RuntimeProfile (rr_Spec (vq_RunnableRevision q))) =
      Inr (ei_ProfileDigest (vr_Environment report))"
    and "\<exists>v. vr_CreatedAt report = ex_now ex v"
    and "vr_Failure report \<noteq> None \<Longrightarrow> \<not> vr_Passed report"
    and "vr_Failure report \<noteq> None \<Longrightarrow> length (vr_Phases report) \<le>
      Suc (length (pl_Phases (rs_ValidationPlan (rr_Spec (vq_RunnableRevision q)))))"
    and "vr_Failure report \<noteq> None \<Longrightarrow>
      (\<nexists>b. ComputeSpecPassed (rr_Spec (vq_RunnableRevision q)) (vr_Phases report) = Inr b)"
    and "vr_Failure report = None \<Longrightarrow>
      ComputeSpecPassed (rr_Spec (vq_RunnableRevision q)) (vr_Phases report) = Inr (vr_Passed report)"
proof -
  let ?s = "rr_Spec (vq_RunnableRevision q)"
  let ?phs = "initialization_phase ?s # pl_Phases (rs_ValidationPlan ?s)"
  obtain env w1 report' where e: "VerifyRequest_Validate cd q = None" "EnvironmentIdentity_Validate env = None"
    "RuntimeProfile_Digest cd (rs_RuntimeProfile ?s) = Inr (ei_ProfileDigest env)"
    and run: "execute_phases ex (vq_Credential q) env (rs_RuntimeProfile ?s)
      (new_report q env (ex_now ex w1)) ?phs w1 = (report', w')"
    and final: "case vr_Failure report' of Some f \<Rightarrow> report = report'
     | None \<Rightarrow> \<exists>passed. ComputeSpecPassed ?s (vr_Phases report') = Inr passed \<and> report = report' \<lparr>vr_Passed := passed\<rparr>"
    using Executor_Verify_Inr [OF assms] by blast
  have "spec_ok ?s" using e(1) by (simp add: VerifyRequest_Validate_None revision_ok_def)
  then have ids: "\<forall>ph\<in>set ?phs. \<forall>a\<in>set (vp_Actions ph). id_ok (ac_ID a)"
    using initialization_ids unfolding plan_phase_def plan_action_def by blast
  obtain rs where rs: "report' = new_report q env (ex_now ex w1) \<lparr>vr_Phases := rs, vr_Failure := vr_Failure report'\<rparr>"
    "length rs \<le> length ?phs"
    "if vr_Failure report' = None then list_all2 phase_matches ?phs rs else \<not> list_all2 phase_matches ?phs rs"
    using execute_phases_result [OF run _ _ ids] by (auto simp: new_report_def)
  have r: "vr_Attempt report' = vq_Attempt q" "vr_FormatVersion report' = FormatVersion"
    "vr_RunnableRevisionDigest report' = vq_RunnableRevisionDigest q" "vr_Environment report' = env"
    "vr_CreatedAt report' = ex_now ex w1" "\<not> vr_Passed report'" "vr_Phases report' = rs"
    by (subst rs(1), simp add: new_report_def)+
  have same: "\<exists>b. report = report' \<lparr>vr_Passed := b\<rparr>" and f: "vr_Failure report = vr_Failure report'"
    using final by (auto split: option.splits intro: exI [of _ "vr_Passed report'"])
  then obtain b where b: "report = report' \<lparr>vr_Passed := b\<rparr>" by blast
  show "vr_Attempt report = vq_Attempt q" "vr_FormatVersion report = FormatVersion"
    "VerifyRequest_Validate cd q = None"
    "vr_RunnableRevisionDigest report = vq_RunnableRevisionDigest q"
    "EnvironmentIdentity_Validate (vr_Environment report) = None"
    "RuntimeProfile_Digest cd (rs_RuntimeProfile ?s) = Inr (ei_ProfileDigest (vr_Environment report))"
    "\<exists>v. vr_CreatedAt report = ex_now ex v"
    using e r(1-5) by (auto simp: b)
  have p: "vr_Phases report = rs" by (simp add: b r(7))
  show "vr_Failure report \<noteq> None \<Longrightarrow> \<not> vr_Passed report"
    using final f r(6) by (auto split: option.splits)
  show "vr_Failure report \<noteq> None \<Longrightarrow> length (vr_Phases report) \<le> Suc (length (pl_Phases (rs_ValidationPlan ?s)))"
    using rs(2) p by simp
  show "vr_Failure report \<noteq> None \<Longrightarrow> (\<nexists>b. ComputeSpecPassed ?s (vr_Phases report) = Inr b)"
    using rs(3) f p by (simp add: ComputeSpecPassed_def computePassed_Inr)
  show "vr_Failure report = None \<Longrightarrow> ComputeSpecPassed ?s (vr_Phases report) = Inr (vr_Passed report)"
    using final f p r(7) by (auto split: option.splits)
qed

lemma Executor_report_check:
  assumes "Executor_Verify cd ex q w = (Inr report, w')" "\<forall>v. ex_now ex v \<noteq> 0"
  shows "VerificationReport_Validate cd report (vq_RunnableRevision q) =
    Option.bind (vr_Failure report) VerificationFailure_Validate"
proof -
  note r = Executor_report [OF assms(1)]
  have q: "RunnableRevision_Validate cd (vq_RunnableRevision q) = None"
    "RunnableRevision_Digest cd (vq_RunnableRevision q) = Inr (vr_RunnableRevisionDigest report)"
    "1 \<le> vr_Attempt report"
    using r(1,3,4) by (auto simp: VerifyRequest_Validate_None RunnableRevision_Validate_None RunnableRevision_Digest_Inr)
  have now: "vr_CreatedAt report \<noteq> 0" using r(7) assms(2) by auto
  show ?thesis
  proof (cases "vr_Failure report")
    case None
    then show ?thesis
      using r(2,5,6) q now r(11) by (simp add: VerificationReport_Validate_def first_error_Cons Let_def fail_if_def)
  next
    case (Some f)
    then have "\<not> vr_Passed report" "\<nexists>b. ComputeSpecPassed (rr_Spec (vq_RunnableRevision q)) (vr_Phases report) = Inr b"
      "length (vr_Phases report) \<le> Suc (length (pl_Phases (rs_ValidationPlan (rr_Spec (vq_RunnableRevision q)))))"
      using r(8-10) by simp_all
    then show ?thesis
      using Some r(2,5,6) q now
      by (cases "VerificationFailure_Validate f") (simp_all add: VerificationReport_Validate_def Let_def fail_if_def)
  qed
qed

subsection \<open>A world that records the calls\<close>

datatype provider_call =
    Created VerifyRequest
  | Executed EnvironmentIdentity ExecutionRequest
  | Captured LeaseCredential OutputCapture

text \<open>
  Every answer and every clock reading is a function of the calls so far, so the executors below
  stand for every provider and output store that answer by their history.
\<close>

definition recording ::
  "(provider_call list \<Rightarrow> go_error + EnvironmentIdentity) \<Rightarrow> (provider_call list \<Rightarrow> go_error + ExecutionOutput) \<Rightarrow>
   (provider_call list \<Rightarrow> go_error + ImmutableReference) option \<Rightarrow> (provider_call list \<Rightarrow> time) \<Rightarrow>
   (string \<Rightarrow> go_error + (AssertionEntry list \<times> bool)) \<Rightarrow> provider_call list Executor"
where
  "recording created executed stored now decode =
     \<lparr>ex_Create = (\<lambda>q h. let h' = h @ [Created q] in (created h', h')),
      ex_Execute = (\<lambda>env r h. let h' = h @ [Executed env r] in (executed h', h')),
      ex_OutputStore = map_option (\<lambda>f c o' h. let h' = h @ [Captured c o'] in (f h', h')) stored,
      ex_now = now, ex_decode = decode\<rparr>"

fun executions :: "provider_call list \<Rightarrow> (EnvironmentIdentity \<times> ExecutionRequest) list" where
  "executions [] = []"
| "executions (Executed env r # h) = (env, r) # executions h"
| "executions (_ # h) = executions h"

fun creations :: "provider_call list \<Rightarrow> VerifyRequest list" where
  "creations [] = []"
| "creations (Created q # h) = q # creations h"
| "creations (_ # h) = creations h"

lemma executions_append [simp]: "executions (g @ h) = executions g @ executions h"
  by (induction g rule: executions.induct) simp_all

lemma creations_append [simp]: "creations (g @ h) = creations g @ creations h"
  by (induction g rule: creations.induct) simp_all

text \<open>The commands that a plan asks for, in its order; an undeclared boundary has none.\<close>

definition phase_commands :: "RuntimeProfile \<Rightarrow> ValidationPhase \<Rightarrow> ExecutionRequest option list" where
  "phase_commands p ph =
     map (\<lambda>a. map_option (action_request a) (profile_boundary p (ac_BoundaryID a))) (vp_Actions ph) @
     map (\<lambda>a. map_option (assertion_request a) (profile_boundary p (as_BoundaryID a))) (vp_Assertions ph)"

definition plan_commands :: "RunnableSpec \<Rightarrow> ExecutionRequest option list" where
  "plan_commands s = concat (map (phase_commands (rs_RuntimeProfile s))
     (initialization_phase s # pl_Phases (rs_ValidationPlan s)))"

text \<open>A command that stays inside a boundary of the profile.\<close>

definition confined :: "RuntimeProfile \<Rightarrow> ExecutionRequest \<Rightarrow> bool" where
  "confined p r \<longleftrightarrow> profile_boundary p (eb_ID (xr_Boundary r)) = Some (xr_Boundary r) \<and>
     eb_Target (xr_Boundary r) = xr_Target r \<and>
     0 < xr_Timeout r \<and> xr_Timeout r \<le> seconds (eb_MaxTimeout (xr_Boundary r)) \<and>
     xr_Timeout r \<le> seconds MaxActionTimeoutSeconds \<and>
     eb_Permission (xr_Boundary r) = (if xr_ReadOnly r then PermissionReadOnly else PermissionReadWrite)"

text \<open>
  From \<open>h\<close> to \<open>h'\<close> the executor has sent a part of the given commands to the environment, from the
  first one on, and all of them when it stopped without a failure.
\<close>

definition sent ::
  "RuntimeProfile \<Rightarrow> EnvironmentIdentity \<Rightarrow> ExecutionRequest option list \<Rightarrow> bool \<Rightarrow> provider_call list
     \<Rightarrow> provider_call list \<Rightarrow> bool"
where
  "sent p env cmds complete h h' \<longleftrightarrow> (\<exists>rs rest. executions h' = executions h @ map (Pair env) rs \<and>
     creations h' = creations h \<and> cmds = map Some rs @ rest \<and> (complete \<longrightarrow> rest = []) \<and>
     (\<forall>r\<in>set rs. confined p r))"

lemma sent_refl: "sent p env cmds (cmds = []) h h"
  by (auto simp: sent_def)

lemma sent_stop: "sent p env cmds b h h' \<Longrightarrow> sent p env (cmds @ next_cmds) False h h'"
  by (fastforce simp: sent_def)

lemma sent_trans:
  assumes "sent p env cmds True h h'" "sent p env next_cmds b h' h''"
  shows "sent p env (cmds @ next_cmds) b h h''"
proof -
  obtain rs where a: "executions h' = executions h @ map (Pair env) rs" "creations h' = creations h"
    "cmds = map Some rs" "\<forall>r\<in>set rs. confined p r"
    using assms(1) by (auto simp: sent_def)
  obtain ts rest where b: "executions h'' = executions h' @ map (Pair env) ts" "creations h'' = creations h'"
    "next_cmds = map Some ts @ rest" "b \<longrightarrow> rest = []" "\<forall>r\<in>set ts. confined p r"
    using assms(2) by (auto simp: sent_def)
  show ?thesis
    unfolding sent_def using a b by (intro exI [of _ "rs @ ts"] exI [of _ rest]) auto
qed

lemma inside_facts:
  assumes "inside_boundary p perm bid target timeout" "profile_ok p"
  shows "\<exists>b. profile_boundary p bid = Some b \<and> eb_Target b = target \<and> eb_Permission b = perm \<and>
    eb_ID b = bid \<and> 0 < timeout \<and> wrap64 (timeout * 1000000000) = seconds timeout \<and>
    seconds timeout \<le> seconds (eb_MaxTimeout b) \<and> seconds timeout \<le> seconds MaxActionTimeoutSeconds \<and>
    wrap64 (eb_MaxTimeout b * 1000000000) = seconds (eb_MaxTimeout b)"
proof -
  obtain b where b: "profile_boundary p bid = Some b" "eb_Target b = target" "eb_Permission b = perm"
    "0 < timeout" "timeout \<le> eb_MaxTimeout b" "timeout \<le> MaxActionTimeoutSeconds"
    using assms(1) by (auto simp: inside_boundary_def)
  have m: "eb_ID b = bid" "b \<in> set (rp_ExecutionBoundaries p)"
    using b(1) by (auto simp: profile_boundary_def find_Some_iff)
  then have "eb_MaxTimeout b \<le> MaxActionTimeoutSeconds" "0 < eb_MaxTimeout b"
    using assms(2) by (auto simp: profile_ok_def boundary_ok_def)
  then show ?thesis
    using b m by (auto simp: seconds_def MaxActionTimeoutSeconds_def wrap64_id)
qed

text \<open>One command in the recording world.\<close>

lemma execute_records:
  assumes "execute (recording cr exe st now dec) c env r h = (res, h')" "\<not> execution_exceeds r"
  shows "executions h' = executions h @ [(env, r)] \<and> creations h' = creations h"
  using assms
  by (cases st) (auto simp: execute_def recording_def Let_def split: sum.splits option.splits prod.splits)

lemma sent_one:
  assumes "executions h' = executions h @ [(env, r)]" "creations h' = creations h" "confined p r"
  shows "sent p env [Some r] True h h'"
  unfolding sent_def using assms by (intro exI [of _ "[r]"] exI [of _ "[]"]) simp

lemma executeAction_sent:
  assumes "executeAction (recording cr exe st now dec) c env p a h = (res, h')"
    and "plan_action p a" "profile_ok p"
  shows "sent p env [map_option (action_request a) (profile_boundary p (ac_BoundaryID a))] True h h'"
proof -
  obtain b where b: "profile_boundary p (ac_BoundaryID a) = Some b" "eb_Target b = ac_Target a"
    "eb_Permission b = PermissionReadWrite" "eb_ID b = ac_BoundaryID a" "0 < ac_TimeoutSeconds a"
    "wrap64 (ac_TimeoutSeconds a * 1000000000) = seconds (ac_TimeoutSeconds a)"
    "seconds (ac_TimeoutSeconds a) \<le> seconds (eb_MaxTimeout b)"
    "seconds (ac_TimeoutSeconds a) \<le> seconds MaxActionTimeoutSeconds"
    "wrap64 (eb_MaxTimeout b * 1000000000) = seconds (eb_MaxTimeout b)"
    using inside_facts [of p PermissionReadWrite] assms(2,3) unfolding plan_action_def by blast
  let ?r = "action_request a b"
  have pos: "0 < seconds (ac_TimeoutSeconds a)" using b(5) by (simp add: seconds_def)
  then have ok: "\<not> execution_exceeds ?r" "confined p ?r"
    using b by (simp_all add: execution_exceeds_def confined_def action_request_def)
  obtain x where "execute (recording cr exe st now dec) c env ?r h = (x, h')"
    using assms(1) b(1-3)
    by (auto simp: executeAction_def lookup_profile split: sum.splits option.splits prod.splits if_splits)
  from execute_records [OF this ok(1)] show ?thesis
    using sent_one ok(2) by (simp add: b(1))
qed

lemma executeAssertion_sent:
  assumes "executeAssertion (recording cr exe st now dec) c env p a h = (res, h')"
    and "plan_assertion p a" "profile_ok p"
  shows "sent p env [map_option (assertion_request a) (profile_boundary p (as_BoundaryID a))] True h h'"
proof -
  obtain b where b: "profile_boundary p (as_BoundaryID a) = Some b" "eb_Target b = as_Target a"
    "eb_Permission b = PermissionReadOnly" "eb_ID b = as_BoundaryID a" "0 < as_TimeoutSeconds a"
    "wrap64 (as_TimeoutSeconds a * 1000000000) = seconds (as_TimeoutSeconds a)"
    "seconds (as_TimeoutSeconds a) \<le> seconds (eb_MaxTimeout b)"
    "seconds (as_TimeoutSeconds a) \<le> seconds MaxActionTimeoutSeconds"
    "wrap64 (eb_MaxTimeout b * 1000000000) = seconds (eb_MaxTimeout b)"
    using inside_facts [of p PermissionReadOnly] assms(2,3) unfolding plan_assertion_def by blast
  let ?r = "assertion_request a b"
  have pos: "0 < seconds (as_TimeoutSeconds a)" using b(5) by (simp add: seconds_def)
  then have ok: "\<not> execution_exceeds ?r" "confined p ?r"
    using b by (simp_all add: execution_exceeds_def confined_def assertion_request_def)
  obtain x where "execute (recording cr exe st now dec) c env ?r h = (x, h')"
    using assms(1) b(1-3)
    by (auto simp: executeAssertion_def lookup_profile split: sum.splits option.splits prod.splits if_splits)
  from execute_records [OF this ok(1)] show ?thesis
    using sent_one ok(2) by (simp add: b(1))
qed

text \<open>The loops: a failure ends them, so what was sent is the front of the commands.\<close>

lemma execute_actions_sent:
  assumes "execute_actions (recording cr exe st now dec) c env p acc as h = ((rs, f), h')"
    and "\<forall>a\<in>set as. plan_action p a" "profile_ok p"
  shows "sent p env (map (\<lambda>a. map_option (action_request a) (profile_boundary p (ac_BoundaryID a))) as)
    (f = None) h h'"
  using assms
proof (induction as arbitrary: acc h)
  case Nil
  then show ?case using sent_refl [of p env "[]" h] by simp
next
  case (Cons a as)
  obtain res h1 where e: "executeAction (recording cr exe st now dec) c env p a h = (res, h1)" by fastforce
  have first: "sent p env [map_option (action_request a) (profile_boundary p (ac_BoundaryID a))] True h h1"
    using executeAction_sent [OF e] Cons.prems(2,3) by simp
  show ?case
  proof (cases "h' = h1 \<and> f \<noteq> None")
    case True
    then show ?thesis using sent_stop [OF first] by auto
  next
    case False
    then obtain r where "res = Inr r"
      "execute_actions (recording cr exe st now dec) c env p (acc @ [r]) as h1 = ((rs, f), h')"
      using Cons.prems(1) e by (auto split: sum.splits if_splits)
    then show ?thesis using sent_trans [OF first Cons.IH] Cons.prems(2,3) by simp
  qed
qed

lemma execute_assertions_sent:
  assumes "execute_assertions (recording cr exe st now dec) c env p acc as h = ((rs, f), h')"
    and "\<forall>a\<in>set as. plan_assertion p a" "profile_ok p"
  shows "sent p env (map (\<lambda>a. map_option (assertion_request a) (profile_boundary p (as_BoundaryID a))) as)
    (f = None) h h'"
  using assms
proof (induction as arbitrary: acc h)
  case Nil
  then show ?case using sent_refl [of p env "[]" h] by simp
next
  case (Cons a as)
  obtain res h1 where e: "executeAssertion (recording cr exe st now dec) c env p a h = (res, h1)" by fastforce
  have first: "sent p env [map_option (assertion_request a) (profile_boundary p (as_BoundaryID a))] True h h1"
    using executeAssertion_sent [OF e] Cons.prems(2,3) by simp
  show ?case
  proof (cases res)
    case (Inl x)
    then show ?thesis using sent_stop [OF first] Cons.prems(1) e by auto
  next
    case (Inr r)
    then have "execute_assertions (recording cr exe st now dec) c env p (acc @ [r]) as h1 = ((rs, f), h')"
      using Cons.prems(1) e by simp
    then show ?thesis using sent_trans [OF first Cons.IH] Cons.prems(2,3) by simp
  qed
qed

lemma executePhase_sent:
  assumes "executePhase (recording cr exe st now dec) c env p ph h = ((r, f), h')"
    and "plan_phase p ph" "profile_ok p"
  shows "sent p env (phase_commands p ph) (f = None) h h'"
proof -
  let ?x = "recording cr exe st now dec"
  obtain rs g h1 where a: "execute_actions ?x c env p [] (vp_Actions ph) h = ((rs, g), h1)" by (metis prod.collapse)
  note acts = execute_actions_sent [OF a _ assms(3)]
  obtain bs k h2 where b: "execute_assertions ?x c env p [] (vp_Assertions ph) h1 = ((bs, k), h2)"
    by (metis prod.collapse)
  note asserts = execute_assertions_sent [OF b _ assms(3)]
  show ?thesis
  proof (cases g)
    case (Some y)
    then show ?thesis
      using assms(1,2) acts sent_stop a by (auto simp: executePhase_def phase_commands_def plan_phase_def)
  next
    case None
    then have "h' = h2" "f = k" using assms(1) a b by (auto simp: executePhase_def)
    then show ?thesis
      using None assms(2) acts asserts sent_trans unfolding phase_commands_def plan_phase_def by force
  qed
qed

lemma execute_phases_sent:
  assumes "execute_phases (recording cr exe st now dec) c env p report phs h = (report', h')"
    and "\<forall>ph\<in>set phs. plan_phase p ph" "profile_ok p" "vr_Failure report = None"
  shows "sent p env (concat (map (phase_commands p) phs)) (vr_Failure report' = None) h h'"
  using assms
proof (induction phs arbitrary: report h)
  case Nil
  then show ?case using sent_refl [of p env "[]" h] by auto
next
  case (Cons ph phs)
  obtain r f h1 where e: "executePhase (recording cr exe st now dec) c env p ph h = ((r, f), h1)"
    by (metis prod.collapse)
  have first: "sent p env (phase_commands p ph) (f = None) h h1"
    using executePhase_sent [OF e] Cons.prems(2,3) by simp
  show ?case
  proof (cases f)
    case (Some x)
    then show ?thesis
      using sent_stop [OF first] Cons.prems(1) e by (auto simp: finalizeFailure_def Let_def)
  next
    case None
    then have "execute_phases (recording cr exe st now dec) c env p
        (report \<lparr>vr_Phases := vr_Phases report @ [r]\<rparr>) phs h1 = (report', h')"
      using Cons.prems(1) e by (simp add: Let_def)
    then have "sent p env (concat (map (phase_commands p) phs)) (vr_Failure report' = None) h1 h'"
      using Cons.IH Cons.prems(2-4) by simp
    then show ?thesis using sent_trans first None by simp
  qed
qed

end
