(* ===== verification/VerifierExamples.thy ===== *)
theory VerifierExamples
  imports VerifierRuns
begin

section \<open>A concrete verification\<close>

text \<open>
  The request to verify the example revision, and a provider that answers every command with exit
  code 0 and one retained output: the whole run is computed, for any decoder of the assertion
  protocol.
\<close>

subsection \<open>A concrete request\<close>

definition example_verify_request :: VerifyRequest where
  "example_verify_request = \<lparr>vq_Credential = \<lparr>lc_Identity = \<lparr>ai_Content = rs_Identity example_spec,
       ai_SpecDigest = digest_bytes ''nginx'', ai_Phase = ActionVerify, ai_StateVersion = 1\<rparr>,
       lc_LeaseOwner = ''w1''\<rparr>,
     vq_RunnableRevision = example_revision,
     vq_RunnableRevisionRef = \<lparr>ref_ID = ''rr-1'', ref_Digest = digest_bytes (cd_revision example_codec example_revision)\<rparr>,
     vq_RunnableRevisionDigest = digest_bytes (cd_revision example_codec example_revision), vq_Attempt = 1\<rparr>"

lemma example_verify_request_simps [simp]:
  "vq_RunnableRevision example_verify_request = example_revision" "rr_Spec example_revision = example_spec"
  by (simp_all add: example_verify_request_def example_revision_def)

lemma example_verify_request_valid: "VerifyRequest_Validate example_codec example_verify_request = None"
proof -
  have i: "id_ok ''lab''" "id_ok ''nginx''" "id_ok ''rr-1''"
    by (simp_all only: validateID_None [where f = "''f''", symmetric]) (code_simp+)
  have s: "required_ok MaxReferenceLength ''1''" "required_ok MaxIDLength ''w1''"
    by (simp_all only: requiredString_None [where f = "''f''", symmetric]) (code_simp+)
  have c: "ci_Kind (rs_Identity example_spec) = ''lab''" "ci_ID (rs_Identity example_spec) = ''nginx''"
    "ci_Revision (rs_Identity example_spec) = ''1''"
    by (simp_all add: example_spec_def)
  have "revision_ok example_codec example_revision"
    using example_revision_valid by (simp add: RunnableRevision_Validate_None)
  then show ?thesis
    using i s by (simp add: VerifyRequest_Validate_None credential_ok_def identity_ok_def ActionPhase_Valid_def
        identity_of_spec_def example_spec_ok RevisionReference_Validate_def first_error_Cons valid_simps)
      (simp add: example_verify_request_def c RevisionReference_Validate_def first_error_Cons valid_simps)
qed

text \<open>
  A provider that answers every command with exit code 0 and one retained output, and a decoder of
  the assertion protocol that reports \<open>broken\<close> satisfied.
\<close>

definition example_output :: ExecutionOutput where
  "example_output = \<lparr>xo_ExitCode = 0, xo_Summary = [], xo_Raw = ''{}'', xo_Stderr = [],
     xo_Outputs = [\<lparr>ir_Reference = ''out'', ir_Digest = zero_digest, ir_SizeBytes = 2\<rparr>]\<rparr>"

definition example_environment :: EnvironmentIdentity where
  "example_environment = \<lparr>ei_ID = ''run-1'', ei_Provider = ''k8s'', ei_ProfileDigest = digest_bytes ''p1''\<rparr>"

definition example_executor ::
  "(string \<Rightarrow> go_error + (AssertionEntry list \<times> bool)) \<Rightarrow> provider_call list Executor"
where
  "example_executor decode =
     recording (\<lambda>_. Inr example_environment) (\<lambda>_. Inr example_output) None (\<lambda>_. 1) decode"

definition example_decode :: "string \<Rightarrow> go_error + (AssertionEntry list \<times> bool)" where
  "example_decode raw = Inr ([\<lparr>ae_ID = ''broken'', ae_Satisfied = Some True, ae_Summary = ''seen'', ae_Details = []\<rparr>], True)"



lemma example_commands:
  "profile_boundary example_profile ''rw'' = Some (hd (rp_ExecutionBoundaries example_profile))"
  "profile_boundary example_profile ''ro'' = Some (hd (tl (rp_ExecutionBoundaries example_profile)))"
  by (simp_all add: profile_boundary_def example_profile_def)

lemma example_summary: "summary [] ''action completed'' = ''action completed''"
  by (simp add: summary_def)

lemma example_outputs: "validateOutputReferences (xo_Outputs example_output) = None"
  by code_simp

lemma example_command:
  assumes "\<not> execution_exceeds r"
  shows "execute (example_executor d) c env r h = (Inr example_output, h @ [Executed env r])"
  using assms by (simp add: execute_def example_executor_def recording_def Let_def)

lemma example_not_exceeds:
  "\<not> execution_exceeds (action_request example_init (hd (rp_ExecutionBoundaries example_profile)))"
  "\<not> execution_exceeds (action_request example_action (hd (rp_ExecutionBoundaries example_profile)))"
  "\<not> execution_exceeds (assertion_request example_assertion (hd (tl (rp_ExecutionBoundaries example_profile))))"
  by code_simp+

lemma example_protocol: "ParseAssertionOutput example_decode ''{}'' ''broken'' outs = 
  (let result = \<lparr>bres_ID = ''broken'', bres_Satisfied = True, bres_Summary = ''seen'', bres_Details = [], bres_Outputs = outs\<rparr> in
                        check (AssertionResult_Validate result) (Inr result))"
  by (simp add: ParseAssertionOutput_def example_decode_def MaxAssertionOutputBytes_def)

lemma example_assertion_result: "AssertionResult_Validate \<lparr>bres_ID = ''broken'', bres_Satisfied = True, bres_Summary = ''seen'', bres_Details = [], bres_Outputs = xo_Outputs example_output\<rparr> = None"
  by code_simp


lemma example_fields:
  "ac_BoundaryID example_init = ''rw''" "ac_Target example_init = example_target" "ac_ID example_init = ''setup''"
  "ac_ExpectedExitCodes example_init = [0]"
  "ac_BoundaryID example_action = ''rw''" "ac_Target example_action = example_target" "ac_ID example_action = ''break''"
  "ac_ExpectedExitCodes example_action = [0, 1]"
  "as_BoundaryID example_assertion = ''ro''" "as_Target example_assertion = example_target" "as_ID example_assertion = ''broken''"
  "eb_Target (hd (rp_ExecutionBoundaries example_profile)) = example_target"
  "eb_Permission (hd (rp_ExecutionBoundaries example_profile)) = PermissionReadWrite"
  "eb_Target (hd (tl (rp_ExecutionBoundaries example_profile))) = example_target"
  "eb_Permission (hd (tl (rp_ExecutionBoundaries example_profile))) = PermissionReadOnly"
  "xo_ExitCode example_output = 0" "xo_Raw example_output = ''{}''" "xo_Summary example_output = []"
  "ex_decode (example_executor d) = d" "ex_now (example_executor d) h = 1"
  "ex_Create (example_executor d) q h = (Inr example_environment, h @ [Created q])"
  "rs_Initialization example_spec = [example_init]" "rs_RuntimeProfile example_spec = example_profile"
  "pl_Phases (rs_ValidationPlan example_spec) = [example_phase]"
  "vp_ID example_phase = ''main''" "vp_Actions example_phase = [example_action]" "vp_Assertions example_phase = [example_assertion]"
  "rp_ProfileRevision example_profile = ''p1''" 
  by (simp_all add: example_init_def example_action_def example_assertion_def example_profile_def example_output_def
    example_executor_def recording_def example_spec_def example_phase_def)

definition example_calls :: "provider_call list" where
  "example_calls = [Created example_verify_request,
     Executed example_environment (action_request example_init (hd (rp_ExecutionBoundaries example_profile))),
     Executed example_environment (action_request example_action (hd (rp_ExecutionBoundaries example_profile))),
     Executed example_environment (assertion_request example_assertion (hd (tl (rp_ExecutionBoundaries example_profile))))]"

lemma example_environment_valid: "EnvironmentIdentity_Validate example_environment = None"
proof -
  have "required_ok MaxIDLength ''run-1''" "id_ok ''k8s''"
    by (simp_all only: validateID_None [where f = "''f''", symmetric] requiredString_None [where f = "''f''", symmetric]) (code_simp+)
  then show ?thesis by (simp add: EnvironmentIdentity_Validate_def first_error_Cons valid_simps example_environment_def)
qed

lemma example_profile_digest: "RuntimeProfile_Digest example_codec example_profile = Inr (digest_bytes ''p1'')"
  using example_parts_valid(2) by (simp add: RuntimeProfile_Digest_def example_fields)


definition example_phase_results :: "AssertionResult list \<Rightarrow> PhaseResult list" where
  "example_phase_results bs =
     [\<lparr>pr_ID = ''initialization'', pr_Actions = [\<lparr>ares_ID = ''setup'', ares_ExitCode = 0,
          ares_Summary = ''action completed'', ares_Outputs = xo_Outputs example_output\<rparr>], pr_Assertions = []\<rparr>,
      \<lparr>pr_ID = ''main'', pr_Actions = [\<lparr>ares_ID = ''break'', ares_ExitCode = 0,
          ares_Summary = ''action completed'', ares_Outputs = xo_Outputs example_output\<rparr>], pr_Assertions = bs\<rparr>]"

lemma example_phases:
  assumes "vr_Phases report = []"
  shows
  "execute_phases (example_executor d) c example_environment example_profile report [initialization_phase example_spec, example_phase]
     [Created example_verify_request] =
   (case ParseAssertionOutput d ''{}'' ''broken'' (xo_Outputs example_output) of
      Inl e \<Rightarrow> (finalizeFailure (report \<lparr>vr_Phases := example_phase_results []\<rparr>)
                  (artifactFailure ''assertion-protocol'' (err_text e)), example_calls)
    | Inr r \<Rightarrow> (report \<lparr>vr_Phases := example_phase_results [r]\<rparr>, example_calls))"
  using assms
  by (simp add: initialization_phase_def example_fields
    executePhase_def executeAction_def executeAssertion_def lookup_profile example_commands example_command example_not_exceeds example_outputs
    Let_def example_summary example_calls_def example_phase_results_def split: sum.split)

lemma example_computed: "ComputeSpecPassed example_spec (example_phase_results [\<lparr>bres_ID = ''broken'', bres_Satisfied = True,
    bres_Summary = ''seen'', bres_Details = [], bres_Outputs = xo_Outputs example_output\<rparr>]) = Inr True"
  by code_simp

lemma example_run:
  assumes "ParseAssertionOutput d ''{}'' ''broken'' (xo_Outputs example_output) = res"
  shows "Executor_Verify example_codec (example_executor d) example_verify_request [] =
    (let report = new_report example_verify_request example_environment 1 in
     case res of
       Inl e \<Rightarrow> (Inr (finalizeFailure (report \<lparr>vr_Phases := example_phase_results []\<rparr>)
                   (artifactFailure ''assertion-protocol'' (err_text e))), example_calls)
     | Inr r \<Rightarrow> ((case ComputeSpecPassed example_spec (example_phase_results [r]) of
           Inl e \<Rightarrow> Inl (Wrap ''compute verification result'' e)
         | Inr passed \<Rightarrow> Inr (report \<lparr>vr_Phases := example_phase_results [r], vr_Passed := passed\<rparr>)), example_calls))"
proof -
  have p: "vr_Phases (new_report example_verify_request example_environment 1) = []"
    "vr_Failure (new_report example_verify_request example_environment 1) = None"
    by (simp_all add: new_report_def)
  have e: "ei_ProfileDigest example_environment = digest_bytes ''p1''" by (simp add: example_environment_def)
  show ?thesis
    unfolding Executor_Verify_def example_verify_request_valid example_verify_request_simps example_fields(17-22) example_profile_digest option.case
    by (simp del: execute_phases.simps add: example_fields example_environment_valid example_profile_digest e example_phases [OF p(1)] assms Let_def finalizeFailure_def p split: sum.split)
qed

end
