(* ===== verification/VerifierProperties.thy ===== *)
theory VerifierProperties
  imports VerifierExamples
begin

section \<open>Properties of the verifier\<close>

text \<open>
  The properties of \<open>verifier.go\<close> and \<open>worker.go\<close>: what reaches the provider, which reports the
  worker passes on, and what a materialized revision is bound to.
\<close>

lemma example_run_passes:
  "\<exists>report. Executor_Verify example_codec (example_executor example_decode) example_verify_request [] =
     (Inr report, example_calls) \<and> vr_Failure report = None \<and> vr_Passed report"
proof -
  have "ParseAssertionOutput example_decode ''{}'' ''broken'' (xo_Outputs example_output) =
      Inr \<lparr>bres_ID = ''broken'', bres_Satisfied = True, bres_Summary = ''seen'', bres_Details = [],
        bres_Outputs = xo_Outputs example_output\<rparr>"
    by (simp only: example_protocol example_assertion_result Let_def check_None)
  from example_run [OF this] show ?thesis
    by (simp add: Let_def example_computed new_report_def)
qed

text \<open>
  C2 Whatever the provider and the output store answer, the executor of a valid request creates at
  most one environment and sends it the commands of the plan and nothing else: initialization
  first, then the phases, actions before assertions, each in the declared order. What was sent is
  a front part of that list, and all of it when the report carries no failure. Every command stays
  inside a boundary that the profile declares for its target: within the time limit, read-only
  exactly for a read-only boundary.
\<close>

theorem commands_follow_plan:
  assumes "Executor_Verify cd (recording cr exe st now dec) q [] = (r, h)"
    and "VerifyRequest_Validate cd q = None"
  shows "creations h = [q] \<and>
    prefix (map (Some \<circ> snd) (executions h)) (plan_commands (rr_Spec (vq_RunnableRevision q))) \<and>
    (\<forall>(env, c)\<in>set (executions h). cr [Created q] = Inr env \<and>
       confined (rs_RuntimeProfile (rr_Spec (vq_RunnableRevision q))) c) \<and>
    (\<forall>report. r = Inr report \<and> vr_Failure report = None \<longrightarrow>
       map (Some \<circ> snd) (executions h) = plan_commands (rr_Spec (vq_RunnableRevision q)))"
proof -
  let ?x = "recording cr exe st now dec" and ?s = "rr_Spec (vq_RunnableRevision q)"
  let ?p = "rs_RuntimeProfile ?s"
  have s: "spec_ok ?s" "profile_ok ?p" using assms(2) by (simp_all add: VerifyRequest_Validate_None revision_ok_def spec_ok_def)
  have create: "ex_Create ?x q [] = (cr [Created q], [Created q])" by (simp add: recording_def Let_def)
  show ?thesis
  proof (cases "h = [Created q] \<and> (\<exists>e. r = Inl e)")
    case True
    then show ?thesis by auto
  next
    case False
    then obtain env report where run: "execute_phases ?x (vq_Credential q) env ?p
        (new_report q env (ex_now ?x [Created q])) (initialization_phase ?s # pl_Phases (rs_ValidationPlan ?s)) [Created q] = (report, h)"
      and env: "cr [Created q] = Inr env"
      and none: "\<And>rep. r = Inr rep \<Longrightarrow> vr_Failure rep = None \<Longrightarrow> vr_Failure report = None"
      using assms create unfolding Executor_Verify_def Let_def
      by (simp del: execute_phases.simps split: option.split_asm sum.split_asm prod.split_asm if_split_asm) fastforce+
    have "sent ?p env (plan_commands ?s) (vr_Failure report = None) [Created q] h"
      using execute_phases_sent [OF run] initialization_ids [OF s(1)] s(2)
      by (simp add: plan_commands_def new_report_def)
    then obtain rs rest where h: "executions h = map (Pair env) rs" "creations h = [q]"
      "plan_commands ?s = map Some rs @ rest" "vr_Failure report = None \<longrightarrow> rest = []" "\<forall>r\<in>set rs. confined ?p r"
      by (auto simp: sent_def)
    have m: "map (Some \<circ> snd) (executions h) = map Some rs" "map snd (executions h) = rs"
      by (simp_all add: h(1) comp_def)
    show ?thesis
      unfolding m using h none env by auto
  qed
qed

lemma commands_follow_plan_witness:
  "prefix (map (Some \<circ> snd) (executions example_calls)) (plan_commands example_spec) \<and>
   list_all (\<lambda>(env, c). env = example_environment \<and> confined example_profile c) (executions example_calls) \<and>
   map (Some \<circ> snd) (executions example_calls) = plan_commands example_spec"
proof -
  obtain report where run: "Executor_Verify example_codec (example_executor example_decode) example_verify_request [] =
      (Inr report, example_calls)" "vr_Failure report = None"
    using example_run_passes by blast
  show ?thesis
    using commands_follow_plan [OF run(1) [unfolded example_executor_def] example_verify_request_valid] run(2)
    by (auto simp: example_fields list_all_iff)
qed

text \<open>
  The worker passes on every report of the executor whose failure value is well formed: for a
  report of \<open>Executor.Verify\<close> the check in \<open>Worker.Verify\<close> comes down to the check of its failure.
  In particular every report without a failure is accepted, carries the verdict of its own phase
  results, and is bound to the digest of the revision, the attempt of the request and the
  environment the provider created.
\<close>

theorem executor_reports_accepted:
  assumes "Executor_Verify cd ex q w = (Inr report, w')" "\<forall>v. ex_now ex v \<noteq> 0"
  shows "Worker_Verify cd (Executor_Verify cd ex) q w =
      (case Option.bind (vr_Failure report) VerificationFailure_Validate of
         None \<Rightarrow> (Inr report, w')
       | Some e \<Rightarrow> (Inl (Wrap ''verifier returned an invalid report'' e), w')) \<and>
    vr_Attempt report = vq_Attempt q \<and> vr_RunnableRevisionDigest report = vq_RunnableRevisionDigest q \<and>
    (vr_Failure report = None \<longrightarrow>
       ComputeSpecPassed (rr_Spec (vq_RunnableRevision q)) (vr_Phases report) = Inr (vr_Passed report))"
  using Executor_report [OF assms(1)] Executor_report_check [OF assms]
  by (simp add: Worker_Verify_def assms(1))

lemma executor_reports_accepted_witness:
  "\<exists>report. Worker_Verify example_codec (Executor_Verify example_codec (example_executor example_decode))
     example_verify_request [] = (Inr report, example_calls) \<and> vr_Passed report"
proof -
  obtain report where run: "Executor_Verify example_codec (example_executor example_decode) example_verify_request [] =
      (Inr report, example_calls)" "vr_Failure report = None" "vr_Passed report"
    using example_run_passes by blast
  have "\<forall>v. ex_now (example_executor example_decode) v \<noteq> 0" by (simp add: example_fields)
  from executor_reports_accepted [OF run(1) this] show ?thesis using run(2,3) by simp
qed

end
