(* ===== verification/RunnableStore.thy ===== *)
theory RunnableStore
  imports RunnableAction Sql
begin

section \<open>The runnable repository: specs, sources, revisions, reports and the action queue\<close>

text \<open>
  \<open>internal/adapter/postgres/runnable_repository.go\<close> over the tables of \<open>schema_runnable.go\<close>. A
  table is a list of rows; a repository method is a function on the store, and a transaction that
  returns an error returns the store unchanged. JSONB columns hold the value itself; the bytes of an
  execution output are kept as bytes, and decoding them is a parameter.
\<close>

subsection \<open>Tables\<close>

record source_row =
  so_digest :: string
  so_archive :: string
  so_created :: time

record spec_row =
  sp_digest :: string
  sp_content :: ContentIdentity
  sp_source :: string
  sp_spec :: RunnableSpec
  sp_created :: time

record revision_row =
  rv_id :: string
  rv_digest :: string
  rv_spec :: string
  rv_revision :: RunnableRevision
  rv_created :: time

record report_row =
  vw_id :: string
  vw_digest :: string
  vw_revision :: string
  vw_report :: VerificationReport
  vw_created :: time

record output_row =
  ow_digest :: string
  ow_capture :: string
  ow_created :: time

datatype action_state = Queued | Running | Completed | Failed

record action_row =
  aw_key :: string
  aw_content :: ContentIdentity
  aw_spec :: string
  aw_phase :: ActionPhase
  aw_version :: int
  aw_revision :: "string option"
  aw_state :: action_state
  aw_attempt :: int
  aw_owner :: string
  aw_expires :: "time option"
  aw_next :: time
  aw_class :: "FailureClass option"
  aw_code :: string
  aw_summary :: string
  aw_created :: time
  aw_updated :: time
  aw_completed :: "time option"

record store =
  st_sources :: "source_row list"
  st_specs :: "spec_row list"
  st_revisions :: "revision_row list"
  st_reports :: "report_row list"
  st_outputs :: "output_row list"
  st_actions :: "action_row list"

definition empty_store :: store where
  "empty_store = \<lparr>st_sources = [], st_specs = [], st_revisions = [], st_reports = [], st_outputs = [],
     st_actions = []\<rparr>"

text \<open>The error a statement returns that violates a key of the schema; its text is the database's.\<close>

definition constraint_violation :: go_error where
  "constraint_violation = Msg ''constraint violation''"

definition row_identity :: "action_row \<Rightarrow> ActionIdentity" where
  "row_identity r = \<lparr>ai_Content = aw_content r, ai_SpecDigest = aw_spec r, ai_Phase = aw_phase r,
     ai_StateVersion = aw_version r\<rparr>"

text \<open>\<open>action_key = ? AND state = 'running' AND lease_owner = ? AND lease_expires_at > ?\<close>\<close>

definition live :: "database \<Rightarrow> LeaseCredential \<Rightarrow> time \<Rightarrow> action_row \<Rightarrow> bool" where
  "live db c now r \<longleftrightarrow> aw_key r = ActionIdentity_Key (lc_Identity c) \<and> aw_state r = Running \<and>
     aw_owner r = lc_LeaseOwner c \<and> (case aw_expires r of Some e \<Rightarrow> db_ts db now < e | None \<Rightarrow> False)"

definition live_row :: "database \<Rightarrow> LeaseCredential \<Rightarrow> time \<Rightarrow> store \<Rightarrow> action_row option" where
  "live_row db c now st = find (live db c now) (st_actions st)"

subsection \<open>Specs and sources\<close>

definition runnableArchiveDigest :: "string \<Rightarrow> string" where
  "runnableArchiveDigest archive = ''sha256:'' @ sha256_hex archive"

definition new_spec_row :: "database \<Rightarrow> string \<Rightarrow> RunnableSpec \<Rightarrow> time \<Rightarrow> spec_row" where
  "new_spec_row db digest spec now = \<lparr>sp_digest = digest, sp_content = rs_Identity spec,
     sp_source = sa_Digest (rs_Source spec), sp_spec = spec, sp_created = db_ts db now\<rparr>"

definition insertRunnableSpecTx ::
  "codec \<Rightarrow> database \<Rightarrow> RunnableSpec \<Rightarrow> time \<Rightarrow> store \<Rightarrow> (go_error + string) \<times> store"
where
  "insertRunnableSpecTx cd db spec now st = (case RunnableSpec_Digest cd spec of
     Inl e \<Rightarrow> (Inl e, st)
   | Inr digest \<Rightarrow> (Inr digest,
       st \<lparr>st_specs := fst (sql_insert sp_digest (new_spec_row db digest spec now) (st_specs st))\<rparr>))"

definition StoreRunnableSpec ::
  "codec \<Rightarrow> database \<Rightarrow> RunnableSpec \<Rightarrow> time \<Rightarrow> store \<Rightarrow> (go_error + string) \<times> store"
where
  "StoreRunnableSpec cd db spec now st =
     (if now = 0 then (Inl (Msg ''store runnable spec requires a creation time''), st)
      else insertRunnableSpecTx cd db spec now st)"

definition StoreRunnableSource ::
  "database \<Rightarrow> SourceArchive \<Rightarrow> string \<Rightarrow> time \<Rightarrow> store \<Rightarrow> go_error option \<times> store"
where
  "StoreRunnableSource db source archive now st =
     (if SourceArchive_Validate source \<noteq> None \<or> now = 0 \<or> length archive = 0 \<or>
         MaxSourceArchiveBytes < length archive
      then (Some (Msg ''store runnable source is invalid''), st)
      else if runnableArchiveDigest archive \<noteq> sa_Digest source
      then (Some (NewArtifactFailure ''source-archive-digest''
              ''source archive does not match its declared digest''), st)
      else let (t, changed) = sql_insert so_digest
                 \<lparr>so_digest = sa_Digest source, so_archive = archive, so_created = db_ts db now\<rparr> (st_sources st)
           in if changed > 0 then (None, st \<lparr>st_sources := t\<rparr>)
              else case sql_row so_digest (sa_Digest source) (st_sources st) of
                None \<Rightarrow> (Some (Wrap ''read stored runnable source'' constraint_violation), st)
              | Some r \<Rightarrow>
                  if runnableArchiveDigest (so_archive r) \<noteq> sa_Digest source
                  then (Some (Msg ''stored runnable source digest does not match its value''), st)
                  else (None, st))"

definition requireRunnableSource :: "string \<Rightarrow> store \<Rightarrow> go_error option" where
  "requireRunnableSource digest st =
     fail_if (digest \<notin> so_digest ` set (st_sources st)) source_not_found"

definition ReadRunnableActionSource ::
  "database \<Rightarrow> LeaseCredential \<Rightarrow> time \<Rightarrow> store \<Rightarrow> go_error + string"
where
  "ReadRunnableActionSource db c now st =
     (if LeaseCredential_Validate c \<noteq> None \<or> ai_Phase (lc_Identity c) \<noteq> ActionMaterializeArtifact \<or> now = 0
      then Inl action_lease_lost
      else case live_row db c now st of
        None \<Rightarrow> Inl action_lease_lost
      | Some r \<Rightarrow> (case sql_row sp_digest (aw_spec r) (st_specs st) of
          None \<Rightarrow> Inl action_lease_lost
        | Some sp \<Rightarrow> (case sql_row so_digest (sp_source sp) (st_sources st) of
            None \<Rightarrow> Inl source_not_found
          | Some so \<Rightarrow>
              if runnableArchiveDigest (so_archive so) \<noteq> sp_source sp
              then Inl (Msg ''stored runnable source digest does not match its value'')
              else Inr (so_archive so))))"

subsection \<open>Revisions\<close>

definition ErrRunnableRevisionNotFound_error :: go_error where
  "ErrRunnableRevisionNotFound_error = Sentinel ErrRunnableRevisionNotFound ''runnable revision not found''"

definition ErrVerificationReportNotFound_error :: go_error where
  "ErrVerificationReportNotFound_error =
     Sentinel ErrVerificationReportNotFound ''runnable verification report not found''"

definition ResolveRunnableRevision :: "codec \<Rightarrow> string \<Rightarrow> string \<Rightarrow> store \<Rightarrow> go_error + RunnableRevision" where
  "ResolveRunnableRevision cd rid digest st =
     (if blank rid \<or> \<not> ValidDigest digest then Inl (Msg ''runnable revision reference is invalid'')
      else case find (\<lambda>r. rv_id r = rid \<and> rv_digest r = digest) (st_revisions st) of
        None \<Rightarrow> Inl ErrRunnableRevisionNotFound_error
      | Some r \<Rightarrow> (case RunnableRevision_Digest cd (rv_revision r) of
          Inl e \<Rightarrow> Inl (Wrap ''validate stored runnable revision'' e)
        | Inr computed \<Rightarrow>
            if computed \<noteq> digest
            then Inl (Msg ''stored runnable revision digest does not match its value'')
            else Inr (rv_revision r)))"

text \<open>
  The part that \<open>StoreRunnableRevision\<close> and \<open>CompleteRunnableMaterialization\<close> have in common: a row
  that holds the digest under any id satisfies the store; otherwise the row is inserted, unless its
  id is taken by another digest.
\<close>

definition put_revision ::
  "database \<Rightarrow> string \<Rightarrow> StoredRevision \<Rightarrow> string \<Rightarrow> store \<Rightarrow> go_error option \<times> store"
where
  "put_revision db context_text val specDigest st =
     (case sql_row rv_digest (ref_Digest (sr_Reference val)) (st_revisions st) of
        Some _ \<Rightarrow> (None, st)
      | None \<Rightarrow>
          let (t, changed) = sql_insert rv_id
                \<lparr>rv_id = ref_ID (sr_Reference val), rv_digest = ref_Digest (sr_Reference val),
                 rv_spec = specDigest, rv_revision = sr_Revision val, rv_created = db_ts db (sr_CreatedAt val)\<rparr>
                (st_revisions st)
          in if changed = 0
             then (case sql_row rv_id (ref_ID (sr_Reference val)) (st_revisions st) of
                 None \<Rightarrow> (Some (Wrap context_text constraint_violation), st)
               | Some r \<Rightarrow>
                   if rv_digest r \<noteq> ref_Digest (sr_Reference val)
                   then (Some (Msg ''runnable revision id is already bound to another digest''), st)
                   else (None, st))
             else (None, st \<lparr>st_revisions := t\<rparr>))"

definition StoreRunnableRevision ::
  "codec \<Rightarrow> database \<Rightarrow> StoredRevision \<Rightarrow> store \<Rightarrow> go_error option \<times> store"
where
  "StoreRunnableRevision cd db val st = (case StoredRevision_Validate cd val of
     Some e \<Rightarrow> (Some e, st)
   | None \<Rightarrow> (case insertRunnableSpecTx cd db (rr_Spec (sr_Revision val)) (sr_CreatedAt val) st of
       (Inl e, _) \<Rightarrow> (Some e, st)
     | (Inr specDigest, st1) \<Rightarrow> (case put_revision db ''read stored runnable revision'' val specDigest st1 of
         (Some e, _) \<Rightarrow> (Some e, st)
       | (None, st2) \<Rightarrow> (None, st2))))"

subsection \<open>Execution outputs and reports\<close>

text \<open>
  \<open>json.Unmarshal\<close> of a stored capture, and the strict decoder of \<open>ParseOutputCapture\<close>.
\<close>

record decoders =
  dc_capture :: "string \<Rightarrow> go_error + OutputCapture"
  dc_strict_capture :: "string \<Rightarrow> go_error + (OutputCapture \<times> json_rest)"

definition StoreRunnableExecutionOutput ::
  "codec \<Rightarrow> database \<Rightarrow> LeaseCredential \<Rightarrow> OutputCapture \<Rightarrow> time \<Rightarrow> store
     \<Rightarrow> (go_error + ImmutableReference) \<times> store"
where
  "StoreRunnableExecutionOutput cd db c capture now st =
     (if LeaseCredential_Validate c \<noteq> None \<or> ai_Phase (lc_Identity c) \<noteq> ActionVerify \<or> now = 0
      then (Inl action_lease_lost, st)
      else case OutputCapture_Reference cd capture of
        Inl e \<Rightarrow> (Inl e, st)
      | Inr (reference, encoded) \<Rightarrow>
          (case live_row db c now st of
             None \<Rightarrow> (Inl action_lease_lost, st)
           | Some r \<Rightarrow>
               (case aw_revision r of
                  None \<Rightarrow> (Inl (Wrap ''lock runnable execution output action'' constraint_violation), st)
                | Some revision \<Rightarrow>
                    if revision = []
                    then (Inl (Msg ''runnable execution output action has no revision''), st)
                    else let t = fst (sql_insert ow_digest
                             \<lparr>ow_digest = ir_Digest reference, ow_capture = encoded, ow_created = db_ts db now\<rparr>
                             (st_outputs st))
                         in case sql_row ow_digest (ir_Digest reference) t of
                              None \<Rightarrow> (Inl (Wrap ''read stored runnable execution output'' constraint_violation), st)
                            | Some o' \<Rightarrow>
                                if ow_capture o' \<noteq> encoded
                                then (Inl (Msg ''stored runnable execution output digest does not match its value''), st)
                                else (Inr reference, st \<lparr>st_outputs := t\<rparr>))))"

definition ErrOutputNotFound_error :: go_error where
  "ErrOutputNotFound_error = Sentinel ErrOutputNotFound ''runnable execution output not found''"

definition ResolveRunnableExecutionOutput ::
  "codec \<Rightarrow> decoders \<Rightarrow> ImmutableReference \<Rightarrow> store \<Rightarrow> go_error + OutputCapture"
where
  "ResolveRunnableExecutionOutput cd dc reference st =
     check (ImmutableReference_Validate reference ''execution_output'')
       (case sql_row ow_digest (ir_Digest reference) (st_outputs st) of
          None \<Rightarrow> Inl ErrOutputNotFound_error
        | Some o' \<Rightarrow> (case dc_capture dc (ow_capture o') of
            Inl e \<Rightarrow> Inl (Wrap ''decode runnable execution output'' e)
          | Inr capture \<Rightarrow> (case OutputCapture_Reference cd capture of
              Inl e \<Rightarrow> Inl (Wrap ''validate stored runnable execution output'' e)
            | Inr (actual, canonical) \<Rightarrow>
                if actual \<noteq> reference \<or> ow_capture o' \<noteq> canonical
                then Inl (Msg ''stored runnable execution output reference does not match its value'')
                else Inr capture)))"

definition output_reference_error ::
  "codec \<Rightarrow> decoders \<Rightarrow> store \<Rightarrow> ImmutableReference \<Rightarrow> go_error option"
where
  "output_reference_error cd dc st reference = (case ImmutableReference_Validate reference ''verification.output'' of
     Some e \<Rightarrow> Some e
   | None \<Rightarrow> (case sql_row ow_digest (ir_Digest reference) (st_outputs st) of
       None \<Rightarrow> Some (Msg ''verification report refers to an execution output that was not persisted'')
     | Some o' \<Rightarrow> (case ParseOutputCapture (dc_strict_capture dc) (ow_capture o') of
         Inl e \<Rightarrow> Some (Wrap ''decode verification execution output'' e)
       | Inr capture \<Rightarrow> (case OutputCapture_Reference cd capture of
           Inl e \<Rightarrow> Some (Msg ''verification report execution output reference does not match its stored capture'')
         | Inr (actual, canonical) \<Rightarrow>
             fail_if (actual \<noteq> reference \<or> ow_capture o' \<noteq> canonical)
               (Msg ''verification report execution output reference does not match its stored capture'')))))"

definition validateRunnableExecutionOutputReferencesTx ::
  "codec \<Rightarrow> decoders \<Rightarrow> store \<Rightarrow> ImmutableReference list \<Rightarrow> go_error option"
where
  "validateRunnableExecutionOutputReferencesTx cd dc st references =
     each_error (\<lambda>_. output_reference_error cd dc st) 0 references"

definition validateRunnableVerificationOutputsTx ::
  "codec \<Rightarrow> decoders \<Rightarrow> store \<Rightarrow> VerificationReport \<Rightarrow> go_error option"
where
  "validateRunnableVerificationOutputsTx cd dc st report =
     each_error (\<lambda>_ phase. first_error
         [each_error (\<lambda>_ action. validateRunnableExecutionOutputReferencesTx cd dc st (ares_Outputs action))
            0 (pr_Actions phase),
          each_error (\<lambda>_ assertion. validateRunnableExecutionOutputReferencesTx cd dc st (bres_Outputs assertion))
            0 (pr_Assertions phase)])
       0 (vr_Phases report)"

definition new_report_row :: "database \<Rightarrow> StoredVerificationReport \<Rightarrow> string \<Rightarrow> report_row" where
  "new_report_row db val revisionDigest = \<lparr>vw_id = vref_ID (svr_Reference val),
     vw_digest = vref_Digest (svr_Reference val), vw_revision = revisionDigest, vw_report = svr_Report val,
     vw_created = db_ts db (svr_CreatedAt val)\<rparr>"

text \<open>
  \<open>INSERT INTO runnable_verification_reports ... ON CONFLICT (id) DO NOTHING\<close>: the digest column is
  unique as well, so a new id with a digest that is already there is an error.
\<close>

definition insert_report :: "report_row \<Rightarrow> report_row list \<Rightarrow> go_error + report_row list \<times> nat" where
  "insert_report r t =
     (if vw_id r \<notin> vw_id ` set t \<and> vw_digest r \<in> vw_digest ` set t then Inl constraint_violation
      else Inr (sql_insert vw_id r t))"

definition StoreVerificationReport ::
  "codec \<Rightarrow> database \<Rightarrow> decoders \<Rightarrow> StoredVerificationReport \<Rightarrow> store \<Rightarrow> go_error option \<times> store"
where
  "StoreVerificationReport cd db dc val st = (case StoredVerificationReport_Validate cd val of
     Some e \<Rightarrow> (Some e, st)
   | None \<Rightarrow> (case RunnableRevision_Digest cd (svr_RunnableRevision val) of
       Inl e \<Rightarrow> (Some e, st)
     | Inr revisionDigest \<Rightarrow>
         if revisionDigest \<notin> rv_digest ` set (st_revisions st)
         then (Some ErrRunnableRevisionNotFound_error, st)
         else case validateRunnableVerificationOutputsTx cd dc st (svr_Report val) of
           Some e \<Rightarrow> (Some e, st)
         | None \<Rightarrow> (case insert_report (new_report_row db val revisionDigest) (st_reports st) of
             Inl e \<Rightarrow> (Some (Wrap ''store verification report'' e), st)
           | Inr (t, changed) \<Rightarrow>
               if changed = 0
               then (case sql_row vw_id (vref_ID (svr_Reference val)) (st_reports st) of
                   None \<Rightarrow> (Some (Wrap ''read stored verification report'' constraint_violation), st)
                 | Some r \<Rightarrow>
                     if vw_digest r \<noteq> vref_Digest (svr_Reference val)
                     then (Some (Msg ''verification report id is already bound to another digest''), st)
                     else (None, st))
               else (None, st \<lparr>st_reports := t\<rparr>))))"

definition ResolveVerificationReport ::
  "codec \<Rightarrow> string \<Rightarrow> string \<Rightarrow> RunnableRevision \<Rightarrow> store \<Rightarrow> go_error + VerificationReport"
where
  "ResolveVerificationReport cd rid digest revision st =
     (if blank rid \<or> \<not> ValidDigest digest \<or> RunnableRevision_Validate cd revision \<noteq> None
      then Inl (Msg ''verification report reference is invalid'')
      else case RunnableRevision_Digest cd revision of
        Inl e \<Rightarrow> Inl e
      | Inr revisionDigest \<Rightarrow>
          (case find (\<lambda>r. vw_id r = rid \<and> vw_digest r = digest \<and> vw_revision r = revisionDigest) (st_reports st) of
             None \<Rightarrow> Inl ErrVerificationReportNotFound_error
           | Some r \<Rightarrow> (case VerificationReport_Digest cd (vw_report r) revision of
               Inl e \<Rightarrow> Inl (Wrap ''validate stored verification report'' e)
             | Inr computed \<Rightarrow>
                 if computed \<noteq> digest
                 then Inl (Msg ''stored verification report digest does not match its value'')
                 else Inr (vw_report r))))"

end
