(* ===== verification/ActionQueue.thy ===== *)
theory ActionQueue
  imports RunnableStore
begin

section \<open>The runnable action queue\<close>

text \<open>
  Scheduling, claiming, renewing, failing, completing and resolving the rows of
  \<open>runnable_actions\<close>, as in \<open>internal/adapter/postgres/runnable_repository.go\<close>. A claim is told which
  rows other transactions have locked.
\<close>

definition runnableActionMaxAttempts :: int where "runnableActionMaxAttempts = 8"
definition runnableActionRetryBase :: duration where "runnableActionRetryBase = seconds 5"

subsection \<open>Scheduling\<close>

definition new_action_row ::
  "database \<Rightarrow> ActionIdentity \<Rightarrow> string option \<Rightarrow> time \<Rightarrow> action_row"
where
  "new_action_row db i revision now = \<lparr>aw_key = ActionIdentity_Key i, aw_content = ai_Content i,
     aw_spec = ai_SpecDigest i, aw_phase = ai_Phase i, aw_version = ai_StateVersion i, aw_revision = revision,
     aw_state = Queued, aw_attempt = 0, aw_owner = [], aw_expires = None, aw_next = db_ts db now,
     aw_class = None, aw_code = [], aw_summary = [], aw_created = db_ts db now, aw_updated = db_ts db now,
     aw_completed = None\<rparr>"

text \<open>
  \<open>runnableActionReschedule\<close>: the \<open>ON CONFLICT (action_key) DO UPDATE ... WHERE\<close> clause, which
  resets an infrastructure-failed row and leaves every other row alone.
\<close>

definition reset_action_row :: "database \<Rightarrow> time \<Rightarrow> action_row \<Rightarrow> action_row" where
  "reset_action_row db now r = r \<lparr>aw_state := Queued, aw_attempt := 0, aw_owner := [], aw_expires := None,
     aw_next := db_ts db now, aw_class := None, aw_code := [], aw_summary := [], aw_updated := db_ts db now\<rparr>"

definition runnableActionReschedule :: "database \<Rightarrow> time \<Rightarrow> action_row \<Rightarrow> action_row list \<Rightarrow> action_row list" where
  "runnableActionReschedule db now row t =
     (if aw_key row \<in> aw_key ` set t
      then fst (sql_update (\<lambda>r. aw_key r = aw_key row \<and> aw_state r = Failed \<and> aw_class r = Some FailureInfrastructure)
                  (reset_action_row db now) t)
      else t @ [row])"

definition ScheduleMaterialization ::
  "codec \<Rightarrow> database \<Rightarrow> RunnableSpec \<Rightarrow> int \<Rightarrow> time \<Rightarrow> store \<Rightarrow> (go_error + ActionIdentity) \<times> store"
where
  "ScheduleMaterialization cd db spec stateVersion now st =
     (if stateVersion < 1 \<or> now = 0 then (Inl (Msg ''schedule runnable materialization is invalid''), st)
      else case StoreRunnableSpec cd db spec now st of
        (Inl e, st1) \<Rightarrow> (Inl e, st1)
      | (Inr specDigest, st1) \<Rightarrow>
          (case requireRunnableSource (sa_Digest (rs_Source spec)) st1 of
             Some e \<Rightarrow> (Inl e, st1)
           | None \<Rightarrow>
               let identity = \<lparr>ai_Content = rs_Identity spec, ai_SpecDigest = specDigest,
                     ai_Phase = ActionMaterializeArtifact, ai_StateVersion = stateVersion\<rparr>
               in case ActionIdentity_Validate identity of
                    Some e \<Rightarrow> (Inl e, st1)
                  | None \<Rightarrow> (Inr identity, st1 \<lparr>st_actions :=
                      runnableActionReschedule db now (new_action_row db identity None now) (st_actions st1)\<rparr>)))"

definition ScheduleVerification ::
  "codec \<Rightarrow> database \<Rightarrow> RevisionReference \<Rightarrow> int \<Rightarrow> time \<Rightarrow> store \<Rightarrow> (go_error + ActionIdentity) \<times> store"
where
  "ScheduleVerification cd db reference stateVersion now st =
     (if RevisionReference_Validate reference \<noteq> None \<or> stateVersion < 1 \<or> now = 0
      then (Inl (Msg ''schedule runnable verification is invalid''), st)
      else case ResolveRunnableRevision cd (ref_ID reference) (ref_Digest reference) st of
        Inl e \<Rightarrow> (Inl e, st)
      | Inr revision \<Rightarrow> (case RunnableSpec_Digest cd (rr_Spec revision) of
          Inl e \<Rightarrow> (Inl e, st)
        | Inr specDigest \<Rightarrow>
            let identity = \<lparr>ai_Content = rs_Identity (rr_Spec revision), ai_SpecDigest = specDigest,
                  ai_Phase = ActionVerify, ai_StateVersion = stateVersion\<rparr>
            in (Inr identity, st \<lparr>st_actions :=
                 runnableActionReschedule db now (new_action_row db identity (Some (ref_Digest reference)) now)
                   (st_actions st)\<rparr>)))"

subsection \<open>Claiming and renewing\<close>

definition action_eligible :: "database \<Rightarrow> time \<Rightarrow> action_row \<Rightarrow> bool" where
  "action_eligible db now r \<longleftrightarrow>
     (aw_state r = Queued \<and> aw_next r \<le> db_ts db now) \<or>
     (aw_state r = Running \<and> (case aw_expires r of Some e \<Rightarrow> e \<le> db_ts db now | None \<Rightarrow> False))"

text \<open>\<open>runnableActionContextTx\<close>: the row as read, with the attempt already incremented.\<close>

definition runnableActionContextTx ::
  "codec \<Rightarrow> action_row \<Rightarrow> int \<Rightarrow> string \<Rightarrow> store \<Rightarrow> go_error + ActionContext"
where
  "runnableActionContextTx cd r attempt owner st =
     (let credential = \<lparr>lc_Identity = row_identity r, lc_LeaseOwner = owner\<rparr>;
          digest = (case aw_revision r of Some d \<Rightarrow> d | None \<Rightarrow> [])
      in case aw_phase r of
        ActionMaterializeArtifact \<Rightarrow>
          (case sql_row sp_digest (aw_spec r) (st_specs st) of
             None \<Rightarrow> Inl (Wrap ''load runnable action spec'' constraint_violation)
           | Some sp \<Rightarrow>
               let val = \<lparr>ax_Credential = credential, ax_Attempt = attempt, ax_Spec = Some (sp_spec sp),
                     ax_RunnableRevision = None, ax_RunnableRevisionRef = empty_reference,
                     ax_RunnableRevisionDigest = []\<rparr>
               in check (ActionContext_Validate cd val) (Inr val))
      | ActionVerify \<Rightarrow>
          (case sql_row rv_digest digest (st_revisions st) of
             None \<Rightarrow> Inl (Wrap ''load runnable action revision'' constraint_violation)
           | Some rv \<Rightarrow>
               let val = \<lparr>ax_Credential = credential, ax_Attempt = attempt, ax_Spec = None,
                     ax_RunnableRevision = Some (rv_revision rv),
                     ax_RunnableRevisionRef = \<lparr>ref_ID = rv_id rv, ref_Digest = digest\<rparr>,
                     ax_RunnableRevisionDigest = digest\<rparr>
               in check (ActionContext_Validate cd val) (Inr val))
      | ActionPhaseOther p \<Rightarrow> Inl (Msg ''stored runnable action has an unsupported phase''))"

definition claim_action_row :: "database \<Rightarrow> string \<Rightarrow> duration \<Rightarrow> time \<Rightarrow> int \<Rightarrow> action_row \<Rightarrow> action_row" where
  "claim_action_row db owner ttl now attempt r = r \<lparr>aw_state := Running, aw_attempt := attempt,
     aw_owner := owner, aw_expires := Some (db_ts db (now + ttl)), aw_updated := db_ts db now\<rparr>"

definition ClaimRunnableAction ::
  "codec \<Rightarrow> database \<Rightarrow> string list \<Rightarrow> string \<Rightarrow> duration \<Rightarrow> time \<Rightarrow> store
     \<Rightarrow> (go_error + ActionContext option) \<times> store"
where
  "ClaimRunnableAction cd db locked owner ttl now st =
     (if blank owner \<or> ttl \<le> 0 \<or> now = 0 then (Inl (Msg ''runnable action claim is invalid''), st)
      else case sql_first (order3 db aw_next aw_created aw_key)
                  (\<lambda>r. action_eligible db now r \<and> aw_key r \<notin> set locked) (st_actions st) of
        None \<Rightarrow> (Inr None, st)
      | Some r \<Rightarrow>
          (let attempt = aw_attempt r + 1;
               st1 = st \<lparr>st_actions := fst (sql_update (\<lambda>x. aw_key x = aw_key r)
                              (claim_action_row db owner ttl now attempt) (st_actions st))\<rparr>
           in case runnableActionContextTx cd r attempt owner st1 of
                Inl e \<Rightarrow> (Inl e, st)
              | Inr val \<Rightarrow> (Inr (Some val), st1)))"

definition RenewRunnableAction ::
  "database \<Rightarrow> LeaseCredential \<Rightarrow> duration \<Rightarrow> time \<Rightarrow> store \<Rightarrow> go_error option \<times> store"
where
  "RenewRunnableAction db c ttl now st =
     (if LeaseCredential_Validate c \<noteq> None \<or> ttl \<le> 0 \<or> now = 0 then (Some action_lease_lost, st)
      else let (t, changed) = sql_update (live db c now)
                 (\<lambda>r. r \<lparr>aw_expires := Some (db_ts db (now + ttl)), aw_updated := db_ts db now\<rparr>) (st_actions st)
           in if changed \<noteq> 1 then (Some action_lease_lost, st) else (None, st \<lparr>st_actions := t\<rparr>))"

subsection \<open>Failing\<close>

definition fail_action_row ::
  "database \<Rightarrow> action_state \<Rightarrow> time \<Rightarrow> FailureClass \<Rightarrow> string \<Rightarrow> string \<Rightarrow> time \<Rightarrow> action_row \<Rightarrow> action_row"
where
  "fail_action_row db state retryAt class code summary now r = r \<lparr>aw_state := state, aw_owner := [],
     aw_expires := None, aw_next := db_ts db retryAt, aw_class := Some class, aw_code := code,
     aw_summary := summary, aw_updated := db_ts db now\<rparr>"

definition ReportRunnableActionFailure ::
  "database \<Rightarrow> LeaseCredential \<Rightarrow> FailureClass \<Rightarrow> string \<Rightarrow> string \<Rightarrow> time \<Rightarrow> store \<Rightarrow> go_error option \<times> store"
where
  "ReportRunnableActionFailure db c class code summary now st =
     (if LeaseCredential_Validate c \<noteq> None \<or> \<not> FailureClass_Valid class \<or> blank code \<or> blank summary \<or> now = 0
      then (Some (Msg ''runnable action failure is invalid''), st)
      else case live_row db c now st of
        None \<Rightarrow> (Some action_lease_lost, st)
      | Some r \<Rightarrow>
          (let attempt = aw_attempt r;
               retry = (class = FailureInfrastructure \<and> attempt < runnableActionMaxAttempts);
               state = (if retry then Queued else Failed);
               retryAt = (if retry then now + RetryBackoff runnableActionRetryBase attempt else now);
               failureCode = (if class = FailureInfrastructure \<and> runnableActionMaxAttempts \<le> attempt
                              then ''attempts-exhausted'' else trim code);
               (t, changed) = sql_update (live db c now)
                 (fail_action_row db state retryAt class failureCode (cut MaxSummaryLength (trim summary)) now)
                 (st_actions st)
           in if changed \<noteq> 1 then (Some action_lease_lost, st) else (None, st \<lparr>st_actions := t\<rparr>)))"

subsection \<open>Completing\<close>

definition complete_action_row :: "database \<Rightarrow> time \<Rightarrow> string option \<Rightarrow> action_row \<Rightarrow> action_row" where
  "complete_action_row db now revision r = r \<lparr>aw_state := Completed,
     aw_revision := (case revision of Some d \<Rightarrow> Some d | None \<Rightarrow> aw_revision r),
     aw_owner := [], aw_expires := None, aw_completed := Some (db_ts db now), aw_updated := db_ts db now\<rparr>"

definition CompleteRunnableMaterialization ::
  "codec \<Rightarrow> database \<Rightarrow> LeaseCredential \<Rightarrow> StoredRevision \<Rightarrow> time \<Rightarrow> store \<Rightarrow> go_error option \<times> store"
where
  "CompleteRunnableMaterialization cd db c val now st =
     (if LeaseCredential_Validate c \<noteq> None \<or> ai_Phase (lc_Identity c) \<noteq> ActionMaterializeArtifact \<or> now = 0
      then (Some (Msg ''complete runnable materialization is invalid''), st)
      else case StoredRevision_Validate cd val of
        Some e \<Rightarrow> (Some e, st)
      | None \<Rightarrow> (case RunnableSpec_Digest cd (rr_Spec (sr_Revision val)) of
          Inl e \<Rightarrow> (Some (Msg ''materialized runnable revision does not match its action''), st)
        | Inr specDigest \<Rightarrow>
            if ai_SpecDigest (lc_Identity c) \<noteq> specDigest \<or>
               ai_Content (lc_Identity c) \<noteq> rs_Identity (rr_Spec (sr_Revision val))
            then (Some (Msg ''materialized runnable revision does not match its action''), st)
            else case live_row db c now st of
              None \<Rightarrow> (Some action_lease_lost, st)
            | Some r \<Rightarrow>
                if aw_spec r \<noteq> specDigest
                then (Some (Msg ''materialized runnable revision spec does not match its action''), st)
                else case put_revision db ''read stored materialized runnable revision'' val specDigest st of
                  (Some e, _) \<Rightarrow> (Some e, st)
                | (None, st1) \<Rightarrow>
                    (let (t, changed) = sql_update (live db c now)
                           (complete_action_row db now (Some (ref_Digest (sr_Reference val)))) (st_actions st1)
                     in if changed \<noteq> 1 then (Some action_lease_lost, st)
                        else (None, st1 \<lparr>st_actions := t\<rparr>))))"

definition CompleteRunnableVerification ::
  "codec \<Rightarrow> database \<Rightarrow> decoders \<Rightarrow> LeaseCredential \<Rightarrow> StoredVerificationReport \<Rightarrow> time \<Rightarrow> store
     \<Rightarrow> go_error option \<times> store"
where
  "CompleteRunnableVerification cd db dc c val now st =
     (if LeaseCredential_Validate c \<noteq> None \<or> ai_Phase (lc_Identity c) \<noteq> ActionVerify \<or> now = 0
      then (Some (Msg ''complete runnable verification is invalid''), st)
      else case StoredVerificationReport_Validate cd val of
        Some e \<Rightarrow> (Some e, st)
      | None \<Rightarrow> (case RunnableRevision_Digest cd (svr_RunnableRevision val) of
          Inl e \<Rightarrow> (Some (Msg ''verification report does not match its action''), st)
        | Inr revisionDigest \<Rightarrow>
            if ai_SpecDigest (lc_Identity c) \<noteq> ar_BuiltFromSpecDigest (rr_Artifact (svr_RunnableRevision val)) \<or>
               ai_Content (lc_Identity c) \<noteq> rs_Identity (rr_Spec (svr_RunnableRevision val))
            then (Some (Msg ''verification report does not match its action''), st)
            else case live_row db c now st of
              None \<Rightarrow> (Some action_lease_lost, st)
            | Some r \<Rightarrow> (case aw_revision r of
                None \<Rightarrow> (Some (Wrap ''lock runnable verification action'' constraint_violation), st)
              | Some actionRevision \<Rightarrow>
                  if actionRevision \<noteq> revisionDigest \<or> vr_Attempt (svr_Report val) \<noteq> aw_attempt r
                  then (Some (Msg ''verification report revision or attempt does not match its action''), st)
                  else case validateRunnableVerificationOutputsTx cd dc st (svr_Report val) of
                    Some e \<Rightarrow> (Some e, st)
                  | None \<Rightarrow> (case insert_report (new_report_row db val revisionDigest) (st_reports st) of
                      Inl e \<Rightarrow> (Some (Wrap ''store runnable verification report'' e), st)
                    | Inr (reports, _) \<Rightarrow> (None, st \<lparr>st_reports := reports,
                        st_actions := fst (sql_update (\<lambda>x. aw_key x = ActionIdentity_Key (lc_Identity c))
                          (complete_action_row db now None) (st_actions st))\<rparr>)))))"

subsection \<open>Resolving\<close>

text \<open>The row of an identity, by key and by every column of the identity.\<close>

definition identity_row :: "ActionIdentity \<Rightarrow> store \<Rightarrow> action_row option" where
  "identity_row i st = find (\<lambda>r. aw_key r = ActionIdentity_Key i \<and> row_identity r = i) (st_actions st)"

definition runnableActionFailure :: "ActionIdentity \<Rightarrow> store \<Rightarrow> go_error option" where
  "runnableActionFailure i st = (case identity_row i st of
     None \<Rightarrow> None
   | Some r \<Rightarrow>
       if aw_state r \<noteq> Failed then None
       else case aw_class r of
         None \<Rightarrow> Some (Msg ''stored runnable action failure is inconsistent'')
       | Some class \<Rightarrow>
           if \<not> FailureClass_Valid class \<or> blank (aw_code r) \<or> blank (aw_summary r)
           then Some (Msg ''stored runnable action failure is inconsistent'')
           else Some (ActionFailure (FailureClass_text class) (aw_code r) (aw_summary r)))"

definition ResolveMaterializedRunnableRevision ::
  "ActionIdentity \<Rightarrow> store \<Rightarrow> go_error + RevisionReference"
where
  "ResolveMaterializedRunnableRevision i st =
     (if ActionIdentity_Validate i \<noteq> None \<or> ai_Phase i \<noteq> ActionMaterializeArtifact
      then Inl (Msg ''runnable materialization identity is invalid'')
      else check (runnableActionFailure i st)
        (case identity_row i st of
           None \<Rightarrow> Inl materialization_not_ready
         | Some r \<Rightarrow>
             if aw_state r \<noteq> Completed then Inl materialization_not_ready
             else case aw_revision r of
               None \<Rightarrow> Inl materialization_not_ready
             | Some d \<Rightarrow> (case sql_row rv_digest d (st_revisions st) of
                 None \<Rightarrow> Inl materialization_not_ready
               | Some rv \<Rightarrow>
                   let reference = \<lparr>ref_ID = rv_id rv, ref_Digest = d\<rparr>
                   in if RevisionReference_Validate reference \<noteq> None
                      then Inl (Msg ''stored materialized runnable revision reference is invalid'')
                      else Inr reference)))"

definition ResolveVerificationForAction ::
  "codec \<Rightarrow> ActionIdentity \<Rightarrow> store \<Rightarrow> go_error + StoredVerificationReport"
where
  "ResolveVerificationForAction cd i st =
     (if ActionIdentity_Validate i \<noteq> None \<or> ai_Phase i \<noteq> ActionVerify
      then Inl (Msg ''runnable verification identity is invalid'')
      else check (runnableActionFailure i st)
        (case find (\<lambda>r. Some (vw_id r) = RecordID ''vr'' i) (st_reports st) of
           None \<Rightarrow> Inl materialization_not_ready
         | Some rep \<Rightarrow> (case sql_row rv_digest (vw_revision rep) (st_revisions st) of
             None \<Rightarrow> Inl materialization_not_ready
           | Some rv \<Rightarrow>
               let val = \<lparr>svr_Reference = \<lparr>vref_ID = vw_id rep, vref_Digest = vw_digest rep\<rparr>,
                     svr_Report = vw_report rep, svr_RunnableRevision = rv_revision rv,
                     svr_CreatedAt = vw_created rep\<rparr>
               in check (map_option (Wrap ''stored runnable verification action is invalid'')
                      (StoredVerificationReport_Validate cd val)) (Inr val))))"

definition ResolveRunnableVerificationLease ::
  "database \<Rightarrow> LeaseCredential \<Rightarrow> time \<Rightarrow> store \<Rightarrow> go_error + RevisionReference \<times> int"
where
  "ResolveRunnableVerificationLease db c now st =
     (if LeaseCredential_Validate c \<noteq> None \<or> ai_Phase (lc_Identity c) \<noteq> ActionVerify \<or> now = 0
      then Inl action_lease_lost
      else case live_row db c now st of
        None \<Rightarrow> Inl action_lease_lost
      | Some r \<Rightarrow> (case aw_revision r of
          None \<Rightarrow> Inl action_lease_lost
        | Some d \<Rightarrow> (case sql_row rv_digest d (st_revisions st) of
            None \<Rightarrow> Inl action_lease_lost
          | Some rv \<Rightarrow>
              let reference = \<lparr>ref_ID = rv_id rv, ref_Digest = d\<rparr>
              in check (map_option (Wrap ''stored runnable verification lease reference is invalid'')
                     (RevisionReference_Validate reference)) (Inr (reference, aw_attempt r)))))"

definition ValidateRunnableVerificationLease ::
  "database \<Rightarrow> LeaseCredential \<Rightarrow> RevisionReference \<Rightarrow> int \<Rightarrow> time \<Rightarrow> store \<Rightarrow> go_error option"
where
  "ValidateRunnableVerificationLease db c reference attempt now st =
     (if LeaseCredential_Validate c \<noteq> None \<or> ai_Phase (lc_Identity c) \<noteq> ActionVerify \<or>
         RevisionReference_Validate reference \<noteq> None \<or> attempt < 1 \<or> now = 0
      then Some action_lease_lost
      else case ResolveRunnableVerificationLease db c now st of
        Inl e \<Rightarrow> Some e
      | Inr (resolved, resolvedAttempt) \<Rightarrow>
          fail_if (resolved \<noteq> reference \<or> resolvedAttempt \<noteq> attempt) action_lease_lost)"

subsection \<open>Steps\<close>

text \<open>Every method that writes, as one step of the store.\<close>

inductive store_step :: "codec \<Rightarrow> database \<Rightarrow> decoders \<Rightarrow> store \<Rightarrow> store \<Rightarrow> bool" for cd db dc where
  schedule_materialization: "store_step cd db dc st (snd (ScheduleMaterialization cd db spec v now st))"
| schedule_verification: "store_step cd db dc st (snd (ScheduleVerification cd db reference v now st))"
| claim: "store_step cd db dc st (snd (ClaimRunnableAction cd db locked owner ttl now st))"
| renew: "store_step cd db dc st (snd (RenewRunnableAction db c ttl now st))"
| report_failure: "store_step cd db dc st (snd (ReportRunnableActionFailure db c class code summary now st))"
| complete_materialization: "store_step cd db dc st (snd (CompleteRunnableMaterialization cd db c val now st))"
| complete_verification: "store_step cd db dc st (snd (CompleteRunnableVerification cd db dc c rep now st))"
| store_source: "store_step cd db dc st (snd (StoreRunnableSource db source archive now st))"
| store_spec: "store_step cd db dc st (snd (StoreRunnableSpec cd db spec now st))"
| store_revision: "store_step cd db dc st (snd (StoreRunnableRevision cd db val st))"
| store_output: "store_step cd db dc st (snd (StoreRunnableExecutionOutput cd db c capture now st))"
| store_report: "store_step cd db dc st (snd (StoreVerificationReport cd db dc rep st))"

subsection \<open>What each method can change\<close>

lemma live_row_Some: "live_row db c now st = Some r \<Longrightarrow> r \<in> set (st_actions st) \<and> live db c now r"
  by (auto simp: live_row_def find_Some_iff)

lemma live_row_None: "live_row db c now st = None \<longleftrightarrow> (\<forall>r\<in>set (st_actions st). \<not> live db c now r)"
  by (auto simp: live_row_def find_None_iff)

lemma put_revision_result:
  "put_revision db m val d st = (res, st') \<Longrightarrow>
     st' = st \<or> (res = None \<and> ref_ID (sr_Reference val) \<notin> rv_id ` set (st_revisions st) \<and>
       ref_Digest (sr_Reference val) \<notin> rv_digest ` set (st_revisions st) \<and>
       st' = st \<lparr>st_revisions := st_revisions st @
         [\<lparr>rv_id = ref_ID (sr_Reference val), rv_digest = ref_Digest (sr_Reference val), rv_spec = d,
           rv_revision = sr_Revision val, rv_created = db_ts db (sr_CreatedAt val)\<rparr>]\<rparr>)"
  by (auto simp: put_revision_def sql_insert_def sql_row_None Let_def split: option.splits if_splits)

lemma put_revision_done:
  "put_revision db m val d st = (None, st') \<Longrightarrow> ref_Digest (sr_Reference val) \<in> rv_digest ` set (st_revisions st')"
  by (auto simp: put_revision_def sql_insert_def Let_def split: option.splits if_splits dest!: sql_row_Some)
    (metis image_eqI)+

lemma renew_result:
  "snd (RenewRunnableAction db c ttl now st) = st \<or>
   snd (RenewRunnableAction db c ttl now st) = st \<lparr>st_actions := fst (sql_update (live db c now)
     (\<lambda>r. r \<lparr>aw_expires := Some (db_ts db (now + ttl)), aw_updated := db_ts db now\<rparr>) (st_actions st))\<rparr>"
  by (simp add: RenewRunnableAction_def Let_def split: prod.splits)

lemma report_result:
  "snd (ReportRunnableActionFailure db c class code summary now st) = st \<or>
   (FailureClass_Valid class \<and> \<not> blank summary \<and> (\<exists>state at code'. state \<in> {Queued, Failed} \<and> \<not> blank code' \<and>
     snd (ReportRunnableActionFailure db c class code summary now st) =
       st \<lparr>st_actions := fst (sql_update (live db c now)
         (fail_action_row db state at class code' (cut MaxSummaryLength (trim summary)) now) (st_actions st))\<rparr>))"
proof -
  have ex: "\<not> blank ''attempts-exhausted''" by code_simp
  have tr: "\<not> blank code \<Longrightarrow> \<not> blank (trim code)" by (simp add: blank_def)
  show ?thesis
  proof (cases "live_row db c now st")
    case None
    then show ?thesis by (simp add: ReportRunnableActionFailure_def)
  next
    case (Some r)
    let ?retry = "class = FailureInfrastructure \<and> aw_attempt r < runnableActionMaxAttempts"
    let ?state = "if ?retry then Queued else Failed"
    let ?at = "if ?retry then now + RetryBackoff runnableActionRetryBase (aw_attempt r) else now"
    let ?code = "if class = FailureInfrastructure \<and> runnableActionMaxAttempts \<le> aw_attempt r
      then ''attempts-exhausted'' else trim code"
    let ?t = "fst (sql_update (live db c now) (fail_action_row db ?state ?at class ?code
      (cut MaxSummaryLength (trim summary)) now) (st_actions st))"
    have "snd (ReportRunnableActionFailure db c class code summary now st) = st \<or>
      (FailureClass_Valid class \<and> \<not> blank code \<and> \<not> blank summary \<and>
       snd (ReportRunnableActionFailure db c class code summary now st) = st \<lparr>st_actions := ?t\<rparr>)"
      using Some by (simp add: ReportRunnableActionFailure_def Let_def case_prod_unfold)
    then show ?thesis
    proof
      assume s: "FailureClass_Valid class \<and> \<not> blank code \<and> \<not> blank summary \<and>
       snd (ReportRunnableActionFailure db c class code summary now st) = st \<lparr>st_actions := ?t\<rparr>"
      have "?state \<in> {Queued, Failed}" "\<not> blank ?code" using s ex tr by auto
      with s show ?thesis by blast
    qed simp
  qed
qed

lemma complete_materialization_result:
  "snd (CompleteRunnableMaterialization cd db c val now st) = st \<or>
   (\<exists>r st1. live_row db c now st = Some r \<and> credential_ok c \<and> ai_Phase (lc_Identity c) = ActionMaterializeArtifact \<and>
     StoredRevision_Validate cd val = None \<and>
     aw_spec r = digest_bytes (cd_spec cd (rr_Spec (sr_Revision val))) \<and>
     ai_SpecDigest (lc_Identity c) = aw_spec r \<and> ai_Content (lc_Identity c) = rs_Identity (rr_Spec (sr_Revision val)) \<and>
     put_revision db ''read stored materialized runnable revision'' val (aw_spec r) st = (None, st1) \<and>
     snd (CompleteRunnableMaterialization cd db c val now st) =
       st1 \<lparr>st_actions := fst (sql_update (live db c now)
         (complete_action_row db now (Some (ref_Digest (sr_Reference val)))) (st_actions st1))\<rparr>)"
proof (cases "LeaseCredential_Validate c \<noteq> None \<or> ai_Phase (lc_Identity c) \<noteq> ActionMaterializeArtifact \<or> now = 0 \<or>
    StoredRevision_Validate cd val \<noteq> None")
  case True
  then show ?thesis by (auto simp: CompleteRunnableMaterialization_def)
next
  case False
  obtain e st1 where put: "put_revision db ''read stored materialized runnable revision'' val
      (digest_bytes (cd_spec cd (rr_Spec (sr_Revision val)))) st = (e, st1)"
    by (metis prod.collapse)
  from False show ?thesis
    by (auto simp: CompleteRunnableMaterialization_def Let_def case_prod_unfold RunnableSpec_Digest_Inr put LeaseCredential_Validate_None
        split: sum.splits option.splits)
qed

lemma complete_verification_result:
  "snd (CompleteRunnableVerification cd db dc c val now st) = st \<or>
   (\<exists>r reports n. live_row db c now st = Some r \<and> credential_ok c \<and> ai_Phase (lc_Identity c) = ActionVerify \<and>
     StoredVerificationReport_Validate cd val = None \<and>
     aw_revision r = Some (digest_bytes (cd_revision cd (svr_RunnableRevision val))) \<and>
     vr_Attempt (svr_Report val) = aw_attempt r \<and>
     validateRunnableVerificationOutputsTx cd dc st (svr_Report val) = None \<and>
     insert_report (new_report_row db val (digest_bytes (cd_revision cd (svr_RunnableRevision val)))) (st_reports st)
       = Inr (reports, n) \<and>
     snd (CompleteRunnableVerification cd db dc c val now st) = st \<lparr>st_reports := reports,
       st_actions := fst (sql_update (\<lambda>x. aw_key x = ActionIdentity_Key (lc_Identity c))
         (complete_action_row db now None) (st_actions st))\<rparr>)"
proof (cases "LeaseCredential_Validate c \<noteq> None \<or> ai_Phase (lc_Identity c) \<noteq> ActionVerify \<or> now = 0 \<or>
    StoredVerificationReport_Validate cd val \<noteq> None")
  case True
  then show ?thesis by (auto simp: CompleteRunnableVerification_def)
next
  case False
  then show ?thesis
    by (auto simp: CompleteRunnableVerification_def Let_def RunnableRevision_Digest_Inr LeaseCredential_Validate_None
        split: sum.splits option.splits)
qed

lemma claim_result:
  assumes "ClaimRunnableAction cd db locked owner ttl now st = (res, st')"
  shows "(st' = st \<and> (\<forall>x. res \<noteq> Inr (Some x))) \<or>
   (\<exists>r val. \<not> blank owner \<and> 0 < ttl \<and> r \<in> set (st_actions st) \<and> action_eligible db now r \<and>
     res = Inr (Some val) \<and>
     st' = st \<lparr>st_actions := fst (sql_update (\<lambda>x. aw_key x = aw_key r)
             (claim_action_row db owner ttl now (aw_attempt r + 1)) (st_actions st))\<rparr> \<and>
     runnableActionContextTx cd r (aw_attempt r + 1) owner st' = Inr val)"
proof (cases "sql_first (order3 db aw_next aw_created aw_key)
    (\<lambda>r. action_eligible db now r \<and> aw_key r \<notin> set locked) (st_actions st)")
  case None
  then show ?thesis using assms by (auto simp: ClaimRunnableAction_def split: if_splits)
next
  case (Some r)
  then show ?thesis
    using assms sql_first_Some [OF Some]
    by (auto simp: ClaimRunnableAction_def Let_def split: if_splits sum.splits)
qed

lemma schedule_result:
  "st_actions (snd (ScheduleMaterialization cd db spec v now st)) = st_actions st \<or>
   (\<exists>i. ActionIdentity_Validate i = None \<and> ai_Phase i = ActionMaterializeArtifact \<and>
      st_actions (snd (ScheduleMaterialization cd db spec v now st)) =
        runnableActionReschedule db now (new_action_row db i None now) (st_actions st))"
  by (auto simp: ScheduleMaterialization_def StoreRunnableSpec_def insertRunnableSpecTx_def Let_def
      split: sum.splits option.splits)

lemma schedule_verification_result:
  "snd (ScheduleVerification cd db reference v now st) = st \<or>
   (\<exists>i revision. ai_Phase i = ActionVerify \<and> revision_ok cd revision \<and> ai_Content i = rs_Identity (rr_Spec revision) \<and>
      ai_SpecDigest i = digest_bytes (cd_spec cd (rr_Spec revision)) \<and> 1 \<le> ai_StateVersion i \<and>
      snd (ScheduleVerification cd db reference v now st) = st \<lparr>st_actions :=
        runnableActionReschedule db now (new_action_row db i (Some (ref_Digest reference)) now) (st_actions st)\<rparr>)"
proof (cases "ResolveRunnableRevision cd (ref_ID reference) (ref_Digest reference) st")
  case (Inl e)
  then show ?thesis by (auto simp: ScheduleVerification_def)
next
  case (Inr revision)
  then have "revision_ok cd revision"
    by (auto simp: ResolveRunnableRevision_def RunnableRevision_Digest_Inr split: if_splits option.splits sum.splits)
  moreover from this have "RunnableSpec_Digest cd (rr_Spec revision) = Inr (digest_bytes (cd_spec cd (rr_Spec revision)))"
    by (simp add: RunnableSpec_Digest_Inr revision_ok_def)
  ultimately show ?thesis
  proof (cases "RevisionReference_Validate reference \<noteq> None \<or> v < 1 \<or> now = 0")
    case False
    let ?i = "\<lparr>ai_Content = rs_Identity (rr_Spec revision), ai_SpecDigest = digest_bytes (cd_spec cd (rr_Spec revision)),
        ai_Phase = ActionVerify, ai_StateVersion = v\<rparr>"
    have "snd (ScheduleVerification cd db reference v now st) = st \<lparr>st_actions :=
        runnableActionReschedule db now (new_action_row db ?i (Some (ref_Digest reference)) now) (st_actions st)\<rparr>"
      using False Inr \<open>RunnableSpec_Digest _ _ = _\<close> by (simp add: ScheduleVerification_def Let_def)
    then show ?thesis
      using False \<open>revision_ok cd revision\<close> by (intro disjI2 exI [of _ ?i] exI [of _ revision]) simp
  qed (auto simp: ScheduleVerification_def)
qed

end
