(* ===== verification/ActionInvariant.thy ===== *)
theory ActionInvariant
  imports ActionQueue
begin

section \<open>Invariants and properties of the action queue\<close>

text \<open>
  What holds of every store that the methods of \<open>ActionQueue\<close> reach from the empty one: the keys,
  checks and foreign keys of the schema, content addressing, and the state machine of an action row.
  The properties at the end: finished actions never change, an action without a live lease is out
  of a worker's reach, failures are retried within bounds, and a completed materialization is what
  its coordinator resolves.
\<close>

subsection \<open>The invariant\<close>

definition action_row_ok :: "action_row \<Rightarrow> bool" where
  "action_row_ok r \<longleftrightarrow> aw_key r = ActionIdentity_Key (row_identity r) \<and> identity_ok (row_identity r) \<and>
     0 \<le> aw_attempt r \<and> (aw_owner r = [] \<longleftrightarrow> aw_expires r = None) \<and>
     (aw_state r = Running \<longleftrightarrow> aw_expires r \<noteq> None) \<and> (aw_state r = Running \<longrightarrow> 1 \<le> aw_attempt r) \<and>
     (aw_phase r = ActionMaterializeArtifact \<longrightarrow> (aw_revision r \<noteq> None \<longleftrightarrow> aw_state r = Completed)) \<and>
     (aw_phase r = ActionVerify \<longrightarrow> aw_revision r \<noteq> None) \<and>
     (aw_state r = Failed \<longrightarrow> (\<exists>class. aw_class r = Some class \<and> FailureClass_Valid class) \<and>
        \<not> blank (aw_code r) \<and> \<not> blank (aw_summary r))"

definition actions_ok :: "action_row list \<Rightarrow> bool" where
  "actions_ok t \<longleftrightarrow> distinct (map aw_key t) \<and> (\<forall>r\<in>set t. action_row_ok r)"

definition sources_ok :: "source_row list \<Rightarrow> bool" where
  "sources_ok t \<longleftrightarrow> distinct (map so_digest t) \<and> (\<forall>r\<in>set t. so_digest r = runnableArchiveDigest (so_archive r))"

definition specs_ok :: "codec \<Rightarrow> spec_row list \<Rightarrow> bool" where
  "specs_ok cd t \<longleftrightarrow> distinct (map sp_digest t) \<and>
     (\<forall>r\<in>set t. RunnableSpec_Digest cd (sp_spec r) = Inr (sp_digest r) \<and> sp_content r = rs_Identity (sp_spec r) \<and>
        sp_source r = sa_Digest (rs_Source (sp_spec r)))"

definition revisions_ok :: "codec \<Rightarrow> revision_row list \<Rightarrow> bool" where
  "revisions_ok cd t \<longleftrightarrow> distinct (map rv_id t) \<and> distinct (map rv_digest t) \<and>
     (\<forall>r\<in>set t. RevisionReference_Validate \<lparr>ref_ID = rv_id r, ref_Digest = rv_digest r\<rparr> = None \<and>
        RunnableRevision_Digest cd (rv_revision r) = Inr (rv_digest r) \<and>
        RunnableSpec_Digest cd (rr_Spec (rv_revision r)) = Inr (rv_spec r))"

definition outputs_ok :: "output_row list \<Rightarrow> bool" where
  "outputs_ok t \<longleftrightarrow> distinct (map ow_digest t) \<and> (\<forall>r\<in>set t. ow_digest r = runnableArchiveDigest (ow_capture r))"

definition reports_ok :: "report_row list \<Rightarrow> bool" where
  "reports_ok t \<longleftrightarrow> distinct (map vw_id t) \<and> distinct (map vw_digest t)"

definition references_ok :: "store \<Rightarrow> bool" where
  "references_ok st \<longleftrightarrow>
     aw_spec ` set (st_actions st) \<subseteq> sp_digest ` set (st_specs st) \<and>
     rv_spec ` set (st_revisions st) \<subseteq> sp_digest ` set (st_specs st) \<and>
     (\<forall>r\<in>set (st_actions st). \<forall>d. aw_revision r = Some d \<longrightarrow> d \<in> rv_digest ` set (st_revisions st)) \<and>
     vw_revision ` set (st_reports st) \<subseteq> rv_digest ` set (st_revisions st)"

definition store_ok :: "codec \<Rightarrow> store \<Rightarrow> bool" where
  "store_ok cd st \<longleftrightarrow> actions_ok (st_actions st) \<and> sources_ok (st_sources st) \<and> specs_ok cd (st_specs st) \<and>
     revisions_ok cd (st_revisions st) \<and> outputs_ok (st_outputs st) \<and> reports_ok (st_reports st) \<and>
     references_ok st"

lemma empty_store_ok: "store_ok cd empty_store"
  by (simp add: store_ok_def empty_store_def actions_ok_def sources_ok_def specs_ok_def revisions_ok_def
      outputs_ok_def reports_ok_def references_ok_def)

subsection \<open>Rows\<close>

lemma actions_same: "actions_ok t \<Longrightarrow> r \<in> set t \<Longrightarrow> s \<in> set t \<Longrightarrow> aw_key r = aw_key s \<Longrightarrow> r = s"
  by (auto simp: actions_ok_def distinct_map inj_on_def)

lemma actions_update_ok:
  assumes "actions_ok t" "\<And>v. aw_key (f v) = aw_key v"
    and "\<And>v. v \<in> set t \<Longrightarrow> P v \<Longrightarrow> action_row_ok (f v)"
  shows "actions_ok (fst (sql_update P f t))"
  using assms sql_update_keys [of aw_key f, OF assms(2)]
  by (auto simp: actions_ok_def sql_update_set)

lemma blank_trim_cut: "\<not> blank s \<Longrightarrow> \<not> blank (cut MaxSummaryLength (trim s))"
  using trim_cut [of s MaxSummaryLength] by (auto simp: blank_def cut_take MaxSummaryLength_def)

lemma live_running: "live db c now r \<Longrightarrow> aw_state r = Running"
  by (simp add: live_def)

lemma row_identity_simps [simp]:
  "row_identity (claim_action_row db owner ttl now n r) = row_identity r"
  "row_identity (fail_action_row db state at class code summary now r) = row_identity r"
  "row_identity (complete_action_row db now d r) = row_identity r"
  "row_identity (reset_action_row db now r) = row_identity r"
  "row_identity (new_action_row db i d now) = i"
  "row_identity (r \<lparr>aw_expires := x, aw_updated := u\<rparr>) = row_identity r"
  by (simp_all add: row_identity_def claim_action_row_def fail_action_row_def complete_action_row_def
      reset_action_row_def new_action_row_def)

lemma aw_key_simps [simp]:
  "aw_key (claim_action_row db owner ttl now n r) = aw_key r"
  "aw_key (fail_action_row db state at class code summary now r) = aw_key r"
  "aw_key (complete_action_row db now d r) = aw_key r"
  "aw_key (reset_action_row db now r) = aw_key r"
  "aw_key (new_action_row db i d now) = ActionIdentity_Key i"
  by (simp_all add: claim_action_row_def fail_action_row_def complete_action_row_def
      reset_action_row_def new_action_row_def)

lemma claim_row_ok:
  "action_row_ok r \<Longrightarrow> aw_state r = Queued \<or> aw_state r = Running \<Longrightarrow> \<not> blank owner \<Longrightarrow>
     action_row_ok (claim_action_row db owner ttl now (aw_attempt r + 1) r)"
  unfolding action_row_ok_def row_identity_def claim_action_row_def
  by (cases "owner = []"; elim disjE; simp add: blank_def)

lemma renew_row_ok:
  "action_row_ok r \<Longrightarrow> aw_state r = Running \<Longrightarrow> action_row_ok (r \<lparr>aw_expires := Some e, aw_updated := u\<rparr>)"
  unfolding action_row_ok_def row_identity_def by simp

lemma fail_row_ok:
  "action_row_ok r \<Longrightarrow> aw_state r = Running \<Longrightarrow> state \<in> {Queued, Failed} \<Longrightarrow> FailureClass_Valid class \<Longrightarrow>
     \<not> blank code \<Longrightarrow> \<not> blank summary \<Longrightarrow>
     action_row_ok (fail_action_row db state at class code summary now r)"
  unfolding action_row_ok_def row_identity_def fail_action_row_def
  by (elim insertE; simp)

lemma complete_row_ok:
  "action_row_ok r \<Longrightarrow> aw_state r = Running \<Longrightarrow> aw_phase r = ActionMaterializeArtifact \<longrightarrow> d \<noteq> None \<Longrightarrow>
     action_row_ok (complete_action_row db now d r)"
  unfolding action_row_ok_def row_identity_def complete_action_row_def
  by (cases d) simp_all

lemma reset_row_ok:
  "action_row_ok r \<Longrightarrow> aw_state r = Failed \<Longrightarrow> action_row_ok (reset_action_row db now r)"
  unfolding action_row_ok_def row_identity_def reset_action_row_def
  by simp

lemma new_row_ok:
  "identity_ok i \<Longrightarrow> ai_Phase i = ActionMaterializeArtifact \<and> d = None \<or> ai_Phase i = ActionVerify \<and> d \<noteq> None \<Longrightarrow>
     action_row_ok (new_action_row db i d now)"
  unfolding action_row_ok_def
  by (elim disjE; simp; simp add: new_action_row_def)

lemma reschedule_ok:
  assumes "actions_ok t" "action_row_ok row"
  shows "actions_ok (runnableActionReschedule db now row t)"
proof (cases "aw_key row \<in> aw_key ` set t")
  case True
  then show ?thesis
    using assms by (simp add: runnableActionReschedule_def)
      (rule actions_update_ok, auto simp: actions_ok_def intro: reset_row_ok)
next
  case False
  then show ?thesis using assms by (auto simp: runnableActionReschedule_def actions_ok_def)
qed

lemma live_key_row:
  assumes "actions_ok (st_actions st)" "live_row db c now st = Some r" "x \<in> set (st_actions st)"
    and "aw_key x = ActionIdentity_Key (lc_Identity c)"
  shows "x = r"
  using assms live_row_Some [OF assms(2)] by (intro actions_same [OF assms(1)]) (auto simp: live_def)

lemma spec_identity_ok:
  assumes "spec_ok s" "ai_Content i = rs_Identity s" "ai_SpecDigest i = digest_bytes (cd_spec cd s)"
    and "ActionPhase_Valid (ai_Phase i)" "1 \<le> ai_StateVersion i"
  shows "identity_ok i"
  using assms by (simp add: identity_ok_def spec_ok_def ContentIdentity_Validate_def valid_simps)

subsection \<open>Every step keeps the action rows well formed\<close>

lemma step_actions_ok:
  assumes "store_step cd db dc st st'" "actions_ok (st_actions st)"
  shows "actions_ok (st_actions st')"
  using assms(1)
proof cases
  case (schedule_materialization spec v now)
  then show ?thesis
    using schedule_result [of cd db spec v now st] assms(2)
    by (auto simp: ActionIdentity_Validate_None intro!: reschedule_ok new_row_ok)
next
  case (schedule_verification reference v now)
  then show ?thesis
    using schedule_verification_result [of cd db reference v now st] assms(2)
    by (auto simp: ActionPhase_Valid_def revision_ok_def intro!: reschedule_ok new_row_ok spec_identity_ok)
next
  case (claim locked owner ttl now)
  obtain res where r: "ClaimRunnableAction cd db locked owner ttl now st = (res, st')"
    using claim by (metis prod.collapse)
  from claim_result [OF this] show ?thesis
  proof (elim disjE conjE exE)
    fix r val
    assume h: "\<not> blank owner" "r \<in> set (st_actions st)" "action_eligible db now r"
      "st' = st \<lparr>st_actions := fst (sql_update (\<lambda>x. aw_key x = aw_key r)
             (claim_action_row db owner ttl now (aw_attempt r + 1)) (st_actions st))\<rparr>"
    have "action_row_ok (claim_action_row db owner ttl now (aw_attempt r + 1) v)"
      if "v \<in> set (st_actions st)" "aw_key v = aw_key r" for v
    proof -
      have "v = r" using actions_same [OF assms(2) that(1) h(2) that(2)] .
      then show ?thesis
        using h assms(2) by (auto simp: actions_ok_def action_eligible_def intro: claim_row_ok)
    qed
    then show ?thesis using h(4) assms(2) by (simp add: actions_update_ok)
  qed (use assms(2) in simp)
next
  case (renew c ttl now)
  have "actions_ok (fst (sql_update (live db c now)
     (\<lambda>r. r \<lparr>aw_expires := Some (db_ts db (now + ttl)), aw_updated := db_ts db now\<rparr>) (st_actions st)))"
    using assms(2) by (intro actions_update_ok) (auto simp: actions_ok_def intro: renew_row_ok live_running)
  then show ?thesis
    using renew renew_result [of db c ttl now st] assms(2) by auto
next
  case (report_failure c cls code summary now)
  have "actions_ok (fst (sql_update (live db c now)
         (fail_action_row db state at cls code' (cut MaxSummaryLength (trim summary)) now) (st_actions st)))"
    if "state \<in> {Queued, Failed}" "FailureClass_Valid cls" "\<not> blank code'" "\<not> blank summary" for state at code'
    using assms(2) that
    by (intro actions_update_ok) (auto simp: actions_ok_def intro!: fail_row_ok blank_trim_cut dest: live_running)
  then show ?thesis
    using report_failure report_result [of db c cls code summary now st] assms(2) by auto
next
  case (complete_materialization c val now)
  have "actions_ok (fst (sql_update (live db c now) (complete_action_row db now (Some d)) (st_actions st)))" for d
    using assms(2) by (intro actions_update_ok) (auto simp: actions_ok_def intro!: complete_row_ok dest: live_running)
  moreover have "st_actions st1 = st_actions st"
    if "put_revision db m val d st = (e, st1)" for m d e st1
    using put_revision_result [OF that] by auto
  ultimately show ?thesis
    using complete_materialization complete_materialization_result [of cd db c val now st] assms(2) by auto
next
  case (complete_verification c rep now)
  have "actions_ok (fst (sql_update (\<lambda>x. aw_key x = ActionIdentity_Key (lc_Identity c))
      (complete_action_row db now None) (st_actions st)))"
    if "live_row db c now st = Some r" "ai_Phase (lc_Identity c) = ActionVerify" "credential_ok c" for r
  proof (intro actions_update_ok assms(2) aw_key_simps)
    fix v assume v: "v \<in> set (st_actions st)" "aw_key v = ActionIdentity_Key (lc_Identity c)"
    then have "v = r" using live_key_row [OF assms(2) that(1)] by blast
    then have "aw_state v = Running" using live_row_Some [OF that(1)] live_running by blast
    moreover have "row_identity v = lc_Identity c"
      using v assms(2) that(3) by (intro key_inject) (auto simp: actions_ok_def action_row_ok_def credential_ok_def)
    then have "aw_phase v = ActionVerify" using that(2) by (metis ActionIdentity.select_convs(3) row_identity_def)
    ultimately show "action_row_ok (complete_action_row db now None v)"
      using v(1) assms(2) by (intro complete_row_ok) (auto simp: actions_ok_def)
  qed
  then show ?thesis
    using complete_verification complete_verification_result [of cd db dc c rep now st] assms(2) by auto
next
  case (store_source source archive now)
  then show ?thesis using assms(2)
    by (auto simp: StoreRunnableSource_def Let_def split: if_splits prod.splits option.splits)
next
  case (store_spec spec now)
  then show ?thesis using assms(2)
    by (auto simp: StoreRunnableSpec_def insertRunnableSpecTx_def split: sum.splits)
next
  case (store_revision val)
  then show ?thesis using assms(2)
    by (auto simp: StoreRunnableRevision_def insertRunnableSpecTx_def split: sum.splits option.splits prod.splits
        dest!: put_revision_result)
next
  case (store_output c capture now)
  then show ?thesis using assms(2)
    by (auto simp: StoreRunnableExecutionOutput_def Let_def split: sum.splits option.splits prod.splits if_splits)
next
  case (store_report rep)
  then show ?thesis using assms(2)
    by (auto simp: StoreVerificationReport_def Let_def split: sum.splits option.splits prod.splits if_splits)
qed

subsection \<open>Finished actions and stored revisions stay\<close>

text \<open>
  A row that no method may touch again: completed, or failed for a reason other than the
  infrastructure.
\<close>

definition settled :: "action_row \<Rightarrow> bool" where
  "settled r \<longleftrightarrow> aw_state r = Completed \<or> (aw_state r = Failed \<and> aw_class r \<noteq> Some FailureInfrastructure)"

lemma update_keeps: "r \<in> set t \<Longrightarrow> \<not> P r \<Longrightarrow> r \<in> set (fst (sql_update P f t))"
  by (auto simp: sql_update_set)

lemma live_update_keeps: "r \<in> set t \<Longrightarrow> settled r \<Longrightarrow> r \<in> set (fst (sql_update (live db c now) f t))"
  by (rule update_keeps) (auto simp: settled_def live_def)

lemma settled_not_live: "settled r \<Longrightarrow> \<not> live db c now r"
  by (auto simp: settled_def live_def)

lemma reschedule_keeps: "r \<in> set t \<Longrightarrow> settled r \<Longrightarrow> r \<in> set (runnableActionReschedule db now row t)"
  by (auto simp: runnableActionReschedule_def settled_def intro: update_keeps)

lemma step_settled:
  assumes "store_step cd db dc st st'" "actions_ok (st_actions st)" "r \<in> set (st_actions st)" "settled r"
  shows "r \<in> set (st_actions st')"
  using assms(1)
proof cases
  case (schedule_materialization spec v now)
  then show ?thesis
    using schedule_result [of cd db spec v now st] assms(3,4) reschedule_keeps by auto
next
  case (schedule_verification reference v now)
  then show ?thesis
    using schedule_verification_result [of cd db reference v now st] assms(3,4) by (auto intro: reschedule_keeps)
next
  case (claim locked owner ttl now)
  obtain res where c: "ClaimRunnableAction cd db locked owner ttl now st = (res, st')"
    using claim by (metis prod.collapse)
  from claim_result [OF this] show ?thesis
  proof (elim disjE conjE exE)
    fix w assume h: "w \<in> set (st_actions st)" "action_eligible db now w"
      "st' = st \<lparr>st_actions := fst (sql_update (\<lambda>x. aw_key x = aw_key w)
             (claim_action_row db owner ttl now (aw_attempt w + 1)) (st_actions st))\<rparr>"
    have "aw_key r \<noteq> aw_key w"
      using actions_same [OF assms(2,3) h(1)] h(2) assms(4) by (auto simp: settled_def action_eligible_def)
    then show ?thesis using h(3) assms(3) by (simp add: update_keeps)
  qed (use assms(3) in simp)
next
  case (renew c ttl now)
  then show ?thesis
    using renew_result [of db c ttl now st] live_update_keeps [OF assms(3,4)] assms(3) by auto
next
  case (report_failure c cls code summary now)
  then show ?thesis
    using report_result [of db c cls code summary now st]
      live_update_keeps [OF assms(3,4)] assms(3) by auto
next
  case (complete_materialization c val now)
  then show ?thesis
    using complete_materialization_result [of cd db c val now st]
      live_update_keeps [OF assms(3,4)] assms(3)
    by (auto dest!: put_revision_result)
next
  case (complete_verification c rep now)
  have "aw_key r \<noteq> ActionIdentity_Key (lc_Identity c)" if "live_row db c now st = Some w" for w
    using live_key_row [OF assms(2) that assms(3)] live_row_Some [OF that] settled_not_live [OF assms(4)] by auto
  then show ?thesis
    using complete_verification complete_verification_result [of cd db dc c rep now st] assms(3)
    by (auto intro: update_keeps)
next
  case (store_source source archive now)
  then show ?thesis using assms(3)
    by (auto simp: StoreRunnableSource_def Let_def split: if_splits prod.splits option.splits)
next
  case (store_spec spec now)
  then show ?thesis using assms(3)
    by (auto simp: StoreRunnableSpec_def insertRunnableSpecTx_def split: sum.splits)
next
  case (store_revision val)
  then show ?thesis using assms(3)
    by (auto simp: StoreRunnableRevision_def insertRunnableSpecTx_def split: sum.splits option.splits prod.splits
        dest!: put_revision_result)
next
  case (store_output c capture now)
  then show ?thesis using assms(3)
    by (auto simp: StoreRunnableExecutionOutput_def Let_def split: sum.splits option.splits prod.splits if_splits)
next
  case (store_report rep)
  then show ?thesis using assms(3)
    by (auto simp: StoreVerificationReport_def Let_def split: sum.splits option.splits prod.splits if_splits)
qed

text \<open>How the revision table changes: not at all, or by one row that was validated.\<close>

definition revisions_grow :: "codec \<Rightarrow> store \<Rightarrow> store \<Rightarrow> bool" where
  "revisions_grow cd st st' \<longleftrightarrow> st_revisions st' = st_revisions st \<or>
     (\<exists>rv. st_revisions st' = st_revisions st @ [rv] \<and>
        rv_id rv \<notin> rv_id ` set (st_revisions st) \<and> rv_digest rv \<notin> rv_digest ` set (st_revisions st) \<and>
        RevisionReference_Validate \<lparr>ref_ID = rv_id rv, ref_Digest = rv_digest rv\<rparr> = None \<and>
        RunnableRevision_Digest cd (rv_revision rv) = Inr (rv_digest rv) \<and>
        RunnableSpec_Digest cd (rr_Spec (rv_revision rv)) = Inr (rv_spec rv))"

lemma StoredRevision_Validate_None:
  "StoredRevision_Validate cd val = None \<longleftrightarrow> RevisionReference_Validate (sr_Reference val) = None \<and>
     RunnableRevision_Digest cd (sr_Revision val) = Inr (ref_Digest (sr_Reference val)) \<and> sr_CreatedAt val \<noteq> 0"
proof -
  have "(case c of Inl e \<Rightarrow> Some e | Inr d \<Rightarrow> fail_if (x \<noteq> d \<or> b) m) = None \<longleftrightarrow> c = Inr x \<and> \<not> b"
    for c :: "go_error + string" and x b m
    by (cases c) auto
  moreover have "RunnableRevision_Digest cd r = Inr d \<Longrightarrow> RunnableRevision_Validate cd r = None" for r d
    by (simp add: RunnableRevision_Digest_Inr RunnableRevision_Validate_None)
  ultimately show ?thesis by (auto simp: StoredRevision_Validate_def first_error_Cons)
qed

lemma put_revision_grows:
  assumes "put_revision db m val d st = (e, st')" "StoredRevision_Validate cd val = None"
    and "RunnableSpec_Digest cd (rr_Spec (sr_Revision val)) = Inr d"
  shows "revisions_grow cd st st'"
proof -
  have eta: "\<lparr>ref_ID = ref_ID r, ref_Digest = ref_Digest r\<rparr> = r" for r :: RevisionReference by simp
  show ?thesis
    using put_revision_result [OF assms(1)] assms(2,3)
    by (auto simp: revisions_grow_def StoredRevision_Validate_None eta)
qed

lemma step_revisions:
  assumes "store_step cd db dc st st'"
  shows "revisions_grow cd st st'"
  using assms
proof cases
  case (complete_materialization c val now)
  from complete_materialization_result [of cd db c val now st] show ?thesis
  proof (elim disjE exE conjE)
    fix r st1 assume h: "StoredRevision_Validate cd val = None"
      "aw_spec r = digest_bytes (cd_spec cd (rr_Spec (sr_Revision val)))"
      "put_revision db ''read stored materialized runnable revision'' val (aw_spec r) st = (None, st1)"
      "snd (CompleteRunnableMaterialization cd db c val now st) =
       st1 \<lparr>st_actions := fst (sql_update (live db c now)
         (complete_action_row db now (Some (ref_Digest (sr_Reference val)))) (st_actions st1))\<rparr>"
    have "spec_ok (rr_Spec (sr_Revision val))"
      using h(1) by (simp add: StoredRevision_Validate_None RunnableRevision_Digest_Inr revision_ok_def)
    then have "revisions_grow cd st st1"
      using put_revision_grows [OF h(3,1)] h(2) by (simp add: RunnableSpec_Digest_Inr)
    then show ?thesis using complete_materialization h(4) by (simp add: revisions_grow_def)
  qed (use complete_materialization in \<open>simp add: revisions_grow_def\<close>)
next
  case (store_revision val)
  show ?thesis
  proof (cases "StoredRevision_Validate cd val")
    case None
    then obtain d where d: "RunnableSpec_Digest cd (rr_Spec (sr_Revision val)) = Inr d"
      by (auto simp: StoredRevision_Validate_None RunnableRevision_Digest_Inr RunnableSpec_Digest_Inr revision_ok_def)
    define st1 where "st1 = snd (insertRunnableSpecTx cd db (rr_Spec (sr_Revision val)) (sr_CreatedAt val) st)"
    have s: "insertRunnableSpecTx cd db (rr_Spec (sr_Revision val)) (sr_CreatedAt val) st = (Inr d, st1)"
      "st_revisions st1 = st_revisions st"
      by (simp_all add: st1_def insertRunnableSpecTx_def d)
    obtain e st2 where p: "put_revision db ''read stored runnable revision'' val d st1 = (e, st2)"
      by (metis prod.collapse)
    have "revisions_grow cd st st2"
      using put_revision_grows [OF p None d] s(2) by (simp add: revisions_grow_def)
    then show ?thesis
      using store_revision None s(1) p by (cases e) (simp_all add: StoreRunnableRevision_def revisions_grow_def)
  qed (use store_revision in \<open>simp add: StoreRunnableRevision_def revisions_grow_def\<close>)
next
  case (schedule_materialization spec v now)
  then show ?thesis
    by (auto simp: ScheduleMaterialization_def StoreRunnableSpec_def insertRunnableSpecTx_def revisions_grow_def Let_def
        split: sum.splits option.splits)
next
  case (schedule_verification reference v now)
  then show ?thesis
    using schedule_verification_result [of cd db reference v now st] by (auto simp: revisions_grow_def)
next
  case (claim locked owner ttl now)
  then show ?thesis
    using claim_result [of cd db locked owner ttl now st] by (cases "ClaimRunnableAction cd db locked owner ttl now st")
      (auto simp: revisions_grow_def)
next
  case (renew c ttl now)
  then show ?thesis using renew_result [of db c ttl now st] by (auto simp: revisions_grow_def)
next
  case (report_failure c cls code summary now)
  then show ?thesis using report_result [of db c cls code summary now st] by (auto simp: revisions_grow_def)
next
  case (complete_verification c rep now)
  then show ?thesis
    using complete_verification_result [of cd db dc c rep now st] by (auto simp: revisions_grow_def)
next
  case (store_source source archive now)
  then show ?thesis
    by (auto simp: StoreRunnableSource_def revisions_grow_def Let_def split: if_splits prod.splits option.splits)
next
  case (store_spec spec now)
  then show ?thesis
    by (auto simp: StoreRunnableSpec_def insertRunnableSpecTx_def revisions_grow_def split: sum.splits)
next
  case (store_output c capture now)
  then show ?thesis
    by (auto simp: StoreRunnableExecutionOutput_def revisions_grow_def Let_def
        split: sum.splits option.splits prod.splits if_splits)
next
  case (store_report rep)
  then show ?thesis
    by (auto simp: StoreVerificationReport_def revisions_grow_def Let_def
        split: sum.splits option.splits prod.splits if_splits)
qed

lemma grow_ok: "revisions_grow cd st st' \<Longrightarrow> revisions_ok cd (st_revisions st) \<Longrightarrow> revisions_ok cd (st_revisions st')"
  by (auto simp: revisions_grow_def revisions_ok_def)

lemma grow_subset: "revisions_grow cd st st' \<Longrightarrow> set (st_revisions st) \<subseteq> set (st_revisions st')"
  by (auto simp: revisions_grow_def)

lemma steps_keep:
  assumes "(store_step cd db dc)\<^sup>*\<^sup>* st st'" "actions_ok (st_actions st)" "revisions_ok cd (st_revisions st)"
  shows "actions_ok (st_actions st') \<and> revisions_ok cd (st_revisions st') \<and>
    set (st_revisions st) \<subseteq> set (st_revisions st') \<and>
    (\<forall>r\<in>set (st_actions st). settled r \<longrightarrow> r \<in> set (st_actions st'))"
  using assms
proof (induction rule: rtranclp_induct)
  case (step st1 st2)
  then show ?case
    using step_actions_ok [OF step.hyps(2)] step_settled [OF step.hyps(2)]
      grow_ok [OF step_revisions [OF step.hyps(2)]] grow_subset [OF step_revisions [OF step.hyps(2)]]
    by (meson subset_trans)
qed simp

subsection \<open>Looking up the row of an identity\<close>

lemma identity_row_of:
  assumes "actions_ok (st_actions st)" "r \<in> set (st_actions st)" "row_identity r = i"
  shows "identity_row i st = Some r"
proof -
  have k: "aw_key r = ActionIdentity_Key i" using assms by (auto simp: actions_ok_def action_row_ok_def)
  have "identity_row i st \<noteq> None" using assms(2,3) k by (auto simp: identity_row_def find_None_iff)
  then obtain x where x: "identity_row i st = Some x" by blast
  then have "x \<in> set (st_actions st)" "aw_key x = ActionIdentity_Key i"
    by (auto simp: identity_row_def find_Some_iff)
  then have "x = r" using actions_same [OF assms(1) _ assms(2)] k by simp
  then show ?thesis using x by simp
qed

lemma complete_materialization_changes:
  assumes "CompleteRunnableMaterialization cd db c val now st = (None, st1)"
  shows "\<exists>r w. live_row db c now st = Some r \<and> credential_ok c \<and>
    ai_Phase (lc_Identity c) = ActionMaterializeArtifact \<and> w \<in> set (st_actions st1) \<and>
    w = complete_action_row db now (Some (ref_Digest (sr_Reference val))) r \<and>
    ref_Digest (sr_Reference val) \<in> rv_digest ` set (st_revisions st1)"
proof -
  obtain r d st2 where r: "live_row db c now st = Some r" "LeaseCredential_Validate c = None"
    "ai_Phase (lc_Identity c) = ActionMaterializeArtifact"
    "put_revision db ''read stored materialized runnable revision'' val d st = (None, st2)"
    "st1 = st2 \<lparr>st_actions := fst (sql_update (live db c now)
         (complete_action_row db now (Some (ref_Digest (sr_Reference val)))) (st_actions st2))\<rparr>"
    using assms
    by (auto simp: CompleteRunnableMaterialization_def Let_def case_prod_unfold
        split: if_splits option.splits sum.splits) (metis prod.collapse)
  have "st_actions st2 = st_actions st" using put_revision_result [OF r(4)] by auto
  then have "complete_action_row db now (Some (ref_Digest (sr_Reference val))) r \<in> set (st_actions st1)"
    using live_row_Some [OF r(1)] by (force simp: r(5) sql_update_set)
  moreover have "ref_Digest (sr_Reference val) \<in> rv_digest ` set (st_revisions st1)"
    using put_revision_done [OF r(4)] by (simp add: r(5))
  ultimately show ?thesis using r(1-3) by (auto simp: LeaseCredential_Validate_None)
qed

lemma resolve_stored:
  assumes "revisions_ok cd (st_revisions st)" "rv \<in> set (st_revisions st)" "rv_digest rv = d"
    and "RevisionReference_Validate \<lparr>ref_ID = rv_id rv, ref_Digest = d\<rparr> = None"
    and "RunnableRevision_Digest cd (rv_revision rv) = Inr d"
  shows "ResolveRunnableRevision cd (rv_id rv) d st = Inr (rv_revision rv)"
proof -
  have "find (\<lambda>r. rv_id r = rv_id rv \<and> rv_digest r = d) (st_revisions st) \<noteq> None"
    using assms(2,3) by (auto simp: find_None_iff)
  then obtain x where x: "find (\<lambda>r. rv_id r = rv_id rv \<and> rv_digest r = d) (st_revisions st) = Some x" by blast
  then have "x \<in> set (st_revisions st)" "rv_digest x = d" by (auto simp: find_Some_iff)
  then have "x = rv" using assms(1-3) by (auto simp: revisions_ok_def distinct_map inj_on_def)
  moreover have "\<not> blank (rv_id rv)" "ValidDigest d"
    using assms(4) by (auto simp: RevisionReference_Validate_def first_error_Cons validateID_None id_ok_def blank_def)
  ultimately show ?thesis using x assms(5) by (simp add: ResolveRunnableRevision_def)
qed

end
