(* ===== verification/ActionProperties.thy ===== *)
theory ActionProperties
  imports ActionInvariant Reaper
begin

section \<open>Properties of the action queue\<close>

text \<open>
  The properties of the repository's action queue, each over the whole methods of \<open>ActionQueue\<close>, with
  a concrete store in which one materialization is queued, claimed, completed or failed.
\<close>

text \<open>An update whose condition holds of one row only replaces that row.\<close>

lemma sql_update_one:
  assumes "r \<in> set t" "P r" "\<And>x. x \<in> set t \<Longrightarrow> P x \<Longrightarrow> x = r"
  shows "set (fst (sql_update P f t)) = insert (f r) (set t - {r})"
proof -
  have "(\<lambda>x. if P x then f x else x) ` set t = (\<lambda>x. if x = r then f r else x) ` set t"
    using assms(2,3) by (intro image_cong refl) (metis (full_types))
  also have "\<dots> = insert (f r) (set t - {r})" using assms(1) by (auto simp: image_iff)
  finally show ?thesis by (simp add: sql_update_def)
qed

subsection \<open>A concrete store\<close>

definition example_materialization :: ActionIdentity where
  "example_materialization = \<lparr>ai_Content = rs_Identity example_spec, ai_SpecDigest = digest_bytes ''nginx'',
     ai_Phase = ActionMaterializeArtifact, ai_StateVersion = 1\<rparr>"

definition example_credential :: "string \<Rightarrow> LeaseCredential" where
  "example_credential owner = \<lparr>lc_Identity = example_materialization, lc_LeaseOwner = owner\<rparr>"

definition queued_row :: action_row where
  "queued_row = new_action_row example_db example_materialization None 1"

definition running_row :: "string \<Rightarrow> action_row" where
  "running_row owner = claim_action_row example_db owner 100 5 1 queued_row"

definition example_store :: "action_row \<Rightarrow> store" where
  "example_store r = empty_store \<lparr>st_specs := [new_spec_row example_db (digest_bytes ''nginx'') example_spec 1],
     st_actions := [r]\<rparr>"

definition example_stored_revision :: StoredRevision where
  "example_stored_revision = \<lparr>sr_Reference = \<lparr>ref_ID = ''rev-1'',
       ref_Digest = digest_bytes (cd_revision example_codec example_revision)\<rparr>,
     sr_Revision = example_revision, sr_CreatedAt = 6\<rparr>"

lemma example_spec_id: "ci_ID (rs_Identity example_spec) = ''nginx''"
  by (simp add: example_spec_def)

lemma example_identity_ok: "identity_ok example_materialization"
  using example_spec_ok
  by (intro spec_identity_ok [where s = example_spec and cd = example_codec])
    (simp_all add: example_materialization_def ActionPhase_Valid_def example_spec_id)

lemma example_credential_ok: "credential_ok (example_credential ''w1'')" "credential_ok (example_credential ''w2'')"
proof -
  have "requiredString ''w1'' ''o'' MaxIDLength = None" "requiredString ''w2'' ''o'' MaxIDLength = None"
    by code_simp+
  then show "credential_ok (example_credential ''w1'')" "credential_ok (example_credential ''w2'')"
    using example_identity_ok by (simp_all add: credential_ok_def example_credential_def requiredString_None)
qed

lemma queued_row_ok: "action_row_ok queued_row"
  unfolding queued_row_def using example_identity_ok
  by (intro new_row_ok) (simp_all add: example_materialization_def)

lemma queued_row_simps [simp]:
  "aw_state queued_row = Queued" "aw_attempt queued_row = 0" "aw_next queued_row = 1"
  "aw_key queued_row = ActionIdentity_Key example_materialization"
  "row_identity queued_row = example_materialization" "aw_phase queued_row = ActionMaterializeArtifact"
  "aw_spec queued_row = digest_bytes ''nginx''" "aw_revision queued_row = None"
  by (simp_all add: queued_row_def) (simp_all add: new_action_row_def example_materialization_def)

lemma running_row_simps [simp]:
  "aw_state (running_row o') = Running" "aw_attempt (running_row o') = 1" "aw_owner (running_row o') = o'"
  "aw_expires (running_row o') = Some 105" "aw_key (running_row o') = ActionIdentity_Key example_materialization"
  "row_identity (running_row o') = example_materialization" "aw_spec (running_row o') = digest_bytes ''nginx''"
  by (simp_all add: running_row_def) (simp_all add: claim_action_row_def)

lemma example_store_actions_ok:
  "actions_ok (st_actions (example_store queued_row))" "actions_ok (st_actions (example_store (running_row ''w1'')))"
proof -
  have "\<not> blank ''w1''" by code_simp
  then have "action_row_ok (running_row ''w1'')"
    using claim_row_ok [OF queued_row_ok, of "''w1''" example_db 100 5] by (simp add: running_row_def)
  then show "actions_ok (st_actions (example_store queued_row))"
    "actions_ok (st_actions (example_store (running_row ''w1'')))"
    using queued_row_ok by (simp_all add: example_store_def actions_ok_def)
qed

lemma example_store_simps [simp]:
  "st_actions (example_store r) = [r]" "st_revisions (example_store r) = []" "st_reports (example_store r) = []"
  "sql_row sp_digest (digest_bytes ''nginx'') (st_specs (example_store r)) =
     Some (new_spec_row example_db (digest_bytes ''nginx'') example_spec 1)"
  by (simp_all add: example_store_def empty_store_def sql_row_def new_spec_row_def)

lemma example_claim:
  "ClaimRunnableAction example_codec example_db [] ''w1'' 100 5 (example_store queued_row) =
     (Inr (Some \<lparr>ax_Credential = example_credential ''w1'', ax_Attempt = 1, ax_Spec = Some example_spec,
        ax_RunnableRevision = None, ax_RunnableRevisionRef = empty_reference, ax_RunnableRevisionDigest = []\<rparr>),
      example_store (running_row ''w1''))"
proof -
  have b: "\<not> blank ''w1''" by code_simp
  have st: "(example_store queued_row) \<lparr>st_actions := [claim_action_row example_db ''w1'' 100 5 1 queued_row]\<rparr> =
      example_store (running_row ''w1'')"
    by (simp add: example_store_def running_row_def empty_store_def)
  have v: "ActionContext_Validate example_codec \<lparr>ax_Credential = example_credential ''w1'', ax_Attempt = 1,
        ax_Spec = Some example_spec, ax_RunnableRevision = None, ax_RunnableRevisionRef = empty_reference,
        ax_RunnableRevisionDigest = []\<rparr> = None"
    unfolding ActionContext_Validate_None using example_credential_ok(1) example_spec_ok
    by (simp add: example_credential_def example_materialization_def identity_of_spec_def example_spec_id)
  show ?thesis
    by (simp add: ClaimRunnableAction_def b sql_first_def action_eligible_def sql_update_def
        st runnableActionContextTx_def Let_def
        example_credential_def [symmetric] v)
      (simp add: new_spec_row_def v example_store_def running_row_def empty_store_def)
qed

lemma example_live: "live_row example_db (example_credential ''w1'') 10 (example_store (running_row ''w1'')) =
    Some (running_row ''w1'')"
  by (simp add: live_row_def live_def example_credential_def)

lemma example_stored_revision_valid: "StoredRevision_Validate example_codec example_stored_revision = None"
proof -
  have "validateID ''rev-1'' ''id'' = None" by code_simp
  then show ?thesis
    using example_revision_valid
    by (simp add: StoredRevision_Validate_None RevisionReference_Validate_def first_error_Cons validateID_None
        example_stored_revision_def RunnableRevision_Digest_def)
qed

lemma example_materialized:
  "fst (CompleteRunnableMaterialization example_codec example_db (example_credential ''w1'') example_stored_revision 10
     (example_store (running_row ''w1''))) = None"
proof -
  have "rr_Spec (sr_Revision example_stored_revision) = example_spec"
    by (simp add: example_stored_revision_def example_revision_def)
  moreover have "RunnableSpec_Digest example_codec example_spec = Inr (digest_bytes ''nginx'')"
    using example_spec_ok by (simp add: RunnableSpec_Digest_Inr example_spec_id)
  moreover have "LeaseCredential_Validate (example_credential ''w1'') = None"
    using example_credential_ok(1) by (simp add: LeaseCredential_Validate_None)
  moreover have "lc_Identity (example_credential ''w1'') = example_materialization"
    by (simp add: example_credential_def)
  moreover have "ai_Phase example_materialization = ActionMaterializeArtifact"
    "ai_SpecDigest example_materialization = digest_bytes ''nginx''"
    "ai_Content example_materialization = rs_Identity example_spec"
    by (simp_all add: example_materialization_def)
  moreover have "live example_db (example_credential ''w1'') 10 (running_row ''w1'')"
    by (simp add: live_def example_credential_def)
  ultimately show ?thesis
    by (simp add: CompleteRunnableMaterialization_def example_stored_revision_valid example_live
        put_revision_def sql_row_def sql_insert_def sql_update_def Let_def)
qed

text \<open>A completed materialization resolves to its digest, from then on.\<close>

lemma completed_resolves:
  assumes "actions_ok (st_actions st)" "revisions_ok cd (st_revisions st)"
    and "CompleteRunnableMaterialization cd db c val now st = (None, st1)" "(store_step cd db dc)\<^sup>*\<^sup>* st1 st2"
  shows "\<exists>rid rev. ResolveMaterializedRunnableRevision (lc_Identity c) st2 =
      Inr \<lparr>ref_ID = rid, ref_Digest = ref_Digest (sr_Reference val)\<rparr> \<and>
    ResolveRunnableRevision cd rid (ref_Digest (sr_Reference val)) st2 = Inr rev \<and>
    RunnableRevision_Digest cd rev = Inr (ref_Digest (sr_Reference val))"
proof -
  let ?d = "ref_Digest (sr_Reference val)" and ?i = "lc_Identity c"
  obtain r w where r: "live_row db c now st = Some r" "credential_ok c" "ai_Phase ?i = ActionMaterializeArtifact"
    "w \<in> set (st_actions st1)" "w = complete_action_row db now (Some ?d) r" "?d \<in> rv_digest ` set (st_revisions st1)"
    using complete_materialization_changes [OF assms(3)] by blast
  have keep1: "actions_ok (st_actions st1) \<and> revisions_ok cd (st_revisions st1)"
    using steps_keep [OF r_into_rtranclp, OF store_step.complete_materialization assms(1,2)] assms(3) by (metis snd_conv)
  have ident: "row_identity r = ?i"
    using live_row_Some [OF r(1)] r(2) assms(1)
    by (intro key_inject) (auto simp: actions_ok_def action_row_ok_def credential_ok_def live_def)
  have w: "row_identity w = ?i" "aw_state w = Completed" "aw_revision w = Some ?d"
    using ident by (simp_all add: r(5)) (simp_all add: complete_action_row_def)
  have keep2: "actions_ok (st_actions st2)" "revisions_ok cd (st_revisions st2)"
    "set (st_revisions st1) \<subseteq> set (st_revisions st2)" "w \<in> set (st_actions st2)"
    using steps_keep [OF assms(4)] keep1 r(4) w(2) by (auto simp: settled_def)
  have row: "identity_row ?i st2 = Some w" by (rule identity_row_of [OF keep2(1,4) w(1)])
  obtain rv where rv: "rv \<in> set (st_revisions st2)" "rv_digest rv = ?d" using r(6) keep2(3) by auto
  have ok: "RevisionReference_Validate \<lparr>ref_ID = rv_id rv, ref_Digest = ?d\<rparr> = None"
    "RunnableRevision_Digest cd (rv_revision rv) = Inr ?d"
    using keep2(2) rv by (auto simp: revisions_ok_def)
  have look: "sql_row rv_digest ?d (st_revisions st2) = Some rv"
    using keep2(2) rv sql_row_distinct [of rv_digest "st_revisions st2" rv] by (simp add: revisions_ok_def)
  have "runnableActionFailure ?i st2 = None" using w(2) by (simp add: runnableActionFailure_def row)
  then have "ResolveMaterializedRunnableRevision ?i st2 = Inr \<lparr>ref_ID = rv_id rv, ref_Digest = ?d\<rparr>"
    using r(2,3) w ok look
    by (simp add: ResolveMaterializedRunnableRevision_def ActionIdentity_Validate_None credential_ok_def row)
  moreover have "ResolveRunnableRevision cd (rv_id rv) ?d st2 = Inr (rv_revision rv)"
    by (rule resolve_stored [OF keep2(2) rv ok])
  ultimately show ?thesis using ok(2) by blast
qed

subsection \<open>Properties\<close>

text \<open>
  A claim takes an action only when it is due, and only with an input that matches it: if
  \<open>ClaimRunnableAction\<close> hands out a context, the row was queued and past its next run, or running
  with an expired lease; the context validates and carries the identity of the row, the owner and
  the next attempt number; the row is now running under that lease and every other row is as before.
  If no context is handed out, the store is unchanged.
\<close>

theorem claim_takes_due_action:
  assumes "ClaimRunnableAction cd db locked owner ttl now st = (res, st')" "actions_ok (st_actions st)"
  shows "case res of
      Inr (Some ctx) \<Rightarrow> ActionContext_Validate cd ctx = None \<and>
        (\<exists>r\<in>set (st_actions st). action_eligible db now r \<and>
           ax_Credential ctx = \<lparr>lc_Identity = row_identity r, lc_LeaseOwner = owner\<rparr> \<and>
           ax_Attempt ctx = aw_attempt r + 1 \<and>
           set (st_actions st') = insert (claim_action_row db owner ttl now (aw_attempt r + 1) r)
             (set (st_actions st) - {r}))
    | _ \<Rightarrow> st' = st"
  using claim_result [OF assms(1)]
proof (elim disjE conjE exE)
  fix r val
  assume h: "r \<in> set (st_actions st)" "action_eligible db now r" "res = Inr (Some val)"
    "st' = st \<lparr>st_actions := fst (sql_update (\<lambda>x. aw_key x = aw_key r)
             (claim_action_row db owner ttl now (aw_attempt r + 1)) (st_actions st))\<rparr>"
    "runnableActionContextTx cd r (aw_attempt r + 1) owner st' = Inr val"
  have "ActionContext_Validate cd val = None \<and> ax_Attempt val = aw_attempt r + 1 \<and>
      ax_Credential val = \<lparr>lc_Identity = row_identity r, lc_LeaseOwner = owner\<rparr>"
    using h(5) by (auto simp: runnableActionContextTx_def Let_def check_Inr
        split: ActionPhase.splits option.splits)
  moreover have "x = r" if "x \<in> set (st_actions st)" "aw_key x = aw_key r" for x
    using actions_same [OF assms(2) that(1) h(1) that(2)] .
  then have "set (st_actions st') = insert (claim_action_row db owner ttl now (aw_attempt r + 1) r)
             (set (st_actions st) - {r})"
    using h(1,4) by (simp add: sql_update_one)
  ultimately show ?thesis using h(1-3) by auto
qed (auto split: sum.splits option.splits)

lemma claim_takes_due_action_witness:
  "\<exists>r\<in>set (st_actions (example_store queued_row)). action_eligible example_db 5 r \<and> aw_attempt r + 1 = 1"
  using claim_takes_due_action [OF example_claim example_store_actions_ok(1)] by auto

text \<open>
  C36 Without the live lease a worker can do nothing: when no running row has the key of the
  credential, its owner and a lease that has not expired, renewing, reporting a failure, completing
  either phase and storing an output all return an error and leave the store unchanged, and reading
  the source and resolving the lease return \<open>ErrActionLeaseLost\<close>.
\<close>

theorem no_lease_no_effect:
  assumes "live_row db c now st = None"
  shows "RenewRunnableAction db c ttl now st = (Some action_lease_lost, st) \<and>
    (\<exists>e. ReportRunnableActionFailure db c cls code summary now st = (Some e, st)) \<and>
    (\<exists>e. CompleteRunnableMaterialization cd db c val now st = (Some e, st)) \<and>
    (\<exists>e. CompleteRunnableVerification cd db dc c rep now st = (Some e, st)) \<and>
    (\<exists>e. StoreRunnableExecutionOutput cd db c capture now st = (Inl e, st)) \<and>
    ReadRunnableActionSource db c now st = Inl action_lease_lost \<and>
    ResolveRunnableVerificationLease db c now st = Inl action_lease_lost"
proof -
  have "sql_update (live db c now) f (st_actions st) = (st_actions st, 0)" for f
    using assms by (intro sql_update_none) (simp add: live_row_None)
  then have renew: "RenewRunnableAction db c ttl now st = (Some action_lease_lost, st)"
    by (simp add: RenewRunnableAction_def)
  have report: "\<exists>e. ReportRunnableActionFailure db c cls code summary now st = (Some e, st)"
    using assms by (simp add: ReportRunnableActionFailure_def)
  have mat: "\<exists>e. CompleteRunnableMaterialization cd db c val now st = (Some e, st)"
    using assms by (auto simp: CompleteRunnableMaterialization_def split: option.splits sum.splits)
  have ver: "\<exists>e. CompleteRunnableVerification cd db dc c rep now st = (Some e, st)"
    using assms by (auto simp: CompleteRunnableVerification_def split: option.splits sum.splits)
  have out: "\<exists>e. StoreRunnableExecutionOutput cd db c capture now st = (Inl e, st)"
    using assms by (auto simp: StoreRunnableExecutionOutput_def split: option.splits sum.splits)
  have "ReadRunnableActionSource db c now st = Inl action_lease_lost"
    "ResolveRunnableVerificationLease db c now st = Inl action_lease_lost"
    using assms by (simp_all add: ReadRunnableActionSource_def ResolveRunnableVerificationLease_def)
  with renew report mat ver out show ?thesis by blast
qed

lemma no_lease_no_effect_witness:
  "RenewRunnableAction example_db (example_credential ''w2'') 100 10 (example_store (running_row ''w1'')) =
     (Some action_lease_lost, example_store (running_row ''w1''))"
  by (rule no_lease_no_effect [THEN conjunct1]) (simp add: live_row_def live_def example_credential_def)

text \<open>
  A takeover fences the previous worker: once a claim for an action was handed out to one owner,
  no credential of another owner for that action is live at any time, until the row changes again.
\<close>

theorem takeover_fences:
  assumes "ClaimRunnableAction cd db locked owner ttl now st = (Inr (Some ctx), st')" "actions_ok (st_actions st)"
    and "lc_Identity c = lc_Identity (ax_Credential ctx)" "lc_LeaseOwner c \<noteq> owner"
  shows "live_row db c at st' = None"
proof -
  from claim_result [OF assms(1)] obtain r where r: "r \<in> set (st_actions st)"
    "st' = st \<lparr>st_actions := fst (sql_update (\<lambda>x. aw_key x = aw_key r)
             (claim_action_row db owner ttl now (aw_attempt r + 1)) (st_actions st))\<rparr>"
    "runnableActionContextTx cd r (aw_attempt r + 1) owner st' = Inr ctx"
    by auto
  have "lc_Identity (ax_Credential ctx) = row_identity r"
    using r(3) by (auto simp: runnableActionContextTx_def Let_def check_Inr split: ActionPhase.splits option.splits)
  then have key: "ActionIdentity_Key (lc_Identity c) = aw_key r"
    using r(1) assms(2,3) by (simp add: actions_ok_def action_row_ok_def)
  have owner: "aw_owner (claim_action_row db owner ttl now n x) = owner" for n x
    by (simp add: claim_action_row_def)
  have "\<not> live db c at v" if "v \<in> set (st_actions st')" for v
  proof
    assume l: "live db c at v"
    from that obtain x where "v = (if aw_key x = aw_key r then claim_action_row db owner ttl now (aw_attempt r + 1) x else x)"
      by (auto simp: r(2) sql_update_set)
    moreover have "aw_key v = aw_key r" "aw_owner v \<noteq> owner" using l assms(4) by (simp_all add: live_def key)
    ultimately show False by (metis owner)
  qed
  then show ?thesis by (simp add: live_row_None)
qed

lemma takeover_fences_witness:
  "live_row example_db (example_credential ''w2'') 6 (example_store (running_row ''w1'')) = None"
  by (rule takeover_fences [OF example_claim example_store_actions_ok(1)])
    (simp_all add: example_credential_def)

text \<open>
  C37 A finished action is final: a row that is completed, or failed for another reason than the
  infrastructure, is still there unchanged after any sequence of repository writes, rescheduling
  the same action included.
\<close>

theorem settled_actions_final:
  assumes "(store_step cd db dc)\<^sup>*\<^sup>* st st'" "actions_ok (st_actions st)" "r \<in> set (st_actions st)"
    and "aw_state r = Completed \<or> aw_state r = Failed \<and> aw_class r \<noteq> Some FailureInfrastructure"
  shows "r \<in> set (st_actions st') \<and> actions_ok (st_actions st')"
  using assms(1-3)
proof (induction rule: rtranclp_induct)
  case (step st1 st2)
  then show ?case
    using step_settled [OF step.hyps(2)] step_actions_ok [OF step.hyps(2)] assms(4) by (auto simp: settled_def)
qed simp

definition failed_row :: action_row where
  "failed_row = fail_action_row example_db Failed 9 FailureArtifact ''bad'' ''broken'' 9 (running_row ''w1'')"

lemma failed_row_ok: "action_row_ok failed_row"
proof -
  have "\<not> blank ''bad''" "\<not> blank ''broken''" by code_simp+
  then show ?thesis
    using example_store_actions_ok(2) unfolding failed_row_def
    by (intro fail_row_ok) (simp_all add: actions_ok_def FailureClass_Valid_def)
qed

lemma settled_actions_final_witness:
  "failed_row \<in> set (st_actions (snd (ScheduleMaterialization example_codec example_db example_spec 1 20
     (example_store failed_row))))"
proof -
  have "(store_step example_codec example_db dc)\<^sup>*\<^sup>* (example_store failed_row)
      (snd (ScheduleMaterialization example_codec example_db example_spec 1 20 (example_store failed_row)))" for dc
    by (rule r_into_rtranclp) (rule store_step.schedule_materialization)
  moreover have "aw_state failed_row = Failed" "aw_class failed_row = Some FailureArtifact"
    by (simp_all add: failed_row_def fail_action_row_def)
  ultimately show ?thesis
    using settled_actions_final [of example_codec example_db _ "example_store failed_row" _ failed_row] failed_row_ok
    by (auto simp: actions_ok_def)
qed

text \<open>
  C39 Every store that the repository reaches from the empty one has well-formed action rows: one row
  per key, the key of its identity; an owner and a lease exactly while it runs; a materialization
  has a revision exactly when it is completed, a verification always; a failed row has a class, a
  code and a summary that are not blank, so reading its failure is never inconsistent.
\<close>

theorem reachable_actions_ok:
  assumes "(store_step cd db dc)\<^sup>*\<^sup>* empty_store st"
  shows "actions_ok (st_actions st) \<and> runnableActionFailure i st \<noteq> Some (Msg ''stored runnable action failure is inconsistent'')"
proof -
  have ok: "actions_ok (st_actions st)"
    using assms
  proof (induction rule: rtranclp_induct)
    case base
    then show ?case by (simp add: empty_store_def actions_ok_def)
  next
    case (step st1 st2)
    then show ?case using step_actions_ok by blast
  qed
  have "runnableActionFailure i st \<noteq> Some (Msg ''stored runnable action failure is inconsistent'')"
  proof (cases "identity_row i st")
    case (Some r)
    then have "action_row_ok r" using ok by (auto simp: identity_row_def find_Some_iff actions_ok_def)
    then show ?thesis using Some by (auto simp: runnableActionFailure_def action_row_ok_def)
  qed (simp add: runnableActionFailure_def)
  with ok show ?thesis ..
qed

lemma reachable_actions_ok_witness:
  "actions_ok (st_actions (snd (StoreRunnableSpec example_codec example_db example_spec 1 empty_store)))"
proof -
  have "(store_step example_codec example_db dc)\<^sup>*\<^sup>* empty_store
      (snd (StoreRunnableSpec example_codec example_db example_spec 1 empty_store))" for dc
    by (rule r_into_rtranclp) (rule store_step.store_spec)
  from reachable_actions_ok [OF this] show ?thesis by blast
qed

text \<open>
  A failure report under a live lease always ends the attempt, in one of three ways: an artifact
  failure fails the action with its trimmed code; an infrastructure failure below the eighth attempt
  returns it to the queue, to run again after five seconds doubled per earlier attempt, at most five
  minutes; from the eighth attempt on it fails the action with the code attempts-exhausted.
\<close>

theorem failure_report_outcome:
  assumes "actions_ok (st_actions st)" "live_row db c now st = Some r"
    and "LeaseCredential_Validate c = None" "FailureClass_Valid cls" "\<not> blank code" "\<not> blank summary" "now \<noteq> 0"
  shows "\<exists>st' r'. ReportRunnableActionFailure db c cls code summary now st = (None, st') \<and>
    set (st_actions st') = insert r' (set (st_actions st) - {r}) \<and>
    aw_key r' = aw_key r \<and> aw_attempt r' = aw_attempt r \<and> aw_expires r' = None \<and> aw_class r' = Some cls \<and>
    (if cls = FailureArtifact then aw_state r' = Failed \<and> aw_code r' = trim code
     else if aw_attempt r < 8
     then aw_state r' = Queued \<and>
       aw_next r' = db_ts db (now + min (seconds 300) (seconds 5 * 2 ^ nat (aw_attempt r - 1)))
     else aw_state r' = Failed \<and> aw_code r' = ''attempts-exhausted'')"
proof -
  let ?retry = "cls = FailureInfrastructure \<and> aw_attempt r < runnableActionMaxAttempts"
  let ?at = "if ?retry then now + RetryBackoff runnableActionRetryBase (aw_attempt r) else now"
  let ?code = "if cls = FailureInfrastructure \<and> runnableActionMaxAttempts \<le> aw_attempt r
      then ''attempts-exhausted'' else trim code"
  let ?f = "fail_action_row db (if ?retry then Queued else Failed) ?at cls ?code (cut MaxSummaryLength (trim summary)) now"
  let ?st' = "st \<lparr>st_actions := fst (sql_update (live db c now) ?f (st_actions st))\<rparr>"
  have r: "r \<in> set (st_actions st)" "live db c now r" using live_row_Some [OF assms(2)] by simp_all
  have only: "x = r" if "x \<in> set (st_actions st)" "live db c now x" for x
    using live_key_row [OF assms(1,2) that(1)] that(2) by (simp add: live_def)
  have "snd (sql_update (live db c now) ?f (st_actions st)) = 1"
    using assms(1) r sql_row_distinct [of aw_key "st_actions st" r]
    by (subst sql_update_count [where key = aw_key and k = "aw_key r"]) (auto simp: actions_ok_def live_def)
  then have run: "ReportRunnableActionFailure db c cls code summary now st = (None, ?st')"
    using assms(2-7) by (simp add: ReportRunnableActionFailure_def Let_def case_prod_unfold)
  have "set (fst (sql_update (live db c now) ?f (st_actions st))) = insert (?f r) (set (st_actions st) - {r})"
    using r only by (rule sql_update_one)
  moreover have "st_actions (st \<lparr>st_actions := t\<rparr>) = t" for t by simp
  ultimately have set: "set (st_actions ?st') = insert (?f r) (set (st_actions st) - {r})" by (simp only:)
  have backoff: "RetryBackoff runnableActionRetryBase n = min (seconds 300) (seconds 5 * 2 ^ nat (n - 1))" for n
    using backoff_loop_closed [of "seconds 5"]
    by (simp add: RetryBackoff_def runnableActionRetryBase_def RetryBackoffCap_def seconds_def Let_def)
  have fields: "aw_key (?f r) = aw_key r \<and> aw_attempt (?f r) = aw_attempt r \<and> aw_expires (?f r) = None \<and>
      aw_class (?f r) = Some cls \<and> aw_state (?f r) = (if ?retry then Queued else Failed) \<and>
      aw_next (?f r) = db_ts db ?at \<and> aw_code (?f r) = ?code"
    by (simp add: fail_action_row_def)
  have "cls = FailureArtifact \<or> cls = FailureInfrastructure" using assms(4) by (simp add: FailureClass_Valid_def)
  then have "if cls = FailureArtifact then aw_state (?f r) = Failed \<and> aw_code (?f r) = trim code
     else if aw_attempt r < 8
     then aw_state (?f r) = Queued \<and>
       aw_next (?f r) = db_ts db (now + min (seconds 300) (seconds 5 * 2 ^ nat (aw_attempt r - 1)))
     else aw_state (?f r) = Failed \<and> aw_code (?f r) = ''attempts-exhausted''"
    using fields by (elim disjE; cases "aw_attempt r < 8"; simp add: backoff runnableActionMaxAttempts_def)
  then show ?thesis using run set fields by (intro exI [of _ ?st'] exI [of _ "?f r"]) blast
qed

lemma failure_report_outcome_witness:
  "\<exists>st' r'. ReportRunnableActionFailure example_db (example_credential ''w1'') FailureInfrastructure ''io'' ''down'' 10
       (example_store (running_row ''w1'')) = (None, st') \<and>
     r' \<in> set (st_actions st') \<and> aw_state r' = Queued \<and> aw_next r' = 10 + seconds 5"
proof -
  have b: "\<not> blank ''io''" "\<not> blank ''down''" by code_simp+
  have "LeaseCredential_Validate (example_credential ''w1'') = None"
    using example_credential_ok(1) by (simp add: LeaseCredential_Validate_None)
  from failure_report_outcome [OF example_store_actions_ok(2) example_live this _ b, of FailureInfrastructure]
  show ?thesis by (auto simp: FailureClass_Valid_def seconds_def)
qed

text \<open>
  C38 What a worker materialized is what the coordinator resolves: after
  \<open>CompleteRunnableMaterialization\<close> returned no error, and after any further repository writes,
  \<open>ResolveMaterializedRunnableRevision\<close> of the same identity returns a reference with the digest of
  the stored value, and resolving that reference returns a revision with this digest.
\<close>

theorem materialization_resolves:
  assumes "actions_ok (st_actions st)" "revisions_ok cd (st_revisions st)"
    and "CompleteRunnableMaterialization cd db c val now st = (None, st1)" "(store_step cd db dc)\<^sup>*\<^sup>* st1 st2"
  shows "\<exists>rid rev. ResolveMaterializedRunnableRevision (lc_Identity c) st2 =
      Inr \<lparr>ref_ID = rid, ref_Digest = ref_Digest (sr_Reference val)\<rparr> \<and>
    ResolveRunnableRevision cd rid (ref_Digest (sr_Reference val)) st2 = Inr rev \<and>
    RunnableRevision_Digest cd rev = Inr (ref_Digest (sr_Reference val))"
  using completed_resolves [OF assms] .

lemma materialization_resolves_witness:
  "\<exists>rid st1. ResolveMaterializedRunnableRevision example_materialization st1 =
     Inr \<lparr>ref_ID = rid, ref_Digest = digest_bytes (cd_revision example_codec example_revision)\<rparr>"
proof -
  obtain st1 where s: "CompleteRunnableMaterialization example_codec example_db (example_credential ''w1'')
      example_stored_revision 10 (example_store (running_row ''w1'')) = (None, st1)"
    using example_materialized by (metis prod.collapse)
  have rv: "revisions_ok example_codec (st_revisions (example_store (running_row ''w1'')))"
    by (simp add: revisions_ok_def)
  from materialization_resolves [OF example_store_actions_ok(2) rv s rtranclp.rtrancl_refl]
  show ?thesis by (auto simp: example_credential_def example_stored_revision_def)
qed

text \<open>
  Rescheduling gives an action a second life only after an infrastructure failure: scheduling a
  verification whose key is already in the table leaves every row as it is, except that a row
  failed by the infrastructure starts over as queued with no attempts. In particular the revision
  digest of an existing row is kept even when the caller schedules another revision of the same
  spec and state version.
\<close>

theorem reschedule_second_life:
  assumes "actions_ok (st_actions st)" "ScheduleVerification cd db reference v now st = (Inr i, st')"
    and "r \<in> set (st_actions st)" "aw_key r = ActionIdentity_Key i"
  shows "if aw_state r = Failed \<and> aw_class r = Some FailureInfrastructure
    then set (st_actions st') = insert (reset_action_row db now r) (set (st_actions st) - {r}) \<and>
      aw_state (reset_action_row db now r) = Queued \<and> aw_attempt (reset_action_row db now r) = 0 \<and>
      aw_revision (reset_action_row db now r) = aw_revision r
    else st' = st"
proof -
  let ?P = "\<lambda>x. aw_key x = ActionIdentity_Key i \<and> aw_state x = Failed \<and> aw_class x = Some FailureInfrastructure"
  have in_t: "ActionIdentity_Key i \<in> aw_key ` set (st_actions st)" using assms(3,4) by force
  have acts: "st' = st \<lparr>st_actions := fst (sql_update ?P (reset_action_row db now) (st_actions st))\<rparr>"
    using assms(2) in_t
    by (auto simp: ScheduleVerification_def Let_def runnableActionReschedule_def split: if_splits sum.splits)
  have only: "x = r" if "x \<in> set (st_actions st)" "?P x" for x
    using actions_same [OF assms(1) that(1) assms(3)] that(2) assms(4) by simp
  show ?thesis
  proof (cases "aw_state r = Failed \<and> aw_class r = Some FailureInfrastructure")
    case True
    have "set (fst (sql_update ?P (reset_action_row db now) (st_actions st))) =
        insert (reset_action_row db now r) (set (st_actions st) - {r})"
      using assms(3) conjI [OF assms(4) True] only by (rule sql_update_one)
    then have "set (st_actions st') = insert (reset_action_row db now r) (set (st_actions st) - {r})"
      by (simp add: acts)
    then show ?thesis using True by (simp add: reset_action_row_def)
  next
    case False
    then have "sql_update ?P (reset_action_row db now) (st_actions st) = (st_actions st, 0)"
      using only by (intro sql_update_none) blast
    then show ?thesis unfolding if_not_P [OF False] by (simp add: acts)
  qed
qed

definition example_verification :: ActionIdentity where
  "example_verification = \<lparr>ai_Content = rs_Identity example_spec, ai_SpecDigest = digest_bytes ''nginx'',
     ai_Phase = ActionVerify, ai_StateVersion = 1\<rparr>"

definition example_verify_store :: store where
  "example_verify_store = empty_store
     \<lparr>st_revisions := [\<lparr>rv_id = ''rev-1'', rv_digest = ref_Digest (sr_Reference example_stored_revision),
        rv_spec = digest_bytes ''nginx'', rv_revision = example_revision, rv_created = 1\<rparr>],
      st_actions := [new_action_row example_db example_verification (Some zero_digest) 1]\<rparr>"

lemma reschedule_second_life_witness:
  "snd (ScheduleVerification example_codec example_db (sr_Reference example_stored_revision) 1 9 example_verify_store) =
     example_verify_store"
proof -
  have ref: "RevisionReference_Validate (sr_Reference example_stored_revision) = None"
    "RunnableRevision_Digest example_codec example_revision = Inr (ref_Digest (sr_Reference example_stored_revision))"
    using example_stored_revision_valid by (auto simp: StoredRevision_Validate_None) (simp add: example_stored_revision_def)
  have id: "ref_ID (sr_Reference example_stored_revision) = ''rev-1''" "\<not> blank ''rev-1''"
    by (simp add: example_stored_revision_def) code_simp
  have res: "ResolveRunnableRevision example_codec ''rev-1'' (ref_Digest (sr_Reference example_stored_revision))
      example_verify_store = Inr example_revision"
    using ref id
    by (simp add: ResolveRunnableRevision_def example_verify_store_def empty_store_def RevisionReference_Validate_def
        first_error_Cons)
  have spec: "RunnableSpec_Digest example_codec example_spec = Inr (digest_bytes ''nginx'')"
    "rr_Spec example_revision = example_spec"
    using example_spec_ok by (simp_all add: RunnableSpec_Digest_Inr example_spec_id example_revision_def)
  have ok: "actions_ok (st_actions example_verify_store)"
    using example_identity_ok
    by (auto simp: actions_ok_def example_verify_store_def example_verification_def intro!: new_row_ok)
      (simp add: identity_ok_def example_materialization_def ActionPhase_Valid_def)
  have "fst (ScheduleVerification example_codec example_db (sr_Reference example_stored_revision) 1 9 example_verify_store) =
      Inr example_verification"
    by (simp add: ScheduleVerification_def ref id res spec example_verification_def Let_def)
  then have run: "ScheduleVerification example_codec example_db (sr_Reference example_stored_revision) 1 9 example_verify_store =
      (Inr example_verification, snd (ScheduleVerification example_codec example_db
        (sr_Reference example_stored_revision) 1 9 example_verify_store))"
    by (metis prod.collapse)
  have "new_action_row example_db example_verification (Some zero_digest) 1 \<in> set (st_actions example_verify_store)"
    "aw_state (new_action_row example_db example_verification (Some zero_digest) 1) = Queued"
    by (simp_all add: example_verify_store_def new_action_row_def)
  with reschedule_second_life [OF ok run, of "new_action_row example_db example_verification (Some zero_digest) 1"]
  show ?thesis by simp
qed

end
