(* ===== verification/RunnerRounds.thy ===== *)
theory RunnerRounds
  imports Runner VerifierProperties ActionProperties
begin

section \<open>The runner over the worker and over the repository\<close>

text \<open>
  The runner of \<open>runner.go\<close> with the executor that the worker process builds
  (\<open>bootstrap/runtimeworker\<close>) and with the repository behind its store. The locale states what the
  runner needs from its executor; the worker of \<open>worker.go\<close> provides it.
\<close>

subsection \<open>Executors that bind their results\<close>

locale bound_executor =
  fixes cd :: codec
    and mat :: "MaterializeRequest \<Rightarrow> 'w \<Rightarrow> (go_error + RunnableRevision) \<times> 'w"
    and ver :: "VerifyRequest \<Rightarrow> 'w \<Rightarrow> (go_error + VerificationReport) \<times> 'w"
  assumes mat_bound: "mat q w = (Inr revision, w') \<Longrightarrow>
      MaterializeRequest_Validate cd q = None \<and> RunnableRevision_Validate cd revision = None \<and>
      rr_Spec revision = mr_Spec q"
    and ver_bound: "ver v w = (Inr report, w') \<Longrightarrow>
      VerifyRequest_Validate cd v = None \<and>
      VerificationReport_Validate cd report (vq_RunnableRevision v) = None \<and> vr_Attempt report = vq_Attempt v"

text \<open>A store that notes what it was handed.\<close>

datatype handover =
    Completed_materialization LeaseCredential StoredRevision
  | Completed_verification LeaseCredential StoredVerificationReport
  | Released LeaseCredential EnvironmentIdentity
  | Failure_reported LeaseCredential FailureClass string string

definition noting_store ::
  "(string \<Rightarrow> duration \<Rightarrow> 'w \<Rightarrow> (go_error + ActionContext option) \<times> 'w) \<Rightarrow> (handover list \<Rightarrow> go_error option)
     \<Rightarrow> ('w \<times> handover list) ActionStore"
where
  "noting_store clm answer =
     (let note = (\<lambda>x (w, h). (answer (h @ [x]), (w, h @ [x]))) in
      \<lparr>as_Claim = (\<lambda>o' ttl (w, h). case clm o' ttl w of (res, w1) \<Rightarrow> (res, (w1, h))),
       as_Renew = (\<lambda>c ttl w. (None, w)),
       as_CompleteMaterialization = (\<lambda>c v. note (Completed_materialization c v)),
       as_CompleteVerification = (\<lambda>c v. note (Completed_verification c v)),
       as_RequestVerificationEnvironmentRelease = (\<lambda>c e. note (Released c e)),
       as_ReportFailure = (\<lambda>c class code s. note (Failure_reported c class code s))\<rparr>)"

definition lifted :: "('q \<Rightarrow> 'w \<Rightarrow> 'r \<times> 'w) \<Rightarrow> 'q \<Rightarrow> 'w \<times> 'h \<Rightarrow> 'r \<times> 'w \<times> 'h" where
  "lifted f q = (\<lambda>(w, h). case f q w of (res, w1) \<Rightarrow> (res, (w1, h)))"

text \<open>What the Server refuses by its own validation never reaches it, and identifiers are derived.\<close>

definition accountable :: "codec \<Rightarrow> ActionContext \<Rightarrow> handover \<Rightarrow> bool" where
  "accountable cd action x \<longleftrightarrow> (case x of
     Completed_materialization c v \<Rightarrow> c = ax_Credential action \<and> StoredRevision_Validate cd v = None \<and>
       Some (rr_Spec (sr_Revision v)) = ax_Spec action \<and>
       Some (ref_ID (sr_Reference v)) = RecordID ''rr'' (lc_Identity c)
   | Completed_verification c v \<Rightarrow> c = ax_Credential action \<and> StoredVerificationReport_Validate cd v = None \<and>
       Some (svr_RunnableRevision v) = ax_RunnableRevision action \<and>
       vr_Attempt (svr_Report v) = ax_Attempt action \<and>
       \<not> (\<exists>f. vr_Failure (svr_Report v) = Some f \<and> vf_Class f = FailureInfrastructure) \<and>
       Some (vref_ID (svr_Reference v)) = RecordID ''vr'' (lc_Identity c)
   | Released c e \<Rightarrow> c = ax_Credential action
   | Failure_reported c class code s \<Rightarrow> c = ax_Credential action \<and> FailureClass_Valid class \<and>
       code \<noteq> [] \<and> required_ok MaxSummaryLength s)"

lemma stable_prefixes: "stableID ''rr''" "stableID ''vr''"
  by code_simp+

lemma RecordID_ok:
  "stableID pre \<Longrightarrow> length pre < 64 \<Longrightarrow> RecordID pre i = Some r \<Longrightarrow> id_ok r"
  "length pre < 64 \<Longrightarrow> RecordID pre i \<noteq> None"
  using RecordID_id_ok by (fastforce simp: RecordID_def MaxIDLength_def)+

lemma derived_revision_valid:
  assumes "RunnableRevision_Validate cd revision = None" "RunnableRevision_Digest cd revision = Inr d" "id_ok rid" "t \<noteq> 0"
  shows "StoredRevision_Validate cd \<lparr>sr_Reference = \<lparr>ref_ID = rid, ref_Digest = d\<rparr>, sr_Revision = revision, sr_CreatedAt = t\<rparr> = None"
proof -
  have "ValidDigest d" using assms(2) by (auto simp: RunnableRevision_Digest_Inr)
  then show ?thesis
    using assms by (simp add: StoredRevision_Validate_def RevisionReference_Validate_def first_error_Cons
        validateID_None fail_if_def)
qed

lemma failure_summary_ok: "required_ok MaxSummaryLength (failure_summary e)"
proof -
  have "required_ok MaxSummaryLength ''runnable action failed''"
    by (simp only: requiredString_None [where f = "''f''", symmetric]) code_simp
  moreover have "failure_summary e = summary (err_text e) ''runnable action failed''"
    by (simp add: failure_summary_def summary_def Let_def cut_def MaxSummaryLength_def)
  ultimately show ?thesis using summary_ok by simp
qed

lemma failure_class_valid: "failure_class_code e = (class, code) \<Longrightarrow> FailureClass_Valid class"
  by (auto simp: failure_class_code_def FailureClass_Valid_def split: option.splits if_splits)

subsection \<open>What a runner hands over\<close>

definition noting_runner ::
  "(string \<Rightarrow> duration \<Rightarrow> 'w \<Rightarrow> (go_error + ActionContext option) \<times> 'w) \<Rightarrow> (handover list \<Rightarrow> go_error option) \<Rightarrow>
   (MaterializeRequest \<Rightarrow> 'w \<Rightarrow> (go_error + RunnableRevision) \<times> 'w) \<Rightarrow>
   (VerifyRequest \<Rightarrow> 'w \<Rightarrow> (go_error + VerificationReport) \<times> 'w) \<Rightarrow> RunnerConfig \<Rightarrow> ('w \<Rightarrow> time)
     \<Rightarrow> ('w \<times> handover list) Runner"
where
  "noting_runner clm answer mat ver config now = \<lparr>rn_store = noting_store clm answer,
     rn_executor = \<lparr>ae_Materialize = lifted mat, ae_Verify = lifted ver\<rparr>, rn_config = config,
     rn_now = (\<lambda>(w, h). now w)\<rparr>"

lemma noting_runner_simps [simp]:
  "rn_store (noting_runner clm answer mat ver config now) = noting_store clm answer"
  "ae_Materialize (rn_executor (noting_runner clm answer mat ver config now)) = lifted mat"
  "ae_Verify (rn_executor (noting_runner clm answer mat ver config now)) = lifted ver"
  "rn_config (noting_runner clm answer mat ver config now) = config"
  "rn_now (noting_runner clm answer mat ver config now) (w, h) = now w"
  by (simp_all add: noting_runner_def)

lemma noting_store_simps [simp]:
  "as_Claim (noting_store clm answer) o' ttl (w, h) = (case clm o' ttl w of (res, w1) \<Rightarrow> (res, (w1, h)))"
  "as_CompleteMaterialization (noting_store clm answer) c v (w, h) =
     (answer (h @ [Completed_materialization c v]), (w, h @ [Completed_materialization c v]))"
  "as_CompleteVerification (noting_store clm answer) c s (w, h) =
     (answer (h @ [Completed_verification c s]), (w, h @ [Completed_verification c s]))"
  "as_RequestVerificationEnvironmentRelease (noting_store clm answer) c e (w, h) =
     (answer (h @ [Released c e]), (w, h @ [Released c e]))"
  "as_ReportFailure (noting_store clm answer) c class code m (w, h) =
     (answer (h @ [Failure_reported c class code m]), (w, h @ [Failure_reported c class code m]))"
  by (simp_all add: noting_store_def Let_def)

lemma reportFailure_notes:
  "\<exists>x. snd (reportFailure (noting_runner clm answer mat ver config now) (ax_Credential action) e (w, h)) = (w, h @ [x]) \<and>
     accountable cd action x"
  by (cases "failure_class_code e")
    (auto simp: reportFailure_def Let_def accountable_def failure_summary_ok dest: failure_class_valid)

lemma settle_notes:
  "\<exists>xs. settle (noting_runner clm answer mat ver config now) parentDone (ax_Credential action) err (w, h) = (w, h @ xs) \<and>
     (\<forall>x\<in>set xs. accountable cd action x)"
  using reportFailure_notes [of clm answer mat ver config now action _ w h cd]
  by (cases err) (auto simp: settle_def, (metis list.set_cases list.set_intros(1) empty_iff insert_iff list.set)+)

context bound_executor
begin

lemma materialization_notes:
  assumes "execute_materialization cd (noting_runner clm answer mat ver config now) (ax_Credential action) spec (w, h) = (res, w', h')"
    and "\<forall>v. now v \<noteq> 0" "ax_Spec action = Some spec"
  shows "res \<noteq> Panics \<and> (\<exists>xs. h' = h @ xs \<and> (\<forall>x\<in>set xs. accountable cd action x))"
proof -
  let ?q = "\<lparr>mr_Credential = ax_Credential action, mr_Spec = spec\<rparr>"
  obtain r w1 where e: "mat ?q w = (r, w1)" by fastforce
  show ?thesis
  proof (cases r)
    case (Inl x)
    then show ?thesis using assms(1) e by (auto simp: execute_materialization_def lifted_def)
  next
    case (Inr revision)
    have b: "RunnableRevision_Validate cd revision = None" "rr_Spec revision = spec"
      using mat_bound [OF e [unfolded Inr]] by simp_all
    then obtain d where d: "RunnableRevision_Digest cd revision = Inr d"
      by (auto simp: RunnableRevision_Validate_None RunnableRevision_Digest_Inr)
    obtain rid where rid: "RecordID ''rr'' (lc_Identity (ax_Credential action)) = Some rid" "id_ok rid"
      using RecordID_id_ok [OF stable_prefixes(1)] by fastforce
    let ?v = "\<lparr>sr_Reference = \<lparr>ref_ID = rid, ref_Digest = d\<rparr>, sr_Revision = revision, sr_CreatedAt = now w1\<rparr>"
    have "StoredRevision_Validate cd ?v = None"
      using derived_revision_valid [OF b(1) d rid(2)] assms(2) by simp
    then have "accountable cd action (Completed_materialization (ax_Credential action) ?v)"
      using rid b(2) assms(3) by (simp add: accountable_def)
    then show ?thesis
      using assms(1) e Inr d rid(1) by (auto simp: execute_materialization_def lifted_def)
  qed
qed

lemma verification_notes:
  assumes "execute_verification cd (noting_runner clm answer mat ver config now) action revision (w, h) = (res, w', h')"
    and "\<forall>v. now v \<noteq> 0" "ax_RunnableRevision action = Some revision"
  shows "res \<noteq> Panics \<and> (\<exists>xs. h' = h @ xs \<and> (\<forall>x\<in>set xs. accountable cd action x))"
proof -
  let ?c = "ax_Credential action"
  let ?q = "\<lparr>vq_Credential = ?c, vq_RunnableRevision = revision,
            vq_RunnableRevisionRef = ax_RunnableRevisionRef action,
            vq_RunnableRevisionDigest = ax_RunnableRevisionDigest action, vq_Attempt = ax_Attempt action\<rparr>"
  obtain r w1 where e: "ver ?q w = (r, w1)" by fastforce
  show ?thesis
  proof (cases r)
    case (Inl x)
    then show ?thesis using assms(1) e by (auto simp: execute_verification_def lifted_def)
  next
    case (Inr report)
    have b: "VerificationReport_Validate cd report revision = None" "vr_Attempt report = ax_Attempt action"
      using ver_bound [OF e [unfolded Inr]] by simp_all
    obtain rid where rid: "RecordID ''vr'' (lc_Identity ?c) = Some rid" "id_ok rid"
      using RecordID_id_ok [OF stable_prefixes(2)] by fastforce
    show ?thesis
    proof (cases "\<exists>f. vr_Failure report = Some f \<and> vf_Class f = FailureInfrastructure")
      case True
      then obtain f where f: "vr_Failure report = Some f" "vf_Class f = FailureInfrastructure" by blast
      have "VerificationFailure_Validate f = None"
        using b(1) f by (auto simp: VerificationReport_Validate_None report_ok_def verdict_ok_def)
      then have ok: "vf_Reason f \<noteq> []" "required_ok MaxSummaryLength (vf_Message f)"
        by (auto simp: VerificationFailure_Validate_def first_error_Cons valid_simps id_ok_def)
      then show ?thesis
        using assms(1) e Inr f
        by (auto simp: execute_verification_def lifted_def Let_def requestVerificationEnvironmentRelease_def
            accountable_def FailureClass_Valid_def)
    next
      case False
      show ?thesis
      proof (cases "VerificationReport_Digest cd report revision")
        case (Inl x)
        then show ?thesis
          using assms(1) e Inr False by (auto simp: execute_verification_def lifted_def Let_def split: option.splits)
      next
        case d: (Inr d)
        let ?v = "\<lparr>svr_Reference = \<lparr>vref_ID = rid, vref_Digest = d\<rparr>, svr_Report = report,
            svr_RunnableRevision = revision, svr_CreatedAt = now w1\<rparr>"
        have "ValidDigest d" using d b(1) by (auto simp: VerificationReport_Digest_def check_Inr and_then_Inr_iff)
        then have "StoredVerificationReport_Validate cd ?v = None"
          using b(1) d rid(2) assms(2)
          by (simp add: StoredVerificationReport_Validate_def VerificationReportReference_Validate_def
              first_error_Cons valid_simps(1) validateID_None fail_if_def)
        then have "accountable cd action (Completed_verification ?c ?v)"
          using rid b(2) assms(3) False by (simp add: accountable_def)
        then show ?thesis
          using assms(1) e Inr d rid(1) False
          by (auto simp: execute_verification_def lifted_def Let_def split: option.splits)
      qed
    qed
  qed
qed

text \<open>
  A whole round: it never panics, and all that reaches the store is accountable to the action that
  was claimed.
\<close>

lemma process_one_accountable:
  assumes "ProcessOne cd (noting_runner clm answer mat ver config now) lost parentDone (w, []) = (res, w', h)"
    and "\<forall>v. now v \<noteq> 0"
  shows "res \<noteq> Panics \<and> (h = [] \<or> (\<exists>action w1. clm (cfg_WorkerID config) (cfg_LeaseTTL config) w = (Inr (Some action), w1) \<and>
     ActionContext_Validate cd action = None \<and> (\<forall>x\<in>set h. accountable cd action x)))"
proof -
  let ?r = "noting_runner clm answer mat ver config now"
  obtain c w1 where clm: "clm (cfg_WorkerID config) (cfg_LeaseTTL config) w = (c, w1)" by fastforce
  show ?thesis
  proof (cases "\<exists>action. c = Inr (Some action) \<and> ActionContext_Validate cd action = None")
    case False
    then show ?thesis
      using assms(1) clm by (auto simp: ProcessOne_def split: sum.splits option.splits)
  next
    case True
    then obtain action where a: "c = Inr (Some action)" "ActionContext_Validate cd action = None" by blast
    let ?p = "ai_Phase (lc_Identity (ax_Credential action))"
    have in_phase: "(?p = ActionMaterializeArtifact \<and> (\<exists>spec. ax_Spec action = Some spec)) \<or>
        (?p = ActionVerify \<and> (\<exists>revision. ax_RunnableRevision action = Some revision))"
      using a(2) by (auto simp: ActionContext_Validate_None)
    have "res2 \<noteq> Panics \<and> (\<forall>x\<in>set h3. accountable cd action x)"
      if proc: "process cd ?r lost parentDone action (w1, []) = (res2, w3, h3)" for res2 w3 h3
    proof -
      obtain res1 w2 h2 where run: "runner_execute cd ?r action (w1, []) = (res1, w2, h2)" by (metis prod.collapse)
      have noted: "res1 \<noteq> Panics" "\<forall>x\<in>set h2. accountable cd action x"
        using run in_phase materialization_notes [OF _ assms(2)] verification_notes [OF _ assms(2)]
        by (fastforce simp: runner_execute_def)+
      obtain timeout where t: "runnerActionTimeout action = Returns timeout"
        using in_phase by (auto simp: runnerActionTimeout_def Let_def)
      show ?thesis
      proof (cases timeout)
        case (Inl e)
        then show ?thesis
          using proc t settle_notes [of clm answer mat ver config now parentDone action "Some e" w1 "[]" cd]
          by (auto simp: process_def)
      next
        case (Inr d)
        then obtain err where err: "res1 = Returns err" using noted(1) by (cases res1) auto
        show ?thesis
          using proc t Inr run err noted(2) settle_notes [of clm answer mat ver config now parentDone action err w2 h2 cd]
          by (auto simp: process_def split: if_splits)
      qed
    qed
    then show ?thesis
      using assms(1) clm a by (fastforce simp: ProcessOne_def split: go_run.splits prod.splits)
  qed
qed

end

subsection \<open>The worker provides the bound results\<close>

lemma ArchiveMaterializer_Inr:
  assumes "ArchiveMaterializer_Materialize cd src bld q w = (Inr artifact, w')"
  shows "MaterializeRequest_Validate cd q = None \<and> ArtifactReference_Validate artifact = None \<and>
    ar_Runtime artifact = rp_Runtime (rs_RuntimeProfile (mr_Spec q)) \<and>
    RunnableSpec_Digest cd (mr_Spec q) = Inr (ar_BuiltFromSpecDigest artifact) \<and>
    (\<exists>archive w1. src (mr_Credential q) (rs_Source (mr_Spec q)) w = (Inr archive, w1) \<and>
       archiveDigest archive = sa_Digest (rs_Source (mr_Spec q)) \<and> bld (mr_Spec q) archive w1 = (Inr artifact, w'))"
  using assms
  by (auto simp: ArchiveMaterializer_Materialize_def split: option.splits sum.splits prod.splits if_splits)

lemma Worker_Materialize_archive:
  "Worker_Materialize cd (ArchiveMaterializer_Materialize cd src bld) q w =
     (case ArchiveMaterializer_Materialize cd src bld q w of
        (Inl e, w1) \<Rightarrow> (Inl e, w1)
      | (Inr artifact, w1) \<Rightarrow> (Inr \<lparr>rr_FormatVersion = FormatVersion, rr_Spec = mr_Spec q, rr_Artifact = artifact\<rparr>, w1))"
proof (cases "MaterializeRequest_Validate cd q")
  case None
  show ?thesis
  proof (cases "ArchiveMaterializer_Materialize cd src bld q w")
    case (Pair res w1)
    show ?thesis
    proof (cases res)
      case (Inr artifact)
      have a: "ArtifactReference_Validate artifact = None"
        "ar_Runtime artifact = rp_Runtime (rs_RuntimeProfile (mr_Spec q))"
        "RunnableSpec_Digest cd (mr_Spec q) = Inr (ar_BuiltFromSpecDigest artifact)"
        using ArchiveMaterializer_Inr [of cd src bld q w artifact w1] Pair Inr by auto
      then have "RunnableRevision_Validate cd
          \<lparr>rr_FormatVersion = FormatVersion, rr_Spec = mr_Spec q, rr_Artifact = artifact\<rparr> = None"
        by (auto simp: RunnableRevision_Validate_None revision_ok_def RunnableSpec_Digest_Inr)
      then show ?thesis using None Pair Inr by (simp add: Worker_Materialize_def Let_def)
    qed (simp add: Worker_Materialize_def None Pair)
  qed
qed (simp add: Worker_Materialize_def ArchiveMaterializer_Materialize_def)

interpretation wk: bound_executor cd "Worker_Materialize cd (ArchiveMaterializer_Materialize cd src bld)"
  "Worker_Verify cd (Executor_Verify cd ex)" for cd :: codec and src :: "'w source_reader" and bld ex
proof
  fix q :: MaterializeRequest and w w' :: 'w and revision
  assume "Worker_Materialize cd (ArchiveMaterializer_Materialize cd src bld) q w = (Inr revision, w')"
  then show "MaterializeRequest_Validate cd q = None \<and> RunnableRevision_Validate cd revision = None \<and>
      rr_Spec revision = mr_Spec q"
    by (auto simp: Worker_Materialize_def Let_def split: option.splits sum.splits prod.splits)
next
  fix v :: VerifyRequest and w w' :: 'w and report
  assume "Worker_Verify cd (Executor_Verify cd ex) v w = (Inr report, w')"
  then have "VerifyRequest_Validate cd v = None" "VerificationReport_Validate cd report (vq_RunnableRevision v) = None"
    "Executor_Verify cd ex v w = (Inr report, w')"
    by (auto simp: Worker_Verify_def split: option.splits sum.splits prod.splits)
  then show "VerifyRequest_Validate cd v = None \<and>
      VerificationReport_Validate cd report (vq_RunnableRevision v) = None \<and> vr_Attempt report = vq_Attempt v"
    using Executor_report(1) [of cd ex v w report w'] by simp
qed

subsection \<open>The repository behind the store\<close>

text \<open>
  Calls of one worker against the repository, numbered; the clock gives the time of each call. The
  Server's release endpoint is not part of the repository and stays a parameter.
\<close>

record pg_world =
  pw_store :: store
  pw_calls :: nat

definition pg_call :: "(nat \<Rightarrow> time) \<Rightarrow> (time \<Rightarrow> store \<Rightarrow> 'r \<times> store) \<Rightarrow> pg_world \<Rightarrow> 'r \<times> pg_world" where
  "pg_call clock op w = (case op (clock (pw_calls w)) (pw_store w) of
     (res, st) \<Rightarrow> (res, \<lparr>pw_store = st, pw_calls = Suc (pw_calls w)\<rparr>))"

definition pg_runner ::
  "codec \<Rightarrow> database \<Rightarrow> decoders \<Rightarrow> (nat \<Rightarrow> time) \<Rightarrow>
   (LeaseCredential \<Rightarrow> EnvironmentIdentity \<Rightarrow> pg_world \<Rightarrow> go_error option \<times> pg_world) \<Rightarrow>
   (RunnableSpec \<Rightarrow> string \<Rightarrow> go_error + ArtifactReference) \<Rightarrow> pg_world Executor \<Rightarrow> RunnerConfig \<Rightarrow> pg_world Runner"
where
  "pg_runner cd db dc clock release build ex config =
     \<lparr>rn_store = \<lparr>as_Claim = (\<lambda>owner ttl. pg_call clock (ClaimRunnableAction cd db [] owner ttl)),
        as_Renew = (\<lambda>c ttl. pg_call clock (RenewRunnableAction db c ttl)),
        as_CompleteMaterialization = (\<lambda>c v. pg_call clock (CompleteRunnableMaterialization cd db c v)),
        as_CompleteVerification = (\<lambda>c v. pg_call clock (CompleteRunnableVerification cd db dc c v)),
        as_RequestVerificationEnvironmentRelease = release,
        as_ReportFailure = (\<lambda>c class code s. pg_call clock (ReportRunnableActionFailure db c class code s))\<rparr>,
      rn_executor = \<lparr>
        ae_Materialize = Worker_Materialize cd (ArchiveMaterializer_Materialize cd
          (\<lambda>c _. pg_call clock (\<lambda>now st. (ReadRunnableActionSource db c now st, st))) (\<lambda>spec archive w. (build spec archive, w))),
        ae_Verify = Worker_Verify cd (Executor_Verify cd ex)\<rparr>,
      rn_config = config, rn_now = (\<lambda>w. clock (pw_calls w))\<rparr>"

text \<open>A live lease on a row of the store makes the completion go through.\<close>

lemma live_row_is:
  assumes "actions_ok (st_actions st)" "r \<in> set (st_actions st)" "live db c now r"
  shows "live_row db c now st = Some r"
proof -
  obtain x where "live_row db c now st = Some x" using assms(2,3) live_row_None [of db c now st] by (cases "live_row db c now st") auto
  then show ?thesis
    using live_row_Some [of db c now st x] actions_same [OF assms(1) _ assms(2)] assms(3) by (auto simp: live_def)
qed

lemma live_update_one:
  assumes "actions_ok (st_actions st)" "live_row db c now st = Some r"
  shows "snd (sql_update (live db c now) f (st_actions st)) = 1"
  using assms live_row_Some [OF assms(2)] sql_row_distinct [of aw_key "st_actions st" r]
  by (subst sql_update_count [where key = aw_key and k = "aw_key r"]) (auto simp: actions_ok_def live_def)

lemma put_revision_fresh:
  assumes "ref_ID (sr_Reference val) \<notin> rv_id ` set (st_revisions st)"
  shows "\<exists>st1. put_revision db m val d st = (None, st1)"
  using assms
  by (cases "sql_row rv_digest (ref_Digest (sr_Reference val)) (st_revisions st)")
    (simp_all add: put_revision_def sql_insert_def)

lemma complete_materialization_ok:
  assumes "actions_ok (st_actions st)" "live_row db c now st = Some r" "credential_ok c"
    and "ai_Phase (lc_Identity c) = ActionMaterializeArtifact" "now \<noteq> 0"
    and "StoredRevision_Validate cd val = None" "identity_of_spec cd (lc_Identity c) (rr_Spec (sr_Revision val))"
    and "aw_spec r = ai_SpecDigest (lc_Identity c)" "ref_ID (sr_Reference val) \<notin> rv_id ` set (st_revisions st)"
  shows "fst (CompleteRunnableMaterialization cd db c val now st) = None"
proof -
  have d: "RunnableSpec_Digest cd (rr_Spec (sr_Revision val)) = Inr (aw_spec r)"
    using assms(7,8) by (simp add: RunnableSpec_Digest_Inr identity_of_spec_def)
  obtain st1 where put: "put_revision db ''read stored materialized runnable revision'' val (aw_spec r) st = (None, st1)"
    using assms(9) put_revision_fresh [of val st db _ "aw_spec r"] by blast
  then have acts: "st_actions st1 = st_actions st" using put_revision_result [OF put] by auto
  show ?thesis
    using assms(2-8) put live_update_one [OF assms(1,2)]
    by (simp add: CompleteRunnableMaterialization_def LeaseCredential_Validate_None d acts identity_of_spec_def
        case_prod_unfold)
qed

end
