(* ===== verification/RunnerProperties.thy ===== *)
theory RunnerProperties
  imports RunnerRounds
begin

section \<open>Properties of the runner\<close>

text \<open>
  What one round of the runner does, over any store with the worker as its executor, and over the
  repository.
\<close>

subsection \<open>A materialization round over the repository\<close>

lemma materialization_round:
  assumes ok: "actions_ok (st_actions st)" "revisions_ok cd (st_revisions st)" "sources_ok (st_sources st)" "specs_ok cd (st_specs st)"
    and claim: "ClaimRunnableAction cd db [] (cfg_WorkerID config) (cfg_LeaseTTL config) (clock 0) st = (Inr (Some ctx), st1)"
    and spec: "ax_Spec ctx = Some spec" and source: "sa_Digest (rs_Source spec) \<in> so_digest ` set (st_sources st)"
    and build: "\<And>archive. archiveDigest archive = sa_Digest (rs_Source spec) \<Longrightarrow> build spec archive = Inr artifact"
    and artifact: "ArtifactReference_Validate artifact = None" "ar_Runtime artifact = rp_Runtime (rs_RuntimeProfile spec)"
      "ar_BuiltFromSpecDigest artifact = digest_bytes (cd_spec cd spec)"
    and time: "\<And>n. clock n \<noteq> 0" "\<And>n. n \<in> {1, 2} \<Longrightarrow> db_ts db (clock n) < db_ts db (clock 0 + cfg_LeaseTTL config)"
    and fresh: "\<And>r. r \<in> set (st_revisions st) \<Longrightarrow> RecordID ''rr'' (lc_Identity (ax_Credential ctx)) \<noteq> Some (rv_id r)"
  shows "\<exists>val st2 now. ProcessOne cd (pg_runner cd db dc clock release build ex config) False False \<lparr>pw_store = st, pw_calls = 0\<rparr> =
      (Returns (True, None), \<lparr>pw_store = st2, pw_calls = 3\<rparr>) \<and>
    CompleteRunnableMaterialization cd db (ax_Credential ctx) val now st1 = (None, st2) \<and>
    actions_ok (st_actions st1) \<and> revisions_ok cd (st_revisions st1) \<and>
    sr_Revision val = \<lparr>rr_FormatVersion = FormatVersion, rr_Spec = spec, rr_Artifact = artifact\<rparr> \<and>
    StoredRevision_Validate cd val = None"
proof -
  let ?owner = "cfg_WorkerID config" and ?ttl = "cfg_LeaseTTL config" and ?c = "ax_Credential ctx"
  let ?r = "pg_runner cd db dc clock release build ex config"
  let ?rev = "\<lparr>rr_FormatVersion = FormatVersion, rr_Spec = spec, rr_Artifact = artifact\<rparr>"
  obtain r where r: "r \<in> set (st_actions st)" "runnableActionContextTx cd r (aw_attempt r + 1) ?owner st1 = Inr ctx"
    "st1 = st \<lparr>st_actions := fst (sql_update (\<lambda>x. aw_key x = aw_key r)
             (claim_action_row db ?owner ?ttl (clock 0) (aw_attempt r + 1)) (st_actions st))\<rparr>"
    using claim_result [OF claim] by auto
  let ?row = "claim_action_row db ?owner ?ttl (clock 0) (aw_attempt r + 1) r"
  have step: "store_step cd db dc st st1"
    using store_step.claim [of cd db dc st "[]" ?owner ?ttl "clock 0"] claim by simp
  have keep: "actions_ok (st_actions st1)" "revisions_ok cd (st_revisions st1)"
    using steps_keep [OF r_into_rtranclp, OF step ok(1,2)] by auto
  have ctx: "ActionContext_Validate cd ctx = None" "?c = \<lparr>lc_Identity = row_identity r, lc_LeaseOwner = ?owner\<rparr>"
    using r(2) by (auto simp: runnableActionContextTx_def Let_def check_Inr split: ActionPhase.splits option.splits)
  then have cred: "credential_ok ?c" "ai_Phase (lc_Identity ?c) = ActionMaterializeArtifact"
    "identity_of_spec cd (lc_Identity ?c) spec"
    using spec by (auto simp: ActionContext_Validate_None)
  have valid: "MaterializeRequest_Validate cd \<lparr>mr_Credential = ?c, mr_Spec = spec\<rparr> = None"
    using cred by (simp add: MaterializeRequest_Validate_None)
  have row: "?row \<in> set (st_actions st1)" "aw_spec ?row = ai_SpecDigest (lc_Identity ?c)"
    using r(1) by (auto simp: r(3) sql_update_set ctx(2)) (simp_all add: claim_action_row_def row_identity_def)
  have key: "aw_key ?row = ActionIdentity_Key (lc_Identity ?c)"
    using ok(1) r(1) by (simp add: actions_ok_def action_row_ok_def ctx(2))
  have live: "live_row db ?c (clock n) st1 = Some ?row" if "n \<in> {1, 2}" for n
    using time(2) [OF that] key by (intro live_row_is [OF keep(1) row(1)]) (simp add: live_def claim_action_row_def ctx(2))
  obtain so where so: "sql_row so_digest (sa_Digest (rs_Source spec)) (st_sources st1) = Some so"
    "archiveDigest (so_archive so) = sa_Digest (rs_Source spec)"
  proof -
    obtain so where "so \<in> set (st_sources st)" "so_digest so = sa_Digest (rs_Source spec)" using source by auto
    then show ?thesis
      using that [of so] ok(3) sql_row_distinct [of so_digest "st_sources st" so]
      by (simp add: r(3) sources_ok_def archiveDigest_def runnableArchiveDigest_def)
  qed
  obtain sp where sp: "sql_row sp_digest (aw_spec ?row) (st_specs st1) = Some sp" "sp_spec sp = spec" "sp_source sp = sa_Digest (rs_Source spec)"
  proof -
    obtain sp where p: "sql_row sp_digest (aw_spec r) (st_specs st1) = Some sp" "sp_spec sp = spec"
      using r(2) spec cred(2) by (auto simp: runnableActionContextTx_def Let_def check_Inr split: ActionPhase.splits option.splits)
    moreover have "sp_source sp = sa_Digest (rs_Source (sp_spec sp))"
      using p(1) ok(4) sql_row_Some [OF p(1)] by (simp add: r(3) specs_ok_def)
    ultimately show ?thesis using that [of sp] by (simp add: claim_action_row_def)
  qed
  have read: "ReadRunnableActionSource db ?c (clock 1) st1 = Inr (so_archive so)"
    using cred live [of 1] time(1) so sp
    by (simp add: ReadRunnableActionSource_def LeaseCredential_Validate_None archiveDigest_def runnableArchiveDigest_def)
  have specd: "RunnableSpec_Digest cd spec = Inr (digest_bytes (cd_spec cd spec))"
    using cred(3) by (simp add: RunnableSpec_Digest_Inr identity_of_spec_def)
  have rev: "RunnableRevision_Validate cd ?rev = None"
    using artifact cred(3) by (simp add: RunnableRevision_Validate_None revision_ok_def identity_of_spec_def)
  then obtain d where d: "RunnableRevision_Digest cd ?rev = Inr d"
    by (auto simp: RunnableRevision_Validate_None RunnableRevision_Digest_Inr)
  have mat: "ae_Materialize (rn_executor ?r) \<lparr>mr_Credential = ?c, mr_Spec = spec\<rparr> \<lparr>pw_store = st1, pw_calls = 1\<rparr> =
      (Inr ?rev, \<lparr>pw_store = st1, pw_calls = 2\<rparr>)"
    using valid read so(2) build [OF so(2)] artifact specd rev
    by (simp add: pg_runner_def Worker_Materialize_archive ArchiveMaterializer_Materialize_def pg_call_def)
  obtain rid where rid: "RecordID ''rr'' (lc_Identity ?c) = Some rid" "id_ok rid"
    using RecordID_id_ok [OF stable_prefixes(1)] by fastforce
  let ?val = "\<lparr>sr_Reference = \<lparr>ref_ID = rid, ref_Digest = d\<rparr>, sr_Revision = ?rev, sr_CreatedAt = clock 2\<rparr>"
  have val: "StoredRevision_Validate cd ?val = None"
    by (rule derived_revision_valid [OF rev d rid(2) time(1)])
  have "st_revisions st1 = st_revisions st" by (simp add: r(3))
  then have "ref_ID (sr_Reference ?val) \<notin> rv_id ` set (st_revisions st1)" using fresh rid(1) by auto
  then have "fst (CompleteRunnableMaterialization cd db ?c ?val (clock 2) st1) = None"
    using cred row(2) time(1) val by (intro complete_materialization_ok [OF keep(1) live]) simp_all
  then obtain st2 where done': "CompleteRunnableMaterialization cd db ?c ?val (clock 2) st1 = (None, st2)"
    by (metis prod.collapse)
  have "0 < lp_CreateTimeoutSeconds (rs_LifecyclePolicy spec)"
    using cred(3) by (simp add: identity_of_spec_def spec_ok_def lifecycle_ok_def)
  then have "\<exists>t. runnerActionTimeout ctx = Returns (Inr t)"
    using cred(2) spec by (simp add: runnerActionTimeout_def Let_def)
  moreover have "as_Claim (rn_store ?r) (cfg_WorkerID (rn_config ?r)) (cfg_LeaseTTL (rn_config ?r)) \<lparr>pw_store = st, pw_calls = 0\<rparr> =
      (Inr (Some ctx), \<lparr>pw_store = st1, pw_calls = 1\<rparr>)"
    by (simp add: pg_runner_def pg_call_def claim)
  moreover have "as_CompleteMaterialization (rn_store ?r) ?c ?val \<lparr>pw_store = st1, pw_calls = 2\<rparr> =
      (None, \<lparr>pw_store = st2, pw_calls = 3\<rparr>)" "rn_now ?r \<lparr>pw_store = st1, pw_calls = 2\<rparr> = clock 2"
    by (simp_all add: pg_runner_def pg_call_def done')
  ultimately have "ProcessOne cd ?r False False \<lparr>pw_store = st, pw_calls = 0\<rparr> = (Returns (True, None), \<lparr>pw_store = st2, pw_calls = 3\<rparr>)"
    using ctx(1) cred(2) spec mat d rid(1)
    by (auto simp: ProcessOne_def process_def runner_execute_def execute_materialization_def settle_def)
  then show ?thesis using done' keep val by (intro exI [of _ ?val] exI [of _ st2] exI [of _ "clock 2"]) simp
qed

subsection \<open>A concrete round\<close>

text \<open>The example spec with a source archive of known bytes, in a store that holds both.\<close>

definition source_spec :: RunnableSpec where
  "source_spec = example_spec \<lparr>rs_Source := (rs_Source example_spec) \<lparr>sa_Digest := digest_bytes ''tar''\<rparr>\<rparr>"

definition source_store :: "action_row \<Rightarrow> store" where
  "source_store r = (example_store r) \<lparr>st_specs := [new_spec_row example_db (digest_bytes ''nginx'') source_spec 1],
     st_sources := [\<lparr>so_digest = digest_bytes ''tar'', so_archive = ''tar'', so_created = 1\<rparr>]\<rparr>"

definition source_context :: ActionContext where
  "source_context = \<lparr>ax_Credential = example_credential ''w1'', ax_Attempt = 1, ax_Spec = Some source_spec,
     ax_RunnableRevision = None, ax_RunnableRevisionRef = empty_reference, ax_RunnableRevisionDigest = []\<rparr>"

lemma source_spec_simps [simp]:
  "rs_Identity source_spec = rs_Identity example_spec" "sa_Digest (rs_Source source_spec) = digest_bytes ''tar''"
  "rs_RuntimeProfile source_spec = rs_RuntimeProfile example_spec"
  by (simp_all add: source_spec_def)

lemma source_spec_ok: "spec_ok source_spec"
  using example_spec_ok by (simp add: spec_ok_def source_spec_def SourceArchive_Validate_def first_error_Cons)

lemma source_context_valid: "ActionContext_Validate example_codec source_context = None"
  unfolding ActionContext_Validate_None using example_credential_ok(1) source_spec_ok
  by (simp add: source_context_def example_credential_def example_materialization_def identity_of_spec_def example_spec_id)

lemma source_claim:
  "ClaimRunnableAction example_codec example_db [] ''w1'' 100 5 (source_store queued_row) =
     (Inr (Some source_context), source_store (running_row ''w1''))"
proof -
  have b: "\<not> blank ''w1''" by code_simp
  have st: "(source_store queued_row) \<lparr>st_actions := [claim_action_row example_db ''w1'' 100 5 1 queued_row]\<rparr> =
      source_store (running_row ''w1'')"
    by (simp add: source_store_def example_store_def running_row_def empty_store_def)
  have acts: "st_actions (source_store r) = [r]" for r by (simp add: source_store_def)
  have sp: "sql_row sp_digest (digest_bytes ''nginx'') (st_specs (source_store r)) =
      Some (new_spec_row example_db (digest_bytes ''nginx'') source_spec 1)" for r
    by (simp add: source_store_def sql_row_def new_spec_row_def)
  show ?thesis
    using source_context_valid by (simp add: ClaimRunnableAction_def b sql_first_def action_eligible_def sql_update_def
        st runnableActionContextTx_def Let_def acts sp example_credential_def [symmetric])
      (simp add: new_spec_row_def source_context_def source_store_def example_store_def running_row_def empty_store_def)
qed

lemma source_store_ok:
  "actions_ok (st_actions (source_store queued_row))" "revisions_ok example_codec (st_revisions (source_store queued_row))"
  "sources_ok (st_sources (source_store queued_row))" "specs_ok example_codec (st_specs (source_store queued_row))"
proof -
  have "RunnableSpec_Digest example_codec source_spec = Inr (digest_bytes ''nginx'')"
    using source_spec_ok by (simp add: RunnableSpec_Digest_Inr example_spec_id)
  then show "actions_ok (st_actions (source_store queued_row))"
    "revisions_ok example_codec (st_revisions (source_store queued_row))"
    "sources_ok (st_sources (source_store queued_row))" "specs_ok example_codec (st_specs (source_store queued_row))"
    using example_store_actions_ok(1)
    by (simp_all add: source_store_def revisions_ok_def sources_ok_def specs_ok_def new_spec_row_def
        runnableArchiveDigest_def digest_bytes_def)
qed

definition example_config :: RunnerConfig where
  "example_config = \<lparr>cfg_WorkerID = ''w1'', cfg_LeaseTTL = 100, cfg_PollEvery = 1\<rparr>"

subsection \<open>Properties\<close>

text \<open>
  C1 A round of the runner settles a queued materialization: if the claim hands out the action, the
  source archive of its spec is stored, the builder returns an artifact for the spec from these
  bytes, and the calls fall within the lease, then \<open>ProcessOne\<close> returns no error and the action is
  completed: the coordinator resolves a reference with the digest of exactly the revision made of
  the spec and the artifact, and the reference resolves.
\<close>

theorem runner_materializes:
  assumes "actions_ok (st_actions st)" "revisions_ok cd (st_revisions st)" "sources_ok (st_sources st)" "specs_ok cd (st_specs st)"
    and "ClaimRunnableAction cd db [] (cfg_WorkerID config) (cfg_LeaseTTL config) (clock 0) st = (Inr (Some ctx), st1)"
    and "ax_Spec ctx = Some spec" "sa_Digest (rs_Source spec) \<in> so_digest ` set (st_sources st)"
    and "\<And>archive. archiveDigest archive = sa_Digest (rs_Source spec) \<Longrightarrow> build spec archive = Inr artifact"
    and "ArtifactReference_Validate artifact = None" "ar_Runtime artifact = rp_Runtime (rs_RuntimeProfile spec)"
      "ar_BuiltFromSpecDigest artifact = digest_bytes (cd_spec cd spec)"
    and "\<And>n. clock n \<noteq> 0" "\<And>n. n \<in> {1, 2} \<Longrightarrow> db_ts db (clock n) < db_ts db (clock 0 + cfg_LeaseTTL config)"
    and "\<And>r. r \<in> set (st_revisions st) \<Longrightarrow> RecordID ''rr'' (lc_Identity (ax_Credential ctx)) \<noteq> Some (rv_id r)"
  shows "\<exists>w reference rev. ProcessOne cd (pg_runner cd db dc clock release build ex config) False False
        \<lparr>pw_store = st, pw_calls = 0\<rparr> = (Returns (True, None), w) \<and>
    ResolveMaterializedRunnableRevision (lc_Identity (ax_Credential ctx)) (pw_store w) = Inr reference \<and>
    RunnableRevision_Digest cd \<lparr>rr_FormatVersion = FormatVersion, rr_Spec = spec, rr_Artifact = artifact\<rparr> =
      Inr (ref_Digest reference) \<and>
    ResolveRunnableRevision cd (ref_ID reference) (ref_Digest reference) (pw_store w) = Inr rev \<and>
    RunnableRevision_Digest cd rev = Inr (ref_Digest reference)"
proof -
  obtain val st2 now where p: "ProcessOne cd (pg_runner cd db dc clock release build ex config) False False
        \<lparr>pw_store = st, pw_calls = 0\<rparr> = (Returns (True, None), \<lparr>pw_store = st2, pw_calls = 3\<rparr>)"
    "CompleteRunnableMaterialization cd db (ax_Credential ctx) val now st1 = (None, st2)"
    "actions_ok (st_actions st1)" "revisions_ok cd (st_revisions st1)"
    "sr_Revision val = \<lparr>rr_FormatVersion = FormatVersion, rr_Spec = spec, rr_Artifact = artifact\<rparr>"
    "StoredRevision_Validate cd val = None"
    using materialization_round [where clock = clock and build = build and config = config and st = st, OF assms] by blast
  have "RunnableRevision_Digest cd (sr_Revision val) = Inr (ref_Digest (sr_Reference val))"
    using p(6) by (auto simp: StoredRevision_Validate_None)
  then show ?thesis
    using completed_resolves [OF p(3,4,2) rtranclp.rtrancl_refl] p(1,5)
    by (metis RevisionReference.select_convs(1,2) pg_world.select_convs(1))
qed

lemma runner_materializes_witness:
  "\<forall>dc release ex. \<exists>w reference. ProcessOne example_codec (pg_runner example_codec example_db dc (\<lambda>n. 5 + int n) release
       (\<lambda>_ _. Inr (rr_Artifact example_revision)) ex example_config) False False
       \<lparr>pw_store = source_store queued_row, pw_calls = 0\<rparr> = (Returns (True, None), w) \<and>
     ResolveMaterializedRunnableRevision example_materialization (pw_store w) = Inr reference"
proof -
  have c: "ClaimRunnableAction example_codec example_db [] (cfg_WorkerID example_config) (cfg_LeaseTTL example_config)
      (5 + int 0) (source_store queued_row) = (Inr (Some source_context), source_store (running_row ''w1''))"
    using source_claim by (simp add: example_config_def)
  have s: "ax_Spec source_context = Some source_spec" "lc_Identity (ax_Credential source_context) = example_materialization"
    by (simp_all add: source_context_def example_credential_def)
  have src: "sa_Digest (rs_Source source_spec) \<in> so_digest ` set (st_sources (source_store queued_row))"
    by (simp add: source_store_def)
  have art: "ar_Runtime (rr_Artifact example_revision) = rp_Runtime (rs_RuntimeProfile source_spec)"
    "ar_BuiltFromSpecDigest (rr_Artifact example_revision) = digest_bytes (cd_spec example_codec source_spec)"
    by (simp_all add: example_fields example_spec_id) (simp_all add: example_revision_def example_profile_def)
  have none: "st_revisions (source_store queued_row) = []" by (simp add: source_store_def)
  have time: "n \<in> {1, 2} \<Longrightarrow> db_ts example_db (5 + int n) < db_ts example_db (5 + int 0 + cfg_LeaseTTL example_config)" for n
    by (auto simp: example_config_def)
  show ?thesis
    using runner_materializes [where build = "\<lambda>_ _. Inr (rr_Artifact example_revision)" and clock = "\<lambda>n. 5 + int n",
        OF source_store_ok c s(1) src refl example_artifact_valid art _ time]
    by (simp add: none s(2)) blast
qed

text \<open>
  C31 One round over any store, with the worker built from any source reader, artifact builder,
  environment provider and output store: it does not panic, and whatever it hands to the store is
  accountable to the one action that was claimed and validated. Stored revisions and reports pass
  the Server's own validation, belong to the spec or revision of the action and to its attempt, and
  carry the derived record name; no report with an infrastructure failure is completed; a failure
  has a valid class, a code, and a non-blank summary within the limit.
\<close>

theorem handovers_accountable:
  assumes "ProcessOne cd (noting_runner clm answer
      (Worker_Materialize cd (ArchiveMaterializer_Materialize cd src bld)) (Worker_Verify cd (Executor_Verify cd ex))
      config now) lost parentDone (w, []) = (res, w', h)" "\<forall>v. now v \<noteq> 0"
  shows "res \<noteq> Panics \<and> (h = [] \<or> (\<exists>action w1. clm (cfg_WorkerID config) (cfg_LeaseTTL config) w = (Inr (Some action), w1) \<and>
     ActionContext_Validate cd action = None \<and> (\<forall>x\<in>set h. accountable cd action x)))"
  by (rule wk.process_one_accountable [OF assms])

text \<open>The materialization of the example spec, with an archive of other bytes than the frozen ones.\<close>

definition wrong_archive :: "LeaseCredential \<Rightarrow> SourceArchive \<Rightarrow> unit \<Rightarrow> (go_error + string) \<times> unit" where
  "wrong_archive c a w = (Inl (Msg ''gone''), w)"

lemma handovers_accountable_witness:
  "\<exists>h. ProcessOne example_codec (noting_runner (\<lambda>_ _ w. (Inr (Some source_context), w)) (\<lambda>_. None)
      (Worker_Materialize example_codec (ArchiveMaterializer_Materialize example_codec wrong_archive (\<lambda>_ _ w. (Inl (Msg []), w))))
      (Worker_Verify example_codec (Executor_Verify example_codec
        \<lparr>ex_Create = (\<lambda>_ w. (Inl (Msg []), w)), ex_Execute = (\<lambda>_ _ w. (Inl (Msg []), w)), ex_OutputStore = None,
         ex_now = (\<lambda>_. 1), ex_decode = example_decode\<rparr>))
      example_config (\<lambda>_. 1)) False False ((), []) = (Returns (True, None), (), h) \<and>
    h = [Failure_reported (ax_Credential source_context) FailureInfrastructure ''runnable-action-failed''
           ''read runnable source archive: gone''] \<and>
    list_all (accountable example_codec source_context) h"
proof -
  let ?mat = "Worker_Materialize example_codec (ArchiveMaterializer_Materialize example_codec wrong_archive (\<lambda>_ _ w. (Inl (Msg []), w)))"
  let ?ex = "\<lparr>ex_Create = (\<lambda>_ w. (Inl (Msg []), w)), ex_Execute = (\<lambda>_ _ w. (Inl (Msg []), w)), ex_OutputStore = None,
         ex_now = (\<lambda>_. 1), ex_decode = example_decode\<rparr> :: unit Executor"
  let ?r = "noting_runner (\<lambda>_ _ w. (Inr (Some source_context), w)) (\<lambda>_. None) ?mat
      (Worker_Verify example_codec (Executor_Verify example_codec ?ex)) example_config (\<lambda>_. 1)"
  let ?h = "[Failure_reported (ax_Credential source_context) FailureInfrastructure ''runnable-action-failed''
           ''read runnable source archive: gone'']"
  have v: "ActionContext_Validate example_codec source_context = None"
    by (rule source_context_valid)
  have p: "ai_Phase (lc_Identity (ax_Credential source_context)) = ActionMaterializeArtifact" "ax_Spec source_context = Some source_spec"
    by (simp_all add: source_context_def example_credential_def example_materialization_def)
  then have q: "MaterializeRequest_Validate example_codec \<lparr>mr_Credential = ax_Credential source_context, mr_Spec = source_spec\<rparr> = None"
    using v by (auto simp: ActionContext_Validate_None MaterializeRequest_Validate_None)
  have mat: "?mat \<lparr>mr_Credential = ax_Credential source_context, mr_Spec = source_spec\<rparr> () =
      (Inl (Wrap ''read runnable source archive'' (Msg ''gone'')), ())"
    by (simp add: Worker_Materialize_archive ArchiveMaterializer_Materialize_def q wrong_archive_def)
  have t: "runnerActionTimeout source_context = Returns (Inr (wrap64 (600 * 1000000000)))"
    by (simp add: runnerActionTimeout_def p Let_def source_spec_def example_spec_def example_lifecycle_def)
  have sm: "failure_summary (Wrap ''read runnable source archive'' (Msg ''gone'')) = ''read runnable source archive: gone''"
    by code_simp
  have run: "ProcessOne example_codec ?r False False ((), []) = (Returns (True, None), (), ?h)"
    by (simp add: ProcessOne_def v process_def t runner_execute_def p execute_materialization_def lifted_def mat
        settle_def reportFailure_def failure_class_code_def sm)
  have "\<forall>v. (\<lambda>_. 1) (v :: unit) \<noteq> (0 :: time)" by simp
  from handovers_accountable [OF run this] show ?thesis using run by (auto simp: list_all_iff)
qed

text \<open>
  The error of a command that ran into its timeout is an artifact failure to the runner, and an
  infrastructure failure to the executor, which sees it first.
\<close>

lemma command_timeout_infrastructure:
  "failure_class_code (Sentinel ContextDeadlineExceeded m) = (FailureArtifact, ''execution-deadline-exceeded'') \<and>
   vf_Class (executionFailure reason (Sentinel ContextDeadlineExceeded m)) = FailureInfrastructure"
  by (simp add: failure_class_code_def executionFailure_def infrastructureFailure_def)

text \<open>The checks of a failure value return plain errors.\<close>

lemma malformed_failure_plain:
  "VerificationFailure_Validate f = Some e \<Longrightarrow> as_artifact e = None \<and> \<not> err_is e s"
  by (auto simp: VerificationFailure_Validate_def first_error_Some fail_if_def unsupported_def invalid_def
      validateID_def requiredString_def Let_def split: if_splits)

text \<open>
  C35 An artifact failure whose own fields are malformed, for example because a message quotes more than
  1024 bytes, does not reach the Server as an artifact failure. The worker replaces the executor's report
  by a plain error, and the runner, over the worker and the repository, reports that as an infrastructure
  failure under the code \<open>runnable-action-failed\<close>. While the lease is live, this queues the action again
  with a backoff, although its content is at fault; only from the eighth attempt on the action fails, with
  the code \<open>attempts-exhausted\<close> and still as a failure of the infrastructure.
\<close>

theorem malformed_failure_retried:
  assumes "ax_RunnableRevision action = Some revision"
    and "q = \<lparr>vq_Credential = ax_Credential action, vq_RunnableRevision = revision,
      vq_RunnableRevisionRef = ax_RunnableRevisionRef action, vq_RunnableRevisionDigest = ax_RunnableRevisionDigest action,
      vq_Attempt = ax_Attempt action\<rparr>"
    and "Executor_Verify cd ex q w = (Inr report, w')" "\<forall>v. ex_now ex v \<noteq> 0"
    and "vr_Failure report = Some f" "vf_Class f = FailureArtifact" "VerificationFailure_Validate f \<noteq> None"
    and "ae_Verify (rn_executor r) = lifted (Worker_Verify cd (Executor_Verify cd ex))"
    and "\<forall>c cls code s v t. as_ReportFailure (rn_store r) c cls code s (v, t) =
      apsnd (Pair v) (ReportRunnableActionFailure db c cls code s now t)"
    and "actions_ok (st_actions st)" "live_row db (ax_Credential action) now st = Some row" "now \<noteq> 0"
  shows "\<exists>e st' row'. Worker_Verify cd (Executor_Verify cd ex) q w = (Inl e, w') \<and>
    failure_class_code e = (FailureInfrastructure, ''runnable-action-failed'') \<and>
    process cd r False False action (w, st) = (Returns (), (w', st')) \<and>
    set (st_actions st') = insert row' (set (st_actions st) - {row}) \<and>
    aw_key row' = aw_key row \<and> aw_expires row' = None \<and> aw_class row' = Some FailureInfrastructure \<and>
    (if aw_attempt row < 8
     then aw_state row' = Queued \<and>
       aw_next row' = db_ts db (now + min (seconds 300) (seconds 5 * 2 ^ nat (aw_attempt row - 1)))
     else aw_state row' = Failed \<and> aw_code row' = ''attempts-exhausted'')"
proof -
  obtain x where x: "VerificationFailure_Validate f = Some x" using assms(7) by blast
  let ?e = "Wrap ''verifier returned an invalid report'' x"
  have "vq_RunnableRevision q = revision" by (simp add: assms(2))
  then have worker: "Worker_Verify cd (Executor_Verify cd ex) q w = (Inl ?e, w')"
    using Executor_report_check [OF assms(3,4)] Executor_report(3) [OF assms(3)] assms(3,5) x
    by (simp add: Worker_Verify_def)
  have plain: "failure_class_code ?e = (FailureInfrastructure, ''runnable-action-failed'')" "\<not> err_is ?e ErrActionLeaseLost"
    using malformed_failure_plain [OF x] by (simp_all add: failure_class_code_def)
  have q: "LeaseCredential_Validate (ax_Credential action) = None" "ai_Phase (lc_Identity (ax_Credential action)) = ActionVerify"
    "0 < lp_MaxLifetimeSeconds (rs_LifecyclePolicy (rr_Spec revision))"
    using Executor_report(3) [OF assms(3)]
    by (auto simp: assms(2) VerifyRequest_Validate_None LeaseCredential_Validate_None revision_ok_def spec_ok_def lifecycle_ok_def)
  have "\<not> blank ''runnable-action-failed''" by code_simp
  moreover have "\<not> blank (failure_summary ?e)" using failure_summary_ok [of ?e] by (simp add: required_ok_def blank_def)
  ultimately obtain st' row' where st': "ReportRunnableActionFailure db (ax_Credential action) FailureInfrastructure
      ''runnable-action-failed'' (failure_summary ?e) now st = (None, st')"
    "set (st_actions st') = insert row' (set (st_actions st) - {row})" "aw_key row' = aw_key row" "aw_expires row' = None"
    "aw_class row' = Some FailureInfrastructure"
    "if aw_attempt row < 8
     then aw_state row' = Queued \<and> aw_next row' = db_ts db (now + min (seconds 300) (seconds 5 * 2 ^ nat (aw_attempt row - 1)))
     else aw_state row' = Failed \<and> aw_code row' = ''attempts-exhausted''"
    using failure_report_outcome [OF assms(10,11) q(1), of FailureInfrastructure "''runnable-action-failed''" "failure_summary ?e"]
      assms(12) by (auto simp: FailureClass_Valid_def)
  have "runner_execute cd r action (w, st) = (Returns (Some ?e), (w', st))"
    using worker q(2) assms(1,2,8) by (simp add: runner_execute_def execute_verification_def lifted_def)
  then have "process cd r False False action (w, st) = (Returns (), (w', st'))"
    using q(2,3) assms(1,9) plain st'(1)
    by (simp add: process_def runnerActionTimeout_def settle_def reportFailure_def apsnd_def map_prod_def)
  then show ?thesis using worker plain(1) st'(2-) by blast
qed

text \<open>
  An assertion script that prints a JSON document with a long unknown field: the decoder quotes the
  field in its error.
\<close>

definition long_decode :: "string \<Rightarrow> go_error + (AssertionEntry list \<times> bool)" where
  "long_decode raw = Inl (Msg (''unknown field '' @ replicate 1100 (CHR ''x'')))"

text \<open>The action, its row on the eighth attempt or before, and a runner over the executor and the repository.\<close>

definition verify_context :: ActionContext where
  "verify_context = \<lparr>ax_Credential = vq_Credential example_verify_request, ax_Attempt = 1, ax_Spec = None,
     ax_RunnableRevision = Some example_revision, ax_RunnableRevisionRef = vq_RunnableRevisionRef example_verify_request,
     ax_RunnableRevisionDigest = vq_RunnableRevisionDigest example_verify_request\<rparr>"

definition verify_row :: "int \<Rightarrow> action_row" where
  "verify_row attempt = claim_action_row example_db ''w1'' 100 5 attempt
     (new_action_row example_db example_verification (Some zero_digest) 1)"

definition verify_store :: "int \<Rightarrow> store" where
  "verify_store attempt = empty_store \<lparr>st_actions := [verify_row attempt]\<rparr>"

definition verify_runner :: "(provider_call list \<times> store) Runner" where
  "verify_runner = \<lparr>rn_store = \<lparr>as_Claim = (\<lambda>_ _ w. (Inr None, w)), as_Renew = (\<lambda>_ _ w. (None, w)),
       as_CompleteMaterialization = (\<lambda>_ _ w. (None, w)), as_CompleteVerification = (\<lambda>_ _ w. (None, w)),
       as_RequestVerificationEnvironmentRelease = (\<lambda>_ _ w. (None, w)),
       as_ReportFailure = (\<lambda>c cls code s (v, t). apsnd (Pair v) (ReportRunnableActionFailure example_db c cls code s 10 t))\<rparr>,
     rn_executor = \<lparr>ae_Materialize = (\<lambda>_ w. (Inl (Msg ''no builder''), w)),
       ae_Verify = lifted (Worker_Verify example_codec (Executor_Verify example_codec (example_executor long_decode)))\<rparr>,
     rn_config = example_config, rn_now = (\<lambda>_. 10)\<rparr>"

lemma verify_store_ok:
  assumes "0 < n" shows "actions_ok (st_actions (verify_store n))"
    "live_row example_db (ax_Credential verify_context) 10 (verify_store n) = Some (verify_row n)"
    "aw_attempt (verify_row n) = n"
proof -
  have "\<not> blank ''w1''" by code_simp
  moreover have "identity_ok example_verification"
    using example_identity_ok by (simp add: identity_ok_def example_materialization_def example_verification_def ActionPhase_Valid_def)
  then have new: "action_row_ok (new_action_row example_db example_verification (Some zero_digest) 1)"
    by (intro new_row_ok) (simp_all add: example_verification_def)
  ultimately have "action_row_ok (verify_row n)"
    using assms unfolding verify_row_def action_row_ok_def row_identity_def claim_action_row_def
    by (simp add: blank_def) (simp add: new_action_row_def)
  then show ok: "actions_ok (st_actions (verify_store n))" by (simp add: verify_store_def empty_store_def actions_ok_def)
  show "live_row example_db (ax_Credential verify_context) 10 (verify_store n) = Some (verify_row n)"
    by (rule live_row_is [OF ok])
      (simp_all add: verify_store_def live_def verify_row_def claim_action_row_def new_action_row_def verify_context_def
        example_verify_request_def example_verification_def empty_store_def)
  show "aw_attempt (verify_row n) = n" by (simp add: verify_row_def claim_action_row_def)
qed

lemma malformed_failure_retried_witness:
  "\<exists>st1 st8. process example_codec verify_runner False False verify_context ([], verify_store 1) = (Returns (), (example_calls, st1)) \<and>
     (\<exists>row. set (st_actions st1) = {row} \<and> aw_state row = Queued) \<and>
   process example_codec verify_runner False False verify_context ([], verify_store 8) = (Returns (), (example_calls, st8)) \<and>
     (\<exists>row. set (st_actions st8) = {row} \<and> aw_state row = Failed \<and> aw_class row = Some FailureInfrastructure)"
proof -
  let ?m = "''assertion output is not strict JSON: '' @ ''unknown field '' @ replicate 1100 (CHR ''x'')"
  have p: "ParseAssertionOutput long_decode ''{}'' ''broken'' (xo_Outputs example_output) =
      Inl (Wrap ''assertion output is not strict JSON'' (Msg (''unknown field '' @ replicate 1100 (CHR ''x''))))"
    by (simp add: ParseAssertionOutput_def long_decode_def MaxAssertionOutputBytes_def)
  obtain report where r: "Executor_Verify example_codec (example_executor long_decode) example_verify_request [] =
      (Inr report, example_calls)" "vr_Failure report = Some (artifactFailure ''assertion-protocol'' ?m)"
    using example_run [OF p] by (simp add: Let_def finalizeFailure_def)
  have now: "\<forall>v. ex_now (example_executor long_decode) v \<noteq> 0" by (simp add: example_fields)
  have "trim ?m = ?m" by (rule trim_solid) (simp_all add: solid_def byte_def)
  then have "\<not> required_ok MaxSummaryLength ?m" by (simp add: required_ok_def MaxSummaryLength_def)
  then have bad: "VerificationFailure_Validate (artifactFailure ''assertion-protocol'' ?m) \<noteq> None"
    by (simp add: VerificationFailure_Validate_def first_error_Cons artifactFailure_def requiredString_None)
  have a: "ax_RunnableRevision verify_context = Some example_revision"
    "example_verify_request = \<lparr>vq_Credential = ax_Credential verify_context, vq_RunnableRevision = example_revision,
      vq_RunnableRevisionRef = ax_RunnableRevisionRef verify_context,
      vq_RunnableRevisionDigest = ax_RunnableRevisionDigest verify_context, vq_Attempt = ax_Attempt verify_context\<rparr>"
    by (simp_all add: verify_context_def) (simp add: example_verify_request_def)
  have f: "vf_Class (artifactFailure ''assertion-protocol'' ?m) = FailureArtifact" by (simp add: artifactFailure_def)
  have v: "ae_Verify (rn_executor verify_runner) =
      lifted (Worker_Verify example_codec (Executor_Verify example_codec (example_executor long_decode)))"
    "\<forall>c cls code s v t. as_ReportFailure (rn_store verify_runner) c cls code s (v, t) =
      apsnd (Pair v) (ReportRunnableActionFailure example_db c cls code s 10 t)"
    by (simp_all add: verify_runner_def)
  have acts: "st_actions (verify_store n) = [verify_row n]" for n by (simp add: verify_store_def)
  note round = malformed_failure_retried [OF a r(1) now r(2) f bad v]
  show ?thesis
    using round [OF verify_store_ok(1,2), of 1] round [OF verify_store_ok(1,2), of 8] verify_store_ok(3)
    by (auto simp: acts)
qed

text \<open>
  A revision that the worker materialized is made of the spec it was asked for and of an artifact
  that was built, in the same call, from an archive with the frozen digest; it passes the revision
  check. When the source reader yields other bytes, the builder is not called and the failure is
  an artifact failure.
\<close>

theorem materialized_from_frozen_source:
  assumes "MaterializeRequest_Validate cd q = None" "src (mr_Credential q) (rs_Source (mr_Spec q)) w = (Inr archive, w1)"
    and "Worker_Materialize cd (ArchiveMaterializer_Materialize cd src bld) q w = (res, w')"
  shows "(\<forall>revision. res = Inr revision \<longrightarrow> RunnableRevision_Validate cd revision = None \<and> rr_Spec revision = mr_Spec q \<and>
      digest_bytes archive = sa_Digest (rs_Source (mr_Spec q)) \<and>
      bld (mr_Spec q) archive w1 = (Inr (rr_Artifact revision), w')) \<and>
    (digest_bytes archive \<noteq> sa_Digest (rs_Source (mr_Spec q)) \<longrightarrow> w' = w1 \<and>
      (\<exists>e. res = Inl e \<and> failure_class_code e = (FailureArtifact, ''source-archive-digest'')))"
proof -
  have d: "archiveDigest archive = digest_bytes archive" by (simp add: archiveDigest_def digest_bytes_def)
  have code: "trim ''source-archive-digest'' = ''source-archive-digest''" by code_simp
  show ?thesis
  proof (cases "digest_bytes archive = sa_Digest (rs_Source (mr_Spec q))")
    case False
    then have "ArchiveMaterializer_Materialize cd src bld q w = (Inl (NewArtifactFailure ''source-archive-digest''
        ''source archive does not match the frozen runnable spec''), w1)"
      using assms(1,2) d by (simp add: ArchiveMaterializer_Materialize_def)
    then show ?thesis
      using False assms(3) by (auto simp: Worker_Materialize_archive failure_class_code_def code)
  next
    case True
    have "RunnableRevision_Validate cd revision = None \<and> rr_Spec revision = mr_Spec q \<and>
        bld (mr_Spec q) archive w1 = (Inr (rr_Artifact revision), w')" if r: "res = Inr revision" for revision
    proof -
      obtain artifact where a: "ArchiveMaterializer_Materialize cd src bld q w = (Inr artifact, w')"
        "revision = \<lparr>rr_FormatVersion = FormatVersion, rr_Spec = mr_Spec q, rr_Artifact = artifact\<rparr>"
        using assms(3) r by (auto simp: Worker_Materialize_archive split: prod.splits sum.splits)
      show ?thesis
        using wk.mat_bound [OF assms(3) [unfolded r]] ArchiveMaterializer_Inr [OF a(1)] assms(2) by (auto simp: a(2))
    qed
    then show ?thesis using True by blast
  qed
qed

lemma archiveDigest_bytes: "archiveDigest archive = digest_bytes archive"
  by (simp add: archiveDigest_def digest_bytes_def)

lemma materialized_from_frozen_source_witness:
  "\<exists>revision. Worker_Materialize example_codec (ArchiveMaterializer_Materialize example_codec (\<lambda>_ _ w. (Inr ''tar'', w))
       (\<lambda>_ _ w. (Inr (rr_Artifact example_revision), Suc w)))
     \<lparr>mr_Credential = ax_Credential source_context, mr_Spec = source_spec\<rparr> 0 = (Inr revision, 1) \<and>
   rr_Artifact revision = rr_Artifact example_revision \<and> digest_bytes ''tar'' = sa_Digest (rs_Source source_spec)"
proof -
  let ?q = "\<lparr>mr_Credential = ax_Credential source_context, mr_Spec = source_spec\<rparr>"
  let ?build = "\<lambda>_ _ w. (Inr (rr_Artifact example_revision), Suc w)"
  have q: "MaterializeRequest_Validate example_codec ?q = None"
    using source_context_valid by (auto simp: ActionContext_Validate_None MaterializeRequest_Validate_None)
      (simp_all add: source_context_def example_credential_def example_materialization_def)
  have spec: "RunnableSpec_Digest example_codec source_spec = Inr (digest_bytes ''nginx'')"
    using source_spec_ok by (simp add: RunnableSpec_Digest_Inr example_spec_id)
  have art: "ar_Runtime (rr_Artifact example_revision) = rp_Runtime (rs_RuntimeProfile example_spec)"
    "ar_BuiltFromSpecDigest (rr_Artifact example_revision) = digest_bytes ''nginx''"
    by (simp_all add: example_revision_def example_fields) (simp add: example_profile_def)
  have run: "Worker_Materialize example_codec (ArchiveMaterializer_Materialize example_codec (\<lambda>_ _ w. (Inr ''tar'', w)) ?build) ?q 0 =
      (Inr \<lparr>rr_FormatVersion = FormatVersion, rr_Spec = source_spec, rr_Artifact = rr_Artifact example_revision\<rparr>, 1)"
    by (simp add: Worker_Materialize_archive ArchiveMaterializer_Materialize_def q archiveDigest_bytes
        example_artifact_valid spec art)
  show ?thesis
    using materialized_from_frozen_source [OF q _ run, of "''tar''" 0] run by auto
qed

lemma runnerRetryDelay_closed:
  "runnerRetryDelay (1 + int n) = min (seconds 60) (seconds (2 ^ n))"
proof (cases "n < 6")
  case True
  then have "n \<in> {0, 1, 2, 3, 4, 5}" by auto
  then show ?thesis by (auto simp: runnerRetryDelay_def runnerMin_def wrap64_def seconds_def Let_def)
next
  case False
  then obtain k where n: "n = 6 + k" using le_Suc_ex [of 6 n] by auto
  have "(64::int) \<le> 2 ^ n" by (simp add: n power_add)
  then show ?thesis using False by (simp add: runnerRetryDelay_def runnerMin_def wrap64_def seconds_def Let_def)
qed

text \<open>Rounds that fail to claim and are not ended by the surroundings.\<close>

definition plain_round :: run_round where
  "plain_round = \<lparr>rd_Done = False, rd_Lost = False, rd_ParentDone = False, rd_Sleep = None, rd_DoneAfterSleep = False\<rparr>"

lemma Run_failing:
  assumes "\<And>w. \<exists>e. fst (as_Claim (rn_store r) (cfg_WorkerID (rn_config r)) (cfg_LeaseTTL (rn_config r)) w) = Inl e"
    and "k + n < 2 ^ 63"
  shows "fst (Run cd r (int k) (replicate n plain_round) w) = (None, map (\<lambda>i. min (seconds 60) (seconds (2 ^ i))) [k..<k + n])"
  using assms(2)
proof (induction n arbitrary: k w)
  case (Suc n)
  obtain e w1 where c: "as_Claim (rn_store r) (cfg_WorkerID (rn_config r)) (cfg_LeaseTTL (rn_config r)) w = (Inl e, w1)"
    using assms(1) [of w] by (metis fst_conv prod.exhaust)
  have w: "wrap64 (int k + 1) = 1 + int k" using Suc.prems by (simp add: wrap64_id)
  obtain res delays w2 where run: "Run cd r (int (Suc k)) (replicate n plain_round) w1 = ((res, delays), w2)"
    by (metis prod.collapse)
  then have "res = None" "delays = map (\<lambda>i. min (seconds 60) (seconds (2 ^ i))) [Suc k..<Suc k + n]"
    using Suc.IH [of "Suc k" w1] Suc.prems by simp_all
  moreover have "[k..<k + Suc n] = k # [Suc k..<Suc k + n]" by (simp add: upt_conv_Cons)
  ultimately show ?case
    using run by (simp add: ProcessOne_def c w runnerRetryDelay_closed plain_round_def Let_def del: upt_Suc)
qed simp

text \<open>
  While the Server cannot be reached, the runner backs off: over any number of rounds whose claims
  fail, \<open>Run\<close> neither returns nor gives up, and its sleeps are one second doubled from round to
  round up to one minute, after which they stay at one minute.
\<close>

theorem unreachable_server_backs_off:
  assumes "\<And>w. \<exists>e. fst (as_Claim (rn_store r) (cfg_WorkerID (rn_config r)) (cfg_LeaseTTL (rn_config r)) w) = Inl e"
    and "n < 2 ^ 63"
  shows "fst (Run cd r 0 (replicate n plain_round) w) = (None, map (\<lambda>i. min (seconds 60) (seconds (2 ^ i))) [0..<n])"
  using Run_failing [OF assms(1), of 0 n cd w] assms(2) by simp

lemma unreachable_server_backs_off_witness:
  "snd (fst (Run example_codec (noting_runner (\<lambda>_ _ w. (Inl (Msg ''refused''), w)) (\<lambda>_. None) (\<lambda>_ w. (Inl (Msg []), w))
      (\<lambda>_ w. (Inl (Msg []), w)) example_config (\<lambda>_. 1)) 0 (replicate 8 plain_round) ((), []))) =
   map seconds [1, 2, 4, 8, 16, 32, 60, 60]"
proof -
  let ?r = "noting_runner (\<lambda>_ _ w. (Inl (Msg ''refused''), w)) (\<lambda>_. None) (\<lambda>_ w. (Inl (Msg []), w))
      (\<lambda>_ w. (Inl (Msg []), w)) example_config (\<lambda>_. 1)"
  have "\<exists>e. fst (as_Claim (rn_store ?r) (cfg_WorkerID (rn_config ?r)) (cfg_LeaseTTL (rn_config ?r)) w) = Inl e" for w :: "unit \<times> handover list"
    by (cases w) simp
  from unreachable_server_backs_off [OF this, of 8] show ?thesis by (simp add: upt_rec seconds_def)
qed

end
