(* ===== verification/GoUtf8.thy ===== *)
theory GoUtf8
  imports GoStrings
begin

section \<open>Runes: the UTF-8 reading of a Go string\<close>

text \<open>
  \<open>for _, r := range s\<close>, \<open>[]rune(s)\<close>, \<open>string(runes)\<close>, and the functions of \<open>strings\<close> and
  \<open>unicode\<close> that read runes. A byte that starts no valid encoding is one rune, U+FFFD.
\<close>

definition RuneError :: nat where "RuneError = 65533"

definition cont_byte :: "nat \<Rightarrow> bool" where
  "cont_byte b \<longleftrightarrow> 128 \<le> b \<and> b \<le> 191"

text \<open>The range of the second byte, which excludes overlong forms, surrogates and values past U+10FFFF.\<close>

definition second_ok :: "nat \<Rightarrow> nat \<Rightarrow> bool" where
  "second_ok a b \<longleftrightarrow>
     (if a = 224 then 160 \<le> b \<and> b \<le> 191
      else if a = 237 then 128 \<le> b \<and> b \<le> 159
      else if a = 240 then 144 \<le> b \<and> b \<le> 191
      else if a = 244 then 128 \<le> b \<and> b \<le> 143
      else cont_byte b)"

text \<open>\<open>utf8.DecodeRuneInString\<close>: the first rune and the number of bytes it takes.\<close>

fun decode_rune :: "string \<Rightarrow> nat \<times> nat" where
  "decode_rune [] = (RuneError, 0)"
| "decode_rune (c # s) =
     (let a = byte c in
      if a < 128 then (a, 1)
      else if 194 \<le> a \<and> a \<le> 223 then
        (case s of
           x # _ \<Rightarrow> if cont_byte (byte x) then ((a - 192) * 64 + (byte x - 128), 2) else (RuneError, 1)
         | [] \<Rightarrow> (RuneError, 1))
      else if 224 \<le> a \<and> a \<le> 239 then
        (case s of
           x # y # _ \<Rightarrow> if second_ok a (byte x) \<and> cont_byte (byte y)
             then ((a - 224) * 4096 + (byte x - 128) * 64 + (byte y - 128), 3) else (RuneError, 1)
         | _ \<Rightarrow> (RuneError, 1))
      else if 240 \<le> a \<and> a \<le> 244 then
        (case s of
           x # y # z # _ \<Rightarrow> if second_ok a (byte x) \<and> cont_byte (byte y) \<and> cont_byte (byte z)
             then ((a - 240) * 262144 + (byte x - 128) * 4096 + (byte y - 128) * 64 + (byte z - 128), 4)
             else (RuneError, 1)
         | _ \<Rightarrow> (RuneError, 1))
      else (RuneError, 1))"

text \<open>A Unicode scalar value: not a surrogate and at most U+10FFFF.\<close>

definition scalar :: "nat \<Rightarrow> bool" where
  "scalar r \<longleftrightarrow> r < 55296 \<or> (57343 < r \<and> r \<le> 1114111)"

definition encode_scalar :: "nat \<Rightarrow> string" where
  "encode_scalar r = map char_of
     (if r < 128 then [r]
      else if r < 2048 then [192 + r div 64, 128 + r mod 64]
      else if r < 65536 then [224 + r div 4096, 128 + r div 64 mod 64, 128 + r mod 64]
      else [240 + r div 262144, 128 + r div 4096 mod 64, 128 + r div 64 mod 64, 128 + r mod 64])"

text \<open>\<open>utf8.AppendRune\<close>\<close>

definition encode_rune :: "nat \<Rightarrow> string" where
  "encode_rune r = encode_scalar (if scalar r then r else RuneError)"

definition encode_runes :: "nat list \<Rightarrow> string" where
  "encode_runes rs = concat (map encode_rune rs)"

lemma encode_runes_simps [simp]:
  "encode_runes [] = []"
  "encode_runes (r # rs) = encode_rune r @ encode_runes rs"
  "encode_runes (rs @ rs') = encode_runes rs @ encode_runes rs'"
  by (simp_all add: encode_runes_def)

text \<open>The runes of a text with the bytes of each.\<close>

lemma decode_rune_size: "s \<noteq> [] \<Longrightarrow> 1 \<le> snd (decode_rune s)"
  by (cases s) (auto simp: Let_def split: list.split)

function rune_chunks :: "string \<Rightarrow> (nat \<times> string) list" where
  "rune_chunks s =
     (if s = [] then []
      else (fst (decode_rune s), take (snd (decode_rune s)) s) # rune_chunks (drop (snd (decode_rune s)) s))"
  by auto
termination
  by (relation "measure length") (use decode_rune_size in \<open>force+\<close>)

declare rune_chunks.simps [simp del]

definition runes :: "string \<Rightarrow> nat list" where
  "runes s = map fst (rune_chunks s)"

lemma concat_rune_chunks: "concat (map snd (rune_chunks s)) = s"
  by (induction s rule: rune_chunks.induct) (subst rune_chunks.simps, simp)

subsection \<open>Classes of runes\<close>

text \<open>\<open>unicode.IsControl\<close> and \<open>unicode.IsSpace\<close>\<close>

definition IsControl :: "nat \<Rightarrow> bool" where
  "IsControl r \<longleftrightarrow> r < 32 \<or> (127 \<le> r \<and> r < 160)"

definition IsSpace :: "nat \<Rightarrow> bool" where
  "IsSpace r \<longleftrightarrow> (9 \<le> r \<and> r \<le> 13) \<or> r = 32 \<or> r = 133 \<or> r = 160 \<or> r = 5760 \<or> (8192 \<le> r \<and> r \<le> 8202) \<or>
     r = 8232 \<or> r = 8233 \<or> r = 8239 \<or> r = 8287 \<or> r = 12288"

subsection \<open>\<open>strings.Map\<close> and \<open>strings.Fields\<close>\<close>

definition map_runes :: "(nat \<Rightarrow> nat) \<Rightarrow> string \<Rightarrow> string" where
  "map_runes f s = encode_runes (map f (runes s))"

fun field_groups :: "string \<Rightarrow> (nat \<times> string) list \<Rightarrow> string list" where
  "field_groups cur [] = (if cur = [] then [] else [cur])"
| "field_groups cur ((r, b) # cs) =
     (if IsSpace r then (if cur = [] then field_groups [] cs else cur # field_groups [] cs)
      else field_groups (cur @ b) cs)"

definition Fields :: "string \<Rightarrow> string list" where
  "Fields s = field_groups [] (rune_chunks s)"

subsection \<open>Encoding and decoding\<close>

lemma byte_less: "byte c < 256"
  by (simp add: byte_def)

lemma scalar_RuneError [simp]: "scalar RuneError"
  by (simp add: scalar_def RuneError_def)

lemma decode_scalar: "scalar (fst (decode_rune s))"
proof (cases s)
  case (Cons c t)
  have 3: "scalar ((a - 224) * 4096 + (x - 128) * 64 + (y - 128))"
    if "224 \<le> a" "a \<le> 239" "second_ok a x" "cont_byte y" for a x y :: nat
    using that by (auto simp: scalar_def second_ok_def cont_byte_def split: if_splits)
  have 4: "scalar ((a - 240) * 262144 + (x - 128) * 4096 + (y - 128) * 64 + (z - 128))"
    if "240 \<le> a" "a \<le> 244" "second_ok a x" "cont_byte y" "cont_byte z" for a x y z :: nat
    using that by (auto simp: scalar_def second_ok_def cont_byte_def split: if_splits)
  have 2: "scalar ((a - 192) * 64 + (x - 128))" if "a \<le> 223" "cont_byte x" for a x :: nat
    using that by (auto simp: scalar_def cont_byte_def)
  have 1: "scalar a" if "a < 128" for a
    using that by (simp add: scalar_def)
  show ?thesis
    unfolding Cons by (auto simp: Let_def 1 2 3 4 split: list.split)
qed simp

lemma runes_scalar: "r \<in> set (runes s) \<Longrightarrow> scalar r"
proof (induction s rule: rune_chunks.induct)
  case (1 s)
  show ?case
  proof (cases "s = []")
    case True
    then show ?thesis using 1(2) by (simp add: runes_def rune_chunks.simps)
  next
    case False
    then have "r = fst (decode_rune s) \<or> r \<in> set (runes (drop (snd (decode_rune s)) s))"
      using 1(2) unfolding runes_def by (subst (asm) rune_chunks.simps) simp
    then show ?thesis using 1(1) [OF False] decode_scalar [of s] by metis
  qed
qed

text \<open>The forms of two, three and four bytes, by their payload bits.\<close>

lemma decode2:
  assumes "byte x = 192 + a" "byte y = 128 + b" "2 \<le> a" "a \<le> 31" "b < 64"
  shows "decode_rune (x # y # s) = (a * 64 + b, 2)"
  using assms(3-5) by (simp add: assms(1,2) cont_byte_def)

lemma decode3:
  assumes "byte x = 224 + a" "byte y = 128 + b" "byte z = 128 + c" "a \<le> 15" "b < 64" "c < 64"
    "second_ok (224 + a) (128 + b)"
  shows "decode_rune (x # y # z # s) = (a * 4096 + b * 64 + c, 3)"
  using assms(4-7) by (simp add: assms(1-3) cont_byte_def)

lemma decode4:
  assumes "byte x = 240 + a" "byte y = 128 + b" "byte z = 128 + c" "byte w = 128 + d"
    "a \<le> 4" "b < 64" "c < 64" "d < 64" "second_ok (240 + a) (128 + b)"
  shows "decode_rune (x # y # z # w # s) = (a * 262144 + b * 4096 + c * 64 + d, 4)"
  using assms(5-9) by (simp add: assms(1-4) cont_byte_def)

lemma div64: "(r::nat) div 4096 = r div 64 div 64" "r div 262144 = r div 4096 div 64"
  by (simp_all add: div_mult2_eq [symmetric])

lemma payload3: "(r::nat) div 4096 * 4096 + r div 64 mod 64 * 64 + r mod 64 = r"
proof -
  have "r div 64 div 64 * 64 + r div 64 mod 64 = r div 64" "r div 64 * 64 + r mod 64 = r" by simp_all
  then show ?thesis unfolding div64 by linarith
qed

lemma payload4: "(r::nat) div 262144 * 262144 + r div 4096 mod 64 * 4096 + r div 64 mod 64 * 64 + r mod 64 = r"
proof -
  have "r div 4096 div 64 * 64 + r div 4096 mod 64 = r div 4096" by simp
  then show ?thesis using payload3 [of r] unfolding div64(2) by linarith
qed

lemma second3:
  assumes "scalar r" "2048 \<le> r" "r < 65536"
  shows "second_ok (224 + r div 4096) (128 + r div 64 mod 64)"
proof -
  let ?a = "r div 4096" and ?b = "r div 64 mod 64" and ?c = "r mod 64"
  have w: "?a * 4096 + ?b * 64 + ?c = r" by (rule payload3)
  have q: "?b < 64" "?c < 64" by simp_all
  have lo: "32 \<le> ?b" if "?a = 0" using that assms(2) w q by linarith
  have "r < 55296 \<or> 57343 < r" using assms by (auto simp: scalar_def)
  then have hi: "?b < 32" if "?a = 13" using that w q by linarith
  have "?a \<le> 15" using assms(3) w by linarith
  then show ?thesis
    using lo hi q unfolding second_ok_def cont_byte_def by (cases "?a = 0"; cases "?a = 13") simp_all
qed

lemma second4:
  assumes "65536 \<le> r" "r \<le> 1114111"
  shows "second_ok (240 + r div 262144) (128 + r div 4096 mod 64)"
proof -
  let ?a = "r div 262144" and ?b = "r div 4096 mod 64" and ?c = "r div 64 mod 64 * 64 + r mod 64"
  have w: "?a * 262144 + ?b * 4096 + ?c = r" using payload4 [of r] by linarith
  have q: "?b < 64" "r div 64 mod 64 < 64" "r mod 64 < 64" by simp_all
  then have c: "?c < 4096" by linarith
  have lo: "16 \<le> ?b" if "?a = 0" using that assms(1) w c by linarith
  have hi: "?b < 16" if "?a = 4" using that assms(2) w by linarith
  show ?thesis
    using lo hi q(1) unfolding second_ok_def cont_byte_def by (cases "?a = 0"; cases "?a = 4") simp_all
qed

lemma decode_encode:
  assumes "scalar r"
  shows "decode_rune (encode_rune r @ s) = (r, length (encode_rune r))"
proof -
  have e: "encode_rune r = encode_scalar r" using assms by (simp add: encode_rune_def)
  consider "r < 128" | "128 \<le> r" "r < 2048" | "2048 \<le> r" "r < 65536" | "65536 \<le> r"
    by linarith
  then show ?thesis
  proof cases
    case 1
    then show ?thesis by (simp add: e encode_scalar_def)
  next
    case 2
    have "2 \<le> r div 64" "r div 64 \<le> 31" using 2 by linarith+
    then show ?thesis
      using 2 decode2 [of "char_of (192 + r div 64)" "r div 64" "char_of (128 + r mod 64)" "r mod 64" s]
      by (simp add: e encode_scalar_def del: decode_rune.simps)
  next
    case 3
    have q: "r div 4096 \<le> 15" using 3 by linarith
    have "128 + r div 64 mod 64 < 256" by (rule less_le_trans [of _ 192]) simp_all
    with q show ?thesis
      using 3 second3 [OF assms 3] decode3 [of "char_of (224 + r div 4096)" "r div 4096"
        "char_of (128 + r div 64 mod 64)" "r div 64 mod 64" "char_of (128 + r mod 64)" "r mod 64" s]
      by (simp add: e encode_scalar_def payload3 del: decode_rune.simps)
  next
    case 4
    have top: "r \<le> 1114111" using assms 4 by (auto simp: scalar_def)
    then have "r div 262144 \<le> 4" by linarith
    then show ?thesis
      using 4 second4 [OF 4 top] decode4 [of "char_of (240 + r div 262144)" "r div 262144"
        "char_of (128 + r div 4096 mod 64)" "r div 4096 mod 64" "char_of (128 + r div 64 mod 64)" "r div 64 mod 64"
        "char_of (128 + r mod 64)" "r mod 64" s]
      by (simp add: e encode_scalar_def payload4 del: decode_rune.simps)
  qed
qed

lemma encode_rune_nonempty [simp]: "encode_rune r \<noteq> []"
  by (simp add: encode_rune_def encode_scalar_def)

lemma rune_chunks_encode:
  assumes "list_all scalar rs"
  shows "rune_chunks (encode_runes rs) = map (\<lambda>r. (r, encode_rune r)) rs"
  using assms
proof (induction rs)
  case (Cons r rs)
  then show ?case by (simp add: rune_chunks.simps [of "encode_rune r @ _"] decode_encode)
qed (simp add: rune_chunks.simps)

lemma runes_encode: "list_all scalar rs \<Longrightarrow> runes (encode_runes rs) = rs"
  by (simp add: runes_def rune_chunks_encode comp_def)

text \<open>A text that begins with a rune other than a space has no space at its front.\<close>

lemma space2_value: "a < 32 \<Longrightarrow> b < 64 \<Longrightarrow> space2 (192 + a) (128 + b) \<Longrightarrow> IsSpace (a * 64 + b)"
  by (auto simp: space2_def IsSpace_def)

lemma space3_value:
  assumes "space3 (224 + a) (128 + b) (128 + c)"
  shows "IsSpace (a * 4096 + b * 64 + c)"
proof -
  from assms have "(a = 1 \<and> b = 26 \<and> c = 0) \<or> (a = 2 \<and> b = 0 \<and> (c \<le> 10 \<or> c = 40 \<or> c = 41 \<or> c = 47)) \<or>
      (a = 2 \<and> b = 1 \<and> c = 31) \<or> (a = 3 \<and> b = 0 \<and> c = 0)"
    by (simp add: space3_def)
  then show ?thesis by (elim disjE conjE) (simp_all add: IsSpace_def)
qed

lemma space_at_lead:
  assumes "byte x = a" "\<not> space1 a" "\<And>y. \<not> space2 a y" "\<And>y z. \<not> space3 a y z"
  shows "space_at (x # s) = 0"
  using assms by (simp split: list.split)

lemma space_at_two:
  assumes "byte x = 192 + a" "byte y = 128 + b" "a < 32" "b < 64" "\<not> IsSpace (a * 64 + b)"
  shows "space_at (x # y # s) = 0"
proof -
  have "\<not> space1 (192 + a)" "\<not> space3 (192 + a) u v" for u v
    using assms(3) by (simp_all add: space1_def space3_def)
  moreover have "\<not> space2 (192 + a) (128 + b)" using space2_value [OF assms(3,4)] assms(5) by blast
  ultimately show ?thesis using assms(1,2) by (simp split: list.split)
qed

lemma space_at_three:
  assumes "byte x = 224 + a" "byte y = 128 + b" "byte z = 128 + c"
    "\<not> IsSpace (a * 4096 + b * 64 + c)"
  shows "space_at (x # y # z # s) = 0"
proof -
  have "\<not> space1 (224 + a)" "\<not> space2 (224 + a) u" for u by (simp_all add: space1_def space2_def)
  moreover have "\<not> space3 (224 + a) (128 + b) (128 + c)" using space3_value assms(4) by blast
  ultimately show ?thesis using assms(1-3) by simp
qed

lemma space_at_encode:
  assumes "scalar r" "\<not> IsSpace r"
  shows "space_at (encode_rune r @ s) = 0"
proof -
  have e: "encode_rune r = encode_scalar r" using assms by (simp add: encode_rune_def)
  consider "r < 128" | "128 \<le> r" "r < 2048" | "2048 \<le> r" "r < 65536" | "65536 \<le> r"
    by linarith
  then show ?thesis
  proof cases
    case 1
    have "space_at (char_of r # s) = 0"
      using 1 assms(2) by (intro space_at_lead [of _ r]) (auto simp: space1_def space2_def space3_def IsSpace_def)
    then show ?thesis using 1 by (simp add: e encode_scalar_def del: space_at.simps)
  next
    case 2
    have "space_at (char_of (192 + r div 64) # char_of (128 + r mod 64) # s) = 0"
      using 2 assms(2) by (intro space_at_two [where a = "r div 64" and b = "r mod 64"]) simp_all
    then show ?thesis using 2 by (simp add: e encode_scalar_def del: space_at.simps)
  next
    case 3
    have q: "r div 4096 < 16" using 3 by linarith
    have "128 + r div 64 mod 64 < 256" by (rule less_le_trans [of _ 192]) simp_all
    then have "space_at (char_of (224 + r div 4096) # char_of (128 + r div 64 mod 64) # char_of (128 + r mod 64) # s) = 0"
      using q assms(2)
      by (intro space_at_three [where a = "r div 4096" and b = "r div 64 mod 64" and c = "r mod 64"])
        (simp_all add: payload3)
    then show ?thesis using 3 by (simp add: e encode_scalar_def del: space_at.simps)
  next
    case 4
    have "r div 262144 \<le> 4" using assms(1) 4 by (auto simp: scalar_def)
    then have "space_at (char_of (240 + r div 262144) # t) = 0" for t
      by (intro space_at_lead [of _ "240 + r div 262144"]) (simp_all add: space1_def space2_def space3_def)
    then show ?thesis using 4 by (simp add: e encode_scalar_def del: space_at.simps)
  qed
qed

lemma blank_encode: "scalar r \<Longrightarrow> \<not> IsSpace r \<Longrightarrow> \<not> blank (encode_rune r @ s)"
  unfolding blank_def by (intro trim_nonempty) (simp_all add: space_at_encode)

subsection \<open>Fields of an encoded text\<close>

fun rune_groups :: "nat list \<Rightarrow> nat list \<Rightarrow> nat list list" where
  "rune_groups cur [] = (if cur = [] then [] else [cur])"
| "rune_groups cur (r # rs) =
     (if IsSpace r then (if cur = [] then rune_groups [] rs else cur # rune_groups [] rs)
      else rune_groups (cur @ [r]) rs)"

lemma encode_runes_Nil_iff [simp]: "encode_runes rs = [] \<longleftrightarrow> rs = []"
  by (cases rs) simp_all

lemma field_groups_encode:
  "field_groups (encode_runes cur) (map (\<lambda>r. (r, encode_rune r)) rs) = map encode_runes (rune_groups cur rs)"
proof (induction cur rs rule: rune_groups.induct)
  case (2 cur r rs)
  from 2(1) have "IsSpace r \<Longrightarrow> field_groups [] (map (\<lambda>r. (r, encode_rune r)) rs) = map encode_runes (rune_groups [] rs)"
    using 2(2) by (cases "cur = []") simp_all
  moreover have "\<not> IsSpace r \<Longrightarrow> field_groups (encode_runes cur @ encode_rune r) (map (\<lambda>r. (r, encode_rune r)) rs) =
      map encode_runes (rune_groups (cur @ [r]) rs)"
    using 2(3) by simp
  ultimately show ?case by simp
qed simp

lemma Fields_encode: "list_all scalar rs \<Longrightarrow> Fields (encode_runes rs) = map encode_runes (rune_groups [] rs)"
  using field_groups_encode [of "[]" rs] by (simp add: Fields_def rune_chunks_encode)

lemma rune_groups_runes:
  "g \<in> set (rune_groups cur rs) \<Longrightarrow> r \<in> set g \<Longrightarrow> r \<in> set cur \<or> (r \<in> set rs \<and> \<not> IsSpace r)"
proof (induction cur rs arbitrary: g rule: rune_groups.induct)
  case (2 cur x rs)
  show ?case
  proof (cases "IsSpace x")
    case True
    then show ?thesis using 2 by (auto split: if_splits)
  next
    case False
    then have "r \<in> set (cur @ [x]) \<or> (r \<in> set rs \<and> \<not> IsSpace r)" using 2 by (intro 2(3)) auto
    then show ?thesis using False by auto
  qed
qed (auto split: if_splits)

lemma rune_groups_nonempty: "g \<in> set (rune_groups cur rs) \<Longrightarrow> g \<noteq> []"
  by (induction cur rs rule: rune_groups.induct) (auto split: if_splits)

definition join_runes :: "nat list list \<Rightarrow> nat list" where
  "join_runes gs = (case gs of [] \<Rightarrow> [] | g # gs' \<Rightarrow> g @ concat (map (\<lambda>x. 32 # x) gs'))"

lemma encode_rune_ascii: "r < 128 \<Longrightarrow> encode_rune r = [char_of r]"
  by (simp add: encode_rune_def encode_scalar_def scalar_def)

text \<open>An ASCII text is the encoding of its bytes.\<close>

lemma encode_ascii: "list_all (\<lambda>c. byte c < 128) s \<Longrightarrow> encode_runes (map byte s) = s"
proof (induction s)
  case (Cons c s)
  then show ?case by (simp add: encode_rune_ascii) (simp add: byte_def)
qed simp

lemma runes_ascii: "list_all (\<lambda>c. byte c < 128) s \<Longrightarrow> runes s = map byte s"
proof -
  assume s: "list_all (\<lambda>c. byte c < 128) s"
  then have "list_all scalar (map byte s)" by (fastforce simp: list_all_iff scalar_def)
  then show ?thesis using runes_encode [of "map byte s"] encode_ascii [OF s] by simp
qed

lemma encode_space: "encode_rune 32 = '' ''"
  using encode_ascii [of "'' ''"] by (simp add: byte_def)

lemma join_encode: "join_with CHR '' '' (map encode_runes gs) = encode_runes (join_runes gs)"
proof -
  have "join_with CHR '' '' (map encode_runes (g # gs)) = encode_runes g @ encode_runes (concat (map (\<lambda>x. 32 # x) gs))"
    for g gs
  proof (induction gs arbitrary: g)
    case (Cons h gs)
    then show ?case using encode_space by (simp add: join_with_front)
  qed simp
  then show ?thesis by (cases gs) (simp_all add: join_runes_def)
qed

lemma join_runes_set: "r \<in> set (join_runes gs) \<Longrightarrow> r = 32 \<or> (\<exists>g\<in>set gs. r \<in> set g)"
  by (cases gs) (auto simp: join_runes_def split: if_splits)

end
