(* ===== verification/ScenarioContent.thy ===== *)
theory ScenarioContent
  imports GoUtf8 RunnableReport
begin

section \<open>Scenario identities, slugs, paths and tags\<close>

text \<open>
  The parts of \<open>internal/content/scenario\<close> that name a published scenario (\<open>scenario.go\<close>,
  \<open>revision.go\<close>, \<open>SourceSlugFor\<close> of \<open>publish.go\<close>, \<open>ValidID\<close> and \<open>ValidSourceSlug\<close> of
  \<open>materialize.go\<close>), and the durable records of \<open>internal/domain/scenario/lifecycle.go\<close>. The letters,
  numbers and Han characters of Unicode beyond ASCII, and their lower case, are a parameter.
\<close>

text \<open>\<open>fmt.Errorf("...: %w", err)\<close> around every error of a call.\<close>

definition wrap_error :: "string \<Rightarrow> go_error + 'a \<Rightarrow> go_error + 'a" where
  "wrap_error message r = (case r of Inl e \<Rightarrow> Inl (Wrap message e) | Inr a \<Rightarrow> Inr a)"

lemma wrap_error_Inr [valid_simps]: "wrap_error message r = Inr a \<longleftrightarrow> r = Inr a"
  by (cases r) (auto simp: wrap_error_def)

record unicode =
  uc_letter :: "nat \<Rightarrow> bool"
  uc_number :: "nat \<Rightarrow> bool"
  uc_han :: "nat \<Rightarrow> bool"
  uc_lower :: "nat \<Rightarrow> nat"

definition IsLetter :: "unicode \<Rightarrow> nat \<Rightarrow> bool" where
  "IsLetter u r \<longleftrightarrow> (if r < 128 then (65 \<le> r \<and> r \<le> 90) \<or> (97 \<le> r \<and> r \<le> 122) else uc_letter u r)"

definition IsNumber :: "unicode \<Rightarrow> nat \<Rightarrow> bool" where
  "IsNumber u r \<longleftrightarrow> (if r < 128 then 48 \<le> r \<and> r \<le> 57 else uc_number u r)"

definition rune_lower :: "unicode \<Rightarrow> nat \<Rightarrow> nat" where
  "rune_lower u r = (if r < 128 then if 65 \<le> r \<and> r \<le> 90 then r + 32 else r else uc_lower u r)"

text \<open>\<open>strings.ToLower\<close>\<close>

definition ToLower :: "unicode \<Rightarrow> string \<Rightarrow> string" where
  "ToLower u s = map_runes (rune_lower u) s"

subsection \<open>Identities\<close>

definition is_low_alnum :: "nat \<Rightarrow> bool" where
  "is_low_alnum r \<longleftrightarrow> (97 \<le> r \<and> r \<le> 122) \<or> (48 \<le> r \<and> r \<le> 57)"

text \<open>The loop of \<open>ValidID\<close>: a dash is refused as the first and as the last byte.\<close>

fun id_loop :: "nat \<Rightarrow> nat \<Rightarrow> (nat \<times> string) list \<Rightarrow> bool" where
  "id_loop n i [] = True"
| "id_loop n i ((r, b) # cs) =
     ((is_low_alnum r \<or> (r = 45 \<and> 0 < i \<and> Suc i < n)) \<and> id_loop n (i + length b) cs)"

definition ValidID :: "string \<Rightarrow> bool" where
  "ValidID s \<longleftrightarrow> s \<noteq> [] \<and> id_loop (length s) 0 (rune_chunks s)"

definition slug_rune :: "unicode \<Rightarrow> nat \<Rightarrow> bool" where
  "slug_rune u r \<longleftrightarrow> IsLetter u r \<or> IsNumber u r \<or> r = 45"

definition ValidSourceSlug :: "unicode \<Rightarrow> string \<Rightarrow> bool" where
  "ValidSourceSlug u slug \<longleftrightarrow>
     slug \<noteq> [] \<and> \<not> prefix ''-'' slug \<and> \<not> suffix ''-'' slug \<and> list_all (slug_rune u) (runes slug)"

text \<open>\<open>revisionIDPattern\<close> and \<open>contentRevisionPattern\<close>\<close>

definition ValidRevisionID :: "string \<Rightarrow> bool" where
  "ValidRevisionID s \<longleftrightarrow> (let v = trim s in
     prefix ''chrev-'' v \<and> 8 \<le> length (drop 6 v) \<and> length (drop 6 v) \<le> 64 \<and> list_all is_hex (drop 6 v))"

definition ValidRevision :: "string \<Rightarrow> bool" where
  "ValidRevision s \<longleftrightarrow> (let v = trim s in
     prefix ''sha256:'' v \<and> length (drop 7 v) = 64 \<and> list_all is_hex (drop 7 v))"

subsection \<open>Paths\<close>

text \<open>\<open>path.Join\<close> of two elements.\<close>

definition path_join :: "string \<Rightarrow> string \<Rightarrow> string" where
  "path_join a b =
     (if a = [] \<and> b = [] then []
      else if a = [] then clean_path b
      else if b = [] then clean_path a
      else clean_path (a @ ''/'' @ b))"

definition MaterializedPath :: "unicode \<Rightarrow> string \<Rightarrow> string \<Rightarrow> string" where
  "MaterializedPath u sourceSlug revisionID =
     (if \<not> ValidSourceSlug u sourceSlug \<or> \<not> ValidRevisionID revisionID then []
      else path_join sourceSlug revisionID)"

definition ValidateMaterializedPath :: "unicode \<Rightarrow> string \<Rightarrow> string \<Rightarrow> string \<Rightarrow> go_error option" where
  "ValidateMaterializedPath u val sourceSlug revisionID =
     (let expected = MaterializedPath u sourceSlug revisionID in
      fail_if (expected = [] \<or> val \<noteq> expected) (Msg (''materialized path must be '' @ expected)))"

subsection \<open>Slugs\<close>

definition trim_bytes_right :: "char \<Rightarrow> string \<Rightarrow> string" where
  "trim_bytes_right c s = rev (dropWhile (\<lambda>x. x = c) (rev s))"

definition trim_bytes :: "char \<Rightarrow> string \<Rightarrow> string" where
  "trim_bytes c s = trim_bytes_right c (dropWhile (\<lambda>x. x = c) s)"

text \<open>The loop of \<open>SourceSlugFor\<close>: the flag says whether a separator would be repeated.\<close>

fun slug_loop :: "unicode \<Rightarrow> bool \<Rightarrow> nat list \<Rightarrow> nat list" where
  "slug_loop u separator [] = []"
| "slug_loop u separator (r # rs) =
     (if IsLetter u r \<or> IsNumber u r then r # slug_loop u False rs
      else if \<not> separator then 45 # slug_loop u True rs
      else slug_loop u separator rs)"

definition slug_base :: "unicode \<Rightarrow> string \<Rightarrow> string" where
  "slug_base u title =
     (let base = trim_bytes CHR ''-'' (encode_runes (slug_loop u True (runes (ToLower u title))))
      in if base = [] then ''scenario'' else base)"

definition slug_suffix :: "string \<Rightarrow> string" where
  "slug_suffix scenarioID =
     (let s = trim_bytes CHR ''-'' (if prefix ''chal-'' scenarioID then drop 5 scenarioID else scenarioID);
          s = (if s = [] then ''id'' else s)
      in if 8 < length s
         then (let t = trim_bytes_right CHR ''-'' (take 8 s) in if t = [] then ''id'' else t)
         else s)"

definition SourceSlugFor :: "unicode \<Rightarrow> string \<Rightarrow> string \<Rightarrow> string" where
  "SourceSlugFor u title scenarioID = slug_base u title @ ''-'' @ slug_suffix scenarioID"

subsection \<open>Types and tags\<close>

datatype ScenarioType = ScenarioOperationsScenario | ScenarioTypeOther string

definition ScenarioType_Valid :: "ScenarioType \<Rightarrow> bool" where
  "ScenarioType_Valid t \<longleftrightarrow> t = ScenarioOperationsScenario"

fun ScenarioType_of :: "string \<Rightarrow> ScenarioType" where
  "ScenarioType_of s = (if s = ''operations-scenario'' then ScenarioOperationsScenario else ScenarioTypeOther s)"

definition NormalizeScenarioType :: "string \<Rightarrow> ScenarioType" where
  "NormalizeScenarioType val =
     (let v = trim val in if v = [] then ScenarioOperationsScenario else ScenarioType_of v)"

definition MaxScenarioTags :: nat where "MaxScenarioTags = 8"
definition MinScenarioTagLength :: nat where "MinScenarioTagLength = 1"
definition MaxScenarioTagLength :: nat where "MaxScenarioTagLength = 32"

definition validTagRune :: "unicode \<Rightarrow> nat \<Rightarrow> bool" where
  "validTagRune u r \<longleftrightarrow> r = 46 \<or> r = 43 \<or> r = 45 \<or> (97 \<le> r \<and> r \<le> 122) \<or> (48 \<le> r \<and> r \<le> 57) \<or>
     (65 \<le> r \<and> r \<le> 90) \<or> (128 \<le> r \<and> uc_han u r)"

text \<open>The order of Go strings, byte by byte, and \<open>slices.Sort\<close>.\<close>

fun string_le :: "string \<Rightarrow> string \<Rightarrow> bool" where
  "string_le [] t = True"
| "string_le (a # s) [] = False"
| "string_le (a # s) (b # t) = (byte a < byte b \<or> (byte a = byte b \<and> string_le s t))"

fun insert_by :: "('a \<Rightarrow> 'a \<Rightarrow> bool) \<Rightarrow> 'a \<Rightarrow> 'a list \<Rightarrow> 'a list" where
  "insert_by le x [] = [x]"
| "insert_by le x (y # ys) = (if le x y then x # y # ys else y # insert_by le x ys)"

definition sort_by :: "('a \<Rightarrow> 'a \<Rightarrow> bool) \<Rightarrow> 'a list \<Rightarrow> 'a list" where
  "sort_by le xs = foldr (insert_by le) xs []"

lemma set_sort_by [simp]: "set (sort_by le xs) = set xs"
proof -
  have "set (insert_by le x ys) = insert x (set ys)" for x ys by (induction ys) auto
  then show ?thesis by (induction xs) (simp_all add: sort_by_def)
qed

text \<open>The loop over the values: the tags kept so far, each once, in order of first use.\<close>

fun tag_loop :: "unicode \<Rightarrow> string list \<Rightarrow> string list \<Rightarrow> go_error + string list" where
  "tag_loop u result [] = Inr result"
| "tag_loop u result (raw # raws) =
     (let tag = ToLower u (trim raw); len = length (runes tag) in
      if len < MinScenarioTagLength \<or> MaxScenarioTagLength < len
      then Inl (Msg ''scenario tag must contain 1-32 characters'')
      else if \<not> list_all (validTagRune u) (runes tag)
      then Inl (Msg ''scenario tag contains unsupported character'')
      else tag_loop u (if tag \<in> set result then result else result @ [tag]) raws)"

definition NormalizeTags :: "unicode \<Rightarrow> string list \<Rightarrow> go_error + string list" where
  "NormalizeTags u values = (case tag_loop u [] values of
     Inl e \<Rightarrow> Inl e
   | Inr result \<Rightarrow>
       if MaxScenarioTags < length result then Inl (Msg ''scenario has too many tags'')
       else Inr (sort_by string_le result))"

text \<open>\<open>canonical, err := NormalizeTags(tags); err != nil || !slices.Equal(canonical, tags)\<close>, negated\<close>

definition canonical_tags :: "unicode \<Rightarrow> string list \<Rightarrow> bool" where
  "canonical_tags u tags \<longleftrightarrow> NormalizeTags u tags = Inr tags"

subsection \<open>Durable scenarios\<close>

datatype ScenarioSource = SourceAuthoringScenario | SourceRelease | ScenarioSourceOther string

definition ScenarioSource_Valid :: "ScenarioSource \<Rightarrow> bool" where
  "ScenarioSource_Valid k \<longleftrightarrow> k = SourceAuthoringScenario \<or> k = SourceRelease"

datatype ScenarioState = ScenarioActive | ScenarioDeprecated | ScenarioStateOther string

definition ScenarioState_Valid :: "ScenarioState \<Rightarrow> bool" where
  "ScenarioState_Valid s \<longleftrightarrow> s = ScenarioActive \<or> s = ScenarioDeprecated"

datatype RevisionState = RevisionActive | RevisionSuperseded | RevisionStateOther string

definition RevisionState_Valid :: "RevisionState \<Rightarrow> bool" where
  "RevisionState_Valid s \<longleftrightarrow> s = RevisionActive \<or> s = RevisionSuperseded"

record Scenario =
  sc_ID :: string
  sc_SourceKind :: ScenarioSource
  sc_SourceRef :: string
  sc_OwnerUserID :: string
  sc_State :: ScenarioState
  sc_ActiveRevisionID :: string
  sc_SourceSlug :: string
  sc_CreatedAt :: time
  sc_UpdatedAt :: time

definition Scenario_Valid :: "unicode \<Rightarrow> Scenario \<Rightarrow> bool" where
  "Scenario_Valid u c \<longleftrightarrow>
     ValidID (sc_ID c) \<and> ScenarioSource_Valid (sc_SourceKind c) \<and> \<not> blank (sc_SourceRef c) \<and>
     ScenarioState_Valid (sc_State c) \<and> ValidRevisionID (sc_ActiveRevisionID c) \<and>
     ValidSourceSlug u (sc_SourceSlug c) \<and> sc_CreatedAt c \<noteq> 0 \<and> sc_UpdatedAt c \<noteq> 0 \<and>
     \<not> (sc_SourceKind c = SourceAuthoringScenario \<and> blank (sc_OwnerUserID c))"

record ScenarioRevision =
  sv_ID :: string
  sv_ScenarioID :: string
  sv_SourceKind :: ScenarioSource
  sv_SourceRef :: string
  sv_SourceRevisionID :: string
  sv_BaseActiveRevisionID :: string
  sv_Title :: string
  sv_Type :: ScenarioType
  sv_Tags :: "string list"
  sv_ContentRevision :: string
  sv_SourceSlug :: string
  sv_MaterializedPath :: string
  sv_MaterializedRevision :: string
  sv_RunnableRevisionRef :: RevisionReference
  sv_VerificationReportRef :: VerificationReportReference
  sv_State :: RevisionState
  sv_PublishedAt :: time
  sv_CreatedAt :: time

definition ScenarioRevision_Valid :: "unicode \<Rightarrow> ScenarioRevision \<Rightarrow> bool" where
  "ScenarioRevision_Valid u r \<longleftrightarrow>
     ValidRevisionID (sv_ID r) \<and> ValidID (sv_ScenarioID r) \<and> ScenarioSource_Valid (sv_SourceKind r) \<and>
     \<not> blank (sv_SourceRef r) \<and> \<not> blank (sv_SourceRevisionID r) \<and>
     \<not> blank (sv_Title r) \<and> ScenarioType_Valid (sv_Type r) \<and> ValidRevision (sv_ContentRevision r) \<and>
     ValidSourceSlug u (sv_SourceSlug r) \<and> \<not> blank (sv_MaterializedPath r) \<and>
     ValidRevision (sv_MaterializedRevision r) \<and> RevisionState_Valid (sv_State r) \<and>
     sv_PublishedAt r \<noteq> 0 \<and> sv_CreatedAt r \<noteq> 0 \<and>
     RevisionReference_Validate (sv_RunnableRevisionRef r) = None \<and>
     VerificationReportReference_Validate (sv_VerificationReportRef r) = None \<and>
     (sv_BaseActiveRevisionID r = [] \<or> ValidRevisionID (sv_BaseActiveRevisionID r)) \<and>
     canonical_tags u (sv_Tags r)"

text \<open>\<open>ActiveRevision.Valid\<close>: a stable scenario with the immutable revision it points at.\<close>

definition ActiveRevision_Valid :: "unicode \<Rightarrow> Scenario \<Rightarrow> ScenarioRevision \<Rightarrow> bool" where
  "ActiveRevision_Valid u c r \<longleftrightarrow>
     Scenario_Valid u c \<and> sc_State c = ScenarioActive \<and>
     ScenarioRevision_Valid u r \<and> sv_State r = RevisionActive \<and>
     sc_ID c = sv_ScenarioID r \<and> sc_ActiveRevisionID c = sv_ID r \<and>
     sc_SourceKind c = sv_SourceKind r \<and> sc_SourceRef c = sv_SourceRef r \<and> sc_SourceSlug c = sv_SourceSlug r"

end
