(* ===== verification/ScenarioFacts.thy ===== *)
theory ScenarioFacts
  imports ScenarioContent
begin

section \<open>Facts about scenario names\<close>

text \<open>
  A slug computed from any title and a valid scenario id is a valid slug, and the path of a revision
  is its slug and its id with a slash between, so that two revisions never share a directory.
\<close>

subsection \<open>ASCII bytes and runes\<close>

lemma decode_low:
  assumes "s \<noteq> []" "fst (decode_rune s) < 128"
  shows "decode_rune s = (byte (hd s), 1) \<and> byte (hd s) < 128"
proof -
  obtain c t where s: "s = c # t" using assms(1) by (cases s) auto
  have big: "\<not> RuneError < 128" by (simp add: RuneError_def)
  have 3: "\<not> (a - 224) * 4096 + (x - 128) * 64 + (y - 128) < 128" if "224 \<le> a" "second_ok a x" for a x y :: nat
    using that by (cases "a = 224") (auto simp: second_ok_def)
  have 4: "\<not> (a - 240) * 262144 + (x - 128) * 4096 + (y - 128) * 64 + (z - 128) < 128"
    if "240 \<le> a" "second_ok a x" for a x y z :: nat
    using that by (cases "a = 240") (auto simp: second_ok_def)
  show ?thesis
    using assms(2) big 3 4 unfolding s by (auto simp: Let_def split: list.splits if_splits)
qed

lemma byte_inject: "byte c = byte d \<longleftrightarrow> c = d"
  by (simp add: byte_def)

lemma low_chunks:
  assumes "\<forall>r\<in>set (runes s). r < 128"
  shows "rune_chunks s = map (\<lambda>c. (byte c, [c])) s"
  using assms
proof (induction s rule: rune_chunks.induct)
  case (1 s)
  show ?case
  proof (cases s)
    case (Cons c t)
    have f: "fst (decode_rune s) \<in> set (runes s)"
      unfolding runes_def by (subst rune_chunks.simps) (simp add: Cons del: decode_rune.simps)
    then have d: "decode_rune s = (byte c, 1)"
      using decode_low [of s] 1(2) by (simp add: Cons del: decode_rune.simps)
    then have step: "rune_chunks s = (byte c, [c]) # rune_chunks t"
      by (subst rune_chunks.simps) (simp add: Cons del: decode_rune.simps)
    have "\<forall>r\<in>set (runes t). r < 128" using 1(2) by (simp add: runes_def step)
    then have "rune_chunks t = map (\<lambda>c. (byte c, [c])) t"
      using 1(1) d by (simp add: Cons del: decode_rune.simps)
    with step show ?thesis by (simp add: Cons)
  qed (simp add: rune_chunks.simps)
qed

text \<open>A byte below 128 is a rune of the text by itself.\<close>

lemma decode_bytes:
  assumes "128 \<le> byte a"
  shows "list_all (\<lambda>c. 128 \<le> byte c) (take (snd (decode_rune (a # t))) (a # t))"
proof -
  have c: "cont_byte b \<Longrightarrow> 128 \<le> b" "second_ok x b \<Longrightarrow> 128 \<le> b" for x b
    by (auto simp: cont_byte_def second_ok_def split: if_splits)
  consider "t = []" | x where "t = [x]" | x y where "t = [x, y]" | x y z t' where "t = x # y # z # t'"
    by (metis list.exhaust)
  then show ?thesis
    by cases (use assms in \<open>auto simp: Let_def dest: c\<close>)
qed

lemma low_byte_rune:
  assumes "c \<in> set s" "byte c < 128"
  shows "byte c \<in> set (runes s)"
  using assms(1)
proof (induction s rule: rune_chunks.induct)
  case (1 s)
  then obtain a t where s: "s = a # t" by (cases s) auto
  define k where "k = snd (decode_rune s)"
  have runes: "runes s = fst (decode_rune s) # runes (drop k s)"
    unfolding runes_def k_def by (subst rune_chunks.simps) (simp add: s del: decode_rune.simps)
  have take: "byte c = fst (decode_rune s)" if "c \<in> set (take k s)"
  proof (cases "byte a < 128")
    case True
    then show ?thesis using that by (simp add: s k_def)
  next
    case False
    then have "list_all (\<lambda>c. 128 \<le> byte c) (take k s)" using decode_bytes [of a t] by (simp add: s k_def)
    then show ?thesis using that assms(2) by (auto simp: list_all_iff)
  qed
  have "c \<in> set (take k s) \<or> c \<in> set (drop k s)" using 1(2) by (metis Un_iff append_take_drop_id set_append)
  then show ?case
    using 1(1) take unfolding runes by (auto simp: k_def s simp del: decode_rune.simps)
qed

subsection \<open>Identifiers\<close>

definition id_char :: "char \<Rightarrow> bool" where
  "id_char c \<longleftrightarrow> is_low_alnum (byte c) \<or> c = CHR ''-''"

lemma id_loop_runes: "id_loop n i cs \<Longrightarrow> (r, b) \<in> set cs \<Longrightarrow> is_low_alnum r \<or> r = 45"
  by (induction n i cs rule: id_loop.induct) auto

lemma ValidID_chars:
  assumes "ValidID s"
  shows "list_all id_char s"
proof -
  have "\<forall>r\<in>set (runes s). is_low_alnum r \<or> r = 45"
    using assms id_loop_runes [of "length s" 0 "rune_chunks s"] by (fastforce simp: ValidID_def runes_def)
  then have low: "\<forall>r\<in>set (runes s). r < 128" by (auto simp: is_low_alnum_def)
  have "runes s = map byte s" using low_chunks [OF low] by (simp add: runes_def comp_def)
  then have "\<forall>c\<in>set s. is_low_alnum (byte c) \<or> byte c = byte CHR ''-''"
    using \<open>\<forall>r\<in>set (runes s). is_low_alnum r \<or> r = 45\<close> by (simp add: byte_def)
  then show ?thesis by (simp add: list_all_iff id_char_def byte_inject)
qed

subsection \<open>Trimming dashes\<close>

lemma trim_bytes_right_last: "trim_bytes_right c s \<noteq> [] \<Longrightarrow> last (trim_bytes_right c s) \<noteq> c"
  unfolding trim_bytes_right_def by (metis (mono_tags) hd_dropWhile last_rev rev_is_Nil_conv)

lemma trim_bytes_right_prefix: "prefix (trim_bytes_right c s) s"
  unfolding trim_bytes_right_def
  by (metis prefix_def rev_append rev_rev_ident takeWhile_dropWhile_id)

lemma trim_bytes_last: "trim_bytes c s \<noteq> [] \<Longrightarrow> last (trim_bytes c s) \<noteq> c"
  unfolding trim_bytes_def by (rule trim_bytes_right_last)

lemma trim_bytes_first:
  assumes "trim_bytes c s \<noteq> []"
  shows "hd (trim_bytes c s) \<noteq> c"
proof -
  let ?d = "dropWhile (\<lambda>x. x = c) s"
  obtain t where t: "?d = trim_bytes c s @ t"
    using trim_bytes_right_prefix [of c ?d] by (auto simp: trim_bytes_def prefix_def)
  then have "?d \<noteq> []" "hd ?d = hd (trim_bytes c s)" using assms by auto
  then show ?thesis using hd_dropWhile [of "\<lambda>x. x = c" s] by simp
qed

lemma trim_bytes_set: "x \<in> set (trim_bytes c s) \<Longrightarrow> x \<in> set s"
  unfolding trim_bytes_def trim_bytes_right_def by (metis set_dropWhileD set_rev)

lemma trim_bytes_right_set: "x \<in> set (trim_bytes_right c s) \<Longrightarrow> x \<in> set s"
  unfolding trim_bytes_right_def by (auto dest: set_dropWhileD)

lemma encode_rune_dash:
  assumes "scalar r"
  shows "CHR ''-'' \<in> set (encode_rune r) \<longleftrightarrow> r = 45"
proof
  assume "CHR ''-'' \<in> set (encode_rune r)"
  then have "byte CHR ''-'' \<in> set (runes (encode_runes [r]))" by (intro low_byte_rune) (simp_all add: byte_def)
  then show "r = 45" using assms runes_encode [of "[r]"] by (simp add: byte_def)
next
  assume "r = 45"
  then show "CHR ''-'' \<in> set (encode_rune r)" using encode_ascii [of "''-''"] by (simp add: byte_def)
qed

lemma dropWhile_dash:
  "list_all scalar rs \<Longrightarrow>
     dropWhile (\<lambda>x. x = CHR ''-'') (encode_runes rs) = encode_runes (dropWhile (\<lambda>r. r = 45) rs)"
proof (induction rs)
  case (Cons r rs)
  show ?case
  proof (cases "r = 45")
    case True
    then show ?thesis using Cons encode_ascii [of "''-''"] by (simp add: byte_def)
  next
    case False
    then have "hd (encode_rune r) \<noteq> CHR ''-''"
      using Cons(2) encode_rune_dash [of r] hd_in_set [OF encode_rune_nonempty, of r] by fastforce
    moreover obtain a t where "encode_rune r = a # t" by (meson encode_rune_nonempty list.exhaust)
    ultimately show ?thesis using False by simp
  qed
qed simp

lemma trim_right_dash:
  "list_all scalar rs \<Longrightarrow>
     trim_bytes_right CHR ''-'' (encode_runes rs) = encode_runes (rev (dropWhile (\<lambda>r. r = 45) (rev rs)))"
proof (induction rs rule: rev_induct)
  case (snoc r rs)
  show ?case
  proof (cases "r = 45")
    case True
    then show ?thesis using snoc encode_ascii [of "''-''"] by (simp add: byte_def trim_bytes_right_def)
  next
    case False
    then have "last (encode_rune r) \<noteq> CHR ''-''"
      using snoc(2) encode_rune_dash [of r] last_in_set [OF encode_rune_nonempty, of r] by fastforce
    then obtain a t where "rev (encode_rune r) = a # t" "a \<noteq> CHR ''-''"
      by (metis encode_rune_nonempty hd_rev list.exhaust_sel rev_is_Nil_conv)
    then have "dropWhile (\<lambda>x. x = CHR ''-'') (rev (encode_rune r) @ z) = rev (encode_rune r) @ z" for z by simp
    then show ?thesis using False by (simp add: trim_bytes_right_def)
  qed
qed (simp add: trim_bytes_right_def)

subsection \<open>Slugs\<close>

lemma slug_loop_runes: "r \<in> set (slug_loop u sep rs) \<Longrightarrow> (r \<in> set rs \<or> r = 45) \<and> slug_rune u r"
  by (induction u sep rs rule: slug_loop.induct) (auto simp: slug_rune_def split: if_splits)

lemma trim_dash_runes:
  assumes "list_all scalar rs" "list_all P rs"
  obtains ts where "trim_bytes CHR ''-'' (encode_runes rs) = encode_runes ts" "list_all scalar ts"
    "list_all P ts" "ts \<noteq> [] \<Longrightarrow> hd ts \<noteq> 45"
proof -
  let ?d = "dropWhile (\<lambda>r. r = 45) rs"
  let ?t = "rev (dropWhile (\<lambda>r. r = 45) (rev ?d))"
  have d: "list_all scalar ?d" "list_all P ?d"
    using assms by (auto simp: list_all_iff dest: set_dropWhileD)
  have e: "trim_bytes CHR ''-'' (encode_runes rs) = encode_runes ?t"
    using assms d by (simp add: trim_bytes_def dropWhile_dash trim_right_dash)
  have sub: "r \<in> set ?t \<Longrightarrow> r \<in> set ?d" for r by (metis set_dropWhileD set_rev)
  have "hd ?t \<noteq> 45" if ne: "?t \<noteq> []"
  proof
    assume h: "hd ?t = 45"
    obtain w where "?d = ?t @ w" by (metis rev_append rev_rev_ident takeWhile_dropWhile_id)
    then have d45: "?d \<noteq> []" "hd ?d = 45" using ne h by (metis append_is_Nil_conv, metis hd_append2)
    show False using hd_dropWhile [OF d45(1)] d45(2) by simp
  qed
  moreover have "list_all scalar ?t" "list_all P ?t"
    using d sub unfolding list_all_iff by blast+
  ultimately show ?thesis using e by (intro that)
qed

lemma slug_base_form:
  obtains rs where "slug_base u title = encode_runes rs" "list_all scalar rs" "list_all (slug_rune u) rs"
    "rs \<noteq> []" "hd rs \<noteq> 45"
proof -
  define rs where "rs = slug_loop u True (runes (ToLower u title))"
  have all: "scalar r \<and> slug_rune u r" if "r \<in> set rs" for r
  proof -
    have "(r \<in> set (runes (ToLower u title)) \<or> r = 45) \<and> slug_rune u r"
      using that unfolding rs_def by (rule slug_loop_runes)
    moreover have "scalar 45" by (simp add: scalar_def)
    ultimately show ?thesis using runes_scalar by blast
  qed
  have "list_all scalar rs" "list_all (slug_rune u) rs" using all by (simp_all add: list_all_iff)
  then obtain ts where ts: "trim_bytes CHR ''-'' (encode_runes rs) = encode_runes ts" "list_all scalar ts"
    "list_all (slug_rune u) ts" and first: "ts \<noteq> [] \<Longrightarrow> hd ts \<noteq> 45"
    by (rule trim_dash_runes) blast
  have base: "slug_base u title = (if ts = [] then ''scenario'' else encode_runes ts)"
    by (simp add: slug_base_def Let_def ts(1) rs_def [symmetric])
  show ?thesis
  proof (cases "ts = []")
    case True
    have "slug_base u title = encode_runes (map byte ''scenario'')"
      unfolding base using True by (subst encode_ascii) (simp_all add: byte_def)
    then show ?thesis
      by (rule that) (simp_all add: byte_def scalar_def slug_rune_def IsLetter_def)
  next
    case False
    then show ?thesis using that [of ts] ts first base by simp
  qed
qed

definition cut_suffix :: "string \<Rightarrow> string" where
  "cut_suffix s = (if 8 < length s
     then (let t = trim_bytes_right CHR ''-'' (take 8 s) in if t = [] then ''id'' else t) else s)"

lemma id_suffix: "list_all id_char ''id''" "last ''id'' \<noteq> CHR ''-''"
  by (simp_all add: id_char_def is_low_alnum_def byte_def)

lemma cut_suffix_form:
  assumes "s \<noteq> []" "list_all id_char s" "last s \<noteq> CHR ''-''"
  shows "cut_suffix s \<noteq> []" "list_all id_char (cut_suffix s)" "last (cut_suffix s) \<noteq> CHR ''-''"
proof -
  define t where "t = trim_bytes_right CHR ''-'' (take 8 s)"
  have t: "list_all id_char t"
    using assms(2) unfolding t_def by (auto simp: list_all_iff dest!: trim_bytes_right_set dest: in_set_takeD)
  have tl: "t \<noteq> [] \<Longrightarrow> last t \<noteq> CHR ''-''" unfolding t_def by (rule trim_bytes_right_last)
  have form: "cut_suffix s = (if 8 < length s then if t = [] then ''id'' else t else s)"
    by (simp add: cut_suffix_def t_def)
  show "cut_suffix s \<noteq> []" using form assms(1) by simp
  show "list_all id_char (cut_suffix s)" using form assms(2) t id_suffix(1) by simp
  show "last (cut_suffix s) \<noteq> CHR ''-''" using form assms(3) tl id_suffix(2) by simp
qed

lemma slug_suffix_form:
  assumes "ValidID scenarioID"
  shows "slug_suffix scenarioID \<noteq> []" "list_all id_char (slug_suffix scenarioID)"
    "last (slug_suffix scenarioID) \<noteq> CHR ''-''"
proof -
  define v where "v = (if prefix ''chal-'' scenarioID then drop 5 scenarioID else scenarioID)"
  define s where "s = trim_bytes CHR ''-'' v"
  define w where "w = (if s = [] then ''id'' else s)"
  have "list_all id_char v"
    using ValidID_chars [OF assms] unfolding v_def by (auto simp: list_all_iff dest: in_set_dropD)
  then have "list_all id_char s" unfolding s_def by (auto simp: list_all_iff dest: trim_bytes_set)
  moreover have "s \<noteq> [] \<Longrightarrow> last s \<noteq> CHR ''-''" unfolding s_def by (rule trim_bytes_last)
  ultimately have w: "w \<noteq> []" "list_all id_char w" "last w \<noteq> CHR ''-''"
    using id_suffix by (simp_all add: w_def)
  have "slug_suffix scenarioID = cut_suffix w"
    unfolding slug_suffix_def cut_suffix_def Let_def w_def s_def v_def ..
  then show "slug_suffix scenarioID \<noteq> []" "list_all id_char (slug_suffix scenarioID)"
    "last (slug_suffix scenarioID) \<noteq> CHR ''-''"
    using cut_suffix_form [OF w] by simp_all
qed

lemma id_char_rune: "id_char c \<Longrightarrow> byte c < 128 \<and> slug_rune u (byte c)"
  by (auto simp: id_char_def is_low_alnum_def slug_rune_def IsLetter_def IsNumber_def byte_def)

lemma SourceSlugFor_runes:
  assumes "ValidID scenarioID"
  obtains rs where "SourceSlugFor u title scenarioID = encode_runes rs @ ''-'' @ slug_suffix scenarioID"
    "runes (SourceSlugFor u title scenarioID) = rs @ map byte (''-'' @ slug_suffix scenarioID)"
    "list_all (slug_rune u) rs" "rs \<noteq> []" "hd rs \<noteq> 45" "list_all scalar rs"
proof -
  obtain rs where rs: "slug_base u title = encode_runes rs" "list_all scalar rs" "list_all (slug_rune u) rs"
    "rs \<noteq> []" "hd rs \<noteq> 45"
    by (rule slug_base_form)
  define x where "x = ''-'' @ slug_suffix scenarioID"
  have low: "list_all (\<lambda>c. byte c < 128) x"
    using slug_suffix_form(2) [OF assms] id_char_rune by (auto simp: x_def list_all_iff byte_def)
  then have "list_all scalar (map byte x)" by (fastforce simp: list_all_iff scalar_def)
  then have "list_all scalar (rs @ map byte x)" using rs(2) by (simp only: list_all_append)
  moreover have "encode_runes rs @ x = encode_runes (rs @ map byte x)"
    by (simp add: encode_ascii [OF low])
  ultimately have "runes (encode_runes rs @ x) = rs @ map byte x" by (simp only: runes_encode)
  then show ?thesis using rs by (intro that [of rs]) (simp_all only: SourceSlugFor_def x_def simp_thms)
qed

lemma encode_first_dash: "scalar r \<Longrightarrow> r \<noteq> 45 \<Longrightarrow> \<not> prefix ''-'' (encode_rune r @ s)"
  by (metis append_Cons encode_rune_dash encode_rune_nonempty list.exhaust list.sel(1) list.set_intros(1)
      prefix_Cons prefix_code(3))

lemma SourceSlugFor_valid:
  assumes "ValidID scenarioID"
  shows "ValidSourceSlug u (SourceSlugFor u title scenarioID)"
proof -
  note x = slug_suffix_form [OF assms]
  obtain rs where rs: "SourceSlugFor u title scenarioID = encode_runes rs @ ''-'' @ slug_suffix scenarioID"
    "runes (SourceSlugFor u title scenarioID) = rs @ map byte (''-'' @ slug_suffix scenarioID)"
    "list_all (slug_rune u) rs" "rs \<noteq> []" "hd rs \<noteq> 45" "list_all scalar rs"
    using assms by (rule SourceSlugFor_runes)
  obtain r rs' where r: "rs = r # rs'" using rs(4) by (cases rs) auto
  have "list_all (slug_rune u) (map byte (''-'' @ slug_suffix scenarioID))"
    using x(2) id_char_rune by (auto simp: list_all_iff slug_rune_def byte_def)
  then have "list_all (slug_rune u) (runes (SourceSlugFor u title scenarioID))"
    unfolding rs(2) using rs(3) by (simp only: list_all_append)
  moreover have "\<not> prefix ''-'' (SourceSlugFor u title scenarioID)"
    using rs(5,6) encode_first_dash [of r] unfolding rs(1) r by simp
  moreover have "\<not> suffix ''-'' (SourceSlugFor u title scenarioID)"
  proof
    assume "suffix ''-'' (SourceSlugFor u title scenarioID)"
    then have "last (SourceSlugFor u title scenarioID) = CHR ''-''" by (auto simp: suffix_def)
    moreover have "last (SourceSlugFor u title scenarioID) = last (slug_suffix scenarioID)"
      unfolding rs(1) using x(1) by simp
    ultimately show False using x(3) by simp
  qed
  ultimately show ?thesis unfolding ValidSourceSlug_def using rs(1) by simp
qed

subsection \<open>Paths\<close>

lemma slug_no_slash:
  assumes "ValidSourceSlug u slug"
  shows "CHR ''/'' \<notin> set slug" "CHR ''.'' \<notin> set slug" "slug \<noteq> []"
proof -
  have "\<not> slug_rune u 47" "\<not> slug_rune u 46" by (simp_all add: slug_rune_def IsLetter_def IsNumber_def)
  then show "CHR ''/'' \<notin> set slug" "CHR ''.'' \<notin> set slug"
    using assms low_byte_rune [of "CHR ''/''" slug] low_byte_rune [of "CHR ''.''" slug]
    by (auto simp: ValidSourceSlug_def list_all_iff byte_def)
  show "slug \<noteq> []" using assms by (simp add: ValidSourceSlug_def)
qed

lemma revision_id_no_slash:
  assumes "ValidRevisionID r"
  shows "CHR ''/'' \<notin> set r" "CHR ''c'' \<in> set r"
proof -
  obtain v where v: "trim r = ''chrev-'' @ v" "list_all is_hex v"
    using assms by (auto simp: ValidRevisionID_def Let_def prefix_def)
  show "CHR ''/'' \<notin> set r"
  proof
    assume "CHR ''/'' \<in> set r"
    then have "CHR ''/'' \<in> set (trim r)" by (rule solid_in_trim) (simp add: solid_def byte_def)
    then show False using v by (auto simp: list_all_iff is_hex_def byte_def)
  qed
  have "CHR ''c'' \<in> set (trim r)" by (simp add: v(1))
  moreover obtain n m where "trim r = take n (drop m r)"
    using trim_take [of r] trim_left_suffix [of r] by metis
  ultimately show "CHR ''c'' \<in> set r" by (metis in_set_dropD in_set_takeD)
qed

lemma MaterializedPath_valid:
  assumes "ValidSourceSlug u slug" "ValidRevisionID r"
  shows "MaterializedPath u slug r = slug @ ''/'' @ r"
proof -
  note s = slug_no_slash [OF assms(1)] and c = revision_id_no_slash [OF assms(2)]
  have r: "r \<noteq> []" "r \<noteq> ''.''" "r \<noteq> ''..''" using c(2) by auto
  have s': "slug \<noteq> ''.''" "slug \<noteq> ''..''" using s by auto
  obtain a t where a: "slug = a # t" using s(3) by (cases slug) auto
  have abs: "\<not> is_abs (slug @ ''/'' @ r)" using s(1) by (simp add: is_abs_def a)
  have "path_segments (slug @ ''/'' @ r) = [slug, r]"
    using split_on_append_sep [OF s(1), of r] split_on_single [OF c(1)] by (simp add: path_segments_def)
  then have "clean_path (slug @ ''/'' @ r) = slug @ ''/'' @ r"
    using abs r s' s(3) by (simp add: clean_path_def Let_def clean_step_def)
  then show ?thesis using assms r(1) s(3) by (simp add: MaterializedPath_def path_join_def)
qed

lemma materialized_path_accepted:
  assumes "ValidSourceSlug u slug" "ValidRevisionID r"
  shows "ValidateMaterializedPath u (MaterializedPath u slug r) slug r = None" "\<not> blank (MaterializedPath u slug r)"
proof -
  show "ValidateMaterializedPath u (MaterializedPath u slug r) slug r = None"
    by (simp add: ValidateMaterializedPath_def Let_def MaterializedPath_valid [OF assms])
  have "CHR ''/'' \<in> set (trim (slug @ ''/'' @ r))"
    by (intro solid_in_trim) (simp_all add: solid_def byte_def)
  then show "\<not> blank (MaterializedPath u slug r)"
    by (auto simp: blank_def MaterializedPath_valid [OF assms])
qed

text \<open>
  Every published revision has a directory of its own: for valid slugs and revision ids the
  materialized path is a relative path of two elements, and equal paths have the same slug and the
  same revision.
\<close>

theorem materialized_paths_are_separate:
  assumes "ValidSourceSlug u slug" "ValidRevisionID r" "ValidSourceSlug u slug'" "ValidRevisionID r'"
  shows "MaterializedPath u slug r = slug @ ''/'' @ r \<and>
    (MaterializedPath u slug r = MaterializedPath u slug' r') = (slug = slug' \<and> r = r')"
proof -
  have "slug @ CHR ''/'' # r = slug' @ CHR ''/'' # r' \<Longrightarrow> slug = slug' \<and> r = r'"
    using slug_no_slash(1) [OF assms(1)] slug_no_slash(1) [OF assms(3)]
    by (metis list.inject split_on_append_sep split_on_single revision_id_no_slash(1) assms(2,4))
  then show ?thesis
    using MaterializedPath_valid [OF assms(1,2)] MaterializedPath_valid [OF assms(3,4)] by auto
qed

lemma materialized_paths_are_separate_witness:
  "\<forall>u. MaterializedPath u ''dns-repair-0a'' ''chrev-0123456789ab'' = ''dns-repair-0a/chrev-0123456789ab'' \<and>
     MaterializedPath u ''dns-repair-0a'' ''chrev-0123456789ab'' \<noteq>
     MaterializedPath u ''dns-repair-0a'' ''chrev-0123456789ac''"
proof
  fix u
  have r: "ValidRevisionID ''chrev-0123456789ab''" "ValidRevisionID ''chrev-0123456789ac''" by code_simp+
  have "runes ''dns-repair-0a'' = map byte ''dns-repair-0a''" by (rule runes_ascii) (simp add: byte_def)
  then have s: "ValidSourceSlug u ''dns-repair-0a''"
    by (simp add: ValidSourceSlug_def byte_def slug_rune_def IsLetter_def IsNumber_def suffix_def append_eq_Cons_conv)
  show "MaterializedPath u ''dns-repair-0a'' ''chrev-0123456789ab'' = ''dns-repair-0a/chrev-0123456789ab'' \<and>
     MaterializedPath u ''dns-repair-0a'' ''chrev-0123456789ab'' \<noteq>
     MaterializedPath u ''dns-repair-0a'' ''chrev-0123456789ac''"
    using materialized_paths_are_separate [OF s r(1) s r(2)] materialized_paths_are_separate [OF s r(2) s r(1)]
    by simp
qed

text \<open>
  The slug of a new scenario is always acceptable: whatever the title is, even an empty one or one
  with bytes that are not UTF-8, the slug built from it and a valid scenario id passes the check that
  publication makes, and it ends with a part of the id.
\<close>

theorem slug_for_any_title:
  assumes "ValidID scenarioID"
  shows "ValidSourceSlug u (SourceSlugFor u title scenarioID) \<and>
    suffix (CHR ''-'' # slug_suffix scenarioID) (SourceSlugFor u title scenarioID)"
  using SourceSlugFor_valid [OF assms] by (simp add: SourceSlugFor_def suffix_def)

lemma slug_for_any_title_witness:
  "\<forall>u. ValidSourceSlug u (SourceSlugFor u '' ?! '' ''chal-a1b2c3d4e5f6'') \<and>
     suffix ''-a1b2c3d4'' (SourceSlugFor u '' ?! '' ''chal-a1b2c3d4e5f6'')"
proof
  fix u
  have "runes ''chal-a1b2c3d4e5f6'' = map byte ''chal-a1b2c3d4e5f6''" by (rule runes_ascii) (simp add: byte_def)
  then have low: "rune_chunks ''chal-a1b2c3d4e5f6'' = map (\<lambda>c. (byte c, [c])) ''chal-a1b2c3d4e5f6''"
    by (intro low_chunks) (simp add: byte_def)
  have id: "ValidID ''chal-a1b2c3d4e5f6''"
    unfolding ValidID_def low by (simp add: byte_def is_low_alnum_def)
  have "slug_suffix ''chal-a1b2c3d4e5f6'' = ''a1b2c3d4''"
    by (simp add: slug_suffix_def trim_bytes_def trim_bytes_right_def)
  then show "ValidSourceSlug u (SourceSlugFor u '' ?! '' ''chal-a1b2c3d4e5f6'') \<and>
     suffix ''-a1b2c3d4'' (SourceSlugFor u '' ?! '' ''chal-a1b2c3d4e5f6'')"
    using slug_for_any_title [OF id, of u "'' ?! ''"] by simp
qed

end
