(* ===== verification/Publication.thy ===== *)
theory Publication
  imports GoUtf8 GoErrors
begin

section \<open>Publication failures and diagnostics\<close>

text \<open>
  \<open>internal/domain/publication/diagnostic.go\<close>: the typed boundary between a finalizer and the retry
  policy. The last part shows that a diagnostic built from a typed error is always acceptable, because
  the sanitized text has a rune that is no space, no control runes and at most 1024 runes.
\<close>

definition Category_Valid :: "Category \<Rightarrow> bool" where
  "Category_Valid c \<longleftrightarrow> c = CategoryDeterministic \<or> c = CategoryTransient"

fun Category_text :: "Category \<Rightarrow> string" where
  "Category_text CategoryUnknown = []"
| "Category_text CategoryDeterministic = ''deterministic''"
| "Category_text CategoryTransient = ''transient''"
| "Category_text (CategoryOther s) = s"

definition maxDiagnosticMessage :: nat where "maxDiagnosticMessage = 1024"
definition retryDelay :: duration where "retryDelay = seconds 5"

subsection \<open>Typed failures\<close>

text \<open>\<open>wrap\<close>, \<open>Deterministic\<close> and \<open>Transient\<close>; \<open>None\<close> is a nil error.\<close>

definition wrap_failure :: "Category \<Rightarrow> go_error option \<Rightarrow> go_error option" where
  "wrap_failure category err = (case err of
     None \<Rightarrow> None
   | Some e \<Rightarrow>
       if \<not> Category_Valid category
       then Some (Msg (''invalid publication error category \"'' @ Category_text category @ ''\"''))
       else Some (PublicationFailure category e))"

definition Deterministic :: "go_error option \<Rightarrow> go_error option" where
  "Deterministic err = wrap_failure CategoryDeterministic err"

definition Transient :: "go_error option \<Rightarrow> go_error option" where
  "Transient err = wrap_failure CategoryTransient err"

text \<open>\<open>errors.As\<close> with a \<open>*Failure\<close> target, and its category.\<close>

fun category_in :: "go_error \<Rightarrow> Category" where
  "category_in (PublicationFailure c _) = c"
| "category_in (Wrap _ e) = category_in e"
| "category_in _ = CategoryUnknown"

definition CategoryOf :: "go_error option \<Rightarrow> Category" where
  "CategoryOf err = (case err of None \<Rightarrow> CategoryUnknown | Some e \<Rightarrow> category_in e)"

definition IsDeterministic :: "go_error option \<Rightarrow> bool" where
  "IsDeterministic err \<longleftrightarrow> CategoryOf err = CategoryDeterministic"

definition IsTransient :: "go_error option \<Rightarrow> bool" where
  "IsTransient err \<longleftrightarrow> CategoryOf err = CategoryTransient"

subsection \<open>Diagnostics\<close>

record Diagnostic =
  dg_Category :: Category
  dg_LastError :: string
  dg_LastAttemptedAt :: time
  dg_NextRetryAt :: "time option"

definition Diagnostic_Validate :: "Diagnostic \<Rightarrow> go_error option" where
  "Diagnostic_Validate d = first_error
     [fail_if (\<not> Category_Valid (dg_Category d) \<or> blank (dg_LastError d) \<or> dg_LastAttemptedAt d = 0)
        (Msg ''publication diagnostic requires category, error, and attempt time''),
      fail_if (maxDiagnosticMessage < length (runes (dg_LastError d)))
        (Msg ''publication diagnostic error is too long''),
      (case dg_Category d of
         CategoryDeterministic \<Rightarrow> fail_if (dg_NextRetryAt d \<noteq> None)
           (Msg ''deterministic publication diagnostic must not retry'')
       | CategoryTransient \<Rightarrow> fail_if (dg_NextRetryAt d = None \<or> dg_NextRetryAt d = Some 0)
           (Msg ''transient publication diagnostic requires retry time'')
       | _ \<Rightarrow> Some (Msg ''publication diagnostic category is invalid''))]"

definition RetryAt :: "time \<Rightarrow> time" where
  "RetryAt attemptedAt = attemptedAt + retryDelay"

definition control_to_space :: "nat \<Rightarrow> nat" where
  "control_to_space r = (if IsControl r then 32 else r)"

definition SanitizeError :: "go_error option \<Rightarrow> string" where
  "SanitizeError err =
     (let message = (case err of
            Some e \<Rightarrow> if blank (err_text e) then ''publication finalizer failed'' else err_text e
          | None \<Rightarrow> ''publication finalizer failed'');
          message = map_runes control_to_space message;
          message = join_with CHR '' '' (Fields message);
          message = (if message = [] then ''publication finalizer failed'' else message);
          rs = runes message
      in if maxDiagnosticMessage < length rs
         then encode_runes (take (maxDiagnosticMessage - 3) rs) @ ''...''
         else message)"

definition NewDiagnostic :: "go_error option \<Rightarrow> time \<Rightarrow> go_error + Diagnostic" where
  "NewDiagnostic err attemptedAt =
     (let category = CategoryOf err in
      if \<not> Category_Valid category then Inl (Msg ''publication finalizer error is not typed'')
      else if attemptedAt = 0 then Inl (Msg ''publication finalizer attempt time is required'')
      else let diagnostic = \<lparr>dg_Category = category, dg_LastError = SanitizeError err,
                 dg_LastAttemptedAt = attemptedAt,
                 dg_NextRetryAt = (if category = CategoryTransient then Some (RetryAt attemptedAt) else None)\<rparr>
           in check (Diagnostic_Validate diagnostic) (Inr diagnostic))"

subsection \<open>What sanitizing gives\<close>

definition clean_runes :: "string \<Rightarrow> nat list" where
  "clean_runes message = join_runes (rune_groups [] (map control_to_space (runes message)))"

lemma scalar_control_to_space: "scalar r \<Longrightarrow> scalar (control_to_space r)"
  by (simp add: control_to_space_def scalar_def)

lemma clean_runes_join:
  "join_with CHR '' '' (Fields (map_runes control_to_space message)) = encode_runes (clean_runes message)"
proof -
  have "list_all scalar (map control_to_space (runes message))"
    by (simp add: list_all_iff runes_scalar scalar_control_to_space)
  then show ?thesis
    by (simp add: map_runes_def Fields_encode join_encode clean_runes_def)
qed

lemma control_to_space_clean: "\<not> IsControl (control_to_space r)"
  by (simp add: control_to_space_def) (simp add: IsControl_def)

lemma clean_runes_member:
  assumes "r \<in> set (clean_runes message)"
  shows "scalar r \<and> \<not> IsControl r"
proof -
  have "r = 32 \<or> (\<exists>x\<in>set (runes message). r = control_to_space x)"
    using assms rune_groups_runes [of _ "[]" "map control_to_space (runes message)" r]
    by (fastforce simp: clean_runes_def dest: join_runes_set)
  moreover have "scalar 32 \<and> \<not> IsControl 32" by (simp add: scalar_def IsControl_def)
  ultimately show ?thesis
    using control_to_space_clean scalar_control_to_space runes_scalar by blast
qed

lemma clean_runes_first:
  assumes "clean_runes message \<noteq> []"
  obtains r rs where "clean_runes message = r # rs" "\<not> IsSpace r"
proof -
  let ?gs = "rune_groups [] (map control_to_space (runes message))"
  obtain g gs where g: "?gs = g # gs" using assms by (cases ?gs) (auto simp: clean_runes_def join_runes_def)
  then have gin: "g \<in> set ?gs" by simp
  then obtain r g' where "g = r # g'" using rune_groups_nonempty [OF gin] by (meson list.exhaust)
  then have "clean_runes message = r # (g' @ concat (map (\<lambda>x. 32 # x) gs))"
    using g by (simp add: clean_runes_def join_runes_def)
  moreover have "\<not> IsSpace r"
    using rune_groups_runes [OF gin, of r] \<open>g = r # g'\<close> by auto
  ultimately show ?thesis by (rule that)
qed

definition default_runes :: "nat list" where
  "default_runes = map byte ''publication finalizer failed''"

lemma default_text: "''publication finalizer failed'' = encode_runes default_runes"
  unfolding default_runes_def by (subst encode_ascii) (simp_all add: byte_def)

lemma default_runes_ok:
  "list_all (\<lambda>r. scalar r \<and> \<not> IsControl r) default_runes" "length default_runes = 28"
  "\<exists>rs. default_runes = 112 # rs"
  by (simp_all add: default_runes_def byte_def scalar_def IsControl_def)

lemma dots_text: "''...'' = encode_runes [46, 46, 46]"
  using encode_ascii [of "''...''"] by (simp add: byte_def)

definition sanitized_runes :: "nat list \<Rightarrow> nat list" where
  "sanitized_runes rs =
     (let rs' = (if rs = [] then default_runes else rs) in
      if maxDiagnosticMessage < length rs' then take (maxDiagnosticMessage - 3) rs' @ [46, 46, 46] else rs')"

lemma SanitizeError_runes:
  "\<exists>message. SanitizeError err = encode_runes (sanitized_runes (clean_runes message))"
proof -
  define message where "message = (case err of
      Some e \<Rightarrow> if blank (err_text e) then ''publication finalizer failed'' else err_text e
    | None \<Rightarrow> ''publication finalizer failed'')"
  let ?rs = "if clean_runes message = [] then default_runes else clean_runes message"
  have sc: "list_all scalar ?rs"
    using clean_runes_member default_runes_ok(1) by (auto simp: list_all_iff)
  have m: "(if encode_runes (clean_runes message) = [] then ''publication finalizer failed''
      else encode_runes (clean_runes message)) = encode_runes ?rs"
    by (simp add: default_text)
  have "SanitizeError err = (if maxDiagnosticMessage < length (runes (encode_runes ?rs))
      then encode_runes (take (maxDiagnosticMessage - 3) (runes (encode_runes ?rs))) @ ''...'' else encode_runes ?rs)"
    unfolding SanitizeError_def Let_def message_def [symmetric] clean_runes_join m ..
  also have "\<dots> = encode_runes (sanitized_runes (clean_runes message))"
    unfolding runes_encode [OF sc] sanitized_runes_def Let_def
    by (simp add: dots_text)
  finally show ?thesis by blast
qed

lemma sanitized_clean:
  assumes "sanitized_runes (clean_runes message) = rs"
  shows "list_all (\<lambda>r. scalar r \<and> \<not> IsControl r) rs" "length rs \<le> maxDiagnosticMessage"
    "\<exists>r rs'. rs = r # rs' \<and> \<not> IsSpace r"
proof -
  let ?rs = "if clean_runes message = [] then default_runes else clean_runes message"
  have all: "list_all (\<lambda>r. scalar r \<and> \<not> IsControl r) ?rs"
    using clean_runes_member default_runes_ok(1) by (auto simp: list_all_iff)
  have dots: "list_all (\<lambda>r. scalar r \<and> \<not> IsControl r) [46, 46, 46]" by (simp add: scalar_def IsControl_def)
  show "list_all (\<lambda>r. scalar r \<and> \<not> IsControl r) rs"
    using all dots unfolding assms [symmetric] sanitized_runes_def Let_def
    by (auto simp: list_all_iff dest: in_set_takeD)
  show "length rs \<le> maxDiagnosticMessage"
    using default_runes_ok(2) unfolding assms [symmetric] sanitized_runes_def Let_def
    by (auto simp: maxDiagnosticMessage_def)
  obtain r rs' where r: "?rs = r # rs'" "\<not> IsSpace r"
  proof (cases "clean_runes message = []")
    case True
    then show ?thesis using default_runes_ok(3) that by (auto simp: IsSpace_def)
  next
    case False
    then show ?thesis using clean_runes_first [OF False] that by metis
  qed
  have "sanitized_runes (clean_runes message) = r # (if maxDiagnosticMessage < length ?rs
      then take (maxDiagnosticMessage - 4) rs' @ [46, 46, 46] else rs')"
    using r(1) unfolding sanitized_runes_def Let_def by (simp add: maxDiagnosticMessage_def)
  then show "\<exists>r rs'. rs = r # rs' \<and> \<not> IsSpace r" using r(2) assms by blast
qed

lemma SanitizeError_form:
  obtains r rs where "SanitizeError err = encode_runes (r # rs)" "\<not> IsSpace r"
    "list_all (\<lambda>r. scalar r \<and> \<not> IsControl r) (r # rs)" "runes (encode_runes (r # rs)) = r # rs"
    "length (r # rs) \<le> maxDiagnosticMessage"
proof -
  obtain message where m: "SanitizeError err = encode_runes (sanitized_runes (clean_runes message))"
    using SanitizeError_runes by blast
  obtain rs where rs: "sanitized_runes (clean_runes message) = rs" by blast
  note clean = sanitized_clean [OF rs]
  obtain r rs' where r: "rs = r # rs'" "\<not> IsSpace r" using clean(3) by blast
  have "runes (encode_runes rs) = rs" using clean(1) by (intro runes_encode) (auto simp: list_all_iff)
  with m rs r clean show ?thesis by (intro that [of r rs']) simp_all
qed

text \<open>
  The text of a durable diagnostic: for every error, even one with arbitrary bytes, the sanitized
  text is not blank, is valid UTF-8 without control runes, and has at most 1024 runes.
\<close>

theorem sanitized_text_is_safe:
  "\<not> blank (SanitizeError err) \<and>
   list_all (\<lambda>r. \<not> IsControl r) (runes (SanitizeError err)) \<and>
   encode_runes (runes (SanitizeError err)) = SanitizeError err \<and>
   length (runes (SanitizeError err)) \<le> 1024"
proof -
  obtain r rs where f: "SanitizeError err = encode_runes (r # rs)" "\<not> IsSpace r"
    "list_all (\<lambda>r. scalar r \<and> \<not> IsControl r) (r # rs)" "runes (encode_runes (r # rs)) = r # rs"
    "length (r # rs) \<le> maxDiagnosticMessage"
    by (rule SanitizeError_form)
  show ?thesis
    unfolding f(1) f(4) using f(2,3,5) by (auto simp: blank_encode list_all_iff maxDiagnosticMessage_def)
qed

lemma sanitized_ok: "\<not> blank (SanitizeError err)" "length (runes (SanitizeError err)) \<le> maxDiagnosticMessage"
proof -
  obtain r rs where f: "SanitizeError err = encode_runes (r # rs)" "\<not> IsSpace r"
    "list_all (\<lambda>r. scalar r \<and> \<not> IsControl r) (r # rs)" "runes (encode_runes (r # rs)) = r # rs"
    "length (r # rs) \<le> maxDiagnosticMessage"
    by (rule SanitizeError_form)
  show "\<not> blank (SanitizeError err)" using f(2,3) by (simp add: f(1) blank_encode)
  show "length (runes (SanitizeError err)) \<le> maxDiagnosticMessage" unfolding f(1) f(4) by (rule f(5))
qed

lemma Diagnostic_Validate_None:
  "Diagnostic_Validate d = None \<longleftrightarrow>
     Category_Valid (dg_Category d) \<and> \<not> blank (dg_LastError d) \<and> dg_LastAttemptedAt d \<noteq> 0 \<and>
     length (runes (dg_LastError d)) \<le> maxDiagnosticMessage \<and>
     (if dg_Category d = CategoryDeterministic then dg_NextRetryAt d = None
      else dg_NextRetryAt d \<noteq> None \<and> dg_NextRetryAt d \<noteq> Some 0)"
  by (cases "dg_Category d") (auto simp: Diagnostic_Validate_def first_error_Cons Category_Valid_def)

text \<open>
  A diagnostic is refused only for an untyped error, a missing time, or a transient failure whose
  retry would fall on the zero time: a typed error of any text gives a record that validates.
\<close>

theorem typed_failure_has_diagnostic:
  "(\<exists>d. NewDiagnostic err attemptedAt = Inr d \<and> Diagnostic_Validate d = None \<and>
      dg_NextRetryAt d = (if IsTransient err then Some (attemptedAt + seconds 5) else None)) =
   (Category_Valid (CategoryOf err) \<and> attemptedAt \<noteq> 0 \<and>
    \<not> (IsTransient err \<and> attemptedAt + seconds 5 = 0))"
  using sanitized_ok [of err]
  by (auto simp: NewDiagnostic_def Let_def check_Inr Diagnostic_Validate_None Category_Valid_def
      IsTransient_def RetryAt_def retryDelay_def)

end
