(* ===== verification/GenerationModel.thy ===== *)
theory GenerationModel
  imports Publication ScenarioContent GoNumbers
begin

section \<open>The generation domain: workflows, candidates, leases and receipts\<close>

text \<open>
  \<open>internal/domain/generation\<close> (\<open>workflow.go\<close>, \<open>candidate.go\<close>, \<open>context.go\<close>, \<open>source.go\<close>), the plan of
  \<open>internal/domain/authoring/model.go\<close>, and the run of \<open>internal/domain/agent/model.go\<close>. A pointer to a
  time or a struct is an option.
\<close>

subsection \<open>States (\<open>workflow.go\<close>)\<close>

datatype WorkflowState =
    StateGenerating | StateJudging | StateMaterializingArtifact | StateVerifying | StateNeedsAuthorReview
  | StatePublishing | StatePublished | StateFailed | StateCancelled | StateOther string

definition WorkflowState_Valid :: "WorkflowState \<Rightarrow> bool" where
  "WorkflowState_Valid s \<longleftrightarrow> s \<in> {StateGenerating, StateJudging, StateMaterializingArtifact, StateVerifying,
     StateNeedsAuthorReview, StatePublishing, StatePublished, StateFailed, StateCancelled}"

definition WorkflowState_Terminal :: "WorkflowState \<Rightarrow> bool" where
  "WorkflowState_Terminal s \<longleftrightarrow> s = StatePublished \<or> s = StateFailed \<or> s = StateCancelled"

definition WorkflowState_AgentState :: "WorkflowState \<Rightarrow> bool" where
  "WorkflowState_AgentState s = (case s of StateJudging \<Rightarrow> True | _ \<Rightarrow> False)"

definition WorkflowState_RunnableState :: "WorkflowState \<Rightarrow> bool" where
  "WorkflowState_RunnableState s =
     (case s of StateMaterializingArtifact \<Rightarrow> True | StateVerifying \<Rightarrow> True | _ \<Rightarrow> False)"

definition WorkflowState_Review :: "WorkflowState \<Rightarrow> bool" where
  "WorkflowState_Review s \<longleftrightarrow> s = StateNeedsAuthorReview"

subsection \<open>Requests of the author (\<open>workflow.go\<close>, \<open>candidate.go\<close>)\<close>

definition validIdempotencyKey :: "string \<Rightarrow> bool" where
  "validIdempotencyKey val \<longleftrightarrow> (let v = trim val in v \<noteq> [] \<and> length v \<le> 200)"

record StartConfirmation =
  sco_PlanRevision :: int
  sco_IdempotencyKey :: string

definition StartConfirmation_Valid :: "StartConfirmation \<Rightarrow> bool" where
  "StartConfirmation_Valid c \<longleftrightarrow> 0 \<le> sco_PlanRevision c \<and> validIdempotencyKey (sco_IdempotencyKey c)"

record ContentConfirmation =
  cco_WorkflowID :: string
  cco_CandidateRevisionID :: string
  cco_IdempotencyKey :: string

definition ContentConfirmation_Valid :: "ContentConfirmation \<Rightarrow> bool" where
  "ContentConfirmation_Valid c \<longleftrightarrow> \<not> blank (cco_WorkflowID c) \<and> \<not> blank (cco_CandidateRevisionID c) \<and>
     validIdempotencyKey (cco_IdempotencyKey c)"

record ContentChangeRequest =
  ccr_WorkflowID :: string
  ccr_CandidateRevisionID :: string
  ccr_Feedback :: string
  ccr_IdempotencyKey :: string

definition ContentChangeRequest_Valid :: "ContentChangeRequest \<Rightarrow> bool" where
  "ContentChangeRequest_Valid c \<longleftrightarrow> \<not> blank (ccr_WorkflowID c) \<and> \<not> blank (ccr_CandidateRevisionID c) \<and>
     \<not> blank (ccr_Feedback c) \<and> validIdempotencyKey (ccr_IdempotencyKey c)"

record Cancellation =
  can_WorkflowID :: string
  can_IdempotencyKey :: string

definition Cancellation_Valid :: "Cancellation \<Rightarrow> bool" where
  "Cancellation_Valid c \<longleftrightarrow> \<not> blank (can_WorkflowID c) \<and> validIdempotencyKey (can_IdempotencyKey c)"

record CandidateSubmission =
  csu_WorkflowID :: string
  csu_TurnID :: string
  csu_IdempotencyKey :: string

definition CandidateSubmission_Valid :: "CandidateSubmission \<Rightarrow> bool" where
  "CandidateSubmission_Valid s \<longleftrightarrow> \<not> blank (csu_WorkflowID s) \<and> \<not> blank (csu_TurnID s) \<and>
     validIdempotencyKey (csu_IdempotencyKey s)"

subsection \<open>Sources (\<open>source.go\<close>)\<close>

datatype SourceKind = SourceAuthoring | SourceKindOther string

definition SourceKind_Valid :: "SourceKind \<Rightarrow> bool" where
  "SourceKind_Valid k \<longleftrightarrow> k = SourceAuthoring"

record Source =
  src_Kind :: SourceKind
  src_Ref :: string

definition Source_Valid :: "Source \<Rightarrow> bool" where
  "Source_Valid s \<longleftrightarrow> SourceKind_Valid (src_Kind s) \<and> \<not> blank (src_Ref s)"

definition Source_Validate :: "Source \<Rightarrow> go_error option" where
  "Source_Validate s = first_error
     [fail_if (\<not> SourceKind_Valid (src_Kind s)) (Msg ''generation source kind is invalid''),
      fail_if (blank (src_Ref s)) (Msg ''generation source ref is required'')]"

subsection \<open>Failures and feedback (\<open>workflow.go\<close>, \<open>context.go\<close>)\<close>

datatype WorkflowFailureClass =
  WorkflowFailureArtifact | WorkflowFailureInfrastructure | WorkflowFailureCancelled | WorkflowFailureOther string

record Failure =
  fl_Class :: WorkflowFailureClass
  fl_Code :: string
  fl_Summary :: string

definition Failure_Validate :: "Failure \<Rightarrow> go_error option" where
  "Failure_Validate f = fail_if
     ((fl_Class f \<noteq> WorkflowFailureArtifact \<and> fl_Class f \<noteq> WorkflowFailureInfrastructure \<and>
       fl_Class f \<noteq> WorkflowFailureCancelled) \<or> blank (fl_Code f) \<or> blank (fl_Summary f))
     (Msg ''workflow failure requires class, code, and summary'')"

record Issue =
  is_Code :: string
  is_Message :: string

record Feedback =
  fb_Summary :: string
  fb_Issues :: "Issue list"

definition Feedback_Empty :: "Feedback \<Rightarrow> bool" where
  "Feedback_Empty f \<longleftrightarrow> blank (fb_Summary f) \<and> fb_Issues f = []"

definition Feedback_Validate :: "Feedback \<Rightarrow> go_error option" where
  "Feedback_Validate f =
     (if Feedback_Empty f then None
      else first_error
        [fail_if (blank (fb_Summary f) \<or> fb_Issues f = [])
           (Msg ''generation feedback requires summary and issues''),
         each_error (\<lambda>_ issue. fail_if (blank (is_Code issue) \<or> blank (is_Message issue))
           (Msg ''generation feedback issue requires code and message'')) 0 (fb_Issues f)])"

definition NewArtifactError :: "string \<Rightarrow> string \<Rightarrow> go_error" where
  "NewArtifactError code summary = GenerationArtifactError code summary"

subsection \<open>Workflows and leases (\<open>workflow.go\<close>)\<close>

record Workflow =
  wf_ID :: string
  wf_Source :: Source
  wf_SourceRevision :: string
  wf_State :: WorkflowState
  wf_CandidateRevisionID :: string
  wf_WorkspaceSnapshotDigest :: string
  wf_ActiveAgentRunID :: string
  wf_StateVersion :: int
  wf_AgentLeaseOwner :: string
  wf_AgentLeaseExpiresAt :: "time option"
  wf_NextRunAt :: time
  wf_LastError :: string
  wf_FinalizerErrorCategory :: Category
  wf_FinalizerLastError :: string
  wf_FinalizerLastAttemptedAt :: "time option"
  wf_FinalizerNextRetryAt :: "time option"
  wf_CreatedAt :: time
  wf_UpdatedAt :: time

definition valueOrZero :: "time option \<Rightarrow> time" where
  "valueOrZero v = (case v of None \<Rightarrow> 0 | Some t \<Rightarrow> t)"

definition Workflow_Valid :: "Workflow \<Rightarrow> bool" where
  "Workflow_Valid w =
     (if blank (wf_ID w) \<or> \<not> Source_Valid (wf_Source w) \<or> blank (wf_SourceRevision w) \<or>
         \<not> WorkflowState_Valid (wf_State w) \<or> wf_StateVersion w < 1
      then False
      else if wf_WorkspaceSnapshotDigest w \<noteq> [] \<and> \<not> ValidDigest (wf_WorkspaceSnapshotDigest w) then False
      else let hasOwner = (\<not> blank (wf_AgentLeaseOwner w)); hasExpiry = (wf_AgentLeaseExpiresAt w \<noteq> None) in
      if hasOwner \<noteq> hasExpiry \<or> (hasOwner \<and> \<not> WorkflowState_AgentState (wf_State w)) then False
      else if wf_AgentLeaseExpiresAt w = Some 0 then False
      else if wf_FinalizerErrorCategory w = CategoryUnknown
        then wf_FinalizerLastError w = [] \<and> wf_FinalizerLastAttemptedAt w = None \<and> wf_FinalizerNextRetryAt w = None
      else Diagnostic_Validate \<lparr>dg_Category = wf_FinalizerErrorCategory w,
             dg_LastError = wf_FinalizerLastError w,
             dg_LastAttemptedAt = valueOrZero (wf_FinalizerLastAttemptedAt w),
             dg_NextRetryAt = wf_FinalizerNextRetryAt w\<rparr> = None)"

record WorkflowLease =
  wl_StateVersion :: int
  wl_LeaseOwner :: string

definition WorkflowLease_Valid :: "WorkflowLease \<Rightarrow> bool" where
  "WorkflowLease_Valid c \<longleftrightarrow> 1 \<le> wl_StateVersion c \<and> \<not> blank (wl_LeaseOwner c)"

record Claim =
  cl_Workflow :: Workflow
  cl_Lease :: WorkflowLease

definition Claim_Valid :: "Claim \<Rightarrow> bool" where
  "Claim_Valid c \<longleftrightarrow> Workflow_Valid (cl_Workflow c) \<and> WorkflowLease_Valid (cl_Lease c) \<and>
     wl_StateVersion (cl_Lease c) = wf_StateVersion (cl_Workflow c)"

text \<open>\<open>NextRetry\<close>: 1, 2, 4, ... seconds, at most a minute.\<close>

definition NextRetry :: "int \<Rightarrow> time \<Rightarrow> time" where
  "NextRetry attempt now =
     (let attempt = (if attempt < 1 then 1 else attempt);
          delay = seconds 1 * 2 ^ nat (if attempt - 1 < 6 then attempt - 1 else 6);
          delay = (if seconds 60 < delay then seconds 60 else delay)
      in now + delay)"

subsection \<open>Candidates (\<open>candidate.go\<close>)\<close>

record Publication =
  pb_CandidateRevisionID :: string
  pb_IntentRevision :: int
  pb_ScenarioID :: string
  pb_ScenarioRevisionID :: string
  pb_BaseActiveRevisionID :: string
  pb_SourceSlug :: string
  pb_TargetPath :: string
  pb_ScenarioTitle :: string
  pb_RequestedAt :: time

record PublicationMetadata =
  pm_Title :: string

definition PublicationMetadata_Validate :: "PublicationMetadata \<Rightarrow> go_error option" where
  "PublicationMetadata_Validate m = fail_if (blank (pm_Title m)) (Msg ''publication metadata is invalid'')"

definition Publication_ValidateIntent :: "unicode \<Rightarrow> Publication \<Rightarrow> go_error option" where
  "Publication_ValidateIntent u p = first_error
     [fail_if (blank (pb_CandidateRevisionID p) \<or> blank (pb_ScenarioTitle p) \<or> pb_IntentRevision p < 1 \<or>
         pb_RequestedAt p = 0 \<or> \<not> ValidID (pb_ScenarioID p) \<or> \<not> ValidRevisionID (pb_ScenarioRevisionID p) \<or>
         \<not> ValidSourceSlug u (pb_SourceSlug p) \<or>
         ValidateMaterializedPath u (pb_TargetPath p) (pb_SourceSlug p) (pb_ScenarioRevisionID p) \<noteq> None)
        (Msg ''scenario publication intent is incomplete''),
      fail_if (pb_BaseActiveRevisionID p \<noteq> [] \<and> \<not> ValidRevisionID (pb_BaseActiveRevisionID p))
        (Msg ''scenario publication base active revision is invalid'')]"

record Candidate =
  cr_ID :: string
  cr_Source :: Source
  cr_SourceRevision :: string
  cr_JudgeRunID :: string
  cr_ParentCandidateID :: string
  cr_RepairReason :: string
  cr_ArchivePath :: string
  cr_ArchiveDigest :: string
  cr_ContentRevision :: string
  cr_SourceArchive :: SourceArchive
  cr_RunnableRevisionRef :: "RevisionReference option"
  cr_VerificationReportRef :: "VerificationReportReference option"
  cr_Failure :: "Failure option"
  cr_Publication :: "Publication option"
  cr_CreatedAt :: time
  cr_UpdatedAt :: time
  cr_VerifiedAt :: "time option"
  cr_PublishedAt :: "time option"

definition Candidate_ValidateForCreate :: "Candidate \<Rightarrow> go_error option" where
  "Candidate_ValidateForCreate r = first_error
     [fail_if (blank (cr_ID r) \<or> \<not> Source_Valid (cr_Source r) \<or> blank (cr_SourceRevision r) \<or>
         blank (cr_ArchivePath r) \<or> \<not> ValidDigest (cr_ArchiveDigest r) \<or> \<not> ValidDigest (cr_ContentRevision r) \<or>
         SourceArchive_Validate (cr_SourceArchive r) \<noteq> None)
        (Msg ''candidate revision requires source identity and frozen archive''),
      fail_if (cr_RunnableRevisionRef r \<noteq> None \<or> cr_VerificationReportRef r \<noteq> None \<or> cr_Failure r \<noteq> None \<or>
         cr_Publication r \<noteq> None \<or> cr_VerifiedAt r \<noteq> None \<or> cr_PublishedAt r \<noteq> None)
        (Msg ''new candidate revision must not contain lifecycle outputs'')]"

subsection \<open>Plans (\<open>internal/domain/authoring/model.go\<close>)\<close>

record PlanCheckpoint =
  ck_ID :: string
  ck_Title :: string
  ck_Markdown :: string
  ck_Position :: int

record AuthoringPlan =
  pl_Title :: string
  pl_Description :: string
  pl_Runtime :: string
  pl_Overview :: string
  pl_Checkpoints :: "PlanCheckpoint list"

text \<open>
  \<open>SortedCheckpoints\<close> compares positions by their \<open>int\<close> difference, which wraps around, and texts
  byte by byte. \<open>slices.SortFunc\<close> is not stable; equal keys mean equal ids, which the caller refuses.
\<close>

definition checkpoint_le :: "PlanCheckpoint \<Rightarrow> PlanCheckpoint \<Rightarrow> bool" where
  "checkpoint_le a b =
     (if ck_Position a = ck_Position b then string_le (ck_ID a) (ck_ID b)
      else wrap64 (ck_Position a - ck_Position b) \<le> 0)"

definition SortedCheckpoints :: "AuthoringPlan \<Rightarrow> PlanCheckpoint list" where
  "SortedCheckpoints p = sort_by checkpoint_le (pl_Checkpoints p)"

text \<open>The texts of these errors are Chinese; the model names them in English.\<close>

definition Plan_ValidateForGeneration :: "AuthoringPlan \<Rightarrow> go_error option" where
  "Plan_ValidateForGeneration p = first_error
     [fail_if (blank (pl_Title p)) (Msg ''plan title is empty''),
      fail_if (blank (pl_Description p)) (Msg ''plan description is empty''),
      fail_if (trim (pl_Runtime p) \<noteq> ''node'' \<and> trim (pl_Runtime p) \<noteq> ''k8s'') (Msg ''plan runtime is not node or k8s''),
      error_of (scan_unique ck_ID
        (\<lambda>_ c. fail_if (blank (ck_ID c) \<or> blank (ck_Title c) \<or> blank (ck_Markdown c))
           (Msg ''plan checkpoint is incomplete''))
        (\<lambda>_ c. Msg ''plan checkpoint id is repeated'') 0 [] (SortedCheckpoints p))]"

subsection \<open>Agent runs (\<open>internal/domain/agent/model.go\<close>)\<close>

datatype RunStatus = RunRunning | RunSucceeded | RunFailed | RunCancelled | RunInterrupted

definition MaxAttempts :: int where "MaxAttempts = 5"

record AgentRun =
  ag_ID :: string
  ag_SessionID :: string
  ag_Purpose :: string
  ag_OwnerKind :: string
  ag_OwnerRef :: string
  ag_InputRevision :: string
  ag_Input :: string
  ag_Status :: RunStatus
  ag_Model :: string
  ag_PromptVersion :: string
  ag_Attempt :: int
  ag_DeadlineAt :: time
  ag_LastError :: string
  ag_CreatedAt :: time
  ag_UpdatedAt :: time
  ag_CompletedAt :: "time option"

record CreateRun =
  nr_ID :: string
  nr_SessionID :: string
  nr_Purpose :: string
  nr_OwnerKind :: string
  nr_OwnerRef :: string
  nr_InputRevision :: string
  nr_Input :: string
  nr_Model :: string
  nr_PromptVersion :: string
  nr_DeadlineAt :: time

subsection \<open>Workspaces (\<open>workspace.go\<close>)\<close>

datatype WorkspaceState =
  WorkspacePending | WorkspaceActive | WorkspaceDeleting | WorkspaceDeleted | WorkspaceStateOther string

record Workspace =
  ws_ID :: string
  ws_WorkflowID :: string
  ws_Namespace :: string
  ws_PVCName :: string
  ws_SandboxID :: string
  ws_ActiveTurnID :: string
  ws_State :: WorkspaceState
  ws_ProvisionDeadline :: time
  ws_IdleSince :: "time option"
  ws_CreatedAt :: time
  ws_UpdatedAt :: time
  ws_DeletedAt :: "time option"

definition default_state :: "WorkspaceState \<Rightarrow> WorkspaceState" where
  "default_state s = (if s = WorkspaceStateOther [] then WorkspacePending else s)"

definition WorkspaceState_Known :: "WorkspaceState \<Rightarrow> bool" where
  "WorkspaceState_Known s \<longleftrightarrow> s \<in> {WorkspacePending, WorkspaceActive, WorkspaceDeleting, WorkspaceDeleted}"

definition ValidateWorkspace :: "Workspace \<Rightarrow> go_error option" where
  "ValidateWorkspace r = first_error
     [fail_if (blank (ws_ID r) \<or> blank (ws_WorkflowID r) \<or> blank (ws_Namespace r) \<or> blank (ws_PVCName r))
        (Msg ''generator workspace requires id, workflow id, namespace, and pvc name''),
      fail_if (\<not> WorkspaceState_Known (default_state (ws_State r))) (Msg ''invalid generator workspace state''),
      fail_if (ws_ProvisionDeadline r = 0) (Msg ''generator workspace provision deadline is required''),
      fail_if (ws_IdleSince r \<noteq> None \<and> (default_state (ws_State r) \<noteq> WorkspaceActive \<or> \<not> blank (ws_ActiveTurnID r)))
        (Msg ''generator workspace idle timestamp requires an unbound active workspace'')]"

definition NewWorkspacePVCName :: "string \<Rightarrow> string" where
  "NewWorkspacePVCName workspaceID = ''breakfix-workspace-'' @ hex_of (take 16 (sha256 (trim workspaceID)))"

definition IsWorkspaceSnapshotHolder :: "string \<Rightarrow> bool" where
  "IsWorkspaceSnapshotHolder val \<longleftrightarrow> prefix ''workspace-snapshot-'' (trim val)"

definition WorkspaceTurn_Valid :: "string \<Rightarrow> string \<Rightarrow> bool" where
  "WorkspaceTurn_Valid workflowID turnID \<longleftrightarrow> \<not> blank workflowID \<and> \<not> blank turnID"

end
