(* ===== verification/GenerationStore.thy ===== *)
theory GenerationStore
  imports GenerationModel ActionQueue
begin

section \<open>The tables of the generation repository\<close>

text \<open>
  The rows behind \<open>internal/adapter/postgres/generation_repository.go\<close> (\<open>schema_generation.go\<close>,
  \<open>schema_agent.go\<close>, \<open>schema_authoring.go\<close>), and the statements its transactions share. A workflow, a
  candidate, a run, a workspace, a scenario and a scenario revision are stored as the struct a row is
  scanned into: a NULL text is the empty text, a pair of NULL reference columns is \<open>None\<close>, and JSONB
  columns hold the value. Times of the \<open>authoring_*\<close> tables are texts with all their nanoseconds.
\<close>

datatype SessionState = StateDraftConversation | StateIntentReview | SessionPublished | SessionOther string

record session_row =
  se_ID :: string
  se_UserID :: string
  se_State :: SessionState
  se_CurrentRevision :: int
  se_VisibleRevision :: int
  se_PublishScenarioID :: string
  se_RevisionScenarioID :: string
  se_RevisionBaseActiveRevisionID :: string
  se_UpdatedAt :: time

record plan_row =
  pr_Session :: string
  pr_Number :: int
  pr_Plan :: AuthoringPlan
  pr_CandidateRevisionID :: string

datatype generationAction =
  ActionConfirmGeneration | ActionSubmitCandidate | ActionConfirmContent | ActionRequestContentChanges
  | ActionCancelGeneration

record receipt_row =
  rc_SessionID :: string
  rc_Action :: generationAction
  rc_IdempotencyKey :: string
  rc_RequestDigest :: string
  rc_WorkflowID :: string
  rc_PlanRevision :: "int option"
  rc_CandidateRevisionID :: "string option"
  rc_CreatedAt :: time

record generation_db =
  g_runnable :: store
  g_workflows :: "Workflow list"
  g_candidates :: "Candidate list"
  g_receipts :: "receipt_row list"
  g_agent_sessions :: "string list"
  g_runs :: "AgentRun list"
  g_workspaces :: "Workspace list"
  g_sessions :: "session_row list"
  g_plans :: "plan_row list"
  g_scenarios :: "Scenario list"
  g_revisions :: "ScenarioRevision list"

text \<open>
  What surrounds the repository: the database, the classes of Unicode, and \<open>json.Marshal\<close> of a
  request with its action.
\<close>

datatype request =
    RequestStart StartConfirmation
  | RequestSubmit CandidateSubmission
  | RequestConfirm ContentConfirmation
  | RequestChanges ContentChangeRequest
  | RequestCancel Cancellation

record platform =
  pf_db :: database
  pf_unicode :: unicode
  pf_json :: "generationAction \<times> request \<Rightarrow> string"

definition pf_ts :: "platform \<Rightarrow> time \<Rightarrow> time" where
  "pf_ts pf = db_ts (pf_db pf)"

subsection \<open>Error values\<close>

abbreviation no_rows :: go_error where "no_rows \<equiv> Msg ''sql: no rows in result set''"

definition workflow_not_found :: go_error where
  "workflow_not_found = Sentinel ErrGenerationWorkflowNotFound ''generation workflow not found''"

definition generation_lease_lost :: go_error where
  "generation_lease_lost = Sentinel ErrGenerationLeaseLost ''generation agent lease lost''"

definition candidate_not_found :: go_error where
  "candidate_not_found = Sentinel ErrCandidateNotFound ''candidate revision not found''"

definition candidate_invalid_state :: go_error where
  "candidate_invalid_state = Sentinel ErrCandidateInvalidState ''candidate revision is not in the required state''"

definition workspace_turn_lost :: go_error where
  "workspace_turn_lost = Sentinel ErrWorkspaceTurnLost ''generator workspace turn binding was lost''"

definition authoring_not_found :: go_error where
  "authoring_not_found = Sentinel ErrAuthoringNotFound ''authoring session not found''"

definition version_conflict :: go_error where
  "version_conflict = Sentinel ErrAuthoringVersionConflict ''authoring plan version conflict''"

definition authoring_invalid_state :: go_error where
  "authoring_invalid_state =
     Sentinel ErrAuthoringInvalidState ''authoring session is not in a valid state for this operation''"

definition agent_not_found :: go_error where
  "agent_not_found = Sentinel ErrAgentNotFound ''agent runtime record not found''"

definition agent_run_active :: go_error where
  "agent_run_active = Sentinel ErrAgentRunActive ''agent session already has an active run''"

definition scenario_not_found :: go_error where
  "scenario_not_found = Sentinel ErrScenarioNotFound ''scenario not found''"

definition revision_conflict :: go_error where
  "revision_conflict = Sentinel ErrScenarioRevisionConflict ''scenario active revision changed''"

definition scenario_not_mutable :: go_error where
  "scenario_not_mutable = Sentinel ErrScenarioNotMutable ''scenario cannot be modified''"

subsection \<open>Transactions\<close>

text \<open>
  A transaction body returns its value with the new tables, or an error; on an error the deferred
  rollback leaves the tables as they were.
\<close>

definition tx :: "'s \<Rightarrow> 'e + 'a \<times> 's \<Rightarrow> ('e + 'a) \<times> 's" where
  "tx s r = (case r of Inl e \<Rightarrow> (Inl e, s) | Inr (v, s') \<Rightarrow> (Inr v, s'))"

text \<open>A query that returns \<open>sql.ErrNoRows\<close> when it finds nothing.\<close>

definition found :: "go_error \<Rightarrow> 'a option \<Rightarrow> go_error + 'a" where
  "found e v = (case v of None \<Rightarrow> Inl e | Some a \<Rightarrow> Inr a)"

text \<open>A caller that replaces every error.\<close>

definition or_error :: "go_error \<Rightarrow> go_error + 'a \<Rightarrow> go_error + 'a" where
  "or_error e r = (case r of Inl _ \<Rightarrow> Inl e | Inr a \<Rightarrow> Inr a)"

lemma tx_simps [simp]: "tx s (Inl e) = (Inl e, s)" "tx s (Inr (v, s')) = (Inr v, s')"
  by (simp_all add: tx_def)

lemma tx_Inr: "tx s r = (Inr v, s') \<longleftrightarrow> r = Inr (v, s')"
  by (auto simp: tx_def split: sum.splits)

lemma tx_Inl: "tx s r = (Inl e, s') \<longleftrightarrow> r = Inl e \<and> s' = s"
  by (auto simp: tx_def split: sum.splits)

lemma tx_cases: "snd (tx s r) = s \<or> (\<exists>v. r = Inr (v, snd (tx s r)))"
  by (auto simp: tx_def split: sum.splits)

lemma found_Inr [valid_simps]: "found e v = Inr a \<longleftrightarrow> v = Some a"
  by (cases v) (auto simp: found_def)

lemma or_error_Inr [valid_simps]: "or_error e r = Inr a \<longleftrightarrow> r = Inr a"
  by (cases r) (auto simp: or_error_def)

subsection \<open>Workflow and candidate rows\<close>

text \<open>\<open>scanGenerationWorkflow\<close> on the row a query found, if any.\<close>

definition scanGenerationWorkflow :: "Workflow option \<Rightarrow> go_error + Workflow" where
  "scanGenerationWorkflow row = and_then (found no_rows row)
     (\<lambda>w. if Workflow_Valid w then Inr w else Inl (Msg ''stored generation workflow is invalid''))"

lemma scanGenerationWorkflow_Inr [valid_simps]:
  "scanGenerationWorkflow row = Inr w \<longleftrightarrow> row = Some w \<and> Workflow_Valid w"
  by (auto simp: scanGenerationWorkflow_def and_then_Inr_iff found_Inr split: if_splits)

definition workflow_row :: "string \<Rightarrow> generation_db \<Rightarrow> Workflow option" where
  "workflow_row i g = sql_row wf_ID i (g_workflows g)"

definition candidate_row :: "string \<Rightarrow> generation_db \<Rightarrow> Candidate option" where
  "candidate_row i g = sql_row cr_ID i (g_candidates g)"

definition run_row :: "string \<Rightarrow> generation_db \<Rightarrow> AgentRun option" where
  "run_row i g = sql_row ag_ID i (g_runs g)"

definition session_of :: "string \<Rightarrow> generation_db \<Rightarrow> session_row option" where
  "session_of i g = sql_row se_ID i (g_sessions g)"

definition update_workflow :: "string \<Rightarrow> (Workflow \<Rightarrow> Workflow) \<Rightarrow> generation_db \<Rightarrow> generation_db" where
  "update_workflow i f g = g \<lparr>g_workflows := fst (sql_update (\<lambda>w. wf_ID w = i) f (g_workflows g))\<rparr>"

definition update_candidate :: "string \<Rightarrow> (Candidate \<Rightarrow> Candidate) \<Rightarrow> generation_db \<Rightarrow> generation_db" where
  "update_candidate i f g = g \<lparr>g_candidates := fst (sql_update (\<lambda>c. cr_ID c = i) f (g_candidates g))\<rparr>"

text \<open>\<open>UPDATE agent_runs ... WHERE id = ? AND status = 'running'\<close>\<close>

definition update_running :: "string \<Rightarrow> (AgentRun \<Rightarrow> AgentRun) \<Rightarrow> generation_db \<Rightarrow> generation_db" where
  "update_running i f g =
     g \<lparr>g_runs := fst (sql_update (\<lambda>r. ag_ID r = i \<and> ag_Status r = RunRunning) f (g_runs g))\<rparr>"

text \<open>A state transition of a workflow: the columns that most \<open>UPDATE\<close>s set.\<close>

definition move_workflow :: "WorkflowState \<Rightarrow> string \<Rightarrow> time \<Rightarrow> Workflow \<Rightarrow> Workflow" where
  "move_workflow state lastError at w = w \<lparr>wf_State := state, wf_StateVersion := wf_StateVersion w + 1,
     wf_LastError := lastError, wf_NextRunAt := at, wf_UpdatedAt := at\<rparr>"

definition drop_lease :: "Workflow \<Rightarrow> Workflow" where
  "drop_lease w = w \<lparr>wf_ActiveAgentRunID := [], wf_AgentLeaseOwner := [], wf_AgentLeaseExpiresAt := None\<rparr>"

subsection \<open>Sessions, plans and receipts\<close>

definition lockAuthoringSessionTx :: "generation_db \<Rightarrow> string \<Rightarrow> string \<Rightarrow> go_error option" where
  "lockAuthoringSessionTx g sessionID userID =
     fail_if (\<not> list_ex (\<lambda>s. se_ID s = sessionID \<and> (blank userID \<or> se_UserID s = userID)) (g_sessions g))
       authoring_not_found"

definition readAuthoringSessionTx :: "generation_db \<Rightarrow> string \<Rightarrow> string \<Rightarrow> go_error + session_row" where
  "readAuthoringSessionTx g sessionID userID = found authoring_not_found
     (find (\<lambda>s. se_ID s = sessionID \<and> (userID = [] \<or> se_UserID s = userID)) (g_sessions g))"

definition readAuthoringRevisionTx :: "generation_db \<Rightarrow> string \<Rightarrow> int \<Rightarrow> go_error + plan_row" where
  "readAuthoringRevisionTx g sessionID number = found authoring_not_found
     (find (\<lambda>p. pr_Session p = sessionID \<and> pr_Number p = number) (g_plans g))"

definition generationActionRequestDigest :: "platform \<Rightarrow> generationAction \<Rightarrow> request \<Rightarrow> string" where
  "generationActionRequestDigest pf action request = sha256_hex (pf_json pf (action, request))"

definition receipt_key :: "receipt_row \<Rightarrow> string \<times> generationAction \<times> string" where
  "receipt_key r = (rc_SessionID r, rc_Action r, rc_IdempotencyKey r)"

definition generationActionReceiptTx ::
  "generation_db \<Rightarrow> string \<Rightarrow> generationAction \<Rightarrow> string \<Rightarrow> string \<Rightarrow> go_error + receipt_row option"
where
  "generationActionReceiptTx g sessionID action key digest =
     (case sql_row receipt_key (sessionID, action, key) (g_receipts g) of
        None \<Rightarrow> Inr None
      | Some r \<Rightarrow> if rc_RequestDigest r \<noteq> digest then Inl version_conflict else Inr (Some r))"

text \<open>
  The primary key, and the check that an action carries the references that belong to it.
\<close>

definition receipt_shape :: "receipt_row \<Rightarrow> bool" where
  "receipt_shape r = (case rc_Action r of
     ActionConfirmGeneration \<Rightarrow> rc_PlanRevision r \<noteq> None \<and> rc_CandidateRevisionID r = None
   | ActionCancelGeneration \<Rightarrow> rc_PlanRevision r = None \<and> rc_CandidateRevisionID r = None
   | _ \<Rightarrow> rc_PlanRevision r = None \<and> rc_CandidateRevisionID r \<noteq> None)"

definition insertGenerationActionReceiptTx :: "receipt_row \<Rightarrow> generation_db \<Rightarrow> go_error + generation_db" where
  "insertGenerationActionReceiptTx r g =
     (if receipt_key r \<in> receipt_key ` set (g_receipts g) \<or> \<not> receipt_shape r \<or>
         rc_WorkflowID r \<notin> wf_ID ` set (g_workflows g) \<or> rc_SessionID r \<notin> se_ID ` set (g_sessions g) \<or>
         (case rc_CandidateRevisionID r of None \<Rightarrow> False | Some c \<Rightarrow> c \<notin> cr_ID ` set (g_candidates g))
      then Inl constraint_violation
      else Inr (g \<lparr>g_receipts := g_receipts g @ [r]\<rparr>))"

definition new_receipt ::
  "platform \<Rightarrow> string \<Rightarrow> generationAction \<Rightarrow> string \<Rightarrow> string \<Rightarrow> string \<Rightarrow> int option \<Rightarrow> string option \<Rightarrow> time
     \<Rightarrow> receipt_row"
where
  "new_receipt pf sessionID action key digest workflowID plan candidate now =
     \<lparr>rc_SessionID = sessionID, rc_Action = action, rc_IdempotencyKey = key, rc_RequestDigest = digest,
      rc_WorkflowID = workflowID, rc_PlanRevision = plan, rc_CandidateRevisionID = candidate,
      rc_CreatedAt = pf_ts pf now\<rparr>"

definition generationWorkflowForReceiptTx :: "generation_db \<Rightarrow> string \<Rightarrow> go_error + Workflow" where
  "generationWorkflowForReceiptTx g workflowID = (case workflow_row workflowID g of
     None \<Rightarrow> Inl workflow_not_found
   | Some w \<Rightarrow> scanGenerationWorkflow (Some w))"

definition authoringSourceRevision :: "Workflow \<Rightarrow> go_error + int" where
  "authoringSourceRevision w =
     (if src_Kind (wf_Source w) \<noteq> SourceAuthoring then Inl (Msg ''generation source is not authoring'')
      else case ParseInt10 (wf_SourceRevision w) of
        Some v \<Rightarrow> if v < 0 then Inl (Msg ''generation source revision is invalid'') else Inr v
      | None \<Rightarrow> Inl (Msg ''generation source revision is invalid''))"

subsection \<open>Leases and runs\<close>

text \<open>\<open>lockGenerationAgentClaimTx\<close>: only the holder of an unexpired lease on a Judging workflow passes.\<close>

definition lease_holds :: "platform \<Rightarrow> Claim \<Rightarrow> time \<Rightarrow> Workflow \<Rightarrow> bool" where
  "lease_holds pf claim now w \<longleftrightarrow> wf_ID w = wf_ID (cl_Workflow claim) \<and> wf_State w = StateJudging \<and>
     wf_StateVersion w = wl_StateVersion (cl_Lease claim) \<and> wf_AgentLeaseOwner w = wl_LeaseOwner (cl_Lease claim) \<and>
     (case wf_AgentLeaseExpiresAt w of Some e \<Rightarrow> pf_ts pf now < e | None \<Rightarrow> False)"

definition lockGenerationAgentClaimTx :: "platform \<Rightarrow> generation_db \<Rightarrow> Claim \<Rightarrow> time \<Rightarrow> go_error + Workflow" where
  "lockGenerationAgentClaimTx pf g claim now = (case find (lease_holds pf claim now) (g_workflows g) of
     None \<Rightarrow> Inl generation_lease_lost
   | Some w \<Rightarrow> scanGenerationWorkflow (Some w))"

definition defaultAgentRunDeadline :: duration where "defaultAgentRunDeadline = seconds (15 * 60)"

definition agentRunInput :: "string \<Rightarrow> string" where
  "agentRunInput val = (if length val = 0 then ''{}'' else val)"

definition new_run :: "platform \<Rightarrow> CreateRun \<Rightarrow> time \<Rightarrow> AgentRun" where
  "new_run pf i now = \<lparr>ag_ID = nr_ID i, ag_SessionID = nr_SessionID i, ag_Purpose = nr_Purpose i,
     ag_OwnerKind = nr_OwnerKind i, ag_OwnerRef = nr_OwnerRef i, ag_InputRevision = nr_InputRevision i,
     ag_Input = agentRunInput (nr_Input i), ag_Status = RunRunning, ag_Model = nr_Model i,
     ag_PromptVersion = nr_PromptVersion i, ag_Attempt = 1,
     ag_DeadlineAt = pf_ts pf (if nr_DeadlineAt i = 0 then now + defaultAgentRunDeadline else nr_DeadlineAt i),
     ag_LastError = [], ag_CreatedAt = pf_ts pf now, ag_UpdatedAt = pf_ts pf now, ag_CompletedAt = None\<rparr>"

definition createRunTx :: "platform \<Rightarrow> CreateRun \<Rightarrow> time \<Rightarrow> generation_db \<Rightarrow> go_error + AgentRun \<times> generation_db" where
  "createRunTx pf i now g =
     (if nr_ID i \<in> ag_ID ` set (g_runs g) \<or>
         (nr_SessionID i \<noteq> [] \<and> (nr_SessionID i \<notin> set (g_agent_sessions g) \<or>
            list_ex (\<lambda>r. ag_SessionID r = nr_SessionID i \<and> ag_Status r = RunRunning) (g_runs g)))
      then Inl (Wrap ''insert agent run'' constraint_violation)
      else Inr (new_run pf i now, g \<lparr>g_runs := g_runs g @ [new_run pf i now]\<rparr>))"

definition finish_run :: "platform \<Rightarrow> RunStatus \<Rightarrow> string \<Rightarrow> time \<Rightarrow> AgentRun \<Rightarrow> AgentRun" where
  "finish_run pf status lastError now r = r \<lparr>ag_Status := status, ag_LastError := lastError,
     ag_CompletedAt := Some (pf_ts pf now), ag_UpdatedAt := pf_ts pf now\<rparr>"

definition completeRunTx :: "platform \<Rightarrow> string \<Rightarrow> time \<Rightarrow> generation_db \<Rightarrow> go_error + generation_db" where
  "completeRunTx pf runID now g =
     (let P = (\<lambda>r. ag_ID r = runID \<and> ag_Status r = RunRunning) in
      if length (filter P (g_runs g)) \<noteq> 1 then Inl agent_run_active
      else Inr (update_running runID (finish_run pf RunSucceeded [] now) g))"

subsection \<open>Public references\<close>

definition validateGenerationRunnableRevisionTx ::
  "generation_db \<Rightarrow> Candidate \<Rightarrow> RevisionReference \<Rightarrow> go_error option"
where
  "validateGenerationRunnableRevisionTx g candidate reference =
     (case find (\<lambda>r. rv_id r = ref_ID reference \<and> rv_digest r = ref_Digest reference) (st_revisions (g_runnable g)) of
        None \<Rightarrow> Some ErrRunnableRevisionNotFound_error
      | Some r \<Rightarrow> (case sql_row sp_digest (rv_spec r) (st_specs (g_runnable g)) of
          None \<Rightarrow> Some ErrRunnableRevisionNotFound_error
        | Some s \<Rightarrow> fail_if (ci_Kind (sp_content s) \<noteq> ''operations'' \<or> ci_ID (sp_content s) \<noteq> cr_ID candidate \<or>
              ci_Revision (sp_content s) \<noteq> cr_ContentRevision candidate)
            (Msg ''generation runnable revision does not match candidate'')))"

definition validateGenerationVerificationReportTx ::
  "generation_db \<Rightarrow> RevisionReference \<Rightarrow> VerificationReportReference \<Rightarrow> go_error + bool"
where
  "validateGenerationVerificationReportTx g revision reference =
     (case find (\<lambda>r. vw_id r = vref_ID reference \<and> vw_digest r = vref_Digest reference) (st_reports (g_runnable g)) of
        None \<Rightarrow> Inl ErrVerificationReportNotFound_error
      | Some r \<Rightarrow>
          if vw_revision r \<noteq> ref_Digest revision
          then Inl (Msg ''generation report does not match runnable revision'')
          else Inr (vr_Passed (vw_report r)))"

subsection \<open>Candidates and scenarios\<close>

definition insertCandidateRevisionTx :: "platform \<Rightarrow> Candidate \<Rightarrow> generation_db \<Rightarrow> go_error + generation_db" where
  "insertCandidateRevisionTx pf c g = check (Candidate_ValidateForCreate c)
     (if cr_ID c \<in> cr_ID ` set (g_candidates g) \<or>
         (cr_ParentCandidateID c \<noteq> [] \<and> cr_ParentCandidateID c \<notin> cr_ID ` set (g_candidates g))
      then Inl constraint_violation
      else Inr (g \<lparr>g_candidates := g_candidates g @
        [c \<lparr>cr_CreatedAt := pf_ts pf (cr_CreatedAt c), cr_UpdatedAt := pf_ts pf (cr_UpdatedAt c)\<rparr>]\<rparr>))"

definition lockPersistedScenarioTx :: "platform \<Rightarrow> generation_db \<Rightarrow> string \<Rightarrow> go_error + Scenario" where
  "lockPersistedScenarioTx pf g i = (case sql_row sc_ID (trim i) (g_scenarios g) of
     None \<Rightarrow> Inl scenario_not_found
   | Some c \<Rightarrow> if Scenario_Valid (pf_unicode pf) c then Inr c
       else Inl (Wrap ''lock scenario'' (Msg ''stored scenario is invalid'')))"

definition lockPersistedScenarioRevisionTx :: "platform \<Rightarrow> generation_db \<Rightarrow> string \<Rightarrow> go_error + ScenarioRevision" where
  "lockPersistedScenarioRevisionTx pf g i = (case sql_row sv_ID (trim i) (g_revisions g) of
     None \<Rightarrow> Inl scenario_not_found
   | Some r \<Rightarrow> if ScenarioRevision_Valid (pf_unicode pf) r then Inr r
       else Inl (Wrap ''lock scenario revision'' (Msg ''stored scenario revision is invalid'')))"

definition insertPersistedScenarioTx :: "platform \<Rightarrow> Scenario \<Rightarrow> generation_db \<Rightarrow> go_error + generation_db" where
  "insertPersistedScenarioTx pf c g =
     (if \<not> Scenario_Valid (pf_unicode pf) c then Inl (Msg ''scenario is invalid'')
      else if sc_ID c \<in> sc_ID ` set (g_scenarios g) \<or> sc_SourceSlug c \<in> sc_SourceSlug ` set (g_scenarios g) \<or>
         list_ex (\<lambda>d. sc_SourceKind d = sc_SourceKind c \<and> sc_SourceRef d = sc_SourceRef c) (g_scenarios g) \<or>
         (sc_SourceKind c = SourceRelease \<and> sc_OwnerUserID c \<noteq> [])
      then Inl (Wrap ''insert scenario'' constraint_violation)
      else Inr (g \<lparr>g_scenarios := g_scenarios g @
        [c \<lparr>sc_CreatedAt := pf_ts pf (sc_CreatedAt c), sc_UpdatedAt := pf_ts pf (sc_UpdatedAt c)\<rparr>]\<rparr>))"

definition insertPersistedScenarioRevisionTx ::
  "platform \<Rightarrow> ScenarioRevision \<Rightarrow> generation_db \<Rightarrow> go_error + generation_db"
where
  "insertPersistedScenarioRevisionTx pf r g =
     (if \<not> ScenarioRevision_Valid (pf_unicode pf) r then Inl (Msg ''scenario revision is invalid'')
      else if sv_ID r \<in> sv_ID ` set (g_revisions g) \<or>
         sv_ScenarioID r \<notin> sc_ID ` set (g_scenarios g) \<or>
         sv_MaterializedPath r \<in> sv_MaterializedPath ` set (g_revisions g) \<or>
         list_ex (\<lambda>s. sv_ScenarioID s = sv_ScenarioID r \<and>
           ((sv_ContentRevision s = sv_ContentRevision r \<and> sv_MaterializedRevision s = sv_MaterializedRevision r) \<or>
            (sv_State s = RevisionActive \<and> sv_State r = RevisionActive))) (g_revisions g) \<or>
         ref_ID (sv_RunnableRevisionRef r) \<notin> rv_id ` set (st_revisions (g_runnable g)) \<or>
         ref_Digest (sv_RunnableRevisionRef r) \<notin> rv_digest ` set (st_revisions (g_runnable g)) \<or>
         vref_ID (sv_VerificationReportRef r) \<notin> vw_id ` set (st_reports (g_runnable g)) \<or>
         vref_Digest (sv_VerificationReportRef r) \<notin> vw_digest ` set (st_reports (g_runnable g))
      then Inl (Wrap ''insert scenario revision'' constraint_violation)
      else Inr (g \<lparr>g_revisions := g_revisions g @
        [r \<lparr>sv_PublishedAt := pf_ts pf (sv_PublishedAt r), sv_CreatedAt := pf_ts pf (sv_CreatedAt r)\<rparr>]\<rparr>))"

definition scenarioRevisionFromPublication ::
  "string \<Rightarrow> ScenarioType \<Rightarrow> string list \<Rightarrow> string \<Rightarrow> string \<Rightarrow> RevisionReference \<Rightarrow> VerificationReportReference \<Rightarrow>
     string \<Rightarrow> string \<Rightarrow> string \<Rightarrow> string \<Rightarrow> string \<Rightarrow> string \<Rightarrow> string \<Rightarrow> ScenarioSource \<Rightarrow> time \<Rightarrow> ScenarioRevision"
where
  "scenarioRevisionFromPublication title scenarioType tags contentRevision materializedRevision runnableRevision
     verificationReport i scenarioID sourceRef sourceRevisionID baseActiveRevisionID sourceSlug materializedPath
     sourceKind publishedAt =
     \<lparr>sv_ID = i, sv_ScenarioID = scenarioID, sv_SourceKind = sourceKind, sv_SourceRef = sourceRef,
      sv_SourceRevisionID = sourceRevisionID, sv_BaseActiveRevisionID = baseActiveRevisionID, sv_Title = title,
      sv_Type = scenarioType, sv_Tags = tags, sv_ContentRevision = contentRevision, sv_SourceSlug = sourceSlug,
      sv_MaterializedPath = materializedPath, sv_MaterializedRevision = materializedRevision,
      sv_RunnableRevisionRef = runnableRevision, sv_VerificationReportRef = verificationReport,
      sv_State = RevisionActive, sv_PublishedAt = publishedAt, sv_CreatedAt = publishedAt\<rparr>"

end
