(* ===== verification/GenerationOps.thy ===== *)
theory GenerationOps
  imports GenerationStore
begin

section \<open>The generation repository: judging, submitting and starting\<close>

text \<open>
  The methods of \<open>internal/adapter/postgres/generation_repository.go\<close> that create a workflow, submit a
  candidate, and run the server's judge under a lease. A method is a transaction on the tables;
  \<open>generation.NewID\<close> is an argument. A claim is told which rows other transactions have locked.
\<close>

subsection \<open>Creating and reading\<close>

definition new_workflow :: "platform \<Rightarrow> string \<Rightarrow> string \<Rightarrow> string \<Rightarrow> time \<Rightarrow> Workflow" where
  "new_workflow pf newID sessionID planRevision now = \<lparr>wf_ID = newID,
     wf_Source = \<lparr>src_Kind = SourceAuthoring, src_Ref = sessionID\<rparr>, wf_SourceRevision = planRevision,
     wf_State = StateGenerating, wf_CandidateRevisionID = [], wf_WorkspaceSnapshotDigest = [],
     wf_ActiveAgentRunID = [], wf_StateVersion = 1, wf_AgentLeaseOwner = [], wf_AgentLeaseExpiresAt = None,
     wf_NextRunAt = now, wf_LastError = [], wf_FinalizerErrorCategory = CategoryUnknown,
     wf_FinalizerLastError = [], wf_FinalizerLastAttemptedAt = None, wf_FinalizerNextRetryAt = None,
     wf_CreatedAt = now, wf_UpdatedAt = now\<rparr>"

definition stored_workflow :: "platform \<Rightarrow> Workflow \<Rightarrow> Workflow" where
  "stored_workflow pf w = w \<lparr>wf_NextRunAt := pf_ts pf (wf_NextRunAt w), wf_CreatedAt := pf_ts pf (wf_CreatedAt w),
     wf_UpdatedAt := pf_ts pf (wf_UpdatedAt w)\<rparr>"

definition source_workflow :: "string \<Rightarrow> string \<Rightarrow> generation_db \<Rightarrow> Workflow option" where
  "source_workflow sessionID planRevision g = find (\<lambda>w. src_Kind (wf_Source w) = SourceAuthoring \<and>
     src_Ref (wf_Source w) = sessionID \<and> wf_SourceRevision w = planRevision) (g_workflows g)"

definition insert_workflow :: "platform \<Rightarrow> Workflow \<Rightarrow> generation_db \<Rightarrow> go_error + generation_db" where
  "insert_workflow pf w g =
     (if wf_ID w \<in> wf_ID ` set (g_workflows g) \<or>
         list_ex (\<lambda>v. wf_Source v = wf_Source w \<and> wf_SourceRevision v = wf_SourceRevision w) (g_workflows g)
      then Inl (Wrap ''insert generation workflow'' constraint_violation)
      else Inr (g \<lparr>g_workflows := g_workflows g @ [stored_workflow pf w]\<rparr>))"

definition CreateGenerationWorkflow ::
  "platform \<Rightarrow> string \<Rightarrow> string \<Rightarrow> string \<Rightarrow> StartConfirmation \<Rightarrow> time \<Rightarrow> generation_db
     \<Rightarrow> (go_error + Workflow) \<times> generation_db"
where
  "CreateGenerationWorkflow pf newID sessionID userID confirmation now g = tx g
     (if blank sessionID \<or> blank userID \<or> \<not> StartConfirmation_Valid confirmation \<or> now = 0
      then Inl (Msg ''generation workflow requires authoring session, user, confirmation, and current time'')
      else let digest = generationActionRequestDigest pf ActionConfirmGeneration (RequestStart confirmation);
               key = sco_IdempotencyKey confirmation; plan = sco_PlanRevision confirmation;
               planRevision = show_int plan in
      check (lockAuthoringSessionTx g sessionID userID)
        (and_then (generationActionReceiptTx g sessionID ActionConfirmGeneration key digest) (\<lambda>receipt.
           case receipt of
             Some r \<Rightarrow>
               if rc_PlanRevision r \<noteq> Some plan then Inl version_conflict
               else and_then (generationWorkflowForReceiptTx g (rc_WorkflowID r)) (\<lambda>w. Inr (w, g))
           | None \<Rightarrow>
               (case source_workflow sessionID planRevision g of
                  Some w \<Rightarrow> and_then (scanGenerationWorkflow (Some w)) (\<lambda>existing.
                    and_then (insertGenerationActionReceiptTx
                        (new_receipt pf sessionID ActionConfirmGeneration key digest (wf_ID existing) (Some plan) None now) g)
                      (\<lambda>g'. Inr (existing, g')))
                | None \<Rightarrow>
                    and_then (readAuthoringSessionTx g sessionID userID) (\<lambda>session.
                      if se_CurrentRevision session \<noteq> plan \<or> se_State session \<noteq> StateIntentReview
                      then Inl authoring_invalid_state
                      else and_then (readAuthoringRevisionTx g sessionID plan) (\<lambda>revision.
                        check (Plan_ValidateForGeneration (pr_Plan revision))
                          (let workflow = new_workflow pf newID sessionID planRevision now in
                           and_then (insert_workflow pf workflow g) (\<lambda>g'.
                             and_then (insertGenerationActionReceiptTx
                                 (new_receipt pf sessionID ActionConfirmGeneration key digest newID (Some plan) None now) g')
                               (\<lambda>g''. Inr (workflow, g'')))))))))) "

definition GetGenerationWorkflow :: "generation_db \<Rightarrow> string \<Rightarrow> go_error + Workflow" where
  "GetGenerationWorkflow g i = (case workflow_row (trim i) g of
     None \<Rightarrow> Inl workflow_not_found
   | Some w \<Rightarrow> (case scanGenerationWorkflow (Some w) of
       Inl e \<Rightarrow> Inl (Wrap ''get generation workflow'' e)
     | Inr v \<Rightarrow> Inr v))"

text \<open>\<open>EXISTS (SELECT 1 FROM authoring_sessions ...)\<close>\<close>

definition owned_by :: "generation_db \<Rightarrow> string \<Rightarrow> Workflow \<Rightarrow> bool" where
  "owned_by g userID w \<longleftrightarrow> src_Kind (wf_Source w) = SourceAuthoring \<and>
     list_ex (\<lambda>s. se_ID s = src_Ref (wf_Source w) \<and> se_UserID s = userID) (g_sessions g)"

definition GetGenerationWorkflowForUser :: "generation_db \<Rightarrow> string \<Rightarrow> string \<Rightarrow> go_error + Workflow" where
  "GetGenerationWorkflowForUser g workflowID userID =
     (if blank workflowID \<or> blank userID then Inl authoring_not_found
      else case find (\<lambda>w. wf_ID w = workflowID \<and> owned_by g userID w) (g_workflows g) of
        None \<Rightarrow> Inl authoring_not_found
      | Some w \<Rightarrow> scanGenerationWorkflow (Some w))"

text \<open>A loop over rows that returns the first row's error.\<close>

fun scan_all :: "('a \<Rightarrow> go_error + 'b) \<Rightarrow> 'a list \<Rightarrow> go_error + 'b list" where
  "scan_all f [] = Inr []"
| "scan_all f (x # xs) = and_then (f x) (\<lambda>y. and_then (scan_all f xs) (\<lambda>ys. Inr (y # ys)))"

lemma scan_all_Inr: "scan_all f xs = Inr ys \<longleftrightarrow> map f xs = map Inr ys"
  by (induction xs arbitrary: ys) (auto simp: and_then_Inr_iff Cons_eq_map_conv)

definition recent_first :: "platform \<Rightarrow> Workflow \<Rightarrow> Workflow \<Rightarrow> bool" where
  "recent_first pf a b \<longleftrightarrow> wf_UpdatedAt b < wf_UpdatedAt a \<or>
     (wf_UpdatedAt a = wf_UpdatedAt b \<and> db_coll (pf_db pf) (wf_ID b) (wf_ID a))"

definition ListGenerationWorkflowsForUser :: "platform \<Rightarrow> generation_db \<Rightarrow> string \<Rightarrow> go_error + Workflow list" where
  "ListGenerationWorkflowsForUser pf g userID =
     (if blank userID then Inl authoring_not_found
      else scan_all (\<lambda>w. scanGenerationWorkflow (Some w))
        (sort_by (recent_first pf)
          (filter (\<lambda>w. \<not> WorkflowState_Terminal (wf_State w) \<and> owned_by g userID w) (g_workflows g))))"

definition GetCandidateRevision :: "generation_db \<Rightarrow> string \<Rightarrow> go_error + Candidate" where
  "GetCandidateRevision g i = found candidate_not_found (candidate_row (trim i) g)"

definition CandidateForWorkflow :: "generation_db \<Rightarrow> string \<Rightarrow> go_error + Candidate" where
  "CandidateForWorkflow g workflowID = (case workflow_row workflowID g of
     None \<Rightarrow> Inl workflow_not_found
   | Some w \<Rightarrow>
       if wf_CandidateRevisionID w = [] then Inl (Msg ''converting NULL to string is unsupported'')
       else GetCandidateRevision g (wf_CandidateRevisionID w))"

subsection \<open>The judge's lease\<close>

definition claimable :: "platform \<Rightarrow> time \<Rightarrow> Workflow \<Rightarrow> bool" where
  "claimable pf now w \<longleftrightarrow> wf_State w = StateJudging \<and> wf_NextRunAt w \<le> pf_ts pf now \<and>
     (case wf_AgentLeaseExpiresAt w of None \<Rightarrow> True | Some e \<Rightarrow> e \<le> pf_ts pf now)"

definition take_lease :: "platform \<Rightarrow> string \<Rightarrow> duration \<Rightarrow> time \<Rightarrow> Workflow \<Rightarrow> Workflow" where
  "take_lease pf owner ttl now w = w \<lparr>wf_AgentLeaseOwner := owner,
     wf_AgentLeaseExpiresAt := Some (pf_ts pf (now + ttl)), wf_UpdatedAt := pf_ts pf now\<rparr>"

definition ClaimGenerationAgentWorkflow ::
  "platform \<Rightarrow> string list \<Rightarrow> string \<Rightarrow> string \<Rightarrow> duration \<Rightarrow> time \<Rightarrow> generation_db
     \<Rightarrow> (go_error + Claim option) \<times> generation_db"
where
  "ClaimGenerationAgentWorkflow pf locked newID serverID ttl now g = tx g
     (if blank serverID \<or> ttl \<le> 0 \<or> now = 0 then Inl (Msg ''generation agent claim is invalid'')
      else case sql_first (order3 (pf_db pf) wf_NextRunAt wf_CreatedAt wf_ID)
                  (\<lambda>w. claimable pf now w \<and> wf_ID w \<notin> set locked) (g_workflows g) of
        None \<Rightarrow> Inr (None, g)
      | Some w \<Rightarrow>
          (let owner = trim serverID @ ''-'' @ newID;
               g' = update_workflow (wf_ID w) (take_lease pf owner ttl now) g
           in and_then (scanGenerationWorkflow (workflow_row (wf_ID w) g')) (\<lambda>workflow.
                Inr (Some \<lparr>cl_Workflow = workflow,
                  cl_Lease = \<lparr>wl_StateVersion = wf_StateVersion workflow, wl_LeaseOwner = owner\<rparr>\<rparr>, g'))))"

definition RenewGenerationLease ::
  "platform \<Rightarrow> Claim \<Rightarrow> duration \<Rightarrow> time \<Rightarrow> generation_db \<Rightarrow> go_error option \<times> generation_db"
where
  "RenewGenerationLease pf claim ttl now g =
     (if \<not> Claim_Valid claim \<or> ttl \<le> 0 \<or> now = 0 then (Some generation_lease_lost, g)
      else let (t, changed) = sql_update (lease_holds pf claim now)
                 (\<lambda>w. w \<lparr>wf_AgentLeaseExpiresAt := Some (pf_ts pf (now + ttl)), wf_UpdatedAt := pf_ts pf now\<rparr>)
                 (g_workflows g)
           in (if changed \<noteq> 1 then Some generation_lease_lost else None, g \<lparr>g_workflows := t\<rparr>))"

record Context =
  cx_Workflow :: Workflow
  cx_Plan :: AuthoringPlan
  cx_Candidate :: "Candidate option"
  cx_Feedback :: Feedback

definition no_feedback :: Feedback where
  "no_feedback = \<lparr>fb_Summary = [], fb_Issues = []\<rparr>"

definition failure_feedback :: "Candidate option \<Rightarrow> Feedback" where
  "failure_feedback candidate = (case candidate of
     None \<Rightarrow> no_feedback
   | Some c \<Rightarrow> (case cr_Failure c of
       None \<Rightarrow> no_feedback
     | Some f \<Rightarrow> \<lparr>fb_Summary = fl_Summary f, fb_Issues = [\<lparr>is_Code = fl_Code f, is_Message = fl_Summary f\<rparr>]\<rparr>))"

definition context_feedback :: "Workflow \<Rightarrow> Candidate option \<Rightarrow> Feedback" where
  "context_feedback w candidate =
     (let f = failure_feedback candidate in
      if Feedback_Empty f \<and> wf_LastError w \<noteq> []
      then \<lparr>fb_Summary = wf_LastError w,
             fb_Issues = [\<lparr>is_Code = ''WORKFLOW_FEEDBACK'', is_Message = wf_LastError w\<rparr>]\<rparr>
      else f)"

definition LoadGenerationContext :: "platform \<Rightarrow> Claim \<Rightarrow> time \<Rightarrow> generation_db \<Rightarrow> go_error + Context" where
  "LoadGenerationContext pf claim now g =
     (if \<not> Claim_Valid claim \<or> now = 0 then Inl generation_lease_lost
      else and_then (lockGenerationAgentClaimTx pf g claim now) (\<lambda>w.
        and_then (authoringSourceRevision w) (\<lambda>planRevision.
        and_then (readAuthoringRevisionTx g (src_Ref (wf_Source w)) planRevision) (\<lambda>plan.
        and_then (if wf_CandidateRevisionID w = [] then Inr None
                  else and_then (found no_rows (candidate_row (wf_CandidateRevisionID w) g)) (\<lambda>c. Inr (Some c))) (\<lambda>candidate.
        let feedback = context_feedback w candidate in
        check (Feedback_Validate feedback)
          (Inr \<lparr>cx_Workflow = w, cx_Plan = pr_Plan plan,
                cx_Candidate = map_option (\<lambda>c. c \<lparr>cr_ArchivePath := []\<rparr>) candidate,
                cx_Feedback = feedback\<rparr>))))))"

text \<open>\<open>Execution.Valid\<close> on a claim and its context.\<close>

definition Execution_Valid :: "Claim \<Rightarrow> Context \<Rightarrow> bool" where
  "Execution_Valid claim c \<longleftrightarrow> Claim_Valid claim \<and> wf_ID (cx_Workflow c) = wf_ID (cl_Workflow claim) \<and>
     wf_State (cx_Workflow c) = wf_State (cl_Workflow claim)"

subsection \<open>Agent runs\<close>

definition StartGenerationAgentRun ::
  "platform \<Rightarrow> Claim \<Rightarrow> CreateRun \<Rightarrow> time \<Rightarrow> generation_db \<Rightarrow> (go_error + AgentRun) \<times> generation_db"
where
  "StartGenerationAgentRun pf claim input now g = tx g
     (if \<not> Claim_Valid claim \<or> nr_OwnerKind input \<noteq> ''generation-workflow'' \<or>
         nr_OwnerRef input \<noteq> wf_ID (cl_Workflow claim) \<or> nr_Purpose input \<noteq> ''judge'' \<or> now = 0
      then Inl (Msg ''generation agent run is invalid'')
      else and_then (lockGenerationAgentClaimTx pf g claim now) (\<lambda>w.
        let g1 = (if wf_ActiveAgentRunID w \<noteq> []
              then update_running (wf_ActiveAgentRunID w)
                     (finish_run pf RunInterrupted ''generation agent lease replaced'' now) g
              else g) in
        and_then (createRunTx pf input now g1) (\<lambda>(created, g2).
          Inr (created, update_workflow (wf_ID w)
            (\<lambda>w. w \<lparr>wf_ActiveAgentRunID := ag_ID created, wf_UpdatedAt := pf_ts pf now\<rparr>) g2))))"

definition next_attempt :: "platform \<Rightarrow> string \<Rightarrow> time \<Rightarrow> AgentRun \<Rightarrow> AgentRun" where
  "next_attempt pf message now r = r \<lparr>ag_Attempt := ag_Attempt r + 1, ag_LastError := trim message,
     ag_UpdatedAt := pf_ts pf now\<rparr>"

definition RetryGenerationAgentRun ::
  "platform \<Rightarrow> Claim \<Rightarrow> string \<Rightarrow> string \<Rightarrow> time \<Rightarrow> generation_db
     \<Rightarrow> (go_error + AgentRun option) \<times> generation_db"
where
  "RetryGenerationAgentRun pf claim runID message now g = tx g
     (if \<not> Claim_Valid claim \<or> blank runID \<or> blank message \<or> now = 0 then Inl generation_lease_lost
      else and_then (lockGenerationAgentClaimTx pf g claim now) (\<lambda>w.
        if wf_ActiveAgentRunID w \<noteq> runID then Inl generation_lease_lost
        else and_then (found agent_not_found (run_row runID g)) (\<lambda>run.
          if ag_Attempt run < MaxAttempts \<and> now < ag_DeadlineAt run
          then (if ag_Status run \<noteq> RunRunning then Inl no_rows
                else let g' = update_running runID (next_attempt pf message now) g in
                  Inr (run_row runID g', g'))
          else Inr (None, update_workflow (wf_ID w)
                 (\<lambda>w. drop_lease (w \<lparr>wf_State := StateFailed, wf_StateVersion := wf_StateVersion w + 1,
                    wf_LastError := trim message, wf_UpdatedAt := pf_ts pf now\<rparr>))
                 (update_running runID (finish_run pf RunFailed (trim message) now) g)))))"

text \<open>Two statements outside a transaction, when the server starts.\<close>

definition InterruptActiveGenerationAgentRuns ::
  "platform \<Rightarrow> string \<Rightarrow> time \<Rightarrow> generation_db \<Rightarrow> go_error option \<times> generation_db"
where
  "InterruptActiveGenerationAgentRuns pf reason now g =
     (if blank reason \<or> now = 0 then (Some (Msg ''generation agent interruption is invalid''), g)
      else let active = map wf_ActiveAgentRunID
                 (filter (\<lambda>w. wf_State w = StateJudging \<and> wf_ActiveAgentRunID w \<noteq> []) (g_workflows g));
               runs = fst (sql_update (\<lambda>r. ag_ID r \<in> set active \<and> ag_Status r = RunRunning)
                 (finish_run pf RunInterrupted reason now) (g_runs g));
               workflows = fst (sql_update (\<lambda>w. wf_State w = StateJudging)
                 (\<lambda>w. drop_lease (w \<lparr>wf_NextRunAt := pf_ts pf now, wf_UpdatedAt := pf_ts pf now\<rparr>)) (g_workflows g))
           in (None, g \<lparr>g_runs := runs, g_workflows := workflows\<rparr>))"

subsection \<open>Submitting a candidate\<close>

definition submitted_candidate ::
  "generation_db \<Rightarrow> string \<Rightarrow> CandidateSubmission \<Rightarrow> receipt_row \<Rightarrow> go_error + Candidate"
where
  "submitted_candidate g sessionID submission r =
     (if rc_WorkflowID r \<noteq> csu_WorkflowID submission then Inl version_conflict
      else case rc_CandidateRevisionID r of
        None \<Rightarrow> Inl version_conflict
      | Some c \<Rightarrow> found no_rows (candidate_row c g))"

definition FindSubmittedGenerationCandidate ::
  "platform \<Rightarrow> string \<Rightarrow> string \<Rightarrow> CandidateSubmission \<Rightarrow> generation_db \<Rightarrow> go_error + Candidate option"
where
  "FindSubmittedGenerationCandidate pf sessionID userID submission g =
     (if blank sessionID \<or> blank userID \<or> \<not> CandidateSubmission_Valid submission
      then Inl (Msg ''candidate submission is invalid'')
      else check (lockAuthoringSessionTx g sessionID userID)
        (and_then (generationActionReceiptTx g sessionID ActionSubmitCandidate (csu_IdempotencyKey submission)
             (generationActionRequestDigest pf ActionSubmitCandidate (RequestSubmit submission))) (\<lambda>receipt.
           case receipt of
             None \<Rightarrow> Inr None
           | Some r \<Rightarrow> and_then (submitted_candidate g sessionID submission r) (\<lambda>c. Inr (Some c)))))"

text \<open>The workspace that the turn is bound to: the newest active one of the workflow.\<close>

definition newest_workspace :: "platform \<Rightarrow> (Workspace \<Rightarrow> bool) \<Rightarrow> generation_db \<Rightarrow> Workspace option" where
  "newest_workspace pf P g = sql_first (\<lambda>a b. ws_CreatedAt b < ws_CreatedAt a \<or>
     (ws_CreatedAt a = ws_CreatedAt b \<and> db_coll (pf_db pf) (ws_ID b) (ws_ID a))) P (g_workspaces g)"

definition update_workspace :: "(Workspace \<Rightarrow> bool) \<Rightarrow> (Workspace \<Rightarrow> Workspace) \<Rightarrow> generation_db \<Rightarrow> generation_db" where
  "update_workspace P f g = g \<lparr>g_workspaces := fst (sql_update P f (g_workspaces g))\<rparr>"

definition frozen_candidate :: "Workflow \<Rightarrow> Candidate \<Rightarrow> time \<Rightarrow> Candidate" where
  "frozen_candidate w c now =
     (let c = c \<lparr>cr_Source := wf_Source w, cr_SourceRevision := wf_SourceRevision w, cr_CreatedAt := now,
            cr_UpdatedAt := now\<rparr> in
      if wf_CandidateRevisionID w \<noteq> []
      then c \<lparr>cr_ParentCandidateID := wf_CandidateRevisionID w, cr_RepairReason := wf_LastError w\<rparr> else c)"

definition SubmitGenerationCandidate ::
  "platform \<Rightarrow> string \<Rightarrow> string \<Rightarrow> CandidateSubmission \<Rightarrow> Candidate \<Rightarrow> time \<Rightarrow> generation_db
     \<Rightarrow> (go_error + Candidate) \<times> generation_db"
where
  "SubmitGenerationCandidate pf sessionID userID submission revision now g = tx g
     (if blank sessionID \<or> blank userID \<or> \<not> CandidateSubmission_Valid submission \<or> now = 0 \<or>
         cr_ID revision = [] \<or> cr_Source revision \<noteq> \<lparr>src_Kind = SourceKindOther [], src_Ref = []\<rparr> \<or>
         cr_SourceRevision revision \<noteq> []
      then Inl (Msg ''candidate submission is invalid'')
      else let digest = generationActionRequestDigest pf ActionSubmitCandidate (RequestSubmit submission);
               key = csu_IdempotencyKey submission in
      check (lockAuthoringSessionTx g sessionID userID)
        (and_then (generationActionReceiptTx g sessionID ActionSubmitCandidate key digest) (\<lambda>receipt.
           case receipt of
             Some r \<Rightarrow> and_then (submitted_candidate g sessionID submission r) (\<lambda>c. Inr (c, g))
           | None \<Rightarrow>
               and_then (case find (\<lambda>w. wf_ID w = csu_WorkflowID submission \<and>
                     src_Kind (wf_Source w) = SourceAuthoring \<and> src_Ref (wf_Source w) = sessionID \<and>
                     wf_State w = StateGenerating) (g_workflows g) of
                   None \<Rightarrow> Inl authoring_invalid_state
                 | Some w \<Rightarrow> scanGenerationWorkflow (Some w)) (\<lambda>w.
               and_then (found workspace_turn_lost (newest_workspace pf (\<lambda>s. ws_WorkflowID s = wf_ID w \<and>
                     ws_State s = WorkspaceActive \<and> ws_ActiveTurnID s = csu_TurnID submission) g)) (\<lambda>workspace.
               let frozen = frozen_candidate w revision now in
               check (Candidate_ValidateForCreate frozen)
                 (and_then (insertCandidateRevisionTx pf frozen g) (\<lambda>g1.
                  let g2 = update_workspace (\<lambda>s. ws_ID s = ws_ID workspace \<and>
                             ws_ActiveTurnID s = csu_TurnID submission)
                             (\<lambda>s. s \<lparr>ws_ActiveTurnID := [], ws_IdleSince := None, ws_UpdatedAt := pf_ts pf now\<rparr>) g1;
                      g3 = update_workflow (wf_ID w) (\<lambda>w. (move_workflow StateJudging [] (pf_ts pf now) w)
                             \<lparr>wf_CandidateRevisionID := cr_ID frozen, wf_WorkspaceSnapshotDigest := [],
                              wf_ActiveAgentRunID := []\<rparr>) g2 in
                  and_then (insertGenerationActionReceiptTx
                      (new_receipt pf sessionID ActionSubmitCandidate key digest (wf_ID w) None (Some (cr_ID frozen)) now) g3)
                    (\<lambda>g4. Inr (frozen, g4)))))))))"

subsection \<open>The judge's verdict\<close>

definition FinalizeGenerationJudgement ::
  "platform \<Rightarrow> Claim \<Rightarrow> string \<Rightarrow> bool \<Rightarrow> string \<Rightarrow> time \<Rightarrow> generation_db \<Rightarrow> (go_error + unit) \<times> generation_db"
where
  "FinalizeGenerationJudgement pf claim runID approved feedback now g = tx g
     (if \<not> Claim_Valid claim \<or> blank runID \<or> now = 0 \<or> (\<not> approved \<and> blank feedback)
      then Inl (Msg ''generation judgement finalization is invalid'')
      else and_then (lockGenerationAgentClaimTx pf g claim now) (\<lambda>w.
        if wf_ActiveAgentRunID w \<noteq> runID \<or> wf_CandidateRevisionID w = [] then Inl generation_lease_lost
        else and_then (completeRunTx pf runID now g) (\<lambda>g1.
          if approved
          then Inr ((), update_workflow (wf_ID w)
                 (\<lambda>w. drop_lease (move_workflow StateMaterializingArtifact [] (pf_ts pf now) w))
                 (update_candidate (wf_CandidateRevisionID w)
                   (\<lambda>c. c \<lparr>cr_JudgeRunID := runID, cr_UpdatedAt := pf_ts pf now\<rparr>) g1))
          else Inr ((), update_workflow (wf_ID w)
                 (\<lambda>w. drop_lease (move_workflow StateGenerating feedback (pf_ts pf now) w))
                 (update_candidate (wf_CandidateRevisionID w)
                   (\<lambda>c. c \<lparr>cr_JudgeRunID := runID, cr_Failure := Some \<lparr>fl_Class = WorkflowFailureArtifact,
                      fl_Code = ''JUDGE_REJECT'', fl_Summary = feedback\<rparr>, cr_UpdatedAt := pf_ts pf now\<rparr>) g1)))))"

definition ReportGenerationArtifactFailure ::
  "platform \<Rightarrow> Claim \<Rightarrow> WorkflowState \<Rightarrow> Failure \<Rightarrow> time \<Rightarrow> generation_db \<Rightarrow> (go_error + unit) \<times> generation_db"
where
  "ReportGenerationArtifactFailure pf claim expected failure now g = tx g
     (if \<not> Claim_Valid claim \<or> expected \<noteq> StateJudging \<or> Failure_Validate failure \<noteq> None \<or> now = 0
      then Inl generation_lease_lost
      else and_then (lockGenerationAgentClaimTx pf g claim now) (\<lambda>w.
        if wf_CandidateRevisionID w = [] then Inl candidate_invalid_state
        else Inr ((), update_workflow (wf_ID w)
               (\<lambda>w. drop_lease (move_workflow StateGenerating (fl_Summary failure) (pf_ts pf now) w))
               (update_candidate (wf_CandidateRevisionID w)
                 (\<lambda>c. c \<lparr>cr_Failure := Some failure, cr_UpdatedAt := pf_ts pf now\<rparr>) g))))"

end
