(* ===== verification/GenerationPublish.thy ===== *)
theory GenerationPublish
  imports GenerationOps ScenarioFacts
begin

section \<open>The generation repository: runnable results, review and publication\<close>

text \<open>
  The methods of \<open>internal/adapter/postgres/generation_repository.go\<close> after the judge's approval: the
  outputs of the public runnable actions, the author's confirmation, change requests and cancellation,
  and the server's publication finalizer. \<open>scenario.NewID\<close> and \<open>scenario.NewRevisionID\<close> are arguments.
\<close>

subsection \<open>Runnable results\<close>

definition ListRunnableGenerationCandidates :: "platform \<Rightarrow> generation_db \<Rightarrow> go_error + Workflow list" where
  "ListRunnableGenerationCandidates pf g = scan_all (\<lambda>w. scanGenerationWorkflow (Some w))
     (sort_by (order3 (pf_db pf) wf_NextRunAt wf_CreatedAt wf_ID)
       (filter (\<lambda>w. wf_State w = StateMaterializingArtifact \<or> wf_State w = StateVerifying) (g_workflows g)))"

definition FailRunnableGenerationWorkflow ::
  "platform \<Rightarrow> string \<Rightarrow> string \<Rightarrow> time \<Rightarrow> generation_db \<Rightarrow> go_error option \<times> generation_db"
where
  "FailRunnableGenerationWorkflow pf workflowID message now g =
     (if blank workflowID \<or> blank message \<or> now = 0
      then (Some (Msg ''generation runnable failure is invalid''), g)
      else let (t, changed) = sql_update
                 (\<lambda>w. wf_ID w = workflowID \<and> (wf_State w = StateMaterializingArtifact \<or> wf_State w = StateVerifying))
                 (\<lambda>w. w \<lparr>wf_State := StateFailed, wf_StateVersion := wf_StateVersion w + 1,
                    wf_LastError := trim message, wf_UpdatedAt := pf_ts pf now\<rparr>) (g_workflows g)
           in (if changed \<noteq> 1 then Some candidate_invalid_state else None, g \<lparr>g_workflows := t\<rparr>))"

definition MarkGenerationCandidateMaterialized ::
  "platform \<Rightarrow> string \<Rightarrow> RevisionReference \<Rightarrow> time \<Rightarrow> generation_db \<Rightarrow> (go_error + unit) \<times> generation_db"
where
  "MarkGenerationCandidateMaterialized pf workflowID reference now g = tx g
     (if blank workflowID \<or> RevisionReference_Validate reference \<noteq> None \<or> now = 0
      then Inl (Msg ''generation materialization is invalid'')
      else and_then (scanGenerationWorkflow (workflow_row workflowID g)) (\<lambda>w.
        if wf_State w \<noteq> StateMaterializingArtifact \<or> wf_CandidateRevisionID w = [] then Inl candidate_invalid_state
        else and_then (found no_rows (candidate_row (wf_CandidateRevisionID w) g)) (\<lambda>c.
          check (validateGenerationRunnableRevisionTx g c reference)
            (Inr ((), update_workflow (wf_ID w)
               (\<lambda>w. w \<lparr>wf_State := StateVerifying, wf_StateVersion := wf_StateVersion w + 1,
                  wf_NextRunAt := pf_ts pf now, wf_UpdatedAt := pf_ts pf now\<rparr>)
               (update_candidate (cr_ID c)
                 (\<lambda>c. c \<lparr>cr_RunnableRevisionRef := Some reference, cr_UpdatedAt := pf_ts pf now\<rparr>) g))))))"

definition show_candidate :: "string \<Rightarrow> int \<Rightarrow> string \<Rightarrow> time \<Rightarrow> generation_db \<Rightarrow> generation_db" where
  "show_candidate sessionID revision candidateID now g =
     g \<lparr>g_plans := fst (sql_update (\<lambda>p. pr_Session p = sessionID \<and> pr_Number p = revision)
          (\<lambda>p. p \<lparr>pr_CandidateRevisionID := candidateID\<rparr>) (g_plans g)),
        g_sessions := fst (sql_update (\<lambda>s. se_ID s = sessionID)
          (\<lambda>s. s \<lparr>se_VisibleRevision := revision, se_UpdatedAt := now\<rparr>) (g_sessions g))\<rparr>"

definition MarkGenerationCandidateVerified ::
  "platform \<Rightarrow> string \<Rightarrow> VerificationReportReference \<Rightarrow> time \<Rightarrow> generation_db \<Rightarrow> (go_error + unit) \<times> generation_db"
where
  "MarkGenerationCandidateVerified pf workflowID reference now g = tx g
     (if blank workflowID \<or> VerificationReportReference_Validate reference \<noteq> None \<or> now = 0
      then Inl (Msg ''generation verification is invalid'')
      else and_then (scanGenerationWorkflow (workflow_row workflowID g)) (\<lambda>w.
        if wf_State w \<noteq> StateVerifying \<or> wf_CandidateRevisionID w = [] then Inl candidate_invalid_state
        else and_then (found no_rows (candidate_row (wf_CandidateRevisionID w) g)) (\<lambda>c.
          case cr_RunnableRevisionRef c of
            None \<Rightarrow> Inl candidate_invalid_state
          | Some revision \<Rightarrow>
              and_then (validateGenerationVerificationReportTx g revision reference) (\<lambda>passed.
                let g1 = update_candidate (cr_ID c) (\<lambda>c. c \<lparr>cr_VerificationReportRef := Some reference,
                           cr_VerifiedAt := Some (pf_ts pf now), cr_UpdatedAt := pf_ts pf now\<rparr>) g in
                if passed
                then and_then (authoringSourceRevision w) (\<lambda>planRevision.
                       Inr ((), update_workflow (wf_ID w) (move_workflow StateNeedsAuthorReview [] (pf_ts pf now))
                         (show_candidate (src_Ref (wf_Source w)) planRevision (cr_ID c) now g1)))
                else Inr ((), update_workflow (wf_ID w)
                       (move_workflow StateGenerating ''runnable verification did not pass'' (pf_ts pf now))
                       (update_candidate (cr_ID c) (\<lambda>c. c \<lparr>cr_Failure := Some \<lparr>fl_Class = WorkflowFailureArtifact,
                           fl_Code = ''VERIFY_FAILED'', fl_Summary = ''runnable verification did not pass''\<rparr>,
                           cr_UpdatedAt := pf_ts pf now\<rparr>) g1))))))"

subsection \<open>Review\<close>

definition prepareGenerationPublicationTx ::
  "platform \<Rightarrow> string \<Rightarrow> string \<Rightarrow> generation_db \<Rightarrow> session_row \<Rightarrow> Candidate \<Rightarrow> PublicationMetadata \<Rightarrow> time
     \<Rightarrow> go_error + Publication"
where
  "prepareGenerationPublicationTx pf newID newRevisionID g session c metadata now =
     (if cr_RunnableRevisionRef c = None \<or> cr_VerificationReportRef c = None \<or>
         PublicationMetadata_Validate metadata \<noteq> None \<or> now = 0
      then Inl candidate_invalid_state
      else let u = pf_unicode pf;
               intent = (\<lambda>i base slug. \<lparr>pb_CandidateRevisionID = cr_ID c, pb_IntentRevision = 1, pb_ScenarioID = i,
                  pb_ScenarioRevisionID = newRevisionID, pb_BaseActiveRevisionID = base, pb_SourceSlug = slug,
                  pb_TargetPath = MaterializedPath u slug newRevisionID, pb_ScenarioTitle = pm_Title metadata,
                  pb_RequestedAt = now\<rparr>) in
      if se_RevisionScenarioID session = []
      then (let val = intent newID [] (SourceSlugFor u (pm_Title metadata) newID)
            in check (Publication_ValidateIntent u val) (Inr val))
      else and_then (lockPersistedScenarioTx pf g (se_RevisionScenarioID session)) (\<lambda>target.
        if sc_SourceKind target \<noteq> SourceAuthoringScenario \<or> sc_OwnerUserID target \<noteq> se_UserID session \<or>
           sc_State target \<noteq> ScenarioActive \<or>
           sc_ActiveRevisionID target \<noteq> se_RevisionBaseActiveRevisionID session
        then Inl revision_conflict
        else let val = intent (sc_ID target) (sc_ActiveRevisionID target) (sc_SourceSlug target)
             in check (Publication_ValidateIntent u val) (Inr val)))"

text \<open>\<open>SELECT ... WHERE id = ? AND source_ref = ?\<close>\<close>

definition session_workflow :: "generation_db \<Rightarrow> string \<Rightarrow> string \<Rightarrow> go_error + Workflow" where
  "session_workflow g workflowID sessionID = scanGenerationWorkflow
     (find (\<lambda>w. wf_ID w = workflowID \<and> src_Ref (wf_Source w) = sessionID) (g_workflows g))"

definition ConfirmGenerationContent ::
  "platform \<Rightarrow> string \<Rightarrow> string \<Rightarrow> string \<Rightarrow> string \<Rightarrow> ContentConfirmation \<Rightarrow> PublicationMetadata \<Rightarrow> time \<Rightarrow> generation_db
     \<Rightarrow> (go_error + Workflow) \<times> generation_db"
where
  "ConfirmGenerationContent pf newID newRevisionID sessionID userID confirmation metadata now g = tx g
     (if blank sessionID \<or> blank userID \<or> \<not> ContentConfirmation_Valid confirmation \<or>
         PublicationMetadata_Validate metadata \<noteq> None \<or> now = 0
      then Inl (Msg ''content confirmation is invalid'')
      else let digest = generationActionRequestDigest pf ActionConfirmContent (RequestConfirm confirmation);
               key = cco_IdempotencyKey confirmation in
      check (lockAuthoringSessionTx g sessionID userID)
        (and_then (generationActionReceiptTx g sessionID ActionConfirmContent key digest) (\<lambda>receipt.
           case receipt of
             Some r \<Rightarrow> and_then (generationWorkflowForReceiptTx g (rc_WorkflowID r)) (\<lambda>w. Inr (w, g))
           | None \<Rightarrow>
               and_then (or_error authoring_invalid_state (session_workflow g (cco_WorkflowID confirmation) sessionID)) (\<lambda>w.
               if wf_State w \<noteq> StateNeedsAuthorReview \<or> wf_CandidateRevisionID w \<noteq> cco_CandidateRevisionID confirmation
               then Inl candidate_invalid_state
               else and_then (found no_rows (candidate_row (cco_CandidateRevisionID confirmation) g)) (\<lambda>c.
               case (cr_RunnableRevisionRef c, cr_VerificationReportRef c) of
                 (Some revision, Some report) \<Rightarrow>
                   if validateGenerationVerificationReportTx g revision report \<noteq> Inr True
                   then Inl candidate_invalid_state
                   else and_then (readAuthoringSessionTx g sessionID userID) (\<lambda>session.
                     and_then (prepareGenerationPublicationTx pf newID newRevisionID g session c metadata now) (\<lambda>publication.
                     let g1 = update_candidate (cr_ID c)
                                (\<lambda>c. c \<lparr>cr_Publication := Some publication, cr_UpdatedAt := pf_ts pf now\<rparr>) g;
                         g2 = update_workflow (wf_ID w) (move_workflow StatePublishing [] (pf_ts pf now)) g1 in
                     and_then (scanGenerationWorkflow (workflow_row (wf_ID w) g2)) (\<lambda>updated.
                     and_then (insertGenerationActionReceiptTx
                         (new_receipt pf sessionID ActionConfirmContent key digest (wf_ID w) None (Some (cr_ID c)) now) g2)
                       (\<lambda>g3. Inr (updated, g3)))))
               | _ \<Rightarrow> Inl candidate_invalid_state)))))"

definition RequestGenerationContentChanges ::
  "platform \<Rightarrow> string \<Rightarrow> string \<Rightarrow> ContentChangeRequest \<Rightarrow> time \<Rightarrow> generation_db
     \<Rightarrow> (go_error + Workflow) \<times> generation_db"
where
  "RequestGenerationContentChanges pf sessionID userID request now g = tx g
     (if blank sessionID \<or> blank userID \<or> \<not> ContentChangeRequest_Valid request \<or> now = 0
      then Inl (Msg ''content change request is invalid'')
      else let digest = generationActionRequestDigest pf ActionRequestContentChanges (RequestChanges request);
               key = ccr_IdempotencyKey request in
      check (lockAuthoringSessionTx g sessionID userID)
        (and_then (generationActionReceiptTx g sessionID ActionRequestContentChanges key digest) (\<lambda>receipt.
           case receipt of
             Some r \<Rightarrow> and_then (generationWorkflowForReceiptTx g (rc_WorkflowID r)) (\<lambda>w. Inr (w, g))
           | None \<Rightarrow>
               and_then (or_error authoring_invalid_state (session_workflow g (ccr_WorkflowID request) sessionID)) (\<lambda>w.
               if wf_State w \<noteq> StateNeedsAuthorReview \<or> wf_CandidateRevisionID w \<noteq> ccr_CandidateRevisionID request
               then Inl candidate_invalid_state
               else let g1 = update_workflow (wf_ID w)
                           (move_workflow StateGenerating (ccr_Feedback request) (pf_ts pf now)) g in
                 and_then (scanGenerationWorkflow (workflow_row (wf_ID w) g1)) (\<lambda>updated.
                 and_then (insertGenerationActionReceiptTx
                     (new_receipt pf sessionID ActionRequestContentChanges key digest (wf_ID w) None
                        (Some (ccr_CandidateRevisionID request)) now) g1)
                   (\<lambda>g2. Inr (updated, g2)))))))"

definition CancelGenerationWorkflow ::
  "platform \<Rightarrow> string \<Rightarrow> string \<Rightarrow> Cancellation \<Rightarrow> time \<Rightarrow> generation_db
     \<Rightarrow> (go_error + Workflow) \<times> generation_db"
where
  "CancelGenerationWorkflow pf sessionID userID cancellation now g = tx g
     (if blank sessionID \<or> blank userID \<or> \<not> Cancellation_Valid cancellation \<or> now = 0
      then Inl (Msg ''generation cancellation is invalid'')
      else let digest = generationActionRequestDigest pf ActionCancelGeneration (RequestCancel cancellation);
               key = can_IdempotencyKey cancellation in
      check (lockAuthoringSessionTx g sessionID userID)
        (and_then (generationActionReceiptTx g sessionID ActionCancelGeneration key digest) (\<lambda>receipt.
           case receipt of
             Some r \<Rightarrow> and_then (generationWorkflowForReceiptTx g (rc_WorkflowID r)) (\<lambda>w. Inr (w, g))
           | None \<Rightarrow>
               and_then (or_error authoring_not_found (session_workflow g (can_WorkflowID cancellation) sessionID)) (\<lambda>w.
               if WorkflowState_Terminal (wf_State w) then Inl candidate_invalid_state
               else let g1 = update_workflow (wf_ID w) (\<lambda>w. drop_lease (w \<lparr>wf_State := StateCancelled,
                           wf_StateVersion := wf_StateVersion w + 1, wf_LastError := ''cancelled'',
                           wf_UpdatedAt := pf_ts pf now\<rparr>)) g in
                 and_then (scanGenerationWorkflow (workflow_row (wf_ID w) g1)) (\<lambda>updated.
                 and_then (insertGenerationActionReceiptTx
                     (new_receipt pf sessionID ActionCancelGeneration key digest (wf_ID w) None None now) g1)
                   (\<lambda>g2. Inr (updated, g2)))))))"

subsection \<open>Publication\<close>

record PublicationFinalization =
  fz_Workflow :: Workflow
  fz_Candidate :: Candidate

definition oldest_first :: "platform \<Rightarrow> Workflow \<Rightarrow> Workflow \<Rightarrow> bool" where
  "oldest_first pf a b \<longleftrightarrow> wf_UpdatedAt a < wf_UpdatedAt b \<or>
     (wf_UpdatedAt a = wf_UpdatedAt b \<and> db_coll (pf_db pf) (wf_ID a) (wf_ID b))"

definition finalizer_due :: "platform \<Rightarrow> time \<Rightarrow> Workflow \<Rightarrow> bool" where
  "finalizer_due pf now w \<longleftrightarrow> wf_State w = StatePublishing \<and>
     (case wf_FinalizerNextRetryAt w of None \<Rightarrow> True | Some t \<Rightarrow> t \<le> pf_ts pf now)"

definition PendingGenerationPublicationFinalizations ::
  "platform \<Rightarrow> time \<Rightarrow> generation_db \<Rightarrow> go_error + PublicationFinalization list"
where
  "PendingGenerationPublicationFinalizations pf now g = scan_all
     (\<lambda>row. and_then (scanGenerationWorkflow (Some row)) (\<lambda>w.
        and_then (GetCandidateRevision g (wf_CandidateRevisionID w)) (\<lambda>c.
          Inr \<lparr>fz_Workflow = w, fz_Candidate = c\<rparr>)))
     (sort_by (oldest_first pf) (filter (finalizer_due pf now) (g_workflows g)))"

text \<open>
  One statement outside a transaction: the row is changed even when the row it returns does not scan.
\<close>

definition RecordGenerationPublicationFinalizerFailure ::
  "platform \<Rightarrow> string \<Rightarrow> string \<Rightarrow> Diagnostic \<Rightarrow> generation_db \<Rightarrow> (go_error + Workflow) \<times> generation_db"
where
  "RecordGenerationPublicationFinalizerFailure pf workflowID candidateID d g =
     (if blank workflowID \<or> blank candidateID \<or> Diagnostic_Validate d \<noteq> None
      then (Inl (Msg ''generation finalizer diagnostic is invalid''), g)
      else let state = (if dg_Category d = CategoryDeterministic then StateFailed else StatePublishing);
               next = (case dg_NextRetryAt d of Some t \<Rightarrow> t | None \<Rightarrow> dg_LastAttemptedAt d);
               P = (\<lambda>w. wf_ID w = workflowID \<and> wf_CandidateRevisionID w = candidateID \<and> wf_State w = StatePublishing);
               g' = g \<lparr>g_workflows := fst (sql_update P (\<lambda>w. w \<lparr>wf_State := state, wf_NextRunAt := pf_ts pf next,
                      wf_LastError := dg_LastError d, wf_FinalizerErrorCategory := dg_Category d,
                      wf_FinalizerLastError := dg_LastError d,
                      wf_FinalizerLastAttemptedAt := Some (pf_ts pf (dg_LastAttemptedAt d)),
                      wf_FinalizerNextRetryAt := map_option (pf_ts pf) (dg_NextRetryAt d),
                      wf_UpdatedAt := pf_ts pf (dg_LastAttemptedAt d)\<rparr>) (g_workflows g))\<rparr>
           in if \<not> list_ex P (g_workflows g) then (Inl candidate_invalid_state, g)
              else (scanGenerationWorkflow (workflow_row workflowID g'), g'))"

definition supersede :: "string \<Rightarrow> generation_db \<Rightarrow> generation_db" where
  "supersede revisionID g = g \<lparr>g_revisions := fst (sql_update
     (\<lambda>r. sv_ID r = revisionID \<and> sv_State r = RevisionActive) (\<lambda>r. r \<lparr>sv_State := RevisionSuperseded\<rparr>)
     (g_revisions g))\<rparr>"

definition finalizeAuthoringRevisionTx ::
  "platform \<Rightarrow> session_row \<Rightarrow> Workflow \<Rightarrow> Candidate \<Rightarrow> Publication \<Rightarrow> ScenarioType \<Rightarrow> string list \<Rightarrow> string \<Rightarrow> time
     \<Rightarrow> generation_db \<Rightarrow> go_error + generation_db"
where
  "finalizeAuthoringRevisionTx pf session w c publication scenarioType tags materializedRevision now g =
     (if pb_ScenarioID publication \<noteq> se_RevisionScenarioID session \<or>
         pb_BaseActiveRevisionID publication \<noteq> se_RevisionBaseActiveRevisionID session
      then Inl revision_conflict
      else and_then (lockPersistedScenarioTx pf g (se_RevisionScenarioID session)) (\<lambda>target.
        if sc_SourceKind target \<noteq> SourceAuthoringScenario \<or> sc_OwnerUserID target \<noteq> se_UserID session \<or>
           sc_State target \<noteq> ScenarioActive \<or> sc_ActiveRevisionID target \<noteq> pb_BaseActiveRevisionID publication \<or>
           sc_SourceSlug target \<noteq> pb_SourceSlug publication
        then Inl revision_conflict
        else and_then (lockPersistedScenarioRevisionTx pf g (sc_ActiveRevisionID target)) (\<lambda>previous.
          case (cr_RunnableRevisionRef c, cr_VerificationReportRef c) of
            (Some revision, Some report) \<Rightarrow>
              if sv_ScenarioID previous \<noteq> sc_ID target \<or> sv_State previous \<noteq> RevisionActive
              then Inl candidate_invalid_state
              else let published = scenarioRevisionFromPublication (pb_ScenarioTitle publication) scenarioType tags
                         (cr_ContentRevision c) materializedRevision revision report
                         (pb_ScenarioRevisionID publication) (sc_ID target) (src_Ref (wf_Source w)) (wf_SourceRevision w)
                         (sc_ActiveRevisionID target) (sc_SourceSlug target) (pb_TargetPath publication)
                         SourceAuthoringScenario now in
                and_then (insertPersistedScenarioRevisionTx pf published (supersede (sv_ID previous) g)) (\<lambda>g1.
                  let (t, changed) = sql_update (\<lambda>s. sc_ID s = sc_ID target \<and>
                           sc_ActiveRevisionID s = sc_ActiveRevisionID target \<and> sc_State s = ScenarioActive)
                         (\<lambda>s. s \<lparr>sc_ActiveRevisionID := pb_ScenarioRevisionID publication, sc_UpdatedAt := pf_ts pf now\<rparr>)
                         (g_scenarios g1)
                  in if changed \<noteq> 1 then Inl revision_conflict else Inr (g1 \<lparr>g_scenarios := t\<rparr>))
          | _ \<Rightarrow> Inl candidate_invalid_state)))"

definition publish_first ::
  "platform \<Rightarrow> session_row \<Rightarrow> Workflow \<Rightarrow> Publication \<Rightarrow> ScenarioType \<Rightarrow> string list \<Rightarrow> string \<Rightarrow> string
     \<Rightarrow> RevisionReference \<Rightarrow> VerificationReportReference \<Rightarrow> time \<Rightarrow> generation_db \<Rightarrow> go_error + generation_db"
where
  "publish_first pf session w publication scenarioType tags contentRevision materializedRevision revision report now g =
     (let stable = \<lparr>sc_ID = pb_ScenarioID publication, sc_SourceKind = SourceAuthoringScenario,
            sc_SourceRef = src_Ref (wf_Source w), sc_OwnerUserID = se_UserID session, sc_State = ScenarioActive,
            sc_ActiveRevisionID = pb_ScenarioRevisionID publication, sc_SourceSlug = pb_SourceSlug publication,
            sc_CreatedAt = now, sc_UpdatedAt = now\<rparr>;
          published = scenarioRevisionFromPublication (pb_ScenarioTitle publication) scenarioType tags contentRevision
            materializedRevision revision report (pb_ScenarioRevisionID publication) (pb_ScenarioID publication)
            (src_Ref (wf_Source w)) (wf_SourceRevision w) [] (pb_SourceSlug publication) (pb_TargetPath publication)
            SourceAuthoringScenario now
      in and_then (insertPersistedScenarioTx pf stable g) (insertPersistedScenarioRevisionTx pf published))"

definition close_publication :: "platform \<Rightarrow> Workflow \<Rightarrow> Candidate \<Rightarrow> Publication \<Rightarrow> time \<Rightarrow> generation_db \<Rightarrow> generation_db"
where
  "close_publication pf w c publication now g =
     (let g1 = update_candidate (cr_ID c)
            (\<lambda>c. c \<lparr>cr_PublishedAt := Some (pf_ts pf now), cr_UpdatedAt := pf_ts pf now\<rparr>) g;
          g2 = g1 \<lparr>g_sessions := fst (sql_update (\<lambda>s. se_ID s = src_Ref (wf_Source w))
            (\<lambda>s. s \<lparr>se_State := SessionPublished, se_PublishScenarioID := pb_ScenarioID publication, se_UpdatedAt := now\<rparr>)
            (g_sessions g1))\<rparr>
      in update_workflow (wf_ID w) (\<lambda>w. w \<lparr>wf_State := StatePublished, wf_StateVersion := wf_StateVersion w + 1,
            wf_LastError := [], wf_FinalizerErrorCategory := CategoryUnknown, wf_FinalizerLastError := [],
            wf_FinalizerLastAttemptedAt := None, wf_FinalizerNextRetryAt := None, wf_UpdatedAt := pf_ts pf now\<rparr>) g2)"

definition FinalizeGenerationScenarioPublication ::
  "platform \<Rightarrow> string \<Rightarrow> string \<Rightarrow> string \<Rightarrow> string \<Rightarrow> ScenarioType \<Rightarrow> string list \<Rightarrow> time \<Rightarrow> generation_db
     \<Rightarrow> (go_error + unit) \<times> generation_db"
where
  "FinalizeGenerationScenarioPublication pf workflowID candidateID contentRevision materializedRevision scenarioType
     tags now g = tx g
     (if blank workflowID \<or> blank candidateID \<or> \<not> ValidRevision contentRevision \<or>
         \<not> ValidRevision materializedRevision \<or> \<not> ScenarioType_Valid scenarioType \<or> now = 0
      then Inl (Msg ''generation publication finalization is invalid'')
      else if \<not> canonical_tags (pf_unicode pf) tags then Inl (Msg ''generation publication tags are invalid'')
      else and_then (or_error candidate_invalid_state (scanGenerationWorkflow
          (find (\<lambda>w. wf_ID w = workflowID \<and> wf_State w = StatePublishing) (g_workflows g)))) (\<lambda>w.
        if wf_CandidateRevisionID w \<noteq> candidateID then Inl candidate_invalid_state
        else and_then (found no_rows (candidate_row candidateID g)) (\<lambda>c.
        case (cr_Publication c, cr_RunnableRevisionRef c, cr_VerificationReportRef c) of
          (Some publication, Some revision, Some report) \<Rightarrow>
            if cr_PublishedAt c \<noteq> None \<or> cr_ContentRevision c \<noteq> contentRevision then Inl candidate_invalid_state
            else check (Publication_ValidateIntent (pf_unicode pf) publication)
              (and_then (readAuthoringSessionTx g (src_Ref (wf_Source w)) []) (\<lambda>session.
               and_then (if se_RevisionScenarioID session = []
                    then publish_first pf session w publication scenarioType tags contentRevision materializedRevision
                           revision report now g
                    else finalizeAuthoringRevisionTx pf session w c publication scenarioType tags materializedRevision now g)
                 (\<lambda>g1. Inr ((), close_publication pf w c publication now g1))))
        | _ \<Rightarrow> Inl candidate_invalid_state)))"

end
