(* ===== verification/GenerationFacts.thy ===== *)
theory GenerationFacts
  imports GenerationPublish ActionInvariant
begin

section \<open>What the generation repository's methods change\<close>

text \<open>
  One lemma per method: either the tables are as before, or one workflow has moved and at most its own
  candidate was updated. The later theories use only these lemmas.
\<close>

subsection \<open>Updates of one row\<close>

definition moved :: "generation_db \<Rightarrow> Workflow \<Rightarrow> Workflow \<Rightarrow> (Candidate \<Rightarrow> Candidate) \<Rightarrow> generation_db \<Rightarrow> bool" where
  "moved g w w' h g' \<longleftrightarrow> w \<in> set (g_workflows g) \<and> wf_ID w' = wf_ID w \<and>
     g_workflows g' = map (\<lambda>v. if wf_ID v = wf_ID w then w' else v) (g_workflows g) \<and>
     g_candidates g' = map (\<lambda>c. if cr_ID c = wf_CandidateRevisionID w then h c else c) (g_candidates g) \<and>
     g_runnable g' = g_runnable g"

lemma same_workflow:
  "distinct (map wf_ID t) \<Longrightarrow> v \<in> set t \<Longrightarrow> w \<in> set t \<Longrightarrow> wf_ID v = wf_ID w \<Longrightarrow> v = w"
  by (metis inj_on_eq_iff distinct_map)

lemma same_candidate:
  "distinct (map cr_ID t) \<Longrightarrow> c \<in> set t \<Longrightarrow> d \<in> set t \<Longrightarrow> cr_ID c = cr_ID d \<Longrightarrow> c = d"
  by (metis inj_on_eq_iff distinct_map)

lemma update_workflow_simps [simp]:
  "g_candidates (update_workflow i f g) = g_candidates g"
  "g_runnable (update_workflow i f g) = g_runnable g"
  "g_receipts (update_workflow i f g) = g_receipts g"
  "g_runs (update_workflow i f g) = g_runs g"
  "g_sessions (update_workflow i f g) = g_sessions g"
  "g_plans (update_workflow i f g) = g_plans g"
  "g_scenarios (update_workflow i f g) = g_scenarios g"
  "g_revisions (update_workflow i f g) = g_revisions g"
  "g_workspaces (update_workflow i f g) = g_workspaces g"
  "g_workflows (update_workflow i f g) = map (\<lambda>w. if wf_ID w = i then f w else w) (g_workflows g)"
  by (simp_all add: update_workflow_def sql_update_def)

lemma update_candidate_simps [simp]:
  "g_workflows (update_candidate i f g) = g_workflows g"
  "g_runnable (update_candidate i f g) = g_runnable g"
  "g_receipts (update_candidate i f g) = g_receipts g"
  "g_runs (update_candidate i f g) = g_runs g"
  "g_sessions (update_candidate i f g) = g_sessions g"
  "g_plans (update_candidate i f g) = g_plans g"
  "g_scenarios (update_candidate i f g) = g_scenarios g"
  "g_revisions (update_candidate i f g) = g_revisions g"
  "g_workspaces (update_candidate i f g) = g_workspaces g"
  "g_candidates (update_candidate i f g) = map (\<lambda>c. if cr_ID c = i then f c else c) (g_candidates g)"
  by (simp_all add: update_candidate_def sql_update_def)

lemma update_running_simps [simp]:
  "g_workflows (update_running i f g) = g_workflows g"
  "g_candidates (update_running i f g) = g_candidates g"
  "g_runnable (update_running i f g) = g_runnable g"
  "g_receipts (update_running i f g) = g_receipts g"
  "g_sessions (update_running i f g) = g_sessions g"
  "g_plans (update_running i f g) = g_plans g"
  "g_scenarios (update_running i f g) = g_scenarios g"
  "g_revisions (update_running i f g) = g_revisions g"
  "g_workspaces (update_running i f g) = g_workspaces g"
  by (simp_all add: update_running_def)

lemma update_workspace_simps [simp]:
  "g_workflows (update_workspace P f g) = g_workflows g"
  "g_candidates (update_workspace P f g) = g_candidates g"
  "g_runnable (update_workspace P f g) = g_runnable g"
  "g_receipts (update_workspace P f g) = g_receipts g"
  "g_sessions (update_workspace P f g) = g_sessions g"
  "g_scenarios (update_workspace P f g) = g_scenarios g"
  "g_revisions (update_workspace P f g) = g_revisions g"
  by (simp_all add: update_workspace_def)

lemma show_candidate_simps [simp]:
  "g_workflows (show_candidate s r c now g) = g_workflows g"
  "g_candidates (show_candidate s r c now g) = g_candidates g"
  "g_runnable (show_candidate s r c now g) = g_runnable g"
  "g_receipts (show_candidate s r c now g) = g_receipts g"
  "g_scenarios (show_candidate s r c now g) = g_scenarios g"
  "g_revisions (show_candidate s r c now g) = g_revisions g"
  by (simp_all add: show_candidate_def)

lemma move_workflow_simps [simp]:
  "wf_ID (move_workflow s e at w) = wf_ID w"
  "wf_State (move_workflow s e at w) = s"
  "wf_StateVersion (move_workflow s e at w) = wf_StateVersion w + 1"
  "wf_CandidateRevisionID (move_workflow s e at w) = wf_CandidateRevisionID w"
  "wf_Source (move_workflow s e at w) = wf_Source w"
  "wf_SourceRevision (move_workflow s e at w) = wf_SourceRevision w"
  "wf_AgentLeaseOwner (move_workflow s e at w) = wf_AgentLeaseOwner w"
  "wf_AgentLeaseExpiresAt (move_workflow s e at w) = wf_AgentLeaseExpiresAt w"
  by (simp_all add: move_workflow_def)

lemma drop_lease_simps [simp]:
  "wf_ID (drop_lease w) = wf_ID w"
  "wf_State (drop_lease w) = wf_State w"
  "wf_StateVersion (drop_lease w) = wf_StateVersion w"
  "wf_CandidateRevisionID (drop_lease w) = wf_CandidateRevisionID w"
  "wf_Source (drop_lease w) = wf_Source w"
  "wf_SourceRevision (drop_lease w) = wf_SourceRevision w"
  "wf_AgentLeaseOwner (drop_lease w) = []"
  "wf_AgentLeaseExpiresAt (drop_lease w) = None"
  by (simp_all add: drop_lease_def)

lemma workflow_row_in: "workflow_row i g = Some w \<Longrightarrow> w \<in> set (g_workflows g) \<and> wf_ID w = i"
  unfolding workflow_row_def by (rule sql_row_Some)

lemma candidate_row_in: "candidate_row i g = Some c \<Longrightarrow> c \<in> set (g_candidates g) \<and> cr_ID c = i"
  unfolding candidate_row_def by (rule sql_row_Some)

lemma workflow_row_of:
  "distinct (map wf_ID (g_workflows g)) \<Longrightarrow> w \<in> set (g_workflows g) \<Longrightarrow> workflow_row (wf_ID w) g = Some w"
  unfolding workflow_row_def by (rule sql_row_distinct)

lemma find_in: "find P t = Some x \<Longrightarrow> x \<in> set t \<and> P x"
  by (auto simp: find_Some_iff)

text \<open>The common form of an update, once the ids are distinct.\<close>

lemma moved_update:
  assumes "distinct (map wf_ID (g_workflows g))" "w \<in> set (g_workflows g)" "wf_ID (f w) = wf_ID w"
    and "g_workflows g' = map (\<lambda>v. if wf_ID v = wf_ID w then f v else v) (g_workflows g)"
    and "g_candidates g' = map (\<lambda>c. if cr_ID c = wf_CandidateRevisionID w then h c else c) (g_candidates g)"
    and "g_runnable g' = g_runnable g"
  shows "moved g w (f w) h g'"
proof -
  have "map (\<lambda>v. if wf_ID v = wf_ID w then f v else v) (g_workflows g) =
      map (\<lambda>v. if wf_ID v = wf_ID w then f w else v) (g_workflows g)"
    using same_workflow [OF assms(1)] assms(2) by (intro map_cong refl) auto
  then show ?thesis using assms by (simp add: moved_def)
qed

lemma moved_update_id:
  assumes "distinct (map wf_ID (g_workflows g))" "w \<in> set (g_workflows g)" "wf_ID (f w) = wf_ID w"
    and "g_workflows g' = map (\<lambda>v. if wf_ID v = wf_ID w then f v else v) (g_workflows g)"
    and "g_candidates g' = g_candidates g" "g_runnable g' = g_runnable g"
  shows "moved g w (f w) id g'"
  using assms by (intro moved_update) (simp_all add: map_idI)

lemma sql_update_by_id:
  assumes "distinct (map wf_ID t)" "w \<in> set t" "P w" "\<And>v. v \<in> set t \<Longrightarrow> P v \<Longrightarrow> wf_ID v = wf_ID w"
  shows "fst (sql_update P f t) = map (\<lambda>v. if wf_ID v = wf_ID w then f v else v) t"
  using same_workflow [OF assms(1) _ assms(2)] assms(3,4) by (auto simp: sql_update_def intro!: map_cong)

subsection \<open>Lease and lock\<close>

lemma lock_claim_Inr [valid_simps]:
  "lockGenerationAgentClaimTx pf g claim now = Inr w \<longleftrightarrow>
     find (lease_holds pf claim now) (g_workflows g) = Some w \<and> Workflow_Valid w"
  by (auto simp: lockGenerationAgentClaimTx_def scanGenerationWorkflow_Inr split: option.splits)

lemma lock_claim_facts:
  assumes "lockGenerationAgentClaimTx pf g claim now = Inr w"
  shows "w \<in> set (g_workflows g)" "lease_holds pf claim now w" "Workflow_Valid w" "wf_State w = StateJudging"
    "wf_AgentLeaseOwner w \<noteq> []"
proof -
  have f: "find (lease_holds pf claim now) (g_workflows g) = Some w" and v: "Workflow_Valid w"
    using assms by (simp_all add: lock_claim_Inr)
  show "w \<in> set (g_workflows g)" "lease_holds pf claim now w" "Workflow_Valid w" using find_in [OF f] v by auto
  then show "wf_State w = StateJudging" by (simp add: lease_holds_def)
  have "wf_AgentLeaseExpiresAt w \<noteq> None"
    using find_in [OF f] by (auto simp: lease_holds_def split: option.splits)
  then show "wf_AgentLeaseOwner w \<noteq> []"
    using v by (auto simp: Workflow_Valid_def Let_def blank_def split: if_splits)
qed

subsection \<open>The judge\<close>

lemma claim_effect:
  assumes "distinct (map wf_ID (g_workflows g))"
    "ClaimGenerationAgentWorkflow pf locked newID serverID ttl now g = (res, g')"
  shows "(g' = g \<and> (\<forall>x. res \<noteq> Inr (Some x))) \<or>
    (\<exists>w. claimable pf now w \<and> \<not> blank serverID \<and> 0 < ttl \<and>
       Workflow_Valid (take_lease pf (trim serverID @ ''-'' @ newID) ttl now w) \<and>
       res = Inr (Some \<lparr>cl_Workflow = take_lease pf (trim serverID @ ''-'' @ newID) ttl now w,
         cl_Lease = \<lparr>wl_StateVersion = wf_StateVersion w, wl_LeaseOwner = trim serverID @ ''-'' @ newID\<rparr>\<rparr>) \<and>
       g' = update_workflow (wf_ID w) (take_lease pf (trim serverID @ ''-'' @ newID) ttl now) g \<and>
       moved g w (take_lease pf (trim serverID @ ''-'' @ newID) ttl now w) id g')"
proof (cases "sql_first (order3 (pf_db pf) wf_NextRunAt wf_CreatedAt wf_ID)
    (\<lambda>w. claimable pf now w \<and> wf_ID w \<notin> set locked) (g_workflows g)")
  case None
  then show ?thesis using assms(2) by (auto simp: ClaimGenerationAgentWorkflow_def split: if_splits)
next
  case (Some w)
  let ?f = "take_lease pf (trim serverID @ ''-'' @ newID) ttl now"
  let ?g = "update_workflow (wf_ID w) ?f g"
  have w: "w \<in> set (g_workflows g)" "claimable pf now w" using sql_first_Some [OF Some] by auto
  have id: "wf_ID (?f v) = wf_ID v" for v by (simp add: take_lease_def)
  have row: "workflow_row (wf_ID w) ?g = Some (?f w)"
  proof -
    have "sql_row wf_ID (wf_ID w) (fst (sql_update (\<lambda>v. wf_ID v = wf_ID w) ?f (g_workflows g))) = Some (?f w)"
      using sql_row_distinct [OF assms(1) w(1)] id by (subst sql_row_update) simp_all
    then show ?thesis by (simp add: workflow_row_def update_workflow_def)
  qed
  have moved: "moved g w (?f w) id ?g"
    using assms(1) w(1) id by (intro moved_update_id) simp_all
  have ver: "wf_StateVersion (?f w) = wf_StateVersion w" by (simp add: take_lease_def)
  let ?o = "trim serverID @ ''-'' @ newID"
  have body: "ClaimGenerationAgentWorkflow pf locked newID serverID ttl now g =
     (if blank serverID \<or> ttl \<le> 0 \<or> now = 0 then (Inl (Msg ''generation agent claim is invalid''), g)
      else if Workflow_Valid (?f w)
      then (Inr (Some \<lparr>cl_Workflow = ?f w, cl_Lease = \<lparr>wl_StateVersion = wf_StateVersion w, wl_LeaseOwner = ?o\<rparr>\<rparr>), ?g)
      else (Inl (Msg ''stored generation workflow is invalid''), g))"
    using ver by (simp add: ClaimGenerationAgentWorkflow_def Some Let_def scanGenerationWorkflow_def found_def row [simplified])
  show ?thesis
    using assms(2) w moved unfolding body by (auto split: if_splits)
qed

lemma renew_effect:
  assumes "distinct (map wf_ID (g_workflows g))" "RenewGenerationLease pf claim ttl now g = (res, g')"
  shows "(g' = g \<and> res \<noteq> None) \<or> (\<exists>w. lease_holds pf claim now w \<and> 0 < ttl \<and> res = None \<and> now \<noteq> 0 \<and>
    moved g w (w \<lparr>wf_AgentLeaseExpiresAt := Some (pf_ts pf (now + ttl)), wf_UpdatedAt := pf_ts pf now\<rparr>) id g')"
proof (cases "\<not> Claim_Valid claim \<or> ttl \<le> 0 \<or> now = 0 \<or> (\<forall>w\<in>set (g_workflows g). \<not> lease_holds pf claim now w)")
  case True
  then show ?thesis
    using assms(2) sql_update_none [of "g_workflows g" "lease_holds pf claim now"]
    by (auto simp: RenewGenerationLease_def split: if_splits prod.splits)
next
  case False
  then obtain w where w: "w \<in> set (g_workflows g)" "lease_holds pf claim now w" by auto
  let ?f = "\<lambda>w. w \<lparr>wf_AgentLeaseExpiresAt := Some (pf_ts pf (now + ttl)), wf_UpdatedAt := pf_ts pf now\<rparr>"
  have ids: "lease_holds pf claim now v \<Longrightarrow> wf_ID v = wf_ID (cl_Workflow claim)" for v
    by (simp add: lease_holds_def)
  have "snd (sql_update (lease_holds pf claim now) ?f (g_workflows g)) = 1"
    using sql_update_count [OF assms(1), of "lease_holds pf claim now" "wf_ID (cl_Workflow claim)" ?f] ids
      sql_row_distinct [OF assms(1) w(1)] w(2) by simp
  moreover have "fst (sql_update (lease_holds pf claim now) ?f (g_workflows g)) =
      map (\<lambda>v. if wf_ID v = wf_ID w then ?f v else v) (g_workflows g)"
    using assms(1) w ids by (intro sql_update_by_id) auto
  ultimately have r: "res = None" "g' = g \<lparr>g_workflows := map (\<lambda>v. if wf_ID v = wf_ID w then ?f v else v) (g_workflows g)\<rparr>"
    using assms(2) False by (auto simp: RenewGenerationLease_def split: prod.splits)
  have "moved g w (?f w) id g'"
    using assms(1) w(1) by (intro moved_update_id) (simp_all add: r(2))
  then show ?thesis using w r False by auto
qed

lemma start_effect:
  assumes "distinct (map wf_ID (g_workflows g))" "StartGenerationAgentRun pf claim input now g = (Inr run, g')"
  shows "\<exists>w. lockGenerationAgentClaimTx pf g claim now = Inr w \<and> now \<noteq> 0 \<and> run = new_run pf input now \<and>
    moved g w (w \<lparr>wf_ActiveAgentRunID := nr_ID input, wf_UpdatedAt := pf_ts pf now\<rparr>) id g'"
proof -
  obtain w where w: "lockGenerationAgentClaimTx pf g claim now = Inr w" "now \<noteq> 0"
    using assms(2) by (auto simp: StartGenerationAgentRun_def tx_Inr and_then_Inr_iff split: if_splits)
  define g1 where "g1 = (if wf_ActiveAgentRunID w \<noteq> []
      then update_running (wf_ActiveAgentRunID w) (finish_run pf RunInterrupted ''generation agent lease replaced'' now) g
      else g)"
  have g1: "g_workflows g1 = g_workflows g" "g_candidates g1 = g_candidates g" "g_runnable g1 = g_runnable g"
    by (simp_all add: g1_def)
  obtain created g2 where c: "createRunTx pf input now g1 = Inr (created, g2)" "created = run"
    and g': "g' = update_workflow (wf_ID w) (\<lambda>w. w \<lparr>wf_ActiveAgentRunID := ag_ID created, wf_UpdatedAt := pf_ts pf now\<rparr>) g2"
    using assms(2) w(1) by (auto simp: StartGenerationAgentRun_def tx_Inr and_then_Inr_iff Let_def g1_def [symmetric]
        split: if_splits)
  have g2: "created = new_run pf input now" "g_workflows g2 = g_workflows g" "g_candidates g2 = g_candidates g"
    "g_runnable g2 = g_runnable g"
    using c(1) g1 by (auto simp: createRunTx_def split: if_splits)
  have "moved g w (w \<lparr>wf_ActiveAgentRunID := nr_ID input, wf_UpdatedAt := pf_ts pf now\<rparr>) id g'"
    using assms(1) lock_claim_facts(1) [OF w(1)] g2 by (intro moved_update_id) (simp_all add: g' new_run_def)
  then show ?thesis using w c(2) g2(1) by blast
qed

lemma retry_effect:
  assumes "distinct (map wf_ID (g_workflows g))" "RetryGenerationAgentRun pf claim runID message now g = (Inr next, g')"
  shows "\<exists>w run. lockGenerationAgentClaimTx pf g claim now = Inr w \<and> wf_ActiveAgentRunID w = runID \<and>
    run_row runID g = Some run \<and>
    (if ag_Attempt run < MaxAttempts \<and> now < ag_DeadlineAt run
     then ag_Status run = RunRunning \<and> g' = update_running runID (next_attempt pf message now) g \<and> next = run_row runID g'
     else next = None \<and>
       moved g w (drop_lease (w \<lparr>wf_State := StateFailed, wf_StateVersion := wf_StateVersion w + 1,
         wf_LastError := trim message, wf_UpdatedAt := pf_ts pf now\<rparr>)) id g')"
proof -
  obtain w run where w: "lockGenerationAgentClaimTx pf g claim now = Inr w" "wf_ActiveAgentRunID w = runID"
    "run_row runID g = Some run"
    using assms(2)
    by (auto simp: RetryGenerationAgentRun_def tx_Inr and_then_Inr_iff found_Inr split: if_splits)
  let ?f = "\<lambda>w. drop_lease (w \<lparr>wf_State := StateFailed, wf_StateVersion := wf_StateVersion w + 1,
         wf_LastError := trim message, wf_UpdatedAt := pf_ts pf now\<rparr>)"
  show ?thesis
  proof (cases "ag_Attempt run < MaxAttempts \<and> now < ag_DeadlineAt run")
    case True
    then show ?thesis
      using assms(2) w by (auto simp: RetryGenerationAgentRun_def tx_Inr found_def Let_def split: if_splits)
  next
    case False
    have r: "next = None" "g' = update_workflow (wf_ID w) ?f (update_running runID (finish_run pf RunFailed (trim message) now) g)"
      using assms(2) w False
      by (auto simp: RetryGenerationAgentRun_def tx_Inr found_def simp del: not_less split: if_splits)
    have "moved g w (?f w) id g'"
      using assms(1) lock_claim_facts(1) [OF w(1)] by (intro moved_update_id) (simp_all add: r(2))
    then show ?thesis using w r(1) False by (intro exI [of _ w] exI [of _ run]) auto
  qed
qed

lemma judgement_effect:
  assumes "distinct (map wf_ID (g_workflows g))"
    "FinalizeGenerationJudgement pf claim runID approved feedback now g = (Inr u, g')"
  shows "\<exists>w. lockGenerationAgentClaimTx pf g claim now = Inr w \<and> wf_ActiveAgentRunID w = runID \<and>
    wf_CandidateRevisionID w \<noteq> [] \<and> \<not> blank runID \<and>
    (if approved then
       moved g w (drop_lease (move_workflow StateMaterializingArtifact [] (pf_ts pf now) w))
         (\<lambda>c. c \<lparr>cr_JudgeRunID := runID, cr_UpdatedAt := pf_ts pf now\<rparr>) g'
     else \<not> blank feedback \<and> moved g w (drop_lease (move_workflow StateGenerating feedback (pf_ts pf now) w))
       (\<lambda>c. c \<lparr>cr_JudgeRunID := runID, cr_Failure := Some \<lparr>fl_Class = WorkflowFailureArtifact,
          fl_Code = ''JUDGE_REJECT'', fl_Summary = feedback\<rparr>, cr_UpdatedAt := pf_ts pf now\<rparr>) g')"
proof -
  obtain w g1 where w: "lockGenerationAgentClaimTx pf g claim now = Inr w" "wf_ActiveAgentRunID w = runID"
    "wf_CandidateRevisionID w \<noteq> []" "\<not> blank runID" "approved \<or> \<not> blank feedback"
    and g1: "completeRunTx pf runID now g = Inr g1"
    using assms(2)
    by (auto simp: FinalizeGenerationJudgement_def tx_Inr and_then_Inr_iff simp del: not_not split: if_splits)
  have same: "g_workflows g1 = g_workflows g" "g_candidates g1 = g_candidates g" "g_runnable g1 = g_runnable g"
    using g1 by (auto simp: completeRunTx_def Let_def split: if_splits)
  note win = lock_claim_facts(1) [OF w(1)]
  show ?thesis
  proof (cases approved)
    case True
    have "g' = update_workflow (wf_ID w)
                 (\<lambda>w. drop_lease (move_workflow StateMaterializingArtifact [] (pf_ts pf now) w))
                 (update_candidate (wf_CandidateRevisionID w)
                   (\<lambda>c. c \<lparr>cr_JudgeRunID := runID, cr_UpdatedAt := pf_ts pf now\<rparr>) g1)"
      using assms(2) w g1 True by (auto simp: FinalizeGenerationJudgement_def tx_Inr split: if_splits)
    then have "moved g w (drop_lease (move_workflow StateMaterializingArtifact [] (pf_ts pf now) w))
         (\<lambda>c. c \<lparr>cr_JudgeRunID := runID, cr_UpdatedAt := pf_ts pf now\<rparr>) g'"
      using assms(1) win same by (intro moved_update) simp_all
    then show ?thesis using w True by (intro exI [of _ w]) simp
  next
    case False
    have "g' = update_workflow (wf_ID w)
                 (\<lambda>w. drop_lease (move_workflow StateGenerating feedback (pf_ts pf now) w))
                 (update_candidate (wf_CandidateRevisionID w)
                   (\<lambda>c. c \<lparr>cr_JudgeRunID := runID, cr_Failure := Some \<lparr>fl_Class = WorkflowFailureArtifact,
                      fl_Code = ''JUDGE_REJECT'', fl_Summary = feedback\<rparr>, cr_UpdatedAt := pf_ts pf now\<rparr>) g1)"
      using assms(2) w g1 False by (auto simp: FinalizeGenerationJudgement_def tx_Inr split: if_splits)
    then have "moved g w (drop_lease (move_workflow StateGenerating feedback (pf_ts pf now) w))
       (\<lambda>c. c \<lparr>cr_JudgeRunID := runID, cr_Failure := Some \<lparr>fl_Class = WorkflowFailureArtifact,
          fl_Code = ''JUDGE_REJECT'', fl_Summary = feedback\<rparr>, cr_UpdatedAt := pf_ts pf now\<rparr>) g'"
      using assms(1) win same by (intro moved_update) simp_all
    then show ?thesis using w False by (intro exI [of _ w]) simp
  qed
qed

lemma artifact_failure_effect:
  assumes "distinct (map wf_ID (g_workflows g))"
    "ReportGenerationArtifactFailure pf claim expected failure now g = (Inr u, g')"
  shows "\<exists>w. lockGenerationAgentClaimTx pf g claim now = Inr w \<and> wf_CandidateRevisionID w \<noteq> [] \<and>
    Failure_Validate failure = None \<and> g_runs g' = g_runs g \<and>
    moved g w (drop_lease (move_workflow StateGenerating (fl_Summary failure) (pf_ts pf now) w))
      (\<lambda>c. c \<lparr>cr_Failure := Some failure, cr_UpdatedAt := pf_ts pf now\<rparr>) g'"
proof -
  obtain w where w: "lockGenerationAgentClaimTx pf g claim now = Inr w" "wf_CandidateRevisionID w \<noteq> []"
    "Failure_Validate failure = None"
    and g': "g' = update_workflow (wf_ID w)
               (\<lambda>w. drop_lease (move_workflow StateGenerating (fl_Summary failure) (pf_ts pf now) w))
               (update_candidate (wf_CandidateRevisionID w)
                 (\<lambda>c. c \<lparr>cr_Failure := Some failure, cr_UpdatedAt := pf_ts pf now\<rparr>) g)"
    using assms(2)
    by (auto simp: ReportGenerationArtifactFailure_def tx_Inr and_then_Inr_iff split: if_splits)
  have "moved g w (drop_lease (move_workflow StateGenerating (fl_Summary failure) (pf_ts pf now) w))
      (\<lambda>c. c \<lparr>cr_Failure := Some failure, cr_UpdatedAt := pf_ts pf now\<rparr>) g'"
    using assms(1) lock_claim_facts(1) [OF w(1)] by (intro moved_update) (simp_all add: g')
  then show ?thesis using w g' by (intro exI [of _ w]) simp
qed

subsection \<open>Receipts\<close>

lemma receipt_lookup_Inr:
  "generationActionReceiptTx g s a key digest = Inr receipt \<longleftrightarrow>
     (case receipt of None \<Rightarrow> sql_row receipt_key (s, a, key) (g_receipts g) = None
      | Some r \<Rightarrow> sql_row receipt_key (s, a, key) (g_receipts g) = Some r \<and> rc_RequestDigest r = digest)"
  by (auto simp: generationActionReceiptTx_def split: option.splits if_splits)

lemma insert_receipt_Inr:
  "insertGenerationActionReceiptTx r g = Inr g' \<Longrightarrow>
     g' = g \<lparr>g_receipts := g_receipts g @ [r]\<rparr> \<and> receipt_key r \<notin> receipt_key ` set (g_receipts g)"
  by (simp add: insertGenerationActionReceiptTx_def split: if_splits)

lemma receipt_key_new [simp]:
  "receipt_key (new_receipt pf s a key digest w p c now) = (s, a, key)"
  "rc_RequestDigest (new_receipt pf s a key digest w p c now) = digest"
  "rc_WorkflowID (new_receipt pf s a key digest w p c now) = w"
  "rc_PlanRevision (new_receipt pf s a key digest w p c now) = p"
  "rc_CandidateRevisionID (new_receipt pf s a key digest w p c now) = c"
  by (simp_all add: receipt_key_def new_receipt_def)

subsection \<open>Creating and submitting\<close>

lemma create_effect:
  assumes "CreateGenerationWorkflow pf newID s user confirmation now g = (Inr w, g')"
  shows "StartConfirmation_Valid confirmation \<and> now \<noteq> 0 \<and> \<not> blank s \<and>
    (g_workflows g' = g_workflows g \<and> g_candidates g' = g_candidates g \<and> g_runnable g' = g_runnable g \<and>
       w \<in> set (g_workflows g) \<or>
     w = new_workflow pf newID s (show_int (sco_PlanRevision confirmation)) now \<and>
       newID \<notin> wf_ID ` set (g_workflows g) \<and> g_workflows g' = g_workflows g @ [stored_workflow pf w] \<and>
       g_candidates g' = g_candidates g \<and> g_runnable g' = g_runnable g)"
proof -
  let ?d = "generationActionRequestDigest pf ActionConfirmGeneration (RequestStart confirmation)"
  let ?k = "sco_IdempotencyKey confirmation"
  let ?w = "new_workflow pf newID s (show_int (sco_PlanRevision confirmation)) now"
  have v: "StartConfirmation_Valid confirmation" "now \<noteq> 0" "\<not> blank s"
    using assms by (auto simp: CreateGenerationWorkflow_def tx_Inr split: if_splits)
  obtain receipt where receipt: "generationActionReceiptTx g s ActionConfirmGeneration ?k ?d = Inr receipt"
    using assms by (auto simp: CreateGenerationWorkflow_def tx_Inr Let_def check_Inr and_then_Inr_iff split: if_splits)
  show ?thesis
  proof (cases receipt)
    case (Some r)
    then have "generationWorkflowForReceiptTx g (rc_WorkflowID r) = Inr w \<and> g' = g"
      using assms receipt
      by (auto simp: CreateGenerationWorkflow_def tx_Inr Let_def check_Inr and_then_Inr_iff split: if_splits)
    moreover from this have "w \<in> set (g_workflows g)"
      by (auto simp: generationWorkflowForReceiptTx_def scanGenerationWorkflow_Inr workflow_row_in split: option.splits)
    ultimately show ?thesis using v by simp
  next
    case None
    show ?thesis
    proof (cases "source_workflow s (show_int (sco_PlanRevision confirmation)) g")
      case (Some x)
      then have "x \<in> set (g_workflows g)" by (auto simp: source_workflow_def dest: find_in)
      then show ?thesis
        using assms receipt None Some v
        by (auto simp: CreateGenerationWorkflow_def tx_Inr Let_def check_Inr and_then_Inr_iff
            scanGenerationWorkflow_Inr dest!: insert_receipt_Inr split: if_splits)
    next
      case no_source: None
      have "w = ?w \<and> (\<exists>g1 r. insert_workflow pf ?w g = Inr g1 \<and> insertGenerationActionReceiptTx r g1 = Inr g')"
        using assms receipt None no_source
        by (auto simp: CreateGenerationWorkflow_def tx_Inr Let_def check_Inr and_then_Inr_iff split: if_splits)
      then obtain g1 r where g1: "w = ?w" "insert_workflow pf ?w g = Inr g1" "insertGenerationActionReceiptTx r g1 = Inr g'"
        by blast
      have "newID \<notin> wf_ID ` set (g_workflows g)" "g1 = g \<lparr>g_workflows := g_workflows g @ [stored_workflow pf ?w]\<rparr>"
        using g1(2) by (auto simp: insert_workflow_def new_workflow_def split: if_splits)
      then show ?thesis using v g1(1) insert_receipt_Inr [OF g1(3)] by simp
    qed
  qed
qed

lemma insert_candidate_Inr:
  "insertCandidateRevisionTx pf c g = Inr g' \<longleftrightarrow> Candidate_ValidateForCreate c = None \<and>
     cr_ID c \<notin> cr_ID ` set (g_candidates g) \<and>
     (cr_ParentCandidateID c = [] \<or> cr_ParentCandidateID c \<in> cr_ID ` set (g_candidates g)) \<and>
     g' = g \<lparr>g_candidates := g_candidates g @
        [c \<lparr>cr_CreatedAt := pf_ts pf (cr_CreatedAt c), cr_UpdatedAt := pf_ts pf (cr_UpdatedAt c)\<rparr>]\<rparr>"
  by (auto simp: insertCandidateRevisionTx_def check_Inr)

definition submitted :: "platform \<Rightarrow> CandidateSubmission \<Rightarrow> Candidate \<Rightarrow> time \<Rightarrow> generation_db \<Rightarrow> Workflow \<Rightarrow> generation_db \<Rightarrow> bool"
where
  "submitted pf submission c now g w g' \<longleftrightarrow>
     w \<in> set (g_workflows g) \<and> wf_ID w = csu_WorkflowID submission \<and> wf_State w = StateGenerating \<and> Workflow_Valid w \<and>
     Candidate_ValidateForCreate c = None \<and> cr_ID c \<notin> cr_ID ` set (g_candidates g) \<and>
     cr_Source c = wf_Source w \<and> cr_SourceRevision c = wf_SourceRevision w \<and>
     cr_ParentCandidateID c = wf_CandidateRevisionID w \<and>
     g_candidates g' = g_candidates g @
       [c \<lparr>cr_CreatedAt := pf_ts pf (cr_CreatedAt c), cr_UpdatedAt := pf_ts pf (cr_UpdatedAt c)\<rparr>] \<and>
     g_workflows g' = map (\<lambda>v. if wf_ID v = wf_ID w
       then (move_workflow StateJudging [] (pf_ts pf now) w) \<lparr>wf_CandidateRevisionID := cr_ID c,
              wf_WorkspaceSnapshotDigest := [], wf_ActiveAgentRunID := []\<rparr>
       else v) (g_workflows g) \<and>
     g_runnable g' = g_runnable g"

text \<open>
  A revision that names a parent itself keeps it when the workflow has no candidate yet; the service
  never sets one.
\<close>

lemma submit_effect:
  assumes "distinct (map wf_ID (g_workflows g))" "cr_ParentCandidateID revision = []"
    "SubmitGenerationCandidate pf s user submission revision now g = (Inr c, g')"
  shows "(g' = g \<and> c \<in> set (g_candidates g)) \<or> (\<exists>w. submitted pf submission c now g w g' \<and>
    g_receipts g' = g_receipts g @ [new_receipt pf s ActionSubmitCandidate (csu_IdempotencyKey submission)
      (generationActionRequestDigest pf ActionSubmitCandidate (RequestSubmit submission)) (wf_ID w) None (Some (cr_ID c)) now])"
proof -
  let ?d = "generationActionRequestDigest pf ActionSubmitCandidate (RequestSubmit submission)"
  let ?k = "csu_IdempotencyKey submission"
  obtain receipt where receipt: "generationActionReceiptTx g s ActionSubmitCandidate ?k ?d = Inr receipt"
    using assms(3) by (auto simp: SubmitGenerationCandidate_def tx_Inr Let_def check_Inr and_then_Inr_iff split: if_splits)
  show ?thesis
  proof (cases receipt)
    case (Some r)
    then have "submitted_candidate g s submission r = Inr c \<and> g' = g"
      using assms(3) receipt
      by (auto simp: SubmitGenerationCandidate_def tx_Inr Let_def check_Inr and_then_Inr_iff split: if_splits)
    then show ?thesis
      by (auto simp: submitted_candidate_def found_Inr split: if_splits option.splits dest: candidate_row_in)
  next
    case None
    let ?P = "\<lambda>w. wf_ID w = csu_WorkflowID submission \<and> src_Kind (wf_Source w) = SourceAuthoring \<and>
      src_Ref (wf_Source w) = s \<and> wf_State w = StateGenerating"
    obtain w where f: "find ?P (g_workflows g) = Some w" and v: "Workflow_Valid w"
      using assms(3) receipt None
      by (auto simp: SubmitGenerationCandidate_def tx_Inr Let_def check_Inr and_then_Inr_iff scanGenerationWorkflow_Inr
          split: if_splits option.splits)
    define fz where "fz = frozen_candidate w revision now"
    let ?g3 = "\<lambda>(workspace :: Workspace) g1. update_workflow (wf_ID w) (\<lambda>w. (move_workflow StateJudging [] (pf_ts pf now) w)
            \<lparr>wf_CandidateRevisionID := cr_ID fz, wf_WorkspaceSnapshotDigest := [], wf_ActiveAgentRunID := []\<rparr>)
           (update_workspace (\<lambda>x. ws_ID x = ws_ID workspace \<and> ws_ActiveTurnID x = csu_TurnID submission)
             (\<lambda>x. x \<lparr>ws_ActiveTurnID := [], ws_IdleSince := None, ws_UpdatedAt := pf_ts pf now\<rparr>) g1)"
    let ?r = "new_receipt pf s ActionSubmitCandidate ?k ?d (wf_ID w) None (Some (cr_ID fz)) now"
    have "fz = c \<and> Candidate_ValidateForCreate fz = None \<and> (\<exists>workspace g1. insertCandidateRevisionTx pf fz g = Inr g1 \<and>
        insertGenerationActionReceiptTx ?r (?g3 workspace g1) = Inr g')"
      using assms(3) receipt None v
      by (simp add: SubmitGenerationCandidate_def tx_Inr Let_def check_Inr and_then_Inr_iff scanGenerationWorkflow_Inr f
          found_Inr fz_def split: if_splits) blast
    then obtain workspace g1 where c: "c = fz" and valid: "Candidate_ValidateForCreate fz = None"
      and g1: "insertCandidateRevisionTx pf fz g = Inr g1"
      and g': "insertGenerationActionReceiptTx ?r (?g3 workspace g1) = Inr g'"
      by blast
    have g1': "g1 = g \<lparr>g_candidates := g_candidates g @
        [fz \<lparr>cr_CreatedAt := pf_ts pf (cr_CreatedAt fz), cr_UpdatedAt := pf_ts pf (cr_UpdatedAt fz)\<rparr>]\<rparr>"
      and fresh: "cr_ID fz \<notin> cr_ID ` set (g_candidates g)"
      using g1 by (simp_all add: insert_candidate_Inr)
    have win: "w \<in> set (g_workflows g)" "?P w" using find_in [OF f] by auto
    let ?f = "\<lambda>w. (move_workflow StateJudging [] (pf_ts pf now) w)
            \<lparr>wf_CandidateRevisionID := cr_ID fz, wf_WorkspaceSnapshotDigest := [], wf_ActiveAgentRunID := []\<rparr>"
    have ws: "map (\<lambda>v. if wf_ID v = wf_ID w then ?f v else v) (g_workflows g) =
        map (\<lambda>v. if wf_ID v = wf_ID w then ?f w else v) (g_workflows g)"
      using same_workflow [OF assms(1)] win(1) by (intro map_cong refl) auto
    have src: "cr_Source fz = wf_Source w" "cr_SourceRevision fz = wf_SourceRevision w"
      "cr_ParentCandidateID fz = wf_CandidateRevisionID w"
      using assms(2) by (auto simp: fz_def frozen_candidate_def Let_def)
    have "submitted pf submission c now g w g'"
      using win v valid fresh src insert_receipt_Inr [OF g'] ws by (simp add: submitted_def c g1')
    moreover have "g_receipts g' = g_receipts g @ [new_receipt pf s ActionSubmitCandidate ?k ?d (wf_ID w) None (Some (cr_ID c)) now]"
      using insert_receipt_Inr [OF g'] by (simp add: c g1')
    ultimately show ?thesis by blast
  qed
qed

subsection \<open>Runnable results\<close>

lemma fail_runnable_effect:
  assumes "distinct (map wf_ID (g_workflows g))" "FailRunnableGenerationWorkflow pf workflowID message now g = (res, g')"
  shows "(g' = g \<and> res \<noteq> None) \<or> (\<exists>w. wf_ID w = workflowID \<and> res = None \<and>
    wf_State w \<in> {StateMaterializingArtifact, StateVerifying} \<and>
    moved g w (w \<lparr>wf_State := StateFailed, wf_StateVersion := wf_StateVersion w + 1,
      wf_LastError := trim message, wf_UpdatedAt := pf_ts pf now\<rparr>) id g')"
proof -
  let ?P = "\<lambda>w. wf_ID w = workflowID \<and> (wf_State w = StateMaterializingArtifact \<or> wf_State w = StateVerifying)"
  let ?f = "\<lambda>w. w \<lparr>wf_State := StateFailed, wf_StateVersion := wf_StateVersion w + 1,
      wf_LastError := trim message, wf_UpdatedAt := pf_ts pf now\<rparr>"
  show ?thesis
  proof (cases "blank workflowID \<or> blank message \<or> now = 0 \<or> (\<forall>w\<in>set (g_workflows g). \<not> ?P w)")
    case True
    then show ?thesis
      using assms(2) sql_update_none [of "g_workflows g" ?P ?f]
      by (auto simp: FailRunnableGenerationWorkflow_def split: if_splits prod.splits)
  next
    case False
    then obtain w where w: "w \<in> set (g_workflows g)" "?P w" by auto
    have "snd (sql_update ?P ?f (g_workflows g)) = 1"
      using sql_update_count [OF assms(1), of ?P workflowID ?f] sql_row_distinct [OF assms(1) w(1)] w(2) by auto
    moreover have "fst (sql_update ?P ?f (g_workflows g)) = map (\<lambda>v. if wf_ID v = wf_ID w then ?f v else v) (g_workflows g)"
      using assms(1) w by (intro sql_update_by_id) auto
    ultimately have r: "res = None" "g' = g \<lparr>g_workflows := map (\<lambda>v. if wf_ID v = wf_ID w then ?f v else v) (g_workflows g)\<rparr>"
      using assms(2) False by (auto simp: FailRunnableGenerationWorkflow_def split: prod.splits)
    have "moved g w (?f w) id g'"
      using assms(1) w(1) by (intro moved_update_id) (simp_all add: r(2))
    then show ?thesis using w r by auto
  qed
qed

lemma materialized_effect:
  assumes "distinct (map wf_ID (g_workflows g))"
    "MarkGenerationCandidateMaterialized pf workflowID reference now g = (Inr u, g')"
  shows "\<exists>w c. workflow_row workflowID g = Some w \<and> Workflow_Valid w \<and> wf_State w = StateMaterializingArtifact \<and>
    candidate_row (wf_CandidateRevisionID w) g = Some c \<and> now \<noteq> 0 \<and>
    RevisionReference_Validate reference = None \<and> validateGenerationRunnableRevisionTx g c reference = None \<and>
    moved g w (w \<lparr>wf_State := StateVerifying, wf_StateVersion := wf_StateVersion w + 1,
        wf_NextRunAt := pf_ts pf now, wf_UpdatedAt := pf_ts pf now\<rparr>)
      (\<lambda>c. c \<lparr>cr_RunnableRevisionRef := Some reference, cr_UpdatedAt := pf_ts pf now\<rparr>) g'"
proof -
  let ?f = "\<lambda>w. w \<lparr>wf_State := StateVerifying, wf_StateVersion := wf_StateVersion w + 1,
        wf_NextRunAt := pf_ts pf now, wf_UpdatedAt := pf_ts pf now\<rparr>"
  obtain w c where w: "workflow_row workflowID g = Some w" "Workflow_Valid w" "wf_State w = StateMaterializingArtifact"
    "candidate_row (wf_CandidateRevisionID w) g = Some c" "now \<noteq> 0" "RevisionReference_Validate reference = None"
    "validateGenerationRunnableRevisionTx g c reference = None"
    and g': "g' = update_workflow (wf_ID w) ?f (update_candidate (cr_ID c)
        (\<lambda>c. c \<lparr>cr_RunnableRevisionRef := Some reference, cr_UpdatedAt := pf_ts pf now\<rparr>) g)"
    using assms(2)
    by (auto simp: MarkGenerationCandidateMaterialized_def tx_Inr and_then_Inr_iff scanGenerationWorkflow_Inr
        found_Inr check_Inr split: if_splits)
  have "moved g w (?f w) (\<lambda>c. c \<lparr>cr_RunnableRevisionRef := Some reference, cr_UpdatedAt := pf_ts pf now\<rparr>) g'"
    using assms(1) workflow_row_in [OF w(1)] candidate_row_in [OF w(4)]
    by (intro moved_update) (simp_all add: g')
  then show ?thesis using w by blast
qed

lemma verified_effect:
  assumes "distinct (map wf_ID (g_workflows g))"
    "MarkGenerationCandidateVerified pf workflowID reference now g = (Inr u, g')"
  shows "\<exists>w c revision passed. workflow_row workflowID g = Some w \<and> Workflow_Valid w \<and> wf_State w = StateVerifying \<and>
    candidate_row (wf_CandidateRevisionID w) g = Some c \<and> now \<noteq> 0 \<and>
    cr_RunnableRevisionRef c = Some revision \<and>
    validateGenerationVerificationReportTx g revision reference = Inr passed \<and>
    (if passed then
       moved g w (move_workflow StateNeedsAuthorReview [] (pf_ts pf now) w)
         (\<lambda>c. c \<lparr>cr_VerificationReportRef := Some reference, cr_VerifiedAt := Some (pf_ts pf now),
            cr_UpdatedAt := pf_ts pf now\<rparr>) g'
     else
       moved g w (move_workflow StateGenerating ''runnable verification did not pass'' (pf_ts pf now) w)
         (\<lambda>c. c \<lparr>cr_VerificationReportRef := Some reference, cr_VerifiedAt := Some (pf_ts pf now),
            cr_Failure := Some \<lparr>fl_Class = WorkflowFailureArtifact,
              fl_Code = ''VERIFY_FAILED'', fl_Summary = ''runnable verification did not pass''\<rparr>,
            cr_UpdatedAt := pf_ts pf now\<rparr>) g')"
proof -
  let ?h = "\<lambda>c. c \<lparr>cr_VerificationReportRef := Some reference, cr_VerifiedAt := Some (pf_ts pf now),
            cr_UpdatedAt := pf_ts pf now\<rparr>"
  let ?k = "\<lambda>c. c \<lparr>cr_Failure := Some \<lparr>fl_Class = WorkflowFailureArtifact,
              fl_Code = ''VERIFY_FAILED'', fl_Summary = ''runnable verification did not pass''\<rparr>, cr_UpdatedAt := pf_ts pf now\<rparr>"
  let ?n = "move_workflow StateNeedsAuthorReview [] (pf_ts pf now)"
  let ?m = "move_workflow StateGenerating ''runnable verification did not pass'' (pf_ts pf now)"
  obtain w c revision passed where w: "workflow_row workflowID g = Some w" "Workflow_Valid w" "wf_State w = StateVerifying"
    "candidate_row (wf_CandidateRevisionID w) g = Some c" "now \<noteq> 0" "cr_RunnableRevisionRef c = Some revision"
    "validateGenerationVerificationReportTx g revision reference = Inr passed"
    using assms(2)
    by (auto simp: MarkGenerationCandidateVerified_def tx_Inr and_then_Inr_iff scanGenerationWorkflow_Inr found_Inr
        split: if_splits option.splits)
  have scan: "scanGenerationWorkflow (Some w) = Inr w" using w(2) by (simp add: scanGenerationWorkflow_Inr)
  have c: "cr_ID c = wf_CandidateRevisionID w" using candidate_row_in [OF w(4)] by simp
  have win: "w \<in> set (g_workflows g)" using workflow_row_in [OF w(1)] by simp
  show ?thesis
  proof (cases passed)
    case True
    obtain number where g': "g' = update_workflow (wf_ID w) ?n
        (show_candidate (src_Ref (wf_Source w)) number (cr_ID c) now (update_candidate (cr_ID c) ?h g))"
      using assms(2) w True
      by (auto simp: MarkGenerationCandidateVerified_def tx_Inr and_then_Inr_iff scan found_def Let_def split: if_splits)
    have "moved g w (?n w) ?h g'"
      using assms(1) win c by (intro moved_update) (simp_all add: g')
    then show ?thesis using w True by (intro exI conjI) auto
  next
    case False
    have g': "g' = update_workflow (wf_ID w) ?m (update_candidate (cr_ID c) ?k (update_candidate (cr_ID c) ?h g))"
      using assms(2) w False
      by (auto simp: MarkGenerationCandidateVerified_def tx_Inr and_then_Inr_iff scan found_def Let_def split: if_splits)
    have "moved g w (?m w) (\<lambda>c. ?k (?h c)) g'"
      using assms(1) win c by (intro moved_update) (simp_all add: g')
    then show ?thesis using w False by (intro exI conjI) auto
  qed
qed

subsection \<open>Review\<close>

lemma receipt_replay:
  "generationWorkflowForReceiptTx g i = Inr w \<Longrightarrow> w \<in> set (g_workflows g) \<and> wf_ID w = i \<and> Workflow_Valid w"
  by (auto simp: generationWorkflowForReceiptTx_def scanGenerationWorkflow_Inr split: option.splits dest: workflow_row_in)

lemma session_workflow_Inr:
  "session_workflow g i s = Inr w \<Longrightarrow>
     w \<in> set (g_workflows g) \<and> wf_ID w = i \<and> src_Ref (wf_Source w) = s \<and> Workflow_Valid w"
  by (auto simp: session_workflow_def scanGenerationWorkflow_Inr dest: find_in)

lemma confirm_effect:
  assumes "distinct (map wf_ID (g_workflows g))"
    "ConfirmGenerationContent pf newID newRev s user confirmation metadata now g = (Inr v, g')"
  shows "(g' = g \<and> v \<in> set (g_workflows g)) \<or> (\<exists>w c revision report publication.
    wf_ID w = cco_WorkflowID confirmation \<and> Workflow_Valid w \<and> wf_State w = StateNeedsAuthorReview \<and>
    candidate_row (wf_CandidateRevisionID w) g = Some c \<and> now \<noteq> 0 \<and>
    cr_RunnableRevisionRef c = Some revision \<and> cr_VerificationReportRef c = Some report \<and>
    validateGenerationVerificationReportTx g revision report = Inr True \<and>
    Publication_ValidateIntent (pf_unicode pf) publication = None \<and> pb_CandidateRevisionID publication = cr_ID c \<and>
    v = move_workflow StatePublishing [] (pf_ts pf now) w \<and>
    g_receipts g' = g_receipts g @ [new_receipt pf s ActionConfirmContent (cco_IdempotencyKey confirmation)
      (generationActionRequestDigest pf ActionConfirmContent (RequestConfirm confirmation)) (wf_ID w) None (Some (cr_ID c)) now] \<and>
    moved g w (move_workflow StatePublishing [] (pf_ts pf now) w)
      (\<lambda>c. c \<lparr>cr_Publication := Some publication, cr_UpdatedAt := pf_ts pf now\<rparr>) g')"
proof -
  let ?d = "generationActionRequestDigest pf ActionConfirmContent (RequestConfirm confirmation)"
  let ?k = "cco_IdempotencyKey confirmation"
  let ?f = "move_workflow StatePublishing [] (pf_ts pf now)"
  obtain receipt where receipt: "generationActionReceiptTx g s ActionConfirmContent ?k ?d = Inr receipt"
    using assms(2) by (auto simp: ConfirmGenerationContent_def tx_Inr Let_def check_Inr and_then_Inr_iff split: if_splits)
  show ?thesis
  proof (cases receipt)
    case (Some r)
    then have "generationWorkflowForReceiptTx g (rc_WorkflowID r) = Inr v \<and> g' = g"
      using assms(2) receipt
      by (auto simp: ConfirmGenerationContent_def tx_Inr Let_def check_Inr and_then_Inr_iff split: if_splits)
    then show ?thesis using receipt_replay by blast
  next
    case None
    let ?g2 = "\<lambda>w c publication. update_workflow (wf_ID w) ?f (update_candidate (cr_ID c)
          (\<lambda>c. c \<lparr>cr_Publication := Some publication, cr_UpdatedAt := pf_ts pf now\<rparr>) g)"
    let ?rest = "\<lambda>(w :: Workflow) (c :: Candidate). case (cr_RunnableRevisionRef c, cr_VerificationReportRef c) of
        (Some revision, Some report) \<Rightarrow>
          if validateGenerationVerificationReportTx g revision report \<noteq> Inr True
          then Inl candidate_invalid_state
          else and_then (readAuthoringSessionTx g s user) (\<lambda>session.
            and_then (prepareGenerationPublicationTx pf newID newRev g session c metadata now) (\<lambda>publication.
            and_then (scanGenerationWorkflow (workflow_row (wf_ID w) (?g2 w c publication))) (\<lambda>updated.
            and_then (insertGenerationActionReceiptTx
                (new_receipt pf s ActionConfirmContent ?k ?d (wf_ID w) None (Some (cr_ID c)) now) (?g2 w c publication))
              (\<lambda>g3. Inr (updated, g3)))))
      | _ \<Rightarrow> Inl candidate_invalid_state"
    obtain w c where
      w: "session_workflow g (cco_WorkflowID confirmation) s = Inr w" "wf_State w = StateNeedsAuthorReview"
        "wf_CandidateRevisionID w = cco_CandidateRevisionID confirmation"
        "candidate_row (wf_CandidateRevisionID w) g = Some c" "now \<noteq> 0"
      and rest: "?rest w c = Inr (v, g')"
      using assms(2) [unfolded ConfirmGenerationContent_def Let_def] receipt None
      by (auto simp: tx_Inr check_Inr and_then_Inr_iff [of "or_error _ _"]
          and_then_Inr_iff [of "found _ _"] and_then_Inr_iff [of "generationActionReceiptTx _ _ _ _ _"]
          found_Inr or_error_Inr split: if_split_asm)
    obtain revision report where refs: "cr_RunnableRevisionRef c = Some revision" "cr_VerificationReportRef c = Some report"
      using rest by (auto split: option.split_asm)
    obtain session publication where
      p: "validateGenerationVerificationReportTx g revision report = Inr True"
        "prepareGenerationPublicationTx pf newID newRev g session c metadata now = Inr publication"
      and v: "workflow_row (wf_ID w) (?g2 w c publication) = Some v"
      and g': "insertGenerationActionReceiptTx (new_receipt pf s ActionConfirmContent ?k ?d (wf_ID w) None (Some (cr_ID c)) now)
        (?g2 w c publication) = Inr g'"
      using rest by (auto simp: refs and_then_Inr_iff scanGenerationWorkflow_Inr split: if_splits)
    have c: "cr_ID c = wf_CandidateRevisionID w" using candidate_row_in [OF w(4)] by simp
    note sw = session_workflow_Inr [OF w(1)]
    have pub: "Publication_ValidateIntent (pf_unicode pf) publication = None" "pb_CandidateRevisionID publication = cr_ID c"
      using p(2) by (auto simp: prepareGenerationPublicationTx_def Let_def check_Inr and_then_Inr_iff split: if_splits)
    have moved: "moved g w (?f w) (\<lambda>c. c \<lparr>cr_Publication := Some publication, cr_UpdatedAt := pf_ts pf now\<rparr>) g'"
      using assms(1) sw c insert_receipt_Inr [OF g'] by (intro moved_update) simp_all
    have "v = ?f w"
    proof -
      have "sql_row wf_ID (wf_ID w) (fst (sql_update (\<lambda>v. wf_ID v = wf_ID w) ?f (g_workflows g))) = Some (?f w)"
        using sql_row_distinct [OF assms(1), of w] sw by (subst sql_row_update) simp_all
      then show ?thesis using v by (simp add: workflow_row_def sql_update_def)
    qed
    then show ?thesis
      using w refs p(1) sw pub moved insert_receipt_Inr [OF g'] by (intro disjI2 exI [of _ w] exI [of _ c] exI [of _ revision]
        exI [of _ report] exI [of _ publication]) simp
  qed
qed

lemma changes_effect:
  assumes "distinct (map wf_ID (g_workflows g))"
    "RequestGenerationContentChanges pf s user request now g = (Inr v, g')"
  shows "(g' = g \<and> v \<in> set (g_workflows g)) \<or> (\<exists>w.
    wf_ID w = ccr_WorkflowID request \<and> Workflow_Valid w \<and> wf_State w = StateNeedsAuthorReview \<and>
    wf_CandidateRevisionID w = ccr_CandidateRevisionID request \<and>
    v = move_workflow StateGenerating (ccr_Feedback request) (pf_ts pf now) w \<and>
    g_receipts g' = g_receipts g @ [new_receipt pf s ActionRequestContentChanges (ccr_IdempotencyKey request)
      (generationActionRequestDigest pf ActionRequestContentChanges (RequestChanges request)) (wf_ID w) None
      (Some (ccr_CandidateRevisionID request)) now] \<and>
    moved g w (move_workflow StateGenerating (ccr_Feedback request) (pf_ts pf now) w) id g')"
proof -
  let ?d = "generationActionRequestDigest pf ActionRequestContentChanges (RequestChanges request)"
  let ?k = "ccr_IdempotencyKey request"
  let ?f = "move_workflow StateGenerating (ccr_Feedback request) (pf_ts pf now)"
  obtain receipt where receipt: "generationActionReceiptTx g s ActionRequestContentChanges ?k ?d = Inr receipt"
    using assms(2)
    by (auto simp: RequestGenerationContentChanges_def tx_Inr Let_def check_Inr and_then_Inr_iff split: if_splits)
  show ?thesis
  proof (cases receipt)
    case (Some r)
    then have "generationWorkflowForReceiptTx g (rc_WorkflowID r) = Inr v \<and> g' = g"
      using assms(2) receipt
      by (auto simp: RequestGenerationContentChanges_def tx_Inr Let_def check_Inr and_then_Inr_iff split: if_splits)
    then show ?thesis using receipt_replay by blast
  next
    case None
    obtain w where w: "session_workflow g (ccr_WorkflowID request) s = Inr w" "wf_State w = StateNeedsAuthorReview"
        "wf_CandidateRevisionID w = ccr_CandidateRevisionID request"
      and v: "workflow_row (wf_ID w) (update_workflow (wf_ID w) ?f g) = Some v"
      and g': "insertGenerationActionReceiptTx (new_receipt pf s ActionRequestContentChanges ?k ?d (wf_ID w) None
          (Some (ccr_CandidateRevisionID request)) now) (update_workflow (wf_ID w) ?f g) = Inr g'"
      using assms(2) receipt None
      by (auto simp: RequestGenerationContentChanges_def tx_Inr Let_def check_Inr and_then_Inr_iff
          scanGenerationWorkflow_Inr or_error_Inr split: if_splits)
    note sw = session_workflow_Inr [OF w(1)]
    have "moved g w (?f w) id g'"
      using assms(1) sw insert_receipt_Inr [OF g'] by (intro moved_update_id) simp_all
    moreover have "v = ?f w"
    proof -
      have "sql_row wf_ID (wf_ID w) (fst (sql_update (\<lambda>v. wf_ID v = wf_ID w) ?f (g_workflows g))) = Some (?f w)"
        using sql_row_distinct [OF assms(1), of w] sw by (subst sql_row_update) simp_all
      then show ?thesis using v by (simp add: workflow_row_def sql_update_def)
    qed
    ultimately show ?thesis
      using w sw insert_receipt_Inr [OF g'] by (intro disjI2 exI [of _ w]) simp
  qed
qed

lemma cancel_effect:
  assumes "distinct (map wf_ID (g_workflows g))"
    "CancelGenerationWorkflow pf s user cancellation now g = (Inr v, g')"
  shows "(g' = g \<and> v \<in> set (g_workflows g)) \<or> (\<exists>w.
    wf_ID w = can_WorkflowID cancellation \<and> Workflow_Valid w \<and> \<not> WorkflowState_Terminal (wf_State w) \<and>
    v = drop_lease (w \<lparr>wf_State := StateCancelled, wf_StateVersion := wf_StateVersion w + 1,
      wf_LastError := ''cancelled'', wf_UpdatedAt := pf_ts pf now\<rparr>) \<and> g_runs g' = g_runs g \<and>
    g_receipts g' = g_receipts g @ [new_receipt pf s ActionCancelGeneration (can_IdempotencyKey cancellation)
      (generationActionRequestDigest pf ActionCancelGeneration (RequestCancel cancellation)) (wf_ID w) None None now] \<and>
    moved g w v id g')"
proof -
  let ?d = "generationActionRequestDigest pf ActionCancelGeneration (RequestCancel cancellation)"
  let ?k = "can_IdempotencyKey cancellation"
  let ?f = "\<lambda>w. drop_lease (w \<lparr>wf_State := StateCancelled, wf_StateVersion := wf_StateVersion w + 1,
      wf_LastError := ''cancelled'', wf_UpdatedAt := pf_ts pf now\<rparr>)"
  obtain receipt where receipt: "generationActionReceiptTx g s ActionCancelGeneration ?k ?d = Inr receipt"
    using assms(2)
    by (auto simp: CancelGenerationWorkflow_def tx_Inr Let_def check_Inr and_then_Inr_iff split: if_splits)
  show ?thesis
  proof (cases receipt)
    case (Some r)
    then have "generationWorkflowForReceiptTx g (rc_WorkflowID r) = Inr v \<and> g' = g"
      using assms(2) receipt
      by (auto simp: CancelGenerationWorkflow_def tx_Inr Let_def check_Inr and_then_Inr_iff split: if_splits)
    then show ?thesis using receipt_replay by blast
  next
    case None
    obtain w where w: "session_workflow g (can_WorkflowID cancellation) s = Inr w" "\<not> WorkflowState_Terminal (wf_State w)"
      and v: "workflow_row (wf_ID w) (update_workflow (wf_ID w) ?f g) = Some v"
      and g': "insertGenerationActionReceiptTx (new_receipt pf s ActionCancelGeneration ?k ?d (wf_ID w) None None now)
          (update_workflow (wf_ID w) ?f g) = Inr g'"
      using assms(2) receipt None
      by (auto simp: CancelGenerationWorkflow_def tx_Inr Let_def check_Inr and_then_Inr_iff
          scanGenerationWorkflow_Inr or_error_Inr split: if_splits)
    note sw = session_workflow_Inr [OF w(1)]
    have "v = ?f w"
    proof -
      have "sql_row wf_ID (wf_ID w) (fst (sql_update (\<lambda>v. wf_ID v = wf_ID w) ?f (g_workflows g))) = Some (?f w)"
        using sql_row_distinct [OF assms(1), of w] sw by (subst sql_row_update) simp_all
      then show ?thesis using v by (simp add: workflow_row_def sql_update_def)
    qed
    moreover have "moved g w (?f w) id g'"
      using assms(1) sw insert_receipt_Inr [OF g'] by (intro moved_update_id) simp_all
    ultimately show ?thesis
      using w sw insert_receipt_Inr [OF g'] by (intro disjI2 exI [of _ w]) simp
  qed
qed

subsection \<open>Publication\<close>

definition record_failure :: "platform \<Rightarrow> Diagnostic \<Rightarrow> Workflow \<Rightarrow> Workflow" where
  "record_failure pf d w = w \<lparr>
     wf_State := (if dg_Category d = CategoryDeterministic then StateFailed else StatePublishing),
     wf_NextRunAt := pf_ts pf (case dg_NextRetryAt d of Some t \<Rightarrow> t | None \<Rightarrow> dg_LastAttemptedAt d),
     wf_LastError := dg_LastError d, wf_FinalizerErrorCategory := dg_Category d,
     wf_FinalizerLastError := dg_LastError d,
     wf_FinalizerLastAttemptedAt := Some (pf_ts pf (dg_LastAttemptedAt d)),
     wf_FinalizerNextRetryAt := map_option (pf_ts pf) (dg_NextRetryAt d),
     wf_UpdatedAt := pf_ts pf (dg_LastAttemptedAt d)\<rparr>"

lemma record_failure_simps [simp]:
  "wf_ID (record_failure pf d w) = wf_ID w"
  "wf_State (record_failure pf d w) = (if dg_Category d = CategoryDeterministic then StateFailed else StatePublishing)"
  "wf_StateVersion (record_failure pf d w) = wf_StateVersion w"
  "wf_CandidateRevisionID (record_failure pf d w) = wf_CandidateRevisionID w"
  "wf_Source (record_failure pf d w) = wf_Source w"
  "wf_SourceRevision (record_failure pf d w) = wf_SourceRevision w"
  by (simp_all add: record_failure_def)

lemma record_effect:
  assumes "distinct (map wf_ID (g_workflows g))"
    "RecordGenerationPublicationFinalizerFailure pf workflowID candidateID d g = (res, g')"
  shows "(g' = g \<and> (\<exists>e. res = Inl e)) \<or> (\<exists>w. wf_ID w = workflowID \<and> wf_CandidateRevisionID w = candidateID \<and>
    wf_State w = StatePublishing \<and> Diagnostic_Validate d = None \<and>
    res = scanGenerationWorkflow (Some (record_failure pf d w)) \<and> moved g w (record_failure pf d w) id g')"
proof -
  let ?P = "\<lambda>w. wf_ID w = workflowID \<and> wf_CandidateRevisionID w = candidateID \<and> wf_State w = StatePublishing"
  let ?f = "record_failure pf d"
  show ?thesis
  proof (cases "blank workflowID \<or> blank candidateID \<or> Diagnostic_Validate d \<noteq> None \<or> \<not> list_ex ?P (g_workflows g)")
    case True
    then show ?thesis
      using assms(2) by (auto simp: RecordGenerationPublicationFinalizerFailure_def Let_def split: if_splits)
  next
    case False
    then obtain w where w: "w \<in> set (g_workflows g)" "?P w" by (auto simp: list_ex_iff)
    let ?t = "map (\<lambda>v. if wf_ID v = wf_ID w then ?f v else v) (g_workflows g)"
    have t: "fst (sql_update ?P ?f (g_workflows g)) = ?t"
      using assms(1) w by (intro sql_update_by_id) auto
    have "RecordGenerationPublicationFinalizerFailure pf workflowID candidateID d g =
        (scanGenerationWorkflow (workflow_row workflowID (g \<lparr>g_workflows := ?t\<rparr>)), g \<lparr>g_workflows := ?t\<rparr>)"
      using False unfolding RecordGenerationPublicationFinalizerFailure_def Let_def record_failure_def [symmetric] t
      by simp
    then have r: "g' = g \<lparr>g_workflows := ?t\<rparr>" "res = scanGenerationWorkflow (workflow_row workflowID (g \<lparr>g_workflows := ?t\<rparr>))"
      using assms(2) by simp_all
    have "workflow_row workflowID (g \<lparr>g_workflows := ?t\<rparr>) = Some (?f w)"
    proof -
      have "sql_row wf_ID (wf_ID w) (fst (sql_update (\<lambda>v. wf_ID v = wf_ID w) ?f (g_workflows g))) = Some (?f w)"
        using sql_row_distinct [OF assms(1) w(1)] by (subst sql_row_update) simp_all
      then show ?thesis using w(2) by (simp add: workflow_row_def sql_update_def)
    qed
    moreover have "moved g w (?f w) id g'"
      using assms(1) w(1) by (intro moved_update_id) (simp_all add: r(1))
    ultimately show ?thesis using w False r(2) by auto
  qed
qed

definition close_workflow :: "platform \<Rightarrow> time \<Rightarrow> Workflow \<Rightarrow> Workflow" where
  "close_workflow pf now w = w \<lparr>wf_State := StatePublished, wf_StateVersion := wf_StateVersion w + 1,
     wf_LastError := [], wf_FinalizerErrorCategory := CategoryUnknown, wf_FinalizerLastError := [],
     wf_FinalizerLastAttemptedAt := None, wf_FinalizerNextRetryAt := None, wf_UpdatedAt := pf_ts pf now\<rparr>"

lemma finalize_effect:
  assumes "distinct (map wf_ID (g_workflows g))"
    "FinalizeGenerationScenarioPublication pf workflowID candidateID contentRevision materializedRevision scenarioType
       tags now g = (Inr u, g')"
  shows "\<exists>w c publication revision report session g1.
    wf_ID w = workflowID \<and> Workflow_Valid w \<and> wf_State w = StatePublishing \<and>
    wf_CandidateRevisionID w = candidateID \<and> candidate_row candidateID g = Some c \<and> now \<noteq> 0 \<and>
    cr_Publication c = Some publication \<and> cr_RunnableRevisionRef c = Some revision \<and>
    cr_VerificationReportRef c = Some report \<and> cr_PublishedAt c = None \<and> cr_ContentRevision c = contentRevision \<and>
    Publication_ValidateIntent (pf_unicode pf) publication = None \<and>
    readAuthoringSessionTx g (src_Ref (wf_Source w)) [] = Inr session \<and>
    (if se_RevisionScenarioID session = []
     then publish_first pf session w publication scenarioType tags contentRevision materializedRevision revision report now g
     else finalizeAuthoringRevisionTx pf session w c publication scenarioType tags materializedRevision now g) = Inr g1 \<and>
    g' = close_publication pf w c publication now g1 \<and>
    g_scenarios g' = g_scenarios g1 \<and> g_revisions g' = g_revisions g1 \<and>
    moved g w (close_workflow pf now w)
      (\<lambda>c. c \<lparr>cr_PublishedAt := Some (pf_ts pf now), cr_UpdatedAt := pf_ts pf now\<rparr>) g'"
proof -
  let ?rest = "\<lambda>(w :: Workflow) (c :: Candidate). case (cr_Publication c, cr_RunnableRevisionRef c, cr_VerificationReportRef c) of
          (Some publication, Some revision, Some report) \<Rightarrow>
            if cr_PublishedAt c \<noteq> None \<or> cr_ContentRevision c \<noteq> contentRevision then Inl candidate_invalid_state
            else check (Publication_ValidateIntent (pf_unicode pf) publication)
              (and_then (readAuthoringSessionTx g (src_Ref (wf_Source w)) []) (\<lambda>session.
               and_then (if se_RevisionScenarioID session = []
                    then publish_first pf session w publication scenarioType tags contentRevision materializedRevision
                           revision report now g
                    else finalizeAuthoringRevisionTx pf session w c publication scenarioType tags materializedRevision now g)
                 (\<lambda>g1. Inr ((), close_publication pf w c publication now g1))))
        | _ \<Rightarrow> Inl candidate_invalid_state"
  let ?P = "\<lambda>w. wf_ID w = workflowID \<and> wf_State w = StatePublishing"
  obtain w c where f: "find ?P (g_workflows g) = Some w" and
    w: "Workflow_Valid w" "wf_CandidateRevisionID w = candidateID" "candidate_row candidateID g = Some c" "now \<noteq> 0"
    and rest: "?rest w c = Inr (u, g')"
    using assms(2) [unfolded FinalizeGenerationScenarioPublication_def]
    by (auto simp: tx_Inr and_then_Inr_iff [of "or_error _ _"] and_then_Inr_iff [of "found _ _"] or_error_Inr found_Inr
        scanGenerationWorkflow_Inr split: if_split_asm)
  obtain publication revision report where refs: "cr_Publication c = Some publication"
    "cr_RunnableRevisionRef c = Some revision" "cr_VerificationReportRef c = Some report"
    using rest by (auto split: option.split_asm)
  have p: "cr_PublishedAt c = None" "cr_ContentRevision c = contentRevision"
    using rest by (auto simp: refs split: if_split_asm)
  obtain session g1 where q: "Publication_ValidateIntent (pf_unicode pf) publication = None"
    "readAuthoringSessionTx g (src_Ref (wf_Source w)) [] = Inr session"
    and g1: "(if se_RevisionScenarioID session = []
     then publish_first pf session w publication scenarioType tags contentRevision materializedRevision revision report now g
     else finalizeAuthoringRevisionTx pf session w c publication scenarioType tags materializedRevision now g) = Inr g1"
    and g': "g' = close_publication pf w c publication now g1"
    using rest by (auto simp: refs p check_Inr and_then_Inr_iff split del: if_split)
  have win: "w \<in> set (g_workflows g)" "?P w" using find_in [OF f] by auto
  have cid: "cr_ID c = wf_CandidateRevisionID w" using candidate_row_in [OF w(3)] w(2) by simp
  have same: "g_workflows g1 = g_workflows g \<and> g_candidates g1 = g_candidates g \<and> g_runnable g1 = g_runnable g"
  proof (cases "se_RevisionScenarioID session = []")
    case True
    then show ?thesis
      using g1 by (auto simp: publish_first_def Let_def and_then_Inr_iff insertPersistedScenarioTx_def
          insertPersistedScenarioRevisionTx_def split: if_splits)
  next
    case False
    then show ?thesis
      using g1 by (auto simp: finalizeAuthoringRevisionTx_def refs Let_def and_then_Inr_iff case_prod_unfold
          insertPersistedScenarioRevisionTx_def supersede_def split: if_splits)
  qed
  have "moved g w (close_workflow pf now w)
      (\<lambda>c. c \<lparr>cr_PublishedAt := Some (pf_ts pf now), cr_UpdatedAt := pf_ts pf now\<rparr>) g'"
    using assms(1) win same cid
    by (intro moved_update) (simp_all add: g' close_publication_def Let_def close_workflow_def)
  moreover have "g_scenarios g' = g_scenarios g1 \<and> g_revisions g' = g_revisions g1"
    by (simp add: g' close_publication_def Let_def)
  ultimately show ?thesis using win w refs p q g1 g' by blast
qed

lemma interrupt_effect:
  assumes "InterruptActiveGenerationAgentRuns pf reason now g = (res, g')"
  shows "g' = g \<or> (g_candidates g' = g_candidates g \<and> g_runnable g' = g_runnable g \<and> now \<noteq> 0 \<and>
    g_workflows g' = map (\<lambda>w. if wf_State w = StateJudging
      then drop_lease (w \<lparr>wf_NextRunAt := pf_ts pf now, wf_UpdatedAt := pf_ts pf now\<rparr>) else w) (g_workflows g))"
  using assms by (auto simp: InterruptActiveGenerationAgentRuns_def Let_def sql_update_def split: if_splits)

end
