(* ===== verification/WorkspaceStore.thy ===== *)
theory WorkspaceStore
  imports GenerationPublish
begin

section \<open>The repository of the generator's workspaces\<close>

text \<open>
  \<open>internal/adapter/postgres/generation_workspace_repository.go\<close> on the table \<open>generator_workspaces\<close> and
  the snapshot pointer of \<open>generation_workflows\<close> (\<open>schema_generation.go\<close>). A workspace moves from pending
  over active and deleting to deleted; while it is active one turn at a time is bound to it. A row is
  returned with the times of the call, and stored with what the database keeps of them.
\<close>

definition workspace_not_found :: go_error where
  "workspace_not_found = Sentinel ErrWorkspaceNotFound ''generator workspace not found''"

definition workspace_busy :: go_error where
  "workspace_busy = Sentinel ErrWorkspaceBusy ''generator workspace is already bound to another turn''"

definition workspace_snapshot_current :: go_error where
  "workspace_snapshot_current = Sentinel ErrWorkspaceSnapshotCurrent ''generator workspace already has a current snapshot''"

definition workspace_not_idle :: go_error where
  "workspace_not_idle = Sentinel ErrWorkspaceNotIdle ''generator workspace is not eligible for idle retirement''"

subsection \<open>Rows\<close>

definition workspace_row :: "string \<Rightarrow> generation_db \<Rightarrow> Workspace option" where
  "workspace_row i g = sql_row ws_ID i (g_workspaces g)"

definition current :: "Workspace \<Rightarrow> bool" where
  "current s \<longleftrightarrow> ws_State s = WorkspacePending \<or> ws_State s = WorkspaceActive"

definition by_time :: "platform \<Rightarrow> (Workspace \<Rightarrow> time) \<Rightarrow> Workspace \<Rightarrow> Workspace \<Rightarrow> bool" where
  "by_time pf at a b \<longleftrightarrow> at a < at b \<or> (at a = at b \<and> db_coll (pf_db pf) (ws_ID a) (ws_ID b))"

text \<open>\<open>GetGeneratorWorkspace\<close> and \<open>GetCurrentGeneratorWorkspace\<close>\<close>

definition GetGeneratorWorkspace :: "string \<Rightarrow> generation_db \<Rightarrow> go_error + Workspace" where
  "GetGeneratorWorkspace i g = found workspace_not_found (workspace_row (trim i) g)"

definition GetCurrentGeneratorWorkspace :: "platform \<Rightarrow> string \<Rightarrow> generation_db \<Rightarrow> go_error + Workspace" where
  "GetCurrentGeneratorWorkspace pf workflowID g =
     found workspace_not_found (newest_workspace pf (\<lambda>s. ws_WorkflowID s = trim workflowID \<and> current s) g)"

text \<open>
  \<open>INSERT ... ON CONFLICT DO NOTHING\<close>: the primary key, the unique PVC name and the partial index on the
  current workspace of a workflow.
\<close>

definition workspace_conflict :: "Workspace \<Rightarrow> Workspace list \<Rightarrow> bool" where
  "workspace_conflict r t \<longleftrightarrow> (\<exists>s\<in>set t. ws_ID s = ws_ID r \<or> ws_PVCName s = ws_PVCName r \<or>
     (current r \<and> current s \<and> ws_WorkflowID s = ws_WorkflowID r))"

definition stored_workspace :: "platform \<Rightarrow> Workspace \<Rightarrow> Workspace" where
  "stored_workspace pf r = r \<lparr>ws_ProvisionDeadline := pf_ts pf (ws_ProvisionDeadline r),
     ws_IdleSince := map_option (pf_ts pf) (ws_IdleSince r), ws_CreatedAt := pf_ts pf (ws_CreatedAt r),
     ws_UpdatedAt := pf_ts pf (ws_UpdatedAt r), ws_DeletedAt := None\<rparr>"

definition insert_workspace :: "platform \<Rightarrow> Workspace \<Rightarrow> generation_db \<Rightarrow> generation_db" where
  "insert_workspace pf r g = (if workspace_conflict r (g_workspaces g) then g
     else g \<lparr>g_workspaces := g_workspaces g @ [stored_workspace pf r]\<rparr>)"

definition other_ownership :: go_error where
  "other_ownership = Msg ''generator workspace already has different ownership''"

text \<open>\<open>clock\<close> is \<open>time.Now()\<close>.\<close>

definition CreateGeneratorWorkspace ::
  "platform \<Rightarrow> time \<Rightarrow> Workspace \<Rightarrow> generation_db \<Rightarrow> (go_error + Workspace) \<times> generation_db"
where
  "CreateGeneratorWorkspace pf clock record g =
     (let r = record \<lparr>ws_State := default_state (ws_State record)\<rparr> in
      case ValidateWorkspace r of
        Some e \<Rightarrow> (Inl e, g)
      | None \<Rightarrow>
          (let r = r \<lparr>ws_CreatedAt := (if ws_CreatedAt r = 0 then clock else ws_CreatedAt r),
                      ws_UpdatedAt := (if ws_UpdatedAt r = 0 then clock else ws_UpdatedAt r)\<rparr>;
               g1 = insert_workspace pf r g
           in ((case GetGeneratorWorkspace (ws_ID r) g1 of
                  Inr existing \<Rightarrow>
                    if ws_WorkflowID existing \<noteq> ws_WorkflowID r \<or> ws_Namespace existing \<noteq> ws_Namespace r \<or>
                       ws_PVCName existing \<noteq> ws_PVCName r
                    then Inl other_ownership else Inr existing
                | Inl e \<Rightarrow>
                    if \<not> err_is e ErrWorkspaceNotFound then Inl e
                    else and_then (GetCurrentGeneratorWorkspace pf (ws_WorkflowID r) g1) (\<lambda>existing.
                      if ws_WorkflowID existing \<noteq> ws_WorkflowID r \<or> ws_Namespace existing \<noteq> ws_Namespace r
                      then Inl other_ownership else Inr existing)), g1)))"

subsection \<open>Turns\<close>

definition GetGeneratorWorkspaceForTurn :: "platform \<Rightarrow> string \<Rightarrow> string \<Rightarrow> generation_db \<Rightarrow> go_error + Workspace" where
  "GetGeneratorWorkspaceForTurn pf workflowID turnID g =
     (if \<not> WorkspaceTurn_Valid workflowID turnID then Inl workspace_turn_lost
      else found workspace_turn_lost (newest_workspace pf (\<lambda>s. ws_WorkflowID s = workflowID \<and>
             ws_State s = WorkspaceActive \<and> ws_ActiveTurnID s = turnID) g))"

definition bind_turn :: "string \<Rightarrow> time \<Rightarrow> Workspace \<Rightarrow> Workspace" where
  "bind_turn turnID at s = s \<lparr>ws_ActiveTurnID := turnID, ws_IdleSince := None, ws_UpdatedAt := at\<rparr>"

definition AcquireGeneratorWorkspaceTurn ::
  "platform \<Rightarrow> string \<Rightarrow> string \<Rightarrow> time \<Rightarrow> generation_db \<Rightarrow> (go_error + Workspace) \<times> generation_db"
where
  "AcquireGeneratorWorkspaceTurn pf workflowID turnID now g = tx g
     (if \<not> WorkspaceTurn_Valid workflowID turnID \<or> now = 0 then Inl workspace_turn_lost
      else and_then (found workspace_not_found (newest_workspace pf (\<lambda>s. ws_WorkflowID s = workflowID \<and>
             ws_State s = WorkspaceActive) g)) (\<lambda>r.
        if ws_ActiveTurnID r \<noteq> [] \<and> ws_ActiveTurnID r \<noteq> turnID then Inl workspace_busy
        else if ws_ActiveTurnID r = []
        then Inr (bind_turn turnID now r, update_workspace (\<lambda>s. ws_ID s = ws_ID r) (bind_turn turnID (pf_ts pf now)) g)
        else Inr (r, g)))"

definition ReleaseGeneratorWorkspaceTurn ::
  "platform \<Rightarrow> string \<Rightarrow> string \<Rightarrow> time \<Rightarrow> generation_db \<Rightarrow> go_error option \<times> generation_db"
where
  "ReleaseGeneratorWorkspaceTurn pf workflowID turnID now g =
     (if \<not> WorkspaceTurn_Valid workflowID turnID \<or> now = 0 then (Some workspace_turn_lost, g)
      else let (t, changed) = sql_update (\<lambda>s. ws_WorkflowID s = workflowID \<and> ws_State s = WorkspaceActive \<and>
                  ws_ActiveTurnID s = turnID) (bind_turn [] (pf_ts pf now)) (g_workspaces g)
           in (if changed = 1 then None else Some workspace_turn_lost, g \<lparr>g_workspaces := t\<rparr>))"

subsection \<open>Provisioning\<close>

definition workspace_sandbox_invalid :: go_error where
  "workspace_sandbox_invalid = Msg ''generator workspace id, sandbox id, and current time are required''"

definition RecordGeneratorWorkspaceSandbox ::
  "platform \<Rightarrow> string \<Rightarrow> string \<Rightarrow> time \<Rightarrow> generation_db \<Rightarrow> go_error option \<times> generation_db"
where
  "RecordGeneratorWorkspaceSandbox pf workspaceID sandboxID now g =
     (if blank workspaceID \<or> blank sandboxID \<or> now = 0 then (Some workspace_sandbox_invalid, g)
      else let (t, changed) = sql_update (\<lambda>s. ws_ID s = workspaceID \<and> ws_State s = WorkspacePending \<and>
                  (ws_SandboxID s = [] \<or> ws_SandboxID s = sandboxID))
                  (\<lambda>s. s \<lparr>ws_SandboxID := sandboxID, ws_UpdatedAt := pf_ts pf now\<rparr>) (g_workspaces g);
               g1 = g \<lparr>g_workspaces := t\<rparr>
           in if changed = 1 then (None, g1)
              else (case GetGeneratorWorkspace workspaceID g1 of
                  Inl e \<Rightarrow> (Some e, g1)
                | Inr r \<Rightarrow> (if ws_State r = WorkspacePending \<and> ws_SandboxID r = sandboxID then None
                    else Some (Msg ''generator workspace cannot record sandbox''), g1)))"

definition ActivateGeneratorWorkspace ::
  "platform \<Rightarrow> string \<Rightarrow> string \<Rightarrow> time \<Rightarrow> generation_db \<Rightarrow> go_error option \<times> generation_db"
where
  "ActivateGeneratorWorkspace pf workspaceID sandboxID now g =
     (if blank workspaceID \<or> blank sandboxID \<or> now = 0 then (Some workspace_sandbox_invalid, g)
      else let (t, changed) = sql_update (\<lambda>s. ws_ID s = workspaceID \<and> current s \<and>
                  (ws_SandboxID s = [] \<or> ws_SandboxID s = sandboxID))
                  (\<lambda>s. s \<lparr>ws_SandboxID := sandboxID, ws_State := WorkspaceActive, ws_UpdatedAt := pf_ts pf now\<rparr>)
                  (g_workspaces g);
               g1 = g \<lparr>g_workspaces := t\<rparr>
           in if changed = 1 then (None, g1)
              else (case GetGeneratorWorkspace workspaceID g1 of
                  Inl e \<Rightarrow> (Some e, g1)
                | Inr r \<Rightarrow> (if ws_State r = WorkspaceActive \<and> ws_SandboxID r = sandboxID then None
                    else Some (Msg ''generator workspace cannot become active''), g1)))"

subsection \<open>Retirement\<close>

definition retire :: "time \<Rightarrow> Workspace \<Rightarrow> Workspace" where
  "retire at s = s \<lparr>ws_State := WorkspaceDeleting, ws_ActiveTurnID := [], ws_IdleSince := None, ws_UpdatedAt := at\<rparr>"

text \<open>The row is returned with \<open>now\<close> and stored with what the database keeps of it.\<close>

definition retire_row :: "platform \<Rightarrow> time \<Rightarrow> Workspace \<Rightarrow> generation_db \<Rightarrow> generation_db" where
  "retire_row pf now r g = update_workspace (\<lambda>s. ws_ID s = ws_ID r) (retire (pf_ts pf now)) g"

definition BeginGeneratorWorkspaceCleanup ::
  "platform \<Rightarrow> string \<Rightarrow> time \<Rightarrow> generation_db \<Rightarrow> (go_error + Workspace) \<times> generation_db"
where
  "BeginGeneratorWorkspaceCleanup pf workspaceID now g = tx g
     (if blank workspaceID \<or> now = 0
      then Inl (Msg ''generator workspace id and current time are required'')
      else and_then (found workspace_not_found (workspace_row workspaceID g)) (\<lambda>r.
        if ws_State r \<noteq> WorkspaceDeleted \<and> ws_State r \<noteq> WorkspaceDeleting
        then Inr (retire now r, retire_row pf now r g) else Inr (r, g)))"

definition RetireCurrentGeneratorWorkspace ::
  "platform \<Rightarrow> string \<Rightarrow> time \<Rightarrow> generation_db \<Rightarrow> (go_error + Workspace) \<times> generation_db"
where
  "RetireCurrentGeneratorWorkspace pf workflowID now g = tx g
     (if blank workflowID \<or> now = 0 then Inl (Msg ''generation workflow id and current time are required'')
      else and_then (found workspace_not_found (newest_workspace pf (\<lambda>s. ws_WorkflowID s = workflowID \<and> current s) g))
        (\<lambda>r. Inr (retire now r, retire_row pf now r g)))"

text \<open>The workflow that a workspace is joined with.\<close>

definition workflow_of :: "generation_db \<Rightarrow> Workspace \<Rightarrow> Workflow option" where
  "workflow_of g s = workflow_row (ws_WorkflowID s) g"

definition joined :: "(Workflow \<Rightarrow> bool) \<Rightarrow> generation_db \<Rightarrow> Workspace \<Rightarrow> bool" where
  "joined P g s \<longleftrightarrow> (case workflow_of g s of None \<Rightarrow> False | Some w \<Rightarrow> P w)"

definition finished :: "Workflow \<Rightarrow> bool" where
  "finished w \<longleftrightarrow> wf_State w \<in> {StatePublished, StateFailed, StateCancelled}"

definition incomplete_workspaces :: "platform \<Rightarrow> generation_db \<Rightarrow> Workspace list" where
  "incomplete_workspaces pf g = sort_by (by_time pf ws_CreatedAt)
     (filter (\<lambda>s. current s \<and> joined (\<lambda>w. \<not> finished w) g s) (g_workspaces g))"

definition RetireIncompleteGeneratorWorkspaces ::
  "platform \<Rightarrow> time \<Rightarrow> generation_db \<Rightarrow> (go_error + Workspace list) \<times> generation_db"
where
  "RetireIncompleteGeneratorWorkspaces pf now g = tx g
     (if now = 0 then Inl (Msg ''current time is required'')
      else let records = incomplete_workspaces pf g
           in Inr (map (retire now) records, foldl (\<lambda>g r. retire_row pf now r g) g records))"

definition MarkGeneratorWorkspaceDeleted ::
  "platform \<Rightarrow> string \<Rightarrow> time \<Rightarrow> generation_db \<Rightarrow> go_error option \<times> generation_db"
where
  "MarkGeneratorWorkspaceDeleted pf workspaceID now g =
     (if blank workspaceID \<or> now = 0 then (Some (Msg ''generator workspace id and current time are required''), g)
      else let (t, changed) = sql_update (\<lambda>s. ws_ID s = workspaceID \<and>
                  (ws_State s = WorkspaceDeleting \<or> ws_State s = WorkspaceDeleted))
                  (\<lambda>s. s \<lparr>ws_State := WorkspaceDeleted, ws_UpdatedAt := pf_ts pf now, ws_DeletedAt := Some (pf_ts pf now)\<rparr>)
                  (g_workspaces g)
           in (if changed \<noteq> 1 then Some workspace_not_found else None, g \<lparr>g_workspaces := t\<rparr>))"

subsection \<open>Lists\<close>

definition ListExpiredPendingGeneratorWorkspaces :: "platform \<Rightarrow> time \<Rightarrow> generation_db \<Rightarrow> go_error + Workspace list" where
  "ListExpiredPendingGeneratorWorkspaces pf now g =
     (if now = 0 then Inl (Msg ''current time is required'')
      else Inr (sort_by (by_time pf ws_ProvisionDeadline)
        (filter (\<lambda>s. ws_State s = WorkspacePending \<and> ws_ProvisionDeadline s \<le> pf_ts pf now) (g_workspaces g))))"

definition ListDeletingGeneratorWorkspaces :: "platform \<Rightarrow> generation_db \<Rightarrow> Workspace list" where
  "ListDeletingGeneratorWorkspaces pf g = sort_by (by_time pf ws_UpdatedAt)
     (filter (\<lambda>s. ws_State s = WorkspaceDeleting) (g_workspaces g))"

definition ListCurrentGeneratorWorkspaces :: "platform \<Rightarrow> generation_db \<Rightarrow> Workspace list" where
  "ListCurrentGeneratorWorkspaces pf g = sort_by (by_time pf ws_CreatedAt) (filter current (g_workspaces g))"

definition ListTerminalGeneratorWorkspaces :: "platform \<Rightarrow> generation_db \<Rightarrow> Workspace list" where
  "ListTerminalGeneratorWorkspaces pf g = sort_by (by_time pf ws_UpdatedAt)
     (filter (\<lambda>s. current s \<and> joined finished g s) (g_workspaces g))"

subsection \<open>Snapshots\<close>

record SnapshotTarget =
  tg_Workspace :: Workspace
  tg_SnapshotDigest :: string

record SnapshotReference =
  sn_WorkflowID :: string
  sn_Digest :: string

definition ListGeneratorWorkspaceSnapshotTargets :: "platform \<Rightarrow> generation_db \<Rightarrow> SnapshotTarget list" where
  "ListGeneratorWorkspaceSnapshotTargets pf g = map
     (\<lambda>s. \<lparr>tg_Workspace = s, tg_SnapshotDigest = (case workflow_of g s of None \<Rightarrow> [] | Some w \<Rightarrow> wf_WorkspaceSnapshotDigest w)\<rparr>)
     (sort_by (by_time pf ws_CreatedAt)
       (filter (\<lambda>s. ws_State s = WorkspaceActive \<and> joined (\<lambda>w. wf_State w = StateGenerating) g s) (g_workspaces g)))"

text \<open>\<open>generationWorkflowSelect ... WHERE id = ? AND state = 'Generating' FOR UPDATE\<close>\<close>

definition locked_generating :: "go_error \<Rightarrow> string \<Rightarrow> generation_db \<Rightarrow> go_error + Workflow" where
  "locked_generating e i g = (case find (\<lambda>w. wf_ID w = i \<and> wf_State w = StateGenerating) (g_workflows g) of
     None \<Rightarrow> Inl e | Some w \<Rightarrow> scanGenerationWorkflow (Some w))"

definition AcquireGeneratorWorkspaceSnapshot ::
  "platform \<Rightarrow> string \<Rightarrow> string \<Rightarrow> time \<Rightarrow> generation_db \<Rightarrow> (go_error + SnapshotTarget) \<times> generation_db"
where
  "AcquireGeneratorWorkspaceSnapshot pf workflowID holderID now g = tx g
     (if blank workflowID \<or> blank holderID \<or> now = 0 then Inl workspace_turn_lost
      else and_then (locked_generating workspace_not_found workflowID g) (\<lambda>w.
        and_then (found workspace_not_found (newest_workspace pf (\<lambda>s. ws_WorkflowID s = wf_ID w \<and>
             ws_State s = WorkspaceActive) g)) (\<lambda>r.
        if ws_ActiveTurnID r \<noteq> [] then Inl workspace_busy
        else if ws_IdleSince r \<noteq> None \<and> wf_WorkspaceSnapshotDigest w \<noteq> [] then Inl workspace_snapshot_current
        else Inr (\<lparr>tg_Workspace = bind_turn holderID now r, tg_SnapshotDigest = wf_WorkspaceSnapshotDigest w\<rparr>,
                  update_workspace (\<lambda>s. ws_ID s = ws_ID r) (bind_turn holderID (pf_ts pf now)) g))))"

definition set_snapshot :: "string \<Rightarrow> time \<Rightarrow> Workflow \<Rightarrow> Workflow" where
  "set_snapshot digest at w = w \<lparr>wf_WorkspaceSnapshotDigest := digest, wf_UpdatedAt := at\<rparr>"

definition PublishGeneratorWorkspaceSnapshot ::
  "platform \<Rightarrow> string \<Rightarrow> string \<Rightarrow> string \<Rightarrow> time \<Rightarrow> generation_db \<Rightarrow> (go_error + unit) \<times> generation_db"
where
  "PublishGeneratorWorkspaceSnapshot pf workspaceID holderID digest now g = tx g
     (if blank workspaceID \<or> blank holderID \<or> \<not> ValidDigest digest \<or> now = 0 then Inl workspace_turn_lost
      else and_then (found workspace_turn_lost (workspace_row workspaceID g)) (\<lambda>owner.
        and_then (locked_generating workspace_turn_lost (ws_WorkflowID owner) g) (\<lambda>w.
        and_then (found workspace_turn_lost (workspace_row workspaceID g)) (\<lambda>r.
        if ws_WorkflowID r \<noteq> wf_ID w \<or> ws_State r \<noteq> WorkspaceActive \<or> ws_ActiveTurnID r \<noteq> holderID
        then Inl workspace_turn_lost
        else let idleSince = (case ws_IdleSince r of
                   Some t \<Rightarrow> if wf_WorkspaceSnapshotDigest w = digest then t else now | None \<Rightarrow> now) in
          Inr ((), update_workspace (\<lambda>s. ws_ID s = ws_ID r \<and> ws_ActiveTurnID s = holderID)
                 (\<lambda>s. s \<lparr>ws_ActiveTurnID := [], ws_IdleSince := Some (pf_ts pf idleSince), ws_UpdatedAt := pf_ts pf now\<rparr>)
               (update_workflow (wf_ID w) (set_snapshot digest (pf_ts pf now)) g))))))"

definition ClearGeneratorWorkspaceSnapshot ::
  "platform \<Rightarrow> string \<Rightarrow> string \<Rightarrow> time \<Rightarrow> generation_db \<Rightarrow> (go_error + bool) \<times> generation_db"
where
  "ClearGeneratorWorkspaceSnapshot pf workflowID expectedDigest now g = tx g
     (if blank workflowID \<or> \<not> ValidDigest expectedDigest \<or> now = 0
      then Inl (Msg ''generator workspace snapshot identity and current time are required'')
      else case find (\<lambda>w. wf_ID w = workflowID \<and> wf_State w = StateGenerating) (g_workflows g) of
        None \<Rightarrow> Inr (False, g)
      | Some row \<Rightarrow> and_then (scanGenerationWorkflow (Some row)) (\<lambda>w.
          if wf_WorkspaceSnapshotDigest w \<noteq> expectedDigest then Inr (False, g)
          else Inr (True, update_workspace (\<lambda>s. ws_WorkflowID s = wf_ID w \<and> ws_State s = WorkspaceActive)
                 (\<lambda>s. s \<lparr>ws_IdleSince := None, ws_UpdatedAt := pf_ts pf now\<rparr>)
               (update_workflow (wf_ID w) (set_snapshot [] (pf_ts pf now)) g))))"

definition RetireIdleGeneratorWorkspace ::
  "platform \<Rightarrow> string \<Rightarrow> string \<Rightarrow> time \<Rightarrow> time \<Rightarrow> generation_db \<Rightarrow> (go_error + Workspace) \<times> generation_db"
where
  "RetireIdleGeneratorWorkspace pf workspaceID expectedDigest staleBefore now g = tx g
     (if blank workspaceID \<or> \<not> ValidDigest expectedDigest \<or> staleBefore = 0 \<or> now = 0 then Inl workspace_not_idle
      else and_then (found workspace_not_idle (workspace_row workspaceID g)) (\<lambda>owner.
        and_then (locked_generating workspace_not_idle (ws_WorkflowID owner) g) (\<lambda>w.
        and_then (found workspace_not_idle (workspace_row workspaceID g)) (\<lambda>r.
        if ws_WorkflowID r \<noteq> wf_ID w \<or> wf_WorkspaceSnapshotDigest w \<noteq> expectedDigest \<or>
           ws_State r \<noteq> WorkspaceActive \<or> ws_ActiveTurnID r \<noteq> [] \<or>
           (case ws_IdleSince r of None \<Rightarrow> True | Some t \<Rightarrow> staleBefore < t)
        then Inl workspace_not_idle
        else Inr (retire now r, retire_row pf now r g)))))"

definition ListGeneratorWorkspaceSnapshotReferences :: "platform \<Rightarrow> generation_db \<Rightarrow> SnapshotReference list" where
  "ListGeneratorWorkspaceSnapshotReferences pf g =
     map (\<lambda>w. \<lparr>sn_WorkflowID = wf_ID w, sn_Digest = wf_WorkspaceSnapshotDigest w\<rparr>)
       (sort_by (\<lambda>a b. db_coll (pf_db pf) (wf_ID a) (wf_ID b))
         (filter (\<lambda>w. wf_WorkspaceSnapshotDigest w \<noteq> []) (g_workflows g)))"

end
