(* ===== verification/GenerationLifecycle.thy ===== *)
theory GenerationLifecycle
  imports GenerationFacts WorkspaceStore
begin

section \<open>The lifecycle of a workflow\<close>

text \<open>
  The abstract state machine that \<open>workflow.go\<close> describes, the steps of the database, and the invariant
  that ties a workflow's state to the outputs recorded on its candidate. A step is a method that writes
  workflows, candidates or receipts, from \<open>generation_repository.go\<close> or
  \<open>generation_workspace_repository.go\<close>. Other transactions may change sessions, plans, runs, workspaces,
  scenarios and revisions at any time; the worker's repository changes its own tables by its own steps.
\<close>

subsection \<open>The specification\<close>

type_synonym lifecycle_map = "string \<Rightarrow> (WorkflowState \<times> int \<times> string) option"

definition allowed :: "WorkflowState \<Rightarrow> WorkflowState \<Rightarrow> bool" where
  "allowed s t \<longleftrightarrow> (s, t) \<in> {(StateJudging, StateMaterializingArtifact), (StateJudging, StateGenerating),
     (StateJudging, StateFailed), (StateMaterializingArtifact, StateVerifying),
     (StateMaterializingArtifact, StateFailed), (StateVerifying, StateNeedsAuthorReview),
     (StateVerifying, StateGenerating), (StateVerifying, StateFailed), (StateNeedsAuthorReview, StatePublishing),
     (StateNeedsAuthorReview, StateGenerating), (StatePublishing, StatePublished)} \<or>
     (t = StateCancelled \<and> \<not> WorkflowState_Terminal s)"

text \<open>
  A workflow is a state, a version and a candidate. Every transition increments the version, except
  that a deterministic failure of the publication finalizer does not.
\<close>

inductive lifecycle_step :: "lifecycle_map \<Rightarrow> lifecycle_map \<Rightarrow> bool" where
  stay: "lifecycle_step m m"
| start: "m i = None \<Longrightarrow> lifecycle_step m (m(i \<mapsto> (StateGenerating, 1, [])))"
| submit: "m i = Some (StateGenerating, v, c) \<Longrightarrow> d \<noteq> [] \<Longrightarrow> (\<forall>j t u. m j \<noteq> Some (t, u, d)) \<Longrightarrow>
    lifecycle_step m (m(i \<mapsto> (StateJudging, v + 1, d)))"
| advance: "m i = Some (s, v, c) \<Longrightarrow> allowed s t \<Longrightarrow> lifecycle_step m (m(i \<mapsto> (t, v + 1, c)))"
| give_up: "m i = Some (StatePublishing, v, c) \<Longrightarrow> lifecycle_step m (m(i \<mapsto> (StateFailed, v, c)))"

definition lifecycle :: "generation_db \<Rightarrow> lifecycle_map" where
  "lifecycle g i = map_option (\<lambda>w. (wf_State w, wf_StateVersion w, wf_CandidateRevisionID w)) (workflow_row i g)"

lemma terminal_not_allowed: "WorkflowState_Terminal s \<Longrightarrow> \<not> allowed s t"
  by (auto simp: allowed_def WorkflowState_Terminal_def)

lemma lifecycle_step_row:
  assumes "lifecycle_step m m'" "m i = Some (s, v, c)"
  shows "\<exists>s' v' c'. m' i = Some (s', v', c') \<and> v \<le> v' \<and> (WorkflowState_Terminal s \<longrightarrow> (s', v', c') = (s, v, c)) \<and>
    (v' = v \<longrightarrow> (s' = s \<or> (s = StatePublishing \<and> s' = StateFailed)) \<and> c' = c)"
  using assms
proof (cases rule: lifecycle_step.cases)
  case (submit j v2 c2 d)
  then show ?thesis
    using assms(2) by (cases "i = j") (simp_all add: WorkflowState_Terminal_def)
next
  case (advance j s2 v2 c2 t)
  then show ?thesis
    using assms(2) terminal_not_allowed [of s2 t] by (cases "i = j") auto
next
  case (give_up j v2 c2)
  then show ?thesis
    using assms(2) by (cases "i = j") (simp_all add: WorkflowState_Terminal_def)
qed auto

lemma lifecycle_steps_row:
  assumes "lifecycle_step\<^sup>*\<^sup>* m m'" "m i = Some (s, v, c)"
  shows "\<exists>s' v' c'. m' i = Some (s', v', c') \<and> v \<le> v' \<and> (WorkflowState_Terminal s \<longrightarrow> (s', v', c') = (s, v, c)) \<and>
    (v' = v \<longrightarrow> (s' = s \<or> (s = StatePublishing \<and> s' = StateFailed)) \<and> c' = c)"
  using assms(1)
proof (induction rule: rtranclp_induct)
  case base
  then show ?case using assms(2) by auto
next
  case (step y z)
  then obtain s1 v1 c1 where y: "y i = Some (s1, v1, c1)" "v \<le> v1"
    "WorkflowState_Terminal s \<longrightarrow> (s1, v1, c1) = (s, v, c)"
    "v1 = v \<longrightarrow> (s1 = s \<or> (s = StatePublishing \<and> s1 = StateFailed)) \<and> c1 = c"
    by blast
  obtain s2 v2 c2 where z: "z i = Some (s2, v2, c2)" "v1 \<le> v2" "WorkflowState_Terminal s1 \<longrightarrow> (s2, v2, c2) = (s1, v1, c1)"
    "v2 = v1 \<longrightarrow> (s2 = s1 \<or> (s1 = StatePublishing \<and> s2 = StateFailed)) \<and> c2 = c1"
    using lifecycle_step_row [OF step(2) y(1)] by blast
  show ?case
  proof (intro exI conjI impI)
    show "z i = Some (s2, v2, c2)" by (rule z(1))
    show "v \<le> v2" using y z by simp
    show "(s2, v2, c2) = (s, v, c)" if "WorkflowState_Terminal s" using that y z by simp
    assume e: "v2 = v"
    then have "v1 = v" "v2 = v1" using y z by simp_all
    then show "s2 = s \<or> (s = StatePublishing \<and> s2 = StateFailed)" "c2 = c"
      using y z by (auto simp: WorkflowState_Terminal_def)
  qed
qed

subsection \<open>Steps of the database\<close>

definition others :: "generation_db \<Rightarrow> generation_db \<Rightarrow> bool" where
  "others g g' \<longleftrightarrow> (\<exists>a r w s p c v. g' = g \<lparr>g_agent_sessions := a, g_runs := r, g_workspaces := w, g_sessions := s,
     g_plans := p, g_scenarios := c, g_revisions := v\<rparr>)"

inductive generation_step :: "platform \<Rightarrow> codec \<Rightarrow> decoders \<Rightarrow> generation_db \<Rightarrow> generation_db \<Rightarrow> bool" for pf cd dc where
  create: "\<not> blank newID \<Longrightarrow> seconds 1 \<le> now \<Longrightarrow>
    generation_step pf cd dc g (snd (CreateGenerationWorkflow pf newID s user confirmation now g))"
| submit: "cr_ParentCandidateID revision = [] \<Longrightarrow> seconds 1 \<le> now \<Longrightarrow>
    generation_step pf cd dc g (snd (SubmitGenerationCandidate pf s user submission revision now g))"
| claim: "seconds 1 \<le> now \<Longrightarrow>
    generation_step pf cd dc g (snd (ClaimGenerationAgentWorkflow pf locked newID serverID ttl now g))"
| renew: "seconds 1 \<le> now \<Longrightarrow> generation_step pf cd dc g (snd (RenewGenerationLease pf c ttl now g))"
| start_run: "seconds 1 \<le> now \<Longrightarrow> generation_step pf cd dc g (snd (StartGenerationAgentRun pf c input now g))"
| retry_run: "seconds 1 \<le> now \<Longrightarrow> generation_step pf cd dc g (snd (RetryGenerationAgentRun pf c runID message now g))"
| interrupt: "seconds 1 \<le> now \<Longrightarrow> generation_step pf cd dc g (snd (InterruptActiveGenerationAgentRuns pf reason now g))"
| judge: "seconds 1 \<le> now \<Longrightarrow>
    generation_step pf cd dc g (snd (FinalizeGenerationJudgement pf c runID approved feedback now g))"
| artifact_failure: "seconds 1 \<le> now \<Longrightarrow>
    generation_step pf cd dc g (snd (ReportGenerationArtifactFailure pf c expected failure now g))"
| fail_runnable: "seconds 1 \<le> now \<Longrightarrow>
    generation_step pf cd dc g (snd (FailRunnableGenerationWorkflow pf i message now g))"
| materialized: "seconds 1 \<le> now \<Longrightarrow>
    generation_step pf cd dc g (snd (MarkGenerationCandidateMaterialized pf i reference now g))"
| verified: "seconds 1 \<le> now \<Longrightarrow>
    generation_step pf cd dc g (snd (MarkGenerationCandidateVerified pf i report now g))"
| confirm: "seconds 1 \<le> now \<Longrightarrow>
    generation_step pf cd dc g (snd (ConfirmGenerationContent pf newID newRev s user content metadata now g))"
| changes: "seconds 1 \<le> now \<Longrightarrow>
    generation_step pf cd dc g (snd (RequestGenerationContentChanges pf s user request now g))"
| cancel: "seconds 1 \<le> now \<Longrightarrow>
    generation_step pf cd dc g (snd (CancelGenerationWorkflow pf s user cancellation now g))"
| record_failure: "seconds 1 \<le> dg_LastAttemptedAt d \<Longrightarrow> (\<forall>t. dg_NextRetryAt d = Some t \<longrightarrow> seconds 1 \<le> t) \<Longrightarrow>
    generation_step pf cd dc g (snd (RecordGenerationPublicationFinalizerFailure pf i k d g))"
| finalize: "seconds 1 \<le> now \<Longrightarrow>
    generation_step pf cd dc g (snd (FinalizeGenerationScenarioPublication pf i k contentRevision materializedRevision
      scenarioType tags now g))"
| publish_snapshot: "seconds 1 \<le> now \<Longrightarrow>
    generation_step pf cd dc g (snd (PublishGeneratorWorkspaceSnapshot pf workspaceID holder digest now g))"
| clear_snapshot: "seconds 1 \<le> now \<Longrightarrow>
    generation_step pf cd dc g (snd (ClearGeneratorWorkspaceSnapshot pf i digest now g))"
| runnable: "store_step cd (pf_db pf) dc (g_runnable g) st \<Longrightarrow> generation_step pf cd dc g (g \<lparr>g_runnable := st\<rparr>)"
| other: "others g g' \<Longrightarrow> generation_step pf cd dc g g'"

text \<open>Timestamps of a second or later keep a value that is not the zero time when they are stored.\<close>

definition sane_clock :: "platform \<Rightarrow> bool" where
  "sane_clock pf \<longleftrightarrow> (\<forall>t. seconds 1 \<le> t \<longrightarrow> 0 < pf_ts pf t)"

subsection \<open>Valid workflows\<close>

definition finalizer_ok :: "Workflow \<Rightarrow> bool" where
  "finalizer_ok w \<longleftrightarrow>
     (if wf_FinalizerErrorCategory w = CategoryUnknown
      then wf_FinalizerLastError w = [] \<and> wf_FinalizerLastAttemptedAt w = None \<and> wf_FinalizerNextRetryAt w = None
      else Diagnostic_Validate \<lparr>dg_Category = wf_FinalizerErrorCategory w, dg_LastError = wf_FinalizerLastError w,
             dg_LastAttemptedAt = valueOrZero (wf_FinalizerLastAttemptedAt w),
             dg_NextRetryAt = wf_FinalizerNextRetryAt w\<rparr> = None)"

lemma Workflow_Valid_iff:
  "Workflow_Valid w \<longleftrightarrow> \<not> blank (wf_ID w) \<and> Source_Valid (wf_Source w) \<and> \<not> blank (wf_SourceRevision w) \<and>
     WorkflowState_Valid (wf_State w) \<and> 1 \<le> wf_StateVersion w \<and>
     (wf_WorkspaceSnapshotDigest w = [] \<or> ValidDigest (wf_WorkspaceSnapshotDigest w)) \<and>
     (\<not> blank (wf_AgentLeaseOwner w) \<longleftrightarrow> wf_AgentLeaseExpiresAt w \<noteq> None) \<and>
     (\<not> blank (wf_AgentLeaseOwner w) \<longrightarrow> wf_State w = StateJudging) \<and>
     wf_AgentLeaseExpiresAt w \<noteq> Some 0 \<and> finalizer_ok w"
proof -
  have "WorkflowState_AgentState s \<longleftrightarrow> s = StateJudging" for s
    by (cases s) (simp_all add: WorkflowState_AgentState_def)
  then show ?thesis by (auto simp: Workflow_Valid_def Let_def finalizer_ok_def)
qed

lemma finalizer_ok_cong:
  "wf_FinalizerErrorCategory v = wf_FinalizerErrorCategory w \<Longrightarrow> wf_FinalizerLastError v = wf_FinalizerLastError w \<Longrightarrow>
   wf_FinalizerLastAttemptedAt v = wf_FinalizerLastAttemptedAt w \<Longrightarrow> wf_FinalizerNextRetryAt v = wf_FinalizerNextRetryAt w \<Longrightarrow>
   finalizer_ok v = finalizer_ok w"
  by (simp add: finalizer_ok_def)

lemma move_finalizer [simp]: "finalizer_ok (move_workflow s e at w) = finalizer_ok w"
  by (rule finalizer_ok_cong) (simp_all add: move_workflow_def)

lemma drop_finalizer [simp]: "finalizer_ok (drop_lease w) = finalizer_ok w"
  by (rule finalizer_ok_cong) (simp_all add: drop_lease_def)

lemma snapshot_simps [simp]:
  "wf_WorkspaceSnapshotDigest (move_workflow s e at w) = wf_WorkspaceSnapshotDigest w"
  "wf_WorkspaceSnapshotDigest (drop_lease w) = wf_WorkspaceSnapshotDigest w"
  by (simp_all add: move_workflow_def drop_lease_def)

lemma blank_Nil [simp]: "blank []"
  by (simp add: blank_def)

lemma valid_drop_move: "Workflow_Valid w \<Longrightarrow> WorkflowState_Valid s \<Longrightarrow> Workflow_Valid (drop_lease (move_workflow s e at w))"
  by (simp add: Workflow_Valid_iff)

lemma valid_move:
  "Workflow_Valid w \<Longrightarrow> wf_State w \<noteq> StateJudging \<Longrightarrow> WorkflowState_Valid s \<Longrightarrow> Workflow_Valid (move_workflow s e at w)"
  by (auto simp: Workflow_Valid_iff)

lemma valid_states [simp]:
  "WorkflowState_Valid StateGenerating" "WorkflowState_Valid StateJudging" "WorkflowState_Valid StateMaterializingArtifact"
  "WorkflowState_Valid StateVerifying" "WorkflowState_Valid StateNeedsAuthorReview" "WorkflowState_Valid StatePublishing"
  "WorkflowState_Valid StatePublished" "WorkflowState_Valid StateFailed" "WorkflowState_Valid StateCancelled"
  by (simp_all add: WorkflowState_Valid_def)

subsection \<open>The invariant\<close>

fun stage :: "WorkflowState \<Rightarrow> nat" where
  "stage StateJudging = 1"
| "stage StateMaterializingArtifact = 2"
| "stage StateVerifying = 3"
| "stage StateNeedsAuthorReview = 4"
| "stage StatePublishing = 5"
| "stage StatePublished = 6"
| "stage _ = 0"

definition built :: "generation_db \<Rightarrow> Candidate \<Rightarrow> bool" where
  "built g c \<longleftrightarrow> (case cr_RunnableRevisionRef c of None \<Rightarrow> False
     | Some r \<Rightarrow> validateGenerationRunnableRevisionTx g c r = None)"

definition passed :: "generation_db \<Rightarrow> Candidate \<Rightarrow> bool" where
  "passed g c \<longleftrightarrow> (case (cr_RunnableRevisionRef c, cr_VerificationReportRef c) of
     (Some r, Some v) \<Rightarrow> validateGenerationVerificationReportTx g r v = Inr True | _ \<Rightarrow> False)"

definition intended :: "platform \<Rightarrow> Candidate \<Rightarrow> bool" where
  "intended pf c \<longleftrightarrow> (case cr_Publication c of None \<Rightarrow> False
     | Some p \<Rightarrow> Publication_ValidateIntent (pf_unicode pf) p = None \<and> pb_CandidateRevisionID p = cr_ID c)"

definition stage_ok :: "platform \<Rightarrow> generation_db \<Rightarrow> Workflow \<Rightarrow> Candidate \<Rightarrow> bool" where
  "stage_ok pf g w c \<longleftrightarrow>
     cr_Source c = wf_Source w \<and> cr_SourceRevision c = wf_SourceRevision w \<and> cr_Failure c = None \<and>
     (2 \<le> stage (wf_State w) \<longrightarrow> \<not> blank (cr_JudgeRunID c)) \<and>
     (3 \<le> stage (wf_State w) \<longrightarrow> built g c) \<and>
     (4 \<le> stage (wf_State w) \<longrightarrow> passed g c) \<and>
     (5 \<le> stage (wf_State w) \<longrightarrow> intended pf c) \<and>
     (6 \<le> stage (wf_State w) \<longrightarrow> cr_PublishedAt c \<noteq> None)"

definition workflow_ok :: "platform \<Rightarrow> generation_db \<Rightarrow> Workflow \<Rightarrow> bool" where
  "workflow_ok pf g w \<longleftrightarrow> Workflow_Valid w \<and>
     (wf_CandidateRevisionID w = [] \<or> wf_CandidateRevisionID w \<in> cr_ID ` set (g_candidates g)) \<and>
     (1 \<le> stage (wf_State w) \<longrightarrow> wf_CandidateRevisionID w \<noteq> [] \<and>
        (\<forall>c\<in>set (g_candidates g). cr_ID c = wf_CandidateRevisionID w \<longrightarrow> stage_ok pf g w c))"

definition generation_ok :: "platform \<Rightarrow> generation_db \<Rightarrow> bool" where
  "generation_ok pf g \<longleftrightarrow> distinct (map wf_ID (g_workflows g)) \<and> distinct (map cr_ID (g_candidates g)) \<and>
     (\<forall>w\<in>set (g_workflows g). workflow_ok pf g w) \<and>
     (\<forall>v\<in>set (g_workflows g). \<forall>w\<in>set (g_workflows g).
        wf_CandidateRevisionID v = wf_CandidateRevisionID w \<and> wf_CandidateRevisionID v \<noteq> [] \<longrightarrow> v = w)"

lemma generation_ok_distinct: "generation_ok pf g \<Longrightarrow> distinct (map wf_ID (g_workflows g))"
  by (simp add: generation_ok_def)

lemma generation_ok_valid: "generation_ok pf g \<Longrightarrow> w \<in> set (g_workflows g) \<Longrightarrow> Workflow_Valid w"
  by (simp add: generation_ok_def workflow_ok_def)

lemma stage_ok_same_store: "g_runnable g' = g_runnable g \<Longrightarrow> stage_ok pf g' w c = stage_ok pf g w c"
  by (simp add: stage_ok_def built_def passed_def validateGenerationRunnableRevisionTx_def
      validateGenerationVerificationReportTx_def cong: option.case_cong)

lemma candidate_of:
  assumes "generation_ok pf g" "w \<in> set (g_workflows g)" "1 \<le> stage (wf_State w)"
  obtains c where "c \<in> set (g_candidates g)" "cr_ID c = wf_CandidateRevisionID w" "stage_ok pf g w c"
    "candidate_row (wf_CandidateRevisionID w) g = Some c"
proof -
  have ok: "workflow_ok pf g w" "distinct (map cr_ID (g_candidates g))" using assms by (simp_all add: generation_ok_def)
  have "\<exists>c\<in>set (g_candidates g). cr_ID c = wf_CandidateRevisionID w \<and> stage_ok pf g w c"
    using ok(1) assms(3) by (auto simp: workflow_ok_def)
  then obtain c where c: "c \<in> set (g_candidates g)" "cr_ID c = wf_CandidateRevisionID w" "stage_ok pf g w c" by blast
  have "candidate_row (wf_CandidateRevisionID w) g = Some c"
    using sql_row_distinct [OF ok(2) c(1)] by (simp add: candidate_row_def c(2))
  with c show ?thesis by (rule that)
qed

text \<open>A move keeps the invariant when the new row and the new candidate agree.\<close>

lemma moved_ok:
  assumes ok: "generation_ok pf g" and m: "moved g w w' h g'"
    and new: "Workflow_Valid w'" "wf_CandidateRevisionID w' = wf_CandidateRevisionID w" "\<And>c. cr_ID (h c) = cr_ID c"
    and has: "1 \<le> stage (wf_State w') \<Longrightarrow> wf_CandidateRevisionID w \<noteq> []"
    and stage: "\<And>c. c \<in> set (g_candidates g) \<Longrightarrow> cr_ID c = wf_CandidateRevisionID w \<Longrightarrow> 1 \<le> stage (wf_State w') \<Longrightarrow>
      stage_ok pf g w' (h c)"
  shows "generation_ok pf g'"
proof -
  have w: "w \<in> set (g_workflows g)" "wf_ID w' = wf_ID w" and run: "g_runnable g' = g_runnable g"
    and wfs: "g_workflows g' = map (\<lambda>v. if wf_ID v = wf_ID w then w' else v) (g_workflows g)"
    and cands: "g_candidates g' = map (\<lambda>c. if cr_ID c = wf_CandidateRevisionID w then h c else c) (g_candidates g)"
    using m by (auto simp: moved_def)
  have d: "distinct (map wf_ID (g_workflows g))" "distinct (map cr_ID (g_candidates g))"
    and each: "\<And>v. v \<in> set (g_workflows g) \<Longrightarrow> workflow_ok pf g v"
    and sep: "\<And>u v. u \<in> set (g_workflows g) \<Longrightarrow> v \<in> set (g_workflows g) \<Longrightarrow>
      wf_CandidateRevisionID u = wf_CandidateRevisionID v \<Longrightarrow> wf_CandidateRevisionID u \<noteq> [] \<Longrightarrow> u = v"
    using ok by (auto simp: generation_ok_def)
  have ids: "map wf_ID (g_workflows g') = map wf_ID (g_workflows g)" using w(2) by (simp add: wfs comp_def)
  have cids: "map cr_ID (g_candidates g') = map cr_ID (g_candidates g)" by (simp add: cands comp_def new(3))
  then have cset: "cr_ID ` set (g_candidates g') = cr_ID ` set (g_candidates g)" by (metis list.set_map)
  have mem: "v \<in> set (g_workflows g') \<longleftrightarrow> v = w' \<or> (v \<in> set (g_workflows g) \<and> v \<noteq> w)" for v
    using w same_workflow [OF d(1)] m unfolding wfs by (auto simp: image_iff)
  have each': "workflow_ok pf g' v" if v: "v \<in> set (g_workflows g')" for v
  proof (cases "v = w'")
    case True
    have in_cands: "wf_CandidateRevisionID w = [] \<or> wf_CandidateRevisionID w \<in> cr_ID ` set (g_candidates g)"
      using each [OF w(1)] by (simp add: workflow_ok_def)
    show ?thesis unfolding workflow_ok_def cset True new(2)
    proof (intro conjI impI ballI)
      fix c assume s: "1 \<le> stage (wf_State w')" and "c \<in> set (g_candidates g')" and c: "cr_ID c = wf_CandidateRevisionID w"
      then obtain c0 where c0: "c0 \<in> set (g_candidates g)" "c = (if cr_ID c0 = wf_CandidateRevisionID w then h c0 else c0)"
        by (auto simp: cands)
      then have "cr_ID c0 = wf_CandidateRevisionID w" using c new(3) by (simp split: if_splits)
      then show "stage_ok pf g' w' c" using stage [OF c0(1)] s c0(2) by (simp add: stage_ok_same_store [OF run])
    qed (use new(1) has in_cands in simp_all)
  next
    case False
    then have v': "v \<in> set (g_workflows g)" "v \<noteq> w" using v mem by auto
    show ?thesis unfolding workflow_ok_def cset
    proof (intro conjI impI ballI)
      show "Workflow_Valid v" "wf_CandidateRevisionID v = [] \<or> wf_CandidateRevisionID v \<in> cr_ID ` set (g_candidates g)"
        using each [OF v'(1)] by (simp_all add: workflow_ok_def)
      assume s: "1 \<le> stage (wf_State v)"
      then show ne: "wf_CandidateRevisionID v \<noteq> []" using each [OF v'(1)] by (simp add: workflow_ok_def)
      fix c assume "c \<in> set (g_candidates g')" and c: "cr_ID c = wf_CandidateRevisionID v"
      moreover have "wf_CandidateRevisionID v \<noteq> wf_CandidateRevisionID w" using sep [OF v'(1) w(1)] v'(2) ne by blast
      ultimately have "c \<in> set (g_candidates g)" by (auto simp: cands new(3) split: if_splits)
      then show "stage_ok pf g' v c"
        using each [OF v'(1)] s c by (simp add: workflow_ok_def stage_ok_same_store [OF run])
    qed
  qed
  have sep': "u = v" if u: "u \<in> set (g_workflows g')" and v: "v \<in> set (g_workflows g')"
    and e: "wf_CandidateRevisionID u = wf_CandidateRevisionID v" "wf_CandidateRevisionID u \<noteq> []" for u v
  proof -
    consider "u = w'" "v = w'" | "u = w'" "v \<in> set (g_workflows g)" "v \<noteq> w"
      | "v = w'" "u \<in> set (g_workflows g)" "u \<noteq> w" | "u \<in> set (g_workflows g)" "v \<in> set (g_workflows g)"
      using u v by (auto simp: mem)
    then show ?thesis
    proof cases
      case 2
      then show ?thesis using sep [OF w(1), of v] e new(2) by simp
    next
      case 3
      then show ?thesis using sep [OF w(1), of u] e new(2) by simp
    next
      case 4
      then show ?thesis using sep e by blast
    qed simp
  qed
  show ?thesis using d each' sep' by (auto simp: generation_ok_def ids cids)
qed

subsection \<open>The abstract view of a move\<close>

lemma lifecycle_replaced:
  assumes "distinct (map wf_ID (g_workflows g))" "w \<in> set (g_workflows g)" "wf_ID w' = wf_ID w"
    "g_workflows g' = map (\<lambda>v. if wf_ID v = wf_ID w then w' else v) (g_workflows g)"
  shows "lifecycle g' = (lifecycle g)(wf_ID w \<mapsto> (wf_State w', wf_StateVersion w', wf_CandidateRevisionID w'))"
    "lifecycle g (wf_ID w) = Some (wf_State w, wf_StateVersion w, wf_CandidateRevisionID w)"
proof -
  have m: "w \<in> set (g_workflows g)" "wf_ID w' = wf_ID w"
    "g_workflows g' = fst (sql_update (\<lambda>v. wf_ID v = wf_ID w) (\<lambda>v. if wf_ID v = wf_ID w then w' else v) (g_workflows g))"
    using assms(2-4) by (auto simp: sql_update_def)
  have key: "wf_ID (if wf_ID v = wf_ID w then w' else v) = wf_ID v" for v using m(2) by simp
  have row: "workflow_row j g' = map_option (\<lambda>v. if wf_ID v = wf_ID w then w' else v) (workflow_row j g)" for j
    unfolding workflow_row_def m(3) by (subst sql_row_update) (auto simp: key option.map_comp comp_def m(2) intro!: option.map_cong)
  have roww: "workflow_row (wf_ID w) g = Some w" using workflow_row_of [OF assms(1) m(1)] .
  show "lifecycle g (wf_ID w) = Some (wf_State w, wf_StateVersion w, wf_CandidateRevisionID w)"
    by (simp add: lifecycle_def roww)
  show "lifecycle g' = (lifecycle g)(wf_ID w \<mapsto> (wf_State w', wf_StateVersion w', wf_CandidateRevisionID w'))"
  proof
    fix j
    show "lifecycle g' j = ((lifecycle g)(wf_ID w \<mapsto> (wf_State w', wf_StateVersion w', wf_CandidateRevisionID w'))) j"
    proof (cases "j = wf_ID w")
      case True
      then show ?thesis by (simp add: lifecycle_def row roww)
    next
      case False
      then have "map_option (\<lambda>v. if wf_ID v = wf_ID w then w' else v) (workflow_row j g) = workflow_row j g"
        using workflow_row_in [of j g] by (cases "workflow_row j g") auto
      then show ?thesis using False by (simp add: lifecycle_def row)
    qed
  qed
qed

lemma lifecycle_moved:
  assumes "distinct (map wf_ID (g_workflows g))" "moved g w w' h g'"
  shows "lifecycle g' = (lifecycle g)(wf_ID w \<mapsto> (wf_State w', wf_StateVersion w', wf_CandidateRevisionID w'))"
    "lifecycle g (wf_ID w) = Some (wf_State w, wf_StateVersion w, wf_CandidateRevisionID w)"
  using assms(2) by (auto simp: moved_def intro!: lifecycle_replaced [OF assms(1)])

lemma advance_step:
  assumes "distinct (map wf_ID (g_workflows g))" "moved g w w' h g'"
    "allowed (wf_State w) (wf_State w')" "wf_StateVersion w' = wf_StateVersion w + 1"
    "wf_CandidateRevisionID w' = wf_CandidateRevisionID w"
  shows "lifecycle_step (lifecycle g) (lifecycle g')"
  using lifecycle_moved [OF assms(1,2)] lifecycle_step.advance [of "lifecycle g" "wf_ID w"] assms(3-5) by simp

lemma stay_step:
  assumes "distinct (map wf_ID (g_workflows g))" "moved g w w' h g'" "wf_State w' = wf_State w"
    "wf_StateVersion w' = wf_StateVersion w" "wf_CandidateRevisionID w' = wf_CandidateRevisionID w"
  shows "lifecycle_step (lifecycle g) (lifecycle g')"
proof -
  have "lifecycle g' = lifecycle g"
    using lifecycle_moved [OF assms(1,2)] assms(3-5) by (simp add: fun_upd_idem)
  then show ?thesis by (simp add: lifecycle_step.stay)
qed

end
