(* ===== verification/GenerationInvariant.thy ===== *)
theory GenerationInvariant
  imports GenerationLifecycle
begin

section \<open>Every method keeps the generation tables valid\<close>

text \<open>
  One lemma per step of \<open>generation_step\<close>: the tables stay valid and the abstract lifecycle makes one
  of its own steps. Both follow from the effect of the method on one workflow and its candidate.
\<close>

subsection \<open>Evidence is never removed\<close>

definition grows :: "store \<Rightarrow> store \<Rightarrow> bool" where
  "grows st st' \<longleftrightarrow> (\<exists>a b c. st_specs st' = st_specs st @ a \<and> st_revisions st' = st_revisions st @ b \<and>
     st_reports st' = st_reports st @ c)"

lemma grows_refl [simp]: "grows st st"
  by (simp add: grows_def)

lemma grows_same:
  "st_specs st' = st_specs st \<Longrightarrow> st_revisions st' = st_revisions st \<Longrightarrow> st_reports st' = st_reports st \<Longrightarrow> grows st st'"
  by (simp add: grows_def)

lemma grows_trans: "grows a b \<Longrightarrow> grows b c \<Longrightarrow> grows a c"
  by (auto simp: grows_def)

lemma sql_insert_append: "\<exists>a. fst (sql_insert key r t) = t @ a"
  by (simp add: sql_insert_def)

lemma grows_specs: "grows st (st \<lparr>st_specs := fst (sql_insert key r (st_specs st))\<rparr>)"
  using sql_insert_append [of key r "st_specs st"] by (simp add: grows_def)

lemma insert_report_append: "insert_report r t = Inr (t', n) \<Longrightarrow> \<exists>a. t' = t @ a"
  by (auto simp: insert_report_def sql_insert_def split: if_splits)

lemma put_revision_grow: "put_revision db m val d st = (res, st') \<Longrightarrow> grows st st'"
  using put_revision_result [of db m val d st res st'] by (auto simp: grows_def)

lemma insert_spec_grow: "insertRunnableSpecTx cd db spec now st = (res, st') \<Longrightarrow> grows st st'"
  using grows_specs by (auto simp: insertRunnableSpecTx_def split: sum.splits)

lemma store_step_grows:
  assumes "store_step cd db dc st st'"
  shows "grows st st'"
  using assms
proof cases
  case (schedule_materialization spec v now)
  obtain r1 st1 where s: "StoreRunnableSpec cd db spec now st = (r1, st1)" by (metis prod.collapse)
  have "grows st st1"
    using insert_spec_grow [of cd db spec now st] s by (auto simp: StoreRunnableSpec_def split: if_splits)
  then show ?thesis
    using schedule_materialization s
    by (auto simp: ScheduleMaterialization_def Let_def grows_def split: sum.splits option.splits)
next
  case (schedule_verification reference v now)
  then show ?thesis using schedule_verification_result [of cd db reference v now st] by (auto simp: grows_def)
next
  case (claim locked owner ttl now)
  then show ?thesis
    using claim_result [of cd db locked owner ttl now st] by (cases "ClaimRunnableAction cd db locked owner ttl now st")
      (auto simp: grows_def)
next
  case (renew c ttl now)
  then show ?thesis using renew_result [of db c ttl now st] by (auto simp: grows_def)
next
  case (report_failure c cls code summary now)
  then show ?thesis using report_result [of db c cls code summary now st] by (auto simp: grows_def)
next
  case (complete_materialization c val now)
  then show ?thesis
    using complete_materialization_result [of cd db c val now st] put_revision_grow by (fastforce simp: grows_def)
next
  case (complete_verification c rep now)
  then show ?thesis
    using complete_verification_result [of cd db dc c rep now st] insert_report_append by (fastforce simp: grows_def)
next
  case (store_source source archive now)
  then show ?thesis
    by (auto simp: StoreRunnableSource_def grows_def Let_def split: if_splits prod.splits option.splits)
next
  case (store_spec spec now)
  then show ?thesis
    using insert_spec_grow [of cd db spec now st] by (cases "insertRunnableSpecTx cd db spec now st")
      (simp add: StoreRunnableSpec_def)
next
  case (store_revision val)
  obtain r1 st1 where s: "insertRunnableSpecTx cd db (rr_Spec (sr_Revision val)) (sr_CreatedAt val) st = (r1, st1)"
    by (metis prod.collapse)
  show ?thesis
  proof (cases r1)
    case (Inl e)
    then show ?thesis using store_revision s by (simp add: StoreRunnableRevision_def split: option.splits)
  next
    case (Inr d)
    obtain r2 st2 where p: "put_revision db ''read stored runnable revision'' val d st1 = (r2, st2)"
      by (metis prod.collapse)
    then show ?thesis
      using store_revision s Inr grows_trans [OF insert_spec_grow [OF s] put_revision_grow [OF p]]
      by (cases r2) (simp_all add: StoreRunnableRevision_def split: option.splits)
  qed
next
  case (store_output c capture now)
  then show ?thesis
    by (auto simp: StoreRunnableExecutionOutput_def grows_def Let_def
        split: sum.splits option.splits prod.splits if_splits)
next
  case (store_report rep)
  then show ?thesis
    using insert_report_append
    by (fastforce simp: StoreVerificationReport_def grows_def split: sum.splits option.splits prod.splits if_splits)
qed

lemma find_append_Some: "find P t = Some x \<Longrightarrow> find P (t @ u) = Some x"
  by (induction t) auto

lemma stage_ok_grows:
  assumes "grows (g_runnable g) (g_runnable g')" "stage_ok pf g w c"
  shows "stage_ok pf g' w c"
proof -
  obtain a b d where t: "st_specs (g_runnable g') = st_specs (g_runnable g) @ a"
    "st_revisions (g_runnable g') = st_revisions (g_runnable g) @ b"
    "st_reports (g_runnable g') = st_reports (g_runnable g) @ d"
    using assms(1) by (auto simp: grows_def)
  have "built g' c" if "built g c"
    using that by (auto simp: built_def validateGenerationRunnableRevisionTx_def sql_row_def t find_append_Some
        split: option.splits)
  moreover have "passed g' c" if "passed g c"
    using that by (auto simp: passed_def validateGenerationVerificationReportTx_def t find_append_Some
        split: option.splits if_splits)
  ultimately show ?thesis using assms(2) by (auto simp: stage_ok_def)
qed

subsection \<open>The good outcome of a step\<close>

definition good :: "platform \<Rightarrow> generation_db \<Rightarrow> generation_db \<Rightarrow> bool" where
  "good pf g g' \<longleftrightarrow> generation_ok pf g' \<and> lifecycle_step (lifecycle g) (lifecycle g')"

lemma good_same: "generation_ok pf g \<Longrightarrow> good pf g g"
  by (simp add: good_def lifecycle_step.stay)

lemma good_tx: "generation_ok pf g \<Longrightarrow> (\<And>v g'. tx g r = (Inr v, g') \<Longrightarrow> good pf g g') \<Longrightarrow> good pf g (snd (tx g r))"
  using tx_cases [of g r] by (metis good_same prod.collapse tx_Inr)

lemma good_advance:
  assumes ok: "generation_ok pf g" and m: "moved g w w' h g'"
    and a: "allowed (wf_State w) (wf_State w')" "wf_StateVersion w' = wf_StateVersion w + 1"
      "wf_CandidateRevisionID w' = wf_CandidateRevisionID w" "Workflow_Valid w'" "\<And>c. cr_ID (h c) = cr_ID c"
    and st: "\<And>c. c \<in> set (g_candidates g) \<Longrightarrow> cr_ID c = wf_CandidateRevisionID w \<Longrightarrow> 1 \<le> stage (wf_State w') \<Longrightarrow>
      stage_ok pf g w c \<Longrightarrow> stage_ok pf g w' (h c)"
  shows "good pf g g'"
proof -
  have w: "w \<in> set (g_workflows g)" and wok: "workflow_ok pf g w" using m ok by (auto simp: moved_def generation_ok_def)
  have up: "1 \<le> stage (wf_State w') \<Longrightarrow> 1 \<le> stage (wf_State w)" using a(1) by (auto simp: allowed_def)
  have "generation_ok pf g'"
  proof (rule moved_ok [OF ok m a(4,3,5)])
    show "wf_CandidateRevisionID w \<noteq> []" if "1 \<le> stage (wf_State w')"
      using wok up [OF that] by (simp add: workflow_ok_def)
    show "stage_ok pf g w' (h c)" if "c \<in> set (g_candidates g)" "cr_ID c = wf_CandidateRevisionID w"
      "1 \<le> stage (wf_State w')" for c
      using wok up [OF that(3)] st [OF that] that(1,2) by (simp add: workflow_ok_def)
  qed
  then show ?thesis
    using advance_step [OF generation_ok_distinct [OF ok] m a(1-3)] by (simp add: good_def)
qed

text \<open>Rows that keep their state, version and candidate, over tables of evidence that only grow.\<close>

lemma good_relabel:
  assumes ok: "generation_ok pf g" and t: "g_workflows g' = map f (g_workflows g)" "g_candidates g' = g_candidates g"
      "grows (g_runnable g) (g_runnable g')"
    and f: "\<And>w. w \<in> set (g_workflows g) \<Longrightarrow> Workflow_Valid (f w)" "\<And>w. wf_ID (f w) = wf_ID w"
      "\<And>w. wf_State (f w) = wf_State w" "\<And>w. wf_StateVersion (f w) = wf_StateVersion w"
      "\<And>w. wf_CandidateRevisionID (f w) = wf_CandidateRevisionID w"
      "\<And>w. wf_Source (f w) = wf_Source w" "\<And>w. wf_SourceRevision (f w) = wf_SourceRevision w"
  shows "good pf g g'"
proof -
  have st: "stage_ok pf g' (f w) c" if "stage_ok pf g w c" for w c
    using stage_ok_grows [OF t(3) that] by (simp add: stage_ok_def f)
  have ids: "map wf_ID (g_workflows g') = map wf_ID (g_workflows g)" by (simp add: t f)
  have "workflow_ok pf g' (f w)" if w: "w \<in> set (g_workflows g)" for w
  proof -
    have "workflow_ok pf g w" using ok w by (simp add: generation_ok_def)
    then show ?thesis using f(1) [OF w] st by (auto simp: workflow_ok_def f t(2))
  qed
  then have each: "\<forall>w\<in>set (g_workflows g'). workflow_ok pf g' w" by (simp add: t(1))
  have sep: "\<forall>v\<in>set (g_workflows g'). \<forall>w\<in>set (g_workflows g').
      wf_CandidateRevisionID v = wf_CandidateRevisionID w \<and> wf_CandidateRevisionID v \<noteq> [] \<longrightarrow> v = w"
    using ok unfolding generation_ok_def t(1) by (metis (no_types, opaque_lifting) f(5) image_iff list.set_map)
  have "generation_ok pf g'"
    using ok each sep by (simp add: generation_ok_def ids t(2))
  moreover have "lifecycle g' = lifecycle g"
  proof
    fix i
    have "sql_row wf_ID i (map f (g_workflows g)) = map_option f (sql_row wf_ID i (g_workflows g))"
      using sql_row_update [of wf_ID f i "\<lambda>_. True" "g_workflows g"] f(2) by (simp add: sql_update_def)
    then show "lifecycle g' i = lifecycle g i"
      by (simp add: lifecycle_def workflow_row_def t option.map_comp comp_def f)
  qed
  ultimately show ?thesis by (simp add: good_def lifecycle_step.stay)
qed

lemma good_frame:
  assumes "generation_ok pf g" "g_workflows g' = g_workflows g" "g_candidates g' = g_candidates g"
    "grows (g_runnable g) (g_runnable g')"
  shows "good pf g g'"
  using assms generation_ok_valid [OF assms(1)] by (intro good_relabel [OF assms(1), where f = id]) simp_all

lemma good_moved_still:
  assumes "generation_ok pf g" "moved g w w' id g'" "Workflow_Valid w'" "wf_State w' = wf_State w"
    "wf_StateVersion w' = wf_StateVersion w" "wf_CandidateRevisionID w' = wf_CandidateRevisionID w"
    "wf_Source w' = wf_Source w" "wf_SourceRevision w' = wf_SourceRevision w"
  shows "good pf g g'"
proof -
  have "generation_ok pf g'"
  proof (rule moved_ok [OF assms(1,2,3,6)])
    have "workflow_ok pf g w" using assms(1,2) by (auto simp: moved_def generation_ok_def)
    then show "1 \<le> stage (wf_State w') \<Longrightarrow> wf_CandidateRevisionID w \<noteq> []"
      "\<And>c. c \<in> set (g_candidates g) \<Longrightarrow> cr_ID c = wf_CandidateRevisionID w \<Longrightarrow> 1 \<le> stage (wf_State w') \<Longrightarrow>
        stage_ok pf g w' (id c)"
      using assms(4,7,8) by (auto simp: workflow_ok_def stage_ok_def)
  qed simp
  then show ?thesis
    using stay_step [OF generation_ok_distinct [OF assms(1)] assms(2,4,5,6)] by (simp add: good_def)
qed

subsection \<open>Judging\<close>

lemma good_claim:
  assumes "generation_ok pf g"
  shows "good pf g (snd (ClaimGenerationAgentWorkflow pf locked newID serverID ttl now g))"
proof -
  obtain res g' where r: "ClaimGenerationAgentWorkflow pf locked newID serverID ttl now g = (res, g')"
    by (metis prod.collapse)
  show ?thesis
    using claim_effect [OF generation_ok_distinct [OF assms] r]
  proof (elim disjE conjE exE)
    fix w assume v: "Workflow_Valid (take_lease pf (trim serverID @ ''-'' @ newID) ttl now w)"
      and m: "moved g w (take_lease pf (trim serverID @ ''-'' @ newID) ttl now w) id g'"
    show ?thesis
      unfolding r snd_conv by (rule good_moved_still [OF assms m v]) (simp_all add: take_lease_def)
  qed (simp add: r good_same [OF assms])
qed

lemma good_renew:
  assumes "generation_ok pf g" "sane_clock pf" "seconds 1 \<le> now"
  shows "good pf g (snd (RenewGenerationLease pf claim ttl now g))"
proof -
  obtain res g' where r: "RenewGenerationLease pf claim ttl now g = (res, g')" by (metis prod.collapse)
  show ?thesis
    using renew_effect [OF generation_ok_distinct [OF assms(1)] r]
  proof (elim disjE conjE exE)
    fix w :: Workflow let ?w = "w \<lparr>wf_AgentLeaseExpiresAt := Some (pf_ts pf (now + ttl)), wf_UpdatedAt := pf_ts pf now\<rparr>"
    assume w: "lease_holds pf claim now w" "moved g w ?w id g'" "0 < ttl"
    have v: "Workflow_Valid w" using w(2) generation_ok_valid [OF assms(1)] by (simp add: moved_def)
    have "wf_State w = StateJudging" "wf_AgentLeaseExpiresAt w \<noteq> None"
      using w(1) by (auto simp: lease_holds_def split: option.splits)
    moreover have "pf_ts pf (now + ttl) \<noteq> 0" using assms(2,3) w(3) by (auto simp: sane_clock_def dest!: spec [of _ "now + ttl"])
    ultimately have "Workflow_Valid ?w"
      using v finalizer_ok_cong [of ?w w] by (simp add: Workflow_Valid_iff)
    then show ?thesis
      unfolding r snd_conv by (intro good_moved_still [OF assms(1) w(2)]) simp_all
  qed (simp add: r good_same [OF assms(1)])
qed

lemma good_start_run:
  assumes "generation_ok pf g"
  shows "good pf g (snd (StartGenerationAgentRun pf claim input now g))"
  unfolding StartGenerationAgentRun_def
proof (rule good_tx [OF assms], unfold StartGenerationAgentRun_def [symmetric])
  fix run g' assume r: "StartGenerationAgentRun pf claim input now g = (Inr run, g')"
  obtain w where w: "lockGenerationAgentClaimTx pf g claim now = Inr w"
    "moved g w (w \<lparr>wf_ActiveAgentRunID := nr_ID input, wf_UpdatedAt := pf_ts pf now\<rparr>) id g'"
    using start_effect [OF generation_ok_distinct [OF assms] r] by blast
  let ?w = "w \<lparr>wf_ActiveAgentRunID := nr_ID input, wf_UpdatedAt := pf_ts pf now\<rparr>"
  have "Workflow_Valid ?w"
    using lock_claim_facts(3) [OF w(1)] finalizer_ok_cong [of ?w w] by (simp add: Workflow_Valid_iff)
  then show "good pf g g'" by (intro good_moved_still [OF assms w(2)]) simp_all
qed

lemma good_retry_run:
  assumes "generation_ok pf g"
  shows "good pf g (snd (RetryGenerationAgentRun pf claim runID message now g))"
  unfolding RetryGenerationAgentRun_def
proof (rule good_tx [OF assms], unfold RetryGenerationAgentRun_def [symmetric])
  fix run g' assume r: "RetryGenerationAgentRun pf claim runID message now g = (Inr run, g')"
  obtain w where w: "lockGenerationAgentClaimTx pf g claim now = Inr w"
    and e: "g' = update_running runID (next_attempt pf message now) g \<or>
      moved g w (drop_lease (w \<lparr>wf_State := StateFailed, wf_StateVersion := wf_StateVersion w + 1,
         wf_LastError := trim message, wf_UpdatedAt := pf_ts pf now\<rparr>)) id g'"
    using retry_effect [OF generation_ok_distinct [OF assms] r] by (metis (no_types, lifting))
  let ?w = "drop_lease (w \<lparr>wf_State := StateFailed, wf_StateVersion := wf_StateVersion w + 1,
         wf_LastError := trim message, wf_UpdatedAt := pf_ts pf now\<rparr>)"
  note lk = lock_claim_facts [OF w]
  have "Workflow_Valid ?w"
    using lk(3) finalizer_ok_cong [of ?w w] by (simp add: Workflow_Valid_iff drop_lease_def)
  then have "moved g w ?w id g' \<Longrightarrow> good pf g g'"
    using lk(4) by (intro good_advance [OF assms, of w ?w id]) (simp_all add: allowed_def)
  then show "good pf g g'"
    using e good_frame [OF assms, of g'] by auto
qed

lemma good_judge:
  assumes "generation_ok pf g"
  shows "good pf g (snd (FinalizeGenerationJudgement pf claim runID approved feedback now g))"
  unfolding FinalizeGenerationJudgement_def
proof (rule good_tx [OF assms], unfold FinalizeGenerationJudgement_def [symmetric])
  fix u g' assume r: "FinalizeGenerationJudgement pf claim runID approved feedback now g = (Inr u, g')"
  obtain w where w: "lockGenerationAgentClaimTx pf g claim now = Inr w" "\<not> blank runID"
    and e: "if approved then
       moved g w (drop_lease (move_workflow StateMaterializingArtifact [] (pf_ts pf now) w))
         (\<lambda>c. c \<lparr>cr_JudgeRunID := runID, cr_UpdatedAt := pf_ts pf now\<rparr>) g'
     else moved g w (drop_lease (move_workflow StateGenerating feedback (pf_ts pf now) w))
       (\<lambda>c. c \<lparr>cr_JudgeRunID := runID, cr_Failure := Some \<lparr>fl_Class = WorkflowFailureArtifact,
          fl_Code = ''JUDGE_REJECT'', fl_Summary = feedback\<rparr>, cr_UpdatedAt := pf_ts pf now\<rparr>) g'"
    using judgement_effect [OF generation_ok_distinct [OF assms] r] by (auto split: if_splits)
  note lk = lock_claim_facts [OF w(1)]
  show "good pf g g'"
  proof (cases approved)
    case True
    with e have m: "moved g w (drop_lease (move_workflow StateMaterializingArtifact [] (pf_ts pf now) w))
         (\<lambda>c. c \<lparr>cr_JudgeRunID := runID, cr_UpdatedAt := pf_ts pf now\<rparr>) g'" by simp
    show ?thesis
      using lk w(2) by (intro good_advance [OF assms m]) (simp_all add: allowed_def valid_drop_move stage_ok_def)
  next
    case False
    with e have m: "moved g w (drop_lease (move_workflow StateGenerating feedback (pf_ts pf now) w))
       (\<lambda>c. c \<lparr>cr_JudgeRunID := runID, cr_Failure := Some \<lparr>fl_Class = WorkflowFailureArtifact,
          fl_Code = ''JUDGE_REJECT'', fl_Summary = feedback\<rparr>, cr_UpdatedAt := pf_ts pf now\<rparr>) g'" by simp
    show ?thesis
      using lk by (intro good_advance [OF assms m]) (simp_all add: allowed_def valid_drop_move)
  qed
qed

lemma good_artifact_failure:
  assumes "generation_ok pf g"
  shows "good pf g (snd (ReportGenerationArtifactFailure pf claim expected failure now g))"
  unfolding ReportGenerationArtifactFailure_def
proof (rule good_tx [OF assms], unfold ReportGenerationArtifactFailure_def [symmetric])
  fix u g' assume r: "ReportGenerationArtifactFailure pf claim expected failure now g = (Inr u, g')"
  obtain w where w: "lockGenerationAgentClaimTx pf g claim now = Inr w"
    and m: "moved g w (drop_lease (move_workflow StateGenerating (fl_Summary failure) (pf_ts pf now) w))
      (\<lambda>c. c \<lparr>cr_Failure := Some failure, cr_UpdatedAt := pf_ts pf now\<rparr>) g'"
    using artifact_failure_effect [OF generation_ok_distinct [OF assms] r] by blast
  note lk = lock_claim_facts [OF w]
  show "good pf g g'"
    using lk by (intro good_advance [OF assms m]) (simp_all add: allowed_def valid_drop_move)
qed

end
