(* ===== verification/GenerationRefinement.thy ===== *)
theory GenerationRefinement
  imports GenerationInvariant
begin

section \<open>The database runs the workflow's state machine\<close>

text \<open>
  The methods of the author and of the workers, and the theorem they add up to: from empty tables,
  every reachable database is valid and its lifecycle is reachable in the abstract machine.
\<close>

subsection \<open>Creating and submitting\<close>

lemma show_int_not_blank: "\<not> blank (show_int n)"
proof -
  have "byte (CHR ''-'') = 45" by code_simp
  then have b: "32 < byte c \<and> byte c < 194" if "is_digit c \<or> c = CHR ''-''" for c
    using that by (auto simp: is_digit_def)
  have first: "space_at (c # s) = 0" if "is_digit c \<or> c = CHR ''-''" for c s
    using b [OF that] by (cases s; cases "tl s") (auto simp: space1_def space2_def space3_def)
  obtain c s where "show_int n = c # s" "is_digit c \<or> c = CHR ''-''"
  proof (cases "n < 0")
    case False
    then show ?thesis using show_nat_digits [of "nat n"] that by (cases "show_nat (nat n)") (auto simp: show_int_def)
  qed (simp add: show_int_def that)
  then show ?thesis using first trim_nonempty by (simp add: blank_def)
qed

lemma good_create:
  assumes ok: "generation_ok pf g" and id: "\<not> blank newID"
  shows "good pf g (snd (CreateGenerationWorkflow pf newID s user confirmation now g))"
  unfolding CreateGenerationWorkflow_def
proof (rule good_tx [OF ok], unfold CreateGenerationWorkflow_def [symmetric])
  fix w g' assume r: "CreateGenerationWorkflow pf newID s user confirmation now g = (Inr w, g')"
  note e = create_effect [OF r]
  show "good pf g g'"
  proof (cases "g_workflows g' = g_workflows g")
    case True
    then show ?thesis using e good_frame [OF ok] by auto
  next
    case False
    let ?n = "stored_workflow pf w"
    have w: "w = new_workflow pf newID s (show_int (sco_PlanRevision confirmation)) now"
      "newID \<notin> wf_ID ` set (g_workflows g)" "g_workflows g' = g_workflows g @ [?n]" "\<not> blank s"
      "g_candidates g' = g_candidates g" "g_runnable g' = g_runnable g"
      using e False by auto
    have n: "wf_ID ?n = newID" "wf_State ?n = StateGenerating" "wf_StateVersion ?n = 1" "wf_CandidateRevisionID ?n = []"
      by (simp_all add: w(1) stored_workflow_def new_workflow_def)
    have "Workflow_Valid ?n"
      using id w(4) show_int_not_blank
      by (simp add: Workflow_Valid_iff w(1) stored_workflow_def new_workflow_def finalizer_ok_def Source_Valid_def SourceKind_Valid_def)
    then have "workflow_ok pf g' ?n" by (simp add: workflow_ok_def n)
    moreover have "workflow_ok pf g' v" if "v \<in> set (g_workflows g)" for v
      using ok that by (simp add: generation_ok_def workflow_ok_def w stage_ok_same_store [OF w(6)])
    ultimately have "generation_ok pf g'"
      using ok w(2) unfolding generation_ok_def w(3) w(5) by (auto simp: n)
    moreover have "lifecycle g' = (lifecycle g)(newID \<mapsto> (StateGenerating, 1, []))"
    proof
      fix i
      have "sql_row wf_ID newID (g_workflows g) = None" using w(2) by (simp add: sql_row_None)
      then show "lifecycle g' i = ((lifecycle g)(newID \<mapsto> (StateGenerating, 1, []))) i"
        by (auto simp: lifecycle_def workflow_row_def w(3) sql_row_append n split: option.splits)
    qed
    moreover have "lifecycle g newID = None"
      using w(2) by (simp add: lifecycle_def workflow_row_def sql_row_None)
    ultimately show ?thesis by (simp add: good_def lifecycle_step.start)
  qed
qed

text \<open>A submission binds a new candidate to one workflow; no other workflow has it.\<close>

lemma good_submitted:
  assumes ok: "generation_ok pf g" and s: "submitted pf submission c now g w g'"
  shows "good pf g g'"
proof -
  let ?w = "(move_workflow StateJudging [] (pf_ts pf now) w) \<lparr>wf_CandidateRevisionID := cr_ID c,
              wf_WorkspaceSnapshotDigest := [], wf_ActiveAgentRunID := []\<rparr>"
  let ?c = "c \<lparr>cr_CreatedAt := pf_ts pf (cr_CreatedAt c), cr_UpdatedAt := pf_ts pf (cr_UpdatedAt c)\<rparr>"
  have w: "w \<in> set (g_workflows g)" "wf_State w = StateGenerating" "Workflow_Valid w" "cr_ID c \<notin> cr_ID ` set (g_candidates g)"
    "cr_Source c = wf_Source w" "cr_SourceRevision c = wf_SourceRevision w" "Candidate_ValidateForCreate c = None"
    "g_candidates g' = g_candidates g @ [?c]" "g_runnable g' = g_runnable g"
    "g_workflows g' = map (\<lambda>v. if wf_ID v = wf_ID w then ?w else v) (g_workflows g)"
    using s by (auto simp: submitted_def)
  have c: "cr_ID c \<noteq> []" "cr_Failure c = None"
    using w(7) by (auto simp: Candidate_ValidateForCreate_def first_error_Cons)
  have d: "distinct (map wf_ID (g_workflows g))" "distinct (map cr_ID (g_candidates g))"
    and each: "\<And>v. v \<in> set (g_workflows g) \<Longrightarrow> workflow_ok pf g v"
    and sep: "\<And>u v. u \<in> set (g_workflows g) \<Longrightarrow> v \<in> set (g_workflows g) \<Longrightarrow>
      wf_CandidateRevisionID u = wf_CandidateRevisionID v \<Longrightarrow> wf_CandidateRevisionID u \<noteq> [] \<Longrightarrow> u = v"
    using ok by (auto simp: generation_ok_def)
  have n: "wf_ID ?w = wf_ID w" "wf_State ?w = StateJudging" "wf_StateVersion ?w = wf_StateVersion w + 1"
    "wf_CandidateRevisionID ?w = cr_ID c" "wf_Source ?w = wf_Source w" "wf_SourceRevision ?w = wf_SourceRevision w"
    by simp_all
  have other: "wf_CandidateRevisionID v \<noteq> cr_ID c" if "v \<in> set (g_workflows g)" for v
  proof -
    have "wf_CandidateRevisionID v = [] \<or> wf_CandidateRevisionID v \<in> cr_ID ` set (g_candidates g)"
      using each [OF that] by (simp add: workflow_ok_def)
    then show ?thesis using w(4) c(1) by metis
  qed
  have "Workflow_Valid ?w"
    using w(2,3) finalizer_ok_cong [of ?w w] by (auto simp: Workflow_Valid_iff move_workflow_def)
  then have new: "workflow_ok pf g' ?w"
    using c w(4-6) by (simp add: workflow_ok_def n w(8) stage_ok_def ball_Un) (metis image_eqI)
  have old: "workflow_ok pf g' v" if "v \<in> set (g_workflows g)" for v
    using each [OF that] other [OF that] by (auto simp: workflow_ok_def w(8) stage_ok_same_store [OF w(9)])
  have mem: "v \<in> set (g_workflows g') \<Longrightarrow> v = ?w \<or> v \<in> set (g_workflows g)" for v
    unfolding w(10) by auto
  have ids: "map wf_ID (g_workflows g') = map wf_ID (g_workflows g)"
    unfolding w(10) by (simp add: comp_def n(1) del: n)
  have sep': "u = v" if u: "u \<in> set (g_workflows g')" "v \<in> set (g_workflows g')"
    "wf_CandidateRevisionID u = wf_CandidateRevisionID v" "wf_CandidateRevisionID u \<noteq> []" for u v
    using mem [OF u(1)] mem [OF u(2)] u(3,4) n(4) other sep by metis
  have "generation_ok pf g'"
    using d w(4) new old mem sep' unfolding generation_ok_def ids w(8) by auto
  moreover have "lifecycle_step (lifecycle g) (lifecycle g')"
  proof -
    note lc = lifecycle_replaced [OF d(1) w(1) n(1) w(10)]
    have "\<forall>j t u. lifecycle g j \<noteq> Some (t, u, cr_ID c)"
    proof (intro allI notI)
      fix j t u assume "lifecycle g j = Some (t, u, cr_ID c)"
      then obtain v where "workflow_row j g = Some v" "wf_CandidateRevisionID v = cr_ID c"
        by (auto simp: lifecycle_def)
      then show False using other [of v] workflow_row_in [of j g v] by simp
    qed
    then show ?thesis using c(1) lc by (simp add: w(2) lifecycle_step.submit)
  qed
  ultimately show ?thesis by (simp add: good_def)
qed

lemma good_submit:
  assumes ok: "generation_ok pf g" and p: "cr_ParentCandidateID revision = []"
  shows "good pf g (snd (SubmitGenerationCandidate pf s user submission revision now g))"
  unfolding SubmitGenerationCandidate_def
proof (rule good_tx [OF ok], unfold SubmitGenerationCandidate_def [symmetric])
  fix c g' assume r: "SubmitGenerationCandidate pf s user submission revision now g = (Inr c, g')"
  show "good pf g g'"
    using submit_effect [OF generation_ok_distinct [OF ok] p r] good_same [OF ok] good_submitted [OF ok] by blast
qed

subsection \<open>Runnable results\<close>

lemma good_fail_runnable:
  assumes ok: "generation_ok pf g"
  shows "good pf g (snd (FailRunnableGenerationWorkflow pf i message now g))"
proof -
  obtain res g' where r: "FailRunnableGenerationWorkflow pf i message now g = (res, g')" by (metis prod.collapse)
  show ?thesis
    using fail_runnable_effect [OF generation_ok_distinct [OF ok] r]
  proof (elim disjE conjE exE)
    fix w :: Workflow let ?w = "w \<lparr>wf_State := StateFailed, wf_StateVersion := wf_StateVersion w + 1,
      wf_LastError := trim message, wf_UpdatedAt := pf_ts pf now\<rparr>"
    assume w: "wf_State w \<in> {StateMaterializingArtifact, StateVerifying}" and m: "moved g w ?w id g'"
    have "Workflow_Valid w" using m generation_ok_valid [OF ok] by (simp add: moved_def)
    then have "Workflow_Valid ?w"
      using w finalizer_ok_cong [of ?w w] by (auto simp: Workflow_Valid_iff)
    then show ?thesis
      unfolding r snd_conv using w by (intro good_advance [OF ok m]) (auto simp: allowed_def)
  qed (simp add: r good_same [OF ok])
qed

lemma validate_revision_cong:
  "cr_ID d = cr_ID c \<Longrightarrow> cr_ContentRevision d = cr_ContentRevision c \<Longrightarrow>
   validateGenerationRunnableRevisionTx g d r = validateGenerationRunnableRevisionTx g c r"
  by (simp add: validateGenerationRunnableRevisionTx_def cong: option.case_cong)

lemma good_materialized:
  assumes ok: "generation_ok pf g"
  shows "good pf g (snd (MarkGenerationCandidateMaterialized pf i reference now g))"
  unfolding MarkGenerationCandidateMaterialized_def
proof (rule good_tx [OF ok], unfold MarkGenerationCandidateMaterialized_def [symmetric])
  fix u g' assume r: "MarkGenerationCandidateMaterialized pf i reference now g = (Inr u, g')"
  obtain w c where w: "Workflow_Valid w" "wf_State w = StateMaterializingArtifact"
    "candidate_row (wf_CandidateRevisionID w) g = Some c" "validateGenerationRunnableRevisionTx g c reference = None"
    and m: "moved g w (w \<lparr>wf_State := StateVerifying, wf_StateVersion := wf_StateVersion w + 1,
        wf_NextRunAt := pf_ts pf now, wf_UpdatedAt := pf_ts pf now\<rparr>)
      (\<lambda>c. c \<lparr>cr_RunnableRevisionRef := Some reference, cr_UpdatedAt := pf_ts pf now\<rparr>) g'"
    using materialized_effect [OF generation_ok_distinct [OF ok] r] by blast
  let ?w = "w \<lparr>wf_State := StateVerifying, wf_StateVersion := wf_StateVersion w + 1,
        wf_NextRunAt := pf_ts pf now, wf_UpdatedAt := pf_ts pf now\<rparr>"
  have v: "Workflow_Valid ?w" using w(1,2) finalizer_ok_cong [of ?w w] by (auto simp: Workflow_Valid_iff)
  have cd: "distinct (map cr_ID (g_candidates g))" using ok by (simp add: generation_ok_def)
  show "good pf g g'"
  proof (rule good_advance [OF ok m])
    fix d assume "d \<in> set (g_candidates g)" "cr_ID d = wf_CandidateRevisionID w" "stage_ok pf g w d"
    moreover from this have "d = c" using same_candidate [OF cd] candidate_row_in [OF w(3)] by simp
    moreover have "validateGenerationRunnableRevisionTx g (c \<lparr>cr_RunnableRevisionRef := Some reference, cr_UpdatedAt := pf_ts pf now\<rparr>) reference = None"
      using w(4) validate_revision_cong [of "c \<lparr>cr_RunnableRevisionRef := Some reference, cr_UpdatedAt := pf_ts pf now\<rparr>" c] by simp
    ultimately show "stage_ok pf g ?w (d \<lparr>cr_RunnableRevisionRef := Some reference, cr_UpdatedAt := pf_ts pf now\<rparr>)"
      using w(2) by (simp add: stage_ok_def built_def)
  qed (use w v in \<open>simp_all add: allowed_def\<close>)
qed

lemma good_verified:
  assumes ok: "generation_ok pf g"
  shows "good pf g (snd (MarkGenerationCandidateVerified pf i report now g))"
  unfolding MarkGenerationCandidateVerified_def
proof (rule good_tx [OF ok], unfold MarkGenerationCandidateVerified_def [symmetric])
  fix u g' assume r: "MarkGenerationCandidateVerified pf i report now g = (Inr u, g')"
  let ?h = "\<lambda>c. c \<lparr>cr_VerificationReportRef := Some report, cr_VerifiedAt := Some (pf_ts pf now), cr_UpdatedAt := pf_ts pf now\<rparr>"
  obtain w c revision ok_report where w: "Workflow_Valid w" "wf_State w = StateVerifying"
    "candidate_row (wf_CandidateRevisionID w) g = Some c" "cr_RunnableRevisionRef c = Some revision"
    "validateGenerationVerificationReportTx g revision report = Inr ok_report"
    and m: "if ok_report then moved g w (move_workflow StateNeedsAuthorReview [] (pf_ts pf now) w) ?h g'
     else moved g w (move_workflow StateGenerating ''runnable verification did not pass'' (pf_ts pf now) w)
         (\<lambda>c. c \<lparr>cr_VerificationReportRef := Some report, cr_VerifiedAt := Some (pf_ts pf now),
            cr_Failure := Some \<lparr>fl_Class = WorkflowFailureArtifact,
              fl_Code = ''VERIFY_FAILED'', fl_Summary = ''runnable verification did not pass''\<rparr>,
            cr_UpdatedAt := pf_ts pf now\<rparr>) g'"
    using verified_effect [OF generation_ok_distinct [OF ok] r] by blast
  have cd: "distinct (map cr_ID (g_candidates g))" using ok by (simp add: generation_ok_def)
  show "good pf g g'"
  proof (cases ok_report)
    case True
    with m have m': "moved g w (move_workflow StateNeedsAuthorReview [] (pf_ts pf now) w) ?h g'" by simp
    show ?thesis
    proof (rule good_advance [OF ok m'])
      fix d assume "d \<in> set (g_candidates g)" "cr_ID d = wf_CandidateRevisionID w" "stage_ok pf g w d"
      moreover from this have "d = c" using same_candidate [OF cd] candidate_row_in [OF w(3)] by simp
      ultimately show "stage_ok pf g (move_workflow StateNeedsAuthorReview [] (pf_ts pf now) w) (?h d)"
        using w True validate_revision_cong [of "?h c" c] by (simp add: stage_ok_def built_def passed_def)
    qed (use w in \<open>simp_all add: allowed_def valid_move\<close>)
  next
    case False
    with m have m': "moved g w (move_workflow StateGenerating ''runnable verification did not pass'' (pf_ts pf now) w)
         (\<lambda>c. c \<lparr>cr_VerificationReportRef := Some report, cr_VerifiedAt := Some (pf_ts pf now),
            cr_Failure := Some \<lparr>fl_Class = WorkflowFailureArtifact,
              fl_Code = ''VERIFY_FAILED'', fl_Summary = ''runnable verification did not pass''\<rparr>,
            cr_UpdatedAt := pf_ts pf now\<rparr>) g'" by simp
    show ?thesis
      using w by (intro good_advance [OF ok m']) (simp_all add: allowed_def valid_move)
  qed
qed

subsection \<open>Review and publication\<close>

lemma good_confirm:
  assumes ok: "generation_ok pf g"
  shows "good pf g (snd (ConfirmGenerationContent pf newID newRev s user confirmation metadata now g))"
  unfolding ConfirmGenerationContent_def
proof (rule good_tx [OF ok], unfold ConfirmGenerationContent_def [symmetric])
  fix v g' assume r: "ConfirmGenerationContent pf newID newRev s user confirmation metadata now g = (Inr v, g')"
  show "good pf g g'"
  proof (cases "g' = g")
    case False
    then obtain w c publication where w: "Workflow_Valid w" "wf_State w = StateNeedsAuthorReview"
      "candidate_row (wf_CandidateRevisionID w) g = Some c"
      "Publication_ValidateIntent (pf_unicode pf) publication = None" "pb_CandidateRevisionID publication = cr_ID c"
      and m: "moved g w (move_workflow StatePublishing [] (pf_ts pf now) w)
        (\<lambda>c. c \<lparr>cr_Publication := Some publication, cr_UpdatedAt := pf_ts pf now\<rparr>) g'"
      using confirm_effect [OF generation_ok_distinct [OF ok] r] by blast
    let ?h = "\<lambda>c. c \<lparr>cr_Publication := Some publication, cr_UpdatedAt := pf_ts pf now\<rparr>"
    have cd: "distinct (map cr_ID (g_candidates g))" using ok by (simp add: generation_ok_def)
    show ?thesis
    proof (rule good_advance [OF ok m])
      fix d assume "d \<in> set (g_candidates g)" "cr_ID d = wf_CandidateRevisionID w" "stage_ok pf g w d"
      moreover from this have "d = c" using same_candidate [OF cd] candidate_row_in [OF w(3)] by simp
      ultimately show "stage_ok pf g (move_workflow StatePublishing [] (pf_ts pf now) w) (?h d)"
        using w validate_revision_cong [of "?h c" c]
        by (simp add: stage_ok_def built_def passed_def intended_def split: option.splits)
    qed (use w in \<open>simp_all add: allowed_def valid_move\<close>)
  qed (simp add: good_same [OF ok])
qed

lemma good_changes:
  assumes ok: "generation_ok pf g"
  shows "good pf g (snd (RequestGenerationContentChanges pf s user request now g))"
  unfolding RequestGenerationContentChanges_def
proof (rule good_tx [OF ok], unfold RequestGenerationContentChanges_def [symmetric])
  fix v g' assume r: "RequestGenerationContentChanges pf s user request now g = (Inr v, g')"
  show "good pf g g'"
  proof (cases "g' = g")
    case False
    then obtain w where w: "Workflow_Valid w" "wf_State w = StateNeedsAuthorReview"
      and m: "moved g w (move_workflow StateGenerating (ccr_Feedback request) (pf_ts pf now) w) id g'"
      using changes_effect [OF generation_ok_distinct [OF ok] r] by blast
    show ?thesis using w by (intro good_advance [OF ok m]) (simp_all add: allowed_def valid_move)
  qed (simp add: good_same [OF ok])
qed

lemma good_cancel:
  assumes ok: "generation_ok pf g"
  shows "good pf g (snd (CancelGenerationWorkflow pf s user cancellation now g))"
  unfolding CancelGenerationWorkflow_def
proof (rule good_tx [OF ok], unfold CancelGenerationWorkflow_def [symmetric])
  fix v g' assume r: "CancelGenerationWorkflow pf s user cancellation now g = (Inr v, g')"
  show "good pf g g'"
  proof (cases "g' = g")
    case False
    then obtain w where w: "Workflow_Valid w" "\<not> WorkflowState_Terminal (wf_State w)"
      and v: "v = drop_lease (w \<lparr>wf_State := StateCancelled, wf_StateVersion := wf_StateVersion w + 1,
        wf_LastError := ''cancelled'', wf_UpdatedAt := pf_ts pf now\<rparr>)" and m: "moved g w v id g'"
      using cancel_effect [OF generation_ok_distinct [OF ok] r] by blast
    have "Workflow_Valid v"
      using w(1) finalizer_ok_cong [of v w] by (simp add: Workflow_Valid_iff v drop_lease_def)
    then show ?thesis using w by (intro good_advance [OF ok m]) (simp_all add: v allowed_def)
  qed (simp add: good_same [OF ok])
qed

lemma good_record_failure:
  assumes ok: "generation_ok pf g" and clock: "sane_clock pf" "seconds 1 \<le> dg_LastAttemptedAt d"
    "\<forall>t. dg_NextRetryAt d = Some t \<longrightarrow> seconds 1 \<le> t"
  shows "good pf g (snd (RecordGenerationPublicationFinalizerFailure pf i k d g))"
proof -
  obtain res g' where r: "RecordGenerationPublicationFinalizerFailure pf i k d g = (res, g')" by (metis prod.collapse)
  show ?thesis
    using record_effect [OF generation_ok_distinct [OF ok] r]
  proof (elim disjE conjE exE)
    fix w :: Workflow let ?w = "record_failure pf d w"
    assume w: "wf_State w = StatePublishing" "Diagnostic_Validate d = None" and m: "moved g w ?w id g'"
    have dist: "distinct (map wf_ID (g_workflows g))" by (rule generation_ok_distinct [OF ok])
    have win: "w \<in> set (g_workflows g)" using m by (simp add: moved_def)
    then have v: "Workflow_Valid w" using generation_ok_valid [OF ok] by simp
    have pos: "0 < pf_ts pf (dg_LastAttemptedAt d)" "dg_NextRetryAt d = Some t \<Longrightarrow> 0 < pf_ts pf t" for t
      using clock by (auto simp: sane_clock_def)
    have cat: "dg_Category d = CategoryDeterministic \<or> dg_Category d = CategoryTransient"
      using w(2) by (auto simp: Diagnostic_Validate_None Category_Valid_def)
    have "finalizer_ok ?w"
      using w(2) pos cat
      by (auto simp: finalizer_ok_def record_failure_def Diagnostic_Validate_None valueOrZero_def)
    then have valid: "Workflow_Valid ?w"
      using v w(1) by (auto simp: Workflow_Valid_iff record_failure_def)
    show ?thesis
    proof (cases "dg_Category d = CategoryDeterministic")
      case False
      then show ?thesis
        unfolding r snd_conv using w(1) valid by (intro good_moved_still [OF ok m]) simp_all
    next
      case True
      have "workflow_ok pf g w" using ok win by (simp add: generation_ok_def)
      then have "generation_ok pf g'"
        using True by (intro moved_ok [OF ok m valid]) (simp_all add: workflow_ok_def)
      moreover have "lifecycle_step (lifecycle g) (lifecycle g')"
        using lifecycle_moved [OF dist m] lifecycle_step.give_up [of "lifecycle g" "wf_ID w"] w(1) True by simp
      ultimately show ?thesis by (simp add: r good_def)
    qed
  qed (simp add: r good_same [OF ok])
qed

lemma good_finalize:
  assumes ok: "generation_ok pf g" and clock: "sane_clock pf" "seconds 1 \<le> now"
  shows "good pf g (snd (FinalizeGenerationScenarioPublication pf i k contentRevision materializedRevision scenarioType tags now g))"
  unfolding FinalizeGenerationScenarioPublication_def
proof (rule good_tx [OF ok], unfold FinalizeGenerationScenarioPublication_def [symmetric])
  fix u g' assume r: "FinalizeGenerationScenarioPublication pf i k contentRevision materializedRevision scenarioType tags now g = (Inr u, g')"
  obtain w where w: "Workflow_Valid w" "wf_State w = StatePublishing"
    and m: "moved g w (close_workflow pf now w)
      (\<lambda>c. c \<lparr>cr_PublishedAt := Some (pf_ts pf now), cr_UpdatedAt := pf_ts pf now\<rparr>) g'"
    using finalize_effect [OF generation_ok_distinct [OF ok] r] by blast
  let ?h = "\<lambda>c. c \<lparr>cr_PublishedAt := Some (pf_ts pf now), cr_UpdatedAt := pf_ts pf now\<rparr>"
  have v: "Workflow_Valid (close_workflow pf now w)"
    using w by (auto simp: Workflow_Valid_iff close_workflow_def finalizer_ok_def)
  show "good pf g g'"
  proof (rule good_advance [OF ok m])
    fix d assume "stage_ok pf g w d"
    then show "stage_ok pf g (close_workflow pf now w) (?h d)"
      using w validate_revision_cong [of "?h d" d]
      by (auto simp: stage_ok_def built_def passed_def intended_def close_workflow_def split: option.splits)
  qed (use w v in \<open>simp_all add: allowed_def close_workflow_def\<close>)
qed

lemma good_interrupt:
  assumes ok: "generation_ok pf g"
  shows "good pf g (snd (InterruptActiveGenerationAgentRuns pf reason now g))"
proof -
  obtain res g' where r: "InterruptActiveGenerationAgentRuns pf reason now g = (res, g')" by (metis prod.collapse)
  let ?f = "\<lambda>w. if wf_State w = StateJudging
      then drop_lease (w \<lparr>wf_NextRunAt := pf_ts pf now, wf_UpdatedAt := pf_ts pf now\<rparr>) else w"
  have valid: "Workflow_Valid (?f w)" if "Workflow_Valid w" for w
    using that finalizer_ok_cong [of "?f w" w] by (simp add: Workflow_Valid_iff drop_lease_def)
  show ?thesis
    using interrupt_effect [OF r]
  proof (elim disjE conjE)
    assume "g_candidates g' = g_candidates g" "g_runnable g' = g_runnable g" "g_workflows g' = map ?f (g_workflows g)"
    then show ?thesis
      unfolding r snd_conv using valid generation_ok_valid [OF ok]
      by (intro good_relabel [OF ok, where f = ?f]) simp_all
  qed (simp add: r good_same [OF ok])
qed

subsection \<open>Snapshot pointers\<close>

lemma snapshot_valid: "Workflow_Valid w \<Longrightarrow> digest = [] \<or> ValidDigest digest \<Longrightarrow> Workflow_Valid (set_snapshot digest at w)"
  using finalizer_ok_cong [of "set_snapshot digest at w" w] by (auto simp: Workflow_Valid_iff set_snapshot_def)

lemma good_pointer:
  assumes ok: "generation_ok pf g" and d: "digest = [] \<or> ValidDigest digest"
  shows "good pf g (update_workspace P f (update_workflow i (set_snapshot digest at) g))"
proof (rule good_relabel [OF ok, where f = "\<lambda>w. if wf_ID w = i then set_snapshot digest at w else w"])
  show "Workflow_Valid (if wf_ID w = i then set_snapshot digest at w else w)" if "w \<in> set (g_workflows g)" for w
    using snapshot_valid [OF generation_ok_valid [OF ok that] d] generation_ok_valid [OF ok that] by simp
qed (simp_all add: update_workspace_def update_workflow_def sql_update_def set_snapshot_def)

lemma good_publish_snapshot:
  assumes "generation_ok pf g"
  shows "good pf g (snd (PublishGeneratorWorkspaceSnapshot pf workspaceID holder digest now g))"
  unfolding PublishGeneratorWorkspaceSnapshot_def
  by (rule good_tx [OF assms]) (auto simp: tx_Inr and_then_Inr_iff Let_def intro!: good_pointer [OF assms] split: if_split_asm)

lemma good_clear_snapshot:
  assumes "generation_ok pf g"
  shows "good pf g (snd (ClearGeneratorWorkspaceSnapshot pf i digest now g))"
  unfolding ClearGeneratorWorkspaceSnapshot_def
  by (rule good_tx [OF assms])
    (auto simp: tx_Inr and_then_Inr_iff intro!: good_pointer [OF assms] good_same [OF assms] split: if_split_asm option.split_asm)

subsection \<open>Every step\<close>

lemma generation_step_good:
  assumes "generation_step pf cd dc g g'" "generation_ok pf g" "sane_clock pf"
  shows "good pf g g'"
  using assms(1)
proof cases
  case (runnable st)
  then show ?thesis
    using good_frame [OF assms(2)] store_step_grows by simp
next
  case other
  then show ?thesis using good_frame [OF assms(2)] by (auto simp: others_def)
qed (use assms(2,3) in \<open>auto intro: good_create good_submit good_claim good_renew good_start_run good_retry_run
  good_interrupt good_judge good_artifact_failure good_fail_runnable good_materialized good_verified good_confirm
  good_changes good_cancel good_record_failure good_finalize good_publish_snapshot good_clear_snapshot\<close>)

lemma reachable_good:
  assumes "(generation_step pf cd dc)\<^sup>*\<^sup>* g g'" "generation_ok pf g" "sane_clock pf"
  shows "generation_ok pf g' \<and> lifecycle_step\<^sup>*\<^sup>* (lifecycle g) (lifecycle g')"
  using assms
proof (induction rule: rtranclp_induct)
  case (step y z)
  then have "good pf y z" using generation_step_good by blast
  then show ?case using step by (auto simp: good_def)
qed simp

end
