(* ===== verification/GenerationExamples.thy ===== *)
theory GenerationExamples
  imports GenerationRefinement Reaper RunnableExamples
begin

section \<open>A concrete workflow for the witnesses\<close>

text \<open>
  One session, one candidate that was built, verified and confirmed, and its workflow in a state of
  choice. The platform stores times as they are and knows no letters beyond ASCII.
\<close>

definition example_platform :: platform where
  "example_platform = \<lparr>pf_db = example_db,
     pf_unicode = \<lparr>uc_letter = (\<lambda>_. False), uc_number = (\<lambda>_. False), uc_han = (\<lambda>_. False), uc_lower = (\<lambda>r. r)\<rparr>,
     pf_json = (\<lambda>_. ''{}'')\<rparr>"

definition empty_generation :: generation_db where
  "empty_generation = \<lparr>g_runnable = empty_store, g_workflows = [], g_candidates = [], g_receipts = [],
     g_agent_sessions = [], g_runs = [], g_workspaces = [], g_sessions = [], g_plans = [], g_scenarios = [],
     g_revisions = []\<rparr>"

definition example_publication :: Publication where
  "example_publication = \<lparr>pb_CandidateRevisionID = ''c1'', pb_IntentRevision = 1, pb_ScenarioID = ''chal-a1'',
     pb_ScenarioRevisionID = ''chrev-0123456789ab'', pb_BaseActiveRevisionID = [], pb_SourceSlug = ''dns-a1'',
     pb_TargetPath = ''dns-a1/chrev-0123456789ab'', pb_ScenarioTitle = ''DNS'', pb_RequestedAt = 1\<rparr>"

definition example_candidate :: Candidate where
  "example_candidate = \<lparr>cr_ID = ''c1'', cr_Source = \<lparr>src_Kind = SourceAuthoring, src_Ref = ''s1''\<rparr>,
     cr_SourceRevision = ''1'', cr_JudgeRunID = ''r1'', cr_ParentCandidateID = [], cr_RepairReason = [],
     cr_ArchivePath = ''a'', cr_ArchiveDigest = zero_digest, cr_ContentRevision = zero_digest,
     cr_SourceArchive = rs_Source example_spec,
     cr_RunnableRevisionRef = Some \<lparr>ref_ID = ''runnable-1'', ref_Digest = zero_digest\<rparr>,
     cr_VerificationReportRef = Some \<lparr>vref_ID = ''report-1'', vref_Digest = zero_digest\<rparr>,
     cr_Failure = None, cr_Publication = Some example_publication, cr_CreatedAt = 1, cr_UpdatedAt = 1,
     cr_VerifiedAt = Some 1, cr_PublishedAt = None\<rparr>"

definition example_workflow :: "WorkflowState \<Rightarrow> Workflow" where
  "example_workflow s = \<lparr>wf_ID = ''w1'', wf_Source = \<lparr>src_Kind = SourceAuthoring, src_Ref = ''s1''\<rparr>,
     wf_SourceRevision = ''1'', wf_State = s, wf_CandidateRevisionID = ''c1'', wf_WorkspaceSnapshotDigest = [],
     wf_ActiveAgentRunID = [], wf_StateVersion = 6, wf_AgentLeaseOwner = [], wf_AgentLeaseExpiresAt = None,
     wf_NextRunAt = 1, wf_LastError = [], wf_FinalizerErrorCategory = CategoryUnknown,
     wf_FinalizerLastError = [], wf_FinalizerLastAttemptedAt = None, wf_FinalizerNextRetryAt = None,
     wf_CreatedAt = 1, wf_UpdatedAt = 1\<rparr>"

definition example_session :: session_row where
  "example_session = \<lparr>se_ID = ''s1'', se_UserID = ''u1'', se_State = StateIntentReview, se_CurrentRevision = 1,
     se_VisibleRevision = 1, se_PublishScenarioID = [], se_RevisionScenarioID = [],
     se_RevisionBaseActiveRevisionID = [], se_UpdatedAt = 1\<rparr>"

definition example_evidence :: store where
  "example_evidence = empty_store \<lparr>
     st_specs := [\<lparr>sp_digest = ''d'', sp_content = \<lparr>ci_Kind = ''operations'', ci_ID = ''c1'', ci_Revision = zero_digest\<rparr>,
       sp_source = [], sp_spec = example_spec, sp_created = 1\<rparr>],
     st_revisions := [\<lparr>rv_id = ''runnable-1'', rv_digest = zero_digest, rv_spec = ''d'', rv_revision = example_revision,
       rv_created = 1\<rparr>],
     st_reports := [\<lparr>vw_id = ''report-1'', vw_digest = zero_digest, vw_revision = zero_digest,
       vw_report = example_report \<lparr>vr_Passed := True\<rparr>, vw_created = 1\<rparr>]\<rparr>"

definition example_generation :: "WorkflowState \<Rightarrow> generation_db" where
  "example_generation s = empty_generation \<lparr>g_runnable := example_evidence, g_workflows := [example_workflow s],
     g_candidates := [example_candidate], g_sessions := [example_session]\<rparr>"

lemma example_clock: "sane_clock example_platform"
  by (simp add: sane_clock_def pf_ts_def example_platform_def seconds_def)

lemma example_not_blank [simp]: "\<not> blank ''w1''" "\<not> blank ''s1''" "\<not> blank ''c1''" "\<not> blank ''u1''" "\<not> blank ''1''" "\<not> blank ''r1''"
  "\<not> blank ''k1''" "\<not> blank ''DNS''" "\<not> blank ''t1''"
  by code_simp+

lemma example_intent: "Publication_ValidateIntent (pf_unicode example_platform) example_publication = None"
  by code_simp

lemma example_workflow_valid:
  "WorkflowState_Valid s \<Longrightarrow> Workflow_Valid (example_workflow s)"
  by (simp add: Workflow_Valid_iff example_workflow_def Source_Valid_def SourceKind_Valid_def finalizer_ok_def)

lemma example_stage_ok:
  "s \<noteq> StatePublished \<Longrightarrow> stage_ok example_platform (example_generation t) (example_workflow s) example_candidate"
proof -
  assume "s \<noteq> StatePublished"
  then have "\<not> 6 \<le> stage s" by (cases s) simp_all
  then show ?thesis
    using example_intent
    by (simp add: stage_ok_def example_generation_def example_workflow_def example_candidate_def empty_generation_def
        built_def passed_def intended_def validateGenerationRunnableRevisionTx_def example_evidence_def empty_store_def
        validateGenerationVerificationReportTx_def sql_row_def example_publication_def)
qed

lemma example_generation_ok:
  assumes "WorkflowState_Valid s" "s \<noteq> StatePublished"
  shows "generation_ok example_platform (example_generation s)"
proof -
  have "cr_ID example_candidate = ''c1''" "wf_CandidateRevisionID (example_workflow s) = ''c1''"
    by (simp_all add: example_candidate_def example_workflow_def)
  then show ?thesis
    using example_workflow_valid [OF assms(1)] example_stage_ok [OF assms(2), of s]
    by (simp add: generation_ok_def workflow_ok_def example_generation_def empty_generation_def)
qed

end
