(* ===== verification/GenerationProperties.thy ===== *)
theory GenerationProperties
  imports GenerationExamples
begin

section \<open>Properties of the generation workflow\<close>

subsection \<open>Refinement of the state machine\<close>

lemma empty_generation_ok: "generation_ok pf empty_generation"
  by (simp add: generation_ok_def empty_generation_def)

lemma lifecycle_empty: "lifecycle empty_generation = (\<lambda>_. None)"
  by (simp add: lifecycle_def workflow_row_def empty_generation_def sql_row_def fun_eq_iff)

text \<open>
  C14 The repository refines the workflow's state machine: from empty tables, whatever sequence of
  the methods that write workflows runs (with clocks past the first second, generated ids, and
  submissions that bring no parent), in any interleaving with the worker's repository and with any
  change of the other tables (sessions, plans, runs, workspaces, scenarios, revisions), the states,
  versions and candidates of the stored workflows are reachable in the abstract machine of
  \<open>lifecycle_step\<close>, which knows only the transitions of the product.
\<close>

theorem generation_refines_lifecycle:
  assumes "sane_clock pf" "(generation_step pf cd dc)\<^sup>*\<^sup>* empty_generation g"
  shows "lifecycle_step\<^sup>*\<^sup>* (\<lambda>_. None) (lifecycle g)"
  using reachable_good [OF assms(2) empty_generation_ok assms(1)] by (simp add: lifecycle_empty)

definition example_plan :: plan_row where
  "example_plan = \<lparr>pr_Session = ''s1'', pr_Number = 1, pr_Plan = \<lparr>pl_Title = ''t1'', pl_Description = ''t1'',
     pl_Runtime = ''node'', pl_Overview = [], pl_Checkpoints = []\<rparr>, pr_CandidateRevisionID = []\<rparr>"

definition example_start :: StartConfirmation where
  "example_start = \<lparr>sco_PlanRevision = 1, sco_IdempotencyKey = ''k1''\<rparr>"

definition authored :: generation_db where
  "authored = empty_generation \<lparr>g_sessions := [example_session], g_plans := [example_plan]\<rparr>"

lemma example_created:
  "snd (CreateGenerationWorkflow example_platform ''w1'' ''s1'' ''u1'' example_start (seconds 5) authored) =
     authored \<lparr>g_workflows := [new_workflow example_platform ''w1'' ''s1'' ''1'' (seconds 5)],
       g_receipts := [new_receipt example_platform ''s1'' ActionConfirmGeneration ''k1''
         (generationActionRequestDigest example_platform ActionConfirmGeneration (RequestStart example_start))
         ''w1'' (Some 1) None (seconds 5)]\<rparr>"
proof -
  have "show_int 1 = ''1''" "StartConfirmation_Valid example_start"
    "Plan_ValidateForGeneration (pr_Plan example_plan) = None"
    by code_simp+
  then show ?thesis
    by (simp add: CreateGenerationWorkflow_def authored_def empty_generation_def example_session_def example_plan_def
        example_start_def lockAuthoringSessionTx_def generationActionReceiptTx_def sql_row_def source_workflow_def
        readAuthoringSessionTx_def readAuthoringRevisionTx_def found_def insert_workflow_def
        insertGenerationActionReceiptTx_def receipt_shape_def new_receipt_def new_workflow_def stored_workflow_def
        seconds_def pf_ts_def example_platform_def fail_if_def Let_def)
qed

lemma generation_refines_lifecycle_witness:
  "lifecycle_step\<^sup>*\<^sup>* (\<lambda>_. None) (lifecycle (authored \<lparr>g_workflows := [new_workflow example_platform ''w1'' ''s1'' ''1'' (seconds 5)],
       g_receipts := [new_receipt example_platform ''s1'' ActionConfirmGeneration ''k1''
         (generationActionRequestDigest example_platform ActionConfirmGeneration (RequestStart example_start))
         ''w1'' (Some 1) None (seconds 5)]\<rparr>))"
proof (rule generation_refines_lifecycle [OF example_clock])
  have "authored = empty_generation \<lparr>g_agent_sessions := [], g_runs := [], g_workspaces := [],
      g_sessions := [example_session], g_plans := [example_plan], g_scenarios := [], g_revisions := []\<rparr>"
    by (simp add: authored_def empty_generation_def)
  then have "others empty_generation authored" unfolding others_def by (intro exI)
  then have first: "generation_step example_platform example_codec undefined empty_generation authored"
    by (rule generation_step.other)
  have second: "generation_step example_platform example_codec undefined authored
      (snd (CreateGenerationWorkflow example_platform ''w1'' ''s1'' ''u1'' example_start (seconds 5) authored))"
    by (rule generation_step.create [OF example_not_blank(1)]) (simp add: seconds_def)
  then show "(generation_step example_platform example_codec undefined)\<^sup>*\<^sup>* empty_generation
      (authored \<lparr>g_workflows := [new_workflow example_platform ''w1'' ''s1'' ''1'' (seconds 5)],
       g_receipts := [new_receipt example_platform ''s1'' ActionConfirmGeneration ''k1''
         (generationActionRequestDigest example_platform ActionConfirmGeneration (RequestStart example_start))
         ''w1'' (Some 1) None (seconds 5)]\<rparr>)"
    using second unfolding example_created
    by (intro converse_rtranclp_into_rtranclp [where r = "generation_step example_platform example_codec undefined",
        OF first] r_into_rtranclp)
qed

text \<open>
  C34 Every workflow row that the repository ever writes reads back: in a database reached from a valid
  one by the methods that write workflows (the snapshot pointers included) and by changes of the other
  tables, \<open>GetGenerationWorkflow\<close> finds exactly the stored rows, and neither the author's list nor the
  runnable coordinator's outbox fails on a row. The stored validity checks never reject what the
  methods themselves have written.
\<close>

theorem stored_workflows_read_back:
  assumes "sane_clock pf" "generation_ok pf g" "(generation_step pf cd dc)\<^sup>*\<^sup>* g g'"
  shows "GetGenerationWorkflow g' i =
      (case workflow_row (trim i) g' of None \<Rightarrow> Inl workflow_not_found | Some w \<Rightarrow> Inr w) \<and>
    ListRunnableGenerationCandidates pf g' = Inr (sort_by (order3 (pf_db pf) wf_NextRunAt wf_CreatedAt wf_ID)
      (filter (\<lambda>w. wf_State w = StateMaterializingArtifact \<or> wf_State w = StateVerifying) (g_workflows g'))) \<and>
    (blank user \<or> (\<exists>ws. ListGenerationWorkflowsForUser pf g' user = Inr ws \<and>
      set ws = {w \<in> set (g_workflows g'). \<not> WorkflowState_Terminal (wf_State w) \<and> owned_by g' user w}))"
proof -
  have ok: "generation_ok pf g'" using reachable_good [OF assms(3,2,1)] by simp
  have scan: "scanGenerationWorkflow (Some w) = Inr w" if "w \<in> set (g_workflows g')" for w
    using generation_ok_valid [OF ok that] by (simp add: scanGenerationWorkflow_Inr)
  have all: "scan_all (\<lambda>w. scanGenerationWorkflow (Some w)) ws = Inr ws" if "set ws \<subseteq> set (g_workflows g')" for ws
    using that scan by (auto simp: scan_all_Inr)
  have "GetGenerationWorkflow g' i =
      (case workflow_row (trim i) g' of None \<Rightarrow> Inl workflow_not_found | Some w \<Rightarrow> Inr w)"
    using scan workflow_row_in [of "trim i" g'] by (auto simp: GetGenerationWorkflow_def split: option.splits)
  moreover have "ListRunnableGenerationCandidates pf g' = Inr (sort_by (order3 (pf_db pf) wf_NextRunAt wf_CreatedAt wf_ID)
      (filter (\<lambda>w. wf_State w = StateMaterializingArtifact \<or> wf_State w = StateVerifying) (g_workflows g')))"
    unfolding ListRunnableGenerationCandidates_def by (rule all) auto
  moreover have "ListGenerationWorkflowsForUser pf g' user = Inr (sort_by (recent_first pf)
      (filter (\<lambda>w. \<not> WorkflowState_Terminal (wf_State w) \<and> owned_by g' user w) (g_workflows g')))" if "\<not> blank user"
    unfolding ListGenerationWorkflowsForUser_def using that by (simp add: all)
  ultimately show ?thesis by auto
qed

lemma stored_workflows_read_back_witness:
  "GetGenerationWorkflow (example_generation StatePublishing) '' w1 '' = Inr (example_workflow StatePublishing) \<and>
   ListRunnableGenerationCandidates example_platform (example_generation StatePublishing) = Inr []"
proof -
  have "trim '' w1 '' = ''w1''" by code_simp
  moreover have "generation_ok example_platform (example_generation StatePublishing)"
    by (rule example_generation_ok) simp_all
  ultimately show ?thesis
    using stored_workflows_read_back [OF example_clock _ rtranclp.rtrancl_refl, of "example_generation StatePublishing"
        "'' w1 ''"]
    by (simp add: example_generation_def example_workflow_def workflow_row_def sql_row_def empty_generation_def sort_by_def)
qed

subsection \<open>What publication rests on\<close>

text \<open>
  C4 Nothing is published on trust: in every database reached from a valid one, a Published workflow
  has a candidate that a judge run accepted and that carries no failure, whose runnable revision was
  built from a spec of exactly this candidate and content, and whose verification report belongs to
  that revision and passed.
\<close>

theorem published_only_verified:
  assumes "sane_clock pf" "generation_ok pf g" "(generation_step pf cd dc)\<^sup>*\<^sup>* g g'"
    and "w \<in> set (g_workflows g')" "wf_State w = StatePublished"
  shows "\<exists>c built spec report. candidate_row (wf_CandidateRevisionID w) g' = Some c \<and>
    \<not> blank (cr_JudgeRunID c) \<and> cr_Failure c = None \<and> cr_PublishedAt c \<noteq> None \<and>
    built \<in> set (st_revisions (g_runnable g')) \<and> spec \<in> set (st_specs (g_runnable g')) \<and>
    report \<in> set (st_reports (g_runnable g')) \<and>
    cr_RunnableRevisionRef c = Some \<lparr>ref_ID = rv_id built, ref_Digest = rv_digest built\<rparr> \<and>
    cr_VerificationReportRef c = Some \<lparr>vref_ID = vw_id report, vref_Digest = vw_digest report\<rparr> \<and>
    sp_digest spec = rv_spec built \<and>
    sp_content spec = \<lparr>ci_Kind = ''operations'', ci_ID = cr_ID c, ci_Revision = cr_ContentRevision c\<rparr> \<and>
    vw_revision report = rv_digest built \<and> vr_Passed (vw_report report)"
proof -
  have ok: "generation_ok pf g'" using reachable_good [OF assms(3,2,1)] by simp
  obtain c where c: "candidate_row (wf_CandidateRevisionID w) g' = Some c" "stage_ok pf g' w c"
    using candidate_of [OF ok assms(4)] assms(5) by auto
  then have b: "built g' c" "passed g' c" "\<not> blank (cr_JudgeRunID c)" "cr_Failure c = None" "cr_PublishedAt c \<noteq> None"
    using assms(5) by (simp_all add: stage_ok_def)
  obtain r v where r: "cr_RunnableRevisionRef c = Some r" "cr_VerificationReportRef c = Some v"
    "validateGenerationRunnableRevisionTx g' c r = None" "validateGenerationVerificationReportTx g' r v = Inr True"
    using b(1,2) by (auto simp: built_def passed_def split: option.splits)
  obtain row spec where row: "find (\<lambda>x. rv_id x = ref_ID r \<and> rv_digest x = ref_Digest r) (st_revisions (g_runnable g')) = Some row"
    "sql_row sp_digest (rv_spec row) (st_specs (g_runnable g')) = Some spec"
    "ci_Kind (sp_content spec) = ''operations''" "ci_ID (sp_content spec) = cr_ID c"
    "ci_Revision (sp_content spec) = cr_ContentRevision c"
    using r(3) by (auto simp: validateGenerationRunnableRevisionTx_def split: option.splits)
  obtain report where report: "find (\<lambda>x. vw_id x = vref_ID v \<and> vw_digest x = vref_Digest v) (st_reports (g_runnable g')) = Some report"
    "vw_revision report = ref_Digest r" "vr_Passed (vw_report report)"
    using r(4) by (auto simp: validateGenerationVerificationReportTx_def split: option.splits if_splits)
  show ?thesis
    using c(1) b find_in [OF row(1)] sql_row_Some [OF row(2)] row(3-5) find_in [OF report(1)] report(2,3) r(1,2)
    by (intro exI [of _ c] exI [of _ row] exI [of _ spec] exI [of _ report]) simp
qed

definition example_scenario :: Scenario where
  "example_scenario = \<lparr>sc_ID = ''chal-a1'', sc_SourceKind = SourceAuthoringScenario, sc_SourceRef = ''s1'',
     sc_OwnerUserID = ''u1'', sc_State = ScenarioActive, sc_ActiveRevisionID = ''chrev-0123456789ab'',
     sc_SourceSlug = ''dns-a1'', sc_CreatedAt = 2000000000, sc_UpdatedAt = 2000000000\<rparr>"

definition example_scenario_revision :: ScenarioRevision where
  "example_scenario_revision = scenarioRevisionFromPublication ''DNS'' ScenarioOperationsScenario [] zero_digest zero_digest
     \<lparr>ref_ID = ''runnable-1'', ref_Digest = zero_digest\<rparr> \<lparr>vref_ID = ''report-1'', vref_Digest = zero_digest\<rparr>
     ''chrev-0123456789ab'' ''chal-a1'' ''s1'' ''1'' [] ''dns-a1'' ''dns-a1/chrev-0123456789ab''
     SourceAuthoringScenario 2000000000"

lemma example_scenario_valid:
  "Scenario_Valid (pf_unicode example_platform) example_scenario"
  "ScenarioRevision_Valid (pf_unicode example_platform) example_scenario_revision"
  "ValidRevision zero_digest" "canonical_tags (pf_unicode example_platform) []"
  by code_simp+

lemma example_finalized:
  "FinalizeGenerationScenarioPublication example_platform ''w1'' ''c1'' zero_digest zero_digest
     ScenarioOperationsScenario [] 2000000000 (example_generation StatePublishing) =
   (Inr (), close_publication example_platform (example_workflow StatePublishing) example_candidate example_publication
     2000000000 (example_generation StatePublishing
       \<lparr>g_scenarios := [example_scenario], g_revisions := [example_scenario_revision]\<rparr>))"
proof -
  let ?g = "example_generation StatePublishing"
  have w: "find (\<lambda>w. wf_ID w = ''w1'' \<and> wf_State w = StatePublishing) (g_workflows ?g) = Some (example_workflow StatePublishing)"
    "wf_CandidateRevisionID (example_workflow StatePublishing) = ''c1''" "src_Ref (wf_Source (example_workflow StatePublishing)) = ''s1''"
    "wf_SourceRevision (example_workflow StatePublishing) = ''1''"
    by (simp_all add: example_generation_def example_workflow_def)
  have c: "candidate_row ''c1'' ?g = Some example_candidate" "cr_Publication example_candidate = Some example_publication"
    "cr_PublishedAt example_candidate = None" "cr_ContentRevision example_candidate = zero_digest"
    "cr_RunnableRevisionRef example_candidate = Some \<lparr>ref_ID = ''runnable-1'', ref_Digest = zero_digest\<rparr>"
    "cr_VerificationReportRef example_candidate = Some \<lparr>vref_ID = ''report-1'', vref_Digest = zero_digest\<rparr>"
    by (simp_all add: example_generation_def example_candidate_def candidate_row_def sql_row_def)
  have s: "readAuthoringSessionTx ?g ''s1'' [] = Inr example_session" "se_RevisionScenarioID example_session = []"
    by (simp_all add: example_generation_def example_session_def readAuthoringSessionTx_def found_def)
  have p: "publish_first example_platform example_session (example_workflow StatePublishing) example_publication
      ScenarioOperationsScenario [] zero_digest zero_digest \<lparr>ref_ID = ''runnable-1'', ref_Digest = zero_digest\<rparr>
      \<lparr>vref_ID = ''report-1'', vref_Digest = zero_digest\<rparr> 2000000000 ?g =
    Inr (?g \<lparr>g_scenarios := [example_scenario], g_revisions := [example_scenario_revision]\<rparr>)"
  proof -
    have "publish_first example_platform example_session (example_workflow StatePublishing) example_publication
      ScenarioOperationsScenario [] zero_digest zero_digest \<lparr>ref_ID = ''runnable-1'', ref_Digest = zero_digest\<rparr>
      \<lparr>vref_ID = ''report-1'', vref_Digest = zero_digest\<rparr> 2000000000 ?g =
      and_then (insertPersistedScenarioTx example_platform example_scenario ?g)
        (insertPersistedScenarioRevisionTx example_platform example_scenario_revision)"
      by (simp add: publish_first_def Let_def w example_scenario_def example_scenario_revision_def example_publication_def
          example_session_def)
    also have "insertPersistedScenarioTx example_platform example_scenario ?g = Inr (?g \<lparr>g_scenarios := [example_scenario]\<rparr>)"
      using example_scenario_valid(1)
      by (simp add: insertPersistedScenarioTx_def example_generation_def empty_generation_def pf_ts_def)
        (simp add: example_scenario_def example_platform_def)
    also have "and_then (Inr (?g \<lparr>g_scenarios := [example_scenario]\<rparr>))
        (insertPersistedScenarioRevisionTx example_platform example_scenario_revision) =
        Inr (?g \<lparr>g_scenarios := [example_scenario], g_revisions := [example_scenario_revision]\<rparr>)"
      using example_scenario_valid(2)
      by (simp add: insertPersistedScenarioRevisionTx_def example_generation_def empty_generation_def pf_ts_def)
        (simp add: example_scenario_revision_def scenarioRevisionFromPublication_def example_platform_def
          example_scenario_def example_evidence_def)
    finally show ?thesis .
  qed
  show ?thesis
    using example_scenario_valid(3,4) example_intent example_workflow_valid [of StatePublishing]
    by (simp add: FinalizeGenerationScenarioPublication_def ScenarioType_Valid_def scanGenerationWorkflow_def found_def w
        or_error_def c s p)
qed

lemma published_only_verified_witness:
  "\<exists>c. candidate_row ''c1'' (snd (FinalizeGenerationScenarioPublication example_platform ''w1'' ''c1'' zero_digest
       zero_digest ScenarioOperationsScenario [] 2000000000 (example_generation StatePublishing))) = Some c \<and>
     cr_PublishedAt c \<noteq> None"
proof -
  let ?g = "example_generation StatePublishing"
  let ?f = "FinalizeGenerationScenarioPublication example_platform ''w1'' ''c1'' zero_digest zero_digest
     ScenarioOperationsScenario [] 2000000000 ?g"
  have ok: "generation_ok example_platform ?g" by (rule example_generation_ok) simp_all
  have step: "(generation_step example_platform example_codec undefined)\<^sup>*\<^sup>* ?g (snd ?f)"
    by (rule r_into_rtranclp) (rule generation_step.finalize, simp add: seconds_def)
  have w: "close_workflow example_platform 2000000000 (example_workflow StatePublishing) \<in> set (g_workflows (snd ?f))"
    unfolding example_finalized snd_conv
    by (simp add: close_publication_def Let_def close_workflow_def)
      (simp add: example_generation_def example_workflow_def)
  show ?thesis
    using published_only_verified [OF example_clock ok step w]
    by (auto simp: close_workflow_def example_workflow_def)
qed

end
