(* ===== verification/GenerationClaims.thy ===== *)
theory GenerationClaims
  imports GenerationProperties
begin

section \<open>Finality, fencing and idempotent requests\<close>

text \<open>
  Properties of the generation repository over time: finished workflows stay finished, a judge whose
  lease was taken over changes nothing, a confirmation may be repeated, and what an artifact failure
  leaves behind; with the concrete states that witness them.
\<close>

subsection \<open>Finality\<close>

text \<open>
  C16 A finished workflow stays as it is, and versions order what readers see: along any sequence of
  steps a workflow's version never decreases, two readings of one version have the same candidate and
  the same state (except that a publication may have been given up), and a workflow that is Published,
  Failed or Cancelled keeps its state, version and candidate for good.
\<close>

theorem finished_workflows_final:
  assumes "sane_clock pf" "generation_ok pf g" "(generation_step pf cd dc)\<^sup>*\<^sup>* g g'" "workflow_row i g = Some w"
  shows "\<exists>w'. workflow_row i g' = Some w' \<and> wf_StateVersion w \<le> wf_StateVersion w' \<and>
    (WorkflowState_Terminal (wf_State w) \<longrightarrow> wf_State w' = wf_State w \<and> wf_StateVersion w' = wf_StateVersion w \<and>
       wf_CandidateRevisionID w' = wf_CandidateRevisionID w) \<and>
    (wf_StateVersion w' = wf_StateVersion w \<longrightarrow> wf_CandidateRevisionID w' = wf_CandidateRevisionID w \<and>
       (wf_State w' = wf_State w \<or> (wf_State w = StatePublishing \<and> wf_State w' = StateFailed)))"
proof -
  have "lifecycle_step\<^sup>*\<^sup>* (lifecycle g) (lifecycle g')" using reachable_good [OF assms(3,2,1)] by simp
  moreover have "lifecycle g i = Some (wf_State w, wf_StateVersion w, wf_CandidateRevisionID w)"
    by (simp add: lifecycle_def assms(4))
  ultimately show ?thesis
    using lifecycle_steps_row by (fastforce simp: lifecycle_def)
qed

lemma finished_workflows_final_witness:
  "\<exists>w'. workflow_row ''w1'' (snd (FailRunnableGenerationWorkflow example_platform ''w1'' ''t1'' 2000000000
       (example_generation StateCancelled))) = Some w' \<and> wf_State w' = StateCancelled \<and> wf_StateVersion w' = 6"
proof -
  have ok: "generation_ok example_platform (example_generation StateCancelled)" by (rule example_generation_ok) simp_all
  have step: "(generation_step example_platform example_codec undefined)\<^sup>*\<^sup>* (example_generation StateCancelled)
      (snd (FailRunnableGenerationWorkflow example_platform ''w1'' ''t1'' 2000000000 (example_generation StateCancelled)))"
    by (rule r_into_rtranclp) (rule generation_step.fail_runnable, simp add: seconds_def)
  have row: "workflow_row ''w1'' (example_generation StateCancelled) = Some (example_workflow StateCancelled)"
    by (simp add: workflow_row_def sql_row_def example_generation_def example_workflow_def)
  show ?thesis
    using finished_workflows_final [OF example_clock ok step row]
    by (auto simp: example_workflow_def WorkflowState_Terminal_def)
qed

subsection \<open>Fencing\<close>

lemma no_lease_refused:
  assumes "\<forall>w\<in>set (g_workflows g). \<not> lease_holds pf claim now w"
  shows "lockGenerationAgentClaimTx pf g claim now = Inl generation_lease_lost"
    "\<exists>e. FinalizeGenerationJudgement pf claim runID approved feedback now g = (Inl e, g)"
    "\<exists>e. ReportGenerationArtifactFailure pf claim expected failure now g = (Inl e, g)"
    "\<exists>e. StartGenerationAgentRun pf claim input now g = (Inl e, g)"
    "\<exists>e. RetryGenerationAgentRun pf claim runID message now g = (Inl e, g)"
    "LoadGenerationContext pf claim now g = Inl generation_lease_lost"
    "\<exists>e. RenewGenerationLease pf claim ttl now g = (Some e, g)"
proof -
  show lock: "lockGenerationAgentClaimTx pf g claim now = Inl generation_lease_lost"
    using assms by (simp add: lockGenerationAgentClaimTx_def find_None_iff split: option.splits)
      (metis find_in option.distinct(1))
  show "\<exists>e. FinalizeGenerationJudgement pf claim runID approved feedback now g = (Inl e, g)"
    "\<exists>e. ReportGenerationArtifactFailure pf claim expected failure now g = (Inl e, g)"
    "\<exists>e. StartGenerationAgentRun pf claim input now g = (Inl e, g)"
    "\<exists>e. RetryGenerationAgentRun pf claim runID message now g = (Inl e, g)"
    "LoadGenerationContext pf claim now g = Inl generation_lease_lost"
    by (simp_all add: FinalizeGenerationJudgement_def ReportGenerationArtifactFailure_def StartGenerationAgentRun_def
        RetryGenerationAgentRun_def LoadGenerationContext_def lock)
  show "\<exists>e. RenewGenerationLease pf claim ttl now g = (Some e, g)"
    using sql_update_none [of "g_workflows g" "lease_holds pf claim now"] assms
    by (simp add: RenewGenerationLease_def)
qed

text \<open>
  C32 A judge that lost its lease can do nothing: after another server has claimed the workflow under an
  owner of its own, every call with the old claim (the context, a run, a retry, a verdict, an artifact
  failure, a renewal) is an error at any time, and the tables stay as they are.
\<close>

theorem judge_takeover_fences:
  assumes "ClaimGenerationAgentWorkflow pf locked newID serverID ttl now g = (Inr (Some taken), g')"
    and "distinct (map wf_ID (g_workflows g))"
    and "wf_ID (cl_Workflow claim) = wf_ID (cl_Workflow taken)"
    and "wl_LeaseOwner (cl_Lease claim) \<noteq> wl_LeaseOwner (cl_Lease taken)"
  shows "LoadGenerationContext pf claim at g' = Inl generation_lease_lost \<and>
    (\<exists>e. StartGenerationAgentRun pf claim input at g' = (Inl e, g')) \<and>
    (\<exists>e. RetryGenerationAgentRun pf claim runID message at g' = (Inl e, g')) \<and>
    (\<exists>e. FinalizeGenerationJudgement pf claim runID approved feedback at g' = (Inl e, g')) \<and>
    (\<exists>e. ReportGenerationArtifactFailure pf claim expected failure at g' = (Inl e, g')) \<and>
    (\<exists>e. RenewGenerationLease pf claim again at g' = (Some e, g'))"
proof -
  obtain w where w: "wf_ID (cl_Workflow taken) = wf_ID w"
    "cl_Workflow taken = take_lease pf (trim serverID @ ''-'' @ newID) ttl now w"
    "wl_LeaseOwner (cl_Lease taken) = trim serverID @ ''-'' @ newID"
    "moved g w (take_lease pf (trim serverID @ ''-'' @ newID) ttl now w) id g'"
    using claim_effect [OF assms(2,1)] by (auto simp: take_lease_def)
  have "\<not> lease_holds pf claim at v" if v: "v \<in> set (g_workflows g')" for v
  proof
    assume h: "lease_holds pf claim at v"
    then have "wf_ID v = wf_ID w" using assms(3) w(1) by (simp add: lease_holds_def)
    then have "v = take_lease pf (trim serverID @ ''-'' @ newID) ttl now w"
      using v w(4) by (auto simp: moved_def split: if_splits)
    then show False using h assms(4) w(3) by (simp add: lease_holds_def take_lease_def)
  qed
  then show ?thesis using no_lease_refused [of g' pf claim at] by blast
qed

definition judged_by :: "string \<Rightarrow> Claim" where
  "judged_by owner = \<lparr>cl_Workflow = (example_workflow StateJudging) \<lparr>wf_AgentLeaseOwner := owner,
     wf_AgentLeaseExpiresAt := Some 46000000000, wf_UpdatedAt := 1000000000\<rparr>,
     cl_Lease = \<lparr>wl_StateVersion = 6, wl_LeaseOwner = owner\<rparr>\<rparr>"

lemma example_judge_claim:
  "ClaimGenerationAgentWorkflow example_platform [] ''t1'' ''u1'' 45000000000 1000000000 (example_generation StateJudging) =
     (Inr (Some (judged_by ''u1-t1'')),
      example_generation StateJudging \<lparr>g_workflows := [cl_Workflow (judged_by ''u1-t1'')]\<rparr>)"
proof -
  let ?g = "example_generation StateJudging" and ?w = "example_workflow StateJudging"
  have "trim ''u1'' = ''u1''" by code_simp
  then have f: "take_lease example_platform (trim ''u1'' @ ''-'' @ ''t1'') 45000000000 1000000000 ?w = cl_Workflow (judged_by ''u1-t1'')"
    by (simp add: take_lease_def judged_by_def pf_ts_def example_platform_def)
  have w: "g_workflows ?g = [?w]" by (simp add: example_generation_def)
  have c: "claimable example_platform 1000000000 ?w" "wf_ID ?w = ''w1''"
    by (simp_all add: claimable_def example_workflow_def pf_ts_def example_platform_def)
  have v: "Workflow_Valid (cl_Workflow (judged_by ''u1-t1''))"
  proof -
    have "\<not> blank ''u1-t1''" by code_simp
    then show ?thesis
      using example_workflow_valid [of StateJudging]
        finalizer_ok_cong [of "cl_Workflow (judged_by ''u1-t1'')" ?w]
      by (simp add: Workflow_Valid_iff judged_by_def) (simp add: example_workflow_def)
  qed
  have u: "update_workflow ''w1'' (take_lease example_platform (trim ''u1'' @ ''-'' @ ''t1'') 45000000000 1000000000) ?g =
      ?g \<lparr>g_workflows := [cl_Workflow (judged_by ''u1-t1'')]\<rparr>"
    using f by (simp add: update_workflow_def sql_update_def w c)
  have i: "wf_ID (cl_Workflow (judged_by ''u1-t1'')) = ''w1''" "wf_StateVersion (cl_Workflow (judged_by ''u1-t1'')) = 6"
    by (simp_all add: judged_by_def example_workflow_def)
  have f': "take_lease example_platform ''u1-t1'' 45000000000 1000000000 ?w = cl_Workflow (judged_by ''u1-t1'')"
    using f \<open>trim ''u1'' = ''u1''\<close> by simp
  have l: "cl_Lease (judged_by ''u1-t1'') = \<lparr>wl_StateVersion = 6, wl_LeaseOwner = ''u1-t1''\<rparr>"
    by (simp add: judged_by_def)
  have eq: "\<lparr>cl_Workflow = cl_Workflow (judged_by ''u1-t1''), cl_Lease = \<lparr>wl_StateVersion = 6, wl_LeaseOwner = ''u1-t1''\<rparr>\<rparr> =
      judged_by ''u1-t1''"
    by (simp add: judged_by_def)
  show ?thesis
    using v u i eq
    by (simp add: ClaimGenerationAgentWorkflow_def sql_first_def w c workflow_row_def sql_row_def
        scanGenerationWorkflow_def found_def Let_def \<open>trim ''u1'' = ''u1''\<close> f')
qed

lemma judge_takeover_fences_witness:
  "\<exists>e. FinalizeGenerationJudgement example_platform (judged_by ''u2-t0'') ''r1'' True [] 2000000000
       (example_generation StateJudging \<lparr>g_workflows := [cl_Workflow (judged_by ''u1-t1'')]\<rparr>) =
     (Inl e, example_generation StateJudging \<lparr>g_workflows := [cl_Workflow (judged_by ''u1-t1'')]\<rparr>)"
  using judge_takeover_fences [OF example_judge_claim, of "judged_by ''u2-t0''"]
  by (simp add: judged_by_def) (simp add: example_generation_def example_workflow_def)


subsection \<open>Requests sent twice\<close>

lemma confirm_leaves_receipt:
  assumes "ConfirmGenerationContent pf newID newRev s user confirmation metadata now g = (Inr v, g')"
  shows "\<exists>r. generationActionReceiptTx g' s ActionConfirmContent (cco_IdempotencyKey confirmation)
       (generationActionRequestDigest pf ActionConfirmContent (RequestConfirm confirmation)) = Inr (Some r) \<and>
     generationWorkflowForReceiptTx g' (rc_WorkflowID r) = Inr v \<and> lockAuthoringSessionTx g' s user = None \<and>
     \<not> blank s \<and> \<not> blank user \<and> ContentConfirmation_Valid confirmation"
proof -
  let ?d = "generationActionRequestDigest pf ActionConfirmContent (RequestConfirm confirmation)"
  let ?k = "cco_IdempotencyKey confirmation"
  obtain receipt where receipt: "generationActionReceiptTx g s ActionConfirmContent ?k ?d = Inr receipt"
    and pre: "lockAuthoringSessionTx g s user = None" "\<not> blank s" "\<not> blank user" "ContentConfirmation_Valid confirmation"
    using assms by (auto simp: ConfirmGenerationContent_def tx_Inr Let_def check_Inr and_then_Inr_iff split: if_splits)
  show ?thesis
  proof (cases receipt)
    case (Some r)
    then show ?thesis
      using assms receipt pre
      by (auto simp: ConfirmGenerationContent_def tx_Inr Let_def check_Inr and_then_Inr_iff split: if_splits)
  next
    case None
    let ?g2 = "\<lambda>w c publication. update_workflow (wf_ID w) (move_workflow StatePublishing [] (pf_ts pf now))
          (update_candidate (cr_ID c) (\<lambda>c. c \<lparr>cr_Publication := Some publication, cr_UpdatedAt := pf_ts pf now\<rparr>) g)"
    let ?rest = "\<lambda>(w :: Workflow) (c :: Candidate). (case (cr_RunnableRevisionRef c, cr_VerificationReportRef c) of
        (Some revision, Some report) \<Rightarrow>
          if validateGenerationVerificationReportTx g revision report \<noteq> Inr True
          then Inl candidate_invalid_state
          else and_then (readAuthoringSessionTx g s user) (\<lambda>session.
            and_then (prepareGenerationPublicationTx pf newID newRev g session c metadata now) (\<lambda>publication.
            and_then (scanGenerationWorkflow (workflow_row (wf_ID w) (?g2 w c publication))) (\<lambda>updated.
            and_then (insertGenerationActionReceiptTx
                (new_receipt pf s ActionConfirmContent ?k ?d (wf_ID w) None (Some (cr_ID c)) now) (?g2 w c publication))
              (\<lambda>g3. Inr (updated, g3)))))
      | _ \<Rightarrow> Inl candidate_invalid_state)"
    obtain w c where "?rest w c = Inr (v, g')"
      using assms [unfolded ConfirmGenerationContent_def Let_def] receipt None
      by (auto simp: tx_Inr check_Inr and_then_Inr_iff [of "or_error _ _"]
          and_then_Inr_iff [of "found _ _"] and_then_Inr_iff [of "generationActionReceiptTx _ _ _ _ _"]
          found_Inr or_error_Inr split: if_split_asm)
    then obtain publication where "workflow_row (wf_ID w) (?g2 w c publication) = Some v" "Workflow_Valid v"
      "insertGenerationActionReceiptTx (new_receipt pf s ActionConfirmContent ?k ?d (wf_ID w) None (Some (cr_ID c)) now)
        (?g2 w c publication) = Inr g'"
      by (auto simp: and_then_Inr_iff scanGenerationWorkflow_Inr split: if_split_asm option.split_asm)
    moreover from this have "g' = (?g2 w c publication) \<lparr>g_receipts := g_receipts g @
        [new_receipt pf s ActionConfirmContent ?k ?d (wf_ID w) None (Some (cr_ID c)) now]\<rparr>"
      using insert_receipt_Inr by fastforce
    ultimately have "workflow_row (wf_ID w) g' = Some v" "Workflow_Valid v" "g_sessions g' = g_sessions g"
      "g_receipts g' = g_receipts g @ [new_receipt pf s ActionConfirmContent ?k ?d (wf_ID w) None (Some (cr_ID c)) now]"
      by (simp_all add: workflow_row_def)
    then show ?thesis
      using receipt None pre
      by (auto simp: receipt_lookup_Inr sql_row_append generationWorkflowForReceiptTx_def scanGenerationWorkflow_Inr
          lockAuthoringSessionTx_def)
  qed
qed

text \<open>
  C33 A confirmation may be sent twice: when a confirmation went through, sending it again (at any later
  time, with whatever fresh scenario ids) returns the same workflow and changes nothing, so no second
  publication intent is made; another confirmation under the same idempotency key is a version conflict.
\<close>

theorem confirmation_is_idempotent:
  assumes "ConfirmGenerationContent pf newID newRev s user confirmation metadata now g = (Inr w, g')"
    and "now' \<noteq> 0" "PublicationMetadata_Validate metadata' = None"
  shows "ConfirmGenerationContent pf newID' newRev' s user confirmation metadata' now' g' = (Inr w, g') \<and>
    (ContentConfirmation_Valid other \<longrightarrow> cco_IdempotencyKey other = cco_IdempotencyKey confirmation \<longrightarrow>
      generationActionRequestDigest pf ActionConfirmContent (RequestConfirm other) \<noteq>
        generationActionRequestDigest pf ActionConfirmContent (RequestConfirm confirmation) \<longrightarrow>
      ConfirmGenerationContent pf newID' newRev' s user other metadata' now' g' = (Inl version_conflict, g'))"
  using confirm_leaves_receipt [OF assms(1)] assms(2,3)
  by (auto simp: ConfirmGenerationContent_def Let_def generationActionReceiptTx_def split: option.splits if_splits)

definition example_confirmation :: ContentConfirmation where
  "example_confirmation = \<lparr>cco_WorkflowID = ''w1'', cco_CandidateRevisionID = ''c1'', cco_IdempotencyKey = ''k1''\<rparr>"

definition example_confirmed :: generation_db where
  "example_confirmed = example_generation StateNeedsAuthorReview
     \<lparr>g_workflows := [move_workflow StatePublishing [] 2000000000 (example_workflow StateNeedsAuthorReview)],
      g_candidates := [example_candidate \<lparr>cr_Publication := Some (example_publication \<lparr>pb_RequestedAt := 2000000000\<rparr>),
        cr_UpdatedAt := 2000000000\<rparr>],
      g_receipts := [new_receipt example_platform ''s1'' ActionConfirmContent ''k1''
        (generationActionRequestDigest example_platform ActionConfirmContent (RequestConfirm example_confirmation))
        ''w1'' None (Some ''c1'') 2000000000]\<rparr>"

lemma example_slug: "SourceSlugFor u ''DNS'' ''chal-a1'' = ''dns-a1''"
proof -
  have r: "runes ''DNS'' = [68, 78, 83]" "runes ''dns'' = [100, 110, 115]" "slug_suffix ''chal-a1'' = ''a1''"
    "trim_bytes CHR ''-'' ''dns'' = ''dns''"
    by code_simp+
  have e: "encode_rune 100 = ''d''" "encode_rune 110 = ''n''" "encode_rune 115 = ''s''"
    by (simp_all add: encode_rune_def scalar_def encode_scalar_def char_of_def bit_iff_odd)
  have l: "slug_loop u True [100, 110, 115] = [100, 110, 115]" by (simp add: IsLetter_def)
  have "ToLower u ''DNS'' = ''dns''" by (simp add: ToLower_def map_runes_def r e rune_lower_def)
  then show ?thesis by (simp add: SourceSlugFor_def slug_base_def r l e del: slug_loop.simps)
qed

lemma example_confirm:
  "ConfirmGenerationContent example_platform ''chal-a1'' ''chrev-0123456789ab'' ''s1'' ''u1'' example_confirmation
     \<lparr>pm_Title = ''DNS''\<rparr> 2000000000 (example_generation StateNeedsAuthorReview) =
   (Inr (move_workflow StatePublishing [] 2000000000 (example_workflow StateNeedsAuthorReview)), example_confirmed)"
proof -
  let ?g = "example_generation StateNeedsAuthorReview" and ?w = "example_workflow StateNeedsAuthorReview"
  let ?p = "example_publication \<lparr>pb_RequestedAt := 2000000000\<rparr>"
  have k: "ContentConfirmation_Valid example_confirmation" "PublicationMetadata_Validate \<lparr>pm_Title = ''DNS''\<rparr> = None"
    "MaterializedPath (pf_unicode example_platform) ''dns-a1'' ''chrev-0123456789ab'' = ''dns-a1/chrev-0123456789ab''"
    by code_simp+
  have q: "Publication_ValidateIntent (pf_unicode example_platform) ?p = None"
    using example_intent by (simp add: Publication_ValidateIntent_def example_publication_def split: if_splits)
  have w: "session_workflow ?g ''w1'' ''s1'' = Inr ?w" "wf_CandidateRevisionID ?w = ''c1''" "wf_ID ?w = ''w1''"
    "wf_State ?w = StateNeedsAuthorReview"
    using example_workflow_valid [of StateNeedsAuthorReview]
    by (simp_all add: session_workflow_def scanGenerationWorkflow_Inr) (simp_all add: example_generation_def example_workflow_def)
  have c: "candidate_row ''c1'' ?g = Some example_candidate" "cr_ID example_candidate = ''c1''"
    "cr_RunnableRevisionRef example_candidate = Some \<lparr>ref_ID = ''runnable-1'', ref_Digest = zero_digest\<rparr>"
    "cr_VerificationReportRef example_candidate = Some \<lparr>vref_ID = ''report-1'', vref_Digest = zero_digest\<rparr>"
    by (simp_all add: example_generation_def example_candidate_def candidate_row_def sql_row_def)
  have v: "validateGenerationVerificationReportTx ?g \<lparr>ref_ID = ''runnable-1'', ref_Digest = zero_digest\<rparr>
      \<lparr>vref_ID = ''report-1'', vref_Digest = zero_digest\<rparr> = Inr True"
    by (simp add: validateGenerationVerificationReportTx_def example_generation_def example_evidence_def)
  have s: "readAuthoringSessionTx ?g ''s1'' ''u1'' = Inr example_session" "se_RevisionScenarioID example_session = []"
    "lockAuthoringSessionTx ?g ''s1'' ''u1'' = None"
    by (simp_all add: example_generation_def example_session_def readAuthoringSessionTx_def found_def lockAuthoringSessionTx_def)
  have p: "prepareGenerationPublicationTx example_platform ''chal-a1'' ''chrev-0123456789ab'' ?g example_session
      example_candidate \<lparr>pm_Title = ''DNS''\<rparr> 2000000000 = Inr ?p"
    using k q by (simp add: prepareGenerationPublicationTx_def c s Let_def example_slug) (simp add: example_publication_def)
  have u: "update_workflow ''w1'' (move_workflow StatePublishing [] 2000000000) (update_candidate ''c1''
      (\<lambda>c. c \<lparr>cr_Publication := Some ?p, cr_UpdatedAt := 2000000000\<rparr>) ?g) =
      example_confirmed \<lparr>g_receipts := []\<rparr>"
    by (simp add: example_confirmed_def update_workflow_def update_candidate_def sql_update_def c w example_generation_def
        empty_generation_def)
  have m: "Workflow_Valid (move_workflow StatePublishing [] 2000000000 ?w)"
    using example_workflow_valid [of StateNeedsAuthorReview]
    by (simp add: Workflow_Valid_iff) (simp add: example_workflow_def move_workflow_def finalizer_ok_def)
  have r: "scanGenerationWorkflow (workflow_row ''w1'' (example_confirmed \<lparr>g_receipts := []\<rparr>)) =
      Inr (move_workflow StatePublishing [] 2000000000 ?w)"
    using m by (simp add: scanGenerationWorkflow_Inr workflow_row_def sql_row_def example_confirmed_def w)
  have n: "generationActionReceiptTx ?g ''s1'' ActionConfirmContent ''k1'' d = Inr None" for d
    by (simp add: generationActionReceiptTx_def sql_row_def example_generation_def empty_generation_def)
  have i: "insertGenerationActionReceiptTx (new_receipt example_platform ''s1'' ActionConfirmContent ''k1''
        (generationActionRequestDigest example_platform ActionConfirmContent (RequestConfirm example_confirmation))
        ''w1'' None (Some ''c1'') 2000000000) (example_confirmed \<lparr>g_receipts := []\<rparr>) = Inr example_confirmed"
    by (simp add: insertGenerationActionReceiptTx_def example_confirmed_def receipt_shape_def new_receipt_def w c
        example_generation_def empty_generation_def example_session_def)
  have e: "cco_WorkflowID example_confirmation = ''w1''" "cco_CandidateRevisionID example_confirmation = ''c1''"
    "cco_IdempotencyKey example_confirmation = ''k1''" "pf_ts example_platform 2000000000 = 2000000000"
    by (simp_all add: example_confirmation_def pf_ts_def example_platform_def)
  show ?thesis
    by (simp add: ConfirmGenerationContent_def Let_def k w c v s p u r n i e found_def or_error_def)
qed

lemma confirmation_is_idempotent_witness:
  "ConfirmGenerationContent example_platform ''other'' ''ids'' ''s1'' ''u1'' example_confirmation
     \<lparr>pm_Title = ''DNS''\<rparr> 9000000000 example_confirmed =
   (Inr (move_workflow StatePublishing [] 2000000000 (example_workflow StateNeedsAuthorReview)), example_confirmed)"
proof -
  have "PublicationMetadata_Validate \<lparr>pm_Title = ''DNS''\<rparr> = None" by code_simp
  then show ?thesis using confirmation_is_idempotent [OF example_confirm, of 9000000000] by simp
qed

subsection \<open>Runs left behind\<close>

text \<open>
  An artifact failure does not end the judge's run: the workflow goes back to the generator and gives
  its lease up, but the run it was working under keeps the status \<open>running\<close>, and so does the run of a
  cancelled workflow; the sweep at server start, which looks for runs through the workflows that still
  name one, does not find it either.
\<close>

theorem abandoned_run_stays_running:
  assumes "ReportGenerationArtifactFailure pf claim expected failure now g = (Inr (), g1) \<or>
      CancelGenerationWorkflow pf s user cancellation now g = (Inr w, g1)"
    and "r \<in> set (g_runs g)" "ag_Status r = RunRunning"
    and "list_all (\<lambda>v. wf_ActiveAgentRunID v \<noteq> ag_ID r) (g_workflows g1)"
  shows "r \<in> set (g_runs g1) \<and> r \<in> set (g_runs (snd (InterruptActiveGenerationAgentRuns pf reason later g1)))"
proof -
  have "g_runs g1 = g_runs g"
    using assms(1)
  proof
    assume "ReportGenerationArtifactFailure pf claim expected failure now g = (Inr (), g1)"
    then show ?thesis
      by (auto simp: ReportGenerationArtifactFailure_def tx_Inr and_then_Inr_iff split: if_splits)
  next
    assume "CancelGenerationWorkflow pf s user cancellation now g = (Inr w, g1)"
    then show ?thesis
      by (auto simp: CancelGenerationWorkflow_def tx_Inr Let_def check_Inr and_then_Inr_iff
          split: if_split_asm option.split_asm dest!: insert_receipt_Inr)
  qed
  then show ?thesis
    using assms(2-4)
    by (auto simp: InterruptActiveGenerationAgentRuns_def Let_def sql_update_def list_all_iff image_iff
        intro!: bexI [of _ r] split: if_splits)
qed

definition example_run :: AgentRun where
  "example_run = \<lparr>ag_ID = ''r1'', ag_SessionID = [], ag_Purpose = ''judge'', ag_OwnerKind = ''generation-workflow'',
     ag_OwnerRef = ''w1'', ag_InputRevision = ''1:c1'', ag_Input = ''{}'', ag_Status = RunRunning, ag_Model = ''m'',
     ag_PromptVersion = ''p'', ag_Attempt = 1, ag_DeadlineAt = 901000000000, ag_LastError = [],
     ag_CreatedAt = 1000000000, ag_UpdatedAt = 1000000000, ag_CompletedAt = None\<rparr>"

definition judging_workflow :: Workflow where
  "judging_workflow = cl_Workflow (judged_by ''u1-t1'') \<lparr>wf_ActiveAgentRunID := ''r1''\<rparr>"

definition judging_generation :: generation_db where
  "judging_generation = example_generation StateJudging \<lparr>g_workflows := [judging_workflow], g_runs := [example_run]\<rparr>"

lemma judging_valid: "Workflow_Valid judging_workflow" "Claim_Valid (judged_by ''u1-t1'')"
proof -
  have b: "\<not> blank ''u1-t1''" by code_simp
  have v: "Workflow_Valid (cl_Workflow (judged_by ''u1-t1''))"
    using b example_workflow_valid [of StateJudging] finalizer_ok_cong [of "cl_Workflow (judged_by ''u1-t1'')"
      "example_workflow StateJudging"]
    by (simp add: Workflow_Valid_iff judged_by_def) (simp add: example_workflow_def)
  then show "Workflow_Valid judging_workflow"
    using finalizer_ok_cong [of judging_workflow "cl_Workflow (judged_by ''u1-t1'')"]
    by (simp add: Workflow_Valid_iff judging_workflow_def)
  show "Claim_Valid (judged_by ''u1-t1'')"
    using v b by (simp add: Claim_Valid_def WorkflowLease_Valid_def) (simp add: judged_by_def example_workflow_def)
qed

lemma judging_lock:
  assumes "at < 46000000000"
  shows "lockGenerationAgentClaimTx example_platform judging_generation (judged_by ''u1-t1'') at = Inr judging_workflow"
proof -
  have "lease_holds example_platform (judged_by ''u1-t1'') at judging_workflow"
    using assms by (simp add: lease_holds_def judging_workflow_def judged_by_def example_workflow_def pf_ts_def example_platform_def)
  then show ?thesis
    using judging_valid(1)
    by (simp add: lockGenerationAgentClaimTx_def judging_generation_def scanGenerationWorkflow_Inr)
qed

lemma abandoned_run_stays_running_witness:
  "example_run \<in> set (g_runs (snd (InterruptActiveGenerationAgentRuns example_platform ''server restarted'' 9000000000
     (snd (ReportGenerationArtifactFailure example_platform (judged_by ''u1-t1'') StateJudging
        \<lparr>fl_Class = WorkflowFailureArtifact, fl_Code = ''DNS'', fl_Summary = ''DNS''\<rparr> 2000000000 judging_generation)))))"
proof -
  let ?r = "ReportGenerationArtifactFailure example_platform (judged_by ''u1-t1'') StateJudging
        \<lparr>fl_Class = WorkflowFailureArtifact, fl_Code = ''DNS'', fl_Summary = ''DNS''\<rparr> 2000000000 judging_generation"
  have c: "wf_CandidateRevisionID judging_workflow = ''c1''" "wf_ID judging_workflow = ''w1''"
    by (simp_all add: judging_workflow_def judged_by_def example_workflow_def)
  have r: "?r = (Inr (), snd ?r)" "list_all (\<lambda>v. wf_ActiveAgentRunID v \<noteq> ag_ID example_run) (g_workflows (snd ?r))"
    using judging_valid judging_lock [of 2000000000]
    by (simp_all add: ReportGenerationArtifactFailure_def Failure_Validate_def c)
      (simp_all add: judging_generation_def example_run_def c drop_lease_def)
  have m: "example_run \<in> set (g_runs judging_generation)" "ag_Status example_run = RunRunning"
    by (simp_all add: judging_generation_def example_run_def)
  show ?thesis
    using abandoned_run_stays_running [OF disjI1 [OF r(1)] m r(2)] by blast
qed

end
