(* ===== verification/CatalogModel.thy ===== *)
theory CatalogModel
  imports ScenarioContent Publication RunnableValidate
begin

section \<open>Catalog releases\<close>

text \<open>
  \<open>internal/domain/catalog\<close>: the portable release manifest (\<open>source.go\<close>), the typed digests
  (\<open>model.go\<close>) and the durable records of an installation (\<open>runtime.go\<close>): a release, its entries, and
  the commits that reserve the identities under which the entries are published.
\<close>

subsection \<open>Digests (\<open>model.go\<close>)\<close>

text \<open>\<open>^sha256:[a-f0-9]{64}$\<close>\<close>

definition catalog_digest :: "string \<Rightarrow> bool" where
  "catalog_digest s \<longleftrightarrow> prefix ''sha256:'' s \<and> length (drop 7 s) = 64 \<and> list_all is_hex (drop 7 s)"

definition ContentRevision_Validate :: "string \<Rightarrow> go_error option" where
  "ContentRevision_Validate r =
     fail_if (\<not> catalog_digest r) (Msg ''content revision must be a lowercase sha256 digest'')"

text \<open>\<open>strings.Cut\<close> at a byte: what follows the first occurrence, if there is one.\<close>

definition cut_after :: "char \<Rightarrow> string \<Rightarrow> string option" where
  "cut_after c s = (case dropWhile (\<lambda>x. x \<noteq> c) s of [] \<Rightarrow> None | _ # rest \<Rightarrow> Some rest)"

definition BundleDigestFromReference :: "string \<Rightarrow> go_error + string" where
  "BundleDigestFromReference reference = (case cut_after CHR ''@'' (trim reference) of
     Some digest \<Rightarrow> if catalog_digest digest then Inr digest
       else Inl (Msg ''catalog release must use an immutable OCI digest reference'')
   | None \<Rightarrow> Inl (Msg ''catalog release must use an immutable OCI digest reference''))"

subsection \<open>Manifests (\<open>source.go\<close>)\<close>

record SourceEntry =
  me_Path :: string
  me_ContentRevision :: string

record SourceManifest =
  mf_APIVersion :: string
  mf_Kind :: string
  mf_Name :: string
  mf_Version :: string
  mf_Entries :: "SourceEntry list"

definition validScenarioSourcePath :: "string \<Rightarrow> bool" where
  "validScenarioSourcePath v \<longleftrightarrow> v \<noteq> [] \<and> trim v = v \<and> CHR 0x5C \<notin> set v \<and> \<not> is_abs v \<and>
     clean_path v = v \<and> prefix ''scenarios/'' v \<and> drop 10 v \<noteq> []"

fun manifest_entries :: "string set \<Rightarrow> SourceEntry list \<Rightarrow> go_error option" where
  "manifest_entries seen [] = None"
| "manifest_entries seen (e # es) =
     (if \<not> validScenarioSourcePath (me_Path e) then Some (Msg ''invalid release scenario path'')
      else case ContentRevision_Validate (me_ContentRevision e) of
        Some err \<Rightarrow> Some (Wrap ''release entry contentRevision'' err)
      | None \<Rightarrow> if me_Path e \<in> seen then Some (Msg ''duplicate release scenario path'')
          else manifest_entries (insert (me_Path e) seen) es)"

definition SourceManifest_Validate :: "SourceManifest \<Rightarrow> go_error option" where
  "SourceManifest_Validate m = first_error
     [fail_if (mf_APIVersion m \<noteq> ''breakfix.dev/catalog/v1'')
        (Msg ''release apiVersion must be \"breakfix.dev/catalog/v1\"''),
      fail_if (mf_Kind m \<noteq> ''CatalogRelease'') (Msg ''release kind must be \"CatalogRelease\"''),
      fail_if (blank (mf_Name m) \<or> blank (mf_Version m)) (Msg ''release metadata name and version are required''),
      fail_if (mf_Entries m = []) (Msg ''release entries are required''),
      manifest_entries {} (mf_Entries m)]"

subsection \<open>States (\<open>runtime.go\<close>)\<close>

datatype ReleaseState =
  ReleasePending | ReleaseInstalling | ReleaseCommitting | ReleaseReady | ReleaseFailed | ReleaseStateOther string

definition ReleaseState_Valid :: "ReleaseState \<Rightarrow> bool" where
  "ReleaseState_Valid s \<longleftrightarrow>
     s \<in> {ReleasePending, ReleaseInstalling, ReleaseCommitting, ReleaseReady, ReleaseFailed}"

definition ReleaseState_Terminal :: "ReleaseState \<Rightarrow> bool" where
  "ReleaseState_Terminal s \<longleftrightarrow> s = ReleaseReady \<or> s = ReleaseFailed"

datatype EntryState =
  EntryMaterializing | EntryVerifying | EntryReadyToCommit | EntryFailed | EntryStateOther string

definition EntryState_Valid :: "EntryState \<Rightarrow> bool" where
  "EntryState_Valid s \<longleftrightarrow> s \<in> {EntryMaterializing, EntryVerifying, EntryReadyToCommit, EntryFailed}"

datatype CommitState =
  CommitPrepared | CommitMaterialized | CommitCommitted | CommitFailed | CommitStateOther string

definition CommitState_Valid :: "CommitState \<Rightarrow> bool" where
  "CommitState_Valid s \<longleftrightarrow> s \<in> {CommitPrepared, CommitMaterialized, CommitCommitted, CommitFailed}"

subsection \<open>Identities\<close>

text \<open>\<open>hex.EncodeToString(sum[:16])\<close>\<close>

definition short_digest :: "string \<Rightarrow> string" where
  "short_digest s = hex_of (take 16 (sha256 s))"

definition ReleaseIDForBundle :: "string \<Rightarrow> string" where
  "ReleaseIDForBundle digest = ''catalog-release-'' @ short_digest digest"

definition EntryIDFor :: "string \<Rightarrow> string \<Rightarrow> string" where
  "EntryIDFor releaseID sourcePath =
     ''catalog-entry-'' @ short_digest (trim releaseID @ [CHR 0x00] @ trim sourcePath)"

definition CommitIDForRelease :: "string \<Rightarrow> string" where
  "CommitIDForRelease releaseID = ''catalog-commit-'' @ short_digest (trim releaseID)"

definition EntryCommitIDFor :: "string \<Rightarrow> string \<Rightarrow> string" where
  "EntryCommitIDFor releaseID entryID =
     ''catalog-entry-commit-'' @ short_digest (trim releaseID @ [CHR 0x00] @ trim entryID)"

definition catalog_source_path :: "string \<Rightarrow> bool" where
  "catalog_source_path val \<longleftrightarrow> (let v = trim val in
     v \<noteq> [] \<and> \<not> is_abs v \<and> CHR 0x5C \<notin> set v \<and>
     clean_path v \<noteq> ''.'' \<and> clean_path v \<noteq> ''..'' \<and> \<not> prefix ''../'' (clean_path v) \<and> clean_path v = v)"

text \<open>
  The records. A digest, a state and a category are stored as text; the rows of the database are these
  records, with the reference columns as optional references.
\<close>

record Release =
  rl_ID :: string
  rl_Name :: string
  rl_Version :: string
  rl_BundleDigest :: string
  rl_SourceDigest :: string
  rl_State :: ReleaseState
  rl_SourceAttempt :: int
  rl_NextRunAt :: time
  rl_CommitID :: string
  rl_LastError :: string
  rl_FinalizerErrorCategory :: Category
  rl_FinalizerLastError :: string
  rl_FinalizerLastAttemptedAt :: "time option"
  rl_FinalizerNextRetryAt :: "time option"
  rl_CreatedAt :: time
  rl_UpdatedAt :: time

definition validFinalizerDiagnostic :: "Release \<Rightarrow> bool" where
  "validFinalizerDiagnostic r =
     (if rl_FinalizerErrorCategory r = CategoryUnknown
      then rl_FinalizerLastError r = [] \<and> rl_FinalizerLastAttemptedAt r = None \<and> rl_FinalizerNextRetryAt r = None
      else Diagnostic_Validate \<lparr>dg_Category = rl_FinalizerErrorCategory r, dg_LastError = rl_FinalizerLastError r,
        dg_LastAttemptedAt = (case rl_FinalizerLastAttemptedAt r of None \<Rightarrow> 0 | Some t \<Rightarrow> t),
        dg_NextRetryAt = rl_FinalizerNextRetryAt r\<rparr> = None)"

definition release_initialized :: "Release \<Rightarrow> bool" where
  "release_initialized r \<longleftrightarrow> \<not> blank (rl_Name r) \<or> \<not> blank (rl_Version r) \<or> rl_SourceDigest r \<noteq> []"

definition Release_Valid :: "Release \<Rightarrow> bool" where
  "Release_Valid r =
     (if blank (rl_ID r) \<or> \<not> catalog_digest (rl_BundleDigest r) \<or> \<not> ReleaseState_Valid (rl_State r) \<or>
         rl_SourceAttempt r < 0 \<or> rl_NextRunAt r = 0 \<or> rl_CreatedAt r = 0 \<or> rl_UpdatedAt r = 0
      then False
      else if release_initialized r \<and>
         (blank (rl_Name r) \<or> blank (rl_Version r) \<or> \<not> catalog_digest (rl_SourceDigest r)) then False
      else if \<not> validFinalizerDiagnostic r then False
      else if \<not> release_initialized r \<and> rl_State r \<noteq> ReleasePending \<and> rl_State r \<noteq> ReleaseFailed then False
      else if rl_State r = ReleaseCommitting \<or> rl_State r = ReleaseReady
        then release_initialized r \<and> \<not> blank (rl_CommitID r)
      else if rl_State r = ReleaseFailed
        then rl_CommitID r = [] \<or> trim (rl_CommitID r) = CommitIDForRelease (rl_ID r)
      else rl_CommitID r = [])"

record Entry =
  en_ID :: string
  en_ReleaseID :: string
  en_SourcePath :: string
  en_SourceRef :: string
  en_Title :: string
  en_Type :: ScenarioType
  en_Tags :: "string list"
  en_ContentRevision :: string
  en_Source :: SourceArchive
  en_State :: EntryState
  en_StateVersion :: int
  en_RunnableRevisionRef :: "RevisionReference option"
  en_VerificationReportRef :: "VerificationReportReference option"
  en_LastError :: string
  en_CreatedAt :: time
  en_UpdatedAt :: time

definition entry_state_ok :: "Entry \<Rightarrow> bool" where
  "entry_state_ok e = (case en_State e of
     EntryMaterializing \<Rightarrow> en_RunnableRevisionRef e = None \<and> en_VerificationReportRef e = None
   | EntryVerifying \<Rightarrow> en_RunnableRevisionRef e \<noteq> None \<and> en_VerificationReportRef e = None
   | EntryReadyToCommit \<Rightarrow> en_RunnableRevisionRef e \<noteq> None \<and> en_VerificationReportRef e \<noteq> None
   | EntryFailed \<Rightarrow> \<not> blank (en_LastError e)
   | EntryStateOther _ \<Rightarrow> False)"

definition Entry_Valid :: "unicode \<Rightarrow> Entry \<Rightarrow> bool" where
  "Entry_Valid u e \<longleftrightarrow>
     \<not> blank (en_ID e) \<and> \<not> blank (en_ReleaseID e) \<and> catalog_source_path (en_SourcePath e) \<and>
     \<not> blank (en_SourceRef e) \<and> \<not> blank (en_Title e) \<and> ScenarioType_Valid (en_Type e) \<and>
     catalog_digest (en_ContentRevision e) \<and> SourceArchive_Validate (en_Source e) = None \<and>
     EntryState_Valid (en_State e) \<and> 1 \<le> en_StateVersion e \<and> en_CreatedAt e \<noteq> 0 \<and> en_UpdatedAt e \<noteq> 0 \<and>
     canonical_tags u (en_Tags e) \<and>
     (case en_RunnableRevisionRef e of None \<Rightarrow> True | Some r \<Rightarrow> RevisionReference_Validate r = None) \<and>
     (case en_VerificationReportRef e of None \<Rightarrow> True | Some r \<Rightarrow> VerificationReportReference_Validate r = None) \<and>
     entry_state_ok e"

record Commit =
  co_ID :: string
  co_ReleaseID :: string
  co_EntryID :: string
  co_ScenarioID :: string
  co_ScenarioRevisionID :: string
  co_SourceSlug :: string
  co_State :: CommitState
  co_MaterializedRevision :: string
  co_MaterializedAt :: "time option"
  co_CommittedAt :: "time option"
  co_LastError :: string
  co_CreatedAt :: time
  co_UpdatedAt :: time

definition commit_state_ok :: "Commit \<Rightarrow> bool" where
  "commit_state_ok c = (case co_State c of
     CommitPrepared \<Rightarrow> co_MaterializedRevision c = [] \<and> co_MaterializedAt c = None \<and> co_CommittedAt c = None
   | CommitMaterialized \<Rightarrow>
       ValidRevision (co_MaterializedRevision c) \<and> co_MaterializedAt c \<noteq> None \<and> co_CommittedAt c = None
   | CommitCommitted \<Rightarrow>
       ValidRevision (co_MaterializedRevision c) \<and> co_MaterializedAt c \<noteq> None \<and> co_CommittedAt c \<noteq> None
   | CommitFailed \<Rightarrow> \<not> blank (co_LastError c)
   | CommitStateOther _ \<Rightarrow> False)"

definition Commit_Valid :: "unicode \<Rightarrow> Commit \<Rightarrow> bool" where
  "Commit_Valid u c \<longleftrightarrow>
     \<not> blank (co_ID c) \<and> \<not> blank (co_ReleaseID c) \<and> \<not> blank (co_EntryID c) \<and> ValidID (co_ScenarioID c) \<and>
     ValidRevisionID (co_ScenarioRevisionID c) \<and> ValidSourceSlug u (co_SourceSlug c) \<and>
     CommitState_Valid (co_State c) \<and> co_CreatedAt c \<noteq> 0 \<and> co_UpdatedAt c \<noteq> 0 \<and> commit_state_ok c"

end
