(* ===== verification/ScenarioRepository.thy ===== *)
theory ScenarioRepository
  imports GenerationPublish
begin

section \<open>Published scenarios\<close>

text \<open>
  \<open>internal/adapter/postgres/scenario_repository.go\<close>: the stable identities, their immutable revisions,
  the Catalog's query over the active pointers, and the author's deprecation. The tables are the
  \<open>g_scenarios\<close> and \<open>g_revisions\<close> of the generation repository, which inserts into them.
\<close>

subsection \<open>Rows\<close>

definition scanPersistedScenario :: "platform \<Rightarrow> Scenario option \<Rightarrow> go_error + Scenario" where
  "scanPersistedScenario pf row = and_then (found no_rows row)
     (\<lambda>c. if Scenario_Valid (pf_unicode pf) c then Inr c else Inl (Msg ''stored scenario is invalid''))"

definition scanPersistedScenarioRevision :: "platform \<Rightarrow> ScenarioRevision option \<Rightarrow> go_error + ScenarioRevision" where
  "scanPersistedScenarioRevision pf row = and_then (found no_rows row)
     (\<lambda>r. if ScenarioRevision_Valid (pf_unicode pf) r then Inr r
       else Inl (Msg ''stored scenario revision is invalid''))"

definition scanActiveScenarioRevision ::
  "platform \<Rightarrow> Scenario \<times> ScenarioRevision \<Rightarrow> go_error + Scenario \<times> ScenarioRevision"
where
  "scanActiveScenarioRevision pf row =
     (if ActiveRevision_Valid (pf_unicode pf) (fst row) (snd row) then Inr row
      else Inl (Msg ''stored active scenario revision is invalid''))"

subsection \<open>Queries\<close>

definition GetScenario :: "platform \<Rightarrow> generation_db \<Rightarrow> string \<Rightarrow> go_error + Scenario" where
  "GetScenario pf g i = (case sql_row sc_ID (trim i) (g_scenarios g) of
     None \<Rightarrow> Inl scenario_not_found
   | Some c \<Rightarrow> wrap_error ''get scenario'' (scanPersistedScenario pf (Some c)))"

definition GetScenarioRevision ::
  "platform \<Rightarrow> generation_db \<Rightarrow> string \<Rightarrow> string \<Rightarrow> go_error + ScenarioRevision"
where
  "GetScenarioRevision pf g scenarioID revisionID =
     (case find (\<lambda>r. sv_ScenarioID r = trim scenarioID \<and> sv_ID r = trim revisionID) (g_revisions g) of
        None \<Rightarrow> Inl scenario_not_found
      | Some r \<Rightarrow> wrap_error ''get scenario revision'' (scanPersistedScenarioRevision pf (Some r)))"

text \<open>\<open>scenarios c JOIN scenario_revisions r ON r.scenario_id = c.id AND r.id = c.active_revision_id\<close>\<close>

definition active_pairs :: "generation_db \<Rightarrow> (Scenario \<times> ScenarioRevision) list" where
  "active_pairs g = filter
     (\<lambda>(c, r). sv_ScenarioID r = sc_ID c \<and> sv_ID r = sc_ActiveRevisionID c \<and>
        sc_State c = ScenarioActive \<and> sv_State r = RevisionActive)
     (List.product (g_scenarios g) (g_revisions g))"

definition newest_published :: "platform \<Rightarrow> Scenario \<times> ScenarioRevision \<Rightarrow> Scenario \<times> ScenarioRevision \<Rightarrow> bool" where
  "newest_published pf a b \<longleftrightarrow> sv_PublishedAt (snd b) < sv_PublishedAt (snd a) \<or>
     (sv_PublishedAt (snd a) = sv_PublishedAt (snd b) \<and> db_coll (pf_db pf) (sc_ID (fst a)) (sc_ID (fst b)))"

definition ListActiveScenarioRevisions ::
  "platform \<Rightarrow> generation_db \<Rightarrow> go_error + (Scenario \<times> ScenarioRevision) list"
where
  "ListActiveScenarioRevisions pf g = wrap_error ''scan active scenario revision''
     (scan_all (scanActiveScenarioRevision pf) (sort_by (newest_published pf) (active_pairs g)))"

definition newest_updated :: "platform \<Rightarrow> Scenario \<Rightarrow> Scenario \<Rightarrow> bool" where
  "newest_updated pf a b \<longleftrightarrow> sc_UpdatedAt b < sc_UpdatedAt a \<or>
     (sc_UpdatedAt a = sc_UpdatedAt b \<and> db_coll (pf_db pf) (sc_ID b) (sc_ID a))"

definition ListAuthoringScenarios :: "platform \<Rightarrow> generation_db \<Rightarrow> string \<Rightarrow> go_error + Scenario list" where
  "ListAuthoringScenarios pf g userID =
     (if blank userID then Inl (Msg ''authoring scenario list requires a user'')
      else wrap_error ''scan authoring scenario''
        (scan_all (\<lambda>c. scanPersistedScenario pf (Some c)) (sort_by (newest_updated pf)
          (filter (\<lambda>c. sc_SourceKind c = SourceAuthoringScenario \<and> sc_OwnerUserID c = trim userID) (g_scenarios g)))))"

subsection \<open>Deprecation\<close>

definition DeprecateAuthoringScenario ::
  "platform \<Rightarrow> string \<Rightarrow> string \<Rightarrow> time \<Rightarrow> generation_db \<Rightarrow> (go_error + Scenario) \<times> generation_db"
where
  "DeprecateAuthoringScenario pf userID scenarioID now g = tx g
     (if blank userID \<or> blank scenarioID \<or> now = 0
      then Inl (Msg ''scenario deprecation requires user, scenario, and current time'')
      else and_then (lockPersistedScenarioTx pf g scenarioID) (\<lambda>target.
        if sc_SourceKind target \<noteq> SourceAuthoringScenario then Inl scenario_not_mutable
        else if sc_OwnerUserID target \<noteq> trim userID then Inl scenario_not_found
        else if sc_State target \<noteq> ScenarioActive then Inl scenario_not_mutable
        else and_then (lockPersistedScenarioRevisionTx pf g (sc_ActiveRevisionID target)) (\<lambda>active.
          if sv_ScenarioID active \<noteq> sc_ID target \<or> sv_State active \<noteq> RevisionActive then Inl revision_conflict
          else let P = (\<lambda>c. sc_ID c = sc_ID target \<and> sc_State c = ScenarioActive);
                   f = (\<lambda>c. c \<lparr>sc_State := ScenarioDeprecated, sc_UpdatedAt := pf_ts pf now\<rparr>);
                   g' = g \<lparr>g_scenarios := fst (sql_update P f (g_scenarios g))\<rparr> in
               if find P (g_scenarios g) = None then Inl revision_conflict
               else and_then (wrap_error ''deprecate scenario''
                   (scanPersistedScenario pf (map_option f (find P (g_scenarios g))))) (\<lambda>updated.
                 if sc_ActiveRevisionID updated \<noteq> sc_ActiveRevisionID target \<or>
                    sc_SourceSlug updated \<noteq> sc_SourceSlug target
                 then Inl revision_conflict
                 else Inr (updated, g')))))"

end
