(* ===== verification/CatalogRepository.thy ===== *)
theory CatalogRepository
  imports CatalogModel ScenarioRepository
begin

section \<open>The catalog repository\<close>

text \<open>
  \<open>internal/adapter/postgres/catalog_repository.go\<close> on the tables of \<open>schema_catalog.go\<close> and, for the
  published scenarios and the public runnable records, on the tables of the generation repository.
  Times are stored with the precision of the database.
\<close>

record catalog_db =
  c_generation :: generation_db
  c_releases :: "Release list"
  c_entries :: "Entry list"
  c_commits :: "Commit list"

definition catalog_release_not_found :: go_error where
  "catalog_release_not_found = Sentinel ErrCatalogReleaseNotFound ''catalog release not found''"

definition catalog_entry_not_found :: go_error where
  "catalog_entry_not_found = Sentinel ErrCatalogEntryNotFound ''catalog release entry not found''"

definition catalog_transition_lost :: go_error where
  "catalog_transition_lost = Sentinel ErrCatalogTransitionLost ''catalog transition lost''"

definition baseline_established :: go_error where
  "baseline_established = Sentinel ErrBaselineEstablished ''catalog baseline is already established''"

subsection \<open>Rows\<close>

definition scanCatalogRelease :: "Release option \<Rightarrow> go_error + Release" where
  "scanCatalogRelease row = and_then (found no_rows row)
     (\<lambda>r. if Release_Valid r then Inr r else Inl (Msg ''stored catalog release is invalid''))"

definition scanCatalogEntry :: "platform \<Rightarrow> Entry option \<Rightarrow> go_error + Entry" where
  "scanCatalogEntry pf row = and_then (found no_rows row)
     (\<lambda>e. if Entry_Valid (pf_unicode pf) e then Inr e else Inl (Msg ''stored catalog entry is invalid''))"

definition scanCatalogCommit :: "platform \<Rightarrow> Commit option \<Rightarrow> go_error + Commit" where
  "scanCatalogCommit pf row = and_then (found no_rows row)
     (\<lambda>c. if Commit_Valid (pf_unicode pf) c then Inr c else Inl (Msg ''stored catalog commit is invalid''))"

lemma scanCatalog_Inr [valid_simps]:
  "scanCatalogRelease row = Inr r \<longleftrightarrow> row = Some r \<and> Release_Valid r"
  "scanCatalogEntry pf row' = Inr e \<longleftrightarrow> row' = Some e \<and> Entry_Valid (pf_unicode pf) e"
  "scanCatalogCommit pf row'' = Inr c \<longleftrightarrow> row'' = Some c \<and> Commit_Valid (pf_unicode pf) c"
  by (auto simp: scanCatalogRelease_def scanCatalogEntry_def scanCatalogCommit_def and_then_Inr_iff found_Inr
      split: if_splits)

definition release_row :: "string \<Rightarrow> catalog_db \<Rightarrow> Release option" where
  "release_row i d = sql_row rl_ID i (c_releases d)"

definition entry_row :: "string \<Rightarrow> catalog_db \<Rightarrow> Entry option" where
  "entry_row i d = sql_row en_ID i (c_entries d)"

text \<open>\<open>SELECT ... WHERE id = ? FOR UPDATE\<close>, with the error for a missing row.\<close>

definition lock_release :: "catalog_db \<Rightarrow> string \<Rightarrow> go_error + Release" where
  "lock_release d i = (case release_row i d of
     None \<Rightarrow> Inl catalog_release_not_found | Some r \<Rightarrow> scanCatalogRelease (Some r))"

definition lock_entry :: "platform \<Rightarrow> catalog_db \<Rightarrow> string \<Rightarrow> go_error + Entry" where
  "lock_entry pf d i = (case entry_row i d of
     None \<Rightarrow> Inl catalog_entry_not_found | Some e \<Rightarrow> scanCatalogEntry pf (Some e))"

definition update_release :: "(Release \<Rightarrow> bool) \<Rightarrow> (Release \<Rightarrow> Release) \<Rightarrow> catalog_db \<Rightarrow> catalog_db" where
  "update_release P f d = d \<lparr>c_releases := fst (sql_update P f (c_releases d))\<rparr>"

text \<open>\<open>UPDATE ... WHERE ... RETURNING\<close>: the changed row as it is then, if there is one.\<close>

definition returning :: "('r \<Rightarrow> bool) \<Rightarrow> ('r \<Rightarrow> 'r) \<Rightarrow> 'r list \<Rightarrow> 'r option" where
  "returning P f t = map_option f (find P t)"

definition catalogRetryAt :: "int \<Rightarrow> time \<Rightarrow> time" where
  "catalogRetryAt attempt now =
     (let attempt = (if attempt < 1 then 1 else attempt);
          delay = seconds 1 * 2 ^ nat (min (attempt - 1) 6);
          delay = (if seconds 60 < delay then seconds 60 else delay)
      in now + delay)"

definition by_source_path :: "platform \<Rightarrow> Entry \<Rightarrow> Entry \<Rightarrow> bool" where
  "by_source_path pf a b \<longleftrightarrow> (if en_SourcePath a = en_SourcePath b then db_coll (pf_db pf) (en_ID a) (en_ID b)
     else db_coll (pf_db pf) (en_SourcePath a) (en_SourcePath b))"

definition listCatalogEntries :: "platform \<Rightarrow> catalog_db \<Rightarrow> string \<Rightarrow> go_error + Entry list" where
  "listCatalogEntries pf d releaseID = scan_all (\<lambda>e. scanCatalogEntry pf (Some e))
     (sort_by (by_source_path pf) (filter (\<lambda>e. en_ReleaseID e = trim releaseID) (c_entries d)))"

definition by_entry :: "platform \<Rightarrow> Commit \<Rightarrow> Commit \<Rightarrow> bool" where
  "by_entry pf a b \<longleftrightarrow> (if co_EntryID a = co_EntryID b then db_coll (pf_db pf) (co_ID a) (co_ID b)
     else db_coll (pf_db pf) (co_EntryID a) (co_EntryID b))"

definition listCatalogCommits :: "platform \<Rightarrow> catalog_db \<Rightarrow> string \<Rightarrow> go_error + Commit list" where
  "listCatalogCommits pf d releaseID = scan_all (\<lambda>c. scanCatalogCommit pf (Some c))
     (sort_by (by_entry pf) (filter (\<lambda>c. co_ReleaseID c = trim releaseID) (c_commits d)))"

subsection \<open>Reading\<close>

definition ReleaseByDigest :: "catalog_db \<Rightarrow> string \<Rightarrow> go_error + Release" where
  "ReleaseByDigest d digest = (case find (\<lambda>r. rl_BundleDigest r = digest) (c_releases d) of
     None \<Rightarrow> Inl catalog_release_not_found
   | Some r \<Rightarrow> wrap_error ''read catalog release by digest'' (scanCatalogRelease (Some r)))"

definition GetRelease :: "catalog_db \<Rightarrow> string \<Rightarrow> go_error + Release" where
  "GetRelease d i = (case release_row (trim i) d of
     None \<Rightarrow> Inl catalog_release_not_found
   | Some r \<Rightarrow> wrap_error ''read catalog release'' (scanCatalogRelease (Some r)))"

definition GetEntry :: "platform \<Rightarrow> catalog_db \<Rightarrow> string \<Rightarrow> go_error + Entry" where
  "GetEntry pf d i = (case entry_row (trim i) d of
     None \<Rightarrow> Inl catalog_entry_not_found
   | Some e \<Rightarrow> wrap_error ''read catalog entry'' (scanCatalogEntry pf (Some e)))"

definition CatalogBootstrapState :: "platform \<Rightarrow> catalog_db \<Rightarrow> go_error + Release list \<times> nat" where
  "CatalogBootstrapState pf d = and_then
     (scan_all (\<lambda>r. scanCatalogRelease (Some r)) (sort_by (\<lambda>a b. rl_CreatedAt a < rl_CreatedAt b \<or>
        (rl_CreatedAt a = rl_CreatedAt b \<and> db_coll (pf_db pf) (rl_ID a) (rl_ID b))) (c_releases d)))
     (\<lambda>releases. Inr (releases, length (g_scenarios (c_generation d))))"

subsection \<open>Creating and initializing\<close>

definition stored_release :: "platform \<Rightarrow> Release \<Rightarrow> Release" where
  "stored_release pf r = r \<lparr>rl_NextRunAt := pf_ts pf (rl_NextRunAt r), rl_CommitID := [], rl_LastError := [],
     rl_FinalizerErrorCategory := CategoryUnknown, rl_FinalizerLastError := [], rl_FinalizerLastAttemptedAt := None,
     rl_FinalizerNextRetryAt := None, rl_CreatedAt := pf_ts pf (rl_CreatedAt r), rl_UpdatedAt := pf_ts pf (rl_UpdatedAt r)\<rparr>"

definition CreateOrGetRelease ::
  "platform \<Rightarrow> Release \<Rightarrow> catalog_db \<Rightarrow> (go_error + Release \<times> bool) \<times> catalog_db"
where
  "CreateOrGetRelease pf release d = tx d
     (if rl_State release \<noteq> ReleasePending \<or> \<not> Release_Valid release \<or> rl_SourceAttempt release \<noteq> 1 \<or>
         rl_ID release \<noteq> ReleaseIDForBundle (rl_BundleDigest release)
      then Inl (Msg ''catalog release creation requires a valid pending source attempt'')
      else case find (\<lambda>r. rl_BundleDigest r = rl_BundleDigest release) (c_releases d) of
        Some row \<Rightarrow> and_then (wrap_error ''read catalog release by digest'' (scanCatalogRelease (Some row)))
          (\<lambda>existing. Inr ((existing, False), d))
      | None \<Rightarrow>
          if rl_ID release \<in> rl_ID ` set (c_releases d)
          then Inl (Wrap ''insert catalog release'' constraint_violation)
          else Inr ((release, True), d \<lparr>c_releases := c_releases d @ [stored_release pf release]\<rparr>))"

text \<open>The checks on the new entries: their identity, and each path and source reference once.\<close>

fun entries_error :: "unicode \<Rightarrow> string \<Rightarrow> string set \<Rightarrow> string set \<Rightarrow> Entry list \<Rightarrow> go_error option" where
  "entries_error u releaseID paths refs [] = None"
| "entries_error u releaseID paths refs (e # es) =
     (if en_ID e \<noteq> EntryIDFor releaseID (en_SourcePath e) \<or> en_ReleaseID e \<noteq> releaseID \<or>
         en_State e \<noteq> EntryMaterializing \<or> en_StateVersion e \<noteq> 1 \<or> \<not> Entry_Valid u e
      then Some (Msg ''catalog entry is invalid'')
      else if en_SourcePath e \<in> paths then Some (Msg ''duplicate catalog entry path'')
      else if en_SourceRef e \<in> refs then Some (Msg ''duplicate catalog entry source reference'')
      else entries_error u releaseID (insert (en_SourcePath e) paths) (insert (en_SourceRef e) refs) es)"

definition stored_entry :: "platform \<Rightarrow> Entry \<Rightarrow> Entry" where
  "stored_entry pf e = e \<lparr>en_LastError := [], en_CreatedAt := pf_ts pf (en_CreatedAt e),
     en_UpdatedAt := pf_ts pf (en_UpdatedAt e)\<rparr>"

fun insert_entries :: "platform \<Rightarrow> Entry list \<Rightarrow> catalog_db \<Rightarrow> go_error + catalog_db" where
  "insert_entries pf [] d = Inr d"
| "insert_entries pf (e # es) d =
     (if en_ID e \<in> en_ID ` set (c_entries d) \<or> en_ReleaseID e \<notin> rl_ID ` set (c_releases d) \<or>
         list_ex (\<lambda>x. en_ReleaseID x = en_ReleaseID e \<and>
           (en_SourcePath x = en_SourcePath e \<or> en_SourceRef x = en_SourceRef e)) (c_entries d)
      then Inl (Wrap ''insert catalog entry'' constraint_violation)
      else insert_entries pf es (d \<lparr>c_entries := c_entries d @ [stored_entry pf e]\<rparr>))"

definition InitializeRelease ::
  "platform \<Rightarrow> Release \<Rightarrow> Entry list \<Rightarrow> time \<Rightarrow> catalog_db \<Rightarrow> (go_error + Release) \<times> catalog_db"
where
  "InitializeRelease pf release entries now d = tx d
     (if rl_State release \<noteq> ReleasePending \<or> \<not> Release_Valid release \<or> blank (rl_Name release) \<or>
         blank (rl_Version release) \<or> \<not> catalog_digest (rl_SourceDigest release) \<or> now = 0
      then Inl (Msg ''catalog release initialization is invalid'')
      else check (entries_error (pf_unicode pf) (rl_ID release) {} {} entries)
        (and_then (lock_release d (rl_ID release)) (\<lambda>current.
          if rl_State current \<noteq> ReleasePending
          then if ReleaseState_Terminal (rl_State current) then Inr (current, d)
               else if rl_Name current \<noteq> rl_Name release \<or> rl_Version current \<noteq> rl_Version release \<or>
                  rl_SourceDigest current \<noteq> rl_SourceDigest release
               then Inl (Msg ''catalog release source metadata conflicts with its durable identity'')
               else Inr (current, d)
          else and_then (insert_entries pf entries d) (\<lambda>d1.
            let P = (\<lambda>r. rl_ID r = rl_ID release \<and> rl_State r = ReleasePending);
                f = (\<lambda>r. r \<lparr>rl_Name := rl_Name release, rl_Version := rl_Version release,
                      rl_SourceDigest := rl_SourceDigest release, rl_State := ReleaseInstalling, rl_LastError := [],
                      rl_UpdatedAt := pf_ts pf now\<rparr>) in
            if find P (c_releases d1) = None then Inl catalog_transition_lost
            else and_then (wrap_error ''initialize catalog release'' (scanCatalogRelease (returning P f (c_releases d1))))
              (\<lambda>updated. Inr (updated, update_release P f d1))))))"

subsection \<open>Failures\<close>

definition ReportSourceInfrastructureFailure ::
  "platform \<Rightarrow> string \<Rightarrow> string \<Rightarrow> time \<Rightarrow> catalog_db \<Rightarrow> (go_error + Release) \<times> catalog_db"
where
  "ReportSourceInfrastructureFailure pf releaseID summary now d = tx d
     (if blank releaseID \<or> blank summary \<or> now = 0 then Inl (Msg ''catalog source failure is invalid'')
      else and_then (lock_release d releaseID) (\<lambda>release.
        if rl_State release \<noteq> ReleasePending then Inl catalog_transition_lost
        else let P = (\<lambda>r. rl_ID r = rl_ID release);
                 f = (\<lambda>r. if 5 \<le> rl_SourceAttempt release
                      then r \<lparr>rl_State := ReleaseFailed, rl_LastError := trim summary, rl_UpdatedAt := pf_ts pf now\<rparr>
                      else r \<lparr>rl_SourceAttempt := rl_SourceAttempt r + 1,
                            rl_NextRunAt := pf_ts pf (catalogRetryAt (rl_SourceAttempt release + 1) now),
                            rl_LastError := trim summary, rl_UpdatedAt := pf_ts pf now\<rparr>) in
             and_then (wrap_error ''record catalog source failure'' (scanCatalogRelease (returning P f (c_releases d))))
               (\<lambda>updated. Inr (updated, update_release P f d))))"

text \<open>One statement outside a transaction: the row is changed even when what it returns does not scan.\<close>

definition failReleaseState ::
  "platform \<Rightarrow> string \<Rightarrow> ReleaseState list \<Rightarrow> string \<Rightarrow> time \<Rightarrow> catalog_db \<Rightarrow> (go_error + Release) \<times> catalog_db"
where
  "failReleaseState pf releaseID allowed summary now d =
     (if blank releaseID \<or> blank summary \<or> now = 0 \<or> allowed = []
      then (Inl (Msg ''catalog release failure is invalid''), d)
      else let P = (\<lambda>r. rl_ID r = trim releaseID \<and> rl_State r \<in> set allowed);
               f = (\<lambda>r. r \<lparr>rl_State := ReleaseFailed, rl_LastError := trim summary, rl_UpdatedAt := pf_ts pf now\<rparr>)
           in if find P (c_releases d) = None then (Inl catalog_transition_lost, d)
              else (wrap_error ''fail catalog release'' (scanCatalogRelease (returning P f (c_releases d))),
                    update_release P f d))"

definition FailPendingRelease ::
  "platform \<Rightarrow> string \<Rightarrow> string \<Rightarrow> time \<Rightarrow> catalog_db \<Rightarrow> (go_error + Release) \<times> catalog_db"
where
  "FailPendingRelease pf releaseID summary now d = failReleaseState pf releaseID [ReleasePending] summary now d"

definition FailRelease ::
  "platform \<Rightarrow> string \<Rightarrow> string \<Rightarrow> time \<Rightarrow> catalog_db \<Rightarrow> (go_error + Release) \<times> catalog_db"
where
  "FailRelease pf releaseID summary now d =
     failReleaseState pf releaseID [ReleasePending, ReleaseInstalling, ReleaseCommitting] summary now d"

definition RecordCatalogFinalizerFailure ::
  "platform \<Rightarrow> string \<Rightarrow> Diagnostic \<Rightarrow> catalog_db \<Rightarrow> (go_error + Release) \<times> catalog_db"
where
  "RecordCatalogFinalizerFailure pf releaseID g d = tx d
     (if blank releaseID \<or> Diagnostic_Validate g \<noteq> None then Inl (Msg ''catalog finalizer diagnostic is invalid'')
      else and_then (lock_release d releaseID) (\<lambda>release.
        if rl_State release \<noteq> ReleaseInstalling \<and> rl_State release \<noteq> ReleaseCommitting then Inl catalog_transition_lost
        else let state = (if dg_Category g = CategoryDeterministic then ReleaseFailed else rl_State release);
                 next = (case dg_NextRetryAt g of Some t \<Rightarrow> t | None \<Rightarrow> dg_LastAttemptedAt g);
                 P = (\<lambda>r. rl_ID r = rl_ID release \<and>
                        (rl_State r = ReleaseInstalling \<or> rl_State r = ReleaseCommitting));
                 f = (\<lambda>r. r \<lparr>rl_State := state, rl_NextRunAt := pf_ts pf next, rl_LastError := dg_LastError g,
                        rl_FinalizerErrorCategory := dg_Category g, rl_FinalizerLastError := dg_LastError g,
                        rl_FinalizerLastAttemptedAt := Some (pf_ts pf (dg_LastAttemptedAt g)),
                        rl_FinalizerNextRetryAt := map_option (pf_ts pf) (dg_NextRetryAt g),
                        rl_UpdatedAt := pf_ts pf (dg_LastAttemptedAt g)\<rparr>) in
             and_then (wrap_error ''persist catalog finalizer failure'' (scanCatalogRelease (returning P f (c_releases d))))
               (\<lambda>updated. Inr (updated, update_release P f d))))"

subsection \<open>Entries\<close>

definition validateCatalogRunnableRevisionTx :: "generation_db \<Rightarrow> Entry \<Rightarrow> RevisionReference \<Rightarrow> go_error option" where
  "validateCatalogRunnableRevisionTx g entry reference =
     (case find (\<lambda>r. rv_id r = ref_ID reference \<and> rv_digest r = ref_Digest reference) (st_revisions (g_runnable g)) of
        None \<Rightarrow> Some ErrRunnableRevisionNotFound_error
      | Some r \<Rightarrow> (case sql_row sp_digest (rv_spec r) (st_specs (g_runnable g)) of
          None \<Rightarrow> Some ErrRunnableRevisionNotFound_error
        | Some s \<Rightarrow> fail_if (ci_Kind (sp_content s) \<noteq> ''operations'' \<or> ci_ID (sp_content s) \<noteq> en_ID entry \<or>
              ci_Revision (sp_content s) \<noteq> en_ContentRevision entry)
            (Msg ''catalog runnable revision does not match entry identity'')))"

definition validateCatalogVerificationReportTx ::
  "generation_db \<Rightarrow> RevisionReference \<Rightarrow> VerificationReportReference \<Rightarrow> go_error option"
where
  "validateCatalogVerificationReportTx g revision reference =
     (case find (\<lambda>r. vw_id r = vref_ID reference \<and> vw_digest r = vref_Digest reference) (st_reports (g_runnable g)) of
        None \<Rightarrow> Some ErrVerificationReportNotFound_error
      | Some r \<Rightarrow>
          if vw_revision r \<noteq> ref_Digest revision
          then Some (Msg ''catalog verification report does not match runnable revision'')
          else fail_if (\<not> vr_Passed (vw_report r)) (Msg ''catalog verification report did not pass''))"

text \<open>
  \<open>UPDATE catalog_release_entries entry ... FROM catalog_releases release WHERE entry.release_id = release.id
  AND release.state = ...\<close>: the change, if exactly one row changed.
\<close>

definition advance_entry :: "EntryState \<Rightarrow> Entry \<Rightarrow> (Entry \<Rightarrow> Entry) \<Rightarrow> catalog_db \<Rightarrow> go_error + unit \<times> catalog_db" where
  "advance_entry from entry f d =
     (let (t, changed) = sql_update (\<lambda>e. en_ID e = en_ID entry \<and> en_State e = from \<and>
            en_StateVersion e = en_StateVersion entry \<and>
            list_ex (\<lambda>r. rl_ID r = en_ReleaseID e \<and> rl_State r = ReleaseInstalling) (c_releases d)) f (c_entries d)
      in if changed \<noteq> 1 then Inl catalog_transition_lost else Inr ((), d \<lparr>c_entries := t\<rparr>))"

definition MarkCatalogEntryMaterialized ::
  "platform \<Rightarrow> string \<Rightarrow> RevisionReference \<Rightarrow> time \<Rightarrow> catalog_db \<Rightarrow> (go_error + unit) \<times> catalog_db"
where
  "MarkCatalogEntryMaterialized pf entryID reference now d = tx d
     (if blank entryID \<or> RevisionReference_Validate reference \<noteq> None \<or> now = 0
      then Inl (Msg ''catalog entry materialization is invalid'')
      else and_then (lock_entry pf d entryID) (\<lambda>entry.
        if en_State entry = EntryVerifying \<and> en_RunnableRevisionRef entry = Some reference then Inr ((), d)
        else if en_State entry \<noteq> EntryMaterializing then Inl catalog_transition_lost
        else check (validateCatalogRunnableRevisionTx (c_generation d) entry reference)
          (advance_entry EntryMaterializing entry (\<lambda>e. e \<lparr>en_State := EntryVerifying,
             en_StateVersion := en_StateVersion e + 1, en_RunnableRevisionRef := Some reference, en_LastError := [],
             en_UpdatedAt := pf_ts pf now\<rparr>) d)))"

definition MarkCatalogEntryVerified ::
  "platform \<Rightarrow> string \<Rightarrow> VerificationReportReference \<Rightarrow> time \<Rightarrow> catalog_db \<Rightarrow> (go_error + unit) \<times> catalog_db"
where
  "MarkCatalogEntryVerified pf entryID reference now d = tx d
     (if blank entryID \<or> VerificationReportReference_Validate reference \<noteq> None \<or> now = 0
      then Inl (Msg ''catalog entry verification is invalid'')
      else and_then (lock_entry pf d entryID) (\<lambda>entry.
        if en_State entry = EntryReadyToCommit \<and> en_VerificationReportRef entry = Some reference then Inr ((), d)
        else case en_RunnableRevisionRef entry of
          None \<Rightarrow> Inl catalog_transition_lost
        | Some revision \<Rightarrow>
            if en_State entry \<noteq> EntryVerifying then Inl catalog_transition_lost
            else check (validateCatalogVerificationReportTx (c_generation d) revision reference)
              (advance_entry EntryVerifying entry (\<lambda>e. e \<lparr>en_State := EntryReadyToCommit,
                 en_StateVersion := en_StateVersion e + 1, en_VerificationReportRef := Some reference,
                 en_LastError := [], en_UpdatedAt := pf_ts pf now\<rparr>) d)))"

subsection \<open>Committing\<close>

text \<open>
  The loop over the intents: each is checked and inserted; the entry ids seen come back with the tables.
\<close>

definition stored_commit :: "platform \<Rightarrow> Commit \<Rightarrow> Commit" where
  "stored_commit pf c = c \<lparr>co_LastError := [], co_MaterializedRevision := [], co_MaterializedAt := None,
     co_CommittedAt := None, co_CreatedAt := pf_ts pf (co_CreatedAt c), co_UpdatedAt := pf_ts pf (co_UpdatedAt c)\<rparr>"

fun insert_intents ::
  "platform \<Rightarrow> string \<Rightarrow> string list \<Rightarrow> Commit list \<Rightarrow> catalog_db \<Rightarrow> go_error + string list \<times> catalog_db"
where
  "insert_intents pf releaseID seen [] d = Inr (seen, d)"
| "insert_intents pf releaseID seen (i # is) d =
     (if co_ID i \<noteq> EntryCommitIDFor releaseID (co_EntryID i) \<or> co_ReleaseID i \<noteq> releaseID \<or>
         co_State i \<noteq> CommitPrepared \<or> \<not> Commit_Valid (pf_unicode pf) i
      then Inl (Msg ''catalog commit intent is invalid'')
      else if co_EntryID i \<in> set seen then Inl (Msg ''catalog commit intent is duplicated'')
      else if co_ID i \<in> co_ID ` set (c_commits d) \<or> co_ReleaseID i \<notin> rl_ID ` set (c_releases d) \<or>
         co_EntryID i \<in> co_EntryID ` set (c_commits d) \<or> co_EntryID i \<notin> en_ID ` set (c_entries d) \<or>
         co_ScenarioID i \<in> co_ScenarioID ` set (c_commits d) \<or>
         co_ScenarioRevisionID i \<in> co_ScenarioRevisionID ` set (c_commits d) \<or>
         co_SourceSlug i \<in> co_SourceSlug ` set (c_commits d)
      then Inl (Wrap ''insert catalog commit'' constraint_violation)
      else insert_intents pf releaseID (seen @ [co_EntryID i]) is
             (d \<lparr>c_commits := c_commits d @ [stored_commit pf i]\<rparr>))"

definition PrepareReleaseCommit ::
  "platform \<Rightarrow> string \<Rightarrow> Commit list \<Rightarrow> time \<Rightarrow> catalog_db \<Rightarrow> (go_error + Release \<times> Commit list) \<times> catalog_db"
where
  "PrepareReleaseCommit pf releaseID intents now d = tx d
     (if blank releaseID \<or> now = 0 then Inl (Msg ''catalog commit preparation is invalid'')
      else and_then (lock_release d releaseID) (\<lambda>release.
        if rl_State release = ReleaseCommitting
        then and_then (listCatalogCommits pf d (rl_ID release)) (\<lambda>commits. Inr ((release, commits), d))
        else if rl_State release \<noteq> ReleaseInstalling then Inl catalog_transition_lost
        else and_then (listCatalogEntries pf d (rl_ID release)) (\<lambda>entries.
          if entries = [] \<or> length entries \<noteq> length intents
          then Inl (Msg ''catalog commit intents do not cover entries'')
          else if list_ex (\<lambda>e. en_State e \<noteq> EntryReadyToCommit \<or> en_RunnableRevisionRef e = None \<or>
             en_VerificationReportRef e = None) entries
          then Inl (Msg ''catalog entry is not ready to commit'')
          else and_then (insert_intents pf (rl_ID release) [] intents d) (\<lambda>(seen, d1).
            if list_ex (\<lambda>e. en_ID e \<notin> set seen) entries
            then Inl (Msg ''catalog commit intent omitted an entry'')
            else let P = (\<lambda>r. rl_ID r = rl_ID release \<and> rl_State r = ReleaseInstalling);
                     f = (\<lambda>r. r \<lparr>rl_State := ReleaseCommitting, rl_CommitID := CommitIDForRelease (rl_ID release),
                            rl_LastError := [], rl_UpdatedAt := pf_ts pf now\<rparr>);
                     d2 = update_release P f d1 in
                 if find P (c_releases d1) = None then Inl catalog_transition_lost
                 else and_then (scanCatalogRelease (returning P f (c_releases d1))) (\<lambda>updated.
                   and_then (listCatalogCommits pf d2 (rl_ID release)) (\<lambda>commits.
                     Inr ((updated, commits), d2)))))))"

text \<open>
  One statement outside a transaction. The second query, when no row was changed, compares the ids and
  the revision as they were given.
\<close>

definition MarkCommitMaterialized ::
  "platform \<Rightarrow> string \<Rightarrow> string \<Rightarrow> string \<Rightarrow> time \<Rightarrow> catalog_db \<Rightarrow> (go_error + Commit) \<times> catalog_db"
where
  "MarkCommitMaterialized pf releaseID commitID materializedRevision now d =
     (if blank releaseID \<or> blank commitID \<or> \<not> ValidRevision materializedRevision \<or> now = 0
      then (Inl (Msg ''catalog materialization completion is invalid''), d)
      else let P = (\<lambda>c. co_ID c = trim commitID \<and> co_ReleaseID c = trim releaseID \<and> co_State c = CommitPrepared \<and>
                     list_ex (\<lambda>r. rl_ID r = co_ReleaseID c \<and> rl_State r = ReleaseCommitting) (c_releases d));
               f = (\<lambda>c. c \<lparr>co_State := CommitMaterialized, co_MaterializedRevision := trim materializedRevision,
                      co_MaterializedAt := Some (pf_ts pf now), co_UpdatedAt := pf_ts pf now\<rparr>)
           in if find P (c_commits d) = None
              then (case scanCatalogCommit pf (find (\<lambda>c. co_ID c = commitID \<and> co_ReleaseID c = releaseID) (c_commits d)) of
                  Inr existing \<Rightarrow>
                    if co_State existing = CommitMaterialized \<and> co_MaterializedRevision existing = materializedRevision
                    then (Inr existing, d) else (Inl catalog_transition_lost, d)
                | Inl _ \<Rightarrow> (Inl catalog_transition_lost, d))
              else (wrap_error ''mark catalog commit materialized'' (scanCatalogCommit pf (returning P f (c_commits d))),
                    d \<lparr>c_commits := fst (sql_update P f (c_commits d))\<rparr>))"

text \<open>What one commit publishes, and the loop over the commits.\<close>

definition commit_scenario :: "Entry \<Rightarrow> Commit \<Rightarrow> time \<Rightarrow> Scenario" where
  "commit_scenario entry c now = \<lparr>sc_ID = co_ScenarioID c, sc_SourceKind = SourceRelease,
     sc_SourceRef = en_SourceRef entry, sc_OwnerUserID = [], sc_State = ScenarioActive,
     sc_ActiveRevisionID = co_ScenarioRevisionID c, sc_SourceSlug = co_SourceSlug c, sc_CreatedAt = now,
     sc_UpdatedAt = now\<rparr>"

definition commit_revision ::
  "unicode \<Rightarrow> Entry \<Rightarrow> Commit \<Rightarrow> RevisionReference \<Rightarrow> VerificationReportReference \<Rightarrow> time \<Rightarrow> ScenarioRevision"
where
  "commit_revision u entry c revision report at = \<lparr>sv_ID = co_ScenarioRevisionID c, sv_ScenarioID = co_ScenarioID c,
     sv_SourceKind = SourceRelease, sv_SourceRef = en_SourceRef entry, sv_SourceRevisionID = en_ContentRevision entry,
     sv_BaseActiveRevisionID = [], sv_Title = en_Title entry, sv_Type = en_Type entry, sv_Tags = en_Tags entry,
     sv_ContentRevision = en_ContentRevision entry, sv_SourceSlug = co_SourceSlug c,
     sv_MaterializedPath = MaterializedPath u (co_SourceSlug c) (co_ScenarioRevisionID c),
     sv_MaterializedRevision = co_MaterializedRevision c, sv_RunnableRevisionRef = revision,
     sv_VerificationReportRef = report, sv_State = RevisionActive, sv_PublishedAt = at, sv_CreatedAt = at\<rparr>"

fun publish_commits ::
  "platform \<Rightarrow> Entry list \<Rightarrow> time \<Rightarrow> Commit list \<Rightarrow> generation_db \<Rightarrow> go_error + generation_db"
where
  "publish_commits pf entries now [] g = Inr g"
| "publish_commits pf entries now (c # cs) g =
     (case find (\<lambda>e. en_ID e = co_EntryID c) entries of
        None \<Rightarrow> Inl (Msg ''catalog release has incomplete publication state'')
      | Some entry \<Rightarrow>
         (case (co_MaterializedAt c, en_RunnableRevisionRef entry, en_VerificationReportRef entry) of
            (Some at, Some revision, Some report) \<Rightarrow>
              if co_State c \<noteq> CommitMaterialized \<or> \<not> Commit_Valid (pf_unicode pf) c \<or>
                 en_State entry \<noteq> EntryReadyToCommit
              then Inl (Msg ''catalog release has incomplete publication state'')
              else check (validateCatalogRunnableRevisionTx g entry revision)
                (check (validateCatalogVerificationReportTx g revision report)
                  (and_then (wrap_error ''create catalog scenario''
                     (insertPersistedScenarioTx pf (commit_scenario entry c now) g)) (\<lambda>g1.
                   and_then (wrap_error ''create catalog scenario revision''
                     (insertPersistedScenarioRevisionTx pf
                        (commit_revision (pf_unicode pf) entry c revision report at) g1))
                     (publish_commits pf entries now cs))))
          | _ \<Rightarrow> Inl (Msg ''catalog release has incomplete publication state'')))"

definition ready_release :: "platform \<Rightarrow> time \<Rightarrow> Release \<Rightarrow> Release" where
  "ready_release pf now r = r \<lparr>rl_State := ReleaseReady, rl_LastError := [],
     rl_FinalizerErrorCategory := CategoryUnknown, rl_FinalizerLastError := [], rl_FinalizerLastAttemptedAt := None,
     rl_FinalizerNextRetryAt := None, rl_UpdatedAt := pf_ts pf now\<rparr>"

definition CompleteReleaseCommit ::
  "platform \<Rightarrow> string \<Rightarrow> time \<Rightarrow> catalog_db \<Rightarrow> (go_error + Release) \<times> catalog_db"
where
  "CompleteReleaseCommit pf releaseID now d = tx d
     (if blank releaseID \<or> now = 0 then Inl (Msg ''catalog release completion is invalid'')
      else and_then (lock_release d releaseID) (\<lambda>release.
        if rl_State release = ReleaseReady then Inr (release, d)
        else if rl_State release \<noteq> ReleaseCommitting then Inl catalog_transition_lost
        else if g_scenarios (c_generation d) \<noteq> [] then Inl baseline_established
        else if list_ex (\<lambda>r. rl_State r = ReleaseReady \<and> rl_ID r \<noteq> rl_ID release) (c_releases d)
        then Inl baseline_established
        else and_then (listCatalogEntries pf d (rl_ID release)) (\<lambda>entries.
          and_then (listCatalogCommits pf d (rl_ID release)) (\<lambda>commits.
          if entries = [] \<or> length entries \<noteq> length commits then Inl (Msg ''catalog commits do not cover entries'')
          else and_then (publish_commits pf entries now commits (c_generation d)) (\<lambda>g1.
            let commits' = fst (sql_update
                  (\<lambda>c. co_ReleaseID c = rl_ID release \<and> co_State c = CommitMaterialized)
                  (\<lambda>c. c \<lparr>co_State := CommitCommitted, co_CommittedAt := Some (pf_ts pf now),
                     co_UpdatedAt := pf_ts pf now\<rparr>) (c_commits d));
                P = (\<lambda>r. rl_ID r = rl_ID release) in
            and_then (scanCatalogRelease (returning P (ready_release pf now) (c_releases d))) (\<lambda>updated.
              Inr (updated, update_release P (ready_release pf now)
                (d \<lparr>c_generation := g1, c_commits := commits'\<rparr>))))))))"

end
