(* ===== verification/Materialization.thy ===== *)
theory Materialization
  imports CatalogRepository
begin

section \<open>Published directories\<close>

text \<open>
  \<open>internal/adapter/postgres/publication_repository.go\<close>, which derives the set of directories the
  database still needs, and \<open>internal/application/publication/materialization.go\<close>, which removes the
  others from the scenarios directory. A directory is the list of its entries; failures of the
  operating system are an oracle that says which call fails, with what error, and what a failed
  \<open>RemoveAll\<close> leaves behind.
\<close>

subsection \<open>What the database retains\<close>

type_synonym materialized_row = "string \<times> string \<times> string"

definition revision_rows :: "generation_db \<Rightarrow> materialized_row list" where
  "revision_rows g = map (\<lambda>r. (sv_MaterializedPath r, sv_SourceSlug r, sv_ID r)) (g_revisions g)"

definition intent_rows :: "generation_db \<Rightarrow> materialized_row list" where
  "intent_rows g = concat (map (\<lambda>(w, c). case cr_Publication c of
       Some p \<Rightarrow> if wf_State w = StatePublishing \<and> cr_ID c = wf_CandidateRevisionID w \<and> cr_PublishedAt c = None
         then [(pb_TargetPath p, pb_SourceSlug p, pb_ScenarioRevisionID p)] else []
     | None \<Rightarrow> []) (List.product (g_workflows g) (g_candidates g)))"

definition commit_rows :: "catalog_db \<Rightarrow> materialized_row list" where
  "commit_rows d = map (\<lambda>c. (co_SourceSlug c @ ''/'' @ co_ScenarioRevisionID c, co_SourceSlug c, co_ScenarioRevisionID c))
     (filter (\<lambda>c. co_State c \<in> {CommitPrepared, CommitMaterialized, CommitCommitted} \<and>
        list_ex (\<lambda>r. rl_ID r = co_ReleaseID c \<and> rl_State r = ReleaseCommitting) (c_releases d)) (c_commits d))"

definition retained_rows :: "catalog_db \<Rightarrow> materialized_row list" where
  "retained_rows d = revision_rows (c_generation d) @ intent_rows (c_generation d) @ commit_rows d"

definition scan_retained :: "unicode \<Rightarrow> materialized_row \<Rightarrow> go_error + string" where
  "scan_retained u row = (case row of (path, slug, revisionID) \<Rightarrow>
     check (map_option (Wrap ''invalid materialized path'')
         (ValidateMaterializedPath u (trim path) (trim slug) (trim revisionID)))
       (Inr (trim path)))"

definition RetainedMaterializationPaths :: "unicode \<Rightarrow> catalog_db \<Rightarrow> go_error + string list" where
  "RetainedMaterializationPaths u d = and_then (scan_all (scan_retained u) (retained_rows d))
     (\<lambda>paths. Inr (sort_by string_le (remdups paths)))"

subsection \<open>Directories\<close>

datatype file_node = Directory time "(string \<times> file_node) list" | NotDirectory time

type_synonym directory = "(string \<times> file_node) list"

fun is_dir :: "file_node \<Rightarrow> bool" where
  "is_dir (Directory t entries) = True"
| "is_dir (NotDirectory t) = False"

fun mod_time :: "file_node \<Rightarrow> time" where
  "mod_time (Directory t entries) = t"
| "mod_time (NotDirectory t) = t"

definition drop_entry :: "string \<Rightarrow> directory \<Rightarrow> directory" where
  "drop_entry name dir = filter (\<lambda>e. fst e \<noteq> name) dir"

definition put_entry :: "string \<Rightarrow> file_node \<Rightarrow> directory \<Rightarrow> directory" where
  "put_entry name node dir = map (\<lambda>e. if fst e = name then (name, node) else e) dir"

text \<open>\<open>os.ReadDir\<close>: the entries by name.\<close>

definition read_dir :: "directory \<Rightarrow> directory" where
  "read_dir dir = sort_by (\<lambda>a b. string_le (fst a) (fst b)) dir"

text \<open>The node two levels down: a revision of a published scenario.\<close>

definition tree_at :: "string \<Rightarrow> string \<Rightarrow> directory \<Rightarrow> file_node option" where
  "tree_at slug revision dir = (case map_of dir slug of
     Some (Directory t entries) \<Rightarrow> map_of entries revision | _ \<Rightarrow> None)"

record fs_faults =
  ff_root :: "go_error option"
  ff_cancelled :: "string \<Rightarrow> go_error option"
  ff_info :: "string \<Rightarrow> bool"
  ff_read :: "string \<Rightarrow> go_error option"
  ff_remove_all :: "string \<Rightarrow> (go_error \<times> file_node option) option"
  ff_remove :: "string \<Rightarrow> go_error option"

definition remove_all :: "fs_faults \<Rightarrow> string \<Rightarrow> string \<Rightarrow> directory \<Rightarrow> go_error option \<times> directory" where
  "remove_all ff path name dir = (case ff_remove_all ff path of
     None \<Rightarrow> (None, drop_entry name dir)
   | Some (e, None) \<Rightarrow> (Some e, drop_entry name dir)
   | Some (e, Some left) \<Rightarrow> (Some e, put_entry name left dir))"

definition error_list :: "string \<Rightarrow> go_error option \<Rightarrow> go_error list" where
  "error_list message err = (case err of None \<Rightarrow> [] | Some e \<Rightarrow> [Wrap message e])"

text \<open>\<open>errors.Join\<close>: only its text is used, in a log line.\<close>

fun join_texts :: "go_error list \<Rightarrow> string" where
  "join_texts [] = []"
| "join_texts [e] = err_text e"
| "join_texts (e # es) = err_text e @ CHR 0x0A # join_texts es"

definition errors_join :: "go_error list \<Rightarrow> go_error option" where
  "errors_join es = (if es = [] then None else Some (Msg (join_texts es)))"

subsection \<open>The reconciler\<close>

fun reconcile_revisions ::
  "fs_faults \<Rightarrow> string list \<Rightarrow> string \<Rightarrow> directory \<Rightarrow> directory \<Rightarrow> go_error list \<times> directory"
where
  "reconcile_revisions ff retained slug [] children = ([], children)"
| "reconcile_revisions ff retained slug ((name, node) # listing) children =
     (if \<not> is_dir node \<or> \<not> ValidRevisionID name \<or> path_join slug name \<in> set retained
      then reconcile_revisions ff retained slug listing children
      else let (err, children) = remove_all ff (path_join slug name) name children;
               (errs, children) = reconcile_revisions ff retained slug listing children
           in (error_list ''remove orphaned materialization'' err @ errs, children))"

text \<open>
  One directory of a scenario. \<open>os.Remove\<close> of a directory that is not empty is ignored, as is one of a
  directory that is gone.
\<close>

definition reconcile_parent ::
  "fs_faults \<Rightarrow> string list \<Rightarrow> string \<Rightarrow> time \<Rightarrow> directory \<Rightarrow> directory \<Rightarrow> go_error list \<times> directory"
where
  "reconcile_parent ff retained slug t children dir = (case ff_read ff slug of
     Some e \<Rightarrow> ([Wrap ''read materialization parent'' e], dir)
   | None \<Rightarrow>
       let (errs, children') = reconcile_revisions ff retained slug (read_dir children) children in
       (case ff_remove ff slug of
          Some e \<Rightarrow> (errs @ [Wrap ''remove empty materialization parent'' e], put_entry slug (Directory t children') dir)
        | None \<Rightarrow> (errs, if children' = [] then drop_entry slug dir else put_entry slug (Directory t children') dir)))"

definition stagingExpired :: "fs_faults \<Rightarrow> time \<Rightarrow> duration \<Rightarrow> string \<Rightarrow> file_node \<Rightarrow> bool" where
  "stagingExpired ff now stagingMaxAge name node \<longleftrightarrow> \<not> ff_info ff name \<and> mod_time node \<le> now - stagingMaxAge"

text \<open>One entry of the scenarios directory: the errors it adds, and the directory after it.\<close>

definition reconcile_entry ::
  "unicode \<Rightarrow> fs_faults \<Rightarrow> time \<Rightarrow> duration \<Rightarrow> bool \<Rightarrow> string list \<Rightarrow> string \<Rightarrow> file_node \<Rightarrow> directory
     \<Rightarrow> go_error list \<times> directory"
where
  "reconcile_entry u ff now stagingMaxAge removeAllStaging retained name node dir =
     (if prefix ''.tmp-'' name
      then if removeAllStaging \<or> stagingExpired ff now stagingMaxAge name node
           then let (err, dir) = remove_all ff name name dir
                in (error_list ''remove staging materialization'' err, dir)
           else ([], dir)
      else case node of
        NotDirectory t \<Rightarrow> ([], dir)
      | Directory t children \<Rightarrow>
          if \<not> ValidSourceSlug u name then ([], dir)
          else reconcile_parent ff retained name t children dir)"

fun reconcile_entries ::
  "unicode \<Rightarrow> fs_faults \<Rightarrow> time \<Rightarrow> duration \<Rightarrow> bool \<Rightarrow> string list \<Rightarrow> directory \<Rightarrow> go_error list \<Rightarrow> directory
     \<Rightarrow> go_error option \<times> directory"
where
  "reconcile_entries u ff now age allStaging retained [] errs dir = (errors_join errs, dir)"
| "reconcile_entries u ff now age allStaging retained ((name, node) # listing) errs dir =
     (case ff_cancelled ff name of
        Some e \<Rightarrow> (Some e, dir)
      | None \<Rightarrow>
          let (added, dir') = reconcile_entry u ff now age allStaging retained name node dir
          in reconcile_entries u ff now age allStaging retained listing (errs @ added) dir')"

text \<open>The retained paths, each in its canonical form of two segments.\<close>

definition canonical_retained :: "unicode \<Rightarrow> string \<Rightarrow> go_error + string" where
  "canonical_retained u v =
     (let val = clean_path (trim v); parts = split_on CHR ''/'' val in
      case parts of
        [slug, revisionID] \<Rightarrow>
          if ValidateMaterializedPath u val slug revisionID \<noteq> None
          then Inl (Msg ''database returned invalid materialized scenario path'') else Inr val
      | _ \<Rightarrow> Inl (Msg ''database returned invalid materialized scenario path''))"

text \<open>\<open>reconcile\<close>: a scenarios directory that does not exist is \<open>None\<close>.\<close>

definition MaterializationReconcile ::
  "unicode \<Rightarrow> fs_faults \<Rightarrow> time \<Rightarrow> duration \<Rightarrow> bool \<Rightarrow> go_error + string list \<Rightarrow> directory option
     \<Rightarrow> go_error option \<times> directory option"
where
  "MaterializationReconcile u ff now age allStaging paths root = (case paths of
     Inl e \<Rightarrow> (Some (Wrap ''derive retained scenario materializations'' e), root)
   | Inr ps \<Rightarrow> (case scan_all (canonical_retained u) ps of
       Inl e \<Rightarrow> (Some e, root)
     | Inr retained \<Rightarrow> (case root of
         None \<Rightarrow> (None, None)
       | Some dir \<Rightarrow> (case ff_root ff of
           Some e \<Rightarrow> (Some (Wrap ''read scenarios directory'' e), root)
         | None \<Rightarrow> apsnd Some (reconcile_entries u ff now age allStaging retained (read_dir dir) [] dir)))))"

end
