(* ===== verification/MaterializationFacts.thy ===== *)
theory MaterializationFacts
  imports Materialization GenerationClaims
begin

section \<open>What the reconciler keeps and what it removes\<close>

text \<open>
  The lemmas follow one path of two segments through the pass. The properties: whatever the database
  retains survives every pass, with every fault; and a pass without faults removes exactly the orphans.
\<close>

subsection \<open>Entries\<close>

lemma map_of_drop [simp]: "map_of (drop_entry n d) m = (if m = n then None else map_of d m)"
  by (induction d) (auto simp: drop_entry_def)

lemma map_of_put [simp]: "map_of (put_entry n x d) m = (if m = n then map_option (\<lambda>_. x) (map_of d n) else map_of d m)"
  by (induction d) (auto simp: put_entry_def)

lemma drop_entry_keys: "fst ` set (drop_entry n d) = fst ` set d - {n}"
  by (auto simp: drop_entry_def)

lemma distinct_read_dir: "distinct (map fst d) \<Longrightarrow> distinct (map fst (read_dir d))"
proof -
  have keys: "fst ` set (insert_by le x ys) = insert (fst x) (fst ` set ys)"
    for le :: "string \<times> file_node \<Rightarrow> string \<times> file_node \<Rightarrow> bool" and x ys
    by (induction ys) auto
  have "fst x \<notin> fst ` set ys \<Longrightarrow> distinct (map fst ys) \<Longrightarrow> distinct (map fst (insert_by le x ys))"
    for le :: "string \<times> file_node \<Rightarrow> string \<times> file_node \<Rightarrow> bool" and x ys
    by (induction ys) (auto simp: keys)
  then have "distinct (map fst xs) \<Longrightarrow> distinct (map fst (sort_by le xs))"
    for le :: "string \<times> file_node \<Rightarrow> string \<times> file_node \<Rightarrow> bool" and xs
  proof (induction xs)
    case (Cons x xs)
    have "set (foldr (insert_by le) xs []) = set xs" using set_sort_by [of le xs] by (simp add: sort_by_def)
    then show ?case using Cons by (simp add: sort_by_def)
  qed (simp add: sort_by_def)
  then show "distinct (map fst d) \<Longrightarrow> distinct (map fst (read_dir d))" by (simp add: read_dir_def)
qed

lemma set_read_dir [simp]: "set (read_dir d) = set d"
  by (simp add: read_dir_def)

lemma remove_all_other: "m \<noteq> n \<Longrightarrow> map_of (snd (remove_all ff path n d)) m = map_of d m"
  by (auto simp: remove_all_def split: option.splits)

subsection \<open>Retained paths survive\<close>

lemma revisions_keep:
  "path_join slug revision \<in> set retained \<Longrightarrow>
     map_of (snd (reconcile_revisions ff retained slug listing children)) revision = map_of children revision"
proof (induction ff retained slug listing children rule: reconcile_revisions.induct)
  case (2 ff retained slug name node listing children)
  then show ?case
    using remove_all_other [of revision name ff "path_join slug name" children]
    by (cases "revision = name") (auto simp: Let_def split: prod.splits)
qed simp

lemma parent_other: "m \<noteq> slug \<Longrightarrow> map_of (snd (reconcile_parent ff retained slug t children d)) m = map_of d m"
  by (auto simp: reconcile_parent_def split: option.splits prod.splits)

lemma parent_keeps:
  assumes "map_of d slug = Some (Directory t children)" "map_of children revision = Some node"
    and "path_join slug revision \<in> set retained"
  shows "tree_at slug revision (snd (reconcile_parent ff retained slug t children d)) = Some node"
proof -
  obtain errs children' where r: "reconcile_revisions ff retained slug (read_dir children) children = (errs, children')"
    by (cases "reconcile_revisions ff retained slug (read_dir children) children")
  then have "map_of children' revision = Some node"
    using revisions_keep [OF assms(3), of ff "read_dir children" children] assms(2) by simp
  moreover from this have "children' \<noteq> []" by auto
  ultimately show ?thesis
    using assms(1,2) by (auto simp: reconcile_parent_def r tree_at_def split: option.splits)
qed

lemma entry_other: "m \<noteq> name \<Longrightarrow>
    map_of (snd (reconcile_entry u ff now age allStaging retained name node d)) m = map_of d m"
  using remove_all_other [of m name ff name d] parent_other [of m name ff retained _ _ d]
  by (auto simp: reconcile_entry_def split: file_node.splits prod.splits)

lemma entry_keeps:
  assumes "tree_at slug revision d = Some node" "map_of d slug = Some n" "ValidSourceSlug u slug"
    and "path_join slug revision \<in> set retained"
  shows "tree_at slug revision (snd (reconcile_entry u ff now age allStaging retained slug n d)) = Some node"
proof -
  have "\<not> prefix ''.tmp-'' slug" using slug_no_slash(2) [OF assms(3)] by (auto simp: prefix_def)
  moreover obtain t children where "n = Directory t children" "map_of children revision = Some node"
    using assms(1,2) by (auto simp: tree_at_def split: file_node.splits)
  ultimately show ?thesis
    using assms parent_keeps [of d slug t children revision node retained ff] by (simp add: reconcile_entry_def)
qed

text \<open>
  A pass over a listing changes the entry of a name only when it comes to that name.
\<close>

lemma entries_absent:
  "name \<notin> fst ` set listing \<Longrightarrow>
     map_of (snd (reconcile_entries u ff now age allStaging retained listing errs d)) name = map_of d name"
proof (induction listing arbitrary: errs d)
  case (Cons e listing)
  obtain m n where e: "e = (m, n)" by (cases e)
  obtain added d' where r: "reconcile_entry u ff now age allStaging retained m n d = (added, d')"
    by (cases "reconcile_entry u ff now age allStaging retained m n d")
  then have "map_of d' name = map_of d name"
    using entry_other [of name m u ff now age allStaging retained n d] Cons.prems e by auto
  then show ?case using Cons e r by (simp split: option.split)
qed simp

lemma entries_keep:
  assumes "ValidSourceSlug u slug" "path_join slug revision \<in> set retained"
  shows "distinct (map fst listing) \<Longrightarrow> \<forall>e\<in>set listing. fst e = slug \<longrightarrow> map_of d slug = Some (snd e) \<Longrightarrow>
     tree_at slug revision d = Some node \<Longrightarrow>
     tree_at slug revision (snd (reconcile_entries u ff now age allStaging retained listing errs d)) = Some node"
proof (induction listing arbitrary: errs d)
  case (Cons e listing)
  obtain name n where e: "e = (name, n)" by (cases e)
  obtain added d' where r: "reconcile_entry u ff now age allStaging retained name n d = (added, d')"
    by (cases "reconcile_entry u ff now age allStaging retained name n d")
  have other: "name \<noteq> slug \<Longrightarrow> map_of d' slug = map_of d slug"
    using entry_other [of slug name u ff now age allStaging retained n d] r by auto
  have t: "tree_at slug revision d' = Some node"
  proof (cases "name = slug")
    case True
    then show ?thesis
      using entry_keeps [of slug revision d node n u retained ff now age allStaging] Cons.prems assms r e by auto
  next
    case False
    then show ?thesis using Cons.prems(3) other by (simp add: tree_at_def)
  qed
  have "slug \<in> fst ` set listing \<Longrightarrow> name \<noteq> slug" using Cons.prems(1) e by auto
  then have "\<forall>e\<in>set listing. fst e = slug \<longrightarrow> map_of d' slug = Some (snd e)"
    using Cons.prems(2) other by force
  then show ?case
    using Cons.IH [of d'] Cons.prems(1,3) e r t by (auto split: option.splits)
qed simp

subsection \<open>What the database returns\<close>

lemma materialized_form:
  assumes "ValidateMaterializedPath u p slug revision = None"
  shows "ValidSourceSlug u slug" "ValidRevisionID revision" "p = slug @ ''/'' @ revision"
    "path_join slug revision = p" "clean_path p = p" "split_on CHR ''/'' p = [slug, revision]"
proof -
  show v: "ValidSourceSlug u slug" "ValidRevisionID revision"
    using assms by (auto simp: ValidateMaterializedPath_def MaterializedPath_def Let_def split: if_splits)
  show p: "p = slug @ ''/'' @ revision"
    using assms MaterializedPath_valid [OF v] by (simp add: ValidateMaterializedPath_def Let_def)
  show j: "path_join slug revision = p"
    using MaterializedPath_valid [OF v] v by (simp add: MaterializedPath_def p)
  have "slug \<noteq> []" "revision \<noteq> []" using slug_no_slash(3) [OF v(1)] revision_id_no_slash(2) [OF v(2)] by auto
  then show "clean_path p = p" using j by (simp add: path_join_def p)
  show "split_on CHR ''/'' p = [slug, revision]"
    using split_on_append_sep [OF slug_no_slash(1) [OF v(1)], of revision]
      split_on_single [OF revision_id_no_slash(1) [OF v(2)]] by (simp add: p)
qed

lemma retained_paths:
  assumes "RetainedMaterializationPaths u d = Inr paths"
  shows "p \<in> set paths \<longleftrightarrow> (\<exists>r \<in> set (retained_rows d). p = trim (fst r))"
    "(path, slug, revision) \<in> set (retained_rows d) \<Longrightarrow>
       ValidateMaterializedPath u (trim path) (trim slug) (trim revision) = None"
proof -
  obtain ps where ps: "map (scan_retained u) (retained_rows d) = map Inr ps" "set paths = set ps"
    using assms by (auto simp: RetainedMaterializationPaths_def and_then_Inr_iff scan_all_Inr)
  have row: "scan_retained u (path, slug, revision) = Inr q \<longleftrightarrow> q = trim path \<and>
      ValidateMaterializedPath u (trim path) (trim slug) (trim revision) = None" for path slug revision q
    by (auto simp: scan_retained_def check_Inr)
  have len: "length (retained_rows d) = length ps" using ps(1) by (metis length_map)
  have nth: "scan_retained u (retained_rows d ! i) = Inr (ps ! i)" if "i < length ps" for i
    using ps(1) that len by (metis nth_map)
  have eq: "ps ! i = trim (fst (retained_rows d ! i))" if "i < length ps" for i
    using nth [OF that] row by (cases "retained_rows d ! i") auto
  show "(path, slug, revision) \<in> set (retained_rows d) \<Longrightarrow>
       ValidateMaterializedPath u (trim path) (trim slug) (trim revision) = None"
    using nth row len by (metis in_set_conv_nth)
  have "ps = map (\<lambda>r. trim (fst r)) (retained_rows d)"
    using eq len by (auto intro: nth_equalityI)
  then show "p \<in> set paths \<longleftrightarrow> (\<exists>r \<in> set (retained_rows d). p = trim (fst r))"
    using ps(2) by auto
qed

lemma retained_canonical:
  assumes "RetainedMaterializationPaths u d = Inr paths"
  shows "scan_all (canonical_retained u) paths = Inr paths"
proof -
  have "canonical_retained u p = Inr p" if p: "p \<in> set paths" for p
  proof -
    obtain path slug revision where r: "(path, slug, revision) \<in> set (retained_rows d)" "p = trim path"
      using p retained_paths(1) [OF assms, of p] by auto
    note f = materialized_form [OF retained_paths(2) [OF assms r(1)], folded r(2)]
    show ?thesis
      using f(5,6) retained_paths(2) [OF assms r(1)] by (simp add: canonical_retained_def r(2))
  qed
  then show ?thesis by (simp add: scan_all_Inr)
qed

subsection \<open>A pass without faults\<close>

definition no_faults :: fs_faults where
  "no_faults = \<lparr>ff_root = None, ff_cancelled = (\<lambda>_. None), ff_info = (\<lambda>_. False), ff_read = (\<lambda>_. None),
     ff_remove_all = (\<lambda>_. None), ff_remove = (\<lambda>_. None)\<rparr>"

text \<open>A directory has each name once, and so have the directories in it.\<close>

fun names_once :: "file_node \<Rightarrow> bool" where
  "names_once (Directory t entries) \<longleftrightarrow> distinct (map fst entries)"
| "names_once (NotDirectory t) \<longleftrightarrow> True"

definition tidy :: "directory \<Rightarrow> bool" where
  "tidy dir \<longleftrightarrow> distinct (map fst dir) \<and> (\<forall>e\<in>set dir. names_once (snd e))"

definition orphaned :: "unicode \<Rightarrow> string list \<Rightarrow> string \<Rightarrow> string \<Rightarrow> file_node \<Rightarrow> bool" where
  "orphaned u paths slug revision node \<longleftrightarrow> ValidSourceSlug u slug \<and> ValidRevisionID revision \<and> is_dir node \<and>
     path_join slug revision \<notin> set paths"

lemma no_faults_simps [simp]:
  "ff_root no_faults = None" "ff_cancelled no_faults s = None" "ff_info no_faults s = False"
  "ff_read no_faults s = None" "ff_remove no_faults s = None" "remove_all no_faults s n d = (None, drop_entry n d)"
  by (simp_all add: no_faults_def remove_all_def)

lemma tree_at_cong: "map_of a slug = map_of b slug \<Longrightarrow> tree_at slug revision a = tree_at slug revision b"
  by (simp add: tree_at_def)

lemma revisions_effect:
  shows "distinct (map fst listing) \<Longrightarrow>
    fst (reconcile_revisions no_faults retained slug listing children) = [] \<and>
    map_of (snd (reconcile_revisions no_faults retained slug listing children)) revision =
      (case map_of listing revision of
         Some node \<Rightarrow> if is_dir node \<and> ValidRevisionID revision \<and> path_join slug revision \<notin> set retained then None
           else map_of children revision
       | None \<Rightarrow> map_of children revision)"
proof (induction listing arbitrary: children)
  case (Cons e listing)
  obtain name n where e: "e = (name, n)" by (cases e)
  have absent: "map_of listing name = None" using Cons.prems e by (simp add: map_of_eq_None_iff)
  show ?case
    using Cons.IH [of children] Cons.IH [of "drop_entry name children"] Cons.prems absent
    by (auto simp: e error_list_def split: prod.splits option.splits)
qed simp

lemma map_of_read_dir: "distinct (map fst d) \<Longrightarrow> map_of (read_dir d) = map_of d"
  by (intro map_of_inject_set [THEN iffD2] distinct_read_dir) simp_all

lemma entry_effect:
  assumes "map_of d name = Some node" "names_once node"
  shows "fst (reconcile_entry u no_faults now age allStaging retained name node d) = []"
    "prefix ''.tmp-'' name \<Longrightarrow> map_of (snd (reconcile_entry u no_faults now age allStaging retained name node d)) name =
       (if allStaging \<or> mod_time node \<le> now - age then None else Some node)"
    "\<not> prefix ''.tmp-'' name \<Longrightarrow> tree_at name revision (snd (reconcile_entry u no_faults now age allStaging retained name node d)) =
       (case tree_at name revision d of None \<Rightarrow> None
        | Some x \<Rightarrow> if orphaned u retained name revision x then None else Some x)"
proof -
  show "prefix ''.tmp-'' name \<Longrightarrow> map_of (snd (reconcile_entry u no_faults now age allStaging retained name node d)) name =
       (if allStaging \<or> mod_time node \<le> now - age then None else Some node)"
    using assms(1) by (simp add: reconcile_entry_def stagingExpired_def)
  have rev: "fst (reconcile_revisions no_faults retained name (read_dir children) children) = [] \<and>
      map_of (snd (reconcile_revisions no_faults retained name (read_dir children) children)) r =
       (case map_of children r of None \<Rightarrow> None
        | Some x \<Rightarrow> if is_dir x \<and> ValidRevisionID r \<and> path_join name r \<notin> set retained then None else Some x)"
    if "node = Directory t children" for t children r
    using revisions_effect [OF distinct_read_dir, of children retained name children r] assms(2) that
    by (simp add: map_of_read_dir split: option.split)
  show "fst (reconcile_entry u no_faults now age allStaging retained name node d) = []"
    using rev by (auto simp: reconcile_entry_def reconcile_parent_def error_list_def split: file_node.splits prod.splits)
  show "tree_at name revision (snd (reconcile_entry u no_faults now age allStaging retained name node d)) =
       (case tree_at name revision d of None \<Rightarrow> None
        | Some x \<Rightarrow> if orphaned u retained name revision x then None else Some x)" if "\<not> prefix ''.tmp-'' name"
  proof (cases node)
    case (Directory t children)
    have s: "map_of (snd (reconcile_revisions no_faults retained name (read_dir children) children)) revision =
       (case map_of children revision of None \<Rightarrow> None
        | Some x \<Rightarrow> if is_dir x \<and> ValidRevisionID revision \<and> path_join name revision \<notin> set retained then None else Some x)"
      using rev [OF Directory] by blast
    show ?thesis
    proof (cases "ValidSourceSlug u name")
      case True
      have "tree_at name revision (snd (reconcile_parent no_faults retained name t children d)) =
          map_of (snd (reconcile_revisions no_faults retained name (read_dir children) children)) revision"
        using assms(1) by (auto simp: reconcile_parent_def tree_at_def Directory split: prod.splits)
      then show ?thesis
        using that assms(1) True s by (auto simp: reconcile_entry_def Directory tree_at_def orphaned_def split: option.split)
    next
      case False
      then show ?thesis
        using that by (auto simp: reconcile_entry_def Directory orphaned_def split: option.split)
    qed
  next
    case (NotDirectory t)
    then show ?thesis using that assms(1) by (simp add: reconcile_entry_def tree_at_def)
  qed
qed

lemma entries_effect:
  "distinct (map fst listing) \<Longrightarrow> \<forall>e\<in>set listing. map_of d (fst e) = Some (snd e) \<and> names_once (snd e) \<Longrightarrow>
    \<exists>d'. reconcile_entries u no_faults now age allStaging retained listing [] d = (None, d') \<and>
      (\<forall>name\<in>fst ` set listing. \<forall>node revision. map_of d name = Some node \<longrightarrow>
        (prefix ''.tmp-'' name \<longrightarrow> map_of d' name = (if allStaging \<or> mod_time node \<le> now - age then None else Some node)) \<and>
        (\<not> prefix ''.tmp-'' name \<longrightarrow> tree_at name revision d' =
          (case tree_at name revision d of None \<Rightarrow> None
           | Some x \<Rightarrow> if orphaned u retained name revision x then None else Some x)))"
proof (induction listing arbitrary: d)
  case Nil
  then show ?case by (simp add: errors_join_def)
next
  case (Cons e listing)
  obtain m n where e: "e = (m, n)" by (cases e)
  obtain added d1 where r: "reconcile_entry u no_faults now age allStaging retained m n d = (added, d1)"
    by (cases "reconcile_entry u no_faults now age allStaging retained m n d")
  have m: "map_of d m = Some n" "names_once n" using Cons.prems(2) e by auto
  note eff = entry_effect [OF m, where u = u and now = now and age = age and allStaging = allStaging and retained = retained, unfolded r fst_conv snd_conv]
  have other: "k \<noteq> m \<Longrightarrow> map_of d1 k = map_of d k" for k
    using entry_other [of k m u no_faults now age allStaging retained n d] r by simp
  have fresh: "m \<notin> fst ` set listing" using Cons.prems(1) e by simp
  have "\<forall>e\<in>set listing. map_of d1 (fst e) = Some (snd e) \<and> names_once (snd e)"
  proof
    fix e'
    assume e': "e' \<in> set listing"
    then have "fst e' \<noteq> m" using fresh by auto
    then show "map_of d1 (fst e') = Some (snd e') \<and> names_once (snd e')" using other e' Cons.prems(2) by simp
  qed
  then obtain d' where d': "reconcile_entries u no_faults now age allStaging retained listing [] d1 = (None, d')"
    and rest: "\<forall>name\<in>fst ` set listing. \<forall>node revision. map_of d1 name = Some node \<longrightarrow>
        (prefix ''.tmp-'' name \<longrightarrow> map_of d' name = (if allStaging \<or> mod_time node \<le> now - age then None else Some node)) \<and>
        (\<not> prefix ''.tmp-'' name \<longrightarrow> tree_at name revision d' =
          (case tree_at name revision d1 of None \<Rightarrow> None
           | Some x \<Rightarrow> if orphaned u retained name revision x then None else Some x))"
    using Cons.IH [of d1] Cons.prems(1) by auto
  have here: "map_of d' m = map_of d1 m"
    using entries_absent [OF fresh, of u no_faults now age allStaging retained "[]" d1] d' by simp
  have run: "reconcile_entries u no_faults now age allStaging retained (e # listing) [] d = (None, d')"
    using d' eff(1) by (simp add: e r)
  show ?case
  proof (rule exI [of _ d'], intro conjI [OF run] conjI ballI allI impI)
    fix name node revision
    assume n: "name \<in> fst ` set (e # listing)" "map_of d name = Some node"
    have *: "(prefix ''.tmp-'' name \<longrightarrow> map_of d' name = (if allStaging \<or> mod_time node \<le> now - age then None else Some node)) \<and>
        (\<not> prefix ''.tmp-'' name \<longrightarrow> tree_at name revision d' = (case tree_at name revision d of None \<Rightarrow> None
           | Some x \<Rightarrow> if orphaned u retained name revision x then None else Some x))"
    proof (cases "name = m")
      case True
      show ?thesis
        unfolding True using here eff(2,3) n(2) [unfolded True] m(1) tree_at_cong [OF here] by simp
    next
      case False
      then have k: "name \<in> fst ` set listing" "map_of d1 name = Some node" using n e other by auto
      show ?thesis using bspec [OF rest k(1)] k(2) tree_at_cong [OF other [OF False]] by simp
    qed
    show "prefix ''.tmp-'' name \<Longrightarrow> map_of d' name = (if allStaging \<or> mod_time node \<le> now - age then None else Some node)"
      using * by blast
    show "\<not> prefix ''.tmp-'' name \<Longrightarrow> tree_at name revision d' = (case tree_at name revision d of None \<Rightarrow> None
           | Some x \<Rightarrow> if orphaned u retained name revision x then None else Some x)"
      using * by blast
  qed
qed

subsection \<open>The properties\<close>

text \<open>
  C19 No pass removes what the database needs: for every row behind the retention query (a revision that
  was ever published, the intent of a publication under way, a commit of a release being committed) the
  revision's directory is still there, unchanged, after a pass over the scenarios directory, whichever
  system calls fail, whenever the pass is cancelled, and in recovery mode too.
\<close>

theorem retained_revisions_survive:
  assumes "RetainedMaterializationPaths u d = Inr paths" "(path, slug, revision) \<in> set (retained_rows d)"
    and "distinct (map fst dir)" "tree_at (trim slug) (trim revision) dir = Some node"
  shows "\<exists>err dir'. MaterializationReconcile u ff now age allStaging (RetainedMaterializationPaths u d) (Some dir) = (err, Some dir') \<and>
    tree_at (trim slug) (trim revision) dir' = Some node"
proof -
  note f = materialized_form [OF retained_paths(2) [OF assms(1,2)]]
  have mem: "path_join (trim slug) (trim revision) \<in> set paths"
    using retained_paths(1) [OF assms(1), of "trim path"] assms(2) f(4) by force
  have listing: "\<forall>e\<in>set (read_dir dir). fst e = trim slug \<longrightarrow> map_of dir (trim slug) = Some (snd e)"
    using assms(3) by (metis map_of_is_SomeI prod.collapse set_read_dir)
  show ?thesis
  proof (cases "ff_root ff")
    case None
    have "tree_at (trim slug) (trim revision) (snd (reconcile_entries u ff now age allStaging paths (read_dir dir) [] dir)) = Some node"
      by (rule entries_keep [OF f(1) mem distinct_read_dir [OF assms(3)] listing assms(4)])
    then show ?thesis
      by (simp add: MaterializationReconcile_def assms(1) retained_canonical [OF assms(1)] None)
        (metis apsnd_conv prod.collapse)
  next
    case (Some e)
    then show ?thesis
      using assms(4) by (simp add: MaterializationReconcile_def assms(1) retained_canonical [OF assms(1)])
  qed
qed

definition example_tree :: directory where
  "example_tree = [(''.tmp-1'', Directory 5 []), (''dns-a1'', Directory 5 [(''chrev-0123456789ab'', Directory 5 [])]),
     (''README'', NotDirectory 5)]"

definition example_catalog :: "WorkflowState \<Rightarrow> catalog_db" where
  "example_catalog s = \<lparr>c_generation = example_generation s, c_releases = [], c_entries = [], c_commits = []\<rparr>"

lemma example_path:
  "ValidateMaterializedPath (pf_unicode example_platform) ''dns-a1/chrev-0123456789ab'' ''dns-a1'' ''chrev-0123456789ab'' = None"
  using example_intent by (simp add: Publication_ValidateIntent_def first_error_Cons example_publication_def)

lemma example_trims: "trim ''dns-a1'' = ''dns-a1''" "trim ''chrev-0123456789ab'' = ''chrev-0123456789ab''"
  "trim ''dns-a1/chrev-0123456789ab'' = ''dns-a1/chrev-0123456789ab''"
  by code_simp+

lemma example_rows:
  "retained_rows (example_catalog StatePublishing) = [(''dns-a1/chrev-0123456789ab'', ''dns-a1'', ''chrev-0123456789ab'')]"
  "retained_rows (example_catalog StateNeedsAuthorReview) = []"
  by (simp_all add: retained_rows_def revision_rows_def intent_rows_def commit_rows_def example_catalog_def
      example_generation_def empty_generation_def example_workflow_def example_candidate_def example_publication_def)

lemma retained_revisions_survive_witness:
  "\<forall>ff. \<exists>err dir'. MaterializationReconcile (pf_unicode example_platform) ff 100 10 True
       (RetainedMaterializationPaths (pf_unicode example_platform) (example_catalog StatePublishing)) (Some example_tree) = (err, Some dir') \<and>
    tree_at ''dns-a1'' ''chrev-0123456789ab'' dir' = Some (Directory 5 [])"
proof
  fix ff
  have paths: "RetainedMaterializationPaths (pf_unicode example_platform) (example_catalog StatePublishing) =
      Inr [''dns-a1/chrev-0123456789ab'']"
    by (simp add: RetainedMaterializationPaths_def example_rows scan_retained_def example_trims example_path sort_by_def)
  show "\<exists>err dir'. MaterializationReconcile (pf_unicode example_platform) ff 100 10 True
       (RetainedMaterializationPaths (pf_unicode example_platform) (example_catalog StatePublishing)) (Some example_tree) = (err, Some dir') \<and>
    tree_at ''dns-a1'' ''chrev-0123456789ab'' dir' = Some (Directory 5 [])"
    using retained_revisions_survive [OF paths, of "''dns-a1/chrev-0123456789ab''" "''dns-a1''" "''chrev-0123456789ab''" example_tree]
    by (simp add: example_rows example_trims) (simp add: example_tree_def tree_at_def)
qed

text \<open>
  A pass whose system calls work removes exactly the orphans: of the directories with a valid slug,
  the valid revision directories that the database does not name; of the staging directories those that
  are too old, or all of them in recovery; everything else two levels deep stays as it was.
\<close>

theorem reconciler_removes_orphans:
  assumes "RetainedMaterializationPaths u d = Inr paths" "tidy dir"
  shows "\<exists>dir'. MaterializationReconcile u no_faults now age allStaging (Inr paths) (Some dir) = (None, Some dir') \<and>
    (\<forall>name node. map_of dir name = Some node \<longrightarrow> prefix ''.tmp-'' name \<longrightarrow>
       map_of dir' name = (if allStaging \<or> mod_time node \<le> now - age then None else Some node)) \<and>
    (\<forall>slug revision node. tree_at slug revision dir = Some node \<longrightarrow> \<not> prefix ''.tmp-'' slug \<longrightarrow>
       tree_at slug revision dir' = (if orphaned u paths slug revision node then None else Some node))"
proof -
  have d: "distinct (map fst dir)" "\<forall>e\<in>set dir. names_once (snd e)" using assms(2) by (simp_all add: tidy_def)
  have listing: "\<forall>e\<in>set (read_dir dir). map_of dir (fst e) = Some (snd e) \<and> names_once (snd e)"
    using d by (metis map_of_is_SomeI prod.collapse set_read_dir)
  obtain dir' where run: "reconcile_entries u no_faults now age allStaging paths (read_dir dir) [] dir = (None, dir')"
    and eff: "\<forall>name\<in>fst ` set (read_dir dir). \<forall>node revision. map_of dir name = Some node \<longrightarrow>
        (prefix ''.tmp-'' name \<longrightarrow> map_of dir' name = (if allStaging \<or> mod_time node \<le> now - age then None else Some node)) \<and>
        (\<not> prefix ''.tmp-'' name \<longrightarrow> tree_at name revision dir' = (case tree_at name revision dir of None \<Rightarrow> None
           | Some x \<Rightarrow> if orphaned u paths name revision x then None else Some x))"
    using entries_effect [OF distinct_read_dir [OF d(1)] listing, of u now age allStaging paths] by auto
  have "MaterializationReconcile u no_faults now age allStaging (Inr paths) (Some dir) = (None, Some dir')"
    by (simp add: MaterializationReconcile_def retained_canonical [OF assms(1)] run)
  moreover have k: "name \<in> fst ` set (read_dir dir)" if "map_of dir name = Some node" for name node
    using that by (metis map_of_SomeD set_read_dir fst_conv image_eqI)
  moreover have "tree_at slug revision dir' = (if orphaned u paths slug revision node then None else Some node)"
    if t: "tree_at slug revision dir = Some node" "\<not> prefix ''.tmp-'' slug" for slug revision node
  proof -
    obtain n where n: "map_of dir slug = Some n" using t(1) by (auto simp: tree_at_def split: option.splits)
    show ?thesis using bspec [OF eff k [OF n]] n t by simp
  qed
  moreover have "map_of dir' name = (if allStaging \<or> mod_time node \<le> now - age then None else Some node)"
    if n: "map_of dir name = Some node" "prefix ''.tmp-'' name" for name node
    using bspec [OF eff k [OF n(1)]] n by simp
  ultimately show ?thesis by blast
qed

lemma reconciler_removes_orphans_witness:
  "\<exists>dir'. MaterializationReconcile (pf_unicode example_platform) no_faults 100 1000 False (Inr []) (Some example_tree) = (None, Some dir') \<and>
     tree_at ''dns-a1'' ''chrev-0123456789ab'' dir' = None \<and> map_of dir' ''.tmp-1'' = Some (Directory 5 [])"
proof -
  have paths: "RetainedMaterializationPaths (pf_unicode example_platform) (example_catalog StateNeedsAuthorReview) = Inr []"
    by (simp add: RetainedMaterializationPaths_def example_rows sort_by_def)
  have o: "orphaned (pf_unicode example_platform) [] ''dns-a1'' ''chrev-0123456789ab'' (Directory 5 [])"
    using materialized_form [OF example_path] by (simp add: orphaned_def)
  have t: "tidy example_tree" by (simp add: tidy_def example_tree_def)
  have m: "map_of example_tree ''.tmp-1'' = Some (Directory 5 [])"
    "tree_at ''dns-a1'' ''chrev-0123456789ab'' example_tree = Some (Directory 5 [])"
    by (simp_all add: example_tree_def tree_at_def)
  have p: "prefix ''.tmp-'' ''.tmp-1''" "\<not> prefix ''.tmp-'' ''dns-a1''" by simp_all
  obtain dir' where d: "MaterializationReconcile (pf_unicode example_platform) no_faults 100 1000 False (Inr []) (Some example_tree) = (None, Some dir')"
    "map_of dir' ''.tmp-1'' = (if False \<or> mod_time (Directory 5 []) \<le> 100 - 1000 then None else Some (Directory 5 []))"
    "tree_at ''dns-a1'' ''chrev-0123456789ab'' dir' = (if orphaned (pf_unicode example_platform) [] ''dns-a1''
       ''chrev-0123456789ab'' (Directory 5 []) then None else Some (Directory 5 []))"
    using reconciler_removes_orphans [OF paths t, of 100 1000 False] m p by blast
  then show ?thesis using o by simp
qed

end
