(* ===== verification/ScenarioCatalog.thy ===== *)
theory ScenarioCatalog
  imports ScenarioRepository GenerationClaims
begin

section \<open>What publication and deprecation do to the Catalog\<close>

text \<open>
  The Catalog is what \<open>ListActiveScenarioRevisions\<close> reads. The lemmas characterise its answer, then the
  properties say how it changes with a first publication, a publication of a revision, and a
  deprecation.
\<close>

lemma active_pairs_in:
  "(c, r) \<in> set (active_pairs g) \<longleftrightarrow> c \<in> set (g_scenarios g) \<and> r \<in> set (g_revisions g) \<and>
     sv_ScenarioID r = sc_ID c \<and> sv_ID r = sc_ActiveRevisionID c \<and> sc_State c = ScenarioActive \<and>
     sv_State r = RevisionActive"
  by (auto simp: active_pairs_def)

lemma scan_all_same:
  assumes "\<And>x y. f x = Inr y \<longleftrightarrow> y = x \<and> P x"
  shows "scan_all f xs = Inr ys \<longleftrightarrow> ys = xs \<and> list_all P xs"
  using assms by (induction xs arbitrary: ys) (auto simp: and_then_Inr_iff)

lemma listed_iff:
  "ListActiveScenarioRevisions pf g = Inr rows \<longleftrightarrow> rows = sort_by (newest_published pf) (active_pairs g) \<and>
     (\<forall>c r. (c, r) \<in> set (active_pairs g) \<longrightarrow> ActiveRevision_Valid (pf_unicode pf) c r)"
proof -
  have "scanActiveScenarioRevision pf x = Inr y \<longleftrightarrow> y = x \<and> ActiveRevision_Valid (pf_unicode pf) (fst x) (snd x)" for x y
    by (auto simp: scanActiveScenarioRevision_def)
  then show ?thesis
    unfolding ListActiveScenarioRevisions_def wrap_error_Inr
    by (subst scan_all_same) (auto simp: list_all_iff)
qed

lemma catalog_fails:
  "(c, r) \<in> set (active_pairs g) \<Longrightarrow> \<not> ActiveRevision_Valid (pf_unicode pf) c r \<Longrightarrow>
     \<exists>e. ListActiveScenarioRevisions pf g = Inl e"
  using listed_iff by (metis sum.exhaust)

text \<open>The tables, as their keys make them: ids are unique, and a revision belongs to a scenario.\<close>

definition scenario_tables :: "generation_db \<Rightarrow> bool" where
  "scenario_tables g \<longleftrightarrow> distinct (map wf_ID (g_workflows g)) \<and> distinct (map sc_ID (g_scenarios g)) \<and>
     distinct (map sv_ID (g_revisions g)) \<and> sv_ScenarioID ` set (g_revisions g) \<subseteq> sc_ID ` set (g_scenarios g)"

subsection \<open>Inserting\<close>

definition stored_scenario :: "platform \<Rightarrow> Scenario \<Rightarrow> Scenario" where
  "stored_scenario pf c = c \<lparr>sc_CreatedAt := pf_ts pf (sc_CreatedAt c), sc_UpdatedAt := pf_ts pf (sc_UpdatedAt c)\<rparr>"

definition stored_revision :: "platform \<Rightarrow> ScenarioRevision \<Rightarrow> ScenarioRevision" where
  "stored_revision pf r = r \<lparr>sv_PublishedAt := pf_ts pf (sv_PublishedAt r), sv_CreatedAt := pf_ts pf (sv_CreatedAt r)\<rparr>"

lemma insert_scenario_Inr:
  "insertPersistedScenarioTx pf c g = Inr g' \<Longrightarrow> Scenario_Valid (pf_unicode pf) c \<and>
     sc_ID c \<notin> sc_ID ` set (g_scenarios g) \<and> g' = g \<lparr>g_scenarios := g_scenarios g @ [stored_scenario pf c]\<rparr>"
  by (auto simp: insertPersistedScenarioTx_def stored_scenario_def split: if_splits)

lemma insert_revision_Inr:
  "insertPersistedScenarioRevisionTx pf r g = Inr g' \<Longrightarrow> ScenarioRevision_Valid (pf_unicode pf) r \<and>
     sv_ID r \<notin> sv_ID ` set (g_revisions g) \<and> sv_ScenarioID r \<in> sc_ID ` set (g_scenarios g) \<and>
     g' = g \<lparr>g_revisions := g_revisions g @ [stored_revision pf r]\<rparr>"
  by (auto simp: insertPersistedScenarioRevisionTx_def stored_revision_def split: if_splits)

lemma stored_valid:
  "Scenario_Valid u c \<Longrightarrow> pf_ts pf (sc_CreatedAt c) \<noteq> 0 \<Longrightarrow> pf_ts pf (sc_UpdatedAt c) \<noteq> 0 \<Longrightarrow>
     Scenario_Valid u (stored_scenario pf c)"
  "ScenarioRevision_Valid u r \<Longrightarrow> pf_ts pf (sv_PublishedAt r) \<noteq> 0 \<Longrightarrow> pf_ts pf (sv_CreatedAt r) \<noteq> 0 \<Longrightarrow>
     ScenarioRevision_Valid u (stored_revision pf r)"
  by (auto simp: Scenario_Valid_def ScenarioRevision_Valid_def stored_scenario_def stored_revision_def)

text \<open>Inserting a scenario together with its active revision adds exactly this pair.\<close>

lemma insert_pair:
  assumes "insertPersistedScenarioTx pf c g = Inr g1" "insertPersistedScenarioRevisionTx pf r g1 = Inr g2"
    and "sv_ScenarioID ` set (g_revisions g) \<subseteq> sc_ID ` set (g_scenarios g)"
    and "sc_ActiveRevisionID c = sv_ID r" "sv_ScenarioID r = sc_ID c" "sc_State c = ScenarioActive" "sv_State r = RevisionActive"
  shows "set (active_pairs g2) = insert (stored_scenario pf c, stored_revision pf r) (set (active_pairs g))"
proof -
  note i = insert_scenario_Inr [OF assms(1)] and j = insert_revision_Inr [OF assms(2)]
  have keys: "sc_ID (stored_scenario pf c) = sc_ID c" "sc_ActiveRevisionID (stored_scenario pf c) = sv_ID r"
    "sc_State (stored_scenario pf c) = ScenarioActive" "sv_ID (stored_revision pf r) = sv_ID r"
    "sv_ScenarioID (stored_revision pf r) = sc_ID c" "sv_State (stored_revision pf r) = RevisionActive"
    using assms(4-7) by (simp_all add: stored_scenario_def stored_revision_def)
  have tables: "g_scenarios g2 = g_scenarios g @ [stored_scenario pf c]" "g_revisions g2 = g_revisions g @ [stored_revision pf r]"
    using i j by auto
  have "(x, y) \<in> set (active_pairs g2) \<longleftrightarrow> (x, y) = (stored_scenario pf c, stored_revision pf r) \<or> (x, y) \<in> set (active_pairs g)" for x y
  proof -
    have "x \<in> set (g_scenarios g) \<Longrightarrow> sc_ID x \<noteq> sc_ID c" using i by (metis image_eqI)
    moreover have "y \<in> set (g_revisions g) \<Longrightarrow> sv_ScenarioID y \<noteq> sc_ID c" using i assms(3) by (metis image_eqI subsetD)
    ultimately show ?thesis unfolding active_pairs_in tables by (auto simp: keys)
  qed
  then show ?thesis by auto
qed

subsection \<open>Publication\<close>

text \<open>
  A first publication adds one scenario to the Catalog and touches nothing else in it: if the Catalog
  could be listed before, it can be listed after a session without a base scenario is published, and its
  rows are the old ones and the new scenario with its revision under the title, path and evidence that
  the publication intent and the candidate bind.
\<close>

theorem first_publication_listed:
  assumes "FinalizeGenerationScenarioPublication pf workflowID candidateID contentRevision materializedRevision scenarioType
       tags now g = (Inr u, g')"
    and "scenario_tables g" "ListActiveScenarioRevisions pf g = Inr rows" "sane_clock pf" "seconds 1 \<le> now"
    and "workflow_row workflowID g = Some w" "readAuthoringSessionTx g (src_Ref (wf_Source w)) [] = Inr session"
    and "se_RevisionScenarioID session = []"
  shows "\<exists>c publication scenario revision rows'. candidate_row candidateID g = Some c \<and> cr_Publication c = Some publication \<and>
    ListActiveScenarioRevisions pf g' = Inr rows' \<and> set rows' = insert (scenario, revision) (set rows) \<and>
    sc_ID scenario = pb_ScenarioID publication \<and> sc_OwnerUserID scenario = se_UserID session \<and>
    sv_ID revision = pb_ScenarioRevisionID publication \<and> sv_Title revision = pb_ScenarioTitle publication \<and>
    sv_MaterializedPath revision = pb_TargetPath publication \<and> sv_ContentRevision revision = contentRevision \<and>
    cr_RunnableRevisionRef c = Some (sv_RunnableRevisionRef revision) \<and>
    cr_VerificationReportRef c = Some (sv_VerificationReportRef revision)"
proof -
  have d: "distinct (map wf_ID (g_workflows g))" using assms(2) by (simp add: scenario_tables_def)
  obtain v c publication revision report session' g1 where f: "wf_ID v = workflowID" "v \<in> set (g_workflows g)"
    "candidate_row candidateID g = Some c" "cr_Publication c = Some publication"
    "cr_RunnableRevisionRef c = Some revision" "cr_VerificationReportRef c = Some report" "cr_ContentRevision c = contentRevision"
    "readAuthoringSessionTx g (src_Ref (wf_Source v)) [] = Inr session'"
    "(if se_RevisionScenarioID session' = []
     then publish_first pf session' v publication scenarioType tags contentRevision materializedRevision revision report now g
     else finalizeAuthoringRevisionTx pf session' v c publication scenarioType tags materializedRevision now g) = Inr g1"
    "g_scenarios g' = g_scenarios g1" "g_revisions g' = g_revisions g1"
    using finalize_effect [OF d assms(1)] by (auto simp: moved_def)
  have w: "v = w"
    using assms(6) f(1,2) d by (metis same_workflow workflow_row_in)
  have s: "session' = session" using f(8) assms(7) w by simp
  let ?c = "\<lparr>sc_ID = pb_ScenarioID publication, sc_SourceKind = SourceAuthoringScenario,
            sc_SourceRef = src_Ref (wf_Source w), sc_OwnerUserID = se_UserID session, sc_State = ScenarioActive,
            sc_ActiveRevisionID = pb_ScenarioRevisionID publication, sc_SourceSlug = pb_SourceSlug publication,
            sc_CreatedAt = now, sc_UpdatedAt = now\<rparr>"
  let ?r = "scenarioRevisionFromPublication (pb_ScenarioTitle publication) scenarioType tags contentRevision
            materializedRevision revision report (pb_ScenarioRevisionID publication) (pb_ScenarioID publication)
            (src_Ref (wf_Source w)) (wf_SourceRevision w) [] (pb_SourceSlug publication) (pb_TargetPath publication)
            SourceAuthoringScenario now"
  obtain g0 where i: "insertPersistedScenarioTx pf ?c g = Inr g0" "insertPersistedScenarioRevisionTx pf ?r g0 = Inr g1"
    using f(9) assms(8) by (auto simp: s w publish_first_def Let_def and_then_Inr_iff)
  have ts: "pf_ts pf now \<noteq> 0" using assms(4,5) by (auto simp: sane_clock_def)
  have pairs: "set (active_pairs g1) = insert (stored_scenario pf ?c, stored_revision pf ?r) (set (active_pairs g))"
    using assms(2) by (intro insert_pair [OF i]) (simp_all add: scenarioRevisionFromPublication_def scenario_tables_def)
  have g': "active_pairs g' = active_pairs g1" by (simp add: active_pairs_def f(10,11))
  have "ActiveRevision_Valid (pf_unicode pf) (stored_scenario pf ?c) (stored_revision pf ?r)"
  proof -
    have "Scenario_Valid (pf_unicode pf) (stored_scenario pf ?c)"
      using insert_scenario_Inr [OF i(1)] ts by (intro stored_valid(1)) simp_all
    moreover have "ScenarioRevision_Valid (pf_unicode pf) (stored_revision pf ?r)"
      using insert_revision_Inr [OF i(2)] ts
      by (intro stored_valid(2)) (simp_all add: scenarioRevisionFromPublication_def)
    ultimately show ?thesis
      by (simp add: ActiveRevision_Valid_def) (simp add: stored_scenario_def stored_revision_def scenarioRevisionFromPublication_def)
  qed
  then have valid: "(x, y) \<in> set (active_pairs g') \<Longrightarrow> ActiveRevision_Valid (pf_unicode pf) x y" for x y
    using assms(3) pairs g' by (auto simp: listed_iff)
  show ?thesis
    by (intro exI [of _ c] exI [of _ publication] exI [of _ "stored_scenario pf ?c"] exI [of _ "stored_revision pf ?r"]
        exI [of _ "sort_by (newest_published pf) (active_pairs g')"])
      (use valid pairs g' f assms(3) in \<open>simp add: listed_iff stored_scenario_def stored_revision_def scenarioRevisionFromPublication_def\<close>)
qed

lemma example_listed:
  "ListActiveScenarioRevisions example_platform (example_generation s) = Inr []" "scenario_tables (example_generation s)"
  by (simp_all add: listed_iff active_pairs_def scenario_tables_def example_generation_def empty_generation_def sort_by_def)

lemma example_session_read:
  "workflow_row ''w1'' (example_generation StatePublishing) = Some (example_workflow StatePublishing)"
  "readAuthoringSessionTx (example_generation s) (src_Ref (wf_Source (example_workflow StatePublishing))) [] = Inr example_session"
  by (simp_all add: workflow_row_def sql_row_def example_generation_def example_workflow_def readAuthoringSessionTx_def
      example_session_def found_def)

lemma first_publication_listed_witness:
  "\<exists>scenario revision rows. ListActiveScenarioRevisions example_platform (snd (FinalizeGenerationScenarioPublication example_platform
       ''w1'' ''c1'' zero_digest zero_digest ScenarioOperationsScenario [] 2000000000 (example_generation StatePublishing))) = Inr rows \<and>
     set rows = {(scenario, revision)} \<and> sc_ID scenario = ''chal-a1'' \<and> sv_Title revision = ''DNS''"
proof -
  have "se_RevisionScenarioID example_session = []" "seconds 1 \<le> 2000000000"
    by (simp_all add: example_session_def seconds_def)
  then obtain c publication scenario revision rows' where
    "candidate_row ''c1'' (example_generation StatePublishing) = Some c" "cr_Publication c = Some publication"
    "ListActiveScenarioRevisions example_platform (snd (FinalizeGenerationScenarioPublication example_platform
       ''w1'' ''c1'' zero_digest zero_digest ScenarioOperationsScenario [] 2000000000 (example_generation StatePublishing))) = Inr rows'"
    "set rows' = {(scenario, revision)}" "sc_ID scenario = pb_ScenarioID publication" "sv_Title revision = pb_ScenarioTitle publication"
    using first_publication_listed [OF example_finalized example_listed(2,1) example_clock _ example_session_read]
    unfolding example_finalized snd_conv by auto
  moreover have "candidate_row ''c1'' (example_generation StatePublishing) = Some example_candidate"
    "cr_Publication example_candidate = Some example_publication"
    by (simp_all add: candidate_row_def sql_row_def example_generation_def example_candidate_def)
  ultimately show ?thesis by (auto simp: example_publication_def)
qed

text \<open>
  C20 A published revision takes the Catalog down: a session that revises a scenario has an id of its own,
  the new revision records this id as its source reference, and the scenario keeps the one of the session
  that created it. \<open>ActiveRevision.Valid\<close> compares the two, so after the publication of a revision every
  listing of the Catalog is an error, for all scenarios.
\<close>

theorem revision_breaks_catalog:
  assumes "FinalizeGenerationScenarioPublication pf workflowID candidateID contentRevision materializedRevision scenarioType
       tags now g = (Inr u, g')"
    and "scenario_tables g" "workflow_row workflowID g = Some w"
    and "readAuthoringSessionTx g (src_Ref (wf_Source w)) [] = Inr session" "se_RevisionScenarioID session \<noteq> []"
    and "sql_row sc_ID (trim (se_RevisionScenarioID session)) (g_scenarios g) = Some target"
    and "sc_SourceRef target \<noteq> src_Ref (wf_Source w)"
  shows "\<exists>e. ListActiveScenarioRevisions pf g' = Inl e"
proof -
  have d: "distinct (map wf_ID (g_workflows g))" using assms(2) by (simp add: scenario_tables_def)
  obtain v c publication revision report session' g1 where f: "wf_ID v = workflowID" "v \<in> set (g_workflows g)"
    "cr_RunnableRevisionRef c = Some revision" "cr_VerificationReportRef c = Some report"
    "readAuthoringSessionTx g (src_Ref (wf_Source v)) [] = Inr session'"
    "(if se_RevisionScenarioID session' = []
     then publish_first pf session' v publication scenarioType tags contentRevision materializedRevision revision report now g
     else finalizeAuthoringRevisionTx pf session' v c publication scenarioType tags materializedRevision now g) = Inr g1"
    "g_scenarios g' = g_scenarios g1" "g_revisions g' = g_revisions g1"
    using finalize_effect [OF d assms(1)] by (auto simp: moved_def)
  have w: "v = w"
    using assms(3) f(1,2) d by (metis same_workflow workflow_row_in)
  have s: "session' = session" using f(5) assms(4) w by simp
  let ?r = "scenarioRevisionFromPublication (pb_ScenarioTitle publication) scenarioType tags (cr_ContentRevision c)
     materializedRevision revision report (pb_ScenarioRevisionID publication) (sc_ID target) (src_Ref (wf_Source w))
     (wf_SourceRevision w) (sc_ActiveRevisionID target) (sc_SourceSlug target) (pb_TargetPath publication)
     SourceAuthoringScenario now"
  let ?t = "target \<lparr>sc_ActiveRevisionID := pb_ScenarioRevisionID publication, sc_UpdatedAt := pf_ts pf now\<rparr>"
  have lock: "lockPersistedScenarioTx pf g (se_RevisionScenarioID session) = Inr x \<Longrightarrow> x = target" for x
    using assms(6) by (auto simp: lockPersistedScenarioTx_def split: if_splits)
  have fin: "finalizeAuthoringRevisionTx pf session w c publication scenarioType tags materializedRevision now g = Inr g1"
    using f(6) assms(5) by (simp add: s w)
  have lk: "lockPersistedScenarioTx pf g (se_RevisionScenarioID session) = Inr target"
    using fin lock by (auto simp: finalizeAuthoringRevisionTx_def and_then_Inr_iff split: if_splits)
  have same: "sc_State target = ScenarioActive" "sc_ActiveRevisionID target = pb_BaseActiveRevisionID publication"
    "sc_SourceSlug target = pb_SourceSlug publication"
    using fin by (auto simp: finalizeAuthoringRevisionTx_def lk split: if_splits)
  obtain previous where prev: "lockPersistedScenarioRevisionTx pf g (sc_ActiveRevisionID target) = Inr previous"
    using fin by (auto simp: finalizeAuthoringRevisionTx_def lk and_then_Inr_iff split: if_splits)
  let ?update = "sql_update (\<lambda>s. sc_ID s = sc_ID target \<and> sc_ActiveRevisionID s = sc_ActiveRevisionID target \<and> sc_State s = ScenarioActive)
     (\<lambda>s. s \<lparr>sc_ActiveRevisionID := pb_ScenarioRevisionID publication, sc_UpdatedAt := pf_ts pf now\<rparr>)"
  have "\<exists>g2. insertPersistedScenarioRevisionTx pf ?r (supersede (sv_ID previous) g) = Inr g2 \<and>
      g1 = g2 \<lparr>g_scenarios := fst (?update (g_scenarios g2))\<rparr>"
    using fin unfolding finalizeAuthoringRevisionTx_def lk and_then_Inr prev f(3,4)
    by (auto simp: and_then_Inr_iff Let_def case_prod_unfold split: if_split_asm)
  then obtain g2 where p: "insertPersistedScenarioRevisionTx pf ?r (supersede (sv_ID previous) g) = Inr g2"
    "sc_State target = ScenarioActive"
    "g1 = g2 \<lparr>g_scenarios := fst (?update (g_scenarios g2))\<rparr>"
    using same(1) by blast
  have "target \<in> set (g_scenarios g2)"
    using sql_row_Some [OF assms(6)] insert_revision_Inr [OF p(1)] by (auto simp: supersede_def)
  then have "?t \<in> set (g_scenarios g1)" using p(2,3) by (force simp: sql_update_set)
  moreover have "stored_revision pf ?r \<in> set (g_revisions g1)" using insert_revision_Inr [OF p(1)] p(3) by auto
  ultimately have "(?t, stored_revision pf ?r) \<in> set (active_pairs g')"
    using p(2) by (simp add: active_pairs_in f(7,8)) (simp add: stored_revision_def scenarioRevisionFromPublication_def)
  then show ?thesis
  proof (rule catalog_fails)
    have "sv_SourceRef (stored_revision pf ?r) = src_Ref (wf_Source w)" "sc_SourceRef ?t = sc_SourceRef target"
      by (simp_all add: stored_revision_def scenarioRevisionFromPublication_def)
    then show "\<not> ActiveRevision_Valid (pf_unicode pf) ?t (stored_revision pf ?r)"
      using assms(7) unfolding ActiveRevision_Valid_def by simp
  qed
qed

text \<open>A second session \<open>s2\<close> that revises the scenario which \<open>s1\<close> published.\<close>

definition revising_publication :: Publication where
  "revising_publication = example_publication \<lparr>pb_ScenarioRevisionID := ''chrev-0123456789ac'',
     pb_BaseActiveRevisionID := ''chrev-0123456789ab'', pb_TargetPath := ''dns-a1/chrev-0123456789ac''\<rparr>"

definition revising_candidate :: Candidate where
  "revising_candidate = example_candidate \<lparr>cr_Source := \<lparr>src_Kind = SourceAuthoring, src_Ref = ''s2''\<rparr>,
     cr_Publication := Some revising_publication\<rparr>"

definition revising_session :: session_row where
  "revising_session = example_session \<lparr>se_ID := ''s2'', se_RevisionScenarioID := ''chal-a1'',
     se_RevisionBaseActiveRevisionID := ''chrev-0123456789ab''\<rparr>"

definition revising_workflow :: Workflow where
  "revising_workflow = (example_workflow StatePublishing) \<lparr>wf_Source := \<lparr>src_Kind = SourceAuthoring, src_Ref = ''s2''\<rparr>\<rparr>"

definition other_digest :: string where
  "other_digest = ''sha256:'' @ replicate 64 CHR ''1''"

definition revising :: generation_db where
  "revising = (example_generation StatePublishing) \<lparr>g_workflows := [revising_workflow], g_candidates := [revising_candidate],
     g_sessions := [example_session, revising_session], g_scenarios := [example_scenario],
     g_revisions := [example_scenario_revision]\<rparr>"

definition revised_revision :: ScenarioRevision where
  "revised_revision = scenarioRevisionFromPublication ''DNS'' ScenarioOperationsScenario [] zero_digest other_digest
     \<lparr>ref_ID = ''runnable-1'', ref_Digest = zero_digest\<rparr> \<lparr>vref_ID = ''report-1'', vref_Digest = zero_digest\<rparr>
     ''chrev-0123456789ac'' ''chal-a1'' ''s2'' ''1'' ''chrev-0123456789ab'' ''dns-a1'' ''dns-a1/chrev-0123456789ac''
     SourceAuthoringScenario 2000000000"

lemma revision_id_trims: "trim ''chrev-0123456789ab'' = ''chrev-0123456789ab''" by code_simp

lemma revising_valid:
  "ScenarioRevision_Valid (pf_unicode example_platform) revised_revision" "ValidRevision other_digest"
  "Publication_ValidateIntent (pf_unicode example_platform) revising_publication = None"
  "trim ''chal-a1'' = ''chal-a1''" "Workflow_Valid revising_workflow"
  by code_simp+

lemma revising_finalized:
  "\<exists>g'. FinalizeGenerationScenarioPublication example_platform ''w1'' ''c1'' zero_digest other_digest
     ScenarioOperationsScenario [] 2000000000 revising = (Inr (), g')"
proof -
  have w: "find (\<lambda>w. wf_ID w = ''w1'' \<and> wf_State w = StatePublishing) (g_workflows revising) = Some revising_workflow"
    "wf_CandidateRevisionID revising_workflow = ''c1''" "src_Ref (wf_Source revising_workflow) = ''s2''"
    "wf_SourceRevision revising_workflow = ''1''"
    by (simp_all add: revising_def revising_workflow_def example_workflow_def)
  have c: "candidate_row ''c1'' revising = Some revising_candidate" "cr_Publication revising_candidate = Some revising_publication"
    "cr_PublishedAt revising_candidate = None" "cr_ContentRevision revising_candidate = zero_digest"
    "cr_RunnableRevisionRef revising_candidate = Some \<lparr>ref_ID = ''runnable-1'', ref_Digest = zero_digest\<rparr>"
    "cr_VerificationReportRef revising_candidate = Some \<lparr>vref_ID = ''report-1'', vref_Digest = zero_digest\<rparr>"
    by (simp_all add: revising_def revising_candidate_def example_candidate_def candidate_row_def sql_row_def)
  have s: "readAuthoringSessionTx revising ''s2'' [] = Inr revising_session" "se_RevisionScenarioID revising_session = ''chal-a1''"
    "se_RevisionBaseActiveRevisionID revising_session = ''chrev-0123456789ab''" "se_UserID revising_session = ''u1''"
    by (simp_all add: revising_def revising_session_def example_session_def readAuthoringSessionTx_def found_def)
  have l: "lockPersistedScenarioTx example_platform revising ''chal-a1'' = Inr example_scenario"
    "lockPersistedScenarioRevisionTx example_platform revising ''chrev-0123456789ab'' = Inr example_scenario_revision"
    using example_scenario_valid(1,2)
    by (simp_all add: lockPersistedScenarioTx_def lockPersistedScenarioRevisionTx_def revising_valid revision_id_trims sql_row_def revising_def)
      (simp_all add: example_scenario_def example_scenario_revision_def scenarioRevisionFromPublication_def)
  have i: "insertPersistedScenarioRevisionTx example_platform revised_revision (supersede ''chrev-0123456789ab'' revising) =
      Inr (supersede ''chrev-0123456789ab'' revising \<lparr>g_revisions := g_revisions (supersede ''chrev-0123456789ab'' revising) @ [revised_revision]\<rparr>)"
    using revising_valid(1)
    by (simp add: insertPersistedScenarioRevisionTx_def supersede_def sql_update_def revising_def example_generation_def
        example_evidence_def empty_generation_def pf_ts_def)
      (simp add: revised_revision_def example_scenario_revision_def scenarioRevisionFromPublication_def example_platform_def
        example_scenario_def zero_digest_def other_digest_def)
  have p: "pb_ScenarioID revising_publication = ''chal-a1''" "pb_BaseActiveRevisionID revising_publication = ''chrev-0123456789ab''"
    "pb_SourceSlug revising_publication = ''dns-a1''" "pb_ScenarioTitle revising_publication = ''DNS''"
    "pb_ScenarioRevisionID revising_publication = ''chrev-0123456789ac''"
    "pb_TargetPath revising_publication = ''dns-a1/chrev-0123456789ac''"
    by (simp_all add: revising_publication_def example_publication_def)
  have e: "sc_SourceKind example_scenario = SourceAuthoringScenario" "sc_OwnerUserID example_scenario = ''u1''"
    "sc_State example_scenario = ScenarioActive" "sc_ActiveRevisionID example_scenario = ''chrev-0123456789ab''"
    "sc_SourceSlug example_scenario = ''dns-a1''" "sc_ID example_scenario = ''chal-a1''"
    "sv_ScenarioID example_scenario_revision = ''chal-a1''" "sv_State example_scenario_revision = RevisionActive"
    "sv_ID example_scenario_revision = ''chrev-0123456789ab''"
    "g_scenarios revising = [example_scenario]"
    by (simp_all add: example_scenario_def example_scenario_revision_def scenarioRevisionFromPublication_def revising_def)
  have u: "g_scenarios (supersede ''chrev-0123456789ab'' revising) = [example_scenario]"
    by (simp add: supersede_def e)
  have "\<exists>g1. finalizeAuthoringRevisionTx example_platform revising_session revising_workflow revising_candidate
      revising_publication ScenarioOperationsScenario [] other_digest 2000000000 revising = Inr g1"
    by (simp add: finalizeAuthoringRevisionTx_def p s l e c w revised_revision_def [symmetric] i u sql_update_def)
  then show ?thesis
    using revising_valid example_scenario_valid(3,4)
    by (auto simp: FinalizeGenerationScenarioPublication_def ScenarioType_Valid_def scanGenerationWorkflow_def found_def w
        or_error_def c s)
qed

lemma revision_breaks_catalog_witness:
  "\<exists>rows e. ListActiveScenarioRevisions example_platform revising = Inr rows \<and>
     ListActiveScenarioRevisions example_platform (snd (FinalizeGenerationScenarioPublication example_platform ''w1'' ''c1''
       zero_digest other_digest ScenarioOperationsScenario [] 2000000000 revising)) = Inl e"
proof -
  obtain g' where g': "FinalizeGenerationScenarioPublication example_platform ''w1'' ''c1'' zero_digest other_digest
     ScenarioOperationsScenario [] 2000000000 revising = (Inr (), g')"
    using revising_finalized by blast
  have t: "scenario_tables revising" "workflow_row ''w1'' revising = Some revising_workflow"
    "readAuthoringSessionTx revising (src_Ref (wf_Source revising_workflow)) [] = Inr revising_session"
    "se_RevisionScenarioID revising_session \<noteq> []"
    "sql_row sc_ID (trim (se_RevisionScenarioID revising_session)) (g_scenarios revising) = Some example_scenario"
    "sc_SourceRef example_scenario \<noteq> src_Ref (wf_Source revising_workflow)"
    by (simp_all add: scenario_tables_def revising_def workflow_row_def sql_row_def revising_workflow_def example_workflow_def
        readAuthoringSessionTx_def revising_session_def example_session_def found_def example_scenario_def
        example_scenario_revision_def scenarioRevisionFromPublication_def revising_valid)
  have "active_pairs revising = [(example_scenario, example_scenario_revision)]"
    by (simp add: active_pairs_def revising_def)
      (simp add: example_scenario_def example_scenario_revision_def scenarioRevisionFromPublication_def)
  moreover have "ActiveRevision_Valid (pf_unicode example_platform) example_scenario example_scenario_revision"
    using example_scenario_valid(1,2)
    by (simp add: ActiveRevision_Valid_def) (simp add: example_scenario_def example_scenario_revision_def scenarioRevisionFromPublication_def)
  ultimately have "ListActiveScenarioRevisions example_platform revising =
      Inr (sort_by (newest_published example_platform) [(example_scenario, example_scenario_revision)])"
    by (simp add: listed_iff)
  then show ?thesis using revision_breaks_catalog [OF g' t] g' by auto
qed

subsection \<open>Deprecation\<close>

text \<open>
  C21 An author takes exactly one scenario out of the Catalog. Where the tables obey their keys and the
  Catalog can be listed (and scenarios name their active revisions without surrounding space), a
  deprecation that goes through is
  that of an active authoring scenario of this author, which the Catalog listed with its active revision;
  afterwards the Catalog can still be listed, and has lost that row and no other. The revisions stay as
  they are (sessions that run on them go on), and a second deprecation is refused.
\<close>

theorem deprecation_hides_one:
  assumes "DeprecateAuthoringScenario pf userID scenarioID now g = (Inr updated, g')"
    and "scenario_tables g" "ListActiveScenarioRevisions pf g = Inr rows"
    and "list_all (\<lambda>c. trim (sc_ActiveRevisionID c) = sc_ActiveRevisionID c) (g_scenarios g)"
  shows "\<exists>target active rows'. target \<in> set (g_scenarios g) \<and> sc_ID target = trim scenarioID \<and>
      sc_SourceKind target = SourceAuthoringScenario \<and> sc_OwnerUserID target = trim userID \<and>
      sc_State target = ScenarioActive \<and> updated = target \<lparr>sc_State := ScenarioDeprecated, sc_UpdatedAt := pf_ts pf now\<rparr> \<and>
    (target, active) \<in> set rows \<and> ListActiveScenarioRevisions pf g' = Inr rows' \<and>
      set rows' = set rows - {(target, active)} \<and>
    g_revisions g' = g_revisions g \<and>
    (later \<noteq> 0 \<longrightarrow> DeprecateAuthoringScenario pf userID scenarioID later g' = (Inl scenario_not_mutable, g'))"
proof -
  obtain target active where t: "lockPersistedScenarioTx pf g scenarioID = Inr target" "sc_SourceKind target = SourceAuthoringScenario"
    "sc_OwnerUserID target = trim userID" "sc_State target = ScenarioActive" "\<not> blank userID" "\<not> blank scenarioID"
    and a: "lockPersistedScenarioRevisionTx pf g (sc_ActiveRevisionID target) = Inr active"
      "sv_ScenarioID active = sc_ID target" "sv_State active = RevisionActive"
    using assms(1) by (auto simp: DeprecateAuthoringScenario_def tx_Inr and_then_Inr_iff split: if_split_asm)
  have row: "sql_row sc_ID (trim scenarioID) (g_scenarios g) = Some target"
    using t(1) by (auto simp: lockPersistedScenarioTx_def split: option.splits if_splits)
  let ?P = "\<lambda>c. sc_ID c = sc_ID target \<and> sc_State c = ScenarioActive"
  let ?f = "\<lambda>c. c \<lparr>sc_State := ScenarioDeprecated, sc_UpdatedAt := pf_ts pf now\<rparr>"
  have g': "g' = g \<lparr>g_scenarios := fst (sql_update ?P ?f (g_scenarios g))\<rparr>"
    and u: "map_option ?f (find ?P (g_scenarios g)) = Some updated" "Scenario_Valid (pf_unicode pf) updated"
    using assms(1) by (auto simp: DeprecateAuthoringScenario_def tx_Inr and_then_Inr_iff t Let_def found_Inr wrap_error_Inr
        scanPersistedScenario_def split: if_split_asm)
  note tin = sql_row_Some [OF row]
  have "sql_row sv_ID (sc_ActiveRevisionID target) (g_revisions g) = Some active"
    using a(1) assms(4) tin(1) by (auto simp: lockPersistedScenarioRevisionTx_def list_all_iff split: option.splits if_splits)
  note ain = sql_row_Some [OF this]
  obtain x where x: "find ?P (g_scenarios g) = Some x" "updated = ?f x" using u(1) by auto
  have d: "distinct (map sc_ID (g_scenarios g))" "distinct (map sv_ID (g_revisions g))" using assms(2) by (simp_all add: scenario_tables_def)
  have xt: "x = target" using find_in [OF x(1)] tin d(1) by (metis (mono_tags, lifting) inj_on_eq_iff distinct_map)
  have only: "?P c \<longleftrightarrow> c = target" if "c \<in> set (g_scenarios g)" for c
    using that tin d(1) t(4) by (metis (mono_tags, lifting) inj_on_eq_iff distinct_map)
  have one: "(target, active) \<in> set (active_pairs g)" using tin ain a t(4) by (simp add: active_pairs_in)
  have uniq: "r = active" if "(target, r) \<in> set (active_pairs g)" for r
    using that ain d(2) unfolding active_pairs_in by (metis (mono_tags, lifting) inj_on_eq_iff distinct_map)
  have moved: "?f target \<noteq> target"
  proof
    assume "?f target = target"
    then have "sc_State (?f target) = sc_State target" by simp
    then show False using t(4) by simp
  qed
  have "(c, r) \<in> set (active_pairs g') \<longleftrightarrow> (c, r) \<in> set (active_pairs g) \<and> c \<noteq> target" for c r
    unfolding active_pairs_in g' using only tin moved
    by (auto simp: sql_update_set)
  then have pairs: "set (active_pairs g') = set (active_pairs g) - {(target, active)}" using uniq by auto
  have "sql_row sc_ID (trim scenarioID) (g_scenarios g') = Some updated"
    unfolding g' using row t(4) tin by (simp add: sql_row_update x(2) xt)
  then have "lockPersistedScenarioTx pf g' scenarioID = Inr updated" using u(2) by (simp add: lockPersistedScenarioTx_def)
  then have again: "later \<noteq> 0 \<longrightarrow> DeprecateAuthoringScenario pf userID scenarioID later g' = (Inl scenario_not_mutable, g')"
    using t by (simp add: DeprecateAuthoringScenario_def x(2) xt tx_def)
  have "ListActiveScenarioRevisions pf g' = Inr (sort_by (newest_published pf) (active_pairs g'))"
    using assms(3) pairs by (auto simp: listed_iff)
  then show ?thesis
    using pairs one assms(3) tin t x(2) xt again
    by (intro exI [of _ target] exI [of _ active] exI) (auto simp: listed_iff g')
qed

definition listed :: generation_db where
  "listed = empty_generation \<lparr>g_scenarios := [example_scenario], g_revisions := [example_scenario_revision]\<rparr>"

lemma listed_scenarios: "g_scenarios listed = [example_scenario]"
  by (simp add: listed_def)

lemma listed_tables: "scenario_tables listed"
  "ListActiveScenarioRevisions example_platform listed = Inr [(example_scenario, example_scenario_revision)]"
proof -
  have "active_pairs listed = [(example_scenario, example_scenario_revision)]"
    by (simp add: active_pairs_def listed_def)
      (simp add: example_scenario_def example_scenario_revision_def scenarioRevisionFromPublication_def)
  moreover have "ActiveRevision_Valid (pf_unicode example_platform) example_scenario example_scenario_revision"
    using example_scenario_valid(1,2)
    by (simp add: ActiveRevision_Valid_def) (simp add: example_scenario_def example_scenario_revision_def scenarioRevisionFromPublication_def)
  ultimately show "ListActiveScenarioRevisions example_platform listed = Inr [(example_scenario, example_scenario_revision)]"
    by (simp add: listed_iff sort_by_def)
  show "scenario_tables listed"
    by (simp add: scenario_tables_def listed_def empty_generation_def example_scenario_def example_scenario_revision_def
        scenarioRevisionFromPublication_def)
qed

lemma deprecation_hides_one_witness:
  "ListActiveScenarioRevisions example_platform
     (snd (DeprecateAuthoringScenario example_platform '' u1'' ''chal-a1'' 3000000000 listed)) = Inr []"
proof -
  have v: "Scenario_Valid (pf_unicode example_platform) (example_scenario \<lparr>sc_State := ScenarioDeprecated, sc_UpdatedAt := 3000000000\<rparr>)"
    "trim ''chal-a1'' = ''chal-a1''" "trim '' u1'' = ''u1''" "\<not> blank '' u1''" "\<not> blank ''chal-a1''"
    by code_simp+
  have e: "sc_SourceKind example_scenario = SourceAuthoringScenario" "sc_OwnerUserID example_scenario = ''u1''"
    "sc_State example_scenario = ScenarioActive" "sc_ActiveRevisionID example_scenario = ''chrev-0123456789ab''"
    "sc_SourceSlug example_scenario = ''dns-a1''" "sc_ID example_scenario = ''chal-a1''"
    "sv_ScenarioID example_scenario_revision = ''chal-a1''" "sv_State example_scenario_revision = RevisionActive"
    "sv_ID example_scenario_revision = ''chrev-0123456789ab''"
    by (simp_all add: example_scenario_def example_scenario_revision_def scenarioRevisionFromPublication_def)
  have l: "lockPersistedScenarioTx example_platform listed ''chal-a1'' = Inr example_scenario"
    "lockPersistedScenarioRevisionTx example_platform listed ''chrev-0123456789ab'' = Inr example_scenario_revision"
    using example_scenario_valid(1,2)
    by (simp_all add: lockPersistedScenarioTx_def lockPersistedScenarioRevisionTx_def v revision_id_trims sql_row_def listed_def e)
  have "\<exists>updated g'. DeprecateAuthoringScenario example_platform '' u1'' ''chal-a1'' 3000000000 listed = (Inr updated, g')"
    using v by (simp add: DeprecateAuthoringScenario_def l e tx_def)
      (simp add: listed_def e scanPersistedScenario_def found_def wrap_error_def pf_ts_def example_platform_def)
  then obtain updated g' where g': "DeprecateAuthoringScenario example_platform '' u1'' ''chal-a1'' 3000000000 listed = (Inr updated, g')"
    by blast
  show ?thesis
    using deprecation_hides_one [OF g' listed_tables, of 0] e by (auto simp: g' listed_scenarios revision_id_trims simp flip: set_empty)
qed

end
