(* ===== verification/ScenarioEntry.thy ===== *)
theory ScenarioEntry
  imports ScenarioFacts
begin

section \<open>Scenario sources\<close>

text \<open>
  The rules of \<open>internal/content/scenario\<close> for a scenario directory: the manifest (\<open>store.go\<close>), the files
  it demands (\<open>materialize.go\<close>), the identities and references inside it, and the teaching assets
  (\<open>content_validation.go\<close>). The directory is seen through the calls the code makes on it; what the YAML
  decoder, the Markdown parser, the URL parser and the marker expression return is part of it.
\<close>

subsection \<open>The manifest\<close>

record ScenarioNode =
  nd_Name :: string
  nd_Title :: string

record SoftwareVersion =
  sw_Component :: string
  sw_Version :: string

record ReproductionEvidence =
  ev_ID :: string
  ev_Description :: string
  ev_Node :: string

record Reproduction =
  rp_Objective :: string
  rp_Evidence :: "ReproductionEvidence list"

record Checkpoint =
  ck_ID :: string
  ck_Title :: string
  ck_Description :: string
  ck_Hint :: string
  ck_Node :: string

record Spec =
  ss_ID :: string
  ss_RevisionID :: string
  ss_SourceSlug :: string
  ss_Type :: string
  ss_Title :: string
  ss_Runtime :: string
  ss_Description :: string
  ss_Tags :: "string list"
  ss_Image :: string
  ss_ContentRevision :: string
  ss_PublishedAt :: time
  ss_Nodes :: "ScenarioNode list"
  ss_Versions :: "SoftwareVersion list"
  ss_Topology :: string
  ss_Initialization :: string
  ss_Reproduction :: Reproduction
  ss_Checkpoints :: "Checkpoint list"

record ScenarioEntry =
  se_EntryID :: string
  se_RevisionID :: string
  se_SourceSlug :: string
  se_Type :: ScenarioType
  se_Title :: string
  se_Runtime :: string
  se_Description :: string
  se_Tags :: "string list"
  se_Image :: string
  se_ContentRevision :: string
  se_Revision :: string
  se_PublishedAt :: time
  se_Nodes :: "ScenarioNode list"
  se_Versions :: "SoftwareVersion list"
  se_Topology :: string
  se_Initialization :: string
  se_Reproduction :: Reproduction
  se_Checkpoints :: "Checkpoint list"
  se_HasReferenceRepair :: bool

abbreviation RuntimeNodeName :: string where "RuntimeNodeName \<equiv> ''node''"
abbreviation RuntimeK8sName :: string where "RuntimeK8sName \<equiv> ''k8s''"

definition NormalizeRuntime :: "string \<Rightarrow> string" where
  "NormalizeRuntime runtime = trim runtime"

text \<open>Invalid tags are kept as they are, for the validators to refuse.\<close>

definition entryFromSpec :: "unicode \<Rightarrow> Spec \<Rightarrow> ScenarioEntry" where
  "entryFromSpec u spec = \<lparr>se_EntryID = ss_ID spec, se_RevisionID = ss_RevisionID spec,
     se_SourceSlug = ss_SourceSlug spec, se_Type = NormalizeScenarioType (ss_Type spec), se_Title = ss_Title spec,
     se_Runtime = NormalizeRuntime (ss_Runtime spec), se_Description = ss_Description spec,
     se_Tags = (case NormalizeTags u (ss_Tags spec) of Inr tags \<Rightarrow> tags | Inl _ \<Rightarrow> ss_Tags spec),
     se_Image = ss_Image spec, se_ContentRevision = ss_ContentRevision spec, se_Revision = [],
     se_PublishedAt = ss_PublishedAt spec, se_Nodes = ss_Nodes spec, se_Versions = ss_Versions spec,
     se_Topology = ss_Topology spec, se_Initialization = ss_Initialization spec,
     se_Reproduction = ss_Reproduction spec, se_Checkpoints = ss_Checkpoints spec, se_HasReferenceRepair = False\<rparr>"

subsection \<open>The files of the public execution contract\<close>

definition operationsRuntimeRoot :: "string \<Rightarrow> string \<Rightarrow> string" where
  "operationsRuntimeRoot runtime node = (if runtime = RuntimeK8sName then ''k8s'' else ''nodes/'' @ node)"

definition InitializationEntrypoint :: "string \<Rightarrow> string \<Rightarrow> string" where
  "InitializationEntrypoint runtime node = operationsRuntimeRoot runtime node @ ''/initialize.sh''"

definition ApplyEntrypoint :: "string \<Rightarrow> string \<Rightarrow> string" where
  "ApplyEntrypoint runtime node = operationsRuntimeRoot runtime node @ ''/actions/apply.sh''"

definition InitialAssertionEntrypoint :: "string \<Rightarrow> string \<Rightarrow> string \<Rightarrow> string" where
  "InitialAssertionEntrypoint runtime node i =
     operationsRuntimeRoot runtime node @ ''/assertions/initial-'' @ i @ ''.sh''"

definition FinalAssertionEntrypoint :: "string \<Rightarrow> string \<Rightarrow> string \<Rightarrow> string" where
  "FinalAssertionEntrypoint runtime node i =
     operationsRuntimeRoot runtime node @ ''/assertions/final-'' @ i @ ''.sh''"

subsection \<open>The directory\<close>

datatype file_kind = RegularFile | DirectoryFile | OtherFile

text \<open>
  \<open>os.Lstat\<close> and \<open>os.Stat\<close> by relative path (\<open>None\<close>: the file does not exist), the entries of
  \<open>nodes\<close>, the solution's checkpoint markers, and the link targets of each Markdown file.
\<close>

record link_target =
  lk_Error :: bool
  lk_Text :: string
  lk_Scheme :: string
  lk_Host :: string
  lk_Path :: "string option"

record scenario_dir =
  dr_lstat :: "string \<Rightarrow> go_error + file_kind option"
  dr_stat :: "string \<Rightarrow> go_error + file_kind option"
  dr_nodes :: "go_error + (string \<times> file_kind) list"
  dr_markers :: "go_error + string list"
  dr_links :: "string \<Rightarrow> go_error + link_target list"
  dr_spec :: "go_error + Spec"
  dr_digest :: "go_error + string"

definition requireRegularFile :: "scenario_dir \<Rightarrow> string \<Rightarrow> go_error option" where
  "requireRegularFile dir relative = (case dr_lstat dir relative of
     Inl e \<Rightarrow> Some (Wrap (''missing '' @ relative) e)
   | Inr None \<Rightarrow> Some (Wrap (''missing '' @ relative) (PathError ''no such file or directory''))
   | Inr (Some k) \<Rightarrow> fail_if (k \<noteq> RegularFile) (Msg (relative @ '' must be a regular file'')))"

definition hasRegularFile :: "scenario_dir \<Rightarrow> string \<Rightarrow> go_error + bool" where
  "hasRegularFile dir relative = (case dr_lstat dir relative of
     Inl e \<Rightarrow> Inl (Wrap (''inspect '' @ relative) e)
   | Inr None \<Rightarrow> Inr False
   | Inr (Some k) \<Rightarrow> if k \<noteq> RegularFile then Inl (Msg (relative @ '' must be a regular file'')) else Inr True)"

text \<open>\<open>filepath.Join\<close> of a root and a relative name, seen from the root, must not leave it.\<close>

definition safeScenarioPath :: "string \<Rightarrow> go_error + string" where
  "safeScenarioPath name =
     (if blank name \<or> is_abs name then Inl (Msg ''must be a non-empty relative path'')
      else let rel = clean_path name in
        if rel = ''..'' \<or> prefix ''../'' rel then Inl (Msg ''must remain inside the scenario directory'')
        else Inr rel)"

subsection \<open>Nodes and files\<close>

definition reservedNodeNames :: "string list" where
  "reservedNodeNames = [''breakfix'', ''gateway'', ''localhost'']"

definition MaxScenarioNodes :: nat where "MaxScenarioNodes = 4"

fun declared_nodes :: "scenario_dir \<Rightarrow> string \<Rightarrow> string list \<Rightarrow> ScenarioNode list \<Rightarrow> go_error + string list" where
  "declared_nodes dir runtime declared [] = Inr declared"
| "declared_nodes dir runtime declared (n # ns) =
     (let name = trim (nd_Name n) in
      if \<not> ValidID name then Inl (Msg ''invalid node name'')
      else if name \<in> set reservedNodeNames then Inl (Msg ''node name is reserved'')
      else if name \<in> set declared then Inl (Msg ''duplicate node name'')
      else if blank (nd_Title n) then Inl (Msg ''node title is required'')
      else check (requireRegularFile dir (InitializationEntrypoint runtime name))
        (declared_nodes dir runtime (declared @ [name]) ns))"

text \<open>One file per element, the first missing one is the error.\<close>

fun require_files :: "scenario_dir \<Rightarrow> string list \<Rightarrow> go_error option" where
  "require_files dir [] = None"
| "require_files dir (f # fs) = (case requireRegularFile dir f of Some e \<Rightarrow> Some e | None \<Rightarrow> require_files dir fs)"

definition evidence_files :: "ScenarioEntry \<Rightarrow> string list" where
  "evidence_files s = map (\<lambda>e. InitialAssertionEntrypoint (se_Runtime s)
     (if se_Runtime s = RuntimeNodeName then ev_Node e else []) (ev_ID e)) (rp_Evidence (se_Reproduction s))"

definition checkpoint_files :: "ScenarioEntry \<Rightarrow> string list" where
  "checkpoint_files s = map (\<lambda>c. FinalAssertionEntrypoint (se_Runtime s)
     (if se_Runtime s = RuntimeNodeName then ck_Node c else []) (ck_ID c)) (se_Checkpoints s)"

definition nodes_listed :: "string list \<Rightarrow> (string \<times> file_kind) list \<Rightarrow> go_error option" where
  "nodes_listed declared entries = each_error (\<lambda>_ (name, k). first_error
     [fail_if (k \<noteq> DirectoryFile) (Msg (''nodes/'' @ name @ '' must be a declared node directory'')),
      fail_if (name \<notin> set declared) (Msg (''nodes/'' @ name @ '' is not declared in scenario.yaml''))]) 0 entries"

definition absent :: "scenario_dir \<Rightarrow> string \<Rightarrow> string \<Rightarrow> string \<Rightarrow> go_error option" where
  "absent dir name present inspect = (case dr_lstat dir name of
     Inl e \<Rightarrow> Some (Wrap inspect e)
   | Inr None \<Rightarrow> None
   | Inr (Some _) \<Rightarrow> Some (Msg present))"

fun count_answers :: "scenario_dir \<Rightarrow> string \<Rightarrow> nat \<Rightarrow> ScenarioNode list \<Rightarrow> go_error + nat" where
  "count_answers dir runtime answers [] = Inr answers"
| "count_answers dir runtime answers (n # ns) =
     and_then (hasRegularFile dir (ApplyEntrypoint runtime (nd_Name n)))
       (\<lambda>has. count_answers dir runtime (if has then Suc answers else answers) ns)"

definition validateNodeReferenceRepair :: "ScenarioEntry \<Rightarrow> scenario_dir \<Rightarrow> go_error + bool" where
  "validateNodeReferenceRepair s dir = and_then (hasRegularFile dir ''solution.md'') (\<lambda>solution.
     and_then (count_answers dir (se_Runtime s) 0 (se_Nodes s)) (\<lambda>answers.
     if solution \<noteq> (0 < answers) then Inl (Msg ''solution.md and reference answer scripts must be provided together'')
     else if 0 < answers \<and> answers \<noteq> length (se_Nodes s)
     then Inl (Msg ''reference repair requires actions/apply.sh for every declared node'')
     else if solution \<and> se_Checkpoints s = [] then Inl (Msg ''reference repair requires at least one checkpoint'')
     else Inr solution))"

definition validateK8sReferenceRepair :: "ScenarioEntry \<Rightarrow> scenario_dir \<Rightarrow> go_error + bool" where
  "validateK8sReferenceRepair s dir = and_then (hasRegularFile dir ''solution.md'') (\<lambda>solution.
     and_then (hasRegularFile dir (ApplyEntrypoint (se_Runtime s) [])) (\<lambda>answer.
     if solution \<noteq> answer then Inl (Msg ''solution.md and k8s/actions/apply.sh must be provided together'')
     else if solution \<and> se_Checkpoints s = [] then Inl (Msg ''reference repair requires at least one checkpoint'')
     else Inr solution))"

definition validateScenarioFiles :: "ScenarioEntry \<Rightarrow> scenario_dir \<Rightarrow> go_error + bool" where
  "validateScenarioFiles s dir = check (require_files dir [''scenario.yaml''])
     (if se_Runtime s = RuntimeNodeName
      then if se_Nodes s = [] then Inl (Msg ''node scenario requires at least one node'')
        else if MaxScenarioNodes < length (se_Nodes s) then Inl (Msg ''node scenario exceeds the 4 node limit'')
        else and_then (declared_nodes dir (se_Runtime s) [] (se_Nodes s)) (\<lambda>declared.
          check (require_files dir (evidence_files s))
          (check (require_files dir (checkpoint_files s))
          (and_then (wrap_error ''read nodes directory'' (dr_nodes dir)) (\<lambda>entries.
           check (nodes_listed declared entries)
           (check (absent dir ''k8s'' ''node scenario must not contain k8s assets'' ''inspect k8s assets'')
             (validateNodeReferenceRepair s dir))))))
      else if se_Runtime s = RuntimeK8sName
      then if se_Nodes s \<noteq> [] then Inl (Msg ''k8s scenario must not declare nodes'')
        else check (requireRegularFile dir (InitializationEntrypoint (se_Runtime s) []))
          (check (require_files dir (evidence_files s))
          (check (require_files dir (checkpoint_files s))
          (check (absent dir ''nodes'' ''k8s scenario must not contain node assets'' ''inspect node assets'')
            (validateK8sReferenceRepair s dir))))
      else Inr False)"

subsection \<open>Identities and references\<close>

fun unique_components :: "unicode \<Rightarrow> string list \<Rightarrow> SoftwareVersion list \<Rightarrow> go_error option" where
  "unique_components u seen [] = None"
| "unique_components u seen (v # vs) =
     (let component = trim (sw_Component v); key = ToLower u component in
      if component = [] \<or> blank (sw_Version v)
      then Some (Msg ''operations scenario version component and version are required'')
      else if key \<in> set seen then Some (Msg ''duplicate operations scenario version component'')
      else unique_components u (key # seen) vs)"

definition evidence_node_error :: "ScenarioEntry \<Rightarrow> ReproductionEvidence \<Rightarrow> go_error option" where
  "evidence_node_error s e =
     (if se_Runtime s = RuntimeNodeName
      then fail_if (ev_Node e \<notin> nd_Name ` set (se_Nodes s)) (Msg ''reproduction evidence references unknown node'')
      else if se_Runtime s = RuntimeK8sName
      then fail_if (\<not> blank (ev_Node e)) (Msg ''k8s reproduction evidence must not declare a node'')
      else None)"

fun check_evidence :: "ScenarioEntry \<Rightarrow> string list \<Rightarrow> ReproductionEvidence list \<Rightarrow> go_error option" where
  "check_evidence s seen [] = None"
| "check_evidence s seen (e # es) =
     (let i = trim (ev_ID e) in
      if \<not> ValidID i then Some (Msg ''invalid reproduction evidence id'')
      else if i \<in> set seen then Some (Msg ''duplicate reproduction evidence id'')
      else if blank (ev_Description e) then Some (Msg ''reproduction evidence description is required'')
      else case evidence_node_error s e of
        Some err \<Rightarrow> Some err
      | None \<Rightarrow> check_evidence s (i # seen) es)"

definition validateOperationsCore :: "unicode \<Rightarrow> ScenarioEntry \<Rightarrow> go_error option" where
  "validateOperationsCore u s =
     (if se_Type s \<noteq> ScenarioOperationsScenario then None
      else first_error
        [fail_if (se_Versions s = []) (Msg ''operations scenario versions are required''),
         unique_components u [] (se_Versions s),
         fail_if (blank (se_Topology s)) (Msg ''operations scenario topology is required''),
         fail_if (blank (se_Initialization s)) (Msg ''operations scenario initialization is required''),
         fail_if (blank (rp_Objective (se_Reproduction s)))
           (Msg ''operations scenario reproduction objective is required''),
         fail_if (rp_Evidence (se_Reproduction s) = [])
           (Msg ''operations scenario reproduction evidence is required''),
         check_evidence s [] (rp_Evidence (se_Reproduction s))])"

definition hint_error :: "scenario_dir \<Rightarrow> Checkpoint \<Rightarrow> go_error option" where
  "hint_error dir c =
     (if blank (ck_Hint c) then None
      else case safeScenarioPath (ck_Hint c) of
        Inl e \<Rightarrow> Some (Wrap ''checkpoint hint'' e)
      | Inr path \<Rightarrow> (case dr_stat dir path of
          Inr (Some k) \<Rightarrow> fail_if (k = DirectoryFile) (Msg ''checkpoint hint is not a file'')
        | _ \<Rightarrow> Some (Msg ''checkpoint hint is not a file'')))"

definition checkpoint_node_error :: "ScenarioEntry \<Rightarrow> Checkpoint \<Rightarrow> go_error option" where
  "checkpoint_node_error s c =
     (if se_Runtime s = RuntimeNodeName
      then fail_if (ck_Node c \<notin> nd_Name ` set (se_Nodes s)) (Msg ''checkpoint references unknown node'')
      else fail_if (\<not> blank (ck_Node c)) (Msg ''k8s checkpoint must not declare a node''))"

fun check_checkpoints :: "ScenarioEntry \<Rightarrow> scenario_dir \<Rightarrow> string list \<Rightarrow> Checkpoint list \<Rightarrow> go_error option" where
  "check_checkpoints s dir known [] = None"
| "check_checkpoints s dir known (c # cs) =
     (let i = trim (ck_ID c) in
      if i = [] \<or> \<not> ValidID i then Some (Msg ''invalid checkpoint id'')
      else if i \<in> set known then Some (Msg ''duplicate checkpoint id'')
      else if blank (ck_Title c) then Some (Msg ''checkpoint title is required'')
      else if blank (ck_Description c) then Some (Msg ''checkpoint description is required'')
      else case first_error [hint_error dir c, checkpoint_node_error s c] of
        Some err \<Rightarrow> Some err
      | None \<Rightarrow> check_checkpoints s dir (i # known) cs)"

definition validateCheckpoints :: "ScenarioEntry \<Rightarrow> scenario_dir \<Rightarrow> go_error option" where
  "validateCheckpoints s dir = check_checkpoints s dir [] (se_Checkpoints s)"

subsection \<open>Teaching assets\<close>

definition validateSolutionMarkers :: "ScenarioEntry \<Rightarrow> string list \<Rightarrow> go_error option" where
  "validateSolutionMarkers s markers = first_error
     [each_error (\<lambda>_ c. fail_if (length (filter (\<lambda>m. m = ck_ID c) markers) \<noteq> 1)
        (Msg ''solution.md must contain exactly one checkpoint marker'')) 0 (se_Checkpoints s),
      fail_if (\<not> set markers \<subseteq> ck_ID ` set (se_Checkpoints s)) (Msg ''solution.md contains marker for unknown checkpoint'')]"

text \<open>\<open>filepath.Dir\<close> of a clean relative name.\<close>

definition dir_of :: "string \<Rightarrow> string" where
  "dir_of source = (let parts = split_on CHR ''/'' source in
     if length parts \<le> 1 then ''.'' else clean_path (join_with CHR ''/'' (butlast parts)))"

definition validateMarkdownLink :: "scenario_dir \<Rightarrow> string \<Rightarrow> link_target \<Rightarrow> go_error option" where
  "validateMarkdownLink dir source l =
     (if blank (lk_Text l) \<or> prefix ''#'' (trim (lk_Text l)) then None
      else if lk_Error l then Some (Msg (source @ '' contains invalid Markdown link''))
      else if lk_Scheme l \<noteq> []
      then fail_if (\<not> (lk_Scheme l = ''https'' \<and> lk_Host l \<noteq> []))
        (Msg (source @ '' link must be a relative bundled resource or an HTTPS URL''))
      else if lk_Host l \<noteq> [] then Some (Msg (source @ '' link must not use an absolute network path''))
      else case lk_Path l of
        None \<Rightarrow> Some (Msg (source @ '' link has an invalid path''))
      | Some resource \<Rightarrow>
          if resource = [] then None
          else if is_abs resource then Some (Msg (source @ '' link: must be a non-empty relative path''))
          else case safeScenarioPath (path_join (dir_of source) resource) of
            Inl e \<Rightarrow> Some (Wrap (source @ '' link'') e)
          | Inr path \<Rightarrow> (case dr_stat dir path of
              Inr (Some k) \<Rightarrow> fail_if (k \<noteq> RegularFile) (Msg (source @ '' link must resolve to a regular bundled file''))
            | _ \<Rightarrow> Some (Msg (source @ '' link does not resolve to a bundled resource''))))"

definition validateMarkdownLinks :: "scenario_dir \<Rightarrow> string \<Rightarrow> go_error option" where
  "validateMarkdownLinks dir relative = (case safeScenarioPath relative of
     Inl e \<Rightarrow> Some (Wrap (''teaching asset '' @ relative) e)
   | Inr path \<Rightarrow> (case dr_links dir path of
       Inl e \<Rightarrow> Some (Wrap (''read teaching asset '' @ relative) e)
     | Inr links \<Rightarrow> each_error (\<lambda>_ l. validateMarkdownLink dir relative l) 0 links))"

definition validateTeachingAssets :: "ScenarioEntry \<Rightarrow> scenario_dir \<Rightarrow> go_error option" where
  "validateTeachingAssets s dir =
     (case (hasRegularFile dir ''problem.md'', hasRegularFile dir ''solution.md'') of
        (Inl e, _) \<Rightarrow> Some e
      | (Inr _, Inl e) \<Rightarrow> Some e
      | (Inr problem, Inr solution) \<Rightarrow>
          first_error
            [(if se_HasReferenceRepair s
              then case dr_markers dir of
                  Inl e \<Rightarrow> Some (Wrap ''read solution.md'' e)
                | Inr markers \<Rightarrow> validateSolutionMarkers s markers
              else None),
             each_error (\<lambda>_ f. validateMarkdownLinks dir f) 0
               ((if problem then [''problem.md''] else []) @ (if solution then [''solution.md''] else []) @
                map ck_Hint (filter (\<lambda>c. \<not> blank (ck_Hint c)) (se_Checkpoints s)))])"

subsection \<open>Candidates and published directories\<close>

text \<open>What \<open>ValidateCandidateDir\<close> and \<open>ValidateDir\<close> have in common.\<close>

definition validate_entry ::
  "unicode \<Rightarrow> (ScenarioEntry \<Rightarrow> go_error option) \<Rightarrow> ScenarioEntry \<Rightarrow> scenario_dir \<Rightarrow> go_error + ScenarioEntry"
where
  "validate_entry u imageCheck s dir = and_then (validateScenarioFiles s dir) (\<lambda>hasReferenceRepair.
     check (first_error
       [fail_if (blank (se_Title s)) (Msg ''scenario title is required''),
        fail_if (\<not> ScenarioType_Valid (se_Type s)) (Msg ''unsupported scenario type''),
        (case NormalizeTags u (se_Tags s) of Inl e \<Rightarrow> Some e | Inr _ \<Rightarrow> None),
        fail_if (se_Runtime s \<noteq> RuntimeNodeName \<and> se_Runtime s \<noteq> RuntimeK8sName) (Msg ''unsupported scenario runtime''),
        imageCheck s,
        fail_if (blank (se_Description s)) (Msg ''scenario description is required''),
        validateOperationsCore u s,
        validateCheckpoints s dir])
     (let s' = s \<lparr>se_HasReferenceRepair := hasReferenceRepair\<rparr>
      in check (validateTeachingAssets s' dir) (Inr s')))"

definition LoadCandidateDir :: "unicode \<Rightarrow> scenario_dir \<Rightarrow> go_error + ScenarioEntry" where
  "LoadCandidateDir u dir = and_then (dr_spec dir) (\<lambda>spec. Inr (entryFromSpec u spec))"

definition ValidateCandidateDir :: "unicode \<Rightarrow> scenario_dir \<Rightarrow> go_error + ScenarioEntry" where
  "ValidateCandidateDir u dir = and_then (LoadCandidateDir u dir) (\<lambda>s. validate_entry u (\<lambda>_. None) s dir)"

definition LoadDir :: "unicode \<Rightarrow> scenario_dir \<Rightarrow> go_error + ScenarioEntry" where
  "LoadDir u dir = and_then (dr_spec dir) (\<lambda>spec.
     if blank (ss_ID spec) then Inl (Msg ''scenario id is required'')
     else if \<not> ValidRevisionID (ss_RevisionID spec) then Inl (Msg ''scenario revision_id is required'')
     else if ss_PublishedAt spec = 0 then Inl (Msg ''scenario published_at is required'')
     else and_then (wrap_error ''hash scenario artifact'' (dr_digest dir)) (\<lambda>revision.
       Inr ((entryFromSpec u spec) \<lparr>se_Revision := revision\<rparr>)))"

text \<open>\<open>^[0-9a-f]{64}$\<close> and \<open>^[^@[:space:]]+@sha256:[0-9a-f]{64}$\<close>\<close>

definition node_fingerprint :: "string \<Rightarrow> bool" where
  "node_fingerprint s \<longleftrightarrow> length s = 64 \<and> list_all is_hex s"

definition posix_space :: "char \<Rightarrow> bool" where
  "posix_space c \<longleftrightarrow> byte c \<in> {9, 10, 11, 12, 13, 32}"

definition k8s_image :: "string \<Rightarrow> bool" where
  "k8s_image s \<longleftrightarrow> (let name = takeWhile (\<lambda>c. c \<noteq> CHR ''@'') s; rest = drop (length name) s in
     name \<noteq> [] \<and> list_all (\<lambda>c. \<not> posix_space c) name \<and> prefix ''@sha256:'' rest \<and>
     length (drop 8 rest) = 64 \<and> list_all is_hex (drop 8 rest))"

definition validatePublishedImage :: "ScenarioEntry \<Rightarrow> go_error option" where
  "validatePublishedImage s =
     (if se_Runtime s = RuntimeNodeName
      then fail_if (\<not> node_fingerprint (se_Image s)) (Msg ''node scenario image must be a full immutable Incus fingerprint'')
      else if se_Runtime s = RuntimeK8sName
      then fail_if (\<not> k8s_image (se_Image s)) (Msg ''k8s scenario image must be an immutable OCI digest reference'')
      else None)"

definition lower_digest :: "string \<Rightarrow> bool" where
  "lower_digest s \<longleftrightarrow> prefix ''sha256:'' s \<and> length (drop 7 s) = 64 \<and> list_all is_hex (drop 7 s)"

definition ValidateDir :: "unicode \<Rightarrow> scenario_dir \<Rightarrow> go_error + ScenarioEntry" where
  "ValidateDir u dir = and_then (LoadDir u dir) (\<lambda>s.
     check (first_error
       [fail_if (\<not> ValidID (se_EntryID s)) (Msg ''invalid scenario id''),
        fail_if (\<not> ValidRevisionID (se_RevisionID s)) (Msg ''invalid scenario revision id''),
        fail_if (\<not> ValidSourceSlug u (se_SourceSlug s)) (Msg ''invalid scenario source slug''),
        fail_if (\<not> lower_digest (se_ContentRevision s))
          (Msg ''scenario content_revision must be a lowercase sha256 digest'')])
     (validate_entry u validatePublishedImage s dir))"

end
