(* ===== verification/JudgeRunner.thy ===== *)
theory JudgeRunner
  imports GenerationOps ScenarioEntry
begin

section \<open>The judge's runner\<close>

text \<open>
  \<open>internal/application/generation/agent_runner.go\<close>: the Server's background runner claims a workflow in
  Judging, loads its context, starts a run, and lets the judge look at the candidate until it has a
  verdict, the artifact is refused, the attempts are used up, or the lease is gone. The store, the judge
  and the file system act on one world; what the phase's context and its lease say at a moment is read
  off the world. The loop over the attempts is a partial function: not returning is \<open>None\<close>.
\<close>

subsection \<open>Verdicts (\<open>model.go\<close>) and archives (\<open>internal/content/candidate/archive.go\<close>)\<close>

record Judgement =
  jd_Approved :: bool
  jd_Feedback :: string

definition Judgement_Validate :: "Judgement \<Rightarrow> go_error option" where
  "Judgement_Validate j = first_error
     [fail_if (jd_Approved j \<and> \<not> blank (jd_Feedback j)) (Msg ''approved judgement must not include feedback''),
      fail_if (\<not> jd_Approved j \<and> blank (jd_Feedback j)) (Msg ''rejected judgement requires feedback'')]"

definition archive_digest :: "string \<Rightarrow> string" where
  "archive_digest bytes = ''sha256:'' @ hex_of (sha256 bytes)"

text \<open>\<open>ReadArchive\<close>, with what \<open>os.ReadFile\<close> answers.\<close>

definition ReadArchive :: "(string \<Rightarrow> go_error + string) \<Rightarrow> string \<Rightarrow> string \<Rightarrow> go_error + string" where
  "ReadArchive files path expectedDigest =
     (if blank path \<or> \<not> ValidDigest expectedDigest
      then Inl (Msg ''candidate archive path and digest are required'')
      else and_then (wrap_error ''read candidate archive'' (files path)) (\<lambda>bytes.
        if archive_digest bytes \<noteq> expectedDigest
        then Inl (Msg ''candidate archive conflicts with the immutable stored archive'') else Inr bytes))"

record CandidateContent =
  ic_Archive :: string
  ic_Entry :: ScenarioEntry
  ic_Files :: "(string \<times> string) list"

subsection \<open>The runner\<close>

record 'w JudgeStore =
  js_Claim :: "string \<Rightarrow> duration \<Rightarrow> time \<Rightarrow> 'w \<Rightarrow> (go_error + Claim option) \<times> 'w"
  js_Load :: "Claim \<Rightarrow> time \<Rightarrow> 'w \<Rightarrow> (go_error + Context) \<times> 'w"
  js_Start :: "Claim \<Rightarrow> CreateRun \<Rightarrow> time \<Rightarrow> 'w \<Rightarrow> (go_error + AgentRun) \<times> 'w"
  js_Retry :: "Claim \<Rightarrow> string \<Rightarrow> string \<Rightarrow> time \<Rightarrow> 'w \<Rightarrow> (go_error + AgentRun option) \<times> 'w"
  js_Interrupt :: "string \<Rightarrow> time \<Rightarrow> 'w \<Rightarrow> go_error option \<times> 'w"
  js_Candidate :: "string \<Rightarrow> 'w \<Rightarrow> (go_error + Candidate) \<times> 'w"
  js_Finalize :: "Claim \<Rightarrow> string \<Rightarrow> bool \<Rightarrow> string \<Rightarrow> time \<Rightarrow> 'w \<Rightarrow> (go_error + unit) \<times> 'w"
  js_ReportFailure :: "Claim \<Rightarrow> WorkflowState \<Rightarrow> Failure \<Rightarrow> time \<Rightarrow> 'w \<Rightarrow> (go_error + unit) \<times> 'w"
  js_Renew :: "Claim \<Rightarrow> duration \<Rightarrow> time \<Rightarrow> 'w \<Rightarrow> go_error option \<times> 'w"

record AgentRunnerConfig =
  ar_ServerID :: string
  ar_Model :: string
  ar_LeaseTTL :: duration
  ar_PollEvery :: duration

text \<open>
  \<open>jr_inspect\<close> is \<open>InspectCandidateArchive\<close>, \<open>jr_files\<close> the file system, \<open>jr_done\<close> the error of the
  phase's context and \<open>jr_lost\<close> the flag that the renewing goroutine sets; the judge works under the
  deadline of its run.
\<close>

record 'w AgentRunner =
  jr_store :: "'w JudgeStore"
  jr_judge :: "time \<Rightarrow> AuthoringPlan \<Rightarrow> CandidateContent \<Rightarrow> 'w \<Rightarrow> (go_error + Judgement) \<times> 'w"
  jr_config :: AgentRunnerConfig
  jr_now :: "'w \<Rightarrow> time"
  jr_newID :: "'w \<Rightarrow> string"
  jr_files :: "'w \<Rightarrow> string \<Rightarrow> go_error + string"
  jr_inspect :: "string \<Rightarrow> go_error + CandidateContent"
  jr_done :: "'w \<Rightarrow> go_error option"
  jr_lost :: "'w \<Rightarrow> bool"

definition default_config :: "AgentRunnerConfig \<Rightarrow> go_error + AgentRunnerConfig" where
  "default_config cfg =
     (if blank (ar_ServerID cfg) \<or> blank (ar_Model cfg)
      then Inl (Msg ''generation agent runner requires Server store, Judge executor, identity, and model'')
      else Inr (cfg \<lparr>ar_LeaseTTL := (if ar_LeaseTTL cfg \<le> 0 then seconds 45 else ar_LeaseTTL cfg),
        ar_PollEvery := (if ar_PollEvery cfg \<le> 0 then seconds 1 else ar_PollEvery cfg)\<rparr>))"

definition generationPurpose :: "WorkflowState \<Rightarrow> string" where
  "generationPurpose s = (case s of StateJudging \<Rightarrow> ''judge'' | _ \<Rightarrow> [])"

definition generationPromptVersion :: "WorkflowState \<Rightarrow> string" where
  "generationPromptVersion s = (case s of StateJudging \<Rightarrow> ''generator-judge-v6'' | _ \<Rightarrow> [])"

definition generationInputRevision :: "Workflow \<Rightarrow> string" where
  "generationInputRevision w = wf_SourceRevision w @ '':'' @ wf_CandidateRevisionID w"

definition Runner_Recover :: "'w AgentRunner \<Rightarrow> 'w \<Rightarrow> go_error option \<times> 'w" where
  "Runner_Recover r w =
     apfst (map_option (Wrap ''interrupt active generation agent runs''))
       (js_Interrupt (jr_store r) ''server restarted before agent completion'' (jr_now r w) w)"

text \<open>One tick of the renewing goroutine: whether the lease is lost now.\<close>

definition renew_lease :: "'w AgentRunner \<Rightarrow> Claim \<Rightarrow> 'w \<Rightarrow> bool \<times> 'w" where
  "renew_lease r claim w =
     apfst (\<lambda>err. err \<noteq> None) (js_Renew (jr_store r) claim (ar_LeaseTTL (jr_config r)) (jr_now r w) w)"

subsection \<open>One attempt\<close>

definition readCandidate :: "'w AgentRunner \<Rightarrow> string \<Rightarrow> 'w \<Rightarrow> (go_error + CandidateContent) \<times> 'w" where
  "readCandidate r i w =
     (if blank i
      then (Inl (NewArtifactError ''CANDIDATE_INVALID'' ''generation workflow has no candidate revision''), w)
      else case js_Candidate (jr_store r) i w of
        (Inl e, w1) \<Rightarrow> (Inl e, w1)
      | (Inr revision, w1) \<Rightarrow> (case ReadArchive (jr_files r w1) (cr_ArchivePath revision) (cr_ArchiveDigest revision) of
          Inl e \<Rightarrow> (Inl (Wrap ''read candidate archive'' e), w1)
        | Inr archive \<Rightarrow> (case jr_inspect r archive of
            Inl e \<Rightarrow> (Inl (NewArtifactError ''CANDIDATE_INVALID'' (err_text e)), w1)
          | Inr content \<Rightarrow> (Inr content, w1))))"

definition executeRun :: "'w AgentRunner \<Rightarrow> Claim \<Rightarrow> Context \<Rightarrow> AgentRun \<Rightarrow> 'w \<Rightarrow> go_error option \<times> 'w" where
  "executeRun r claim context run w =
     (let claim = claim \<lparr>cl_Workflow := (cl_Workflow claim) \<lparr>wf_ActiveAgentRunID := ag_ID run\<rparr>\<rparr>;
          context = context \<lparr>cx_Workflow := (cx_Workflow context) \<lparr>wf_ActiveAgentRunID := ag_ID run\<rparr>\<rparr>
      in if \<not> Execution_Valid claim context
      then (Some (Msg ''generation agent run has inconsistent execution context''), w)
      else if wf_State (cl_Workflow claim) \<noteq> StateJudging
      then (Some (Msg ''generation agent runner cannot execute''), w)
      else case readCandidate r (wf_CandidateRevisionID (cl_Workflow claim)) w of
        (Inl e, w1) \<Rightarrow> (Some e, w1)
      | (Inr content, w1) \<Rightarrow> (case jr_judge r (ag_DeadlineAt run) (cx_Plan context) content w1 of
          (Inl e, w2) \<Rightarrow> (Some e, w2)
        | (Inr judgement, w2) \<Rightarrow> (case Judgement_Validate judgement of
            Some e \<Rightarrow> (Some e, w2)
          | None \<Rightarrow> apfst error_of (js_Finalize (jr_store r) claim (ag_ID run) (jd_Approved judgement)
              (jd_Feedback judgement) (jr_now r w2) w2))))"

text \<open>\<open>errors.As\<close> with an \<open>*ArtifactError\<close> target: its failure.\<close>

fun as_generation_artifact :: "go_error \<Rightarrow> Failure option" where
  "as_generation_artifact (GenerationArtifactError code summary) =
     Some \<lparr>fl_Class = WorkflowFailureArtifact, fl_Code = code, fl_Summary = summary\<rparr>"
| "as_generation_artifact (PublicationFailure _ e) = as_generation_artifact e"
| "as_generation_artifact (Wrap _ e) = as_generation_artifact e"
| "as_generation_artifact _ = None"

subsection \<open>The attempts\<close>

partial_function (option) judge_attempts ::
  "'w AgentRunner \<Rightarrow> Claim \<Rightarrow> Context \<Rightarrow> AgentRun \<Rightarrow> 'w \<Rightarrow> (go_error option \<times> 'w) option"
where
  "judge_attempts r claim context run w =
     (if jr_lost r w then Some (Some generation_lease_lost, w)
      else case executeRun r claim context run w of
        (None, w1) \<Rightarrow> Some (None, w1)
      | (Some e, w1) \<Rightarrow>
          if err_is e ErrGenerationLeaseLost \<or> jr_lost r w1 then Some (Some e, w1)
          else case jr_done r w1 of
            Some cancelled \<Rightarrow> Some (Some cancelled, w1)
          | None \<Rightarrow> (case as_generation_artifact e of
              Some failure \<Rightarrow> Some (apfst error_of
                (js_ReportFailure (jr_store r) claim (wf_State (cl_Workflow claim)) failure (jr_now r w1) w1))
            | None \<Rightarrow> (case js_Retry (jr_store r) claim (ag_ID run) (err_text e) (jr_now r w1) w1 of
                (Inl retryErr, w2) \<Rightarrow> Some (Some retryErr, w2)
              | (Inr None, w2) \<Rightarrow> Some (None, w2)
              | (Inr (Some again), w2) \<Rightarrow> judge_attempts r claim context again w2)))"

definition judge_run :: "'w AgentRunner \<Rightarrow> Claim \<Rightarrow> 'w \<Rightarrow> CreateRun" where
  "judge_run r claim w = \<lparr>nr_ID = jr_newID r w, nr_SessionID = [],
     nr_Purpose = generationPurpose (wf_State (cl_Workflow claim)), nr_OwnerKind = ''generation-workflow'',
     nr_OwnerRef = wf_ID (cl_Workflow claim), nr_InputRevision = generationInputRevision (cl_Workflow claim),
     nr_Input = [], nr_Model = ar_Model (jr_config r),
     nr_PromptVersion = generationPromptVersion (wf_State (cl_Workflow claim)), nr_DeadlineAt = 0\<rparr>"

definition executeClaim :: "'w AgentRunner \<Rightarrow> Claim \<Rightarrow> 'w \<Rightarrow> (go_error option \<times> 'w) option" where
  "executeClaim r claim w = (case jr_done r w of
     Some cancelled \<Rightarrow> Some (Some cancelled, w)
   | None \<Rightarrow> (case js_Load (jr_store r) claim (jr_now r w) w of
       (Inl e, w1) \<Rightarrow> Some (Some e, w1)
     | (Inr context, w1) \<Rightarrow>
         if \<not> Execution_Valid claim context
         then Some (Some (Msg ''generation agent runner received inconsistent workflow context''), w1)
         else case js_Start (jr_store r) claim (judge_run r claim w1) (jr_now r w1) w1 of
           (Inl e, w2) \<Rightarrow> Some (Some e, w2)
         | (Inr run, w2) \<Rightarrow> judge_attempts r claim context run w2))"

text \<open>\<open>ProcessOne\<close>: whether there was a claim, and the error of its phase.\<close>

definition Judge_ProcessOne :: "'w AgentRunner \<Rightarrow> 'w \<Rightarrow> ((bool \<times> go_error option) \<times> 'w) option" where
  "Judge_ProcessOne r w =
     (case js_Claim (jr_store r) (ar_ServerID (jr_config r)) (ar_LeaseTTL (jr_config r)) (jr_now r w) w of
        (Inl e, w1) \<Rightarrow> Some ((False, Some e), w1)
      | (Inr None, w1) \<Rightarrow> Some ((False, None), w1)
      | (Inr (Some claim), w1) \<Rightarrow> map_option (apfst (Pair True)) (executeClaim r claim w1))"

end
