(* ===== verification/OperationsCompile.thy ===== *)
theory OperationsCompile
  imports ScenarioEntry RunnableValidate
begin

section \<open>From a scenario to a runnable specification\<close>

text \<open>
  \<open>internal/application/operations/runnable_adapter.go\<close>: the translation of a validated scenario into the
  public runnable contract, which the generation coordinator and the catalog installer call. A map of
  versions is the list of its entries, each key once.
\<close>

record RuntimeProfileConfig =
  pc_ProfileRevision :: string
  pc_BaseImage :: string
  pc_SoftwareVersions :: "(string \<times> string) list"
  pc_Resources :: ResourceLimits
  pc_Network :: NetworkScope
  pc_MaxActionTimeout :: int

record OperationsConfig =
  cf_MaxNodes :: int
  cf_Node :: RuntimeProfileConfig
  cf_K8s :: RuntimeProfileConfig
  cf_Lifecycle :: LifecyclePolicy

record CompileInput =
  in_ContentID :: string
  in_ContentRevision :: string
  in_Entry :: ScenarioEntry
  in_Source :: SourceArchive

text \<open>\<open>runnableID\<close>: the loop over the runes of the value, with the byte index of each.\<close>

definition lower_rune :: "nat \<Rightarrow> bool" where
  "lower_rune r \<longleftrightarrow> 97 \<le> r \<and> r \<le> 122"

fun runnable_runes :: "bool \<Rightarrow> nat list \<Rightarrow> bool" where
  "runnable_runes first [] = True"
| "runnable_runes first (r # rs) =
     ((if first then lower_rune r else lower_rune r \<or> (48 \<le> r \<and> r \<le> 57) \<or> r = 45) \<and> runnable_runes False rs)"

definition runnableID :: "string \<Rightarrow> go_error option" where
  "runnableID val = fail_if (val = [] \<or> MaxIDLength < length val \<or> \<not> runnable_runes True (runes val))
     (Msg ''must be a stable lowercase identifier'')"

text \<open>The loop over the versions of the scenario, on top of those of the platform.\<close>

fun add_versions ::
  "unicode \<Rightarrow> (string \<times> string) list \<Rightarrow> SoftwareVersion list \<Rightarrow> go_error + (string \<times> string) list"
where
  "add_versions u versions [] = Inr versions"
| "add_versions u versions (v # vs) =
     (let component = ToLower u (trim (sw_Component v)) in
      case runnableID component of
        Some e \<Rightarrow> Inl (Wrap ''compile operations version'' e)
      | None \<Rightarrow> (case map_of versions component of
          Some current \<Rightarrow>
            if current \<noteq> sw_Version v then Inl (Msg ''compile operations version conflicts with runtime profile'')
            else add_versions u versions vs
        | None \<Rightarrow> add_versions u (versions @ [(component, sw_Version v)]) vs))"

record location =
  lo_target :: TargetLocation
  lo_writeBoundary :: string
  lo_readBoundary :: string

definition locationFor :: "string \<Rightarrow> string \<Rightarrow> location" where
  "locationFor kind i = \<lparr>lo_target = \<lparr>tl_Kind = kind, tl_ID = i\<rparr>,
     lo_writeBoundary = kind @ ''-'' @ i @ ''-write'', lo_readBoundary = kind @ ''-'' @ i @ ''-read''\<rparr>"

definition boundaries_of :: "RuntimeProfileConfig \<Rightarrow> location \<Rightarrow> ExecutionBoundary list" where
  "boundaries_of config item =
     [\<lparr>eb_ID = lo_writeBoundary item, eb_Target = lo_target item, eb_Permission = PermissionReadWrite,
       eb_Network = pc_Network config, eb_MaxTimeout = pc_MaxActionTimeout config\<rparr>,
      \<lparr>eb_ID = lo_readBoundary item, eb_Target = lo_target item, eb_Permission = PermissionReadOnly,
       eb_Network = pc_Network config, eb_MaxTimeout = pc_MaxActionTimeout config\<rparr>]"

definition locations_of :: "Runtime \<Rightarrow> ScenarioEntry \<Rightarrow> (string \<times> location) list" where
  "locations_of runtime s =
     (if runtime = RuntimeNode then map (\<lambda>n. (nd_Name n, locationFor ''node'' (nd_Name n))) (se_Nodes s)
      else [([], locationFor ''management'' ''cluster'')])"

definition compileProfile ::
  "unicode \<Rightarrow> Runtime \<Rightarrow> ScenarioEntry \<Rightarrow> RuntimeProfileConfig \<Rightarrow> go_error + RuntimeProfile \<times> (string \<times> location) list"
where
  "compileProfile u runtime s config =
     and_then (add_versions u (pc_SoftwareVersions config) (se_Versions s)) (\<lambda>versions.
       let locations = locations_of runtime s;
           profile = \<lparr>rp_Runtime = runtime, rp_ProfileRevision = pc_ProfileRevision config,
             rp_BaseImage = pc_BaseImage config, rp_SoftwareVersions = versions,
             rp_Resources = pc_Resources config, rp_Network = pc_Network config, rp_Topology = se_Topology s,
             rp_ExecutionBoundaries = concat (map (boundaries_of config \<circ> snd) locations)\<rparr>
       in check (map_option (Wrap ''compile operations runtime profile'') (RuntimeProfile_Validate profile))
            (Inr (profile, locations)))"

definition action :: "string \<Rightarrow> string \<Rightarrow> location \<Rightarrow> ActionSpec" where
  "action i entrypoint item = \<lparr>ac_ID = i, ac_Entrypoint = entrypoint, ac_Target = lo_target item,
     ac_BoundaryID = lo_writeBoundary item, ac_TimeoutSeconds = 900, ac_ExpectedExitCodes = [0]\<rparr>"

definition assertion :: "string \<Rightarrow> string \<Rightarrow> location \<Rightarrow> AssertionSpec" where
  "assertion i entrypoint item = \<lparr>as_ID = i, as_Entrypoint = entrypoint, as_Target = lo_target item,
     as_BoundaryID = lo_readBoundary item, as_TimeoutSeconds = 900\<rparr>"

text \<open>What a missing key of a Go map yields.\<close>

definition no_location :: location where
  "no_location = \<lparr>lo_target = \<lparr>tl_Kind = [], tl_ID = []\<rparr>, lo_writeBoundary = [], lo_readBoundary = []\<rparr>"

definition location_at :: "(string \<times> location) list \<Rightarrow> string \<Rightarrow> location" where
  "location_at locations name = (case map_of locations name of Some item \<Rightarrow> item | None \<Rightarrow> no_location)"

fun node_actions :: "string \<Rightarrow> (string \<times> location) list \<Rightarrow> ScenarioNode list \<Rightarrow> go_error + ActionSpec list" where
  "node_actions runtime locations [] = Inr []"
| "node_actions runtime locations (n # ns) = (case map_of locations (nd_Name n) of
     None \<Rightarrow> Inl (Msg ''compile operations initialization: node has no execution location'')
   | Some item \<Rightarrow> and_then (node_actions runtime locations ns) (\<lambda>rest.
       Inr (action (''initialize-'' @ nd_Name n) (InitializationEntrypoint runtime (nd_Name n)) item # rest)))"

definition compileInitialization :: "ScenarioEntry \<Rightarrow> (string \<times> location) list \<Rightarrow> go_error + ActionSpec list" where
  "compileInitialization s locations =
     (if se_Runtime s = RuntimeK8sName
      then Inr [action ''initialize'' (InitializationEntrypoint (se_Runtime s) []) (location_at locations [])]
      else node_actions (se_Runtime s) locations (se_Nodes s))"

definition locationForScenario :: "string \<Rightarrow> string \<Rightarrow> (string \<times> location) list \<Rightarrow> go_error + location" where
  "locationForScenario runtime node locations =
     (if runtime = RuntimeK8sName
      then (case map_of locations [] of
          None \<Rightarrow> Inl (Msg ''management execution location is absent'') | Some item \<Rightarrow> Inr item)
      else (case map_of locations node of
          None \<Rightarrow> Inl (Msg ''node has no execution location'') | Some item \<Rightarrow> Inr item))"

fun evidence_assertions ::
  "string \<Rightarrow> (string \<times> location) list \<Rightarrow> ReproductionEvidence list \<Rightarrow> go_error + AssertionSpec list"
where
  "evidence_assertions runtime locations [] = Inr []"
| "evidence_assertions runtime locations (e # es) =
     and_then (wrap_error ''compile operations observation'' (locationForScenario runtime (ev_Node e) locations)) (\<lambda>item.
     and_then (evidence_assertions runtime locations es) (\<lambda>rest.
       Inr (assertion (ev_ID e) (InitialAssertionEntrypoint runtime (ev_Node e) (ev_ID e)) item # rest)))"

fun checkpoint_assertions ::
  "string \<Rightarrow> (string \<times> location) list \<Rightarrow> Checkpoint list \<Rightarrow> go_error + AssertionSpec list"
where
  "checkpoint_assertions runtime locations [] = Inr []"
| "checkpoint_assertions runtime locations (c # cs) =
     and_then (wrap_error ''compile operations conclusion'' (locationForScenario runtime (ck_Node c) locations)) (\<lambda>item.
     and_then (checkpoint_assertions runtime locations cs) (\<lambda>rest.
       Inr (assertion (ck_ID c) (FinalAssertionEntrypoint runtime (ck_Node c) (ck_ID c)) item # rest)))"

definition apply_actions :: "ScenarioEntry \<Rightarrow> (string \<times> location) list \<Rightarrow> ActionSpec list" where
  "apply_actions s locations =
     (if se_Runtime s = RuntimeK8sName
      then [action ''apply-change'' (ApplyEntrypoint (se_Runtime s) []) (location_at locations [])]
      else map (\<lambda>n. action (''apply-change-'' @ nd_Name n) (ApplyEntrypoint (se_Runtime s) (nd_Name n))
             (location_at locations (nd_Name n))) (se_Nodes s))"

definition compileValidationPlan :: "ScenarioEntry \<Rightarrow> (string \<times> location) list \<Rightarrow> go_error + ValidationPlan" where
  "compileValidationPlan s locations =
     and_then (evidence_assertions (se_Runtime s) locations (rp_Evidence (se_Reproduction s))) (\<lambda>observed.
     let initial = \<lparr>vp_ID = ''initial-observation'', vp_TimeoutSeconds = 1800, vp_Execution = PhaseSequential,
           vp_Actions = [], vp_Assertions = observed\<rparr> in
     if \<not> se_HasReferenceRepair s then Inr \<lparr>pl_FormatVersion = FormatVersion, pl_Phases = [initial]\<rparr>
     else and_then (checkpoint_assertions (se_Runtime s) locations (se_Checkpoints s)) (\<lambda>concluded.
       Inr \<lparr>pl_FormatVersion = FormatVersion, pl_Phases = [initial,
         \<lparr>vp_ID = ''final-observation'', vp_TimeoutSeconds = 1800, vp_Execution = PhaseSequential,
          vp_Actions = apply_actions s locations, vp_Assertions = concluded\<rparr>]\<rparr>))"

definition profileFor :: "string \<Rightarrow> OperationsConfig \<Rightarrow> go_error + RuntimeProfileConfig \<times> Runtime" where
  "profileFor runtime config =
     (if runtime = RuntimeNodeName then Inr (cf_Node config, RuntimeNode)
      else if runtime = RuntimeK8sName then Inr (cf_K8s config, RuntimeK8s)
      else Inl (Msg ''compile operations revision: unsupported runtime''))"

definition RequireOperationsScenario :: "ScenarioEntry \<Rightarrow> go_error option" where
  "RequireOperationsScenario s = fail_if (se_Type s \<noteq> ScenarioOperationsScenario)
     (Msg ''operations module accepts only operations-scenario'')"

definition Compile :: "unicode \<Rightarrow> CompileInput \<Rightarrow> OperationsConfig \<Rightarrow> go_error + RunnableSpec" where
  "Compile u input config =
     (let s = in_Entry input in
      check (first_error
        [map_option (Wrap ''compile operations revision'') (RequireOperationsScenario s),
         fail_if (blank (in_ContentID input) \<or> blank (in_ContentRevision input))
           (Msg ''compile operations revision: immutable content identity is required''),
         map_option (Wrap ''compile operations revision source'') (SourceArchive_Validate (in_Source input)),
         fail_if (cf_MaxNodes config \<le> 0 \<or> int MaxScenarioNodes < cf_MaxNodes config)
           (Msg ''compile operations revision: max nodes is outside scenario platform limits'')])
      (and_then (profileFor (se_Runtime s) config) (\<lambda>(profileConfig, runtime).
        if runtime = RuntimeNode \<and> cf_MaxNodes config < int (length (se_Nodes s))
        then Inl (Msg ''compile operations revision: node count exceeds platform limit'')
        else and_then (compileProfile u runtime s profileConfig) (\<lambda>(profile, locations).
          and_then (compileInitialization s locations) (\<lambda>initialization.
          and_then (compileValidationPlan s locations) (\<lambda>plan.
          let spec = \<lparr>rs_FormatVersion = FormatVersion,
                rs_Identity = \<lparr>ci_Kind = ''operations'', ci_ID = in_ContentID input,
                  ci_Revision = in_ContentRevision input\<rparr>,
                rs_RuntimeProfile = profile, rs_Source = in_Source input, rs_Initialization = initialization,
                rs_ValidationPlan = plan, rs_LifecyclePolicy = cf_Lifecycle config\<rparr>
          in check (map_option (Wrap ''compile operations runnable spec'') (RunnableSpec_Validate spec)) (Inr spec)))))))"

end
