(* ===== verification/RunnableCoordinator.thy ===== *)
theory RunnableCoordinator
  imports JudgeRunner GenerationPublish OperationsCompile
begin

section \<open>Runnable actions of candidates\<close>

text \<open>
  \<open>internal/application/generation/runnable_coordinator.go\<close>: one pass over the workflows in
  MaterializingArtifact and Verifying. It reads the frozen archive of the candidate, compiles it, keeps
  the action of the workflow's version scheduled, and projects what became of the action onto the
  workflow. The repositories are those of the model; files, the archive formats and the clock are
  parameters. A pass acts alone: steps of other processes come between the passes.
\<close>

record coordinator =
  co_files :: "string \<Rightarrow> go_error + string"
  co_freeze :: "string \<Rightarrow> go_error + SourceArchive \<times> string \<times> string"
  co_inspect :: "string \<Rightarrow> go_error + CandidateContent"
  co_operations :: OperationsConfig
  co_now :: "Workflow \<Rightarrow> time"

definition on_runnable :: "(store \<Rightarrow> 'a \<times> store) \<Rightarrow> generation_db \<Rightarrow> 'a \<times> generation_db" where
  "on_runnable f g = (let (v, st) = f (g_runnable g) in (v, g \<lparr>g_runnable := st\<rparr>))"

text \<open>\<open>errors.As\<close> with an \<open>*ActionFailure\<close> target.\<close>

fun as_action_failure :: "go_error \<Rightarrow> (string \<times> string \<times> string) option" where
  "as_action_failure (ActionFailure class code summary) = Some (class, code, summary)"
| "as_action_failure (PublicationFailure _ e) = as_action_failure e"
| "as_action_failure (Wrap _ e) = as_action_failure e"
| "as_action_failure _ = None"

text \<open>\<open>failWorkflowForAction\<close>: \<open>None\<close> when the error is not a failure of the action.\<close>

definition failWorkflowForAction ::
  "platform \<Rightarrow> string \<Rightarrow> go_error \<Rightarrow> time \<Rightarrow> generation_db \<Rightarrow> (go_error option \<times> generation_db) option"
where
  "failWorkflowForAction pf workflowID e now g =
     (if \<not> err_is e ErrRunnableActionFailed then None
      else Some (FailRunnableGenerationWorkflow pf workflowID
        (case as_action_failure e of
           Some (class, code, summary) \<Rightarrow>
             ''runnable action failed ('' @ class @ ''/'' @ code @ ''): '' @ summary
         | None \<Rightarrow> err_text e) now g))"

text \<open>What the pass needs of a candidate: its spec, its source and the bytes of the source.\<close>

definition prepare_candidate :: "unicode \<Rightarrow> coordinator \<Rightarrow> Candidate \<Rightarrow> go_error + RunnableSpec \<times> SourceArchive \<times> string" where
  "prepare_candidate u co c =
     and_then (ReadArchive (co_files co) (cr_ArchivePath c) (cr_ArchiveDigest c)) (\<lambda>archive.
     and_then (co_freeze co archive) (\<lambda>(source, sourceBytes, contentRevision).
       if source \<noteq> cr_SourceArchive c \<or> contentRevision \<noteq> cr_ContentRevision c
       then Inl (Msg ''candidate frozen source differs from durable source'')
       else and_then (co_inspect co archive) (\<lambda>inspected.
         and_then (Compile u \<lparr>in_ContentID = cr_ID c, in_ContentRevision = cr_ContentRevision c,
             in_Entry = ic_Entry inspected, in_Source = source\<rparr> (co_operations co)) (\<lambda>spec.
           Inr (spec, source, sourceBytes)))))"

text \<open>What a resolved or unresolved action means for the workflow.\<close>

definition project_action ::
  "platform \<Rightarrow> string \<Rightarrow> go_error + 'r \<Rightarrow> ('r \<Rightarrow> generation_db \<Rightarrow> (go_error + unit) \<times> generation_db) \<Rightarrow> time
     \<Rightarrow> generation_db \<Rightarrow> go_error option \<times> generation_db"
where
  "project_action pf workflowID resolved mark now g = (case resolved of
     Inl e \<Rightarrow>
       if err_is e ErrMaterializationNotReady then (None, g)
       else (case failWorkflowForAction pf workflowID e now g of
         Some failed \<Rightarrow> failed
       | None \<Rightarrow> (Some e, g))
   | Inr reference \<Rightarrow> apfst error_of (mark reference g))"

definition coordinate_materialization ::
  "platform \<Rightarrow> codec \<Rightarrow> RunnableSpec \<Rightarrow> Workflow \<Rightarrow> time \<Rightarrow> generation_db \<Rightarrow> go_error option \<times> generation_db"
where
  "coordinate_materialization pf cd spec w now g =
     (case on_runnable (ScheduleMaterialization cd (pf_db pf) spec (wf_StateVersion w) now) g of
        (Inl e, g1) \<Rightarrow> (Some e, g1)
      | (Inr act, g1) \<Rightarrow> project_action pf (wf_ID w) (ResolveMaterializedRunnableRevision act (g_runnable g1))
          (\<lambda>reference. MarkGenerationCandidateMaterialized pf (wf_ID w) reference now) now g1)"

definition coordinate_verification ::
  "platform \<Rightarrow> codec \<Rightarrow> Candidate \<Rightarrow> Workflow \<Rightarrow> time \<Rightarrow> generation_db \<Rightarrow> go_error option \<times> generation_db"
where
  "coordinate_verification pf cd c w now g = (case cr_RunnableRevisionRef c of
     None \<Rightarrow> (Some (Msg ''generation workflow has no runnable revision''), g)
   | Some revision \<Rightarrow>
       (case on_runnable (ScheduleVerification cd (pf_db pf) revision (wf_StateVersion w) now) g of
          (Inl e, g1) \<Rightarrow> (Some e, g1)
        | (Inr act, g1) \<Rightarrow> project_action pf (wf_ID w) (ResolveVerificationForAction cd act (g_runnable g1))
            (\<lambda>report. MarkGenerationCandidateVerified pf (wf_ID w) (svr_Reference report) now) now g1))"

definition coordinate_workflow ::
  "platform \<Rightarrow> codec \<Rightarrow> coordinator \<Rightarrow> Workflow \<Rightarrow> generation_db \<Rightarrow> go_error option \<times> generation_db"
where
  "coordinate_workflow pf cd co w g = (case CandidateForWorkflow g (wf_ID w) of
     Inl e \<Rightarrow> (Some e, g)
   | Inr c \<Rightarrow> (case prepare_candidate (pf_unicode pf) co c of
       Inl e \<Rightarrow> (Some e, g)
     | Inr (spec, source, sourceBytes) \<Rightarrow>
         (let now = co_now co w in
          case on_runnable (StoreRunnableSource (pf_db pf) source sourceBytes now) g of
            (Some e, g1) \<Rightarrow> (Some e, g1)
          | (None, g1) \<Rightarrow>
              if wf_State w = StateMaterializingArtifact then coordinate_materialization pf cd spec w now g1
              else if wf_State w = StateVerifying then coordinate_verification pf cd c w now g1
              else (Some (Msg ''generation workflow has unsupported runnable state''), g1))))"

text \<open>The loop of \<open>RunOnce\<close>: it returns at the first error.\<close>

fun coordinate_all ::
  "platform \<Rightarrow> codec \<Rightarrow> coordinator \<Rightarrow> Workflow list \<Rightarrow> generation_db \<Rightarrow> go_error option \<times> generation_db"
where
  "coordinate_all pf cd co [] g = (None, g)"
| "coordinate_all pf cd co (w # ws) g = (case coordinate_workflow pf cd co w g of
     (Some e, g1) \<Rightarrow> (Some e, g1)
   | (None, g1) \<Rightarrow> coordinate_all pf cd co ws g1)"

definition Coordinator_RunOnce ::
  "platform \<Rightarrow> codec \<Rightarrow> coordinator \<Rightarrow> generation_db \<Rightarrow> go_error option \<times> generation_db"
where
  "Coordinator_RunOnce pf cd co g = (case ListRunnableGenerationCandidates pf g of
     Inl e \<Rightarrow> (Some e, g)
   | Inr workflows \<Rightarrow> coordinate_all pf cd co workflows g)"

end
