(* ===== verification/PublicationFinalizer.thy ===== *)
theory PublicationFinalizer
  imports JudgeRunner GenerationPublish
begin

section \<open>The publication finalizer\<close>

text \<open>
  \<open>internal/application/generation/publication_finalizer.go\<close>: for every workflow whose publication is due,
  build the published directory from the frozen candidate, publish it through the repository, and record
  what went wrong as a deterministic failure (the workflow has Failed) or a transient one (it is tried
  again). The archive formats and the directories are parameters: what each step answers.
\<close>

subsection \<open>Classification\<close>

text \<open>\<open>errors.As\<close> with an \<open>*os.PathError\<close> target.\<close>

fun is_path_error :: "go_error \<Rightarrow> bool" where
  "is_path_error (PathError _) = True"
| "is_path_error (PublicationFailure _ e) = is_path_error e"
| "is_path_error (Wrap _ e) = is_path_error e"
| "is_path_error _ = False"

definition publication_invariant :: "string \<Rightarrow> go_error" where
  "publication_invariant detail =
     Sentinel ErrPublicationInvariant (''candidate publication invariant breach: '' @ detail)"

definition classifyPublicationFinalizerError :: "go_error option \<Rightarrow> go_error option" where
  "classifyPublicationFinalizerError err = (case err of
     None \<Rightarrow> None
   | Some e \<Rightarrow>
       if Category_Valid (CategoryOf err) then err
       else if err_is e ErrCandidateInvalidState \<or> err_is e ErrScenarioSourceRefConflict then Deterministic err
       else Transient err)"

definition publicationFailure :: "go_error option \<Rightarrow> go_error option" where
  "publicationFailure err = (case err of
     None \<Rightarrow> None
   | Some e \<Rightarrow>
       if Category_Valid (CategoryOf err) then err
       else if err_is e ErrPublicationInvariant then Deterministic err
       else if is_path_error e then Transient err
       else Deterministic err)"

text \<open>A returned error, classified: \<open>return nil, publicationFailure(err)\<close> for an error that is not nil.\<close>

definition classified :: "(go_error option \<Rightarrow> go_error option) \<Rightarrow> go_error \<Rightarrow> go_error" where
  "classified f e = (case f (Some e) of Some e' \<Rightarrow> e' | None \<Rightarrow> e)"

definition failing_with :: "(go_error option \<Rightarrow> go_error option) \<Rightarrow> go_error + 'a \<Rightarrow> go_error + 'a" where
  "failing_with f r = (case r of Inl e \<Rightarrow> Inl (classified f e) | Inr a \<Rightarrow> Inr a)"

subsection \<open>The directory\<close>

text \<open>
  \<open>fz_unpack\<close> is the temporary directory with the extracted archive, \<open>pz_validate\<close> and \<open>pz_revision\<close>
  are \<open>ValidateCandidateDir\<close> and \<open>ContentRevision\<close> of it, \<open>pz_promote\<close> is \<open>PromoteDirectoryAt\<close> with the
  identities it writes, \<open>pz_lstat\<close> and \<open>pz_validateDir\<close> answer for the target before (\<open>True\<close>) and after
  \<open>pz_materialize\<close> (\<open>MaterializeWithPath\<close>).
\<close>

record finalizer =
  pz_resolve :: "string \<Rightarrow> string \<Rightarrow> go_error + RunnableRevision"
  pz_files :: "string \<Rightarrow> go_error + string"
  pz_mkdir :: "go_error option"
  pz_extract :: "string \<Rightarrow> go_error option"
  pz_validate :: "string \<Rightarrow> go_error + ScenarioEntry"
  pz_revision :: "string \<Rightarrow> go_error + string"
  pz_promote :: "string \<Rightarrow> Publication \<Rightarrow> string \<Rightarrow> string \<Rightarrow> go_error + ScenarioEntry"
  pz_lstat :: "bool \<Rightarrow> string \<Rightarrow> go_error + file_kind option"
  pz_validateDir :: "bool \<Rightarrow> string \<Rightarrow> go_error + ScenarioEntry"
  pz_materialize :: "string \<Rightarrow> ScenarioEntry \<Rightarrow> go_error + ScenarioEntry"
  pz_now :: time

text \<open>\<open>strings.Cut(strings.TrimPrefix(reference, "incus://"), "@")\<close>\<close>

definition trim_prefix :: "string \<Rightarrow> string \<Rightarrow> string" where
  "trim_prefix p s = (if prefix p s then drop (length p) s else s)"

definition after_at :: "string \<Rightarrow> string option" where
  "after_at s = (case dropWhile (\<lambda>c. c \<noteq> CHR ''@'') s of [] \<Rightarrow> None | _ # rest \<Rightarrow> Some rest)"

definition runnableArtifactImage :: "ArtifactReference \<Rightarrow> go_error + string" where
  "runnableArtifactImage artifact = check (ArtifactReference_Validate artifact)
     (if ar_Runtime artifact = RuntimeNode
      then (case after_at (trim_prefix ''incus://'' (ar_ProviderReference artifact)) of
          Some digest \<Rightarrow> if digest \<noteq> ar_ArtifactDigest artifact
            then Inl (Msg ''node runnable artifact reference is invalid'') else Inr (trim_prefix ''sha256:'' digest)
        | None \<Rightarrow> Inl (Msg ''node runnable artifact reference is invalid''))
      else if ar_Runtime artifact = RuntimeK8s then Inr (ar_ProviderReference artifact)
      else Inl (Msg ''unsupported runnable artifact runtime''))"

text \<open>\<open>validateExistingPublication\<close>: the entry that was found, whether a target was found, and an error.\<close>

definition validateExistingPublication ::
  "finalizer \<Rightarrow> bool \<Rightarrow> string \<Rightarrow> ScenarioEntry \<Rightarrow> ScenarioEntry option \<times> bool \<times> go_error option"
where
  "validateExistingPublication fz before target expected = (case pz_lstat fz before target of
     Inl e \<Rightarrow> (None, False, publicationFailure (Some e))
   | Inr None \<Rightarrow> (None, False, None)
   | Inr (Some k) \<Rightarrow>
       if k \<noteq> DirectoryFile then (None, True, Some (publication_invariant ''target is not a directory''))
       else (case pz_validateDir fz before target of
         Inl e \<Rightarrow> (None, True, Some (publication_invariant (''invalid target: '' @ err_text e)))
       | Inr existing \<Rightarrow>
           if se_EntryID existing \<noteq> se_EntryID expected \<or> se_RevisionID existing \<noteq> se_RevisionID expected \<or>
              se_SourceSlug existing \<noteq> se_SourceSlug expected \<or> se_Image existing \<noteq> se_Image expected \<or>
              se_Revision existing \<noteq> se_Revision expected
           then (None, True, Some (publication_invariant ''target conflicts with publication intent''))
           else (Some existing, True, None)))"

definition intent_matches :: "unicode \<Rightarrow> Publication \<Rightarrow> Candidate \<Rightarrow> ScenarioEntry \<Rightarrow> string \<Rightarrow> bool" where
  "intent_matches u intent revision entry contentRevision \<longleftrightarrow>
     contentRevision = cr_ContentRevision revision \<and>
     \<not> (pb_BaseActiveRevisionID intent = [] \<and>
        SourceSlugFor u (se_Title entry) (pb_ScenarioID intent) \<noteq> pb_SourceSlug intent) \<and>
     MaterializedPath u (pb_SourceSlug intent) (pb_ScenarioRevisionID intent) = pb_TargetPath intent"

text \<open>The end of \<open>materialize\<close>: an existing target is accepted, a missing one is made.\<close>

definition place_target :: "finalizer \<Rightarrow> string \<Rightarrow> ScenarioEntry \<Rightarrow> go_error + ScenarioEntry" where
  "place_target fz target expected = (case validateExistingPublication fz True target expected of
     (_, _, Some e) \<Rightarrow> Inl (classified publicationFailure e)
   | (Some existing, _, None) \<Rightarrow> Inr existing
   | (None, _, None) \<Rightarrow>
       (case pz_materialize fz target expected of
          Inr materialized \<Rightarrow> Inr materialized
        | Inl e \<Rightarrow> (case validateExistingPublication fz False target expected of
            (_, _, Some e') \<Rightarrow> Inl (classified publicationFailure e')
          | (Some existing, _, None) \<Rightarrow> Inr existing
          | (None, _, None) \<Rightarrow> Inl (classified publicationFailure e))))"

definition materialize_candidate :: "unicode \<Rightarrow> finalizer \<Rightarrow> Candidate \<Rightarrow> go_error + ScenarioEntry" where
  "materialize_candidate u fz c = (case (cr_Publication c, cr_RunnableRevisionRef c, cr_VerificationReportRef c) of
     (Some intent, Some revision, Some _) \<Rightarrow>
       check (map_option (\<lambda>e. classified publicationFailure (publication_invariant (''invalid intent: '' @ err_text e)))
           (Publication_ValidateIntent u intent))
       (and_then (failing_with publicationFailure (pz_resolve fz (ref_ID revision) (ref_Digest revision))) (\<lambda>built.
        and_then (failing_with publicationFailure (runnableArtifactImage (rr_Artifact built))) (\<lambda>image.
        and_then (failing_with publicationFailure (ReadArchive (pz_files fz) (cr_ArchivePath c) (cr_ArchiveDigest c))) (\<lambda>archive.
        check (map_option (classified Transient) (pz_mkdir fz))
        (check (map_option (classified Deterministic) (pz_extract fz archive))
        (and_then (failing_with Deterministic (pz_validate fz archive)) (\<lambda>entry.
         and_then (failing_with publicationFailure (pz_revision fz archive)) (\<lambda>contentRevision.
         if \<not> intent_matches u intent c entry contentRevision
         then Inl (classified publicationFailure (publication_invariant ''intent does not match frozen candidate''))
         else and_then (failing_with publicationFailure (pz_promote fz archive intent image contentRevision))
           (place_target fz (pb_TargetPath intent))))))))))
   | _ \<Rightarrow> Inl (classified Deterministic candidate_invalid_state))"

subsection \<open>The pass\<close>

definition finalizer_recordFailure ::
  "platform \<Rightarrow> finalizer \<Rightarrow> PublicationFinalization \<Rightarrow> go_error \<Rightarrow> generation_db \<Rightarrow> go_error option \<times> generation_db"
where
  "finalizer_recordFailure pf fz val e g =
     (case NewDiagnostic (classifyPublicationFinalizerError (Some e)) (pz_now fz) of
        Inl diagnosticErr \<Rightarrow> (Some diagnosticErr, g)
      | Inr diagnostic \<Rightarrow> apfst error_of (RecordGenerationPublicationFinalizerFailure pf
          (wf_ID (fz_Workflow val)) (cr_ID (fz_Candidate val)) diagnostic g))"

text \<open>One publication; an error of the record is only logged.\<close>

definition finalize_publication ::
  "platform \<Rightarrow> finalizer \<Rightarrow> PublicationFinalization \<Rightarrow> generation_db \<Rightarrow> generation_db"
where
  "finalize_publication pf fz val g = (case materialize_candidate (pf_unicode pf) fz (fz_Candidate val) of
     Inl e \<Rightarrow> snd (finalizer_recordFailure pf fz val e g)
   | Inr entry \<Rightarrow>
       (case FinalizeGenerationScenarioPublication pf (wf_ID (fz_Workflow val)) (cr_ID (fz_Candidate val))
             (se_ContentRevision entry) (se_Revision entry) (se_Type entry) (se_Tags entry) (pz_now fz) g of
          (Inr _, g1) \<Rightarrow> g1
        | (Inl e, g1) \<Rightarrow>
            snd (finalizer_recordFailure pf fz val (classified classifyPublicationFinalizerError e) g1)))"

definition Finalizer_RunOnce :: "platform \<Rightarrow> finalizer \<Rightarrow> generation_db \<Rightarrow> go_error option \<times> generation_db" where
  "Finalizer_RunOnce pf fz g = (case PendingGenerationPublicationFinalizations pf (pz_now fz) g of
     Inl e \<Rightarrow> (Some (Wrap ''list pending generation publications'' e), g)
   | Inr pending \<Rightarrow> (None, foldl (\<lambda>g val. finalize_publication pf fz val g) g pending))"

end
