(* ===== verification/FinalizerFacts.thy ===== *)
theory FinalizerFacts
  imports PublicationFinalizer GenerationClaims
begin

section \<open>What a pass of the publication finalizer does\<close>

text \<open>
  Every error that the finalizer records is typed, so it always has a diagnostic; the passes therefore
  leave no due publication as it was. The last part is about the errors that are taken for deterministic.
\<close>

subsection \<open>Every recorded error is typed\<close>

lemma category_wrap [simp]:
  "Deterministic (Some e) = Some (PublicationFailure CategoryDeterministic e)"
  "Transient (Some e) = Some (PublicationFailure CategoryTransient e)"
  by (simp_all add: Deterministic_def Transient_def wrap_failure_def Category_Valid_def)

lemma category_valid_simps [simp]:
  "Category_Valid CategoryDeterministic" "Category_Valid CategoryTransient"
  by (simp_all add: Category_Valid_def)

lemma classify_typed:
  "\<exists>e'. classifyPublicationFinalizerError (Some e) = Some e' \<and> Category_Valid (category_in e')"
  by (simp add: classifyPublicationFinalizerError_def CategoryOf_def)

lemma classify_kept:
  "Category_Valid (category_in e) \<Longrightarrow> classifyPublicationFinalizerError (Some e) = Some e"
  by (simp add: classifyPublicationFinalizerError_def CategoryOf_def)

lemma diagnostic_of_typed:
  assumes "Category_Valid (category_in e)" "0 < now"
  shows "\<exists>d. NewDiagnostic (Some e) now = Inr d \<and> Diagnostic_Validate d = None \<and> dg_Category d = category_in e \<and>
    dg_LastAttemptedAt d = now \<and>
    dg_NextRetryAt d = (if category_in e = CategoryTransient then Some (now + seconds 5) else None)"
proof -
  have "now \<noteq> 0" "now + seconds 5 \<noteq> 0" using assms(2) by (simp_all add: seconds_def)
  then show ?thesis
    using sanitized_ok [of "Some e"] assms(1)
    by (auto simp: NewDiagnostic_def Let_def check_Inr Diagnostic_Validate_None Category_Valid_def CategoryOf_def
        RetryAt_def retryDelay_def)
qed

subsection \<open>One publication\<close>

text \<open>What a publication that was tried is afterwards.\<close>

definition tried_publication :: "platform \<Rightarrow> time \<Rightarrow> Workflow \<Rightarrow> bool" where
  "tried_publication pf now w \<longleftrightarrow>
     wf_State w = StatePublished \<or>
     wf_State w = StateFailed \<and> wf_FinalizerErrorCategory w = CategoryDeterministic \<or>
     wf_State w = StatePublishing \<and> wf_FinalizerErrorCategory w = CategoryTransient \<and>
       wf_FinalizerNextRetryAt w = Some (pf_ts pf (now + seconds 5))"

text \<open>A diagnostic of a workflow that is publishing is always recorded.\<close>

lemma record_moves:
  assumes "distinct (map wf_ID (g_workflows g))" "w \<in> set (g_workflows g)" "wf_State w = StatePublishing"
    "\<not> blank (wf_ID w)" "\<not> blank (wf_CandidateRevisionID w)" "Diagnostic_Validate d = None"
  shows "moved g w (record_failure pf d w) id
    (snd (RecordGenerationPublicationFinalizerFailure pf (wf_ID w) (wf_CandidateRevisionID w) d g))"
proof -
  let ?P = "\<lambda>v. wf_ID v = wf_ID w \<and> wf_CandidateRevisionID v = wf_CandidateRevisionID w \<and> wf_State v = StatePublishing"
  have P: "list_ex ?P (g_workflows g)" using assms(2,3) by (auto simp: list_ex_iff)
  have t: "fst (sql_update ?P (record_failure pf d) (g_workflows g)) =
      map (\<lambda>v. if wf_ID v = wf_ID w then record_failure pf d v else v) (g_workflows g)"
    using assms(1-3) by (intro sql_update_by_id) auto
  show ?thesis
    using assms(1,2,4-6) P
    unfolding RecordGenerationPublicationFinalizerFailure_def Let_def record_failure_def [symmetric] t
    by (intro moved_update_id) simp_all
qed

definition outcome :: "platform \<Rightarrow> finalizer \<Rightarrow> PublicationFinalization \<Rightarrow> Workflow \<Rightarrow> bool" where
  "outcome pf fz v w' \<longleftrightarrow> tried_publication pf (pz_now fz) w' \<and>
     (\<forall>e. materialize_candidate (pf_unicode pf) fz (fz_Candidate v) = Inl e \<and> category_in e = CategoryDeterministic
        \<longrightarrow> wf_State w' = StateFailed)"

lemma settled_by_failure:
  assumes "distinct (map wf_ID (g_workflows g))" "w \<in> set (g_workflows g)" "wf_State w = StatePublishing"
    "\<not> blank (wf_ID w)" "\<not> blank (wf_CandidateRevisionID w)" "0 < pz_now fz"
    "fz_Workflow v = w" "cr_ID (fz_Candidate v) = wf_CandidateRevisionID w"
    "classifyPublicationFinalizerError (Some e) = Some e'"
  shows "\<exists>w'. moved g w w' id (snd (finalizer_recordFailure pf fz v e g)) \<and> tried_publication pf (pz_now fz) w' \<and>
    (category_in e' = CategoryDeterministic \<longrightarrow> wf_State w' = StateFailed)"
proof -
  have typed: "Category_Valid (category_in e')" using classify_typed [of e] assms(9) by auto
  obtain d where d: "NewDiagnostic (Some e') (pz_now fz) = Inr d" "Diagnostic_Validate d = None"
    "dg_Category d = category_in e'" "dg_LastAttemptedAt d = pz_now fz"
    "dg_NextRetryAt d = (if category_in e' = CategoryTransient then Some (pz_now fz + seconds 5) else None)"
    using diagnostic_of_typed [OF typed assms(6)] by blast
  have "snd (finalizer_recordFailure pf fz v e g) =
      snd (RecordGenerationPublicationFinalizerFailure pf (wf_ID w) (wf_CandidateRevisionID w) d g)"
    by (simp add: finalizer_recordFailure_def assms(7-9) d(1) del: category_wrap)
  with record_moves [OF assms(1-5) d(2)]
  have "moved g w (record_failure pf d w) id (snd (finalizer_recordFailure pf fz v e g))" by simp
  moreover have "tried_publication pf (pz_now fz) (record_failure pf d w)"
    using typed d(3-5) by (auto simp: tried_publication_def record_failure_def Category_Valid_def)
  moreover have "category_in e' = CategoryDeterministic \<longrightarrow> wf_State (record_failure pf d w) = StateFailed"
    using d(3) by simp
  ultimately show ?thesis by blast
qed

lemma finalize_settles:
  assumes "distinct (map wf_ID (g_workflows g))" "w \<in> set (g_workflows g)" "wf_State w = StatePublishing"
    "\<not> blank (wf_ID w)" "\<not> blank (wf_CandidateRevisionID w)" "0 < pz_now fz"
    "fz_Workflow v = w" "cr_ID (fz_Candidate v) = wf_CandidateRevisionID w"
  shows "\<exists>w'. wf_ID w' = wf_ID w \<and> outcome pf fz v w' \<and>
    g_workflows (finalize_publication pf fz v g) = map (\<lambda>u. if wf_ID u = wf_ID w then w' else u) (g_workflows g)"
proof -
  have failed: ?thesis if "finalize_publication pf fz v g = snd (finalizer_recordFailure pf fz v e g)"
      "\<And>e'. materialize_candidate (pf_unicode pf) fz (fz_Candidate v) = Inl e' \<Longrightarrow> e = e'" for e
  proof -
    obtain e' where e': "classifyPublicationFinalizerError (Some e) = Some e'" using classify_typed [of e] by blast
    obtain w' where "moved g w w' id (snd (finalizer_recordFailure pf fz v e g))"
      "tried_publication pf (pz_now fz) w'" "category_in e' = CategoryDeterministic \<longrightarrow> wf_State w' = StateFailed"
      using settled_by_failure [OF assms(1-8) e'] by blast
    moreover have "e' = e" if "category_in e = CategoryDeterministic"
      using classify_kept [of e] e' that by simp
    ultimately show ?thesis using that by (intro exI [of _ w']) (auto simp: moved_def outcome_def)
  qed
  show ?thesis
  proof (cases "materialize_candidate (pf_unicode pf) fz (fz_Candidate v)")
    case (Inl e)
    then show ?thesis by (intro failed [of e]) (simp_all add: finalize_publication_def)
  next
    case (Inr entry)
    obtain res g1 where r: "FinalizeGenerationScenarioPublication pf (wf_ID w) (wf_CandidateRevisionID w)
        (se_ContentRevision entry) (se_Revision entry) (se_Type entry) (se_Tags entry) (pz_now fz) g = (res, g1)"
      by fastforce
    show ?thesis
    proof (cases res)
      case (Inl e)
      have "g1 = g" using r Inl by (simp add: FinalizeGenerationScenarioPublication_def tx_Inl)
      then show ?thesis
        using Inr Inl r by (intro failed) (simp_all add: finalize_publication_def assms(7,8))
    next
      case (Inr u)
      note Inr' = \<open>materialize_candidate _ _ _ = Inr entry\<close>
      have "finalize_publication pf fz v g = g1"
        using Inr' r Inr by (simp add: finalize_publication_def assms(7,8))
      moreover obtain x where "wf_ID x = wf_ID w" "moved g x (close_workflow pf (pz_now fz) x)
          (\<lambda>c. c \<lparr>cr_PublishedAt := Some (pf_ts pf (pz_now fz)), cr_UpdatedAt := pf_ts pf (pz_now fz)\<rparr>) g1"
        using finalize_effect [OF assms(1) r [unfolded Inr]] by blast
      ultimately show ?thesis
        by (intro exI [of _ "close_workflow pf (pz_now fz) x"]) (simp add: Inr' moved_def outcome_def tried_publication_def close_workflow_def)
    qed
  qed
qed

subsection \<open>A pass\<close>

definition pass_result ::
  "platform \<Rightarrow> finalizer \<Rightarrow> PublicationFinalization list \<Rightarrow> Workflow list \<Rightarrow> Workflow list \<Rightarrow> bool"
where
  "pass_result pf fz vs = list_all2 (\<lambda>w w'. wf_ID w' = wf_ID w \<and>
     (\<forall>v\<in>set vs. fz_Workflow v = w \<longrightarrow> outcome pf fz v w') \<and> (w \<notin> fz_Workflow ` set vs \<longrightarrow> w' = w))"

lemma publications_settle:
  assumes "distinct (map wf_ID (g_workflows g))" "distinct (map (wf_ID \<circ> fz_Workflow) vs)" "0 < pz_now fz"
    "\<And>v. v \<in> set vs \<Longrightarrow> fz_Workflow v \<in> set (g_workflows g) \<and> wf_State (fz_Workflow v) = StatePublishing \<and>
       \<not> blank (wf_ID (fz_Workflow v)) \<and> \<not> blank (cr_ID (fz_Candidate v)) \<and>
       wf_CandidateRevisionID (fz_Workflow v) = cr_ID (fz_Candidate v)"
  shows "pass_result pf fz vs (g_workflows g) (g_workflows (foldl (\<lambda>g val. finalize_publication pf fz val g) g vs))"
  using assms
proof (induction vs arbitrary: g)
  case Nil
  then show ?case by (simp add: list.rel_refl pass_result_def)
next
  case (Cons v vs)
  let ?w = "fz_Workflow v" and ?g = "finalize_publication pf fz v g"
  have v: "?w \<in> set (g_workflows g)" "wf_State ?w = StatePublishing" "\<not> blank (wf_ID ?w)"
    "\<not> blank (wf_CandidateRevisionID ?w)" "cr_ID (fz_Candidate v) = wf_CandidateRevisionID ?w"
    using Cons.prems(4) [of v] by auto
  obtain w' where w': "wf_ID w' = wf_ID ?w" "outcome pf fz v w'"
    "g_workflows ?g = map (\<lambda>u. if wf_ID u = wf_ID ?w then w' else u) (g_workflows g)"
    using finalize_settles [OF Cons.prems(1) v(1-4) Cons.prems(3) refl v(5)] by blast
  have ids: "map wf_ID (g_workflows ?g) = map wf_ID (g_workflows g)" using w'(1) by (simp add: w'(3))
  have apart: "wf_ID (fz_Workflow u) \<noteq> wf_ID ?w" if "u \<in> set vs" for u
    using Cons.prems(2) that by (auto simp: image_iff)
  have rest: "fz_Workflow u \<in> set (g_workflows ?g)" if "u \<in> set vs" for u
    using Cons.prems(4) [of u] apart [OF that] that by (auto simp: w'(3) image_iff intro!: bexI [of _ "fz_Workflow u"])
  have ih: "pass_result pf fz vs (g_workflows ?g) (g_workflows (foldl (\<lambda>g val. finalize_publication pf fz val g) ?g vs))"
    using Cons.prems rest by (intro Cons.IH) (simp_all add: ids)
  have step: "w = ?w" if "w \<in> set (g_workflows g)" "wf_ID w = wf_ID ?w" for w
    using same_workflow [OF Cons.prems(1) that(1) v(1) that(2)] .
  have fresh: "w' \<notin> fz_Workflow ` set vs" "?w \<notin> fz_Workflow ` set vs" using apart w'(1) by force+
  show ?case
    using ih fresh w'(1,2) step unfolding w'(3) pass_result_def list.rel_map foldl_Cons
    by (auto dest: apart elim!: list.rel_mono_strong split: if_split_asm)
qed

lemma distinct_map_sort_by: "distinct (map f (sort_by le xs)) = distinct (map f xs)"
proof -
  have "distinct (map f (insert_by le x ys)) = (f x \<notin> f ` set ys \<and> distinct (map f ys))"
    "f ` set (insert_by le x ys) = insert (f x) (f ` set ys)" for x ys
    by (induction ys) auto
  moreover have "f ` set (foldr (insert_by le) xs []) = f ` set xs"
    using set_sort_by [of le xs] by (simp add: sort_by_def)
  ultimately show ?thesis
    by (induction xs) (simp_all add: sort_by_def image_iff, metis set_sort_by sort_by_def)
qed

definition trimmed_ids :: "generation_db \<Rightarrow> bool" where
  "trimmed_ids g \<longleftrightarrow> list_all (\<lambda>c. trim (cr_ID c) = cr_ID c) (g_candidates g)"

lemma due_publication:
  assumes "generation_ok pf g" "trimmed_ids g" "w \<in> set (g_workflows g)" "wf_State w = StatePublishing"
  shows "\<exists>c. scanGenerationWorkflow (Some w) = Inr w \<and> GetCandidateRevision g (wf_CandidateRevisionID w) = Inr c \<and>
    cr_ID c = wf_CandidateRevisionID w \<and> candidate_row (wf_CandidateRevisionID w) g = Some c \<and>
    \<not> blank (wf_ID w) \<and> \<not> blank (wf_CandidateRevisionID w)"
proof -
  have "1 \<le> stage (wf_State w)" using assms(4) by simp
  then obtain c where c: "c \<in> set (g_candidates g)" "cr_ID c = wf_CandidateRevisionID w"
    "candidate_row (wf_CandidateRevisionID w) g = Some c"
    using candidate_of [OF assms(1,3)] by metis
  have "workflow_ok pf g w" using assms(1,3) by (simp add: generation_ok_def)
  then have "Workflow_Valid w" "wf_CandidateRevisionID w \<noteq> []" using assms(4) by (simp_all add: workflow_ok_def)
  moreover have "trim (wf_CandidateRevisionID w) = wf_CandidateRevisionID w"
    using assms(2) c(1,2) by (auto simp: trimmed_ids_def list_all_iff)
  ultimately show ?thesis
    using c(2,3) by (auto simp: scanGenerationWorkflow_Inr GetCandidateRevision_def found_Inr Workflow_Valid_iff blank_def)
qed

lemma pending_publications:
  assumes "generation_ok pf g" "trimmed_ids g"
  shows "\<exists>vs. PendingGenerationPublicationFinalizations pf now g = Inr vs \<and>
    map fz_Workflow vs = sort_by (oldest_first pf) (filter (finalizer_due pf now) (g_workflows g)) \<and>
    list_all (\<lambda>v. candidate_row (wf_CandidateRevisionID (fz_Workflow v)) g = Some (fz_Candidate v)) vs"
proof -
  let ?f = "\<lambda>row. and_then (scanGenerationWorkflow (Some row)) (\<lambda>w.
        and_then (GetCandidateRevision g (wf_CandidateRevisionID w)) (\<lambda>c. Inr \<lparr>fz_Workflow = w, fz_Candidate = c\<rparr>))"
  have "\<exists>vs. scan_all ?f rows = Inr vs \<and> map fz_Workflow vs = rows \<and>
      list_all (\<lambda>v. candidate_row (wf_CandidateRevisionID (fz_Workflow v)) g = Some (fz_Candidate v)) vs"
    if "set rows \<subseteq> set (filter (finalizer_due pf now) (g_workflows g))" for rows
    using that
  proof (induction rows)
    case (Cons w rows)
    then obtain vs where "scan_all ?f rows = Inr vs" "map fz_Workflow vs = rows"
      "list_all (\<lambda>v. candidate_row (wf_CandidateRevisionID (fz_Workflow v)) g = Some (fz_Candidate v)) vs"
      by auto
    moreover have "w \<in> set (g_workflows g)" "wf_State w = StatePublishing"
      using Cons.prems by (auto simp: finalizer_due_def)
    from due_publication [OF assms this] obtain c where "?f w = Inr \<lparr>fz_Workflow = w, fz_Candidate = c\<rparr>"
      "candidate_row (wf_CandidateRevisionID w) g = Some c" by auto
    ultimately show ?case by (intro exI [of _ "\<lparr>fz_Workflow = w, fz_Candidate = c\<rparr> # vs"]) simp
  qed simp
  then show ?thesis unfolding PendingGenerationPublicationFinalizations_def by simp
qed

lemma pass_outcomes:
  assumes "generation_ok pf g" "trimmed_ids g" "0 < pz_now fz" "Finalizer_RunOnce pf fz g = (res, g')"
  obtains vs where "res = None" "fz_Workflow ` set vs = {w \<in> set (g_workflows g). finalizer_due pf (pz_now fz) w}"
    "list_all (\<lambda>v. candidate_row (wf_CandidateRevisionID (fz_Workflow v)) g = Some (fz_Candidate v)) vs"
    "pass_result pf fz vs (g_workflows g) (g_workflows g')"
proof -
  obtain vs where vs: "PendingGenerationPublicationFinalizations pf (pz_now fz) g = Inr vs"
    "map fz_Workflow vs = sort_by (oldest_first pf) (filter (finalizer_due pf (pz_now fz)) (g_workflows g))"
    "list_all (\<lambda>v. candidate_row (wf_CandidateRevisionID (fz_Workflow v)) g = Some (fz_Candidate v)) vs"
    using pending_publications [OF assms(1,2)] by blast
  have g': "res = None" "g' = foldl (\<lambda>g val. finalize_publication pf fz val g) g vs"
    using assms(4) by (simp_all add: Finalizer_RunOnce_def vs(1))
  have due: "fz_Workflow ` set vs = {w \<in> set (g_workflows g). finalizer_due pf (pz_now fz) w}"
    using arg_cong [OF vs(2), of set] by auto
  have "distinct (map wf_ID (map fz_Workflow vs))"
    unfolding vs(2) using generation_ok_distinct [OF assms(1)] by (simp add: distinct_map_sort_by distinct_map_filter)
  then have apart: "distinct (map (wf_ID \<circ> fz_Workflow) vs)" by simp
  have each: "fz_Workflow v \<in> set (g_workflows g) \<and> wf_State (fz_Workflow v) = StatePublishing \<and>
       \<not> blank (wf_ID (fz_Workflow v)) \<and> \<not> blank (cr_ID (fz_Candidate v)) \<and>
       wf_CandidateRevisionID (fz_Workflow v) = cr_ID (fz_Candidate v)" if v: "v \<in> set vs" for v
  proof -
    have w: "fz_Workflow v \<in> set (g_workflows g)" "wf_State (fz_Workflow v) = StatePublishing"
      using due v by (auto simp: finalizer_due_def)
    then show ?thesis using due_publication [OF assms(1,2) w] vs(3) v by (auto simp: list_all_iff)
  qed
  have "pass_result pf fz vs (g_workflows g) (g_workflows g')"
    using publications_settle [OF generation_ok_distinct [OF assms(1)] apart assms(3) each, of pf] by (simp add: g'(2))
  then show thesis by (rule that [OF g'(1) due vs(3)])
qed

text \<open>
  C6 One pass settles every publication that is due: after \<open>RunOnce\<close>, which reports no error, each
  workflow whose publication was due is Published, or Failed by a deterministic diagnostic, or still
  Publishing with a retry five seconds later; no failure stops the pass, and every other workflow is as
  it was. This holds for whatever the archives, the directories and the revisions answer.
\<close>

theorem publication_pass_settles:
  assumes "generation_ok pf g" "trimmed_ids g" "0 < pz_now fz" "Finalizer_RunOnce pf fz g = (res, g')"
  shows "res = None \<and> list_all2 (\<lambda>w w'. wf_ID w' = wf_ID w \<and>
      (if finalizer_due pf (pz_now fz) w then tried_publication pf (pz_now fz) w' else w' = w)) (g_workflows g) (g_workflows g')"
proof -
  obtain vs where vs: "res = None" "fz_Workflow ` set vs = {w \<in> set (g_workflows g). finalizer_due pf (pz_now fz) w}"
    "list_all (\<lambda>v. candidate_row (wf_CandidateRevisionID (fz_Workflow v)) g = Some (fz_Candidate v)) vs"
    and pass: "pass_result pf fz vs (g_workflows g) (g_workflows g')"
    by (rule pass_outcomes [OF assms])
  have "wf_ID w' = wf_ID w \<and> (if finalizer_due pf (pz_now fz) w then tried_publication pf (pz_now fz) w' else w' = w)"
    if "w \<in> set (g_workflows g)" "wf_ID w' = wf_ID w \<and> (\<forall>v\<in>set vs. fz_Workflow v = w \<longrightarrow> outcome pf fz v w') \<and>
      (w \<notin> fz_Workflow ` set vs \<longrightarrow> w' = w)" for w w'
  proof (cases "finalizer_due pf (pz_now fz) w")
    case True
    then have "w \<in> fz_Workflow ` set vs" using that(1) by (simp add: vs(2))
    then obtain v where "v \<in> set vs" "fz_Workflow v = w" by blast
    then show ?thesis using that(2) True by (simp add: outcome_def)
  next
    case False
    then have "w \<notin> fz_Workflow ` set vs" by (simp add: vs(2))
    then show ?thesis using that(2) False by simp
  qed
  note each = this
  show ?thesis
    by (rule conjI [OF vs(1)], rule list.rel_mono_strong [OF pass [unfolded pass_result_def]], rule each)
qed

text \<open>
  C23 An outage fails a publication for good. While a due publication is materialized, an error of reading
  its runnable revision that carries no category of its own and is not one of the file system, a lost
  connection for example, makes the pass fail the workflow, although its candidate was built, verified
  and confirmed. (Errors of the repository in the transaction that finalizes are classified elsewhere,
  and count as transient.)
\<close>

theorem outage_fails_publication:
  assumes "generation_ok pf g" "trimmed_ids g" "0 < pz_now fz" "Finalizer_RunOnce pf fz g = (res, g')"
    "w \<in> set (g_workflows g)" "finalizer_due pf (pz_now fz) w"
    "candidate_row (wf_CandidateRevisionID w) g = Some c" "cr_RunnableRevisionRef c = Some revision"
    "pz_resolve fz (ref_ID revision) (ref_Digest revision) = Inl e"
    "\<not> Category_Valid (category_in e)" "\<not> is_path_error e"
  shows "\<exists>w'\<in>set (g_workflows g'). wf_ID w' = wf_ID w \<and> wf_State w' = StateFailed"
proof -
  obtain vs where res: "res = None" and vs: "fz_Workflow ` set vs = {w \<in> set (g_workflows g). finalizer_due pf (pz_now fz) w}"
    "list_all (\<lambda>v. candidate_row (wf_CandidateRevisionID (fz_Workflow v)) g = Some (fz_Candidate v)) vs"
    and pass: "pass_result pf fz vs (g_workflows g) (g_workflows g')"
    by (rule pass_outcomes [OF assms(1-4)])
  have "w \<in> fz_Workflow ` set vs" using assms(5,6) by (simp add: vs(1))
  then obtain v where v: "v \<in> set vs" "fz_Workflow v = w" by blast
  have "fz_Candidate v = c" using vs(2) v assms(7) by (auto simp: list_all_iff)
  moreover have "workflow_ok pf g w" "wf_State w = StatePublishing"
    using assms(1,5,6) by (simp_all add: generation_ok_def finalizer_due_def)
  then have "stage_ok pf g w c" using candidate_row_in [OF assms(7)] by (auto simp: workflow_ok_def)
  then have "passed g c" "intended pf c" using \<open>wf_State w = StatePublishing\<close> by (simp_all add: stage_ok_def)
  then obtain report intent where "cr_VerificationReportRef c = Some report" "cr_Publication c = Some intent"
    "Publication_ValidateIntent (pf_unicode pf) intent = None"
    by (auto simp: passed_def intended_def split: option.split_asm)
  ultimately have "materialize_candidate (pf_unicode pf) fz (fz_Candidate v) = Inl (classified publicationFailure e)"
    using assms(8,9) by (simp add: materialize_candidate_def failing_with_def)
  moreover have "category_in (classified publicationFailure e) = CategoryDeterministic"
    using assms(10,11) by (simp add: classified_def publicationFailure_def CategoryOf_def)
  ultimately have failed: "outcome pf fz v w' \<Longrightarrow> wf_State w' = StateFailed" for w' by (simp add: outcome_def)
  obtain i where i: "i < length (g_workflows g)" "g_workflows g ! i = w" using assms(5) by (auto simp: in_set_conv_nth)
  note nth = list_all2_nthD [OF pass [unfolded pass_result_def] i(1), unfolded i(2)]
  have "i < length (g_workflows g')" using pass i(1) by (simp add: pass_result_def list_all2_lengthD)
  then have "g_workflows g' ! i \<in> set (g_workflows g')" by simp
  moreover have "outcome pf fz v (g_workflows g' ! i)" using nth v by simp
  ultimately show ?thesis using failed nth by blast
qed

subsection \<open>A finalizer without a database\<close>

definition example_finalizer :: finalizer where
  "example_finalizer = \<lparr>pz_resolve = (\<lambda>_ _. Inl (Msg ''driver: bad connection'')), pz_files = (\<lambda>_. Inl (PathError ''gone'')),
     pz_mkdir = None, pz_extract = (\<lambda>_. None), pz_validate = (\<lambda>_. Inl (Msg ''bad'')), pz_revision = (\<lambda>_. Inr zero_digest),
     pz_promote = (\<lambda>_ _ _ _. Inl (Msg ''bad'')), pz_lstat = (\<lambda>_ _. Inr None), pz_validateDir = (\<lambda>_ _. Inl (Msg ''bad'')),
     pz_materialize = (\<lambda>_ _. Inl (Msg ''bad'')), pz_now = seconds 10\<rparr>"

lemma example_finalizer_due:
  "trimmed_ids (example_generation StatePublishing)" "0 < pz_now example_finalizer"
  "finalizer_due example_platform (pz_now example_finalizer) (example_workflow StatePublishing)"
  "candidate_row ''c1'' (example_generation StatePublishing) = Some example_candidate"
  "g_workflows (example_generation StatePublishing) = [example_workflow StatePublishing]"
proof -
  have "trim ''c1'' = ''c1''" by code_simp
  then show "trimmed_ids (example_generation StatePublishing)"
    by (simp add: trimmed_ids_def example_generation_def example_candidate_def)
qed (simp_all add: example_finalizer_def seconds_def finalizer_due_def example_workflow_def candidate_row_def
    example_generation_def sql_row_def example_candidate_def)

lemma publication_pass_settles_witness:
  "fst (Finalizer_RunOnce example_platform example_finalizer (example_generation StatePublishing)) = None \<and>
   list_all (tried_publication example_platform (seconds 10))
     (g_workflows (snd (Finalizer_RunOnce example_platform example_finalizer (example_generation StatePublishing))))"
  using publication_pass_settles [OF example_generation_ok [of StatePublishing] example_finalizer_due(1,2)
      prod.collapse [symmetric]] example_finalizer_due(3)
  by (auto simp: example_finalizer_due(5) list_all2_Cons1 example_finalizer_def)

lemma outage_fails_publication_witness:
  "list_ex (\<lambda>w. wf_ID w = ''w1'' \<and> wf_State w = StateFailed)
     (g_workflows (snd (Finalizer_RunOnce example_platform example_finalizer (example_generation StatePublishing))))"
  using outage_fails_publication [OF example_generation_ok [of StatePublishing] example_finalizer_due(1,2)
      prod.collapse [symmetric], of "example_workflow StatePublishing" example_candidate
      "\<lparr>ref_ID = ''runnable-1'', ref_Digest = zero_digest\<rparr>" "Msg ''driver: bad connection''"] example_finalizer_due(3,4)
  by (auto simp: example_finalizer_due(5) example_workflow_def example_candidate_def example_finalizer_def list_ex_iff
      Category_Valid_def)

end
