(* ===== verification/JudgeConcurrency.thy ===== *)
theory JudgeConcurrency
  imports JudgeRunner GenerationClaims
begin

section \<open>What runs beside the judge\<close>

text \<open>
  Between two calls of the judge's runner any number of other transactions may run, of this server and
  of others: every method of the generation repository that writes workflows, candidates, receipts or
  runs, the worker's repository, new runs of other agents, and changes of the other tables. However they
  interleave, the attempts of a run never fall, and what they do are steps of the repository.
\<close>

subsection \<open>The calls of other processes\<close>

datatype concurrent_op =
    OpClaim "string list" string string duration time
  | OpRenew Claim duration time
  | OpStart Claim CreateRun time
  | OpRetry Claim string string time
  | OpInterrupt string time
  | OpJudgement Claim string bool string time
  | OpArtifactFailure Claim WorkflowState Failure time
  | OpCancel string string Cancellation time
  | OpCreate string string string StartConfirmation time
  | OpSubmit string string CandidateSubmission Candidate time
  | OpFailRunnable string string time
  | OpMaterialized string RevisionReference time
  | OpVerified string VerificationReportReference time
  | OpConfirm string string string string ContentConfirmation PublicationMetadata time
  | OpChanges string string ContentChangeRequest time
  | OpRecordFailure string string Diagnostic
  | OpFinalize string string string string ScenarioType "string list" time
  | OpPublishSnapshot string string string time
  | OpClearSnapshot string string time
  | OpAgentRun CreateRun time
  | OpWorker "store \<Rightarrow> store"
  | OpElsewhere generation_db

text \<open>
  \<open>OpAgentRun\<close> is the run of an agent of another purpose, \<open>OpWorker\<close> anything that the worker's
  repository does, and \<open>OpElsewhere\<close> a transaction on the tables that the judge does not use, here by the
  tables it ends with.
\<close>

fun concurrent :: "platform \<Rightarrow> concurrent_op \<Rightarrow> generation_db \<Rightarrow> generation_db" where
  "concurrent pf (OpClaim locked newID server ttl now) g = snd (ClaimGenerationAgentWorkflow pf locked newID server ttl now g)"
| "concurrent pf (OpRenew claim ttl now) g = snd (RenewGenerationLease pf claim ttl now g)"
| "concurrent pf (OpStart claim input now) g = snd (StartGenerationAgentRun pf claim input now g)"
| "concurrent pf (OpRetry claim i msg now) g = snd (RetryGenerationAgentRun pf claim i msg now g)"
| "concurrent pf (OpInterrupt reason now) g = snd (InterruptActiveGenerationAgentRuns pf reason now g)"
| "concurrent pf (OpJudgement claim i approved feedback now) g =
     snd (FinalizeGenerationJudgement pf claim i approved feedback now g)"
| "concurrent pf (OpArtifactFailure claim expected failure now) g =
     snd (ReportGenerationArtifactFailure pf claim expected failure now g)"
| "concurrent pf (OpCancel session user cancellation now) g =
     snd (CancelGenerationWorkflow pf session user cancellation now g)"
| "concurrent pf (OpCreate newID session user confirmation now) g =
     snd (CreateGenerationWorkflow pf newID session user confirmation now g)"
| "concurrent pf (OpSubmit session user submission revision now) g =
     snd (SubmitGenerationCandidate pf session user submission revision now g)"
| "concurrent pf (OpFailRunnable i msg now) g = snd (FailRunnableGenerationWorkflow pf i msg now g)"
| "concurrent pf (OpMaterialized i reference now) g = snd (MarkGenerationCandidateMaterialized pf i reference now g)"
| "concurrent pf (OpVerified i report now) g = snd (MarkGenerationCandidateVerified pf i report now g)"
| "concurrent pf (OpConfirm newID newRevision session user confirmation metadata now) g =
     snd (ConfirmGenerationContent pf newID newRevision session user confirmation metadata now g)"
| "concurrent pf (OpChanges session user changes now) g =
     snd (RequestGenerationContentChanges pf session user changes now g)"
| "concurrent pf (OpRecordFailure i k d) g = snd (RecordGenerationPublicationFinalizerFailure pf i k d g)"
| "concurrent pf (OpFinalize i k contentRevision materializedRevision ty tags now) g =
     snd (FinalizeGenerationScenarioPublication pf i k contentRevision materializedRevision ty tags now g)"
| "concurrent pf (OpPublishSnapshot i holder digest now) g =
     snd (PublishGeneratorWorkspaceSnapshot pf i holder digest now g)"
| "concurrent pf (OpClearSnapshot i digest now) g = snd (ClearGeneratorWorkspaceSnapshot pf i digest now g)"
| "concurrent pf (OpAgentRun input now) g = (case createRunTx pf input now g of Inl _ \<Rightarrow> g | Inr (_, g') \<Rightarrow> g')"
| "concurrent pf (OpWorker f) g = g \<lparr>g_runnable := f (g_runnable g)\<rparr>"
| "concurrent pf (OpElsewhere h) g = g \<lparr>g_agent_sessions := g_agent_sessions h, g_workspaces := g_workspaces h,
     g_sessions := g_sessions h, g_plans := g_plans h, g_scenarios := g_scenarios h, g_revisions := g_revisions h\<rparr>"

text \<open>Any number of them, in order.\<close>

definition meanwhile :: "platform \<Rightarrow> concurrent_op list \<Rightarrow> generation_db \<Rightarrow> generation_db" where
  "meanwhile pf ops g = foldl (\<lambda>g op. concurrent pf op g) g ops"

lemma meanwhile_simps [simp]:
  "meanwhile pf [] g = g" "meanwhile pf (op # ops) g = meanwhile pf ops (concurrent pf op g)"
  by (simp_all add: meanwhile_def)

subsection \<open>Attempts of a run never fall\<close>

definition attempts_made :: "string \<Rightarrow> generation_db \<Rightarrow> int" where
  "attempts_made i g = (case run_row i g of None \<Rightarrow> 0 | Some run \<Rightarrow> ag_Attempt run)"

definition attempts_grow :: "generation_db \<Rightarrow> generation_db \<Rightarrow> bool" where
  "attempts_grow g g' \<longleftrightarrow> (\<forall>i. attempts_made i g \<le> attempts_made i g')"

lemma attempts_grow_refl [simp]: "attempts_grow g g"
  by (simp add: attempts_grow_def)

lemma attempts_grow_trans: "attempts_grow g g' \<Longrightarrow> attempts_grow g' g'' \<Longrightarrow> attempts_grow g g''"
  unfolding attempts_grow_def by (blast intro: order_trans)

lemma attempts_same_runs: "g_runs g' = g_runs g \<Longrightarrow> attempts_grow g g'"
  by (simp add: attempts_grow_def attempts_made_def run_row_def)

lemma attempts_update_running:
  assumes "\<And>r. ag_ID (f r) = ag_ID r \<and> ag_Attempt r \<le> ag_Attempt (f r)"
  shows "attempts_grow g (update_running i f g)"
proof -
  have "run_row k (update_running i f g) =
      map_option (\<lambda>r. if ag_ID r = i \<and> ag_Status r = RunRunning then f r else r) (run_row k g)" for k
    using assms by (simp add: run_row_def update_running_def sql_row_update)
  then show ?thesis
    using assms by (auto simp: attempts_grow_def attempts_made_def split: option.split)
qed

lemma attempts_running_runs:
  assumes "g_runs g' = g_runs (update_running i f g)" "\<And>r. ag_ID (f r) = ag_ID r \<and> ag_Attempt r \<le> ag_Attempt (f r)"
  shows "attempts_grow g g'"
  using attempts_grow_trans [OF attempts_update_running [OF assms(2)] attempts_same_runs [OF assms(1)]] .

lemma finish_next_run [simp]:
  "ag_ID (finish_run pf status e now r) = ag_ID r" "ag_Attempt (finish_run pf status e now r) = ag_Attempt r"
  "ag_ID (next_attempt pf msg now r) = ag_ID r" "ag_Attempt (next_attempt pf msg now r) = ag_Attempt r + 1"
  by (simp_all add: finish_run_def next_attempt_def)

lemma attempts_create:
  assumes "createRunTx pf input now g = Inr (run, g')"
  shows "attempts_grow g g' \<and> 1 \<le> attempts_made (ag_ID run) g'"
proof -
  have c: "run = new_run pf input now" "g_runs g' = g_runs g @ [run]" "nr_ID input \<notin> ag_ID ` set (g_runs g)"
    using assms by (auto simp: createRunTx_def split: if_splits)
  have "ag_Attempt run = 1" "ag_ID run = nr_ID input" by (simp_all add: c(1) new_run_def)
  then show ?thesis
    using c(3) sql_row_None [of ag_ID "nr_ID input" "g_runs g"]
    by (auto simp: attempts_grow_def attempts_made_def run_row_def c(2) sql_row_append split: option.split)
qed

lemma grow_tx: "(\<And>v g'. res = Inr (v, g') \<Longrightarrow> attempts_grow g g') \<Longrightarrow> attempts_grow g (snd (tx g res))"
  using tx_cases [of g res] by (metis attempts_grow_refl)

lemma start_grows:
  assumes "StartGenerationAgentRun pf claim input now g = (Inr run, g')"
  shows "attempts_grow g g' \<and> 1 \<le> attempts_made (ag_ID run) g'"
proof -
  obtain w where w: "lockGenerationAgentClaimTx pf g claim now = Inr w"
    using assms by (auto simp: StartGenerationAgentRun_def tx_Inr and_then_Inr_iff split: if_split_asm)
  define g1 where "g1 = (if wf_ActiveAgentRunID w \<noteq> []
      then update_running (wf_ActiveAgentRunID w) (finish_run pf RunInterrupted ''generation agent lease replaced'' now) g
      else g)"
  obtain g2 where g: "createRunTx pf input now g1 = Inr (run, g2)" "g_runs g' = g_runs g2"
    using assms w by (auto simp: StartGenerationAgentRun_def tx_Inr and_then_Inr_iff Let_def g1_def [symmetric]
        split: if_split_asm)
  have "attempts_grow g g1" by (simp add: g1_def attempts_update_running)
  moreover have "attempts_made i g' = attempts_made i g2" for i by (simp add: attempts_made_def run_row_def g(2))
  ultimately show ?thesis using attempts_create [OF g(1)] by (auto simp: attempts_grow_def intro: order_trans)
qed

lemma retry_grows:
  assumes "RetryGenerationAgentRun pf claim i msg now g = (Inr next, g')"
  shows "attempts_grow g g' \<and> (\<forall>again. next = Some again \<longrightarrow>
    ag_ID again = i \<and> attempts_made i g < MaxAttempts \<and> attempts_made i g < attempts_made i g')"
proof -
  obtain w run where w: "lockGenerationAgentClaimTx pf g claim now = Inr w" "wf_ActiveAgentRunID w = i" "run_row i g = Some run"
    using assms by (auto simp: RetryGenerationAgentRun_def tx_Inr and_then_Inr_iff found_Inr split: if_split_asm)
  show ?thesis
  proof (cases "ag_Attempt run < MaxAttempts \<and> now < ag_DeadlineAt run")
    case True
    then have g': "g' = update_running i (next_attempt pf msg now) g" "next = run_row i g'" "ag_Status run = RunRunning"
      using assms w by (auto simp: RetryGenerationAgentRun_def tx_Inr found_def Let_def split: if_split_asm)
    have id: "ag_ID run = i" using w(3) by (auto simp: run_row_def dest: sql_row_Some)
    then have "next = Some (next_attempt pf msg now run)"
      using w(3) g' by (simp add: run_row_def update_running_def sql_row_update)
    then show ?thesis
      using w(3) True g' id by (auto simp: g'(1) attempts_update_running attempts_made_def)
  next
    case False
    then have "next = None" "g_runs g' = g_runs (update_running i (finish_run pf RunFailed (trim msg) now) g)"
      using assms w by (auto simp: RetryGenerationAgentRun_def tx_Inr found_def simp del: not_less split: if_split_asm)
    then show ?thesis by (auto intro!: attempts_running_runs)
  qed
qed

lemma judgement_grows: "attempts_grow g (snd (FinalizeGenerationJudgement pf claim i approved feedback now g))"
  unfolding FinalizeGenerationJudgement_def
proof (rule grow_tx, goal_cases)
  case (1 v g')
  then obtain g1 where "completeRunTx pf i now g = Inr g1" "g_runs g' = g_runs g1"
    by (auto simp: and_then_Inr_iff split: if_split_asm)
  then show ?case by (auto simp: completeRunTx_def Let_def intro!: attempts_running_runs split: if_split_asm)
qed

lemma claim_runs: "attempts_grow g (snd (ClaimGenerationAgentWorkflow pf locked newID server ttl now g))"
  unfolding ClaimGenerationAgentWorkflow_def Let_def
  by (rule grow_tx) (auto simp: and_then_Inr_iff intro!: attempts_same_runs split: if_split_asm option.split_asm)

lemma renew_runs: "attempts_grow g (snd (RenewGenerationLease pf claim ttl now g))"
  by (auto simp: RenewGenerationLease_def case_prod_unfold Let_def intro!: attempts_same_runs)

lemma report_runs: "attempts_grow g (snd (ReportGenerationArtifactFailure pf claim expected failure now g))"
  unfolding ReportGenerationArtifactFailure_def
  by (rule grow_tx) (auto simp: and_then_Inr_iff intro!: attempts_same_runs split: if_split_asm)

lemma cancel_runs: "attempts_grow g (snd (CancelGenerationWorkflow pf session user cancellation now g))"
proof (cases "CancelGenerationWorkflow pf session user cancellation now g")
  case (Pair res g')
  let ?d = "generationActionRequestDigest pf ActionCancelGeneration (RequestCancel cancellation)"
  have "g_runs g' = g_runs g"
  proof (cases res)
    case (Inl e)
    then show ?thesis using Pair by (simp add: CancelGenerationWorkflow_def tx_Inl)
  next
    case (Inr v)
    obtain receipt where receipt: "generationActionReceiptTx g session ActionCancelGeneration (can_IdempotencyKey cancellation) ?d = Inr receipt"
      using Pair Inr by (auto simp: CancelGenerationWorkflow_def tx_Inr Let_def check_Inr and_then_Inr_iff split: if_splits)
    show ?thesis
    proof (cases receipt)
      case None
      then show ?thesis
        using Pair Inr receipt
        by (auto simp: CancelGenerationWorkflow_def tx_Inr Let_def check_Inr and_then_Inr_iff
            insertGenerationActionReceiptTx_def split: if_split_asm)
    next
      case (Some r)
      then show ?thesis
        using Pair Inr receipt
        by (auto simp: CancelGenerationWorkflow_def tx_Inr Let_def check_Inr and_then_Inr_iff split: if_split_asm)
    qed
  qed
  then show ?thesis by (simp add: Pair attempts_same_runs)
qed

lemma interrupt_runs: "attempts_grow g (snd (InterruptActiveGenerationAgentRuns pf reason now g))"
proof -
  have "attempts_made i g \<le> attempts_made i (g \<lparr>g_runs := fst (sql_update P (finish_run pf RunInterrupted reason now) (g_runs g)),
      g_workflows := ws\<rparr>)" for i P ws
    by (auto simp: attempts_made_def run_row_def sql_row_update split: option.split)
  then show ?thesis by (simp add: InterruptActiveGenerationAgentRuns_def Let_def attempts_grow_def)
qed

text \<open>Transactions that leave the runs alone.\<close>

definition runs_kept :: "('a \<Rightarrow> generation_db) \<Rightarrow> generation_db \<Rightarrow> go_error + 'a \<Rightarrow> bool" where
  "runs_kept db g res \<longleftrightarrow> (\<forall>x. res = Inr x \<longrightarrow> g_runs (db x) = g_runs g)"

lemma runs_kept_intros:
  "runs_kept db g (Inl e)" "g_runs (db res) = g_runs g \<Longrightarrow> runs_kept db g (Inr res)"
  "(\<And>a. x = Inr a \<Longrightarrow> runs_kept db g (f a)) \<Longrightarrow> runs_kept db g (and_then x f)"
  "runs_kept db g k \<Longrightarrow> runs_kept db g (check problem k)"
  "(b \<Longrightarrow> runs_kept db g r) \<Longrightarrow> (\<not> b \<Longrightarrow> runs_kept db g s) \<Longrightarrow> runs_kept db g (if b then r else s)"
  "runs_kept db g n \<Longrightarrow> (\<And>a. runs_kept db g (h a)) \<Longrightarrow> runs_kept db g (case opt of None \<Rightarrow> n | Some a \<Rightarrow> h a)"
  by (auto simp: runs_kept_def and_then_Inr_iff check_Inr split: option.splits)

lemma runs_kept_tx: "runs_kept snd g res \<Longrightarrow> attempts_grow g (snd (tx g res))"
  by (rule grow_tx) (auto simp: runs_kept_def intro: attempts_same_runs)

lemma update_runs [simp]:
  "g_runs (update_workflow i f g) = g_runs g" "g_runs (update_candidate i h g) = g_runs g"
  "g_runs (update_workspace P q g) = g_runs g" "g_runs (show_candidate s n k now g) = g_runs g"
  "g_runs (close_publication pf w c publication now g) = g_runs g"
  by (simp_all add: update_workflow_def update_candidate_def update_workspace_def show_candidate_def
      close_publication_def Let_def)

lemma insert_runs:
  "insertGenerationActionReceiptTx r g = Inr g' \<Longrightarrow> g_runs g' = g_runs g"
  "insert_workflow pf w g = Inr g' \<Longrightarrow> g_runs g' = g_runs g"
  "insertCandidateRevisionTx pf c g = Inr g' \<Longrightarrow> g_runs g' = g_runs g"
  "insertPersistedScenarioTx pf s g = Inr g' \<Longrightarrow> g_runs g' = g_runs g"
  "insertPersistedScenarioRevisionTx pf v g = Inr g' \<Longrightarrow> g_runs g' = g_runs g"
  by (auto simp: insertGenerationActionReceiptTx_def insert_workflow_def insertCandidateRevisionTx_def
      insertPersistedScenarioTx_def insertPersistedScenarioRevisionTx_def Let_def check_Inr split: if_split_asm option.split_asm)

lemma publish_runs:
  "publish_first pf session w publication ty tags cr mr revision report now g = Inr g' \<Longrightarrow> g_runs g' = g_runs g"
  by (auto simp: publish_first_def Let_def and_then_Inr_iff dest!: insert_runs)

lemma revise_runs:
  "finalizeAuthoringRevisionTx pf session w c publication ty tags mr now g = Inr g' \<Longrightarrow> g_runs g' = g_runs g"
proof -
  have "runs_kept id g (finalizeAuthoringRevisionTx pf session w c publication ty tags mr now g)"
    unfolding finalizeAuthoringRevisionTx_def Let_def case_prod_unfold
    by (auto simp: supersede_def intro!: runs_kept_intros dest!: insert_runs)
  then show "finalizeAuthoringRevisionTx pf session w c publication ty tags mr now g = Inr g' \<Longrightarrow> g_runs g' = g_runs g"
    by (simp add: runs_kept_def)
qed

lemmas keeps_runs = runs_kept_intros insert_runs publish_runs revise_runs

lemma create_runs: "attempts_grow g (snd (CreateGenerationWorkflow pf newID session user confirmation now g))"
  unfolding CreateGenerationWorkflow_def Let_def
  by (rule runs_kept_tx) (auto intro!: runs_kept_intros dest!: insert_runs)

lemma submit_runs: "attempts_grow g (snd (SubmitGenerationCandidate pf session user submission revision now g))"
  unfolding SubmitGenerationCandidate_def Let_def
  by (rule runs_kept_tx) (auto intro!: runs_kept_intros dest!: insert_runs)

lemma fail_runs: "attempts_grow g (snd (FailRunnableGenerationWorkflow pf i msg now g))"
  by (auto simp: FailRunnableGenerationWorkflow_def case_prod_unfold Let_def intro!: attempts_same_runs)

lemma materialized_runs: "attempts_grow g (snd (MarkGenerationCandidateMaterialized pf i reference now g))"
  unfolding MarkGenerationCandidateMaterialized_def Let_def
  by (rule runs_kept_tx) (auto intro!: runs_kept_intros)

lemma verified_runs: "attempts_grow g (snd (MarkGenerationCandidateVerified pf i report now g))"
  unfolding MarkGenerationCandidateVerified_def Let_def
  by (rule runs_kept_tx) (auto intro!: runs_kept_intros)

lemma confirm_runs: "attempts_grow g (snd (ConfirmGenerationContent pf newID newRevision session user confirmation metadata now g))"
  unfolding ConfirmGenerationContent_def Let_def case_prod_conv prod.case
  by (rule runs_kept_tx) (auto intro!: runs_kept_intros dest!: insert_runs)

lemma changes_runs: "attempts_grow g (snd (RequestGenerationContentChanges pf session user changes now g))"
  unfolding RequestGenerationContentChanges_def Let_def
  by (rule runs_kept_tx) (auto intro!: runs_kept_intros dest!: insert_runs)

lemma record_failure_runs: "attempts_grow g (snd (RecordGenerationPublicationFinalizerFailure pf i k d g))"
  by (auto simp: RecordGenerationPublicationFinalizerFailure_def Let_def intro!: attempts_same_runs)

lemma finalize_runs:
  "attempts_grow g (snd (FinalizeGenerationScenarioPublication pf i k contentRevision materializedRevision ty tags now g))"
  unfolding FinalizeGenerationScenarioPublication_def prod.case
  by (rule runs_kept_tx) (auto intro!: runs_kept_intros dest!: publish_runs revise_runs split: if_split_asm)

lemma snapshot_runs:
  "attempts_grow g (snd (PublishGeneratorWorkspaceSnapshot pf i holder digest now g))"
  "attempts_grow g (snd (ClearGeneratorWorkspaceSnapshot pf i digest now g))"
  unfolding PublishGeneratorWorkspaceSnapshot_def ClearGeneratorWorkspaceSnapshot_def Let_def
  by (rule runs_kept_tx; auto intro!: runs_kept_intros)+

lemma agent_runs: "attempts_grow g (case createRunTx pf input now g of Inl _ \<Rightarrow> g | Inr (_, g') \<Rightarrow> g')"
  using attempts_create by (auto split: sum.split)

lemma start_runs: "attempts_grow g (snd (StartGenerationAgentRun pf claim input now g))"
  using start_grows [of pf claim input now g] tx_cases
  by (cases "StartGenerationAgentRun pf claim input now g" rule: prod.exhaust; cases "fst (StartGenerationAgentRun pf claim input now g)")
    (auto simp: StartGenerationAgentRun_def tx_Inl)

lemma retry_runs: "attempts_grow g (snd (RetryGenerationAgentRun pf claim i msg now g))"
  using retry_grows [of pf claim i msg now g]
  by (cases "RetryGenerationAgentRun pf claim i msg now g" rule: prod.exhaust; cases "fst (RetryGenerationAgentRun pf claim i msg now g)")
    (auto simp: RetryGenerationAgentRun_def tx_Inl)

lemma concurrent_grows: "attempts_grow g (concurrent pf op g)"
  by (cases op) (simp_all add: judgement_grows claim_runs renew_runs report_runs cancel_runs interrupt_runs start_runs
      retry_runs create_runs submit_runs fail_runs materialized_runs verified_runs confirm_runs changes_runs
      record_failure_runs finalize_runs snapshot_runs agent_runs attempts_same_runs)

lemma meanwhile_grows: "attempts_grow g (meanwhile pf ops g)"
  by (induction ops arbitrary: g) (auto intro: attempts_grow_trans [OF concurrent_grows])

subsection \<open>They are steps of the repository\<close>

text \<open>What \<open>generation_step\<close> asks of the calls: clocks past the first second, generated ids, no parent in a submission.\<close>

fun op_timely :: "codec \<Rightarrow> database \<Rightarrow> concurrent_op \<Rightarrow> bool" where
  "op_timely cd db (OpClaim _ _ _ _ now) \<longleftrightarrow> seconds 1 \<le> now"
| "op_timely cd db (OpRenew _ _ now) \<longleftrightarrow> seconds 1 \<le> now"
| "op_timely cd db (OpStart _ _ now) \<longleftrightarrow> seconds 1 \<le> now"
| "op_timely cd db (OpRetry _ _ _ now) \<longleftrightarrow> seconds 1 \<le> now"
| "op_timely cd db (OpInterrupt _ now) \<longleftrightarrow> seconds 1 \<le> now"
| "op_timely cd db (OpJudgement _ _ _ _ now) \<longleftrightarrow> seconds 1 \<le> now"
| "op_timely cd db (OpArtifactFailure _ _ _ now) \<longleftrightarrow> seconds 1 \<le> now"
| "op_timely cd db (OpCancel _ _ _ now) \<longleftrightarrow> seconds 1 \<le> now"
| "op_timely cd db (OpCreate newID _ _ _ now) \<longleftrightarrow> \<not> blank newID \<and> seconds 1 \<le> now"
| "op_timely cd db (OpSubmit _ _ _ revision now) \<longleftrightarrow> cr_ParentCandidateID revision = [] \<and> seconds 1 \<le> now"
| "op_timely cd db (OpFailRunnable _ _ now) \<longleftrightarrow> seconds 1 \<le> now"
| "op_timely cd db (OpMaterialized _ _ now) \<longleftrightarrow> seconds 1 \<le> now"
| "op_timely cd db (OpVerified _ _ now) \<longleftrightarrow> seconds 1 \<le> now"
| "op_timely cd db (OpConfirm _ _ _ _ _ _ now) \<longleftrightarrow> seconds 1 \<le> now"
| "op_timely cd db (OpChanges _ _ _ now) \<longleftrightarrow> seconds 1 \<le> now"
| "op_timely cd db (OpRecordFailure _ _ d) \<longleftrightarrow> seconds 1 \<le> dg_LastAttemptedAt d \<and>
     (\<forall>t. dg_NextRetryAt d = Some t \<longrightarrow> seconds 1 \<le> t)"
| "op_timely cd db (OpFinalize _ _ _ _ _ _ now) \<longleftrightarrow> seconds 1 \<le> now"
| "op_timely cd db (OpPublishSnapshot _ _ _ now) \<longleftrightarrow> seconds 1 \<le> now"
| "op_timely cd db (OpClearSnapshot _ _ now) \<longleftrightarrow> seconds 1 \<le> now"
| "op_timely cd db (OpAgentRun _ _) \<longleftrightarrow> True"
| "op_timely cd db (OpWorker f) \<longleftrightarrow> (\<forall>dc st. (store_step cd db dc)\<^sup>*\<^sup>* st (f st))"
| "op_timely cd db (OpElsewhere _) \<longleftrightarrow> True"

lemma worker_steps:
  assumes "(store_step cd (pf_db pf) dc)\<^sup>*\<^sup>* (g_runnable g) st"
  shows "(generation_step pf cd dc)\<^sup>*\<^sup>* g (g \<lparr>g_runnable := st\<rparr>)"
  using assms
proof (induction rule: rtranclp_induct)
  case (step y z)
  have "generation_step pf cd dc (g \<lparr>g_runnable := y\<rparr>) (g \<lparr>g_runnable := z\<rparr>)"
    using generation_step.runnable [of cd pf dc "g \<lparr>g_runnable := y\<rparr>" z] step.hyps(2) by simp
  then show ?case using step.IH by simp
qed simp

lemma others_agent_run: "createRunTx pf input now g = Inr (run, g') \<Longrightarrow> others g g'"
  unfolding others_def
  by (intro exI [of _ "g_agent_sessions g"] exI [of _ "g_runs g'"] exI [of _ "g_workspaces g"] exI [of _ "g_sessions g"]
      exI [of _ "g_plans g"] exI [of _ "g_scenarios g"] exI [of _ "g_revisions g"]) (auto simp: createRunTx_def split: if_split_asm)

lemma others_elsewhere: "others g (g \<lparr>g_agent_sessions := a, g_workspaces := w, g_sessions := s, g_plans := p, g_scenarios := c, g_revisions := v\<rparr>)"
  unfolding others_def
  by (intro exI [of _ a] exI [of _ "g_runs g"] exI [of _ w] exI [of _ s] exI [of _ p] exI [of _ c] exI [of _ v]) simp

lemma concurrent_steps:
  assumes "op_timely cd (pf_db pf) op"
  shows "(generation_step pf cd dc)\<^sup>*\<^sup>* g (concurrent pf op g)"
proof (cases op)
  case (OpAgentRun input now)
  then show ?thesis
    using generation_step.other [OF others_agent_run] by (auto split: sum.split)
next
  case (OpWorker f)
  then show ?thesis using assms worker_steps by simp
next
  case (OpElsewhere h)
  then show ?thesis using generation_step.other [OF others_elsewhere] by auto
qed (use assms in \<open>auto intro: generation_step.intros\<close>)

lemma meanwhile_steps:
  "list_all (op_timely cd (pf_db pf)) ops \<Longrightarrow> (generation_step pf cd dc)\<^sup>*\<^sup>* g (meanwhile pf ops g)"
  by (induction ops arbitrary: g) (auto intro: rtranclp_trans [OF concurrent_steps])

end
