(* ===== verification/JudgeServer.thy ===== *)
theory JudgeServer
  imports JudgeConcurrency
begin

section \<open>The judge's phase ends\<close>

text \<open>
  The runner's loop has no bound of its own: it goes on while the repository hands out another attempt.
  The locales say what the runner needs of its store and of the judge for the loop to end after a known
  number of questions; the interpretation shows it for the generation repository, while other processes
  act between any two calls.
\<close>

subsection \<open>A runner whose calls only reach later worlds\<close>

locale tracked_runner =
  fixes r :: "'w AgentRunner"
    and reach :: "'w \<Rightarrow> 'w \<Rightarrow> bool"
  assumes reach_refl: "reach w w"
    and reach_trans: "reach w w' \<Longrightarrow> reach w' w'' \<Longrightarrow> reach w w''"
    and reach_claim: "js_Claim (jr_store r) owner ttl (jr_now r w) w = (res1, w') \<Longrightarrow> reach w w'"
    and reach_load: "js_Load (jr_store r) claim (jr_now r w) w = (res2, w') \<Longrightarrow> reach w w'"
    and reach_start: "js_Start (jr_store r) claim input (jr_now r w) w = (res3, w') \<Longrightarrow> reach w w'"
    and reach_retry: "js_Retry (jr_store r) claim i msg (jr_now r w) w = (res4, w') \<Longrightarrow> reach w w'"
    and reach_candidate: "js_Candidate (jr_store r) i w = (res5, w') \<Longrightarrow> reach w w'"
    and reach_finalize: "js_Finalize (jr_store r) claim i approved feedback (jr_now r w) w = (res6, w') \<Longrightarrow> reach w w'"
    and reach_report: "js_ReportFailure (jr_store r) claim expected failure (jr_now r w) w = (res6, w') \<Longrightarrow> reach w w'"
    and reach_judge: "jr_judge r deadline plan content w = (res7, w') \<Longrightarrow> reach w w'"
begin

lemma reach_read: "readCandidate r i w = (res, w') \<Longrightarrow> reach w w'"
  by (auto simp: readCandidate_def reach_refl dest: reach_candidate split: if_splits prod.splits sum.splits)

lemma reach_execute:
  assumes "executeRun r claim context run w = (res, w')"
  shows "reach w w'"
proof -
  let ?claim = "claim \<lparr>cl_Workflow := (cl_Workflow claim) \<lparr>wf_ActiveAgentRunID := ag_ID run\<rparr>\<rparr>"
  show ?thesis
  proof (cases "readCandidate r (wf_CandidateRevisionID (cl_Workflow claim)) w")
    case (Pair x w1)
    note read = reach_read [OF Pair]
    show ?thesis
    proof (cases x)
      case (Inl e)
      then show ?thesis
        using assms Pair read by (auto simp: executeRun_def Let_def reach_refl split: if_splits)
    next
      case (Inr content)
      obtain y w2 where y: "jr_judge r (ag_DeadlineAt run) (cx_Plan context) content w1 = (y, w2)" by fastforce
      have two: "reach w w2" using reach_trans [OF read reach_judge [OF y]] .
      show ?thesis
        using assms Pair Inr y two
        by (auto simp: executeRun_def Let_def reach_refl apfst_def map_prod_def split: if_splits sum.splits option.splits prod.splits
            intro: reach_trans [OF two reach_finalize])
    qed
  qed
qed

end

subsection \<open>A store that counts the attempts of a run\<close>

locale counted_attempts = tracked_runner r reach
  for r :: "'w AgentRunner" and reach +
  fixes made :: "string \<Rightarrow> 'w \<Rightarrow> int"
    and asked :: "'w \<Rightarrow> nat"
    and most :: int
  assumes most_positive: "1 \<le> most"
    and reach_made: "reach w w' \<Longrightarrow> made k w \<le> made k w'"
    and asked_claim: "js_Claim (jr_store r) owner ttl now w = (res1, w') \<Longrightarrow> asked w' = asked w"
    and asked_load: "js_Load (jr_store r) claim now w = (res2, w') \<Longrightarrow> asked w' = asked w"
    and asked_start: "js_Start (jr_store r) claim input now w = (res3, w') \<Longrightarrow> asked w' = asked w"
    and asked_retry: "js_Retry (jr_store r) claim i msg now w = (res4, w') \<Longrightarrow> asked w' = asked w"
    and asked_candidate: "js_Candidate (jr_store r) i w = (res5, w') \<Longrightarrow> asked w' = asked w"
    and asked_finalize: "js_Finalize (jr_store r) claim i approved feedback now w = (res6, w') \<Longrightarrow> asked w' = asked w"
    and asked_report: "js_ReportFailure (jr_store r) claim expected failure now w = (res6, w') \<Longrightarrow> asked w' = asked w"
    and asked_judge: "jr_judge r deadline plan content w = (res7, w') \<Longrightarrow> asked w' = Suc (asked w)"
    and start_counts: "js_Start (jr_store r) claim input now w = (Inr run, w') \<Longrightarrow> 1 \<le> made (ag_ID run) w'"
    and retry_counts: "js_Retry (jr_store r) claim i msg now w = (Inr (Some again), w') \<Longrightarrow>
      ag_ID again = i \<and> made i w < most \<and> made i w < made i w'"
begin

lemma asked_read: "readCandidate r i w = (res, w') \<Longrightarrow> asked w' = asked w"
  by (auto simp: readCandidate_def dest: asked_candidate split: if_splits prod.splits sum.splits)

lemma asked_execute:
  assumes "executeRun r claim context run w = (res, w')"
  shows "asked w' \<le> Suc (asked w)"
proof -
  obtain x w1 where x: "readCandidate r (wf_CandidateRevisionID (cl_Workflow claim)) w = (x, w1)" by fastforce
  note read = asked_read [OF x]
  show ?thesis
  proof (cases x)
    case (Inl e)
    then show ?thesis using assms x read by (auto simp: executeRun_def Let_def split: if_splits)
  next
    case (Inr content)
    obtain y w2 where y: "jr_judge r (ag_DeadlineAt run) (cx_Plan context) content w1 = (y, w2)" by fastforce
    have two: "asked w2 = Suc (asked w)" using asked_judge [OF y] read by simp
    show ?thesis
      using assms x Inr y two
      by (auto simp: executeRun_def Let_def apfst_def map_prod_def split: if_splits sum.splits option.splits prod.splits
          dest: asked_finalize)
  qed
qed

text \<open>The attempts that are left bound the questions to the judge.\<close>

lemma attempts_return:
  "\<exists>res w'. judge_attempts r claim context run w = Some (res, w') \<and> reach w w' \<and>
     asked w' \<le> asked w + Suc (nat (most - made (ag_ID run) w))"
proof (induction "nat (most - made (ag_ID run) w)" arbitrary: run w rule: less_induct)
  case less
  obtain x w1 where x: "executeRun r claim context run w = (x, w1)" by fastforce
  have one: "reach w w1" "asked w1 \<le> Suc (asked w)" using reach_execute [OF x] asked_execute [OF x] by simp_all
  show ?case
  proof (cases "jr_lost r w \<or> x = None")
    case True
    then show ?thesis using x one by (subst judge_attempts.simps) (auto simp: reach_refl)
  next
    case False
    then obtain e where e: "x = Some e" "\<not> jr_lost r w" by auto
    show ?thesis
    proof (cases "err_is e ErrGenerationLeaseLost \<or> jr_lost r w1 \<or> jr_done r w1 \<noteq> None")
      case True
      then show ?thesis using x one e by (subst judge_attempts.simps) auto
    next
      case go: False
      show ?thesis
      proof (cases "as_generation_artifact e")
        case (Some failure)
        obtain y w2 where y: "js_ReportFailure (jr_store r) claim (wf_State (cl_Workflow claim)) failure (jr_now r w1) w1 = (y, w2)"
          by fastforce
        show ?thesis
          using x one e go Some y reach_trans [OF one(1) reach_report [OF y]] asked_report [OF y]
          by (subst judge_attempts.simps) auto
      next
        case None
        obtain y w2 where y: "js_Retry (jr_store r) claim (ag_ID run) (err_text e) (jr_now r w1) w1 = (y, w2)" by fastforce
        have two: "reach w w2" "asked w2 \<le> Suc (asked w)"
          using reach_trans [OF one(1) reach_retry [OF y]] asked_retry [OF y] one(2) by simp_all
        show ?thesis
        proof (cases "\<exists>again. y = Inr (Some again)")
          case False
          then show ?thesis
            using x one e go None y two by (subst judge_attempts.simps) (auto split: sum.splits option.splits)
        next
          case True
          then obtain again where again: "y = Inr (Some again)" by blast
          note count = retry_counts [OF y [unfolded again]]
          have less': "nat (most - made (ag_ID again) w2) < nat (most - made (ag_ID run) w)"
            using count reach_made [OF one(1), of "ag_ID run"] by simp
          obtain res w' where ih: "judge_attempts r claim context again w2 = Some (res, w')" "reach w2 w'"
            "asked w' \<le> asked w2 + Suc (nat (most - made (ag_ID again) w2))"
            using less [OF less'] by blast
          have "judge_attempts r claim context run w = Some (res, w')"
            using x e go None y again ih(1) by (subst judge_attempts.simps) simp
          then show ?thesis using reach_trans [OF two(1) ih(2)] two(2) ih(3) less' by auto
        qed
      qed
    qed
  qed
qed

lemma claim_returns:
  "\<exists>res w'. executeClaim r claim w = Some (res, w') \<and> reach w w' \<and> asked w' \<le> asked w + nat most"
proof -
  obtain x w1 where x: "js_Load (jr_store r) claim (jr_now r w) w = (x, w1)" by fastforce
  note load = reach_load [OF x] asked_load [OF x]
  obtain y w2 where y: "js_Start (jr_store r) claim (judge_run r claim w1) (jr_now r w1) w1 = (y, w2)" by fastforce
  have two: "reach w w2" "asked w2 = asked w"
    using reach_trans [OF load(1) reach_start [OF y]] asked_start [OF y] load(2) by simp_all
  show ?thesis
  proof (cases "jr_done r w = None \<and> (\<exists>context. x = Inr context \<and> Execution_Valid claim context) \<and> (\<exists>run. y = Inr run)")
    case True
    then obtain ctx run where c: "x = Inr ctx" "Execution_Valid claim ctx" "y = Inr run" by blast
    obtain res w' where a: "judge_attempts r claim ctx run w2 = Some (res, w')" "reach w2 w'"
      "asked w' \<le> asked w2 + Suc (nat (most - made (ag_ID run) w2))"
      using attempts_return by blast
    have "1 \<le> made (ag_ID run) w2" using start_counts y c(3) by blast
    then have "asked w' \<le> asked w + nat most" using a(3) two(2) most_positive by (simp add: nat_diff_distrib)
    then show ?thesis
      using True x y c a(1) reach_trans [OF two(1) a(2)] by (simp add: executeClaim_def)
  next
    case False
    then show ?thesis
      using x y load two by (auto simp: executeClaim_def reach_refl split: option.split sum.split)
  qed
qed

lemma process_returns:
  "\<exists>worked err w'. Judge_ProcessOne r w = Some ((worked, err), w') \<and> reach w w' \<and> asked w' \<le> asked w + nat most"
proof -
  obtain x w1 where x: "js_Claim (jr_store r) (ar_ServerID (jr_config r)) (ar_LeaseTTL (jr_config r)) (jr_now r w) w = (x, w1)"
    by fastforce
  note claim = reach_claim [OF x] asked_claim [OF x]
  show ?thesis
  proof (cases "\<exists>c. x = Inr (Some c)")
    case True
    then obtain c where c: "x = Inr (Some c)" by blast
    obtain res w' where "executeClaim r c w1 = Some (res, w')" "reach w1 w'" "asked w' \<le> asked w1 + nat most"
      using claim_returns by blast
    then show ?thesis using x c claim reach_trans [OF claim(1)] by (auto simp: Judge_ProcessOne_def)
  next
    case False
    then show ?thesis using x claim by (auto simp: Judge_ProcessOne_def split: sum.split option.split)
  qed
qed

end

subsection \<open>The runner on the generation repository\<close>

record judge_world =
  jw_db :: generation_db
  jw_tick :: nat
  jw_asked :: nat

text \<open>What answers at each tick: the clock, the ids, the locks, the files, the judge and the others.\<close>

record judge_env =
  je_now :: "nat \<Rightarrow> time"
  je_id :: "nat \<Rightarrow> string"
  je_locked :: "nat \<Rightarrow> string list"
  je_files :: "nat \<Rightarrow> string \<Rightarrow> go_error + string"
  je_inspect :: "string \<Rightarrow> go_error + CandidateContent"
  je_done :: "nat \<Rightarrow> go_error option"
  je_lost :: "nat \<Rightarrow> bool"
  je_judge :: "nat \<Rightarrow> time \<Rightarrow> AuthoringPlan \<Rightarrow> CandidateContent \<Rightarrow> go_error + Judgement"
  je_meanwhile :: "nat \<Rightarrow> concurrent_op list"

definition call :: "platform \<Rightarrow> judge_env \<Rightarrow> (generation_db \<Rightarrow> 'a \<times> generation_db) \<Rightarrow> judge_world \<Rightarrow> 'a \<times> judge_world" where
  "call pf env f w = (let (res, g) = f (jw_db w) in
     (res, w \<lparr>jw_db := meanwhile pf (je_meanwhile env (jw_tick w)) g, jw_tick := Suc (jw_tick w)\<rparr>))"

definition query :: "(generation_db \<Rightarrow> 'a) \<Rightarrow> generation_db \<Rightarrow> 'a \<times> generation_db" where
  "query f g = (f g, g)"

definition server_store :: "platform \<Rightarrow> judge_env \<Rightarrow> judge_world JudgeStore" where
  "server_store pf env = \<lparr>
     js_Claim = (\<lambda>server ttl now w. call pf env (ClaimGenerationAgentWorkflow pf (je_locked env (jw_tick w))
       (je_id env (jw_tick w)) server ttl now) w),
     js_Load = (\<lambda>claim now. call pf env (query (LoadGenerationContext pf claim now))),
     js_Start = (\<lambda>claim input now. call pf env (StartGenerationAgentRun pf claim input now)),
     js_Retry = (\<lambda>claim i msg now. call pf env (RetryGenerationAgentRun pf claim i msg now)),
     js_Interrupt = (\<lambda>reason now. call pf env (InterruptActiveGenerationAgentRuns pf reason now)),
     js_Candidate = (\<lambda>i. call pf env (query (\<lambda>g. GetCandidateRevision g i))),
     js_Finalize = (\<lambda>claim i approved feedback now. call pf env (FinalizeGenerationJudgement pf claim i approved feedback now)),
     js_ReportFailure = (\<lambda>claim expected failure now. call pf env (ReportGenerationArtifactFailure pf claim expected failure now)),
     js_Renew = (\<lambda>claim ttl now. call pf env (RenewGenerationLease pf claim ttl now))\<rparr>"

definition server_runner :: "platform \<Rightarrow> judge_env \<Rightarrow> AgentRunnerConfig \<Rightarrow> judge_world AgentRunner" where
  "server_runner pf env cfg = \<lparr>jr_store = server_store pf env,
     jr_judge = (\<lambda>deadline plan content w. call pf env (query (\<lambda>_. je_judge env (jw_tick w) deadline plan content))
       (w \<lparr>jw_asked := Suc (jw_asked w)\<rparr>)),
     jr_config = cfg, jr_now = (\<lambda>w. je_now env (jw_tick w)), jr_newID = (\<lambda>w. je_id env (jw_tick w)),
     jr_files = (\<lambda>w. je_files env (jw_tick w)), jr_inspect = je_inspect env,
     jr_done = (\<lambda>w. je_done env (jw_tick w)), jr_lost = (\<lambda>w. je_lost env (jw_tick w))\<rparr>"

subsection \<open>The interpretation\<close>

definition timely :: "platform \<Rightarrow> codec \<Rightarrow> judge_env \<Rightarrow> bool" where
  "timely pf cd env \<longleftrightarrow> (\<forall>n. seconds 1 \<le> je_now env n \<and> list_all (op_timely cd (pf_db pf)) (je_meanwhile env n))"

definition later :: "platform \<Rightarrow> codec \<Rightarrow> decoders \<Rightarrow> judge_env \<Rightarrow> judge_world \<Rightarrow> judge_world \<Rightarrow> bool" where
  "later pf cd dc env w w' \<longleftrightarrow> attempts_grow (jw_db w) (jw_db w') \<and>
     (timely pf cd env \<longrightarrow> (generation_step pf cd dc)\<^sup>*\<^sup>* (jw_db w) (jw_db w'))"

lemma call_later:
  assumes "call pf env f w = (res, w')" "attempts_grow (jw_db w) (snd (f (jw_db w)))"
    "timely pf cd env \<Longrightarrow> (generation_step pf cd dc)\<^sup>*\<^sup>* (jw_db w) (snd (f (jw_db w)))"
  shows "later pf cd dc env w w'"
proof -
  have w': "jw_db w' = meanwhile pf (je_meanwhile env (jw_tick w)) (snd (f (jw_db w)))"
    using assms(1) by (auto simp: call_def Let_def case_prod_unfold)
  have "(generation_step pf cd dc)\<^sup>*\<^sup>* (jw_db w) (jw_db w')" if "timely pf cd env"
    using assms(3) [OF that] meanwhile_steps [of cd pf "je_meanwhile env (jw_tick w)" dc "snd (f (jw_db w))"] that
    unfolding w' timely_def by (meson rtranclp_trans)
  then show ?thesis
    using attempts_grow_trans [OF assms(2) meanwhile_grows] by (simp add: later_def w')
qed

lemma call_asked [simp]: "call pf env f w = (res, w') \<Longrightarrow> jw_asked w' = jw_asked w"
  by (auto simp: call_def Let_def case_prod_unfold)

lemma call_result: "call pf env f w = (res, w') \<Longrightarrow> fst (f (jw_db w)) = res"
  by (auto simp: call_def Let_def case_prod_unfold)

lemma call_db: "call pf env f w = (res, w') \<Longrightarrow> f (jw_db w) = (res, g) \<Longrightarrow> attempts_grow g (jw_db w')"
  by (auto simp: call_def Let_def meanwhile_grows)

lemma snd_query [simp]: "snd (query f g) = g"
  by (simp add: query_def)

lemma server_now: "timely pf cd env \<Longrightarrow> seconds 1 \<le> jr_now (server_runner pf env cfg) w"
  by (simp add: timely_def server_runner_def)

lemmas server_simps = server_runner_def server_store_def

interpretation server_tracked: tracked_runner "server_runner pf env cfg" "later pf cd dc env" for pf cd dc env cfg
proof (unfold_locales, goal_cases)
  case (1 w) then show ?case by (simp add: later_def)
next
  case (2 w w' w'') then show ?case by (auto simp: later_def intro: attempts_grow_trans)
next
  case (3 owner ttl w res w')
  then show ?case
    using server_now [of pf cd env cfg w]
    by (auto simp: server_simps intro!: call_later claim_runs generation_step.claim)
next
  case (4 claim w res w')
  then show ?case by (auto simp: server_simps intro!: call_later)
next
  case (5 claim input w res w')
  then show ?case
    using server_now [of pf cd env cfg w]
    by (auto simp: server_simps intro!: call_later start_runs generation_step.start_run)
next
  case (6 claim i msg w res w')
  then show ?case
    using server_now [of pf cd env cfg w]
    by (auto simp: server_simps intro!: call_later retry_runs generation_step.retry_run)
next
  case (7 i w res w')
  then show ?case by (auto simp: server_simps intro!: call_later)
next
  case (8 claim i approved feedback w res w')
  then show ?case
    using server_now [of pf cd env cfg w]
    by (auto simp: server_simps intro!: call_later judgement_grows generation_step.judge)
next
  case (9 claim expected failure w res w')
  then show ?case
    using server_now [of pf cd env cfg w]
    by (auto simp: server_simps intro!: call_later report_runs generation_step.artifact_failure)
next
  case (10 deadline plan content w res w')
  then have "later pf cd dc env (w \<lparr>jw_asked := Suc (jw_asked w)\<rparr>) w'"
    by (auto simp: server_runner_def intro!: call_later)
  then show ?case by (simp add: later_def)
qed

interpretation server: counted_attempts "server_runner pf env cfg" "later pf cd dc env" "\<lambda>i w. attempts_made i (jw_db w)"
  jw_asked MaxAttempts for pf cd dc env cfg
proof (unfold_locales, goal_cases)
  case 1 show ?case by (simp add: MaxAttempts_def)
next
  case (2 w w' k) then show ?case by (simp add: later_def attempts_grow_def)
next
  case (10 deadline plan content w res w') then show ?case by (auto simp: server_runner_def)
next
  case (11 claim input now w run w')
  then have "call pf env (StartGenerationAgentRun pf claim input now) w = (Inr run, w')"
    by (simp add: server_simps)
  moreover obtain g where "StartGenerationAgentRun pf claim input now (jw_db w) = (Inr run, g)"
    using call_result [OF calculation] by (metis prod.collapse)
  ultimately show ?case
    using start_grows call_db by (fastforce simp: attempts_grow_def intro: order_trans)
next
  case (12 claim i msg now w again w')
  then have "call pf env (RetryGenerationAgentRun pf claim i msg now) w = (Inr (Some again), w')"
    by (simp add: server_simps)
  moreover obtain g where "RetryGenerationAgentRun pf claim i msg now (jw_db w) = (Inr (Some again), g)"
    using call_result [OF calculation] by (metis prod.collapse)
  ultimately show ?case
    using retry_grows call_db by (fastforce simp: attempts_grow_def intro: order_less_le_trans)
qed (auto simp: server_simps)

text \<open>
  C7 The judge's phase always ends: whatever the judge, the files and the clock answer, and whatever
  sequence of calls runs between any two calls of the runner (any number of claims, renewals, starts,
  retries, interruptions and verdicts by other servers, of the other methods that write workflows and
  candidates, of the worker's repository, of new agent runs, and changes of the tables that the judge does
  not use), one turn of the runner returns, after at most five questions to the judge.
\<close>

theorem judge_phase_terminates:
  "\<exists>worked err w'. Judge_ProcessOne (server_runner pf env cfg) w = Some ((worked, err), w') \<and>
     jw_asked w' \<le> jw_asked w + 5"
proof -
  obtain worked err w' where "Judge_ProcessOne (server_runner pf env cfg) w = Some ((worked, err), w')"
    "jw_asked w' \<le> jw_asked w + nat MaxAttempts"
    using server.process_returns [of pf env cfg w undefined undefined] by blast
  then show ?thesis by (simp add: MaxAttempts_def)
qed

end
