(* ===== verification/CompileFacts.thy ===== *)
theory CompileFacts
  imports GenerationExamples OperationsCompile
begin

section \<open>Compiling scenarios\<close>

text \<open>
  What the operations compiler makes of a validated scenario: which assertions and entrypoints end up in
  the spec, that the entrypoints are files of the validated directory, and which valid scenarios never
  compile; after a concrete scenario that is validated and compiled.
\<close>

subsection \<open>A scenario that compiles\<close>

definition entry_with :: "string \<Rightarrow> ScenarioEntry" where
  "entry_with k = \<lparr>se_EntryID = [], se_RevisionID = [], se_SourceSlug = [], se_Type = ScenarioOperationsScenario,
     se_Title = ''DNS'', se_Runtime = ''k8s'', se_Description = ''d'', se_Tags = [], se_Image = [],
     se_ContentRevision = [], se_Revision = [], se_PublishedAt = 0, se_Nodes = [],
     se_Versions = [\<lparr>sw_Component = ''coredns'', sw_Version = ''1.11''\<rparr>], se_Topology = ''single'',
     se_Initialization = ''break it'', se_Reproduction = \<lparr>rp_Objective = ''names do not resolve'',
       rp_Evidence = [\<lparr>ev_ID = ''dns-broken'', ev_Description = ''no answer'', ev_Node = []\<rparr>]\<rparr>,
     se_Checkpoints = [\<lparr>ck_ID = k, ck_Title = ''t'', ck_Description = ''d'', ck_Hint = [], ck_Node = []\<rparr>],
     se_HasReferenceRepair = True\<rparr>"

definition example_entry :: ScenarioEntry where
  "example_entry = entry_with ''dns-fixed''"

definition example_runtime :: RuntimeProfileConfig where
  "example_runtime = \<lparr>pc_ProfileRevision = ''p1'', pc_BaseImage = ''img'', pc_SoftwareVersions = [(''nginx'', ''1.25'')],
     pc_Resources = rp_Resources example_profile, pc_Network = NetworkIsolated, pc_MaxActionTimeout = 900\<rparr>"

definition example_config :: OperationsConfig where
  "example_config = \<lparr>cf_MaxNodes = 4, cf_Node = example_runtime, cf_K8s = example_runtime, cf_Lifecycle = example_lifecycle\<rparr>"

definition example_locations :: "(string \<times> location) list" where
  "example_locations = [([], locationFor ''management'' ''cluster'')]"

definition example_k8s_profile :: RuntimeProfile where
  "example_k8s_profile = \<lparr>rp_Runtime = RuntimeK8s, rp_ProfileRevision = ''p1'', rp_BaseImage = ''img'',
     rp_SoftwareVersions = [(''nginx'', ''1.25''), (''coredns'', ''1.11'')], rp_Resources = rp_Resources example_profile,
     rp_Network = NetworkIsolated, rp_Topology = ''single'',
     rp_ExecutionBoundaries = boundaries_of example_runtime (locationFor ''management'' ''cluster'')\<rparr>"

abbreviation cluster_action :: "string \<Rightarrow> string \<Rightarrow> ActionSpec" where
  "cluster_action i f \<equiv> action i f (locationFor ''management'' ''cluster'')"

abbreviation cluster_assertion :: "string \<Rightarrow> string \<Rightarrow> AssertionSpec" where
  "cluster_assertion i f \<equiv> assertion i f (locationFor ''management'' ''cluster'')"

definition example_phases :: "ValidationPhase list" where
  "example_phases =
     [\<lparr>vp_ID = ''initial-observation'', vp_TimeoutSeconds = 1800, vp_Execution = PhaseSequential, vp_Actions = [],
       vp_Assertions = [cluster_assertion ''dns-broken'' ''k8s/assertions/initial-dns-broken.sh'']\<rparr>,
      \<lparr>vp_ID = ''final-observation'', vp_TimeoutSeconds = 1800, vp_Execution = PhaseSequential,
       vp_Actions = [cluster_action ''apply-change'' ''k8s/actions/apply.sh''],
       vp_Assertions = [cluster_assertion ''dns-fixed'' ''k8s/assertions/final-dns-fixed.sh'']\<rparr>]"

definition example_compiled :: "SourceArchive \<Rightarrow> RunnableSpec" where
  "example_compiled source = \<lparr>rs_FormatVersion = FormatVersion,
     rs_Identity = \<lparr>ci_Kind = ''operations'', ci_ID = ''c1'', ci_Revision = zero_digest\<rparr>,
     rs_RuntimeProfile = example_k8s_profile, rs_Source = source,
     rs_Initialization = [cluster_action ''initialize'' ''k8s/initialize.sh''],
     rs_ValidationPlan = \<lparr>pl_FormatVersion = FormatVersion, pl_Phases = example_phases\<rparr>,
     rs_LifecyclePolicy = example_lifecycle\<rparr>"

definition example_input :: "SourceArchive \<Rightarrow> CompileInput" where
  "example_input source = \<lparr>in_ContentID = ''c1'', in_ContentRevision = zero_digest, in_Entry = example_entry, in_Source = source\<rparr>"

text \<open>Texts that \<open>strings.ToLower\<close> keeps.\<close>

lemma ToLower_low:
  assumes "list_all (\<lambda>c. byte c < 65 \<or> (90 < byte c \<and> byte c < 128)) s"
  shows "ToLower u s = s"
proof -
  have a: "list_all (\<lambda>c. byte c < 128) s" using assms by (auto simp: list_all_iff)
  have "map (rune_lower u) (map byte s) = map byte s" using assms by (auto simp: list_all_iff rune_lower_def)
  then show ?thesis unfolding ToLower_def map_runes_def runes_ascii [OF a] by (simp only: encode_ascii [OF a])
qed

lemma example_versions:
  "add_versions u (pc_SoftwareVersions example_runtime) (se_Versions example_entry) =
     Inr [(''nginx'', ''1.25''), (''coredns'', ''1.11'')]"
proof -
  have "trim ''coredns'' = ''coredns''" "runnableID ''coredns'' = None"
    "list_all (\<lambda>c. byte c < 65 \<or> (90 < byte c \<and> byte c < 128)) ''coredns''" by code_simp+
  then show ?thesis by (simp add: example_runtime_def example_entry_def entry_with_def ToLower_low)
qed

lemma example_parts:
  "profileFor (se_Runtime example_entry) example_config = Inr (example_runtime, RuntimeK8s)"
  "RuntimeProfile_Validate example_k8s_profile = None"
  "compileInitialization example_entry example_locations = Inr [cluster_action ''initialize'' ''k8s/initialize.sh'']"
  "compileValidationPlan example_entry example_locations = Inr \<lparr>pl_FormatVersion = FormatVersion, pl_Phases = example_phases\<rparr>"
  "RequireOperationsScenario example_entry = None"
  "ContentIdentity_Validate \<lparr>ci_Kind = ''operations'', ci_ID = ''c1'', ci_Revision = zero_digest\<rparr> = None"
  "ActionSpec_Validate (cluster_action ''initialize'' ''k8s/initialize.sh'') example_k8s_profile ''a'' = None"
  "\<not> blank ''c1''" "\<not> blank zero_digest"
  by code_simp+

lemma example_plan_valid:
  "ValidationPlan_Validate \<lparr>pl_FormatVersion = FormatVersion, pl_Phases = example_phases\<rparr> example_k8s_profile = None"
  "LifecyclePolicy_Validate example_lifecycle = None"
  "(\<forall>ph\<in>set example_phases. ''initialization'' \<noteq> vp_ID ph) \<and> distinct (map ac_ID
     [cluster_action ''initialize'' ''k8s/initialize.sh''] @ action_ids example_phases)"
  by code_simp+

lemma example_compiles:
  assumes "SourceArchive_Validate source = None"
  shows "Compile u (example_input source) example_config = Inr (example_compiled source)"
proof -
  have init: "length [cluster_action ''initialize'' ''k8s/initialize.sh''] \<in> {1..MaxActionsPerPhase}"
    by (simp add: MaxActionsPerPhase_def)
  have "spec_ok (example_compiled source)"
    using assms example_parts(2,6,7) example_plan_valid init
    by (simp add: spec_ok_def example_compiled_def RuntimeProfile_Validate_None ActionSpec_Validate_None
        ValidationPlan_Validate_None LifecyclePolicy_Validate_None image_iff)
  then have valid: "RunnableSpec_Validate (example_compiled source) = None" by (simp add: RunnableSpec_Validate_None)
  have locations: "locations_of RuntimeK8s example_entry = example_locations"
    by (simp add: locations_of_def example_locations_def)
  have profile: "\<lparr>rp_Runtime = RuntimeK8s, rp_ProfileRevision = pc_ProfileRevision example_runtime,
      rp_BaseImage = pc_BaseImage example_runtime, rp_SoftwareVersions = [(''nginx'', ''1.25''), (''coredns'', ''1.11'')],
      rp_Resources = pc_Resources example_runtime, rp_Network = pc_Network example_runtime,
      rp_Topology = se_Topology example_entry,
      rp_ExecutionBoundaries = concat (map (boundaries_of example_runtime \<circ> snd) example_locations)\<rparr> = example_k8s_profile"
    by (simp add: example_k8s_profile_def example_locations_def) (simp add: example_runtime_def example_entry_def entry_with_def)
  have "compileProfile u RuntimeK8s example_entry example_runtime = Inr (example_k8s_profile, example_locations)"
    unfolding compileProfile_def example_versions and_then_Inr Let_def locations profile
    by (simp add: example_parts(2) check_def)
  then show ?thesis
    using assms example_parts(1,3-5,8,9) valid
    by (simp add: Compile_def example_input_def example_compiled_def first_error_Cons example_config_def
        MaxScenarioNodes_def check_Inr fail_if_def)
qed

subsection \<open>The parts of a compiled spec\<close>

lemma compile_Inr:
  assumes "Compile u input config = Inr spec"
  shows "\<exists>pc runtime profile locations initialization plan.
    profileFor (se_Runtime (in_Entry input)) config = Inr (pc, runtime) \<and>
    compileProfile u runtime (in_Entry input) pc = Inr (profile, locations) \<and>
    compileInitialization (in_Entry input) locations = Inr initialization \<and>
    compileValidationPlan (in_Entry input) locations = Inr plan \<and>
    rs_Initialization spec = initialization \<and> rs_ValidationPlan spec = plan \<and> spec_ok spec"
  using assms
  by (fastforce simp: Compile_def Let_def check_Inr and_then_Inr_iff RunnableSpec_Validate_None split: if_split_asm prod.split_asm)

lemma compile_profile_Inr:
  assumes "compileProfile u runtime s config = Inr (profile, locations)"
  shows "locations = locations_of runtime s \<and> profile_ok profile \<and>
    rp_ExecutionBoundaries profile = concat (map (boundaries_of config \<circ> snd) locations)"
  using assms by (auto simp: compileProfile_def Let_def check_Inr and_then_Inr_iff RuntimeProfile_Validate_None)

lemma evidence_assertions_Inr:
  "evidence_assertions runtime locations es = Inr xs \<Longrightarrow> map as_ID xs = map ev_ID es \<and>
     map as_Entrypoint xs = map (\<lambda>e. InitialAssertionEntrypoint runtime (ev_Node e) (ev_ID e)) es"
  by (induction es arbitrary: xs) (auto simp: and_then_Inr_iff assertion_def)

lemma checkpoint_assertions_Inr:
  "checkpoint_assertions runtime locations cs = Inr xs \<Longrightarrow> map as_ID xs = map ck_ID cs \<and>
     map as_Entrypoint xs = map (\<lambda>c. FinalAssertionEntrypoint runtime (ck_Node c) (ck_ID c)) cs"
  by (induction cs arbitrary: xs) (auto simp: and_then_Inr_iff assertion_def)

lemma plan_Inr:
  assumes "compileValidationPlan s locations = Inr plan"
  shows "\<exists>observed. map as_ID observed = map ev_ID (rp_Evidence (se_Reproduction s)) \<and>
    map as_Entrypoint observed = map (\<lambda>e. InitialAssertionEntrypoint (se_Runtime s) (ev_Node e) (ev_ID e))
      (rp_Evidence (se_Reproduction s)) \<and>
    (if \<not> se_HasReferenceRepair s
     then \<exists>p. pl_Phases plan = [p] \<and> vp_Actions p = [] \<and> vp_Assertions p = observed
     else \<exists>p q concluded. pl_Phases plan = [p, q] \<and> vp_Actions p = [] \<and> vp_Assertions p = observed \<and>
       vp_Actions q = apply_actions s locations \<and> vp_Assertions q = concluded \<and>
       map as_ID concluded = map ck_ID (se_Checkpoints s) \<and>
       map as_Entrypoint concluded = map (\<lambda>c. FinalAssertionEntrypoint (se_Runtime s) (ck_Node c) (ck_ID c))
         (se_Checkpoints s))"
  using assms
  by (auto simp: compileValidationPlan_def Let_def and_then_Inr_iff dest!: evidence_assertions_Inr checkpoint_assertions_Inr
      split: if_split_asm)

text \<open>
  C24 A scenario that is valid need not be publishable: nothing in the validation of a candidate keeps the
  identities of the evidence and of the checkpoints apart, but a scenario with a reference repair that
  uses one identity for both never compiles, under any configuration.
\<close>

theorem shared_id_never_compiles:
  assumes "ValidateCandidateDir u dir = Inr (in_Entry input)" "se_HasReferenceRepair (in_Entry input)"
    "i \<in> ev_ID ` set (rp_Evidence (se_Reproduction (in_Entry input)))" "i \<in> ck_ID ` set (se_Checkpoints (in_Entry input))"
  shows "\<exists>e. Compile u input config = Inl e"
proof (rule ccontr)
  assume "\<not> ?thesis"
  then obtain spec where "Compile u input config = Inr spec" by (cases "Compile u input config") auto
  then obtain locations plan where plan: "compileValidationPlan (in_Entry input) locations = Inr plan"
    "rs_ValidationPlan spec = plan" "spec_ok spec"
    using compile_Inr by blast
  then have "distinct (assertion_ids (pl_Phases plan))" by (simp add: spec_ok_def plan_ok_def)
  moreover have "assertion_ids (pl_Phases plan) = map ev_ID (rp_Evidence (se_Reproduction (in_Entry input))) @
      map ck_ID (se_Checkpoints (in_Entry input))"
    using plan_Inr [OF plan(1)] assms(2) by (auto simp: assertion_ids_def)
  ultimately show False using assms(3,4) by auto
qed

subsection \<open>The files behind a compiled spec\<close>

definition spec_entrypoints :: "RunnableSpec \<Rightarrow> string list" where
  "spec_entrypoints spec = map ac_Entrypoint (rs_Initialization spec) @
     concat (map (\<lambda>ph. map ac_Entrypoint (vp_Actions ph) @ map as_Entrypoint (vp_Assertions ph))
       (pl_Phases (rs_ValidationPlan spec)))"

definition regular :: "scenario_dir \<Rightarrow> string \<Rightarrow> bool" where
  "regular dir f \<longleftrightarrow> dr_lstat dir f = Inr (Some RegularFile)"

lemma require_None [simp]: "requireRegularFile dir f = None \<longleftrightarrow> regular dir f"
  by (auto simp: requireRegularFile_def regular_def fail_if_def split: sum.split option.split)

lemma has_True [simp]: "hasRegularFile dir f = Inr True \<longleftrightarrow> regular dir f"
  by (auto simp: hasRegularFile_def regular_def split: sum.split option.split if_split)

lemma require_files_None [simp]: "require_files dir fs = None \<longleftrightarrow> list_all (regular dir) fs"
  by (induction fs) (auto simp flip: require_None split: option.split)

lemma declared_nodes_Inr:
  "declared_nodes dir runtime declared ns = Inr d \<Longrightarrow>
     list_all (\<lambda>n. regular dir (InitializationEntrypoint runtime (trim (nd_Name n)))) ns"
  by (induction ns arbitrary: declared) (auto simp: Let_def check_Inr split: if_split_asm)

lemma count_answers_Inr:
  "count_answers dir runtime k ns = Inr n \<Longrightarrow> k \<le> n \<and> n \<le> k + length ns \<and>
     (n = k + length ns \<longrightarrow> list_all (\<lambda>x. regular dir (ApplyEntrypoint runtime (nd_Name x))) ns)"
proof (induction ns arbitrary: k)
  case (Cons x ns)
  then obtain has where "hasRegularFile dir (ApplyEntrypoint runtime (nd_Name x)) = Inr has"
    "count_answers dir runtime (if has then Suc k else k) ns = Inr n"
    by (auto simp: and_then_Inr_iff)
  then show ?case using Cons.IH [of "if has then Suc k else k"] by (cases has) auto
qed simp

text \<open>A name that is part of a stable identity carries no spaces.\<close>

lemma boundary_name_trimmed:
  assumes "boundary_ok b" "eb_ID b = ''node-'' @ name @ ''-write''"
  shows "trim name = name"
proof (cases "name = []")
  case False
  have "solid CHR ''n''" "solid CHR ''e''" by code_simp+
  then have "trim (eb_ID b) = eb_ID b" unfolding assms(2) by (intro trim_solid) simp_all
  then have "stableID (''node-'' @ name @ ''-write'')" using assms by (simp add: boundary_ok_def id_ok_def)
  then have "\<forall>c\<in>set name. solid c" using stableID_solid by (metis UnCI set_append)
  then show ?thesis using False by (intro trim_solid) simp_all
qed simp

lemma node_actions_Inr:
  "node_actions runtime locations ns = Inr xs \<Longrightarrow>
     map ac_Entrypoint xs = map (\<lambda>n. InitializationEntrypoint runtime (nd_Name n)) ns"
  by (induction ns arbitrary: xs) (auto simp: and_then_Inr_iff action_def split: option.split_asm)

lemma node_names_trimmed:
  assumes "compileProfile u RuntimeNode s config = Inr (profile, locations)" "n \<in> set (se_Nodes s)"
  shows "trim (nd_Name n) = nd_Name n"
proof -
  note p = compile_profile_Inr [OF assms(1)]
  let ?b = "hd (boundaries_of config (locationFor ''node'' (nd_Name n)))"
  have "?b \<in> set (rp_ExecutionBoundaries profile)"
    using p assms(2) by (auto simp: locations_of_def boundaries_of_def intro!: bexI [of _ n])
  then have "boundary_ok ?b" using p by (simp add: profile_ok_def)
  moreover have "eb_ID ?b = ''node-'' @ nd_Name n @ ''-write''" by (simp add: boundaries_of_def locationFor_def)
  ultimately show ?thesis by (rule boundary_name_trimmed)
qed

lemma valid_candidate_files:
  assumes "ValidateCandidateDir u dir = Inr s"
  shows "\<exists>s0. validateScenarioFiles s0 dir = Inr (se_HasReferenceRepair s) \<and>
    s = s0 \<lparr>se_HasReferenceRepair := se_HasReferenceRepair s\<rparr>"
  using assms by (auto simp: ValidateCandidateDir_def validate_entry_def and_then_Inr_iff check_Inr Let_def)

lemma node_scenario_files:
  assumes "validateScenarioFiles s dir = Inr has" "se_Runtime s = RuntimeNodeName"
  shows "list_all (\<lambda>n. regular dir (InitializationEntrypoint RuntimeNodeName (trim (nd_Name n)))) (se_Nodes s) \<and>
    list_all (regular dir) (evidence_files s) \<and> list_all (regular dir) (checkpoint_files s) \<and>
    (has \<longrightarrow> list_all (\<lambda>n. regular dir (ApplyEntrypoint RuntimeNodeName (nd_Name n))) (se_Nodes s))"
proof -
  obtain declared where d: "declared_nodes dir RuntimeNodeName [] (se_Nodes s) = Inr declared"
    "require_files dir (evidence_files s) = None" "require_files dir (checkpoint_files s) = None"
    "validateNodeReferenceRepair s dir = Inr has"
    using assms by (auto simp: validateScenarioFiles_def check_Inr and_then_Inr_iff split: if_split_asm)
  have "list_all (\<lambda>n. regular dir (ApplyEntrypoint RuntimeNodeName (nd_Name n))) (se_Nodes s)" if h: has
  proof -
    obtain k where "count_answers dir RuntimeNodeName 0 (se_Nodes s) = Inr k" "k = length (se_Nodes s)"
      using d(4) h assms(2) by (auto simp: validateNodeReferenceRepair_def and_then_Inr_iff split: if_split_asm)
    then show ?thesis using count_answers_Inr [of dir RuntimeNodeName 0 "se_Nodes s" k] by simp
  qed
  then show ?thesis using d(2,3) declared_nodes_Inr [OF d(1)] by simp
qed

lemma k8s_scenario_files:
  assumes "validateScenarioFiles s dir = Inr has" "se_Runtime s = RuntimeK8sName"
  shows "regular dir (InitializationEntrypoint RuntimeK8sName []) \<and> list_all (regular dir) (evidence_files s) \<and>
    list_all (regular dir) (checkpoint_files s) \<and> (has \<longrightarrow> regular dir (ApplyEntrypoint RuntimeK8sName []))"
  using assms
  by (auto simp: validateScenarioFiles_def validateK8sReferenceRepair_def check_Inr and_then_Inr_iff split: if_split_asm)

lemma k8s_entrypoints:
  "InitialAssertionEntrypoint RuntimeK8sName node i = ''k8s/assertions/initial-'' @ i @ ''.sh''"
  "FinalAssertionEntrypoint RuntimeK8sName node i = ''k8s/assertions/final-'' @ i @ ''.sh''"
  by (simp_all add: InitialAssertionEntrypoint_def FinalAssertionEntrypoint_def operationsRuntimeRoot_def)

lemma plan_entrypoints:
  assumes "compileValidationPlan s locations = Inr plan" "se_Runtime s = RuntimeNodeName \<or> se_Runtime s = RuntimeK8sName"
  shows "concat (map (\<lambda>ph. map ac_Entrypoint (vp_Actions ph) @ map as_Entrypoint (vp_Assertions ph)) (pl_Phases plan)) =
    evidence_files s @
    (if se_HasReferenceRepair s then map ac_Entrypoint (apply_actions s locations) @ checkpoint_files s else [])"
proof -
  have "evidence_files s = map (\<lambda>e. InitialAssertionEntrypoint (se_Runtime s) (ev_Node e) (ev_ID e))
      (rp_Evidence (se_Reproduction s))"
    "checkpoint_files s = map (\<lambda>c. FinalAssertionEntrypoint (se_Runtime s) (ck_Node c) (ck_ID c)) (se_Checkpoints s)"
    using assms(2) by (auto simp: evidence_files_def checkpoint_files_def k8s_entrypoints)
  then show ?thesis using plan_Inr [OF assms(1)] by (auto split: if_split_asm)
qed

text \<open>
  C13 Whatever compiles can be run: each entrypoint of the spec that a validated candidate compiles to, of
  the initialization, of the changes and of the assertions, is a regular file of the validated directory.
\<close>

theorem compiled_entrypoints_exist:
  assumes "ValidateCandidateDir u dir = Inr (in_Entry input)" "Compile u input config = Inr spec"
  shows "list_all (\<lambda>f. dr_lstat dir f = Inr (Some RegularFile)) (spec_entrypoints spec)"
proof -
  let ?s = "in_Entry input"
  obtain pc runtime profile locations initialization plan where c: "profileFor (se_Runtime ?s) config = Inr (pc, runtime)"
    "compileProfile u runtime ?s pc = Inr (profile, locations)" "compileInitialization ?s locations = Inr initialization"
    "compileValidationPlan ?s locations = Inr plan" "rs_Initialization spec = initialization" "rs_ValidationPlan spec = plan"
    using compile_Inr [OF assms(2)] by blast
  obtain s0 where s0: "validateScenarioFiles s0 dir = Inr (se_HasReferenceRepair ?s)"
    "?s = s0 \<lparr>se_HasReferenceRepair := se_HasReferenceRepair ?s\<rparr>"
    using valid_candidate_files [OF assms(1)] by blast
  have same: "se_Runtime s0 = se_Runtime ?s" "se_Nodes s0 = se_Nodes ?s" "evidence_files s0 = evidence_files ?s"
    "checkpoint_files s0 = checkpoint_files ?s"
    by (subst s0(2), simp add: evidence_files_def checkpoint_files_def)+
  have all: "spec_entrypoints spec = map ac_Entrypoint initialization @ evidence_files ?s @
    (if se_HasReferenceRepair ?s then map ac_Entrypoint (apply_actions ?s locations) @ checkpoint_files ?s else [])"
    if "se_Runtime ?s = RuntimeNodeName \<or> se_Runtime ?s = RuntimeK8sName"
    using plan_entrypoints [OF c(4) that] by (simp add: spec_entrypoints_def c(5,6))
  consider (node) "se_Runtime ?s = RuntimeNodeName" "runtime = RuntimeNode" | (k8s) "se_Runtime ?s = RuntimeK8sName"
    using c(1) by (auto simp: profileFor_def split: if_split_asm)
  then have "list_all (regular dir) (spec_entrypoints spec)"
  proof cases
    case node
    have init: "map ac_Entrypoint initialization = map (\<lambda>n. InitializationEntrypoint RuntimeNodeName (nd_Name n)) (se_Nodes ?s)"
      using c(3) node(1) node_actions_Inr by (fastforce simp: compileInitialization_def)
    have "trim (nd_Name n) = nd_Name n" if "n \<in> set (se_Nodes ?s)" for n
      using node_names_trimmed [of u ?s pc profile locations n] c(2) node(2) that by simp
    then show ?thesis
      using node_scenario_files [OF s0(1)] node(1) same all init
      by (auto simp: list_all_iff apply_actions_def action_def split: if_split_asm)
  next
    case k8s
    then show ?thesis
      using k8s_scenario_files [OF s0(1)] same all c(3)
      by (auto simp: compileInitialization_def apply_actions_def action_def)
  qed
  then show ?thesis by (simp add: regular_def list_all_iff)
qed

subsection \<open>A directory for the witnesses\<close>

definition example_dir :: "string \<Rightarrow> scenario_dir" where
  "example_dir k = \<lparr>dr_lstat = (\<lambda>f. Inr (if f = ''nodes'' then None else Some RegularFile)),
     dr_stat = (\<lambda>_. Inr (Some RegularFile)), dr_nodes = Inr [], dr_markers = Inr [k], dr_links = (\<lambda>_. Inr []),
     dr_spec = Inr \<lparr>ss_ID = [], ss_RevisionID = [], ss_SourceSlug = [], ss_Type = ''operations-scenario'',
       ss_Title = ''DNS'', ss_Runtime = ''k8s'', ss_Description = ''d'', ss_Tags = [], ss_Image = [],
       ss_ContentRevision = [], ss_PublishedAt = 0, ss_Nodes = [], ss_Versions = se_Versions example_entry,
       ss_Topology = ''single'', ss_Initialization = ''break it'',
       ss_Reproduction = se_Reproduction example_entry, ss_Checkpoints = se_Checkpoints (entry_with k)\<rparr>,
     dr_digest = Inr zero_digest\<rparr>"

lemma example_loaded: "LoadCandidateDir u (example_dir k) = Inr (entry_with k \<lparr>se_HasReferenceRepair := False\<rparr>)"
proof -
  have "NormalizeScenarioType ''operations-scenario'' = ScenarioOperationsScenario" "NormalizeRuntime ''k8s'' = ''k8s''"
    by code_simp+
  then show ?thesis
    by (simp add: LoadCandidateDir_def example_dir_def entryFromSpec_def NormalizeTags_def sort_by_def)
      (simp add: entry_with_def example_entry_def)
qed

lemma example_components: "unique_components u [] (se_Versions example_entry) = None"
proof -
  have "trim ''coredns'' = ''coredns''" "\<not> blank ''1.11''"
    "list_all (\<lambda>c. byte c < 65 \<or> (90 < byte c \<and> byte c < 128)) ''coredns''" by code_simp+
  then show ?thesis by (simp add: example_entry_def entry_with_def ToLower_low)
qed

abbreviation unrepaired :: "string \<Rightarrow> ScenarioEntry" where
  "unrepaired k \<equiv> entry_with k \<lparr>se_HasReferenceRepair := False\<rparr>"

lemma example_checks:
  "validateScenarioFiles (unrepaired ''dns-fixed'') (example_dir ''dns-fixed'') = Inr True"
  "validateScenarioFiles (unrepaired ''dns-broken'') (example_dir ''dns-broken'') = Inr True"
  "validateCheckpoints (unrepaired ''dns-fixed'') (example_dir ''dns-fixed'') = None"
  "validateCheckpoints (unrepaired ''dns-broken'') (example_dir ''dns-broken'') = None"
  "validateTeachingAssets (entry_with ''dns-fixed'') (example_dir ''dns-fixed'') = None"
  "validateTeachingAssets (entry_with ''dns-broken'') (example_dir ''dns-broken'') = None"
  "check_evidence (unrepaired ''dns-fixed'') [] (rp_Evidence (se_Reproduction (unrepaired ''dns-fixed''))) = None"
  "check_evidence (unrepaired ''dns-broken'') [] (rp_Evidence (se_Reproduction (unrepaired ''dns-broken''))) = None"
  "\<not> blank (se_Title (entry_with k))" "\<not> blank (se_Description (entry_with k))" "\<not> blank (se_Topology (entry_with k))"
  "\<not> blank (se_Initialization (entry_with k))" "\<not> blank (rp_Objective (se_Reproduction (entry_with k)))"
  by code_simp+

lemma example_entry_fields [simp]:
  "se_Type (entry_with k) = ScenarioOperationsScenario" "se_Tags (entry_with k) = []" "se_Runtime (entry_with k) = ''k8s''"
  "se_Versions (entry_with k) = se_Versions example_entry" "se_Versions example_entry \<noteq> []"
  "rp_Evidence (se_Reproduction (entry_with k)) \<noteq> []" "se_HasReferenceRepair (entry_with k)"
  by (simp_all add: entry_with_def example_entry_def)

lemma example_validates:
  "ValidateCandidateDir u (example_dir ''dns-fixed'') = Inr (entry_with ''dns-fixed'')"
  "ValidateCandidateDir u (example_dir ''dns-broken'') = Inr (entry_with ''dns-broken'')"
proof -
  have core: "validateOperationsCore u (unrepaired k) = None"
    if "check_evidence (unrepaired k) [] (rp_Evidence (se_Reproduction (unrepaired k))) = None" for k
    using that example_components [of u] example_checks(11-13) [of k]
    by (simp add: validateOperationsCore_def first_error_Cons)
  have tags: "NormalizeTags u [] = Inr []" by (simp add: NormalizeTags_def sort_by_def)
  have repaired: "entry_with k \<lparr>se_HasReferenceRepair := True\<rparr> = entry_with k" for k by (simp add: entry_with_def)
  have valid: "ValidateCandidateDir u (example_dir k) = Inr (entry_with k)"
    if "validateScenarioFiles (unrepaired k) (example_dir k) = Inr True" "validateCheckpoints (unrepaired k) (example_dir k) = None"
      "validateTeachingAssets (entry_with k) (example_dir k) = None"
      "check_evidence (unrepaired k) [] (rp_Evidence (se_Reproduction (unrepaired k))) = None" for k
    using that core [OF that(4)] example_checks(9,10) [of k]
    by (simp add: ValidateCandidateDir_def example_loaded validate_entry_def repaired tags check_Inr first_error_Cons Let_def
        ScenarioType_Valid_def)
  show "ValidateCandidateDir u (example_dir ''dns-fixed'') = Inr (entry_with ''dns-fixed'')"
    by (rule valid [OF example_checks(1,3,5,7)])
  show "ValidateCandidateDir u (example_dir ''dns-broken'') = Inr (entry_with ''dns-broken'')"
    by (rule valid [OF example_checks(2,4,6,8)])
qed

lemma shared_id_never_compiles_witness:
  "\<forall>u source config. ValidateCandidateDir u (example_dir ''dns-broken'') = Inr (entry_with ''dns-broken'') \<and>
     (\<exists>e. Compile u (example_input source \<lparr>in_Entry := entry_with ''dns-broken''\<rparr>) config = Inl e)"
  using shared_id_never_compiles [of _ "example_dir ''dns-broken''" "example_input _ \<lparr>in_Entry := entry_with ''dns-broken''\<rparr>"
      "''dns-broken''"] example_validates(2)
  by (simp add: entry_with_def)

lemma compiled_entrypoints_exist_witness:
  "\<forall>u. list_all (\<lambda>f. dr_lstat (example_dir ''dns-fixed'') f = Inr (Some RegularFile))
     (spec_entrypoints (example_compiled (rs_Source example_spec)))"
proof
  fix u
  have "in_Entry (example_input (rs_Source example_spec)) = entry_with ''dns-fixed''"
    by (simp add: example_input_def example_entry_def)
  then show "list_all (\<lambda>f. dr_lstat (example_dir ''dns-fixed'') f = Inr (Some RegularFile))
      (spec_entrypoints (example_compiled (rs_Source example_spec)))"
    using compiled_entrypoints_exist [OF _ example_compiles [OF example_parts_valid(3)]] example_validates(1) [of u] by simp
qed

end
