(* ===== verification/CoordinatorFacts.thy ===== *)
theory CoordinatorFacts
  imports RunnableCoordinator FinalizerFacts JudgeServer CompileFacts
begin

section \<open>What the coordinator makes of actions, and the server's passes together\<close>

text \<open>
  How a failed action meets the coordinator, what a candidate that cannot be prepared does to the queue,
  and the composition: the passes of the judge's runner, the coordinator and the finalizer are sequences
  of the repository's steps, so the workflow's state machine holds for all of them.
\<close>

subsection \<open>Failed actions\<close>

lemma rescheduled_row:
  assumes "actions_ok (st_actions st)" "actions_ok (st_actions st')" "row_identity r = i"
    "st_actions st' = runnableActionReschedule db now (new_action_row db i revision now) (st_actions st)"
    "r \<in> set (st_actions st)" "aw_state r = Failed"
  shows "identity_row i st' = Some (if aw_class r = Some FailureInfrastructure then reset_action_row db now r else r)"
proof -
  let ?r = "if aw_class r = Some FailureInfrastructure then reset_action_row db now r else r"
  have "aw_key r = ActionIdentity_Key i" using assms(1,3,5) by (auto simp: actions_ok_def action_row_ok_def)
  then have "?r \<in> set (st_actions st')"
    using assms(5,6)
    by (auto simp: assms(4) runnableActionReschedule_def sql_update_def new_action_row_def image_iff)
  moreover have "row_identity ?r = i" using assms(3) by (auto simp: row_identity_def reset_action_row_def)
  ultimately show ?thesis using assms(2) by (intro identity_row_of)
qed

text \<open>The action that a pass schedules for a workflow, by the workflow's state.\<close>

definition scheduled_action ::
  "codec \<Rightarrow> database \<Rightarrow> RunnableSpec \<Rightarrow> Candidate \<Rightarrow> Workflow \<Rightarrow> time \<Rightarrow> store \<Rightarrow> (go_error + ActionIdentity) \<times> store"
where
  "scheduled_action cd db spec c w now st =
     (if wf_State w = StateMaterializingArtifact then ScheduleMaterialization cd db spec (wf_StateVersion w) now st
      else case cr_RunnableRevisionRef c of
        None \<Rightarrow> (Inl (Msg ''generation workflow has no runnable revision''), st)
      | Some revision \<Rightarrow> ScheduleVerification cd db revision (wf_StateVersion w) now st)"

text \<open>The store after the scheduling, with the identity, when the pass comes that far.\<close>

definition workflow_action ::
  "platform \<Rightarrow> codec \<Rightarrow> coordinator \<Rightarrow> Workflow \<Rightarrow> generation_db \<Rightarrow> (ActionIdentity \<times> store) option"
where
  "workflow_action pf cd co w g =
     (case CandidateForWorkflow g (wf_ID w) of
        Inl _ \<Rightarrow> None
      | Inr c \<Rightarrow> (case prepare_candidate (pf_unicode pf) co c of
          Inl _ \<Rightarrow> None
        | Inr (spec, source, bytes) \<Rightarrow>
          (case StoreRunnableSource (pf_db pf) source bytes (co_now co w) (g_runnable g) of
             (Some _, _) \<Rightarrow> None
           | (None, st) \<Rightarrow> (case scheduled_action cd (pf_db pf) spec c w (co_now co w) st of
               (Inl _, _) \<Rightarrow> None | (Inr i, st') \<Rightarrow> Some (i, st')))))"

lemma workflow_action_Some:
  assumes "workflow_action pf cd co w g = Some (i, st')"
  obtains c spec source bytes st where "CandidateForWorkflow g (wf_ID w) = Inr c"
    "prepare_candidate (pf_unicode pf) co c = Inr (spec, source, bytes)"
    "StoreRunnableSource (pf_db pf) source bytes (co_now co w) (g_runnable g) = (None, st)"
    "scheduled_action cd (pf_db pf) spec c w (co_now co w) st = (Inr i, st')"
  using assms by (auto simp: workflow_action_def split: sum.split_asm prod.split_asm option.split_asm)

lemma source_keeps_actions:
  "StoreRunnableSource db source bytes now st = (res, st') \<Longrightarrow> st_actions st' = st_actions st \<and> st_reports st' = st_reports st"
  by (auto simp: StoreRunnableSource_def Let_def split: if_split_asm prod.split_asm option.split_asm)

lemma scheduled_action_Inr:
  assumes "scheduled_action cd db spec c w now st = (Inr i, st')"
  obtains revision where "now \<noteq> 0" "st_reports st' = st_reports st"
    "st_actions st' = runnableActionReschedule db now (new_action_row db i revision now) (st_actions st)"
    "ai_Phase i = (if wf_State w = StateMaterializingArtifact then ActionMaterializeArtifact else ActionVerify)"
    "\<exists>dc. store_step cd db dc st st'"
proof (cases "wf_State w = StateMaterializingArtifact")
  case True
  then have s: "ScheduleMaterialization cd db spec (wf_StateVersion w) now st = (Inr i, st')"
    using assms by (simp add: scheduled_action_def)
  then have step: "\<exists>dc. store_step cd db dc st st'"
    using store_step.schedule_materialization [of cd db undefined st spec "wf_StateVersion w" now] by (metis snd_conv)
  show ?thesis
    by (rule that [of None, OF _ _ _ _ step])
      (use s True in \<open>auto simp: ScheduleMaterialization_def StoreRunnableSpec_def insertRunnableSpecTx_def Let_def
        split: if_split_asm sum.split_asm option.split_asm\<close>)
next
  case False
  then obtain revision where s: "ScheduleVerification cd db revision (wf_StateVersion w) now st = (Inr i, st')"
    using assms by (auto simp: scheduled_action_def split: option.split_asm)
  then have step: "\<exists>dc. store_step cd db dc st st'"
    using store_step.schedule_verification [of cd db undefined st revision "wf_StateVersion w" now] by (metis snd_conv)
  show ?thesis
    by (rule that [of "Some (ref_Digest revision)", OF _ _ _ _ step])
      (use s False in \<open>auto simp: ScheduleVerification_def Let_def split: if_split_asm sum.split_asm option.split_asm\<close>)
qed

text \<open>How the pass projects the action that it has scheduled.\<close>

definition project_scheduled ::
  "platform \<Rightarrow> codec \<Rightarrow> Workflow \<Rightarrow> time \<Rightarrow> ActionIdentity \<Rightarrow> generation_db \<Rightarrow> go_error option \<times> generation_db"
where
  "project_scheduled pf cd w now i g = (if wf_State w = StateMaterializingArtifact
     then project_action pf (wf_ID w) (ResolveMaterializedRunnableRevision i (g_runnable g))
       (\<lambda>reference. MarkGenerationCandidateMaterialized pf (wf_ID w) reference now) now g
     else project_action pf (wf_ID w) (ResolveVerificationForAction cd i (g_runnable g))
       (\<lambda>report. MarkGenerationCandidateVerified pf (wf_ID w) (svr_Reference report) now) now g)"

lemma coordinate_scheduled:
  assumes "wf_State w = StateMaterializingArtifact \<or> wf_State w = StateVerifying"
  shows "workflow_action pf cd co w g = None \<Longrightarrow>
      fst (coordinate_workflow pf cd co w g) \<noteq> None \<and> g_workflows (snd (coordinate_workflow pf cd co w g)) = g_workflows g"
    "workflow_action pf cd co w g = Some (i, st') \<Longrightarrow>
      coordinate_workflow pf cd co w g = project_scheduled pf cd w (co_now co w) i (g \<lparr>g_runnable := st'\<rparr>)"
proof -
  show "fst (coordinate_workflow pf cd co w g) \<noteq> None \<and> g_workflows (snd (coordinate_workflow pf cd co w g)) = g_workflows g"
    if "workflow_action pf cd co w g = None"
    using that assms
    by (auto simp: workflow_action_def coordinate_workflow_def coordinate_materialization_def coordinate_verification_def
        on_runnable_def scheduled_action_def Let_def split: sum.splits prod.splits option.splits if_splits)
  show "coordinate_workflow pf cd co w g = project_scheduled pf cd w (co_now co w) i (g \<lparr>g_runnable := st'\<rparr>)"
    if some: "workflow_action pf cd co w g = Some (i, st')"
  proof -
    obtain c spec source bytes st where a: "CandidateForWorkflow g (wf_ID w) = Inr c"
      "prepare_candidate (pf_unicode pf) co c = Inr (spec, source, bytes)"
      "StoreRunnableSource (pf_db pf) source bytes (co_now co w) (g_runnable g) = (None, st)"
      "scheduled_action cd (pf_db pf) spec c w (co_now co w) st = (Inr i, st')"
      by (rule workflow_action_Some [OF some])
    show ?thesis
      using a assms
      by (auto simp: coordinate_workflow_def coordinate_materialization_def coordinate_verification_def on_runnable_def
          scheduled_action_def project_scheduled_def Let_def split: option.split_asm)
  qed
qed

definition action_failure_text :: "FailureClass \<Rightarrow> action_row \<Rightarrow> string" where
  "action_failure_text class r = ''runnable action failed ('' @ FailureClass_text class @ ''/'' @ aw_code r @ ''): '' @
     aw_summary r"

lemma action_failure_text_not_blank: "\<not> blank (action_failure_text class r)"
proof -
  have b: "byte CHR ''r'' = 114" by code_simp
  have space: "space_at (CHR ''r'' # s) = 0" for s
    using b by (cases s; cases "tl s") (auto simp: space1_def space2_def space3_def)
  show ?thesis
    unfolding action_failure_text_def blank_def append.simps by (rule trim_nonempty [OF space]) (rule list.distinct)
qed

lemma project_failed:
  assumes "distinct (map wf_ID (g_workflows g))" "w \<in> set (g_workflows g)"
    "wf_State w = StateMaterializingArtifact \<or> wf_State w = StateVerifying" "\<not> blank (wf_ID w)" "now \<noteq> 0"
    "project_action pf (wf_ID w) (Inl (ActionFailure (FailureClass_text class) (aw_code r) (aw_summary r))) mark now g = (res, g')"
  shows "res = None \<and> g_workflows g' = map (\<lambda>v. if wf_ID v = wf_ID w
         then w \<lparr>wf_State := StateFailed, wf_StateVersion := wf_StateVersion w + 1,
           wf_LastError := trim (action_failure_text class r), wf_UpdatedAt := pf_ts pf now\<rparr> else v) (g_workflows g)"
proof -
  have failed: "FailRunnableGenerationWorkflow pf (wf_ID w) (action_failure_text class r) now g = (res, g')"
    using assms(6) by (simp add: project_action_def failWorkflowForAction_def action_failure_text_def)
  let ?P = "\<lambda>v. wf_ID v = wf_ID w \<and> (wf_State v = StateMaterializingArtifact \<or> wf_State v = StateVerifying)"
  have "snd (sql_update ?P f (g_workflows g)) = 1" for f
    using sql_update_count [OF assms(1), of ?P "wf_ID w" f] sql_row_distinct [OF assms(1,2)] assms(3) by simp
  then have "res = None"
    using failed assms(4,5) action_failure_text_not_blank by (auto simp: FailRunnableGenerationWorkflow_def case_prod_unfold)
  then obtain x where x: "wf_ID x = wf_ID w"
    "moved g x (x \<lparr>wf_State := StateFailed, wf_StateVersion := wf_StateVersion x + 1,
      wf_LastError := trim (action_failure_text class r), wf_UpdatedAt := pf_ts pf now\<rparr>) id g'"
    using fail_runnable_effect [OF assms(1) failed] by blast
  have "x = w" using same_workflow [OF assms(1) _ assms(2) x(1)] x(2) by (simp add: moved_def)
  then show ?thesis using x(2) \<open>res = None\<close> by (simp add: moved_def)
qed

lemma failed_action_projected:
  assumes "actions_ok (st_actions (g_runnable g))" "distinct (map wf_ID (g_workflows g))"
    "w \<in> set (g_workflows g)" "wf_State w = StateMaterializingArtifact \<or> wf_State w = StateVerifying" "\<not> blank (wf_ID w)"
    "workflow_action pf cd co w g = Some (i, st')" "r \<in> set (st_actions (g_runnable g))" "row_identity r = i"
    "aw_state r = Failed" "aw_class r = Some class"
    "wf_State w = StateVerifying \<Longrightarrow> RecordID ''vr'' i \<notin> (\<lambda>v. Some (vw_id v)) ` set (st_reports (g_runnable g))"
    "project_scheduled pf cd w (co_now co w) i (g \<lparr>g_runnable := st'\<rparr>) = (res, g')"
  shows "res = None \<and> (if class = FailureInfrastructure
       then g_workflows g' = g_workflows g \<and> identity_row i (g_runnable g') = Some (reset_action_row (pf_db pf) (co_now co w) r)
       else g_workflows g' = map (\<lambda>v. if wf_ID v = wf_ID w
         then w \<lparr>wf_State := StateFailed, wf_StateVersion := wf_StateVersion w + 1,
           wf_LastError := trim (action_failure_text class r), wf_UpdatedAt := pf_ts pf (co_now co w)\<rparr> else v) (g_workflows g))"
proof -
  let ?now = "co_now co w" and ?g = "g \<lparr>g_runnable := st'\<rparr>"
  obtain c spec source bytes st where st: "StoreRunnableSource (pf_db pf) source bytes ?now (g_runnable g) = (None, st)"
    and sched: "scheduled_action cd (pf_db pf) spec c w ?now st = (Inr i, st')"
    by (rule workflow_action_Some [OF assms(6)])
  obtain revision where s: "?now \<noteq> 0" "st_reports st' = st_reports st"
    "st_actions st' = runnableActionReschedule (pf_db pf) ?now (new_action_row (pf_db pf) i revision ?now) (st_actions st)"
    "ai_Phase i = (if wf_State w = StateMaterializingArtifact then ActionMaterializeArtifact else ActionVerify)"
    "\<exists>dc. store_step cd (pf_db pf) dc st st'"
    by (rule scheduled_action_Inr [OF sched])
  note keep = source_keeps_actions [OF st]
  have acts: "actions_ok (st_actions st)" "r \<in> set (st_actions st)" using keep assms(1,7) by simp_all
  have row: "identity_row i st' = Some (if aw_class r = Some FailureInfrastructure then reset_action_row (pf_db pf) ?now r else r)"
    using s(5) step_actions_ok acts by (intro rescheduled_row [OF acts(1) _ assms(8) s(3) acts(2) assms(9)]) blast
  have rok: "action_row_ok r" using assms(1,7) by (simp add: actions_ok_def)
  then have id: "ActionIdentity_Validate i = None" using assms(8) by (simp add: action_row_ok_def ActionIdentity_Validate_None)
  have ok: "FailureClass_Valid class" "\<not> blank (aw_code r)" "\<not> blank (aw_summary r)"
    using rok assms(9,10) by (auto simp: action_row_ok_def)
  have none: "find (\<lambda>v. Some (vw_id v) = RecordID ''vr'' i) (st_reports st') = None" if "wf_State w = StateVerifying"
    using assms(11) [OF that] keep s(2) by (auto simp: find_None_iff image_iff)
  show ?thesis
  proof (cases "class = FailureInfrastructure")
    case True
    then have "runnableActionFailure i st' = None" "identity_row i st' = Some (reset_action_row (pf_db pf) ?now r)"
      using row assms(10) by (simp_all add: runnableActionFailure_def reset_action_row_def)
    moreover from this have "ResolveMaterializedRunnableRevision i st' = Inl materialization_not_ready"
      if "wf_State w = StateMaterializingArtifact"
      using that id s(4) by (simp add: ResolveMaterializedRunnableRevision_def reset_action_row_def check_def)
    moreover have "ResolveVerificationForAction cd i st' = Inl materialization_not_ready"
      if "wf_State w \<noteq> StateMaterializingArtifact"
      using that assms(4) id s(4) none calculation(1) by (simp add: ResolveVerificationForAction_def check_def)
    ultimately show ?thesis using assms(12) True by (auto simp: project_scheduled_def project_action_def split: if_split_asm)
  next
    case False
    then have "runnableActionFailure i st' = Some (ActionFailure (FailureClass_text class) (aw_code r) (aw_summary r))"
      using row assms(9,10) ok by (simp add: runnableActionFailure_def)
    then have fails: "ResolveMaterializedRunnableRevision i st' =
        (if ai_Phase i = ActionMaterializeArtifact
         then Inl (ActionFailure (FailureClass_text class) (aw_code r) (aw_summary r))
         else Inl (Msg ''runnable materialization identity is invalid''))"
      "wf_State w = StateVerifying \<Longrightarrow> ResolveVerificationForAction cd i st' =
        Inl (ActionFailure (FailureClass_text class) (aw_code r) (aw_summary r))"
      using id none s(4) by (simp_all add: ResolveMaterializedRunnableRevision_def ResolveVerificationForAction_def check_def)
    have g: "distinct (map wf_ID (g_workflows ?g))" "w \<in> set (g_workflows ?g)" using assms(2,3) by simp_all
    show ?thesis
    proof (cases "wf_State w = StateMaterializingArtifact")
      case True
      then show ?thesis
        using project_failed [OF g assms(4,5) s(1), of pf "class" r] assms(12) fails(1) s(4) False by (auto simp: project_scheduled_def)
    next
      case verifying: False
      then show ?thesis
        using project_failed [OF g assms(4,5) s(1), of pf "class" r] assms(4,12) fails(2) s(4) False by (auto simp: project_scheduled_def)
    qed
  qed
qed

text \<open>
  C15 What becomes of a workflow, building or verifying, whose action failed. A pass that does not get as
  far as the action (the candidate cannot be read or does not compile, its source cannot be stored, the
  action cannot be scheduled) returns an error and leaves every workflow as it is. Otherwise, and unless a
  report is already stored under the name of the verification, it returns none, and an artifact failure
  fails the workflow with the action's class, code and summary. An infrastructure failure never does,
  although its attempts are exhausted: the pass schedules the action before it looks at it, which starts a
  new cycle of attempts, and the workflow waits on.
\<close>

theorem failed_action_meets_coordinator:
  assumes "actions_ok (st_actions (g_runnable g))" "distinct (map wf_ID (g_workflows g))"
    "w \<in> set (g_workflows g)" "wf_State w = StateMaterializingArtifact \<or> wf_State w = StateVerifying" "\<not> blank (wf_ID w)"
    "coordinate_workflow pf cd co w g = (res, g')"
  shows "(workflow_action pf cd co w g = None \<longrightarrow> res \<noteq> None \<and> g_workflows g' = g_workflows g) \<and>
    (\<forall>i st r class. workflow_action pf cd co w g = Some (i, st) \<and> r \<in> set (st_actions (g_runnable g)) \<and>
       row_identity r = i \<and> aw_state r = Failed \<and> aw_class r = Some class \<and>
       (wf_State w = StateVerifying \<longrightarrow> RecordID ''vr'' i \<notin> (\<lambda>v. Some (vw_id v)) ` set (st_reports (g_runnable g))) \<longrightarrow>
     res = None \<and>
      (if class = FailureInfrastructure
       then g_workflows g' = g_workflows g \<and>
         identity_row i (g_runnable g') = Some (reset_action_row (pf_db pf) (co_now co w) r)
       else g_workflows g' = map (\<lambda>v. if wf_ID v = wf_ID w
         then w \<lparr>wf_State := StateFailed, wf_StateVersion := wf_StateVersion w + 1,
           wf_LastError := trim (action_failure_text class r), wf_UpdatedAt := pf_ts pf (co_now co w)\<rparr> else v)
         (g_workflows g)))"
proof (intro conjI allI impI; (elim conjE)?)
  show "res \<noteq> None" "g_workflows g' = g_workflows g" if "workflow_action pf cd co w g = None"
    using coordinate_scheduled(1) [OF assms(4) that] assms(6) by simp_all
next
  fix i st r fc
  let ?now = "co_now co w"
  assume a: "workflow_action pf cd co w g = Some (i, st)" "r \<in> set (st_actions (g_runnable g))" "row_identity r = i"
    "aw_state r = Failed" "aw_class r = Some fc"
    "wf_State w = StateVerifying \<longrightarrow> RecordID ''vr'' i \<notin> (\<lambda>v. Some (vw_id v)) ` set (st_reports (g_runnable g))"
  then have "project_scheduled pf cd w ?now i (g \<lparr>g_runnable := st\<rparr>) = (res, g')"
    using coordinate_scheduled(2) [OF assms(4) a(1)] assms(6) by simp
  then have both: "res = None \<and> (if fc = FailureInfrastructure
       then g_workflows g' = g_workflows g \<and> identity_row i (g_runnable g') = Some (reset_action_row (pf_db pf) ?now r)
       else g_workflows g' = map (\<lambda>v. if wf_ID v = wf_ID w
         then w \<lparr>wf_State := StateFailed, wf_StateVersion := wf_StateVersion w + 1,
           wf_LastError := trim (action_failure_text fc r), wf_UpdatedAt := pf_ts pf ?now\<rparr> else v) (g_workflows g))"
    using failed_action_projected [OF assms(1-5) a(1-5) a(6) [rule_format]] by blast
  show "res = None" using both by simp
  show "if fc = FailureInfrastructure
       then g_workflows g' = g_workflows g \<and> identity_row i (g_runnable g') = Some (reset_action_row (pf_db pf) ?now r)
       else g_workflows g' = map (\<lambda>v. if wf_ID v = wf_ID w
         then w \<lparr>wf_State := StateFailed, wf_StateVersion := wf_StateVersion w + 1,
           wf_LastError := trim (action_failure_text fc r), wf_UpdatedAt := pf_ts pf ?now\<rparr> else v) (g_workflows g)"
    using both by simp
qed

subsection \<open>A candidate that cannot be prepared\<close>

text \<open>
  C22 One broken candidate stops the queue: when the first workflow in the order of the queue has a
  candidate that cannot be prepared (its archive is gone, or its scenario does not compile), every pass
  returns an error and changes nothing, so no workflow behind it is ever scheduled, failed or moved on,
  however many passes run.
\<close>

theorem broken_candidate_starves_queue:
  assumes "ListRunnableGenerationCandidates pf g = Inr (w # ws)" "CandidateForWorkflow g (wf_ID w) = Inr c"
    "list_all (\<lambda>co. \<exists>e. prepare_candidate (pf_unicode pf) co c = Inl e) cos"
  shows "list_all (\<lambda>co. fst (Coordinator_RunOnce pf cd co g) \<noteq> None) cos \<and>
    foldl (\<lambda>g co. snd (Coordinator_RunOnce pf cd co g)) g cos = g"
proof -
  have "\<exists>e. Coordinator_RunOnce pf cd co g = (Some e, g)" if "co \<in> set cos" for co
    using assms that by (fastforce simp: Coordinator_RunOnce_def coordinate_workflow_def list_all_iff)
  then show ?thesis by (induction cos) fastforce+
qed

subsection \<open>The passes of the server\<close>

datatype server_pass =
    JudgePass judge_env AgentRunnerConfig
  | CoordinatorPass coordinator
  | FinalizerPass finalizer

fun run_pass :: "platform \<Rightarrow> codec \<Rightarrow> server_pass \<Rightarrow> generation_db \<Rightarrow> generation_db" where
  "run_pass pf cd (JudgePass env cfg) g =
     (case Judge_ProcessOne (server_runner pf env cfg) \<lparr>jw_db = g, jw_tick = 0, jw_asked = 0\<rparr> of
        Some (_, w) \<Rightarrow> jw_db w | None \<Rightarrow> g)"
| "run_pass pf cd (CoordinatorPass co) g = snd (Coordinator_RunOnce pf cd co g)"
| "run_pass pf cd (FinalizerPass fz) g = snd (Finalizer_RunOnce pf fz g)"

fun pass_timely :: "platform \<Rightarrow> codec \<Rightarrow> server_pass \<Rightarrow> bool" where
  "pass_timely pf cd (JudgePass env cfg) = timely pf cd env"
| "pass_timely pf cd (CoordinatorPass co) = (\<forall>w. seconds 1 \<le> co_now co w)"
| "pass_timely pf cd (FinalizerPass fz) = (seconds 1 \<le> pz_now fz)"

lemma runnable_steps:
  assumes "\<And>st. store_step cd (pf_db pf) dc st (snd (f st))" "on_runnable f g = (res, g')"
  shows "generation_step pf cd dc g g'"
proof -
  have "g' = g \<lparr>g_runnable := snd (f (g_runnable g))\<rparr>" using assms(2) by (auto simp: on_runnable_def case_prod_unfold Let_def)
  then show ?thesis using generation_step.runnable [OF assms(1)] by simp
qed

lemma project_steps:
  assumes "seconds 1 \<le> now" "\<And>reference. generation_step pf cd dc g (snd (mark reference g))"
  shows "(generation_step pf cd dc)\<^sup>*\<^sup>* g (snd (project_action pf i resolved mark now g))"
  using assms by (auto simp: project_action_def failWorkflowForAction_def intro: generation_step.fail_runnable split: sum.split)

lemma coordinate_workflow_steps:
  assumes "seconds 1 \<le> co_now co w"
  shows "(generation_step pf cd dc)\<^sup>*\<^sup>* g (snd (coordinate_workflow pf cd co w g))"
proof (cases "CandidateForWorkflow g (wf_ID w)")
  case (Inr c)
  show ?thesis
  proof (cases "prepare_candidate (pf_unicode pf) co c")
    case prepared: (Inr x)
    obtain spec source bytes where x: "x = (spec, source, bytes)" by (cases x)
    obtain res g1 where g1: "on_runnable (StoreRunnableSource (pf_db pf) source bytes (co_now co w)) g = (res, g1)" by fastforce
    have one: "generation_step pf cd dc g g1" by (rule runnable_steps [OF store_step.store_source g1])
    have materialize: "(generation_step pf cd dc)\<^sup>*\<^sup>* g1 (snd (coordinate_materialization pf cd spec w (co_now co w) g1))"
    proof -
      obtain act g2 where g2: "on_runnable (ScheduleMaterialization cd (pf_db pf) spec (wf_StateVersion w) (co_now co w)) g1 = (act, g2)"
        by fastforce
      have "generation_step pf cd dc g1 g2" by (rule runnable_steps [OF store_step.schedule_materialization g2])
      moreover have "(generation_step pf cd dc)\<^sup>*\<^sup>* g2 (snd (project_action pf (wf_ID w) resolved
          (\<lambda>reference. MarkGenerationCandidateMaterialized pf (wf_ID w) reference (co_now co w)) (co_now co w) g2))" for resolved
        by (intro project_steps assms generation_step.materialized)
      ultimately show ?thesis
        by (auto simp: coordinate_materialization_def g2 intro: converse_rtranclp_into_rtranclp split: sum.split)
    qed
    have verify: "(generation_step pf cd dc)\<^sup>*\<^sup>* g1 (snd (coordinate_verification pf cd c w (co_now co w) g1))"
    proof (cases "cr_RunnableRevisionRef c")
      case (Some revision)
      obtain act g2 where g2: "on_runnable (ScheduleVerification cd (pf_db pf) revision (wf_StateVersion w) (co_now co w)) g1 = (act, g2)"
        by fastforce
      have "generation_step pf cd dc g1 g2" by (rule runnable_steps [OF store_step.schedule_verification g2])
      moreover have "(generation_step pf cd dc)\<^sup>*\<^sup>* g2 (snd (project_action pf (wf_ID w) resolved
          (\<lambda>report. MarkGenerationCandidateVerified pf (wf_ID w) (svr_Reference report) (co_now co w)) (co_now co w) g2))" for resolved
        by (intro project_steps assms generation_step.verified)
      ultimately show ?thesis
        by (auto simp: coordinate_verification_def Some g2 intro: converse_rtranclp_into_rtranclp split: sum.split)
    qed (simp add: coordinate_verification_def)
    show ?thesis
      using one materialize verify
      by (auto simp: coordinate_workflow_def Inr prepared x g1 Let_def intro: converse_rtranclp_into_rtranclp split: option.split)
  qed (simp add: coordinate_workflow_def Inr)
qed (simp add: coordinate_workflow_def)

lemma coordinate_all_steps:
  assumes "\<And>w. seconds 1 \<le> co_now co w"
  shows "(generation_step pf cd dc)\<^sup>*\<^sup>* g (snd (coordinate_all pf cd co ws g))"
proof (induction ws arbitrary: g)
  case (Cons w ws)
  obtain res g1 where g1: "coordinate_workflow pf cd co w g = (res, g1)" by fastforce
  have "(generation_step pf cd dc)\<^sup>*\<^sup>* g g1" using coordinate_workflow_steps [OF assms, of pf cd dc g w] g1 by simp
  then show ?case using Cons.IH [of g1] by (auto simp: g1 intro: rtranclp_trans split: option.split)
qed simp

lemma finalize_publication_steps:
  assumes "seconds 1 \<le> pz_now fz"
  shows "(generation_step pf cd dc)\<^sup>*\<^sup>* g (snd (FinalizeGenerationScenarioPublication pf i k cr mr ty tags (pz_now fz) g))"
    "(generation_step pf cd dc)\<^sup>*\<^sup>* g (snd (finalizer_recordFailure pf fz v e g))"
    "(generation_step pf cd dc)\<^sup>*\<^sup>* g (finalize_publication pf fz v g)"
proof -
  show fin: "(generation_step pf cd dc)\<^sup>*\<^sup>* g (snd (FinalizeGenerationScenarioPublication pf i k cr mr ty tags (pz_now fz) g))"
    for g i k cr mr ty tags using assms by (intro r_into_rtranclp generation_step.finalize)
  show rec: "(generation_step pf cd dc)\<^sup>*\<^sup>* g (snd (finalizer_recordFailure pf fz v e g))" for g e
  proof (cases "NewDiagnostic (classifyPublicationFinalizerError (Some e)) (pz_now fz)")
    case (Inr d)
    then have "dg_LastAttemptedAt d = pz_now fz" "dg_NextRetryAt d = None \<or> dg_NextRetryAt d = Some (pz_now fz + seconds 5)"
      by (auto simp: NewDiagnostic_def Let_def check_Inr RetryAt_def retryDelay_def split: if_split_asm)
    then have "generation_step pf cd dc g
        (snd (RecordGenerationPublicationFinalizerFailure pf (wf_ID (fz_Workflow v)) (cr_ID (fz_Candidate v)) d g))"
      using assms by (intro generation_step.record_failure) (auto simp: seconds_def)
    then show ?thesis by (simp add: finalizer_recordFailure_def Inr)
  qed (simp add: finalizer_recordFailure_def)
  show "(generation_step pf cd dc)\<^sup>*\<^sup>* g (finalize_publication pf fz v g)"
  proof (cases "materialize_candidate (pf_unicode pf) fz (fz_Candidate v)")
    case (Inr entry)
    obtain res g1 where g1: "FinalizeGenerationScenarioPublication pf (wf_ID (fz_Workflow v)) (cr_ID (fz_Candidate v))
        (se_ContentRevision entry) (se_Revision entry) (se_Type entry) (se_Tags entry) (pz_now fz) g = (res, g1)" by fastforce
    have "(generation_step pf cd dc)\<^sup>*\<^sup>* g g1" using fin [of g] g1 by (metis snd_conv)
    then show ?thesis using rec by (auto simp: finalize_publication_def Inr g1 intro: rtranclp_trans split: sum.split)
  qed (simp add: finalize_publication_def rec)
qed

lemma finalizer_steps:
  assumes "seconds 1 \<le> pz_now fz"
  shows "(generation_step pf cd dc)\<^sup>*\<^sup>* g (snd (Finalizer_RunOnce pf fz g))"
proof -
  have "(generation_step pf cd dc)\<^sup>*\<^sup>* g (foldl (\<lambda>g val. finalize_publication pf fz val g) g vs)" for vs
  proof (induction vs arbitrary: g)
    case (Cons v vs)
    show ?case
      using rtranclp_trans [OF finalize_publication_steps(3) [OF assms, of pf cd dc g v] Cons.IH] by simp
  qed simp
  then show ?thesis by (simp add: Finalizer_RunOnce_def split: sum.split)
qed

lemma run_pass_steps:
  assumes "pass_timely pf cd p"
  shows "(generation_step pf cd dc)\<^sup>*\<^sup>* g (run_pass pf cd p g)"
proof (cases p)
  case (JudgePass env cfg)
  let ?w = "\<lparr>jw_db = g, jw_tick = 0, jw_asked = 0\<rparr>"
  obtain worked err w' where "Judge_ProcessOne (server_runner pf env cfg) ?w = Some ((worked, err), w')"
    "later pf cd dc env ?w w'"
    using server.process_returns [of pf env cfg ?w cd dc] by blast
  then show ?thesis using assms JudgePass by (simp add: later_def)
next
  case (CoordinatorPass co)
  then show ?thesis
    using assms coordinate_all_steps [of co pf cd dc g] by (simp add: Coordinator_RunOnce_def split: sum.split)
next
  case (FinalizerPass fz)
  then show ?thesis using assms finalizer_steps by simp
qed

text \<open>
  C5 The server's passes refine the workflow's state machine: from a valid database, any sequence of
  passes of the judge's runner, the coordinator and the finalizer, with whatever the judge, the files,
  the archives and other processes answer, leads to a valid database, and every workflow has moved only
  along the allowed transitions.
\<close>

theorem server_passes_refine_lifecycle:
  assumes "generation_ok pf g" "sane_clock pf" "list_all (pass_timely pf cd) ps"
  shows "generation_ok pf (foldl (\<lambda>g p. run_pass pf cd p g) g ps) \<and>
    lifecycle_step\<^sup>*\<^sup>* (lifecycle g) (lifecycle (foldl (\<lambda>g p. run_pass pf cd p g) g ps))"
proof -
  have "(generation_step pf cd dc)\<^sup>*\<^sup>* g (foldl (\<lambda>g p. run_pass pf cd p g) g ps)" for dc
    using assms(3)
  proof (induction ps arbitrary: g)
    case (Cons p ps)
    show ?case
      using rtranclp_trans [OF run_pass_steps [of pf cd p dc g] Cons.IH] Cons.prems by simp
  qed simp
  then show ?thesis using reachable_good [OF _ assms(1,2)] by blast
qed

subsection \<open>Concrete passes\<close>

definition empty_coordinator :: coordinator where
  "empty_coordinator = \<lparr>co_files = (\<lambda>_. Inl (PathError ''gone'')), co_freeze = (\<lambda>_. Inl (PathError ''gone'')),
     co_inspect = (\<lambda>_. Inl (PathError ''gone'')), co_operations = example_config, co_now = (\<lambda>_. seconds 10)\<rparr>"

lemma example_queue:
  "ListRunnableGenerationCandidates example_platform (example_generation StateMaterializingArtifact) =
     Inr [example_workflow StateMaterializingArtifact]"
  "CandidateForWorkflow (example_generation StateMaterializingArtifact) ''w1'' = Inr example_candidate"
proof -
  have "trim ''c1'' = ''c1''" by code_simp
  then show "CandidateForWorkflow (example_generation StateMaterializingArtifact) ''w1'' = Inr example_candidate"
    by (simp add: CandidateForWorkflow_def example_generation_def workflow_row_def sql_row_def GetCandidateRevision_def
        candidate_row_def found_def) (simp add: example_workflow_def example_candidate_def)
  have "wf_State (example_workflow StateMaterializingArtifact) = StateMaterializingArtifact" by (simp add: example_workflow_def)
  then show "ListRunnableGenerationCandidates example_platform (example_generation StateMaterializingArtifact) =
      Inr [example_workflow StateMaterializingArtifact]"
    using example_workflow_valid [of StateMaterializingArtifact]
    by (simp add: ListRunnableGenerationCandidates_def example_generation_def sort_by_def scanGenerationWorkflow_def found_def)
qed

lemma broken_candidate_starves_queue_witness:
  "fst (Coordinator_RunOnce example_platform example_codec empty_coordinator (example_generation StateMaterializingArtifact)) \<noteq> None \<and>
   foldl (\<lambda>g co. snd (Coordinator_RunOnce example_platform example_codec co g)) (example_generation StateMaterializingArtifact)
     [empty_coordinator, empty_coordinator] = example_generation StateMaterializingArtifact"
proof -
  have "wf_ID (example_workflow StateMaterializingArtifact) = ''w1''" by (simp add: example_workflow_def)
  moreover have "\<exists>e. prepare_candidate u empty_coordinator example_candidate = Inl e" for u
    by (simp add: prepare_candidate_def ReadArchive_def empty_coordinator_def wrap_error_def)
  ultimately show ?thesis
    using broken_candidate_starves_queue [OF example_queue(1), of example_candidate "[empty_coordinator, empty_coordinator]"
        example_codec] example_queue(2)
    by simp
qed

lemma server_passes_refine_lifecycle_witness:
  "generation_ok example_platform (run_pass example_platform example_codec (FinalizerPass example_finalizer)
     (example_generation StatePublishing))"
  using server_passes_refine_lifecycle [OF example_generation_ok [of StatePublishing] example_clock,
      of example_codec "[FinalizerPass example_finalizer]"]
  by (simp add: example_finalizer_def seconds_def)

text \<open>A candidate whose materialization was given up after its attempts.\<close>

definition frozen_source :: SourceArchive where
  "frozen_source = \<lparr>sa_FormatVersion = ''v1'', sa_Reference = ''src'', sa_Digest = digest_bytes ''b''\<rparr>"

definition frozen_example :: Candidate where
  "frozen_example = example_candidate \<lparr>cr_ArchiveDigest := digest_bytes ''a'', cr_SourceArchive := frozen_source\<rparr>"

definition exhausted_row :: action_row where
  "exhausted_row = \<lparr>aw_key = ActionIdentity_Key \<lparr>ai_Content = rs_Identity (example_compiled frozen_source),
       ai_SpecDigest = digest_bytes ''c1'', ai_Phase = ActionMaterializeArtifact, ai_StateVersion = 6\<rparr>,
     aw_content = rs_Identity (example_compiled frozen_source), aw_spec = digest_bytes ''c1'',
     aw_phase = ActionMaterializeArtifact, aw_version = 6, aw_revision = None, aw_state = Failed, aw_attempt = 8,
     aw_owner = [], aw_expires = None, aw_next = 1, aw_class = Some FailureInfrastructure,
     aw_code = ''attempts-exhausted'', aw_summary = ''registry is down'', aw_created = 1, aw_updated = 1,
     aw_completed = Some 1\<rparr>"

definition exhausted_generation :: generation_db where
  "exhausted_generation = (example_generation StateMaterializingArtifact)
     \<lparr>g_candidates := [frozen_example], g_runnable := empty_store \<lparr>st_actions := [exhausted_row]\<rparr>\<rparr>"

definition frozen_coordinator :: coordinator where
  "frozen_coordinator = \<lparr>co_files = (\<lambda>_. Inr ''a''), co_freeze = (\<lambda>_. Inr (frozen_source, ''b'', zero_digest)),
     co_inspect = (\<lambda>_. Inr \<lparr>ic_Archive = ''a'', ic_Entry = example_entry, ic_Files = []\<rparr>),
     co_operations = example_config, co_now = (\<lambda>_. seconds 10)\<rparr>"

lemma frozen_valid: "SourceArchive_Validate frozen_source = None"
proof -
  have "requiredString ''src'' ''source.reference'' MaxReferenceLength = None" by code_simp
  then show ?thesis
    by (simp add: SourceArchive_Validate_def frozen_source_def first_error_Cons FormatVersion_def)
qed

lemma archive_digest_bytes: "archive_digest bytes = digest_bytes bytes"
  by (simp add: archive_digest_def digest_bytes_def sha256_hex_def)

lemma frozen_prepared:
  "prepare_candidate u frozen_coordinator frozen_example = Inr (example_compiled frozen_source, frozen_source, ''b'')"
proof -
  have "\<not> blank ''a''" by code_simp
  then have "ReadArchive (\<lambda>_. Inr ''a'') ''a'' (digest_bytes ''a'') = Inr ''a''"
    by (simp add: ReadArchive_def archive_digest_bytes wrap_error_def)
  moreover have "cr_ArchivePath frozen_example = ''a''" "cr_ArchiveDigest frozen_example = digest_bytes ''a''"
    "cr_SourceArchive frozen_example = frozen_source" "cr_ContentRevision frozen_example = zero_digest"
    "cr_ID frozen_example = ''c1''"
    by (simp_all add: frozen_example_def example_candidate_def)
  ultimately show ?thesis
    using example_compiles [OF frozen_valid, of u]
    by (simp add: prepare_candidate_def frozen_coordinator_def example_input_def)
qed

lemma exhausted_ok: "actions_ok (st_actions (g_runnable exhausted_generation))"
proof -
  have "id_ok ''operations''" "id_ok ''c1''" "required_ok MaxReferenceLength zero_digest" "\<not> blank ''attempts-exhausted''"
    "\<not> blank ''registry is down''" by code_simp+
  then show ?thesis
    by (simp add: exhausted_generation_def empty_store_def actions_ok_def action_row_ok_def exhausted_row_def row_identity_def
        identity_ok_def example_compiled_def ActionPhase_Valid_def FailureClass_Valid_def)
qed

definition stored_source :: store where
  "stored_source = empty_store \<lparr>st_actions := [exhausted_row],
     st_sources := [\<lparr>so_digest = digest_bytes ''b'', so_archive = ''b'', so_created = seconds 10\<rparr>]\<rparr>"

lemma exhausted_source:
  "StoreRunnableSource example_db frozen_source ''b'' (seconds 10) (g_runnable exhausted_generation) =
     (None, stored_source)"
proof -
  have "runnableArchiveDigest ''b'' = digest_bytes ''b''" by (simp add: runnableArchiveDigest_def digest_bytes_def)
  then show ?thesis
    using frozen_valid
    by (simp add: StoreRunnableSource_def sql_insert_def exhausted_generation_def empty_store_def
        stored_source_def MaxSourceArchiveBytes_def seconds_def) (simp add: frozen_source_def)
qed

lemma exhausted_schedule:
  "\<exists>st. ScheduleMaterialization example_codec example_db (example_compiled frozen_source) 6 (seconds 10) stored_source =
     (Inr (row_identity exhausted_row), st)"
proof -
  have "RunnableSpec_Validate (example_compiled frozen_source) = None"
    using compile_Inr [OF example_compiles [OF frozen_valid, of undefined]] by (auto simp: RunnableSpec_Validate_None)
  then have digest: "RunnableSpec_Digest example_codec (example_compiled frozen_source) = Inr (digest_bytes ''c1'')"
    by (simp add: RunnableSpec_Digest_def check_def example_codec_def example_compiled_def)
  have id: "row_identity exhausted_row = \<lparr>ai_Content = rs_Identity (example_compiled frozen_source),
      ai_SpecDigest = digest_bytes ''c1'', ai_Phase = ActionMaterializeArtifact, ai_StateVersion = 6\<rparr>"
    by (simp add: row_identity_def exhausted_row_def)
  have "action_row_ok exhausted_row"
    using exhausted_ok by (simp add: exhausted_generation_def empty_store_def actions_ok_def)
  then have "ActionIdentity_Validate (row_identity exhausted_row) = None"
    by (simp add: action_row_ok_def ActionIdentity_Validate_None)
  moreover have "sa_Digest (rs_Source (example_compiled frozen_source)) = digest_bytes ''b''"
    by (simp add: example_compiled_def frozen_source_def)
  ultimately show ?thesis
    using digest unfolding id
    by (simp add: ScheduleMaterialization_def StoreRunnableSpec_def insertRunnableSpecTx_def requireRunnableSource_def
        stored_source_def seconds_def fail_if_def Let_def)
qed

lemma exhausted_action:
  "\<exists>st. workflow_action example_platform example_codec frozen_coordinator (example_workflow StateMaterializingArtifact)
     exhausted_generation = Some (row_identity exhausted_row, st)"
proof -
  obtain st where st: "ScheduleMaterialization example_codec example_db (example_compiled frozen_source) 6 (seconds 10)
      stored_source = (Inr (row_identity exhausted_row), st)"
    using exhausted_schedule by blast
  have w: "pf_db example_platform = example_db"
    "wf_ID (example_workflow StateMaterializingArtifact) = ''w1''"
    "wf_StateVersion (example_workflow StateMaterializingArtifact) = 6"
    "wf_State (example_workflow StateMaterializingArtifact) = StateMaterializingArtifact"
    "co_now frozen_coordinator x = seconds 10" for x
    by (simp_all add: example_platform_def example_workflow_def frozen_coordinator_def)
  have "trim ''c1'' = ''c1''" by code_simp
  then have "CandidateForWorkflow exhausted_generation ''w1'' = Inr frozen_example"
    by (simp add: CandidateForWorkflow_def exhausted_generation_def example_generation_def workflow_row_def sql_row_def
        GetCandidateRevision_def candidate_row_def found_def)
      (simp add: example_workflow_def frozen_example_def example_candidate_def)
  then show ?thesis
    using exhausted_source st by (simp add: workflow_action_def scheduled_action_def frozen_prepared w)
qed

lemma failed_action_meets_coordinator_witness:
  "fst (coordinate_workflow example_platform example_codec frozen_coordinator (example_workflow StateMaterializingArtifact)
      exhausted_generation) = None \<and>
   g_workflows (snd (coordinate_workflow example_platform example_codec frozen_coordinator
      (example_workflow StateMaterializingArtifact) exhausted_generation)) = [example_workflow StateMaterializingArtifact]"
proof -
  have w: "g_workflows exhausted_generation = [example_workflow StateMaterializingArtifact]"
    "wf_State (example_workflow StateMaterializingArtifact) = StateMaterializingArtifact"
    "wf_ID (example_workflow StateMaterializingArtifact) = ''w1''"
    by (simp_all add: exhausted_generation_def example_generation_def example_workflow_def)
  have row: "exhausted_row \<in> set (st_actions (g_runnable exhausted_generation))" "aw_state exhausted_row = Failed"
    "aw_class exhausted_row = Some FailureInfrastructure" "st_reports (g_runnable exhausted_generation) = []"
    by (simp_all add: exhausted_generation_def exhausted_row_def empty_store_def)
  have "\<not> blank ''w1''" by code_simp
  then show ?thesis
    using failed_action_meets_coordinator [OF exhausted_ok, of "example_workflow StateMaterializingArtifact" example_platform
        example_codec frozen_coordinator, OF _ _ _ _ prod.collapse [symmetric]] exhausted_action row
    by (fastforce simp: w)
qed

end
