(* ===== verification/WorkspaceOwners.thy ===== *)
theory WorkspaceOwners
  imports WorkspaceStore
begin

section \<open>The owners of the generator's workspaces\<close>

text \<open>
  \<open>internal/adapter/kubernetes/generatorworkspace.go\<close> with the resource of
  \<open>api/v2/generator_workspace_types.go\<close> and the owner projection of \<open>domain/generation/workspace.go\<close>. The
  world of the workspace manager is the database, the stored objects and the log of all calls to other
  systems; what those answer is a function of the log, so that they may behave in any way. Of the
  Kubernetes API the model has what the code relies on: names are unique, an object with finalizers is
  only marked by a deletion, a status patch is validated as the resource definition says, and a call may
  fail with any error and without an effect.
\<close>

subsection \<open>The resource\<close>

datatype WorkspacePhase =
  WorkspacePhasePending | WorkspacePhaseActive | WorkspacePhaseDeleting | WorkspacePhaseOther string

record GeneratorWorkspaceStatus =
  gs_WorkflowID :: string
  gs_Namespace :: string
  gs_PVCName :: string
  gs_SandboxID :: string
  gs_Phase :: WorkspacePhase

record GeneratorWorkspace =
  gw_Name :: string
  gw_UID :: string
  gw_Finalizers :: "string list"
  gw_Terminating :: bool
  gw_Status :: GeneratorWorkspaceStatus

definition GeneratorWorkspaceCleanupFinalizer :: string where
  "GeneratorWorkspaceCleanupFinalizer = ''breakfix.dev/workspace-cleanup''"

text \<open>The validation of the status in the resource definition: minimal lengths, and the three phases.\<close>

definition status_valid :: "GeneratorWorkspaceStatus \<Rightarrow> bool" where
  "status_valid s \<longleftrightarrow> gs_WorkflowID s \<noteq> [] \<and> gs_Namespace s \<noteq> [] \<and> gs_PVCName s \<noteq> [] \<and>
     gs_Phase s \<in> {WorkspacePhasePending, WorkspacePhaseActive, WorkspacePhaseDeleting}"

definition no_status :: GeneratorWorkspaceStatus where
  "no_status = \<lparr>gs_WorkflowID = [], gs_Namespace = [], gs_PVCName = [], gs_SandboxID = [], gs_Phase = WorkspacePhaseOther []\<rparr>"

subsection \<open>The owner as the server sees it\<close>

record WorkspaceOwner =
  ow_ID :: string
  ow_WorkflowID :: string
  ow_Namespace :: string
  ow_PVCName :: string
  ow_SandboxID :: string
  ow_State :: WorkspaceState
  ow_Terminating :: bool

definition Rebuildable :: "WorkspaceOwner \<Rightarrow> bool" where
  "Rebuildable ow \<longleftrightarrow> \<not> blank (ow_ID ow) \<and> \<not> blank (ow_WorkflowID ow) \<and> \<not> blank (ow_Namespace ow) \<and> \<not> blank (ow_PVCName ow)"

record WorkspaceOwnerReference =
  or_APIVersion :: string
  or_Kind :: string
  or_Name :: string
  or_UID :: string

subsection \<open>The world\<close>

datatype api_error = ApiNotFound | ApiAlreadyExists | ApiFailure string

datatype event =
    ApiGet string | ApiCreate string | ApiStatus string | ApiFinalizers string | ApiDelete string | ApiList
  | PVCEnsure string string string string WorkspaceOwnerReference
  | PVCOwner string string WorkspaceOwnerReference
  | SandboxFind string | SandboxCreate string string | SandboxWait string | SandboxReset string string
  | SandboxDelete string | SandboxList

record cluster =
  cl_db :: generation_db
  cl_objects :: "GeneratorWorkspace list"
  cl_log :: "event list"

text \<open>
  The answers, each given the log that ends (at its head) with the call. \<open>we_kept\<close> is what the API keeps
  of the status that a creation sends: nothing, for a resource with the status subresource.
\<close>

record workspace_env =
  we_pf :: platform
  we_fault :: "event list \<Rightarrow> api_error option"
  we_kept :: "GeneratorWorkspaceStatus \<Rightarrow> GeneratorWorkspaceStatus"
  we_uid :: "event list \<Rightarrow> string"
  we_claim :: "event list \<Rightarrow> go_error option"
  we_find :: "event list \<Rightarrow> go_error + string \<times> bool"
  we_create :: "event list \<Rightarrow> go_error + string"
  we_sandbox :: "event list \<Rightarrow> go_error option"
  we_listed :: "event list \<Rightarrow> go_error + string list"
  we_now :: "event list \<Rightarrow> time"
  we_newID :: "event list \<Rightarrow> string"
  we_done :: "event list \<Rightarrow> go_error option"
  we_namespace :: string
  we_storage :: string
  we_timeout :: duration

definition logged :: "event \<Rightarrow> cluster \<Rightarrow> cluster" where
  "logged e w = w \<lparr>cl_log := e # cl_log w\<rparr>"

definition ask :: "(event list \<Rightarrow> 'a) \<Rightarrow> event \<Rightarrow> cluster \<Rightarrow> 'a \<times> cluster" where
  "ask f e w = (f (e # cl_log w), logged e w)"

definition on_db :: "(generation_db \<Rightarrow> 'a \<times> generation_db) \<Rightarrow> cluster \<Rightarrow> 'a \<times> cluster" where
  "on_db f w = (let (v, g) = f (cl_db w) in (v, w \<lparr>cl_db := g\<rparr>))"

subsection \<open>The API\<close>

definition object_of :: "string \<Rightarrow> cluster \<Rightarrow> GeneratorWorkspace option" where
  "object_of i w = sql_row gw_Name i (cl_objects w)"

definition change_object :: "string \<Rightarrow> (GeneratorWorkspace \<Rightarrow> GeneratorWorkspace) \<Rightarrow> cluster \<Rightarrow> cluster" where
  "change_object i f w = w \<lparr>cl_objects := map (\<lambda>ob. if gw_Name ob = i then f ob else ob) (cl_objects w)\<rparr>"

definition drop_object :: "string \<Rightarrow> cluster \<Rightarrow> cluster" where
  "drop_object i w = w \<lparr>cl_objects := filter (\<lambda>ob. gw_Name ob \<noteq> i) (cl_objects w)\<rparr>"

definition client_call :: "workspace_env \<Rightarrow> event \<Rightarrow> (cluster \<Rightarrow> (api_error + 'a) \<times> cluster) \<Rightarrow> cluster \<Rightarrow> (api_error + 'a) \<times> cluster"
where
  "client_call env e f w = (case we_fault env (e # cl_log w) of
     Some err \<Rightarrow> (Inl err, logged e w) | None \<Rightarrow> f (logged e w))"

definition api_get :: "workspace_env \<Rightarrow> string \<Rightarrow> cluster \<Rightarrow> (api_error + GeneratorWorkspace) \<times> cluster" where
  "api_get env i = client_call env (ApiGet i)
     (\<lambda>w. (case object_of i w of None \<Rightarrow> Inl ApiNotFound | Some ob \<Rightarrow> Inr ob, w))"

definition api_create :: "workspace_env \<Rightarrow> GeneratorWorkspace \<Rightarrow> cluster \<Rightarrow> (api_error + GeneratorWorkspace) \<times> cluster" where
  "api_create env ob = client_call env (ApiCreate (gw_Name ob)) (\<lambda>w.
     if object_of (gw_Name ob) w \<noteq> None then (Inl ApiAlreadyExists, w)
     else let created = ob \<lparr>gw_UID := we_uid env (cl_log w), gw_Status := we_kept env (gw_Status ob)\<rparr>
          in (Inr created, w \<lparr>cl_objects := cl_objects w @ [created]\<rparr>))"

text \<open>A merge patch carries the fields that differ between the object read and the object wanted.\<close>

definition merge_status :: "GeneratorWorkspaceStatus \<Rightarrow> GeneratorWorkspaceStatus \<Rightarrow> GeneratorWorkspaceStatus \<Rightarrow> GeneratorWorkspaceStatus"
where
  "merge_status old new s =
     \<lparr>gs_WorkflowID = (if gs_WorkflowID new = gs_WorkflowID old then gs_WorkflowID s else gs_WorkflowID new),
      gs_Namespace = (if gs_Namespace new = gs_Namespace old then gs_Namespace s else gs_Namespace new),
      gs_PVCName = (if gs_PVCName new = gs_PVCName old then gs_PVCName s else gs_PVCName new),
      gs_SandboxID = (if gs_SandboxID new = gs_SandboxID old then gs_SandboxID s else gs_SandboxID new),
      gs_Phase = (if gs_Phase new = gs_Phase old then gs_Phase s else gs_Phase new)\<rparr>"

definition api_patch_status ::
  "workspace_env \<Rightarrow> GeneratorWorkspace \<Rightarrow> GeneratorWorkspaceStatus \<Rightarrow> cluster \<Rightarrow> (api_error + unit) \<times> cluster"
where
  "api_patch_status env read wanted = client_call env (ApiStatus (gw_Name read)) (\<lambda>w.
     case object_of (gw_Name read) w of
       None \<Rightarrow> (Inl ApiNotFound, w)
     | Some ob \<Rightarrow> (let s = merge_status (gw_Status read) wanted (gw_Status ob) in
         if \<not> status_valid s then (Inl (ApiFailure ''invalid status''), w)
         else (Inr (), change_object (gw_Name read) (\<lambda>ob. ob \<lparr>gw_Status := s\<rparr>) w)))"

text \<open>An object that is being deleted disappears with its last finalizer.\<close>

definition api_patch_finalizers ::
  "workspace_env \<Rightarrow> GeneratorWorkspace \<Rightarrow> string list \<Rightarrow> cluster \<Rightarrow> (api_error + unit) \<times> cluster"
where
  "api_patch_finalizers env read finalizers = client_call env (ApiFinalizers (gw_Name read)) (\<lambda>w.
     case object_of (gw_Name read) w of
       None \<Rightarrow> (Inl ApiNotFound, w)
     | Some ob \<Rightarrow>
         if gw_Terminating ob \<and> \<not> set finalizers \<subseteq> set (gw_Finalizers ob)
         then (Inl (ApiFailure ''forbidden: no new finalizers can be added''), w)
         else if gw_Terminating ob \<and> finalizers = [] then (Inr (), drop_object (gw_Name read) w)
         else (Inr (), change_object (gw_Name read) (\<lambda>ob. ob \<lparr>gw_Finalizers := finalizers\<rparr>) w))"

definition api_delete :: "workspace_env \<Rightarrow> string \<Rightarrow> cluster \<Rightarrow> (api_error + unit) \<times> cluster" where
  "api_delete env i = client_call env (ApiDelete i) (\<lambda>w.
     case object_of i w of
       None \<Rightarrow> (Inl ApiNotFound, w)
     | Some ob \<Rightarrow> (Inr (), if gw_Finalizers ob = [] then drop_object i w
         else change_object i (\<lambda>ob. ob \<lparr>gw_Terminating := True\<rparr>) w))"

fun api_text :: "api_error \<Rightarrow> string" where
  "api_text ApiNotFound = ''not found''"
| "api_text ApiAlreadyExists = ''already exists''"
| "api_text (ApiFailure s) = s"

definition api_failed :: "string \<Rightarrow> api_error \<Rightarrow> go_error" where
  "api_failed step e = Wrap step (Msg (api_text e))"

subsection \<open>The operations of the adapter\<close>

definition workspacePhase :: "WorkspaceState \<Rightarrow> WorkspacePhase" where
  "workspacePhase s = (case s of WorkspaceActive \<Rightarrow> WorkspacePhaseActive | WorkspaceDeleting \<Rightarrow> WorkspacePhaseDeleting
     | _ \<Rightarrow> WorkspacePhasePending)"

definition workspaceState :: "WorkspacePhase \<Rightarrow> WorkspaceState" where
  "workspaceState p = (case p of WorkspacePhasePending \<Rightarrow> WorkspacePending | WorkspacePhaseActive \<Rightarrow> WorkspaceActive
     | WorkspacePhaseDeleting \<Rightarrow> WorkspaceDeleting | WorkspacePhaseOther _ \<Rightarrow> WorkspaceStateOther [])"

definition ownerStatus :: "Workspace \<Rightarrow> GeneratorWorkspaceStatus" where
  "ownerStatus r = \<lparr>gs_WorkflowID = ws_WorkflowID r, gs_Namespace = ws_Namespace r, gs_PVCName = ws_PVCName r,
     gs_SandboxID = trim (ws_SandboxID r), gs_Phase = workspacePhase (ws_State r)\<rparr>"

definition newObject :: "Workspace \<Rightarrow> GeneratorWorkspace" where
  "newObject r = \<lparr>gw_Name = ws_ID r, gw_UID = [], gw_Finalizers = [GeneratorWorkspaceCleanupFinalizer],
     gw_Terminating = False, gw_Status = ownerStatus r\<rparr>"

definition ownerReference :: "GeneratorWorkspace \<Rightarrow> WorkspaceOwnerReference" where
  "ownerReference ob = \<lparr>or_APIVersion = ''breakfix.dev/v2'', or_Kind = ''GeneratorWorkspace'', or_Name = gw_Name ob,
     or_UID = gw_UID ob\<rparr>"

definition hasGeneratorWorkspaceFinalizer :: "GeneratorWorkspace \<Rightarrow> bool" where
  "hasGeneratorWorkspaceFinalizer ob \<longleftrightarrow> GeneratorWorkspaceCleanupFinalizer \<in> set (gw_Finalizers ob)"

definition owner_id_required :: go_error where
  "owner_id_required = Msg ''generator workspace owner client and workspace id are required''"

definition ensureFinalizer :: "workspace_env \<Rightarrow> GeneratorWorkspace \<Rightarrow> cluster \<Rightarrow> go_error option \<times> cluster" where
  "ensureFinalizer env ob w =
     (if hasGeneratorWorkspaceFinalizer ob then (None, w)
      else case api_patch_finalizers env ob (gw_Finalizers ob @ [GeneratorWorkspaceCleanupFinalizer]) w of
        (Inl e, w1) \<Rightarrow> (Some (api_failed ''add generator workspace owner finalizer'' e), w1)
      | (Inr _, w1) \<Rightarrow> (None, w1))"

text \<open>
  After a creation that finds the object made meanwhile, the code goes on with the object it tried to
  create: its condition for reading the stored one tests the error of the first read.
\<close>

definition EnsureWorkspaceOwner ::
  "workspace_env \<Rightarrow> Workspace \<Rightarrow> cluster \<Rightarrow> (go_error + WorkspaceOwnerReference) \<times> cluster"
where
  "EnsureWorkspaceOwner env r w =
     (if blank (ws_ID r) then (Inl owner_id_required, w)
      else let (owner, w1) = (case api_get env (ws_ID r) w of
          (Inr ob, w1) \<Rightarrow> (Inr ob, w1)
        | (Inl e, w1) \<Rightarrow>
            if e \<noteq> ApiNotFound then (Inl (api_failed ''get generator workspace owner'' e), w1)
            else (case api_create env (newObject r) w1 of
                (Inr created, w2) \<Rightarrow> (Inr created, w2)
              | (Inl e', w2) \<Rightarrow>
                  if e' \<noteq> ApiAlreadyExists then (Inl (api_failed ''create generator workspace owner'' e'), w2)
                  else (Inr (newObject r), w2)))
      in case owner of
        Inl e \<Rightarrow> (Inl e, w1)
      | Inr ob \<Rightarrow> (case ensureFinalizer env ob w1 of
          (Some e, w2) \<Rightarrow> (Inl e, w2) | (None, w2) \<Rightarrow> (Inr (ownerReference ob), w2)))"

definition RecordWorkspaceOwnerStatus :: "workspace_env \<Rightarrow> Workspace \<Rightarrow> cluster \<Rightarrow> go_error option \<times> cluster" where
  "RecordWorkspaceOwnerStatus env r w =
     (if blank (ws_ID r) then (Some owner_id_required, w)
      else case api_get env (ws_ID r) w of
        (Inl e, w1) \<Rightarrow>
          if e = ApiNotFound
          then (case api_create env (newObject r) w1 of
              (Inl e', w2) \<Rightarrow> (Some (Msg (api_text e')), w2) | (Inr _, w2) \<Rightarrow> (None, w2))
          else (Some (api_failed ''get generator workspace owner'' e), w1)
      | (Inr ob, w1) \<Rightarrow>
          if ownerStatus r = gw_Status ob then (None, w1)
          else (case api_patch_status env ob (ownerStatus r) w1 of
              (Inl e, w2) \<Rightarrow> (Some (api_failed ''patch generator workspace owner status'' e), w2)
            | (Inr _, w2) \<Rightarrow> (None, w2)))"

definition RetireWorkspaceOwner :: "workspace_env \<Rightarrow> string \<Rightarrow> cluster \<Rightarrow> go_error option \<times> cluster" where
  "RetireWorkspaceOwner env i w =
     (if blank i then (Some owner_id_required, w)
      else case api_get env (trim i) w of
        (Inl e, w1) \<Rightarrow>
          if e = ApiNotFound then (None, w1) else (Some (api_failed ''get generator workspace owner'' e), w1)
      | (Inr ob, w1) \<Rightarrow>
          if gs_Phase (gw_Status ob) = WorkspacePhaseDeleting \<or> gw_Terminating ob then (None, w1)
          else (case api_patch_status env ob ((gw_Status ob) \<lparr>gs_Phase := WorkspacePhaseDeleting\<rparr>) w1 of
              (Inl e, w2) \<Rightarrow> (Some (api_failed ''retire generator workspace owner'' e), w2)
            | (Inr _, w2) \<Rightarrow> (None, w2)))"

definition DeleteWorkspaceOwner :: "workspace_env \<Rightarrow> string \<Rightarrow> cluster \<Rightarrow> go_error option \<times> cluster" where
  "DeleteWorkspaceOwner env i w =
     (if blank i then (Some owner_id_required, w)
      else case api_get env (trim i) w of
        (Inl e, w1) \<Rightarrow>
          if e = ApiNotFound then (None, w1) else (Some (api_failed ''get generator workspace owner'' e), w1)
      | (Inr ob, w1) \<Rightarrow>
          (let (removed, w2) = (if hasGeneratorWorkspaceFinalizer ob
               then api_patch_finalizers env ob (filter (\<lambda>f. f \<noteq> GeneratorWorkspaceCleanupFinalizer) (gw_Finalizers ob)) w1
               else (Inr (), w1))
           in case removed of
             Inl e \<Rightarrow> (Some (api_failed ''remove generator workspace owner finalizer'' e), w2)
           | Inr _ \<Rightarrow> (case api_delete env (gw_Name ob) w2 of
               (Inl e, w3) \<Rightarrow>
                 if e = ApiNotFound then (None, w3) else (Some (api_failed ''delete generator workspace owner'' e), w3)
             | (Inr _, w3) \<Rightarrow> (None, w3))))"

definition owner_of :: "GeneratorWorkspace \<Rightarrow> WorkspaceOwner" where
  "owner_of ob = \<lparr>ow_ID = gw_Name ob, ow_WorkflowID = gs_WorkflowID (gw_Status ob), ow_Namespace = gs_Namespace (gw_Status ob),
     ow_PVCName = gs_PVCName (gw_Status ob), ow_SandboxID = gs_SandboxID (gw_Status ob),
     ow_State = workspaceState (gs_Phase (gw_Status ob)), ow_Terminating = gw_Terminating ob\<rparr>"

definition ListWorkspaceOwners :: "workspace_env \<Rightarrow> cluster \<Rightarrow> (go_error + WorkspaceOwner list) \<times> cluster" where
  "ListWorkspaceOwners env w =
     (case client_call env ApiList (\<lambda>w. (Inr (cl_objects w), w)) w of
        (Inl e, w1) \<Rightarrow> (Inl (api_failed ''list generator workspace owners'' e), w1)
      | (Inr objects, w1) \<Rightarrow> (Inr (map owner_of objects), w1))"

end
