(* ===== verification/WorkspaceManager.thy ===== *)
theory WorkspaceManager
  imports WorkspaceOwners
begin

section \<open>The workspace manager and its background passes\<close>

text \<open>
  \<open>internal/application/generation/workspace.go\<close>, \<open>workspace_reaper.go\<close> and \<open>workspace_reconciler.go\<close>:
  provisioning and retiring a workspace, the reaper's pass that retires what is due, the reconciler's pass
  that drops retired workspaces and heals their owners, and the sanitizer of unowned sandboxes. Warnings
  that are only logged leave no trace in the results.
\<close>

abbreviation now_of :: "workspace_env \<Rightarrow> cluster \<Rightarrow> time" where
  "now_of env w \<equiv> we_now env (cl_log w)"

definition canceled :: go_error where
  "canceled = Sentinel ContextCanceled ''context canceled''"

definition deadline_exceeded :: go_error where
  "deadline_exceeded = Sentinel ContextDeadlineExceeded ''context deadline exceeded''"

subsection \<open>Retiring\<close>

definition retireOwner :: "workspace_env \<Rightarrow> string \<Rightarrow> cluster \<Rightarrow> cluster" where
  "retireOwner env i w = snd (RetireWorkspaceOwner env i w)"

definition deleteOwner :: "workspace_env \<Rightarrow> string \<Rightarrow> cluster \<Rightarrow> go_error option \<times> cluster" where
  "deleteOwner env i w = apfst (map_option (Wrap ''delete generator workspace owner'')) (DeleteWorkspaceOwner env i w)"

definition compensateOwner :: "workspace_env \<Rightarrow> Workspace \<Rightarrow> cluster \<Rightarrow> cluster" where
  "compensateOwner env r w =
     snd (RecordWorkspaceOwnerStatus env (r \<lparr>ws_SandboxID := [], ws_State := WorkspacePending\<rparr>) w)"

definition delete_sandbox :: "workspace_env \<Rightarrow> string \<Rightarrow> cluster \<Rightarrow> go_error option \<times> cluster" where
  "delete_sandbox env b = ask (we_sandbox env) (SandboxDelete b)"

definition Manager_Retire :: "workspace_env \<Rightarrow> string \<Rightarrow> cluster \<Rightarrow> go_error option \<times> cluster" where
  "Manager_Retire env workflowID w =
     (case on_db (RetireCurrentGeneratorWorkspace (we_pf env) (trim workflowID) (now_of env w)) w of
        (Inl e, w1) \<Rightarrow> (if err_is e ErrWorkspaceNotFound then None else Some e, w1)
      | (Inr r, w1) \<Rightarrow> (None, retireOwner env (ws_ID r) w1))"

definition Manager_Cleanup :: "workspace_env \<Rightarrow> string \<Rightarrow> cluster \<Rightarrow> go_error option \<times> cluster" where
  "Manager_Cleanup env i w =
     (case on_db (BeginGeneratorWorkspaceCleanup (we_pf env) i (now_of env w)) w of
        (Inl e, w1) \<Rightarrow> (if err_is e ErrWorkspaceNotFound then None else Some e, w1)
      | (Inr r, w1) \<Rightarrow>
          if ws_State r = WorkspaceDeleted then (None, w1) else (None, retireOwner env (ws_ID r) w1))"

fun cleanup_all :: "workspace_env \<Rightarrow> Workspace list \<Rightarrow> cluster \<Rightarrow> go_error option \<times> cluster" where
  "cleanup_all env [] w = (None, w)"
| "cleanup_all env (r # rs) w = (case Manager_Cleanup env (ws_ID r) w of
     (Some e, w1) \<Rightarrow> (Some e, w1) | (None, w1) \<Rightarrow> cleanup_all env rs w1)"

definition CleanupDue :: "workspace_env \<Rightarrow> cluster \<Rightarrow> go_error option \<times> cluster" where
  "CleanupDue env w =
     (case ListExpiredPendingGeneratorWorkspaces (we_pf env) (now_of env w) (cl_db w) of
        Inl e \<Rightarrow> (Some e, w)
      | Inr pending \<Rightarrow> cleanup_all env (pending @ ListDeletingGeneratorWorkspaces (we_pf env) (cl_db w) @
          ListTerminalGeneratorWorkspaces (we_pf env) (cl_db w)) w)"

subsection \<open>Provisioning\<close>

text \<open>
  The context of a provisioning: cancelled from the start when its deadline has passed, timed out when
  it passes, or ended with the caller's. Calls under an ended context fail without an effect.
\<close>

definition provision_error :: "workspace_env \<Rightarrow> time \<Rightarrow> time \<Rightarrow> cluster \<Rightarrow> go_error option" where
  "provision_error env started deadline w =
     (if deadline \<le> started then Some canceled
      else if deadline \<le> now_of env w then Some deadline_exceeded
      else we_done env (cl_log w))"

definition under ::
  "workspace_env \<Rightarrow> time \<Rightarrow> time \<Rightarrow> (cluster \<Rightarrow> (go_error + 'a) \<times> cluster) \<Rightarrow> cluster \<Rightarrow> (go_error + 'a) \<times> cluster"
where
  "under env started deadline f w = (case provision_error env started deadline w of
     Some e \<Rightarrow> (Inl e, w) | None \<Rightarrow> f w)"

definition as_result :: "go_error option \<times> cluster \<Rightarrow> (go_error + unit) \<times> cluster" where
  "as_result r = (case r of (Some e, w) \<Rightarrow> (Inl e, w) | (None, w) \<Rightarrow> (Inr (), w))"

definition wrapping :: "string \<Rightarrow> (go_error + 'a) \<times> cluster \<Rightarrow> (go_error + 'a) \<times> cluster" where
  "wrapping step r = (case r of (Inl e, w) \<Rightarrow> (Inl (Wrap step e), w) | (Inr a, w) \<Rightarrow> (Inr a, w))"

definition next_step ::
  "(go_error + 'a) \<times> cluster \<Rightarrow> ('a \<Rightarrow> cluster \<Rightarrow> (go_error + 'b) \<times> cluster) \<Rightarrow> (go_error + 'b) \<times> cluster"
where
  "next_step r f = (case r of (Inl e, w) \<Rightarrow> (Inl e, w) | (Inr a, w) \<Rightarrow> f a w)"

text \<open>A sandbox that cannot be recorded is deleted again, and the owner is told.\<close>

definition compensated ::
  "workspace_env \<Rightarrow> Workspace \<Rightarrow> string \<Rightarrow> (go_error + unit) \<times> cluster \<Rightarrow> (go_error + unit) \<times> cluster"
where
  "compensated env r b res = (case res of
     (Inr _, w) \<Rightarrow> (Inr (), w)
   | (Inl e, w) \<Rightarrow> (Inl (Wrap ''record generator sandbox'' e), compensateOwner env r (snd (delete_sandbox env b w))))"

text \<open>A pending workspace without a sandbox gets one, and its row and its owner are told.\<close>

definition find_or_create :: "workspace_env \<Rightarrow> time \<Rightarrow> Workspace \<Rightarrow> cluster \<Rightarrow> (go_error + string) \<times> cluster" where
  "find_or_create env started r w =
     next_step (wrapping ''find generator sandbox''
       (under env started (ws_ProvisionDeadline r) (ask (we_find env) (SandboxFind (ws_ID r))) w)) (\<lambda>(b, present) w1.
     if present then (Inr b, w1)
     else wrapping ''create generator sandbox''
       (under env started (ws_ProvisionDeadline r) (ask (we_create env) (SandboxCreate (ws_PVCName r) (ws_ID r))) w1))"

definition obtain_sandbox :: "workspace_env \<Rightarrow> time \<Rightarrow> Workspace \<Rightarrow> cluster \<Rightarrow> (go_error + Workspace) \<times> cluster" where
  "obtain_sandbox env started r w =
     (let ctx = under env started (ws_ProvisionDeadline r) in
      if \<not> blank (ws_SandboxID r) then (Inr r, w)
      else next_step (find_or_create env started r w) (\<lambda>b w1.
        next_step (compensated env r b (under env started (ws_ProvisionDeadline r) (\<lambda>w. as_result
             (on_db (RecordGeneratorWorkspaceSandbox (we_pf env) (ws_ID r) b (now_of env w)) w)) w1)) (\<lambda>_ w2.
        next_step (ctx (\<lambda>w. (GetGeneratorWorkspace (ws_ID r) (cl_db w), w)) w2) (\<lambda>r' w3.
          (Inr r', snd (under env started (ws_ProvisionDeadline r)
             (\<lambda>w. as_result (RecordWorkspaceOwnerStatus env r' w)) w3))))))"

definition ensure_claim ::
  "workspace_env \<Rightarrow> time \<Rightarrow> Workspace \<Rightarrow> WorkspaceOwnerReference \<Rightarrow> cluster \<Rightarrow> (go_error + unit) \<times> cluster"
where
  "ensure_claim env started r reference w = wrapping ''ensure generator workspace pvc''
     (under env started (ws_ProvisionDeadline r) (\<lambda>w. as_result (ask (we_claim env)
        (PVCEnsure (ws_Namespace r) (ws_PVCName r) (ws_WorkflowID r) (we_storage env) reference) w)) w)"

text \<open>No model can see a pending workspace: it is seeded before it becomes active.\<close>

definition wait_and_seed ::
  "workspace_env \<Rightarrow> time \<Rightarrow> time \<Rightarrow> string \<Rightarrow> Workspace \<Rightarrow> cluster \<Rightarrow> (go_error + unit) \<times> cluster"
where
  "wait_and_seed env started deadline seed r w =
     next_step (wrapping ''wait for generator sandbox'' (under env started deadline
       (\<lambda>w. as_result (ask (we_sandbox env) (SandboxWait (ws_SandboxID r)) w)) w)) (\<lambda>_ w1.
     if ws_State r \<noteq> WorkspacePending then (Inr (), w1)
     else wrapping ''seed generator workspace'' (under env started deadline
       (\<lambda>w. as_result (ask (we_sandbox env) (SandboxReset (ws_SandboxID r) seed) w)) w1))"

definition provision :: "workspace_env \<Rightarrow> string \<Rightarrow> Workspace \<Rightarrow> cluster \<Rightarrow> (go_error + Workspace) \<times> cluster" where
  "provision env seed r w =
     (let started = now_of env w; deadline = ws_ProvisionDeadline r in
      next_step (wrapping ''ensure generator workspace owner''
        (under env started deadline (EnsureWorkspaceOwner env r) w)) (\<lambda>reference w1.
      next_step (ensure_claim env started r reference w1) (\<lambda>_ w2.
      next_step (obtain_sandbox env started r w2) (\<lambda>r w3.
      next_step (wait_and_seed env started deadline seed r w3) (\<lambda>_ w4.
      next_step (compensated env r (ws_SandboxID r) (under env started deadline (\<lambda>w. as_result
          (on_db (ActivateGeneratorWorkspace (we_pf env) (ws_ID r) (ws_SandboxID r) (now_of env w)) w)) w4)) (\<lambda>_ w5.
      next_step (GetGeneratorWorkspace (ws_ID r) (cl_db w5), w5) (\<lambda>r w6.
        (Inr r, snd (RecordWorkspaceOwnerStatus env r w6)))))))))"

text \<open>The current workspace of the workflow, or a new one; whether it is new.\<close>

definition new_workspace :: "workspace_env \<Rightarrow> string \<Rightarrow> cluster \<Rightarrow> Workspace" where
  "new_workspace env workflowID w =
     (let i = we_newID env (cl_log w); now = now_of env w in
      \<lparr>ws_ID = i, ws_WorkflowID = workflowID, ws_Namespace = we_namespace env, ws_PVCName = NewWorkspacePVCName i,
       ws_SandboxID = [], ws_ActiveTurnID = [], ws_State = WorkspacePending, ws_ProvisionDeadline = now + we_timeout env,
       ws_IdleSince = None, ws_CreatedAt = now, ws_UpdatedAt = now, ws_DeletedAt = None\<rparr>)"

definition current_or_new ::
  "workspace_env \<Rightarrow> string \<Rightarrow> bool \<Rightarrow> cluster \<Rightarrow> (go_error + Workspace \<times> bool) \<times> cluster"
where
  "current_or_new env workflowID created w =
     (case GetCurrentGeneratorWorkspace (we_pf env) workflowID (cl_db w) of
        Inr r \<Rightarrow> (Inr (r, created), w)
      | Inl e \<Rightarrow>
          if \<not> err_is e ErrWorkspaceNotFound then (Inl e, w)
          else (case on_db (CreateGeneratorWorkspace (we_pf env) (now_of env w) (new_workspace env workflowID w)) w of
              (Inl e', w1) \<Rightarrow> (Inl e', w1) | (Inr r, w1) \<Rightarrow> (Inr (r, True), w1)))"

text \<open>
  Whether the provider still has the sandbox that an active workspace records; a different sandbox under
  the workspace's name is deleted.
\<close>

definition check_binding :: "workspace_env \<Rightarrow> Workspace \<Rightarrow> cluster \<Rightarrow> (go_error + bool) \<times> cluster" where
  "check_binding env r w =
     (case ask (we_find env) (SandboxFind (ws_ID r)) w of
        (Inl e, w1) \<Rightarrow> (Inl (Wrap ''verify generator sandbox'' e), w1)
      | (Inr (b, present), w1) \<Rightarrow>
          if present \<and> trim b = trim (ws_SandboxID r) then (Inr True, w1)
          else if present
          then (case delete_sandbox env b w1 of
              (Some e, w2) \<Rightarrow> (Inl (Wrap ''delete stale generator sandbox'' e), w2) | (None, w2) \<Rightarrow> (Inr False, w2))
          else (Inr False, w1))"

partial_function (option) ensure_loop ::
  "workspace_env \<Rightarrow> string \<Rightarrow> string \<Rightarrow> bool \<Rightarrow> cluster \<Rightarrow> ((go_error + Workspace \<times> bool) \<times> cluster) option"
where
  "ensure_loop env workflowID seed created w = (case current_or_new env workflowID created w of
     (Inl e, w1) \<Rightarrow> Some (Inl e, w1)
   | (Inr (r, created'), w1) \<Rightarrow>
       if ws_State r = WorkspaceDeleted \<or> ws_State r = WorkspaceDeleting
       then Some (Inl (Msg ''generator workspace is deleting or deleted''), w1)
       else if ws_State r = WorkspaceActive \<and> \<not> blank (ws_SandboxID r)
       then (case check_binding env r w1 of
           (Inl e, w2) \<Rightarrow> Some (Inl e, w2)
         | (Inr bound, w2) \<Rightarrow>
             if bound then Some (Inr (r, created'), w2)
             else (case on_db (RetireCurrentGeneratorWorkspace (we_pf env) workflowID (now_of env w2)) w2 of
                (Inl e, w3) \<Rightarrow>
                  if err_is e ErrWorkspaceNotFound then ensure_loop env workflowID seed created' w3
                  else Some (Inl (Wrap ''retire unavailable generator workspace'' e), w3)
              | (Inr _, w3) \<Rightarrow> ensure_loop env workflowID seed created' (retireOwner env (ws_ID r) w3)))
       else Some (case provision env seed r w1 of
           (Inl e, w2) \<Rightarrow> (Inl e, w2) | (Inr r', w2) \<Rightarrow> (Inr (r', created'), w2)))"

definition EnsureFresh ::
  "workspace_env \<Rightarrow> string \<Rightarrow> string \<Rightarrow> cluster \<Rightarrow> ((go_error + Workspace \<times> bool) \<times> cluster) option"
where
  "EnsureFresh env workflowID seed w =
     (if blank workflowID then Some (Inl (Msg ''generation workflow id is required''), w)
      else ensure_loop env (trim workflowID) seed False w)"

definition Manager_Ensure ::
  "workspace_env \<Rightarrow> string \<Rightarrow> string \<Rightarrow> cluster \<Rightarrow> ((go_error + Workspace) \<times> cluster) option"
where
  "Manager_Ensure env workflowID seed w =
     map_option (\<lambda>(r, w'). (case r of Inl e \<Rightarrow> Inl e | Inr (s, _) \<Rightarrow> Inr s, w')) (EnsureFresh env workflowID seed w)"

subsection \<open>Dropping\<close>

definition ownerRecord :: "WorkspaceOwner \<Rightarrow> Workspace" where
  "ownerRecord ow = \<lparr>ws_ID = ow_ID ow, ws_WorkflowID = ow_WorkflowID ow, ws_Namespace = ow_Namespace ow,
     ws_PVCName = ow_PVCName ow, ws_SandboxID = ow_SandboxID ow, ws_ActiveTurnID = [], ws_State = ow_State ow,
     ws_ProvisionDeadline = 0, ws_IdleSince = None, ws_CreatedAt = 0, ws_UpdatedAt = 0, ws_DeletedAt = None\<rparr>"

text \<open>The sandbox that a drop deletes: the one of the row, or of the owner when the row has none.\<close>

definition drop_sandbox :: "WorkspaceOwner \<Rightarrow> Workspace \<Rightarrow> string" where
  "drop_sandbox ow r = (if blank (ws_SandboxID r) then trim (ow_SandboxID ow) else trim (ws_SandboxID r))"

definition dropWorkspace :: "workspace_env \<Rightarrow> WorkspaceOwner \<Rightarrow> Workspace \<Rightarrow> cluster \<Rightarrow> go_error option \<times> cluster" where
  "dropWorkspace env ow r w =
     apfst error_of (
      next_step (if drop_sandbox ow r = [] then (Inr (), w)
        else wrapping ''delete generator sandbox'' (as_result (delete_sandbox env (drop_sandbox ow r) w))) (\<lambda>_ w1.
      next_step (if ws_State r \<noteq> WorkspaceDeleting then (Inr (), w1)
        else as_result (on_db (MarkGeneratorWorkspaceDeleted (we_pf env) (ws_ID r) (now_of env w1)) w1)) (\<lambda>_ w2.
      next_step (wrapping ''ensure generator workspace owner for drop'' (EnsureWorkspaceOwner env (ownerRecord ow) w2)) (\<lambda>reference w3.
      next_step (wrapping ''ensure generator workspace pvc owner''
        (as_result (ask (we_claim env) (PVCOwner (ow_Namespace ow) (ow_PVCName ow) reference) w3))) (\<lambda>_ w4.
      as_result (deleteOwner env (ow_ID ow) w4))))))"

subsection \<open>Adopting\<close>

definition adoptOwner :: "workspace_env \<Rightarrow> WorkspaceOwner \<Rightarrow> cluster \<Rightarrow> go_error option \<times> cluster" where
  "adoptOwner env ow w =
     (case GetGeneratorWorkspace (ow_ID ow) (cl_db w) of
        Inr _ \<Rightarrow> (None, w)
      | Inl e \<Rightarrow>
          if \<not> err_is e ErrWorkspaceNotFound then (Some e, w)
          else if \<not> Rebuildable ow then (None, w)
          else (let now = now_of env w in
            case on_db (CreateGeneratorWorkspace (we_pf env) now ((ownerRecord ow) \<lparr>ws_State := WorkspaceDeleting,
                   ws_ProvisionDeadline := now, ws_CreatedAt := now, ws_UpdatedAt := now\<rparr>)) w of
              (Inl e', w1) \<Rightarrow> (Some (Wrap ''adopt generator workspace owner'' e'), w1)
            | (Inr _, w1) \<Rightarrow> (None, retireOwner env (ow_ID ow) w1)))"

fun each_owner ::
  "workspace_env \<Rightarrow> (WorkspaceOwner \<Rightarrow> cluster \<Rightarrow> go_error option \<times> cluster) \<Rightarrow> WorkspaceOwner list \<Rightarrow> cluster
     \<Rightarrow> go_error option \<times> cluster"
where
  "each_owner env f [] w = (None, w)"
| "each_owner env f (ow # ows) w = (case we_done env (cl_log w) of
     Some e \<Rightarrow> (Some e, w)
   | None \<Rightarrow> (case f ow w of (Some e, w1) \<Rightarrow> (Some e, w1) | (None, w1) \<Rightarrow> each_owner env f ows w1))"

definition AdoptOrphanedOwners :: "workspace_env \<Rightarrow> cluster \<Rightarrow> go_error option \<times> cluster" where
  "AdoptOrphanedOwners env w = (case ListWorkspaceOwners env w of
     (Inl e, w1) \<Rightarrow> (Some e, w1) | (Inr ows, w1) \<Rightarrow> each_owner env (adoptOwner env) ows w1)"

text \<open>\<open>WorkspaceReaper.Recover\<close>\<close>

definition Reaper_Recover :: "workspace_env \<Rightarrow> cluster \<Rightarrow> go_error option \<times> cluster" where
  "Reaper_Recover env w = (case on_db (RetireIncompleteGeneratorWorkspaces (we_pf env) (now_of env w)) w of
     (Inl e, w1) \<Rightarrow> (Some e, w1) | (Inr _, w1) \<Rightarrow> AdoptOrphanedOwners env w1)"

subsection \<open>Reconciling\<close>

definition reconcileOwner :: "workspace_env \<Rightarrow> WorkspaceOwner \<Rightarrow> cluster \<Rightarrow> go_error option \<times> cluster" where
  "reconcileOwner env ow w =
     (if \<not> Rebuildable ow
      then (if ow_Terminating ow then DeleteWorkspaceOwner env (ow_ID ow) w else (None, w))
      else case GetGeneratorWorkspace (ow_ID ow) (cl_db w) of
        Inl e \<Rightarrow> (if err_is e ErrWorkspaceNotFound then None else Some e, w)
      | Inr r \<Rightarrow>
          if ws_State r = WorkspaceDeleting
          then (let (synced, w1) = (if ow_State ow = WorkspaceDeleting then (None, w)
                  else RecordWorkspaceOwnerStatus env r w)
                in case synced of
                  Some e \<Rightarrow> (Some (Wrap ''sync generator workspace owner'' e), w1) | None \<Rightarrow> dropWorkspace env ow r w1)
          else if ws_State r = WorkspaceDeleted then dropWorkspace env ow r w
          else if ow_State ow = WorkspaceDeleting then RecordWorkspaceOwnerStatus env r w
          else (None, w))"

fun backfill :: "workspace_env \<Rightarrow> string list \<Rightarrow> Workspace list \<Rightarrow> cluster \<Rightarrow> go_error option \<times> cluster" where
  "backfill env known [] w = (None, w)"
| "backfill env known (r # rs) w =
     (if ws_ID r \<in> set known then backfill env known rs w
      else case we_done env (cl_log w) of
        Some e \<Rightarrow> (Some e, w)
      | None \<Rightarrow> (case EnsureWorkspaceOwner env r w of
          (Inl e, w1) \<Rightarrow> (Some (Wrap ''backfill generator workspace owner'' e), w1)
        | (Inr _, w1) \<Rightarrow> (case RecordWorkspaceOwnerStatus env r w1 of
            (Some e, w2) \<Rightarrow> (Some (Wrap ''backfill generator workspace owner status'' e), w2)
          | (None, w2) \<Rightarrow> backfill env known rs w2)))"

definition backfillOwners :: "workspace_env \<Rightarrow> string list \<Rightarrow> cluster \<Rightarrow> go_error option \<times> cluster" where
  "backfillOwners env known w = backfill env known
     (ListCurrentGeneratorWorkspaces (we_pf env) (cl_db w) @ ListDeletingGeneratorWorkspaces (we_pf env) (cl_db w)) w"

definition ReconcileOnce :: "workspace_env \<Rightarrow> cluster \<Rightarrow> go_error option \<times> cluster" where
  "ReconcileOnce env w = (case AdoptOrphanedOwners env w of
     (Some e, w1) \<Rightarrow> (Some e, w1)
   | (None, w1) \<Rightarrow> (case ListWorkspaceOwners env w1 of
       (Inl e, w2) \<Rightarrow> (Some e, w2)
     | (Inr ows, w2) \<Rightarrow> (case each_owner env (reconcileOwner env) ows w2 of
         (Some e, w3) \<Rightarrow> (Some e, w3)
       | (None, w3) \<Rightarrow> backfillOwners env (map ow_ID ows) w3)))"

subsection \<open>Unowned sandboxes\<close>

text \<open>\<open>errors.Join\<close> of the deletions that failed: here the first of them.\<close>

fun sanitize :: "workspace_env \<Rightarrow> string list \<Rightarrow> string list \<Rightarrow> go_error option \<Rightarrow> cluster \<Rightarrow> go_error option \<times> cluster" where
  "sanitize env owned [] result w = (result, w)"
| "sanitize env owned (b # bs) result w =
     (if b \<in> set owned then sanitize env owned bs result w
      else case we_done env (cl_log w) of
        Some e \<Rightarrow> (Some e, w)
      | None \<Rightarrow> (case delete_sandbox env b w of
          (Some e, w1) \<Rightarrow> sanitize env owned bs
            (case result of Some r \<Rightarrow> Some r | None \<Rightarrow> Some (Wrap ''delete unowned generator sandbox'' e)) w1
        | (None, w1) \<Rightarrow> sanitize env owned bs result w1))"

definition SanitizeOnce :: "workspace_env \<Rightarrow> cluster \<Rightarrow> go_error option \<times> cluster" where
  "SanitizeOnce env w = (case ask (we_listed env) SandboxList w of
     (Inl e, w1) \<Rightarrow> (Some (Wrap ''list generator sandboxes'' e), w1)
   | (Inr sandboxes, w1) \<Rightarrow> (case ListWorkspaceOwners env w1 of
       (Inl e, w2) \<Rightarrow> (Some e, w2)
     | (Inr ows, w2) \<Rightarrow> sanitize env (filter (\<lambda>b. b \<noteq> []) (map ow_SandboxID ows)) sandboxes None w2))"

definition reconciler_tick :: "workspace_env \<Rightarrow> cluster \<Rightarrow> go_error option \<times> cluster" where
  "reconciler_tick env w = (case ReconcileOnce env w of
     (Some e, w1) \<Rightarrow> (Some e, w1) | (None, w1) \<Rightarrow> SanitizeOnce env w1)"

end
