(* ===== verification/WorkspaceFacts.thy ===== *)
theory WorkspaceFacts
  imports WorkspaceStore GenerationFacts
begin

section \<open>The life of a generator workspace\<close>

text \<open>
  Every method of the repository moves rows only forward, along the order of the states below, and keeps
  the rules that the columns obey; whoever holds the turn of an active workspace keeps it until a method
  that gives it up. The methods are the constructors of one type of operations, so that the properties
  speak of any sequence of them, with other transactions on the other tables in between.
\<close>

subsection \<open>The order of the states\<close>

fun state_rank :: "WorkspaceState \<Rightarrow> nat" where
  "state_rank WorkspacePending = 0"
| "state_rank WorkspaceActive = 1"
| "state_rank WorkspaceDeleting = 2"
| "state_rank WorkspaceDeleted = 3"
| "state_rank (WorkspaceStateOther _) = 0"

instantiation WorkspaceState :: order
begin

definition less_eq_WorkspaceState :: "WorkspaceState \<Rightarrow> WorkspaceState \<Rightarrow> bool" where
  "less_eq_WorkspaceState s t \<longleftrightarrow> s = t \<or> state_rank s < state_rank t"

definition less_WorkspaceState :: "WorkspaceState \<Rightarrow> WorkspaceState \<Rightarrow> bool" where
  "less_WorkspaceState s t \<longleftrightarrow> state_rank s < state_rank t"

instance
  by standard (auto simp: less_eq_WorkspaceState_def less_WorkspaceState_def)

end

subsection \<open>Rows\<close>

definition row_ok :: "Workspace \<Rightarrow> bool" where
  "row_ok s \<longleftrightarrow> WorkspaceState_Known (ws_State s) \<and>
     (ws_ActiveTurnID s \<noteq> [] \<longrightarrow> ws_State s = WorkspaceActive) \<and>
     (ws_IdleSince s \<noteq> None \<longrightarrow> ws_State s = WorkspaceActive \<and> ws_ActiveTurnID s = []) \<and>
     (ws_State s = WorkspaceActive \<longrightarrow> \<not> blank (ws_SandboxID s)) \<and>
     (ws_DeletedAt s \<noteq> None \<longleftrightarrow> ws_State s = WorkspaceDeleted)"

text \<open>What a method may make of a row: its identity and its sandbox stay, its state moves forward.\<close>

definition row_move :: "Workspace \<Rightarrow> Workspace \<Rightarrow> bool" where
  "row_move s s' \<longleftrightarrow> ws_ID s' = ws_ID s \<and> ws_WorkflowID s' = ws_WorkflowID s \<and> ws_Namespace s' = ws_Namespace s \<and>
     ws_PVCName s' = ws_PVCName s \<and> ws_State s \<le> ws_State s' \<and>
     (ws_SandboxID s \<noteq> [] \<longrightarrow> ws_SandboxID s' = ws_SandboxID s) \<and> (row_ok s \<longrightarrow> row_ok s')"

lemma row_move_refl [simp]: "row_move s s"
  by (simp add: row_move_def)

lemma row_move_trans: "row_move a b \<Longrightarrow> row_move b c \<Longrightarrow> row_move a c"
  by (auto simp: row_move_def intro: order_trans)

definition workspaces_ok :: "generation_db \<Rightarrow> bool" where
  "workspaces_ok g \<longleftrightarrow> distinct (map ws_ID (g_workspaces g)) \<and> distinct (map ws_PVCName (g_workspaces g)) \<and>
     list_all row_ok (g_workspaces g) \<and>
     (\<forall>s\<in>set (g_workspaces g). \<forall>t\<in>set (g_workspaces g).
        current s \<and> current t \<and> ws_WorkflowID s = ws_WorkflowID t \<longrightarrow> s = t)"

text \<open>The rows of a table have moved.\<close>

definition table_move :: "generation_db \<Rightarrow> generation_db \<Rightarrow> bool" where
  "table_move g g' \<longleftrightarrow> list_all2 row_move (g_workspaces g) (g_workspaces g')"

lemma table_move_same: "g_workspaces g' = g_workspaces g \<Longrightarrow> table_move g g'"
  by (simp add: table_move_def list.rel_refl)

lemma table_move_refl [simp]: "table_move g g"
  by (simp add: table_move_same)

lemma table_move_trans: "table_move f g \<Longrightarrow> table_move g h \<Longrightarrow> table_move f h"
  unfolding table_move_def by (rule list_all2_trans [of row_move row_move row_move]) (auto intro: row_move_trans)

lemma table_move_update:
  assumes "g_workspaces g' = fst (sql_update P h (g_workspaces g))"
    "\<And>s. s \<in> set (g_workspaces g) \<Longrightarrow> P s \<Longrightarrow> row_move s (h s)"
  shows "table_move g g'"
  unfolding table_move_def assms(1) using assms(2) by (auto simp: sql_update_def list.rel_map intro!: list.rel_refl_strong)

lemma table_move_row:
  assumes "table_move g g'" "workspace_row i g = Some s"
  obtains s' where "workspace_row i g' = Some s'" "row_move s s'"
proof -
  have "list_all2 row_move t t' \<Longrightarrow> sql_row ws_ID i t = Some s \<Longrightarrow> \<exists>s'. sql_row ws_ID i t' = Some s' \<and> row_move s s'" for t t'
    by (induction rule: list_all2_induct) (auto simp: sql_row_def row_move_def split: if_splits)
  then show thesis using assms that by (auto simp: table_move_def workspace_row_def)
qed

lemma row_move_current: "row_move s s' \<Longrightarrow> row_ok s \<Longrightarrow> current s' \<Longrightarrow> current s"
  by (cases "ws_State s"; cases "ws_State s'")
    (auto simp: row_move_def current_def less_eq_WorkspaceState_def row_ok_def WorkspaceState_Known_def)

lemma table_move_ok:
  assumes "table_move g g'" "workspaces_ok g"
  shows "workspaces_ok g'"
proof -
  let ?t = "g_workspaces g" and ?t' = "g_workspaces g'"
  have m: "list_all2 row_move ?t ?t'" using assms(1) by (simp add: table_move_def)
  have "map ws_ID ?t' = map ws_ID ?t \<and> map ws_PVCName ?t' = map ws_PVCName ?t \<and>
      (list_all row_ok ?t \<longrightarrow> list_all row_ok ?t')"
    using m by (induction rule: list_all2_induct) (auto simp: row_move_def)
  moreover have "s' = t'"
    if c: "s' \<in> set ?t'" "t' \<in> set ?t'" "current s'" "current t'" "ws_WorkflowID s' = ws_WorkflowID t'" for s' t'
  proof -
    have ok: "\<forall>s\<in>set ?t. row_ok s" using assms(2) by (simp add: workspaces_ok_def list_all_iff)
    obtain i where i: "i < length ?t'" "s' = ?t' ! i" using c(1) by (metis in_set_conv_nth)
    obtain j where j: "j < length ?t'" "t' = ?t' ! j" using c(2) by (metis in_set_conv_nth)
    have len: "length ?t' = length ?t" using m by (simp add: list_all2_lengthD)
    have "row_move (?t ! i) s'" "row_move (?t ! j) t'" using m i j len by (auto simp: list_all2_conv_all_nth)
    moreover have "?t ! i \<in> set ?t" "?t ! j \<in> set ?t" using i j len by auto
    moreover from calculation have "current (?t ! i)" "current (?t ! j)" "ws_WorkflowID (?t ! i) = ws_WorkflowID (?t ! j)"
      using row_move_current [OF _ _ c(3)] row_move_current [OF _ _ c(4)] ok c(5) by (auto simp: row_move_def)
    ultimately have "?t ! i = ?t ! j" using assms(2) by (simp add: workspaces_ok_def)
    moreover have "distinct ?t" using assms(2) by (simp add: workspaces_ok_def distinct_map)
    ultimately have "i = j" using i j len nth_eq_iff_index_eq by metis
    then show ?thesis using i j by simp
  qed
  ultimately show ?thesis using assms(2) by (auto simp: workspaces_ok_def)
qed

subsection \<open>Operations\<close>

datatype workspace_op =
    CreateOp time Workspace
  | AcquireOp string string time
  | ReleaseOp string string time
  | RecordOp string string time
  | ActivateOp string string time
  | CleanupOp string time
  | RetireOp string time
  | RetireIncompleteOp time
  | DeletedOp string time
  | AcquireSnapshotOp string string time
  | PublishSnapshotOp string string string time
  | ClearSnapshotOp string string time
  | RetireIdleOp string string time time
  | SubmitOp string string CandidateSubmission Candidate time
  | OtherOp generation_db

text \<open>\<open>OtherOp\<close> is any transaction that leaves the workspaces alone, here by the tables it ends with.\<close>

fun run_op :: "platform \<Rightarrow> workspace_op \<Rightarrow> generation_db \<Rightarrow> generation_db" where
  "run_op pf (CreateOp clock r) g = snd (CreateGeneratorWorkspace pf clock r g)"
| "run_op pf (AcquireOp w t now) g = snd (AcquireGeneratorWorkspaceTurn pf w t now g)"
| "run_op pf (ReleaseOp w t now) g = snd (ReleaseGeneratorWorkspaceTurn pf w t now g)"
| "run_op pf (RecordOp i b now) g = snd (RecordGeneratorWorkspaceSandbox pf i b now g)"
| "run_op pf (ActivateOp i b now) g = snd (ActivateGeneratorWorkspace pf i b now g)"
| "run_op pf (CleanupOp i now) g = snd (BeginGeneratorWorkspaceCleanup pf i now g)"
| "run_op pf (RetireOp w now) g = snd (RetireCurrentGeneratorWorkspace pf w now g)"
| "run_op pf (RetireIncompleteOp now) g = snd (RetireIncompleteGeneratorWorkspaces pf now g)"
| "run_op pf (DeletedOp i now) g = snd (MarkGeneratorWorkspaceDeleted pf i now g)"
| "run_op pf (AcquireSnapshotOp w h now) g = snd (AcquireGeneratorWorkspaceSnapshot pf w h now g)"
| "run_op pf (PublishSnapshotOp i h d now) g = snd (PublishGeneratorWorkspaceSnapshot pf i h d now g)"
| "run_op pf (ClearSnapshotOp w d now) g = snd (ClearGeneratorWorkspaceSnapshot pf w d now g)"
| "run_op pf (RetireIdleOp i d before now) g = snd (RetireIdleGeneratorWorkspace pf i d before now g)"
| "run_op pf (SubmitOp s u sub c now) g = snd (SubmitGenerationCandidate pf s u sub c now g)"
| "run_op pf (OtherOp h) g = h \<lparr>g_workspaces := g_workspaces g\<rparr>"

text \<open>A workspace is created pending, or adopted as deleting from its owner.\<close>

fun op_sane :: "workspace_op \<Rightarrow> bool" where
  "op_sane (CreateOp _ r) \<longleftrightarrow> (ws_State r = WorkspacePending \<or> ws_State r = WorkspaceDeleting) \<and>
     ws_ActiveTurnID r = [] \<and> ws_IdleSince r = None"
| "op_sane _ \<longleftrightarrow> True"

text \<open>The operations that take the bound turn from a row.\<close>

fun gives_up :: "workspace_op \<Rightarrow> Workspace \<Rightarrow> bool" where
  "gives_up (ReleaseOp w t _) s \<longleftrightarrow> ws_WorkflowID s = w \<and> ws_ActiveTurnID s = t"
| "gives_up (SubmitOp _ _ sub _ _) s \<longleftrightarrow> ws_ActiveTurnID s = csu_TurnID sub"
| "gives_up (PublishSnapshotOp i h _ _) s \<longleftrightarrow> ws_ID s = i \<and> ws_ActiveTurnID s = h"
| "gives_up (CleanupOp i _) s \<longleftrightarrow> ws_ID s = i"
| "gives_up (RetireOp w _) s \<longleftrightarrow> ws_WorkflowID s = w"
| "gives_up (RetireIncompleteOp _) s \<longleftrightarrow> True"
| "gives_up _ _ \<longleftrightarrow> False"

definition op_row :: "workspace_op \<Rightarrow> Workspace \<Rightarrow> Workspace \<Rightarrow> bool" where
  "op_row op s s' \<longleftrightarrow> row_move s s' \<and>
     (ws_ActiveTurnID s \<noteq> [] \<longrightarrow> ws_ActiveTurnID s' = ws_ActiveTurnID s \<or> gives_up op s)"

lemma op_row_refl [simp]: "op_row op s s"
  by (simp add: op_row_def)

definition op_table :: "workspace_op \<Rightarrow> generation_db \<Rightarrow> generation_db \<Rightarrow> bool" where
  "op_table op g g' \<longleftrightarrow> list_all2 (op_row op) (g_workspaces g) (g_workspaces g')"

lemma op_table_same: "g_workspaces g' = g_workspaces g \<Longrightarrow> op_table op g g'"
  by (simp add: op_table_def list.rel_refl)

lemma op_table_update:
  assumes "g_workspaces g' = fst (sql_update P h (g_workspaces g))"
    "\<And>s. s \<in> set (g_workspaces g) \<Longrightarrow> P s \<Longrightarrow> op_row op s (h s)"
  shows "op_table op g g'"
  unfolding op_table_def assms(1) using assms(2) by (auto simp: sql_update_def list.rel_map intro!: list.rel_refl_strong)

lemma op_table_move: "op_table op g g' \<Longrightarrow> table_move g g'"
  by (auto simp: op_table_def table_move_def op_row_def elim!: list.rel_mono_strong)

lemma update_rows_simps [simp]:
  "g_workspaces (update_workspace P f g) = fst (sql_update P f (g_workspaces g))"
  by (simp add: update_workspace_def)

lemma workspaces_row_ok: "workspaces_ok g \<Longrightarrow> s \<in> set (g_workspaces g) \<Longrightarrow> row_ok s"
  by (simp add: workspaces_ok_def list_all_iff)

lemma same_workspace:
  "workspaces_ok g \<Longrightarrow> s \<in> set (g_workspaces g) \<Longrightarrow> r \<in> set (g_workspaces g) \<Longrightarrow> ws_ID s = ws_ID r \<Longrightarrow> s = r"
  unfolding workspaces_ok_def by (metis distinct_map inj_onD)

lemma newest_workspace_in: "newest_workspace pf P g = Some r \<Longrightarrow> r \<in> set (g_workspaces g) \<and> P r"
  by (auto simp: newest_workspace_def dest: sql_first_Some)

lemma workspace_row_in: "workspace_row i g = Some r \<Longrightarrow> r \<in> set (g_workspaces g) \<and> ws_ID r = i"
  by (auto simp: workspace_row_def dest: sql_row_Some)

lemma retire_move:
  assumes "row_ok s" "ws_State s \<noteq> WorkspaceDeleted" shows "row_move s (retire at s)"
  using assms by (cases "ws_State s")
    (auto simp: row_move_def retire_def row_ok_def WorkspaceState_Known_def less_eq_WorkspaceState_def)

lemma bind_move: "row_ok s \<Longrightarrow> ws_State s = WorkspaceActive \<Longrightarrow> row_move s (bind_turn t at s)"
  by (auto simp: row_move_def bind_turn_def row_ok_def)

text \<open>One row, found before, is changed by its id.\<close>

lemma op_table_by_id:
  assumes "workspaces_ok g" "r \<in> set (g_workspaces g)" "op_row op r (h r)"
    "g_workspaces g' = fst (sql_update (\<lambda>s. ws_ID s = ws_ID r \<and> Q s) h (g_workspaces g))"
  shows "op_table op g g'"
  using same_workspace [OF assms(1) _ assms(2)] assms(3) by (intro op_table_update [OF assms(4)]) auto

lemma op_table_id:
  assumes "workspaces_ok g" "r \<in> set (g_workspaces g)" "op_row op r (h r)"
    "g_workspaces g' = fst (sql_update (\<lambda>s. ws_ID s = ws_ID r) h (g_workspaces g))"
  shows "op_table op g g'"
  using same_workspace [OF assms(1) _ assms(2)] assms(3) by (intro op_table_update [OF assms(4)]) auto

lemma op_table_tx:
  assumes "\<And>v g'. body = Inr (v, g') \<Longrightarrow> op_table op g g'"
  shows "op_table op g (snd (tx g body))"
  using assms by (cases body) (auto simp: op_table_same)

lemma retire_op_row:
  "row_ok s \<Longrightarrow> ws_State s \<noteq> WorkspaceDeleted \<Longrightarrow> ws_ActiveTurnID s = [] \<or> gives_up op s \<Longrightarrow> op_row op s (retire at s)"
  using retire_move [of s at] by (auto simp: op_row_def retire_def)

lemma op_table_retire:
  assumes "workspaces_ok g" "r \<in> set (g_workspaces g)" "ws_State r \<noteq> WorkspaceDeleted"
    "ws_ActiveTurnID r = [] \<or> gives_up op r"
  shows "op_table op g (retire_row pf now r g)"
  using workspaces_row_ok [OF assms(1,2)] assms(3,4)
  by (intro op_table_id [OF assms(1,2), where h = "retire (pf_ts pf now)"] retire_op_row) (auto simp: retire_row_def)

lemma acquire_table:
  assumes "workspaces_ok g"
  shows "op_table (AcquireOp w t now) g (snd (AcquireGeneratorWorkspaceTurn pf w t now g))"
  unfolding AcquireGeneratorWorkspaceTurn_def
proof (rule op_table_tx)
  fix v g' assume a: "(if \<not> WorkspaceTurn_Valid w t \<or> now = 0 then Inl workspace_turn_lost
      else and_then (found workspace_not_found (newest_workspace pf (\<lambda>s. ws_WorkflowID s = w \<and>
             ws_State s = WorkspaceActive) g)) (\<lambda>r.
        if ws_ActiveTurnID r \<noteq> [] \<and> ws_ActiveTurnID r \<noteq> t then Inl workspace_busy
        else if ws_ActiveTurnID r = []
        then Inr (bind_turn t now r, update_workspace (\<lambda>s. ws_ID s = ws_ID r) (bind_turn t (pf_ts pf now)) g)
        else Inr (r, g))) = Inr (v, g')"
  then obtain r where n: "newest_workspace pf (\<lambda>s. ws_WorkflowID s = w \<and> ws_State s = WorkspaceActive) g = Some r"
    and c: "g' = g \<or> (ws_ActiveTurnID r = [] \<and> g' = update_workspace (\<lambda>s. ws_ID s = ws_ID r) (bind_turn t (pf_ts pf now)) g)"
    by (auto simp: and_then_Inr_iff found_Inr split: if_splits)
  note r = newest_workspace_in [OF n]
  then have "row_move r (bind_turn t (pf_ts pf now) r)" using workspaces_row_ok [OF assms] by (auto intro: bind_move)
  then show "op_table (AcquireOp w t now) g g'"
    using c r by (elim disjE) (auto simp: op_row_def intro: op_table_same op_table_id [OF assms])
qed

lemma release_table:
  assumes "workspaces_ok g"
  shows "op_table (ReleaseOp w t now) g (snd (ReleaseGeneratorWorkspaceTurn pf w t now g))"
proof (cases "\<not> WorkspaceTurn_Valid w t \<or> now = 0")
  case True
  then show ?thesis by (auto simp: ReleaseGeneratorWorkspaceTurn_def intro: op_table_same)
next
  case False
  then show ?thesis
    using workspaces_row_ok [OF assms]
    by (intro op_table_update [where h = "bind_turn [] (pf_ts pf now)"
          and P = "\<lambda>s. ws_WorkflowID s = w \<and> ws_State s = WorkspaceActive \<and> ws_ActiveTurnID s = t"])
      (auto simp: ReleaseGeneratorWorkspaceTurn_def Let_def op_row_def intro: bind_move split: prod.split)
qed

lemma record_table:
  assumes "workspaces_ok g"
  shows "op_table (RecordOp i b now) g (snd (RecordGeneratorWorkspaceSandbox pf i b now g))"
proof (cases "blank i \<or> blank b \<or> now = 0")
  case True
  then show ?thesis by (auto simp: RecordGeneratorWorkspaceSandbox_def intro: op_table_same)
next
  case False
  let ?P = "\<lambda>s. ws_ID s = i \<and> ws_State s = WorkspacePending \<and> (ws_SandboxID s = [] \<or> ws_SandboxID s = b)"
  let ?h = "\<lambda>s. s \<lparr>ws_SandboxID := b, ws_UpdatedAt := pf_ts pf now\<rparr>"
  have eq: "g_workspaces (snd (RecordGeneratorWorkspaceSandbox pf i b now g)) = fst (sql_update ?P ?h (g_workspaces g))"
    using False by (auto simp: RecordGeneratorWorkspaceSandbox_def Let_def split: prod.split sum.split)
  show ?thesis
    using workspaces_row_ok [OF assms] by (intro op_table_update [OF eq]) (auto simp: op_row_def row_move_def row_ok_def)
qed

lemma activate_table:
  assumes "workspaces_ok g"
  shows "op_table (ActivateOp i b now) g (snd (ActivateGeneratorWorkspace pf i b now g))"
proof (cases "blank i \<or> blank b \<or> now = 0")
  case True
  then show ?thesis by (auto simp: ActivateGeneratorWorkspace_def intro: op_table_same)
next
  case False
  let ?P = "\<lambda>s. ws_ID s = i \<and> current s \<and> (ws_SandboxID s = [] \<or> ws_SandboxID s = b)"
  let ?h = "\<lambda>s. s \<lparr>ws_SandboxID := b, ws_State := WorkspaceActive, ws_UpdatedAt := pf_ts pf now\<rparr>"
  have eq: "g_workspaces (snd (ActivateGeneratorWorkspace pf i b now g)) = fst (sql_update ?P ?h (g_workspaces g))"
    using False by (auto simp: ActivateGeneratorWorkspace_def Let_def split: prod.split sum.split)
  have "row_move s (?h s)" if "row_ok s" "?P s" for s
    using that False by (auto simp: row_move_def row_ok_def current_def less_eq_WorkspaceState_def WorkspaceState_Known_def)
  then show ?thesis
    using workspaces_row_ok [OF assms] by (intro op_table_update [OF eq]) (auto simp: op_row_def)
qed

lemma cleanup_table:
  assumes "workspaces_ok g"
  shows "op_table (CleanupOp i now) g (snd (BeginGeneratorWorkspaceCleanup pf i now g))"
  unfolding BeginGeneratorWorkspaceCleanup_def
proof (rule op_table_tx)
  fix v g' assume "(if blank i \<or> now = 0 then Inl (Msg ''generator workspace id and current time are required'')
      else and_then (found workspace_not_found (workspace_row i g)) (\<lambda>r.
        if ws_State r \<noteq> WorkspaceDeleted \<and> ws_State r \<noteq> WorkspaceDeleting
        then Inr (retire now r, retire_row pf now r g) else Inr (r, g))) = Inr (v, g')"
  then obtain r where n: "workspace_row i g = Some r"
    and c: "g' = g \<or> (ws_State r \<noteq> WorkspaceDeleted \<and> g' = retire_row pf now r g)"
    by (auto simp: and_then_Inr_iff found_Inr split: if_splits)
  note r = workspace_row_in [OF n]
  show "op_table (CleanupOp i now) g g'"
    using c r by (elim disjE) (auto intro: op_table_same op_table_retire [OF assms])
qed

lemma retire_table:
  assumes "workspaces_ok g"
  shows "op_table (RetireOp w now) g (snd (RetireCurrentGeneratorWorkspace pf w now g))"
  unfolding RetireCurrentGeneratorWorkspace_def
proof (rule op_table_tx)
  fix v g' assume "(if blank w \<or> now = 0 then Inl (Msg ''generation workflow id and current time are required'')
      else and_then (found workspace_not_found (newest_workspace pf (\<lambda>s. ws_WorkflowID s = w \<and> current s) g))
        (\<lambda>r. Inr (retire now r, retire_row pf now r g))) = Inr (v, g')"
  then obtain r where n: "newest_workspace pf (\<lambda>s. ws_WorkflowID s = w \<and> current s) g = Some r"
    and c: "g' = retire_row pf now r g"
    by (auto simp: and_then_Inr_iff found_Inr split: if_splits)
  note r = newest_workspace_in [OF n]
  show "op_table (RetireOp w now) g g'"
    unfolding c using r by (intro op_table_retire [OF assms]) (auto simp: current_def)
qed

lemma retire_all_table:
  assumes "workspaces_ok g"
    "\<forall>r\<in>set records. \<exists>s\<in>set (g_workspaces g). ws_ID s = ws_ID r \<and> ws_State s \<noteq> WorkspaceDeleted"
  shows "table_move g (foldl (\<lambda>g r. retire_row pf now r g) g records)"
  using assms
proof (induction records arbitrary: g)
  case (Cons r records)
  let ?g = "retire_row pf now r g"
  obtain s where s: "s \<in> set (g_workspaces g)" "ws_ID s = ws_ID r" "ws_State s \<noteq> WorkspaceDeleted"
    using Cons.prems(2) by auto
  then have "retire_row pf now r g = retire_row pf now s g" by (simp add: retire_row_def)
  then have m: "table_move g ?g"
    using op_table_retire [OF Cons.prems(1) s(1,3), of "RetireIncompleteOp now"] by (auto intro: op_table_move)
  have "\<exists>s\<in>set (g_workspaces ?g). ws_ID s = ws_ID q \<and> ws_State s \<noteq> WorkspaceDeleted" if q: "q \<in> set records" for q
  proof -
    obtain t where t: "t \<in> set (g_workspaces g)" "ws_ID t = ws_ID q" "ws_State t \<noteq> WorkspaceDeleted"
      using Cons.prems(2) q by auto
    let ?t = "if ws_ID t = ws_ID r then retire (pf_ts pf now) t else t"
    have "?t \<in> set (g_workspaces ?g)" using t(1) by (auto simp: retire_row_def sql_update_def)
    moreover have "ws_ID ?t = ws_ID q" "ws_State ?t \<noteq> WorkspaceDeleted" using t by (auto simp: retire_def)
    ultimately show ?thesis by blast
  qed
  then have "table_move ?g (foldl (\<lambda>g r. retire_row pf now r g) ?g records)"
    using table_move_ok [OF m Cons.prems(1)] by (intro Cons.IH) auto
  then show ?case using table_move_trans [OF m] by simp
qed simp

lemma incomplete_table:
  assumes "workspaces_ok g"
  shows "op_table (RetireIncompleteOp now) g (snd (RetireIncompleteGeneratorWorkspaces pf now g))"
proof -
  have "\<forall>r\<in>set (incomplete_workspaces pf g). \<exists>s\<in>set (g_workspaces g). ws_ID s = ws_ID r \<and> ws_State s \<noteq> WorkspaceDeleted"
    by (auto simp: incomplete_workspaces_def set_sort_by current_def)
  from retire_all_table [OF assms this, of pf now] have "op_table (RetireIncompleteOp now) g
      (foldl (\<lambda>g r. retire_row pf now r g) g (incomplete_workspaces pf g))"
    by (auto simp: op_table_def table_move_def op_row_def elim!: list.rel_mono_strong)
  then show ?thesis by (auto simp: RetireIncompleteGeneratorWorkspaces_def Let_def op_table_same)
qed

lemma deleted_table:
  assumes "workspaces_ok g"
  shows "op_table (DeletedOp i now) g (snd (MarkGeneratorWorkspaceDeleted pf i now g))"
proof (cases "blank i \<or> now = 0")
  case True
  then show ?thesis by (auto simp: MarkGeneratorWorkspaceDeleted_def intro: op_table_same)
next
  case False
  let ?P = "\<lambda>s. ws_ID s = i \<and> (ws_State s = WorkspaceDeleting \<or> ws_State s = WorkspaceDeleted)"
  let ?h = "\<lambda>s. s \<lparr>ws_State := WorkspaceDeleted, ws_UpdatedAt := pf_ts pf now, ws_DeletedAt := Some (pf_ts pf now)\<rparr>"
  have eq: "g_workspaces (snd (MarkGeneratorWorkspaceDeleted pf i now g)) = fst (sql_update ?P ?h (g_workspaces g))"
    using False by (auto simp: MarkGeneratorWorkspaceDeleted_def Let_def split: prod.split)
  have "row_move s (?h s)" if "row_ok s" "?P s" for s
    using that by (auto simp: row_move_def row_ok_def less_eq_WorkspaceState_def WorkspaceState_Known_def)
  then show ?thesis
    using workspaces_row_ok [OF assms] by (intro op_table_update [OF eq]) (auto simp: op_row_def)
qed

lemma acquire_snapshot_table:
  assumes "workspaces_ok g"
  shows "op_table (AcquireSnapshotOp w h now) g (snd (AcquireGeneratorWorkspaceSnapshot pf w h now g))"
proof -
  let ?r = "AcquireGeneratorWorkspaceSnapshot pf w h now g"
  have "snd ?r = g \<or> (\<exists>r\<in>set (g_workspaces g). ws_State r = WorkspaceActive \<and> ws_ActiveTurnID r = [] \<and>
      snd ?r = update_workspace (\<lambda>s. ws_ID s = ws_ID r) (bind_turn h (pf_ts pf now)) g)"
  proof (cases ?r)
    case (Pair v g')
    then show ?thesis
      by (cases v) (auto simp: AcquireGeneratorWorkspaceSnapshot_def tx_Inr tx_Inl and_then_Inr_iff found_Inr
          split: if_splits dest!: newest_workspace_in)
  qed
  then show ?thesis
  proof
    assume "\<exists>r\<in>set (g_workspaces g). ws_State r = WorkspaceActive \<and> ws_ActiveTurnID r = [] \<and>
      snd ?r = update_workspace (\<lambda>s. ws_ID s = ws_ID r) (bind_turn h (pf_ts pf now)) g"
    then obtain r where r: "r \<in> set (g_workspaces g)" "ws_State r = WorkspaceActive" "ws_ActiveTurnID r = []"
      "snd ?r = update_workspace (\<lambda>s. ws_ID s = ws_ID r) (bind_turn h (pf_ts pf now)) g" by blast
    have "op_row (AcquireSnapshotOp w h now) r (bind_turn h (pf_ts pf now) r)"
      using r bind_move [OF workspaces_row_ok [OF assms r(1)]] by (simp add: op_row_def)
    then show ?thesis by (rule op_table_id [OF assms r(1)]) (simp add: r(4))
  qed (simp add: op_table_same)
qed

lemma publish_snapshot_table:
  assumes "workspaces_ok g"
  shows "op_table (PublishSnapshotOp i h d now) g (snd (PublishGeneratorWorkspaceSnapshot pf i h d now g))"
  unfolding run_op.simps PublishGeneratorWorkspaceSnapshot_def
proof (rule op_table_tx)
  fix v g' assume a: "(if blank i \<or> blank h \<or> \<not> ValidDigest d \<or> now = 0 then Inl workspace_turn_lost
      else and_then (found workspace_turn_lost (workspace_row i g)) (\<lambda>owner.
        and_then (locked_generating workspace_turn_lost (ws_WorkflowID owner) g) (\<lambda>w.
        and_then (found workspace_turn_lost (workspace_row i g)) (\<lambda>r.
        if ws_WorkflowID r \<noteq> wf_ID w \<or> ws_State r \<noteq> WorkspaceActive \<or> ws_ActiveTurnID r \<noteq> h
        then Inl workspace_turn_lost
        else let idleSince = (case ws_IdleSince r of
                   Some t \<Rightarrow> if wf_WorkspaceSnapshotDigest w = d then t else now | None \<Rightarrow> now) in
          Inr ((), update_workspace (\<lambda>s. ws_ID s = ws_ID r \<and> ws_ActiveTurnID s = h)
                 (\<lambda>s. s \<lparr>ws_ActiveTurnID := [], ws_IdleSince := Some (pf_ts pf idleSince), ws_UpdatedAt := pf_ts pf now\<rparr>)
               (update_workflow (wf_ID w) (set_snapshot d (pf_ts pf now)) g)))))) = Inr (v, g')"
  then obtain r since where n: "workspace_row i g = Some r" and r: "ws_State r = WorkspaceActive" "ws_ActiveTurnID r = h"
    and eq: "g_workspaces g' = fst (sql_update (\<lambda>s. ws_ID s = ws_ID r \<and> ws_ActiveTurnID s = h)
       (\<lambda>s. s \<lparr>ws_ActiveTurnID := [], ws_IdleSince := Some since, ws_UpdatedAt := pf_ts pf now\<rparr>) (g_workspaces g))"
    by (auto simp: and_then_Inr_iff found_Inr Let_def split: if_splits)
  note mem = workspace_row_in [OF n]
  have "op_row (PublishSnapshotOp i h d now) r
      (r \<lparr>ws_ActiveTurnID := [], ws_IdleSince := Some since, ws_UpdatedAt := pf_ts pf now\<rparr>)"
    using r mem workspaces_row_ok [OF assms, of r] by (auto simp: op_row_def row_move_def row_ok_def)
  then show "op_table (PublishSnapshotOp i h d now) g g'" using mem by (intro op_table_by_id [OF assms _ _ eq]) auto
qed

lemma clear_snapshot_table:
  assumes "workspaces_ok g"
  shows "op_table (ClearSnapshotOp w d now) g (snd (ClearGeneratorWorkspaceSnapshot pf w d now g))"
proof -
  let ?r = "ClearGeneratorWorkspaceSnapshot pf w d now g"
  let ?h = "\<lambda>s. s \<lparr>ws_IdleSince := None, ws_UpdatedAt := pf_ts pf now\<rparr>"
  have "snd ?r = g \<or> (\<exists>i. g_workspaces (snd ?r) = fst (sql_update
      (\<lambda>s. ws_WorkflowID s = i \<and> ws_State s = WorkspaceActive) ?h (g_workspaces g)))"
  proof (cases ?r)
    case (Pair v g')
    then show ?thesis
      by (cases v) (auto simp: ClearGeneratorWorkspaceSnapshot_def tx_Inr tx_Inl and_then_Inr_iff found_Inr
          split: if_splits option.splits)
  qed
  then show ?thesis
  proof
    assume "\<exists>i. g_workspaces (snd ?r) = fst (sql_update
      (\<lambda>s. ws_WorkflowID s = i \<and> ws_State s = WorkspaceActive) ?h (g_workspaces g))"
    then obtain i where eq: "g_workspaces (snd ?r) = fst (sql_update
      (\<lambda>s. ws_WorkflowID s = i \<and> ws_State s = WorkspaceActive) ?h (g_workspaces g))" by blast
    show ?thesis using workspaces_row_ok [OF assms]
      by (intro op_table_update [OF eq]) (auto simp: op_row_def row_move_def row_ok_def)
  qed (simp add: op_table_same)
qed

lemma retire_idle_table:
  assumes "workspaces_ok g"
  shows "op_table (RetireIdleOp i d before now) g (snd (RetireIdleGeneratorWorkspace pf i d before now g))"
proof -
  let ?r = "RetireIdleGeneratorWorkspace pf i d before now g"
  have "snd ?r = g \<or> (\<exists>r\<in>set (g_workspaces g). ws_State r = WorkspaceActive \<and> ws_ActiveTurnID r = [] \<and>
      snd ?r = retire_row pf now r g)"
  proof (cases ?r)
    case (Pair v g')
    then show ?thesis
      by (cases v) (auto simp: RetireIdleGeneratorWorkspace_def tx_Inr tx_Inl and_then_Inr_iff found_Inr
          split: if_splits dest!: workspace_row_in)
  qed
  then show ?thesis using op_table_retire [OF assms] by (fastforce intro: op_table_same)
qed

lemma submit_workspaces:
  assumes "SubmitGenerationCandidate pf s u sub c now g = (Inr v, g')"
  shows "g_workspaces g' = g_workspaces g \<or> (\<exists>i. g_workspaces g' = fst (sql_update
    (\<lambda>x. ws_ID x = i \<and> ws_ActiveTurnID x = csu_TurnID sub)
    (\<lambda>x. x \<lparr>ws_ActiveTurnID := [], ws_IdleSince := None, ws_UpdatedAt := pf_ts pf now\<rparr>) (g_workspaces g)))"
  using assms
  by (auto simp: SubmitGenerationCandidate_def tx_Inr Let_def check_Inr and_then_Inr_iff found_Inr insert_candidate_Inr
      dest!: insert_receipt_Inr split: if_splits option.splits)

lemma submit_table:
  assumes "workspaces_ok g"
  shows "op_table (SubmitOp s u sub c now) g (snd (SubmitGenerationCandidate pf s u sub c now g))"
proof -
  let ?r = "SubmitGenerationCandidate pf s u sub c now g"
  have "g_workspaces (snd ?r) = g_workspaces g \<or> (\<exists>i. g_workspaces (snd ?r) = fst (sql_update
    (\<lambda>x. ws_ID x = i \<and> ws_ActiveTurnID x = csu_TurnID sub)
    (\<lambda>x. x \<lparr>ws_ActiveTurnID := [], ws_IdleSince := None, ws_UpdatedAt := pf_ts pf now\<rparr>) (g_workspaces g)))"
  proof (cases ?r)
    case (Pair v g')
    then show ?thesis using submit_workspaces [of pf s u sub c now g _ g']
      by (cases v) (auto simp: SubmitGenerationCandidate_def tx_Inl)
  qed
  then show ?thesis
  proof
    assume "\<exists>i. g_workspaces (snd ?r) = fst (sql_update
      (\<lambda>x. ws_ID x = i \<and> ws_ActiveTurnID x = csu_TurnID sub)
      (\<lambda>x. x \<lparr>ws_ActiveTurnID := [], ws_IdleSince := None, ws_UpdatedAt := pf_ts pf now\<rparr>) (g_workspaces g))"
    then obtain i where eq: "g_workspaces (snd ?r) = fst (sql_update
      (\<lambda>x. ws_ID x = i \<and> ws_ActiveTurnID x = csu_TurnID sub)
      (\<lambda>x. x \<lparr>ws_ActiveTurnID := [], ws_IdleSince := None, ws_UpdatedAt := pf_ts pf now\<rparr>) (g_workspaces g))" by blast
    show ?thesis using workspaces_row_ok [OF assms]
      by (intro op_table_update [OF eq]) (auto simp: op_row_def row_move_def row_ok_def)
  qed (simp add: op_table_same)
qed

fun creates :: "workspace_op \<Rightarrow> bool" where
  "creates (CreateOp _ _) \<longleftrightarrow> True"
| "creates _ \<longleftrightarrow> False"

lemma op_table_run:
  assumes "workspaces_ok g" "\<not> creates op"
  shows "op_table op g (run_op pf op g)"
  using assms
  by (cases op) (auto intro: op_table_same acquire_table release_table record_table activate_table cleanup_table retire_table
      incomplete_table deleted_table acquire_snapshot_table publish_snapshot_table clear_snapshot_table retire_idle_table
      submit_table)

lemma create_table:
  "g_workspaces (snd (CreateGeneratorWorkspace pf clock r g)) = g_workspaces g \<or>
   (\<exists>n. \<not> workspace_conflict n (g_workspaces g) \<and> ws_State n = default_state (ws_State r) \<and>
     ws_ActiveTurnID n = ws_ActiveTurnID r \<and> ws_IdleSince n = ws_IdleSince r \<and>
     g_workspaces (snd (CreateGeneratorWorkspace pf clock r g)) = g_workspaces g @ [stored_workspace pf n])"
  by (auto simp: CreateGeneratorWorkspace_def Let_def insert_workspace_def split: option.split)

lemma insert_ok:
  assumes "workspaces_ok g" "\<not> workspace_conflict n (g_workspaces g)" "ws_ActiveTurnID n = []" "ws_IdleSince n = None"
    "ws_State n = WorkspacePending \<or> ws_State n = WorkspaceDeleting" "g_workspaces g' = g_workspaces g @ [stored_workspace pf n]"
  shows "workspaces_ok g'"
proof -
  have "row_ok (stored_workspace pf n)"
    using assms(3-5) by (auto simp: row_ok_def stored_workspace_def WorkspaceState_Known_def)
  moreover have "ws_ID (stored_workspace pf n) = ws_ID n" "ws_PVCName (stored_workspace pf n) = ws_PVCName n"
    "current (stored_workspace pf n) = current n" "ws_WorkflowID (stored_workspace pf n) = ws_WorkflowID n"
    by (simp_all add: stored_workspace_def current_def)
  ultimately show ?thesis
    using assms(1,2) unfolding workspaces_ok_def assms(6) workspace_conflict_def by (auto simp: list_all_iff)
qed

lemma run_op_ok:
  assumes "workspaces_ok g" "op_sane op"
  shows "workspaces_ok (run_op pf op g)"
proof (cases op)
  case (CreateOp clock r)
  have d: "default_state (ws_State r) = ws_State r" using assms(2) CreateOp by (auto simp: default_state_def)
  show ?thesis
    using create_table [of pf clock r g] assms(2) table_move_ok [OF table_move_same assms(1)]
      insert_ok [OF assms(1), of _ "run_op pf op g" pf]
    by (auto simp: CreateOp d)
qed (use op_table_move [OF op_table_run [OF assms(1)], of op pf] table_move_ok [OF _ assms(1)] in auto)

text \<open>A row of the table moves with every operation.\<close>

lemma run_op_row:
  assumes "workspaces_ok g" "workspace_row i g = Some s"
  obtains s' where "workspace_row i (run_op pf op g) = Some s'" "op_row op s s'"
proof (cases "creates op")
  case True
  then obtain clock r where op: "op = CreateOp clock r" by (cases op) auto
  have "workspace_row i (run_op pf op g) = Some s"
    using create_table [of pf clock r g] assms(2) by (auto simp: op workspace_row_def sql_row_append)
  then show thesis using that by simp
next
  case False
  have "list_all2 (op_row op) t t' \<Longrightarrow> sql_row ws_ID i t = Some s \<Longrightarrow> \<exists>s'. sql_row ws_ID i t' = Some s' \<and> op_row op s s'" for t t'
    by (induction rule: list_all2_induct) (auto simp: sql_row_def op_row_def row_move_def split: if_splits)
  then show thesis using op_table_run [OF assms(1) False] assms(2) that by (auto simp: op_table_def workspace_row_def)
qed

subsection \<open>Properties\<close>

definition run_ops :: "platform \<Rightarrow> workspace_op list \<Rightarrow> generation_db \<Rightarrow> generation_db" where
  "run_ops pf ops g = foldl (\<lambda>g op. run_op pf op g) g ops"

lemma run_ops_simps [simp]: "run_ops pf [] g = g" "run_ops pf (op # ops) g = run_ops pf ops (run_op pf op g)"
  by (simp_all add: run_ops_def)

lemma run_ops_ok: "workspaces_ok g \<Longrightarrow> list_all op_sane ops \<Longrightarrow> workspaces_ok (run_ops pf ops g)"
  by (induction ops arbitrary: g) (auto intro: run_op_ok)

text \<open>
  C17 The table of workspaces stays well formed, and a workspace only moves forward: from a table that
  obeys its rules (unique ids and volume claims, one current workspace per workflow, a turn or an idle
  time only on an active row, an active row with its sandbox, a deletion time exactly on a deleted row),
  any sequence of the repository's methods, in any order and with any arguments, leads to such a table, in
  which every workspace still has its identity and sandbox and a state at least as far. The one demand is
  on the records handed to CreateGeneratorWorkspace: pending or deleting, without a turn or an idle time,
  as both of its callers (workspace.go, a new workspace and an adopted one) build them.
\<close>

theorem workspaces_move_forward:
  assumes "workspaces_ok g" "list_all op_sane ops" "workspace_row i g = Some s"
  shows "workspaces_ok (run_ops pf ops g) \<and> (\<exists>s'. workspace_row i (run_ops pf ops g) = Some s' \<and>
    ws_WorkflowID s' = ws_WorkflowID s \<and> ws_PVCName s' = ws_PVCName s \<and> ws_State s \<le> ws_State s' \<and>
    (ws_SandboxID s \<noteq> [] \<longrightarrow> ws_SandboxID s' = ws_SandboxID s))"
proof -
  have "\<exists>s'. workspace_row i (run_ops pf ops g) = Some s' \<and> row_move s s'"
    using assms
  proof (induction ops arbitrary: g s)
    case (Cons op ops)
    obtain s1 where s1: "workspace_row i (run_op pf op g) = Some s1" "op_row op s s1"
      by (rule run_op_row [OF Cons.prems(1,3)])
    have "workspaces_ok (run_op pf op g)" using Cons.prems by (auto intro: run_op_ok)
    then obtain s' where "workspace_row i (run_ops pf ops (run_op pf op g)) = Some s'" "row_move s1 s'"
      using Cons.IH s1(1) Cons.prems(2) by fastforce
    then show ?case using s1(2) row_move_trans by (fastforce simp: op_row_def)
  qed simp
  then show ?thesis using run_ops_ok [OF assms(1,2)] by (auto simp: row_move_def)
qed

subsection \<open>One writer at a time\<close>

lemma newest_unique:
  assumes "workspaces_ok g" "s \<in> set (g_workspaces g)" "P s"
    "\<And>x. P x \<Longrightarrow> current x \<and> ws_WorkflowID x = ws_WorkflowID s"
  shows "newest_workspace pf P g = Some s"
proof (cases "newest_workspace pf P g")
  case None
  then show ?thesis using assms(2,3) by (auto simp: newest_workspace_def sql_first_None)
next
  case (Some x)
  note x = newest_workspace_in [OF Some]
  have "x = s" using assms(1,2) assms(4) [of x] assms(4) [OF assms(3)] x by (simp add: workspaces_ok_def)
  then show ?thesis using Some by simp
qed

lemma gives_up_cong:
  "ws_ID s' = ws_ID s \<Longrightarrow> ws_WorkflowID s' = ws_WorkflowID s \<Longrightarrow> ws_ActiveTurnID s' = ws_ActiveTurnID s \<Longrightarrow>
   gives_up op s' = gives_up op s"
  by (cases op) simp_all

lemma bound_stays:
  assumes "workspaces_ok g" "list_all op_sane ops" "workspace_row i g = Some s" "ws_ActiveTurnID s \<noteq> []"
    "list_all (\<lambda>op. \<not> gives_up op s) ops"
  obtains s' where "workspace_row i (run_ops pf ops g) = Some s'" "ws_WorkflowID s' = ws_WorkflowID s"
    "ws_ActiveTurnID s' = ws_ActiveTurnID s" "ws_ID s' = ws_ID s"
  using assms
proof (induction ops arbitrary: g s thesis)
  case (Cons op ops)
  obtain s1 where s1: "workspace_row i (run_op pf op g) = Some s1" "op_row op s s1"
    by (rule run_op_row [OF Cons.prems(2,4)])
  then have same: "ws_ID s1 = ws_ID s" "ws_WorkflowID s1 = ws_WorkflowID s" "ws_ActiveTurnID s1 = ws_ActiveTurnID s"
    using Cons.prems(5,6) by (auto simp: op_row_def row_move_def)
  have "list_all (\<lambda>op. \<not> gives_up op s1) ops" using Cons.prems(6) gives_up_cong [OF same] by simp
  moreover have "workspaces_ok (run_op pf op g)" using Cons.prems by (auto intro: run_op_ok)
  ultimately obtain s' where "workspace_row i (run_ops pf ops (run_op pf op g)) = Some s'" "ws_WorkflowID s' = ws_WorkflowID s1"
    "ws_ActiveTurnID s' = ws_ActiveTurnID s1" "ws_ID s' = ws_ID s1"
    using Cons.IH [of "run_op pf op g" s1] s1(1) Cons.prems(3,5) same(3) by auto
  then show ?case using Cons.prems(1) same by simp
qed simp

lemma bound_excludes:
  assumes "workspaces_ok g" "workspace_row i g = Some s" "ws_ActiveTurnID s \<noteq> []"
    "WorkspaceTurn_Valid (ws_WorkflowID s) t" "t \<noteq> ws_ActiveTurnID s" "now \<noteq> 0"
  shows "AcquireGeneratorWorkspaceTurn pf (ws_WorkflowID s) t now g = (Inl workspace_busy, g)"
    "\<exists>e. AcquireGeneratorWorkspaceSnapshot pf (ws_WorkflowID s) h now g = (Inl e, g)"
proof -
  have s: "s \<in> set (g_workspaces g)" using workspace_row_in [OF assms(2)] by simp
  then have a: "ws_State s = WorkspaceActive" using workspaces_row_ok [OF assms(1)] assms(3) by (auto simp: row_ok_def)
  have n: "newest_workspace pf (\<lambda>x. ws_WorkflowID x = ws_WorkflowID s \<and> ws_State x = WorkspaceActive) g = Some s"
    by (rule newest_unique [OF assms(1) s]) (auto simp: a current_def)
  show "AcquireGeneratorWorkspaceTurn pf (ws_WorkflowID s) t now g = (Inl workspace_busy, g)"
    using assms(3-6) by (auto simp: AcquireGeneratorWorkspaceTurn_def n found_def)
  have w: "wf_ID w = ws_WorkflowID s" if "locked_generating workspace_not_found (ws_WorkflowID s) g = Inr w" for w
    using that by (auto simp: locked_generating_def scanGenerationWorkflow_Inr find_Some_iff split: option.splits)
  show "\<exists>e. AcquireGeneratorWorkspaceSnapshot pf (ws_WorkflowID s) h now g = (Inl e, g)"
  proof (cases "locked_generating workspace_not_found (ws_WorkflowID s) g")
    case (Inr v)
    then show ?thesis using w [OF Inr] assms(3) n by (simp add: AcquireGeneratorWorkspaceSnapshot_def found_def)
  qed (simp add: AcquireGeneratorWorkspaceSnapshot_def)
qed

lemma acquired:
  assumes "workspaces_ok g" "AcquireGeneratorWorkspaceTurn pf w t now g = (Inr r, g1)"
  shows "workspaces_ok g1 \<and> WorkspaceTurn_Valid w t \<and> ws_WorkflowID r = w \<and> ws_ActiveTurnID r = t \<and>
    (\<exists>s. workspace_row (ws_ID r) g1 = Some s \<and> ws_ID s = ws_ID r \<and> ws_WorkflowID s = w \<and> ws_ActiveTurnID s = t)"
proof -
  obtain r0 where valid: "WorkspaceTurn_Valid w t"
    and n: "newest_workspace pf (\<lambda>s. ws_WorkflowID s = w \<and> ws_State s = WorkspaceActive) g = Some r0"
    and c: "(ws_ActiveTurnID r0 = t \<and> r = r0 \<and> g1 = g) \<or>
      (r = bind_turn t now r0 \<and> g1 = update_workspace (\<lambda>s. ws_ID s = ws_ID r0) (bind_turn t (pf_ts pf now)) g)"
    using assms(2) by (auto simp: AcquireGeneratorWorkspaceTurn_def tx_Inr and_then_Inr_iff found_Inr split: if_splits)
  note r0 = newest_workspace_in [OF n]
  have row: "workspace_row (ws_ID r0) g = Some r0"
    using assms(1) r0 sql_row_distinct [of ws_ID "g_workspaces g" r0] by (simp add: workspaces_ok_def workspace_row_def)
  have "workspaces_ok g1" using op_table_move [OF acquire_table [OF assms(1), of w t now pf]] table_move_ok [OF _ assms(1)]
    by (simp add: assms(2))
  moreover have "\<exists>s. workspace_row (ws_ID r) g1 = Some s \<and> ws_ID s = ws_ID r \<and> ws_WorkflowID s = w \<and> ws_ActiveTurnID s = t"
    using c r0 row by (elim disjE) (auto simp: workspace_row_def update_workspace_def sql_row_update bind_turn_def)
  ultimately show ?thesis using c r0 valid by (auto simp: bind_turn_def)
qed

text \<open>
  C9 One writer at a time: from the moment a turn has acquired the workspace of a workflow, and until one
  of the operations that give it up runs for it (its own release or submission, or the retirement of the
  workspace), every other turn is refused as busy, no snapshot can be taken, and the turn still finds its
  workspace, whatever else happens in between.
\<close>

theorem turn_excludes_others:
  assumes "workspaces_ok g" "AcquireGeneratorWorkspaceTurn pf w t now g = (Inr r, g1)"
    "list_all op_sane ops" "list_all (\<lambda>op. \<not> gives_up op r) ops"
    "WorkspaceTurn_Valid w t'" "t' \<noteq> t" "later \<noteq> 0"
  shows "AcquireGeneratorWorkspaceTurn pf w t' later (run_ops pf ops g1) = (Inl workspace_busy, run_ops pf ops g1) \<and>
    (\<exists>e. AcquireGeneratorWorkspaceSnapshot pf w h later (run_ops pf ops g1) = (Inl e, run_ops pf ops g1)) \<and>
    (\<exists>s. GetGeneratorWorkspaceForTurn pf w t (run_ops pf ops g1) = Inr s \<and> ws_ID s = ws_ID r)"
proof -
  let ?g = "run_ops pf ops g1"
  have nonempty: "WorkspaceTurn_Valid w t \<Longrightarrow> t \<noteq> []" by (auto simp: WorkspaceTurn_Valid_def blank_def)
  obtain s where ok: "workspaces_ok g1" and turn: "WorkspaceTurn_Valid w t" "t \<noteq> []"
    and s: "workspace_row (ws_ID r) g1 = Some s" "ws_ID s = ws_ID r" "ws_WorkflowID s = w" "ws_ActiveTurnID s = t"
    and r: "ws_WorkflowID r = w" "ws_ActiveTurnID r = t"
    using acquired [OF assms(1,2)] nonempty by auto
  have "list_all (\<lambda>op. \<not> gives_up op s) ops" using assms(4) gives_up_cong [of s r] s r by simp
  then obtain s' where s': "workspace_row (ws_ID r) ?g = Some s'" "ws_WorkflowID s' = w" "ws_ActiveTurnID s' = t"
    "ws_ID s' = ws_ID r"
    using bound_stays [OF ok assms(3) s(1), of pf] s turn(2) by metis
  have ok': "workspaces_ok ?g" by (rule run_ops_ok [OF ok assms(3)])
  have mem: "s' \<in> set (g_workspaces ?g)" using workspace_row_in [OF s'(1)] by simp
  then have "ws_State s' = WorkspaceActive" using workspaces_row_ok [OF ok'] s'(3) turn(2) by (auto simp: row_ok_def)
  then have "newest_workspace pf (\<lambda>x. ws_WorkflowID x = w \<and> ws_State x = WorkspaceActive \<and> ws_ActiveTurnID x = t) ?g = Some s'"
    using s' by (intro newest_unique [OF ok' mem]) (auto simp: current_def)
  then have "GetGeneratorWorkspaceForTurn pf w t ?g = Inr s'"
    using turn(1) by (simp add: GetGeneratorWorkspaceForTurn_def found_def)
  then show ?thesis
    using bound_excludes(1) [OF ok' s'(1), of t' later pf] bound_excludes(2) [OF ok' s'(1), of t' later pf h] s' turn(2) assms(5-7) by auto
qed

end
