(* ===== verification/WorkspaceManagerFacts.thy ===== *)
theory WorkspaceManagerFacts
  imports WorkspaceManager WorkspaceFacts
begin

section \<open>What the workspace manager and its passes guarantee\<close>

text \<open>
  The calls of the manager change the database only through the repository's methods; asking for the
  workspace of a workflow returns, whatever the providers answer, and what it returns is the active row of
  the workflow with its sandbox.
\<close>

subsection \<open>The other systems leave the database alone\<close>

lemma logged_db [simp]: "cl_db (logged e w) = cl_db w" "cl_objects (logged e w) = cl_objects w"
  by (simp_all add: logged_def)

lemma ask_db [simp]: "cl_db (snd (ask f e w)) = cl_db w" "cl_objects (snd (ask f e w)) = cl_objects w"
  by (simp_all add: ask_def)

lemma delete_sandbox_db [simp]:
  "cl_db (snd (delete_sandbox env b w)) = cl_db w" "cl_objects (snd (delete_sandbox env b w)) = cl_objects w"
  by (simp_all add: delete_sandbox_def)

lemma change_object_db [simp]: "cl_db (change_object i f w) = cl_db w" "cl_db (drop_object i w) = cl_db w"
  by (simp_all add: change_object_def drop_object_def)

lemma api_db [simp]:
  "cl_db (snd (api_get env i w)) = cl_db w" "cl_db (snd (api_create env ob w)) = cl_db w"
  "cl_db (snd (api_patch_status env ob s w)) = cl_db w" "cl_db (snd (api_patch_finalizers env ob fs w)) = cl_db w"
  "cl_db (snd (api_delete env i w)) = cl_db w"
  by (auto simp: api_get_def api_create_def api_patch_status_def api_patch_finalizers_def api_delete_def client_call_def Let_def
      split: option.split)

lemma ensureFinalizer_db [simp]: "cl_db (snd (ensureFinalizer env ob w)) = cl_db w"
  by (simp add: ensureFinalizer_def case_prod_beta split: sum.split)

lemma owner_ops_db [simp]:
  "cl_db (snd (EnsureWorkspaceOwner env r w)) = cl_db w" "cl_db (snd (RecordWorkspaceOwnerStatus env r w)) = cl_db w"
  "cl_db (snd (RetireWorkspaceOwner env i w)) = cl_db w" "cl_db (snd (DeleteWorkspaceOwner env i w)) = cl_db w"
  "cl_db (snd (ListWorkspaceOwners env w)) = cl_db w"
      apply (simp add: EnsureWorkspaceOwner_def Let_def case_prod_beta split: sum.split option.split)
     apply (simp add: RecordWorkspaceOwnerStatus_def case_prod_beta split: sum.split)
    apply (simp add: RetireWorkspaceOwner_def case_prod_beta split: sum.split)
   apply (simp add: DeleteWorkspaceOwner_def Let_def case_prod_beta split: sum.split)
  apply (simp add: ListWorkspaceOwners_def client_call_def case_prod_beta split: sum.split option.split)
  done

lemma manager_db [simp]:
  "cl_db (retireOwner env i w) = cl_db w" "cl_db (compensateOwner env r w) = cl_db w"
  "cl_db (snd (deleteOwner env i w)) = cl_db w"
  by (simp_all add: retireOwner_def compensateOwner_def deleteOwner_def)

lemma on_db_simps [simp]:
  "cl_db (snd (on_db f w)) = snd (f (cl_db w))" "fst (on_db f w) = fst (f (cl_db w))"
  "cl_log (snd (on_db f w)) = cl_log w" "cl_objects (snd (on_db f w)) = cl_objects w"
  by (simp_all add: on_db_def split: prod.split)

lemma on_db_eq: "on_db f w = (v, w') \<longleftrightarrow> (\<exists>g. f (cl_db w) = (v, g) \<and> w' = w \<lparr>cl_db := g\<rparr>)"
  by (auto simp: on_db_def split: prod.split)

subsection \<open>Provisioning returns\<close>

lemma GetCurrent_Inr:
  "GetCurrentGeneratorWorkspace pf i g = Inr r \<Longrightarrow> r \<in> set (g_workspaces g) \<and> current r \<and> ws_WorkflowID r = trim i"
  by (auto simp: GetCurrentGeneratorWorkspace_def found_Inr dest: newest_workspace_in)

lemma GetCurrent_Inl:
  "GetCurrentGeneratorWorkspace pf i g = Inl e \<Longrightarrow> e = workspace_not_found \<and>
     (\<forall>s\<in>set (g_workspaces g). ws_WorkflowID s = trim i \<longrightarrow> \<not> current s)"
  by (auto simp: GetCurrentGeneratorWorkspace_def found_def newest_workspace_def sql_first_None split: option.splits)

lemma not_found_error [simp]: "err_is workspace_not_found ErrWorkspaceNotFound"
  by (simp add: workspace_not_found_def)

text \<open>A new workspace of a workflow without a current one is not active.\<close>

lemma create_not_active:
  assumes "\<forall>s\<in>set (g_workspaces g). ws_WorkflowID s = ws_WorkflowID n \<longrightarrow> \<not> current s"
    "trim (ws_WorkflowID n) = ws_WorkflowID n"
    "ws_State n = WorkspacePending" "CreateGeneratorWorkspace pf clock n g = (Inr r, g')"
  shows "r \<in> set (g_workspaces g') \<and> ws_WorkflowID r = ws_WorkflowID n \<and> ws_State r \<noteq> WorkspaceActive"
proof -
  obtain m where m: "ws_State m = WorkspacePending" "ws_WorkflowID m = ws_WorkflowID n" "ws_ID m = ws_ID n"
    and g': "g' = insert_workspace pf m g"
    and r: "r \<in> set (g_workspaces g')" "ws_WorkflowID r = ws_WorkflowID n"
  proof
    let ?m = "n \<lparr>ws_State := default_state (ws_State n), ws_CreatedAt := (if ws_CreatedAt n = 0 then clock else ws_CreatedAt n),
                 ws_UpdatedAt := (if ws_UpdatedAt n = 0 then clock else ws_UpdatedAt n)\<rparr>"
    show "ws_State ?m = WorkspacePending" "ws_WorkflowID ?m = ws_WorkflowID n" "ws_ID ?m = ws_ID n"
      using assms(3) by (simp_all add: default_state_def)
    have e: "ValidateWorkspace (n \<lparr>ws_State := default_state (ws_State n)\<rparr>) = None"
      using assms(4) by (cases "ValidateWorkspace (n \<lparr>ws_State := default_state (ws_State n)\<rparr>)")
        (simp_all add: CreateGeneratorWorkspace_def Let_def)
    then show "g' = insert_workspace pf ?m g" using assms(4) by (auto simp: CreateGeneratorWorkspace_def Let_def)
    have "(\<exists>i. workspace_row i g' = Some r) \<or> GetCurrentGeneratorWorkspace pf (ws_WorkflowID n) g' = Inr r"
      "ws_WorkflowID r = ws_WorkflowID n"
      using assms(4) e
      by (auto simp: CreateGeneratorWorkspace_def Let_def GetGeneratorWorkspace_def found_Inr and_then_Inr_iff
          split: sum.splits if_splits)
    then show "r \<in> set (g_workspaces g')" "ws_WorkflowID r = ws_WorkflowID n"
      by (auto dest: workspace_row_in GetCurrent_Inr)
  qed
  have "ws_State (stored_workspace pf m) = WorkspacePending" using m(1) by (simp add: stored_workspace_def)
  then show ?thesis
    using r assms(1) by (auto simp: g' insert_workspace_def current_def split: if_splits)
qed

lemma create_inserts:
  assumes "CreateGeneratorWorkspace pf clock n g = (Inr r, g')"
  obtains m where "ws_ID m = ws_ID n" "g' = insert_workspace pf m g"
proof
  let ?m = "n \<lparr>ws_State := default_state (ws_State n), ws_CreatedAt := (if ws_CreatedAt n = 0 then clock else ws_CreatedAt n),
               ws_UpdatedAt := (if ws_UpdatedAt n = 0 then clock else ws_UpdatedAt n)\<rparr>"
  show "ws_ID ?m = ws_ID n" by simp
  have "ValidateWorkspace (n \<lparr>ws_State := default_state (ws_State n)\<rparr>) = None"
    using assms by (cases "ValidateWorkspace (n \<lparr>ws_State := default_state (ws_State n)\<rparr>)")
      (simp_all add: CreateGeneratorWorkspace_def Let_def)
  then show "g' = insert_workspace pf ?m g" using assms by (auto simp: CreateGeneratorWorkspace_def Let_def)
qed

lemma retired_current:
  assumes "workspaces_ok g" "RetireCurrentGeneratorWorkspace pf i now g = (Inr r, g')"
  shows "workspaces_ok g' \<and> (\<forall>s\<in>set (g_workspaces g'). ws_WorkflowID s = i \<longrightarrow> \<not> current s)"
proof -
  obtain q where n: "newest_workspace pf (\<lambda>s. ws_WorkflowID s = i \<and> current s) g = Some q" and g': "g' = retire_row pf now q g"
    using assms(2) by (auto simp: RetireCurrentGeneratorWorkspace_def tx_Inr and_then_Inr_iff found_Inr split: if_splits)
  note q = newest_workspace_in [OF n]
  have "workspaces_ok g'" using run_op_ok [OF assms(1), of "RetireOp i now" pf] assms(2) by simp
  moreover have "\<not> current s'" if s': "s' \<in> set (g_workspaces g')" "ws_WorkflowID s' = i" for s'
  proof -
    obtain s where s: "s \<in> set (g_workspaces g)" "s' = (if ws_ID s = ws_ID q then retire (pf_ts pf now) s else s)"
      using s'(1) by (auto simp: g' retire_row_def sql_update_def)
    show ?thesis
    proof (cases "ws_ID s = ws_ID q")
      case False
      then have "s \<noteq> q" by auto
      then show ?thesis using s s'(2) q assms(1) False by (auto simp: workspaces_ok_def)
    qed (simp add: s retire_def current_def)
  qed
  ultimately show ?thesis by blast
qed

lemma check_binding_db: "check_binding env r w = (v, w') \<Longrightarrow> cl_db w' = cl_db w"
proof -
  assume a: "check_binding env r w = (v, w')"
  have "cl_db (snd (check_binding env r w)) = cl_db w"
    by (auto simp: check_binding_def ask_def delete_sandbox_def split: sum.split option.split)
  then show ?thesis by (simp add: a)
qed

subsection \<open>What provisioning returns\<close>

lemma next_step_Inr: "next_step r f = (Inr b, w') \<longleftrightarrow> (\<exists>a w1. r = (Inr a, w1) \<and> f a w1 = (Inr b, w'))"
  by (auto simp: next_step_def split: prod.split sum.split)

lemma wrapping_Inr: "wrapping m r = (Inr a, w) \<longleftrightarrow> r = (Inr a, w)"
  by (auto simp: wrapping_def split: prod.split sum.split)

lemma as_result_Inr: "as_result r = (Inr v, w) \<longleftrightarrow> r = (None, w)"
  by (auto simp: as_result_def split: prod.split option.split)

lemma compensated_Inr: "compensated env r b res = (Inr v, w) \<longleftrightarrow> res = (Inr (), w)"
  by (auto simp: compensated_def split: prod.splits sum.splits)

lemma under_Inr: "under env a b f w = (Inr v, w') \<Longrightarrow> f w = (Inr v, w')"
  by (auto simp: under_def split: option.splits)

lemma under_db: "(\<And>w. cl_db (snd (f w)) = cl_db w) \<Longrightarrow> cl_db (snd (under env a b f w)) = cl_db w"
  by (simp add: under_def split: option.split)

lemma as_result_db [simp]: "snd (as_result r) = snd r"
  by (simp add: as_result_def split: prod.split option.split)

lemma ask_eq: "ask f e w = (v, w') \<longleftrightarrow> v = f (e # cl_log w) \<and> w' = logged e w"
  by (auto simp: ask_def)

definition plain_ids :: "generation_db \<Rightarrow> bool" where
  "plain_ids g \<longleftrightarrow> list_all (\<lambda>s. trim (ws_ID s) = ws_ID s) (g_workspaces g)"

lemma plain_ids_same:
  assumes "table_move g g'" shows "plain_ids g' = plain_ids g"
proof -
  have "list_all2 row_move t t' \<Longrightarrow> list_all (\<lambda>s. trim (ws_ID s) = ws_ID s) t' = list_all (\<lambda>s. trim (ws_ID s) = ws_ID s) t" for t t'
    by (induction rule: list_all2_induct) (auto simp: row_move_def)
  then show ?thesis using assms by (simp add: plain_ids_def table_move_def)
qed

lemma find_or_create_db: "find_or_create env a r w = (Inr b, w') \<Longrightarrow> cl_db w' = cl_db w"
  by (auto simp: find_or_create_def next_step_Inr wrapping_Inr ask_eq dest!: under_Inr split: if_splits)

lemma owner_ops_eq_db:
  "EnsureWorkspaceOwner env r w = (v, w') \<Longrightarrow> cl_db w' = cl_db w"
  using owner_ops_db(1) by (metis snd_conv)

text \<open>A row of the table, followed through the operations of a provisioning.\<close>

definition tracked :: "string \<Rightarrow> string \<Rightarrow> generation_db \<Rightarrow> bool" where
  "tracked i workflowID g \<longleftrightarrow> workspaces_ok g \<and> trim i = i \<and>
     (\<exists>s. workspace_row i g = Some s \<and> ws_WorkflowID s = workflowID)"

lemma tracked_op:
  assumes "tracked i j g" "op_sane op" shows "tracked i j (run_op pf op g)"
proof -
  obtain s where s: "workspaces_ok g" "trim i = i" "workspace_row i g = Some s" "ws_WorkflowID s = j"
    using assms(1) by (auto simp: tracked_def)
  obtain s' where "workspace_row i (run_op pf op g) = Some s'" "op_row op s s'" by (rule run_op_row [OF s(1,3)])
  then show ?thesis using run_op_ok [OF s(1) assms(2)] s by (auto simp: tracked_def op_row_def row_move_def)
qed

lemma obtain_sandbox_tracked:
  assumes "obtain_sandbox env a r w = (Inr r', w')" "tracked (ws_ID r) j (cl_db w)"
  shows "tracked (ws_ID r) j (cl_db w') \<and> ws_ID r' = ws_ID r"
proof (cases "blank (ws_SandboxID r)")
  case False
  then show ?thesis using assms by (simp add: obtain_sandbox_def)
next
  case True
  obtain b w1 w2 w3 where w1: "find_or_create env a r w = (Inr b, w1)"
    and w2: "on_db (RecordGeneratorWorkspaceSandbox (we_pf env) (ws_ID r) b (now_of env w1)) w1 = (None, w2)"
    and r': "GetGeneratorWorkspace (ws_ID r) (cl_db w2) = Inr r'"
    and w': "w' = snd (under env a (ws_ProvisionDeadline r) (\<lambda>w. as_result (RecordWorkspaceOwnerStatus env r' w)) w2)"
    using assms(1) True
    by (auto simp: obtain_sandbox_def Let_def next_step_Inr compensated_Inr as_result_Inr dest!: under_Inr)
  have "cl_db w2 = run_op (we_pf env) (RecordOp (ws_ID r) b (now_of env w1)) (cl_db w)"
    using w2 find_or_create_db [OF w1] by (auto simp: on_db_eq)
  moreover have "cl_db w' = cl_db w2" unfolding w' by (rule under_db) simp
  moreover have "ws_ID r' = trim (ws_ID r)" using r' by (auto simp: GetGeneratorWorkspace_def found_Inr dest: workspace_row_in)
  ultimately show ?thesis
    using tracked_op [OF assms(2), of "RecordOp (ws_ID r) b (now_of env w1)" "we_pf env"] assms(2) by (simp add: tracked_def)
qed

lemma activated_row:
  assumes "workspaces_ok g" "ActivateGeneratorWorkspace pf i b now g = (None, g')" "trim i = i" "workspace_row i g' = Some s"
  shows "ws_State s = WorkspaceActive \<and> ws_SandboxID s = b \<and> \<not> blank b"
proof -
  let ?P = "\<lambda>s. ws_ID s = i \<and> current s \<and> (ws_SandboxID s = [] \<or> ws_SandboxID s = b)"
  let ?h = "\<lambda>s. s \<lparr>ws_SandboxID := b, ws_State := WorkspaceActive, ws_UpdatedAt := pf_ts pf now\<rparr>"
  let ?u = "sql_update ?P ?h (g_workspaces g)"
  have d: "distinct (map ws_ID (g_workspaces g))" using assms(1) by (simp add: workspaces_ok_def)
  have c: "\<not> (blank i \<or> blank b \<or> now = 0)" and g': "g' = g \<lparr>g_workspaces := fst ?u\<rparr>"
    and or: "snd ?u = 1 \<or> (\<exists>r. workspace_row i g' = Some r \<and> ws_State r = WorkspaceActive \<and> ws_SandboxID r = b)"
    using assms(2,3) by (auto simp: ActivateGeneratorWorkspace_def Let_def GetGeneratorWorkspace_def found_Inr
        split: if_splits prod.splits sum.splits)
  have row: "workspace_row i g' = map_option (\<lambda>s. if ?P s then ?h s else s) (workspace_row i g)"
    by (simp add: g' workspace_row_def sql_row_update)
  have "snd ?u = (case workspace_row i g of Some r \<Rightarrow> if ?P r then 1 else 0 | None \<Rightarrow> 0)"
    unfolding workspace_row_def by (rule sql_update_count [OF d]) simp
  then show ?thesis using or c assms(4) row by (auto split: option.splits if_splits)
qed

lemma provision_outcome:
  assumes "provision env seed r w = (Inr s, w')" "tracked (ws_ID r) j (cl_db w)"
  shows "ws_State s = WorkspaceActive \<and> \<not> blank (ws_SandboxID s) \<and> ws_WorkflowID s = j \<and>
    workspace_row (ws_ID s) (cl_db w') = Some s \<and> workspaces_ok (cl_db w')"
proof -
  obtain reference w1 w2 r' w3 w5 w6 started deadline where
    w1: "EnsureWorkspaceOwner env r w = (Inr reference, w1)" and w2: "ensure_claim env started r reference w1 = (Inr (), w2)"
    and w3: "obtain_sandbox env started r w2 = (Inr r', w3)" and w5: "wait_and_seed env started deadline seed r' w3 = (Inr (), w5)"
    and w6: "on_db (ActivateGeneratorWorkspace (we_pf env) (ws_ID r') (ws_SandboxID r') (now_of env w5)) w5 = (None, w6)"
    and s: "GetGeneratorWorkspace (ws_ID r') (cl_db w6) = Inr s"
    and w': "w' = snd (RecordWorkspaceOwnerStatus env s w6)"
    using assms(1)
    by (auto simp: provision_def Let_def next_step_Inr compensated_Inr wrapping_Inr as_result_Inr dest!: under_Inr)
  have w5: "cl_db w5 = cl_db w3"
    using w5 by (auto simp: wait_and_seed_def next_step_Inr wrapping_Inr as_result_Inr ask_eq dest!: under_Inr split: if_splits)
  have "cl_db w2 = cl_db w1"
    using w2 by (auto simp: ensure_claim_def wrapping_Inr as_result_Inr ask_eq dest!: under_Inr)
  then have "cl_db w2 = cl_db w" using owner_ops_eq_db [OF w1] by simp
  then have t: "tracked (ws_ID r) j (cl_db w5)" "ws_ID r' = ws_ID r"
    using obtain_sandbox_tracked [OF w3] assms(2) by (simp_all add: w5)
  have db: "cl_db w6 = run_op (we_pf env) (ActivateOp (ws_ID r') (ws_SandboxID r') (now_of env w5)) (cl_db w5)"
    using w6 by (auto simp: on_db_eq)
  have t6: "tracked (ws_ID r) j (cl_db w6)" unfolding db by (rule tracked_op [OF t(1)]) simp
  have row: "workspace_row (ws_ID r) (cl_db w6) = Some s"
    using s t by (simp add: GetGeneratorWorkspace_def found_Inr tracked_def)
  have "ActivateGeneratorWorkspace (we_pf env) (ws_ID r) (ws_SandboxID r') (now_of env w5) (cl_db w5) = (None, cl_db w6)"
    using w6 t(2) by (auto simp: on_db_eq)
  then have "ws_State s = WorkspaceActive \<and> ws_SandboxID s = ws_SandboxID r' \<and> \<not> blank (ws_SandboxID r')"
    using t(1) row by (intro activated_row) (auto simp: tracked_def)
  moreover have "cl_db w' = cl_db w6" by (simp add: w')
  moreover have "ws_ID s = ws_ID r" using workspace_row_in [OF row] by simp
  ultimately show ?thesis using t6 row by (auto simp: tracked_def)
qed

subsection \<open>The rounds of the loop\<close>

definition ready :: "generation_db \<Rightarrow> bool" where
  "ready g \<longleftrightarrow> workspaces_ok g \<and> plain_ids g"

definition ensured :: "string \<Rightarrow> go_error + Workspace \<times> bool \<Rightarrow> cluster \<Rightarrow> bool" where
  "ensured i res w \<longleftrightarrow> (case res of Inl _ \<Rightarrow> True
     | Inr (r, _) \<Rightarrow> ws_State r = WorkspaceActive \<and> \<not> blank (ws_SandboxID r) \<and> ws_WorkflowID r = i \<and>
         workspace_row (ws_ID r) (cl_db w) = Some r)"

lemma ready_op:
  assumes "ready g" "op_sane op" "\<not> creates op" shows "ready (run_op pf op g)"
  using assms run_op_ok [of g op pf] plain_ids_same [OF op_table_move [OF op_table_run [of g op pf]]] by (simp add: ready_def)

lemma ready_tracked:
  assumes "ready g" "r \<in> set (g_workspaces g)" shows "tracked (ws_ID r) (ws_WorkflowID r) g" "workspace_row (ws_ID r) g = Some r"
proof -
  have d: "distinct (map ws_ID (g_workspaces g))" using assms(1) by (simp add: ready_def workspaces_ok_def)
  show "workspace_row (ws_ID r) g = Some r" using sql_row_distinct [OF d assms(2)] by (simp add: workspace_row_def)
  then show "tracked (ws_ID r) (ws_WorkflowID r) g"
    using assms by (simp add: tracked_def ready_def plain_ids_def list_all_iff)
qed

lemma current_or_new_Inr:
  assumes "current_or_new env i created w = (Inr (r, c), w1)" "ready (cl_db w)" "trim i = i"
    "\<forall>l. trim (we_newID env l) = we_newID env l"
  shows "ready (cl_db w1) \<and> r \<in> set (g_workspaces (cl_db w1)) \<and> ws_WorkflowID r = i \<and>
    ((w1 = w \<and> GetCurrentGeneratorWorkspace (we_pf env) i (cl_db w) = Inr r) \<or> ws_State r \<noteq> WorkspaceActive)"
proof (cases "GetCurrentGeneratorWorkspace (we_pf env) i (cl_db w)")
  case (Inr s)
  then show ?thesis using GetCurrent_Inr [OF Inr] assms by (simp add: current_or_new_def)
next
  case (Inl e)
  let ?n = "new_workspace env i w"
  have n: "ws_WorkflowID ?n = i" "ws_State ?n = WorkspacePending" "ws_ActiveTurnID ?n = []" "ws_IdleSince ?n = None"
    "trim (ws_ID ?n) = ws_ID ?n"
    using assms(4) by (simp_all add: new_workspace_def Let_def)
  obtain g' where g': "CreateGeneratorWorkspace (we_pf env) (now_of env w) ?n (cl_db w) = (Inr r, g')" "w1 = w \<lparr>cl_db := g'\<rparr>"
    using assms(1) Inl GetCurrent_Inl [OF Inl]
    by (auto simp: current_or_new_def on_db_def split: prod.splits sum.splits)
  have "r \<in> set (g_workspaces g') \<and> ws_WorkflowID r = i \<and> ws_State r \<noteq> WorkspaceActive"
    using create_not_active [OF _ _ n(2) g'(1)] GetCurrent_Inl [OF Inl] assms(3) n(1) by auto
  moreover have "workspaces_ok g'"
    using run_op_ok [of "cl_db w" "CreateOp (now_of env w) ?n" "we_pf env"] assms(2) n g'(1) by (simp add: ready_def)
  moreover have "plain_ids g'"
  proof -
    obtain m where "ws_ID m = ws_ID ?n" "g' = insert_workspace (we_pf env) m (cl_db w)"
      by (rule create_inserts [OF g'(1)])
    then show ?thesis
      using assms(2) n(5) by (auto simp: ready_def plain_ids_def insert_workspace_def stored_workspace_def)
  qed
  ultimately show ?thesis by (simp add: ready_def g'(2))
qed

text \<open>The end of a round: an error, or what provisioning returned.\<close>

lemma workspace_provision_round:
  assumes "ready (cl_db w1)" "r \<in> set (g_workspaces (cl_db w1))" "ws_WorkflowID r = i"
  shows "\<exists>res w'. (case provision env seed r w1 of (Inl e, w2) \<Rightarrow> (Inl e, w2) | (Inr r', w2) \<Rightarrow> (Inr (r', c), w2)) = (res, w') \<and>
    ensured i res w'"
proof (cases "provision env seed r w1")
  case (Pair v w2)
  then show ?thesis
    using provision_outcome [of env seed r w1 _ w2 i] ready_tracked(1) [OF assms(1,2)] assms(3)
    by (cases v) (auto simp: ensured_def)
qed

text \<open>The loop returns: a round that does not return has retired the current workspace.\<close>

lemma first_round:
  assumes "ready (cl_db w)" "trim i = i" "\<forall>l. trim (we_newID env l) = we_newID env l"
    "\<forall>s\<in>set (g_workspaces (cl_db w)). ws_WorkflowID s = i \<longrightarrow> \<not> current s"
  shows "\<exists>res w'. ensure_loop env i seed created w = Some (res, w') \<and> ensured i res w'"
proof (cases "current_or_new env i created w")
  case (Pair v w1)
  show ?thesis
  proof (cases v)
    case (Inl e)
    then show ?thesis by (simp add: ensure_loop.simps [of env i] Pair ensured_def)
  next
    case (Inr p)
    then obtain r c where p: "current_or_new env i created w = (Inr (r, c), w1)" by (cases p) (simp add: Pair)
    note c = current_or_new_Inr [OF p assms(1-3)]
    have "ws_State r \<noteq> WorkspaceActive"
      using c assms(2,4) GetCurrent_Inr [of "we_pf env" i "cl_db w" r] by auto
    then show ?thesis
      using workspace_provision_round [of w1 r i, where env = env and seed = seed and c = c] c
      by (subst ensure_loop.simps) (auto simp: p ensured_def)
  qed
qed

lemma second_round:
  assumes "ready (cl_db w)" "trim i = i" "\<forall>l. trim (we_newID env l) = we_newID env l"
  shows "\<exists>res w'. ensure_loop env i seed created w = Some (res, w') \<and> ensured i res w'"
proof (cases "GetCurrentGeneratorWorkspace (we_pf env) i (cl_db w)")
  case (Inl e)
  then show ?thesis using GetCurrent_Inl [OF Inl] assms by (intro first_round) auto
next
  case (Inr r)
  have p: "current_or_new env i created w = (Inr (r, created), w)" by (simp add: current_or_new_def Inr)
  have r: "r \<in> set (g_workspaces (cl_db w))" "current r" "ws_WorkflowID r = i" using GetCurrent_Inr [OF Inr] assms(2) by simp_all
  then have live: "\<not> (ws_State r = WorkspaceDeleted \<or> ws_State r = WorkspaceDeleting)" by (auto simp: current_def)
  show ?thesis
  proof (cases "ws_State r = WorkspaceActive \<and> \<not> blank (ws_SandboxID r)")
    case False
    then show ?thesis using workspace_provision_round [OF assms(1) r(1,3), where env = env and seed = seed and c = created] live
      by (subst ensure_loop.simps) (auto simp: p)
  next
    case True
    obtain v w2 where b: "check_binding env r w = (v, w2)" by fastforce
    have db: "cl_db w2 = cl_db w" by (rule check_binding_db [OF b])
    show ?thesis
    proof (cases "v = Inr False")
      case False
      then show ?thesis using True live b ready_tracked(2) [OF assms(1) r(1)] r(3)
        by (subst ensure_loop.simps) (auto simp: p ensured_def db split: sum.split)
    next
      case bound: True
      obtain q g where ret: "RetireCurrentGeneratorWorkspace (we_pf env) i (now_of env w2) (cl_db w) = (q, g)" by fastforce
      have on: "on_db (RetireCurrentGeneratorWorkspace (we_pf env) i (now_of env w2)) w2 = (q, w2 \<lparr>cl_db := g\<rparr>)"
        by (simp add: on_db_eq db ret)
      show ?thesis
      proof (cases q)
        case (Inr s)
        let ?w3 = "retireOwner env (ws_ID r) (w2 \<lparr>cl_db := g\<rparr>)"
        have "ready g" using ready_op [OF assms(1), of "RetireOp i (now_of env w2)" "we_pf env"] ret by simp
        moreover have "\<forall>s\<in>set (g_workspaces g). ws_WorkflowID s = i \<longrightarrow> \<not> current s"
          using retired_current [of "cl_db w"] ret assms(1) Inr by (auto simp: ready_def)
        ultimately have "\<exists>res w'. ensure_loop env i seed created ?w3 = Some (res, w') \<and> ensured i res w'"
          using assms(2,3) by (intro first_round) simp_all
        moreover have "ensure_loop env i seed created w = ensure_loop env i seed created ?w3"
          using True live b bound by (subst ensure_loop.simps) (simp add: p on Inr)
        ultimately show ?thesis by simp
      next
        case (Inl e)
        have "newest_workspace (we_pf env) (\<lambda>s. ws_WorkflowID s = i \<and> current s) (cl_db w) = Some r"
          using \<open>GetCurrentGeneratorWorkspace (we_pf env) i (cl_db w) = Inr r\<close> assms(2)
          by (simp add: GetCurrentGeneratorWorkspace_def found_Inr)
        then have "\<not> err_is e ErrWorkspaceNotFound"
          using ret Inl by (auto simp: RetireCurrentGeneratorWorkspace_def found_def tx_Inl split: if_splits)
        then show ?thesis using True live b bound by (subst ensure_loop.simps) (simp add: p on Inl ensured_def)
      qed
    qed
  qed
qed

text \<open>
  C10 Asking for the workspace of a workflow always ends, although the code's loop has no bound of its
  own: whatever the sandbox provider, the Kubernetes API and the clock answer, the manager returns, and
  what it returns without an error is the stored, active workspace of that workflow with its sandbox.
\<close>

theorem ensure_returns:
  assumes "workspaces_ok (cl_db w)" "plain_ids (cl_db w)" "\<forall>l. trim (we_newID env l) = we_newID env l"
  shows "\<exists>res w'. EnsureFresh env i seed w = Some (res, w') \<and> ensured (trim i) res w'"
proof (cases "blank i")
  case False
  then show ?thesis
    using second_round [of w "trim i" env seed False] assms by (simp add: EnsureFresh_def trim_idem ready_def)
qed (simp add: EnsureFresh_def ensured_def)

end
