(* ===== verification/WorkspacePasses.thy ===== *)
theory WorkspacePasses
  imports WorkspaceManagerFacts
begin

section \<open>The background passes over the workspaces\<close>

text \<open>
  What the reaper's and the reconciler's passes do to one workspace: they leave a workspace alone that is
  in use, they drop a retired one whose owner carries its facts, and they never drop one whose owner does
  not. Every call concerns one name, so most lemmas say what a call leaves as it is.
\<close>

subsection \<open>What a call leaves as it is\<close>

text \<open>Names are unique and without surrounding space, as Kubernetes demands them.\<close>

definition plain :: "cluster \<Rightarrow> bool" where
  "plain w \<longleftrightarrow> distinct (map gw_Name (cl_objects w)) \<and>
     list_all (\<lambda>ob. trim (gw_Name ob) = gw_Name ob) (cl_objects w) \<and> plain_ids (cl_db w)"

definition same_at :: "string \<Rightarrow> cluster \<Rightarrow> cluster \<Rightarrow> bool" where
  "same_at i w w' \<longleftrightarrow> object_of i w' = object_of i w \<and> workspace_row i (cl_db w') = workspace_row i (cl_db w) \<and>
     (plain w \<longrightarrow> plain w') \<and> suffix (cl_log w) (cl_log w')"

lemma same_at_refl [simp]: "same_at i w w"
  by (simp add: same_at_def)

lemma same_at_trans: "same_at i u v \<Longrightarrow> same_at i v w \<Longrightarrow> same_at i u w"
  by (auto simp: same_at_def intro: suffix_order.trans)

lemma same_at_log: "same_at i w v \<Longrightarrow> same_at i w (logged e v)" "same_at i (logged e w) v \<Longrightarrow> same_at i w v"
  by (auto simp: same_at_def object_of_def plain_def logged_def intro: suffix_ConsI suffix_ConsD)

lemma same_at_logged [simp]: "same_at i w (logged e w)"
  by (simp add: same_at_log)

lemma same_at_ask [simp]: "same_at i w (snd (ask f e w))"
  by (simp add: ask_def)

lemma same_at_delete_sandbox [simp]: "same_at i w (snd (delete_sandbox env b w))"
  by (simp add: delete_sandbox_def)

lemma object_of_name: "object_of i w = Some ob \<Longrightarrow> gw_Name ob = i"
  by (auto simp: object_of_def dest: sql_row_Some)

lemma object_of_change:
  "(\<And>ob. gw_Name (f ob) = gw_Name ob) \<Longrightarrow>
   object_of i (change_object j f w) = map_option (\<lambda>ob. if i = j then f ob else ob) (object_of i w)"
  using sql_row_update [of gw_Name f i "\<lambda>ob. gw_Name ob = j" "cl_objects w"] object_of_name [of i w]
  by (auto simp: object_of_def change_object_def sql_update_def option.map_comp intro!: option.map_cong)

lemma object_of_drop: "object_of i (drop_object j w) = (if i = j then None else object_of i w)"
proof -
  have "find (\<lambda>ob. gw_Name ob = i) (filter (\<lambda>ob. gw_Name ob \<noteq> j) t) = (if i = j then None else find (\<lambda>ob. gw_Name ob = i) t)" for t
    by (induction t) auto
  from this [of "cl_objects w"] show ?thesis by (simp add: object_of_def drop_object_def sql_row_def)
qed

lemma object_of_append:
  "object_of i (w \<lparr>cl_objects := cl_objects w @ [ob]\<rparr>) =
     (case object_of i w of Some x \<Rightarrow> Some x | None \<Rightarrow> if gw_Name ob = i then Some ob else None)"
  by (simp add: object_of_def sql_row_append)

lemma plain_objects:
  "(\<And>ob. gw_Name (f ob) = gw_Name ob) \<Longrightarrow> plain w \<Longrightarrow> plain (change_object j f w)"
  "plain w \<Longrightarrow> plain (drop_object j w)"
  "trim (gw_Name ob) = gw_Name ob \<Longrightarrow> object_of (gw_Name ob) w = None \<Longrightarrow> plain w \<Longrightarrow>
   plain (w \<lparr>cl_objects := cl_objects w @ [ob]\<rparr>)"
  by (auto simp: plain_def list_all_iff change_object_def drop_object_def object_of_def sql_row_None comp_def if_distrib
      distinct_map_filter cong: if_cong)

lemma same_at_objects:
  "j \<noteq> i \<Longrightarrow> (\<And>ob. gw_Name (f ob) = gw_Name ob) \<Longrightarrow> same_at i w (change_object j f w)"
  "j \<noteq> i \<Longrightarrow> same_at i w (drop_object j w)"
  "gw_Name ob \<noteq> i \<Longrightarrow> trim (gw_Name ob) = gw_Name ob \<Longrightarrow> object_of (gw_Name ob) w = None \<Longrightarrow>
   same_at i w (w \<lparr>cl_objects := cl_objects w @ [ob]\<rparr>)"
  by (auto simp: same_at_def object_of_change object_of_drop object_of_append option.map_ident plain_objects
      change_object_def [of j f w, THEN arg_cong [where f = cl_log]] drop_object_def [of j w, THEN arg_cong [where f = cl_log]] split: option.split)

lemma api_frames:
  "same_at i w (snd (api_get env j w))"
  "gw_Name ob \<noteq> i \<Longrightarrow> trim (gw_Name ob) = gw_Name ob \<Longrightarrow> same_at i w (snd (api_create env ob w))"
  "gw_Name ob \<noteq> i \<Longrightarrow> same_at i w (snd (api_patch_status env ob s w))"
  "gw_Name ob \<noteq> i \<Longrightarrow> same_at i w (snd (api_patch_finalizers env ob fs w))"
  "j \<noteq> i \<Longrightarrow> same_at i w (snd (api_delete env j w))"
proof -
  have call: "same_at i w (snd (client_call env e f w))" if "\<And>w. same_at i w (snd (f w))" for e and f :: "cluster \<Rightarrow> (api_error + 'a) \<times> cluster"
    using that [of "logged e w"] by (auto simp: client_call_def intro: same_at_log split: option.split)
  have call': "same_at i w (snd (client_call env e f w))" if "\<And>w. same_at i w (snd (f w))"
    for e and f :: "cluster \<Rightarrow> (api_error + GeneratorWorkspace) \<times> cluster"
    using that [of "logged e w"] by (auto simp: client_call_def intro: same_at_log split: option.split)
  have call'': "same_at i w (snd (client_call env e f w))" if "\<And>w. same_at i w (snd (f w))"
    for e and f :: "cluster \<Rightarrow> (api_error + unit) \<times> cluster"
    using that [of "logged e w"] by (auto simp: client_call_def intro: same_at_log split: option.split)
  show "same_at i w (snd (api_get env j w))" unfolding api_get_def by (rule call') simp
  show "gw_Name ob \<noteq> i \<Longrightarrow> trim (gw_Name ob) = gw_Name ob \<Longrightarrow> same_at i w (snd (api_create env ob w))"
    unfolding api_create_def by (rule call') (auto simp: Let_def intro!: same_at_objects(3))
  show "gw_Name ob \<noteq> i \<Longrightarrow> same_at i w (snd (api_patch_status env ob s w))"
    unfolding api_patch_status_def by (rule call'') (auto simp: Let_def intro!: same_at_objects split: option.split)
  show "gw_Name ob \<noteq> i \<Longrightarrow> same_at i w (snd (api_patch_finalizers env ob fs w))"
    unfolding api_patch_finalizers_def by (rule call'') (auto intro!: same_at_objects split: option.split)
  show "j \<noteq> i \<Longrightarrow> same_at i w (snd (api_delete env j w))"
    unfolding api_delete_def by (rule call'') (auto intro!: same_at_objects split: option.split)
qed

lemma api_get_name: "fst (api_get env i w) = Inr ob \<Longrightarrow> gw_Name ob = i"
  by (auto simp: api_get_def client_call_def dest: object_of_name split: option.splits)

lemma api_create_name: "fst (api_create env ob w) = Inr ob' \<Longrightarrow> gw_Name ob' = gw_Name ob"
  by (auto simp: api_create_def client_call_def Let_def split: option.splits if_splits)

lemma ensureFinalizer_frame: "gw_Name ob \<noteq> i \<Longrightarrow> same_at i w (snd (ensureFinalizer env ob w))"
  using api_frames(4) by (auto simp: ensureFinalizer_def case_prod_beta split: sum.split)

lemma owner_frames:
  "ws_ID r \<noteq> i \<Longrightarrow> trim (ws_ID r) = ws_ID r \<Longrightarrow> same_at i w (snd (EnsureWorkspaceOwner env r w))"
  "ws_ID r \<noteq> i \<Longrightarrow> trim (ws_ID r) = ws_ID r \<Longrightarrow> same_at i w (snd (RecordWorkspaceOwnerStatus env r w))"
  "trim j \<noteq> i \<Longrightarrow> same_at i w (snd (RetireWorkspaceOwner env j w))"
  "trim j \<noteq> i \<Longrightarrow> same_at i w (snd (DeleteWorkspaceOwner env j w))"
proof -
  note t = same_at_trans
  have n: "gw_Name (newObject r) = ws_ID r" by (simp add: newObject_def)
  assume r: "ws_ID r \<noteq> i" "trim (ws_ID r) = ws_ID r"
  show "same_at i w (snd (EnsureWorkspaceOwner env r w))"
    using r n
    by (auto simp: EnsureWorkspaceOwner_def Let_def case_prod_beta split: sum.split option.split
        dest!: api_get_name api_create_name
        intro!: t [OF _ ensureFinalizer_frame] t [OF _ api_frames(2)] api_frames(1))
next
  show "same_at i w (snd (RecordWorkspaceOwnerStatus env r w))" if "ws_ID r \<noteq> i" "trim (ws_ID r) = ws_ID r"
    using that
    by (auto simp: RecordWorkspaceOwnerStatus_def case_prod_beta newObject_def split: sum.split dest!: api_get_name
        intro!: same_at_trans [OF _ api_frames(3)] same_at_trans [OF _ api_frames(2)] api_frames(1))
  show "same_at i w (snd (RetireWorkspaceOwner env j w))" if "trim j \<noteq> i"
    using that
    by (auto simp: RetireWorkspaceOwner_def case_prod_beta split: sum.split dest!: api_get_name
        intro!: same_at_trans [OF _ api_frames(3)] api_frames(1))
  show "same_at i w (snd (DeleteWorkspaceOwner env j w))" if "trim j \<noteq> i"
    using that
    by (auto simp: DeleteWorkspaceOwner_def Let_def case_prod_beta split: sum.split dest!: api_get_name
        intro!: same_at_trans [OF _ api_frames(5)] same_at_trans [OF _ api_frames(4)] api_frames(1))
qed

subsection \<open>Rows that a call leaves as they are\<close>

lemma row_of_update:
  "(\<And>s. ws_ID (f s) = ws_ID s) \<Longrightarrow> (\<And>s. P s \<Longrightarrow> ws_ID s \<noteq> i) \<Longrightarrow>
   workspace_row i (g \<lparr>g_workspaces := fst (sql_update P f (g_workspaces g))\<rparr>) = workspace_row i g"
  using workspace_row_in [of i g] by (auto simp: workspace_row_def sql_row_update map_option_case split: option.split)

lemma plain_ids_update:
  "(\<And>s. ws_ID (f s) = ws_ID s) \<Longrightarrow>
   plain_ids (g \<lparr>g_workspaces := fst (sql_update P f (g_workspaces g))\<rparr>) = plain_ids g"
  by (simp add: plain_ids_def sql_update_def list.pred_map comp_def if_distrib cong: if_cong)

lemma same_at_db:
  "workspace_row i g = workspace_row i (cl_db w) \<Longrightarrow> (plain_ids (cl_db w) \<Longrightarrow> plain_ids g) \<Longrightarrow> same_at i w (w \<lparr>cl_db := g\<rparr>)"
  by (simp add: same_at_def object_of_def plain_def)

lemma on_db_frame:
  assumes "workspace_row i (snd (f (cl_db w))) = workspace_row i (cl_db w)" "plain_ids (cl_db w) \<Longrightarrow> plain_ids (snd (f (cl_db w)))"
  shows "same_at i w (snd (on_db f w))"
proof -
  have eq: "snd (on_db f w) = w \<lparr>cl_db := snd (f (cl_db w))\<rparr>" by (simp add: on_db_def split: prod.split)
  show ?thesis unfolding eq by (rule same_at_db [OF assms])
qed

lemma mark_deleted_row:
  assumes "j \<noteq> i"
  shows "workspace_row i (snd (MarkGeneratorWorkspaceDeleted pf j now g)) = workspace_row i g"
    "plain_ids (snd (MarkGeneratorWorkspaceDeleted pf j now g)) = plain_ids g"
proof -
  let ?P = "\<lambda>s. ws_ID s = j \<and> (ws_State s = WorkspaceDeleting \<or> ws_State s = WorkspaceDeleted)"
  let ?h = "\<lambda>s. s \<lparr>ws_State := WorkspaceDeleted, ws_UpdatedAt := pf_ts pf now, ws_DeletedAt := Some (pf_ts pf now)\<rparr>"
  have "snd (MarkGeneratorWorkspaceDeleted pf j now g) = g \<or>
      snd (MarkGeneratorWorkspaceDeleted pf j now g) = g \<lparr>g_workspaces := fst (sql_update ?P ?h (g_workspaces g))\<rparr>"
    by (simp add: MarkGeneratorWorkspaceDeleted_def Let_def split: prod.split)
  then show "workspace_row i (snd (MarkGeneratorWorkspaceDeleted pf j now g)) = workspace_row i g"
    "plain_ids (snd (MarkGeneratorWorkspaceDeleted pf j now g)) = plain_ids g"
    using row_of_update [where f = ?h and P = ?P] plain_ids_update [where f = ?h and P = ?P] assms by auto
qed

lemma retire_row_at:
  "ws_ID r \<noteq> i \<Longrightarrow> workspace_row i (retire_row pf now r g) = workspace_row i g"
  "plain_ids (retire_row pf now r g) = plain_ids g"
  unfolding retire_row_def update_workspace_def
  by (rule row_of_update, simp_all add: retire_def) (rule plain_ids_update, simp add: retire_def)

lemma begin_cleanup_row:
  assumes "j \<noteq> i"
  shows "workspace_row i (snd (BeginGeneratorWorkspaceCleanup pf j now g)) = workspace_row i g"
    "plain_ids (snd (BeginGeneratorWorkspaceCleanup pf j now g)) = plain_ids g"
proof -
  have "snd (BeginGeneratorWorkspaceCleanup pf j now g) = g \<or>
      (\<exists>r. ws_ID r = j \<and> snd (BeginGeneratorWorkspaceCleanup pf j now g) = retire_row pf now r g)"
    by (cases "workspace_row j g") (auto simp: BeginGeneratorWorkspaceCleanup_def found_def dest: workspace_row_in)
  then show "workspace_row i (snd (BeginGeneratorWorkspaceCleanup pf j now g)) = workspace_row i g"
    "plain_ids (snd (BeginGeneratorWorkspaceCleanup pf j now g)) = plain_ids g"
    using retire_row_at assms by auto
qed

lemma create_row:
  assumes "ws_ID n \<noteq> i"
  shows "workspace_row i (snd (CreateGeneratorWorkspace pf clock n g)) = workspace_row i g"
    "trim (ws_ID n) = ws_ID n \<Longrightarrow> plain_ids g \<Longrightarrow> plain_ids (snd (CreateGeneratorWorkspace pf clock n g))"
proof -
  have "snd (CreateGeneratorWorkspace pf clock n g) = g \<or>
      (\<exists>m. ws_ID m = ws_ID n \<and> snd (CreateGeneratorWorkspace pf clock n g) = insert_workspace pf m g)"
  proof (cases "ValidateWorkspace (n \<lparr>ws_State := default_state (ws_State n)\<rparr>)")
    case None
    let ?m = "n \<lparr>ws_State := default_state (ws_State n), ws_CreatedAt := (if ws_CreatedAt n = 0 then clock else ws_CreatedAt n),
                 ws_UpdatedAt := (if ws_UpdatedAt n = 0 then clock else ws_UpdatedAt n)\<rparr>"
    have "ws_ID ?m = ws_ID n \<and> snd (CreateGeneratorWorkspace pf clock n g) = insert_workspace pf ?m g"
      using None by (auto simp: CreateGeneratorWorkspace_def Let_def)
    then show ?thesis by blast
  qed (simp add: CreateGeneratorWorkspace_def Let_def)
  then show "workspace_row i (snd (CreateGeneratorWorkspace pf clock n g)) = workspace_row i g"
    "trim (ws_ID n) = ws_ID n \<Longrightarrow> plain_ids g \<Longrightarrow> plain_ids (snd (CreateGeneratorWorkspace pf clock n g))"
    using assms by (auto simp: insert_workspace_def workspace_row_def sql_row_append stored_workspace_def plain_ids_def
        split: option.split)
qed

subsection \<open>Passes over other workspaces\<close>

lemma next_step_frame:
  "same_at i w (snd r) \<Longrightarrow> (\<And>a w1. same_at i w1 (snd (f a w1))) \<Longrightarrow> same_at i w (snd (next_step r f))"
  using same_at_trans by (fastforce simp: next_step_def split: prod.split sum.split)

lemma wrapping_snd [simp]: "snd (wrapping m r) = snd r"
  by (simp add: wrapping_def split: prod.split sum.split)

lemma ownerRecord_simps [simp]: "ws_ID (ownerRecord ow) = ow_ID ow"
  by (simp add: ownerRecord_def)

lemma drop_frame:
  assumes "ow_ID ow \<noteq> i" "trim (ow_ID ow) = ow_ID ow" "ws_ID r \<noteq> i"
  shows "same_at i w (snd (dropWorkspace env ow r w))"
proof -
  have mark: "same_at i w (snd (on_db (MarkGeneratorWorkspaceDeleted pf (ws_ID r) now) w))" for pf now w
    using mark_deleted_row [OF assms(3)] by (intro on_db_frame) simp_all
  have "same_at i w (snd (deleteOwner env (ow_ID ow) w))" for w
    using owner_frames(4) [of "ow_ID ow" i w env] assms by (simp add: deleteOwner_def)
  moreover have "same_at i w (snd (EnsureWorkspaceOwner env (ownerRecord ow) w))" for w
    using owner_frames(1) [of "ownerRecord ow" i w env] assms by simp
  ultimately show ?thesis
    unfolding dropWorkspace_def snd_apfst by (intro next_step_frame) (simp_all add: mark)
qed

lemma adopt_frame:
  assumes "ow_ID ow \<noteq> i" "trim (ow_ID ow) = ow_ID ow"
  shows "same_at i w (snd (adoptOwner env ow w))"
proof -
  have "same_at i w (snd (on_db (CreateGeneratorWorkspace (we_pf env) t ((ownerRecord ow) \<lparr>ws_State := WorkspaceDeleting,
                   ws_ProvisionDeadline := t, ws_CreatedAt := t, ws_UpdatedAt := t\<rparr>)) w))" for t
    using create_row [of "(ownerRecord ow) \<lparr>ws_State := WorkspaceDeleting,
                   ws_ProvisionDeadline := t, ws_CreatedAt := t, ws_UpdatedAt := t\<rparr>" i] assms
    by (intro on_db_frame) simp_all
  moreover have "same_at i v (retireOwner env (ow_ID ow) v)" for v
    using owner_frames(3) [of "ow_ID ow" i v env] assms by (simp add: retireOwner_def)
  ultimately show ?thesis
    using same_at_trans by (fastforce simp: adoptOwner_def Let_def case_prod_beta split: sum.split)
qed

lemma reconcile_frame:
  assumes "ow_ID ow \<noteq> i" "trim (ow_ID ow) = ow_ID ow"
  shows "same_at i w (snd (reconcileOwner env ow w))"
proof (cases "Rebuildable ow")
  case False
  then show ?thesis using owner_frames(4) [of "ow_ID ow" i w env] assms by (simp add: reconcileOwner_def)
next
  case True
  show ?thesis
  proof (cases "GetGeneratorWorkspace (ow_ID ow) (cl_db w)")
    case (Inr r)
    then have r: "ws_ID r = ow_ID ow" using assms(2) by (auto simp: GetGeneratorWorkspace_def found_Inr dest: workspace_row_in)
    have "same_at i w (snd (RecordWorkspaceOwnerStatus env r w))" using owner_frames(2) [of r i w env] assms r by simp
    moreover have "same_at i v (snd (dropWorkspace env ow r v))" for v using drop_frame [of ow i r v env] assms r by simp
    ultimately show ?thesis using True
      by (auto simp: reconcileOwner_def Inr Let_def case_prod_beta split: option.split intro: same_at_trans)
  qed (simp add: reconcileOwner_def True)
qed

lemma backfill_frame:
  assumes "i \<in> set known" "\<forall>r\<in>set rs. trim (ws_ID r) = ws_ID r"
  shows "same_at i w (snd (backfill env known rs w))"
  using assms(2)
proof (induction rs arbitrary: w)
  case (Cons r rs)
  show ?case
  proof (cases "ws_ID r \<in> set known \<or> we_done env (cl_log w) \<noteq> None")
    case True
    then show ?thesis using Cons by auto
  next
    case False
    then have r: "ws_ID r \<noteq> i" "trim (ws_ID r) = ws_ID r" using assms(1) Cons.prems by auto
    have "same_at i v (snd (RecordWorkspaceOwnerStatus env r v))" "same_at i v (snd (EnsureWorkspaceOwner env r v))" for v
      using owner_frames r by blast+
    then show ?thesis using False Cons
      by (auto simp: case_prod_beta split: sum.split option.split) (meson same_at_trans)+
  qed
qed simp

lemma sanitize_frame: "same_at i w (snd (sanitize env owned bs result w))"
proof (induction bs arbitrary: result w)
  case (Cons b bs)
  have "same_at i w (snd (sanitize env owned bs result' (snd (delete_sandbox env b w))))" for result'
    using Cons.IH [of "snd (delete_sandbox env b w)" result'] same_at_trans by (metis same_at_delete_sandbox same_at_refl)
  then show ?case using Cons.IH by (simp add: case_prod_beta split: option.split)
qed simp

lemma listed_owners:
  assumes "ListWorkspaceOwners env w = (v, w1)"
  shows "w1 = logged ApiList w" "v = Inr ows \<Longrightarrow> ows = map owner_of (cl_objects w)"
  using assms by (auto simp: ListWorkspaceOwners_def client_call_def split: option.splits)

lemma each_owner_invariant:
  assumes "\<And>ow w. ow \<in> set ows \<Longrightarrow> P w \<Longrightarrow> P (snd (f ow w))" "P w"
  shows "P (snd (each_owner env f ows w))"
  using assms
proof (induction ows arbitrary: w)
  case (Cons ow ows)
  have "P (snd (f ow w))" using Cons.prems by simp
  then show ?case using Cons by (simp add: case_prod_beta split: option.split)
qed simp

subsection \<open>An owner without its facts\<close>

text \<open>A retired workspace whose owner exists without the facts that its status should carry.\<close>

definition forgotten :: "string \<Rightarrow> cluster \<Rightarrow> bool" where
  "forgotten i w \<longleftrightarrow> plain w \<and> \<not> blank i \<and>
     (\<exists>r. workspace_row i (cl_db w) = Some r \<and> ws_State r = WorkspaceDeleting) \<and>
     (\<exists>ob. object_of i w = Some ob \<and> gw_Status ob = no_status \<and> \<not> gw_Terminating ob)"

lemma forgotten_frame: "forgotten i w \<Longrightarrow> same_at i w w' \<Longrightarrow> forgotten i w'"
  by (simp add: forgotten_def same_at_def)

lemma forgotten_log [simp]: "forgotten i (logged e w) = forgotten i w"
  by (simp add: forgotten_def plain_def object_of_def)

lemma plain_row: "plain w \<Longrightarrow> workspace_row i (cl_db w) = Some r \<Longrightarrow> trim i = i"
  by (auto simp: plain_def plain_ids_def list_all_iff dest: workspace_row_in)

lemma plain_owner:
  assumes "plain w" "ow \<in> owner_of ` set (cl_objects w)"
  shows "trim (ow_ID ow) = ow_ID ow" "object_of (ow_ID ow) w \<noteq> None" "object_of (ow_ID ow) w = Some ob \<Longrightarrow> ow = owner_of ob"
proof -
  obtain x where x: "x \<in> set (cl_objects w)" "ow = owner_of x" using assms(2) by blast
  have "object_of (gw_Name x) w = Some x"
    using assms(1) x(1) by (simp add: plain_def object_of_def sql_row_distinct)
  moreover have "ow_ID ow = gw_Name x" by (simp add: x(2) owner_of_def)
  ultimately show "object_of (ow_ID ow) w \<noteq> None" "object_of (ow_ID ow) w = Some ob \<Longrightarrow> ow = owner_of ob"
    by (simp_all add: x(2))
  show "trim (ow_ID ow) = ow_ID ow" using assms(1) x by (simp add: plain_def list_all_iff owner_of_def)
qed

lemma forgotten_retire:
  assumes "forgotten i w" shows "forgotten i (retireOwner env j w)"
proof (cases "trim j = i")
  case False
  then show ?thesis using forgotten_frame [OF assms owner_frames(3)] by (simp add: retireOwner_def)
next
  case True
  obtain ob where ob: "object_of i w = Some ob" "gw_Status ob = no_status" "\<not> gw_Terminating ob"
    using assms by (auto simp: forgotten_def)
  then have n: "gw_Name ob = i" by (auto dest: object_of_name)
  have get: "api_get env i w = (Inl e, logged (ApiGet i) w) \<or> api_get env i w = (Inr ob, logged (ApiGet i) w)"
    if "we_fault env (ApiGet i # cl_log w) = Some e" for e
    using that by (simp add: api_get_def client_call_def)
  have ok: "api_get env i w = (Inr ob, logged (ApiGet i) w)" if "we_fault env (ApiGet i # cl_log w) = None"
    using that ob(1) by (simp add: api_get_def client_call_def object_of_def)
  have "snd (api_patch_status env ob ((gw_Status ob) \<lparr>gs_Phase := WorkspacePhaseDeleting\<rparr>) v) = logged (ApiStatus i) v"
    if "object_of i v = Some ob" for v
    using that ob(2) n
    by (simp add: api_patch_status_def client_call_def merge_status_def no_status_def status_valid_def object_of_def split: option.split)
  then have "snd (RetireWorkspaceOwner env j w) \<in> {w, logged (ApiGet i) w, logged (ApiStatus i) (logged (ApiGet i) w)}"
    using get ok ob
    by (cases "we_fault env (ApiGet i # cl_log w)")
      (auto simp: RetireWorkspaceOwner_def True case_prod_beta object_of_def split: sum.split)
  then show ?thesis using assms by (auto simp: retireOwner_def)
qed

lemma forgotten_cleanup:
  assumes "forgotten i w" shows "forgotten i (snd (Manager_Cleanup env j w))"
proof -
  obtain r where r: "workspace_row i (cl_db w) = Some r" "ws_State r = WorkspaceDeleting" and p: "plain w"
    using assms by (auto simp: forgotten_def)
  have "same_at i w (snd (on_db (BeginGeneratorWorkspaceCleanup (we_pf env) j (now_of env w)) w))"
  proof (cases "j = i")
    case True
    have "snd (BeginGeneratorWorkspaceCleanup (we_pf env) i (now_of env w) (cl_db w)) = cl_db w"
      using r by (auto simp: BeginGeneratorWorkspaceCleanup_def found_def)
    then show ?thesis by (intro on_db_frame) (simp_all add: True)
  next
    case False
    then show ?thesis using begin_cleanup_row [OF False] by (intro on_db_frame) simp_all
  qed
  then have "forgotten i (snd (on_db (BeginGeneratorWorkspaceCleanup (we_pf env) j (now_of env w)) w))"
    by (rule forgotten_frame [OF assms])
  then show ?thesis by (simp add: Manager_Cleanup_def case_prod_beta forgotten_retire split: sum.split)
qed

lemma forgotten_reaper:
  assumes "forgotten i w" shows "forgotten i (snd (CleanupDue env w))"
proof -
  have "forgotten i (snd (cleanup_all env rs w))" if "forgotten i w" for rs w
    using that
  proof (induction rs arbitrary: w)
    case (Cons r rs)
    then show ?case using forgotten_cleanup [OF Cons.prems, of env "ws_ID r"] by (simp add: case_prod_beta split: option.split)
  qed simp
  then show ?thesis using assms by (simp add: CleanupDue_def split: sum.split)
qed

lemma forgotten_not_rebuildable: "gw_Status ob = no_status \<Longrightarrow> \<not> Rebuildable (owner_of ob)"
  by (simp add: Rebuildable_def owner_of_def no_status_def blank_def)

lemma forgotten_plain: "forgotten i w \<Longrightarrow> plain w"
  by (simp add: forgotten_def)

lemma forgotten_owner:
  assumes "forgotten i w" "ow \<in> owner_of ` set (cl_objects w)" "ow_ID ow = i"
  shows "\<not> Rebuildable ow" "\<not> ow_Terminating ow"
proof -
  obtain ob where ob: "object_of i w = Some ob" "gw_Status ob = no_status" "\<not> gw_Terminating ob"
    using assms(1) by (auto simp: forgotten_def)
  then have "ow = owner_of ob" using plain_owner(3) [OF forgotten_plain [OF assms(1)] assms(2), of ob] assms(3) by simp
  then show "\<not> Rebuildable ow" "\<not> ow_Terminating ow"
    using forgotten_not_rebuildable [OF ob(2)] ob(3) by (simp_all add: owner_of_def)
qed

lemma forgotten_listed:
  assumes "forgotten i w" "ListWorkspaceOwners env w = (q, w1)"
  shows "forgotten i w1" "q = Inr ows \<Longrightarrow> set ows = owner_of ` set (cl_objects w) \<and> i \<in> set (map ow_ID ows)"
proof -
  show "forgotten i w1" using assms(1) by (simp add: listed_owners(1) [OF assms(2)])
  assume "q = Inr ows"
  then have ows: "ows = map owner_of (cl_objects w)" by (rule listed_owners(2) [OF assms(2)])
  obtain ob where "object_of i w = Some ob" using assms(1) by (auto simp: forgotten_def)
  then have "ob \<in> set (cl_objects w)" "ow_ID (owner_of ob) = i"
    by (auto simp: object_of_def owner_of_def dest: sql_row_Some)
  then show "set ows = owner_of ` set (cl_objects w) \<and> i \<in> set (map ow_ID ows)" by (auto simp: ows)
qed

lemma forgotten_adopt:
  assumes "forgotten i v" "ow \<in> owner_of ` set (cl_objects u)" "forgotten i u"
  shows "forgotten i (snd (adoptOwner env ow v))"
proof (cases "ow_ID ow = i")
  case True
  obtain r where r: "workspace_row i (cl_db v) = Some r" using assms(1) by (auto simp: forgotten_def)
  have "trim i = i" by (rule plain_row [OF forgotten_plain [OF assms(1)] r])
  then have "snd (adoptOwner env ow v) = v" by (simp add: adoptOwner_def True GetGeneratorWorkspace_def found_def r)
  then show ?thesis using assms(1) by simp
next
  case False
  show ?thesis
    by (rule forgotten_frame [OF assms(1) adopt_frame [OF False plain_owner(1) [OF forgotten_plain [OF assms(3)] assms(2)]]])
qed

lemma forgotten_reconcile:
  assumes "forgotten i v" "ow \<in> owner_of ` set (cl_objects u)" "forgotten i u"
  shows "forgotten i (snd (reconcileOwner env ow v))"
proof (cases "ow_ID ow = i")
  case True
  then show ?thesis using forgotten_owner [OF assms(3,2) True] assms(1) by (simp add: reconcileOwner_def)
next
  case False
  show ?thesis
    by (rule forgotten_frame [OF assms(1) reconcile_frame [OF False plain_owner(1) [OF forgotten_plain [OF assms(3)] assms(2)]]])
qed

lemma forgotten_sanitize:
  assumes "forgotten i v" shows "forgotten i (snd (SanitizeOnce env v))"
proof -
  obtain q u where l: "ListWorkspaceOwners env (logged SandboxList v) = (q, u)" by fastforce
  have u: "forgotten i u" using assms by (simp add: listed_owners(1) [OF l])
  show ?thesis
    using assms u forgotten_frame [OF u sanitize_frame] by (simp add: SanitizeOnce_def ask_def l split: sum.split)
qed

lemma forgotten_backfill:
  assumes "forgotten i v" "i \<in> set known" shows "forgotten i (snd (backfillOwners env known v))"
proof -
  have "\<forall>r\<in>set (ListCurrentGeneratorWorkspaces (we_pf env) (cl_db v) @ ListDeletingGeneratorWorkspaces (we_pf env) (cl_db v)).
      trim (ws_ID r) = ws_ID r"
    using forgotten_plain [OF assms(1)] by (auto simp: plain_def plain_ids_def list_all_iff ListCurrentGeneratorWorkspaces_def
        ListDeletingGeneratorWorkspaces_def set_sort_by)
  then show ?thesis unfolding backfillOwners_def by (rule forgotten_frame [OF assms(1) backfill_frame [OF assms(2)]])
qed

lemma forgotten_adoption:
  assumes "forgotten i w" shows "forgotten i (snd (AdoptOrphanedOwners env w))"
proof -
  obtain q v where l: "ListWorkspaceOwners env w = (q, v)" by fastforce
  note o = forgotten_listed [OF assms l]
  show ?thesis
  proof (cases q)
    case (Inr ows)
    have "forgotten i (snd (each_owner env (adoptOwner env) ows v))"
      using o(2) [OF Inr] by (intro each_owner_invariant [where P = "forgotten i", OF _ o(1)] forgotten_adopt [OF _ _ assms]) auto
    then show ?thesis by (simp add: AdoptOrphanedOwners_def l Inr)
  qed (simp add: AdoptOrphanedOwners_def l o(1))
qed

lemma forgotten_tick:
  assumes "forgotten i w" shows "forgotten i (snd (reconciler_tick env w))"
proof -
  obtain e w1 where a: "AdoptOrphanedOwners env w = (e, w1)" by fastforce
  have o1: "forgotten i w1" using forgotten_adoption [OF assms, of env] by (simp add: a)
  obtain q w2 where l: "ListWorkspaceOwners env w1 = (q, w2)" by fastforce
  note o2 = forgotten_listed [OF o1 l]
  have "forgotten i (snd (ReconcileOnce env w))"
  proof (cases "e = None \<and> (\<exists>ows. q = Inr ows)")
    case True
    then obtain ows where ows: "q = Inr ows" by blast
    obtain f w3 where r: "each_owner env (reconcileOwner env) ows w2 = (f, w3)" by fastforce
    have "forgotten i (snd (each_owner env (reconcileOwner env) ows w2))"
      using o2(2) [OF ows] by (intro each_owner_invariant [where P = "forgotten i", OF _ o2(1)] forgotten_reconcile [OF _ _ o1]) auto
    then have o3: "forgotten i w3" by (simp add: r)
    have "i \<in> set (map ow_ID ows)" by (rule o2(2) [OF ows, THEN conjunct2])
    then show ?thesis
      using True o3 forgotten_backfill [OF o3, of "map ow_ID ows" env]
      by (simp add: ReconcileOnce_def a l ows r split: option.split)
  next
    case False
    then show ?thesis using o1 o2(1) by (auto simp: ReconcileOnce_def a l split: option.split sum.split)
  qed
  then show ?thesis using forgotten_sanitize by (simp add: reconciler_tick_def case_prod_beta split: option.split)
qed

lemma retire_row_row:
  "workspace_row i (retire_row pf now q g) = map_option (\<lambda>s. if ws_ID s = ws_ID q then retire (pf_ts pf now) s else s) (workspace_row i g)"
  unfolding retire_row_def update_workspace_def workspace_row_def by (simp add: sql_row_update retire_def)

lemma forgotten_restart:
  assumes "forgotten i w" shows "forgotten i (snd (Reaper_Recover env w))"
proof -
  have step: "(\<exists>r. workspace_row i (retire_row pf now q g) = Some r \<and> ws_State r = WorkspaceDeleting) \<and> plain_ids (retire_row pf now q g)"
    if "\<exists>r. workspace_row i g = Some r \<and> ws_State r = WorkspaceDeleting" "plain_ids g" for pf now q g
    using that by (elim exE conjE) (simp add: retire_row_at(2) retire_row_row retire_def)
  have all: "(\<exists>r. workspace_row i (foldl (\<lambda>g r. retire_row pf now r g) g rs) = Some r \<and> ws_State r = WorkspaceDeleting) \<and>
      plain_ids (foldl (\<lambda>g r. retire_row pf now r g) g rs)"
    if "\<exists>r. workspace_row i g = Some r \<and> ws_State r = WorkspaceDeleting" "plain_ids g" for pf now g rs
    using that
  proof (induction rs arbitrary: g)
    case (Cons q rs)
    show ?case using Cons.IH step [OF Cons.prems] by simp
  qed simp
  have "forgotten i (snd (on_db (RetireIncompleteGeneratorWorkspaces (we_pf env) (now_of env w)) w))"
    using assms all [of "cl_db w"]
    by (auto simp: forgotten_def plain_def object_of_def RetireIncompleteGeneratorWorkspaces_def Let_def)
  then show ?thesis by (simp add: Reaper_Recover_def case_prod_beta forgotten_adoption split: sum.split)
qed

text \<open>The passes that run in the background, each with the answers that it meets; a restart recovers.\<close>

datatype background_pass = ReaperPass workspace_env | ReconcilerPass workspace_env | RestartPass workspace_env

fun workspace_pass :: "background_pass \<Rightarrow> cluster \<Rightarrow> cluster" where
  "workspace_pass (ReaperPass env) w = snd (CleanupDue env w)"
| "workspace_pass (ReconcilerPass env) w = snd (reconciler_tick env w)"
| "workspace_pass (RestartPass env) w = snd (Reaper_Recover env w)"

definition workspace_passes :: "background_pass list \<Rightarrow> cluster \<Rightarrow> cluster" where
  "workspace_passes ps w = foldl (\<lambda>w p. workspace_pass p w) w ps"

lemma forgotten_passes: "forgotten i w \<Longrightarrow> forgotten i (workspace_passes ps w)"
proof (induction ps arbitrary: w)
  case (Cons p ps)
  have "forgotten i (workspace_pass p w)"
    using Cons.prems by (cases p) (simp_all add: forgotten_reaper forgotten_tick forgotten_restart)
  then show ?case using Cons.IH by (simp add: workspace_passes_def)
qed (simp add: workspace_passes_def)

text \<open>A provisioning whose volume claim fails has created the owner, and nothing else.\<close>

lemma failed_provision:
  assumes "plain w" "workspace_row i (cl_db w) = Some r" "\<not> blank i" "object_of i w = None"
    "we_kept env = (\<lambda>_. no_status)" "\<forall>l. we_fault env l = None" "\<forall>l. we_claim env l \<noteq> None"
    "\<forall>l. we_done env l = None \<and> we_now env l < ws_ProvisionDeadline r"
  obtains e w1 ob where "provision env seed r w = (Inl e, w1)" "cl_db w1 = cl_db w" "plain w1"
    "object_of i w1 = Some ob" "gw_Status ob = no_status" "\<not> gw_Terminating ob"
proof -
  have r: "ws_ID r = i" "trim i = i" using workspace_row_in [OF assms(2)] plain_row [OF assms(1,2)] by simp_all
  let ?l = "ApiCreate i # ApiGet i # cl_log w"
  define ob where "ob = (newObject r) \<lparr>gw_UID := we_uid env ?l, gw_Status := no_status\<rparr>"
  define v where "v = w \<lparr>cl_objects := cl_objects w @ [ob], cl_log := ?l\<rparr>"
  have n: "gw_Name ob = i" "gw_Finalizers ob = [GeneratorWorkspaceCleanupFinalizer]" by (simp_all add: ob_def newObject_def r)
  have live: "provision_error env a d u = None" if "a < d" "d = ws_ProvisionDeadline r" for a d u
    using assms(8) that by (simp add: provision_error_def linorder_not_le)
  have ensure: "EnsureWorkspaceOwner env r w = (Inr (ownerReference ob), v)"
    using assms(3-6) n
    by (simp add: EnsureWorkspaceOwner_def r api_get_def api_create_def client_call_def object_of_def ensureFinalizer_def
        hasGeneratorWorkspaceFinalizer_def logged_def v_def ob_def newObject_def Let_def)
  obtain e where e: "we_claim env (PVCEnsure (ws_Namespace r) (ws_PVCName r) (ws_WorkflowID r) (we_storage env) (ownerReference ob) # ?l) = Some e"
    using assms(7) by fastforce
  have "\<exists>e. provision env seed r w = (Inl e, logged (PVCEnsure (ws_Namespace r) (ws_PVCName r) (ws_WorkflowID r) (we_storage env) (ownerReference ob)) v)"
    using assms(8) e
    by (simp add: provision_def under_def live Let_def ensure next_step_def wrapping_def ensure_claim_def ask_def as_result_def v_def)
  then obtain e' where p: "provision env seed r w = (Inl e', logged (PVCEnsure (ws_Namespace r) (ws_PVCName r) (ws_WorkflowID r) (we_storage env) (ownerReference ob)) v)"
    by blast
  show thesis
  proof (rule that [OF p])
    have "plain (w \<lparr>cl_objects := cl_objects w @ [ob]\<rparr>)" using plain_objects(3) [of ob w] assms(1,4) n r(2) by simp
    then show "plain (logged (PVCEnsure (ws_Namespace r) (ws_PVCName r) (ws_WorkflowID r) (we_storage env) (ownerReference ob)) v)"
      by (simp add: plain_def v_def)
    show "object_of i (logged (PVCEnsure (ws_Namespace r) (ws_PVCName r) (ws_WorkflowID r) (we_storage env) (ownerReference ob)) v) = Some ob"
      using assms(4) n by (simp add: object_of_def v_def sql_row_append)
  qed (simp_all add: v_def ob_def newObject_def)
qed

text \<open>
  C12 A workspace whose provisioning fails before its sandbox is recorded is never cleaned up. The API
  server drops the status that the creation of the owner sends, because the resource has the status
  subresource; when the volume claim then fails, the owner stays without its facts. Once the workspace is
  retired, no sequence of the reaper's and the reconciler's passes and of restarts, whatever the other
  systems answer, drops the owner (and with it the claim) or takes the row out of its deleting state.
\<close>

theorem failed_provision_leaks:
  assumes "plain w" "workspace_row i (cl_db w) = Some r" "ws_State r = WorkspacePending" "\<not> blank i" "object_of i w = None"
    "we_kept env = (\<lambda>_. no_status)" "\<forall>l. we_fault env l = None" "\<forall>l. we_claim env l \<noteq> None"
    "\<forall>l. we_done env l = None \<and> we_now env l < ws_ProvisionDeadline r" "\<forall>l. we_now env' l \<noteq> 0"
  shows "let w' = workspace_passes ps (snd (Manager_Cleanup env' i (snd (provision env seed r w)))) in
    (\<exists>s. workspace_row i (cl_db w') = Some s \<and> ws_State s = WorkspaceDeleting) \<and> object_of i w' \<noteq> None"
proof -
  obtain e w1 ob where p: "provision env seed r w = (Inl e, w1)" "cl_db w1 = cl_db w" and pl: "plain w1"
    and ob: "object_of i w1 = Some ob" "gw_Status ob = no_status" "\<not> gw_Terminating ob"
    by (rule failed_provision [OF assms(1,2,4-9)])
  have r: "ws_ID r = i" using workspace_row_in [OF assms(2)] by simp
  define w2 where "w2 = snd (on_db (BeginGeneratorWorkspaceCleanup (we_pf env') i (now_of env' w1)) w1)"
  have b: "BeginGeneratorWorkspaceCleanup (we_pf env') i (now_of env' w1) (cl_db w) =
      (Inr (retire (now_of env' w1) r), retire_row (we_pf env') (now_of env' w1) r (cl_db w))"
    using assms(2-4,10) by (simp add: BeginGeneratorWorkspaceCleanup_def found_def)
  have "forgotten i w2"
    using assms(2,4) pl ob
    by (simp add: w2_def forgotten_def plain_def object_of_def p(2) b retire_row_at(2) retire_row_row) (simp add: retire_def r)
  moreover have "snd (Manager_Cleanup env' i w1) = retireOwner env' i w2"
    using b r by (simp add: Manager_Cleanup_def w2_def on_db_def p(2) retire_def)
  ultimately have "forgotten i (workspace_passes ps (snd (Manager_Cleanup env' i w1)))"
    by (simp add: forgotten_retire forgotten_passes)
  then show ?thesis by (auto simp: p(1) Let_def forgotten_def)
qed

end
