(* ===== verification/WorkspaceDrops.thy ===== *)
theory WorkspaceDrops
  imports WorkspacePasses
begin

section \<open>Dropping a retired workspace\<close>

text \<open>
  What one pass of the reconciler does to a workspace whose owner carries its facts: a pass visits every
  owner once, and what it does to the other owners leaves this one as it is, so that the pass amounts to
  the visit of its own owner. A current workspace keeps its row and its owner; an owner is let go only
  after the sandbox has been deleted; and a pass without an error drops what is retired. At the end, what
  becomes of a workspace whose owner never got its facts written.
\<close>

subsection \<open>A pass, seen from one workspace\<close>

text \<open>What an operation on the owner itself keeps.\<close>

definition kept :: "cluster \<Rightarrow> cluster \<Rightarrow> bool" where
  "kept w w' \<longleftrightarrow> (plain w \<longrightarrow> plain w') \<and> suffix (cl_log w) (cl_log w')"

lemma kept_same_at: "same_at i w w' \<Longrightarrow> kept w w'"
  by (simp add: kept_def same_at_def)

lemma reconcile_kept:
  assumes "trim (ow_ID ow) = ow_ID ow" shows "kept w (snd (reconcileOwner env ow w))"
  by (rule kept_same_at [OF reconcile_frame [where i = "CHR ''x'' # ow_ID ow", OF _ assms]]) simp

lemma each_owner_at:
  assumes "distinct (map ow_ID ows)" "ow \<in> set ows"
    "\<And>x v. x \<in> set ows \<Longrightarrow> ow_ID x \<noteq> ow_ID ow \<Longrightarrow> same_at (ow_ID ow) v (snd (f x v))"
    "each_owner env f ows w = (e, w')"
  shows "(e \<noteq> None \<and> same_at (ow_ID ow) w w') \<or>
    (\<exists>w1. same_at (ow_ID ow) w w1 \<and> same_at (ow_ID ow) (snd (f ow w1)) w' \<and> (e = None \<longrightarrow> fst (f ow w1) = None))"
  using assms
proof (induction ows arbitrary: w)
  case (Cons x xs)
  obtain d u where d: "f x w = (d, u)" by fastforce
  show ?case
  proof (cases "we_done env (cl_log w)")
    case (Some c)
    then show ?thesis using Cons.prems(4) by auto
  next
    case None
    show ?thesis
    proof (cases "ow = x")
      case True
      have others: "same_at (ow_ID ow) v (snd (each_owner env f xs v))" for v
      proof (rule each_owner_invariant [where P = "same_at (ow_ID ow) v"])
        fix y v'
        assume y: "y \<in> set xs" "same_at (ow_ID ow) v v'"
        have "ow_ID y \<noteq> ow_ID ow" using Cons.prems(1) y(1) by (auto simp: True rev_image_eqI)
        then show "same_at (ow_ID ow) v (snd (f y v'))"
          using same_at_trans [OF y(2)] Cons.prems(3) [of y v'] y(1) by simp
      qed simp
      have "same_at (ow_ID ow) u w' \<and> (e = None \<longrightarrow> d = None)"
        using Cons.prems(4) others [of u] by (auto simp: None d split: option.splits)
      then show ?thesis using d True by (intro disjI2 exI [of _ w]) auto
    next
      case False
      then have "ow \<in> set xs" "ow_ID x \<noteq> ow_ID ow" using Cons.prems(1,2) by (auto simp: rev_image_eqI)
      then have x: "same_at (ow_ID ow) w u" using Cons.prems(3) [of x w] by (simp add: d)
      show ?thesis
      proof (cases d)
        case None
        have "(e \<noteq> None \<and> same_at (ow_ID ow) u w') \<or>
          (\<exists>w1. same_at (ow_ID ow) u w1 \<and> same_at (ow_ID ow) (snd (f ow w1)) w' \<and> (e = None \<longrightarrow> fst (f ow w1) = None))"
          using Cons.prems \<open>ow \<in> set xs\<close> by (intro Cons.IH) (auto simp: d None \<open>we_done env (cl_log w) = None\<close>)
        then show ?thesis using same_at_trans [OF x] by blast
      next
        case (Some c)
        then show ?thesis using Cons.prems(4) x by (auto simp: d None)
      qed
    qed
  qed
qed simp

lemma adoption_at:
  assumes "plain w" "workspace_row i (cl_db w) = Some r" shows "same_at i w (snd (AdoptOrphanedOwners env w))"
proof -
  obtain q v where l: "ListWorkspaceOwners env w = (q, v)" by fastforce
  have v: "same_at i w v" by (simp add: listed_owners(1) [OF l])
  show ?thesis
  proof (cases q)
    case (Inr ows)
    have ows: "set ows = owner_of ` set (cl_objects w)" by (simp add: listed_owners(2) [OF l Inr])
    have "same_at i w (snd (each_owner env (adoptOwner env) ows v))"
    proof (rule each_owner_invariant [where P = "same_at i w"])
      fix ow u
      assume ow: "ow \<in> set ows" "same_at i w u"
      show "same_at i w (snd (adoptOwner env ow u))"
      proof (cases "ow_ID ow = i")
        case True
        have "workspace_row i (cl_db u) = Some r" "trim i = i"
          using ow(2) assms(2) plain_row [OF assms] by (simp_all add: same_at_def)
        then have "snd (adoptOwner env ow u) = u" by (simp add: adoptOwner_def True GetGeneratorWorkspace_def found_def)
        then show ?thesis using ow(2) by simp
      next
        case False
        then show ?thesis using adopt_frame [OF False] plain_owner(1) [OF assms(1)] ow ows same_at_trans by simp
      qed
    qed (rule v)
    then show ?thesis by (simp add: AdoptOrphanedOwners_def l Inr)
  qed (simp add: AdoptOrphanedOwners_def l v)
qed

lemma backfill_at: "plain w \<Longrightarrow> i \<in> set known \<Longrightarrow> same_at i w (snd (backfillOwners env known w))"
  unfolding backfillOwners_def
  by (rule backfill_frame) (auto simp: plain_def plain_ids_def list_all_iff ListCurrentGeneratorWorkspaces_def
      ListDeletingGeneratorWorkspaces_def set_sort_by)

lemma sanitize_at: "same_at i w (snd (SanitizeOnce env w))"
proof -
  obtain q u where l: "ListWorkspaceOwners env (logged SandboxList w) = (q, u)" by fastforce
  have u: "same_at i w u" by (simp add: listed_owners(1) [OF l] same_at_log)
  show ?thesis using u same_at_trans [OF u sanitize_frame] by (simp add: SanitizeOnce_def ask_def l split: sum.split)
qed

lemma pass_at:
  assumes "plain w" "workspace_row i (cl_db w) = Some r" "object_of i w = Some ob" "ReconcileOnce env w = (e, w')"
  shows "(e \<noteq> None \<and> same_at i w w') \<or>
    (\<exists>w1. same_at i w w1 \<and> same_at i (snd (reconcileOwner env (owner_of ob) w1)) w' \<and>
       (e = None \<longrightarrow> fst (reconcileOwner env (owner_of ob) w1) = None))"
proof -
  obtain ea w1 where a: "AdoptOrphanedOwners env w = (ea, w1)" by fastforce
  have s1: "same_at i w w1" using adoption_at [OF assms(1,2), of env] by (simp add: a)
  have p1: "plain w1" and ob: "object_of i w1 = Some ob" using s1 assms(1,3) by (auto simp: same_at_def)
  obtain q w2 where l: "ListWorkspaceOwners env w1 = (q, w2)" by fastforce
  have s2: "same_at i w w2" by (simp add: listed_owners(1) [OF l] same_at_log s1)
  consider "ea \<noteq> None" | b where "ea = None" "q = Inl b" | ows where "ea = None" "q = Inr ows"
    by (cases ea; cases q) auto
  then show ?thesis
  proof cases
    case 3
    have ows: "ows = map owner_of (cl_objects w1)" by (rule listed_owners(2) [OF l 3(2)])
    have m: "ob \<in> set (cl_objects w1)" "gw_Name ob = i" using ob by (auto simp: object_of_def dest: sql_row_Some)
    have id: "ow_ID (owner_of ob) = i" by (simp add: owner_of_def m)
    have d: "distinct (map ow_ID ows)" using p1 by (simp add: ows plain_def comp_def owner_of_def)
    have t: "trim (ow_ID x) = ow_ID x" if "x \<in> set ows" for x using plain_owner(1) [OF p1] that by (simp add: ows)
    obtain er w3 where r: "each_owner env (reconcileOwner env) ows w2 = (er, w3)" by fastforce
    have visit: "(er \<noteq> None \<and> same_at (ow_ID (owner_of ob)) w2 w3) \<or> (\<exists>v. same_at (ow_ID (owner_of ob)) w2 v \<and>
        same_at (ow_ID (owner_of ob)) (snd (reconcileOwner env (owner_of ob) v)) w3 \<and>
        (er = None \<longrightarrow> fst (reconcileOwner env (owner_of ob) v) = None))"
      by (rule each_owner_at [OF d _ _ r]) (auto simp: ows m intro!: reconcile_frame plain_owner(1) [OF p1])
    show ?thesis
    proof (cases er)
      case (Some c)
      then have "e = Some c" "w' = w3" using assms(4) by (simp_all add: ReconcileOnce_def a l 3 r)
      then show ?thesis using visit Some same_at_trans [OF s2] id by auto
    next
      case None
      then obtain v where v: "same_at i w2 v" "same_at i (snd (reconcileOwner env (owner_of ob) v)) w3"
        "fst (reconcileOwner env (owner_of ob) v) = None"
        using visit id by auto
      have "plain v" using same_at_trans [OF s2 v(1)] assms(1) by (simp add: same_at_def)
      then have "plain w3" using reconcile_kept [OF t, of "owner_of ob" v env] v(2) m(1) by (auto simp: kept_def same_at_def ows)
      moreover have "i \<in> set (map ow_ID ows)" using m id by (force simp: ows)
      ultimately have "same_at i w3 (snd (backfillOwners env (map ow_ID ows) w3))" by (rule backfill_at)
      moreover have "w' = snd (backfillOwners env (map ow_ID ows) w3)" using assms(4) by (simp add: ReconcileOnce_def a l 3 r None)
      ultimately show ?thesis using v same_at_trans [OF s2 v(1)] same_at_trans [OF v(2)] by blast
    qed
  qed (use assms(4) s1 s2 in \<open>auto simp: ReconcileOnce_def a l\<close>)
qed

subsection \<open>A visit of the owner\<close>

lemma object_log [simp]: "object_of i (logged e w) = object_of i w"
  by (simp add: object_of_def)

lemma object_db [simp]: "object_of i (snd (on_db f w)) = object_of i w" "object_of i (snd (ask g e w)) = object_of i w"
  by (simp_all add: object_of_def)

text \<open>A property of the object that the calls on owners keep.\<close>

definition object_has :: "string \<Rightarrow> (GeneratorWorkspace \<Rightarrow> bool) \<Rightarrow> cluster \<Rightarrow> bool" where
  "object_has i P w \<longleftrightarrow> (case object_of i w of None \<Rightarrow> False | Some ob \<Rightarrow> P ob)"

lemma object_has_log [simp]: "object_has i P (logged e w) = object_has i P w"
  by (simp add: object_has_def)

lemma object_has_at: "same_at i w w' \<Longrightarrow> object_has i P w' = object_has i P w"
  by (simp add: object_has_def same_at_def)

lemma get_keeps [simp]: "object_has i P (snd (api_get env j w)) = object_has i P w"
  by (auto simp: api_get_def client_call_def split: option.split)

lemma patch_status_keeps:
  assumes "\<And>ob s. P (ob \<lparr>gw_Status := s\<rparr>) = P ob" "object_has i P w"
  shows "object_has i P (snd (api_patch_status env ob s w))"
  using assms(2)
  by (auto simp: api_patch_status_def client_call_def Let_def object_has_def object_of_change assms(1) split: option.splits)

lemma create_keeps: "object_has i P w \<Longrightarrow> object_has i P (snd (api_create env ob w))"
  by (auto simp: api_create_def client_call_def Let_def object_has_def object_of_append
      simp del: logged_db split: option.splits)

lemma ensureFinalizer_keeps:
  assumes "\<And>x y. P x \<Longrightarrow> P y \<Longrightarrow> P (x \<lparr>gw_Finalizers := gw_Finalizers y @ [GeneratorWorkspaceCleanupFinalizer]\<rparr>)"
    "gw_Name ob = i \<Longrightarrow> P ob \<or> hasGeneratorWorkspaceFinalizer ob" "object_has i P w"
  shows "object_has i P (snd (ensureFinalizer env ob w))"
  using assms(2,3)
  by (auto simp: ensureFinalizer_def api_patch_finalizers_def client_call_def object_has_def object_of_change case_prod_beta
      intro: assms(1) split: option.splits sum.split)

lemma record_keeps:
  assumes "\<And>ob s. P (ob \<lparr>gw_Status := s\<rparr>) = P ob" "object_has i P w"
  shows "object_has i P (snd (RecordWorkspaceOwnerStatus env r w))"
  using assms(2)
  by (auto simp: RecordWorkspaceOwnerStatus_def case_prod_beta split: sum.split
      intro!: patch_status_keeps [where P = P, OF assms(1)] create_keeps)

lemma get_Inr: "fst (api_get env j w) = Inr ob \<Longrightarrow> object_of j w = Some ob"
  by (auto simp: api_get_def client_call_def split: option.splits)

lemma create_Inr: "fst (api_create env ob w) = Inr ob' \<Longrightarrow> gw_Finalizers ob' = gw_Finalizers ob"
  by (auto simp: api_create_def client_call_def Let_def split: option.splits if_splits)

lemma new_has_finalizer: "gw_Finalizers ob = gw_Finalizers (newObject r) \<Longrightarrow> hasGeneratorWorkspaceFinalizer ob"
  by (simp add: hasGeneratorWorkspaceFinalizer_def newObject_def)

lemma ensure_keeps:
  assumes "\<And>x y. P x \<Longrightarrow> P y \<Longrightarrow> P (x \<lparr>gw_Finalizers := gw_Finalizers y @ [GeneratorWorkspaceCleanupFinalizer]\<rparr>)" "object_has i P w"
  shows "object_has i P (snd (EnsureWorkspaceOwner env r w))"
proof (cases "blank (ws_ID r)")
  case False
  note keep = ensureFinalizer_keeps [where P = P and i = i, OF assms(1)]
  obtain g w1 where g: "api_get env (ws_ID r) w = (g, w1)" by fastforce
  have w1: "object_has i P w1" using get_keeps [of i P env "ws_ID r" w] assms(2) by (simp add: g)
  show ?thesis
  proof (cases g)
    case (Inr ob)
    have o: "object_of (ws_ID r) w = Some ob" using get_Inr [of env "ws_ID r" w ob] by (simp add: g Inr)
    have "P ob" if "gw_Name ob = i"
      using assms(2) o object_of_name [OF o] that by (simp add: object_has_def)
    then have f: "object_has i P (snd (ensureFinalizer env ob w1))" using w1 by (intro keep) auto
    obtain e w2 where e: "ensureFinalizer env ob w1 = (e, w2)" by fastforce
    have "snd (EnsureWorkspaceOwner env r w) = w2" using False by (cases e) (simp_all add: EnsureWorkspaceOwner_def g Inr e)
    then show ?thesis using f by (simp add: e)
  next
    case (Inl d)
    obtain c w2 where c: "api_create env (newObject r) w1 = (c, w2)" by fastforce
    have w2: "object_has i P w2" using create_keeps [OF w1, of env "newObject r"] by (simp add: c)
    have "snd (EnsureWorkspaceOwner env r w) \<in> {w1, w2}"
    proof (cases c)
      case (Inr ob)
      have "ensureFinalizer env ob w2 = (None, w2)"
        using new_has_finalizer [of ob r] create_Inr [of env "newObject r" w1 ob] by (simp add: c Inr ensureFinalizer_def)
      then show ?thesis using False by (simp add: EnsureWorkspaceOwner_def g Inl c Inr)
    next
      case (Inl d')
      have "ensureFinalizer env (newObject r) w2 = (None, w2)" using new_has_finalizer [of "newObject r" r] by (simp add: ensureFinalizer_def)
      then show ?thesis using False by (simp add: EnsureWorkspaceOwner_def g \<open>g = Inl d\<close> c Inl)
    qed
    then show ?thesis using w1 w2 by auto
  qed
qed (use assms(2) in \<open>simp add: EnsureWorkspaceOwner_def\<close>)

abbreviation exists_at :: "string \<Rightarrow> cluster \<Rightarrow> bool" where
  "exists_at i w \<equiv> object_has i (\<lambda>_. True) w"

lemma exists_at_iff: "exists_at i w \<longleftrightarrow> object_of i w \<noteq> None"
  by (auto simp: object_has_def split: option.split)

text \<open>A drop deletes the sandbox before anything else.\<close>

lemma kept_trans: "kept u v \<Longrightarrow> kept v w \<Longrightarrow> kept u w"
  by (auto simp: kept_def intro: suffix_order.trans)

lemma next_step_kept:
  "kept w (snd r) \<Longrightarrow> (\<And>a w1. kept w1 (snd (f a w1))) \<Longrightarrow> kept w (snd (next_step r f))"
  using kept_trans by (fastforce simp: next_step_def split: prod.split sum.split)

definition sandbox_step :: "workspace_env \<Rightarrow> string \<Rightarrow> cluster \<Rightarrow> (go_error + unit) \<times> cluster" where
  "sandbox_step env b w = (if b = [] then (Inr (), w)
     else wrapping ''delete generator sandbox'' (as_result (delete_sandbox env b w)))"

lemma owner_kept:
  "trim (ws_ID r) = ws_ID r \<Longrightarrow> kept w (snd (EnsureWorkspaceOwner env r w))" "kept w (snd (deleteOwner env j w))"
proof -
  show "kept w (snd (EnsureWorkspaceOwner env r w))" if "trim (ws_ID r) = ws_ID r"
    by (rule kept_same_at [OF owner_frames(1) [where i = "CHR ''x'' # ws_ID r", OF _ that]]) simp
  show "kept w (snd (deleteOwner env j w))"
    using kept_same_at [OF owner_frames(4) [where i = "CHR ''x'' # trim j"]] by (simp add: deleteOwner_def)
qed

lemma drop_parts:
  assumes "trim (ow_ID ow) = ow_ID ow" "trim (ws_ID r) = ws_ID r"
  obtains rest :: "cluster \<Rightarrow> (go_error + unit) \<times> cluster"
  where "\<And>w. dropWorkspace env ow r w = apfst error_of (next_step (sandbox_step env (drop_sandbox ow r) w) (\<lambda>_. rest))"
    "\<And>v. kept v (snd (rest v))"
proof -
  have mark: "kept v (snd (on_db (MarkGeneratorWorkspaceDeleted pf (ws_ID r) now) v))" for pf now v
    using mark_deleted_row [where j = "ws_ID r" and i = "CHR ''x'' # ws_ID r"]
    by (intro kept_same_at [where i = "CHR ''x'' # ws_ID r"] on_db_frame) simp_all
  have self: "kept v v" for v by (simp add: kept_def)
  have ask: "kept v (snd (ask (we_claim env) e v))" for v e by (rule kept_same_at [OF same_at_ask])
  have "\<exists>rest :: cluster \<Rightarrow> (go_error + unit) \<times> cluster. (\<forall>w. dropWorkspace env ow r w = apfst error_of (next_step (sandbox_step env (drop_sandbox ow r) w) (\<lambda>_. rest))) \<and>
      (\<forall>v. kept v (snd (rest v)))"
    unfolding dropWorkspace_def sandbox_step_def [symmetric]
    by (intro exI conjI allI, rule refl, intro next_step_kept)
      (auto simp: mark self ask owner_kept assms)
  then show thesis using that by blast
qed

subsection \<open>A visit of an owner with its facts\<close>

lemma get_row: "trim i = i \<Longrightarrow> workspace_row i g = Some r \<Longrightarrow> GetGeneratorWorkspace i g = Inr r"
  by (simp add: GetGeneratorWorkspace_def found_def)

lemma reconcile_current:
  assumes "Rebuildable ow" "trim (ow_ID ow) = ow_ID ow" "workspace_row (ow_ID ow) (cl_db w) = Some r"
    "ws_State r \<notin> {WorkspaceDeleting, WorkspaceDeleted}" "exists_at i w"
  shows "cl_db (snd (reconcileOwner env ow w)) = cl_db w \<and> exists_at i (snd (reconcileOwner env ow w))"
  using assms(4,5) record_keeps [of "\<lambda>_. True" i w env r]
  by (simp add: reconcileOwner_def assms(1) get_row [OF assms(2,3)])

text \<open>A retired workspace is dropped, after the owner's status has been brought up to date.\<close>

lemma reconcile_retired:
  assumes "Rebuildable ow" "trim (ow_ID ow) = ow_ID ow" "workspace_row (ow_ID ow) (cl_db w) = Some r"
    "ws_State r \<in> {WorkspaceDeleting, WorkspaceDeleted}"
  obtains w1 where "cl_db w1 = cl_db w"
    "\<And>P. (\<And>ob s. P (ob \<lparr>gw_Status := s\<rparr>) = P ob) \<Longrightarrow> object_has i P w \<Longrightarrow> object_has i P w1"
    "(\<exists>e. reconcileOwner env ow w = (Some e, w1)) \<or> reconcileOwner env ow w = dropWorkspace env ow r w1"
proof (cases "ws_State r = WorkspaceDeleting \<and> ow_State ow \<noteq> WorkspaceDeleting")
  case True
  obtain e w1 where s: "RecordWorkspaceOwnerStatus env r w = (e, w1)" by fastforce
  show thesis
  proof (rule that [of w1])
    show "cl_db w1 = cl_db w" using owner_ops_db(2) [of env r w] by (simp add: s)
    show "object_has i P w1" if "\<And>ob s. P (ob \<lparr>gw_Status := s\<rparr>) = P ob" "object_has i P w" for P
      using record_keeps [where P = P, OF that, of env r] by (simp add: s)
    show "(\<exists>e. reconcileOwner env ow w = (Some e, w1)) \<or> reconcileOwner env ow w = dropWorkspace env ow r w1"
      using True by (cases e) (simp_all add: reconcileOwner_def assms(1) get_row [OF assms(2,3)] s)
  qed
next
  case False
  then show thesis
    using assms(4) that [of w] by (auto simp: reconcileOwner_def assms(1) get_row [OF assms(2,3)])
qed

lemma drop_outlived:
  assumes "trim (ow_ID ow) = ow_ID ow" "trim (ws_ID r) = ws_ID r" "dropWorkspace env ow r w = (e, w')" "exists_at i w"
    "b = drop_sandbox ow r" "b \<noteq> []" "object_of i w' = None"
  shows "\<exists>l. we_sandbox env (SandboxDelete b # l) = None \<and> suffix (SandboxDelete b # l) (cl_log w')"
proof -
  obtain rest :: "cluster \<Rightarrow> (go_error + unit) \<times> cluster" where rest: "\<And>w. dropWorkspace env ow r w = apfst error_of (next_step (sandbox_step env (drop_sandbox ow r) w) (\<lambda>_. rest))"
    "\<And>v. kept v (snd (rest v))"
    using drop_parts [OF assms(1,2), of env] by blast
  let ?v = "logged (SandboxDelete b) w"
  show ?thesis
  proof (cases "we_sandbox env (SandboxDelete b # cl_log w)")
    case None
    have "snd (rest ?v) = w'"
      using assms(3) by (simp add: rest(1) assms(5) [symmetric] sandbox_step_def assms(6) delete_sandbox_def ask_def None as_result_def
          wrapping_def next_step_def prod_eq_iff)
    then have "suffix (cl_log ?v) (cl_log w')" using rest(2) [of ?v] by (simp add: kept_def)
    then show ?thesis using None by (auto simp: logged_def)
  next
    case (Some c)
    then have "w' = ?v"
      using assms(3) by (simp add: rest(1) assms(5) [symmetric] sandbox_step_def assms(6) delete_sandbox_def ask_def as_result_def
          wrapping_def next_step_def)
    then show ?thesis using assms(4,7) by (simp add: exists_at_iff)
  qed
qed

subsection \<open>Properties\<close>

lemma owner_of_at: "object_of i w = Some ob \<Longrightarrow> ow_ID (owner_of ob) = i"
  by (auto simp: owner_of_def dest: object_of_name)

lemma tick_after_pass: "same_at i (snd (ReconcileOnce env w)) (snd (reconciler_tick env w))"
  by (simp add: reconciler_tick_def case_prod_beta sanitize_at split: option.split)

text \<open>
  C8 An owner that carries its facts (whose status names the workflow, the namespace and the volume claim)
  outlives its sandbox: in a cluster with unique and trimmed names, a pass of the reconciler, whatever the
  other systems answer and wherever it stops, leaves the row of a current workspace as it is and keeps its owner; and if the owner of a retired one is
  gone after the pass, then its sandbox was deleted before, without an error. This is for owners with
  facts only: one without them that is being deleted loses its finalizer whatever becomes of a sandbox.
\<close>

theorem owner_outlives_sandbox:
  assumes "plain w" "workspace_row i (cl_db w) = Some r" "object_of i w = Some ob" "Rebuildable (owner_of ob)"
    "b = drop_sandbox (owner_of ob) r"
  shows "let w' = snd (reconciler_tick env w) in
    (ws_State r \<notin> {WorkspaceDeleting, WorkspaceDeleted} \<longrightarrow>
       workspace_row i (cl_db w') = Some r \<and> object_of i w' \<noteq> None) \<and>
    (object_of i w' = None \<and> b \<noteq> [] \<longrightarrow>
       (\<exists>l. we_sandbox env (SandboxDelete b # l) = None \<and> suffix (SandboxDelete b # l) (cl_log w')))"
proof -
  obtain e wr where p: "ReconcileOnce env w = (e, wr)" by fastforce
  have t: "same_at i wr (snd (reconciler_tick env w))" using tick_after_pass [of i env w] by (simp add: p)
  note id = owner_of_at [OF assms(3)]
  have trim: "trim i = i" by (rule plain_row [OF assms(1,2)])
  consider "same_at i w wr" | w1 where "same_at i w w1" "same_at i (snd (reconcileOwner env (owner_of ob) w1)) wr"
    using pass_at [OF assms(1-3) p] by blast
  then show ?thesis
  proof cases
    case 1
    have "object_of i (snd (reconciler_tick env w)) = Some ob" "workspace_row i (cl_db (snd (reconciler_tick env w))) = Some r"
      using same_at_trans [OF 1 t] assms(2,3) by (simp_all add: same_at_def)
    then show ?thesis by (simp add: Let_def)
  next
    case 2
    let ?w2 = "snd (reconcileOwner env (owner_of ob) w1)"
    have same: "same_at i ?w2 (snd (reconciler_tick env w))" by (rule same_at_trans [OF 2(2) t])
    have row: "workspace_row (ow_ID (owner_of ob)) (cl_db w1) = Some r" and ex: "exists_at i w1"
      using 2(1) assms(2,3) by (simp_all add: same_at_def exists_at_iff id)
    have tr: "trim (ow_ID (owner_of ob)) = ow_ID (owner_of ob)" "trim (ws_ID r) = ws_ID r"
      using workspace_row_in [OF row] by (simp_all add: id trim)
    show ?thesis
    proof (cases "ws_State r \<in> {WorkspaceDeleting, WorkspaceDeleted}")
      case False
      then show ?thesis using reconcile_current [OF assms(4) tr(1) row False ex, of env] same row
        by (auto simp: same_at_def Let_def exists_at_iff id)
    next
      case True
      obtain w3 where w3: "cl_db w3 = cl_db w1"
        "\<And>P. (\<And>ob s. P (ob \<lparr>gw_Status := s\<rparr>) = P ob) \<Longrightarrow> object_has i P w1 \<Longrightarrow> object_has i P w3"
        "(\<exists>e. reconcileOwner env (owner_of ob) w1 = (Some e, w3)) \<or> reconcileOwner env (owner_of ob) w1 = dropWorkspace env (owner_of ob) r w3"
        using reconcile_retired [OF assms(4) tr(1) row True, where env = env and i = i] by blast
      have ex3: "exists_at i w3" using w3(2) [of "\<lambda>_. True"] ex by simp
      have "\<exists>l. we_sandbox env (SandboxDelete b # l) = None \<and> suffix (SandboxDelete b # l) (cl_log ?w2)"
        if "object_of i ?w2 = None" "b \<noteq> []"
        using w3(3)
      proof
        assume d: "reconcileOwner env (owner_of ob) w1 = dropWorkspace env (owner_of ob) r w3"
        obtain x y where xy: "dropWorkspace env (owner_of ob) r w3 = (x, y)" by fastforce
        show ?thesis using drop_outlived [OF tr xy ex3 assms(5) that(2)] that(1) by (simp add: d xy)
      qed (use ex3 that in \<open>auto simp: exists_at_iff\<close>)
      then show ?thesis using same True by (auto simp: same_at_def Let_def intro: suffix_order.trans)
    qed
  qed
qed

subsection \<open>A pass without an error\<close>

abbreviation clearable :: "GeneratorWorkspace \<Rightarrow> bool" where
  "clearable ob \<equiv> set (gw_Finalizers ob) \<subseteq> {GeneratorWorkspaceCleanupFinalizer}"

lemma filter_clearable: "clearable ob \<Longrightarrow> filter (\<lambda>f. f \<noteq> GeneratorWorkspaceCleanupFinalizer) (gw_Finalizers ob) = []"
  by (auto simp: filter_empty_conv)

lemma owner_deleted:
  assumes "\<forall>l. we_fault env l \<noteq> Some ApiNotFound" "trim i = i" "object_has i clearable w" "DeleteWorkspaceOwner env i w = (None, w')"
  shows "object_of i w' = None"
proof -
  obtain ob where ob: "object_of i w = Some ob" "clearable ob" using assms(3) by (auto simp: object_has_def split: option.splits)
  have n: "gw_Name ob = i" by (rule object_of_name [OF ob(1)])
  have nf: "we_fault env l = None \<or> (\<exists>e. we_fault env l = Some e \<and> e \<noteq> ApiNotFound)" for l
    using assms(1) by (cases "we_fault env l") auto
  have get: "api_get env i w = (Inr ob, logged (ApiGet i) w)"
    using assms(2,4) nf [of "ApiGet i # cl_log w"] ob(1)
    by (auto simp: DeleteWorkspaceOwner_def api_get_def client_call_def split: if_splits)
  have del: "object_of i v' = None" if "api_delete env i v = (q, v')" "q = Inr () \<or> q = Inl ApiNotFound"
    "\<And>x. object_of i v = Some x \<Longrightarrow> gw_Finalizers x = []" for v v' q
    using that nf [of "ApiDelete i # cl_log v"]
    by (auto simp: api_delete_def client_call_def object_of_drop split: option.splits if_splits)
  show ?thesis
  proof (cases "hasGeneratorWorkspaceFinalizer ob")
    case True
    obtain q v where f: "api_patch_finalizers env ob [] (logged (ApiGet i) w) = (q, v)" by fastforce
    obtain q' v' where d: "api_delete env i v = (q', v')" by fastforce
    have q: "q = Inr ()" "w' = v'" "q' = Inr () \<or> q' = Inl ApiNotFound"
      using assms(2,4) True f d
      by (auto simp: DeleteWorkspaceOwner_def get filter_clearable [OF ob(2)] n Let_def split: if_splits sum.splits)
    have "gw_Finalizers x = []" if "object_of i v = Some x" for x
      using f q(1) that ob(1) by (auto simp: api_patch_finalizers_def client_call_def n object_of_drop object_of_change split: option.splits if_splits)
    then show ?thesis using del [OF d q(3)] q(2) by simp
  next
    case False
    then have e: "gw_Finalizers ob = []" using ob(2) by (cases "gw_Finalizers ob") (auto simp: hasGeneratorWorkspaceFinalizer_def)
    obtain q' v' where d: "api_delete env i (logged (ApiGet i) w) = (q', v')" by fastforce
    have "w' = v'" "q' = Inr () \<or> q' = Inl ApiNotFound"
      using assms(2,4) False d by (auto simp: DeleteWorkspaceOwner_def get n Let_def split: if_splits sum.splits)
    then show ?thesis using del [OF d] e ob(1) by simp
  qed
qed

lemma clearable_patch: "clearable x \<Longrightarrow> clearable y \<Longrightarrow> clearable (x \<lparr>gw_Finalizers := gw_Finalizers y @ [GeneratorWorkspaceCleanupFinalizer]\<rparr>)"
  by simp

lemma marked_deleted:
  assumes "workspace_row i g = Some r" "ws_State r \<in> {WorkspaceDeleting, WorkspaceDeleted}"
    "MarkGeneratorWorkspaceDeleted pf i now g = (None, g')"
  shows "\<exists>s. workspace_row i g' = Some s \<and> ws_State s = WorkspaceDeleted"
proof -
  let ?P = "\<lambda>s. ws_ID s = i \<and> (ws_State s = WorkspaceDeleting \<or> ws_State s = WorkspaceDeleted)"
  let ?h = "\<lambda>s. s \<lparr>ws_State := WorkspaceDeleted, ws_UpdatedAt := pf_ts pf now, ws_DeletedAt := Some (pf_ts pf now)\<rparr>"
  have "snd (MarkGeneratorWorkspaceDeleted pf i now g) = g \<lparr>g_workspaces := fst (sql_update ?P ?h (g_workspaces g))\<rparr>"
    using assms(3) by (simp add: MarkGeneratorWorkspaceDeleted_def Let_def split: prod.splits if_splits)
  then have g': "g' = g \<lparr>g_workspaces := fst (sql_update ?P ?h (g_workspaces g))\<rparr>" by (simp add: assms(3))
  have "ws_ID r = i" using workspace_row_in [OF assms(1)] by simp
  then show ?thesis unfolding g' using assms(1,2) by (simp add: workspace_row_def sql_row_update)
qed

lemma drop_done:
  assumes "\<forall>l. we_fault env l \<noteq> Some ApiNotFound" "dropWorkspace env ow r w = (None, w')" "trim (ow_ID ow) = ow_ID ow"
    "ow_ID ow = i" "workspace_row i (cl_db w) = Some r" "ws_State r \<in> {WorkspaceDeleting, WorkspaceDeleted}"
    "object_has i clearable w"
  shows "object_of i w' = None \<and> (\<exists>s. workspace_row i (cl_db w') = Some s \<and> ws_State s = WorkspaceDeleted)"
proof -
  have r: "ws_ID r = i" using workspace_row_in [OF assms(5)] by simp
  have err: "error_of x = None \<longleftrightarrow> x = Inr ()" for x :: "go_error + unit" by (cases x) simp_all
  obtain w1 w2 w3 w4 reference where
    s1: "sandbox_step env (drop_sandbox ow r) w = (Inr (), w1)" and
    s2: "(if ws_State r \<noteq> WorkspaceDeleting then (Inr (), w1)
        else as_result (on_db (MarkGeneratorWorkspaceDeleted (we_pf env) (ws_ID r) (now_of env w1)) w1)) = (Inr (), w2)" and
    s3: "EnsureWorkspaceOwner env (ownerRecord ow) w2 = (Inr reference, w3)" and
    s4: "ask (we_claim env) (PVCOwner (ow_Namespace ow) (ow_PVCName ow) reference) w3 = (None, w4)" and
    s5: "deleteOwner env (ow_ID ow) w4 = (None, w')"
    using assms(2) unfolding dropWorkspace_def sandbox_step_def [symmetric]
    by (auto simp: apfst_def map_prod_def err next_step_Inr wrapping_Inr as_result_Inr split: prod.splits)
  have w1: "cl_db w1 = cl_db w" "cl_objects w1 = cl_objects w"
    using s1 by (auto simp: sandbox_step_def wrapping_Inr as_result_Inr delete_sandbox_def ask_def split: if_splits)
  have w2: "cl_objects w2 = cl_objects w1" "\<exists>s. workspace_row i (cl_db w2) = Some s \<and> ws_State s = WorkspaceDeleted"
    using s2 assms(5,6) r w1(1) marked_deleted [of i "cl_db w" r "we_pf env" "now_of env w1"]
    by (auto simp: as_result_Inr on_db_eq split: if_splits)
  have "object_has i clearable w2" using assms(7) by (simp add: object_has_def object_of_def w1(2) w2(1))
  from ensure_keeps [OF clearable_patch this, of env "ownerRecord ow"]
  have "object_has i clearable w4" using s4 by (auto simp: s3 ask_def)
  moreover have d: "DeleteWorkspaceOwner env i w4 = (None, w')"
    using s5 assms(4) by (cases "DeleteWorkspaceOwner env i w4") (simp add: deleteOwner_def)
  ultimately have "object_of i w' = None" using owner_deleted [OF assms(1) _ _ d] assms(3,4) by simp
  moreover have "cl_db w' = cl_db w2"
    using owner_ops_db(1) [of env "ownerRecord ow" w2] s4 owner_ops_db(4) [of env i w4] by (auto simp: s3 d ask_def logged_def)
  ultimately show ?thesis using w2(2) by simp
qed

text \<open>
  C11 A retired workspace is dropped in one pass: when a pass of the reconciler ends without an error (and
  the API says that an object is missing only when it is), every workspace that was deleting or deleted and
  whose owner carried its facts and no foreign finalizer has lost its owner, is marked deleted in the
  database, and had its sandbox deleted.
\<close>

theorem retired_workspace_dropped:
  assumes "plain w" "workspace_row i (cl_db w) = Some r" "object_of i w = Some ob" "Rebuildable (owner_of ob)"
    "ws_State r \<in> {WorkspaceDeleting, WorkspaceDeleted}" "set (gw_Finalizers ob) \<subseteq> {GeneratorWorkspaceCleanupFinalizer}"
    "\<forall>l. we_fault env l \<noteq> Some ApiNotFound" "ReconcileOnce env w = (None, w')" "b = drop_sandbox (owner_of ob) r"
  shows "object_of i w' = None \<and> (\<exists>s. workspace_row i (cl_db w') = Some s \<and> ws_State s = WorkspaceDeleted) \<and>
    (b \<noteq> [] \<longrightarrow> (\<exists>l. we_sandbox env (SandboxDelete b # l) = None \<and> suffix (SandboxDelete b # l) (cl_log w')))"
proof -
  note id = owner_of_at [OF assms(3)]
  have trim: "trim i = i" by (rule plain_row [OF assms(1,2)])
  obtain w1 where v: "same_at i w w1" "same_at i (snd (reconcileOwner env (owner_of ob) w1)) w'"
    "fst (reconcileOwner env (owner_of ob) w1) = None"
    using pass_at [OF assms(1-3,8)] by auto
  have row: "workspace_row (ow_ID (owner_of ob)) (cl_db w1) = Some r" using v(1) assms(2) by (simp add: same_at_def id)
  have tr: "trim (ow_ID (owner_of ob)) = ow_ID (owner_of ob)" "trim (ws_ID r) = ws_ID r"
    using workspace_row_in [OF row] by (simp_all add: id trim)
  have c: "object_has i clearable w1" using v(1) assms(3,6) by (simp add: object_has_def same_at_def)
  obtain w3 where w3: "cl_db w3 = cl_db w1" "object_has i clearable w3"
    "(\<exists>e. reconcileOwner env (owner_of ob) w1 = (Some e, w3)) \<or> reconcileOwner env (owner_of ob) w1 = dropWorkspace env (owner_of ob) r w3"
  proof (rule reconcile_retired [OF assms(4) tr(1) row assms(5), where env = env and i = i])
    fix w3
    assume w3: "cl_db w3 = cl_db w1"
      "\<And>P. (\<And>ob s. P (ob \<lparr>gw_Status := s\<rparr>) = P ob) \<Longrightarrow> object_has i P w1 \<Longrightarrow> object_has i P w3"
      "(\<exists>e. reconcileOwner env (owner_of ob) w1 = (Some e, w3)) \<or> reconcileOwner env (owner_of ob) w1 = dropWorkspace env (owner_of ob) r w3"
    show thesis by (rule that [OF w3(1) w3(2) [OF _ c] w3(3)]) simp
  qed
  obtain w4 where d: "dropWorkspace env (owner_of ob) r w3 = (None, w4)" "same_at i w4 w'"
    using w3(3) v(2,3) by (cases "dropWorkspace env (owner_of ob) r w3") auto
  have row3: "workspace_row i (cl_db w3) = Some r" using row w3(1) by (simp add: id)
  have done': "object_of i w4 = None \<and> (\<exists>s. workspace_row i (cl_db w4) = Some s \<and> ws_State s = WorkspaceDeleted)"
    by (rule drop_done [OF assms(7) d(1) tr(1) id row3 assms(5) w3(2)])
  have ex: "exists_at i w3" using w3(2) by (auto simp: object_has_def split: option.splits)
  have "\<exists>l. we_sandbox env (SandboxDelete b # l) = None \<and> suffix (SandboxDelete b # l) (cl_log w4)" if "b \<noteq> []"
    using drop_outlived [OF tr d(1) ex assms(9) that] done' by simp
  then show ?thesis using done' d(2) by (auto simp: same_at_def intro: suffix_order.trans)
qed

subsection \<open>An owner whose status was never written\<close>

text \<open>What a provisioning that returns without an error has done to the table.\<close>

lemma obtain_sandbox_ready:
  assumes "obtain_sandbox env a r w = (Inr r', w')" "ready (cl_db w)" shows "ready (cl_db w')"
proof (cases "blank (ws_SandboxID r)")
  case False
  then show ?thesis using assms by (simp add: obtain_sandbox_def)
next
  case True
  obtain b w1 w2 r'' where w1: "find_or_create env a r w = (Inr b, w1)"
    and w2: "on_db (RecordGeneratorWorkspaceSandbox (we_pf env) (ws_ID r) b (now_of env w1)) w1 = (None, w2)"
    and w': "w' = snd (under env a (ws_ProvisionDeadline r) (\<lambda>w. as_result (RecordWorkspaceOwnerStatus env r'' w)) w2)"
    using assms(1) True
    by (auto simp: obtain_sandbox_def Let_def next_step_Inr compensated_Inr as_result_Inr dest!: under_Inr)
  have "cl_db w2 = run_op (we_pf env) (RecordOp (ws_ID r) b (now_of env w1)) (cl_db w)"
    using w2 find_or_create_db [OF w1] by (auto simp: on_db_eq)
  moreover have "cl_db w' = cl_db w2" unfolding w' by (rule under_db) simp
  ultimately show ?thesis using ready_op [OF assms(2), of "RecordOp (ws_ID r) b (now_of env w1)" "we_pf env"] by simp
qed

text \<open>The answers under which every status patch fails, and no other call of the API.\<close>

definition status_unwritable :: "workspace_env \<Rightarrow> bool" where
  "status_unwritable env \<longleftrightarrow> (\<forall>e l. we_fault env (e # l) = None \<longleftrightarrow> \<not> (\<exists>j. e = ApiStatus j))"

lemma record_unwritten:
  assumes "status_unwritable env" "object_of (ws_ID r) w \<noteq> None"
  shows "cl_objects (snd (RecordWorkspaceOwnerStatus env r w)) = cl_objects w"
proof -
  have f: "we_fault env (ApiGet j # l) = None" "we_fault env (ApiStatus j # l) \<noteq> None" for j l
    using assms(1) by (auto simp: status_unwritable_def)
  then show ?thesis
    using assms(2)
    by (auto simp: RecordWorkspaceOwnerStatus_def api_get_def api_patch_status_def client_call_def simp del: not_None_eq
        split: option.split)
qed

lemma obtain_sandbox_unwritten:
  assumes "obtain_sandbox env a r w = (Inr r', w')" "status_unwritable env" "object_of (ws_ID r) w \<noteq> None" "trim (ws_ID r) = ws_ID r"
  shows "cl_objects w' = cl_objects w \<and> ws_ID r' = ws_ID r"
proof (cases "blank (ws_SandboxID r)")
  case False
  then show ?thesis using assms by (simp add: obtain_sandbox_def)
next
  case True
  obtain b w1 w2 where w1: "find_or_create env a r w = (Inr b, w1)"
    and w2: "on_db (RecordGeneratorWorkspaceSandbox (we_pf env) (ws_ID r) b (now_of env w1)) w1 = (None, w2)"
    and r': "GetGeneratorWorkspace (ws_ID r) (cl_db w2) = Inr r'"
    and w': "w' = snd (under env a (ws_ProvisionDeadline r) (\<lambda>w. as_result (RecordWorkspaceOwnerStatus env r' w)) w2)"
    using assms(1) True
    by (auto simp: obtain_sandbox_def Let_def next_step_Inr compensated_Inr as_result_Inr dest!: under_Inr)
  have id: "ws_ID r' = ws_ID r" using r' assms(4) by (auto simp: GetGeneratorWorkspace_def found_Inr dest: workspace_row_in)
  have "cl_objects w1 = cl_objects w"
    using w1 by (auto simp: find_or_create_def next_step_Inr wrapping_Inr ask_eq dest!: under_Inr split: if_splits)
  then have w2: "cl_objects w2 = cl_objects w" using w2 by (auto simp: on_db_eq)
  then have "object_of (ws_ID r') w2 \<noteq> None" using assms(3) by (simp add: object_of_def id)
  then show ?thesis using record_unwritten [OF assms(2)] w2 id by (auto simp: w' under_def split: option.split)
qed

lemma unwritten_provision:
  assumes "plain w" "workspaces_ok (cl_db w)" "workspace_row i (cl_db w) = Some r" "\<not> blank i" "object_of i w = None"
    "we_kept env = (\<lambda>_. no_status)" "status_unwritable env" "provision env seed r w = (Inr s, w')"
  obtains ob where "plain w'" "object_of i w' = Some ob" "gw_Status ob = no_status" "\<not> gw_Terminating ob"
    "workspace_row i (cl_db w') = Some s" "ws_State s = WorkspaceActive" "\<not> blank (ws_SandboxID s)"
proof -
  have r: "ws_ID r = i" "trim i = i" using workspace_row_in [OF assms(3)] plain_row [OF assms(1,3)] by simp_all
  have rdy: "ready (cl_db w)" using assms(1,2) by (simp add: ready_def plain_def)
  obtain reference w1 w2 r' w3 w5 w6 started deadline where
    w1: "EnsureWorkspaceOwner env r w = (Inr reference, w1)" and w2: "ensure_claim env started r reference w1 = (Inr (), w2)"
    and w3: "obtain_sandbox env started r w2 = (Inr r', w3)" and w5: "wait_and_seed env started deadline seed r' w3 = (Inr (), w5)"
    and w6: "on_db (ActivateGeneratorWorkspace (we_pf env) (ws_ID r') (ws_SandboxID r') (now_of env w5)) w5 = (None, w6)"
    and s: "GetGeneratorWorkspace (ws_ID r') (cl_db w6) = Inr s"
    and w': "w' = snd (RecordWorkspaceOwnerStatus env s w6)"
    using assms(8)
    by (auto simp: provision_def Let_def next_step_Inr compensated_Inr wrapping_Inr as_result_Inr dest!: under_Inr)
  define ob where "ob = (newObject r) \<lparr>gw_UID := we_uid env (ApiCreate i # ApiGet i # cl_log w), gw_Status := no_status\<rparr>"
  have n: "gw_Name ob = i" "gw_Finalizers ob = [GeneratorWorkspaceCleanupFinalizer]" by (simp_all add: ob_def newObject_def r)
  have f: "we_fault env (ApiGet j # l) = None" "we_fault env (ApiCreate j # l) = None" for j l
    using assms(7) by (auto simp: status_unwritable_def)
  have o1: "cl_objects w1 = cl_objects w @ [ob]"
    using w1 assms(4-6) n f
    by (auto simp: EnsureWorkspaceOwner_def r api_get_def api_create_def client_call_def object_of_def ensureFinalizer_def
        hasGeneratorWorkspaceFinalizer_def logged_def ob_def newObject_def Let_def)
  have o2: "cl_objects w2 = cl_objects w @ [ob]" "cl_db w2 = cl_db w"
    using w2 o1 owner_ops_eq_db [OF w1] by (auto simp: ensure_claim_def wrapping_Inr as_result_Inr ask_eq dest!: under_Inr)
  have at: "object_of i v = Some ob" if "cl_objects v = cl_objects w @ [ob]" for v
    using that assms(5) n by (simp add: object_of_def sql_row_append)
  have o3: "cl_objects w3 = cl_objects w @ [ob]" "ws_ID r' = i"
    using obtain_sandbox_unwritten [OF w3 assms(7)] o2 at r by simp_all
  have "cl_objects w5 = cl_objects w3 \<and> cl_db w5 = cl_db w3"
    using w5 by (auto simp: wait_and_seed_def next_step_Inr wrapping_Inr as_result_Inr ask_eq dest!: under_Inr split: if_splits)
  then have o6: "cl_objects w6 = cl_objects w @ [ob]"
    "cl_db w6 = run_op (we_pf env) (ActivateOp (ws_ID r') (ws_SandboxID r') (now_of env w5)) (cl_db w3)"
    using w6 o3 by (auto simp: on_db_eq)
  have "ready (cl_db w3)" using obtain_sandbox_ready [OF w3] rdy by (simp add: o2)
  then have "ready (cl_db w6)" unfolding o6(2) by (rule ready_op) simp_all
  moreover have "ws_ID s = i" using s o3(2) r(2) by (auto simp: GetGeneratorWorkspace_def found_Inr dest: workspace_row_in)
  then have o': "cl_objects w' = cl_objects w @ [ob]" "cl_db w' = cl_db w6"
    using record_unwritten [OF assms(7), of s w6] at [OF o6(1)] o6(1) by (simp_all add: w')
  moreover have "plain (w \<lparr>cl_objects := cl_objects w @ [ob]\<rparr>)" using plain_objects(3) [of ob w] assms(1,5) n r(2) by simp
  ultimately have "plain w'" by (simp add: plain_def ready_def)
  moreover have "tracked (ws_ID r) (ws_WorkflowID r) (cl_db w)" using assms(2,3) r by (simp add: tracked_def)
  from provision_outcome [OF assms(8) this]
  have "workspace_row i (cl_db w') = Some s" "ws_State s = WorkspaceActive" "\<not> blank (ws_SandboxID s)"
    using \<open>ws_ID s = i\<close> by simp_all
  moreover have "gw_Status ob = no_status" "\<not> gw_Terminating ob" by (simp_all add: ob_def newObject_def)
  ultimately show thesis using that at [OF o'(1)] by blast
qed

text \<open>The sanitizer deletes every listed sandbox that no owner names.\<close>

lemma sanitize_objects: "cl_objects (snd (sanitize env owned bs result w)) = cl_objects w"
  by (induction bs arbitrary: result w) (auto simp: case_prod_beta split: option.split)

lemma sanitize_failed: "fst (sanitize env owned bs (Some e) w) \<noteq> None"
  by (induction bs arbitrary: w) (auto simp: case_prod_beta split: option.split)

lemma sanitize_deletes:
  assumes "sanitize env owned bs None w = (None, w')" "b \<in> set bs" "b \<notin> set owned"
  shows "\<exists>l. we_sandbox env (SandboxDelete b # l) = None \<and> suffix (cl_log w) l \<and> suffix (SandboxDelete b # l) (cl_log w')"
  using assms
proof (induction bs arbitrary: w)
  case (Cons x bs)
  obtain e v where v: "delete_sandbox env x w = (e, v)" by fastforce
  have log: "cl_log v = SandboxDelete x # cl_log w" "e = we_sandbox env (SandboxDelete x # cl_log w)"
    using v by (auto simp: delete_sandbox_def ask_eq logged_def)
  have grows: "suffix (cl_log u) (cl_log (snd (sanitize env owned bs None u)))" for u
    using sanitize_frame [of i u env owned bs None] by (simp add: same_at_def)
  show ?case
  proof (cases "x \<in> set owned")
    case True
    then show ?thesis using Cons by auto
  next
    case False
    have rest: "e = None" "sanitize env owned bs None v = (None, w')"
      using Cons.prems(1) False v sanitize_failed [of env owned bs "Wrap ''delete unowned generator sandbox'' (the e)" v]
      by (auto split: option.splits)
    show ?thesis
    proof (cases "b = x")
      case True
      then show ?thesis using rest log grows [of v] by (intro exI [of _ "cl_log w"]) simp
    next
      case False
      then obtain l where l: "we_sandbox env (SandboxDelete b # l) = None" "suffix (cl_log v) l" "suffix (SandboxDelete b # l) (cl_log w')"
        using Cons.IH [OF rest(2)] Cons.prems(2,3) by auto
      then show ?thesis using log(1) by (metis suffix_ConsI suffix_order.trans suffix_order.refl)
    qed
  qed
qed simp

text \<open>
  C18 An active workspace loses its sandbox when the status of its owner was never written. Both status
  patches of a provisioning are best effort: when they fail (and every other call of the API is answered),
  provisioning a workspace without an owner, if it returns one, leaves an active workspace and an owner
  without facts. If the next pass of the reconciler then ends without an error, whatever the other systems
  answer, it has not written the status either; and if the provider lists the sandbox and no other owner
  names it at the end of the pass, its sanitizer has deleted it, while the row stays active and names it.
\<close>

theorem unwritten_status_loses_sandbox:
  assumes "plain w" "workspaces_ok (cl_db w)" "workspace_row i (cl_db w) = Some r" "\<not> blank i" "object_of i w = None"
    "we_kept env = (\<lambda>_. no_status)" "status_unwritable env" "provision env seed r w = (Inr s, w1)"
    "reconciler_tick env' w1 = (None, w2)" "\<forall>l bs. we_listed env' l = Inr bs \<longrightarrow> ws_SandboxID s \<in> set bs"
    "list_all (\<lambda>ob. gw_Name ob \<noteq> i \<longrightarrow> gs_SandboxID (gw_Status ob) \<noteq> ws_SandboxID s) (cl_objects w2)"
  shows "ws_State s = WorkspaceActive \<and> workspace_row i (cl_db w2) = Some s \<and>
    (\<exists>ob. object_of i w2 = Some ob \<and> gw_Status ob = no_status) \<and>
    (\<exists>l. we_sandbox env' (SandboxDelete (ws_SandboxID s) # l) = None \<and> suffix (cl_log w1) l \<and>
       suffix (SandboxDelete (ws_SandboxID s) # l) (cl_log w2))"
proof -
  obtain ob where p: "plain w1" "object_of i w1 = Some ob" "gw_Status ob = no_status" "\<not> gw_Terminating ob"
    "workspace_row i (cl_db w1) = Some s" "ws_State s = WorkspaceActive" "\<not> blank (ws_SandboxID s)"
    by (rule unwritten_provision [OF assms(1-8)])
  obtain v where v: "ReconcileOnce env' w1 = (None, v)" "SanitizeOnce env' v = (None, w2)"
    using assms(9) by (auto simp: reconciler_tick_def split: prod.splits option.splits)
  have visit: "reconcileOwner env' (owner_of ob) u = (None, u)" for u
    using forgotten_not_rebuildable [OF p(3)] p(4) by (simp add: reconcileOwner_def owner_of_def)
  have same: "same_at i w1 v" using pass_at [OF p(1,5,2) v(1)] same_at_trans by (auto simp: visit)
  have after: "same_at i v w2" using sanitize_at [of i v env'] by (simp add: v(2))
  have at: "workspace_row i (cl_db w2) = Some s" "object_of i w2 = Some ob" "plain w2"
    using same_at_trans [OF same after] p(1,2,5) by (simp_all add: same_at_def)
  obtain bs u where bs: "we_listed env' (SandboxList # cl_log v) = Inr bs"
    "ListWorkspaceOwners env' (logged SandboxList v) = (Inr (map owner_of (cl_objects v)), u)"
    "sanitize env' (filter (\<lambda>b. b \<noteq> []) (map ow_SandboxID (map owner_of (cl_objects v)))) bs None u = (None, w2)"
    using v(2) listed_owners(2) [of env' "logged SandboxList v"]
    by (auto simp: SanitizeOnce_def ask_def split: sum.splits prod.splits)
  have u: "u = logged ApiList (logged SandboxList v)" using listed_owners(1) [OF bs(2)] by simp
  have "cl_objects w2 = cl_objects v" using sanitize_objects [of env' _ bs None u] bs(3) by (metis snd_conv u logged_db(2))
  moreover have "gs_SandboxID (gw_Status x) \<noteq> ws_SandboxID s" if "x \<in> set (cl_objects w2)" for x
  proof (cases "gw_Name x = i")
    case True
    have "distinct (map gw_Name (cl_objects w2))" using at(3) by (simp add: plain_def)
    from sql_row_distinct [OF this that] have "x = ob" using at(2) True by (simp add: object_of_def)
    then show ?thesis using p(3,7) by (auto simp: no_status_def blank_def)
  qed (use assms(11) that in \<open>auto simp: list_all_iff\<close>)
  ultimately have "ws_SandboxID s \<notin> (\<lambda>x. gs_SandboxID (gw_Status x)) ` set (cl_objects v)" by (metis imageE)
  moreover have "set (filter P (map ow_SandboxID (map owner_of t))) \<subseteq> (\<lambda>x. gs_SandboxID (gw_Status x)) ` set t" for P t
    by (auto simp: owner_of_def)
  ultimately have "ws_SandboxID s \<notin> set (filter (\<lambda>b. b \<noteq> []) (map ow_SandboxID (map owner_of (cl_objects v))))"
    by blast
  from sanitize_deletes [OF bs(3) _ this] obtain l where l: "we_sandbox env' (SandboxDelete (ws_SandboxID s) # l) = None"
    "suffix (cl_log u) l" "suffix (SandboxDelete (ws_SandboxID s) # l) (cl_log w2)"
    using assms(10) bs(1) by blast
  moreover have "suffix (cl_log w1) (cl_log u)" using same by (simp add: same_at_def u logged_def suffix_ConsI)
  ultimately show ?thesis using at p(3,6) suffix_order.trans by blast
qed

end
