(* ===== verification/WorkspaceExamples.thy ===== *)
theory WorkspaceExamples
  imports WorkspaceDrops GenerationExamples
begin

section \<open>The workspace properties on a concrete workspace\<close>

text \<open>One workspace of one workflow, its owner, and other systems that answer without an error.\<close>

definition example_workspace :: "WorkspaceState \<Rightarrow> Workspace" where
  "example_workspace s = \<lparr>ws_ID = ''k1'', ws_WorkflowID = ''w1'', ws_Namespace = ''n'', ws_PVCName = ''p1'',
     ws_SandboxID = (if s = WorkspacePending then [] else ''b1''), ws_ActiveTurnID = [], ws_State = s,
     ws_ProvisionDeadline = 9, ws_IdleSince = None, ws_CreatedAt = 1, ws_UpdatedAt = 1, ws_DeletedAt = None\<rparr>"

definition example_workspaces :: "WorkspaceState \<Rightarrow> generation_db" where
  "example_workspaces s = empty_generation \<lparr>g_workspaces := [example_workspace s]\<rparr>"

definition example_owner :: "GeneratorWorkspaceStatus \<Rightarrow> GeneratorWorkspace" where
  "example_owner s = \<lparr>gw_Name = ''k1'', gw_UID = ''u'', gw_Finalizers = [GeneratorWorkspaceCleanupFinalizer],
     gw_Terminating = False, gw_Status = s\<rparr>"

definition example_cluster :: "WorkspaceState \<Rightarrow> GeneratorWorkspace list \<Rightarrow> cluster" where
  "example_cluster s obs = \<lparr>cl_db = example_workspaces s, cl_objects = obs, cl_log = []\<rparr>"

text \<open>The API keeps nothing of a created status; \<open>claim\<close> is what the volume claim answers.\<close>

definition example_answers :: "go_error option \<Rightarrow> workspace_env" where
  "example_answers claim = \<lparr>we_pf = example_platform, we_fault = (\<lambda>_. None), we_kept = (\<lambda>_. no_status), we_uid = (\<lambda>_. ''u''),
     we_claim = (\<lambda>_. claim), we_find = (\<lambda>_. Inr ([], False)), we_create = (\<lambda>_. Inr ''b2''), we_sandbox = (\<lambda>_. None),
     we_listed = (\<lambda>_. Inr [''b1'']), we_now = (\<lambda>_. 3), we_newID = (\<lambda>_. ''k2''), we_done = (\<lambda>_. None),
     we_namespace = ''n'', we_storage = ''1Gi'', we_timeout = 5\<rparr>"

lemma example_k1 [simp]: "trim ''k1'' = ''k1''" "trim ''w1'' = ''w1''" "trim ''k2'' = ''k2''"  "trim ''b1'' = ''b1''"
  by code_simp+

lemma example_named [simp]: "\<not> blank ''b1''" "\<not> blank ''n''" "\<not> blank ''p1''" "\<not> blank ''t2''"
  by code_simp+

lemma example_workspace_at: "workspace_row ''k1'' (example_workspaces s) = Some (example_workspace s)"
  by (simp add: workspace_row_def sql_row_def example_workspaces_def example_workspace_def)

lemma example_workspaces_ok: "s \<in> {WorkspacePending, WorkspaceActive, WorkspaceDeleting} \<Longrightarrow> workspaces_ok (example_workspaces s)"
  by (auto simp: workspaces_ok_def example_workspaces_def example_workspace_def row_ok_def WorkspaceState_Known_def)

lemma example_plain:
  "plain (example_cluster s [])" "plain (example_cluster s [example_owner st])"
  by (simp_all add: plain_def plain_ids_def example_cluster_def example_workspaces_def example_workspace_def example_owner_def)

theorem workspaces_move_forward_witness:
  "workspaces_ok (run_ops example_platform [RetireOp ''w1'' 2, DeletedOp ''k1'' 3] (example_workspaces WorkspaceActive)) \<and>
   (\<exists>s'. workspace_row ''k1'' (run_ops example_platform [RetireOp ''w1'' 2, DeletedOp ''k1'' 3] (example_workspaces WorkspaceActive)) = Some s' \<and>
      ws_SandboxID s' = ''b1'')"
  using workspaces_move_forward [OF example_workspaces_ok _ example_workspace_at, of WorkspaceActive "[RetireOp ''w1'' 2, DeletedOp ''k1'' 3]" example_platform]
  by (auto simp: example_workspace_def)

lemma example_acquire:
  "AcquireGeneratorWorkspaceTurn example_platform ''w1'' ''t1'' 2 (example_workspaces WorkspaceActive) =
     (Inr (bind_turn ''t1'' 2 (example_workspace WorkspaceActive)),
      (example_workspaces WorkspaceActive) \<lparr>g_workspaces := [bind_turn ''t1'' (pf_ts example_platform 2) (example_workspace WorkspaceActive)]\<rparr>)"
  by (simp add: AcquireGeneratorWorkspaceTurn_def example_workspaces_def newest_workspace_def sql_first_def example_workspace_def
      WorkspaceTurn_Valid_def found_def update_workspace_def sql_update_def bind_turn_def)

theorem turn_excludes_others_witness:
  "let g = run_ops example_platform [RecordOp ''k1'' ''b1'' 3, RetireIdleOp ''k1'' ''d'' 3 4] (snd (AcquireGeneratorWorkspaceTurn
       example_platform ''w1'' ''t1'' 2 (example_workspaces WorkspaceActive)))
   in AcquireGeneratorWorkspaceTurn example_platform ''w1'' ''t2'' 5 g = (Inl workspace_busy, g)"
proof -
  have v: "WorkspaceTurn_Valid ''w1'' ''t2''" by (simp add: WorkspaceTurn_Valid_def)
  have ops: "list_all op_sane [RecordOp ''k1'' ''b1'' 3, RetireIdleOp ''k1'' ''d'' 3 4]"
    "list_all (\<lambda>op. \<not> gives_up op (bind_turn ''t1'' 2 (example_workspace WorkspaceActive))) [RecordOp ''k1'' ''b1'' 3, RetireIdleOp ''k1'' ''d'' 3 4]"
    by simp_all
  show ?thesis
    using turn_excludes_others [OF example_workspaces_ok example_acquire ops v, of 5] by (simp add: Let_def example_acquire)
qed

theorem ensure_returns_witness:
  "\<exists>res w'. EnsureFresh (example_answers None) ''w1'' ''s'' (example_cluster WorkspaceActive []) = Some (res, w') \<and> ensured ''w1'' res w'"
proof -
  have "plain_ids (example_workspaces WorkspaceActive)"
    by (simp add: plain_ids_def example_workspaces_def example_workspace_def)
  then show ?thesis
    using ensure_returns [of "example_cluster WorkspaceActive []" "example_answers None" "''w1''" "''s''"] example_workspaces_ok
    by (simp add: example_cluster_def example_answers_def)
qed

theorem failed_provision_leaks_witness:
  "let env = example_answers (Some (Msg ''quota exceeded''));
       w' = workspace_passes [ReaperPass (example_answers None), ReconcilerPass (example_answers None), RestartPass (example_answers None)]
         (snd (Manager_Cleanup (example_answers None) ''k1'' (snd (provision env ''s'' (example_workspace WorkspacePending) (example_cluster WorkspacePending [])))))
   in (\<exists>s. workspace_row ''k1'' (cl_db w') = Some s \<and> ws_State s = WorkspaceDeleting) \<and> object_of ''k1'' w' \<noteq> None"
  unfolding Let_def
  by (rule failed_provision_leaks [unfolded Let_def, OF example_plain(1)])
    (simp_all add: example_cluster_def example_workspace_at object_of_def example_answers_def example_workspace_def [of WorkspacePending] sql_row_def)

lemma example_rebuildable:
  "Rebuildable (owner_of (example_owner (ownerStatus (example_workspace s))))"
  by (simp add: Rebuildable_def owner_of_def example_owner_def ownerStatus_def example_workspace_def)

lemma example_object: "object_of ''k1'' (example_cluster s [example_owner st]) = Some (example_owner st)"
  by (simp add: object_of_def sql_row_def example_cluster_def example_owner_def)

lemma example_sandbox: "drop_sandbox (owner_of (example_owner (ownerStatus (example_workspace WorkspaceActive)))) (example_workspace WorkspaceActive) = ''b1''"
  "drop_sandbox (owner_of (example_owner (ownerStatus (example_workspace WorkspaceDeleting)))) (example_workspace WorkspaceDeleting) = ''b1''"
  by (simp_all add: drop_sandbox_def example_workspace_def)

theorem owner_outlives_sandbox_witness:
  "let w' = snd (reconciler_tick (example_answers None) (example_cluster WorkspaceActive [example_owner (ownerStatus (example_workspace WorkspaceActive))])) in
    workspace_row ''k1'' (cl_db w') = Some (example_workspace WorkspaceActive) \<and> object_of ''k1'' w' \<noteq> None"
proof -
  let ?w = "example_cluster WorkspaceActive [example_owner (ownerStatus (example_workspace WorkspaceActive))]"
  have row: "workspace_row ''k1'' (cl_db ?w) = Some (example_workspace WorkspaceActive)"
    by (simp add: example_cluster_def example_workspace_at)
  have "ws_State (example_workspace WorkspaceActive) \<notin> {WorkspaceDeleting, WorkspaceDeleted}" by (simp add: example_workspace_def)
  then show ?thesis
    using owner_outlives_sandbox [OF example_plain(2) row example_object example_rebuildable refl, where env = "example_answers None"]
    by (simp add: Let_def)
qed

lemma example_drop_pass:
  "fst (ReconcileOnce (example_answers None) (example_cluster WorkspaceDeleting [example_owner (ownerStatus (example_workspace WorkspaceDeleting))])) = None"
  by code_simp

theorem retired_workspace_dropped_witness:
  "object_of ''k1'' (snd (ReconcileOnce (example_answers None) (example_cluster WorkspaceDeleting [example_owner (ownerStatus (example_workspace WorkspaceDeleting))]))) = None"
proof -
  let ?w = "example_cluster WorkspaceDeleting [example_owner (ownerStatus (example_workspace WorkspaceDeleting))]"
  have p: "ReconcileOnce (example_answers None) ?w = (None, snd (ReconcileOnce (example_answers None) ?w))"
    using example_drop_pass by (simp add: prod_eq_iff)
  have row: "workspace_row ''k1'' (cl_db ?w) = Some (example_workspace WorkspaceDeleting)"
    by (simp add: example_cluster_def example_workspace_at)
  show ?thesis
    using retired_workspace_dropped [OF example_plain(2) row example_object example_rebuildable _ _ _ p refl]
    by (simp add: example_answers_def example_workspace_def example_owner_def)
qed

text \<open>An API that refuses every status patch, and afterwards a provider that lists the new sandbox.\<close>

definition unwritable_answers :: workspace_env where
  "unwritable_answers = (example_answers None)
     \<lparr>we_fault := (\<lambda>l. case l of ApiStatus _ # _ \<Rightarrow> Some (ApiFailure ''timeout'') | _ \<Rightarrow> None)\<rparr>"

definition listing_answers :: workspace_env where
  "listing_answers = (example_answers None) \<lparr>we_listed := (\<lambda>_. Inr [''b2''])\<rparr>"

definition unwritten_cluster :: cluster where
  "unwritten_cluster = snd (provision unwritable_answers ''s'' (example_workspace WorkspacePending) (example_cluster WorkspacePending []))"

lemma example_unwritten:
  "map_sum (\<lambda>_. ()) ws_SandboxID (fst (provision unwritable_answers ''s'' (example_workspace WorkspacePending)
     (example_cluster WorkspacePending []))) = Inr ''b2''"
  "fst (reconciler_tick listing_answers unwritten_cluster) = None"
  "map gw_Name (cl_objects (snd (reconciler_tick listing_answers unwritten_cluster))) = [''k1'']"
  by code_simp+

theorem unwritten_status_loses_sandbox_witness:
  "\<exists>l. suffix (SandboxDelete ''b2'' # l) (cl_log (snd (reconciler_tick listing_answers unwritten_cluster)))"
proof -
  let ?r = "example_workspace WorkspacePending" and ?w = "example_cluster WorkspacePending []"
  obtain s where p: "provision unwritable_answers ''s'' ?r ?w = (Inr s, unwritten_cluster)" "ws_SandboxID s = ''b2''"
    using example_unwritten(1) by (cases "provision unwritable_answers ''s'' ?r ?w"; cases "fst (provision unwritable_answers ''s'' ?r ?w)")
      (auto simp: unwritten_cluster_def)
  have t: "reconciler_tick listing_answers unwritten_cluster = (None, snd (reconciler_tick listing_answers unwritten_cluster))"
    using example_unwritten(2) by (simp add: prod_eq_iff)
  have f: "status_unwritable unwritable_answers"
    by (auto simp: status_unwritable_def unwritable_answers_def split: event.split)
  have w: "workspaces_ok (cl_db ?w)" "workspace_row ''k1'' (cl_db ?w) = Some ?r" "object_of ''k1'' ?w = None"
    using example_workspaces_ok by (simp_all add: example_cluster_def example_workspace_at object_of_def sql_row_def)
  have k: "we_kept unwritable_answers = (\<lambda>_. no_status)" "\<forall>l bs. we_listed listing_answers l = Inr bs \<longrightarrow> ws_SandboxID s \<in> set bs"
    by (simp_all add: unwritable_answers_def listing_answers_def example_answers_def p(2))
  have n: "\<not> blank ''k1''" by code_simp
  have "list_all (\<lambda>ob. gw_Name ob \<noteq> ''k1'' \<longrightarrow> gs_SandboxID (gw_Status ob) \<noteq> ws_SandboxID s)
      (cl_objects (snd (reconciler_tick listing_answers unwritten_cluster)))"
    using example_unwritten(3) by auto
  from unwritten_status_loses_sandbox [OF example_plain(1) w(1,2) n w(3) k(1) f p(1) t k(2) this]
  show ?thesis by (auto simp: p(2))
qed

end
