(* ===== verification/Spec2Isabelle.thy ===== *)
theory Spec2Isabelle
  imports EnvironmentCleanup RunnerProperties ScenarioFacts GenerationClaims
    MaterializationFacts ScenarioCatalog CoordinatorFacts WorkspaceExamples
begin

text \<open>
  A model of the server-side core of breakfix, translated from the Go sources under \<open>src/\<close>, with the
  properties that make it correct.

  The program. An author agrees on a plan for a broken system with a language model; a generator writes
  the scenario in a sandbox and submits its archive as a candidate; a judge (a language model under a
  lease) approves it or sends it back; workers build it into an artifact and run its verification plan;
  the author confirms it; a finalizer publishes it as an immutable revision of a scenario; learners get
  runtime environments of published revisions. PostgreSQL is the authority on all of it but the
  environments, which are Kubernetes objects that a controller reconciles.

  The parts, the theories that model them, and the sources:

  1. Ground. \<open>Prelude\<close> (error results, \<open>check\<close>/\<open>and_then\<close>/\<open>first_error\<close> chains and their
  characterisation lemmas, generic list and map lemmas), \<open>GoStrings\<close>, \<open>GoUtf8\<close>, \<open>GoNumbers\<close>, \<open>GoErrors\<close>,
  \<open>GoDigest\<close> (what the sources use of Go's \<open>strings\<close>, \<open>unicode/utf8\<close>, \<open>strconv\<close>, \<open>errors\<close>,
  \<open>crypto/sha256\<close>), \<open>Sql\<close> (a table is the list of its rows; UPDATE, INSERT ON CONFLICT, transactions).

  2. Runnable contract (\<open>internal/domain/runnable\<close>). \<open>RunnableModel\<close>, \<open>RunnableValidate\<close>,
  \<open>RunnableReport\<close>, \<open>RunnableAction\<close>: what a worker is asked to build and to run, every validator, the
  machine verdict over phase results, the identities, keys and credentials of actions. Each validator has
  one lemma that states what it accepts; the properties are that the verdict follows from the recorded
  results, that a passed report is complete, that a valid spec confines execution.

  3. Queues of the repository (\<open>adapter/postgres/runnable_repository.go\<close>). \<open>ReapQueue\<close> states the
  interface of the cleanup queue as the locale \<open>reap_queue\<close>, interpreted on the in-memory queue (\<open>mem\<close>)
  and, in \<open>ReapRepository\<close>, on the table (\<open>pg\<close>). \<open>RunnableStore\<close> and \<open>ActionQueue\<close> have the sources,
  specs, revisions, outputs, reports and the action queue; \<open>ActionInvariant\<close> has the invariant of every
  reachable store, \<open>ActionProperties\<close> what leases, completion and rescheduling guarantee.

  4. Runtime worker (\<open>worker/runnable\<close>). \<open>Verifier\<close> (materializer, executor, worker), \<open>VerifierFacts\<close>,
  \<open>VerifierRuns\<close>, \<open>VerifierProperties\<close>, \<open>Runner\<close>, \<open>RunnerRounds\<close>, \<open>RunnerProperties\<close>. The locale
  \<open>bound_executor\<close> is what the runner needs of its executor; \<open>wk\<close> interprets it on the worker.

  5. Runtime environments (\<open>api/v2\<close>, \<open>controller/runtimeenvironment\<close>). \<open>RuntimeEnvironment\<close> (the
  object, \<open>Decide\<close>, the allowed phases), \<open>Reconciler\<close> (one round), \<open>Reaper\<close> (one round of cleanup over any
  \<open>reap_queue\<close>), and the composition of rounds in \<open>EnvironmentLifecycle\<close> and \<open>EnvironmentCleanup\<close>.

  6. Generation (\<open>domain/generation\<close>, \<open>adapter/postgres/generation_repository.go\<close>). \<open>GenerationModel\<close>,
  \<open>GenerationStore\<close>, \<open>GenerationOps\<close>, \<open>GenerationPublish\<close>: each method as a transaction on the tables.
  \<open>GenerationFacts\<close> has one lemma per method about the workflow it moves; \<open>GenerationLifecycle\<close> the abstract
  state machine, the step relation of all methods in any interleaving with the workers' repository and
  with writers of other tables, and the invariant; \<open>GenerationInvariant\<close> and \<open>GenerationRefinement\<close> the
  simulation; \<open>GenerationProperties\<close> and \<open>GenerationClaims\<close> the properties.

  7. The server's passes (\<open>application/generation\<close>). \<open>JudgeRunner\<close>, \<open>RunnableCoordinator\<close>,
  \<open>PublicationFinalizer\<close>. \<open>JudgeConcurrency\<close> says what other processes may do meanwhile: any number of
  calls of every method of the repository, runs of other agents, the worker's repository and writers of
  the other tables. \<open>JudgeServer\<close> has the locales \<open>tracked_runner\<close> and \<open>counted_attempts\<close> (what the
  judge's loop needs of a store to return) and interprets them on the repository with such a list of
  calls between any two of the judge's own. \<open>FinalizerFacts\<close> and \<open>CoordinatorFacts\<close> state what a pass achieves and
  that every sequence of passes refines the lifecycle of 6. A pass of the coordinator or the finalizer
  is one step here: nothing else writes while it runs.

  8. Scenarios (\<open>content/scenario\<close>, \<open>application/operations\<close>). \<open>ScenarioContent\<close>, \<open>ScenarioFacts\<close> (ids,
  slugs, paths), \<open>ScenarioEntry\<close> (the manifest and the validation of a directory), \<open>OperationsCompile\<close> and
  \<open>CompileFacts\<close> (a validated scenario becomes a runnable spec, whose entrypoints are files of it).

  9. Publication and catalog. \<open>Publication\<close> (typed failures, bounded diagnostics), \<open>ScenarioRepository\<close>
  and \<open>ScenarioCatalog\<close> (what the Catalog lists after publications and deprecations), \<open>CatalogModel\<close>,
  \<open>CatalogRepository\<close> (the baseline release), \<open>Materialization\<close> and \<open>MaterializationFacts\<close> (which
  directories the reconciler keeps and removes).

  10. Generator workspaces (\<open>application/generation/workspace*.go\<close>, \<open>domain/generation/workspace.go\<close>,
  \<open>adapter/kubernetes/generatorworkspace.go\<close>, the workspace methods of the generation repository). A
  workspace is a row, an owner object in Kubernetes with a finalizer, a volume claim and a sandbox.
  \<open>WorkspaceStore\<close> has the methods on the rows and the snapshot digest of a workflow, \<open>WorkspaceFacts\<close> the
  table's rules, that every method keeps them and moves a row only forward, and the exclusion of turns.
  \<open>WorkspaceOwners\<close> has the owner object and its adapter over a model of the API (names are unique, an
  object with finalizers is only marked by a deletion, a status is validated when patched, any call may
  fail by the fault oracle \<open>we_fault\<close>); \<open>we_kept\<close> is what the API keeps of the status of a created object.
  \<open>WorkspaceManager\<close> has provisioning, retiring, the reaper's and the reconciler's passes and the sanitizer;
  \<open>WorkspaceManagerFacts\<close> shows that provisioning returns (its loop is a \<open>partial_function\<close>) and what;
  \<open>WorkspacePasses\<close> what a call on one name leaves as it is elsewhere, and the owner that is never cleaned
  up; \<open>WorkspaceDrops\<close> that an owner with its facts outlives its sandbox, that one pass drops what is
  retired, and the sandbox that is lost; \<open>WorkspaceExamples\<close> the concrete cluster of the witnesses. What the
  sandbox provider, the API and the clock answer is a function of the log of all calls so far.

  How code becomes definitions. A struct is a record whose fields carry a short prefix; a Go function
  that returns an error is a function into \<open>go_error option\<close> or \<open>go_error + 'a\<close>, its checks in the order of
  the code; a method of a repository is a function on the tables, a transaction that fails leaves them as
  they were; \<open>int64\<close> arithmetic that can wrap is written out (\<open>RetryBackoff\<close>), other integers are \<open>int\<close>;
  a time is its distance from the zero time, and \<open>pf_ts\<close>/\<open>db_ts\<close> is what the database keeps of it. Error
  messages that quote a value are kept without it where no caller reads it.

  Parameters. JSON encoding (\<open>codec\<close>), the tables of Unicode (\<open>unicode\<close>), the database's rounding of
  times and random ids (\<open>platform\<close>), providers, artifact builders, the Kubernetes API's answers, file
  system answers, the judge and the clock are arguments of the definitions. Properties that need
  documented behaviour of them name it as a hypothesis (\<open>sane_clock\<close>: the database keeps a positive
  time positive; \<open>we_kept\<close> constantly \<open>no_status\<close>: a resource with the status subresource), and each has a
  witness with concrete functions. Loops of the code over lists are structural recursions; the
  loops that the code does not bound (the judge's attempts, ensuring a workspace) are \<open>partial_function (option)\<close>, and that they
  return is a property of its own.

  Not modelled: HTTP transport and generated API code, the clients of Incus, Kubernetes, vcluster, OCI
  registries, OpenSandbox and language models (input and output, no rules of their own that the parts
  above do not check), process start-up and configuration, ticker loops, logging and metrics, archive
  formats, the snapshots of generator workspaces beyond their digest in the workflow's row, and the
  repositories and services of assistants, learning progress and documentation.
\<close>

end
